(* ===== verification/Text.thy ===== *)
theory Text
  imports Prelude
begin

text \<open>
  The parts of the JavaScript standard library that turn values into text and bytes:
  decimal printing of integers (template literals and \<open>String(n)\<close>), reading of decimal
  digits, \<open>padStart\<close>, \<open>includes\<close>, \<open>toString(16)\<close> of a byte and the UTF-8 \<open>TextEncoder\<close>. Strings
  hold the code points below 256, which is all the identifiers, keys and base64 texts the
  modelled code builds from.
\<close>

definition digit_char :: "nat \<Rightarrow> char" where
  "digit_char d = char_of (48 + d)"

definition digit_val :: "char \<Rightarrow> nat" where
  "digit_val c = of_char c - 48"

definition is_digit :: "char \<Rightarrow> bool" where
  "is_digit c \<longleftrightarrow> 48 \<le> (of_char c :: nat) \<and> (of_char c :: nat) \<le> 57"

fun show_nat :: "nat \<Rightarrow> string" where
  "show_nat n = (if n < 10 then [digit_char n] else show_nat (n div 10) @ [digit_char (n mod 10)])"

declare show_nat.simps [simp del]

definition show_int :: "int \<Rightarrow> string" where
  "show_int i = (if i < 0 then CHR ''-'' # show_nat (nat (- i)) else show_nat (nat i))"

definition read_nat :: "string \<Rightarrow> nat" where
  "read_nat s = foldl (\<lambda>n c. 10 * n + digit_val c) 0 s"

text \<open>\<open>s.padStart(n, c)\<close>.\<close>

definition padStart :: "nat \<Rightarrow> char \<Rightarrow> string \<Rightarrow> string" where
  "padStart n c s = replicate (n - length s) c @ s"

text \<open>\<open>new TextEncoder().encode(s)\<close>: UTF-8, where a code point below 128 is one byte.\<close>

definition utf8_char :: "char \<Rightarrow> bytes" where
  "utf8_char c =
     (let n = of_char c :: nat
      in if n < 128 then [word_of_nat n]
         else [word_of_nat (192 + n div 64), word_of_nat (128 + n mod 64)])"

definition text_encode :: "string \<Rightarrow> bytes" where
  "text_encode s = concat (map utf8_char s)"

text \<open>\<open>new TextDecoder().decode(bytes)\<close> on the encodings of those strings.\<close>

fun text_decode :: "bytes \<Rightarrow> string" where
  "text_decode [] = []"
| "text_decode [b] = [char_of (unat b)]"
| "text_decode (b # b' # bs) =
     (if unat b < 128 then char_of (unat b) # text_decode (b' # bs)
      else char_of ((unat b - 192) * 64 + (unat b' - 128)) # text_decode bs)"

text \<open>\<open>String.prototype.trim\<close>: white space among the first 256 code points.\<close>

definition js_space :: "char \<Rightarrow> bool" where
  "js_space c \<longleftrightarrow> (let n = of_char c :: nat in (9 \<le> n \<and> n \<le> 13) \<or> n = 32 \<or> n = 160)"

definition trim :: "string \<Rightarrow> string" where
  "trim s = rev (dropWhile js_space (rev (dropWhile js_space s)))"

text \<open>\<open>s.includes(t)\<close>.\<close>

definition includes_text :: "string \<Rightarrow> string \<Rightarrow> bool" where
  "includes_text s t \<longleftrightarrow> (\<exists>i \<in> set [0..<length s + 1]. take (length t) (drop i s) = t)"

subsection \<open>Decimal text\<close>

lemma digit_val_char [simp]: "d < 10 \<Longrightarrow> digit_val (digit_char d) = d"
  by (simp add: digit_val_def digit_char_def)

lemma is_digit_char [simp]: "d < 10 \<Longrightarrow> is_digit (digit_char d)"
  by (simp add: is_digit_def digit_char_def)

lemma show_nat_not_Nil [simp]: "show_nat n \<noteq> []"
  by (subst show_nat.simps) simp

lemma show_nat_digits: "\<forall>c \<in> set (show_nat n). is_digit c"
proof (induction n rule: show_nat.induct)
  case (1 n)
  show ?case
  proof (cases "n < 10")
    case True
    then show ?thesis by (subst show_nat.simps) simp
  next
    case False
    with 1 show ?thesis by (subst show_nat.simps) auto
  qed
qed

lemma read_nat_snoc: "read_nat (s @ [c]) = 10 * read_nat s + digit_val c"
  by (simp add: read_nat_def)

lemma read_show_nat [simp]: "read_nat (show_nat n) = n"
proof (induction n rule: show_nat.induct)
  case (1 n)
  show ?case
  proof (cases "n < 10")
    case True
    then show ?thesis by (subst show_nat.simps) (simp add: read_nat_def)
  next
    case False
    with 1 have "read_nat (show_nat (n div 10)) = n div 10" by simp
    with False show ?thesis
      by (subst show_nat.simps) (simp add: read_nat_snoc)
  qed
qed

lemma show_nat_inject [simp]: "show_nat m = show_nat n \<longleftrightarrow> m = n"
  by (metis read_show_nat)

lemma minus_not_digit [simp]: "\<not> is_digit CHR ''-''"
  by (simp add: is_digit_def)

lemma colon_not_digit [simp]: "\<not> is_digit CHR '':''"
  by (simp add: is_digit_def)

lemma minus_notin_show_nat [simp]: "CHR ''-'' \<notin> set (show_nat n)"
  using show_nat_digits minus_not_digit by blast

lemma show_int_inject [simp]: "show_int i = show_int j \<longleftrightarrow> i = j"
proof -
  have "CHR ''-'' # show_nat m \<noteq> show_nat n" for m n
    by (metis list.set_intros(1) minus_notin_show_nat)
  then show ?thesis by (auto simp: show_int_def) (metis neg_equal_iff_equal nat_eq_iff)+
qed

lemma show_int_chars: "c \<in> set (show_int i) \<Longrightarrow> is_digit c \<or> c = CHR ''-''"
  using show_nat_digits by (auto simp: show_int_def split: if_splits)

lemma colon_notin_show_int [simp]: "CHR '':'' \<notin> set (show_int i)"
  using show_int_chars colon_not_digit by fastforce

subsection \<open>UTF-8\<close>

lemma text_encode_Nil [simp]: "text_encode [] = []"
  by (simp add: text_encode_def)

lemma text_encode_Cons: "text_encode (c # s) = utf8_char c @ text_encode s"
  by (simp add: text_encode_def)

lemma text_decode_ascii_Cons:
  "unat b < 128 \<Longrightarrow> text_decode (b # bs) = char_of (unat b) # text_decode bs"
  by (cases bs) auto

lemma text_decode_encode [simp]: "text_decode (text_encode s) = s"
proof (induction s)
  case Nil
  then show ?case by simp
next
  case (Cons c s)
  have n: "(of_char c :: nat) < 256" by (rule nat_of_char_less_256)
  show ?case
  proof (cases "(of_char c :: nat) < 128")
    case True
    then have "unat (word_of_nat (of_char c) :: 8 word) = of_char c"
      by (simp add: unat_byte)
    with True Cons show ?thesis
      by (simp add: text_encode_Cons utf8_char_def Let_def text_decode_ascii_Cons)
  next
    case False
    have "(of_char c :: nat) div 64 < 4"
      using n by (intro less_mult_imp_div_less) simp
    then have hi: "unat (word_of_nat (192 + of_char c div 64) :: 8 word) = 192 + of_char c div 64"
      by (intro unat_byte) linarith
    have lo: "unat (word_of_nat (128 + of_char c mod 64) :: 8 word) = 128 + of_char c mod 64"
    proof (intro unat_byte)
      have "(of_char c :: nat) mod 64 < 64" by simp
      then show "128 + (of_char c :: nat) mod 64 < 256" by simp
    qed
    show ?thesis
      using False Cons by (simp add: text_encode_Cons utf8_char_def Let_def hi lo del: of_nat_add)
  qed
qed

lemma text_encode_inject [simp]: "text_encode s = text_encode t \<longleftrightarrow> s = t"
  by (metis text_decode_encode)

end
