(* ===== verification/Base64.thy ===== *)
theory Base64
  imports Text
begin

text \<open>
  packages/sync-engine/src/base64url.ts: the unpadded URL-safe base64 the sync records carry.
  The code works in two environments, one with Node's \<open>Buffer\<close> and one with the browser's
  \<open>btoa\<close> and \<open>atob\<close>; \<open>js_env\<close> says which of them exist. \<open>Buffer.from(s, 'base64')\<close>
  ignores characters outside both alphabets and stops at padding; \<open>atob\<close> rejects them, and
  a length that is 1 modulo 4.
\<close>

record js_env =
  has_Buffer :: bool
  has_btoa :: bool
  has_atob :: bool

definition node_env :: js_env where
  "node_env = \<lparr>has_Buffer = True, has_btoa = True, has_atob = True\<rparr>"

definition browser_env :: js_env where
  "browser_env = \<lparr>has_Buffer = False, has_btoa = True, has_atob = True\<rparr>"

subsection \<open>Sextets\<close>

fun sextets :: "bytes \<Rightarrow> nat list" where
  "sextets [] = []"
| "sextets [a] = [unat a div 4, (unat a mod 4) * 16]"
| "sextets [a, b] = [unat a div 4, (unat a mod 4) * 16 + unat b div 16, (unat b mod 16) * 4]"
| "sextets (a # b # c # r) =
     unat a div 4 # ((unat a mod 4) * 16 + unat b div 16) # ((unat b mod 16) * 4 + unat c div 64)
       # (unat c mod 64) # sextets r"

fun unsextets :: "nat list \<Rightarrow> bytes" where
  "unsextets (p # q # r # s # rest) =
     word_of_nat (p * 4 + q div 16) # word_of_nat ((q mod 16) * 16 + r div 4)
       # word_of_nat ((r mod 4) * 64 + s) # unsextets rest"
| "unsextets [p, q, r] = [word_of_nat (p * 4 + q div 16), word_of_nat ((q mod 16) * 16 + r div 4)]"
| "unsextets [p, q] = [word_of_nat (p * 4 + q div 16)]"
| "unsextets _ = []"

definition b64_char :: "nat \<Rightarrow> char" where
  "b64_char n =
     (if n < 26 then char_of (65 + n) else if n < 52 then char_of (71 + n)
      else if n < 62 then char_of (n - 4) else if n = 62 then CHR ''+'' else CHR ''/'')"

definition b64_val :: "char \<Rightarrow> nat option" where
  "b64_val c =
     (let n = of_char c :: nat in
      if 65 \<le> n \<and> n \<le> 90 then Some (n - 65) else if 97 \<le> n \<and> n \<le> 122 then Some (n - 71)
      else if 48 \<le> n \<and> n \<le> 57 then Some (n + 4) else if c = CHR ''+'' then Some 62
      else if c = CHR ''/'' then Some 63 else None)"

text \<open>\<open>Buffer\<close> also reads the URL-safe alphabet.\<close>

definition b64_val_lenient :: "char \<Rightarrow> nat option" where
  "b64_val_lenient c =
     (if c = CHR ''-'' then Some 62 else if c = CHR ''_'' then Some 63 else b64_val c)"

definition base64 :: "bytes \<Rightarrow> string" where
  "base64 bs = map b64_char (sextets bs) @ replicate ((3 - length bs mod 3) mod 3) (CHR ''='')"

definition buffer_from_base64 :: "string \<Rightarrow> bytes" where
  "buffer_from_base64 s =
     unsextets (List.map_filter b64_val_lenient (takeWhile (\<lambda>c. c \<noteq> CHR ''='') s))"

definition atob_strip :: "string \<Rightarrow> string" where
  "atob_strip s =
     (if length s mod 4 \<noteq> 0 then s
      else case rev s of
        x # y # r \<Rightarrow> if x = CHR ''='' then (if y = CHR ''='' then rev r else rev (y # r)) else s
      | _ \<Rightarrow> s)"

definition atob :: "string \<Rightarrow> bytes result" where
  "atob s =
     (let t = atob_strip (filter (\<lambda>c. c \<notin> set [CHR '' '', CHR 0x09, CHR 0x0A, CHR 0x0C, CHR 0x0D]) s)
      in if length t mod 4 = 1 \<or> (\<exists>c \<in> set t. b64_val c = None)
         then Inl (Error ''InvalidCharacterError'')
         else Inr (unsextets (List.map_filter b64_val t)))"

subsection \<open>The functions of base64url.ts\<close>

definition toBase64 :: "js_env \<Rightarrow> bytes \<Rightarrow> string result" where
  "toBase64 env bs =
     (if has_Buffer env then Inr (base64 bs)
      else if has_btoa env then Inr (base64 bs)
      else Inl (Error ''Base64 encoding is not supported in this environment''))"

definition fromBase64 :: "js_env \<Rightarrow> string \<Rightarrow> bytes result" where
  "fromBase64 env s =
     (if has_Buffer env then Inr (buffer_from_base64 s)
      else if has_atob env then atob s
      else Inl (Error ''Base64 decoding is not supported in this environment''))"

definition replace_char :: "char \<Rightarrow> char \<Rightarrow> string \<Rightarrow> string" where
  "replace_char a b s = map (\<lambda>c. if c = a then b else c) s"

definition encodeBase64Url :: "js_env \<Rightarrow> bytes \<Rightarrow> string result" where
  "encodeBase64Url env bs =
     bind_result (toBase64 env bs) (\<lambda>b64.
       Inr (rev (dropWhile (\<lambda>c. c = CHR ''='')
         (rev (replace_char (CHR ''/'') (CHR ''_'') (replace_char (CHR ''+'') (CHR ''-'') b64))))))"

definition decodeBase64Url :: "js_env \<Rightarrow> string \<Rightarrow> bytes result" where
  "decodeBase64Url env s =
     (let normalized = replace_char (CHR ''_'') (CHR ''/'') (replace_char (CHR ''-'') (CHR ''+'') s);
          paddingLength = (4 - length normalized mod 4) mod 4
      in fromBase64 env (normalized @ replicate paddingLength (CHR ''='')))"

definition env_ok :: "js_env \<Rightarrow> bool" where
  "env_ok env \<longleftrightarrow> has_Buffer env \<or> (has_btoa env \<and> has_atob env)"

subsection \<open>Round trip of the sextets\<close>

lemma byte_div:
  "unat (a :: 8 word) div 4 < 64" "unat a div 16 < 16" "unat a div 64 < 4"
  by (rule less_mult_imp_div_less, simp)+

lemma sextet_bounds:
  "m mod 4 * 16 + unat (b :: 8 word) div 16 < 64" "m mod 16 * 4 + unat b div 64 < 64"
  "m mod 4 * 16 < (64 :: nat)" "m mod 16 * 4 < (64 :: nat)"
proof -
  have "m mod 4 < 4" "m mod 16 < 16" by simp_all
  then show "m mod 4 * 16 + unat b div 16 < 64" "m mod 16 * 4 + unat b div 64 < 64"
    "m mod 4 * 16 < 64" "m mod 16 * 4 < 64"
    using byte_div [of b] by linarith+
qed

lemma sextets_less: "n \<in> set (sextets bs) \<Longrightarrow> n < 64"
  by (induction bs rule: sextets.induct) (auto simp: byte_div sextet_bounds)

lemma length_sextets: "length (sextets bs) mod 4 = (if length bs mod 3 = 0 then 0 else length bs mod 3 + 1)"
  by (induction bs rule: sextets.induct) (auto simp: mod_Suc)

lemma length_sextets_pad: "(4 - length (sextets bs) mod 4) mod 4 = (3 - length bs mod 3) mod 3"
proof -
  have "length bs mod 3 = 0 \<or> length bs mod 3 = 1 \<or> length bs mod 3 = 2" by presburger
  then show ?thesis by (auto simp: length_sextets)
qed

lemma split_byte:
  "(m :: nat) div 4 * 4 + (m mod 4 * 16 + k div 16) div 16 = m" if "k < 256" for m k
  using that by (simp add: div_mult_mod_eq)

lemma unsextets_sextets: "unsextets (sextets bs) = bs"
proof (induction bs rule: sextets.induct)
  case (2 a)
  then show ?case using split_byte [of 0 "unat a"] by simp
next
  case (3 a b)
  have "(unat a mod 4 * 16 + unat b div 16) mod 16 * 16 + unat b mod 16 * 4 div 4 = unat b"
    using unat_byte_less [of b] by (simp add: div_mult_mod_eq mod_mult_self3 less_mult_imp_div_less)
  then show ?case using split_byte [of "unat b" "unat a"] by simp
next
  case (4 a b c r)
  have "(unat a mod 4 * 16 + unat b div 16) mod 16 * 16 + (unat b mod 16 * 4 + unat c div 64) div 4 = unat b"
    using unat_byte_less [of b] unat_byte_less [of c]
    by (simp add: div_mult_mod_eq less_mult_imp_div_less)
  moreover have "(unat b mod 16 * 4 + unat c div 64) mod 4 * 64 + unat c mod 64 = unat c"
    using unat_byte_less [of c] by (simp add: div_mult_mod_eq less_mult_imp_div_less)
  ultimately show ?case using split_byte [of "unat b" "unat a"] 4 by simp
qed simp

subsection \<open>Round trip of the text\<close>

lemma b64_val_char [simp]: "n < 64 \<Longrightarrow> b64_val (b64_char n) = Some n"
  by (auto simp: b64_val_def b64_char_def Let_def)

lemma b64_char_image: "b64_char n \<in> set [CHR ''+'', CHR ''/''] \<or> (of_char (b64_char n) :: nat) \<in> {48..57} \<union> {65..90} \<union> {97..122}"
  if "n < 64"
  using that by (auto simp: b64_char_def)

lemma b64_char_not:
  assumes "n < 64"
  shows "b64_char n \<noteq> CHR ''=''" "b64_char n \<noteq> CHR ''-''" "b64_char n \<noteq> CHR ''_''"
    "b64_char n \<noteq> CHR '' ''" "b64_char n \<noteq> CHR 0x09" "b64_char n \<noteq> CHR 0x0A"
    "b64_char n \<noteq> CHR 0x0C" "b64_char n \<noteq> CHR 0x0D"
  using b64_char_image [OF assms] by auto

lemma map_filter_b64:
  "\<forall>n \<in> set ns. n < 64 \<Longrightarrow> List.map_filter b64_val (map b64_char ns) = ns"
  "\<forall>n \<in> set ns. n < 64 \<Longrightarrow> List.map_filter b64_val_lenient (map b64_char ns) = ns"
  by (induction ns) (auto simp: b64_val_lenient_def b64_char_not List.map_filter_simps)

lemma buffer_from_base64_base64: "buffer_from_base64 (base64 bs) = bs"
proof -
  have "takeWhile (\<lambda>c. c \<noteq> CHR ''='') (map b64_char (sextets bs) @ replicate k (CHR ''=''))
      = map b64_char (sextets bs)" for k
    by (subst takeWhile_append2) (auto dest!: sextets_less simp: b64_char_not takeWhile_replicate)
  then show ?thesis
    using sextets_less by (simp add: buffer_from_base64_def base64_def map_filter_b64 unsextets_sextets)
qed

lemma atob_strip_padded:
  assumes "length (xs @ replicate k (CHR ''='')) mod 4 = 0" and "k < 3"
    and "CHR ''='' \<notin> set xs" and "k = 2 \<or> xs \<noteq> [] \<or> k = 0"
  shows "atob_strip (xs @ replicate k (CHR ''='')) = xs"
proof -
  consider "k = 0" | "k = 1" | "k = 2" using assms(2) by linarith
  then show ?thesis
  proof cases
    case 1
    then show ?thesis using assms by (cases "rev xs") (auto simp: atob_strip_def split: list.splits)
  next
    case 2
    then obtain ys y where "xs = ys @ [y]" using assms(4) by (cases xs rule: rev_cases) auto
    then show ?thesis using assms 2 by (auto simp: atob_strip_def)
  next
    case 3
    then show ?thesis using assms(1) by (simp add: atob_strip_def numeral_2_eq_2)
  qed
qed

lemma pad_mod_4: "((n :: nat) + (4 - n mod 4) mod 4) mod 4 = 0"
proof -
  have "n mod 4 = 0 \<or> n mod 4 = 1 \<or> n mod 4 = 2 \<or> n mod 4 = 3" by presburger
  then have "(n mod 4 + (4 - n mod 4) mod 4) mod 4 = 0" by auto
  then show ?thesis by (metis mod_add_left_eq)
qed

lemma atob_base64: "atob (base64 bs) = Inr bs"
proof -
  let ?xs = "map b64_char (sextets bs)" and ?k = "(3 - length bs mod 3) mod 3"
  have mem: "\<forall>c \<in> set ?xs. \<exists>n < 64. c = b64_char n" using sextets_less by auto
  have len: "length (?xs @ replicate ?k (CHR ''='')) mod 4 = 0"
    unfolding length_append length_map length_replicate length_sextets_pad [symmetric] by (rule pad_mod_4)
  have k1: "?k = 1 \<Longrightarrow> ?xs \<noteq> []" by (cases bs rule: sextets.cases) auto
  have "length (sextets bs) mod 4 \<noteq> 1" by (simp add: length_sextets)
  moreover have "atob_strip (?xs @ replicate ?k (CHR ''='')) = ?xs"
  proof (rule atob_strip_padded [OF len])
    show "?k < 3" by simp
    show "CHR ''='' \<notin> set ?xs" using mem b64_char_not(1) by metis
    show "?k = 2 \<or> ?xs \<noteq> [] \<or> ?k = 0" using k1 \<open>?k < 3\<close> by linarith
  qed
  moreover have "filter (\<lambda>c. c \<notin> set [CHR '' '', CHR 0x09, CHR 0x0A, CHR 0x0C, CHR 0x0D])
      (?xs @ replicate ?k (CHR ''='')) = ?xs @ replicate ?k (CHR ''='')"
    using mem by (intro filter_True) (auto simp: b64_char_not)
  moreover have "\<forall>c \<in> set ?xs. b64_val c \<noteq> None" using mem by auto
  ultimately show ?thesis
    using sextets_less by (simp add: atob_def base64_def Let_def map_filter_b64 unsextets_sextets)
qed

lemma fromBase64_base64: "env_ok env \<Longrightarrow> fromBase64 env (base64 bs) = Inr bs"
  by (auto simp: fromBase64_def env_ok_def buffer_from_base64_base64 atob_base64)

text \<open>What \<open>encodeBase64Url\<close> produces, and that decoding restores the padded text.\<close>

definition url_char :: "char \<Rightarrow> char" where
  "url_char c = (if c = CHR ''+'' then CHR ''-'' else if c = CHR ''/'' then CHR ''_'' else c)"

lemma rev_dropWhile_padding:
  "CHR ''='' \<notin> set xs \<Longrightarrow> rev (dropWhile (\<lambda>c. c = CHR ''='') (rev (xs @ replicate k (CHR ''='')))) = xs"
  by (cases "rev xs") (auto simp: dropWhile_append3 dropWhile_replicate)

lemma encodeBase64Url_eq:
  assumes "env_ok env"
  shows "encodeBase64Url env bs = Inr (map (url_char \<circ> b64_char) (sextets bs))"
proof -
  have rep: "replace_char (CHR ''/'') (CHR ''_'') (replace_char (CHR ''+'') (CHR ''-'') (base64 bs))
      = map (url_char \<circ> b64_char) (sextets bs) @ replicate ((3 - length bs mod 3) mod 3) (CHR ''='')"
    by (auto simp: replace_char_def base64_def url_char_def)
  have "CHR ''='' \<notin> set (map (url_char \<circ> b64_char) (sextets bs))"
    using b64_char_not(1) by (auto simp: url_char_def dest!: sextets_less split: if_splits) metis
  note strip = rev_dropWhile_padding [OF this, of "(3 - length bs mod 3) mod 3", folded rep]
  have "toBase64 env bs = Inr (base64 bs)" using assms by (auto simp: toBase64_def env_ok_def)
  then show ?thesis by (simp only: encodeBase64Url_def bind_result_Inr strip)
qed

lemma decode_encodeBase64Url:
  assumes "env_ok env" and "env_ok env'"
  shows "bind_result (encodeBase64Url env bs) (decodeBase64Url env') = Inr bs"
proof -
  have "replace_char (CHR ''_'') (CHR ''/'') (replace_char (CHR ''-'') (CHR ''+'')
      (map (url_char \<circ> b64_char) (sextets bs))) = map b64_char (sextets bs)"
    by (auto simp: replace_char_def url_char_def b64_char_not dest!: sextets_less)
  then show ?thesis
    using assms(2) length_sextets_pad [of bs] fromBase64_base64 [of env' bs]
    by (simp add: encodeBase64Url_eq [OF assms(1)] decodeBase64Url_def Let_def base64_def)
qed

text \<open>The encoded text as a function of the bytes, and how both decoders read it.\<close>

definition url_text :: "bytes \<Rightarrow> string" where
  "url_text bs = map (url_char \<circ> b64_char) (sextets bs)"

lemma encode_url_text: "env_ok env \<Longrightarrow> encodeBase64Url env bs = Inr (url_text bs)"
  by (simp add: url_text_def encodeBase64Url_eq)

lemma decode_url_text: "env_ok env \<Longrightarrow> decodeBase64Url env (url_text bs) = Inr bs"
  using decode_encodeBase64Url [of env env bs] by (simp add: encode_url_text)

lemma url_text_Nil [simp]: "url_text bs = [] \<longleftrightarrow> bs = []"
  by (cases bs rule: sextets.cases) (simp_all add: url_text_def)

lemma b64_val_url_char: "n < 64 \<Longrightarrow> b64_val_lenient (url_char (b64_char n)) = Some n"
proof -
  assume n: "n < 64"
  consider "n < 62" | "n = 62" | "n = 63" using n by linarith
  then show ?thesis
  proof cases
    case 1
    then have "b64_char n \<noteq> CHR ''+'' \<and> b64_char n \<noteq> CHR ''/''"
      using b64_val_char [of n] by (auto simp: b64_val_def Let_def simp del: b64_val_char)
    then show ?thesis using n by (simp add: url_char_def b64_val_lenient_def b64_char_not)
  qed (simp_all add: b64_char_def url_char_def b64_val_lenient_def)
qed

lemma buffer_from_url_text: "buffer_from_base64 (url_text bs) = bs"
proof -
  have "\<forall>c \<in> set (url_text bs). c \<noteq> CHR ''=''"
    using b64_char_not(1) by (auto simp: url_text_def url_char_def dest!: sextets_less split: if_splits) metis
  then have "takeWhile (\<lambda>c. c \<noteq> CHR ''='') (url_text bs) = url_text bs" by (simp add: takeWhile_eq_all_conv)
  moreover have "List.map_filter b64_val_lenient (map (url_char \<circ> b64_char) ns) = ns"
    if "\<forall>n \<in> set ns. n < 64" for ns
    using that by (induction ns) (simp_all add: List.map_filter_simps b64_val_url_char)
  then have "List.map_filter b64_val_lenient (url_text bs) = sextets bs"
    using sextets_less by (simp add: url_text_def)
  ultimately show ?thesis by (simp only: buffer_from_base64_def unsextets_sextets)
qed

end
