(* ===== verification/Json.thy ===== *)
theory Json
  imports Text
begin

text \<open>
  \<open>JSON.stringify\<close> and \<open>JSON.parse\<close> of the JavaScript standard library, on the values the
  code stores and sends: null, booleans, integer numbers, strings, arrays and objects. An
  object is an association list in insertion order. Number literals with a fraction or an
  exponent are outside the model (the modelled code only writes integers).
  \<open>json_parse_stringify\<close> is the round trip the record codec and the event envelope rest on.
\<close>

datatype json =
    JNull
  | JBool bool
  | JNum int
  | JStr string
  | JArr "json list"
  | JObj "(string \<times> json) list"

definition hex_char :: "nat \<Rightarrow> char" where
  "hex_char d = (if d < 10 then char_of (48 + d) else char_of (87 + d))"

definition hex_val :: "char \<Rightarrow> nat option" where
  "hex_val c =
     (let n = of_char c :: nat
      in if 48 \<le> n \<and> n \<le> 57 then Some (n - 48)
         else if 97 \<le> n \<and> n \<le> 102 then Some (n - 87)
         else if 65 \<le> n \<and> n \<le> 70 then Some (n - 55)
         else None)"

definition escape_char :: "char \<Rightarrow> string" where
  "escape_char c =
     (if c = CHR 0x22 then [CHR 0x5C, CHR 0x22]
      else if c = CHR 0x5C then [CHR 0x5C, CHR 0x5C]
      else if c = CHR 0x08 then [CHR 0x5C, CHR ''b'']
      else if c = CHR 0x09 then [CHR 0x5C, CHR ''t'']
      else if c = CHR 0x0A then [CHR 0x5C, CHR ''n'']
      else if c = CHR 0x0C then [CHR 0x5C, CHR ''f'']
      else if c = CHR 0x0D then [CHR 0x5C, CHR ''r'']
      else if (of_char c :: nat) < 32
           then [CHR 0x5C, CHR ''u'', CHR ''0'', CHR ''0'',
                 hex_char (of_char c div 16), hex_char (of_char c mod 16)]
      else [c])"

definition quote_string :: "string \<Rightarrow> string" where
  "quote_string s = [CHR 0x22] @ concat (map escape_char s) @ [CHR 0x22]"

fun json_stringify :: "json \<Rightarrow> string"
  and stringify_items :: "json list \<Rightarrow> string"
  and stringify_members :: "(string \<times> json) list \<Rightarrow> string" where
  "json_stringify JNull = ''null''"
| "json_stringify (JBool b) = (if b then ''true'' else ''false'')"
| "json_stringify (JNum i) = show_int i"
| "json_stringify (JStr s) = quote_string s"
| "json_stringify (JArr xs) = ''['' @ stringify_items xs @ '']''"
| "json_stringify (JObj ms) = ''{'' @ stringify_members ms @ ''}''"
| "stringify_items [] = []"
| "stringify_items [x] = json_stringify x"
| "stringify_items (x # y # xs) = json_stringify x @ '','' @ stringify_items (y # xs)"
| "stringify_members [] = []"
| "stringify_members [(k, v)] = quote_string k @ '':'' @ json_stringify v"
| "stringify_members ((k, v) # m # ms) =
     quote_string k @ '':'' @ json_stringify v @ '','' @ stringify_members (m # ms)"

definition is_ws :: "char \<Rightarrow> bool" where
  "is_ws c \<longleftrightarrow> c = CHR '' '' \<or> c = CHR 0x09 \<or> c = CHR 0x0A \<or> c = CHR 0x0D"

definition skip_ws :: "string \<Rightarrow> string" where
  "skip_ws s = dropWhile is_ws s"

definition unescape_simple :: "char \<Rightarrow> char option" where
  "unescape_simple c =
     (if c = CHR 0x22 then Some (CHR 0x22)
      else if c = CHR 0x5C then Some (CHR 0x5C)
      else if c = CHR ''/'' then Some (CHR ''/'')
      else if c = CHR ''b'' then Some (CHR 0x08)
      else if c = CHR ''t'' then Some (CHR 0x09)
      else if c = CHR ''n'' then Some (CHR 0x0A)
      else if c = CHR ''f'' then Some (CHR 0x0C)
      else if c = CHR ''r'' then Some (CHR 0x0D)
      else None)"

definition unescape_hex :: "char \<Rightarrow> char \<Rightarrow> char \<Rightarrow> char \<Rightarrow> char option" where
  "unescape_hex a b c d =
     (case (hex_val a, hex_val b, hex_val c, hex_val d) of
        (Some 0, Some 0, Some h, Some l) \<Rightarrow> Some (char_of (16 * h + l))
      | _ \<Rightarrow> None)"

text \<open>The rest of a string literal after its opening quote.\<close>

fun parse_chars :: "string \<Rightarrow> (string \<times> string) option" where
  "parse_chars [] = None"
| "parse_chars (c # cs) =
     (if c = CHR 0x22 then Some ([], cs)
      else if c = CHR 0x5C then
        (case cs of
           [] \<Rightarrow> None
         | d # ds \<Rightarrow>
             (if d = CHR ''u'' then
                (case ds of
                   h1 # h2 # h3 # h4 # rest \<Rightarrow>
                     (case unescape_hex h1 h2 h3 h4 of
                        None \<Rightarrow> None
                      | Some e \<Rightarrow> map_option (\<lambda>(s, r). (e # s, r)) (parse_chars rest))
                 | _ \<Rightarrow> None)
              else
                (case unescape_simple d of
                   None \<Rightarrow> None
                 | Some e \<Rightarrow> map_option (\<lambda>(s, r). (e # s, r)) (parse_chars ds))))
      else if (of_char c :: nat) < 32 then None
      else map_option (\<lambda>(s, r). (c # s, r)) (parse_chars cs))"

definition parse_digits :: "string \<Rightarrow> (nat \<times> string) option" where
  "parse_digits s =
     (let ds = takeWhile is_digit s
      in if ds = [] \<or> (length ds > 1 \<and> hd ds = CHR ''0'') then None
         else Some (read_nat ds, dropWhile is_digit s))"

definition parse_number :: "string \<Rightarrow> (json \<times> string) option" where
  "parse_number s =
     (case s of
        [] \<Rightarrow> None
      | c # s' \<Rightarrow>
          (if c = CHR ''-'' then map_option (\<lambda>(n, r). (JNum (- int n), r)) (parse_digits s')
           else map_option (\<lambda>(n, r). (JNum (int n), r)) (parse_digits s)))"

text \<open>Setting a property: the last write wins and keeps the first position.\<close>

fun obj_put :: "string \<Rightarrow> 'v \<Rightarrow> (string \<times> 'v) list \<Rightarrow> (string \<times> 'v) list" where
  "obj_put k v [] = [(k, v)]"
| "obj_put k v ((k', v') # ms) = (if k = k' then (k, v) # ms else (k', v') # obj_put k v ms)"

definition strip_prefix :: "string \<Rightarrow> string \<Rightarrow> string option" where
  "strip_prefix p s = (if take (length p) s = p then Some (drop (length p) s) else None)"

text \<open>
  The parser. The fuel bounds the nesting of calls; \<open>json_parse\<close> gives it one unit per
  character and one more, and every call consumes a character or ends.
\<close>

fun parse_value :: "nat \<Rightarrow> string \<Rightarrow> (json \<times> string) option"
  and parse_items :: "nat \<Rightarrow> string \<Rightarrow> (json list \<times> string) option"
  and parse_members ::
    "nat \<Rightarrow> (string \<times> json) list \<Rightarrow> string \<Rightarrow> ((string \<times> json) list \<times> string) option" where
  "parse_value 0 s = None"
| "parse_value (Suc n) s =
     (case skip_ws s of
        [] \<Rightarrow> None
      | c # cs \<Rightarrow>
          (if c = CHR ''n'' then map_option (\<lambda>r. (JNull, r)) (strip_prefix ''null'' (c # cs))
           else if c = CHR ''t'' then map_option (\<lambda>r. (JBool True, r)) (strip_prefix ''true'' (c # cs))
           else if c = CHR ''f'' then map_option (\<lambda>r. (JBool False, r)) (strip_prefix ''false'' (c # cs))
           else if c = CHR 0x22 then map_option (\<lambda>(s, r). (JStr s, r)) (parse_chars cs)
           else if c = CHR ''['' then
             (case skip_ws cs of
                [] \<Rightarrow> None
              | d # r \<Rightarrow>
                  (if d = CHR '']'' then Some (JArr [], r)
                   else map_option (\<lambda>(xs, r'). (JArr xs, r')) (parse_items n (d # r))))
           else if c = CHR ''{'' then
             (case skip_ws cs of
                [] \<Rightarrow> None
              | d # r \<Rightarrow>
                  (if d = CHR ''}'' then Some (JObj [], r)
                   else map_option (\<lambda>(ms, r'). (JObj ms, r')) (parse_members n [] (d # r))))
           else parse_number (c # cs)))"
| "parse_items 0 s = None"
| "parse_items (Suc n) s =
     (case parse_value n s of
        None \<Rightarrow> None
      | Some (x, r) \<Rightarrow>
          (case skip_ws r of
             [] \<Rightarrow> None
           | d # r' \<Rightarrow>
               (if d = CHR '']'' then Some ([x], r')
                else if d = CHR '','' then map_option (\<lambda>(xs, r''). (x # xs, r'')) (parse_items n r')
                else None)))"
| "parse_members 0 acc s = None"
| "parse_members (Suc n) acc s =
     (case skip_ws s of
        [] \<Rightarrow> None
      | q # s1 \<Rightarrow>
          (if q \<noteq> CHR 0x22 then None
           else case parse_chars s1 of
             None \<Rightarrow> None
           | Some (k, s2) \<Rightarrow>
               (case skip_ws s2 of
                  [] \<Rightarrow> None
                | d # s3 \<Rightarrow>
                    (if d \<noteq> CHR '':'' then None
                     else case parse_value n s3 of
                       None \<Rightarrow> None
                     | Some (v, r) \<Rightarrow>
                         (case skip_ws r of
                            [] \<Rightarrow> None
                          | e # r' \<Rightarrow>
                              (if e = CHR ''}'' then Some (obj_put k v acc, r')
                               else if e = CHR '','' then parse_members n (obj_put k v acc) r'
                               else None))))))"

definition json_parse :: "string \<Rightarrow> json option" where
  "json_parse s =
     (case parse_value (Suc (length s)) s of
        Some (j, r) \<Rightarrow> (if skip_ws r = [] then Some j else None)
      | None \<Rightarrow> None)"

text \<open>Property access \<open>o.k\<close>: \<open>None\<close> is \<open>undefined\<close>.\<close>

definition json_get :: "string \<Rightarrow> json \<Rightarrow> json option" where
  "json_get k j = (case j of JObj ms \<Rightarrow> map_of ms k | _ \<Rightarrow> None)"

text \<open>The values \<open>JSON.stringify\<close> is applied to: objects have distinct property names.\<close>

fun wf_json :: "json \<Rightarrow> bool" where
  "wf_json (JArr xs) = (\<forall>x \<in> set xs. wf_json x)"
| "wf_json (JObj ms) = (distinct (map fst ms) \<and> (\<forall>m \<in> set ms. wf_json (snd m)))"
| "wf_json _ = True"

subsection \<open>String literals\<close>

lemma parse_escaped: "parse_chars (escape_char c @ rest) = map_option (\<lambda>(s, r). (c # s, r)) (parse_chars rest)"
proof (cases "(of_char c :: nat) < 32")
  case True
  have hex: "hex_val (hex_char d) = Some d" if "d < 16" for d
    using that by (auto simp: hex_val_def hex_char_def Let_def)
  have z: "hex_val CHR ''0'' = Some 0" by (simp add: hex_val_def)
  have "(of_char c :: nat) div 16 < 16" and "(of_char c :: nat) mod 16 < 16" using True by auto
  then have "unescape_hex CHR ''0'' CHR ''0'' (hex_char (of_char c div 16)) (hex_char (of_char c mod 16)) = Some c"
    by (simp add: unescape_hex_def hex z)
  with True show ?thesis
    by (auto simp: escape_char_def unescape_simple_def)
next
  case False
  then show ?thesis by (auto simp: escape_char_def unescape_simple_def)
qed

lemma parse_quoted [simp]:
  "parse_chars (concat (map escape_char s) @ CHR 0x22 # rest) = Some (s, rest)"
  by (induction s) (simp_all add: parse_escaped)

subsection \<open>Numbers\<close>

definition ok_rest :: "string \<Rightarrow> bool" where
  "ok_rest r \<longleftrightarrow> (case r of [] \<Rightarrow> True | c # _ \<Rightarrow> \<not> is_digit c)"

lemma takeWhile_digits:
  "\<forall>c \<in> set ds. is_digit c \<Longrightarrow> ok_rest r \<Longrightarrow>
     takeWhile is_digit (ds @ r) = ds \<and> dropWhile is_digit (ds @ r) = r"
  by (cases r) (auto simp: ok_rest_def takeWhile_append2 dropWhile_append2)

lemma show_nat_no_leading_zero: "0 < n \<Longrightarrow> hd (show_nat n) \<noteq> CHR ''0''"
proof (induction n rule: show_nat.induct)
  case (1 n)
  have digit: "digit_char d \<noteq> CHR ''0''" if "0 < d" "d < 10" for d
    using that digit_val_char [of d] by (auto simp: digit_val_def)
  show ?case
  proof (cases "n < 10")
    case True
    with 1 digit show ?thesis by (subst show_nat.simps) simp
  next
    case False
    then have "0 < n div 10" by simp
    with False 1 show ?thesis by (subst show_nat.simps) simp
  qed
qed

lemma parse_show_nat: "ok_rest r \<Longrightarrow> parse_digits (show_nat n @ r) = Some (n, r)"
proof -
  assume r: "ok_rest r"
  have "length (show_nat n) = 1" if "n = 0" using that by (subst show_nat.simps) simp
  then have "\<not> (length (show_nat n) > 1 \<and> hd (show_nat n) = CHR ''0'')"
    using show_nat_no_leading_zero [of n] by (cases "n = 0") auto
  with takeWhile_digits [OF show_nat_digits r] show ?thesis
    by (auto simp: parse_digits_def Let_def)
qed

lemma show_nat_Cons: "\<exists>c cs. show_nat n = c # cs \<and> is_digit c"
  using show_nat_digits [of n] by (cases "show_nat n") auto

lemma parse_show_int: "ok_rest r \<Longrightarrow> parse_number (show_int i @ r) = Some (JNum i, r)"
proof -
  assume r: "ok_rest r"
  obtain c cs where c: "show_nat (nat i) = c # cs" "is_digit c" using show_nat_Cons by blast
  then have "c \<noteq> CHR ''-''" by auto
  with c parse_show_nat [OF r, of "nat i"] parse_show_nat [OF r, of "nat (- i)"]
  show ?thesis by (auto simp: parse_number_def show_int_def)
qed

subsection \<open>The round trip\<close>

definition value_start :: "char \<Rightarrow> bool" where
  "value_start c \<longleftrightarrow> \<not> is_ws c \<and> c \<noteq> CHR '']'' \<and> c \<noteq> CHR ''}''"

lemma digit_value_start: "is_digit c \<Longrightarrow>
    value_start c \<and> c \<noteq> CHR ''n'' \<and> c \<noteq> CHR ''t'' \<and> c \<noteq> CHR ''f'' \<and> c \<noteq> CHR 0x22
    \<and> c \<noteq> CHR ''['' \<and> c \<noteq> CHR ''{''"
  by (auto simp: value_start_def is_ws_def is_digit_def)

lemma show_int_Cons: "\<exists>c cs. show_int i = c # cs \<and> (is_digit c \<or> c = CHR ''-'')"
  using show_nat_Cons [of "nat i"] by (auto simp: show_int_def)

lemma stringify_start: "\<exists>c cs. json_stringify j = c # cs \<and> value_start c"
proof (cases j)
  case (JNum i)
  then show ?thesis
    using show_int_Cons [of i] digit_value_start by (auto simp: value_start_def is_ws_def)
qed (auto simp: value_start_def is_ws_def quote_string_def)

lemma skip_ws_Cons [simp]: "\<not> is_ws c \<Longrightarrow> skip_ws (c # cs) = c # cs"
  by (simp add: skip_ws_def)

lemma skip_ws_value [simp]: "skip_ws (json_stringify j @ r) = json_stringify j @ r"
  using stringify_start [of j] by (auto simp: value_start_def)

lemma not_ws [simp]:
  "\<not> is_ws CHR '':''" "\<not> is_ws CHR '',''" "\<not> is_ws CHR '']''" "\<not> is_ws CHR ''}''"
  "\<not> is_ws CHR 0x22" "\<not> is_ws CHR ''[''" "\<not> is_ws CHR ''{''" "\<not> is_ws CHR ''n''"
  "\<not> is_ws CHR ''t''" "\<not> is_ws CHR ''f''"
  by (simp_all add: is_ws_def)

lemma ok_rest_delims [simp]: "ok_rest (CHR '','' # r)" "ok_rest (CHR '']'' # r)" "ok_rest (CHR ''}'' # r)"
  by (simp_all add: ok_rest_def is_digit_def)

lemma length_stringify_pos: "0 < length (json_stringify j)"
  using stringify_start [of j] by auto

lemma parse_value_number:
  "0 < n \<Longrightarrow> ok_rest r \<Longrightarrow> parse_value n (show_int i @ r) = Some (JNum i, r)"
proof -
  assume n: "0 < n" and r: "ok_rest r"
  obtain c cs where c: "show_int i = c # cs" "is_digit c \<or> c = CHR ''-''"
    using show_int_Cons by blast
  have start: "c \<noteq> CHR ''n'' \<and> c \<noteq> CHR ''t'' \<and> c \<noteq> CHR ''f'' \<and> c \<noteq> CHR 0x22
      \<and> c \<noteq> CHR ''['' \<and> c \<noteq> CHR ''{'' \<and> \<not> is_ws c"
    using c(2)
  proof
    assume "is_digit c"
    then show ?thesis using digit_value_start [of c] unfolding value_start_def by blast
  next
    assume "c = CHR ''-''"
    then show ?thesis by (simp add: is_ws_def)
  qed
  from c(1) parse_show_int [OF r, of i] have "parse_number (c # cs @ r) = Some (JNum i, r)"
    by simp
  moreover obtain m where "n = Suc m" using n gr0_conv_Suc by auto
  ultimately show ?thesis by (simp add: c(1) start)
qed

lemma obj_put_fresh: "k \<notin> fst ` set acc \<Longrightarrow> obj_put k v acc = acc @ [(k, v)]"
  by (induction acc) auto

lemma stringify_items_start:
  "xs \<noteq> [] \<Longrightarrow> \<exists>c cs. stringify_items xs = c # cs \<and> value_start c"
proof (cases xs)
  case (Cons x ys)
  then show ?thesis using stringify_start [of x] by (cases ys) auto
qed simp

lemma stringify_members_start:
  "ms \<noteq> [] \<Longrightarrow> \<exists>cs. stringify_members ms = CHR 0x22 # cs"
  by (cases ms rule: stringify_members.cases) (auto simp: quote_string_def)

lemma parse_stringify:
  "wf_json j \<Longrightarrow> ok_rest r \<Longrightarrow> length (json_stringify j) \<le> n \<Longrightarrow>
     parse_value n (json_stringify j @ r) = Some (j, r)"
  "xs \<noteq> [] \<Longrightarrow> \<forall>x \<in> set xs. wf_json x \<Longrightarrow> length (stringify_items xs) < n \<Longrightarrow>
     parse_items n (stringify_items xs @ CHR '']'' # r) = Some (xs, r)"
  "ms \<noteq> [] \<Longrightarrow> \<forall>m \<in> set ms. wf_json (snd m) \<Longrightarrow> distinct (map fst (acc @ ms)) \<Longrightarrow>
     length (stringify_members ms) < n \<Longrightarrow>
     parse_members n acc (stringify_members ms @ CHR ''}'' # r) = Some (acc @ ms, r)"
proof (induction j and xs and ms arbitrary: n r and n r and n acc r
       rule: json_stringify_stringify_items_stringify_members.induct)
  case 1
  then show ?case by (cases n) (auto simp: strip_prefix_def)
next
  case (2 b)
  then show ?case by (cases n) (auto simp: strip_prefix_def split: if_splits)
next
  case (3 i)
  then show ?case using show_int_Cons [of i] by (auto intro!: parse_value_number)
next
  case (4 s)
  then show ?case by (cases n) (auto simp: quote_string_def)
next
  case (5 xs)
  then obtain m where m: "n = Suc m" by (cases n) auto
  show ?case
  proof (cases "xs = []")
    case True
    with m show ?thesis by simp
  next
    case False
    then obtain c cs where c: "stringify_items xs = c # cs" "value_start c"
      using stringify_items_start by blast
    have "parse_items m (stringify_items xs @ CHR '']'' # r) = Some (xs, r)"
      using 5 m False by auto
    with m c show ?thesis by (auto simp: value_start_def)
  qed
next
  case (6 ms)
  then obtain m where m: "n = Suc m" by (cases n) auto
  show ?case
  proof (cases "ms = []")
    case True
    with m show ?thesis by simp
  next
    case False
    then obtain cs where c: "stringify_members ms = CHR 0x22 # cs"
      using stringify_members_start by blast
    have "parse_members m [] (stringify_members ms @ CHR ''}'' # r) = Some ([] @ ms, r)"
      using 6 m False by auto
    with m c show ?thesis by auto
  qed
next
  case 7
  then show ?case by simp
next
  case (8 x)
  then show ?case by (cases n) auto
next
  case (9 x y xs)
  then obtain m where m: "n = Suc m" by (cases n) auto
  have "parse_value m (json_stringify x @ CHR '','' # stringify_items (y # xs) @ CHR '']'' # r) =
      Some (x, CHR '','' # stringify_items (y # xs) @ CHR '']'' # r)"
    using 9 m by auto
  moreover have "parse_items m (stringify_items (y # xs) @ CHR '']'' # r) = Some (y # xs, r)"
    using 9 m length_stringify_pos [of x] by auto
  ultimately show ?case using m by simp
next
  case 10
  then show ?case by simp
next
  case (11 k v)
  then obtain m where m: "n = Suc m" by (cases n) auto
  have "parse_value m (json_stringify v @ CHR ''}'' # r) = Some (v, CHR ''}'' # r)"
    using 11 m by auto
  with 11 m show ?case by (auto simp: quote_string_def obj_put_fresh)
next
  case (12 k v mm ms)
  then obtain m where m: "n = Suc m" by (cases n) auto
  have v: "parse_value m (json_stringify v @ CHR '','' # stringify_members (mm # ms) @ CHR ''}'' # r) =
      Some (v, CHR '','' # stringify_members (mm # ms) @ CHR ''}'' # r)"
    using 12 m by auto
  have "parse_members m (acc @ [(k, v)]) (stringify_members (mm # ms) @ CHR ''}'' # r) =
      Some ((acc @ [(k, v)]) @ mm # ms, r)"
    using 12 m length_stringify_pos [of v] by auto
  with 12 m v show ?case by (auto simp: quote_string_def obj_put_fresh)
qed

lemma json_parse_stringify [simp]: "wf_json j \<Longrightarrow> json_parse (json_stringify j) = Some j"
proof -
  assume "wf_json j"
  then have "parse_value (Suc (length (json_stringify j))) (json_stringify j @ []) = Some (j, [])"
    by (intro parse_stringify) (auto simp: ok_rest_def)
  then show ?thesis by (simp add: json_parse_def skip_ws_def)
qed

end
