(* ===== verification/LocalDb.thy ===== *)
theory LocalDb
  imports Prelude
begin

text \<open>
  The local SQLite database (packages/eventstore-web/src/worker/schema.ts) and the statements
  the sync client, the rewriter and the event store run on it: the tables \<open>events\<close>,
  \<open>sync_event_map\<close>, \<open>sync_meta\<close> and \<open>snapshots\<close> with their uniqueness constraints, and
  \<open>INSERT OR IGNORE\<close>, \<open>UPDATE\<close>, \<open>DELETE\<close> and \<open>SELECT\<close> with the conditions and
  orders the code writes. \<open>db_wf\<close> is what the schema's constraints guarantee; each
  statement preserves it.
\<close>

record event_row =
  row_id :: string
  row_aggregate_type :: string
  row_aggregate_id :: string
  row_event_type :: string
  row_payload_encrypted :: bytes
  row_version :: int
  row_occurred_at :: int
  row_actor_id :: "string option"
  row_causation_id :: "string option"
  row_correlation_id :: "string option"
  row_scope_id :: "string option"
  row_resource_id :: "string option"
  row_resource_key_id :: "string option"
  row_grant_id :: "string option"
  row_scope_state_ref :: "bytes option"
  row_author_device_id :: "string option"
  row_sig_suite :: "string option"
  row_signature :: "bytes option"
  row_commit_sequence :: int

record map_row =
  map_event_id :: string
  map_global_seq :: int
  map_inserted_at :: int

record snapshot_row =
  snap_aggregate_type :: string
  snap_aggregate_id :: string
  snap_version :: int
  snap_encrypted :: bytes
  snap_last_global_seq :: int
  snap_last_pending_commit_seq :: int
  snap_written_at :: int

record local_db =
  db_events :: "event_row list"
  db_sqlite_sequence :: int
  db_sync_event_map :: "map_row list"
  db_sync_meta :: "string \<rightharpoonup> int"
  db_snapshots :: "snapshot_row list"

definition empty_db :: local_db where
  "empty_db = \<lparr>db_events = [], db_sqlite_sequence = 0, db_sync_event_map = [],
     db_sync_meta = Map.empty, db_snapshots = []\<rparr>"

text \<open>The key of the unique index \<open>events_aggregate_version\<close>.\<close>

definition row_key :: "event_row \<Rightarrow> string \<times> string \<times> int" where
  "row_key r = (row_aggregate_type r, row_aggregate_id r, row_version r)"

definition has_event :: "local_db \<Rightarrow> string \<Rightarrow> bool" where
  "has_event db i \<longleftrightarrow> i \<in> row_id ` set (db_events db)"

definition is_synced :: "local_db \<Rightarrow> string \<Rightarrow> bool" where
  "is_synced db i \<longleftrightarrow> i \<in> map_event_id ` set (db_sync_event_map db)"

definition global_seq_of :: "local_db \<Rightarrow> string \<Rightarrow> int option" where
  "global_seq_of db i =
     map_option map_global_seq (find (\<lambda>m. map_event_id m = i) (db_sync_event_map db))"

subsection \<open>Statements\<close>

text \<open>
  \<open>INSERT OR IGNORE INTO events\<close>: a row that violates a uniqueness constraint is dropped;
  otherwise it gets the next \<open>AUTOINCREMENT\<close> value as its commit sequence.
\<close>

definition insert_event_or_ignore :: "event_row \<Rightarrow> local_db \<Rightarrow> local_db" where
  "insert_event_or_ignore r db =
     (if has_event db (row_id r) \<or> row_key r \<in> row_key ` set (db_events db) then db
      else let s = db_sqlite_sequence db + 1
           in db\<lparr>db_events := db_events db @ [r\<lparr>row_commit_sequence := s\<rparr>],
                 db_sqlite_sequence := s\<rparr>)"

text \<open>\<open>INSERT OR IGNORE INTO sync_event_map (event_id, global_seq, inserted_at) VALUES ...\<close>.\<close>

definition insert_map_or_ignore :: "string \<Rightarrow> int \<Rightarrow> int \<Rightarrow> local_db \<Rightarrow> local_db" where
  "insert_map_or_ignore i g now db =
     (if is_synced db i \<or> g \<in> map_global_seq ` set (db_sync_event_map db) then db
      else db\<lparr>db_sync_event_map := db_sync_event_map db @
                [\<lparr>map_event_id = i, map_global_seq = g, map_inserted_at = now\<rparr>]\<rparr>)"

text \<open>The same with \<open>SELECT ... WHERE EXISTS (SELECT 1 FROM events WHERE id = ?)\<close>.\<close>

definition insert_map_if_event :: "string \<Rightarrow> int \<Rightarrow> int \<Rightarrow> local_db \<Rightarrow> local_db" where
  "insert_map_if_event i g now db =
     (if has_event db i then insert_map_or_ignore i g now db else db)"

text \<open>
  \<open>UPDATE events SET version = ?, payload_encrypted = ? WHERE id = ?\<close>. It throws when the
  new version collides with another row of the unique index.
\<close>

definition set_version :: "string \<Rightarrow> int \<Rightarrow> bytes \<Rightarrow> event_row \<Rightarrow> event_row" where
  "set_version i v p r =
     (if row_id r = i then r\<lparr>row_version := v, row_payload_encrypted := p\<rparr> else r)"

definition update_event_version :: "string \<Rightarrow> int \<Rightarrow> bytes \<Rightarrow> local_db \<Rightarrow> local_db result" where
  "update_event_version i v p db =
     (let rows = map (set_version i v p) (db_events db)
      in if distinct (map row_key rows) then Inr (db\<lparr>db_events := rows\<rparr>)
         else Inl (Error ''UNIQUE constraint failed''))"

definition delete_snapshots :: "string \<Rightarrow> string \<Rightarrow> local_db \<Rightarrow> local_db" where
  "delete_snapshots t a db =
     db\<lparr>db_snapshots := filter (\<lambda>s. \<not> (snap_aggregate_type s = t \<and> snap_aggregate_id s = a))
                         (db_snapshots db)\<rparr>"

subsection \<open>Queries\<close>

text \<open>\<open>FROM events e LEFT JOIN sync_event_map m ON m.event_id = e.id WHERE m.event_id IS NULL\<close>.\<close>

definition pending_rows :: "local_db \<Rightarrow> event_row list" where
  "pending_rows db = filter (\<lambda>r. \<not> is_synced db (row_id r)) (db_events db)"

text \<open>\<open>SELECT id FROM events WHERE aggregate_type = ? AND aggregate_id = ? AND version = ? LIMIT 1\<close>.\<close>

definition occupying_row :: "local_db \<Rightarrow> string \<Rightarrow> string \<Rightarrow> int \<Rightarrow> event_row option" where
  "occupying_row db t a v = find (\<lambda>r. row_key r = (t, a, v)) (db_events db)"

subsection \<open>What the schema guarantees\<close>

definition db_wf :: "local_db \<Rightarrow> bool" where
  "db_wf db \<longleftrightarrow>
     distinct (map row_id (db_events db)) \<and>
     distinct (map row_key (db_events db)) \<and>
     sorted_wrt (<) (map row_commit_sequence (db_events db)) \<and>
     (\<forall>r \<in> set (db_events db). 0 < row_commit_sequence r \<and>
        row_commit_sequence r \<le> db_sqlite_sequence db) \<and>
     0 \<le> db_sqlite_sequence db \<and>
     distinct (map map_event_id (db_sync_event_map db)) \<and>
     distinct (map map_global_seq (db_sync_event_map db))"

lemma db_wfD:
  assumes "db_wf db"
  shows "distinct (map row_id (db_events db))"
    and "distinct (map row_key (db_events db))"
    and "sorted_wrt (<) (map row_commit_sequence (db_events db))"
    and "\<And>r. r \<in> set (db_events db) \<Longrightarrow> 0 < row_commit_sequence r"
    and "\<And>r. r \<in> set (db_events db) \<Longrightarrow> row_commit_sequence r \<le> db_sqlite_sequence db"
    and "distinct (map map_event_id (db_sync_event_map db))"
    and "distinct (map map_global_seq (db_sync_event_map db))"
  using assms by (auto simp: db_wf_def)

lemma db_wf_empty: "db_wf empty_db"
  by (simp add: db_wf_def empty_db_def)

lemma row_key_commit [simp, db_simps]: "row_key (r\<lparr>row_commit_sequence := s\<rparr>) = row_key r"
  by (simp add: row_key_def)

lemma db_wf_insert_event [intro]: "db_wf db \<Longrightarrow> db_wf (insert_event_or_ignore r db)"
  by (fastforce simp: db_wf_def insert_event_or_ignore_def has_event_def Let_def sorted_wrt_append)

lemma db_wf_insert_map [intro]: "db_wf db \<Longrightarrow> db_wf (insert_map_or_ignore i g now db)"
  by (auto simp: db_wf_def insert_map_or_ignore_def is_synced_def)

lemma db_wf_insert_map_if_event [intro]: "db_wf db \<Longrightarrow> db_wf (insert_map_if_event i g now db)"
  by (auto simp: insert_map_if_event_def)

lemma db_wf_delete_snapshots [intro]: "db_wf db \<Longrightarrow> db_wf (delete_snapshots t a db)"
  by (simp add: db_wf_def delete_snapshots_def)

lemma db_wf_meta [simp]: "db_wf (db\<lparr>db_sync_meta := m\<rparr>) = db_wf db"
  by (simp add: db_wf_def)

lemma set_version_frame [simp, db_simps]:
  "row_id (set_version i v p r) = row_id r"
  "row_aggregate_type (set_version i v p r) = row_aggregate_type r"
  "row_aggregate_id (set_version i v p r) = row_aggregate_id r"
  "row_commit_sequence (set_version i v p r) = row_commit_sequence r"
  by (simp_all add: set_version_def)

text \<open>Rewriting rows in place keeps the invariant as long as the unique index holds.\<close>

lemma db_wf_map_events:
  assumes "db_wf db" and "\<And>r. row_id (f r) = row_id r"
    and "\<And>r. row_commit_sequence (f r) = row_commit_sequence r"
    and "distinct (map row_key (map f (db_events db)))"
  shows "db_wf (db\<lparr>db_events := map f (db_events db)\<rparr>)"
proof -
  have "row_id \<circ> f = row_id" and "row_commit_sequence \<circ> f = row_commit_sequence"
    using assms(2,3) by auto
  with assms show ?thesis unfolding db_wf_def by auto
qed

lemma db_wf_update_version:
  "db_wf db \<Longrightarrow> update_event_version i v p db = Inr db' \<Longrightarrow> db_wf db'"
  by (auto simp: update_event_version_def Let_def split: if_splits intro: db_wf_map_events)

subsection \<open>Effects of the statements on what the queries see\<close>

lemma is_synced_insert_event [simp, db_simps]:
  "is_synced (insert_event_or_ignore r db) i = is_synced db i"
  by (simp add: is_synced_def insert_event_or_ignore_def Let_def)

lemma is_synced_insert_map [db_simps]:
  "is_synced (insert_map_or_ignore i g now db) j \<longleftrightarrow>
     is_synced db j \<or> (j = i \<and> g \<notin> map_global_seq ` set (db_sync_event_map db))"
  by (auto simp: is_synced_def insert_map_or_ignore_def)

lemma events_insert_map [simp, db_simps]:
  "db_events (insert_map_or_ignore i g now db) = db_events db"
  "db_events (insert_map_if_event i g now db) = db_events db"
  by (simp_all add: insert_map_or_ignore_def insert_map_if_event_def)

lemma has_event_insert_event [db_simps]:
  "has_event (insert_event_or_ignore r db) i \<longleftrightarrow>
     has_event db i \<or> (i = row_id r \<and> row_key r \<notin> row_key ` set (db_events db))"
  by (auto simp: has_event_def insert_event_or_ignore_def Let_def)

lemma has_event_map [simp, db_simps]:
  "has_event (insert_map_or_ignore i g now db) j = has_event db j"
  "has_event (insert_map_if_event i g now db) j = has_event db j"
  by (simp_all add: has_event_def)

lemma insert_event_prefix: "\<exists>rs. db_events (insert_event_or_ignore r db) = db_events db @ rs"
  by (auto simp: insert_event_or_ignore_def Let_def)

lemma insert_map_prefix:
  "\<exists>ms. db_sync_event_map (insert_map_or_ignore i g now db) = db_sync_event_map db @ ms"
  by (auto simp: insert_map_or_ignore_def)

lemma map_insert_event [simp, db_simps]:
  "db_sync_event_map (insert_event_or_ignore r db) = db_sync_event_map db"
  "db_sync_meta (insert_event_or_ignore r db) = db_sync_meta db"
  by (simp_all add: insert_event_or_ignore_def Let_def)

lemma meta_insert_map [simp, db_simps]:
  "db_sync_meta (insert_map_or_ignore i g now db) = db_sync_meta db"
  "db_sync_meta (insert_map_if_event i g now db) = db_sync_meta db"
  by (simp_all add: insert_map_or_ignore_def insert_map_if_event_def)

lemma occupying_row_Some:
  "occupying_row db t a v = Some r \<Longrightarrow> r \<in> set (db_events db) \<and> row_key r = (t, a, v)"
  unfolding occupying_row_def by (drule find_Some_mem) simp

lemma occupying_row_None:
  "occupying_row db t a v = None \<longleftrightarrow> (t, a, v) \<notin> row_key ` set (db_events db)"
  by (force simp: occupying_row_def find_None_mem)

end
