(* ===== verification/RecordCodec.thy ===== *)
theory RecordCodec
  imports Base64 Json LocalDb
begin

text \<open>
  packages/sync-engine/src/recordCodec.ts: the wire form of an event. A local row becomes a
  \<open>SyncRecord\<close>, the record a JSON text, and the text is parsed and shape-checked on the
  receiving side. Everything the server stores is this text, so the round trip is what makes
  two clients agree on an event.
\<close>

record sync_record =
  sr_recordVersion :: int
  sr_aggregateType :: string
  sr_aggregateId :: string
  sr_version :: int
  sr_payloadCiphertext :: string
  sr_scopeId :: "string option"
  sr_resourceId :: "string option"
  sr_resourceKeyId :: "string option"
  sr_grantId :: "string option"
  sr_scopeStateRef :: "string option"
  sr_authorDeviceId :: "string option"
  sr_sigSuite :: "string option"
  sr_signature :: "string option"

text \<open>\<open>value ? encodeBase64Url(value) : null\<close> on a nullable byte array; an array is truthy.\<close>

definition encode_nullable :: "js_env \<Rightarrow> bytes option \<Rightarrow> string option result" where
  "encode_nullable env b =
     (case b of None \<Rightarrow> Inr None | Some bs \<Rightarrow> bind_result (encodeBase64Url env bs) (\<lambda>s. Inr (Some s)))"

definition toSyncRecord :: "js_env \<Rightarrow> event_row \<Rightarrow> sync_record result" where
  "toSyncRecord env r =
     bind_result (encodeBase64Url env (row_payload_encrypted r)) (\<lambda>payload.
     bind_result (encode_nullable env (row_scope_state_ref r)) (\<lambda>ref.
     bind_result (encode_nullable env (row_signature r)) (\<lambda>sig.
     Inr \<lparr>sr_recordVersion = 1, sr_aggregateType = row_aggregate_type r,
       sr_aggregateId = row_aggregate_id r, sr_version = row_version r,
       sr_payloadCiphertext = payload, sr_scopeId = row_scope_id r,
       sr_resourceId = row_resource_id r, sr_resourceKeyId = row_resource_key_id r,
       sr_grantId = row_grant_id r, sr_scopeStateRef = ref,
       sr_authorDeviceId = row_author_device_id r, sr_sigSuite = row_sig_suite r,
       sr_signature = sig\<rparr>)))"

definition json_nullable :: "string option \<Rightarrow> json" where
  "json_nullable s = (case s of None \<Rightarrow> JNull | Some t \<Rightarrow> JStr t)"

definition record_object :: "sync_record \<Rightarrow> json" where
  "record_object r = JObj
     [(''recordVersion'', JNum (sr_recordVersion r)),
      (''aggregateType'', JStr (sr_aggregateType r)),
      (''aggregateId'', JStr (sr_aggregateId r)),
      (''version'', JNum (sr_version r)),
      (''payloadCiphertext'', JStr (sr_payloadCiphertext r)),
      (''scopeId'', json_nullable (sr_scopeId r)),
      (''resourceId'', json_nullable (sr_resourceId r)),
      (''resourceKeyId'', json_nullable (sr_resourceKeyId r)),
      (''grantId'', json_nullable (sr_grantId r)),
      (''scopeStateRef'', json_nullable (sr_scopeStateRef r)),
      (''authorDeviceId'', json_nullable (sr_authorDeviceId r)),
      (''sigSuite'', json_nullable (sr_sigSuite r)),
      (''signature'', json_nullable (sr_signature r))]"

definition toRecordJson :: "sync_record \<Rightarrow> string" where
  "toRecordJson r = json_stringify (record_object r)"

text \<open>Property reads on a parsed value; an absent property reads as \<open>undefined\<close>.\<close>

definition get_string :: "string \<Rightarrow> json \<Rightarrow> string option" where
  "get_string k j = (case json_get k j of Some (JStr s) \<Rightarrow> Some s | _ \<Rightarrow> None)"

definition get_number :: "string \<Rightarrow> json \<Rightarrow> int option" where
  "get_number k j = (case json_get k j of Some (JNum n) \<Rightarrow> Some n | _ \<Rightarrow> None)"

definition get_nullable :: "string \<Rightarrow> json \<Rightarrow> string option option" where
  "get_nullable k j =
     (case json_get k j of Some (JStr s) \<Rightarrow> Some (Some s) | Some JNull \<Rightarrow> Some None | _ \<Rightarrow> None)"

definition isSyncRecord :: "json \<Rightarrow> bool" where
  "isSyncRecord j \<longleftrightarrow>
     get_number ''recordVersion'' j = Some 1 \<and>
     get_string ''aggregateType'' j \<noteq> None \<and>
     get_string ''aggregateId'' j \<noteq> None \<and>
     get_number ''version'' j \<noteq> None \<and>
     get_string ''payloadCiphertext'' j \<noteq> None \<and>
     get_nullable ''scopeId'' j \<noteq> None \<and>
     get_nullable ''resourceId'' j \<noteq> None \<and>
     get_nullable ''resourceKeyId'' j \<noteq> None \<and>
     get_nullable ''grantId'' j \<noteq> None \<and>
     get_nullable ''scopeStateRef'' j \<noteq> None \<and>
     get_nullable ''authorDeviceId'' j \<noteq> None \<and>
     get_nullable ''sigSuite'' j \<noteq> None \<and>
     get_nullable ''signature'' j \<noteq> None"

text \<open>The parsed value read as a \<open>SyncRecord\<close>, which the type guard above justifies.\<close>

definition record_of_json :: "json \<Rightarrow> sync_record" where
  "record_of_json j =
     \<lparr>sr_recordVersion = the (get_number ''recordVersion'' j),
      sr_aggregateType = the (get_string ''aggregateType'' j),
      sr_aggregateId = the (get_string ''aggregateId'' j),
      sr_version = the (get_number ''version'' j),
      sr_payloadCiphertext = the (get_string ''payloadCiphertext'' j),
      sr_scopeId = the (get_nullable ''scopeId'' j),
      sr_resourceId = the (get_nullable ''resourceId'' j),
      sr_resourceKeyId = the (get_nullable ''resourceKeyId'' j),
      sr_grantId = the (get_nullable ''grantId'' j),
      sr_scopeStateRef = the (get_nullable ''scopeStateRef'' j),
      sr_authorDeviceId = the (get_nullable ''authorDeviceId'' j),
      sr_sigSuite = the (get_nullable ''sigSuite'' j),
      sr_signature = the (get_nullable ''signature'' j)\<rparr>"

definition parseRecordJson :: "string \<Rightarrow> sync_record result" where
  "parseRecordJson s =
     (case json_parse s of
        None \<Rightarrow> Inl (Error ''recordJson is not valid JSON'')
      | Some j \<Rightarrow> if isSyncRecord j then Inr (record_of_json j)
                  else Inl (Error ''recordJson does not match SyncRecord shape''))"

definition decodeRecordPayload :: "js_env \<Rightarrow> sync_record \<Rightarrow> bytes result" where
  "decodeRecordPayload env r = decodeBase64Url env (sr_payloadCiphertext r)"

subsection \<open>Round trip\<close>

lemma wf_json_nullable [simp]: "wf_json (json_nullable s)"
  by (simp add: json_nullable_def split: option.splits)

lemma wf_record_object [simp]: "wf_json (record_object r)"
  by (simp add: record_object_def)

lemma get_record_object:
  "get_number ''recordVersion'' (record_object r) = Some (sr_recordVersion r)"
  "get_string ''aggregateType'' (record_object r) = Some (sr_aggregateType r)"
  "get_string ''aggregateId'' (record_object r) = Some (sr_aggregateId r)"
  "get_number ''version'' (record_object r) = Some (sr_version r)"
  "get_string ''payloadCiphertext'' (record_object r) = Some (sr_payloadCiphertext r)"
  "get_nullable ''scopeId'' (record_object r) = Some (sr_scopeId r)"
  "get_nullable ''resourceId'' (record_object r) = Some (sr_resourceId r)"
  "get_nullable ''resourceKeyId'' (record_object r) = Some (sr_resourceKeyId r)"
  "get_nullable ''grantId'' (record_object r) = Some (sr_grantId r)"
  "get_nullable ''scopeStateRef'' (record_object r) = Some (sr_scopeStateRef r)"
  "get_nullable ''authorDeviceId'' (record_object r) = Some (sr_authorDeviceId r)"
  "get_nullable ''sigSuite'' (record_object r) = Some (sr_sigSuite r)"
  "get_nullable ''signature'' (record_object r) = Some (sr_signature r)"
  by (simp_all add: get_number_def get_string_def get_nullable_def json_get_def record_object_def
        json_nullable_def split: option.splits)

lemma parse_toRecordJson:
  "sr_recordVersion r = 1 \<Longrightarrow> parseRecordJson (toRecordJson r) = Inr r"
  by (simp add: parseRecordJson_def toRecordJson_def isSyncRecord_def record_of_json_def
        get_record_object)

lemma encode_nullable_eq: "env_ok env \<Longrightarrow> encode_nullable env b = Inr (map_option url_text b)"
  by (simp add: encode_nullable_def encode_url_text split: option.splits)

lemma toSyncRecord_eq:
  "env_ok env \<Longrightarrow> toSyncRecord env r =
     Inr \<lparr>sr_recordVersion = 1, sr_aggregateType = row_aggregate_type r,
       sr_aggregateId = row_aggregate_id r, sr_version = row_version r,
       sr_payloadCiphertext = url_text (row_payload_encrypted r), sr_scopeId = row_scope_id r,
       sr_resourceId = row_resource_id r, sr_resourceKeyId = row_resource_key_id r,
       sr_grantId = row_grant_id r, sr_scopeStateRef = map_option url_text (row_scope_state_ref r),
       sr_authorDeviceId = row_author_device_id r, sr_sigSuite = row_sig_suite r,
       sr_signature = map_option url_text (row_signature r)\<rparr>"
  by (simp add: toSyncRecord_def encode_url_text encode_nullable_eq)

end
