(* ===== verification/Crypto.thy ===== *)
theory Crypto
  imports Text
begin

text \<open>
  Additional authenticated data (packages/infrastructure/src/eventing/aad.ts) and the crypto
  port the infrastructure calls. The cipher itself (WebCrypto AES-GCM) is not part of the
  repository: it is the parameter \<open>crypto_port\<close>, whose \<open>encrypt\<close> takes the index of the
  random draw that supplies the initialisation vector. \<open>aead_ok\<close> states the documented
  behaviour the code relies on: decrypting with the key and the additional data of the
  encryption gives the plaintext back.
\<close>

record crypto_port =
  encrypt :: "nat \<Rightarrow> bytes \<Rightarrow> bytes \<Rightarrow> bytes \<Rightarrow> bytes result"
  decrypt :: "bytes \<Rightarrow> bytes \<Rightarrow> bytes \<Rightarrow> bytes result"

definition aead_ok :: "crypto_port \<Rightarrow> bool" where
  "aead_ok c \<longleftrightarrow>
     (\<forall>n p k a x. encrypt c n p k a = Inr x \<longrightarrow> decrypt c x k a = Inr p)"

definition buildEventAad :: "string \<Rightarrow> string \<Rightarrow> int \<Rightarrow> bytes" where
  "buildEventAad aggregateType aggregateId version =
     text_encode (aggregateType @ '':'' @ aggregateId @ '':'' @ show_int version)"

definition buildSnapshotAad :: "string \<Rightarrow> int \<Rightarrow> bytes" where
  "buildSnapshotAad aggregateId version =
     text_encode (aggregateId @ '':snapshot:'' @ show_int version)"

definition buildSharingEventAad ::
  "string \<Rightarrow> string \<Rightarrow> int \<Rightarrow> string \<Rightarrow> string \<Rightarrow> string \<Rightarrow> string \<Rightarrow> string \<Rightarrow> bytes" where
  "buildSharingEventAad aggregateType aggregateId version scopeId resourceId resourceKeyId grantId sigSuite =
     text_encode (aggregateType @ '':'' @ aggregateId @ '':'' @ show_int version @ '':'' @ scopeId
       @ '':'' @ resourceId @ '':'' @ resourceKeyId @ '':'' @ grantId @ '':'' @ sigSuite)"

lemma append_sep_inject:
  assumes "c \<notin> set xs" and "c \<notin> set ys" and "xs @ c # us = ys @ c # vs"
  shows "xs = ys \<and> us = vs"
  using assms
proof (induction xs arbitrary: ys)
  case Nil
  then show ?case by (cases ys) auto
next
  case (Cons x xs)
  then show ?case by (cases ys) auto
qed

lemma buildEventAad_inject:
  assumes "CHR '':'' \<notin> set t" "CHR '':'' \<notin> set t'" "CHR '':'' \<notin> set a" "CHR '':'' \<notin> set a'"
  shows "buildEventAad t a v = buildEventAad t' a' v' \<longleftrightarrow> t = t' \<and> a = a' \<and> v = v'"
  using append_sep_inject [OF assms(1,2), of "a @ CHR '':'' # show_int v" "a' @ CHR '':'' # show_int v'"]
    append_sep_inject [OF assms(3,4), of "show_int v" "show_int v'"]
  by (auto simp: buildEventAad_def)

lemma decrypt_encrypt: "aead_ok c \<Longrightarrow> encrypt c n p k a = Inr x \<Longrightarrow> decrypt c x k a = Inr p"
  by (auto simp: aead_ok_def)

text \<open>
  A concrete port that satisfies \<open>aead_ok\<close> and, like an authenticated cipher, rejects a
  ciphertext under any other additional data: the ciphertext carries the key and the
  additional data in front of the plaintext.
\<close>

definition tagged_crypto :: crypto_port where
  "tagged_crypto =
     \<lparr>encrypt = (\<lambda>n p k a. Inr (k @ a @ p)),
      decrypt = (\<lambda>x k a. if take (length (k @ a)) x = k @ a then Inr (drop (length (k @ a)) x)
                         else Inl (Error ''decrypt''))\<rparr>"

lemma aead_ok_tagged: "aead_ok tagged_crypto"
  by (simp add: aead_ok_def tagged_crypto_def)

end
