(* ===== verification/Materializer.thy ===== *)
theory Materializer
  imports RecordCodec Crypto
begin

text \<open>
  packages/infrastructure/src/eventing/eventEnvelope.ts and
  packages/infrastructure/src/sync/SyncRecordMaterializer.ts: the plaintext envelope of an
  event, and the step that turns a pulled sync record into a row of the local \<open>events\<close>
  table: parse, decode, decrypt with the record's own aggregate type, id and version as
  additional data, and check that the envelope names the event id the server gave.
\<close>

record envelope_meta =
  meta_eventId :: string
  meta_eventType :: string
  meta_occurredAt :: int
  meta_actorId :: "string option"
  meta_causationId :: "string option"
  meta_correlationId :: "string option"

record event_envelope =
  env_envelopeVersion :: int
  env_meta :: envelope_meta
  env_payloadVersion :: int
  env_data :: json

definition envelope_object :: "event_envelope \<Rightarrow> json" where
  "envelope_object e = JObj
     [(''envelopeVersion'', JNum (env_envelopeVersion e)),
      (''meta'', JObj
         [(''eventId'', JStr (meta_eventId (env_meta e))),
          (''eventType'', JStr (meta_eventType (env_meta e))),
          (''occurredAt'', JNum (meta_occurredAt (env_meta e))),
          (''actorId'', json_nullable (meta_actorId (env_meta e))),
          (''causationId'', json_nullable (meta_causationId (env_meta e))),
          (''correlationId'', json_nullable (meta_correlationId (env_meta e)))]),
      (''payload'', JObj
         [(''payloadVersion'', JNum (env_payloadVersion e)), (''data'', env_data e)])]"

definition encodeEventEnvelope :: "event_envelope \<Rightarrow> bytes" where
  "encodeEventEnvelope e = text_encode (json_stringify (envelope_object e))"

definition isObject :: "json option \<Rightarrow> bool" where
  "isObject j \<longleftrightarrow> (case j of Some (JObj _) \<Rightarrow> True | Some (JArr _) \<Rightarrow> True | _ \<Rightarrow> False)"

definition positive :: "int option \<Rightarrow> bool" where
  "positive n \<longleftrightarrow> (case n of Some k \<Rightarrow> 1 \<le> k | None \<Rightarrow> False)"

definition nonempty :: "string option \<Rightarrow> bool" where
  "nonempty s \<longleftrightarrow> (case s of Some t \<Rightarrow> t \<noteq> [] | None \<Rightarrow> False)"

text \<open>The errors are thrown in the order of the checks in the source.\<close>

definition decodeEventEnvelope :: "bytes \<Rightarrow> event_envelope result" where
  "decodeEventEnvelope bs =
     (case json_parse (text_decode bs) of
        None \<Rightarrow> Inl (Error ''Malformed event envelope: invalid JSON'')
      | Some parsed \<Rightarrow>
          let meta = json_get ''meta'' parsed; m = the meta;
              payload = json_get ''payload'' parsed; p = the payload in
          if \<not> isObject (Some parsed) then Inl (Error ''Malformed event envelope: expected envelope object'')
          else if \<not> positive (get_number ''envelopeVersion'' parsed)
          then Inl (Error ''Malformed event envelope: invalid envelopeVersion'')
          else if \<not> isObject meta then Inl (Error ''Malformed event envelope: missing meta'')
          else if \<not> nonempty (get_string ''eventId'' m)
          then Inl (Error ''Malformed event envelope: invalid meta.eventId'')
          else if \<not> nonempty (get_string ''eventType'' m)
          then Inl (Error ''Malformed event envelope: invalid meta.eventType'')
          else if get_number ''occurredAt'' m = None
          then Inl (Error ''Malformed event envelope: invalid meta.occurredAt'')
          else if get_nullable ''actorId'' m = None
          then Inl (Error ''Malformed event envelope: invalid meta.actorId'')
          else if get_nullable ''causationId'' m = None
          then Inl (Error ''Malformed event envelope: invalid meta.causationId'')
          else if get_nullable ''correlationId'' m = None
          then Inl (Error ''Malformed event envelope: invalid meta.correlationId'')
          else if \<not> isObject payload then Inl (Error ''Malformed event envelope: missing payload'')
          else if \<not> positive (get_number ''payloadVersion'' p)
          then Inl (Error ''Malformed event envelope: invalid payloadVersion'')
          else if json_get ''data'' p = None then Inl (Error ''Malformed event envelope: missing data'')
          else Inr \<lparr>env_envelopeVersion = the (get_number ''envelopeVersion'' parsed),
                 env_meta = \<lparr>meta_eventId = the (get_string ''eventId'' m),
                   meta_eventType = the (get_string ''eventType'' m),
                   meta_occurredAt = the (get_number ''occurredAt'' m),
                   meta_actorId = the (get_nullable ''actorId'' m),
                   meta_causationId = the (get_nullable ''causationId'' m),
                   meta_correlationId = the (get_nullable ''correlationId'' m)\<rparr>,
                 env_payloadVersion = the (get_number ''payloadVersion'' p),
                 env_data = the (json_get ''data'' p)\<rparr>)"

subsection \<open>Envelope round trip\<close>

definition envelope_ok :: "event_envelope \<Rightarrow> bool" where
  "envelope_ok e \<longleftrightarrow> 1 \<le> env_envelopeVersion e \<and> 1 \<le> env_payloadVersion e \<and>
     meta_eventId (env_meta e) \<noteq> [] \<and> meta_eventType (env_meta e) \<noteq> [] \<and> wf_json (env_data e)"

lemma wf_envelope_object: "wf_json (env_data e) \<Longrightarrow> wf_json (envelope_object e)"
  by (simp add: envelope_object_def)

lemma envelope_object_get:
  fixes e :: event_envelope
  defines "j \<equiv> envelope_object e"
  shows "isObject (Some j)" "isObject (json_get ''meta'' j)" "isObject (json_get ''payload'' j)"
    "get_number ''envelopeVersion'' j = Some (env_envelopeVersion e)"
    "get_string ''eventId'' (the (json_get ''meta'' j)) = Some (meta_eventId (env_meta e))"
    "get_string ''eventType'' (the (json_get ''meta'' j)) = Some (meta_eventType (env_meta e))"
    "get_number ''occurredAt'' (the (json_get ''meta'' j)) = Some (meta_occurredAt (env_meta e))"
    "get_nullable ''actorId'' (the (json_get ''meta'' j)) = Some (meta_actorId (env_meta e))"
    "get_nullable ''causationId'' (the (json_get ''meta'' j)) = Some (meta_causationId (env_meta e))"
    "get_nullable ''correlationId'' (the (json_get ''meta'' j)) = Some (meta_correlationId (env_meta e))"
    "get_number ''payloadVersion'' (the (json_get ''payload'' j)) = Some (env_payloadVersion e)"
    "json_get ''data'' (the (json_get ''payload'' j)) = Some (env_data e)"
  by (simp_all add: j_def isObject_def get_number_def get_string_def get_nullable_def json_get_def
        envelope_object_def json_nullable_def split: option.splits)

lemma decode_encodeEventEnvelope:
  assumes "envelope_ok e"
  shows "decodeEventEnvelope (encodeEventEnvelope e) = Inr e"
  using assms
  by (simp add: decodeEventEnvelope_def encodeEventEnvelope_def Let_def wf_envelope_object
        envelope_object_get envelope_ok_def positive_def nonempty_def)

text \<open>A decoded envelope names an event: id and type are not empty and versions are positive.\<close>

lemma decodeEventEnvelope_checked:
  assumes "decodeEventEnvelope bs = Inr e"
  shows "1 \<le> env_envelopeVersion e" "1 \<le> env_payloadVersion e"
    "meta_eventId (env_meta e) \<noteq> []" "meta_eventType (env_meta e) \<noteq> []"
  using assms
  by (auto simp: decodeEventEnvelope_def Let_def positive_def nonempty_def split: option.splits if_splits)

subsection \<open>The materializer\<close>

text \<open>\<open>value ? Buffer.from(value, 'base64url') : null\<close>; the empty string is falsy.\<close>

definition buffer_nullable :: "js_env \<Rightarrow> string option \<Rightarrow> bytes option result" where
  "buffer_nullable env s =
     (case s of None \<Rightarrow> Inr None
      | Some t \<Rightarrow> if t = [] then Inr None
                  else if has_Buffer env then Inr (Some (buffer_from_base64 t))
                  else Inl (Error ''Buffer is not defined''))"

definition materializeRemoteEvent ::
  "js_env \<Rightarrow> crypto_port \<Rightarrow> (string \<Rightarrow> bytes result) \<Rightarrow> string \<Rightarrow> string \<Rightarrow> event_row result" where
  "materializeRemoteEvent env crypto resolveKey eventId recordJson =
     bind_result (parseRecordJson recordJson) (\<lambda>record.
     bind_result (decodeRecordPayload env record) (\<lambda>payloadCiphertext.
     bind_result (resolveKey (sr_aggregateId record)) (\<lambda>key.
     bind_result (decrypt crypto payloadCiphertext key
         (buildEventAad (sr_aggregateType record) (sr_aggregateId record) (sr_version record))) (\<lambda>plaintext.
     bind_result (decodeEventEnvelope plaintext) (\<lambda>envelope.
     if meta_eventId (env_meta envelope) \<noteq> eventId then Inl (Error ''EventId mismatch'')
     else
       bind_result (buffer_nullable env (sr_scopeStateRef record)) (\<lambda>scopeStateRefBytes.
       bind_result (buffer_nullable env (sr_signature record)) (\<lambda>signatureBytes.
       Inr \<lparr>row_id = eventId, row_aggregate_type = sr_aggregateType record,
         row_aggregate_id = sr_aggregateId record,
         row_event_type = meta_eventType (env_meta envelope),
         row_payload_encrypted = payloadCiphertext, row_version = sr_version record,
         row_occurred_at = meta_occurredAt (env_meta envelope),
         row_actor_id = meta_actorId (env_meta envelope),
         row_causation_id = meta_causationId (env_meta envelope),
         row_correlation_id = meta_correlationId (env_meta envelope),
         row_scope_id = sr_scopeId record, row_resource_id = sr_resourceId record,
         row_resource_key_id = sr_resourceKeyId record, row_grant_id = sr_grantId record,
         row_scope_state_ref = scopeStateRefBytes,
         row_author_device_id = sr_authorDeviceId record, row_sig_suite = sr_sigSuite record,
         row_signature = signatureBytes, row_commit_sequence = 0\<rparr>)))))))"

lemma materialize_id: "materializeRemoteEvent env c rk i j = Inr r \<Longrightarrow> row_id r = i"
  by (auto simp: materializeRemoteEvent_def bind_result_eq_Inr split: if_splits)

lemma buffer_nullable_url_text:
  "has_Buffer env \<or> b = None \<Longrightarrow> b \<noteq> Some [] \<Longrightarrow> buffer_nullable env (map_option url_text b) = Inr b"
  by (cases b) (auto simp: buffer_nullable_def buffer_from_url_text)

text \<open>The row's columns agree with the envelope inside its ciphertext.\<close>

definition row_envelope_ok :: "event_row \<Rightarrow> event_envelope \<Rightarrow> bool" where
  "row_envelope_ok r e \<longleftrightarrow> envelope_ok e \<and>
     env_meta e = \<lparr>meta_eventId = row_id r, meta_eventType = row_event_type r,
       meta_occurredAt = row_occurred_at r, meta_actorId = row_actor_id r,
       meta_causationId = row_causation_id r, meta_correlationId = row_correlation_id r\<rparr>"

lemma materialize_toRecordJson:
  assumes "env_ok env" and "env_ok env'" and "row_envelope_ok r e"
    and "rk (row_aggregate_id r) = Inr k"
    and "decrypt c (row_payload_encrypted r) k
           (buildEventAad (row_aggregate_type r) (row_aggregate_id r) (row_version r))
         = Inr (encodeEventEnvelope e)"
    and "has_Buffer env' \<or> (row_scope_state_ref r = None \<and> row_signature r = None)"
    and "row_scope_state_ref r \<noteq> Some []" and "row_signature r \<noteq> Some []"
  shows "bind_result (toSyncRecord env r)
           (\<lambda>record. materializeRemoteEvent env' c rk (row_id r) (toRecordJson record))
         = Inr (r\<lparr>row_commit_sequence := 0\<rparr>)"
proof -
  have "buffer_nullable env' (map_option url_text (row_scope_state_ref r)) = Inr (row_scope_state_ref r)"
    "buffer_nullable env' (map_option url_text (row_signature r)) = Inr (row_signature r)"
    using assms(6-8) by (auto intro: buffer_nullable_url_text)
  then show ?thesis
    using assms(1-5)
    by (simp add: toSyncRecord_eq materializeRemoteEvent_def parse_toRecordJson decodeRecordPayload_def
        decode_url_text decode_encodeEventEnvelope row_envelope_ok_def)
qed

end
