(* ===== verification/PendingRewriter.thy ===== *)
theory PendingRewriter
  imports LocalDb Crypto
begin

text \<open>
  packages/infrastructure/src/sync/PendingEventVersionRewriter.ts: when a remote event takes a
  per-aggregate version that a local, not yet synced event holds, every pending event of the
  aggregate from that version on is shifted up by one, re-encrypted because the version is part
  of the additional authenticated data. The statements run between \<open>BEGIN\<close> and \<open>COMMIT\<close>;
  on an error the transaction is rolled back, so an \<open>Inl\<close> result means an unchanged
  database. Key resolution (\<open>KeyringManager.resolveKeyForEvent\<close>) is the argument
  \<open>resolveKey\<close>, a function of the aggregate id as in the code.
\<close>

record rewrite_result =
  rw_aggregateType :: string
  rw_aggregateId :: string
  rw_fromVersionInclusive :: int
  rw_shiftedCount :: nat
  rw_oldMaxVersion :: "int option"
  rw_newMaxVersion :: "int option"

definition pending_from :: "string \<Rightarrow> string \<Rightarrow> int \<Rightarrow> local_db \<Rightarrow> event_row list" where
  "pending_from t a v db =
     sort_key (\<lambda>r. - row_version r)
       (filter (\<lambda>r. row_aggregate_type r = t \<and> row_aggregate_id r = a \<and> v \<le> row_version r
                    \<and> \<not> is_synced db (row_id r)) (db_events db))"

definition rewrite_row ::
  "crypto_port \<Rightarrow> (string \<Rightarrow> bytes result) \<Rightarrow> event_row \<Rightarrow> local_db \<times> nat \<Rightarrow> (local_db \<times> nat) result" where
  "rewrite_row crypto resolveKey row st =
     (case st of (db, draws) \<Rightarrow>
        let nextVersion = row_version row + 1 in
        bind_result (resolveKey (row_aggregate_id row)) (\<lambda>key.
        bind_result (decrypt crypto (row_payload_encrypted row) key
            (buildEventAad (row_aggregate_type row) (row_aggregate_id row) (row_version row))) (\<lambda>plaintext.
        bind_result (encrypt crypto draws plaintext key
            (buildEventAad (row_aggregate_type row) (row_aggregate_id row) nextVersion)) (\<lambda>rewritten.
        bind_result (update_event_version (row_id row) nextVersion rewritten db) (\<lambda>db'.
        Inr (db', draws + 1))))))"

definition rewritePendingVersions ::
  "crypto_port \<Rightarrow> (string \<Rightarrow> bytes result) \<Rightarrow> string \<Rightarrow> string \<Rightarrow> int \<Rightarrow> local_db \<times> nat
     \<Rightarrow> ((local_db \<times> nat) \<times> rewrite_result) result" where
  "rewritePendingVersions crypto resolveKey t a v st =
     (let pending = pending_from t a v (fst st);
          oldMaxVersion = (case pending of [] \<Rightarrow> None | r # _ \<Rightarrow> Some (row_version r))
      in bind_result (fold_result (rewrite_row crypto resolveKey) pending st) (\<lambda>(db', draws').
         Inr ((delete_snapshots t a db', draws'),
              \<lparr>rw_aggregateType = t, rw_aggregateId = a, rw_fromVersionInclusive = v,
               rw_shiftedCount = length pending, rw_oldMaxVersion = oldMaxVersion,
               rw_newMaxVersion = map_option (\<lambda>m. m + 1) oldMaxVersion\<rparr>)))"

subsection \<open>What one rewrite does to a row\<close>

text \<open>The row after the shift: one version up, the same plaintext under the new version's data.\<close>

definition shifted_row :: "crypto_port \<Rightarrow> (string \<Rightarrow> bytes result) \<Rightarrow> event_row \<Rightarrow> event_row \<Rightarrow> bool" where
  "shifted_row crypto resolveKey r r' \<longleftrightarrow>
     r' = r\<lparr>row_version := row_version r + 1, row_payload_encrypted := row_payload_encrypted r'\<rparr> \<and>
     (\<exists>k p n. resolveKey (row_aggregate_id r) = Inr k \<and>
        decrypt crypto (row_payload_encrypted r) k
          (buildEventAad (row_aggregate_type r) (row_aggregate_id r) (row_version r)) = Inr p \<and>
        encrypt crypto n p k
          (buildEventAad (row_aggregate_type r) (row_aggregate_id r) (row_version r + 1))
          = Inr (row_payload_encrypted r'))"

lemma shifted_row_frame:
  assumes "shifted_row c rk r r'"
  shows "row_id r' = row_id r" "row_aggregate_type r' = row_aggregate_type r"
    "row_aggregate_id r' = row_aggregate_id r" "row_version r' = row_version r + 1"
    "row_commit_sequence r' = row_commit_sequence r"
proof -
  obtain v where r': "r' = r\<lparr>row_version := row_version r + 1, row_payload_encrypted := v\<rparr>"
    using assms unfolding shifted_row_def by blast
  show "row_id r' = row_id r" "row_aggregate_type r' = row_aggregate_type r"
    "row_aggregate_id r' = row_aggregate_id r" "row_version r' = row_version r + 1"
    "row_commit_sequence r' = row_commit_sequence r"
    by (simp_all add: r')
qed

lemma rewrite_row_Inr:
  assumes "rewrite_row c rk x (db, n) = Inr (db', n')"
  shows "\<exists>p. db' = db\<lparr>db_events := map (set_version (row_id x) (row_version x + 1) p) (db_events db)\<rparr>
     \<and> distinct (map row_key (db_events db'))
     \<and> shifted_row c rk x (set_version (row_id x) (row_version x + 1) p x)"
  using assms
  by (auto simp: rewrite_row_def Let_def bind_result_eq_Inr update_event_version_def shifted_row_def
        set_version_def split: if_splits)

subsection \<open>What the loop does to the table\<close>

lemma rewrite_rows_effect:
  assumes "fold_result (rewrite_row c rk) xs (db, n) = Inr (db', n')"
    and "distinct (map row_id (db_events db))" and "distinct (map row_id xs)"
    and "set xs \<subseteq> set (db_events db)"
  shows "db' = db\<lparr>db_events := db_events db'\<rparr> \<and>
     list_all2 (\<lambda>r r'. if row_id r \<in> row_id ` set xs then shifted_row c rk r r' else r' = r)
       (db_events db) (db_events db')"
  using assms
proof (induction xs arbitrary: db n)
  case Nil
  then show ?case by (simp add: list.rel_refl)
next
  case (Cons x xs)
  from Cons.prems(1) obtain db1 n1 where step: "rewrite_row c rk x (db, n) = Inr (db1, n1)"
    and rest: "fold_result (rewrite_row c rk) xs (db1, n1) = Inr (db', n')"
    by (auto split: sum.splits)
  obtain p where db1: "db1 = db\<lparr>db_events := map (set_version (row_id x) (row_version x + 1) p) (db_events db)\<rparr>"
    and shift: "shifted_row c rk x (set_version (row_id x) (row_version x + 1) p x)"
    using rewrite_row_Inr [OF step] by blast
  let ?f = "set_version (row_id x) (row_version x + 1) p"
  have "row_id \<circ> ?f = row_id" by auto
  then have ids: "distinct (map row_id (db_events db1))" using Cons.prems(2) db1 by simp
  have "set xs \<subseteq> set (db_events db1)"
  proof
    fix y assume y: "y \<in> set xs"
    then have "row_id y \<noteq> row_id x" using Cons.prems(3) by (auto simp: image_iff)
    then have "?f y = y" by (simp add: set_version_def)
    with y Cons.prems(4) db1 show "y \<in> set (db_events db1)" by force
  qed
  then have IH: "db' = db1\<lparr>db_events := db_events db'\<rparr>"
    "list_all2 (\<lambda>r r'. if row_id r \<in> row_id ` set xs then shifted_row c rk r r' else r' = r)
       (db_events db1) (db_events db')"
    using Cons.IH [OF rest ids] Cons.prems(3) by auto
  have x_eq: "r = x" if "r \<in> set (db_events db)" "row_id r = row_id x" for r
    using that Cons.prems(2,4) by (auto intro: map_inj_on_eq)
  have "list_all2 (\<lambda>r r'. if row_id (?f r) \<in> row_id ` set xs then shifted_row c rk (?f r) r' else r' = ?f r)
       (db_events db) (db_events db')"
    using IH(2) db1 by (simp add: list_all2_map1)
  then have "list_all2 (\<lambda>r r'. if row_id r \<in> row_id ` set (x # xs) then shifted_row c rk r r' else r' = r)
       (db_events db) (db_events db')"
  proof (rule list.rel_mono_strong)
    fix r r' assume r: "r \<in> set (db_events db)"
      and h: "if row_id (?f r) \<in> row_id ` set xs then shifted_row c rk (?f r) r' else r' = ?f r"
    show "if row_id r \<in> row_id ` set (x # xs) then shifted_row c rk r r' else r' = r"
    proof (cases "row_id r = row_id x")
      case True
      then have "r = x" using r x_eq by blast
      moreover have "row_id x \<notin> row_id ` set xs" using Cons.prems(3) by auto
      ultimately show ?thesis using h shift by simp
    next
      case False
      then show ?thesis using h by (auto simp: set_version_def)
    qed
  qed
  with IH(1) db1 show ?case by simp
qed

definition in_shift :: "local_db \<Rightarrow> string \<Rightarrow> string \<Rightarrow> int \<Rightarrow> event_row \<Rightarrow> bool" where
  "in_shift db t a v r \<longleftrightarrow> row_aggregate_type r = t \<and> row_aggregate_id r = a \<and> v \<le> row_version r
     \<and> \<not> is_synced db (row_id r)"

lemma set_pending_from: "set (pending_from t a v db) = {r \<in> set (db_events db). in_shift db t a v r}"
  by (auto simp: pending_from_def in_shift_def)

lemma distinct_pending_from: "db_wf db \<Longrightarrow> distinct (map row_id (pending_from t a v db))"
proof -
  assume "db_wf db"
  then have d: "distinct (map row_id (db_events db))" by (rule db_wfD)
  then have "inj_on row_id (set (db_events db))" and "distinct (db_events db)"
    by (auto simp: distinct_map)
  then show ?thesis
    by (auto simp: distinct_map pending_from_def intro: inj_on_subset)
qed

lemma id_in_pending_from:
  assumes "db_wf db" and "r \<in> set (db_events db)"
  shows "row_id r \<in> row_id ` set (pending_from t a v db) \<longleftrightarrow> in_shift db t a v r"
  using assms map_inj_on_eq [OF db_wfD(1) [OF assms(1)]] by (auto simp: set_pending_from)

lemma rewrite_row_wf: "rewrite_row c rk x st = Inr st' \<Longrightarrow> db_wf (fst st) \<Longrightarrow> db_wf (fst st')"
  by (auto simp: rewrite_row_def Let_def bind_result_eq_Inr split: prod.splits intro: db_wf_update_version)

lemma rewrite_effect:
  assumes wf: "db_wf db"
    and ok: "rewritePendingVersions c rk t a v (db, n) = Inr ((db', n'), res)"
  shows "list_all2 (\<lambda>r r'. if in_shift db t a v r then shifted_row c rk r r' else r' = r)
           (db_events db) (db_events db')"
    and "db_sync_event_map db' = db_sync_event_map db" and "db_sync_meta db' = db_sync_meta db"
    and "db_snapshots db' = filter (\<lambda>s. \<not> (snap_aggregate_type s = t \<and> snap_aggregate_id s = a)) (db_snapshots db)"
    and "db_wf db'"
proof -
  let ?xs = "pending_from t a v db"
  from ok obtain db1 where run: "fold_result (rewrite_row c rk) ?xs (db, n) = Inr (db1, n')"
    and db': "db' = delete_snapshots t a db1"
    by (auto simp: rewritePendingVersions_def Let_def bind_result_eq_Inr)
  have eff: "db1 = db\<lparr>db_events := db_events db1\<rparr>"
    "list_all2 (\<lambda>r r'. if row_id r \<in> row_id ` set ?xs then shifted_row c rk r r' else r' = r)
       (db_events db) (db_events db1)"
    using rewrite_rows_effect [OF run db_wfD(1) [OF wf] distinct_pending_from [OF wf]]
    by (auto simp: set_pending_from)
  have "list_all2 (\<lambda>r r'. if in_shift db t a v r then shifted_row c rk r r' else r' = r)
       (db_events db) (db_events db1)"
    using eff(2) by (rule list.rel_mono_strong) (simp add: id_in_pending_from [OF wf])
  then show "list_all2 (\<lambda>r r'. if in_shift db t a v r then shifted_row c rk r r' else r' = r)
           (db_events db) (db_events db')"
    by (simp add: db' delete_snapshots_def)
  have frame: "db_sync_event_map db1 = db_sync_event_map db" "db_sync_meta db1 = db_sync_meta db"
    "db_snapshots db1 = db_snapshots db"
    by (subst eff(1), simp)+
  then show "db_sync_event_map db' = db_sync_event_map db" "db_sync_meta db' = db_sync_meta db"
    "db_snapshots db' = filter (\<lambda>s. \<not> (snap_aggregate_type s = t \<and> snap_aggregate_id s = a)) (db_snapshots db)"
    by (simp_all add: db' delete_snapshots_def)
  have "db_wf (fst (db1, n'))"
    using run by (rule fold_result_invariant [where P = "\<lambda>st. db_wf (fst st)"])
      (use wf in \<open>auto dest: rewrite_row_wf\<close>)
  then show "db_wf db'" by (auto simp: db')
qed

lemma rewrite_same_synced:
  "db_wf db \<Longrightarrow> rewritePendingVersions c rk t a v (db, n) = Inr ((db', n'), res) \<Longrightarrow>
     is_synced db' = is_synced db"
  using rewrite_effect(2) by (fastforce simp: is_synced_def)

lemma list_all2_memD: "list_all2 P xs ys \<Longrightarrow> y \<in> set ys \<Longrightarrow> \<exists>x \<in> set xs. P x y"
  by (induction rule: list_all2_induct) auto

lemma list_all2_memD1: "list_all2 P xs ys \<Longrightarrow> x \<in> set xs \<Longrightarrow> \<exists>y \<in> set ys. P x y"
  by (induction rule: list_all2_induct) auto

subsection \<open>The rewrite frees the version it was asked for\<close>

lemma rewrite_frees_version:
  assumes wf: "db_wf db"
    and ok: "rewritePendingVersions c rk t a v (db, n) = Inr ((db', n'), res)"
    and occ: "occupying_row db t a v = Some r" and pend: "\<not> is_synced db (row_id r)"
  shows "occupying_row db' t a v = None"
proof (rule ccontr)
  assume "occupying_row db' t a v \<noteq> None"
  then obtain y where "occupying_row db' t a v = Some y" by blast
  then have y: "y \<in> set (db_events db')" "row_key y = (t, a, v)"
    using occupying_row_Some by blast+
  obtain x where x: "x \<in> set (db_events db)"
    and xy: "if in_shift db t a v x then shifted_row c rk x y else y = x"
    using list_all2_memD [OF rewrite_effect(1) [OF wf ok] y(1)] by blast
  show False
  proof (cases "in_shift db t a v x")
    case True
    then have "row_version y = row_version x + 1" using xy shifted_row_frame(4) by auto
    with True y(2) show False by (simp add: in_shift_def row_key_def)
  next
    case False
    then have "row_key x = (t, a, v)" using xy y(2) by simp
    moreover have "r \<in> set (db_events db)" "row_key r = (t, a, v)"
      using occupying_row_Some [OF occ] by blast+
    ultimately have "x = r" using map_inj_on_eq [OF db_wfD(2) [OF wf]] x by metis
    with False pend show False using \<open>row_key r = (t, a, v)\<close> by (simp add: in_shift_def row_key_def)
  qed
qed

subsection \<open>The rewrite succeeds\<close>

lemma distinct_keys_set_version:
  assumes "distinct (map row_id rs)" and "distinct (map row_key rs)"
    and "\<And>r. r \<in> set rs \<Longrightarrow> row_id r = i \<Longrightarrow> row_aggregate_type r = t \<and> row_aggregate_id r = a"
    and "(t, a, v) \<notin> row_key ` set rs"
  shows "distinct (map row_key (map (set_version i v p) rs))"
  using assms
proof (induction rs)
  case Nil
  then show ?case by simp
next
  case (Cons r rs)
  have IH: "distinct (map row_key (map (set_version i v p) rs))" using Cons by auto
  show ?case
  proof (cases "row_id r = i")
    case True
    then have "map (set_version i v p) rs = rs"
      using Cons.prems(1) by (intro map_idI) (auto simp: set_version_def image_iff)
    moreover have "row_aggregate_type r = t \<and> row_aggregate_id r = a"
      using Cons.prems(3) [of r] True by simp
    then have "row_key (set_version i v p r) = (t, a, v)"
      using True by (simp add: row_key_def set_version_def)
    ultimately show ?thesis using Cons.prems(2,4) by simp
  next
    case False
    have "row_key (set_version i v p x) \<noteq> row_key r" if x: "x \<in> set rs" for x
    proof (cases "row_id x = i")
      case True
      then have "row_aggregate_type x = t \<and> row_aggregate_id x = a"
        using Cons.prems(3) [of x] x by simp
      with True have "row_key (set_version i v p x) = (t, a, v)"
        by (simp add: row_key_def set_version_def)
      then show ?thesis using Cons.prems(4) by simp
    next
      case False
      then have "set_version i v p x = x" by (simp add: set_version_def)
      then show ?thesis using Cons.prems(2) x by (metis distinct.simps(2) image_eqI list.simps(9) set_map)
    qed
    then have "row_key r \<notin> row_key ` set_version i v p ` set rs" by (metis imageE)
    then show ?thesis using IH False by (simp add: set_version_def [of i v p r] image_image)
  qed
qed

text \<open>
  What the loop needs of the rows still to do: they are rows of the aggregate in strictly
  descending version order, the slot above each is free or belongs to one of them, and each
  can be decrypted.
\<close>

definition ready :: "crypto_port \<Rightarrow> (string \<Rightarrow> bytes result) \<Rightarrow> string \<Rightarrow> string \<Rightarrow> event_row list \<Rightarrow> local_db \<Rightarrow> bool" where
  "ready c rk t a xs db \<longleftrightarrow>
     distinct (map row_id (db_events db)) \<and> distinct (map row_key (db_events db)) \<and>
     distinct (map row_id xs) \<and> set xs \<subseteq> set (db_events db) \<and>
     sorted_wrt (\<lambda>x y. row_version y < row_version x) xs \<and>
     (\<forall>x \<in> set xs. row_aggregate_type x = t \<and> row_aggregate_id x = a \<and>
        (\<forall>r \<in> set (db_events db). row_key r = (t, a, row_version x + 1) \<longrightarrow> r \<in> set xs) \<and>
        (\<exists>k p. rk a = Inr k \<and> decrypt c (row_payload_encrypted x) k
                 (buildEventAad t a (row_version x)) = Inr p))"

lemma ready_step:
  assumes ready: "ready c rk t a (x # xs) db"
    and total: "\<And>n p k d. \<exists>y. encrypt c n p k d = Inr y"
  shows "\<exists>db1. rewrite_row c rk x (db, n) = Inr (db1, n + 1) \<and> ready c rk t a xs db1"
proof -
  have x: "row_aggregate_type x = t" "row_aggregate_id x = a" "x \<in> set (db_events db)"
    "distinct (map row_id (db_events db))"
    using ready by (auto simp: ready_def)
  obtain k p where kp: "rk a = Inr k"
    "decrypt c (row_payload_encrypted x) k (buildEventAad t a (row_version x)) = Inr p"
    using ready by (auto simp: ready_def)
  obtain q where q: "encrypt c n p k (buildEventAad t a (row_version x + 1)) = Inr q"
    using total by blast
  let ?f = "set_version (row_id x) (row_version x + 1) q"
  let ?db = "db\<lparr>db_events := map ?f (db_events db)\<rparr>"
  have free: "(t, a, row_version x + 1) \<notin> row_key ` set (db_events db)"
  proof
    assume "(t, a, row_version x + 1) \<in> row_key ` set (db_events db)"
    then obtain r where r: "r \<in> set (db_events db)" "row_key r = (t, a, row_version x + 1)" by force
    then have "r \<in> set (x # xs)" using ready by (simp add: ready_def)
    then have "row_version r \<le> row_version x" using ready by (auto simp: ready_def)
    then show False using r(2) by (simp add: row_key_def)
  qed
  have own: "r = x" if "r \<in> set (db_events db)" "row_id r = row_id x" for r
    using that x by (auto intro: map_inj_on_eq)
  have "distinct (map row_key (db_events db))" using ready by (simp add: ready_def)
  then have keys: "distinct (map row_key (map ?f (db_events db)))"
    using own x(1,2) by (intro distinct_keys_set_version [OF x(4) _ _ free]) auto
  then have run: "rewrite_row c rk x (db, n) = Inr (?db, n + 1)"
    using kp q x by (simp add: rewrite_row_def update_event_version_def)
  have same: "?f y = y" if "y \<in> set xs" for y
  proof -
    have "row_id x \<notin> row_id ` set xs" using ready by (simp add: ready_def)
    then have "row_id y \<noteq> row_id x" using that by (metis image_eqI)
    then show ?thesis by (simp add: set_version_def)
  qed
  have "row_id \<circ> ?f = row_id" by auto
  then have ids: "distinct (map row_id (db_events ?db))" using x by simp
  have sub: "set xs \<subseteq> set (db_events ?db)"
  proof
    fix y assume "y \<in> set xs"
    then have "?f y \<in> ?f ` set (db_events db)" using ready by (simp add: ready_def subset_iff)
    then show "y \<in> set (db_events ?db)" using same [OF \<open>y \<in> set xs\<close>] by simp
  qed
  have slot: "?f r \<in> set xs" if "y \<in> set xs" "r \<in> set (db_events db)"
    "row_key (?f r) = (t, a, row_version y + 1)" for y r
  proof (cases "row_id r = row_id x")
    case True
    then have "row_version y = row_version x" using that(3) by (simp add: set_version_def row_key_def)
    then show ?thesis using ready that(1) by (auto simp: ready_def)
  next
    case False
    then have "?f r = r" by (simp add: set_version_def)
    moreover have "r \<in> set (x # xs)"
      using ready that calculation by (auto simp: ready_def)
    ultimately show ?thesis using False by auto
  qed
  have "ready c rk t a xs ?db"
    unfolding ready_def using ready ids keys sub slot by (auto simp: ready_def)
  with run show ?thesis by blast
qed

lemma ready_run:
  assumes "ready c rk t a xs db" and "\<And>n p k d. \<exists>y. encrypt c n p k d = Inr y"
  shows "\<exists>db'. fold_result (rewrite_row c rk) xs (db, n) = Inr (db', n + length xs)"
  using assms(1)
proof (induction xs arbitrary: db n)
  case (Cons x xs)
  then obtain db1 where "rewrite_row c rk x (db, n) = Inr (db1, n + 1)" "ready c rk t a xs db1"
    using ready_step [OF _ assms(2)] by blast
  then show ?case using Cons.IH [of db1 "n + 1"] by simp
qed simp

lemma sorted_pending_from:
  assumes wf: "db_wf db"
  shows "sorted_wrt (\<lambda>x y. row_version y < row_version x) (pending_from t a v db)"
proof -
  let ?p = "pending_from t a v db"
  have "sorted (map (\<lambda>r. - row_version r) ?p)" by (simp add: pending_from_def)
  then have le: "sorted_wrt (\<lambda>x y. row_version y \<le> row_version x) ?p"
    by (simp add: sorted_map)
  have key: "row_version x \<noteq> row_version y" if "x \<in> set ?p" "y \<in> set ?p" "x \<noteq> y" for x y
    using that map_inj_on_eq [OF db_wfD(2) [OF wf], of x y]
    by (auto simp: set_pending_from in_shift_def row_key_def)
  have "distinct ?p" using distinct_pending_from [OF wf] by (simp add: distinct_map)
  then have "sorted_wrt (\<lambda>x y. row_version y \<le> row_version x \<and> x \<noteq> y) ?p"
    using le by (simp add: sorted_wrt_iff_nth_less distinct_conv_nth)
  then show ?thesis
    by (rule sorted_wrt_mono_rel [rotated]) (metis key order_le_less)
qed

lemma rewrite_total:
  assumes wf: "db_wf db"
    and slots: "\<And>x y. x \<in> set (db_events db) \<Longrightarrow> y \<in> set (db_events db) \<Longrightarrow> in_shift db t a v x \<Longrightarrow>
       row_key y = (t, a, row_version x + 1) \<Longrightarrow> \<not> is_synced db (row_id y)"
    and key: "rk a = Inr k"
    and readable: "\<And>x. x \<in> set (db_events db) \<Longrightarrow> in_shift db t a v x \<Longrightarrow>
       \<exists>p. decrypt c (row_payload_encrypted x) k (buildEventAad t a (row_version x)) = Inr p"
    and total: "\<And>n p k d. \<exists>y. encrypt c n p k d = Inr y"
  shows "\<exists>st res. rewritePendingVersions c rk t a v (db, n) = Inr (st, res)"
proof -
  have "ready c rk t a (pending_from t a v db) db"
    unfolding ready_def
  proof (intro conjI ballI impI)
    fix x r assume x: "x \<in> set (pending_from t a v db)" and r: "r \<in> set (db_events db)"
      and k: "row_key r = (t, a, row_version x + 1)"
    have "\<not> is_synced db (row_id r)" using slots [OF _ r _ k] x by (simp add: set_pending_from)
    then show "r \<in> set (pending_from t a v db)"
      using x r k by (simp add: set_pending_from in_shift_def row_key_def)
  next
    fix x assume "x \<in> set (pending_from t a v db)"
    then show "\<exists>k p. rk a = Inr k \<and>
        decrypt c (row_payload_encrypted x) k (buildEventAad t a (row_version x)) = Inr p"
      using key readable by (simp add: set_pending_from)
  qed (use db_wfD(1,2) [OF wf] distinct_pending_from [OF wf] sorted_pending_from [OF wf] in
      \<open>auto simp: set_pending_from in_shift_def\<close>)
  from ready_run [OF this total] obtain db' where
    "fold_result (rewrite_row c rk) (pending_from t a v db) (db, n) = Inr (db', n + length (pending_from t a v db))"
    by blast
  then show ?thesis by (simp add: rewritePendingVersions_def Let_def)
qed

subsection \<open>Properties\<close>

text \<open>The plaintext of a row, decrypted the way every reader of the local store does it.\<close>

definition row_plaintext :: "crypto_port \<Rightarrow> (string \<Rightarrow> bytes result) \<Rightarrow> event_row \<Rightarrow> bytes result" where
  "row_plaintext c rk r = bind_result (rk (row_aggregate_id r)) (\<lambda>k.
     decrypt c (row_payload_encrypted r) k
       (buildEventAad (row_aggregate_type r) (row_aggregate_id r) (row_version r)))"

lemma shifted_row_plaintext:
  assumes "aead_ok c" and "shifted_row c rk r r'"
  shows "row_plaintext c rk r' = row_plaintext c rk r"
proof -
  from assms(2) obtain k p n where k: "rk (row_aggregate_id r) = Inr k"
    "decrypt c (row_payload_encrypted r) k
       (buildEventAad (row_aggregate_type r) (row_aggregate_id r) (row_version r)) = Inr p"
    "encrypt c n p k (buildEventAad (row_aggregate_type r) (row_aggregate_id r) (row_version r + 1))
       = Inr (row_payload_encrypted r')"
    unfolding shifted_row_def by blast
  then have "decrypt c (row_payload_encrypted r') k
      (buildEventAad (row_aggregate_type r) (row_aggregate_id r) (row_version r + 1)) = Inr p"
    using decrypt_encrypt [OF assms(1)] by blast
  with k show ?thesis by (simp add: row_plaintext_def shifted_row_frame [OF assms(2)])
qed

end
