(* ===== verification/SharingServer.thy ===== *)
theory SharingServer
  imports Json
begin

text \<open>
  The sharing side of the API server (apps/api/src/sharing): scope states, resource grants and
  key-vault records are three append-only streams with the same discipline. An append names the
  head it was computed against; it is refused unless that head is current, unless the record's
  \<open>prevHash\<close> is the hash of the head record, and it then takes the next sequence number.
  The tables and their unique indexes are those of the migrations
  (infrastructure/migrations/sharing); a repository method is one transaction, so \<open>Inl\<close>
  means that nothing was written.
\<close>

datatype sharing_error = StreamHeadMismatch int int | SharingError string

type_synonym 'a sharing_result = "sharing_error + 'a"

text \<open>\<open>SequenceNumber.from\<close>, \<open>zero\<close> and \<open>increment\<close>; a bigint is an \<open>int\<close>.\<close>

definition SequenceNumber_from :: "int \<Rightarrow> int sharing_result" where
  "SequenceNumber_from n =
     (if n < 0 then Inl (SharingError ''SequenceNumber must be non-negative'') else Inr n)"

record scope_state_row =
  ss_scope_id :: string
  ss_seq :: int
  ss_prev_hash :: "bytes option"
  ss_ref :: bytes
  ss_owner_user_id :: string
  ss_epoch :: int
  ss_signed_record_cbor :: bytes
  ss_members :: json
  ss_signers :: json
  ss_sig_suite :: string
  ss_signature :: bytes

record scope_head_row =
  sh_owner_user_id :: string
  sh_head_seq :: int
  sh_head_ref :: "bytes option"

datatype grant_status = GrantActive | GrantRevoked

record grant_row =
  gr_grant_id :: string
  gr_scope_id :: string
  gr_resource_id :: string
  gr_seq :: int
  gr_prev_hash :: "bytes option"
  gr_hash :: bytes
  gr_scope_state_ref :: bytes
  gr_epoch :: int
  gr_resource_key_id :: string
  gr_wrapped_key :: bytes
  gr_policy :: "json option"
  gr_status :: grant_status
  gr_signed_grant_cbor :: bytes
  gr_sig_suite :: string
  gr_signature :: bytes

record grant_head_row =
  gh_active_grant_id :: string
  gh_head_seq :: int
  gh_head_hash :: bytes

record envelope_row =
  en_envelope_id :: string
  en_scope_id :: string
  en_recipient_user_id :: string
  en_epoch :: int
  en_fingerprint :: bytes
  en_ciphersuite :: string
  en_ciphertext :: bytes
  en_metadata :: "json option"

record vault_row =
  va_user_id :: string
  va_seq :: int
  va_prev_hash :: "bytes option"
  va_hash :: bytes
  va_ciphertext :: bytes
  va_metadata :: "json option"

record vault_head_row =
  vh_head_seq :: int
  vh_head_hash :: "bytes option"

record sharing_db =
  scope_states :: "scope_state_row list"
  scope_state_heads :: "string \<rightharpoonup> scope_head_row"
  resource_grants :: "grant_row list"
  resource_grant_heads :: "string \<times> string \<rightharpoonup> grant_head_row"
  key_envelopes :: "envelope_row list"
  keyvault_records :: "vault_row list"
  keyvault_heads :: "string \<rightharpoonup> vault_head_row"

definition empty_sharing_db :: sharing_db where
  "empty_sharing_db =
     \<lparr>scope_states = [], scope_state_heads = Map.empty, resource_grants = [],
      resource_grant_heads = Map.empty, key_envelopes = [], keyvault_records = [],
      keyvault_heads = Map.empty\<rparr>"

subsection \<open>Scope states\<close>

text \<open>The input of an append: the row without its scope id and sequence number.\<close>

record scope_state_input =
  si_prevHash :: "bytes option"
  si_scopeStateRef :: bytes
  si_ownerUserId :: string
  si_scopeEpoch :: int
  si_signedRecordCbor :: bytes
  si_members :: json
  si_signers :: json
  si_sigSuite :: string
  si_signature :: bytes

definition scope_getHeadSeq :: "string \<Rightarrow> sharing_db \<Rightarrow> int sharing_result" where
  "scope_getHeadSeq scopeId db =
     (case scope_state_heads db scopeId of Some h \<Rightarrow> SequenceNumber_from (sh_head_seq h) | None \<Rightarrow> Inr 0)"

definition scope_getHeadRef :: "string \<Rightarrow> sharing_db \<Rightarrow> bytes option" where
  "scope_getHeadRef scopeId db =
     (case scope_state_heads db scopeId of Some h \<Rightarrow> sh_head_ref h | None \<Rightarrow> None)"

text \<open>The hash-chain check common to the three streams; \<open>what\<close> names the column in the message.\<close>

definition check_chain :: "string \<Rightarrow> int \<Rightarrow> bytes option \<Rightarrow> bytes option \<Rightarrow> unit sharing_result" where
  "check_chain what expectedHead head_hash prevHash =
     (if 0 < expectedHead then
        (case prevHash of
           None \<Rightarrow> Inl (SharingError ''prevHash required for non-genesis append'')
         | Some p \<Rightarrow>
             (case head_hash of
                None \<Rightarrow> Inl (SharingError (what @ '' missing for non-genesis stream''))
              | Some h \<Rightarrow>
                  if h \<noteq> p then Inl (SharingError (''prevHash does not match current '' @ what))
                  else Inr ()))
      else if prevHash \<noteq> None then Inl (SharingError ''prevHash must be null for genesis append'')
      else Inr ())"

definition insert_scope_state :: "scope_state_row \<Rightarrow> sharing_db \<Rightarrow> sharing_db sharing_result" where
  "insert_scope_state r db =
     (if (ss_scope_id r, ss_seq r) \<in> (\<lambda>x. (ss_scope_id x, ss_seq x)) ` set (scope_states db)
      then Inl (SharingError ''duplicate key scope_states_unique_seq_idx'')
      else Inr (db\<lparr>scope_states := scope_states db @ [r]\<rparr>))"

definition appendState ::
  "string \<Rightarrow> int \<Rightarrow> scope_state_input \<Rightarrow> sharing_db \<Rightarrow> ((int \<times> bytes) \<times> sharing_db) sharing_result" where
  "appendState scopeId expectedHead state db =
     (let headRow = scope_state_heads db scopeId in
      bind_result (scope_getHeadSeq scopeId db) (\<lambda>currentHead.
      if currentHead \<noteq> expectedHead then Inl (StreamHeadMismatch currentHead expectedHead)
      else
        bind_result (check_chain ''head_ref'' expectedHead (Option.bind headRow sh_head_ref)
            (si_prevHash state)) (\<lambda>_.
        let nextSeq = currentHead + 1 in
        bind_result (insert_scope_state
            \<lparr>ss_scope_id = scopeId, ss_seq = nextSeq, ss_prev_hash = si_prevHash state,
             ss_ref = si_scopeStateRef state, ss_owner_user_id = si_ownerUserId state,
             ss_epoch = si_scopeEpoch state, ss_signed_record_cbor = si_signedRecordCbor state,
             ss_members = si_members state, ss_signers = si_signers state,
             ss_sig_suite = si_sigSuite state, ss_signature = si_signature state\<rparr> db) (\<lambda>db1.
        let owner = (case headRow of Some h \<Rightarrow> sh_owner_user_id h | None \<Rightarrow> si_ownerUserId state) in
        Inr ((nextSeq, si_scopeStateRef state),
             db1\<lparr>scope_state_heads := (scope_state_heads db1)(scopeId \<mapsto>
               \<lparr>sh_owner_user_id = owner, sh_head_seq = nextSeq,
                sh_head_ref = Some (si_scopeStateRef state)\<rparr>)\<rparr>)))))"

definition scope_loadSince :: "string \<Rightarrow> int \<Rightarrow> nat \<Rightarrow> sharing_db \<Rightarrow> scope_state_row list" where
  "scope_loadSince scopeId since limit db =
     take limit (sort_key ss_seq (filter (\<lambda>r. ss_scope_id r = scopeId \<and> since < ss_seq r) (scope_states db)))"

definition scope_loadByRef :: "bytes \<Rightarrow> sharing_db \<Rightarrow> scope_state_row option" where
  "scope_loadByRef ref db = find (\<lambda>r. ss_ref r = ref) (scope_states db)"

subsection \<open>Resource grants\<close>

record grant_input =
  gi_grantId :: string
  gi_resourceId :: string
  gi_prevHash :: "bytes option"
  gi_grantHash :: bytes
  gi_scopeStateRef :: bytes
  gi_scopeEpoch :: int
  gi_resourceKeyId :: string
  gi_wrappedKey :: bytes
  gi_policy :: "json option"
  gi_status :: grant_status
  gi_signedGrantCbor :: bytes
  gi_sigSuite :: string
  gi_signature :: bytes

text \<open>\<open>SELECT MAX(grant_seq) ... WHERE scope_id = ?\<close>, which is null when there is no row.\<close>

definition grant_getHeadSeq :: "string \<Rightarrow> sharing_db \<Rightarrow> int sharing_result" where
  "grant_getHeadSeq scopeId db =
     (case filter (\<lambda>r. gr_scope_id r = scopeId) (resource_grants db) of
        [] \<Rightarrow> Inr 0
      | r # rs \<Rightarrow> SequenceNumber_from (Max (set (map gr_seq (r # rs)))))"

definition insert_grant :: "grant_row \<Rightarrow> sharing_db \<Rightarrow> sharing_db sharing_result" where
  "insert_grant r db =
     (if gr_grant_id r \<in> gr_grant_id ` set (resource_grants db)
      then Inl (SharingError ''duplicate key resource_grants_grant_id_key'')
      else if (gr_scope_id r, gr_seq r) \<in> (\<lambda>x. (gr_scope_id x, gr_seq x)) ` set (resource_grants db)
      then Inl (SharingError ''duplicate key resource_grants_unique_seq_idx'')
      else Inr (db\<lparr>resource_grants := resource_grants db @ [r]\<rparr>))"

definition grant_chain_check :: "string \<Rightarrow> int \<Rightarrow> bytes option \<Rightarrow> sharing_db \<Rightarrow> unit sharing_result" where
  "grant_chain_check scopeId expectedHead prevHash db =
     check_chain ''grant_hash'' expectedHead
       (map_option gr_hash (find (\<lambda>r. gr_scope_id r = scopeId \<and> gr_seq r = expectedHead) (resource_grants db)))
       prevHash"

definition appendGrant ::
  "string \<Rightarrow> int \<Rightarrow> grant_input \<Rightarrow> sharing_db \<Rightarrow> ((int \<times> bytes) \<times> sharing_db) sharing_result" where
  "appendGrant scopeId expectedHead grant db =
     bind_result (grant_getHeadSeq scopeId db) (\<lambda>currentHead.
     if currentHead \<noteq> expectedHead then Inl (StreamHeadMismatch currentHead expectedHead)
     else
       bind_result (grant_chain_check scopeId expectedHead (gi_prevHash grant) db) (\<lambda>_.
       let nextSeq = currentHead + 1 in
       bind_result (insert_grant
           \<lparr>gr_grant_id = gi_grantId grant, gr_scope_id = scopeId, gr_resource_id = gi_resourceId grant,
            gr_seq = nextSeq, gr_prev_hash = gi_prevHash grant, gr_hash = gi_grantHash grant,
            gr_scope_state_ref = gi_scopeStateRef grant, gr_epoch = gi_scopeEpoch grant,
            gr_resource_key_id = gi_resourceKeyId grant, gr_wrapped_key = gi_wrappedKey grant,
            gr_policy = gi_policy grant, gr_status = gi_status grant,
            gr_signed_grant_cbor = gi_signedGrantCbor grant, gr_sig_suite = gi_sigSuite grant,
            gr_signature = gi_signature grant\<rparr> db) (\<lambda>db1.
       Inr ((nextSeq, gi_grantHash grant),
            if gi_status grant = GrantActive
            then db1\<lparr>resource_grant_heads := (resource_grant_heads db1)((scopeId, gi_resourceId grant) \<mapsto>
                   \<lparr>gh_active_grant_id = gi_grantId grant, gh_head_seq = nextSeq,
                    gh_head_hash = gi_grantHash grant\<rparr>)\<rparr>
            else db1))))"

definition grant_loadSince :: "string \<Rightarrow> int \<Rightarrow> nat \<Rightarrow> sharing_db \<Rightarrow> grant_row list" where
  "grant_loadSince scopeId since limit db =
     take limit (sort_key gr_seq (filter (\<lambda>r. gr_scope_id r = scopeId \<and> since < gr_seq r) (resource_grants db)))"

definition loadByGrantId :: "string \<Rightarrow> sharing_db \<Rightarrow> grant_row option" where
  "loadByGrantId grantId db = find (\<lambda>r. gr_grant_id r = grantId) (resource_grants db)"

definition getActiveGrant :: "string \<Rightarrow> string \<Rightarrow> sharing_db \<Rightarrow> grant_row option" where
  "getActiveGrant scopeId resourceId db =
     (case resource_grant_heads db (scopeId, resourceId) of
        None \<Rightarrow> None
      | Some h \<Rightarrow> loadByGrantId (gh_active_grant_id h) db)"

subsection \<open>Key envelopes\<close>

definition createEnvelope :: "envelope_row \<Rightarrow> sharing_db \<Rightarrow> sharing_db sharing_result" where
  "createEnvelope e db =
     (if en_envelope_id e \<in> en_envelope_id ` set (key_envelopes db)
      then Inl (SharingError ''duplicate key key_envelopes_envelope_id_key'')
      else if (en_scope_id e, en_recipient_user_id e, en_epoch e) \<in>
                (\<lambda>x. (en_scope_id x, en_recipient_user_id x, en_epoch x)) ` set (key_envelopes db)
      then Inl (SharingError ''duplicate key key_envelopes_unique_recipient_epoch_idx'')
      else Inr (db\<lparr>key_envelopes := key_envelopes db @ [e]\<rparr>))"

definition getEnvelopes :: "string \<Rightarrow> string \<Rightarrow> int option \<Rightarrow> sharing_db \<Rightarrow> envelope_row list" where
  "getEnvelopes scopeId recipientUserId scopeEpoch db =
     sort_key en_epoch (filter (\<lambda>e. en_scope_id e = scopeId \<and> en_recipient_user_id e = recipientUserId \<and>
       (case scopeEpoch of None \<Rightarrow> True | Some k \<Rightarrow> en_epoch e = k)) (key_envelopes db))"

subsection \<open>Key vault\<close>

record vault_input =
  vi_prevHash :: "bytes option"
  vi_recordHash :: bytes
  vi_ciphertext :: bytes
  vi_metadata :: "json option"

definition vault_getHeadSeq :: "string \<Rightarrow> sharing_db \<Rightarrow> int sharing_result" where
  "vault_getHeadSeq userId db =
     (case keyvault_heads db userId of Some h \<Rightarrow> SequenceNumber_from (vh_head_seq h) | None \<Rightarrow> Inr 0)"

definition vault_getHeadHash :: "string \<Rightarrow> sharing_db \<Rightarrow> bytes option" where
  "vault_getHeadHash userId db =
     (case keyvault_heads db userId of Some h \<Rightarrow> vh_head_hash h | None \<Rightarrow> None)"

definition insert_vault :: "vault_row \<Rightarrow> sharing_db \<Rightarrow> sharing_db sharing_result" where
  "insert_vault r db =
     (if (va_user_id r, va_seq r) \<in> (\<lambda>x. (va_user_id x, va_seq x)) ` set (keyvault_records db)
      then Inl (SharingError ''duplicate key keyvault_records_unique_seq_idx'')
      else Inr (db\<lparr>keyvault_records := keyvault_records db @ [r]\<rparr>))"

definition appendRecord ::
  "string \<Rightarrow> int \<Rightarrow> vault_input \<Rightarrow> sharing_db \<Rightarrow> ((int \<times> bytes) \<times> sharing_db) sharing_result" where
  "appendRecord userId expectedHead rec db =
     (let headRow = keyvault_heads db userId in
      bind_result (vault_getHeadSeq userId db) (\<lambda>currentHead.
      if currentHead \<noteq> expectedHead then Inl (StreamHeadMismatch currentHead expectedHead)
      else
        bind_result (check_chain ''head_hash'' expectedHead (Option.bind headRow vh_head_hash)
            (vi_prevHash rec)) (\<lambda>_.
        let nextSeq = currentHead + 1 in
        bind_result (insert_vault
            \<lparr>va_user_id = userId, va_seq = nextSeq, va_prev_hash = vi_prevHash rec,
             va_hash = vi_recordHash rec, va_ciphertext = vi_ciphertext rec,
             va_metadata = vi_metadata rec\<rparr> db) (\<lambda>db1.
        Inr ((nextSeq, vi_recordHash rec),
             db1\<lparr>keyvault_heads := (keyvault_heads db1)(userId \<mapsto>
               \<lparr>vh_head_seq = nextSeq, vh_head_hash = Some (vi_recordHash rec)\<rparr>)\<rparr>)))))"

definition vault_loadSince :: "string \<Rightarrow> int \<Rightarrow> nat \<Rightarrow> sharing_db \<Rightarrow> vault_row list" where
  "vault_loadSince userId since limit db =
     take limit (sort_key va_seq (filter (\<lambda>r. va_user_id r = userId \<and> since < va_seq r) (keyvault_records db)))"

subsection \<open>Delta streams\<close>

text \<open>
  \<open>getMembershipStream\<close>, \<open>getGrantStream\<close> and \<open>getUpdateStream\<close>: one page, whether there
  may be more, and where the next page starts.
\<close>

definition page_info :: "('r \<Rightarrow> int) \<Rightarrow> nat \<Rightarrow> 'r list \<Rightarrow> bool \<times> int option" where
  "page_info seq limit rows =
     (let hasMore = length rows = limit
      in (hasMore, if hasMore then Some (seq (last rows)) else None))"

definition getMembershipStream ::
  "string \<Rightarrow> int \<Rightarrow> nat \<Rightarrow> sharing_db \<Rightarrow> scope_state_row list \<times> bool \<times> int option" where
  "getMembershipStream scopeId since limit db =
     (let states = scope_loadSince scopeId since limit db in (states, page_info ss_seq limit states))"

definition getGrantStream ::
  "string \<Rightarrow> int \<Rightarrow> nat \<Rightarrow> sharing_db \<Rightarrow> grant_row list \<times> bool \<times> int option" where
  "getGrantStream scopeId since limit db =
     (let grants = grant_loadSince scopeId since limit db in (grants, page_info gr_seq limit grants))"

definition getUpdateStream ::
  "string \<Rightarrow> int \<Rightarrow> nat \<Rightarrow> sharing_db \<Rightarrow> (vault_row list \<times> (bool \<times> int option) \<times> int) sharing_result" where
  "getUpdateStream userId since limit db =
     (let records = vault_loadSince userId since limit db
      in bind_result (vault_getHeadSeq userId db) (\<lambda>head.
           Inr (records, page_info va_seq limit records, head)))"

end
