(* ===== verification/SyncServer.thy ===== *)
theory SyncServer
  imports SharingServer Text
begin

text \<open>
  The sync side of the API server (apps/api/src/sync): the value objects, the access policy,
  the two Kysely repositories over the tables \<open>sync.events\<close> and \<open>sync.stores\<close>, the service
  that composes them, and the shape of the controller's answers. An operation returns its
  outcome and the database after it: the transactions of one request commit separately, so a
  refused request may still have created the store row.
\<close>

datatype sync_error = HeadMismatch int int | AccessDenied string | SyncFailure string

type_synonym 'a sync_result = "sync_error + 'a"

record sync_event_row =
  se_owner :: string
  se_store :: string
  se_global_seq :: int
  se_event_id :: string
  se_record_json :: string
  se_scope_id :: "string option"
  se_resource_id :: "string option"
  se_resource_key_id :: "string option"
  se_grant_id :: "string option"
  se_scope_state_ref :: "bytes option"
  se_author_device_id :: "string option"

record sync_store_row =
  st_owner :: string
  st_head :: int

record sync_db =
  sync_events :: "sync_event_row list"
  sync_stores :: "string \<rightharpoonup> sync_store_row"

definition empty_sync_db :: sync_db where
  "empty_sync_db = \<lparr>sync_events = [], sync_stores = Map.empty\<rparr>"

record incoming_event =
  in_eventId :: string
  in_recordJson :: string
  in_scopeId :: "string option"
  in_resourceId :: "string option"
  in_resourceKeyId :: "string option"
  in_grantId :: "string option"
  in_scopeStateRef :: "bytes option"
  in_authorDeviceId :: "string option"

type_synonym assignment = "string \<times> int"

subsection \<open>Value objects\<close>

definition GlobalSequenceNumber_from :: "int \<Rightarrow> int sync_result" where
  "GlobalSequenceNumber_from n =
     (if n < 0 then Inl (SyncFailure ''GlobalSequenceNumber must be a non-negative integer'') else Inr n)"

definition blank :: "string \<Rightarrow> bool" where
  "blank s \<longleftrightarrow> s = [] \<or> trim s = []"

definition SyncOwnerId_from :: "string \<Rightarrow> string sync_result" where
  "SyncOwnerId_from s = (if blank s then Inl (SyncFailure ''SyncOwnerId cannot be empty'') else Inr s)"

definition SyncStoreId_from :: "string \<Rightarrow> string sync_result" where
  "SyncStoreId_from s = (if blank s then Inl (SyncFailure ''SyncStoreId cannot be empty'') else Inr s)"

subsection \<open>Access policy and store ownership\<close>

definition ensureCanPush :: "string \<Rightarrow> unit sync_result" where
  "ensureCanPush actor = (if actor = [] then Inl (AccessDenied ''Invalid actor'') else Inr ())"

definition ensureCanPull :: "string \<Rightarrow> unit sync_result" where
  "ensureCanPull actor = (if actor = [] then Inl (AccessDenied ''Invalid actor'') else Inr ())"

definition ensureStoreOwner :: "string \<Rightarrow> string \<Rightarrow> sync_db \<Rightarrow> sync_db sync_result" where
  "ensureStoreOwner store owner db =
     (let db1 = (case sync_stores db store of
                   None \<Rightarrow> db\<lparr>sync_stores := (sync_stores db)(store \<mapsto> \<lparr>st_owner = owner, st_head = 0\<rparr>)\<rparr>
                 | Some _ \<Rightarrow> db)
      in case sync_stores db1 store of
           None \<Rightarrow> Inl (SyncFailure ''Failed to ensure store exists'')
         | Some r \<Rightarrow> if st_owner r \<noteq> owner
             then Inl (AccessDenied ''Store is owned by a different identity'') else Inr db1)"

subsection \<open>Event repository\<close>

definition in_stream :: "string \<Rightarrow> string \<Rightarrow> sync_event_row \<Rightarrow> bool" where
  "in_stream owner store e \<longleftrightarrow> se_owner e = owner \<and> se_store e = store"

definition owned_store :: "string \<Rightarrow> string \<Rightarrow> sync_db \<Rightarrow> sync_store_row option" where
  "owned_store owner store db =
     (case sync_stores db store of Some r \<Rightarrow> if st_owner r = owner then Some r else None | None \<Rightarrow> None)"

definition getHeadSequence :: "string \<Rightarrow> string \<Rightarrow> sync_db \<Rightarrow> int sync_result" where
  "getHeadSequence owner store db =
     GlobalSequenceNumber_from (case owned_store owner store db of Some r \<Rightarrow> st_head r | None \<Rightarrow> 0)"

text \<open>
  The insert with \<open>ON CONFLICT (owner, store, event_id) DO NOTHING\<close>: \<open>None\<close> when the event id is
  taken; a taken sequence number violates the other unique index and throws.
\<close>

definition insert_sync_event :: "sync_event_row \<Rightarrow> sync_db \<Rightarrow> sync_db option sync_result" where
  "insert_sync_event row db =
     (let rows = filter (in_stream (se_owner row) (se_store row)) (sync_events db) in
      if se_event_id row \<in> se_event_id ` set rows then Inr None
      else if se_global_seq row \<in> se_global_seq ` set rows
      then Inl (SyncFailure ''duplicate key sync_events_stream_seq_idx'')
      else Inr (Some (db\<lparr>sync_events := sync_events db @ [row]\<rparr>)))"

text \<open>One round of the loop of \<open>appendBatch\<close> over \<open>(db, currentHead, assigned)\<close>.\<close>

definition append_one ::
  "(string \<rightharpoonup> int) \<Rightarrow> string \<Rightarrow> string \<Rightarrow> incoming_event \<Rightarrow> sync_db \<times> int \<times> assignment list
     \<Rightarrow> (sync_db \<times> int \<times> assignment list) sync_result" where
  "append_one existing owner store event st =
     (case st of (db, currentHead, assigned) \<Rightarrow>
        case existing (in_eventId event) of
          Some known \<Rightarrow> bind_result (GlobalSequenceNumber_from known) (\<lambda>g.
            Inr (db, currentHead, assigned @ [(in_eventId event, g)]))
        | None \<Rightarrow>
            let nextSequence = currentHead + 1;
                row = \<lparr>se_owner = owner, se_store = store, se_global_seq = nextSequence,
                  se_event_id = in_eventId event, se_record_json = in_recordJson event,
                  se_scope_id = in_scopeId event, se_resource_id = in_resourceId event,
                  se_resource_key_id = in_resourceKeyId event, se_grant_id = in_grantId event,
                  se_scope_state_ref = in_scopeStateRef event,
                  se_author_device_id = in_authorDeviceId event\<rparr>
            in bind_result (insert_sync_event row db) (\<lambda>inserted.
               case inserted of
                 Some db' \<Rightarrow> bind_result (GlobalSequenceNumber_from nextSequence) (\<lambda>g.
                   Inr (db', nextSequence, assigned @ [(in_eventId event, g)]))
               | None \<Rightarrow>
                   (case find (\<lambda>e. in_stream owner store e \<and> se_event_id e = in_eventId event)
                           (sync_events db) of
                      None \<Rightarrow> Inl (SyncFailure ''Failed to insert or resolve event'')
                    | Some e \<Rightarrow> bind_result (GlobalSequenceNumber_from (se_global_seq e)) (\<lambda>g.
                        Inr (db, currentHead, assigned @ [(in_eventId event, g)])))))"

definition existing_map :: "string \<Rightarrow> string \<Rightarrow> incoming_event list \<Rightarrow> sync_db \<Rightarrow> (string \<rightharpoonup> int)" where
  "existing_map owner store events db =
     map_of (map (\<lambda>e. (se_event_id e, se_global_seq e))
       (rev (filter (\<lambda>e. in_stream owner store e \<and> se_event_id e \<in> in_eventId ` set events)
          (sync_events db))))"

definition appendBatch ::
  "string \<Rightarrow> string \<Rightarrow> int \<Rightarrow> incoming_event list \<Rightarrow> sync_db
     \<Rightarrow> ((int \<times> assignment list) \<times> sync_db) sync_result" where
  "appendBatch owner store expectedHead events db =
     (if events = [] then Inr ((expectedHead, []), db)
      else case owned_store owner store db of
        None \<Rightarrow> Inl (SyncFailure ''Sync store not found'')
      | Some storeRow \<Rightarrow>
          if st_head storeRow \<noteq> expectedHead
          then bind_result (GlobalSequenceNumber_from (st_head storeRow)) (\<lambda>h.
            Inl (HeadMismatch h expectedHead))
          else
            bind_result (fold_result (append_one (existing_map owner store events db) owner store) events
                (db, st_head storeRow, [])) (\<lambda>(db1, currentHead, assigned).
            bind_result (GlobalSequenceNumber_from currentHead) (\<lambda>h.
            Inr ((h, assigned),
              db1\<lparr>sync_stores := (sync_stores db1)(store := map_option (\<lambda>r. r\<lparr>st_head := currentHead\<rparr>)
                     (sync_stores db1 store))\<rparr>))))"

definition loadSince :: "string \<Rightarrow> string \<Rightarrow> int \<Rightarrow> nat \<Rightarrow> sync_db \<Rightarrow> sync_event_row list" where
  "loadSince owner store since limit db =
     take limit (sort_key se_global_seq
       (filter (\<lambda>e. in_stream owner store e \<and> since < se_global_seq e) (sync_events db)))"

definition repo_resetStore :: "string \<Rightarrow> string \<Rightarrow> sync_db \<Rightarrow> sync_db" where
  "repo_resetStore owner store db =
     db\<lparr>sync_events := filter (\<lambda>e. \<not> in_stream owner store e) (sync_events db),
        sync_stores := (sync_stores db)(store := map_option
          (\<lambda>r. if st_owner r = owner then r\<lparr>st_head := 0\<rparr> else r) (sync_stores db store))\<rparr>"

subsection \<open>Sharing dependencies of a push\<close>

datatype conflict_reason = ServerAhead | ServerBehind | MissingDeps | StaleScopeState | StaleGrant

definition falsy :: "string option \<Rightarrow> bool" where
  "falsy s \<longleftrightarrow> s = None \<or> s = Some []"

text \<open>
  One event: \<open>Inr None\<close> when it may be pushed. \<open>ScopeId.from\<close> and its siblings throw on an
  id of white space only.
\<close>

definition validate_event :: "sharing_db \<Rightarrow> incoming_event \<Rightarrow> conflict_reason option sync_result" where
  "validate_event sh event =
     (if falsy (in_scopeId event) \<or> falsy (in_grantId event) \<or> in_scopeStateRef event = None then Inr None
      else
        let scopeId = the (in_scopeId event); grantId = the (in_grantId event);
            ref = the (in_scopeStateRef event) in
        if blank scopeId then Inl (SyncFailure ''ScopeId cannot be empty'')
        else if blank grantId then Inl (SyncFailure ''GrantId cannot be empty'')
        else if \<not> falsy (in_resourceId event) \<and> blank (the (in_resourceId event))
        then Inl (SyncFailure ''ResourceId cannot be empty'')
        else if scope_loadByRef ref sh = None then Inr (Some MissingDeps)
        else if loadByGrantId grantId sh = None then Inr (Some MissingDeps)
        else if scope_getHeadRef scopeId sh \<noteq> Some ref then Inr (Some StaleScopeState)
        else if falsy (in_resourceId event) then Inr None
        else case getActiveGrant scopeId (the (in_resourceId event)) sh of
            None \<Rightarrow> Inr (Some StaleGrant)
          | Some active \<Rightarrow>
              if gr_grant_id active \<noteq> grantId then Inr (Some StaleGrant)
              else if \<not> falsy (in_resourceKeyId event) \<and> gr_resource_key_id active \<noteq> the (in_resourceKeyId event)
              then Inr (Some StaleGrant) else Inr None)"

fun validate_events :: "sharing_db \<Rightarrow> incoming_event list \<Rightarrow> conflict_reason option sync_result" where
  "validate_events sh [] = Inr None"
| "validate_events sh (e # es) =
     bind_result (validate_event sh e) (\<lambda>r. case r of Some c \<Rightarrow> Inr (Some c) | None \<Rightarrow> validate_events sh es)"

definition validateSharingDependencies ::
  "sharing_db option \<Rightarrow> incoming_event list \<Rightarrow> conflict_reason option sync_result" where
  "validateSharingDependencies repos events =
     (case repos of None \<Rightarrow> Inr None | Some sh \<Rightarrow> validate_events sh events)"

subsection \<open>The service\<close>

datatype push_result =
    PushOk (push_head: int) (push_assigned: "assignment list")
  | PushConflict (push_head: int) (push_reason: conflict_reason) (push_missing: "sync_event_row list option")

definition push_body ::
  "sharing_db option \<Rightarrow> string \<Rightarrow> string \<Rightarrow> int \<Rightarrow> incoming_event list \<Rightarrow> sync_db
     \<Rightarrow> push_result sync_result \<times> sync_db" where
  "push_body repos owner store expectedHead events db =
     (if events = [] then
        (bind_result (getHeadSequence owner store db) (\<lambda>h. Inr (PushOk h [])), db)
      else case validateSharingDependencies repos events of
        Inl e \<Rightarrow> (Inl e, db)
      | Inr (Some reason) \<Rightarrow>
          (bind_result (getHeadSequence owner store db) (\<lambda>h. Inr (PushConflict h reason None)), db)
      | Inr None \<Rightarrow>
          (case appendBatch owner store expectedHead events db of
             Inr ((h, assigned), db') \<Rightarrow> (Inr (PushOk h assigned), db')
           | Inl (HeadMismatch current expected) \<Rightarrow>
               let isBehind = current < expected;
                   missing = (if isBehind then [] else loadSince owner store expectedHead 1000 db)
               in (Inr (PushConflict current (if isBehind then ServerBehind else ServerAhead)
                     (if missing \<noteq> [] then Some missing else None)), db)
           | Inl e \<Rightarrow> (Inl e, db)))"

definition pushEvents ::
  "sharing_db option \<Rightarrow> string \<Rightarrow> string \<Rightarrow> int \<Rightarrow> incoming_event list \<Rightarrow> sync_db
     \<Rightarrow> push_result sync_result \<times> sync_db" where
  "pushEvents repos owner store expectedHead events db =
     (case ensureCanPush owner of
        Inl e \<Rightarrow> (Inl e, db)
      | Inr _ \<Rightarrow>
          (case ensureStoreOwner store owner db of
             Inl e \<Rightarrow> (Inl e, db)
           | Inr db1 \<Rightarrow> push_body repos owner store expectedHead events db1))"

text \<open>
  \<open>pullEvents\<close> runs two queries that are not in one transaction: \<open>dbh\<close> is the database when
  the head is read, which may be later than the one the events come from.
\<close>

definition pullEvents ::
  "string \<Rightarrow> string \<Rightarrow> int \<Rightarrow> nat \<Rightarrow> sync_db \<Rightarrow> sync_db
     \<Rightarrow> (sync_event_row list \<times> int) sync_result \<times> sync_db" where
  "pullEvents owner store since limit db dbh =
     (case ensureCanPull owner of
        Inl e \<Rightarrow> (Inl e, db)
      | Inr _ \<Rightarrow>
          (case ensureStoreOwner store owner db of
             Inl e \<Rightarrow> (Inl e, db)
           | Inr db1 \<Rightarrow>
               (bind_result (getHeadSequence owner store dbh) (\<lambda>head.
                  Inr (loadSince owner store since limit db1, head)), db1)))"

definition resetStore :: "bool \<Rightarrow> string \<Rightarrow> string \<Rightarrow> sync_db \<Rightarrow> unit sync_result \<times> sync_db" where
  "resetStore production owner store db =
     (if production then (Inl (AccessDenied ''Reset sync store is disabled in production''), db)
      else case ensureCanPush owner of
        Inl e \<Rightarrow> (Inl e, db)
      | Inr _ \<Rightarrow>
          (case ensureStoreOwner store owner db of
             Inl e \<Rightarrow> (Inl e, db)
           | Inr db1 \<Rightarrow> (Inr (), repo_resetStore owner store db1)))"

subsection \<open>The controller's pull answer\<close>

record pull_response =
  pr_head :: int
  pr_events :: "(int \<times> string \<times> string) list"
  pr_hasMore :: bool
  pr_nextSince :: "int option"

definition pull_response_of :: "int \<Rightarrow> nat \<Rightarrow> sync_event_row list \<Rightarrow> int \<Rightarrow> pull_response" where
  "pull_response_of since limit events head =
     (let responseEvents = map (\<lambda>e. (se_global_seq e, se_event_id e, se_record_json e)) events;
          lastSequence = (if responseEvents = [] then None else Some (fst (last responseEvents)))
      in \<lparr>pr_head = head, pr_events = responseEvents,
          pr_hasMore = (responseEvents \<noteq> [] \<and> length responseEvents = limit \<and>
            (case lastSequence of Some s \<Rightarrow> s | None \<Rightarrow> since) < head),
          pr_nextSince = lastSequence\<rparr>)"

end
