(* ===== verification/SyncLog.thy ===== *)
theory SyncLog
  imports SyncServer
begin

text \<open>
  What the sync server promises: per owner and store it keeps one log of distinct event ids
  whose positions are the global sequence numbers. \<open>log_add\<close> is the abstract append; the
  repository's batch append refines it, assignments included, and never fails on a
  well-formed database. \<open>server_wf\<close> is the invariant, preserved by every request.
\<close>

subsection \<open>The abstract log\<close>

definition positions :: "nat \<Rightarrow> int list" where
  "positions n = map int [1..<Suc n]"

lemma positions_simps [simp]:
  "positions 0 = []" "positions (Suc n) = positions n @ [int n + 1]" "length (positions n) = n"
  by (simp_all add: positions_def)

lemma nth_positions [simp]: "k < n \<Longrightarrow> positions n ! k = int k + 1"
  by (simp add: positions_def del: upt_Suc)

definition log_seq :: "string list \<Rightarrow> string \<Rightarrow> int option" where
  "log_seq ids i = map_of (zip ids (positions (length ids))) i"

definition log_add :: "string list \<Rightarrow> string \<Rightarrow> string list" where
  "log_add ids i = (if i \<in> set ids then ids else ids @ [i])"

lemma log_seq_snoc:
  "log_seq (ids @ [i]) j = (case log_seq ids j of Some n \<Rightarrow> Some n
     | None \<Rightarrow> if j = i then Some (int (length ids) + 1) else None)"
  by (cases "map_of (zip ids (positions (length ids))) j") (simp_all add: log_seq_def map_add_def del: map_of_zip_is_None)

lemma log_seq_None: "log_seq ids i = None \<longleftrightarrow> i \<notin> set ids"
  by (simp add: log_seq_def map_of_zip_is_None)

lemma log_seq_Some_append: "log_seq ids i = Some n \<Longrightarrow> log_seq (ids @ xs) i = Some n"
proof (induction xs arbitrary: ids)
  case (Cons x xs)
  then have "log_seq (ids @ [x]) i = Some n" by (simp add: log_seq_snoc)
  from Cons.IH [OF this] show ?case by simp
qed simp

lemma log_seq_add: "log_seq (log_add ids i) i = (if i \<in> set ids then log_seq ids i else Some (int (length ids) + 1))"
  using log_seq_None [of ids i] by (cases "log_seq ids i") (simp_all add: log_add_def log_seq_snoc)

lemma log_add_distinct: "distinct ids \<Longrightarrow> distinct (log_add ids i)"
  by (simp add: log_add_def)

lemma log_fold_extends: "\<exists>xs. fold (\<lambda>i l. log_add l i) is ids = ids @ xs \<and> set xs \<subseteq> set is"
proof (induction "is" arbitrary: ids)
  case (Cons i "is")
  obtain xs where xs: "fold (\<lambda>i l. log_add l i) is (log_add ids i) = log_add ids i @ xs" "set xs \<subseteq> set is"
    using Cons.IH by blast
  then show ?case by (auto simp: log_add_def split: if_splits)
qed simp

lemma log_fold_mem: "set (fold (\<lambda>i l. log_add l i) is ids) = set ids \<union> set is"
  by (induction "is" arbitrary: ids) (auto simp: log_add_def)

lemma log_fold_distinct: "distinct ids \<Longrightarrow> distinct (fold (\<lambda>i l. log_add l i) is ids)"
  by (induction "is" arbitrary: ids) (auto simp: log_add_distinct)

lemma log_fold_known: "set is \<subseteq> set ids \<Longrightarrow> fold (\<lambda>i l. log_add l i) is ids = ids"
  by (induction "is") (auto simp: log_add_def)

subsection \<open>The invariant\<close>

definition stream_of :: "string \<Rightarrow> string \<Rightarrow> sync_db \<Rightarrow> sync_event_row list" where
  "stream_of o' s db = filter (in_stream o' s) (sync_events db)"

definition log_of :: "string \<Rightarrow> string \<Rightarrow> sync_db \<Rightarrow> string list" where
  "log_of o' s db = map se_event_id (stream_of o' s db)"

definition stream_wf :: "sync_event_row list \<Rightarrow> bool" where
  "stream_wf es \<longleftrightarrow> map se_global_seq es = positions (length es) \<and> distinct (map se_event_id es)"

definition server_wf :: "sync_db \<Rightarrow> bool" where
  "server_wf db \<longleftrightarrow> (\<forall>o' s. stream_wf (stream_of o' s db) \<and>
     (case sync_stores db s of
        None \<Rightarrow> stream_of o' s db = []
      | Some r \<Rightarrow> if st_owner r = o' then st_head r = int (length (stream_of o' s db))
                  else stream_of o' s db = []))"

lemma stream_wf_Nil [simp]: "stream_wf []"
  by (simp add: stream_wf_def)

lemma stream_wf_snoc:
  "stream_wf es \<Longrightarrow> se_global_seq e = int (length es) + 1 \<Longrightarrow> se_event_id e \<notin> se_event_id ` set es \<Longrightarrow>
     stream_wf (es @ [e])"
  by (simp add: stream_wf_def)

lemma stream_wf_nth:
  assumes "stream_wf es" and "k < length es"
  shows "se_global_seq (es ! k) = int k + 1"
proof -
  have "map se_global_seq es ! k = positions (length es) ! k"
    using assms(1) by (simp add: stream_wf_def)
  then show ?thesis using assms(2) by simp
qed

lemma stream_wf_seq:
  assumes "stream_wf es" and "e \<in> set es"
  shows "log_seq (map se_event_id es) (se_event_id e) = Some (se_global_seq e)"
    and "1 \<le> se_global_seq e" and "se_global_seq e \<le> int (length es)"
proof -
  obtain k where k: "k < length es" "e = es ! k" using assms(2) by (metis in_set_conv_nth)
  have g: "se_global_seq e = int k + 1" using stream_wf_nth [OF assms(1) k(1)] k(2) by simp
  then show "1 \<le> se_global_seq e" "se_global_seq e \<le> int (length es)" using k(1) by simp_all
  have "map_of (zip (map se_event_id es) (positions (length es)))
      (map se_event_id es ! k) = Some (positions (length es) ! k)"
    using assms(1) k(1) by (intro map_of_zip_nth) (simp_all add: stream_wf_def)
  then show "log_seq (map se_event_id es) (se_event_id e) = Some (se_global_seq e)"
    using k g by (simp add: log_seq_def)
qed

lemma server_wf_empty: "server_wf empty_sync_db"
  by (simp add: server_wf_def empty_sync_db_def stream_of_def)

lemma server_wfD:
  assumes "server_wf db"
  shows "stream_wf (stream_of o' s db)"
    and "sync_stores db s = Some r \<Longrightarrow> st_owner r = o' \<Longrightarrow> st_head r = int (length (stream_of o' s db))"
    and "sync_stores db s = Some r \<Longrightarrow> st_owner r \<noteq> o' \<Longrightarrow> stream_of o' s db = []"
    and "sync_stores db s = None \<Longrightarrow> stream_of o' s db = []"
proof -
  have *: "stream_wf (stream_of o' s db) \<and>
     (case sync_stores db s of
        None \<Rightarrow> stream_of o' s db = []
      | Some r \<Rightarrow> if st_owner r = o' then st_head r = int (length (stream_of o' s db))
                  else stream_of o' s db = [])"
    using assms by (simp only: server_wf_def)
  show "stream_wf (stream_of o' s db)" using * by blast
  show "sync_stores db s = Some r \<Longrightarrow> st_owner r = o' \<Longrightarrow> st_head r = int (length (stream_of o' s db))"
    "sync_stores db s = Some r \<Longrightarrow> st_owner r \<noteq> o' \<Longrightarrow> stream_of o' s db = []"
    "sync_stores db s = None \<Longrightarrow> stream_of o' s db = []"
    using * by auto
qed

lemma server_wfI:
  assumes "\<And>o' s. stream_wf (stream_of o' s db)"
    and "\<And>o' s r. sync_stores db s = Some r \<Longrightarrow> st_owner r = o' \<Longrightarrow> st_head r = int (length (stream_of o' s db))"
    and "\<And>o' s r. sync_stores db s = Some r \<Longrightarrow> st_owner r \<noteq> o' \<Longrightarrow> stream_of o' s db = []"
    and "\<And>o' s. sync_stores db s = None \<Longrightarrow> stream_of o' s db = []"
  shows "server_wf db"
  unfolding server_wf_def
proof (intro allI conjI)
  fix o' s
  show "stream_wf (stream_of o' s db)" by (rule assms(1))
  show "case sync_stores db s of None \<Rightarrow> stream_of o' s db = []
    | Some r \<Rightarrow> if st_owner r = o' then st_head r = int (length (stream_of o' s db)) else stream_of o' s db = []"
    using assms(2) [of s _ o'] assms(3) [of s _ o'] assms(4) [of s o'] by (cases "sync_stores db s") simp_all
qed

subsection \<open>One round of the append loop\<close>

lemma GSN_nonneg: "0 \<le> n \<Longrightarrow> GlobalSequenceNumber_from n = Inr n"
  by (simp add: GlobalSequenceNumber_from_def)

lemma append_one_spec:
  assumes wf: "stream_wf (stream_of o' s db)" and cur: "cur = int (length (stream_of o' s db))"
    and known: "\<And>i g. existing i = Some g \<Longrightarrow> log_seq (log_of o' s db) i = Some g"
  obtains db' where
    "append_one existing o' s e (db, cur, acc) =
       Inr (db', int (length (stream_of o' s db')),
            acc @ [(in_eventId e, the (log_seq (log_of o' s db') (in_eventId e)))])"
    and "stream_wf (stream_of o' s db')"
    and "log_of o' s db' = log_add (log_of o' s db) (in_eventId e)"
    and "\<exists>es. sync_events db' = sync_events db @ es \<and> (\<forall>x \<in> set es. in_stream o' s x)"
    and "sync_stores db' = sync_stores db"
proof -
  let ?i = "in_eventId e" and ?rows = "stream_of o' s db"
  have pos: "0 \<le> g \<and> ?i \<in> set (log_of o' s db)" if "log_seq (log_of o' s db) ?i = Some g" for g
  proof -
    have "?i \<in> set (log_of o' s db)" using that log_seq_None by (metis option.distinct(1))
    then obtain x where "x \<in> set ?rows" "se_event_id x = ?i" by (auto simp: log_of_def)
    then show ?thesis
      using stream_wf_seq [OF wf] that \<open>?i \<in> set (log_of o' s db)\<close> by (fastforce simp: log_of_def)
  qed
  show ?thesis
  proof (cases "?i \<in> set (log_of o' s db)")
    case True
    then obtain x where x: "x \<in> set ?rows" "se_event_id x = ?i" by (auto simp: log_of_def)
    have g: "log_seq (log_of o' s db) ?i = Some (se_global_seq x)" "0 \<le> se_global_seq x"
      using stream_wf_seq [OF wf x(1)] x(2) by (simp_all add: log_of_def)
    have look: "find (\<lambda>y. in_stream o' s y \<and> se_event_id y = ?i) (sync_events db) = Some x"
      using find_distinct_key [of se_event_id ?rows x] x wf
      by (simp add: stream_wf_def stream_of_def find_filter)
    have "append_one existing o' s e (db, cur, acc) = Inr (db, cur, acc @ [(?i, se_global_seq x)])"
    proof (cases "existing ?i")
      case None
      have "?i \<in> se_event_id ` set (filter (in_stream o' s) (sync_events db))"
        using x by (force simp: stream_of_def)
      then show ?thesis
        using None look g(2)
        by (simp add: append_one_def Let_def insert_sync_event_def GSN_nonneg)
    next
      case (Some k)
      then have "k = se_global_seq x" using known g(1) by fastforce
      then show ?thesis using Some g(2) by (simp add: append_one_def GSN_nonneg)
    qed
    then show ?thesis using that [of db] True g(1) wf cur by (simp add: log_add_def)
  next
    case False
    then have none: "existing ?i = None" using known log_seq_None by (metis not_None_eq option.distinct(1))
    let ?row = "\<lparr>se_owner = o', se_store = s, se_global_seq = cur + 1,
                  se_event_id = in_eventId e, se_record_json = in_recordJson e,
                  se_scope_id = in_scopeId e, se_resource_id = in_resourceId e,
                  se_resource_key_id = in_resourceKeyId e, se_grant_id = in_grantId e,
                  se_scope_state_ref = in_scopeStateRef e,
                  se_author_device_id = in_authorDeviceId e\<rparr>"
    let ?db = "db\<lparr>sync_events := sync_events db @ [?row]\<rparr>"
    have "cur + 1 \<notin> se_global_seq ` set ?rows"
      using stream_wf_seq(3) [OF wf] cur by fastforce
    then have "insert_sync_event ?row db = Inr (Some ?db)"
      using False by (simp add: insert_sync_event_def log_of_def stream_of_def Let_def)
    then have run: "append_one existing o' s e (db, cur, acc) = Inr (?db, cur + 1, acc @ [(?i, cur + 1)])"
      using none cur by (simp add: append_one_def Let_def GSN_nonneg)
    have str: "stream_of o' s ?db = ?rows @ [?row]" by (simp add: stream_of_def in_stream_def)
    have log: "log_of o' s ?db = log_add (log_of o' s db) ?i"
      using False str by (simp add: log_of_def log_add_def)
    have "the (log_seq (log_of o' s ?db) ?i) = cur + 1"
      unfolding log using False cur by (simp add: log_seq_add log_of_def)
    moreover have "stream_wf (stream_of o' s ?db)"
      unfolding str using wf cur False by (intro stream_wf_snoc) (simp_all add: log_of_def)
    ultimately show ?thesis using that [of ?db] run str log cur by (simp add: in_stream_def)
  qed
qed

subsection \<open>The batch\<close>

abbreviation ids_of :: "incoming_event list \<Rightarrow> string list" where
  "ids_of events \<equiv> map in_eventId events"

abbreviation log_adds :: "string list \<Rightarrow> string list \<Rightarrow> string list" where
  "log_adds ids is \<equiv> fold (\<lambda>i l. log_add l i) is ids"

lemma log_add_seq_stable: "log_seq ids i = Some g \<Longrightarrow> log_seq (log_adds ids is) i = Some g"
  using log_fold_extends [of "is" ids] log_seq_Some_append by fastforce

lemma append_loop_spec:
  assumes "stream_wf (stream_of o' s db)"
    and "\<And>i g. existing i = Some g \<Longrightarrow> log_seq (log_of o' s db) i = Some g"
  shows "\<exists>db'. fold_result (append_one existing o' s) events (db, int (length (stream_of o' s db)), acc) =
       Inr (db', int (length (stream_of o' s db')),
            acc @ map (\<lambda>i. (i, the (log_seq (log_adds (log_of o' s db) (ids_of events)) i))) (ids_of events))
     \<and> stream_wf (stream_of o' s db')
     \<and> log_of o' s db' = log_adds (log_of o' s db) (ids_of events)
     \<and> (\<exists>es. sync_events db' = sync_events db @ es \<and> (\<forall>x \<in> set es. in_stream o' s x))
     \<and> sync_stores db' = sync_stores db"
  using assms
proof (induction events arbitrary: db acc)
  case Nil
  then show ?case by simp
next
  case (Cons e events)
  obtain db1 where one:
    "append_one existing o' s e (db, int (length (stream_of o' s db)), acc) =
       Inr (db1, int (length (stream_of o' s db1)),
            acc @ [(in_eventId e, the (log_seq (log_of o' s db1) (in_eventId e)))])"
    "stream_wf (stream_of o' s db1)"
    "log_of o' s db1 = log_add (log_of o' s db) (in_eventId e)"
    "\<exists>es. sync_events db1 = sync_events db @ es \<and> (\<forall>x \<in> set es. in_stream o' s x)"
    "sync_stores db1 = sync_stores db"
    using append_one_spec [OF Cons.prems(1) refl Cons.prems(2), of existing] by blast
  have known: "log_seq (log_of o' s db1) i = Some g" if "existing i = Some g" for i g
    using log_add_seq_stable [of "log_of o' s db" i g "[in_eventId e]"] Cons.prems(2) [OF that] one(3) by simp
  have "\<exists>g. log_seq (log_of o' s db1) (in_eventId e) = Some g"
    using log_seq_None [of "log_of o' s db1" "in_eventId e"] one(3) by (auto simp: log_add_def split: if_splits)
  then have stable: "log_seq (log_adds (log_of o' s db1) (ids_of events)) (in_eventId e)
      = log_seq (log_of o' s db1) (in_eventId e)"
    using log_add_seq_stable by fastforce
  obtain db' where rest:
    "fold_result (append_one existing o' s) events (db1, int (length (stream_of o' s db1)),
         acc @ [(in_eventId e, the (log_seq (log_of o' s db1) (in_eventId e)))]) =
       Inr (db', int (length (stream_of o' s db')),
            (acc @ [(in_eventId e, the (log_seq (log_of o' s db1) (in_eventId e)))])
              @ map (\<lambda>i. (i, the (log_seq (log_adds (log_of o' s db1) (ids_of events)) i))) (ids_of events))"
    "stream_wf (stream_of o' s db')"
    "log_of o' s db' = log_adds (log_of o' s db1) (ids_of events)"
    "\<exists>es. sync_events db' = sync_events db1 @ es \<and> (\<forall>x \<in> set es. in_stream o' s x)"
    "sync_stores db' = sync_stores db1"
    using Cons.IH [OF one(2) known] by blast
  show ?case
    using one rest stable by (intro exI [of _ db']) (auto simp: one(3))
qed

lemma existing_map_sound:
  assumes wf: "stream_wf (stream_of o' s db)" and "existing_map o' s events db i = Some g"
  shows "log_seq (log_of o' s db) i = Some g"
proof -
  obtain e where "e \<in> set (stream_of o' s db)" "se_event_id e = i" "se_global_seq e = g"
    using map_of_SomeD [OF assms(2) [unfolded existing_map_def]] by (auto simp: stream_of_def)
  then show ?thesis using stream_wf_seq(1) [OF wf, of e] by (simp add: log_of_def)
qed

text \<open>
  The batch append refines the abstract log: on a well-formed database with the expected head
  it always succeeds.
\<close>

lemma appendBatch_refines:
  assumes wf: "server_wf db" and st: "owned_store o' s db = Some r" and h: "st_head r = expected"
    and ne: "events \<noteq> []"
  defines "log' \<equiv> log_adds (log_of o' s db) (ids_of events)"
  shows "\<exists>db'. appendBatch o' s expected events db =
       Inr ((int (length log'), map (\<lambda>i. (i, the (log_seq log' i))) (ids_of events)), db')
     \<and> log_of o' s db' = log'
     \<and> (\<exists>es. sync_events db' = sync_events db @ es \<and> (\<forall>x \<in> set es. in_stream o' s x))
     \<and> sync_stores db' = (sync_stores db)(s \<mapsto> r\<lparr>st_head := int (length log')\<rparr>)
     \<and> stream_wf (stream_of o' s db')"
proof -
  have sr: "sync_stores db s = Some r" "st_owner r = o'"
    using st by (auto simp: owned_store_def split: option.splits if_splits)
  have w: "stream_wf (stream_of o' s db)" and head: "st_head r = int (length (stream_of o' s db))"
    using server_wfD(1,2) [OF wf] sr by blast+
  let ?ex = "existing_map o' s events db"
  obtain db1 where run:
    "fold_result (append_one ?ex o' s) events (db, int (length (stream_of o' s db)), []) =
       Inr (db1, int (length (stream_of o' s db1)), map (\<lambda>i. (i, the (log_seq log' i))) (ids_of events))"
    "stream_wf (stream_of o' s db1)" "log_of o' s db1 = log'"
    "\<exists>es. sync_events db1 = sync_events db @ es \<and> (\<forall>x \<in> set es. in_stream o' s x)"
    "sync_stores db1 = sync_stores db"
    using append_loop_spec [OF w, where existing = ?ex and events = events and acc = "[]"]
      existing_map_sound [OF w, of events]
    unfolding log'_def by auto
  have len: "length (stream_of o' s db1) = length log'" using run(3) by (metis length_map log_of_def)
  let ?db = "db1\<lparr>sync_stores := (sync_stores db1)(s := map_option (\<lambda>r. r\<lparr>st_head := int (length log')\<rparr>)
                     (sync_stores db1 s))\<rparr>"
  have "appendBatch o' s expected events db =
       Inr ((int (length log'), map (\<lambda>i. (i, the (log_seq log' i))) (ids_of events)), ?db)"
    using ne st h head run(1) len by (simp add: appendBatch_def GSN_nonneg)
  then show ?thesis
    using run sr by (intro exI [of _ ?db]) (simp add: log_of_def stream_of_def)
qed

subsection \<open>Every request preserves the invariant\<close>

lemma stream_of_append_other:
  assumes "sync_events db' = sync_events db @ es" and "\<forall>x \<in> set es. in_stream o' s x"
    and "o2 \<noteq> o' \<or> s2 \<noteq> s"
  shows "stream_of o2 s2 db' = stream_of o2 s2 db"
proof -
  have "filter (in_stream o2 s2) es = []"
    using assms(2,3) by (auto simp: filter_empty_conv in_stream_def)
  then show ?thesis using assms(1) by (simp add: stream_of_def)
qed

lemma appendBatch_wf:
  assumes wf: "server_wf db" and ok: "appendBatch o' s expected events db = Inr (res, db')"
  shows "server_wf db'"
proof (cases "events = []")
  case True
  then show ?thesis using ok wf by (auto simp: appendBatch_def)
next
  case False
  then obtain r where st: "owned_store o' s db = Some r" "st_head r = expected"
    using ok by (auto simp: appendBatch_def bind_result_eq_Inr split: option.splits if_splits)
  then have sr: "sync_stores db s = Some r" "st_owner r = o'"
    by (auto simp: owned_store_def split: option.splits if_splits)
  define log' where "log' = log_adds (log_of o' s db) (ids_of events)"
  have eff: "log_of o' s db' = log'"
    "\<exists>es. sync_events db' = sync_events db @ es \<and> (\<forall>x \<in> set es. in_stream o' s x)"
    "sync_stores db' = (sync_stores db)(s \<mapsto> r\<lparr>st_head := int (length log')\<rparr>)"
    "stream_wf (stream_of o' s db')"
    using appendBatch_refines [OF wf st False] ok unfolding log'_def by auto
  have other: "stream_of o2 s2 db' = stream_of o2 s2 db" if "o2 \<noteq> o' \<or> s2 \<noteq> s" for o2 s2
    using eff(2) stream_of_append_other [OF _ _ that] by blast
  have len: "length (stream_of o' s db') = length log'" using eff(1) by (metis length_map log_of_def)
  show ?thesis
  proof (rule server_wfI)
    fix o2 s2
    show "stream_wf (stream_of o2 s2 db')"
      using eff(4) other server_wfD(1) [OF wf] by (cases "o2 = o' \<and> s2 = s") auto
    show "sync_stores db' s2 = None \<Longrightarrow> stream_of o2 s2 db' = []"
      using eff(3) other server_wfD(4) [OF wf] by (auto split: if_splits)
    fix r2
    show "sync_stores db' s2 = Some r2 \<Longrightarrow> st_owner r2 = o2 \<Longrightarrow> st_head r2 = int (length (stream_of o2 s2 db'))"
      using eff(3) other server_wfD(2) [OF wf] len sr by (cases "s2 = s") auto
    show "sync_stores db' s2 = Some r2 \<Longrightarrow> st_owner r2 \<noteq> o2 \<Longrightarrow> stream_of o2 s2 db' = []"
      using eff(3) other server_wfD(3) [OF wf] sr by (cases "s2 = s") auto
  qed
qed

lemma ensureStoreOwner_Inr:
  assumes wf: "server_wf db" and ok: "ensureStoreOwner s o' db = Inr db1"
  shows "server_wf db1" and "sync_events db1 = sync_events db"
    and "\<exists>r. owned_store o' s db1 = Some r"
proof -
  show "sync_events db1 = sync_events db"
    using ok by (auto simp: ensureStoreOwner_def Let_def split: option.splits if_splits)
  then have str: "stream_of o2 s2 db1 = stream_of o2 s2 db" for o2 s2 by (simp add: stream_of_def)
  show "\<exists>r. owned_store o' s db1 = Some r"
    using ok by (auto simp: ensureStoreOwner_def owned_store_def Let_def split: option.splits if_splits)
  show "server_wf db1"
  proof (cases "sync_stores db s")
    case (Some r)
    then show ?thesis using ok wf by (auto simp: ensureStoreOwner_def split: if_splits)
  next
    case None
    then have "sync_stores db1 = (sync_stores db)(s \<mapsto> \<lparr>st_owner = o', st_head = 0\<rparr>)"
      using ok by (auto simp: ensureStoreOwner_def Let_def)
    then have lk: "sync_stores db1 s2 = (if s2 = s then Some \<lparr>st_owner = o', st_head = 0\<rparr> else sync_stores db s2)" for s2
      by simp
    show ?thesis
    proof (rule server_wfI)
      fix o2 s2 r
      show "stream_wf (stream_of o2 s2 db1)" using server_wfD(1) [OF wf] str by simp
      show "sync_stores db1 s2 = Some r \<Longrightarrow> st_owner r = o2 \<Longrightarrow> st_head r = int (length (stream_of o2 s2 db1))"
        using lk [of s2] server_wfD(2) [OF wf, of s2 r o2] server_wfD(4) [OF wf, of s o2] None str
        by (auto split: if_splits)
      show "sync_stores db1 s2 = Some r \<Longrightarrow> st_owner r \<noteq> o2 \<Longrightarrow> stream_of o2 s2 db1 = []"
        using lk [of s2] server_wfD(3) [OF wf, of s2 r o2] server_wfD(4) [OF wf, of s o2] None str
        by (auto split: if_splits)
      show "sync_stores db1 s2 = None \<Longrightarrow> stream_of o2 s2 db1 = []"
        using lk [of s2] server_wfD(4) [OF wf, of s2 o2] str by (auto split: if_splits)
    qed
  qed
qed

lemma push_body_db:
  "snd (push_body repos o' s h events db) = db \<or>
   (\<exists>res. appendBatch o' s h events db = Inr (res, snd (push_body repos o' s h events db)))"
  by (auto simp: push_body_def Let_def split: sum.splits option.splits sync_error.splits prod.splits)

lemma pushEvents_wf: "server_wf db \<Longrightarrow> server_wf (snd (pushEvents repos o' s h events db))"
proof -
  assume wf: "server_wf db"
  have "server_wf (snd (push_body repos o' s h events db1))" if "server_wf db1" for db1
    using push_body_db [of repos o' s h events db1] appendBatch_wf that by metis
  then show ?thesis
    using wf ensureStoreOwner_Inr(1) [OF wf] by (auto simp: pushEvents_def split: sum.splits)
qed

lemma pullEvents_wf: "server_wf db \<Longrightarrow> server_wf (snd (pullEvents o' s since limit db dbh))"
  using ensureStoreOwner_Inr(1) by (auto simp: pullEvents_def split: sum.splits)

lemma repo_resetStore_wf:
  assumes wf: "server_wf db"
  shows "server_wf (repo_resetStore o' s db)"
proof -
  have str: "stream_of o2 s2 (repo_resetStore o' s db) = (if o2 = o' \<and> s2 = s then [] else stream_of o2 s2 db)" for o2 s2
    unfolding stream_of_def repo_resetStore_def
    by (auto simp: filter_empty_conv in_stream_def intro: filter_cong)
  have lk: "sync_stores (repo_resetStore o' s db) s2 = (if s2 = s then map_option
          (\<lambda>r. if st_owner r = o' then r\<lparr>st_head := 0\<rparr> else r) (sync_stores db s) else sync_stores db s2)" for s2
    by (simp add: repo_resetStore_def)
  show ?thesis
  proof (rule server_wfI)
    fix o2 s2 r
    show "stream_wf (stream_of o2 s2 (repo_resetStore o' s db))" using server_wfD(1) [OF wf] str by simp
    show "sync_stores (repo_resetStore o' s db) s2 = Some r \<Longrightarrow> st_owner r = o2 \<Longrightarrow>
        st_head r = int (length (stream_of o2 s2 (repo_resetStore o' s db)))"
    proof -
      assume a: "sync_stores (repo_resetStore o' s db) s2 = Some r" "st_owner r = o2"
      then obtain r0 where r0: "sync_stores db s2 = Some r0"
        "r = (if s2 = s \<and> st_owner r0 = o' then r0\<lparr>st_head := 0\<rparr> else r0)"
        using lk [of s2] by (cases "sync_stores db s2") (auto split: if_splits)
      then show ?thesis using server_wfD(2) [OF wf r0(1)] a(2) str by (cases "s2 = s \<and> st_owner r0 = o'") auto
    qed
    show "sync_stores (repo_resetStore o' s db) s2 = Some r \<Longrightarrow> st_owner r \<noteq> o2 \<Longrightarrow>
        stream_of o2 s2 (repo_resetStore o' s db) = []"
    proof -
      assume a: "sync_stores (repo_resetStore o' s db) s2 = Some r" "st_owner r \<noteq> o2"
      then obtain r0 where "sync_stores db s2 = Some r0" "st_owner r0 = st_owner r"
        using lk [of s2] by (cases "sync_stores db s2") (auto split: if_splits)
      then show ?thesis using server_wfD(3) [OF wf] a(2) str by simp
    qed
    show "sync_stores (repo_resetStore o' s db) s2 = None \<Longrightarrow> stream_of o2 s2 (repo_resetStore o' s db) = []"
      using lk [of s2] server_wfD(4) [OF wf, of s2 o2] str [of o2 s2] by (auto split: if_splits)
  qed
qed

lemma resetStore_wf: "server_wf db \<Longrightarrow> server_wf (snd (resetStore p o' s db))"
  using ensureStoreOwner_Inr(1) repo_resetStore_wf by (auto simp: resetStore_def split: sum.splits)

text \<open>A run of the server.\<close>

datatype sync_request =
    Push string string int "incoming_event list"
  | Pull string string int nat
  | Reset bool string string

fun sync_step :: "sharing_db option \<Rightarrow> sync_request \<Rightarrow> sync_db \<Rightarrow> sync_db" where
  "sync_step repos (Push o' s h events) db = snd (pushEvents repos o' s h events db)"
| "sync_step repos (Pull o' s since limit) db = snd (pullEvents o' s since limit db db)"
| "sync_step repos (Reset production o' s) db = snd (resetStore production o' s db)"

lemma server_wf_step: "server_wf db \<Longrightarrow> server_wf (sync_step repos q db)"
  by (cases q) (simp_all add: pushEvents_wf pullEvents_wf resetStore_wf)

lemma server_wf_run: "server_wf db \<Longrightarrow> server_wf (fold (sync_step repos) qs db)"
  by (induction qs arbitrary: db) (auto intro: server_wf_step)

end
