(* ===== verification/SyncApply.thy ===== *)
theory SyncApply
  imports Materializer PendingRewriter SyncLog
begin

text \<open>
  packages/sync-engine/src/SyncEngine.ts, \<open>applyRemoteEvents\<close> and \<open>applyAssignments\<close>: how a
  page of remote events enters the local store. For each event whose id is unknown the engine
  makes room at its version, asking the rewriter to shift pending local events, materializes
  the record, and queues an insert; it also queues the sync mapping. The queued statements run
  as one batch at the end, and every queued insert is checked afterwards. Rewrites commit as
  they happen, so the database is returned on the error paths too.
\<close>

datatype sync_error_code = NetworkCode | ConflictCode | AuthCode | ServerCode | UnknownCode

text \<open>\<open>EngineError\<close> is the class \<open>SyncEngineError\<close>; \<open>Thrown\<close> is any other error.\<close>

datatype engine_error =
    EngineError sync_error_code string bool
  | Thrown error

type_synonym 'a engine_result = "engine_error + 'a"

record sync_config =
  cfg_env :: js_env
  cfg_crypto :: crypto_port
  cfg_resolveKey :: "string \<Rightarrow> bytes result"
  cfg_has_rewriter :: bool
  cfg_storeId :: string
  cfg_pullLimit :: nat
  cfg_pullWaitMs :: int
  cfg_pullIntervalMs :: int
  cfg_pushIntervalMs :: int
  cfg_pushFallbackIntervalMs :: int
  cfg_pushBatchSize :: nat
  cfg_maxPushRetries :: nat

text \<open>A remote event of a pull page: global sequence, event id, record text.\<close>

type_synonym remote_event = "int \<times> string \<times> string"

datatype sql_stmt = InsertEvent event_row | InsertMapIfEvent string int int | InsertMap string int int

fun exec_stmt :: "sql_stmt \<Rightarrow> local_db \<Rightarrow> local_db" where
  "exec_stmt (InsertEvent r) db = insert_event_or_ignore r db"
| "exec_stmt (InsertMapIfEvent i g now) db = insert_map_if_event i g now db"
| "exec_stmt (InsertMap i g now) db = insert_map_or_ignore i g now db"

definition exec_batch :: "sql_stmt list \<Rightarrow> local_db \<Rightarrow> local_db" where
  "exec_batch stmts db = fold exec_stmt stmts db"

text \<open>\<open>for (let attempt = 0; attempt < maxRewriteAttempts; attempt += 1)\<close>: whether the version is free.\<close>

fun resolve_collision ::
  "sync_config \<Rightarrow> nat \<Rightarrow> string \<Rightarrow> string \<Rightarrow> int \<Rightarrow> local_db \<times> nat \<Rightarrow> bool engine_result \<times> (local_db \<times> nat)" where
  "resolve_collision cfg 0 t a v st = (Inr False, st)"
| "resolve_collision cfg (Suc n) t a v st =
     (case occupying_row (fst st) t a v of
        None \<Rightarrow> (Inr True, st)
      | Some r \<Rightarrow>
          if is_synced (fst st) (row_id r)
          then (Inl (EngineError ConflictCode ''Remote version collision with synced event'' False), st)
          else if \<not> cfg_has_rewriter cfg
          then (Inl (EngineError ConflictCode ''Pending version rewrite required but no rewriter configured'' False), st)
          else case rewritePendingVersions (cfg_crypto cfg) (cfg_resolveKey cfg) t a v st of
                 Inl e \<Rightarrow> (Inl (Thrown e), st)
               | Inr (st', _) \<Rightarrow> resolve_collision cfg n t a v st')"

definition maxRewriteAttempts :: nat where
  "maxRewriteAttempts = 128"

text \<open>The body of the loop over the incoming events: the statements and the inserted id it adds.\<close>

definition prepare_event ::
  "sync_config \<Rightarrow> int \<Rightarrow> remote_event \<Rightarrow> local_db \<times> nat
     \<Rightarrow> (sql_stmt list \<times> string list) engine_result \<times> (local_db \<times> nat)" where
  "prepare_event cfg now ev st =
     (case ev of (globalSequence, eventId, recordJson) \<Rightarrow>
        case parseRecordJson recordJson of
          Inl e \<Rightarrow> (Inl (Thrown e), st)
        | Inr record \<Rightarrow>
            if has_event (fst st) eventId
            then (Inr ([InsertMapIfEvent eventId globalSequence now], []), st)
            else
              (case resolve_collision cfg maxRewriteAttempts (sr_aggregateType record)
                      (sr_aggregateId record) (sr_version record) st of
                 (Inl e, st') \<Rightarrow> (Inl e, st')
               | (Inr False, st') \<Rightarrow>
                   (Inl (EngineError ConflictCode ''Pending version rewrite did not resolve version collision'' False), st')
               | (Inr True, st') \<Rightarrow>
                   (case materializeRemoteEvent (cfg_env cfg) (cfg_crypto cfg) (cfg_resolveKey cfg) eventId recordJson of
                      Inl e \<Rightarrow> (Inl (Thrown e), st')
                    | Inr row \<Rightarrow>
                        (Inr ([InsertEvent row, InsertMapIfEvent eventId globalSequence now], [row_id row]), st'))))"

fun prepare_events ::
  "sync_config \<Rightarrow> int \<Rightarrow> remote_event list \<Rightarrow> local_db \<times> nat
     \<Rightarrow> (sql_stmt list \<times> string list) engine_result \<times> (local_db \<times> nat)" where
  "prepare_events cfg now [] st = (Inr ([], []), st)"
| "prepare_events cfg now (ev # evs) st =
     (case prepare_event cfg now ev st of
        (Inl e, st') \<Rightarrow> (Inl e, st')
      | (Inr (stmts, ids), st') \<Rightarrow>
          (case prepare_events cfg now evs st' of
             (Inl e, st'') \<Rightarrow> (Inl e, st'')
           | (Inr (stmts', ids'), st'') \<Rightarrow> (Inr (stmts @ stmts', ids @ ids'), st'')))"

definition applyRemoteEvents ::
  "sync_config \<Rightarrow> int \<Rightarrow> remote_event list \<Rightarrow> local_db \<times> nat \<Rightarrow> bool engine_result \<times> (local_db \<times> nat)" where
  "applyRemoteEvents cfg now events st =
     (if events = [] then (Inr False, st)
      else
        (case prepare_events cfg now events st of
           (Inl e, st') \<Rightarrow> (Inl e, st')
         | (Inr (statements, insertedEventIds), (db', draws')) \<Rightarrow>
             let db'' = exec_batch statements db' in
             if \<exists>i \<in> set insertedEventIds. \<not> has_event db'' i
             then (Inl (EngineError ConflictCode
                     ''Remote event insert did not persist (possible version collision)'' False), (db'', draws'))
             else (Inr (\<exists>ev \<in> set events. \<not> is_synced (fst st) (fst (snd ev))), (db'', draws'))))"

definition applyAssignments :: "int \<Rightarrow> (string \<times> int) list \<Rightarrow> local_db \<Rightarrow> local_db" where
  "applyAssignments now assigned db = exec_batch (map (\<lambda>(i, g). InsertMap i g now) assigned) db"

subsection \<open>Collisions are resolved by at most one rewrite\<close>

lemma rewrite_keeps_events:
  assumes "db_wf db" and "rewritePendingVersions c rk t a v (db, n) = Inr ((db', n'), res)"
  shows "has_event db' i = has_event db i"
proof -
  have ids: "map row_id (db_events db') = map row_id (db_events db)"
    using rewrite_effect(1) [OF assms]
    by (induction rule: list_all2_induct) (auto split: if_splits dest: shifted_row_frame)
  then have "row_id ` set (db_events db') = row_id ` set (db_events db)" by (metis set_map)
  then show ?thesis by (simp add: has_event_def)
qed

text \<open>
  One rewrite frees the version, so the loop never runs out of its attempts: the error
  \<open>did not resolve version collision\<close> is unreachable from two attempts on.
\<close>

lemma resolve_collision_free:
  "occupying_row (fst st) t a v = None \<Longrightarrow> resolve_collision cfg (Suc n) t a v st = (Inr True, st)"
  by simp

lemma resolve_collision_not_False:
  assumes wf: "db_wf (fst st)" and run: "resolve_collision cfg (Suc (Suc n)) t a v st = (Inr b, st')"
  shows "b"
proof (cases "occupying_row (fst st) t a v")
  case None
  then show ?thesis using run by simp
next
  case (Some r)
  obtain db k where st: "st = (db, k)" by (cases st)
  from Some run st obtain db' k' res where
    rw: "rewritePendingVersions (cfg_crypto cfg) (cfg_resolveKey cfg) t a v (db, k) = Inr ((db', k'), res)"
    and pend: "\<not> is_synced db (row_id r)"
    and rest: "resolve_collision cfg (Suc n) t a v (db', k') = (Inr b, st')"
    by (auto split: if_splits sum.splits simp del: resolve_collision.simps(1))
  have "occupying_row db' t a v = None"
    using rewrite_frees_version [OF _ rw _ pend] wf Some st by simp
  then show ?thesis using rest resolve_collision_free [of "(db', k')"] by simp
qed

subsection \<open>What applying remote events does to the rows already there\<close>

text \<open>
  \<open>kept\<close> relates a row to its later form: a synced row is unchanged; a pending row keeps
  everything but its version and ciphertext, and its plaintext.
\<close>

definition kept :: "sync_config \<Rightarrow> bool \<Rightarrow> event_row \<Rightarrow> event_row \<Rightarrow> bool" where
  "kept cfg synced r r' \<longleftrightarrow>
     (if synced then r' = r
      else r' = r\<lparr>row_version := row_version r', row_payload_encrypted := row_payload_encrypted r'\<rparr> \<and>
           row_version r \<le> row_version r' \<and>
           row_plaintext (cfg_crypto cfg) (cfg_resolveKey cfg) r' =
           row_plaintext (cfg_crypto cfg) (cfg_resolveKey cfg) r)"

lemma kept_refl: "kept cfg s r r"
  by (simp add: kept_def)

lemma kept_trans:
  assumes "kept cfg s r1 r2" and "kept cfg s r2 r3"
  shows "kept cfg s r1 r3"
proof (cases s)
  case False
  obtain v p w q where "r2 = r1\<lparr>row_version := v, row_payload_encrypted := p\<rparr>"
    and "r3 = r2\<lparr>row_version := w, row_payload_encrypted := q\<rparr>"
    using assms False unfolding kept_def by metis
  then show ?thesis using assms False unfolding kept_def by simp
qed (use assms in \<open>simp add: kept_def\<close>)

lemma kept_id: "kept cfg s r r' \<Longrightarrow> row_id r' = row_id r"
proof (cases s)
  case False
  assume "kept cfg s r r'"
  then obtain v p where "r' = r\<lparr>row_version := v, row_payload_encrypted := p\<rparr>"
    using False unfolding kept_def by auto
  then show ?thesis by simp
qed (simp add: kept_def)

lemma kept_weaken: "kept cfg True r r' \<Longrightarrow> kept cfg s r r'"
  by (cases s) (simp_all add: kept_def)

lemma shifted_kept:
  assumes "aead_ok (cfg_crypto cfg)" and "shifted_row (cfg_crypto cfg) (cfg_resolveKey cfg) r r'"
  shows "kept cfg False r r'"
proof -
  obtain p where r': "r' = r\<lparr>row_version := row_version r + 1, row_payload_encrypted := p\<rparr>"
    using assms(2) unfolding shifted_row_def by blast
  have "row_plaintext (cfg_crypto cfg) (cfg_resolveKey cfg) r' = row_plaintext (cfg_crypto cfg) (cfg_resolveKey cfg) r"
    by (rule shifted_row_plaintext [OF assms])
  then show ?thesis unfolding kept_def by (simp add: r')
qed

text \<open>\<open>db_kept\<close>: the old rows are still there in order, each \<open>kept\<close>; the sync map only grows.\<close>

definition db_kept :: "sync_config \<Rightarrow> local_db \<Rightarrow> local_db \<Rightarrow> bool" where
  "db_kept cfg db db' \<longleftrightarrow>
     (\<exists>olds news. db_events db' = olds @ news \<and>
        list_all2 (\<lambda>r r'. kept cfg (is_synced db (row_id r)) r r') (db_events db) olds) \<and>
     (\<exists>ms. db_sync_event_map db' = db_sync_event_map db @ ms)"

lemma db_kept_refl: "db_kept cfg db db"
proof -
  have "list_all2 (\<lambda>r r'. kept cfg (is_synced db (row_id r)) r r') (db_events db) (db_events db)"
    by (simp add: list.rel_refl kept_refl)
  then show ?thesis unfolding db_kept_def by (metis append_Nil2)
qed

lemma db_kept_synced: "db_kept cfg db db' \<Longrightarrow> is_synced db i \<Longrightarrow> is_synced db' i"
  by (auto simp: db_kept_def is_synced_def)

lemma db_kept_trans:
  assumes "db_kept cfg db1 db2" and "db_kept cfg db2 db3"
  shows "db_kept cfg db1 db3"
proof -
  obtain os1 ns1 ms1 where 1: "db_events db2 = os1 @ ns1"
    "list_all2 (\<lambda>r r'. kept cfg (is_synced db1 (row_id r)) r r') (db_events db1) os1"
    "db_sync_event_map db2 = db_sync_event_map db1 @ ms1"
    using assms(1) unfolding db_kept_def by blast
  obtain os2 ns2 ms2 where 2: "db_events db3 = os2 @ ns2"
    "list_all2 (\<lambda>r r'. kept cfg (is_synced db2 (row_id r)) r r') (db_events db2) os2"
    "db_sync_event_map db3 = db_sync_event_map db2 @ ms2"
    using assms(2) unfolding db_kept_def by blast
  obtain xs ys where os2: "os2 = xs @ ys"
    "list_all2 (\<lambda>r r'. kept cfg (is_synced db2 (row_id r)) r r') os1 xs"
    using 2(2) unfolding 1(1) by (auto simp: list_all2_append1)
  have step: "kept cfg (is_synced db1 (row_id r)) r r3"
    if "kept cfg (is_synced db1 (row_id r)) r r2" "kept cfg (is_synced db2 (row_id r2)) r2 r3" for r r2 r3
  proof (cases "is_synced db2 (row_id r2)")
    case True
    then have "kept cfg (is_synced db1 (row_id r)) r2 r3" using that(2) by (simp add: kept_weaken)
    with that(1) show ?thesis by (rule kept_trans)
  next
    case False
    then have "\<not> is_synced db1 (row_id r)"
      using db_kept_synced [OF assms(1)] kept_id [OF that(1)] by metis
    then have "kept cfg False r r2" "kept cfg False r2 r3" using that False by simp_all
    then have "kept cfg False r r3" by (rule kept_trans)
    then show ?thesis using \<open>\<not> is_synced db1 (row_id r)\<close> by simp
  qed
  have "list_all2 (\<lambda>r r'. kept cfg (is_synced db1 (row_id r)) r r') (db_events db1) xs"
    by (rule list_all2_trans [OF _ 1(2) os2(2)]) (rule step)
  moreover have "db_events db3 = xs @ (ys @ ns2)" using 2(1) os2(1) by simp
  moreover have "db_sync_event_map db3 = db_sync_event_map db1 @ (ms1 @ ms2)" using 1(3) 2(3) by simp
  ultimately show ?thesis unfolding db_kept_def by blast
qed

lemma db_kept_exec: "db_kept cfg db (exec_stmt q db)"
proof -
  have same: "list_all2 (\<lambda>r r'. kept cfg (is_synced db (row_id r)) r r') (db_events db) (db_events db)"
    by (simp add: list.rel_refl kept_refl)
  have "\<exists>news. db_events (exec_stmt q db) = db_events db @ news"
    using insert_event_prefix by (cases q) auto
  moreover have "\<exists>ms. db_sync_event_map (exec_stmt q db) = db_sync_event_map db @ ms"
    using insert_map_prefix by (cases q) (auto simp: insert_map_if_event_def)
  ultimately show ?thesis unfolding db_kept_def using same by blast
qed

lemma db_kept_batch: "db_kept cfg db (exec_batch qs db)"
  unfolding exec_batch_def
  by (induction qs arbitrary: db) (auto intro: db_kept_refl db_kept_trans db_kept_exec)

lemma db_wf_exec: "db_wf db \<Longrightarrow> db_wf (exec_stmt q db)"
  by (cases q) auto

lemma db_wf_batch: "db_wf db \<Longrightarrow> db_wf (exec_batch qs db)"
  unfolding exec_batch_def by (induction qs arbitrary: db) (auto intro: db_wf_exec)

lemma db_kept_rewrite:
  assumes "aead_ok (cfg_crypto cfg)" and "db_wf db"
    and "rewritePendingVersions (cfg_crypto cfg) (cfg_resolveKey cfg) t a v (db, n) = Inr ((db', n'), res)"
  shows "db_kept cfg db db'"
proof -
  have "list_all2 (\<lambda>r r'. kept cfg (is_synced db (row_id r)) r r') (db_events db) (db_events db')"
    using rewrite_effect(1) [OF assms(2,3)]
  proof (rule list.rel_mono_strong)
    fix r r' assume "if in_shift db t a v r
        then shifted_row (cfg_crypto cfg) (cfg_resolveKey cfg) r r' else r' = r"
    then show "kept cfg (is_synced db (row_id r)) r r'"
      using shifted_kept [OF assms(1)] kept_refl by (auto simp: in_shift_def split: if_splits)
  qed
  then show ?thesis
    unfolding db_kept_def using rewrite_effect(2) [OF assms(2,3)] by (metis append_Nil2)
qed

lemma resolve_collision_keeps:
  assumes "aead_ok (cfg_crypto cfg)" and "db_wf (fst st)"
    and "resolve_collision cfg n t a v st = (res, st')"
  shows "db_kept cfg (fst st) (fst st') \<and> db_wf (fst st') \<and> (\<forall>i. has_event (fst st') i = has_event (fst st) i)
     \<and> db_sync_event_map (fst st') = db_sync_event_map (fst st) \<and> db_sync_meta (fst st') = db_sync_meta (fst st)"
  using assms(2,3)
proof (induction n arbitrary: st)
  case 0
  then show ?case by (simp add: db_kept_refl)
next
  case (Suc n)
  obtain db k where st: "st = (db, k)" by (cases st)
  show ?case
  proof (cases "st' = st")
    case True
    then show ?thesis using Suc.prems by (simp add: db_kept_refl)
  next
    case False
    then obtain db1 k1 r where
      rw: "rewritePendingVersions (cfg_crypto cfg) (cfg_resolveKey cfg) t a v (db, k) = Inr ((db1, k1), r)"
      and rest: "resolve_collision cfg n t a v (db1, k1) = (res, st')"
      using Suc.prems(2) st by (auto split: option.splits if_splits sum.splits)
    have wf: "db_wf db" using Suc.prems(1) st by simp
    have "db_wf (fst (db1, k1))" using rewrite_effect(5) [OF wf rw] by simp
    note IH = Suc.IH [OF this rest]
    show ?thesis
      using IH rewrite_keeps_events [OF wf rw] db_kept_rewrite [OF assms(1) wf rw] db_kept_trans
        rewrite_effect(2,3) [OF wf rw] st by auto
  qed
qed

lemma prepare_event_keeps:
  assumes "aead_ok (cfg_crypto cfg)" and "db_wf (fst st)" and "prepare_event cfg now ev st = (res, st')"
  shows "db_kept cfg (fst st) (fst st') \<and> db_wf (fst st') \<and> (\<forall>i. has_event (fst st') i = has_event (fst st) i)
     \<and> db_sync_event_map (fst st') = db_sync_event_map (fst st) \<and> db_sync_meta (fst st') = db_sync_meta (fst st)"
  using assms(3) resolve_collision_keeps [OF assms(1,2)] assms(2) db_kept_refl
  by (auto simp: prepare_event_def split: prod.splits sum.splits if_splits bool.splits)

lemma prepare_events_keeps:
  assumes "aead_ok (cfg_crypto cfg)" and "db_wf (fst st)" and "prepare_events cfg now evs st = (res, st')"
  shows "db_kept cfg (fst st) (fst st') \<and> db_wf (fst st') \<and> (\<forall>i. has_event (fst st') i = has_event (fst st) i)
     \<and> db_sync_event_map (fst st') = db_sync_event_map (fst st) \<and> db_sync_meta (fst st') = db_sync_meta (fst st)"
  using assms(2,3)
proof (induction evs arbitrary: st res)
  case Nil
  then show ?case by (simp add: db_kept_refl)
next
  case (Cons ev evs)
  obtain r1 st1 where one: "prepare_event cfg now ev st = (r1, st1)" by (metis prod.exhaust)
  note keep1 = prepare_event_keeps [OF assms(1) Cons.prems(1) one]
  show ?case
  proof (cases r1)
    case (Inl e)
    then show ?thesis using Cons.prems(2) one keep1 by simp
  next
    case (Inr p)
    obtain r2 st2 where two: "prepare_events cfg now evs st1 = (r2, st2)" by (metis prod.exhaust)
    have "st2 = st'" using Cons.prems(2) one two Inr by (auto split: sum.splits prod.splits)
    then have two': "prepare_events cfg now evs st1 = (r2, st')" using two by simp
    have "db_wf (fst st1)" using keep1 by blast
    from Cons.IH [OF this two'] keep1 show ?thesis using db_kept_trans by metis
  qed
qed

lemma applyRemoteEvents_keeps:
  assumes "aead_ok (cfg_crypto cfg)" and "db_wf (fst st)" and "applyRemoteEvents cfg now evs st = (res, st')"
  shows "db_kept cfg (fst st) (fst st') \<and> db_wf (fst st')"
proof -
  obtain r1 db1 n1 where run: "prepare_events cfg now evs st = (r1, (db1, n1))" by (metis prod.exhaust)
  note keep = prepare_events_keeps [OF assms(1,2) run]
  have "fst st' \<in> {fst st, db1} \<union> range (\<lambda>qs. exec_batch qs db1)"
    using assms(3) run
    by (cases r1) (auto simp: applyRemoteEvents_def Let_def split: if_splits)
  then show ?thesis
    using keep assms(2) db_kept_refl db_kept_trans [OF _ db_kept_batch] db_wf_batch by auto
qed

subsection \<open>Applied events are present and mapped\<close>

text \<open>The local map agrees with a server log: positions are global sequence numbers.\<close>

definition map_ok :: "string list \<Rightarrow> local_db \<Rightarrow> bool" where
  "map_ok L db \<longleftrightarrow> (\<forall>m \<in> set (db_sync_event_map db). log_seq L (map_event_id m) = Some (map_global_seq m))"

lemma log_seq_inj:
  assumes "distinct L" and "log_seq L i = Some g" and "log_seq L j = Some g"
  shows "i = j"
proof -
  have "(i, g) \<in> set (zip L (positions (length L)))" "(j, g) \<in> set (zip L (positions (length L)))"
    using assms(2,3) by (auto simp: log_seq_def dest: map_of_SomeD)
  then obtain k l where kl: "k < length L" "L ! k = i" "positions (length L) ! k = g"
    "l < length L" "L ! l = j" "positions (length L) ! l = g"
    by (auto simp: set_zip)
  then have "k = l" by simp
  with kl show ?thesis by simp
qed

lemma map_ok_append: "map_ok L db \<Longrightarrow> map_ok (L @ xs) db"
  by (simp add: map_ok_def log_seq_Some_append)

lemma map_ok_insert_map:
  assumes "distinct L" and "map_ok L db" and "log_seq L i = Some g"
  shows "map_ok L (insert_map_or_ignore i g now db) \<and> is_synced (insert_map_or_ignore i g now db) i"
proof (cases "is_synced db i \<or> g \<in> map_global_seq ` set (db_sync_event_map db)")
  case True
  have "is_synced db i"
  proof (cases "is_synced db i")
    case False
    then obtain m where "m \<in> set (db_sync_event_map db)" "map_global_seq m = g" using True by blast
    then have "map_event_id m = i" using assms log_seq_inj unfolding map_ok_def by metis
    then show ?thesis using \<open>m \<in> set (db_sync_event_map db)\<close> by (auto simp: is_synced_def)
  qed
  then show ?thesis using True assms(2) by (simp add: insert_map_or_ignore_def)
next
  case False
  then show ?thesis using assms by (auto simp: insert_map_or_ignore_def map_ok_def is_synced_def)
qed

text \<open>The statements a successful preparation queues for one event.\<close>

definition stmts_for :: "int \<Rightarrow> remote_event \<Rightarrow> event_row option \<Rightarrow> sql_stmt list" where
  "stmts_for now ev row =
     (case row of None \<Rightarrow> [] | Some r \<Rightarrow> [InsertEvent r]) @ [InsertMapIfEvent (fst (snd ev)) (fst ev) now]"

definition row_for :: "local_db \<Rightarrow> remote_event \<Rightarrow> event_row option \<Rightarrow> bool" where
  "row_for db ev row \<longleftrightarrow>
     (case row of None \<Rightarrow> has_event db (fst (snd ev)) | Some r \<Rightarrow> row_id r = fst (snd ev))"

lemma prepare_event_shape:
  assumes "prepare_event cfg now ev st = (Inr (stmts, ids), st')"
  shows "\<exists>row. stmts = stmts_for now ev row \<and> row_for (fst st) ev row \<and>
     ids = (case row of None \<Rightarrow> [] | Some r \<Rightarrow> [row_id r])"
proof -
  obtain g i j where ev: "ev = (g, i, j)" by (cases ev)
  show ?thesis
  proof (cases "has_event (fst st) i")
    case True
    then show ?thesis using assms ev
      by (intro exI [of _ None]) (auto simp: prepare_event_def stmts_for_def row_for_def split: sum.splits)
  next
    case False
    then obtain row where "materializeRemoteEvent (cfg_env cfg) (cfg_crypto cfg) (cfg_resolveKey cfg) i j = Inr row"
      "stmts = [InsertEvent row, InsertMapIfEvent i g now]" "ids = [row_id row]"
      using assms ev by (auto simp: prepare_event_def split: sum.splits prod.splits bool.splits)
    then show ?thesis
      using materialize_id ev by (intro exI [of _ "Some row"]) (auto simp: stmts_for_def row_for_def)
  qed
qed

lemma row_for_cong: "(\<And>i. has_event db i = has_event db' i) \<Longrightarrow> row_for db ev row = row_for db' ev row"
  by (simp add: row_for_def split: option.splits)

lemma prepare_events_shape:
  assumes "aead_ok (cfg_crypto cfg)" and "db_wf (fst st)" and "prepare_events cfg now evs st = (Inr (stmts, ids), st')"
  shows "\<exists>rows. list_all2 (row_for (fst st)) evs rows \<and> stmts = concat (map2 (stmts_for now) evs rows) \<and>
     set ids = {row_id r | r. Some r \<in> set rows}"
  using assms(2,3)
proof (induction evs arbitrary: st stmts ids)
  case Nil
  then show ?case by simp
next
  case (Cons ev evs)
  obtain s1 i1 st1 where one: "prepare_event cfg now ev st = (Inr (s1, i1), st1)"
    using Cons.prems(2) by (auto split: prod.splits sum.splits)
  obtain s2 i2 where two: "prepare_events cfg now evs st1 = (Inr (s2, i2), st')"
    and eq: "stmts = s1 @ s2" "ids = i1 @ i2"
    using Cons.prems(2) one by (auto split: prod.splits sum.splits)
  note keep = prepare_event_keeps [OF assms(1) Cons.prems(1) one]
  then have "db_wf (fst st1)" by blast
  from Cons.IH [OF this two] obtain rows where rows: "list_all2 (row_for (fst st1)) evs rows"
    "s2 = concat (map2 (stmts_for now) evs rows)" "set i2 = {row_id r | r. Some r \<in> set rows}"
    by blast
  have "row_for (fst st1) = row_for (fst st)"
    using keep by (intro ext row_for_cong) blast
  moreover obtain row where "s1 = stmts_for now ev row" "row_for (fst st) ev row"
    "i1 = (case row of None \<Rightarrow> [] | Some r \<Rightarrow> [row_id r])"
    using prepare_event_shape [OF one] by blast
  ultimately show ?case
    using rows eq by (intro exI [of _ "row # rows"]) (auto split: option.splits)
qed

lemma has_event_exec: "has_event db i \<Longrightarrow> has_event (exec_stmt q db) i"
  by (cases q) (simp_all add: has_event_insert_event)

lemma has_event_batch: "has_event db i \<Longrightarrow> has_event (exec_batch qs db) i"
  unfolding exec_batch_def by (induction qs arbitrary: db) (auto intro: has_event_exec)

lemma has_event_batch_only:
  "has_event (exec_batch qs db) i \<Longrightarrow> has_event db i \<or> (\<exists>r. InsertEvent r \<in> set qs \<and> row_id r = i)"
proof (induction qs arbitrary: db)
  case Nil
  then show ?case by (simp add: exec_batch_def)
next
  case (Cons q qs)
  then have "has_event (exec_stmt q db) i \<or> (\<exists>r. InsertEvent r \<in> set qs \<and> row_id r = i)"
    by (simp add: exec_batch_def)
  moreover have "has_event (exec_stmt q db) i \<Longrightarrow> has_event db i \<or> (\<exists>r. q = InsertEvent r \<and> row_id r = i)"
    by (cases q) (auto simp: has_event_insert_event)
  ultimately show ?case by auto
qed

lemma synced_batch: "is_synced db i \<Longrightarrow> is_synced (exec_batch qs db) i"
  using db_kept_synced [OF db_kept_batch] .

lemma exec_batch_append: "exec_batch (ps @ qs) db = exec_batch qs (exec_batch ps db)"
  by (simp add: exec_batch_def)

lemma exec_stmts_for:
  assumes "distinct L" and "map_ok L db" and "log_seq L (fst (snd ev)) = Some (fst ev)"
  shows "map_ok L (exec_batch (stmts_for now ev row) db)"
    and "has_event (exec_batch (stmts_for now ev row) db) (fst (snd ev)) \<Longrightarrow>
      is_synced (exec_batch (stmts_for now ev row) db) (fst (snd ev))"
proof -
  define db1 where "db1 = (case row of None \<Rightarrow> db | Some r \<Rightarrow> insert_event_or_ignore r db)"
  have ex: "exec_batch (stmts_for now ev row) db = insert_map_if_event (fst (snd ev)) (fst ev) now db1"
    by (simp add: exec_batch_def stmts_for_def db1_def split: option.splits)
  have "map_ok L db1" using assms(2) by (simp add: db1_def map_ok_def split: option.splits)
  note ins = map_ok_insert_map [OF assms(1) this assms(3), of now]
  show "map_ok L (exec_batch (stmts_for now ev row) db)"
    unfolding ex using ins \<open>map_ok L db1\<close> by (simp add: insert_map_if_event_def)
  show "is_synced (exec_batch (stmts_for now ev row) db) (fst (snd ev))"
    if "has_event (exec_batch (stmts_for now ev row) db) (fst (snd ev))"
    using that ins unfolding ex by (simp add: insert_map_if_event_def split: if_splits)
qed

lemma exec_all_stmts:
  assumes "distinct L" and "map_ok L db" and "\<forall>ev \<in> set evs. log_seq L (fst (snd ev)) = Some (fst ev)"
    and "distinct (map (fst \<circ> snd) evs)" and "length rows = length evs"
    and "\<And>k r. k < length evs \<Longrightarrow> rows ! k = Some r \<Longrightarrow> row_id r = fst (snd (evs ! k))"
  shows "map_ok L (exec_batch (concat (map2 (stmts_for now) evs rows)) db) \<and>
     (\<forall>ev \<in> set evs. has_event (exec_batch (concat (map2 (stmts_for now) evs rows)) db) (fst (snd ev)) \<longrightarrow>
        is_synced (exec_batch (concat (map2 (stmts_for now) evs rows)) db) (fst (snd ev)))"
  using assms(2-)
proof (induction evs arbitrary: rows db)
  case Nil
  then show ?case by (simp add: exec_batch_def)
next
  case (Cons ev evs)
  then obtain row rows' where rows: "rows = row # rows'" by (cases rows) auto
  let ?i = "fst (snd ev)"
  let ?db1 = "exec_batch (stmts_for now ev row) db"
  let ?rest = "concat (map2 (stmts_for now) evs rows')"
  have log: "log_seq L ?i = Some (fst ev)" using Cons.prems(2) by simp
  note one = exec_stmts_for [OF assms(1) Cons.prems(1) log, of now row]
  have "row_id r = fst (snd (evs ! k))" if "k < length evs" "rows' ! k = Some r" for k r
    using Cons.prems(5) [of "Suc k" r] that rows by simp
  then have rowid: "\<And>k r. k < length evs \<Longrightarrow> rows' ! k = Some r \<Longrightarrow> row_id r = fst (snd (evs ! k))" .
  have IH: "map_ok L (exec_batch ?rest ?db1)"
    "\<forall>e \<in> set evs. has_event (exec_batch ?rest ?db1) (fst (snd e)) \<longrightarrow> is_synced (exec_batch ?rest ?db1) (fst (snd e))"
    using Cons.IH [OF one(1), of rows'] Cons.prems(2,3,4) rows rowid by auto
  have "is_synced (exec_batch ?rest ?db1) ?i" if "has_event (exec_batch ?rest ?db1) ?i"
  proof -
    have "\<not> (\<exists>r. InsertEvent r \<in> set ?rest \<and> row_id r = ?i)"
    proof
      assume "\<exists>r. InsertEvent r \<in> set ?rest \<and> row_id r = ?i"
      then obtain e q r where "(e, q) \<in> set (zip evs rows')" "InsertEvent r \<in> set (stmts_for now e q)" "row_id r = ?i"
        by auto
      then obtain k where k: "k < length evs" "evs ! k = e" "rows' ! k = Some r"
        by (auto simp: set_zip stmts_for_def split: option.splits)
      then have "fst (snd (evs ! k)) = ?i" using rowid [OF k(1,3)] \<open>row_id r = ?i\<close> by simp
      moreover have "fst (snd (evs ! k)) \<in> set (map (fst \<circ> snd) evs)" using k(1) by simp
      moreover have "?i \<notin> set (map (fst \<circ> snd) evs)" using Cons.prems(3) by simp
      ultimately show False by simp
    qed
    then have "has_event ?db1 ?i" using has_event_batch_only [OF that] by blast
    then show ?thesis using one(2) synced_batch by blast
  qed
  then show ?case using IH by (simp add: rows exec_batch_append)
qed

lemma applyRemoteEvents_complete:
  assumes aead: "aead_ok (cfg_crypto cfg)" and wf: "db_wf (fst st)"
    and L: "distinct L" "map_ok L (fst st)" "\<forall>ev \<in> set evs. log_seq L (fst (snd ev)) = Some (fst ev)"
    and evs: "distinct (map (fst \<circ> snd) evs)"
    and ok: "applyRemoteEvents cfg now evs st = (Inr b, st')"
  shows "map_ok L (fst st') \<and> (\<forall>ev \<in> set evs. has_event (fst st') (fst (snd ev)) \<and> is_synced (fst st') (fst (snd ev)))"
proof (cases "evs = []")
  case True
  then show ?thesis using ok L(2) by (auto simp: applyRemoteEvents_def)
next
  case False
  obtain stmts ids db1 n1 where run: "prepare_events cfg now evs st = (Inr (stmts, ids), (db1, n1))"
    using ok False by (auto simp: applyRemoteEvents_def Let_def split: prod.splits sum.splits if_splits)
  then have st': "st' = (exec_batch stmts db1, n1)" and chk: "\<forall>i \<in> set ids. has_event (exec_batch stmts db1) i"
    using ok False by (auto simp: applyRemoteEvents_def Let_def split: if_splits)
  note keep = prepare_events_keeps [OF aead wf run]
  obtain rows where rows: "list_all2 (row_for (fst st)) evs rows" "stmts = concat (map2 (stmts_for now) evs rows)"
    "set ids = {row_id r | r. Some r \<in> set rows}"
    using prepare_events_shape [OF aead wf run] by blast
  have rowid: "\<And>k r. k < length evs \<Longrightarrow> rows ! k = Some r \<Longrightarrow> row_id r = fst (snd (evs ! k))"
    using rows(1) by (fastforce simp: list_all2_conv_all_nth row_for_def)
  have "map_ok L db1" using L(2) keep by (simp add: map_ok_def)
  note fin = exec_all_stmts [OF L(1) this L(3) evs _ rowid]
  have "has_event (fst st') (fst (snd ev))" if "ev \<in> set evs" for ev
  proof -
    obtain k where k: "k < length evs" "evs ! k = ev" using \<open>ev \<in> set evs\<close> by (metis in_set_conv_nth)
    show ?thesis
    proof (cases "rows ! k")
      case None
      then have "has_event (fst st) (fst (snd ev))"
        using rows(1) k by (auto simp: list_all2_conv_all_nth row_for_def)
      then have "has_event db1 (fst (snd ev))" using keep by simp
      then show ?thesis unfolding st' by (simp add: has_event_batch)
    next
      case (Some r)
      then have "row_id r \<in> set ids" using rows k by (auto simp: list_all2_conv_all_nth) (metis nth_mem)
      then show ?thesis using chk rowid [OF k(1) Some] k(2) st' by auto
    qed
  qed
  then show ?thesis using fin rows(1,2) st' by (auto simp: list_all2_conv_all_nth)
qed

end
