(* ===== verification/SyncEngine.thy ===== *)
theory SyncEngine
  imports SyncApply
begin

text \<open>
  packages/sync-engine/src/SyncEngine.ts: the client's pull and push operations over the local
  database, its status and back-off bookkeeping, and the decisions of its two loops about when
  to run next. The transport is a parameter: a record of two functions over a world \<open>'w\<close> (the
  server and the network), so that a call may change what the next call sees. \<open>now\<close> is the
  clock and \<open>jitter\<close> the rounded random factor. The callback \<open>onRebaseRequired\<close> belongs to the
  caller of the engine: \<open>eng_rebases\<close> counts its calls, and it is assumed to return. (When it throws, the
  code ends the pull or the push with that error, after the events have been applied and the
  cursor has moved.) The pull loop may run for ever against an
  arbitrary transport, so it takes fuel and \<open>None\<close> means that the fuel ran out.
\<close>

datatype sync_direction = DirPull | DirPush

datatype sync_status =
    Idle "int option" "(sync_error_code \<times> string) option"
  | Syncing sync_direction "int option" "(sync_error_code \<times> string) option"
  | Failed "sync_error_code \<times> string" "int option" "int option"

record pull_state =
  pl_requested :: bool
  pl_backoffMs :: int
  pl_notBeforeMs :: "int option"

record push_state =
  ps_requested :: bool
  ps_queued :: bool
  ps_signalsSeen :: bool
  ps_backoffMs :: int
  ps_notBeforeMs :: "int option"

record engine =
  eng_db :: local_db
  eng_draws :: nat
  eng_lastKnownHead :: "int option"
  eng_pull :: pull_state
  eng_push :: push_state
  eng_status :: sync_status
  eng_rebases :: nat

definition createPullState :: pull_state where
  "createPullState = \<lparr>pl_requested = False, pl_backoffMs = 0, pl_notBeforeMs = None\<rparr>"

definition createPushState :: push_state where
  "createPushState = \<lparr>ps_requested = False, ps_queued = False, ps_signalsSeen = False,
     ps_backoffMs = 0, ps_notBeforeMs = None\<rparr>"

definition new_engine :: "local_db \<Rightarrow> engine" where
  "new_engine db = \<lparr>eng_db = db, eng_draws = 0, eng_lastKnownHead = None, eng_pull = createPullState,
     eng_push = createPushState, eng_status = Idle None None, eng_rebases = 0\<rparr>"

subsection \<open>Wire types\<close>

record push_event =
  pe_eventId :: string
  pe_recordJson :: string
  pe_scopeId :: "string option"
  pe_resourceId :: "string option"
  pe_resourceKeyId :: "string option"
  pe_grantId :: "string option"
  pe_scopeStateRef :: "string option"
  pe_authorDeviceId :: "string option"

datatype push_response =
    WireOk int "assignment list"
  | WireConflict int conflict_reason "remote_event list option"

record 'w transport =
  tr_pull :: "string \<Rightarrow> int \<Rightarrow> nat \<Rightarrow> int \<Rightarrow> 'w \<Rightarrow> pull_response engine_result \<times> 'w"
  tr_push :: "string \<Rightarrow> int \<Rightarrow> push_event list \<Rightarrow> 'w \<Rightarrow> push_response engine_result \<times> 'w"

subsection \<open>Back-off and error classification\<close>

definition nextBackoffMs :: "(int \<Rightarrow> int) \<Rightarrow> int \<Rightarrow> int \<Rightarrow> int \<Rightarrow> int" where
  "nextBackoffMs jitter current lo hi =
     (let base = (if current = 0 then lo else min (current * 2) hi)
      in min (max (jitter base) lo) hi)"

definition MIN_BACKOFF_MS :: int where "MIN_BACKOFF_MS = 1000"

definition MAX_BACKOFF_MS :: int where "MAX_BACKOFF_MS = 20000"

definition lower_char :: "char \<Rightarrow> char" where
  "lower_char c = (let n = of_char c :: nat in if 65 \<le> n \<and> n \<le> 90 then char_of (n + 32) else c)"

fun contains_text :: "string \<Rightarrow> string \<Rightarrow> bool" where
  "contains_text w [] = (w = [])"
| "contains_text w (c # s) = (take (length w) (c # s) = w \<or> contains_text w s)"

fun error_message :: "error \<Rightarrow> string" where
  "error_message (AssertError n r) = n @ '' '' @ r"
| "error_message (Error m) = m"

definition isAuthTransportError :: "error \<Rightarrow> bool" where
  "isAuthTransportError e = contains_text ''unauthorized'' (map lower_char (error_message e))"

text \<open>The error shown and whether it may be retried.\<close>

definition toSyncEngineError ::
  "engine_error \<Rightarrow> sync_error_code \<Rightarrow> string \<Rightarrow> (sync_error_code \<times> string) \<times> bool" where
  "toSyncEngineError e code message =
     (case e of
        EngineError c m r \<Rightarrow> ((c, m), r)
      | Thrown x \<Rightarrow> if isAuthTransportError x then ((AuthCode, ''Sync unauthorized''), False)
                     else ((code, message), True))"

subsection \<open>Status\<close>

definition lastSuccessAt :: "sync_status \<Rightarrow> int option" where
  "lastSuccessAt s = (case s of Idle t _ \<Rightarrow> t | Syncing _ t _ \<Rightarrow> t | Failed _ _ t \<Rightarrow> t)"

definition getLastError :: "sync_status \<Rightarrow> (sync_error_code \<times> string) option" where
  "getLastError s = (case s of Failed e _ _ \<Rightarrow> Some e | Idle _ e \<Rightarrow> e | Syncing _ _ e \<Rightarrow> e)"

definition setErrorStatus :: "sync_error_code \<times> string \<Rightarrow> int option \<Rightarrow> engine \<Rightarrow> engine" where
  "setErrorStatus e retryAt g = g\<lparr>eng_status := Failed e retryAt (lastSuccessAt (eng_status g))\<rparr>"

definition setSyncing :: "sync_direction \<Rightarrow> engine \<Rightarrow> engine" where
  "setSyncing d g = g\<lparr>eng_status := Syncing d (lastSuccessAt (eng_status g)) (getLastError (eng_status g))\<rparr>"

definition setIdle :: "engine \<Rightarrow> engine" where
  "setIdle g = g\<lparr>eng_status := Idle (lastSuccessAt (eng_status g)) (getLastError (eng_status g))\<rparr>"

subsection \<open>Cursor and pending events\<close>

definition ensureSyncMetaRow :: "sync_config \<Rightarrow> engine \<Rightarrow> engine" where
  "ensureSyncMetaRow cfg g =
     (case db_sync_meta (eng_db g) (cfg_storeId cfg) of
        Some _ \<Rightarrow> g
      | None \<Rightarrow> g\<lparr>eng_db := (eng_db g)\<lparr>db_sync_meta := (db_sync_meta (eng_db g))(cfg_storeId cfg \<mapsto> 0)\<rparr>\<rparr>)"

definition readLastPulledGlobalSeq :: "sync_config \<Rightarrow> local_db \<Rightarrow> int" where
  "readLastPulledGlobalSeq cfg db =
     (case db_sync_meta db (cfg_storeId cfg) of Some v \<Rightarrow> v | None \<Rightarrow> 0)"

definition writeLastPulledGlobalSeq :: "sync_config \<Rightarrow> int \<Rightarrow> local_db \<Rightarrow> local_db" where
  "writeLastPulledGlobalSeq cfg v db = db\<lparr>db_sync_meta := (db_sync_meta db)(cfg_storeId cfg \<mapsto> v)\<rparr>"

definition hasPendingEvents :: "local_db \<Rightarrow> bool" where
  "hasPendingEvents db \<longleftrightarrow> 0 < length (pending_rows db)"

definition loadPendingEvents :: "nat \<Rightarrow> local_db \<Rightarrow> event_row list" where
  "loadPendingEvents limit db = take limit (sort_key row_commit_sequence (pending_rows db))"

definition getExpectedHead :: "sync_config \<Rightarrow> engine \<Rightarrow> int" where
  "getExpectedHead cfg g =
     (case eng_lastKnownHead g of Some h \<Rightarrow> h | None \<Rightarrow> readLastPulledGlobalSeq cfg (eng_db g))"

definition requestPush :: "engine \<Rightarrow> engine" where
  "requestPush g = g\<lparr>eng_push := (eng_push g)\<lparr>ps_requested := True\<rparr>\<rparr>"

definition resetSyncState :: "sync_config \<Rightarrow> bool \<Rightarrow> engine \<Rightarrow> engine result" where
  "resetSyncState cfg running g =
     (if running then Inl (Error ''Cannot reset sync state while sync engine is running'')
      else Inr (g\<lparr>eng_db := (eng_db g)\<lparr>db_sync_event_map := [],
                     db_sync_meta := (db_sync_meta (eng_db g))(cfg_storeId cfg \<mapsto> 0)\<rparr>,
                  eng_lastKnownHead := None,
                  eng_pull := (eng_pull g)\<lparr>pl_backoffMs := 0, pl_notBeforeMs := None\<rparr>,
                  eng_push := (eng_push g)\<lparr>ps_backoffMs := 0, ps_notBeforeMs := None\<rparr>,
                  eng_status := Idle (lastSuccessAt (eng_status g)) None\<rparr>))"

definition apply_page :: "sync_config \<Rightarrow> int \<Rightarrow> remote_event list \<Rightarrow> engine \<Rightarrow> bool engine_result \<times> engine" where
  "apply_page cfg now events g =
     (case applyRemoteEvents cfg now events (eng_db g, eng_draws g) of
        (res, (db', draws')) \<Rightarrow> (res, g\<lparr>eng_db := db', eng_draws := draws'\<rparr>))"

subsection \<open>Pull\<close>

text \<open>The \<open>while (keepPulling)\<close> loop; the result says whether any page applied something new.\<close>

fun pull_pages ::
  "'w transport \<Rightarrow> sync_config \<Rightarrow> int \<Rightarrow> int \<Rightarrow> nat \<Rightarrow> int \<Rightarrow> bool \<Rightarrow> engine \<times> 'w
     \<Rightarrow> (bool engine_result \<times> engine \<times> 'w) option" where
  "pull_pages t cfg now waitMs 0 since pulledAny gw = None"
| "pull_pages t cfg now waitMs (Suc fuel) since pulledAny gw =
     (case tr_pull t (cfg_storeId cfg) since (cfg_pullLimit cfg) waitMs (snd gw) of
        (Inl e, w) \<Rightarrow> Some (Inl e, fst gw, w)
      | (Inr response, w) \<Rightarrow>
          let g1 = (fst gw)\<lparr>eng_lastKnownHead := Some (pr_head response)\<rparr> in
          if pr_events response = [] then Some (Inr pulledAny, g1, w)
          else
            (case apply_page cfg now (pr_events response) g1 of
               (Inl e, g2) \<Rightarrow> Some (Inl e, g2, w)
             | (Inr applied, g2) \<Rightarrow>
                 let since' = (case pr_nextSince response of Some s \<Rightarrow> s | None \<Rightarrow> since);
                     g3 = (case pr_nextSince response of
                             Some s \<Rightarrow> g2\<lparr>eng_db := writeLastPulledGlobalSeq cfg s (eng_db g2)\<rparr>
                           | None \<Rightarrow> g2)
                 in if pr_hasMore response \<and> pr_nextSince response = None
                    then Some (Inl (Thrown (Error ''Sync pull response missing nextSince'')), g3, w)
                    else if pr_hasMore response
                    then pull_pages t cfg now waitMs fuel since' (pulledAny \<or> applied) (g3, w)
                    else Some (Inr (pulledAny \<or> applied), g3, w)))"

definition pull_failed :: "(int \<Rightarrow> int) \<Rightarrow> int \<Rightarrow> engine_error \<Rightarrow> engine \<Rightarrow> engine" where
  "pull_failed jitter now e g =
     (case toSyncEngineError e ServerCode ''Sync pull failed'' of
        (err, retryable) \<Rightarrow>
          if \<not> retryable
          then setErrorStatus err None
                 (g\<lparr>eng_pull := \<lparr>pl_requested = False, pl_backoffMs = 0, pl_notBeforeMs = None\<rparr>\<rparr>)
          else
            let backoff = nextBackoffMs jitter (pl_backoffMs (eng_pull g)) MIN_BACKOFF_MS MAX_BACKOFF_MS;
                retryAt = now + backoff
            in setErrorStatus err (Some retryAt)
                 (g\<lparr>eng_pull := \<lparr>pl_requested = True, pl_backoffMs = backoff, pl_notBeforeMs = Some retryAt\<rparr>\<rparr>))"

definition pull_succeeded :: "int \<Rightarrow> bool \<Rightarrow> bool \<Rightarrow> engine \<Rightarrow> engine" where
  "pull_succeeded now hadPending pulledAny g =
     (let g1 = (if pulledAny \<and> hadPending \<and> hasPendingEvents (eng_db g)
                then g\<lparr>eng_rebases := eng_rebases g + 1\<rparr> else g)
      in g1\<lparr>eng_pull := (eng_pull g1)\<lparr>pl_backoffMs := 0, pl_notBeforeMs := None\<rparr>,
            eng_status := Idle (Some now) None\<rparr>)"

definition pullOnceInternal ::
  "'w transport \<Rightarrow> sync_config \<Rightarrow> (int \<Rightarrow> int) \<Rightarrow> int \<Rightarrow> int \<Rightarrow> nat \<Rightarrow> engine \<times> 'w \<Rightarrow> (engine \<times> 'w) option" where
  "pullOnceInternal t cfg jitter now waitMs fuel gw =
     (let g0 = setSyncing DirPull (fst gw);
          hadPending = hasPendingEvents (eng_db g0);
          since = readLastPulledGlobalSeq cfg (eng_db g0)
      in case pull_pages t cfg now waitMs fuel since False (g0, snd gw) of
           None \<Rightarrow> None
         | Some (Inl e, g, w) \<Rightarrow> Some (pull_failed jitter now e g, w)
         | Some (Inr pulledAny, g, w) \<Rightarrow> Some (pull_succeeded now hadPending pulledAny g, w))"

subsection \<open>Push\<close>

definition hex_byte :: "8 word \<Rightarrow> string" where
  "hex_byte b = [hex_char (unat b div 16), hex_char (unat b mod 16)]"

definition to_hex :: "bytes \<Rightarrow> string" where
  "to_hex bs = concat (map hex_byte bs)"

definition to_push_event :: "js_env \<Rightarrow> event_row \<Rightarrow> push_event result" where
  "to_push_event env row =
     bind_result (toSyncRecord env row) (\<lambda>syncRecord.
       Inr \<lparr>pe_eventId = row_id row, pe_recordJson = toRecordJson syncRecord,
         pe_scopeId = sr_scopeId syncRecord, pe_resourceId = sr_resourceId syncRecord,
         pe_resourceKeyId = sr_resourceKeyId syncRecord, pe_grantId = sr_grantId syncRecord,
         pe_scopeStateRef = map_option to_hex (row_scope_state_ref row),
         pe_authorDeviceId = sr_authorDeviceId syncRecord\<rparr>)"

fun to_push_events :: "js_env \<Rightarrow> event_row list \<Rightarrow> push_event list result" where
  "to_push_events env [] = Inr []"
| "to_push_events env (r # rs) =
     bind_result (to_push_event env r) (\<lambda>e. bind_result (to_push_events env rs) (\<lambda>es. Inr (e # es)))"

definition conflict_with_missing ::
  "sync_config \<Rightarrow> int \<Rightarrow> int \<Rightarrow> remote_event list \<Rightarrow> engine \<Rightarrow> unit engine_result \<times> engine" where
  "conflict_with_missing cfg now head missing g =
     (let hadPending = hasPendingEvents (eng_db g) in
      case apply_page cfg now missing g of
        (Inl e, g1) \<Rightarrow> (Inl e, g1)
      | (Inr applied, g1) \<Rightarrow>
          let g2 = g1\<lparr>eng_db := writeLastPulledGlobalSeq cfg
                        (max (readLastPulledGlobalSeq cfg (eng_db g1)) head) (eng_db g1),
                      eng_lastKnownHead := Some head\<rparr>
          in (Inr (), if applied \<and> hadPending \<and> hasPendingEvents (eng_db g2)
                      then g2\<lparr>eng_rebases := eng_rebases g2 + 1\<rparr> else g2))"

text \<open>
  \<open>handleConflict\<close>. Without missing events it asks for an immediate pull, which is one
  \<open>pullOnce\<close> with no waiting, whether the loop or the caller runs it.
\<close>

definition handleConflict ::
  "'w transport \<Rightarrow> sync_config \<Rightarrow> (int \<Rightarrow> int) \<Rightarrow> int \<Rightarrow> nat \<Rightarrow> int \<Rightarrow> conflict_reason
     \<Rightarrow> remote_event list option \<Rightarrow> int \<Rightarrow> engine \<times> 'w \<Rightarrow> (unit engine_result \<times> engine \<times> 'w) option" where
  "handleConflict t cfg jitter now fuel head reason missing expectedHead gw =
     (let ms = (case missing of Some l \<Rightarrow> l | None \<Rightarrow> []) in
      if reason = ServerBehind
      then Some (Inl (EngineError ConflictCode ''Sync server head behind expected; reset sync state to re-push'' False),
                 fst gw, snd gw)
      else if ms \<noteq> []
      then (case conflict_with_missing cfg now head ms (fst gw) of (r, g) \<Rightarrow> Some (r, g, snd gw))
      else
        (case (if readLastPulledGlobalSeq cfg (eng_db (fst gw)) \<le> expectedHead
               then pullOnceInternal t cfg jitter now 0 fuel gw else Some gw) of
           None \<Rightarrow> None
         | Some (g, w) \<Rightarrow>
             if readLastPulledGlobalSeq cfg (eng_db g) \<le> expectedHead
             then Some (Inl (EngineError ConflictCode ''Sync conflict did not advance cursor'' True), g, w)
             else Some (Inr (), g, w)))"

definition push_accepted :: "sync_config \<Rightarrow> int \<Rightarrow> int \<Rightarrow> assignment list \<Rightarrow> engine \<Rightarrow> engine" where
  "push_accepted cfg now head assigned g =
     (let db1 = applyAssignments now assigned (eng_db g);
          db2 = writeLastPulledGlobalSeq cfg (max (readLastPulledGlobalSeq cfg db1) head) db1;
          g1 = g\<lparr>eng_db := db2, eng_lastKnownHead := Some head, eng_status := Idle (Some now) None,
                 eng_push := (eng_push g)\<lparr>ps_backoffMs := 0, ps_notBeforeMs := None\<rparr>\<rparr>
      in if hasPendingEvents db2 \<and> assigned \<noteq> [] then requestPush g1 else g1)"

definition push_nothing :: "engine \<Rightarrow> engine" where
  "push_nothing g =
     (setIdle g)\<lparr>eng_push := (eng_push g)\<lparr>ps_backoffMs := 0, ps_notBeforeMs := None, ps_requested := False\<rparr>\<rparr>"

text \<open>The \<open>while (attempt < maxPushRetries)\<close> loop; the argument counts the attempts left.\<close>

fun push_attempts ::
  "'w transport \<Rightarrow> sync_config \<Rightarrow> (int \<Rightarrow> int) \<Rightarrow> int \<Rightarrow> nat \<Rightarrow> nat \<Rightarrow> engine \<times> 'w
     \<Rightarrow> (unit engine_result \<times> engine \<times> 'w) option" where
  "push_attempts t cfg jitter now fuel 0 gw = Some (Inr (), fst gw, snd gw)"
| "push_attempts t cfg jitter now fuel (Suc n) gw =
     (let g = fst gw; pending = loadPendingEvents (cfg_pushBatchSize cfg) (eng_db g) in
      if pending = [] then Some (Inr (), push_nothing g, snd gw)
      else
        let expectedHead = getExpectedHead cfg g in
        case to_push_events (cfg_env cfg) pending of
          Inl e \<Rightarrow> Some (Inl (Thrown e), g, snd gw)
        | Inr events \<Rightarrow>
            (case tr_push t (cfg_storeId cfg) expectedHead events (snd gw) of
               (Inl e, w) \<Rightarrow> Some (Inl e, g, w)
             | (Inr (WireOk head assigned), w) \<Rightarrow> Some (Inr (), push_accepted cfg now head assigned g, w)
             | (Inr (WireConflict head reason missing), w) \<Rightarrow>
                 (case handleConflict t cfg jitter now fuel head reason missing expectedHead (g, w) of
                    None \<Rightarrow> None
                  | Some (Inl e, g', w') \<Rightarrow> Some (Inl e, g', w')
                  | Some (Inr _, g', w') \<Rightarrow> push_attempts t cfg jitter now fuel n (g', w'))))"

definition push_failed :: "(int \<Rightarrow> int) \<Rightarrow> int \<Rightarrow> engine_error \<Rightarrow> engine \<Rightarrow> engine" where
  "push_failed jitter now e g =
     (case toSyncEngineError e NetworkCode ''Sync push failed'' of
        (err, retryable) \<Rightarrow>
          if \<not> retryable
          then setErrorStatus err None
                 (g\<lparr>eng_push := (eng_push g)\<lparr>ps_backoffMs := 0, ps_notBeforeMs := None, ps_requested := False\<rparr>\<rparr>)
          else
            let backoff = nextBackoffMs jitter (ps_backoffMs (eng_push g)) MIN_BACKOFF_MS MAX_BACKOFF_MS;
                retryAt = now + backoff
            in requestPush (setErrorStatus err (Some retryAt)
                 (g\<lparr>eng_push := (eng_push g)\<lparr>ps_backoffMs := backoff, ps_notBeforeMs := Some retryAt\<rparr>\<rparr>)))"

definition pushOnce ::
  "'w transport \<Rightarrow> sync_config \<Rightarrow> (int \<Rightarrow> int) \<Rightarrow> int \<Rightarrow> nat \<Rightarrow> engine \<times> 'w \<Rightarrow> (engine \<times> 'w) option" where
  "pushOnce t cfg jitter now fuel gw =
     (case push_attempts t cfg jitter now fuel (cfg_maxPushRetries cfg) (setSyncing DirPush (fst gw), snd gw) of
        None \<Rightarrow> None
      | Some (Inl e, g, w) \<Rightarrow> Some (push_failed jitter now e g, w)
      | Some (Inr _, g, w) \<Rightarrow> Some (g, w))"

definition syncOnce ::
  "'w transport \<Rightarrow> sync_config \<Rightarrow> (int \<Rightarrow> int) \<Rightarrow> int \<Rightarrow> nat \<Rightarrow> engine \<times> 'w \<Rightarrow> (engine \<times> 'w) option" where
  "syncOnce t cfg jitter now fuel gw =
     Option.bind (pullOnceInternal t cfg jitter now 0 fuel (ensureSyncMetaRow cfg (fst gw), snd gw))
       (pushOnce t cfg jitter now fuel)"

subsection \<open>When the loops run next\<close>

definition getPullDelayMs :: "sync_config \<Rightarrow> int \<Rightarrow> pull_state \<Rightarrow> int" where
  "getPullDelayMs cfg now p =
     (case pl_notBeforeMs p of
        Some t \<Rightarrow> if now < t then t - now
                  else if pl_requested p then 0 else if 0 < cfg_pullWaitMs cfg then 0 else cfg_pullIntervalMs cfg
      | None \<Rightarrow> if pl_requested p then 0 else if 0 < cfg_pullWaitMs cfg then 0 else cfg_pullIntervalMs cfg)"

definition getPushDelayMs :: "sync_config \<Rightarrow> int \<Rightarrow> push_state \<Rightarrow> int" where
  "getPushDelayMs cfg now p =
     (case ps_notBeforeMs p of
        Some t \<Rightarrow> if now < t then t - now
                  else if ps_requested p then 0
                  else if ps_signalsSeen p then cfg_pushFallbackIntervalMs cfg else cfg_pushIntervalMs cfg
      | None \<Rightarrow> if ps_requested p then 0
                else if ps_signalsSeen p then cfg_pushFallbackIntervalMs cfg else cfg_pushIntervalMs cfg)"

datatype wait_decision = RunNow | AwaitSignal | Sleep int | SignalOrSleep int

definition backoff_active :: "int \<Rightarrow> int option \<Rightarrow> bool" where
  "backoff_active now notBefore \<longleftrightarrow> (case notBefore of Some t \<Rightarrow> now < t | None \<Rightarrow> False)"

definition stopped_by_error :: "sync_status \<Rightarrow> bool" where
  "stopped_by_error s \<longleftrightarrow> (case s of Failed _ None _ \<Rightarrow> True | _ \<Rightarrow> False)"

definition waitForNextPull :: "sync_config \<Rightarrow> int \<Rightarrow> engine \<Rightarrow> wait_decision" where
  "waitForNextPull cfg now g =
     (if stopped_by_error (eng_status g) then AwaitSignal
      else
        let delay = getPullDelayMs cfg now (eng_pull g) in
        if delay \<le> 0 then (if cfg_pullWaitMs cfg = 0 \<and> cfg_pullIntervalMs cfg = 0 then AwaitSignal else RunNow)
        else if backoff_active now (pl_notBeforeMs (eng_pull g)) then Sleep delay
        else SignalOrSleep delay)"

definition waitForNextPush :: "sync_config \<Rightarrow> int \<Rightarrow> engine \<Rightarrow> wait_decision" where
  "waitForNextPush cfg now g =
     (if stopped_by_error (eng_status g) then AwaitSignal
      else
        let delay = getPushDelayMs cfg now (eng_push g) in
        if ps_requested (eng_push g) then (if 0 < delay then Sleep delay else RunNow)
        else if delay \<le> 0 then AwaitSignal
        else if backoff_active now (ps_notBeforeMs (eng_push g)) then Sleep delay
        else SignalOrSleep delay)"

end
