(* ===== verification/SyncSystem.thy ===== *)
theory SyncSystem
  imports SyncEngine
begin

text \<open>
  The client's engine against the API server. \<open>server_transport\<close> composes the controller
  (apps/api/src/sync/presentation/sync.controller.ts) and the HTTP transport
  (packages/sync-engine/src/httpTransport.ts): status codes become the transport's errors. On
  top of it: what a pull establishes about the local store, at every way it can end, and when
  push and pull together converge.
\<close>

subsection \<open>Controller and transport\<close>

fun from_hex :: "string \<Rightarrow> bytes" where
  "from_hex (a # b # r) =
     (case (hex_val a, hex_val b) of (Some x, Some y) \<Rightarrow> word_of_nat (x * 16 + y) # from_hex r | _ \<Rightarrow> [])"
| "from_hex _ = []"

definition to_incoming :: "push_event \<Rightarrow> incoming_event" where
  "to_incoming e =
     \<lparr>in_eventId = pe_eventId e, in_recordJson = pe_recordJson e, in_scopeId = pe_scopeId e,
      in_resourceId = pe_resourceId e, in_resourceKeyId = pe_resourceKeyId e, in_grantId = pe_grantId e,
      in_scopeStateRef = (if falsy (pe_scopeStateRef e) then None
                          else Some (from_hex (the (pe_scopeStateRef e)))),
      in_authorDeviceId = pe_authorDeviceId e\<rparr>"

definition wire_events :: "sync_event_row list \<Rightarrow> remote_event list" where
  "wire_events es = map (\<lambda>e. (se_global_seq e, se_event_id e, se_record_json e)) es"

definition controller_push ::
  "sharing_db option \<Rightarrow> string \<Rightarrow> string \<Rightarrow> int \<Rightarrow> push_event list \<Rightarrow> sync_db
     \<Rightarrow> push_response sync_result \<times> sync_db" where
  "controller_push repos identity storeId expectedHead events db =
     (case (SyncOwnerId_from identity, SyncStoreId_from storeId, GlobalSequenceNumber_from expectedHead) of
        (Inr owner, Inr store, Inr expected) \<Rightarrow>
          (case pushEvents repos owner store expected (map to_incoming events) db of
             (Inl e, db') \<Rightarrow> (Inl e, db')
           | (Inr (PushOk h assigned), db') \<Rightarrow> (Inr (WireOk h assigned), db')
           | (Inr (PushConflict h reason missing), db') \<Rightarrow>
               (Inr (WireConflict h reason (map_option wire_events missing)), db'))
      | _ \<Rightarrow> (Inl (SyncFailure ''invalid request''), db))"

definition controller_pull ::
  "string \<Rightarrow> string \<Rightarrow> int \<Rightarrow> nat \<Rightarrow> sync_db \<Rightarrow> sync_db \<Rightarrow> pull_response sync_result \<times> sync_db" where
  "controller_pull identity storeId since limit db dbh =
     (case (SyncOwnerId_from identity, SyncStoreId_from storeId, GlobalSequenceNumber_from since) of
        (Inr owner, Inr store, Inr since') \<Rightarrow>
          (case pullEvents owner store since' limit db dbh of
             (Inl e, db') \<Rightarrow> (Inl e, db')
           | (Inr (events, head), db') \<Rightarrow> (Inr (pull_response_of since' limit events head), db'))
      | _ \<Rightarrow> (Inl (SyncFailure ''invalid request''), db))"

text \<open>
  The push handler turns \<open>SyncAccessDeniedError\<close> into 403, which the transport reports as
  unauthorized; the pull handler does not catch it, so there it is a 500 like any other error.
\<close>

definition server_transport :: "sharing_db option \<Rightarrow> string \<Rightarrow> sync_db transport" where
  "server_transport repos identity =
     \<lparr>tr_pull = (\<lambda>storeId since limit waitMs db.
        case controller_pull identity storeId since limit db db of
          (Inr r, db') \<Rightarrow> (Inr r, db')
        | (Inl e, db') \<Rightarrow> (Inl (Thrown (Error ''Sync pull failed with status 500'')), db')),
      tr_push = (\<lambda>storeId expectedHead events db.
        case controller_push repos identity storeId expectedHead events db of
          (Inr r, db') \<Rightarrow> (Inr r, db')
        | (Inl (AccessDenied m), db') \<Rightarrow> (Inl (Thrown (Error ''Sync push unauthorized (403)'')), db')
        | (Inl e, db') \<Rightarrow> (Inl (Thrown (Error ''Sync push failed with status 500'')), db'))\<rparr>"

subsection \<open>The events a pull page carries\<close>

lemma filter_since_drop:
  "stream_wf es \<Longrightarrow> 0 \<le> since \<Longrightarrow> filter (\<lambda>e. since < se_global_seq e) es = drop (nat since) es"
proof (induction es rule: rev_induct)
  case (snoc e es)
  have wf: "stream_wf es" "se_global_seq e = int (length es) + 1"
    using snoc.prems(1) by (simp_all add: stream_wf_def)
  have "since < se_global_seq e \<longleftrightarrow> nat since \<le> length es" using wf(2) snoc.prems(2) by linarith
  then show ?case using snoc.IH [OF wf(1) snoc.prems(2)] by (cases "nat since \<le> length es") auto
qed simp

lemma stream_wf_sorted: "stream_wf es \<Longrightarrow> sorted (map se_global_seq es)"
proof (induction es rule: rev_induct)
  case (snoc e es)
  have wf: "stream_wf es" "se_global_seq e = int (length es) + 1"
    using snoc.prems by (simp_all add: stream_wf_def)
  have "x \<le> se_global_seq e" if "x \<in> se_global_seq ` set es" for x
    using that stream_wf_seq(3) [OF wf(1)] wf(2) by fastforce
  then show ?case using snoc.IH [OF wf(1)] by (auto simp: sorted_append)
qed simp

lemma loadSince_eq:
  assumes "server_wf db" and "0 \<le> since"
  shows "loadSince o' s since n db = take n (drop (nat since) (stream_of o' s db))"
proof -
  have wf: "stream_wf (stream_of o' s db)" using server_wfD(1) [OF assms(1)] .
  have "filter (\<lambda>e. in_stream o' s e \<and> since < se_global_seq e) (sync_events db)
      = filter (\<lambda>e. since < se_global_seq e) (stream_of o' s db)"
    by (simp add: stream_of_def conj_commute)
  also have "\<dots> = drop (nat since) (stream_of o' s db)" by (rule filter_since_drop [OF wf assms(2)])
  finally have eq: "filter (\<lambda>e. in_stream o' s e \<and> since < se_global_seq e) (sync_events db)
      = drop (nat since) (stream_of o' s db)" .
  have "sorted (map se_global_seq (drop (nat since) (stream_of o' s db)))"
    using stream_wf_sorted [OF wf] by (simp add: drop_map [symmetric] sorted_wrt_drop)
  then show ?thesis unfolding loadSince_def eq by (simp add: sort_key_id_if_sorted)
qed

lemma last_page_seq:
  assumes wf: "stream_wf es" and page: "page = take n (drop c es)" and ne: "page \<noteq> []"
  shows "se_global_seq (last page) = int (c + length page)"
proof -
  let ?k = "length page - 1"
  have k: "?k < n" "c + ?k < length es" "Suc ?k = length page" using page ne by (auto simp: neq_Nil_conv)
  have "last page = es ! (c + ?k)" using ne k by (simp add: last_conv_nth) (simp add: page)
  then show ?thesis using stream_wf_nth [OF wf k(2)] k(3) by simp
qed

subsection \<open>The system invariant\<close>

text \<open>
  Every event of the server's log up to the local cursor is in the local store and mapped, and
  the local map agrees with the log.
\<close>

definition applied_upto :: "string list \<Rightarrow> int \<Rightarrow> local_db \<Rightarrow> bool" where
  "applied_upto L c db \<longleftrightarrow> (\<forall>k < length L. int k < c \<longrightarrow> has_event db (L ! k) \<and> is_synced db (L ! k))"

definition client_ok :: "sync_config \<Rightarrow> string list \<Rightarrow> local_db \<Rightarrow> bool" where
  "client_ok cfg L db \<longleftrightarrow> db_wf db \<and> map_ok L db \<and>
     0 \<le> readLastPulledGlobalSeq cfg db \<and> readLastPulledGlobalSeq cfg db \<le> int (length L) \<and>
     applied_upto L (readLastPulledGlobalSeq cfg db) db"

lemma db_kept_events: "db_kept cfg db db' \<Longrightarrow> has_event db i \<Longrightarrow> has_event db' i"
proof -
  assume "db_kept cfg db db'" and "has_event db i"
  then obtain olds news r where o: "db_events db' = olds @ news"
    "list_all2 (\<lambda>r r'. kept cfg (is_synced db (row_id r)) r r') (db_events db) olds"
    "r \<in> set (db_events db)" "row_id r = i"
    unfolding db_kept_def has_event_def by blast
  obtain r' where "r' \<in> set olds" "kept cfg (is_synced db (row_id r)) r r'"
    using list_all2_memD1 [OF o(2,3)] by blast
  then have "r' \<in> set (db_events db')" "row_id r' = i" using o kept_id by fastforce+
  then show "has_event db' i" by (auto simp: has_event_def)
qed

lemma applied_upto_kept: "applied_upto L c db \<Longrightarrow> db_kept cfg db db' \<Longrightarrow> applied_upto L c db'"
  using db_kept_events db_kept_synced by (fastforce simp: applied_upto_def)

lemma log_seq_nth:
  assumes "distinct L" and "k < length L"
  shows "log_seq L (L ! k) = Some (int k + 1)"
proof -
  have "map_of (zip L (positions (length L))) (L ! k) = Some (positions (length L) ! k)"
    using assms by (intro map_of_zip_nth) simp_all
  then show ?thesis using assms(2) by (simp add: log_seq_def)
qed

lemma distinct_log: "server_wf w \<Longrightarrow> distinct (log_of o' s w)"
  using server_wfD(1) by (auto simp: log_of_def stream_wf_def)

lemma cursor_exec: "readLastPulledGlobalSeq cfg (exec_batch qs db) = readLastPulledGlobalSeq cfg db"
proof -
  have "db_sync_meta (exec_stmt q d) = db_sync_meta d" for q d by (cases q) simp_all
  then have "db_sync_meta (exec_batch qs d) = db_sync_meta d" for d
    unfolding exec_batch_def by (induction qs arbitrary: d) simp_all
  then show ?thesis by (simp add: readLastPulledGlobalSeq_def)
qed

lemma cursor_apply:
  assumes "aead_ok (cfg_crypto cfg)" and "db_wf (fst st)" and "applyRemoteEvents cfg now evs st = (res, st')"
  shows "readLastPulledGlobalSeq cfg (fst st') = readLastPulledGlobalSeq cfg (fst st)"
proof -
  obtain r1 db1 n1 where run: "prepare_events cfg now evs st = (r1, (db1, n1))" by (metis prod.exhaust)
  have "readLastPulledGlobalSeq cfg db1 = readLastPulledGlobalSeq cfg (fst st)"
    using prepare_events_keeps [OF assms(1,2) run] by (simp add: readLastPulledGlobalSeq_def)
  moreover have "fst st' \<in> {fst st, db1} \<union> range (\<lambda>qs. exec_batch qs db1)"
    using assms(3) run by (cases r1) (auto simp: applyRemoteEvents_def Let_def split: if_splits)
  ultimately show ?thesis using cursor_exec by auto
qed

lemma db_kept_map_ok_apply:
  assumes aead: "aead_ok (cfg_crypto cfg)" and wf: "db_wf (fst st)"
    and L: "distinct L" "map_ok L (fst st)" "\<forall>ev \<in> set evs. log_seq L (fst (snd ev)) = Some (fst ev)"
    and run: "applyRemoteEvents cfg now evs st = (res, st')"
  shows "map_ok L (fst st')"
proof (cases "evs = []")
  case True
  then show ?thesis using run L(2) by (auto simp: applyRemoteEvents_def)
next
  case False
  obtain r1 db1 n1 where prep: "prepare_events cfg now evs st = (r1, (db1, n1))" by (metis prod.exhaust)
  have ok1: "map_ok L db1" using prepare_events_keeps [OF aead wf prep] L(2) by (simp add: map_ok_def)
  show ?thesis
  proof (cases r1)
    case (Inl e)
    then show ?thesis using run prep ok1 False by (auto simp: applyRemoteEvents_def)
  next
    case (Inr p)
    then obtain stmts ids where p: "prepare_events cfg now evs st = (Inr (stmts, ids), (db1, n1))"
      using prep by (cases p) auto
    obtain rows where rows: "stmts = concat (map2 (stmts_for now) evs rows)"
      using prepare_events_shape [OF aead wf p] by blast
    have "map_ok L (exec_batch (concat (map2 (stmts_for now) es rs)) db)"
      if "\<forall>ev \<in> set es. log_seq L (fst (snd ev)) = Some (fst ev)" "map_ok L db" for es rs db
      using that
    proof (induction es arbitrary: rs db)
      case (Cons e es)
      then show ?case
        using exec_stmts_for(1) [OF L(1), of db e now] by (cases rs) (simp_all add: exec_batch_def exec_batch_append)
    qed (simp add: exec_batch_def)
    from this [OF L(3) ok1] have "map_ok L (exec_batch stmts db1)" unfolding rows .
    then show ?thesis using run p False by (auto simp: applyRemoteEvents_def Let_def split: if_splits)
  qed
qed

subsection \<open>One pull request\<close>

abbreviation server_log :: "sync_config \<Rightarrow> string \<Rightarrow> sync_db \<Rightarrow> string list" where
  "server_log cfg identity w \<equiv> log_of identity (cfg_storeId cfg) w"

definition may_access :: "sync_config \<Rightarrow> string \<Rightarrow> sync_db \<Rightarrow> bool" where
  "may_access cfg identity w \<longleftrightarrow> \<not> blank identity \<and> \<not> blank (cfg_storeId cfg) \<and>
     (case sync_stores w (cfg_storeId cfg) of None \<Rightarrow> True | Some r \<Rightarrow> st_owner r = identity)"

lemma ensureStoreOwner_ok:
  "may_access cfg identity w \<Longrightarrow> \<exists>w1. ensureStoreOwner (cfg_storeId cfg) identity w = Inr w1"
  by (auto simp: ensureStoreOwner_def may_access_def Let_def split: option.splits)

lemma ensureStoreOwner_access:
  "ensureStoreOwner (cfg_storeId cfg) identity w = Inr w1 \<Longrightarrow> may_access cfg identity w \<Longrightarrow> may_access cfg identity w1"
  by (auto simp: ensureStoreOwner_def may_access_def Let_def split: option.splits if_splits)

lemma head_is_length:
  assumes "server_wf w"
  shows "getHeadSequence o' s w = Inr (int (length (stream_of o' s w)))"
proof (cases "sync_stores w s")
  case None
  then show ?thesis using server_wfD(4) [OF assms None]
    by (simp add: getHeadSequence_def owned_store_def GlobalSequenceNumber_from_def)
next
  case (Some r)
  then show ?thesis using server_wfD(2,3) [OF assms Some]
    by (cases "st_owner r = o'") (simp_all add: getHeadSequence_def owned_store_def GlobalSequenceNumber_from_def)
qed

text \<open>
  A pull request ends in an error with the server's log as it was, or answers with the page
  that follows \<open>since\<close> in the log and the log's length as the head.
\<close>

lemma tr_pull_cases:
  assumes wf: "server_wf w" and since: "0 \<le> since"
    and run: "tr_pull (server_transport repos identity) (cfg_storeId cfg) since limit wait w = (res, w')"
  shows "server_wf w' \<and> server_log cfg identity w' = server_log cfg identity w \<and>
     sync_events w' = sync_events w \<and>
     (may_access cfg identity w \<longrightarrow> may_access cfg identity w' \<and> (\<exists>r. res = Inr r)) \<and>
     (case res of Inl e \<Rightarrow> True
      | Inr r \<Rightarrow>
          let page = take limit (drop (nat since) (stream_of identity (cfg_storeId cfg) w))
          in r = pull_response_of since limit page (int (length (server_log cfg identity w))))"
proof (cases "blank identity \<or> blank (cfg_storeId cfg)")
  case True
  then have "res = Inl (Thrown (Error ''Sync pull failed with status 500'')) \<and> w' = w"
    using run since
    by (auto simp: server_transport_def controller_pull_def SyncOwnerId_from_def SyncStoreId_from_def
        split: sum.splits)
  then show ?thesis using wf True by (auto simp: may_access_def)
next
  case False
  have ne: "identity \<noteq> []" using False by (auto simp: blank_def)
  have pull: "controller_pull identity (cfg_storeId cfg) since limit w w =
      (case pullEvents identity (cfg_storeId cfg) since limit w w of
             (Inl e, db') \<Rightarrow> (Inl e, db')
           | (Inr (events, head), db') \<Rightarrow> (Inr (pull_response_of since limit events head), db'))"
    using False since by (simp add: controller_pull_def SyncOwnerId_from_def SyncStoreId_from_def GSN_nonneg)
  show ?thesis
  proof (cases "ensureStoreOwner (cfg_storeId cfg) identity w")
    case (Inl e)
    then have "res = Inl (Thrown (Error ''Sync pull failed with status 500'')) \<and> w' = w"
      using run ne by (auto simp: server_transport_def pull pullEvents_def ensureCanPull_def)
    then show ?thesis using wf Inl ensureStoreOwner_ok by fastforce
  next
    case (Inr w1)
    note own = ensureStoreOwner_Inr [OF wf Inr]
    have str: "stream_of identity (cfg_storeId cfg) w1 = stream_of identity (cfg_storeId cfg) w"
      using own(2) by (simp add: stream_of_def)
    have "res = Inr (pull_response_of since limit (take limit (drop (nat since) (stream_of identity (cfg_storeId cfg) w)))
            (int (length (stream_of identity (cfg_storeId cfg) w)))) \<and> w' = w1"
      using run ne Inr
      by (auto simp: server_transport_def pull pullEvents_def ensureCanPull_def head_is_length [OF wf]
          loadSince_eq [OF own(1) since] str)
    then show ?thesis using own str ensureStoreOwner_access [OF Inr] by (simp add: log_of_def Let_def)
  qed
qed

lemma pull_response_page:
  assumes wf: "stream_wf es" and page: "page = take limit (drop c es)" and c: "c \<le> length es"
    and r: "r = pull_response_of (int c) limit page (int (length es))"
  shows "pr_head r = int (length es)" and "pr_events r = wire_events page"
    and "pr_nextSince r = (if page = [] then None else Some (int (c + length page)))"
    and "pr_hasMore r \<longleftrightarrow> page \<noteq> [] \<and> c + length page < length es \<and> length page = limit"
    and "\<forall>ev \<in> set (pr_events r). log_seq (map se_event_id es) (fst (snd ev)) = Some (fst ev)"
    and "distinct (map (fst \<circ> snd) (pr_events r))"
proof -
  have sub: "set page \<subseteq> set es" unfolding page by (meson order_trans set_drop_subset set_take_subset)
  show "pr_head r = int (length es)" by (simp add: r pull_response_of_def Let_def)
  show ev: "pr_events r = wire_events page" by (simp add: r pull_response_of_def Let_def wire_events_def)
  have lst: "page \<noteq> [] \<Longrightarrow> fst (last (wire_events page)) = int (c + length page)"
    using last_page_seq [OF wf page] by (simp add: wire_events_def last_map)
  show "pr_nextSince r = (if page = [] then None else Some (int (c + length page)))"
    using lst by (simp add: r pull_response_of_def Let_def wire_events_def)
  show "pr_hasMore r \<longleftrightarrow> page \<noteq> [] \<and> c + length page < length es \<and> length page = limit"
    using lst by (auto simp: r pull_response_of_def Let_def wire_events_def)
  show "\<forall>ev \<in> set (pr_events r). log_seq (map se_event_id es) (fst (snd ev)) = Some (fst ev)"
    using stream_wf_seq(1) [OF wf] sub by (auto simp: ev wire_events_def)
  have "distinct (map se_event_id page)"
    using wf unfolding page stream_wf_def by (simp add: take_map [symmetric] drop_map [symmetric])
  then show "distinct (map (fst \<circ> snd) (pr_events r))" by (simp add: ev wire_events_def comp_def)
qed

subsection \<open>Pulling pages\<close>

text \<open>Applying the page after the cursor, however it ends, keeps the client consistent.\<close>

lemma apply_page_ok:
  assumes aead: "aead_ok (cfg_crypto cfg)" and ok: "client_ok cfg L (eng_db g)" and L: "distinct L"
    and evs: "\<forall>ev \<in> set evs. log_seq L (fst (snd ev)) = Some (fst ev)" "distinct (map (fst \<circ> snd) evs)"
    and run: "apply_page cfg now evs g = (res, g')"
  shows "client_ok cfg L (eng_db g') \<and> db_kept cfg (eng_db g) (eng_db g') \<and>
     readLastPulledGlobalSeq cfg (eng_db g') = readLastPulledGlobalSeq cfg (eng_db g) \<and>
     eng_lastKnownHead g' = eng_lastKnownHead g \<and>
     (\<forall>b. res = Inr b \<longrightarrow> (\<forall>ev \<in> set evs. has_event (eng_db g') (fst (snd ev)) \<and> is_synced (eng_db g') (fst (snd ev))))"
proof -
  obtain db' n' where apply': "applyRemoteEvents cfg now evs (eng_db g, eng_draws g) = (res, (db', n'))"
    and g': "g' = g\<lparr>eng_db := db', eng_draws := n'\<rparr>"
    using run by (auto simp: apply_page_def split: prod.splits)
  have wf: "db_wf (fst (eng_db g, eng_draws g))" and mp: "map_ok L (fst (eng_db g, eng_draws g))"
    using ok by (simp_all add: client_ok_def)
  note keep = applyRemoteEvents_keeps [OF aead wf apply'] and cur = cursor_apply [OF aead wf apply']
    and map' = db_kept_map_ok_apply [OF aead wf L mp evs(1) apply']
  have "applied_upto L (readLastPulledGlobalSeq cfg (eng_db g)) db'"
    using ok keep applied_upto_kept by (auto simp: client_ok_def)
  moreover have "\<forall>b. res = Inr b \<longrightarrow>
      (\<forall>ev \<in> set evs. has_event db' (fst (snd ev)) \<and> is_synced db' (fst (snd ev)))"
    using applyRemoteEvents_complete [OF aead wf L mp evs, of now _ "(db', n')"] apply' by simp
  ultimately show ?thesis using ok keep cur map' by (simp add: g' client_ok_def)
qed

lemma write_cursor:
  "readLastPulledGlobalSeq cfg (writeLastPulledGlobalSeq cfg v db) = v"
  "db_wf (writeLastPulledGlobalSeq cfg v db) = db_wf db"
  "map_ok L (writeLastPulledGlobalSeq cfg v db) = map_ok L db"
  "has_event (writeLastPulledGlobalSeq cfg v db) = has_event db"
  "is_synced (writeLastPulledGlobalSeq cfg v db) = is_synced db"
  "db_kept cfg' db0 (writeLastPulledGlobalSeq cfg v db) = db_kept cfg' db0 db"
  "pending_rows (writeLastPulledGlobalSeq cfg v db) = pending_rows db"
  by (auto simp: readLastPulledGlobalSeq_def writeLastPulledGlobalSeq_def map_ok_def db_kept_def
      has_event_def is_synced_def fun_eq_iff pending_rows_def)

lemma applied_upto_write:
  "applied_upto L c (writeLastPulledGlobalSeq cfg v db) = applied_upto L c db"
  by (simp add: applied_upto_def write_cursor)

lemma applied_upto_page:
  assumes "applied_upto (map se_event_id es) (int c) db" and "page = take n (drop c es)"
    and "\<forall>ev \<in> set (wire_events page). has_event db (fst (snd ev)) \<and> is_synced db (fst (snd ev))"
  shows "applied_upto (map se_event_id es) (int (c + length page)) db"
  unfolding applied_upto_def
proof (intro allI impI)
  fix k assume k: "k < length (map se_event_id es)" "int k < int (c + length page)"
  show "has_event db (map se_event_id es ! k) \<and> is_synced db (map se_event_id es ! k)"
  proof (cases "k < c")
    case True
    then show ?thesis using assms(1) k(1) by (simp add: applied_upto_def)
  next
    case False
    then have "page ! (k - c) = es ! k" "k - c < length page" using k assms(2) by auto
    then have "es ! k \<in> set page" by (metis nth_mem)
    then show ?thesis using assms(3) k(1) by (auto simp: wire_events_def)
  qed
qed

lemma pull_pages_ok:
  assumes "aead_ok (cfg_crypto cfg)" and "server_wf w"
    and "client_ok cfg (server_log cfg identity w) (eng_db g)"
    and "since = readLastPulledGlobalSeq cfg (eng_db g)"
    and "pull_pages (server_transport repos identity) cfg now wait fuel since any (g, w) = Some (res, g', w')"
  shows "server_wf w' \<and> server_log cfg identity w' = server_log cfg identity w \<and>
     client_ok cfg (server_log cfg identity w) (eng_db g') \<and> db_kept cfg (eng_db g) (eng_db g') \<and>
     readLastPulledGlobalSeq cfg (eng_db g) \<le> readLastPulledGlobalSeq cfg (eng_db g') \<and>
     (may_access cfg identity w \<longrightarrow> may_access cfg identity w') \<and>
     (0 < cfg_pullLimit cfg \<and> (\<exists>b. res = Inr b) \<longrightarrow>
        readLastPulledGlobalSeq cfg (eng_db g') = int (length (server_log cfg identity w)) \<and>
        eng_lastKnownHead g' = Some (int (length (server_log cfg identity w))))"
  using assms(2-)
proof (induction fuel arbitrary: since any g w)
  case (Suc fuel)
  let ?es = "stream_of identity (cfg_storeId cfg) w" and ?L = "server_log cfg identity w"
  define c where "c = nat since"
  have since: "since = int c" "c \<le> length ?es" and cur: "readLastPulledGlobalSeq cfg (eng_db g) = int c"
    using Suc.prems(2,3) by (auto simp: c_def client_ok_def log_of_def)
  have wfs: "stream_wf ?es" using server_wfD(1) [OF Suc.prems(1)] .
  have L: "?L = map se_event_id ?es" "distinct ?L" using distinct_log [OF Suc.prems(1)] by (simp_all add: log_of_def)
  define page where "page = take (cfg_pullLimit cfg) (drop c ?es)"
  obtain r1 w1 where tr: "tr_pull (server_transport repos identity) (cfg_storeId cfg) since (cfg_pullLimit cfg) wait w = (r1, w1)"
    by (metis prod.exhaust)
  note srv = tr_pull_cases [OF Suc.prems(1) _ tr]
  have s0: "0 \<le> since" using since by simp
  show ?case
  proof (cases r1)
    case (Inl e)
    then show ?thesis using Suc.prems tr srv [OF s0] by (auto simp: db_kept_refl)
  next
    case (Inr r)
    have r: "r = pull_response_of (int c) (cfg_pullLimit cfg) page (int (length ?es))"
      using srv [OF s0] Inr since by (simp add: page_def log_of_def Let_def)
    note resp = pull_response_page [OF wfs page_def since(2) r]
    have srv1: "server_wf w1" "server_log cfg identity w1 = ?L" "may_access cfg identity w \<longrightarrow> may_access cfg identity w1"
      using srv [OF s0] by blast+
    define g1 where "g1 = g\<lparr>eng_lastKnownHead := Some (int (length ?es))\<rparr>"
    have len: "length ?L = length ?es" by (simp add: log_of_def)
    show ?thesis
    proof (cases "page = []")
      case True
      then have fin: "res = Inr any" "g' = g1" "w' = w1"
        using Suc.prems(4) tr Inr resp(1,2) by (simp_all add: wire_events_def g1_def Let_def)
      have "0 < cfg_pullLimit cfg \<Longrightarrow> length ?es \<le> c" using True by (auto simp: page_def)
      then show ?thesis
        using fin srv1 Suc.prems(2) cur since(2) len by (auto simp: g1_def db_kept_refl)
    next
      case False
      obtain b g2 where ap: "apply_page cfg now (pr_events r) g1 = (b, g2)" by (metis prod.exhaust)
      have ok1: "client_ok cfg ?L (eng_db g1)" using Suc.prems(2) by (simp add: g1_def)
      note page_ok = apply_page_ok [OF assms(1) ok1 L(2) resp(5,6) [folded L(1)] ap]
      have ne: "pr_events r \<noteq> []" using False resp(2) by (simp add: wire_events_def)
      show ?thesis
      proof (cases b)
        case (Inl e)
        then have "res = Inl e" "g' = g2" "w' = w1"
          using Suc.prems(4) tr Inr resp(1) ap ne by (simp_all add: g1_def Let_def)
        then show ?thesis using page_ok srv1 by (auto simp: g1_def)
      next
        case (Inr applied)
        define c' where "c' = c + length page"
        define g3 where "g3 = g2\<lparr>eng_db := writeLastPulledGlobalSeq cfg (int c') (eng_db g2)\<rparr>"
        have ns: "pr_nextSince r = Some (int c')" using resp(3) False by (simp add: c'_def)
        have c': "c' \<le> length ?es" using since(2) by (auto simp: c'_def page_def)
        have cur2: "readLastPulledGlobalSeq cfg (eng_db g2) = int c" using page_ok cur by (simp add: g1_def)
        have "applied_upto ?L (int c') (eng_db g2)"
          unfolding c'_def L(1) using page_ok resp(2) Inr cur2
          by (intro applied_upto_page [OF _ page_def]) (auto simp: client_ok_def L(1))
        then have ok3: "client_ok cfg ?L (eng_db g3)"
          using page_ok c' len by (auto simp: g3_def client_ok_def write_cursor applied_upto_write)
        have kept3: "db_kept cfg (eng_db g) (eng_db g3)" using page_ok by (simp add: g3_def g1_def write_cursor)
        have cur3: "readLastPulledGlobalSeq cfg (eng_db g3) = int c'" by (simp add: g3_def write_cursor)
        show ?thesis
        proof (cases "pr_hasMore r")
          case True
          then have rest: "pull_pages (server_transport repos identity) cfg now wait fuel (int c') (any \<or> applied) (g3, w1)
              = Some (res, g', w')"
            using Suc.prems(4) tr \<open>r1 = Inr r\<close> resp(1) ap ne Inr ns by (simp add: g1_def g3_def Let_def)
          have "client_ok cfg (server_log cfg identity w1) (eng_db g3)" using ok3 srv1(2) by simp
          from Suc.IH [OF srv1(1) this cur3 [symmetric] rest] show ?thesis
            using srv1 kept3 db_kept_trans [OF kept3] cur3 cur c'_def by auto
        next
          case False
          then have fin: "res = Inr (any \<or> applied)" "g' = g3" "w' = w1"
            using Suc.prems(4) tr \<open>r1 = Inr r\<close> resp(1) ap ne Inr ns by (simp_all add: g1_def g3_def Let_def)
          have "c' = length ?es" if "0 < cfg_pullLimit cfg"
            using False resp(4) \<open>page \<noteq> []\<close> c' that unfolding c'_def page_def by auto
          then show ?thesis
            using fin srv1 ok3 kept3 cur3 cur page_ok len by (auto simp: g3_def g1_def c'_def)
        qed
      qed
    qed
  qed
qed simp

text \<open>Enough fuel: one page per remaining event at worst, and one more.\<close>

lemma pull_pages_terminates:
  assumes "aead_ok (cfg_crypto cfg)" and "server_wf w" and "may_access cfg identity w"
    and "client_ok cfg (server_log cfg identity w) (eng_db g)"
    and "since = readLastPulledGlobalSeq cfg (eng_db g)"
    and "length (server_log cfg identity w) - nat since < fuel"
  shows "\<exists>out. pull_pages (server_transport repos identity) cfg now wait fuel since any (g, w) = Some out"
  using assms(2-)
proof (induction fuel arbitrary: since any g w)
  case (Suc fuel)
  let ?es = "stream_of identity (cfg_storeId cfg) w" and ?L = "server_log cfg identity w"
  define c where "c = nat since"
  have since: "since = int c" "c \<le> length ?es" and cur: "readLastPulledGlobalSeq cfg (eng_db g) = int c"
    using Suc.prems(3,4) by (auto simp: c_def client_ok_def log_of_def)
  have wfs: "stream_wf ?es" using server_wfD(1) [OF Suc.prems(1)] .
  have L: "?L = map se_event_id ?es" "distinct ?L" using distinct_log [OF Suc.prems(1)] by (simp_all add: log_of_def)
  define page where "page = take (cfg_pullLimit cfg) (drop c ?es)"
  obtain r1 w1 where tr: "tr_pull (server_transport repos identity) (cfg_storeId cfg) since (cfg_pullLimit cfg) wait w = (r1, w1)"
    by (metis prod.exhaust)
  have s0: "0 \<le> since" using since by simp
  note srv = tr_pull_cases [OF Suc.prems(1) s0 tr]
  then obtain r where r1: "r1 = Inr r" using Suc.prems(2) by blast
  have r: "r = pull_response_of (int c) (cfg_pullLimit cfg) page (int (length ?es))"
    using srv r1 since by (simp add: page_def log_of_def Let_def)
  note resp = pull_response_page [OF wfs page_def since(2) r]
  define g1 where "g1 = g\<lparr>eng_lastKnownHead := Some (pr_head r)\<rparr>"
  obtain b g2 where ap: "apply_page cfg now (pr_events r) g1 = (b, g2)" by (metis prod.exhaust)
  have ok1: "client_ok cfg ?L (eng_db g1)" using Suc.prems(3) by (simp add: g1_def)
  note page_ok = apply_page_ok [OF assms(1) ok1 L(2) resp(5,6) [folded L(1)] ap]
  show ?case
  proof (cases "page = [] \<or> (\<exists>e. b = Inl e) \<or> \<not> pr_hasMore r")
    case True
    then show ?thesis
      using tr r1 resp(2,3) ap by (cases b) (auto simp: g1_def Let_def wire_events_def)
  next
    case False
    then obtain applied where b: "b = Inr applied" by (cases b) auto
    define c' where "c' = c + length page"
    define g3 where "g3 = g2\<lparr>eng_db := writeLastPulledGlobalSeq cfg (int c') (eng_db g2)\<rparr>"
    have ns: "pr_nextSince r = Some (int c')" using resp(3) False by (simp add: c'_def)
    have c': "c' \<le> length ?es" "c < c'" using since(2) False by (auto simp: c'_def page_def)
    have cur2: "readLastPulledGlobalSeq cfg (eng_db g2) = int c" using page_ok cur by (simp add: g1_def)
    have "applied_upto ?L (int c') (eng_db g2)"
      unfolding c'_def L(1) using page_ok resp(2) b cur2
      by (intro applied_upto_page [OF _ page_def]) (auto simp: client_ok_def L(1))
    then have "client_ok cfg ?L (eng_db g3)"
      using page_ok c' by (auto simp: g3_def client_ok_def write_cursor applied_upto_write log_of_def)
    then have ok3: "client_ok cfg (server_log cfg identity w1) (eng_db g3)" using srv by simp
    have "length (server_log cfg identity w1) - nat (int c') < fuel"
      using Suc.prems(5) srv c' since(1) by (simp add: log_of_def)
    then have "\<exists>out. pull_pages (server_transport repos identity) cfg now wait fuel (int c') (any \<or> applied) (g3, w1) = Some out"
      using Suc.IH [OF _ _ ok3] srv Suc.prems(2) by (simp add: g3_def write_cursor)
    then show ?thesis
      using tr r1 resp(2) ap b ns False by (simp add: g1_def g3_def Let_def wire_events_def)
  qed
qed simp

subsection \<open>One push request\<close>

lemma tr_push_current:
  assumes wf: "server_wf w" and acc: "may_access cfg identity w" and ne: "events \<noteq> []"
    and head: "expected = int (length (server_log cfg identity w))"
  defines "L' \<equiv> log_adds (server_log cfg identity w) (map pe_eventId events)"
  shows "\<exists>w'. tr_push (server_transport None identity) (cfg_storeId cfg) expected events w =
       (Inr (WireOk (int (length L')) (map (\<lambda>i. (i, the (log_seq L' i))) (map pe_eventId events))), w')
     \<and> server_wf w' \<and> server_log cfg identity w' = L' \<and> may_access cfg identity w'"
proof -
  obtain w1 where own: "ensureStoreOwner (cfg_storeId cfg) identity w = Inr w1"
    using ensureStoreOwner_ok [OF acc] by blast
  note o = ensureStoreOwner_Inr [OF wf own]
  obtain r where r: "owned_store identity (cfg_storeId cfg) w1 = Some r" using o(3) by blast
  have log1: "server_log cfg identity w1 = server_log cfg identity w"
    using o(2) by (simp add: log_of_def stream_of_def)
  have sr: "sync_stores w1 (cfg_storeId cfg) = Some r" "st_owner r = identity"
    using r by (auto simp: owned_store_def split: option.splits if_splits)
  have "st_head r = expected"
    using server_wfD(2) [OF o(1) sr] log1 head by (metis length_map log_of_def)
  note ref = appendBatch_refines [OF o(1) r this, of "map to_incoming events"]
  have ids: "ids_of (map to_incoming events) = map pe_eventId events" by (simp add: to_incoming_def comp_def)
  obtain w' where app: "appendBatch identity (cfg_storeId cfg) expected (map to_incoming events) w1 =
       Inr ((int (length L'), map (\<lambda>i. (i, the (log_seq L' i))) (map pe_eventId events)), w')"
    "server_log cfg identity w' = L'"
    "sync_stores w' = (sync_stores w1)(cfg_storeId cfg \<mapsto> r\<lparr>st_head := int (length L')\<rparr>)"
    using ref ne unfolding L'_def log1 [symmetric] ids by auto
  have id: "\<not> blank identity" "\<not> blank (cfg_storeId cfg)" "identity \<noteq> []" "0 \<le> expected"
    using acc head by (auto simp: may_access_def blank_def)
  have "may_access cfg identity w'" using id app(3) sr by (simp add: may_access_def)
  moreover have "tr_push (server_transport None identity) (cfg_storeId cfg) expected events w =
       (Inr (WireOk (int (length L')) (map (\<lambda>i. (i, the (log_seq L' i))) (map pe_eventId events))), w')"
    using id own ne app(1)
    by (simp add: server_transport_def controller_push_def SyncOwnerId_from_def SyncStoreId_from_def GSN_nonneg
        pushEvents_def ensureCanPush_def push_body_def validateSharingDependencies_def)
  ultimately show ?thesis using appendBatch_wf [OF o(1) app(1)] app(2) by blast
qed

lemma tr_push_behind:
  assumes wf: "server_wf w" and acc: "may_access cfg identity w" and ne: "events \<noteq> []"
    and head: "0 \<le> expected" "expected < int (length (server_log cfg identity w))"
  shows "\<exists>w'. tr_push (server_transport None identity) (cfg_storeId cfg) expected events w =
       (Inr (WireConflict (int (length (server_log cfg identity w))) ServerAhead
          (Some (wire_events (take 1000 (drop (nat expected) (stream_of identity (cfg_storeId cfg) w)))))), w')
     \<and> server_wf w' \<and> server_log cfg identity w' = server_log cfg identity w
     \<and> stream_of identity (cfg_storeId cfg) w' = stream_of identity (cfg_storeId cfg) w
     \<and> may_access cfg identity w'"
proof -
  obtain w1 where own: "ensureStoreOwner (cfg_storeId cfg) identity w = Inr w1"
    using ensureStoreOwner_ok [OF acc] by blast
  note o = ensureStoreOwner_Inr [OF wf own]
  obtain r where r: "owned_store identity (cfg_storeId cfg) w1 = Some r" using o(3) by blast
  have str: "stream_of identity (cfg_storeId cfg) w1 = stream_of identity (cfg_storeId cfg) w"
    using o(2) by (simp add: stream_of_def)
  have sr: "sync_stores w1 (cfg_storeId cfg) = Some r" "st_owner r = identity"
    using r by (auto simp: owned_store_def split: option.splits if_splits)
  have h: "st_head r = int (length (server_log cfg identity w))"
    using server_wfD(2) [OF o(1) sr] str by (simp add: log_of_def)
  have app: "appendBatch identity (cfg_storeId cfg) expected (map to_incoming events) w1 = Inl (HeadMismatch (st_head r) expected)"
    using ne r h head by (simp add: appendBatch_def GSN_nonneg)
  have miss: "loadSince identity (cfg_storeId cfg) expected 1000 w1
      = take 1000 (drop (nat expected) (stream_of identity (cfg_storeId cfg) w))"
    using loadSince_eq [OF o(1) head(1)] str by simp
  moreover have "take 1000 (drop (nat expected) (stream_of identity (cfg_storeId cfg) w)) \<noteq> []"
    using head by (simp add: log_of_def)
  moreover have id: "\<not> blank identity" "\<not> blank (cfg_storeId cfg)" "identity \<noteq> []"
    using acc by (auto simp: may_access_def blank_def)
  ultimately have "tr_push (server_transport None identity) (cfg_storeId cfg) expected events w =
       (Inr (WireConflict (int (length (server_log cfg identity w))) ServerAhead
          (Some (wire_events (take 1000 (drop (nat expected) (stream_of identity (cfg_storeId cfg) w)))))), w1)"
    using own ne app h head
    by (simp add: server_transport_def controller_push_def SyncOwnerId_from_def SyncStoreId_from_def GSN_nonneg
        pushEvents_def ensureCanPush_def push_body_def validateSharingDependencies_def Let_def del: take_eq_Nil)
  then show ?thesis using o(1) str ensureStoreOwner_access [OF own acc] by (simp add: log_of_def)
qed

subsection \<open>Assignments\<close>

lemma applyAssignments_ok:
  assumes "distinct L" and "map_ok L db" and "\<forall>(i, g) \<in> set assigned. log_seq L i = Some g"
  shows "map_ok L (applyAssignments now assigned db) \<and>
     (\<forall>(i, g) \<in> set assigned. is_synced (applyAssignments now assigned db) i) \<and>
     db_events (applyAssignments now assigned db) = db_events db"
  using assms(2,3)
proof (induction assigned arbitrary: db)
  case Nil
  then show ?case by (simp add: applyAssignments_def exec_batch_def)
next
  case (Cons p assigned)
  obtain i g where p: "p = (i, g)" by (cases p)
  let ?db = "insert_map_or_ignore i g now db"
  have ins: "map_ok L ?db" "is_synced ?db i"
    using map_ok_insert_map [OF assms(1) Cons.prems(1)] Cons.prems(2) p by simp_all
  have step: "applyAssignments now (p # assigned) db = applyAssignments now assigned ?db"
    by (simp add: applyAssignments_def exec_batch_def p)
  have "is_synced (applyAssignments now assigned ?db) i"
    unfolding applyAssignments_def by (rule synced_batch [OF ins(2)])
  then show ?case using Cons.IH [OF ins(1)] Cons.prems(2) unfolding step by (simp add: p)
qed

lemma log_adds_distinct: "distinct L \<Longrightarrow> distinct (log_adds L is)"
  by (rule log_fold_distinct)

lemma log_adds_seq: "i \<in> set is \<Longrightarrow> log_seq (log_adds L is) i = Some (the (log_seq (log_adds L is) i))"
  using log_seq_None [of "log_adds L is" i] log_fold_mem [of "is" L] by (cases "log_seq (log_adds L is) i") auto

lemma push_accepted_ok:
  fixes g :: engine and now :: int
  assumes ok: "client_ok cfg L (eng_db g)" and L: "distinct L"
    and cur: "readLastPulledGlobalSeq cfg (eng_db g) = int (length L)"
    and ids: "\<forall>i \<in> set is. has_event (eng_db g) i"
  defines "L' \<equiv> log_adds L is"
  defines "g' \<equiv> push_accepted cfg now (int (length L')) (map (\<lambda>i. (i, the (log_seq L' i))) is) g"
  shows "client_ok cfg L' (eng_db g') \<and> readLastPulledGlobalSeq cfg (eng_db g') = int (length L') \<and>
     eng_lastKnownHead g' = Some (int (length L')) \<and> (\<forall>i \<in> set is. is_synced (eng_db g') i) \<and>
     db_events (eng_db g') = db_events (eng_db g) \<and> db_kept cfg (eng_db g) (eng_db g')"
proof -
  let ?as = "map (\<lambda>i. (i, the (log_seq L' i))) is"
  let ?db1 = "applyAssignments now ?as (eng_db g)"
  obtain xs where xs: "L' = L @ xs" "set xs \<subseteq> set is" using log_fold_extends [of "is" L] by (auto simp: L'_def)
  have d: "distinct L'" using log_adds_distinct [OF L] by (simp add: L'_def)
  have "map_ok L' (eng_db g)" using ok map_ok_append xs(1) by (auto simp: client_ok_def)
  moreover have "\<forall>(i, n) \<in> set ?as. log_seq L' i = Some n" using log_adds_seq by (auto simp: L'_def)
  ultimately have db1: "map_ok L' ?db1" "\<forall>i \<in> set is. is_synced ?db1 i" "db_events ?db1 = db_events (eng_db g)"
    using applyAssignments_ok [OF d, of "eng_db g" ?as now] by auto
  have kept: "db_kept cfg (eng_db g) ?db1" unfolding applyAssignments_def by (rule db_kept_batch)
  have cur1: "readLastPulledGlobalSeq cfg ?db1 = int (length L)"
    unfolding applyAssignments_def by (simp add: cursor_exec cur)
  then have mx: "max (readLastPulledGlobalSeq cfg ?db1) (int (length L')) = int (length L')"
    using xs(1) by simp
  define db2 where "db2 = writeLastPulledGlobalSeq cfg (int (length L')) ?db1"
  have g': "eng_db g' = db2" "eng_lastKnownHead g' = Some (int (length L'))"
    by (simp_all add: g'_def push_accepted_def Let_def mx db2_def requestPush_def)
  have "applied_upto L' (int (length L')) ?db1"
    unfolding applied_upto_def
  proof (intro allI impI)
    fix k assume k: "k < length L'"
    have "applied_upto L (int (length L)) ?db1"
      using ok kept applied_upto_kept cur by (auto simp: client_ok_def)
    then have old: "k < length L \<Longrightarrow> has_event ?db1 (L' ! k) \<and> is_synced ?db1 (L' ! k)"
      using xs(1) by (simp add: applied_upto_def nth_append)
    have new: "L' ! k \<in> set is" if "\<not> k < length L"
    proof -
      have "L' ! k = xs ! (k - length L)" and "k - length L < length xs"
        using k that unfolding xs(1) by (auto simp: nth_append)
      then have "L' ! k \<in> set xs" by (metis nth_mem)
      then show ?thesis using xs(2) by blast
    qed
    show "has_event ?db1 (L' ! k) \<and> is_synced ?db1 (L' ! k)"
      using old new ids db1 by (cases "k < length L") (auto simp: has_event_def)
  qed
  then have "client_ok cfg L' db2"
    using ok db1 by (simp add: client_ok_def db2_def write_cursor applied_upto_write applyAssignments_def db_wf_batch)
  then show ?thesis
    using g' db1 kept by (simp add: db2_def write_cursor) (simp add: writeLastPulledGlobalSeq_def)
qed

lemma to_push_events_ok:
  "env_ok env \<Longrightarrow> \<exists>es. to_push_events env rs = Inr es \<and> map pe_eventId es = map row_id rs"
proof (induction rs)
  case (Cons r rs)
  then show ?case by (auto simp: to_push_event_def toSyncRecord_eq)
qed simp

lemma loadPendingEvents_mem:
  "r \<in> set (loadPendingEvents n db) \<Longrightarrow> r \<in> set (db_events db) \<and> \<not> is_synced db (row_id r)"
  by (auto simp: loadPendingEvents_def pending_rows_def dest: in_set_takeD)

definition head_known :: "sync_config \<Rightarrow> engine \<Rightarrow> bool" where
  "head_known cfg g \<longleftrightarrow>
     eng_lastKnownHead g = None \<or> eng_lastKnownHead g = Some (readLastPulledGlobalSeq cfg (eng_db g))"

lemma head_known_expected: "head_known cfg g \<Longrightarrow> getExpectedHead cfg g = readLastPulledGlobalSeq cfg (eng_db g)"
  by (auto simp: head_known_def getExpectedHead_def split: option.splits)

text \<open>A push whose head is the cursor and the server's is accepted in one attempt.\<close>

lemma push_current:
  assumes env: "env_ok (cfg_env cfg)" and wf: "server_wf w" and acc: "may_access cfg identity w"
    and ok: "client_ok cfg (server_log cfg identity w) (eng_db g)" and hk: "head_known cfg g"
    and cur: "readLastPulledGlobalSeq cfg (eng_db g) = int (length (server_log cfg identity w))"
  defines "batch \<equiv> loadPendingEvents (cfg_pushBatchSize cfg) (eng_db g)"
  shows "\<exists>g' w'. push_attempts (server_transport None identity) cfg jitter now fuel (Suc n) (g, w) = Some (Inr (), g', w')
     \<and> server_wf w' \<and> may_access cfg identity w'
     \<and> server_log cfg identity w' = log_adds (server_log cfg identity w) (map row_id batch)
     \<and> client_ok cfg (server_log cfg identity w') (eng_db g') \<and> head_known cfg g'
     \<and> readLastPulledGlobalSeq cfg (eng_db g') = int (length (server_log cfg identity w'))
     \<and> (\<forall>r \<in> set batch. is_synced (eng_db g') (row_id r)) \<and> db_events (eng_db g') = db_events (eng_db g)
     \<and> db_kept cfg (eng_db g) (eng_db g')"
proof (cases "batch = []")
  case True
  have "eng_db (push_nothing g) = eng_db g" "eng_lastKnownHead (push_nothing g) = eng_lastKnownHead g"
    by (simp_all add: push_nothing_def setIdle_def)
  then show ?thesis
    using True wf acc ok hk cur unfolding batch_def by (simp add: head_known_def db_kept_refl)
next
  case False
  let ?L = "server_log cfg identity w" and ?is = "map row_id batch"
  obtain es where es: "to_push_events (cfg_env cfg) batch = Inr es" "map pe_eventId es = ?is"
    using to_push_events_ok [OF env] by blast
  then have ne: "es \<noteq> []" using False by auto
  have exp: "getExpectedHead cfg g = int (length ?L)" using head_known_expected [OF hk] cur by simp
  obtain w' where push: "tr_push (server_transport None identity) (cfg_storeId cfg) (int (length ?L)) es w =
       (Inr (WireOk (int (length (log_adds ?L ?is)))
          (map (\<lambda>i. (i, the (log_seq (log_adds ?L ?is) i))) ?is)), w')"
    "server_wf w'" "server_log cfg identity w' = log_adds ?L ?is" "may_access cfg identity w'"
    using tr_push_current [OF wf acc ne refl] es(2) by auto
  have ids: "\<forall>i \<in> set ?is. has_event (eng_db g) i"
    using loadPendingEvents_mem by (fastforce simp: batch_def has_event_def)
  note acc' = push_accepted_ok [OF ok distinct_log [OF wf] cur ids, of now]
  let ?g' = "push_accepted cfg now (int (length (log_adds ?L ?is)))
      (map (\<lambda>i. (i, the (log_seq (log_adds ?L ?is) i))) ?is) g"
  have "push_attempts (server_transport None identity) cfg jitter now fuel (Suc n) (g, w) = Some (Inr (), ?g', w')"
    using False es(1) push(1) exp unfolding batch_def by (simp add: Let_def)
  then show ?thesis
    using push acc' by (intro exI [of _ ?g'] exI [of _ w']) (simp add: head_known_def)
qed

text \<open>
  A push from a consistent client keeps it consistent whatever happens, as long as the client's
  idea of the head is its cursor and it is at most 1000 events behind.
\<close>

lemma conflict_with_missing_ok:
  assumes aead: "aead_ok (cfg_crypto cfg)" and wf: "server_wf w"
    and ok: "client_ok cfg (server_log cfg identity w) (eng_db g)" and hk: "head_known cfg g"
    and near: "int (length (server_log cfg identity w)) \<le> readLastPulledGlobalSeq cfg (eng_db g) + 1000"
    and run: "conflict_with_missing cfg now (int (length (server_log cfg identity w)))
       (wire_events (take 1000 (drop (nat (readLastPulledGlobalSeq cfg (eng_db g)))
          (stream_of identity (cfg_storeId cfg) w)))) g = (res, g')"
  shows "client_ok cfg (server_log cfg identity w) (eng_db g') \<and> head_known cfg g' \<and>
     db_kept cfg (eng_db g) (eng_db g') \<and>
     readLastPulledGlobalSeq cfg (eng_db g) \<le> readLastPulledGlobalSeq cfg (eng_db g') \<and>
     (res = Inr () \<longrightarrow> readLastPulledGlobalSeq cfg (eng_db g') = int (length (server_log cfg identity w)))"
proof -
  let ?es = "stream_of identity (cfg_storeId cfg) w" and ?L = "server_log cfg identity w"
  define c where "c = nat (readLastPulledGlobalSeq cfg (eng_db g))"
  have cur: "readLastPulledGlobalSeq cfg (eng_db g) = int c" "c \<le> length ?es"
    using ok by (auto simp: c_def client_ok_def log_of_def)
  have wfs: "stream_wf ?es" using server_wfD(1) [OF wf] .
  have L: "?L = map se_event_id ?es" "distinct ?L" using distinct_log [OF wf] by (simp_all add: log_of_def)
  define page where "page = take 1000 (drop c ?es)"
  have all: "c + length page = length ?es" using near cur by (simp add: page_def log_of_def)
  note resp = pull_response_page [OF wfs page_def cur(2) refl]
  have evs: "\<forall>ev \<in> set (wire_events page). log_seq ?L (fst (snd ev)) = Some (fst ev)"
    "distinct (map (fst \<circ> snd) (wire_events page))"
    using resp(5,6) unfolding resp(2) by (simp_all add: L(1))
  obtain b g1 where ap: "apply_page cfg now (wire_events page) g = (b, g1)" by (metis prod.exhaust)
  note page_ok = apply_page_ok [OF aead ok L(2) evs ap]
  show ?thesis
  proof (cases b)
    case (Inl e)
    then have "g' = g1" "res = Inl e" using run ap cur by (auto simp: conflict_with_missing_def page_def Let_def)
    then show ?thesis using page_ok hk by (simp add: head_known_def)
  next
    case (Inr applied)
    define db2 where "db2 = writeLastPulledGlobalSeq cfg (int (length ?L)) (eng_db g1)"
    have "max (readLastPulledGlobalSeq cfg (eng_db g1)) (int (length ?L)) = int (length ?L)"
      using page_ok cur by (simp add: log_of_def)
    then have g': "eng_db g' = db2" "eng_lastKnownHead g' = Some (int (length ?L))"
      using run ap Inr cur by (auto simp: conflict_with_missing_def page_def db2_def Let_def)
    have "applied_upto ?L (int (length ?L)) (eng_db g1)"
      using applied_upto_page [OF _ page_def, of "eng_db g1"] page_ok Inr cur all L(1)
      by (auto simp: client_ok_def)
    then show ?thesis
      using page_ok g' cur by (simp add: client_ok_def head_known_def db2_def write_cursor applied_upto_write log_of_def)
  qed
qed

lemma push_attempts_ok:
  assumes aead: "aead_ok (cfg_crypto cfg)" and env: "env_ok (cfg_env cfg)"
    and "server_wf w" and "may_access cfg identity w"
    and "client_ok cfg (server_log cfg identity w) (eng_db g)" and "head_known cfg g"
    and "int (length (server_log cfg identity w)) \<le> readLastPulledGlobalSeq cfg (eng_db g) + 1000"
  shows "\<exists>res g' w'. push_attempts (server_transport None identity) cfg jitter now fuel n (g, w) = Some (res, g', w')
     \<and> server_wf w' \<and> may_access cfg identity w' \<and> (\<exists>xs. server_log cfg identity w' = server_log cfg identity w @ xs)
     \<and> client_ok cfg (server_log cfg identity w') (eng_db g') \<and> head_known cfg g'
     \<and> db_kept cfg (eng_db g) (eng_db g')
     \<and> readLastPulledGlobalSeq cfg (eng_db g) \<le> readLastPulledGlobalSeq cfg (eng_db g')"
  using assms(3-)
proof (induction n arbitrary: g w)
  case 0
  then show ?case by (simp add: db_kept_refl)
next
  case (Suc n)
  let ?L = "server_log cfg identity w" and ?c = "readLastPulledGlobalSeq cfg (eng_db g)"
  define batch where "batch = loadPendingEvents (cfg_pushBatchSize cfg) (eng_db g)"
  have c: "0 \<le> ?c" "?c \<le> int (length ?L)" using Suc.prems(3) by (simp_all add: client_ok_def)
  consider "?c = int (length ?L)" | "batch = []" | "?c < int (length ?L)" "batch \<noteq> []" using c by linarith
  then show ?case
  proof cases
    case 1
    from push_current [OF env Suc.prems(1-4) this, of jitter now fuel n] obtain g' w' where
      "push_attempts (server_transport None identity) cfg jitter now fuel (Suc n) (g, w) = Some (Inr (), g', w')"
      "server_wf w'" "may_access cfg identity w'" "head_known cfg g'" "db_kept cfg (eng_db g) (eng_db g')"
      "client_ok cfg (server_log cfg identity w') (eng_db g')"
      "server_log cfg identity w' = log_adds ?L (map row_id batch)"
      "readLastPulledGlobalSeq cfg (eng_db g') = int (length (server_log cfg identity w'))"
      unfolding batch_def by blast
    moreover obtain xs where "log_adds ?L (map row_id batch) = ?L @ xs" using log_fold_extends by blast
    ultimately show ?thesis using 1 by auto
  next
    case 2
    have "eng_db (push_nothing g) = eng_db g" "eng_lastKnownHead (push_nothing g) = eng_lastKnownHead g"
      by (simp_all add: push_nothing_def setIdle_def)
    then show ?thesis
      using 2 Suc.prems unfolding batch_def by (simp add: head_known_def db_kept_refl)
  next
    case 3
    note lt = 3(1) and bne = 3(2)
    obtain es where es: "to_push_events (cfg_env cfg) batch = Inr es" "map pe_eventId es = map row_id batch"
      using to_push_events_ok [OF env] by blast
    then have ne: "es \<noteq> []" using bne by auto
    have exp: "getExpectedHead cfg g = ?c" using head_known_expected [OF Suc.prems(4)] .
    let ?page = "wire_events (take 1000 (drop (nat ?c) (stream_of identity (cfg_storeId cfg) w)))"
    obtain w' where push: "tr_push (server_transport None identity) (cfg_storeId cfg) ?c es w =
        (Inr (WireConflict (int (length ?L)) ServerAhead (Some ?page)), w')"
      "server_wf w'" "server_log cfg identity w' = ?L" "may_access cfg identity w'"
      using tr_push_behind [OF Suc.prems(1,2) ne c(1) lt] by blast
    have pne: "?page \<noteq> []" using lt c(1) by (simp add: wire_events_def log_of_def)
    obtain r1 g1 where cm: "conflict_with_missing cfg now (int (length ?L)) ?page g = (r1, g1)"
      by (metis prod.exhaust)
    note cm_ok = conflict_with_missing_ok [OF aead Suc.prems(1,3,4,5) cm]
    have hc: "handleConflict (server_transport None identity) cfg jitter now fuel (int (length ?L)) ServerAhead
        (Some ?page) ?c (g, w') = Some (r1, g1, w')"
      using cm pne by (simp add: handleConflict_def)
    show ?thesis
    proof (cases r1)
      case (Inl e)
      have "push_attempts (server_transport None identity) cfg jitter now fuel (Suc n) (g, w) = Some (Inl e, g1, w')"
        using bne es(1) push(1) exp hc Inl unfolding batch_def by (simp add: Let_def)
      then show ?thesis using push cm_ok by auto
    next
      case (Inr u)
      have rec: "push_attempts (server_transport None identity) cfg jitter now fuel (Suc n) (g, w)
          = push_attempts (server_transport None identity) cfg jitter now fuel n (g1, w')"
        using bne es(1) push(1) exp hc Inr unfolding batch_def by (simp add: Let_def)
      have "client_ok cfg (server_log cfg identity w') (eng_db g1)" "head_known cfg g1"
        "int (length (server_log cfg identity w')) \<le> readLastPulledGlobalSeq cfg (eng_db g1) + 1000"
        using cm_ok push(3) Inr by simp_all
      from Suc.IH [OF push(2,4) this] obtain res g' w'' where
        "push_attempts (server_transport None identity) cfg jitter now fuel n (g1, w') = Some (res, g', w'')"
        "server_wf w''" "may_access cfg identity w''" "\<exists>xs. server_log cfg identity w'' = ?L @ xs"
        "client_ok cfg (server_log cfg identity w'') (eng_db g')" "head_known cfg g'"
        "db_kept cfg (eng_db g1) (eng_db g')"
        "readLastPulledGlobalSeq cfg (eng_db g1) \<le> readLastPulledGlobalSeq cfg (eng_db g')"
        unfolding push(3) by blast
      moreover have "db_kept cfg (eng_db g) (eng_db g')" using cm_ok calculation(7) db_kept_trans by blast
      ultimately show ?thesis unfolding rec using cm_ok by auto
    qed
  qed
qed

subsection \<open>A whole round\<close>

lemma setSyncing_frame [simp]:
  "eng_db (setSyncing d g) = eng_db g" "eng_lastKnownHead (setSyncing d g) = eng_lastKnownHead g"
  by (simp_all add: setSyncing_def)

lemma pull_end_frame [simp]:
  "eng_db (pull_succeeded now h p g) = eng_db g" "eng_lastKnownHead (pull_succeeded now h p g) = eng_lastKnownHead g"
  "eng_db (pull_failed jitter now e g) = eng_db g" "eng_lastKnownHead (pull_failed jitter now e g) = eng_lastKnownHead g"
  by (simp_all add: pull_succeeded_def pull_failed_def setErrorStatus_def Let_def split: prod.splits)

lemma push_failed_frame [simp]:
  "eng_db (push_failed jitter now e g) = eng_db g" "eng_lastKnownHead (push_failed jitter now e g) = eng_lastKnownHead g"
  by (simp_all add: push_failed_def setErrorStatus_def requestPush_def Let_def split: prod.splits)

lemma pull_status:
  "eng_status (pull_succeeded now h p g) = Idle (Some now) None"
  "\<exists>e t s. eng_status (pull_failed jitter now x g) = Failed e t s"
  by (auto simp: pull_succeeded_def pull_failed_def setErrorStatus_def Let_def split: prod.splits)

lemma ensureSyncMetaRow_ok:
  "client_ok cfg L (eng_db (ensureSyncMetaRow cfg g)) = client_ok cfg L (eng_db g)"
  "readLastPulledGlobalSeq cfg (eng_db (ensureSyncMetaRow cfg g)) = readLastPulledGlobalSeq cfg (eng_db g)"
  "db_events (eng_db (ensureSyncMetaRow cfg g)) = db_events (eng_db g)"
  "eng_lastKnownHead (ensureSyncMetaRow cfg g) = eng_lastKnownHead g"
  "db_kept cfg (eng_db (ensureSyncMetaRow cfg g)) = db_kept cfg (eng_db g)"
  by (auto simp: ensureSyncMetaRow_def client_ok_def readLastPulledGlobalSeq_def map_ok_def applied_upto_def
      has_event_def is_synced_def db_kept_def fun_eq_iff split: option.splits)

lemma pullOnce_ok:
  assumes aead: "aead_ok (cfg_crypto cfg)" and wf: "server_wf w"
    and ok: "client_ok cfg (server_log cfg identity w) (eng_db g)"
    and run: "pullOnceInternal (server_transport repos identity) cfg jitter now wait fuel (g, w) = Some (g', w')"
  shows "server_wf w' \<and> server_log cfg identity w' = server_log cfg identity w \<and>
     client_ok cfg (server_log cfg identity w) (eng_db g') \<and> db_kept cfg (eng_db g) (eng_db g') \<and>
     readLastPulledGlobalSeq cfg (eng_db g) \<le> readLastPulledGlobalSeq cfg (eng_db g') \<and>
     (may_access cfg identity w \<longrightarrow> may_access cfg identity w') \<and>
     (0 < cfg_pullLimit cfg \<and> eng_status g' = Idle (Some now) None \<longrightarrow>
        readLastPulledGlobalSeq cfg (eng_db g') = int (length (server_log cfg identity w)) \<and>
        eng_lastKnownHead g' = Some (int (length (server_log cfg identity w))))"
proof -
  let ?g0 = "setSyncing DirPull g"
  have ok0: "client_ok cfg (server_log cfg identity w) (eng_db ?g0)" using ok by simp
  obtain res g1 w1 where pages: "pull_pages (server_transport repos identity) cfg now wait fuel
      (readLastPulledGlobalSeq cfg (eng_db ?g0)) False (?g0, w) = Some (res, g1, w1)"
    using run by (auto simp: pullOnceInternal_def Let_def split: option.splits)
  note fact = pull_pages_ok [OF aead wf ok0 refl pages]
  show ?thesis
  proof (cases res)
    case (Inl e)
    then have "g' = pull_failed jitter now e g1" "w' = w1"
      using run pages by (simp_all add: pullOnceInternal_def Let_def)
    then show ?thesis using fact pull_status(2) [of jitter now e g1] by auto
  next
    case (Inr b)
    then have "g' = pull_succeeded now (hasPendingEvents (eng_db ?g0)) b g1" "w' = w1"
      using run pages by (simp_all add: pullOnceInternal_def Let_def)
    then show ?thesis using fact Inr by auto
  qed
qed

lemma pullOnce_terminates:
  assumes "aead_ok (cfg_crypto cfg)" and "server_wf w" and "may_access cfg identity w"
    and "client_ok cfg (server_log cfg identity w) (eng_db g)"
    and "length (server_log cfg identity w) - nat (readLastPulledGlobalSeq cfg (eng_db g)) < fuel"
  shows "\<exists>g' w'. pullOnceInternal (server_transport repos identity) cfg jitter now wait fuel (g, w) = Some (g', w')"
proof -
  have "\<exists>out. pull_pages (server_transport repos identity) cfg now wait fuel
      (readLastPulledGlobalSeq cfg (eng_db (setSyncing DirPull g))) False (setSyncing DirPull g, w) = Some out"
    using assms by (intro pull_pages_terminates) auto
  then obtain res g1 w1 where "pull_pages (server_transport repos identity) cfg now wait fuel
      (readLastPulledGlobalSeq cfg (eng_db g)) False (setSyncing DirPull g, w) = Some (res, g1, w1)"
    by auto
  then show ?thesis by (cases res) (simp_all add: pullOnceInternal_def Let_def)
qed

end
