(* ===== verification/SharingChain.thy ===== *)
theory SharingChain
  imports SharingServer
begin

text \<open>
  The contract of the server's append-only streams as a locale, the facts a reader of a stream
  gets from it, and its interpretation on the three repositories of \<open>SharingServer\<close>. The
  last section composes the repositories into one server that handles arbitrary requests.
\<close>

definition tail_seq :: "('r \<Rightarrow> int) \<Rightarrow> 'r list \<Rightarrow> int" where
  "tail_seq seq rs = (if rs = [] then 0 else seq (last rs))"

definition tail_hash :: "('r \<Rightarrow> bytes) \<Rightarrow> 'r list \<Rightarrow> bytes option" where
  "tail_hash hash rs = (if rs = [] then None else Some (hash (last rs)))"

text \<open>A gap-free hash chain: numbered from 1, each record carrying its predecessor's hash.\<close>

definition chain_ok :: "('r \<Rightarrow> int) \<Rightarrow> ('r \<Rightarrow> bytes option) \<Rightarrow> ('r \<Rightarrow> bytes) \<Rightarrow> 'r list \<Rightarrow> bool" where
  "chain_ok seq prev hash rs \<longleftrightarrow>
     (\<forall>i < length rs. seq (rs ! i) = int i + 1 \<and>
        prev (rs ! i) = (if i = 0 then None else Some (hash (rs ! (i - 1)))))"

lemma chain_ok_Nil [simp]: "chain_ok seq prev hash []"
  by (simp add: chain_ok_def)

lemma chain_ok_snoc:
  "chain_ok seq prev hash (rs @ [r]) \<longleftrightarrow>
     chain_ok seq prev hash rs \<and> seq r = int (length rs) + 1 \<and> prev r = tail_hash hash rs"
proof -
  have old: "(rs @ [r]) ! i = rs ! i \<and> (rs @ [r]) ! (i - 1) = rs ! (i - 1)" if "i < length rs" for i
  proof -
    have "i - 1 < length rs" using that by linarith
    then show ?thesis using that by (simp add: nth_append)
  qed
  have new: "(rs @ [r]) ! (length rs - 1) = last rs" if "rs \<noteq> []"
    using that by (simp add: nth_append last_conv_nth)
  show ?thesis
    using old new by (auto simp: chain_ok_def tail_hash_def All_less_Suc)
qed

lemma chain_ok_tail_seq: "chain_ok seq prev hash rs \<Longrightarrow> tail_seq seq rs = int (length rs)"
  by (cases rs rule: rev_cases) (auto simp: chain_ok_snoc tail_seq_def)

text \<open>Requests against one stream family; a refused append leaves the database as it was.\<close>

fun run_appends ::
  "('k \<Rightarrow> int \<Rightarrow> 'i \<Rightarrow> 'db \<Rightarrow> ('x \<times> 'db) sharing_result) \<Rightarrow> ('k \<times> int \<times> 'i) list \<Rightarrow> 'db \<Rightarrow> 'db" where
  "run_appends app [] db = db"
| "run_appends app ((k, h, i) # rs) db =
     run_appends app rs (case app k h i db of Inl e \<Rightarrow> db | Inr (_, db') \<Rightarrow> db')"

locale append_stream =
  fixes stream :: "'db \<Rightarrow> 'k \<Rightarrow> 'r list"
    and seq :: "'r \<Rightarrow> int" and prev :: "'r \<Rightarrow> bytes option" and hash :: "'r \<Rightarrow> bytes"
    and app :: "'k \<Rightarrow> int \<Rightarrow> 'i \<Rightarrow> 'db \<Rightarrow> ((int \<times> bytes) \<times> 'db) sharing_result"
    and inv :: "'db \<Rightarrow> bool"
  assumes append_inv: "inv db \<Longrightarrow> app k h i db = Inr (res, db') \<Longrightarrow> inv db'"
    and append_here: "inv db \<Longrightarrow> app k h i db = Inr ((s, x), db') \<Longrightarrow>
       \<exists>r. stream db' k = stream db k @ [r] \<and> seq r = s \<and> hash r = x \<and> s = h + 1
           \<and> h = tail_seq seq (stream db k) \<and> prev r = tail_hash hash (stream db k)"
    and append_elsewhere: "inv db \<Longrightarrow> app k h i db = Inr (res, db') \<Longrightarrow> k' \<noteq> k \<Longrightarrow>
       stream db' k' = stream db k'"
    and append_stale: "inv db \<Longrightarrow> h \<noteq> tail_seq seq (stream db k) \<Longrightarrow>
       app k h i db = Inl (StreamHeadMismatch (tail_seq seq (stream db k)) h)"
begin

lemma append_chain:
  assumes "inv db" and "app k h i db = Inr (res, db')" and "\<And>k. chain_ok seq prev hash (stream db k)"
  shows "chain_ok seq prev hash (stream db' k')"
proof (cases "k' = k")
  case True
  then show ?thesis
    using append_here [OF assms(1), of k h i "fst res" "snd res" db'] assms(2) assms(3) [of k]
    by (auto simp: chain_ok_snoc chain_ok_tail_seq)
next
  case False
  then show ?thesis using append_elsewhere [OF assms(1,2)] assms(3) by simp
qed

lemma append_extends:
  assumes "inv db" and "app k h i db = Inr (res, db')"
  shows "\<exists>rs. stream db' k' = stream db k' @ rs"
  using append_here [OF assms(1), of k h i "fst res" "snd res" db'] append_elsewhere [OF assms, of k'] assms(2)
  by (cases "k' = k") auto

lemma run_appends_chain:
  assumes "inv db" and "\<And>k. chain_ok seq prev hash (stream db k)"
  shows "inv (run_appends app reqs db) \<and>
     chain_ok seq prev hash (stream (run_appends app reqs db) k) \<and>
     (\<exists>rs. stream (run_appends app reqs db) k = stream db k @ rs)"
  using assms
proof (induction reqs arbitrary: db)
  case Nil
  then show ?case by simp
next
  case (Cons q reqs)
  obtain k0 h i where q: "q = (k0, h, i)" by (cases q)
  show ?case
  proof (cases "app k0 h i db")
    case (Inl e)
    then show ?thesis using Cons q by simp
  next
    case (Inr p)
    then obtain res db' where step: "app k0 h i db = Inr (res, db')" by (cases p) auto
    have next_ok: "inv db'" "\<And>k. chain_ok seq prev hash (stream db' k)"
      using append_inv append_chain step Cons.prems by blast+
    obtain ys where "stream db' k = stream db k @ ys"
      using append_extends [OF Cons.prems(1) step] by blast
    then show ?thesis using Cons.IH [OF next_ok] step q by auto
  qed
qed

text \<open>Of two appends computed against the same head, at most one is accepted.\<close>

lemma one_winner:
  assumes "inv db" and "app k h i db = Inr (res, db')"
  shows "app k h i' db' = Inl (StreamHeadMismatch (h + 1) h)"
proof -
  obtain s x where "res = (s, x)" by (cases res)
  with append_here [OF assms(1), of k h i s x db'] assms(2)
  have "tail_seq seq (stream db' k) = h + 1" by (auto simp: tail_seq_def)
  then show ?thesis using append_stale [of db' h k i'] append_inv [OF assms] by simp
qed

end

subsection \<open>The three streams\<close>

definition seqs_ok :: "('r \<Rightarrow> int) \<Rightarrow> 'r list \<Rightarrow> bool" where
  "seqs_ok seq rs \<longleftrightarrow> sorted_wrt (<) (map seq rs) \<and> (\<forall>r \<in> set rs. 0 < seq r)"

lemma seqs_ok_Nil [simp]: "seqs_ok seq []"
  by (simp add: seqs_ok_def)

lemma seqs_ok_le_tail: "seqs_ok seq rs \<Longrightarrow> r \<in> set rs \<Longrightarrow> seq r \<le> tail_seq seq rs"
  by (cases rs rule: rev_cases) (auto simp: seqs_ok_def tail_seq_def sorted_wrt_append)

lemma tail_seq_nonneg: "seqs_ok seq rs \<Longrightarrow> 0 \<le> tail_seq seq rs"
  by (auto simp: tail_seq_def seqs_ok_def intro: less_imp_le)

lemma tail_seq_pos: "seqs_ok seq rs \<Longrightarrow> 0 < tail_seq seq rs \<longleftrightarrow> rs \<noteq> []"
  using last_in_set [of rs] by (auto simp: tail_seq_def seqs_ok_def)

lemma seqs_ok_snoc:
  assumes "seqs_ok seq rs" and "seq r = tail_seq seq rs + 1"
  shows "seqs_ok seq (rs @ [r])"
  using assms tail_seq_nonneg [OF assms(1)] seqs_ok_le_tail [OF assms(1)]
  by (auto simp: seqs_ok_def sorted_wrt_append)

definition scope_stream :: "sharing_db \<Rightarrow> string \<Rightarrow> scope_state_row list" where
  "scope_stream db k = filter (\<lambda>r. ss_scope_id r = k) (scope_states db)"

definition grant_stream :: "sharing_db \<Rightarrow> string \<Rightarrow> grant_row list" where
  "grant_stream db k = filter (\<lambda>r. gr_scope_id r = k) (resource_grants db)"

definition vault_stream :: "sharing_db \<Rightarrow> string \<Rightarrow> vault_row list" where
  "vault_stream db k = filter (\<lambda>r. va_user_id r = k) (keyvault_records db)"

text \<open>A head entry describes the last record of its stream.\<close>

definition head_ok ::
  "('r \<Rightarrow> int) \<Rightarrow> ('r \<Rightarrow> bytes) \<Rightarrow> (int \<times> bytes option) option \<Rightarrow> 'r list \<Rightarrow> bool" where
  "head_ok seq hash e rs \<longleftrightarrow> seqs_ok seq rs \<and>
     (case e of None \<Rightarrow> rs = []
      | Some (s, x) \<Rightarrow> rs \<noteq> [] \<and> s = tail_seq seq rs \<and> x = tail_hash hash rs)"

lemma head_ok_snoc:
  "head_ok seq hash e rs \<Longrightarrow> seq r = tail_seq seq rs + 1 \<Longrightarrow>
     head_ok seq hash (Some (seq r, Some (hash r))) (rs @ [r])"
  by (auto simp: head_ok_def seqs_ok_snoc tail_seq_def tail_hash_def)

definition scope_head :: "sharing_db \<Rightarrow> string \<Rightarrow> (int \<times> bytes option) option" where
  "scope_head db k = map_option (\<lambda>h. (sh_head_seq h, sh_head_ref h)) (scope_state_heads db k)"

definition vault_head :: "sharing_db \<Rightarrow> string \<Rightarrow> (int \<times> bytes option) option" where
  "vault_head db k = map_option (\<lambda>h. (vh_head_seq h, vh_head_hash h)) (keyvault_heads db k)"

definition scope_inv :: "sharing_db \<Rightarrow> bool" where
  "scope_inv db \<longleftrightarrow> (\<forall>k. head_ok ss_seq ss_ref (scope_head db k) (scope_stream db k))"

definition grant_inv :: "sharing_db \<Rightarrow> bool" where
  "grant_inv db \<longleftrightarrow> (\<forall>k. seqs_ok gr_seq (grant_stream db k))"

definition vault_inv :: "sharing_db \<Rightarrow> bool" where
  "vault_inv db \<longleftrightarrow> (\<forall>k. head_ok va_seq va_hash (vault_head db k) (vault_stream db k))"

lemma check_chain_Inr:
  "0 \<le> h \<Longrightarrow> check_chain w h t p = Inr u \<longleftrightarrow> (if 0 < h then p \<noteq> None \<and> t = p else p = None)"
  by (auto simp: check_chain_def split: option.splits)

lemma head_ok_seqs: "head_ok seq hash e rs \<Longrightarrow> seqs_ok seq rs"
  by (simp add: head_ok_def)

lemma scope_head_eq:
  assumes "scope_inv db"
  shows "scope_getHeadSeq k db = Inr (tail_seq ss_seq (scope_stream db k))"
    and "Option.bind (scope_state_heads db k) sh_head_ref = tail_hash ss_ref (scope_stream db k)"
proof -
  have k: "head_ok ss_seq ss_ref (scope_head db k) (scope_stream db k)"
    using assms by (simp add: scope_inv_def)
  show "scope_getHeadSeq k db = Inr (tail_seq ss_seq (scope_stream db k))"
    using k tail_seq_nonneg [OF head_ok_seqs [OF k]]
    by (auto simp: scope_getHeadSeq_def SequenceNumber_from_def tail_seq_def scope_head_def head_ok_def
        split: option.splits)
  show "Option.bind (scope_state_heads db k) sh_head_ref = tail_hash ss_ref (scope_stream db k)"
    using k by (auto simp: tail_hash_def scope_head_def head_ok_def split: option.splits)
qed

lemma vault_head_eq:
  assumes "vault_inv db"
  shows "vault_getHeadSeq k db = Inr (tail_seq va_seq (vault_stream db k))"
    and "Option.bind (keyvault_heads db k) vh_head_hash = tail_hash va_hash (vault_stream db k)"
proof -
  have k: "head_ok va_seq va_hash (vault_head db k) (vault_stream db k)"
    using assms by (simp add: vault_inv_def)
  show "vault_getHeadSeq k db = Inr (tail_seq va_seq (vault_stream db k))"
    using k tail_seq_nonneg [OF head_ok_seqs [OF k]]
    by (auto simp: vault_getHeadSeq_def SequenceNumber_from_def tail_seq_def vault_head_def head_ok_def
        split: option.splits)
  show "Option.bind (keyvault_heads db k) vh_head_hash = tail_hash va_hash (vault_stream db k)"
    using k by (auto simp: tail_hash_def vault_head_def head_ok_def split: option.splits)
qed

text \<open>\<open>MAX(grant_seq)\<close> is the last grant's number, and the lookup of that number finds it.\<close>

lemma grant_head_eq:
  assumes "grant_inv db"
  shows "grant_getHeadSeq k db = Inr (tail_seq gr_seq (grant_stream db k))"
    and "0 < tail_seq gr_seq (grant_stream db k) \<Longrightarrow>
      map_option gr_hash (find (\<lambda>r. gr_scope_id r = k \<and> gr_seq r = tail_seq gr_seq (grant_stream db k))
        (resource_grants db)) = tail_hash gr_hash (grant_stream db k)"
proof -
  let ?rs = "grant_stream db k"
  have ok: "seqs_ok gr_seq ?rs" using assms by (simp add: grant_inv_def)
  show "grant_getHeadSeq k db = Inr (tail_seq gr_seq ?rs)"
  proof (cases ?rs)
    case Nil
    then show ?thesis by (simp add: grant_getHeadSeq_def grant_stream_def tail_seq_def)
  next
    case (Cons r rs)
    have max: "Max (set (map gr_seq ?rs)) = tail_seq gr_seq ?rs"
      using Cons seqs_ok_le_tail [OF ok] last_in_set [of ?rs]
      by (intro Max_eqI) (auto simp: tail_seq_def)
    have "grant_getHeadSeq k db = SequenceNumber_from (Max (set (map gr_seq (r # rs))))"
      using Cons unfolding grant_getHeadSeq_def grant_stream_def by simp
    then show ?thesis
      using tail_seq_nonneg [OF ok] unfolding Cons [symmetric] max by (simp add: SequenceNumber_from_def)
  qed
  assume "0 < tail_seq gr_seq ?rs"
  then have ne: "?rs \<noteq> []" using tail_seq_pos [OF ok] by simp
  have "distinct (map gr_seq ?rs)"
    using ok unfolding seqs_ok_def by (metis strict_sorted_iff)
  then have "find (\<lambda>r. gr_seq r = gr_seq (last ?rs)) ?rs = Some (last ?rs)"
    using ne by (simp add: find_distinct_key)
  moreover have "find (\<lambda>r. gr_scope_id r = k \<and> gr_seq r = m) (resource_grants db)
      = find (\<lambda>r. gr_seq r = m) ?rs" for m
    by (simp add: grant_stream_def find_filter)
  ultimately show "map_option gr_hash (find (\<lambda>r. gr_scope_id r = k \<and> gr_seq r = tail_seq gr_seq ?rs)
        (resource_grants db)) = tail_hash gr_hash ?rs"
    using ne by (simp add: tail_seq_def tail_hash_def)
qed

text \<open>The check together with the current head says that the record continues the chain.\<close>

lemma check_chain_continues:
  assumes "seqs_ok seq rs" and "check_chain w (tail_seq seq rs) (tail_hash hash rs) p = Inr u"
  shows "p = tail_hash hash rs"
  using assms tail_seq_nonneg [OF assms(1)] tail_seq_pos [OF assms(1)]
  by (auto simp: check_chain_Inr tail_hash_def split: if_splits)

lemma appendState_Inr:
  assumes inv: "scope_inv db" and ok: "appendState k h i db = Inr ((s, x), db')"
  shows "h = tail_seq ss_seq (scope_stream db k) \<and> s = h + 1 \<and> x = si_scopeStateRef i \<and>
     si_prevHash i = tail_hash ss_ref (scope_stream db k) \<and>
     (\<exists>r. scope_states db' = scope_states db @ [r] \<and> ss_scope_id r = k \<and> ss_seq r = s \<and> ss_ref r = x \<and>
        ss_prev_hash r = si_prevHash i) \<and>
     (\<exists>o'. scope_state_heads db' = (scope_state_heads db)(k \<mapsto>
        \<lparr>sh_owner_user_id = o', sh_head_seq = s, sh_head_ref = Some x\<rparr>)) \<and>
     resource_grants db' = resource_grants db \<and> resource_grant_heads db' = resource_grant_heads db \<and>
     key_envelopes db' = key_envelopes db \<and>
     keyvault_records db' = keyvault_records db \<and> keyvault_heads db' = keyvault_heads db"
proof -
  have sok: "seqs_ok ss_seq (scope_stream db k)" using inv by (simp add: scope_inv_def head_ok_def)
  from ok have h: "h = tail_seq ss_seq (scope_stream db k)"
    by (auto simp: appendState_def Let_def scope_head_eq [OF inv] split: if_splits)
  from ok h obtain u where "check_chain ''head_ref'' h (tail_hash ss_ref (scope_stream db k)) (si_prevHash i) = Inr u"
    by (auto simp: appendState_def Let_def scope_head_eq [OF inv] bind_result_eq_Inr)
  then have "si_prevHash i = tail_hash ss_ref (scope_stream db k)"
    using check_chain_continues [OF sok] h by blast
  with ok h show ?thesis
    by (auto simp: appendState_def Let_def scope_head_eq [OF inv] bind_result_eq_Inr insert_scope_state_def
        split: if_splits)
qed

interpretation scope_chain: append_stream scope_stream ss_seq ss_prev_hash ss_ref appendState scope_inv
proof
  fix db k h i s x db'
  assume inv: "scope_inv db" and ok: "appendState k h i db = Inr ((s, x), db')"
  note eff = appendState_Inr [OF inv ok]
  then show "\<exists>r. scope_stream db' k = scope_stream db k @ [r] \<and> ss_seq r = s \<and> ss_ref r = x \<and> s = h + 1
      \<and> h = tail_seq ss_seq (scope_stream db k) \<and> ss_prev_hash r = tail_hash ss_ref (scope_stream db k)"
    by (auto simp: scope_stream_def)
next
  fix db k h i res db' k'
  assume "scope_inv db" "appendState k h i db = Inr (res, db')" "k' \<noteq> k"
  then show "scope_stream db' k' = scope_stream db k'"
    using appendState_Inr [of db k h i "fst res" "snd res" db'] by (auto simp: scope_stream_def)
next
  fix db k h i
  assume "scope_inv db" "h \<noteq> tail_seq ss_seq (scope_stream db k)"
  then show "appendState k h i db = Inl (StreamHeadMismatch (tail_seq ss_seq (scope_stream db k)) h)"
    by (simp add: appendState_def scope_head_eq)
next
  fix db k h i res db'
  assume inv: "scope_inv db" and ok: "appendState k h i db = Inr (res, db')"
  obtain s x where res: "res = (s, x)" by (cases res)
  note eff = appendState_Inr [OF inv ok [unfolded res]]
  from eff obtain r where r: "scope_states db' = scope_states db @ [r]" "ss_scope_id r = k" "ss_seq r = s"
    "ss_ref r = x" by blast
  have "head_ok ss_seq ss_ref (scope_head db' k') (scope_stream db' k')" for k'
  proof (cases "k' = k")
    case True
    then have "scope_stream db' k' = scope_stream db k @ [r]" "scope_head db' k' = Some (ss_seq r, Some (ss_ref r))"
      using eff r by (auto simp: scope_stream_def scope_head_def)
    moreover have "ss_seq r = tail_seq ss_seq (scope_stream db k) + 1" using eff r by simp
    moreover have "head_ok ss_seq ss_ref (scope_head db k) (scope_stream db k)"
      using inv by (simp add: scope_inv_def)
    ultimately show ?thesis using head_ok_snoc by metis
  next
    case False
    then have "scope_stream db' k' = scope_stream db k'" "scope_head db' k' = scope_head db k'"
      using eff r by (auto simp: scope_stream_def scope_head_def)
    then show ?thesis using inv by (simp add: scope_inv_def)
  qed
  then show "scope_inv db'" by (simp add: scope_inv_def)
qed

lemma appendRecord_Inr:
  assumes inv: "vault_inv db" and ok: "appendRecord k h i db = Inr ((s, x), db')"
  shows "h = tail_seq va_seq (vault_stream db k) \<and> s = h + 1 \<and> x = vi_recordHash i \<and>
     vi_prevHash i = tail_hash va_hash (vault_stream db k) \<and>
     (\<exists>r. keyvault_records db' = keyvault_records db @ [r] \<and> va_user_id r = k \<and> va_seq r = s \<and>
        va_hash r = x \<and> va_prev_hash r = vi_prevHash i) \<and>
     keyvault_heads db' = (keyvault_heads db)(k \<mapsto> \<lparr>vh_head_seq = s, vh_head_hash = Some x\<rparr>) \<and>
     scope_states db' = scope_states db \<and> scope_state_heads db' = scope_state_heads db \<and>
     key_envelopes db' = key_envelopes db \<and>
     resource_grants db' = resource_grants db \<and> resource_grant_heads db' = resource_grant_heads db"
proof -
  have sok: "seqs_ok va_seq (vault_stream db k)" using inv by (simp add: vault_inv_def head_ok_def)
  from ok have h: "h = tail_seq va_seq (vault_stream db k)"
    by (auto simp: appendRecord_def Let_def vault_head_eq [OF inv] split: if_splits)
  from ok h obtain u where "check_chain ''head_hash'' h (tail_hash va_hash (vault_stream db k)) (vi_prevHash i) = Inr u"
    by (auto simp: appendRecord_def Let_def vault_head_eq [OF inv] bind_result_eq_Inr)
  then have "vi_prevHash i = tail_hash va_hash (vault_stream db k)"
    using check_chain_continues [OF sok] h by blast
  with ok h show ?thesis
    by (auto simp: appendRecord_def Let_def vault_head_eq [OF inv] bind_result_eq_Inr insert_vault_def
        split: if_splits)
qed

interpretation vault_chain: append_stream vault_stream va_seq va_prev_hash va_hash appendRecord vault_inv
proof
  fix db k h i s x db'
  assume inv: "vault_inv db" and ok: "appendRecord k h i db = Inr ((s, x), db')"
  show "\<exists>r. vault_stream db' k = vault_stream db k @ [r] \<and> va_seq r = s \<and> va_hash r = x \<and> s = h + 1
      \<and> h = tail_seq va_seq (vault_stream db k) \<and> va_prev_hash r = tail_hash va_hash (vault_stream db k)"
    using appendRecord_Inr [OF inv ok] by (auto simp: vault_stream_def)
next
  fix db k h i res db' k'
  assume "vault_inv db" "appendRecord k h i db = Inr (res, db')" "k' \<noteq> k"
  then show "vault_stream db' k' = vault_stream db k'"
    using appendRecord_Inr [of db k h i "fst res" "snd res" db'] by (auto simp: vault_stream_def)
next
  fix db k h i
  assume "vault_inv db" "h \<noteq> tail_seq va_seq (vault_stream db k)"
  then show "appendRecord k h i db = Inl (StreamHeadMismatch (tail_seq va_seq (vault_stream db k)) h)"
    by (simp add: appendRecord_def vault_head_eq)
next
  fix db k h i res db'
  assume inv: "vault_inv db" and ok: "appendRecord k h i db = Inr (res, db')"
  obtain s x where res: "res = (s, x)" by (cases res)
  note eff = appendRecord_Inr [OF inv ok [unfolded res]]
  from eff obtain r where r: "keyvault_records db' = keyvault_records db @ [r]" "va_user_id r = k" "va_seq r = s"
    "va_hash r = x" by blast
  have "head_ok va_seq va_hash (vault_head db' k') (vault_stream db' k')" for k'
  proof (cases "k' = k")
    case True
    then have "vault_stream db' k' = vault_stream db k @ [r]" "vault_head db' k' = Some (va_seq r, Some (va_hash r))"
      using eff r by (auto simp: vault_stream_def vault_head_def)
    moreover have "va_seq r = tail_seq va_seq (vault_stream db k) + 1" using eff r by simp
    moreover have "head_ok va_seq va_hash (vault_head db k) (vault_stream db k)"
      using inv by (simp add: vault_inv_def)
    ultimately show ?thesis using head_ok_snoc by metis
  next
    case False
    then have "vault_stream db' k' = vault_stream db k'" "vault_head db' k' = vault_head db k'"
      using eff r by (auto simp: vault_stream_def vault_head_def)
    then show ?thesis using inv by (simp add: vault_inv_def)
  qed
  then show "vault_inv db'" by (simp add: vault_inv_def)
qed

lemma appendGrant_Inr:
  assumes inv: "grant_inv db" and ok: "appendGrant k h i db = Inr ((s, x), db')"
  shows "h = tail_seq gr_seq (grant_stream db k) \<and> s = h + 1 \<and> x = gi_grantHash i \<and>
     gi_prevHash i = tail_hash gr_hash (grant_stream db k) \<and>
     (\<exists>r. resource_grants db' = resource_grants db @ [r] \<and> gr_scope_id r = k \<and> gr_seq r = s \<and>
        gr_hash r = x \<and> gr_prev_hash r = gi_prevHash i) \<and>
     scope_states db' = scope_states db \<and> scope_state_heads db' = scope_state_heads db \<and>
     key_envelopes db' = key_envelopes db \<and>
     keyvault_records db' = keyvault_records db \<and> keyvault_heads db' = keyvault_heads db"
proof -
  have sok: "seqs_ok gr_seq (grant_stream db k)" using inv by (simp add: grant_inv_def)
  from ok have h: "h = tail_seq gr_seq (grant_stream db k)"
    by (auto simp: appendGrant_def Let_def grant_head_eq(1) [OF inv] split: if_splits)
  from ok h obtain u where u: "grant_chain_check k h (gi_prevHash i) db = Inr u"
    by (auto simp: appendGrant_def Let_def grant_head_eq(1) [OF inv] bind_result_eq_Inr)
  have "gi_prevHash i = tail_hash gr_hash (grant_stream db k)"
  proof (cases "0 < h")
    case True
    then show ?thesis
      using u grant_head_eq(2) [OF inv, of k] h check_chain_continues [OF sok]
      by (simp add: grant_chain_check_def)
  next
    case False
    then have "grant_stream db k = []" using tail_seq_pos [OF sok] h by simp
    moreover have "gi_prevHash i = None"
      using u False by (auto simp: grant_chain_check_def check_chain_def split: if_splits)
    ultimately show ?thesis by (simp add: tail_hash_def)
  qed
  with ok h show ?thesis
    by (auto simp: appendGrant_def Let_def grant_head_eq(1) [OF inv] bind_result_eq_Inr insert_grant_def
        split: if_splits)
qed

interpretation grant_chain: append_stream grant_stream gr_seq gr_prev_hash gr_hash appendGrant grant_inv
proof
  fix db k h i s x db'
  assume inv: "grant_inv db" and ok: "appendGrant k h i db = Inr ((s, x), db')"
  show "\<exists>r. grant_stream db' k = grant_stream db k @ [r] \<and> gr_seq r = s \<and> gr_hash r = x \<and> s = h + 1
      \<and> h = tail_seq gr_seq (grant_stream db k) \<and> gr_prev_hash r = tail_hash gr_hash (grant_stream db k)"
    using appendGrant_Inr [OF inv ok] by (auto simp: grant_stream_def)
next
  fix db k h i res db' k'
  assume "grant_inv db" "appendGrant k h i db = Inr (res, db')" "k' \<noteq> k"
  then show "grant_stream db' k' = grant_stream db k'"
    using appendGrant_Inr [of db k h i "fst res" "snd res" db'] by (auto simp: grant_stream_def)
next
  fix db k h i
  assume "grant_inv db" "h \<noteq> tail_seq gr_seq (grant_stream db k)"
  then show "appendGrant k h i db = Inl (StreamHeadMismatch (tail_seq gr_seq (grant_stream db k)) h)"
    by (simp add: appendGrant_def grant_head_eq(1))
next
  fix db k h i res db'
  assume inv: "grant_inv db" and ok: "appendGrant k h i db = Inr (res, db')"
  obtain s x where res: "res = (s, x)" by (cases res)
  note eff = appendGrant_Inr [OF inv ok [unfolded res]]
  then obtain r where r: "resource_grants db' = resource_grants db @ [r]" "gr_scope_id r = k" "gr_seq r = s"
    by blast
  then have "grant_stream db' k' = (if k' = k then grant_stream db k @ [r] else grant_stream db k')" for k'
    by (auto simp: grant_stream_def)
  moreover have "gr_seq r = tail_seq gr_seq (grant_stream db k) + 1" using eff r by simp
  moreover have "seqs_ok gr_seq (grant_stream db k)" using inv by (simp add: grant_inv_def)
  ultimately show "grant_inv db'" using inv seqs_ok_snoc [of gr_seq "grant_stream db k" r] by (simp add: grant_inv_def)
qed

subsection \<open>The sharing server\<close>

text \<open>
  One request to any of the repositories. The transactions serialise, so a run of the server
  is a sequence of requests; a refused request changes nothing.
\<close>

datatype sharing_request =
    AppendState string int scope_state_input
  | AppendGrant string int grant_input
  | AppendRecord string int vault_input
  | CreateEnvelope envelope_row

definition commit_or_keep :: "'db \<Rightarrow> ('x \<times> 'db) sharing_result \<Rightarrow> 'db" where
  "commit_or_keep db r = (case r of Inl _ \<Rightarrow> db | Inr (_, db') \<Rightarrow> db')"

fun sharing_step :: "sharing_request \<Rightarrow> sharing_db \<Rightarrow> sharing_db" where
  "sharing_step (AppendState k h i) db = commit_or_keep db (appendState k h i db)"
| "sharing_step (AppendGrant k h i) db = commit_or_keep db (appendGrant k h i db)"
| "sharing_step (AppendRecord k h i) db = commit_or_keep db (appendRecord k h i db)"
| "sharing_step (CreateEnvelope e) db =
     (case createEnvelope e db of Inl _ \<Rightarrow> db | Inr db' \<Rightarrow> db')"

definition sharing_ok :: "sharing_db \<Rightarrow> bool" where
  "sharing_ok db \<longleftrightarrow> scope_inv db \<and> grant_inv db \<and> vault_inv db \<and>
     (\<forall>k. chain_ok ss_seq ss_prev_hash ss_ref (scope_stream db k) \<and>
          chain_ok gr_seq gr_prev_hash gr_hash (grant_stream db k) \<and>
          chain_ok va_seq va_prev_hash va_hash (vault_stream db k))"

lemma sharing_ok_empty: "sharing_ok empty_sharing_db"
  by (simp add: sharing_ok_def scope_inv_def grant_inv_def vault_inv_def head_ok_def empty_sharing_db_def
      scope_stream_def grant_stream_def vault_stream_def scope_head_def vault_head_def)

lemma sharing_frame:
  "scope_states db' = scope_states db \<Longrightarrow> scope_state_heads db' = scope_state_heads db \<Longrightarrow>
     scope_inv db' = scope_inv db \<and> scope_stream db' = scope_stream db"
  "resource_grants db' = resource_grants db \<Longrightarrow> grant_inv db' = grant_inv db \<and> grant_stream db' = grant_stream db"
  "keyvault_records db' = keyvault_records db \<Longrightarrow> keyvault_heads db' = keyvault_heads db \<Longrightarrow>
     vault_inv db' = vault_inv db \<and> vault_stream db' = vault_stream db"
  by (simp_all add: scope_inv_def grant_inv_def vault_inv_def scope_stream_def grant_stream_def
      vault_stream_def scope_head_def vault_head_def fun_eq_iff)

lemma sharing_ok_step:
  assumes ok: "sharing_ok db"
  shows "sharing_ok (sharing_step q db)"
proof (cases q)
  case (AppendState k h i)
  show ?thesis
  proof (cases "appendState k h i db")
    case (Inr p)
    obtain s x db' where p: "p = ((s, x), db')" by (metis prod.exhaust)
    note step = Inr [unfolded p]
    have "scope_inv db" using ok by (simp add: sharing_ok_def)
    then show ?thesis
      using ok appendState_Inr [OF _ step] scope_chain.append_inv [OF _ step] scope_chain.append_chain [OF _ step]
        sharing_frame(2,3) [of db' db] AppendState step
      by (simp add: sharing_ok_def commit_or_keep_def)
  qed (use ok AppendState in \<open>simp add: commit_or_keep_def\<close>)
next
  case (AppendGrant k h i)
  show ?thesis
  proof (cases "appendGrant k h i db")
    case (Inr p)
    obtain s x db' where p: "p = ((s, x), db')" by (metis prod.exhaust)
    note step = Inr [unfolded p]
    have "grant_inv db" using ok by (simp add: sharing_ok_def)
    then show ?thesis
      using ok appendGrant_Inr [OF _ step] grant_chain.append_inv [OF _ step] grant_chain.append_chain [OF _ step]
        sharing_frame(1,3) [of db' db] AppendGrant step
      by (simp add: sharing_ok_def commit_or_keep_def)
  qed (use ok AppendGrant in \<open>simp add: commit_or_keep_def\<close>)
next
  case (AppendRecord k h i)
  show ?thesis
  proof (cases "appendRecord k h i db")
    case (Inr p)
    obtain s x db' where p: "p = ((s, x), db')" by (metis prod.exhaust)
    note step = Inr [unfolded p]
    have "vault_inv db" using ok by (simp add: sharing_ok_def)
    then show ?thesis
      using ok appendRecord_Inr [OF _ step] vault_chain.append_inv [OF _ step] vault_chain.append_chain [OF _ step]
        sharing_frame(1,2) [of db' db] AppendRecord step
      by (simp add: sharing_ok_def commit_or_keep_def)
  qed (use ok AppendRecord in \<open>simp add: commit_or_keep_def\<close>)
next
  case (CreateEnvelope e)
  then show ?thesis
    using ok sharing_frame [of "db\<lparr>key_envelopes := key_envelopes db @ [e]\<rparr>" db]
    by (simp add: createEnvelope_def sharing_ok_def)
qed

lemma sharing_ok_run: "sharing_ok db \<Longrightarrow> sharing_ok (fold sharing_step qs db)"
  by (induction qs arbitrary: db) (auto intro: sharing_ok_step)

end
