(* ===== verification/Samples.thy ===== *)
theory Samples
  imports SyncSystem SharingChain
begin

text \<open>
  Concrete inputs on which the theorems of the development are applied: a client configuration
  with the tagged cipher and a fixed key, a local store with pending events of one goal, and a
  server that already holds an event of another device.
\<close>

definition sample_cfg :: sync_config where
  "sample_cfg = \<lparr>cfg_env = node_env, cfg_crypto = tagged_crypto, cfg_resolveKey = (\<lambda>_. Inr [7]),
     cfg_has_rewriter = True, cfg_storeId = ''store'', cfg_pullLimit = 200, cfg_pullWaitMs = 0,
     cfg_pullIntervalMs = 1000, cfg_pushIntervalMs = 2000, cfg_pushFallbackIntervalMs = 60000,
     cfg_pushBatchSize = 100, cfg_maxPushRetries = 2\<rparr>"

text \<open>A pending row of goal \<open>g1\<close> at a version, its ciphertext made with the tagged cipher.\<close>

definition sample_row :: "string \<Rightarrow> int \<Rightarrow> int \<Rightarrow> event_row" where
  "sample_row i v c = \<lparr>row_id = i, row_aggregate_type = ''goal'', row_aggregate_id = ''g1'',
     row_event_type = ''GoalCreated'', row_payload_encrypted = [7] @ buildEventAad ''goal'' ''g1'' v @ [1, 2],
     row_version = v, row_occurred_at = 5, row_actor_id = Some ''me'', row_causation_id = None,
     row_correlation_id = None, row_scope_id = None, row_resource_id = None, row_resource_key_id = None,
     row_grant_id = None, row_scope_state_ref = None, row_author_device_id = None, row_sig_suite = None,
     row_signature = None, row_commit_sequence = c\<rparr>"

definition sample_db :: local_db where
  "sample_db = \<lparr>db_events = [sample_row ''e1'' 1 1, sample_row ''e2'' 2 2], db_sqlite_sequence = 2,
     db_sync_event_map = [], db_sync_meta = Map.empty, db_snapshots = []\<rparr>"

lemma sample_db_wf: "db_wf sample_db"
  by (simp add: db_wf_def sample_db_def sample_row_def row_key_def)

lemma sample_cfg_simps [simp]:
  "cfg_crypto sample_cfg = tagged_crypto" "cfg_env sample_cfg = node_env" "cfg_storeId sample_cfg = ''store''"
  "cfg_pullLimit sample_cfg = 200" "cfg_maxPushRetries sample_cfg = 2" "cfg_pushBatchSize sample_cfg = 100"
  "cfg_resolveKey sample_cfg a = Inr [7]" "cfg_has_rewriter sample_cfg"
  by (simp_all add: sample_cfg_def)

lemma env_ok_node [simp]: "env_ok node_env"
  by (simp add: env_ok_def node_env_def)

lemma sample_client_ok: "client_ok sample_cfg [] sample_db"
  using sample_db_wf
  by (simp add: client_ok_def map_ok_def applied_upto_def readLastPulledGlobalSeq_def sample_db_def)

lemma sample_access: "may_access sample_cfg ''me'' empty_sync_db"
  by (simp add: may_access_def blank_def empty_sync_db_def trim_def js_space_def)

lemma sample_log [simp]: "log_of o' s empty_sync_db = []"
  by (simp add: log_of_def stream_of_def empty_sync_db_def)

lemma sample_pending: "pending_rows sample_db = db_events sample_db"
  by (simp add: pending_rows_def is_synced_def sample_db_def)

end
