(* ===== verification/SyncProperties.thy ===== *)
theory SyncProperties
  imports Samples
begin

text \<open>
  The properties of the sync subsystem: the server's log, the client's pull and push, the
  rewrite of pending events and the record codec, each with a concrete instance.
\<close>

section \<open>The server's log\<close>

text \<open>
  C1: after any sequence of push, pull and reset requests by any identities, every stream of
  the server carries distinct event ids numbered 1, 2, 3, ... without gaps, and the head of a
  store is the length of its owner's stream; a store's stream belongs to its owner only.
\<close>

theorem server_log_dense:
  "map se_global_seq (stream_of o' s (fold (sync_step repos) qs empty_sync_db))
     = positions (length (stream_of o' s (fold (sync_step repos) qs empty_sync_db))) \<and>
   distinct (log_of o' s (fold (sync_step repos) qs empty_sync_db)) \<and>
   getHeadSequence o' s (fold (sync_step repos) qs empty_sync_db)
     = Inr (int (length (stream_of o' s (fold (sync_step repos) qs empty_sync_db))))"
proof -
  have wf: "server_wf (fold (sync_step repos) qs empty_sync_db)" by (rule server_wf_run [OF server_wf_empty])
  show ?thesis
    using server_wfD(1) [OF wf, of o' s] head_is_length [OF wf, of o' s] distinct_log [OF wf]
    by (simp add: stream_wf_def)
qed

text \<open>
  C2: the batch append implements the abstract log. On a well-formed database with the expected
  head it succeeds, adds exactly the unknown ids in the order of the batch, reports for every
  event of the batch its position in the log, and sets the head to the log's length.
\<close>

theorem appendBatch_implements_log:
  assumes "server_wf db" and "owned_store o' s db = Some r" and "events \<noteq> []"
  shows "\<exists>db'. appendBatch o' s (st_head r) events db =
       Inr ((int (length (log_adds (log_of o' s db) (map in_eventId events))),
             map (\<lambda>i. (i, the (log_seq (log_adds (log_of o' s db) (map in_eventId events)) i))) (map in_eventId events)),
            db')
     \<and> log_of o' s db' = log_adds (log_of o' s db) (map in_eventId events) \<and> server_wf db'"
  using appendBatch_refines [OF assms(1,2) refl assms(3)] appendBatch_wf [OF assms(1)] by blast

definition sample_event :: "string \<Rightarrow> incoming_event" where
  "sample_event i = \<lparr>in_eventId = i, in_recordJson = ''{}'', in_scopeId = None, in_resourceId = None,
     in_resourceKeyId = None, in_grantId = None, in_scopeStateRef = None, in_authorDeviceId = None\<rparr>"

definition sample_server :: sync_db where
  "sample_server = \<lparr>sync_events = [], sync_stores = [''store'' \<mapsto> \<lparr>st_owner = ''me'', st_head = 0\<rparr>]\<rparr>"

lemma sample_server_wf: "server_wf sample_server"
  by (rule server_wfI) (auto simp: sample_server_def stream_of_def split: if_splits)

lemma sample_server_store: "owned_store ''me'' ''store'' sample_server = Some \<lparr>st_owner = ''me'', st_head = 0\<rparr>"
  by (simp add: owned_store_def sample_server_def)

lemma sample_server_log: "log_of ''me'' ''store'' sample_server = []"
  by (simp add: log_of_def stream_of_def sample_server_def)

theorem appendBatch_implements_log_witness:
  "\<exists>db'. appendBatch ''me'' ''store'' 0 [sample_event ''a'', sample_event ''b'', sample_event ''a''] sample_server
     = Inr ((2, [(''a'', 1), (''b'', 2), (''a'', 1)]), db') \<and> log_of ''me'' ''store'' db' = [''a'', ''b''] \<and> server_wf db'"
  using appendBatch_implements_log [OF sample_server_wf sample_server_store,
      of "[sample_event ''a'', sample_event ''b'', sample_event ''a'']"]
  by (simp add: sample_server_log sample_event_def log_add_def log_seq_def)

text \<open>
  C3: pushing is idempotent. Sending a batch again with the new head changes nothing on the
  server and gets the same assignments.
\<close>

theorem push_idempotent:
  assumes "server_wf db" and "pushEvents None o' s h events db = (Inr (PushOk h' assigned), db')"
    and "events \<noteq> []"
  shows "fst (pushEvents None o' s h' events db') = Inr (PushOk h' assigned) \<and>
     sync_events (snd (pushEvents None o' s h' events db')) = sync_events db'"
proof -
  obtain db1 where own: "ensureStoreOwner s o' db = Inr db1" and o': "ensureCanPush o' = Inr ()"
    and app: "appendBatch o' s h events db1 = Inr ((h', assigned), db')"
    using assms(2,3) by (auto simp: pushEvents_def push_body_def validateSharingDependencies_def Let_def
        split: sum.splits sync_error.splits)
  note own' = ensureStoreOwner_Inr [OF assms(1) own]
  obtain r where r: "owned_store o' s db1 = Some r" "st_head r = h"
    using app assms(3) by (auto simp: appendBatch_def bind_result_eq_Inr split: option.splits if_splits)
  define L where "L = log_adds (log_of o' s db1) (map in_eventId events)"
  have eff: "h' = int (length L)" "assigned = map (\<lambda>i. (i, the (log_seq L i))) (map in_eventId events)"
    "log_of o' s db' = L" "sync_stores db' = (sync_stores db1)(s \<mapsto> r\<lparr>st_head := int (length L)\<rparr>)"
    using appendBatch_refines [OF own'(1) r assms(3)] app unfolding L_def by auto
  have wf': "server_wf db'" by (rule appendBatch_wf [OF own'(1) app])
  have st: "owned_store o' s db' = Some (r\<lparr>st_head := h'\<rparr>)"
    using r(1) eff(1,4) by (auto simp: owned_store_def split: option.splits if_splits)
  have own2: "ensureStoreOwner s o' db' = Inr db'"
    using st by (auto simp: ensureStoreOwner_def owned_store_def Let_def split: option.splits if_splits)
  have "set (map in_eventId events) \<subseteq> set L" unfolding L_def by (simp add: log_fold_mem)
  then have same: "log_adds L (map in_eventId events) = L" by (rule log_fold_known)
  obtain db'' where app2: "appendBatch o' s h' events db' = Inr ((h', assigned), db'')"
    "log_of o' s db'' = L" "\<exists>es. sync_events db'' = sync_events db' @ es \<and> (\<forall>x \<in> set es. in_stream o' s x)"
    using appendBatch_refines [OF wf' st _ assms(3), of h'] eff same by auto
  obtain es where es: "sync_events db'' = sync_events db' @ es" "\<forall>x \<in> set es. in_stream o' s x"
    using app2(3) by blast
  then have "log_of o' s db'' = log_of o' s db' @ map se_event_id es" by (simp add: log_of_def stream_of_def)
  then have "es = []" using app2(2) eff(3) by simp
  then show ?thesis
    using o' own2 app2(1) es(1) assms(3)
    by (simp add: pushEvents_def push_body_def validateSharingDependencies_def)
qed

theorem push_idempotent_witness:
  "\<exists>db'. pushEvents None ''me'' ''store'' 0 [sample_event ''a''] sample_server
      = (Inr (PushOk 1 [(''a'', 1)]), db') \<and>
    fst (pushEvents None ''me'' ''store'' 1 [sample_event ''a''] db') = Inr (PushOk 1 [(''a'', 1)]) \<and>
    sync_events (snd (pushEvents None ''me'' ''store'' 1 [sample_event ''a''] db')) = sync_events db'"
proof -
  obtain db' where "pushEvents None ''me'' ''store'' 0 [sample_event ''a''] sample_server
      = (Inr (PushOk 1 [(''a'', 1)]), db')"
    by (simp add: pushEvents_def ensureCanPush_def ensureStoreOwner_def push_body_def appendBatch_def
        validateSharingDependencies_def sample_server_def owned_store_def append_one_def existing_map_def
        insert_sync_event_def sample_event_def GlobalSequenceNumber_from_def)
  then show ?thesis using push_idempotent [OF sample_server_wf, of "''me''" "''store''" 0] by auto
qed

text \<open>
  A push computed against another head than the server's writes no event and answers with
  the conflict: behind when the client is ahead of the server, otherwise ahead with the events
  after the client's head, at most 1000 of them.
\<close>

theorem push_conflict:
  assumes "server_wf db" and "owned_store o' s db = Some r" and "o' \<noteq> []" and "events \<noteq> []"
    and "0 \<le> h" and "h \<noteq> st_head r"
  shows "pushEvents None o' s h events db =
     (Inr (if st_head r < h then PushConflict (st_head r) ServerBehind None
           else PushConflict (st_head r) ServerAhead (Some (take 1000 (drop (nat h) (stream_of o' s db))))), db)"
proof -
  have own: "ensureStoreOwner s o' db = Inr db"
    using assms(2) by (auto simp: ensureStoreOwner_def owned_store_def Let_def split: option.splits if_splits)
  have len: "st_head r = int (length (stream_of o' s db))"
    using assms(2) server_wfD(2) [OF assms(1)] by (auto simp: owned_store_def split: option.splits if_splits)
  then have app: "appendBatch o' s h events db = Inl (HeadMismatch (st_head r) h)"
    using assms by (simp add: appendBatch_def GSN_nonneg)
  show ?thesis
  proof (cases "st_head r < h")
    case True
    then show ?thesis using assms(3,4) own app
      by (simp add: pushEvents_def ensureCanPush_def push_body_def validateSharingDependencies_def)
  next
    case False
    then have "take 1000 (drop (nat h) (stream_of o' s db)) \<noteq> []" using len assms(5,6) by simp
    then show ?thesis
      using False assms(3,4) own app loadSince_eq [OF assms(1,5), of o' s 1000]
      by (simp add: pushEvents_def ensureCanPush_def push_body_def validateSharingDependencies_def Let_def del: take_eq_Nil)
  qed
qed

theorem push_conflict_witness:
  "pushEvents None ''me'' ''store'' 3 [sample_event ''a''] sample_server
     = (Inr (PushConflict 0 ServerBehind None), sample_server)"
  using push_conflict [OF sample_server_wf sample_server_store, of "[sample_event ''a'']" 3] by simp

section \<open>The client against the server\<close>

text \<open>
  C4: a sync round converges. When the pull of a round has succeeded and the pending events fit
  one batch, the round ends with nothing pending, the cursor at the server's head, every event
  of the server's log in the local store, every local event in the log, and no local row lost
  or changed beyond the version and ciphertext of a pending one.
\<close>

theorem sync_round_converges:
  assumes aead: "aead_ok (cfg_crypto cfg)" and env: "env_ok (cfg_env cfg)"
    and wf: "server_wf w" and acc: "may_access cfg identity w"
    and ok: "client_ok cfg (server_log cfg identity w) (eng_db g)"
    and cfg: "0 < cfg_pullLimit cfg" "0 < cfg_maxPushRetries cfg"
    and pull: "pullOnceInternal (server_transport None identity) cfg jitter now 0 fuel
                 (ensureSyncMetaRow cfg g, w) = Some (g1, w1)" "eng_status g1 = Idle (Some now) None"
    and fits: "length (pending_rows (eng_db g1)) \<le> cfg_pushBatchSize cfg"
  shows "\<exists>g' w'. syncOnce (server_transport None identity) cfg jitter now fuel (g, w) = Some (g', w') \<and>
     \<not> hasPendingEvents (eng_db g') \<and>
     readLastPulledGlobalSeq cfg (eng_db g') = int (length (server_log cfg identity w')) \<and>
     row_id ` set (db_events (eng_db g')) = set (server_log cfg identity w') \<and>
     db_kept cfg (eng_db g) (eng_db g')"
proof -
  have ok0: "client_ok cfg (server_log cfg identity w) (eng_db (ensureSyncMetaRow cfg g))"
    using ok by (simp add: ensureSyncMetaRow_ok)
  note p = pullOnce_ok [OF aead wf ok0 pull(1)]
  let ?g1 = "setSyncing DirPush g1"
  have ok1: "client_ok cfg (server_log cfg identity w1) (eng_db ?g1)" "head_known cfg ?g1"
    "readLastPulledGlobalSeq cfg (eng_db ?g1) = int (length (server_log cfg identity w1))"
    using p cfg(1) pull(2) by (simp_all add: head_known_def)
  have srv: "server_wf w1" "may_access cfg identity w1" using p acc by simp_all
  obtain n where n: "cfg_maxPushRetries cfg = Suc n" using cfg(2) by (cases "cfg_maxPushRetries cfg") auto
  obtain g' w' where push:
    "push_attempts (server_transport None identity) cfg jitter now fuel (Suc n) (?g1, w1) = Some (Inr (), g', w')"
    "client_ok cfg (server_log cfg identity w') (eng_db g')"
    "readLastPulledGlobalSeq cfg (eng_db g') = int (length (server_log cfg identity w'))"
    "\<forall>r \<in> set (loadPendingEvents (cfg_pushBatchSize cfg) (eng_db ?g1)). is_synced (eng_db g') (row_id r)"
    "db_events (eng_db g') = db_events (eng_db ?g1)" "db_kept cfg (eng_db ?g1) (eng_db g')"
    using push_current [OF env srv ok1, of jitter now fuel n] by blast
  have batch: "set (loadPendingEvents (cfg_pushBatchSize cfg) (eng_db g1)) = set (pending_rows (eng_db g1))"
    using fits by (simp add: loadPendingEvents_def)
  have synced: "is_synced (eng_db g') (row_id r)" if "r \<in> set (db_events (eng_db g'))" for r
  proof (cases "is_synced (eng_db g1) (row_id r)")
    case True
    then show ?thesis using push(6) db_kept_synced by simp
  next
    case False
    then show ?thesis using that push(4,5) batch by (simp add: pending_rows_def)
  qed
  have "row_id r \<in> set (server_log cfg identity w')" if r: "r \<in> set (db_events (eng_db g'))" for r
  proof -
    obtain m where "m \<in> set (db_sync_event_map (eng_db g'))" "map_event_id m = row_id r"
      using synced [OF r] by (auto simp: is_synced_def)
    then have "log_seq (server_log cfg identity w') (row_id r) = Some (map_global_seq m)"
      using push(2) unfolding client_ok_def map_ok_def by metis
    then show ?thesis using log_seq_None by (metis option.distinct(1))
  qed
  moreover have "has_event (eng_db g') i" if i: "i \<in> set (server_log cfg identity w')" for i
  proof -
    obtain k where "k < length (server_log cfg identity w')" "server_log cfg identity w' ! k = i"
      using i by (metis in_set_conv_nth)
    then show ?thesis using push(2,3) by (auto simp: client_ok_def applied_upto_def)
  qed
  ultimately have ids: "row_id ` set (db_events (eng_db g')) = set (server_log cfg identity w')"
    by (auto simp: has_event_def)
  have "syncOnce (server_transport None identity) cfg jitter now fuel (g, w) = Some (g', w')"
    using pull(1) push(1) n by (simp add: syncOnce_def pushOnce_def)
  moreover have "db_kept cfg (eng_db g) (eng_db g')"
    using p push(6) db_kept_trans by (auto simp: ensureSyncMetaRow_ok)
  moreover have "\<not> hasPendingEvents (eng_db g')"
    using synced by (simp add: hasPendingEvents_def pending_rows_def filter_empty_conv)
  ultimately show ?thesis using ids push(3) by blast
qed

lemma sample_pull:
  "pullOnceInternal (server_transport None ''me'') sample_cfg jitter now 0 1
     (ensureSyncMetaRow sample_cfg (new_engine sample_db), empty_sync_db)
   = Some (pull_succeeded now True False
        ((setSyncing DirPull (ensureSyncMetaRow sample_cfg (new_engine sample_db)))\<lparr>eng_lastKnownHead := Some 0\<rparr>),
      \<lparr>sync_events = [], sync_stores = [''store'' \<mapsto> \<lparr>st_owner = ''me'', st_head = 0\<rparr>]\<rparr>)"
  by (simp add: pullOnceInternal_def server_transport_def controller_pull_def SyncOwnerId_from_def SyncStoreId_from_def
      blank_def trim_def js_space_def pullEvents_def ensureCanPull_def ensureStoreOwner_def empty_sync_db_def
      getHeadSequence_def owned_store_def GlobalSequenceNumber_from_def loadSince_def pull_response_of_def Let_def
      setSyncing_def ensureSyncMetaRow_def new_engine_def readLastPulledGlobalSeq_def hasPendingEvents_def
      pending_rows_def sample_db_def is_synced_def)

theorem sync_round_converges_witness:
  "\<exists>g' w'. syncOnce (server_transport None ''me'') sample_cfg (\<lambda>b. b) 9 1 (new_engine sample_db, empty_sync_db)
       = Some (g', w') \<and> \<not> hasPendingEvents (eng_db g') \<and>
     row_id ` set (db_events (eng_db g')) = set (log_of ''me'' ''store'' w')"
proof -
  have ok: "client_ok sample_cfg (server_log sample_cfg ''me'' empty_sync_db) (eng_db (new_engine sample_db))"
    using sample_client_ok by (simp add: new_engine_def)
  have "length (pending_rows d) \<le> length (db_events d)" for d by (simp add: pending_rows_def)
  then have fits: "length (pending_rows (eng_db (ensureSyncMetaRow sample_cfg (new_engine sample_db)))) \<le> 100"
    by (rule order_trans) (simp add: ensureSyncMetaRow_ok new_engine_def sample_db_def)
  have aead: "aead_ok (cfg_crypto sample_cfg)" by (simp add: aead_ok_tagged)
  show ?thesis
    using sync_round_converges [OF aead _ server_wf_empty sample_access ok _ _ sample_pull [of "\<lambda>b. b" 9]] fits
    by (auto simp: pull_status(1))
qed

text \<open>
  C5: a pull never moves the cursor past an event that is not in the local store, however it
  ends: on success, on a network or server error, or when an event cannot be applied. Local
  rows survive, and after a successful pull the cursor is the server's head.
\<close>

theorem pull_safe:
  assumes "aead_ok (cfg_crypto cfg)" and "server_wf w"
    and "client_ok cfg (server_log cfg identity w) (eng_db g)"
    and "pullOnceInternal (server_transport repos identity) cfg jitter now wait fuel (g, w) = Some (g', w')"
  shows "applied_upto (server_log cfg identity w') (readLastPulledGlobalSeq cfg (eng_db g')) (eng_db g') \<and>
     map_ok (server_log cfg identity w') (eng_db g') \<and> db_wf (eng_db g') \<and>
     db_kept cfg (eng_db g) (eng_db g') \<and>
     readLastPulledGlobalSeq cfg (eng_db g) \<le> readLastPulledGlobalSeq cfg (eng_db g') \<and>
     (0 < cfg_pullLimit cfg \<and> eng_status g' = Idle (Some now) None \<longrightarrow>
        readLastPulledGlobalSeq cfg (eng_db g') = int (length (server_log cfg identity w')))"
  using pullOnce_ok [OF assms] by (simp add: client_ok_def)

theorem pull_safe_witness:
  "\<exists>g' w'. pullOnceInternal (server_transport None ''me'') sample_cfg (\<lambda>b. b) 9 0 1
       (ensureSyncMetaRow sample_cfg (new_engine sample_db), empty_sync_db) = Some (g', w') \<and>
     db_wf (eng_db g') \<and> db_kept sample_cfg sample_db (eng_db g')"
proof -
  have ok: "client_ok sample_cfg (server_log sample_cfg ''me'' empty_sync_db)
      (eng_db (ensureSyncMetaRow sample_cfg (new_engine sample_db)))"
    using sample_client_ok by (simp add: new_engine_def ensureSyncMetaRow_ok)
  have ev: "eng_db (new_engine sample_db) = sample_db" by (simp add: new_engine_def)
  have "aead_ok (cfg_crypto sample_cfg)" by (simp add: aead_ok_tagged)
  from pull_safe [OF this server_wf_empty ok sample_pull [of "\<lambda>b. b" 9]] sample_pull [of "\<lambda>b. b" 9]
  show ?thesis unfolding ensureSyncMetaRow_ok ev by blast
qed

text \<open>
  C6: a pull against the server ends. The pages it asks for are at most one per event of the server's
  log beyond the client's cursor, and one more.
\<close>

theorem pull_ends:
  assumes "aead_ok (cfg_crypto cfg)" and "server_wf w" and "may_access cfg identity w"
    and "client_ok cfg (server_log cfg identity w) (eng_db g)"
    and "length (server_log cfg identity w) - nat (readLastPulledGlobalSeq cfg (eng_db g)) < fuel"
  shows "\<exists>g' w'. pullOnceInternal (server_transport repos identity) cfg jitter now wait fuel (g, w) = Some (g', w')"
  by (rule pullOnce_terminates [OF assms])

text \<open>
  A server that holds the client's two events, which it has not been told of, asked for in pages of
  one event: the pull takes both pages.
\<close>

definition paging_cfg :: sync_config where
  "paging_cfg = sample_cfg\<lparr>cfg_pullLimit := 1\<rparr>"

definition paging_server :: sync_db where
  "paging_server =
     \<lparr>sync_events = map (\<lambda>(n, i). \<lparr>se_owner = ''me'', se_store = ''store'', se_global_seq = n, se_event_id = i,
        se_record_json = ''?'', se_scope_id = None, se_resource_id = None, se_resource_key_id = None,
        se_grant_id = None, se_scope_state_ref = None, se_author_device_id = None\<rparr>) [(1, ''e1''), (2, ''e2'')],
      sync_stores = [''store'' \<mapsto> \<lparr>st_owner = ''me'', st_head = 2\<rparr>]\<rparr>"

lemma paging_server_wf: "server_wf paging_server"
  by (rule server_wfI) (auto simp: paging_server_def stream_of_def in_stream_def stream_wf_def numeral_2_eq_2 split: if_splits)

lemma paging_log: "log_of ''me'' ''store'' paging_server = [''e1'', ''e2'']"
  by (simp add: log_of_def stream_of_def in_stream_def paging_server_def)

theorem pull_ends_witness:
  "\<exists>g' w'. pullOnceInternal (server_transport None ''me'') paging_cfg (\<lambda>b. b) 9 0 3
       (new_engine sample_db, paging_server) = Some (g', w')"
proof -
  have "may_access paging_cfg ''me'' paging_server"
    by (simp add: may_access_def blank_def trim_def js_space_def paging_cfg_def paging_server_def)
  moreover have "client_ok paging_cfg (log_of ''me'' ''store'' paging_server) (eng_db (new_engine sample_db))"
    using sample_db_wf
    by (simp add: client_ok_def map_ok_def applied_upto_def readLastPulledGlobalSeq_def sample_db_def paging_cfg_def paging_log new_engine_def)
  ultimately show ?thesis
    using pull_ends [OF _ paging_server_wf, of paging_cfg "''me''" "new_engine sample_db" 3] aead_ok_tagged
    by (simp add: paging_cfg_def paging_log)
qed

text \<open>
  C7: a push always ends, and it leaves a consistent client consistent, as long as the client's
  idea of the head is its cursor and it is at most 1000 events behind the server. The server's
  log is only extended, and the local rows survive.
\<close>

theorem push_safe:
  assumes "aead_ok (cfg_crypto cfg)" and "env_ok (cfg_env cfg)" and "server_wf w" and "may_access cfg identity w"
    and "client_ok cfg (server_log cfg identity w) (eng_db g)" and "head_known cfg g"
    and "int (length (server_log cfg identity w)) \<le> readLastPulledGlobalSeq cfg (eng_db g) + 1000"
  shows "\<exists>g' w'. pushOnce (server_transport None identity) cfg jitter now fuel (g, w) = Some (g', w') \<and>
     client_ok cfg (server_log cfg identity w') (eng_db g') \<and> head_known cfg g' \<and>
     db_kept cfg (eng_db g) (eng_db g') \<and>
     (\<exists>xs. server_log cfg identity w' = server_log cfg identity w @ xs)"
proof -
  let ?g = "setSyncing DirPush g"
  have "client_ok cfg (server_log cfg identity w) (eng_db ?g)" "head_known cfg ?g"
    "int (length (server_log cfg identity w)) \<le> readLastPulledGlobalSeq cfg (eng_db ?g) + 1000"
    using assms(5-7) by (simp_all add: head_known_def)
  from push_attempts_ok [OF assms(1-4) this, of jitter now fuel "cfg_maxPushRetries cfg"]
  obtain res g1 w1 where
    "push_attempts (server_transport None identity) cfg jitter now fuel (cfg_maxPushRetries cfg) (?g, w) = Some (res, g1, w1)"
    "\<exists>xs. server_log cfg identity w1 = server_log cfg identity w @ xs"
    "client_ok cfg (server_log cfg identity w1) (eng_db g1)" "head_known cfg g1" "db_kept cfg (eng_db g) (eng_db g1)"
    by auto
  then show ?thesis by (cases res) (simp_all add: pushOnce_def head_known_def)
qed

theorem push_safe_witness:
  "\<exists>g' w'. pushOnce (server_transport None ''me'') sample_cfg (\<lambda>b. b) 9 1 (new_engine sample_db, empty_sync_db)
       = Some (g', w') \<and> db_kept sample_cfg sample_db (eng_db g')"
  using push_safe [OF _ _ server_wf_empty sample_access, of "new_engine sample_db"] sample_client_ok
  by (fastforce simp: aead_ok_tagged new_engine_def head_known_def readLastPulledGlobalSeq_def sample_db_def)

end
