(* ===== verification/SyncLocalProperties.thy ===== *)
theory SyncLocalProperties
  imports SyncProperties
begin

text \<open>
  Properties of the parts of the sync client: the rewrite of pending versions, the application
  of remote events, the record codec and the back-off, and two behaviours in which the cursor
  passes events that are not in the local store.
\<close>

section \<open>Rewriting pending versions\<close>

text \<open>
  C8: a successful rewrite shifts exactly the pending rows of the aggregate from the given
  version on, each by one version and with the same plaintext under the new version's
  additional data; every other row and the sync map are untouched, the aggregate's snapshots
  are gone, the schema's constraints hold, and the version the rewrite was asked for is free
  if a pending row held it.
\<close>

theorem rewrite_preserves:
  assumes "aead_ok c" and "db_wf db" and "rewritePendingVersions c rk t a v (db, n) = Inr ((db', n'), res)"
  shows "list_all2 (\<lambda>r r'. if in_shift db t a v r
           then r' = r\<lparr>row_version := row_version r + 1, row_payload_encrypted := row_payload_encrypted r'\<rparr> \<and>
                row_plaintext c rk r' = row_plaintext c rk r
           else r' = r) (db_events db) (db_events db') \<and>
     db_sync_event_map db' = db_sync_event_map db \<and> db_wf db' \<and>
     (\<forall>s \<in> set (db_snapshots db'). (snap_aggregate_type s, snap_aggregate_id s) \<noteq> (t, a)) \<and>
     (\<forall>r. occupying_row db t a v = Some r \<and> \<not> is_synced db (row_id r) \<longrightarrow> occupying_row db' t a v = None)"
proof -
  have "list_all2 (\<lambda>r r'. if in_shift db t a v r
           then r' = r\<lparr>row_version := row_version r + 1, row_payload_encrypted := row_payload_encrypted r'\<rparr> \<and>
                row_plaintext c rk r' = row_plaintext c rk r
           else r' = r) (db_events db) (db_events db')"
    using rewrite_effect(1) [OF assms(2,3)]
    by (rule list.rel_mono_strong)
      (use shifted_row_plaintext [OF assms(1)] in \<open>auto simp: shifted_row_def split: if_splits\<close>)
  then show ?thesis
    using rewrite_effect(2,4,5) [OF assms(2,3)] rewrite_frees_version [OF assms(2,3)] by auto
qed

text \<open>
  A rewrite succeeds when the key of the aggregate resolves, the rows to shift decrypt, the
  cipher accepts every plaintext, and no synced row sits right above a row to shift.
\<close>

theorem rewrite_succeeds:
  assumes "db_wf db" and "rk a = Inr k"
    and "\<And>x y. x \<in> set (db_events db) \<Longrightarrow> y \<in> set (db_events db) \<Longrightarrow> in_shift db t a v x \<Longrightarrow>
       row_key y = (t, a, row_version x + 1) \<Longrightarrow> \<not> is_synced db (row_id y)"
    and "\<And>x. x \<in> set (db_events db) \<Longrightarrow> in_shift db t a v x \<Longrightarrow>
       \<exists>p. decrypt c (row_payload_encrypted x) k (buildEventAad t a (row_version x)) = Inr p"
    and "\<And>n p k d. \<exists>y. encrypt c n p k d = Inr y"
  shows "\<exists>db' n' res. rewritePendingVersions c rk t a v (db, n) = Inr ((db', n'), res)"
proof -
  obtain st res where "rewritePendingVersions c rk t a v (db, n) = Inr (st, res)"
    using rewrite_total [of db t a v rk k c n] assms by blast
  then show ?thesis by (cases st) auto
qed

lemma sample_rows:
  "x \<in> set (db_events sample_db) \<Longrightarrow>
     \<exists>p. decrypt tagged_crypto (row_payload_encrypted x) [7] (buildEventAad ''goal'' ''g1'' (row_version x)) = Inr p"
  "\<not> is_synced sample_db i"
  by (auto simp: sample_db_def is_synced_def tagged_crypto_def sample_row_def)

lemma tagged_total: "\<exists>y. encrypt tagged_crypto n p k d = Inr y"
  by (simp add: tagged_crypto_def)

theorem rewrite_succeeds_witness:
  "\<exists>db' n' res. rewritePendingVersions tagged_crypto (\<lambda>_. Inr [7]) ''goal'' ''g1'' 1 (sample_db, 0)
     = Inr ((db', n'), res)"
  using rewrite_succeeds [of sample_db "\<lambda>_. Inr [7]" "''g1''" "[7]" "''goal''" 1 tagged_crypto 0]
    sample_db_wf sample_rows tagged_total by simp

theorem rewrite_preserves_witness:
  "\<exists>db' n' res. rewritePendingVersions tagged_crypto (\<lambda>_. Inr [7]) ''goal'' ''g1'' 1 (sample_db, 0)
     = Inr ((db', n'), res) \<and> db_wf db' \<and> occupying_row db' ''goal'' ''g1'' 1 = None"
proof -
  obtain st res where ok: "rewritePendingVersions tagged_crypto (\<lambda>_. Inr [7]) ''goal'' ''g1'' 1 (sample_db, 0) = Inr (st, res)"
    using rewrite_total [of sample_db "''goal''" "''g1''" 1 "\<lambda>_. Inr [7]" "[7]" tagged_crypto 0]
      sample_db_wf sample_rows tagged_total by auto
  obtain db' n' where st: "st = (db', n')" by (cases st)
  have "occupying_row sample_db ''goal'' ''g1'' 1 = Some (sample_row ''e1'' 1 1)"
    by (simp add: occupying_row_def sample_db_def sample_row_def row_key_def)
  then show ?thesis
    using rewrite_preserves [OF aead_ok_tagged sample_db_wf ok [unfolded st]] ok st sample_rows(2) by auto
qed

section \<open>Applying remote events\<close>

text \<open>
  Making room for a remote event takes at most one rewrite, so the loop that allows 128
  attempts never ends with its error of an unresolved collision.
\<close>

theorem collision_resolved:
  assumes "db_wf (fst st)"
  shows "fst (resolve_collision cfg maxRewriteAttempts t a v st) \<noteq> Inr False \<and>
     (fst (resolve_collision cfg maxRewriteAttempts t a v st) = Inr True \<longrightarrow>
        occupying_row (fst (snd (resolve_collision cfg maxRewriteAttempts t a v st))) t a v = None)"
proof -
  have n: "maxRewriteAttempts = Suc (Suc 126)" by (simp add: maxRewriteAttempts_def)
  have free: "occupying_row (fst st') t a v = None" if "resolve_collision cfg k t a v st = (Inr True, st')" for k st st'
    using that
  proof (induction k arbitrary: st)
    case (Suc k)
    then show ?case by (auto split: option.splits if_splits sum.splits)
  qed simp
  obtain res st' where run: "resolve_collision cfg maxRewriteAttempts t a v st = (res, st')" by (metis prod.exhaust)
  have "res \<noteq> Inr False"
    using resolve_collision_not_False [OF assms, of cfg 126 t a v False st'] run unfolding n by blast
  moreover have "res = Inr True \<Longrightarrow> occupying_row (fst st') t a v = None" using free run by blast
  ultimately show ?thesis using run by simp
qed

theorem collision_resolved_witness:
  "fst (resolve_collision sample_cfg maxRewriteAttempts ''goal'' ''g1'' 1 (sample_db, 0)) \<noteq> Inr False"
  using collision_resolved [of "(sample_db, 0)"] sample_db_wf by simp

text \<open>
  C9: applying remote events, whether it succeeds or fails half way, keeps every local row in
  its place: a synced row is unchanged, a pending row keeps all but its version, which only
  grows, and its ciphertext, and its plaintext is the same. The sync map only grows and the
  constraints of the schema hold.
\<close>

theorem apply_keeps_local_rows:
  assumes "aead_ok (cfg_crypto cfg)" and "db_wf (fst st)" and "applyRemoteEvents cfg now events st = (res, st')"
  shows "(\<exists>olds news. db_events (fst st') = olds @ news \<and>
        list_all2 (\<lambda>r r'. if is_synced (fst st) (row_id r) then r' = r
             else r' = r\<lparr>row_version := row_version r', row_payload_encrypted := row_payload_encrypted r'\<rparr> \<and>
                  row_version r \<le> row_version r' \<and>
                  row_plaintext (cfg_crypto cfg) (cfg_resolveKey cfg) r' =
                  row_plaintext (cfg_crypto cfg) (cfg_resolveKey cfg) r) (db_events (fst st)) olds) \<and>
     (\<exists>ms. db_sync_event_map (fst st') = db_sync_event_map (fst st) @ ms) \<and> db_wf (fst st')"
  using applyRemoteEvents_keeps [OF assms] unfolding db_kept_def kept_def by simp

theorem apply_keeps_local_rows_witness:
  "db_wf (fst (snd (applyRemoteEvents sample_cfg 9 [(1, ''x'', ''{}'')] (sample_db, 0))))"
  using apply_keeps_local_rows [of sample_cfg "(sample_db, 0)" 9 "[(1, ''x'', ''{}'')]"] sample_db_wf aead_ok_tagged
  by (cases "applyRemoteEvents sample_cfg 9 [(1, ''x'', ''{}'')] (sample_db, 0)") simp

text \<open>
  C10: after a page of events has been applied successfully, every event of the page is in the
  local store and mapped to its global sequence number, provided the page and the local map
  come from one server log.
\<close>

theorem apply_is_complete:
  assumes "aead_ok (cfg_crypto cfg)" and "db_wf (fst st)" and "distinct L" and "map_ok L (fst st)"
    and "\<forall>ev \<in> set events. log_seq L (fst (snd ev)) = Some (fst ev)" and "distinct (map (fst \<circ> snd) events)"
    and "applyRemoteEvents cfg now events st = (Inr b, st')"
  shows "\<forall>(g, i, j) \<in> set events. has_event (fst st') i \<and> is_synced (fst st') i \<and>
     (\<forall>m \<in> set (db_sync_event_map (fst st')). map_event_id m = i \<longrightarrow> map_global_seq m = g)"
proof -
  have "map_ok L (fst st')" "\<forall>ev \<in> set events. has_event (fst st') (fst (snd ev)) \<and> is_synced (fst st') (fst (snd ev))"
    using applyRemoteEvents_complete [OF assms] by simp_all
  then show ?thesis using assms(5) unfolding map_ok_def by fastforce
qed

lemma apply_known_event:
  assumes "parseRecordJson j = Inr record" and "has_event (fst st) i"
  shows "applyRemoteEvents cfg now [(g, i, j)] st =
     (Inr (\<not> is_synced (fst st) i), (insert_map_if_event i g now (fst st), snd st))"
  using assms by (cases st) (simp add: applyRemoteEvents_def prepare_event_def exec_batch_def)

definition sample_json :: string where
  "sample_json = toRecordJson (\<lparr>sr_recordVersion = 1, sr_aggregateType = ''goal'', sr_aggregateId = ''g1'',
     sr_version = 1, sr_payloadCiphertext = ''AA'', sr_scopeId = None, sr_resourceId = None,
     sr_resourceKeyId = None, sr_grantId = None, sr_scopeStateRef = None, sr_authorDeviceId = None,
     sr_sigSuite = None, sr_signature = None\<rparr>)"

lemma sample_apply:
  "applyRemoteEvents cfg now [(1, ''e1'', sample_json)] (sample_db, 0) =
     (Inr True, (insert_map_if_event ''e1'' 1 now sample_db, 0))"
proof -
  obtain sr where "parseRecordJson sample_json = Inr sr"
    unfolding sample_json_def using parse_toRecordJson by (metis sync_record.select_convs(1))
  moreover have "has_event (fst (sample_db, 0 :: nat)) ''e1''"
    by (simp add: has_event_def sample_db_def sample_row_def)
  ultimately show ?thesis
    using apply_known_event [of sample_json sr "(sample_db, 0)" "''e1''" cfg now 1] sample_rows(2) by simp
qed

theorem apply_is_complete_witness:
  "applyRemoteEvents sample_cfg 9 [(1, ''e1'', sample_json)] (sample_db, 0) =
     (Inr True, (insert_map_if_event ''e1'' 1 9 sample_db, 0)) \<and>
   is_synced (insert_map_if_event ''e1'' 1 9 sample_db) ''e1''"
proof -
  have "map_ok [''e1''] sample_db" by (simp add: map_ok_def sample_db_def)
  then show ?thesis
    using apply_is_complete [of sample_cfg "(sample_db, 0)" "[''e1'']" "[(1, ''e1'', sample_json)]" 9 True
        "(insert_map_if_event ''e1'' 1 9 sample_db, 0)"] sample_apply sample_db_wf aead_ok_tagged
    by (simp add: log_seq_def)
qed

section \<open>The record codec\<close>

text \<open>
  C11: an event survives the wire. When the ciphertext of a row holds the envelope that belongs
  to the row, encoding the row as a sync record and materializing the text gives the row back,
  for senders and receivers in both environments; the receiver needs the Buffer class for rows that
  carry a scope reference or a signature.
\<close>

theorem record_roundtrip:
  assumes "env_ok env" and "env_ok env'" and "row_envelope_ok r e" and "rk (row_aggregate_id r) = Inr k"
    and "decrypt c (row_payload_encrypted r) k
           (buildEventAad (row_aggregate_type r) (row_aggregate_id r) (row_version r)) = Inr (encodeEventEnvelope e)"
    and "has_Buffer env' \<or> (row_scope_state_ref r = None \<and> row_signature r = None)"
    and "row_scope_state_ref r \<noteq> Some []" and "row_signature r \<noteq> Some []"
  shows "\<exists>record. toSyncRecord env r = Inr record \<and>
     materializeRemoteEvent env' c rk (row_id r) (toRecordJson record) = Inr (r\<lparr>row_commit_sequence := 0\<rparr>)"
  using materialize_toRecordJson [of env env' r e rk k c] assms by (simp add: bind_result_eq_Inr)

definition sample_envelope :: event_envelope where
  "sample_envelope = \<lparr>env_envelopeVersion = 1,
     env_meta = \<lparr>meta_eventId = ''e1'', meta_eventType = ''GoalCreated'', meta_occurredAt = 5,
       meta_actorId = Some ''me'', meta_causationId = None, meta_correlationId = None\<rparr>,
     env_payloadVersion = 1, env_data = JObj [(''title'', JStr ''run'')]\<rparr>"

definition sample_sealed :: event_row where
  "sample_sealed = (sample_row ''e1'' 1 1)\<lparr>row_payload_encrypted :=
     [7] @ buildEventAad ''goal'' ''g1'' 1 @ encodeEventEnvelope sample_envelope,
     row_signature := Some [1, 2, 3]\<rparr>"

theorem record_roundtrip_witness:
  "\<exists>record. toSyncRecord browser_env sample_sealed = Inr record \<and>
     materializeRemoteEvent node_env tagged_crypto (\<lambda>_. Inr [7]) ''e1'' (toRecordJson record)
       = Inr (sample_sealed\<lparr>row_commit_sequence := 0\<rparr>)"
  using record_roundtrip [of browser_env node_env sample_sealed sample_envelope "\<lambda>_. Inr [7]" "[7]" tagged_crypto]
  by (simp add: env_ok_def browser_env_def node_env_def row_envelope_ok_def envelope_ok_def sample_envelope_def
      sample_sealed_def sample_row_def tagged_crypto_def)

section \<open>Back-off\<close>

lemma backoff_range:
  "MIN_BACKOFF_MS \<le> nextBackoffMs jitter m MIN_BACKOFF_MS MAX_BACKOFF_MS \<and>
   nextBackoffMs jitter m MIN_BACKOFF_MS MAX_BACKOFF_MS \<le> MAX_BACKOFF_MS"
  by (auto simp: nextBackoffMs_def Let_def MIN_BACKOFF_MS_def MAX_BACKOFF_MS_def)

text \<open>
  C12: whatever the random factor, the loop of a pull or of a push that failed retryably sleeps
  between one and twenty seconds before the next attempt, also when a push has been requested, and
  an error that must not be retried stops the loop until a signal.
\<close>

theorem backoff_bounds:
  "(case toSyncEngineError e ServerCode ''Sync pull failed'' of (err, retryable) \<Rightarrow>
      if retryable then
        \<exists>d. MIN_BACKOFF_MS \<le> d \<and> d \<le> MAX_BACKOFF_MS \<and>
          pl_notBeforeMs (eng_pull (pull_failed jitter now e g)) = Some (now + d) \<and>
          waitForNextPull cfg now (pull_failed jitter now e g) = Sleep d
      else waitForNextPull cfg now (pull_failed jitter now e g) = AwaitSignal) \<and>
   (case toSyncEngineError e NetworkCode ''Sync push failed'' of (err, retryable) \<Rightarrow>
      if retryable then
        \<exists>d. MIN_BACKOFF_MS \<le> d \<and> d \<le> MAX_BACKOFF_MS \<and>
          ps_notBeforeMs (eng_push (push_failed jitter now e g)) = Some (now + d) \<and>
          ps_requested (eng_push (push_failed jitter now e g)) \<and>
          waitForNextPush cfg now (push_failed jitter now e g) = Sleep d
      else waitForNextPush cfg now (push_failed jitter now e g) = AwaitSignal)"
  (is "?pull \<and> ?push")
proof
  note b = backoff_range
  have "0 < MIN_BACKOFF_MS" by (simp add: MIN_BACKOFF_MS_def)
  then have pos: "0 < nextBackoffMs jitter m MIN_BACKOFF_MS MAX_BACKOFF_MS" for m using b [of jitter m] by linarith
  show ?pull
    using b pos by (auto simp: pull_failed_def setErrorStatus_def waitForNextPull_def stopped_by_error_def Let_def
        getPullDelayMs_def backoff_active_def not_le split: prod.splits)
  show ?push
    using b pos by (auto simp: push_failed_def requestPush_def setErrorStatus_def waitForNextPush_def stopped_by_error_def Let_def
        getPushDelayMs_def backoff_active_def not_le split: prod.splits)
qed

section \<open>Where the cursor passes events\<close>

lemma apply_adds_only:
  assumes "aead_ok (cfg_crypto cfg)" and "db_wf (fst st)" and "applyRemoteEvents cfg now evs st = (res, st')"
    and "has_event (fst st') i"
  shows "has_event (fst st) i \<or> i \<in> fst ` snd ` set evs"
proof (cases "fst (prepare_events cfg now evs st)")
  case (Inl e)
  obtain db1 n1 where run: "prepare_events cfg now evs st = (Inl e, (db1, n1))"
    using Inl by (metis prod.exhaust_sel)
  then have "fst st' \<in> {fst st, db1}" using assms(3) by (auto simp: applyRemoteEvents_def split: if_splits)
  then show ?thesis using prepare_events_keeps [OF assms(1,2) run] assms(4) by auto
next
  case (Inr p)
  obtain stmts ids db1 n1 where run: "prepare_events cfg now evs st = (Inr (stmts, ids), (db1, n1))"
    using Inr by (metis prod.exhaust_sel)
  obtain rows where rows: "list_all2 (row_for (fst st)) evs rows" "stmts = concat (map2 (stmts_for now) evs rows)"
    using prepare_events_shape [OF assms(1,2) run] by blast
  have "fst st' \<in> {fst st, exec_batch stmts db1}"
    using assms(3) run by (auto simp: applyRemoteEvents_def Let_def split: if_splits)
  then have "has_event (fst st) i \<or> (\<exists>r. InsertEvent r \<in> set stmts \<and> row_id r = i)"
    using assms(4) has_event_batch_only [of stmts db1 i] prepare_events_keeps [OF assms(1,2) run] by auto
  moreover have "i \<in> fst ` snd ` set evs" if r: "InsertEvent r \<in> set stmts" "row_id r = i" for r
  proof -
    obtain ev row where "(ev, row) \<in> set (zip evs rows)" "InsertEvent r \<in> set (stmts_for now ev row)"
      using r(1) rows(2) by auto
    then have "ev \<in> set evs" "row = Some r" "row_for (fst st) ev row"
      using rows(1) by (auto simp: stmts_for_def list_all2_iff dest: set_zip_leftD split: option.splits)
    then have "fst (snd ev) = i" using r(2) by (simp add: row_for_def)
    then show ?thesis using \<open>ev \<in> set evs\<close> by force
  qed
  ultimately show ?thesis by blast
qed

text \<open>
  C13: a push conflict that is handled with the missing events of the answer moves the cursor to
  the answer's head, however few of the events up to that head the answer carries; nothing but
  those events enters the local store. The server sends at most 1000, so a client that is
  further behind skips the rest.
\<close>

theorem conflict_cursor_jumps:
  assumes "aead_ok (cfg_crypto cfg)" and "db_wf (eng_db g)"
    and "conflict_with_missing cfg now head missing g = (Inr (), g')"
  shows "readLastPulledGlobalSeq cfg (eng_db g') = max (readLastPulledGlobalSeq cfg (eng_db g)) head \<and>
     (\<forall>i. has_event (eng_db g') i \<longrightarrow> has_event (eng_db g) i \<or> i \<in> fst ` snd ` set missing)"
proof -
  obtain b st1 where ap: "applyRemoteEvents cfg now missing (eng_db g, eng_draws g) = (Inr b, st1)"
    using assms(3) by (auto simp: conflict_with_missing_def apply_page_def Let_def split: prod.splits sum.splits)
  have wf: "db_wf (fst (eng_db g, eng_draws g))" using assms(2) by simp
  have "eng_db g' = writeLastPulledGlobalSeq cfg (max (readLastPulledGlobalSeq cfg (fst st1)) head) (fst st1)"
    using assms(3) ap by (cases st1) (auto simp: conflict_with_missing_def apply_page_def Let_def)
  then show ?thesis
    using cursor_apply [OF assms(1) wf ap] apply_adds_only [OF assms(1) wf ap] by (simp add: write_cursor)
qed

theorem conflict_cursor_jumps_witness:
  "\<exists>g'. conflict_with_missing sample_cfg 9 5000 [(1, ''e1'', sample_json)] (new_engine sample_db) = (Inr (), g') \<and>
     readLastPulledGlobalSeq sample_cfg (eng_db g') = 5000"
proof -
  obtain g' where run: "conflict_with_missing sample_cfg 9 5000 [(1, ''e1'', sample_json)] (new_engine sample_db) = (Inr (), g')"
    using sample_apply [of sample_cfg 9] by (auto simp: conflict_with_missing_def apply_page_def new_engine_def Let_def)
  have "db_wf (eng_db (new_engine sample_db))" using sample_db_wf by (simp add: new_engine_def)
  then show ?thesis
    using conflict_cursor_jumps [OF _ _ run] run aead_ok_tagged
    by (simp add: readLastPulledGlobalSeq_def new_engine_def sample_db_def)
qed

text \<open>
  C14: a pull that fails while it applies a page has already taken over the server's head, so
  the push of the same round is accepted and moves the cursor to the new head: the event the
  pull could not apply is never pulled again.
\<close>

theorem push_after_failed_pull_skips:
  assumes env: "env_ok (cfg_env cfg)" and aead: "aead_ok (cfg_crypto cfg)"
    and wf: "server_wf w" and acc: "may_access cfg identity w"
    and c: "db_sync_meta (eng_db g) (cfg_storeId cfg) = Some (int c)" "c < length (server_log cfg identity w)"
    and cfg: "0 < cfg_pullLimit cfg" "0 < cfg_maxPushRetries cfg"
    and dbwf: "db_wf (eng_db g)"
    and fails: "applyRemoteEvents cfg now
       (wire_events (take (cfg_pullLimit cfg) (drop c (stream_of identity (cfg_storeId cfg) w))))
       (eng_db g, eng_draws g) = (Inl e, st1)"
    and missing: "\<not> has_event (fst st1) (server_log cfg identity w ! c)"
    and pending: "loadPendingEvents (cfg_pushBatchSize cfg) (fst st1) \<noteq> []"
  shows "\<exists>g' w'. syncOnce (server_transport None identity) cfg jitter now (Suc fuel) (g, w) = Some (g', w') \<and>
     readLastPulledGlobalSeq cfg (eng_db g') = int (length (server_log cfg identity w')) \<and>
     \<not> has_event (eng_db g') (server_log cfg identity w ! c)"
proof -
  let ?es = "stream_of identity (cfg_storeId cfg) w" and ?L = "server_log cfg identity w"
  define page where "page = take (cfg_pullLimit cfg) (drop c ?es)"
  have len: "c \<le> length ?es" "page \<noteq> []" using c(2) cfg(1) by (auto simp: page_def log_of_def)
  have cur: "readLastPulledGlobalSeq cfg (eng_db g) = int c" using c(1) by (simp add: readLastPulledGlobalSeq_def)
  obtain r1 w1 where tr: "tr_pull (server_transport None identity) (cfg_storeId cfg) (int c) (cfg_pullLimit cfg) 0 w = (r1, w1)"
    by (metis prod.exhaust)
  have srv: "server_wf w1" "server_log cfg identity w1 = ?L" "may_access cfg identity w1"
    and r1: "r1 = Inr (pull_response_of (int c) (cfg_pullLimit cfg) page (int (length ?L)))"
    using tr_pull_cases [OF wf _ tr] acc by (auto simp: page_def Let_def)
  define r where "r = pull_response_of (int c) (cfg_pullLimit cfg) page (int (length ?es))"
  have r: "r1 = Inr r" using r1 by (simp add: r_def log_of_def)
  note resp = pull_response_page [OF server_wfD(1) [OF wf] page_def len(1) r_def]
  obtain db1 n1 where st1: "st1 = (db1, n1)" by (cases st1)
  define g0 where "g0 = setSyncing DirPull g"
  have g0: "eng_db g0 = eng_db g" "eng_draws g0 = eng_draws g" by (simp_all add: g0_def setSyncing_def)
  define g1 where "g1 = g0\<lparr>eng_lastKnownHead := Some (int (length ?es)), eng_db := db1, eng_draws := n1\<rparr>"
  have ap: "apply_page cfg now (pr_events r) (g0\<lparr>eng_lastKnownHead := Some (int (length ?es))\<rparr>) = (Inl e, g1)"
    using fails st1 g0 by (simp add: apply_page_def resp(2) page_def g1_def)
  have "pr_events r \<noteq> []" using len(2) by (simp add: resp(2) wire_events_def)
  then have pages: "pull_pages (server_transport None identity) cfg now 0 (Suc fuel) (int c) False (g0, w) = Some (Inl e, g1, w1)"
    using tr r ap by (simp add: Let_def resp(1))
  have "ensureSyncMetaRow cfg g = g" using c(1) by (simp add: ensureSyncMetaRow_def)
  then have pull: "pullOnceInternal (server_transport None identity) cfg jitter now 0 (Suc fuel) (ensureSyncMetaRow cfg g, w)
      = Some (pull_failed jitter now e g1, w1)"
    using pages cur by (simp add: pullOnceInternal_def Let_def g0(1) g0_def [symmetric] del: pull_pages.simps)
  define g2 where "g2 = setSyncing DirPush (pull_failed jitter now e g1)"
  have g2: "eng_db g2 = db1" "getExpectedHead cfg g2 = int (length ?L)"
    by (simp_all add: g2_def g1_def getExpectedHead_def log_of_def)
  let ?batch = "loadPendingEvents (cfg_pushBatchSize cfg) db1"
  obtain es where es: "to_push_events (cfg_env cfg) ?batch = Inr es" "map pe_eventId es = map row_id ?batch"
    using to_push_events_ok [OF env] by blast
  then have ne: "es \<noteq> []" using pending st1 by auto
  define L' where "L' = log_adds ?L (map row_id ?batch)"
  obtain w' as where push: "tr_push (server_transport None identity) (cfg_storeId cfg) (int (length ?L)) es w1
      = (Inr (WireOk (int (length L')) as), w')" "server_log cfg identity w' = L'"
    using tr_push_current [OF srv(1,3) ne refl] unfolding L'_def srv(2) es(2) by blast
  obtain n where n: "cfg_maxPushRetries cfg = Suc n" using cfg(2) by (cases "cfg_maxPushRetries cfg") auto
  define g' where "g' = push_accepted cfg now (int (length L')) as g2"
  have "push_attempts (server_transport None identity) cfg jitter now (Suc fuel) (Suc n) (g2, w1) = Some (Inr (), g', w')"
    using pending st1 es(1) push(1) g2 by (simp add: Let_def g'_def)
  then have run: "syncOnce (server_transport None identity) cfg jitter now (Suc fuel) (g, w) = Some (g', w')"
    using pull n by (simp add: syncOnce_def pushOnce_def g2_def)
  have db': "\<exists>v as. eng_db g' = writeLastPulledGlobalSeq cfg v (applyAssignments now as db1)"
    by (auto simp: g'_def push_accepted_def Let_def requestPush_def g2)
  have "readLastPulledGlobalSeq cfg db1 = int c"
    using cursor_apply [OF aead _ fails] dbwf st1 cur by simp
  moreover have "length ?L \<le> length L'" using log_fold_extends [of "map row_id ?batch" ?L] by (auto simp: L'_def)
  ultimately have cur': "readLastPulledGlobalSeq cfg (eng_db g') = int (length L')"
    using c(2) by (simp add: g'_def push_accepted_def Let_def requestPush_def g2 write_cursor applyAssignments_def cursor_exec)
  have "db_events (exec_batch (map (\<lambda>(i, g). InsertMap i g now) as) d) = db_events d" for as d
    unfolding exec_batch_def by (induction as arbitrary: d) auto
  then have same: "has_event (exec_batch (map (\<lambda>(i, g). InsertMap i g now) as) d) = has_event d" for as d
    by (simp add: has_event_def fun_eq_iff)
  then have "\<not> has_event (eng_db g') (?L ! c)"
    using db' missing st1 by (auto simp: write_cursor applyAssignments_def same)
  then show ?thesis using run cur' push(2) by blast
qed

definition sample_busy_server :: sync_db where
  "sample_busy_server =
     \<lparr>sync_events = [\<lparr>se_owner = ''me'', se_store = ''store'', se_global_seq = 1, se_event_id = ''x'',
        se_record_json = ''?'', se_scope_id = None, se_resource_id = None, se_resource_key_id = None,
        se_grant_id = None, se_scope_state_ref = None, se_author_device_id = None\<rparr>],
      sync_stores = [''store'' \<mapsto> \<lparr>st_owner = ''me'', st_head = 1\<rparr>]\<rparr>"

lemma sample_busy_wf: "server_wf sample_busy_server"
  by (rule server_wfI)
    (auto simp: sample_busy_server_def stream_of_def in_stream_def stream_wf_def split: if_splits)

definition sample_engine :: engine where
  "sample_engine = new_engine (sample_db\<lparr>db_sync_meta := [''store'' \<mapsto> 0]\<rparr>)"

theorem push_after_failed_pull_skips_witness:
  "\<exists>g' w'. syncOnce (server_transport None ''me'') sample_cfg (\<lambda>b. b) 9 (Suc 0) (sample_engine, sample_busy_server)
       = Some (g', w') \<and>
     readLastPulledGlobalSeq sample_cfg (eng_db g') = int (length (log_of ''me'' ''store'' w')) \<and>
     \<not> has_event (eng_db g') ''x''"
proof -
  have acc: "may_access sample_cfg ''me'' sample_busy_server"
    by (simp add: may_access_def blank_def trim_def js_space_def sample_busy_server_def)
  have str: "stream_of ''me'' ''store'' sample_busy_server = sync_events sample_busy_server"
    by (simp add: stream_of_def in_stream_def sample_busy_server_def)
  have log: "log_of ''me'' ''store'' sample_busy_server = [''x'']"
    unfolding log_of_def str by (simp add: sample_busy_server_def)
  have bad: "parseRecordJson ''?'' = Inl (Error ''recordJson is not valid JSON'')" by code_simp
  have page: "wire_events (take (cfg_pullLimit sample_cfg)
      (drop 0 (stream_of ''me'' (cfg_storeId sample_cfg) sample_busy_server))) = [(1, ''x'', ''?'')]"
    unfolding sample_cfg_simps str by (simp add: sample_busy_server_def wire_events_def)
  have fails: "applyRemoteEvents sample_cfg 9 (wire_events (take (cfg_pullLimit sample_cfg)
        (drop 0 (stream_of ''me'' (cfg_storeId sample_cfg) sample_busy_server)))) (eng_db sample_engine, eng_draws sample_engine)
      = (Inl (Thrown (Error ''recordJson is not valid JSON'')), (eng_db sample_engine, 0))"
    unfolding page by (simp add: applyRemoteEvents_def prepare_event_def bad sample_engine_def new_engine_def)
  have pend: "loadPendingEvents 100 (eng_db sample_engine) \<noteq> []"
    by (simp add: loadPendingEvents_def pending_rows_def sample_engine_def new_engine_def is_synced_def sample_db_def)
  have "db_wf (eng_db sample_engine)" using sample_db_wf by (simp add: sample_engine_def new_engine_def)
  moreover have "\<not> has_event (eng_db sample_engine) ''x''"
    by (simp add: has_event_def sample_engine_def new_engine_def sample_db_def sample_row_def)
  moreover have "db_sync_meta (eng_db sample_engine) ''store'' = Some 0" by (simp add: sample_engine_def new_engine_def)
  ultimately show ?thesis
    using push_after_failed_pull_skips [OF _ _ sample_busy_wf acc _ _ _ _ _ fails, of "\<lambda>b. b" 0] pend
    by (simp add: log aead_ok_tagged)
qed

end
