(* ===== verification/EventStoreCore.thy ===== *)
theory EventStoreCore
  imports Prelude
begin

text \<open>
  packages/eventstore-core/src/index.ts: the cursor types of the local event store, their
  comparison functions, and the step that advances an effective cursor over one record.
  The comparisons are shown to be the three-way comparisons of a linear order, which is
  what every consumer of a cursor relies on.
\<close>

record commit_cursor =
  cc_commitSequence :: int
  cc_eventId :: string
  cc_version :: int

record effective_cursor =
  globalSequence :: int
  pendingCommitSequence :: int

definition ZERO_EFFECTIVE_CURSOR :: effective_cursor where
  "ZERO_EFFECTIVE_CURSOR = \<lparr>globalSequence = 0, pendingCommitSequence = 0\<rparr>"

datatype projection_ordering = EffectiveTotalOrder | CommitSequence

datatype cursor_comparison = Before | Equal | After

record event_record =
  rec_id :: string
  rec_aggregateId :: string
  rec_eventType :: string
  rec_payload :: bytes
  rec_version :: int
  rec_occurredAt :: int
  rec_actorId :: "string option"
  rec_causationId :: "string option"
  rec_correlationId :: "string option"
  rec_commitSequence :: int
  rec_globalSequence :: "int option"

definition compareCommitCursor :: "commit_cursor \<Rightarrow> commit_cursor \<Rightarrow> cursor_comparison" where
  "compareCommitCursor a b =
     (if cc_commitSequence a < cc_commitSequence b then Before
      else if cc_commitSequence a > cc_commitSequence b then After
      else if cc_eventId a < cc_eventId b then Before
      else if cc_eventId a > cc_eventId b then After
      else if cc_version a < cc_version b then Before
      else if cc_version a > cc_version b then After
      else Equal)"

definition compareEffectiveCursor ::
  "effective_cursor \<Rightarrow> effective_cursor \<Rightarrow> cursor_comparison" where
  "compareEffectiveCursor a b =
     (if globalSequence a < globalSequence b then Before
      else if globalSequence a > globalSequence b then After
      else if pendingCommitSequence a < pendingCommitSequence b then Before
      else if pendingCommitSequence a > pendingCommitSequence b then After
      else Equal)"

definition commitCursorFromRecord :: "event_record \<Rightarrow> commit_cursor" where
  "commitCursorFromRecord r =
     \<lparr>cc_commitSequence = rec_commitSequence r, cc_eventId = rec_id r, cc_version = rec_version r\<rparr>"

definition advanceEffectiveCursor :: "effective_cursor \<Rightarrow> event_record \<Rightarrow> effective_cursor" where
  "advanceEffectiveCursor c r =
     (case rec_globalSequence r of
        Some g \<Rightarrow> \<lparr>globalSequence = g, pendingCommitSequence = pendingCommitSequence c\<rparr>
      | None \<Rightarrow> \<lparr>globalSequence = globalSequence c,
                 pendingCommitSequence = rec_commitSequence r\<rparr>)"

subsection \<open>The contract of a three-way comparison\<close>

text \<open>
  What a consumer of a cursor comparison relies on: the three answers describe a total order
  on cursors. Sorting, deduplication and resumption need nothing else.
\<close>

locale three_way_order =
  fixes cmp :: "'a \<Rightarrow> 'a \<Rightarrow> cursor_comparison"
  assumes cmp_equal: "cmp a b = Equal \<longleftrightarrow> a = b"
    and cmp_flip: "cmp a b = Before \<longleftrightarrow> cmp b a = After"
    and cmp_trans: "cmp a b = Before \<Longrightarrow> cmp b c = Before \<Longrightarrow> cmp a c = Before"
begin

lemma cmp_refl: "cmp a a = Equal"
  by (simp add: cmp_equal)

lemma cmp_total: "cmp a b = Before \<or> a = b \<or> cmp b a = Before"
  by (metis cmp_equal cmp_flip cursor_comparison.exhaust)

lemma cmp_irrefl: "cmp a a \<noteq> Before"
  by (simp add: cmp_refl)

lemma cmp_asym: "cmp a b = Before \<Longrightarrow> cmp b a \<noteq> Before"
  using cmp_trans cmp_irrefl by blast

end

interpretation commit_order: three_way_order compareCommitCursor
proof
  show "compareCommitCursor a b = Equal \<longleftrightarrow> a = b" for a b
    by (cases a; cases b) (auto simp: compareCommitCursor_def)
  show "compareCommitCursor a b = Before \<longleftrightarrow> compareCommitCursor b a = After" for a b
    by (auto simp: compareCommitCursor_def)
  show "compareCommitCursor a b = Before \<Longrightarrow> compareCommitCursor b c = Before
        \<Longrightarrow> compareCommitCursor a c = Before" for a b c
    by (auto simp: compareCommitCursor_def split: if_splits)
qed

interpretation effective_order: three_way_order compareEffectiveCursor
proof
  show "compareEffectiveCursor a b = Equal \<longleftrightarrow> a = b" for a b
    by (cases a; cases b) (auto simp: compareEffectiveCursor_def)
  show "compareEffectiveCursor a b = Before \<longleftrightarrow> compareEffectiveCursor b a = After" for a b
    by (auto simp: compareEffectiveCursor_def)
  show "compareEffectiveCursor a b = Before \<Longrightarrow> compareEffectiveCursor b c = Before
        \<Longrightarrow> compareEffectiveCursor a c = Before" for a b c
    by (auto simp: compareEffectiveCursor_def split: if_splits)
qed

lemma advanceEffectiveCursor_after:
  assumes "case rec_globalSequence r of Some g \<Rightarrow> globalSequence c < g
           | None \<Rightarrow> pendingCommitSequence c < rec_commitSequence r"
  shows "compareEffectiveCursor c (advanceEffectiveCursor c r) = Before"
  using assms by (auto simp: compareEffectiveCursor_def advanceEffectiveCursor_def split: option.splits)

end
