(* ===== verification/SharingProperties.thy ===== *)
theory SharingProperties
  imports SharingChain
begin

text \<open>
  Properties of the sharing API: the streams after any run of requests, the race of two appends,
  the delta pages a client reads, and what happens to the active grant of a resource.
\<close>

subsection \<open>Runs of requests\<close>

lemma sharing_ok_reachable: "sharing_ok (fold sharing_step qs empty_sharing_db)"
  by (rule sharing_ok_run [OF sharing_ok_empty])

lemmas sharing_okD = sharing_ok_def [THEN iffD1]

definition extends_all :: "sharing_db \<Rightarrow> sharing_db \<Rightarrow> bool" where
  "extends_all db db' \<longleftrightarrow> (\<forall>k.
     (\<exists>rs. scope_stream db' k = scope_stream db k @ rs) \<and>
     (\<exists>rs. grant_stream db' k = grant_stream db k @ rs) \<and>
     (\<exists>rs. vault_stream db' k = vault_stream db k @ rs))"

lemma extends_all_refl: "extends_all db db"
  by (simp add: extends_all_def)

lemma extends_all_trans:
  assumes "extends_all a b" and "extends_all b c"
  shows "extends_all a c"
  unfolding extends_all_def
proof
  fix k
  show "(\<exists>rs. scope_stream c k = scope_stream a k @ rs) \<and> (\<exists>rs. grant_stream c k = grant_stream a k @ rs)
      \<and> (\<exists>rs. vault_stream c k = vault_stream a k @ rs)"
    using assms [unfolded extends_all_def, THEN spec, of k] by (elim conjE exE) simp
qed

lemma extends_allI:
  assumes "\<And>k. \<exists>rs. scope_stream db' k = scope_stream db k @ rs"
    and "\<And>k. \<exists>rs. grant_stream db' k = grant_stream db k @ rs"
    and "\<And>k. \<exists>rs. vault_stream db' k = vault_stream db k @ rs"
  shows "extends_all db db'"
  using assms by (simp add: extends_all_def)

lemma append_extends_all:
  assumes ok: "sharing_ok db"
  shows "appendState k h i db = Inr (res, db') \<Longrightarrow> extends_all db db'"
    and "appendGrant k h j db = Inr (res, db') \<Longrightarrow> extends_all db db'"
    and "appendRecord k h v db = Inr (res, db') \<Longrightarrow> extends_all db db'"
proof -
  have inv: "scope_inv db" "grant_inv db" "vault_inv db" using ok by (simp_all add: sharing_ok_def)
  obtain s x where res: "res = (s, x)" by (cases res)
  show "extends_all db db'" if step: "appendState k h i db = Inr (res, db')"
    using scope_chain.append_extends [OF inv(1) step] appendState_Inr [OF inv(1) step [unfolded res]]
      sharing_frame(2,3) [of db' db] by (intro extends_allI) simp_all
  show "extends_all db db'" if step: "appendGrant k h j db = Inr (res, db')"
    using grant_chain.append_extends [OF inv(2) step] appendGrant_Inr [OF inv(2) step [unfolded res]]
      sharing_frame(1,3) [of db' db] by (intro extends_allI) simp_all
  show "extends_all db db'" if step: "appendRecord k h v db = Inr (res, db')"
    using vault_chain.append_extends [OF inv(3) step] appendRecord_Inr [OF inv(3) step [unfolded res]]
      sharing_frame(1,2) [of db' db] by (intro extends_allI) simp_all
qed

lemma sharing_step_extends:
  assumes ok: "sharing_ok db"
  shows "extends_all db (sharing_step q db)"
proof (cases q)
  case (CreateEnvelope e)
  then show ?thesis
    by (simp add: createEnvelope_def extends_all_def scope_stream_def grant_stream_def vault_stream_def)
qed (use append_extends_all [OF ok] in \<open>auto simp: commit_or_keep_def extends_all_refl split: sum.splits\<close>)

lemma sharing_run_extends: "sharing_ok db \<Longrightarrow> extends_all db (fold sharing_step qs db)"
proof (induction qs arbitrary: db)
  case Nil
  then show ?case by (simp add: extends_all_refl)
next
  case (Cons q qs)
  show ?case
    using extends_all_trans [OF sharing_step_extends [OF Cons.prems, of q]
        Cons.IH [OF sharing_ok_step [OF Cons.prems, of q]]] by simp
qed

lemma heads_are_lengths:
  assumes "sharing_ok db"
  shows "scope_getHeadSeq k db = Inr (int (length (scope_stream db k)))"
    and "grant_getHeadSeq k db = Inr (int (length (grant_stream db k)))"
    and "vault_getHeadSeq k db = Inr (int (length (vault_stream db k)))"
proof -
  have inv: "scope_inv db" "grant_inv db" "vault_inv db" using assms by (simp_all add: sharing_ok_def)
  have chain: "chain_ok ss_seq ss_prev_hash ss_ref (scope_stream db k)"
    "chain_ok gr_seq gr_prev_hash gr_hash (grant_stream db k)"
    "chain_ok va_seq va_prev_hash va_hash (vault_stream db k)"
    using assms by (simp_all add: sharing_ok_def)
  show "scope_getHeadSeq k db = Inr (int (length (scope_stream db k)))"
    using scope_head_eq(1) [OF inv(1)] chain_ok_tail_seq [OF chain(1)] by simp
  show "grant_getHeadSeq k db = Inr (int (length (grant_stream db k)))"
    using grant_head_eq(1) [OF inv(2)] chain_ok_tail_seq [OF chain(2)] by simp
  show "vault_getHeadSeq k db = Inr (int (length (vault_stream db k)))"
    using vault_head_eq(1) [OF inv(3)] chain_ok_tail_seq [OF chain(3)] by simp
qed

text \<open>
  C15: after any sequence of requests to the sharing server, every scope's membership stream,
  every scope's grant stream and every user's key vault is a gap-free hash chain: records numbered
  1, 2, 3, ..., each carrying the hash of its predecessor and the first carrying none.
  The head the repositories report is the number of the last record, and later requests only
  add records at the end.
\<close>

theorem sharing_streams_chained:
  "let db = fold sharing_step qs empty_sharing_db; db' = fold sharing_step qs' db in
     chain_ok ss_seq ss_prev_hash ss_ref (scope_stream db k) \<and>
     chain_ok gr_seq gr_prev_hash gr_hash (grant_stream db k) \<and>
     chain_ok va_seq va_prev_hash va_hash (vault_stream db k) \<and>
     scope_getHeadSeq k db = Inr (int (length (scope_stream db k))) \<and>
     grant_getHeadSeq k db = Inr (int (length (grant_stream db k))) \<and>
     vault_getHeadSeq k db = Inr (int (length (vault_stream db k))) \<and>
     (\<exists>rs. scope_stream db' k = scope_stream db k @ rs) \<and>
     (\<exists>rs. grant_stream db' k = grant_stream db k @ rs) \<and>
     (\<exists>rs. vault_stream db' k = vault_stream db k @ rs)"
proof -
  note ok = sharing_ok_reachable [of qs]
  show ?thesis
    using sharing_run_extends [OF ok, of qs'] heads_are_lengths [OF ok, of k] ok
    by (simp add: Let_def sharing_ok_def extends_all_def)
qed

subsection \<open>Two writers\<close>

lemma stale_after:
  assumes ok: "sharing_ok db" and len: "h < int (length (scope_stream db k))"
  shows "appendState k h i db = Inl (StreamHeadMismatch (int (length (scope_stream db k))) h)"
proof -
  have "tail_seq ss_seq (scope_stream db k) = int (length (scope_stream db k))"
    using ok by (auto simp: sharing_ok_def intro: chain_ok_tail_seq)
  then show ?thesis using scope_chain.append_stale [of db h k i] ok len by (simp add: sharing_ok_def)
qed

text \<open>
  C16: of two membership updates computed against the same head at most one is ever accepted.
  Once an append with some head has been accepted, every other append with that head is refused
  with the current head, however many other requests the server has handled in between.
\<close>

theorem scope_append_one_winner:
  assumes "appendState k h i (fold sharing_step qs empty_sharing_db) = Inr (res, db')"
  shows "\<exists>n > h. appendState k h i' (fold sharing_step qs' db') = Inl (StreamHeadMismatch n h)"
proof -
  note ok = sharing_ok_reachable [of qs]
  then have inv: "scope_inv (fold sharing_step qs empty_sharing_db)" by (simp add: sharing_ok_def)
  have db': "db' = sharing_step (AppendState k h i) (fold sharing_step qs empty_sharing_db)"
    using assms by (simp add: commit_or_keep_def)
  then have ok': "sharing_ok db'" by (simp only: sharing_ok_step [OF ok])
  have "h < int (length (scope_stream db' k))"
    using scope_chain.append_here [OF inv, of k h i "fst res" "snd res" db'] assms scope_head_eq(1) [OF inv, of k]
      heads_are_lengths(1) [OF ok, of k] by auto
  moreover obtain rs where "scope_stream (fold sharing_step qs' db') k = scope_stream db' k @ rs"
    using sharing_run_extends [OF ok', of qs'] by (auto simp: extends_all_def)
  ultimately have "h < int (length (scope_stream (fold sharing_step qs' db') k))" by simp
  then show ?thesis using stale_after [OF sharing_ok_run [OF ok']] by blast
qed

text \<open>Sample inputs for the witnesses.\<close>

definition sample_state :: "bytes option \<Rightarrow> bytes \<Rightarrow> scope_state_input" where
  "sample_state prev ref =
     \<lparr>si_prevHash = prev, si_scopeStateRef = ref, si_ownerUserId = ''owner'', si_scopeEpoch = 0,
      si_signedRecordCbor = [1], si_members = JObj [], si_signers = JObj [], si_sigSuite = ''hybrid'',
      si_signature = [2]\<rparr>"

lemma sample_state_sel [simp]:
  "si_prevHash (sample_state p r) = p" "si_scopeStateRef (sample_state p r) = r"
  by (simp_all add: sample_state_def)

definition sample_grant :: "string \<Rightarrow> bytes option \<Rightarrow> bytes \<Rightarrow> grant_status \<Rightarrow> grant_input" where
  "sample_grant gid prev hash st =
     \<lparr>gi_grantId = gid, gi_resourceId = ''goal-1'', gi_prevHash = prev, gi_grantHash = hash,
      gi_scopeStateRef = [9], gi_scopeEpoch = 0, gi_resourceKeyId = ''k1'', gi_wrappedKey = [3],
      gi_policy = None, gi_status = st, gi_signedGrantCbor = [4], gi_sigSuite = ''hybrid'',
      gi_signature = [5]\<rparr>"

lemma sample_grant_sel [simp]:
  "gi_grantId (sample_grant g p h st) = g" "gi_resourceId (sample_grant g p h st) = ''goal-1''"
  "gi_prevHash (sample_grant g p h st) = p" "gi_grantHash (sample_grant g p h st) = h"
  "gi_status (sample_grant g p h st) = st"
  by (simp_all add: sample_grant_def)

lemmas append_run_simps = appendState_def appendGrant_def Let_def scope_getHeadSeq_def grant_getHeadSeq_def
  SequenceNumber_from_def check_chain_def grant_chain_check_def insert_scope_state_def insert_grant_def
  bind_result_def empty_sharing_db_def commit_or_keep_def

theorem scope_append_one_winner_witness:
  "\<exists>res db'. appendState ''s'' 0 (sample_state None [1]) empty_sharing_db = Inr (res, db') \<and>
     (\<exists>n > 0. appendState ''s'' 0 (sample_state None [2])
        (sharing_step (AppendState ''s'' 1 (sample_state (Some [1]) [3])) db') = Inl (StreamHeadMismatch n 0))"
proof -
  obtain res db' where "appendState ''s'' 0 (sample_state None [1]) empty_sharing_db = Inr (res, db')"
    by (simp add: append_run_simps)
  then show ?thesis
    using scope_append_one_winner [of "''s''" 0 "sample_state None [1]" "[]" res db' "sample_state None [2]"
        "[AppendState ''s'' 1 (sample_state (Some [1]) [3])]"] by auto
qed

subsection \<open>Delta pages\<close>

lemma chain_ok_after:
  assumes "chain_ok seq prev hash rs" and "0 \<le> since"
  shows "sort_key seq (filter (\<lambda>r. since < seq r) rs) = drop (nat since) rs"
proof -
  have "filter (\<lambda>r. since < seq r) rs = drop (nat since) rs"
    using assms by (induction rs rule: rev_induct) (auto simp: chain_ok_snoc)
  moreover have "sorted (map seq (drop (nat since) rs))"
    using assms(1) by (auto simp: sorted_iff_nth_mono chain_ok_def)
  ultimately show ?thesis by (simp add: sort_key_id_if_sorted)
qed

lemma page_of_chain:
  assumes ok: "chain_ok seq prev hash rs" and limit: "0 < limit" and since: "0 \<le> since"
  shows "page_info seq limit (take limit (drop (nat since) rs)) =
     (if since + int limit \<le> int (length rs) then (True, Some (since + int limit)) else (False, None))"
proof (cases "since + int limit \<le> int (length rs)")
  case True
  let ?page = "take limit (drop (nat since) rs)"
  have len: "length ?page = limit" using True since by (simp add: nat_le_iff)
  then have "last ?page = rs ! (nat since + limit - 1)"
    using limit by (simp add: last_conv_nth len flip: length_greater_0_conv)
  moreover have "nat since + limit - 1 < length rs" using True since limit by linarith
  ultimately have "seq (last ?page) = since + int limit"
    using ok limit since by (simp add: chain_ok_def of_nat_diff)
  then show ?thesis using True len by (simp add: page_info_def Let_def)
next
  case False
  then have "length (take limit (drop (nat since) rs)) \<noteq> limit" using since limit by auto
  then show ?thesis using False by (simp add: page_info_def Let_def)
qed

text \<open>
  The delta streams are complete. On every database the server can reach, a page that starts
  after a position holds exactly the next records, as many as asked for, of the stream in order; it says
  that there is more exactly when it is full, and then the next position is the end of the page,
  so reading on from there misses and repeats nothing.
\<close>

theorem delta_pages_complete:
  assumes "0 < limit" and "0 \<le> since"
  shows "let db = fold sharing_step qs empty_sharing_db;
        after = (\<lambda>n. if since + int limit \<le> int n then (True, Some (since + int limit)) else (False, None)) in
     getMembershipStream k since limit db =
       (take limit (drop (nat since) (scope_stream db k)), after (length (scope_stream db k))) \<and>
     getGrantStream k since limit db =
       (take limit (drop (nat since) (grant_stream db k)), after (length (grant_stream db k))) \<and>
     getUpdateStream k since limit db =
       Inr (take limit (drop (nat since) (vault_stream db k)), after (length (vault_stream db k)),
            int (length (vault_stream db k)))"
proof -
  define db where "db = fold sharing_step qs empty_sharing_db"
  have ok: "sharing_ok db" unfolding db_def by (rule sharing_ok_reachable)
  then have chain: "chain_ok ss_seq ss_prev_hash ss_ref (scope_stream db k)"
    "chain_ok gr_seq gr_prev_hash gr_hash (grant_stream db k)"
    "chain_ok va_seq va_prev_hash va_hash (vault_stream db k)"
    by (simp_all add: sharing_ok_def)
  have "scope_loadSince k since limit db = take limit (drop (nat since) (scope_stream db k))"
    using chain_ok_after [OF chain(1) assms(2)] by (simp add: scope_loadSince_def scope_stream_def conj_commute)
  moreover have "grant_loadSince k since limit db = take limit (drop (nat since) (grant_stream db k))"
    using chain_ok_after [OF chain(2) assms(2)] by (simp add: grant_loadSince_def grant_stream_def conj_commute)
  moreover have "vault_loadSince k since limit db = take limit (drop (nat since) (vault_stream db k))"
    using chain_ok_after [OF chain(3) assms(2)] by (simp add: vault_loadSince_def vault_stream_def conj_commute)
  ultimately show ?thesis
    unfolding db_def [symmetric]
    by (simp add: Let_def getMembershipStream_def getGrantStream_def getUpdateStream_def
        page_of_chain [OF chain(1) assms] page_of_chain [OF chain(2) assms] page_of_chain [OF chain(3) assms]
        heads_are_lengths [OF ok])
qed

theorem delta_pages_complete_witness:
  "let db = fold sharing_step [AppendState ''s'' 0 (sample_state None [1]),
       AppendState ''s'' 1 (sample_state (Some [1]) [2])] empty_sharing_db in
     length (scope_stream db ''s'') = 2 \<and>
     (\<exists>r. getMembershipStream ''s'' 0 1 db = ([r], True, Some 1))"
  using delta_pages_complete [of 1 0 "[AppendState ''s'' 0 (sample_state None [1]),
       AppendState ''s'' 1 (sample_state (Some [1]) [2])]" "''s''"]
  by (simp add: append_run_simps scope_stream_def)

subsection \<open>Revocation\<close>

text \<open>
  Appending a revoked grant does not end the access that an earlier grant of the same resource
  gave: the active grant of every resource is the same before and after.
\<close>

theorem revocation_keeps_active_grant:
  assumes "appendGrant k h g db = Inr (res, db')" and "gi_status g = GrantRevoked"
    and "getActiveGrant k r db = Some a"
  shows "getActiveGrant k r db' = Some a"
proof -
  obtain x where "resource_grants db' = resource_grants db @ [x]" "resource_grant_heads db' = resource_grant_heads db"
    using assms(1,2) by (auto simp: appendGrant_def Let_def bind_result_eq_Inr insert_grant_def split: if_splits)
  then show ?thesis
    using assms(3) by (auto simp: getActiveGrant_def loadByGrantId_def find_append split: option.splits)
qed

theorem revocation_keeps_active_grant_witness:
  "let db = sharing_step (AppendGrant ''s'' 0 (sample_grant ''g1'' None [1] GrantActive)) empty_sharing_db in
     \<exists>res db' a. appendGrant ''s'' 1 (sample_grant ''g2'' (Some [1]) [2] GrantRevoked) db = Inr (res, db') \<and>
       getActiveGrant ''s'' ''goal-1'' db' = Some a \<and> gr_grant_id a = ''g1''"
proof -
  define db where "db = sharing_step (AppendGrant ''s'' 0 (sample_grant ''g1'' None [1] GrantActive)) empty_sharing_db"
  obtain a where a: "getActiveGrant ''s'' ''goal-1'' db = Some a" "gr_grant_id a = ''g1''"
    by (auto simp: db_def append_run_simps getActiveGrant_def loadByGrantId_def)
  obtain res db' where "appendGrant ''s'' 1 (sample_grant ''g2'' (Some [1]) [2] GrantRevoked) db = Inr (res, db')"
    by (simp add: db_def append_run_simps)
  then show ?thesis
    using revocation_keeps_active_grant [of "''s''" 1 "sample_grant ''g2'' (Some [1]) [2] GrantRevoked" db res db'
        "''goal-1''" a] a
    unfolding db_def [symmetric] by auto
qed

end
