(* ===== verification/Values.thy ===== *)
theory Values
  imports Json
begin

text \<open>
  The value objects of the domain (packages/domain/src): the checks of \<open>shared/Assert.ts\<close>,
  the enumerations \<open>Slice\<close>, \<open>Priority\<close>, \<open>Permission\<close> and \<open>ProjectStatus\<close>, the calendar
  types \<open>Month\<close> and \<open>LocalDate\<close>, and the string wrappers for names and identifiers. A value
  object over a string or number is that string or number; its factory is the function
  \<open>X_from\<close>, which throws or returns the value.
\<close>

subsection \<open>Assert\<close>

definition isNonEmpty :: "string \<Rightarrow> string \<Rightarrow> unit result" where
  "isNonEmpty name s = guard_result (s \<noteq> []) (AssertError name ''must be a non-empty string'')"

definition matches :: "string \<Rightarrow> (string \<Rightarrow> bool) \<Rightarrow> string \<Rightarrow> unit result" where
  "matches name pattern s = guard_result (pattern s) (AssertError name ''must match pattern'')"

definition isGreaterThan :: "string \<Rightarrow> int \<Rightarrow> int \<Rightarrow> unit result" where
  "isGreaterThan name v lo = guard_result (lo < v) (AssertError name ''must be greater than'')"

definition isGreaterThanOrEqual :: "string \<Rightarrow> int \<Rightarrow> int \<Rightarrow> unit result" where
  "isGreaterThanOrEqual name v lo =
     guard_result (lo \<le> v) (AssertError name ''must be greater than or equal to'')"

definition isLessThanOrEqual :: "string \<Rightarrow> int \<Rightarrow> int \<Rightarrow> unit result" where
  "isLessThanOrEqual name v up =
     guard_result (v \<le> up) (AssertError name ''must be less than or equal to'')"

definition isBetween :: "string \<Rightarrow> int \<Rightarrow> int \<Rightarrow> int \<Rightarrow> unit result" where
  "isBetween name v lo up = guard_result (lo \<le> v \<and> v \<le> up) (AssertError name ''must be between'')"

definition isOneOf :: "string \<Rightarrow> string \<Rightarrow> string list \<Rightarrow> unit result" where
  "isOneOf name v allowed = guard_result (v \<in> set allowed) (AssertError name ''must be one of'')"

definition isDefined :: "string \<Rightarrow> 'a option \<Rightarrow> 'a result" where
  "isDefined name v = (case v of None \<Rightarrow> Inl (AssertError name ''must be defined'') | Some x \<Rightarrow> Inr x)"

definition isNull :: "string \<Rightarrow> 'a option \<Rightarrow> unit result" where
  "isNull name v = guard_result (v = None) (AssertError name ''must be null'')"

definition isTrue :: "string \<Rightarrow> bool \<Rightarrow> unit result" where
  "isTrue name b = guard_result b (AssertError name ''must be true'')"

definition isFalse :: "string \<Rightarrow> bool \<Rightarrow> unit result" where
  "isFalse name b = guard_result (\<not> b) (AssertError name ''must be false'')"

lemmas assert_defs = isNonEmpty_def matches_def isGreaterThan_def isGreaterThanOrEqual_def
  isLessThanOrEqual_def isBetween_def isOneOf_def isNull_def isTrue_def isFalse_def

lemma isDefined_Inr [simp]: "isDefined name v = Inr x \<longleftrightarrow> v = Some x"
  by (cases v) (auto simp: isDefined_def)

lemma isDefined_Some [simp]: "isDefined name (Some x) = Inr x"
  by simp

subsection \<open>Enumerations\<close>

datatype slice = Health | Family | Relationships | Work | Money | Learning | Mindfulness | Leisure

definition ALL_SLICES :: "slice list" where
  "ALL_SLICES = [Health, Family, Relationships, Work, Money, Learning, Mindfulness, Leisure]"

fun Slice_value :: "slice \<Rightarrow> string" where
  "Slice_value Health = ''Health''"
| "Slice_value Family = ''Family''"
| "Slice_value Relationships = ''Relationships''"
| "Slice_value Work = ''Work''"
| "Slice_value Money = ''Money''"
| "Slice_value Learning = ''Learning''"
| "Slice_value Mindfulness = ''Mindfulness''"
| "Slice_value Leisure = ''Leisure''"

text \<open>
  \<open>Assert.that(value).isOneOf(all)\<close> followed by the cast to the literal type: the value
  whose text is the argument.
\<close>

definition enum_from :: "string \<Rightarrow> ('a \<Rightarrow> string) \<Rightarrow> 'a list \<Rightarrow> string \<Rightarrow> 'a result" where
  "enum_from name show_value all v =
     bind_result (isOneOf name v (map show_value all)) (\<lambda>_.
       case find (\<lambda>x. show_value x = v) all of
         Some x \<Rightarrow> Inr x
       | None \<Rightarrow> Inl (AssertError name ''must be one of''))"

definition Slice_from :: "string \<Rightarrow> slice result" where
  "Slice_from v = enum_from ''Slice'' Slice_value ALL_SLICES v"

datatype priority = Must | Should | Maybe

fun Priority_value :: "priority \<Rightarrow> string" where
  "Priority_value Must = ''must''"
| "Priority_value Should = ''should''"
| "Priority_value Maybe = ''maybe''"

definition Priority_from :: "string \<Rightarrow> priority result" where
  "Priority_from v = enum_from ''Priority'' Priority_value [Must, Should, Maybe] v"

fun Priority_order :: "priority \<Rightarrow> int" where
  "Priority_order Must = 3"
| "Priority_order Should = 2"
| "Priority_order Maybe = 1"

definition isHigherThan :: "priority \<Rightarrow> priority \<Rightarrow> bool" where
  "isHigherThan p q \<longleftrightarrow> Priority_order q < Priority_order p"

datatype permission = ViewAccess | EditAccess

fun Permission_value :: "permission \<Rightarrow> string" where
  "Permission_value ViewAccess = ''view''"
| "Permission_value EditAccess = ''edit''"

definition Permission_from :: "string \<Rightarrow> permission result" where
  "Permission_from v = enum_from ''Permission'' Permission_value [ViewAccess, EditAccess] v"

datatype project_status = Planned | InProgress | Completed | Canceled

fun ProjectStatus_value :: "project_status \<Rightarrow> string" where
  "ProjectStatus_value Planned = ''planned''"
| "ProjectStatus_value InProgress = ''in_progress''"
| "ProjectStatus_value Completed = ''completed''"
| "ProjectStatus_value Canceled = ''canceled''"

definition ProjectStatus_from :: "string \<Rightarrow> project_status result" where
  "ProjectStatus_from v =
     enum_from ''ProjectStatus'' ProjectStatus_value [Planned, InProgress, Completed, Canceled] v"

definition isTerminal :: "project_status \<Rightarrow> bool" where
  "isTerminal s \<longleftrightarrow> s = Completed \<or> s = Canceled"

subsection \<open>Month\<close>

record month =
  mo_year :: int
  mo_month :: int

definition Month_new :: "int \<Rightarrow> int \<Rightarrow> month result" where
  "Month_new year month =
     bind_result (isGreaterThan ''Year'' year 2000) (\<lambda>_.
     bind_result (isBetween ''Month'' month 1 12) (\<lambda>_.
     Inr \<lparr>mo_year = year, mo_month = month\<rparr>))"

text \<open>A text of decimal digits and dashes, as in \<open>\d{4}-\d{2}\<close>: the shape gives the dashes.\<close>

definition digits_shape :: "bool list \<Rightarrow> string \<Rightarrow> bool" where
  "digits_shape shape s \<longleftrightarrow>
     list_all2 (\<lambda>is_d c. if is_d then is_digit c else c = CHR ''-'') shape s"

definition MONTH_REGEX :: "string \<Rightarrow> bool" where
  "MONTH_REGEX = digits_shape [True, True, True, True, False, True, True]"

definition Month_from :: "string \<Rightarrow> month result" where
  "Month_from v =
     bind_result (matches ''Month string'' MONTH_REGEX v) (\<lambda>_.
     Month_new (int (read_nat (take 4 v))) (int (read_nat (drop 5 v))))"

definition Month_value :: "month \<Rightarrow> string" where
  "Month_value m = show_int (mo_year m) @ ''-'' @ padStart 2 (CHR ''0'') (show_int (mo_month m))"

definition Month_isBefore :: "month \<Rightarrow> month \<Rightarrow> bool" where
  "Month_isBefore a b \<longleftrightarrow> mo_year a < mo_year b \<or> (mo_year a = mo_year b \<and> mo_month a < mo_month b)"

definition Month_isAfter :: "month \<Rightarrow> month \<Rightarrow> bool" where
  "Month_isAfter a b \<longleftrightarrow> mo_year a > mo_year b \<or> (mo_year a = mo_year b \<and> mo_month a > mo_month b)"

text \<open>JavaScript's \<open>%\<close> has the sign of the dividend.\<close>

definition js_rem :: "int \<Rightarrow> int \<Rightarrow> int" where
  "js_rem a b = (if a < 0 then - ((- a) mod b) else a mod b)"

definition addMonths :: "month \<Rightarrow> int \<Rightarrow> month result" where
  "addMonths m count =
     (let totalMonths = mo_year m * 12 + mo_month m - 1 + count
      in Month_new (totalMonths div 12) (js_rem totalMonths 12 + 1))"

subsection \<open>LocalDate\<close>

definition ISO_DATE_REGEX :: "string \<Rightarrow> bool" where
  "ISO_DATE_REGEX = digits_shape [True, True, True, True, False, True, True, False, True, True]"

definition LocalDate_fromString :: "string \<Rightarrow> string result" where
  "LocalDate_fromString v = bind_result (matches ''LocalDate'' ISO_DATE_REGEX v) (\<lambda>_. Inr v)"

definition LocalDate_from :: "int \<Rightarrow> int \<Rightarrow> int \<Rightarrow> string result" where
  "LocalDate_from year month day =
     bind_result (isGreaterThanOrEqual ''year'' year 1) (\<lambda>_.
     bind_result (isBetween ''month'' month 1 12) (\<lambda>_.
     bind_result (isBetween ''day'' day 1 31) (\<lambda>_.
     LocalDate_fromString (padStart 4 (CHR ''0'') (show_int year) @ ''-'' @
       padStart 2 (CHR ''0'') (show_int month) @ ''-'' @ padStart 2 (CHR ''0'') (show_int day)))))"

definition LocalDate_year :: "string \<Rightarrow> nat" where
  "LocalDate_year d = read_nat (take 4 d)"

definition LocalDate_month :: "string \<Rightarrow> nat" where
  "LocalDate_month d = read_nat (take 2 (drop 5 d))"

definition LocalDate_day :: "string \<Rightarrow> nat" where
  "LocalDate_day d = read_nat (take 2 (drop 8 d))"

definition LocalDate_isBefore :: "string \<Rightarrow> string \<Rightarrow> bool" where
  "LocalDate_isBefore a b \<longleftrightarrow> a < b"

definition LocalDate_isAfter :: "string \<Rightarrow> string \<Rightarrow> bool" where
  "LocalDate_isAfter a b \<longleftrightarrow> b < a"

definition isSameOrBefore :: "string \<Rightarrow> string \<Rightarrow> bool" where
  "isSameOrBefore a b \<longleftrightarrow> a \<le> b"

definition isSameOrAfter :: "string \<Rightarrow> string \<Rightarrow> bool" where
  "isSameOrAfter a b \<longleftrightarrow> b \<le> a"

subsection \<open>Texts and identifiers\<close>

definition Summary_from :: "string \<Rightarrow> string result" where
  "Summary_from v = bind_result (isNonEmpty ''Summary'' v) (\<lambda>_. Inr v)"

definition ProjectName_from :: "string \<Rightarrow> string result" where
  "ProjectName_from v =
     bind_result (isNonEmpty ''ProjectName'' (trim v)) (\<lambda>_.
     bind_result (isLessThanOrEqual ''ProjectName length'' (int (length v)) 200) (\<lambda>_. Inr v))"

definition MilestoneName_from :: "string \<Rightarrow> string result" where
  "MilestoneName_from v =
     bind_result (isNonEmpty ''MilestoneName'' (trim v)) (\<lambda>_.
     bind_result (isLessThanOrEqual ''MilestoneName length'' (int (length v)) 200) (\<lambda>_. Inr v))"

definition ProjectDescription_from :: "string \<Rightarrow> string result" where
  "ProjectDescription_from v =
     bind_result (isLessThanOrEqual ''ProjectDescription length'' (int (length v)) 2000) (\<lambda>_. Inr v)"

definition ActorId_from :: "string \<Rightarrow> string result" where
  "ActorId_from v = bind_result (isNonEmpty ''ActorId'' v) (\<lambda>_. Inr v)"

definition UserId_from :: "string \<Rightarrow> string result" where
  "UserId_from v =
     bind_result (ActorId_from v) (\<lambda>_. bind_result (isNonEmpty ''UserId'' v) (\<lambda>_. Inr v))"

definition EventId_from :: "string \<Rightarrow> string result" where
  "EventId_from v = bind_result (isNonEmpty ''EventId'' v) (\<lambda>_. Inr v)"

definition CorrelationId_from :: "string \<Rightarrow> string result" where
  "CorrelationId_from v = bind_result (isNonEmpty ''CorrelationId'' v) (\<lambda>_. Inr v)"

definition is_hex :: "char \<Rightarrow> bool" where
  "is_hex c \<longleftrightarrow> hex_val c \<noteq> None"

definition UUID_REGEX :: "string \<Rightarrow> bool" where
  "UUID_REGEX s \<longleftrightarrow> length s = 36 \<and>
     (\<forall>i < 36. if i \<in> {8, 13, 18, 23} then s ! i = CHR ''-'' else is_hex (s ! i))"

definition uuid_from :: "string \<Rightarrow> string \<Rightarrow> string result" where
  "uuid_from name v = bind_result (matches name UUID_REGEX v) (\<lambda>_. Inr v)"

definition GoalId_from :: "string \<Rightarrow> string result" where
  "GoalId_from v = uuid_from ''GoalId'' v"

definition ProjectId_from :: "string \<Rightarrow> string result" where
  "ProjectId_from v = uuid_from ''ProjectId'' v"

definition MilestoneId_from :: "string \<Rightarrow> string result" where
  "MilestoneId_from v = uuid_from ''MilestoneId'' v"

definition ScopeId_from :: "string \<Rightarrow> string result" where
  "ScopeId_from v = uuid_from ''ScopeId'' v"

definition ResourceId_from :: "string \<Rightarrow> string result" where
  "ResourceId_from v = uuid_from ''ResourceId'' v"

definition GrantId_from :: "string \<Rightarrow> string result" where
  "GrantId_from v = uuid_from ''GrantId'' v"

text \<open>
  \<open>Assert.that(condition, message)\<close> with no assertion called on it checks nothing, so the
  factories of \<open>ScopeEpoch\<close> and \<open>ScopeStateRef\<close> accept every value.
\<close>

definition ScopeEpoch_from :: "int \<Rightarrow> int result" where
  "ScopeEpoch_from v = Inr v"

definition ScopeEpoch_increment :: "int \<Rightarrow> int result" where
  "ScopeEpoch_increment v = ScopeEpoch_from (v + 1)"

definition ScopeStateRef_from :: "bytes \<Rightarrow> bytes result" where
  "ScopeStateRef_from v = Inr v"

text \<open>\<open>b.toString(16).padStart(2, '0')\<close>.\<close>

definition byte_hex :: "8 word \<Rightarrow> string" where
  "byte_hex b = [hex_char (unat b div 16), hex_char (unat b mod 16)]"

definition ScopeStateRef_toHex :: "bytes \<Rightarrow> string" where
  "ScopeStateRef_toHex v = concat (map byte_hex v)"

fun hex_bytes :: "string \<Rightarrow> bytes" where
  "hex_bytes (a # b # s) = word_of_nat (16 * the (hex_val a) + the (hex_val b)) # hex_bytes s"
| "hex_bytes _ = []"

definition ScopeStateRef_fromHex :: "string \<Rightarrow> bytes result" where
  "ScopeStateRef_fromHex v =
     bind_result (matches ''hex'' (\<lambda>s. length s = 64 \<and> list_all is_hex s) v) (\<lambda>_.
     ScopeStateRef_from (hex_bytes v))"

subsection \<open>UUIDs\<close>

text \<open>
  \<open>uuidv4\<close>: the platform's \<open>randomUUID\<close> when there is one, otherwise sixteen random bytes
  with the version and variant bits set. The platform's answer is the argument.
\<close>

datatype uuid_source = RandomUUID string | RandomBytes bytes

definition uuid_bits :: "bytes \<Rightarrow> bytes" where
  "uuid_bits bs = bs[6 := or (and (bs ! 6) 0x0f) 0x40, 8 := or (and (bs ! 8) 0x3f) 0x80]"

definition uuidv4 :: "uuid_source \<Rightarrow> string" where
  "uuidv4 src =
     (case src of
        RandomUUID s \<Rightarrow> s
      | RandomBytes bs \<Rightarrow>
          let hex = concat (map byte_hex (uuid_bits bs))
          in take 8 hex @ ''-'' @ take 4 (drop 8 hex) @ ''-'' @ take 4 (drop 12 hex) @ ''-''
             @ take 4 (drop 16 hex) @ ''-'' @ drop 20 hex)"

subsection \<open>Facts on the factories\<close>

lemma Slice_from_value [simp]: "Slice_from (Slice_value s) = Inr s"
  by (cases s) (simp_all add: Slice_from_def enum_from_def isOneOf_def ALL_SLICES_def)

lemma Priority_from_value [simp]: "Priority_from (Priority_value p) = Inr p"
  by (cases p) (simp_all add: Priority_from_def enum_from_def isOneOf_def)

lemma Permission_from_value [simp]: "Permission_from (Permission_value p) = Inr p"
  by (cases p) (simp_all add: Permission_from_def enum_from_def isOneOf_def)

lemma ProjectStatus_from_value [simp]: "ProjectStatus_from (ProjectStatus_value s) = Inr s"
  by (cases s) (simp_all add: ProjectStatus_from_def enum_from_def isOneOf_def)

lemma enum_from_Inr: "enum_from name sv all v = Inr x \<Longrightarrow> sv x = v"
  by (auto simp: enum_from_def bind_result_eq_Inr split: option.splits dest: find_Some_mem)

lemma uuid_from_Inr [simp]: "uuid_from name v = Inr w \<longleftrightarrow> UUID_REGEX v \<and> w = v"
  by (auto simp: uuid_from_def matches_def bind_result_eq_Inr)

lemma UserId_from_Inr [simp]: "UserId_from v = Inr w \<longleftrightarrow> v \<noteq> [] \<and> w = v"
  by (auto simp: UserId_from_def ActorId_from_def isNonEmpty_def bind_result_eq_Inr)

lemma nonempty_from_Inr [simp]:
  "ActorId_from v = Inr w \<longleftrightarrow> v \<noteq> [] \<and> w = v"
  "EventId_from v = Inr w \<longleftrightarrow> v \<noteq> [] \<and> w = v"
  "CorrelationId_from v = Inr w \<longleftrightarrow> v \<noteq> [] \<and> w = v"
  "Summary_from v = Inr w \<longleftrightarrow> v \<noteq> [] \<and> w = v"
  by (auto simp: ActorId_from_def EventId_from_def CorrelationId_from_def Summary_from_def isNonEmpty_def
      bind_result_eq_Inr)

lemma id_from_Inr [simp]:
  "GoalId_from v = Inr w \<longleftrightarrow> UUID_REGEX v \<and> w = v" "ProjectId_from v = Inr w \<longleftrightarrow> UUID_REGEX v \<and> w = v"
  "MilestoneId_from v = Inr w \<longleftrightarrow> UUID_REGEX v \<and> w = v" "ScopeId_from v = Inr w \<longleftrightarrow> UUID_REGEX v \<and> w = v"
  "ResourceId_from v = Inr w \<longleftrightarrow> UUID_REGEX v \<and> w = v" "GrantId_from v = Inr w \<longleftrightarrow> UUID_REGEX v \<and> w = v"
  by (simp_all add: GoalId_from_def ProjectId_from_def MilestoneId_from_def ScopeId_from_def ResourceId_from_def
      GrantId_from_def)

lemma LocalDate_fromString_Inr [simp]: "LocalDate_fromString v = Inr w \<longleftrightarrow> ISO_DATE_REGEX v \<and> w = v"
  by (auto simp: LocalDate_fromString_def matches_def bind_result_eq_Inr)

lemma text_from_Inr [simp]:
  "ProjectName_from v = Inr w \<longleftrightarrow> trim v \<noteq> [] \<and> length v \<le> 200 \<and> w = v"
  "MilestoneName_from v = Inr w \<longleftrightarrow> trim v \<noteq> [] \<and> length v \<le> 200 \<and> w = v"
  "ProjectDescription_from v = Inr w \<longleftrightarrow> length v \<le> 2000 \<and> w = v"
  by (auto simp: ProjectName_from_def MilestoneName_from_def ProjectDescription_from_def isNonEmpty_def
      isLessThanOrEqual_def bind_result_eq_Inr)

subsection \<open>Decimal fields\<close>

lemma read_nat_Cons: "read_nat (c # s) = digit_val c * 10 ^ length s + read_nat s"
proof (induction s rule: rev_induct)
  case Nil
  then show ?case by (simp add: read_nat_def)
next
  case (snoc d s)
  then show ?case using read_nat_snoc [of "c # s" d] read_nat_snoc [of s d] by (simp add: algebra_simps)
qed

lemma digit_val_less: "is_digit c \<Longrightarrow> digit_val c < 10"
  by (auto simp: is_digit_def digit_val_def)

lemma digit_val_inject: "is_digit c \<Longrightarrow> is_digit d \<Longrightarrow> digit_val c = digit_val d \<Longrightarrow> c = d"
  by (auto simp: is_digit_def digit_val_def) (metis diff_diff_cancel of_char_eq_iff le_add_diff_inverse)

lemma digit_char_val: "is_digit c \<Longrightarrow> digit_char (digit_val c) = c"
  by (simp add: is_digit_def digit_val_def digit_char_def)

lemma radix_less:
  fixes r :: nat
  assumes "r < P" and "r' < P"
  shows "a * P + r < b * P + r' \<longleftrightarrow> a < b \<or> (a = b \<and> r < r')"
proof -
  have step: "x * P + u < y * P + v" if "x < y" "u < P" for x y u v :: nat
  proof -
    have "x * P + u < (x + 1) * P" using that by simp
    also have "\<dots> \<le> y * P" using that by (intro mult_le_mono1) simp
    finally show ?thesis by simp
  qed
  show ?thesis using step [of a b r r'] step [of b a r' r] assms by (cases a b rule: linorder_cases) auto
qed

lemma read_nat_bound: "list_all is_digit s \<Longrightarrow> read_nat s < 10 ^ length s"
proof (induction s)
  case (Cons c s)
  then have "digit_val c < 10" "read_nat s < 10 ^ length s" using digit_val_less by auto
  then have "digit_val c * 10 ^ length s + read_nat s < 10 * 10 ^ length s + 0" by (subst radix_less) auto
  then show ?case by (simp add: read_nat_Cons)
qed (simp add: read_nat_def)

text \<open>Equally long decimal texts are ordered like the numbers they denote.\<close>

lemma digits_less_iff:
  assumes "length s = length t" and "list_all is_digit s" and "list_all is_digit t"
  shows "s < t \<longleftrightarrow> read_nat s < read_nat t"
  using assms
proof (induction s t rule: list_induct2)
  case Nil
  then show ?case by simp
next
  case (Cons c s d t)
  have "c < d \<longleftrightarrow> digit_val c < digit_val d"
    using Cons.prems by (auto simp: is_digit_def digit_val_def less_char_def)
  moreover have "c = d \<longleftrightarrow> digit_val c = digit_val d" using Cons.prems digit_val_inject by auto
  ultimately show ?case
    using Cons.IH Cons.prems radix_less [OF read_nat_bound [of s], of "read_nat t" "digit_val c" "digit_val d"]
      read_nat_bound [of t] Cons.hyps by (simp add: read_nat_Cons)
qed

lemma append_less_iff:
  fixes a b c d :: string
  assumes "length a = length b"
  shows "a @ c < b @ d \<longleftrightarrow> a < b \<or> (a = b \<and> c < d)"
  using assms by (induction a b rule: list_induct2) auto

lemma digits_eq_iff:
  "length s = length t \<Longrightarrow> list_all is_digit s \<Longrightarrow> list_all is_digit t \<Longrightarrow> s = t \<longleftrightarrow> read_nat s = read_nat t"
  using digits_less_iff [of s t] digits_less_iff [of t s] by (cases s t rule: linorder_cases) auto

lemma show_read_nat:
  assumes "list_all is_digit s" and "s \<noteq> []" and "length s = 1 \<or> hd s \<noteq> CHR ''0''"
  shows "show_nat (read_nat s) = s"
  using assms
proof (induction s rule: rev_induct)
  case (snoc c s)
  have c: "digit_val c < 10" "digit_char (digit_val c) = c"
    using snoc.prems digit_val_less digit_char_val by auto
  show ?case
  proof (cases "s = []")
    case True
    then show ?thesis using c by (subst show_nat.simps) (simp add: read_nat_def)
  next
    case False
    have "0 < read_nat s"
    proof -
      obtain d t where s: "s = d # t" using False by (cases s) auto
      have "digit_val d \<noteq> 0"
        using snoc.prems s digit_val_inject [of d "CHR ''0''"] by (auto simp: is_digit_def digit_val_def)
      then show ?thesis using s by (simp add: read_nat_Cons)
    qed
    moreover have "show_nat (read_nat s) = s" using snoc False by (cases s) auto
    ultimately show ?thesis using c by (subst show_nat.simps) (simp add: read_nat_snoc)
  qed
qed simp

lemma length_show_nat_le: "n < 10 ^ Suc k \<Longrightarrow> length (show_nat n) \<le> Suc k"
proof (induction k arbitrary: n)
  case 0
  then show ?case by (subst show_nat.simps) simp
next
  case (Suc k)
  then have "length (show_nat (n div 10)) \<le> Suc k" by (intro Suc.IH) auto
  then show ?case by (subst show_nat.simps) simp
qed

lemma length_show_nat_ge: "10 ^ k \<le> n \<Longrightarrow> k < length (show_nat n)"
proof (rule ccontr)
  assume le: "10 ^ k \<le> n" and "\<not> k < length (show_nat n)"
  then have "(10 :: nat) ^ length (show_nat n) \<le> 10 ^ k" by (intro power_increasing) auto
  moreover have "n < 10 ^ length (show_nat n)"
    using read_nat_bound [of "show_nat n"] show_nat_digits [of n] by (simp add: list_all_iff)
  ultimately show False using le by linarith
qed

lemma read_nat_zeros: "read_nat (replicate k (CHR ''0'') @ s) = read_nat s"
  by (induction k) (simp_all add: read_nat_Cons digit_val_def)

lemma padStart_digits:
  assumes "n < 10 ^ Suc k"
  shows "length (padStart (Suc k) (CHR ''0'') (show_nat n)) = Suc k"
    and "read_nat (padStart (Suc k) (CHR ''0'') (show_nat n)) = n"
    and "list_all is_digit (padStart (Suc k) (CHR ''0'') (show_nat n))"
  using length_show_nat_le [OF assms] show_nat_digits [of n]
  by (auto simp: padStart_def read_nat_zeros list_all_iff is_digit_def)

subsection \<open>Months and dates\<close>

definition month_ok :: "month \<Rightarrow> bool" where
  "month_ok m \<longleftrightarrow> 2000 < mo_year m \<and> mo_year m \<le> 9999 \<and> 1 \<le> mo_month m \<and> mo_month m \<le> 12"

lemma Month_new_Inr:
  "Month_new y k = Inr m \<longleftrightarrow> 2000 < y \<and> 1 \<le> k \<and> k \<le> 12 \<and> m = \<lparr>mo_year = y, mo_month = k\<rparr>"
  by (auto simp: Month_new_def isGreaterThan_def isBetween_def bind_result_eq_Inr)

lemma digits_shape_digits [simp]:
  "digits_shape (replicate n True) s \<longleftrightarrow> length s = n \<and> list_all is_digit s"
  by (auto simp: digits_shape_def list_all2_conv_all_nth list_all_length)

lemma digits_shape_append:
  "digits_shape (sh @ False # sh') s \<longleftrightarrow>
     (\<exists>a b. s = a @ CHR ''-'' # b \<and> digits_shape sh a \<and> digits_shape sh' b)"
proof
  assume "digits_shape (sh @ False # sh') s"
  then show "\<exists>a b. s = a @ CHR ''-'' # b \<and> digits_shape sh a \<and> digits_shape sh' b"
    by (auto simp: digits_shape_def list_all2_append1 list_all2_Cons1 split del: if_split)
next
  assume "\<exists>a b. s = a @ CHR ''-'' # b \<and> digits_shape sh a \<and> digits_shape sh' b"
  then show "digits_shape (sh @ False # sh') s"
    by (auto simp: digits_shape_def intro!: list_all2_appendI split del: if_split)
qed

lemma MONTH_REGEX_iff:
  "MONTH_REGEX v \<longleftrightarrow> (\<exists>y k. v = y @ CHR ''-'' # k \<and> length y = 4 \<and> list_all is_digit y \<and>
     length k = 2 \<and> list_all is_digit k)"
proof -
  have "[True, True, True, True, False, True, True] = replicate 4 True @ False # replicate 2 True"
    by (simp add: numeral_eq_Suc)
  then show ?thesis by (simp only: MONTH_REGEX_def digits_shape_append digits_shape_digits) blast
qed

lemma ISO_DATE_REGEX_iff:
  "ISO_DATE_REGEX v \<longleftrightarrow> (\<exists>y k d. v = y @ CHR ''-'' # k @ CHR ''-'' # d \<and> length y = 4 \<and> list_all is_digit y \<and>
     length k = 2 \<and> list_all is_digit k \<and> length d = 2 \<and> list_all is_digit d)"
proof -
  have "[True, True, True, True, False, True, True, False, True, True]
      = replicate 4 True @ False # replicate 2 True @ False # replicate 2 True"
    by (simp add: numeral_eq_Suc)
  then show ?thesis by (simp only: ISO_DATE_REGEX_def digits_shape_append digits_shape_digits) blast
qed

lemma Month_from_parts:
  assumes "length y = 4" "list_all is_digit y" "length k = 2" "list_all is_digit k"
  shows "Month_from (y @ CHR ''-'' # k) = Month_new (int (read_nat y)) (int (read_nat k))"
proof -
  have "MONTH_REGEX (y @ CHR ''-'' # k)" unfolding MONTH_REGEX_iff using assms by blast
  then show ?thesis using assms by (simp add: Month_from_def matches_def)
qed

lemma Month_from_value:
  assumes "month_ok m"
  shows "Month_from (Month_value m) = Inr m"
proof -
  obtain y k where m: "mo_year m = int y" "mo_month m = int k"
    using assms by (metis month_ok_def nonneg_int_cases order_trans zero_le_numeral zero_le_one less_imp_le)
  have y: "length (show_nat y) = 4" "list_all is_digit (show_nat y)"
    using assms m length_show_nat_le [of y 3] length_show_nat_ge [of 3 y] show_nat_digits [of y]
    by (auto simp: month_ok_def list_all_iff)
  have k: "k < 10 ^ Suc 1" using assms m by (simp add: month_ok_def)
  note pad = padStart_digits [OF k]
  show ?thesis
    using Month_from_parts [of "show_nat y" "padStart 2 (CHR ''0'') (show_nat k)"] y pad assms m
    by (simp add: Month_value_def show_int_def Month_new_Inr month_ok_def numeral_2_eq_2)
qed

lemma Month_value_from:
  assumes "Month_from v = Inr m"
  shows "Month_value m = v \<and> month_ok m"
proof -
  obtain y k where v: "v = y @ CHR ''-'' # k" "length y = 4" "list_all is_digit y" "length k = 2" "list_all is_digit k"
    using assms by (auto simp: Month_from_def matches_def bind_result_eq_Inr MONTH_REGEX_iff)
  then have new: "2000 < int (read_nat y)" "1 \<le> int (read_nat k)" "int (read_nat k) \<le> 12"
    and m: "m = \<lparr>mo_year = int (read_nat y), mo_month = int (read_nat k)\<rparr>"
    using assms Month_from_parts [OF v(2-5)] by (simp_all add: Month_new_Inr)
  have "y \<noteq> [] \<and> hd y \<noteq> CHR ''0''"
  proof -
    obtain c t where y: "y = c # t" using v(2) by (cases y) auto
    show ?thesis
    proof
      show "hd y \<noteq> CHR ''0''"
      proof
        assume "hd y = CHR ''0''"
        then have "read_nat y = read_nat t" using y by (simp add: read_nat_Cons digit_val_def)
        moreover have "read_nat t < 10 ^ 3" using read_nat_bound [of t] v(2,3) y by simp
        ultimately show False using new(1) by simp
      qed
    qed (simp add: y)
  qed
  then have "show_nat (read_nat y) = y" using show_read_nat v(3) by blast
  moreover have "padStart 2 (CHR ''0'') (show_nat (read_nat k)) = k"
    using padStart_digits [of "read_nat k" 1] new(3) v(4,5)
      digits_eq_iff [of "padStart 2 (CHR ''0'') (show_nat (read_nat k))" k]
    by (simp add: numeral_2_eq_2)
  moreover have "read_nat y < 10 ^ 4" using read_nat_bound [OF v(3)] v(2) by simp
  ultimately show ?thesis using m v(1) new by (simp add: Month_value_def show_int_def month_ok_def)
qed

lemma LocalDate_parts:
  assumes "ISO_DATE_REGEX v"
  obtains y k d where "v = y @ CHR ''-'' # k @ CHR ''-'' # d" "length y = 4" "list_all is_digit y"
    "length k = 2" "list_all is_digit k" "length d = 2" "list_all is_digit d"
    "LocalDate_year v = read_nat y" "LocalDate_month v = read_nat k" "LocalDate_day v = read_nat d"
proof -
  obtain y k d where "v = y @ CHR ''-'' # k @ CHR ''-'' # d" "length y = 4" "list_all is_digit y"
    "length k = 2" "list_all is_digit k" "length d = 2" "list_all is_digit d"
    using assms by (auto simp: ISO_DATE_REGEX_iff)
  moreover from this have "take 4 v = y" "take 2 (drop 5 v) = k" "take 2 (drop 8 v) = d" by auto
  ultimately show ?thesis using that by (simp add: LocalDate_year_def LocalDate_month_def LocalDate_day_def)
qed

lemma LocalDate_less_iff:
  assumes "ISO_DATE_REGEX a" and "ISO_DATE_REGEX b"
  shows "a < b \<longleftrightarrow> LocalDate_year a < LocalDate_year b \<or> (LocalDate_year a = LocalDate_year b \<and>
     (LocalDate_month a < LocalDate_month b \<or> (LocalDate_month a = LocalDate_month b \<and> LocalDate_day a < LocalDate_day b)))"
proof -
  obtain y k d where a: "a = y @ CHR ''-'' # k @ CHR ''-'' # d" "length y = 4" "list_all is_digit y"
    "length k = 2" "list_all is_digit k" "length d = 2" "list_all is_digit d"
    "LocalDate_year a = read_nat y" "LocalDate_month a = read_nat k" "LocalDate_day a = read_nat d"
    by (rule LocalDate_parts [OF assms(1)])
  obtain y' k' d' where b: "b = y' @ CHR ''-'' # k' @ CHR ''-'' # d'" "length y' = 4" "list_all is_digit y'"
    "length k' = 2" "list_all is_digit k'" "length d' = 2" "list_all is_digit d'"
    "LocalDate_year b = read_nat y'" "LocalDate_month b = read_nat k'" "LocalDate_day b = read_nat d'"
    by (rule LocalDate_parts [OF assms(2)])
  show ?thesis
    using a b by (simp add: append_less_iff digits_less_iff digits_eq_iff)
qed

end
