(* ===== verification/Events.thy ===== *)
theory Events
  imports Values Base64
begin

text \<open>
  Domain events (packages/domain/src/shared/DomainEvent.ts and the events directories of goals,
  projects and sharing). An event is its metadata and a payload. The constructors of the source
  copy the aggregate id and the time of the event out of the metadata into payload fields
  (\<open>goalId\<close>, \<open>createdAt\<close>, \<open>changedAt\<close>, ...); the model reads those fields from the
  metadata and keeps in the payload what the metadata does not have.
\<close>

record event_metadata =
  em_aggregateId :: string
  em_occurredAt :: int
  em_eventId :: string
  em_actorId :: string
  em_causationId :: "string option"
  em_correlationId :: "string option"
  em_version :: "int option"

datatype goal_payload =
    GoalCreated slice string month priority string
  | GoalRefined string
  | GoalRecategorized slice
  | GoalRescheduled month
  | GoalPrioritized priority
  | GoalAchieved
  | GoalUnachieved
  | GoalArchived
  | GoalAccessGranted string permission
  | GoalAccessRevoked string

datatype project_payload =
    ProjectCreated string project_status string string string "string option" string
  | ProjectStatusTransitioned project_status
  | ProjectRescheduled string string
  | ProjectRenamed string
  | ProjectDescribed string
  | ProjectGoalAdded string
  | ProjectGoalRemoved
  | ProjectMilestoneAdded string string string
  | ProjectMilestoneRescheduled string string
  | ProjectMilestoneRenamed string string
  | ProjectMilestoneArchived string
  | ProjectArchived

datatype scope_payload =
    ScopeCreated string int string
  | ScopeMemberAdded string string string
  | ScopeMemberRemoved string string string
  | ScopeEpochRotated int int string string

datatype grant_payload =
    ResourceGranted string string int string bytes string
  | ResourceRevoked string string string string

datatype domain_payload =
    GoalEvent goal_payload
  | ProjectEvent project_payload
  | ScopeEvent scope_payload
  | GrantEvent grant_payload

record domain_event =
  ev_meta :: event_metadata
  ev_payload :: domain_payload

fun goal_event_type :: "goal_payload \<Rightarrow> string" where
  "goal_event_type (GoalCreated _ _ _ _ _) = ''GoalCreated''"
| "goal_event_type (GoalRefined _) = ''GoalRefined''"
| "goal_event_type (GoalRecategorized _) = ''GoalRecategorized''"
| "goal_event_type (GoalRescheduled _) = ''GoalRescheduled''"
| "goal_event_type (GoalPrioritized _) = ''GoalPrioritized''"
| "goal_event_type GoalAchieved = ''GoalAchieved''"
| "goal_event_type GoalUnachieved = ''GoalUnachieved''"
| "goal_event_type GoalArchived = ''GoalArchived''"
| "goal_event_type (GoalAccessGranted _ _) = ''GoalAccessGranted''"
| "goal_event_type (GoalAccessRevoked _) = ''GoalAccessRevoked''"

fun project_event_type :: "project_payload \<Rightarrow> string" where
  "project_event_type (ProjectCreated _ _ _ _ _ _ _) = ''ProjectCreated''"
| "project_event_type (ProjectStatusTransitioned _) = ''ProjectStatusTransitioned''"
| "project_event_type (ProjectRescheduled _ _) = ''ProjectRescheduled''"
| "project_event_type (ProjectRenamed _) = ''ProjectRenamed''"
| "project_event_type (ProjectDescribed _) = ''ProjectDescribed''"
| "project_event_type (ProjectGoalAdded _) = ''ProjectGoalAdded''"
| "project_event_type ProjectGoalRemoved = ''ProjectGoalRemoved''"
| "project_event_type (ProjectMilestoneAdded _ _ _) = ''ProjectMilestoneAdded''"
| "project_event_type (ProjectMilestoneRescheduled _ _) = ''ProjectMilestoneRescheduled''"
| "project_event_type (ProjectMilestoneRenamed _ _) = ''ProjectMilestoneRenamed''"
| "project_event_type (ProjectMilestoneArchived _) = ''ProjectMilestoneArchived''"
| "project_event_type ProjectArchived = ''ProjectArchived''"

fun scope_event_type :: "scope_payload \<Rightarrow> string" where
  "scope_event_type (ScopeCreated _ _ _) = ''ScopeCreated''"
| "scope_event_type (ScopeMemberAdded _ _ _) = ''ScopeMemberAdded''"
| "scope_event_type (ScopeMemberRemoved _ _ _) = ''ScopeMemberRemoved''"
| "scope_event_type (ScopeEpochRotated _ _ _ _) = ''ScopeEpochRotated''"

fun grant_event_type :: "grant_payload \<Rightarrow> string" where
  "grant_event_type (ResourceGranted _ _ _ _ _ _) = ''ResourceGranted''"
| "grant_event_type (ResourceRevoked _ _ _ _) = ''ResourceRevoked''"

fun payload_type :: "domain_payload \<Rightarrow> string" where
  "payload_type (GoalEvent p) = goal_event_type p"
| "payload_type (ProjectEvent p) = project_event_type p"
| "payload_type (ScopeEvent p) = scope_event_type p"
| "payload_type (GrantEvent p) = grant_event_type p"

definition eventType :: "domain_event \<Rightarrow> string" where
  "eventType e = payload_type (ev_payload e)"

end
