(* ===== verification/Aggregate.thy ===== *)
theory Aggregate
  imports Events
begin

text \<open>
  packages/domain/src/shared/AggregateRoot.ts: an event-sourced aggregate keeps its state, the
  events it has emitted since the last commit and a version. The routing of an event to the
  method \<open>on<EventType>\<close> is the handler argument; a handler throws for an event type the class
  has no method for. A command that throws is modelled by \<open>Inl\<close>: the callers drop the object
  then, so its half-changed state is never seen.

  The locale \<open>event_sourced\<close> is the contract between a concrete aggregate and the event store:
  every command changes the aggregate only by applying events. Its lemmas say that the emitted
  events are a complete record of the state.
\<close>

record 's aggregate =
  ag_id :: string
  ag_state :: 's
  ag_uncommitted :: "domain_event list"
  ag_version :: int

type_synonym 's handler = "domain_event \<Rightarrow> 's \<Rightarrow> 's result"

definition ar_new :: "string \<Rightarrow> 's \<Rightarrow> 's aggregate" where
  "ar_new i s = \<lparr>ag_id = i, ag_state = s, ag_uncommitted = [], ag_version = 0\<rparr>"

definition ar_apply :: "'s handler \<Rightarrow> domain_event \<Rightarrow> 's aggregate \<Rightarrow> 's aggregate result" where
  "ar_apply handle e a =
     bind_result (handle e (ag_state a)) (\<lambda>s.
     Inr (a\<lparr>ag_uncommitted := ag_uncommitted a @ [e], ag_state := s, ag_version := ag_version a + 1\<rparr>))"

definition markEventsAsCommitted :: "'s aggregate \<Rightarrow> 's aggregate" where
  "markEventsAsCommitted a = a\<lparr>ag_uncommitted := []\<rparr>"

definition load_event :: "'s handler \<Rightarrow> domain_event \<Rightarrow> 's aggregate \<Rightarrow> 's aggregate result" where
  "load_event handle e a =
     bind_result (handle e (ag_state a)) (\<lambda>s. Inr (a\<lparr>ag_state := s, ag_version := ag_version a + 1\<rparr>))"

definition loadFromHistory :: "'s handler \<Rightarrow> domain_event list \<Rightarrow> 's aggregate \<Rightarrow> 's aggregate result" where
  "loadFromHistory handle evs a = fold_result (load_event handle) evs a"

definition restoreVersion :: "int \<Rightarrow> 's aggregate \<Rightarrow> 's aggregate" where
  "restoreVersion v a = a\<lparr>ag_version := v\<rparr>"

text \<open>\<open>reconstitute\<close> of the concrete aggregates: a fresh object, the history, then a commit.\<close>

definition ar_reconstitute :: "'s handler \<Rightarrow> 's \<Rightarrow> string \<Rightarrow> domain_event list \<Rightarrow> 's aggregate result" where
  "ar_reconstitute handle s0 i evs =
     bind_result (loadFromHistory handle evs (ar_new i s0)) (\<lambda>a. Inr (markEventsAsCommitted a))"

text \<open>The metadata an aggregate gives to a new event: \<open>EventId.create()\<close> is the argument.\<close>

definition new_event :: "string \<Rightarrow> int \<Rightarrow> string \<Rightarrow> string \<Rightarrow> domain_payload \<Rightarrow> domain_event" where
  "new_event aggregateId occurredAt eventId actorId p =
     \<lparr>ev_meta = \<lparr>em_aggregateId = aggregateId, em_occurredAt = occurredAt, em_eventId = eventId,
        em_actorId = actorId, em_causationId = None, em_correlationId = None, em_version = None\<rparr>,
      ev_payload = p\<rparr>"

lemma new_event_sel [simp]:
  "ev_payload (new_event i t eid u p) = p" "em_aggregateId (ev_meta (new_event i t eid u p)) = i"
  "em_occurredAt (ev_meta (new_event i t eid u p)) = t" "em_actorId (ev_meta (new_event i t eid u p)) = u"
  "em_eventId (ev_meta (new_event i t eid u p)) = eid"
  by (simp_all add: new_event_def)

lemma ar_apply_Inr:
  "ar_apply h e a = Inr a' \<longleftrightarrow> (\<exists>s. h e (ag_state a) = Inr s \<and>
     a' = a\<lparr>ag_uncommitted := ag_uncommitted a @ [e], ag_state := s, ag_version := ag_version a + 1\<rparr>)"
  by (auto simp: ar_apply_def bind_result_eq_Inr)

lemma loadFromHistory_Nil [simp]: "loadFromHistory h [] a = Inr a"
  by (simp add: loadFromHistory_def)

lemma loadFromHistory_append:
  "loadFromHistory h (es @ es') a = bind_result (loadFromHistory h es a) (loadFromHistory h es')"
  by (cases "fold_result (load_event h) es a") (simp_all add: loadFromHistory_def fold_result_append)

lemma loadFromHistory_single: "loadFromHistory h [e] a = load_event h e a"
  by (simp add: loadFromHistory_def split: sum.splits)

lemma load_event_commit:
  "load_event h e (markEventsAsCommitted a) = bind_result (load_event h e a) (\<lambda>a'. Inr (markEventsAsCommitted a'))"
  by (cases "h e (ag_state a)") (simp_all add: load_event_def markEventsAsCommitted_def)

lemma loadFromHistory_commit:
  "loadFromHistory h es (markEventsAsCommitted a)
     = bind_result (loadFromHistory h es a) (\<lambda>a'. Inr (markEventsAsCommitted a'))"
proof (induction es arbitrary: a)
  case (Cons e es)
  then show ?case
    by (cases "load_event h e a") (simp_all add: loadFromHistory_def load_event_commit)
qed simp

lemma commit_commit [simp]: "markEventsAsCommitted (markEventsAsCommitted a) = markEventsAsCommitted a"
  by (simp add: markEventsAsCommitted_def)

lemma ar_apply_load:
  "ar_apply h e a = Inr a' \<Longrightarrow> load_event h e (markEventsAsCommitted a) = Inr (markEventsAsCommitted a')"
  by (auto simp: ar_apply_Inr load_event_def markEventsAsCommitted_def)

text \<open>An invariant of the handler holds after a replay, and a replay counts its events.\<close>

lemma loadFromHistory_invariant:
  assumes "loadFromHistory h es a = Inr a'" and "P (ag_state a)"
    and "\<And>e s s'. e \<in> set es \<Longrightarrow> P s \<Longrightarrow> h e s = Inr s' \<Longrightarrow> P s'"
  shows "P (ag_state a')"
  using fold_result_invariant [OF assms(1) [unfolded loadFromHistory_def], of "\<lambda>a. P (ag_state a)"] assms(2,3)
  by (force simp: load_event_def bind_result_eq_Inr)

lemma loadFromHistory_frame:
  "loadFromHistory h es a = Inr a' \<Longrightarrow> ag_id a' = ag_id a \<and> ag_uncommitted a' = ag_uncommitted a \<and>
     ag_version a' = ag_version a + int (length es)"
proof (induction es arbitrary: a)
  case (Cons e es)
  then obtain b where "load_event h e a = Inr b" "loadFromHistory h es b = Inr a'"
    by (auto simp: loadFromHistory_def split: sum.splits)
  with Cons.IH [of b] show ?case by (auto simp: load_event_def bind_result_eq_Inr)
qed simp

subsection \<open>The contract of an event-sourced aggregate\<close>

text \<open>A session on one aggregate: commands in order; one that throws leaves it as it was.\<close>

definition run_commands ::
  "('c \<Rightarrow> 's aggregate \<Rightarrow> 's aggregate result) \<Rightarrow> 'c list \<Rightarrow> 's aggregate \<Rightarrow> 's aggregate" where
  "run_commands exec cs a = fold (\<lambda>c a. case exec c a of Inl _ \<Rightarrow> a | Inr a' \<Rightarrow> a') cs a"

locale event_sourced =
  fixes handle :: "'s handler"
    and exec :: "'c \<Rightarrow> 's aggregate \<Rightarrow> 's aggregate result"
    and inv :: "'s \<Rightarrow> bool"
  assumes exec_applies: "exec c a = Inr a' \<Longrightarrow>
      a' = a \<or> (\<exists>e. ar_apply handle e a = Inr a' \<and> em_aggregateId (ev_meta e) = ag_id a)"
    and exec_inv: "inv (ag_state a) \<Longrightarrow> exec c a = Inr a' \<Longrightarrow> inv (ag_state a')"
begin

text \<open>What a session leaves behind: new events of this aggregate that replay to its state.\<close>

definition records_from :: "'s aggregate \<Rightarrow> 's aggregate \<Rightarrow> bool" where
  "records_from a a' \<longleftrightarrow> (\<exists>es. ag_uncommitted a' = ag_uncommitted a @ es \<and>
     loadFromHistory handle es (markEventsAsCommitted a) = Inr (markEventsAsCommitted a') \<and>
     (\<forall>e \<in> set es. em_aggregateId (ev_meta e) = ag_id a))"

lemma records_from_refl: "records_from a a"
  by (simp add: records_from_def)

lemma exec_id: "exec c a = Inr a' \<Longrightarrow> ag_id a' = ag_id a"
  using exec_applies by (fastforce simp: ar_apply_Inr)

lemma records_from_exec:
  assumes rec0: "records_from a b" and id0: "ag_id b = ag_id a" and step: "exec c b = Inr b'"
  shows "records_from a b'"
proof -
  obtain es where es: "ag_uncommitted b = ag_uncommitted a @ es"
    "loadFromHistory handle es (markEventsAsCommitted a) = Inr (markEventsAsCommitted b)"
    "\<forall>e \<in> set es. em_aggregateId (ev_meta e) = ag_id a"
    using rec0 by (auto simp: records_from_def)
  from exec_applies [OF step] show ?thesis
  proof
    assume "b' = b"
    then show ?thesis using rec0 by simp
  next
    assume "\<exists>e. ar_apply handle e b = Inr b' \<and> em_aggregateId (ev_meta e) = ag_id b"
    then obtain e where e: "ar_apply handle e b = Inr b'" "em_aggregateId (ev_meta e) = ag_id b" by blast
    have "loadFromHistory handle (es @ [e]) (markEventsAsCommitted a) = Inr (markEventsAsCommitted b')"
      using es(2) ar_apply_load [OF e(1)] by (simp add: loadFromHistory_append loadFromHistory_single)
    moreover have "ag_uncommitted b' = ag_uncommitted a @ (es @ [e])"
      using e(1) es(1) by (auto simp: ar_apply_Inr)
    ultimately show ?thesis
      unfolding records_from_def using es(3) e(2) id0 by (intro exI [of _ "es @ [e]"]) auto
  qed
qed

lemma run_records:
  "records_from a (run_commands exec cs a) \<and> ag_id (run_commands exec cs a) = ag_id a"
proof (induction cs rule: rev_induct)
  case Nil
  then show ?case by (simp add: run_commands_def records_from_refl)
next
  case (snoc c cs)
  let ?b = "run_commands exec cs a"
  have step: "run_commands exec (cs @ [c]) a = (case exec c ?b of Inl _ \<Rightarrow> ?b | Inr b' \<Rightarrow> b')"
    by (cases "exec c ?b") (simp_all add: run_commands_def)
  show ?case
  proof (cases "exec c ?b")
    case (Inl e)
    then show ?thesis using snoc.IH step by simp
  next
    case (Inr b')
    then show ?thesis
      using records_from_exec [of a ?b c b'] exec_id [OF Inr] snoc.IH step by simp
  qed
qed

lemma run_inv: "inv (ag_state a) \<Longrightarrow> inv (ag_state (run_commands exec cs a))"
  unfolding run_commands_def by (induction cs arbitrary: a) (auto split: sum.split intro: exec_inv)

text \<open>
  The stored history followed by the events of a session is the history of the aggregate the
  session ended with.
\<close>

lemma replay_session:
  assumes load: "ar_reconstitute handle s0 i history = Inr a"
  shows "ar_reconstitute handle s0 i (history @ ag_uncommitted (run_commands exec cs a))
           = Inr (markEventsAsCommitted (run_commands exec cs a))"
    and "ag_version (run_commands exec cs a)
           = int (length history + length (ag_uncommitted (run_commands exec cs a)))"
proof -
  obtain b where b: "loadFromHistory handle history (ar_new i s0) = Inr b" and a: "a = markEventsAsCommitted b"
    using load by (auto simp: ar_reconstitute_def bind_result_eq_Inr)
  have frame: "ag_uncommitted b = []" "ag_version b = int (length history)"
    using loadFromHistory_frame [OF b] by (simp_all add: ar_new_def)
  then have ab: "a = b" using a by (simp add: markEventsAsCommitted_def)
  obtain es where es: "ag_uncommitted (run_commands exec cs a) = es"
    "loadFromHistory handle es a = Inr (markEventsAsCommitted (run_commands exec cs a))"
    using run_records [of a cs] a frame ab by (auto simp: records_from_def)
  show "ar_reconstitute handle s0 i (history @ ag_uncommitted (run_commands exec cs a))
      = Inr (markEventsAsCommitted (run_commands exec cs a))"
    using b ab es by (simp add: ar_reconstitute_def loadFromHistory_append)
  show "ag_version (run_commands exec cs a)
      = int (length history + length (ag_uncommitted (run_commands exec cs a)))"
    using loadFromHistory_frame [OF es(2)] es(1) frame ab by (simp add: markEventsAsCommitted_def)
qed

text \<open>The same for an aggregate that has just been created and not been stored yet.\<close>

lemma replay_created:
  assumes new: "loadFromHistory handle (ag_uncommitted a) (ar_new i s0) = Inr (markEventsAsCommitted a)"
  shows "ar_reconstitute handle s0 i (ag_uncommitted (run_commands exec cs a))
           = Inr (markEventsAsCommitted (run_commands exec cs a))"
    and "ag_version (run_commands exec cs a) = int (length (ag_uncommitted (run_commands exec cs a)))"
proof -
  have frame: "ag_version a = int (length (ag_uncommitted a))"
    using loadFromHistory_frame [OF new] by (simp add: ar_new_def markEventsAsCommitted_def)
  obtain es where es: "ag_uncommitted (run_commands exec cs a) = ag_uncommitted a @ es"
    "loadFromHistory handle es (markEventsAsCommitted a) = Inr (markEventsAsCommitted (run_commands exec cs a))"
    using run_records [of a cs] by (auto simp: records_from_def)
  show "ar_reconstitute handle s0 i (ag_uncommitted (run_commands exec cs a))
      = Inr (markEventsAsCommitted (run_commands exec cs a))"
    using new es by (simp add: ar_reconstitute_def loadFromHistory_append)
  show "ag_version (run_commands exec cs a) = int (length (ag_uncommitted (run_commands exec cs a)))"
    using loadFromHistory_frame [OF es(2)] es(1) frame by (simp add: markEventsAsCommitted_def)
qed

end

lemma created_by_one_event:
  assumes "ar_apply h e (ar_new i s0) = Inr a"
  shows "loadFromHistory h (ag_uncommitted a) (ar_new i s0) = Inr (markEventsAsCommitted a)"
  using ar_apply_load [OF assms] assms
  by (auto simp: loadFromHistory_single ar_apply_Inr ar_new_def markEventsAsCommitted_def)

end
