(* ===== verification/Goal.thy ===== *)
theory Goal
  imports Aggregate
begin

text \<open>
  The goal aggregate (packages/domain/src/goals/Goal.ts): its state, the event handlers
  \<open>on...\<close>, the commands, and the snapshot. The commands take the id that
  \<open>EventId.create()\<close> would draw as their last argument before the goal.
\<close>

record access_entry =
  ae_userId :: string
  ae_permission :: permission
  ae_grantedAt :: int
  ae_revokedAt :: "int option"

definition isActive :: "access_entry \<Rightarrow> bool" where
  "isActive e \<longleftrightarrow> ae_revokedAt e = None"

record goal_state =
  g_slice :: "slice option"
  g_summary :: "string option"
  g_targetMonth :: "month option"
  g_priority :: "priority option"
  g_createdBy :: "string option"
  g_createdAt :: "int option"
  g_achievedAt :: "int option"
  g_archivedAt :: "int option"
  g_accessList :: "access_entry list"

type_synonym goal = "goal_state aggregate"

definition new_goal_state :: goal_state where
  "new_goal_state = \<lparr>g_slice = None, g_summary = None, g_targetMonth = None, g_priority = None,
     g_createdBy = None, g_createdAt = None, g_achievedAt = None, g_archivedAt = None, g_accessList = []\<rparr>"

subsection \<open>Event handlers\<close>

text \<open>\<open>find\<close> the first active entry of the user and set its revocation time.\<close>

fun revoke_first :: "string \<Rightarrow> int \<Rightarrow> access_entry list \<Rightarrow> access_entry list" where
  "revoke_first u t [] = []"
| "revoke_first u t (e # es) =
     (if ae_userId e = u \<and> isActive e then e\<lparr>ae_revokedAt := Some t\<rparr> # es else e # revoke_first u t es)"

fun on_goal :: "event_metadata \<Rightarrow> goal_payload \<Rightarrow> goal_state \<Rightarrow> goal_state" where
  "on_goal m (GoalCreated sl su mo pr cb) s =
     s\<lparr>g_slice := Some sl, g_summary := Some su, g_targetMonth := Some mo, g_priority := Some pr,
       g_createdBy := Some cb, g_createdAt := Some (em_occurredAt m)\<rparr>"
| "on_goal m (GoalRefined su) s = s\<lparr>g_summary := Some su\<rparr>"
| "on_goal m (GoalRecategorized sl) s = s\<lparr>g_slice := Some sl\<rparr>"
| "on_goal m (GoalRescheduled mo) s = s\<lparr>g_targetMonth := Some mo\<rparr>"
| "on_goal m (GoalPrioritized pr) s = s\<lparr>g_priority := Some pr\<rparr>"
| "on_goal m GoalAchieved s = s\<lparr>g_achievedAt := Some (em_occurredAt m)\<rparr>"
| "on_goal m GoalUnachieved s = s\<lparr>g_achievedAt := None\<rparr>"
| "on_goal m GoalArchived s = s\<lparr>g_archivedAt := Some (em_occurredAt m)\<rparr>"
| "on_goal m (GoalAccessGranted u p) s =
     s\<lparr>g_accessList := g_accessList s @
        [\<lparr>ae_userId = u, ae_permission = p, ae_grantedAt = em_occurredAt m, ae_revokedAt = None\<rparr>]\<rparr>"
| "on_goal m (GoalAccessRevoked u) s =
     s\<lparr>g_accessList := revoke_first u (em_occurredAt m) (g_accessList s)\<rparr>"

definition goal_handle :: "goal_state handler" where
  "goal_handle e s =
     (case ev_payload e of
        GoalEvent p \<Rightarrow> Inr (on_goal (ev_meta e) p s)
      | _ \<Rightarrow> Inl (Error ''No handler found for event type''))"

subsection \<open>Commands\<close>

definition goal_assertNotArchived :: "goal \<Rightarrow> unit result" where
  "goal_assertNotArchived g = isNull ''Goal is archived'' (g_archivedAt (ag_state g))"

definition goal_emit :: "int \<Rightarrow> string \<Rightarrow> string \<Rightarrow> goal_payload \<Rightarrow> goal \<Rightarrow> goal result" where
  "goal_emit occurredAt actorId eventId p g =
     ar_apply goal_handle (new_event (ag_id g) occurredAt eventId actorId (GoalEvent p)) g"

definition Goal_create ::
  "string \<Rightarrow> slice \<Rightarrow> string \<Rightarrow> month \<Rightarrow> priority \<Rightarrow> string \<Rightarrow> int \<Rightarrow> string \<Rightarrow> goal result" where
  "Goal_create i sl su mo pr createdBy createdAt eventId =
     goal_emit createdAt createdBy eventId (GoalCreated sl su mo pr createdBy) (ar_new i new_goal_state)"

definition changeSummary :: "string \<Rightarrow> int \<Rightarrow> string \<Rightarrow> string \<Rightarrow> goal \<Rightarrow> goal result" where
  "changeSummary summary changedAt actorId eventId g =
     bind_result (goal_assertNotArchived g) (\<lambda>_.
     bind_result (isDefined ''Summary'' (g_summary (ag_state g))) (\<lambda>current.
     bind_result (isFalse ''Summary unchanged'' (summary = current)) (\<lambda>_.
     goal_emit changedAt actorId eventId (GoalRefined summary) g)))"

definition changeSlice :: "slice \<Rightarrow> int \<Rightarrow> string \<Rightarrow> string \<Rightarrow> goal \<Rightarrow> goal result" where
  "changeSlice sl changedAt actorId eventId g =
     bind_result (goal_assertNotArchived g) (\<lambda>_.
     bind_result (isDefined ''Slice'' (g_slice (ag_state g))) (\<lambda>current.
     bind_result (isFalse ''Slice unchanged'' (sl = current)) (\<lambda>_.
     goal_emit changedAt actorId eventId (GoalRecategorized sl) g)))"

definition changeTargetMonth :: "month \<Rightarrow> int \<Rightarrow> string \<Rightarrow> string \<Rightarrow> goal \<Rightarrow> goal result" where
  "changeTargetMonth mo changedAt actorId eventId g =
     bind_result (goal_assertNotArchived g) (\<lambda>_.
     bind_result (isDefined ''TargetMonth'' (g_targetMonth (ag_state g))) (\<lambda>current.
     bind_result (isFalse ''Target month unchanged'' (mo = current)) (\<lambda>_.
     goal_emit changedAt actorId eventId (GoalRescheduled mo) g)))"

definition changePriority :: "priority \<Rightarrow> int \<Rightarrow> string \<Rightarrow> string \<Rightarrow> goal \<Rightarrow> goal result" where
  "changePriority pr changedAt actorId eventId g =
     bind_result (goal_assertNotArchived g) (\<lambda>_.
     bind_result (isDefined ''Priority'' (g_priority (ag_state g))) (\<lambda>current.
     bind_result (isFalse ''Priority unchanged'' (pr = current)) (\<lambda>_.
     goal_emit changedAt actorId eventId (GoalPrioritized pr) g)))"

text \<open>The events of \<open>achieve\<close> and \<open>unachieve\<close> carry the ids the caller passes on.\<close>

definition traced_event ::
  "string \<Rightarrow> int \<Rightarrow> string \<Rightarrow> string \<Rightarrow> string option \<Rightarrow> string option \<Rightarrow> domain_payload \<Rightarrow> domain_event" where
  "traced_event i occurredAt eventId actorId correlationId causationId p =
     (let e = new_event i occurredAt eventId actorId p
      in e\<lparr>ev_meta := (ev_meta e)\<lparr>em_causationId := causationId, em_correlationId := correlationId\<rparr>\<rparr>)"

definition achieve :: "int \<Rightarrow> string \<Rightarrow> string option \<Rightarrow> string option \<Rightarrow> string \<Rightarrow> goal \<Rightarrow> goal result" where
  "achieve achievedAt actorId correlationId causationId eventId g =
     bind_result (goal_assertNotArchived g) (\<lambda>_.
     bind_result (isFalse ''Goal already achieved'' (g_achievedAt (ag_state g) \<noteq> None)) (\<lambda>_.
     ar_apply goal_handle
       (traced_event (ag_id g) achievedAt eventId actorId correlationId causationId (GoalEvent GoalAchieved)) g))"

definition unachieve :: "int \<Rightarrow> string \<Rightarrow> string option \<Rightarrow> string option \<Rightarrow> string \<Rightarrow> goal \<Rightarrow> goal result" where
  "unachieve unachievedAt actorId correlationId causationId eventId g =
     bind_result (goal_assertNotArchived g) (\<lambda>_.
     bind_result (isTrue ''Goal not achieved'' (g_achievedAt (ag_state g) \<noteq> None)) (\<lambda>_.
     ar_apply goal_handle
       (traced_event (ag_id g) unachievedAt eventId actorId correlationId causationId (GoalEvent GoalUnachieved)) g))"

definition goal_archive :: "int \<Rightarrow> string \<Rightarrow> string \<Rightarrow> goal \<Rightarrow> goal result" where
  "goal_archive archivedAt actorId eventId g =
     (if g_archivedAt (ag_state g) \<noteq> None then Inr g
      else goal_emit archivedAt actorId eventId GoalArchived g)"

definition active_entry :: "string \<Rightarrow> access_entry list \<Rightarrow> access_entry option" where
  "active_entry u es = find (\<lambda>e. ae_userId e = u \<and> isActive e) es"

definition grantAccess :: "string \<Rightarrow> permission \<Rightarrow> int \<Rightarrow> string \<Rightarrow> string \<Rightarrow> goal \<Rightarrow> goal result" where
  "grantAccess userId permission grantedAt actorId eventId g =
     bind_result (goal_assertNotArchived g) (\<lambda>_.
     bind_result (guard_result (active_entry userId (g_accessList (ag_state g)) = None)
       (AssertError ''User already has access'' ''User already has access to this goal'')) (\<lambda>_.
     goal_emit grantedAt actorId eventId (GoalAccessGranted userId permission) g))"

definition revokeAccess :: "string \<Rightarrow> int \<Rightarrow> string \<Rightarrow> string \<Rightarrow> goal \<Rightarrow> goal result" where
  "revokeAccess userId revokedAt actorId eventId g =
     bind_result (goal_assertNotArchived g) (\<lambda>_.
     bind_result (isDefined ''Access entry'' (active_entry userId (g_accessList (ag_state g)))) (\<lambda>_.
     goal_emit revokedAt actorId eventId (GoalAccessRevoked userId) g))"

text \<open>One command on a goal, with its arguments.\<close>

datatype goal_command =
    ChangeSummary string int string string
  | ChangeSlice slice int string string
  | ChangeTargetMonth month int string string
  | ChangePriority priority int string string
  | Achieve int string "string option" "string option" string
  | Unachieve int string "string option" "string option" string
  | Archive int string string
  | GrantAccess string permission int string string
  | RevokeAccess string int string string

fun goal_exec :: "goal_command \<Rightarrow> goal \<Rightarrow> goal result" where
  "goal_exec (ChangeSummary x t u i) g = changeSummary x t u i g"
| "goal_exec (ChangeSlice x t u i) g = changeSlice x t u i g"
| "goal_exec (ChangeTargetMonth x t u i) g = changeTargetMonth x t u i g"
| "goal_exec (ChangePriority x t u i) g = changePriority x t u i g"
| "goal_exec (Achieve t u co ca i) g = achieve t u co ca i g"
| "goal_exec (Unachieve t u co ca i) g = unachieve t u co ca i g"
| "goal_exec (Archive t u i) g = goal_archive t u i g"
| "goal_exec (GrantAccess x p t u i) g = grantAccess x p t u i g"
| "goal_exec (RevokeAccess x t u i) g = revokeAccess x t u i g"

subsection \<open>Reconstitution\<close>

definition Goal_reconstitute :: "string \<Rightarrow> domain_event list \<Rightarrow> goal result" where
  "Goal_reconstitute i evs = ar_reconstitute goal_handle new_goal_state i evs"

record goal_snapshot =
  gs_id :: string
  gs_summary :: string
  gs_slice :: slice
  gs_priority :: priority
  gs_targetMonth :: month
  gs_createdBy :: string
  gs_createdAt :: int
  gs_achievedAt :: "int option"
  gs_archivedAt :: "int option"
  gs_version :: int

definition goal_hydrateFromSnapshot :: "goal_snapshot \<Rightarrow> goal \<Rightarrow> goal" where
  "goal_hydrateFromSnapshot sn g =
     restoreVersion (gs_version sn) (g\<lparr>ag_state :=
       \<lparr>g_slice = Some (gs_slice sn), g_summary = Some (gs_summary sn), g_targetMonth = Some (gs_targetMonth sn),
        g_priority = Some (gs_priority sn), g_createdBy = Some (gs_createdBy sn),
        g_createdAt = Some (gs_createdAt sn), g_achievedAt = gs_achievedAt sn,
        g_archivedAt = gs_archivedAt sn, g_accessList = []\<rparr>\<rparr>)"

definition Goal_reconstituteFromSnapshot :: "goal_snapshot \<Rightarrow> domain_event list \<Rightarrow> goal result" where
  "Goal_reconstituteFromSnapshot sn tail =
     bind_result (loadFromHistory goal_handle tail
       (goal_hydrateFromSnapshot sn (ar_new (gs_id sn) new_goal_state))) (\<lambda>g.
     Inr (markEventsAsCommitted g))"

subsection \<open>Invariant\<close>

text \<open>
  A created goal has all its attributes, so the getters never throw, and a user has at most one
  active entry in the access list.
\<close>

definition goal_inv :: "goal_state \<Rightarrow> bool" where
  "goal_inv s \<longleftrightarrow> g_slice s \<noteq> None \<and> g_summary s \<noteq> None \<and> g_targetMonth s \<noteq> None \<and> g_priority s \<noteq> None \<and>
     g_createdBy s \<noteq> None \<and> g_createdAt s \<noteq> None \<and>
     distinct (map ae_userId (filter isActive (g_accessList s)))"

lemma revoke_first_active_set:
  "set (map ae_userId (filter isActive (revoke_first u t es))) \<subseteq> set (map ae_userId (filter isActive es))"
  by (induction es) (auto simp: isActive_def)

lemma revoke_first_distinct:
  "distinct (map ae_userId (filter isActive es)) \<Longrightarrow>
     distinct (map ae_userId (filter isActive (revoke_first u t es)))"
proof (induction es)
  case (Cons e es)
  then show ?case using revoke_first_active_set [of u t es] by (auto simp: isActive_def)
qed simp

lemma active_entry_None: "active_entry u es = None \<longleftrightarrow> u \<notin> set (map ae_userId (filter isActive es))"
  by (auto simp: active_entry_def find_None_mem)

lemma revoked_inactive [simp]: "\<not> isActive (e\<lparr>ae_revokedAt := Some t\<rparr>)"
  by (simp add: isActive_def)

lemma revoke_first_absent:
  "distinct (map ae_userId (filter isActive es)) \<Longrightarrow>
     u \<notin> set (map ae_userId (filter isActive (revoke_first u t es)))"
proof (induction es)
  case (Cons e es)
  show ?case
  proof (cases "ae_userId e = u \<and> isActive e")
    case True
    then show ?thesis using Cons.prems by auto
  next
    case False
    then have "distinct (map ae_userId (filter isActive es))" using Cons.prems by (simp split: if_splits)
    then show ?thesis using Cons.IH False by (simp, blast)
  qed
qed simp

lemma revoke_first_gone:
  "distinct (map ae_userId (filter isActive es)) \<Longrightarrow> active_entry u (revoke_first u t es) = None"
  using revoke_first_absent active_entry_None by metis

lemmas goal_command_defs = changeSummary_def changeSlice_def changeTargetMonth_def changePriority_def
  achieve_def unachieve_def goal_archive_def grantAccess_def revokeAccess_def goal_assertNotArchived_def

lemma goal_handle_GoalEvent [simp]:
  "ev_payload e = GoalEvent p \<Longrightarrow> goal_handle e s = Inr (on_goal (ev_meta e) p s)"
  by (simp add: goal_handle_def)

lemma traced_event_sel [simp]:
  "ev_payload (traced_event i t eid u co ca p) = p" "em_aggregateId (ev_meta (traced_event i t eid u co ca p)) = i"
  by (simp_all add: traced_event_def Let_def)

interpretation goal_es: event_sourced goal_handle goal_exec goal_inv
proof
  fix c and a a' :: goal
  assume "goal_exec c a = Inr a'"
  then show "a' = a \<or> (\<exists>e. ar_apply goal_handle e a = Inr a' \<and> em_aggregateId (ev_meta e) = ag_id a)"
    by (cases c) (force simp: goal_command_defs goal_emit_def bind_result_eq_Inr split: if_splits)+
next
  fix c and a a' :: goal
  assume "goal_inv (ag_state a)" and "goal_exec c a = Inr a'"
  then show "goal_inv (ag_state a')"
    by (cases c)
      (auto simp: goal_command_defs goal_emit_def bind_result_eq_Inr ar_apply_Inr goal_inv_def
        active_entry_None isActive_def split: if_splits intro: revoke_first_distinct)
qed

end
