(* ===== verification/Project.thy ===== *)
theory Project
  imports Aggregate
begin

text \<open>
  The project aggregate (packages/domain/src/projects/Project.ts and Milestone.ts): state, event
  handlers, commands, snapshot. Dates are the \<open>YYYY-MM-DD\<close> texts of \<open>LocalDate\<close>, compared
  as texts.
\<close>

record milestone =
  ms_id :: string
  ms_name :: string
  ms_targetDate :: string

record project_state =
  p_name :: "string option"
  p_status :: "project_status option"
  p_startDate :: "string option"
  p_targetDate :: "string option"
  p_description :: "string option"
  p_goalId :: "string option"
  p_milestones :: "milestone list"
  p_createdBy :: "string option"
  p_createdAt :: "int option"
  p_updatedAt :: "int option"
  p_archivedAt :: "int option"

type_synonym project = "project_state aggregate"

definition new_project_state :: project_state where
  "new_project_state = \<lparr>p_name = None, p_status = None, p_startDate = None, p_targetDate = None,
     p_description = None, p_goalId = None, p_milestones = [], p_createdBy = None, p_createdAt = None,
     p_updatedAt = None, p_archivedAt = None\<rparr>"

subsection \<open>Event handlers\<close>

definition findMilestone :: "string \<Rightarrow> milestone list \<Rightarrow> milestone result" where
  "findMilestone i ms =
     (case find (\<lambda>m. ms_id m = i) ms of Some m \<Rightarrow> Inr m | None \<Rightarrow> Inl (Error ''Milestone not found''))"

text \<open>Mutation of the first milestone with the id, the one \<open>findMilestone\<close> returns.\<close>

fun update_first :: "string \<Rightarrow> (milestone \<Rightarrow> milestone) \<Rightarrow> milestone list \<Rightarrow> milestone list" where
  "update_first i f [] = []"
| "update_first i f (m # ms) = (if ms_id m = i then f m # ms else m # update_first i f ms)"

fun on_project :: "event_metadata \<Rightarrow> project_payload \<Rightarrow> project_state \<Rightarrow> project_state result" where
  "on_project m (ProjectCreated nm st sd td de gl cb) s =
     Inr (s\<lparr>p_name := Some nm, p_status := Some st, p_startDate := Some sd, p_targetDate := Some td,
       p_description := Some de, p_goalId := gl, p_createdBy := Some cb,
       p_createdAt := Some (em_occurredAt m), p_updatedAt := Some (em_occurredAt m)\<rparr>)"
| "on_project m (ProjectStatusTransitioned st) s =
     Inr (s\<lparr>p_status := Some st, p_updatedAt := Some (em_occurredAt m)\<rparr>)"
| "on_project m (ProjectRescheduled sd td) s =
     Inr (s\<lparr>p_startDate := Some sd, p_targetDate := Some td, p_updatedAt := Some (em_occurredAt m)\<rparr>)"
| "on_project m (ProjectRenamed nm) s = Inr (s\<lparr>p_name := Some nm, p_updatedAt := Some (em_occurredAt m)\<rparr>)"
| "on_project m (ProjectDescribed de) s =
     Inr (s\<lparr>p_description := Some de, p_updatedAt := Some (em_occurredAt m)\<rparr>)"
| "on_project m (ProjectGoalAdded gl) s =
     Inr (s\<lparr>p_goalId := Some gl, p_updatedAt := Some (em_occurredAt m)\<rparr>)"
| "on_project m ProjectGoalRemoved s = Inr (s\<lparr>p_goalId := None, p_updatedAt := Some (em_occurredAt m)\<rparr>)"
| "on_project m (ProjectMilestoneAdded i nm td) s =
     Inr (s\<lparr>p_milestones := p_milestones s @ [\<lparr>ms_id = i, ms_name = nm, ms_targetDate = td\<rparr>],
       p_updatedAt := Some (em_occurredAt m)\<rparr>)"
| "on_project m (ProjectMilestoneRescheduled i td) s =
     bind_result (findMilestone i (p_milestones s)) (\<lambda>_.
     Inr (s\<lparr>p_milestones := update_first i (ms_targetDate_update (\<lambda>_. td)) (p_milestones s),
       p_updatedAt := Some (em_occurredAt m)\<rparr>))"
| "on_project m (ProjectMilestoneRenamed i nm) s =
     bind_result (findMilestone i (p_milestones s)) (\<lambda>_.
     Inr (s\<lparr>p_milestones := update_first i (ms_name_update (\<lambda>_. nm)) (p_milestones s),
       p_updatedAt := Some (em_occurredAt m)\<rparr>))"
| "on_project m (ProjectMilestoneArchived i) s =
     Inr (s\<lparr>p_milestones := filter (\<lambda>x. ms_id x \<noteq> i) (p_milestones s),
       p_updatedAt := Some (em_occurredAt m)\<rparr>)"
| "on_project m ProjectArchived s =
     Inr (s\<lparr>p_archivedAt := Some (em_occurredAt m), p_updatedAt := Some (em_occurredAt m)\<rparr>)"

definition project_handle :: "project_state handler" where
  "project_handle e s =
     (case ev_payload e of
        ProjectEvent p \<Rightarrow> on_project (ev_meta e) p s
      | _ \<Rightarrow> Inl (Error ''No handler found for event type''))"

subsection \<open>Commands\<close>

definition project_assertNotArchived :: "project \<Rightarrow> unit result" where
  "project_assertNotArchived p = isFalse ''Project is archived'' (p_archivedAt (ag_state p) \<noteq> None)"

definition assertDateWithinRange :: "string \<Rightarrow> project \<Rightarrow> unit result" where
  "assertDateWithinRange date p =
     bind_result (isDefined ''Project startDate'' (p_startDate (ag_state p))) (\<lambda>sd.
       if isSameOrBefore sd date then
         bind_result (isDefined ''Project targetDate'' (p_targetDate (ag_state p))) (\<lambda>td.
         isTrue ''Milestone target date must be within project dates'' (isSameOrAfter td date))
       else isTrue ''Milestone target date must be within project dates'' False)"

definition project_emit :: "int \<Rightarrow> string \<Rightarrow> string \<Rightarrow> project_payload \<Rightarrow> project \<Rightarrow> project result" where
  "project_emit occurredAt actorId eventId x p =
     ar_apply project_handle (new_event (ag_id p) occurredAt eventId actorId (ProjectEvent x)) p"

definition Project_create ::
  "string \<Rightarrow> string \<Rightarrow> project_status \<Rightarrow> string \<Rightarrow> string \<Rightarrow> string \<Rightarrow> string option \<Rightarrow> string \<Rightarrow> int \<Rightarrow> string
     \<Rightarrow> project result" where
  "Project_create i nm st startDate targetDate de goalId createdBy createdAt eventId =
     (if \<not> isSameOrBefore startDate targetDate
      then Inl (Error ''Start date must be on or before target date'')
      else project_emit createdAt createdBy eventId
             (ProjectCreated nm st startDate targetDate de goalId createdBy) (ar_new i new_project_state))"

definition changeName :: "string \<Rightarrow> int \<Rightarrow> string \<Rightarrow> string \<Rightarrow> project \<Rightarrow> project result" where
  "changeName nm changedAt actorId eventId p =
     bind_result (project_assertNotArchived p) (\<lambda>_.
     bind_result (isDefined ''Project name'' (p_name (ag_state p))) (\<lambda>current.
     bind_result (isFalse ''ProjectName unchanged'' (nm = current)) (\<lambda>_.
     project_emit changedAt actorId eventId (ProjectRenamed nm) p)))"

definition changeDescription :: "string \<Rightarrow> int \<Rightarrow> string \<Rightarrow> string \<Rightarrow> project \<Rightarrow> project result" where
  "changeDescription de changedAt actorId eventId p =
     bind_result (project_assertNotArchived p) (\<lambda>_.
     bind_result (isDefined ''Project description'' (p_description (ag_state p))) (\<lambda>current.
     bind_result (isFalse ''ProjectDescription unchanged'' (de = current)) (\<lambda>_.
     project_emit changedAt actorId eventId (ProjectDescribed de) p)))"

definition changeStatus :: "project_status \<Rightarrow> int \<Rightarrow> string \<Rightarrow> string \<Rightarrow> project \<Rightarrow> project result" where
  "changeStatus st changedAt actorId eventId p =
     bind_result (project_assertNotArchived p) (\<lambda>_.
     bind_result (isDefined ''Project status'' (p_status (ag_state p))) (\<lambda>current.
     bind_result (isFalse ''ProjectStatus unchanged'' (st = current)) (\<lambda>_.
     project_emit changedAt actorId eventId (ProjectStatusTransitioned st) p)))"

definition changeDates :: "string \<Rightarrow> string \<Rightarrow> int \<Rightarrow> string \<Rightarrow> string \<Rightarrow> project \<Rightarrow> project result" where
  "changeDates startDate targetDate changedAt actorId eventId p =
     bind_result (project_assertNotArchived p) (\<lambda>_.
     if \<not> isSameOrBefore startDate targetDate
     then Inl (Error ''Start date must be on or before target date'')
     else
       bind_result (isTrue ''Existing milestones must remain within the new date range''
         (list_all (\<lambda>m. isSameOrBefore startDate (ms_targetDate m) \<and> isSameOrAfter targetDate (ms_targetDate m))
            (p_milestones (ag_state p)))) (\<lambda>_.
       project_emit changedAt actorId eventId (ProjectRescheduled startDate targetDate) p))"

definition addGoal :: "string \<Rightarrow> int \<Rightarrow> string \<Rightarrow> string \<Rightarrow> project \<Rightarrow> project result" where
  "addGoal goalId addedAt actorId eventId p =
     bind_result (project_assertNotArchived p) (\<lambda>_.
     bind_result (isTrue ''Project already linked to a goal'' (p_goalId (ag_state p) = None)) (\<lambda>_.
     project_emit addedAt actorId eventId (ProjectGoalAdded goalId) p))"

definition removeGoal :: "int \<Rightarrow> string \<Rightarrow> string \<Rightarrow> project \<Rightarrow> project result" where
  "removeGoal removedAt actorId eventId p =
     bind_result (project_assertNotArchived p) (\<lambda>_.
     if p_goalId (ag_state p) = None then Inr p
     else project_emit removedAt actorId eventId ProjectGoalRemoved p)"

definition addMilestone :: "string \<Rightarrow> string \<Rightarrow> string \<Rightarrow> int \<Rightarrow> string \<Rightarrow> string \<Rightarrow> project \<Rightarrow> project result" where
  "addMilestone i nm targetDate addedAt actorId eventId p =
     bind_result (project_assertNotArchived p) (\<lambda>_.
     bind_result (assertDateWithinRange targetDate p) (\<lambda>_.
     bind_result (isFalse ''Duplicate milestone id''
       (list_ex (\<lambda>m. ms_id m = i) (p_milestones (ag_state p)))) (\<lambda>_.
     project_emit addedAt actorId eventId (ProjectMilestoneAdded i nm targetDate) p)))"

definition changeMilestoneName :: "string \<Rightarrow> string \<Rightarrow> int \<Rightarrow> string \<Rightarrow> string \<Rightarrow> project \<Rightarrow> project result" where
  "changeMilestoneName i nm changedAt actorId eventId p =
     bind_result (project_assertNotArchived p) (\<lambda>_.
     bind_result (findMilestone i (p_milestones (ag_state p))) (\<lambda>m.
     bind_result (isFalse ''Milestone name unchanged'' (ms_name m = nm)) (\<lambda>_.
     project_emit changedAt actorId eventId (ProjectMilestoneRenamed i nm) p)))"

definition changeMilestoneTargetDate ::
  "string \<Rightarrow> string \<Rightarrow> int \<Rightarrow> string \<Rightarrow> string \<Rightarrow> project \<Rightarrow> project result" where
  "changeMilestoneTargetDate i targetDate changedAt actorId eventId p =
     bind_result (project_assertNotArchived p) (\<lambda>_.
     bind_result (assertDateWithinRange targetDate p) (\<lambda>_.
     bind_result (findMilestone i (p_milestones (ag_state p))) (\<lambda>m.
     bind_result (isFalse ''Milestone target unchanged'' (ms_targetDate m = targetDate)) (\<lambda>_.
     project_emit changedAt actorId eventId (ProjectMilestoneRescheduled i targetDate) p))))"

definition archiveMilestone :: "string \<Rightarrow> int \<Rightarrow> string \<Rightarrow> string \<Rightarrow> project \<Rightarrow> project result" where
  "archiveMilestone i archivedAt actorId eventId p =
     bind_result (project_assertNotArchived p) (\<lambda>_.
     bind_result (findMilestone i (p_milestones (ag_state p))) (\<lambda>_.
     project_emit archivedAt actorId eventId (ProjectMilestoneArchived i) p))"

definition project_archive :: "int \<Rightarrow> string \<Rightarrow> string \<Rightarrow> project \<Rightarrow> project result" where
  "project_archive archivedAt actorId eventId p =
     bind_result (project_assertNotArchived p) (\<lambda>_.
     project_emit archivedAt actorId eventId ProjectArchived p)"

datatype project_command =
    ChangeName string int string string
  | ChangeDescription string int string string
  | ChangeStatus project_status int string string
  | ChangeDates string string int string string
  | AddGoal string int string string
  | RemoveGoal int string string
  | AddMilestone string string string int string string
  | ChangeMilestoneName string string int string string
  | ChangeMilestoneTargetDate string string int string string
  | ArchiveMilestone string int string string
  | ArchiveProject int string string

fun project_exec :: "project_command \<Rightarrow> project \<Rightarrow> project result" where
  "project_exec (ChangeName x t u i) p = changeName x t u i p"
| "project_exec (ChangeDescription x t u i) p = changeDescription x t u i p"
| "project_exec (ChangeStatus x t u i) p = changeStatus x t u i p"
| "project_exec (ChangeDates x y t u i) p = changeDates x y t u i p"
| "project_exec (AddGoal x t u i) p = addGoal x t u i p"
| "project_exec (RemoveGoal t u i) p = removeGoal t u i p"
| "project_exec (AddMilestone m x y t u i) p = addMilestone m x y t u i p"
| "project_exec (ChangeMilestoneName m x t u i) p = changeMilestoneName m x t u i p"
| "project_exec (ChangeMilestoneTargetDate m x t u i) p = changeMilestoneTargetDate m x t u i p"
| "project_exec (ArchiveMilestone m t u i) p = archiveMilestone m t u i p"
| "project_exec (ArchiveProject t u i) p = project_archive t u i p"

subsection \<open>Reconstitution\<close>

definition Project_reconstitute :: "string \<Rightarrow> domain_event list \<Rightarrow> project result" where
  "Project_reconstitute i evs = ar_reconstitute project_handle new_project_state i evs"

record project_snapshot =
  psn_id :: string
  psn_name :: string
  psn_status :: project_status
  psn_startDate :: string
  psn_targetDate :: string
  psn_description :: string
  psn_goalId :: "string option"
  psn_milestones :: "milestone list"
  psn_createdBy :: string
  psn_createdAt :: int
  psn_updatedAt :: int
  psn_archivedAt :: "int option"
  psn_version :: int

definition project_hydrateFromSnapshot :: "project_snapshot \<Rightarrow> project \<Rightarrow> project" where
  "project_hydrateFromSnapshot sn p =
     restoreVersion (psn_version sn) (p\<lparr>ag_state :=
       \<lparr>p_name = Some (psn_name sn), p_status = Some (psn_status sn), p_startDate = Some (psn_startDate sn),
        p_targetDate = Some (psn_targetDate sn), p_description = Some (psn_description sn),
        p_goalId = psn_goalId sn, p_milestones = psn_milestones sn, p_createdBy = Some (psn_createdBy sn),
        p_createdAt = Some (psn_createdAt sn), p_updatedAt = Some (psn_updatedAt sn),
        p_archivedAt = psn_archivedAt sn\<rparr>\<rparr>)"

definition Project_reconstituteFromSnapshot :: "project_snapshot \<Rightarrow> domain_event list \<Rightarrow> project result" where
  "Project_reconstituteFromSnapshot sn tail =
     bind_result (loadFromHistory project_handle tail
       (project_hydrateFromSnapshot sn (ar_new (psn_id sn) new_project_state))) (\<lambda>p.
     Inr (markEventsAsCommitted p))"

subsection \<open>Invariant\<close>

text \<open>
  A created project has all its attributes, starts on or before its target date, and has
  milestones with distinct ids that lie between the two.
\<close>

definition project_inv :: "project_state \<Rightarrow> bool" where
  "project_inv s \<longleftrightarrow> p_name s \<noteq> None \<and> p_status s \<noteq> None \<and> p_description s \<noteq> None \<and>
     p_createdBy s \<noteq> None \<and> p_createdAt s \<noteq> None \<and> p_updatedAt s \<noteq> None \<and>
     (\<exists>sd td. p_startDate s = Some sd \<and> p_targetDate s = Some td \<and> sd \<le> td \<and>
        (\<forall>m \<in> set (p_milestones s). sd \<le> ms_targetDate m \<and> ms_targetDate m \<le> td)) \<and>
     distinct (map ms_id (p_milestones s))"

lemma update_first_ids [simp]:
  "(\<And>m. ms_id (f m) = ms_id m) \<Longrightarrow> map ms_id (update_first i f ms) = map ms_id ms"
  by (induction ms) auto

lemma update_first_set: "m \<in> set (update_first i f ms) \<Longrightarrow> m \<in> set ms \<or> (\<exists>x \<in> set ms. m = f x)"
  by (induction ms) (auto split: if_splits)

lemma assertDateWithinRange_Inr:
  "assertDateWithinRange d p = Inr u \<longleftrightarrow> (\<exists>sd td. p_startDate (ag_state p) = Some sd \<and>
     p_targetDate (ag_state p) = Some td \<and> sd \<le> d \<and> d \<le> td)"
  by (auto simp: assertDateWithinRange_def bind_result_eq_Inr isTrue_def isSameOrBefore_def isSameOrAfter_def
      split: if_splits)

lemmas project_command_defs = changeName_def changeDescription_def changeStatus_def changeDates_def
  addGoal_def removeGoal_def addMilestone_def changeMilestoneName_def changeMilestoneTargetDate_def
  archiveMilestone_def project_archive_def

lemma project_exec_emits:
  assumes "project_exec c p = Inr p'"
  shows "p' = p \<or> (\<exists>t u i x. project_emit t u i x p = Inr p')"
  using assms by (cases c) (auto simp: project_command_defs bind_result_eq_Inr split: if_splits)

lemma project_handle_ProjectEvent [simp]:
  "ev_payload e = ProjectEvent x \<Longrightarrow> project_handle e s = on_project (ev_meta e) x s"
  by (simp add: project_handle_def)

lemma project_emit_Inr:
  "project_emit t u i x p = Inr p' \<longleftrightarrow>
     (\<exists>s. on_project (ev_meta (new_event (ag_id p) t i u (ProjectEvent x))) x (ag_state p) = Inr s \<and>
        p' = p\<lparr>ag_uncommitted := ag_uncommitted p @ [new_event (ag_id p) t i u (ProjectEvent x)],
               ag_state := s, ag_version := ag_version p + 1\<rparr>)"
  by (simp add: project_emit_def ar_apply_Inr)

lemma project_inv_milestones:
  assumes "project_inv s" and "map ms_id ms' = map ms_id (p_milestones s)"
    and "\<And>sd td. p_startDate s = Some sd \<Longrightarrow> p_targetDate s = Some td \<Longrightarrow>
       \<forall>m \<in> set (p_milestones s). sd \<le> ms_targetDate m \<and> ms_targetDate m \<le> td \<Longrightarrow>
       \<forall>m \<in> set ms'. sd \<le> ms_targetDate m \<and> ms_targetDate m \<le> td"
  shows "project_inv (s\<lparr>p_milestones := ms', p_updatedAt := Some t\<rparr>)"
proof -
  obtain sd td where d: "p_startDate s = Some sd" "p_targetDate s = Some td" "sd \<le> td"
    "\<forall>m \<in> set (p_milestones s). sd \<le> ms_targetDate m \<and> ms_targetDate m \<le> td"
    using assms(1) by (auto simp: project_inv_def)
  then show ?thesis
    using assms(1,2) assms(3) [OF d(1,2,4)] unfolding project_inv_def by simp
qed

lemma project_exec_inv:
  assumes inv: "project_inv (ag_state p)" and step: "project_exec c p = Inr p'"
  shows "project_inv (ag_state p')"
proof (cases c)
  case (ChangeMilestoneName m x t u i)
  have "project_inv ((ag_state p)\<lparr>p_milestones := update_first m (ms_name_update (\<lambda>_. x)) (p_milestones (ag_state p)),
      p_updatedAt := Some t\<rparr>)"
    using inv by (rule project_inv_milestones) (auto dest!: update_first_set)
  then show ?thesis
    using step ChangeMilestoneName by (auto simp: project_command_defs bind_result_eq_Inr project_emit_Inr)
next
  case (ChangeMilestoneTargetDate m x t u i)
  then have "\<exists>sd td. p_startDate (ag_state p) = Some sd \<and> p_targetDate (ag_state p) = Some td \<and> sd \<le> x \<and> x \<le> td"
    using step by (auto simp: project_command_defs bind_result_eq_Inr assertDateWithinRange_Inr)
  with inv have "project_inv ((ag_state p)\<lparr>p_milestones :=
      update_first m (ms_targetDate_update (\<lambda>_. x)) (p_milestones (ag_state p)), p_updatedAt := Some t\<rparr>)"
    by (intro project_inv_milestones) (auto dest!: update_first_set)
  then show ?thesis
    using step ChangeMilestoneTargetDate by (auto simp: project_command_defs bind_result_eq_Inr project_emit_Inr)
next
  case (AddMilestone m x y t u i)
  then show ?thesis
    using inv step
    by (auto simp: project_command_defs bind_result_eq_Inr project_emit_Inr project_inv_def isFalse_def
        assertDateWithinRange_Inr list_ex_iff)
next
  case (ChangeDates x y t u i)
  then show ?thesis
    using inv step
    by (auto simp: project_command_defs bind_result_eq_Inr project_emit_Inr project_inv_def isTrue_def
        isSameOrBefore_def isSameOrAfter_def list_all_iff split: if_splits)
qed (use inv step in \<open>auto simp: project_command_defs bind_result_eq_Inr project_emit_Inr project_inv_def
      split: if_splits intro: distinct_map_filter\<close>)

interpretation project_es: event_sourced project_handle project_exec project_inv
proof
  fix c and a a' :: project
  assume "project_exec c a = Inr a'"
  then show "a' = a \<or> (\<exists>e. ar_apply project_handle e a = Inr a' \<and> em_aggregateId (ev_meta e) = ag_id a)"
    using project_exec_emits [of c a a'] by (metis new_event_sel(2) project_emit_def)
qed (rule project_exec_inv)

end
