(* ===== verification/SharingDomain.thy ===== *)
theory SharingDomain
  imports Aggregate "HOL-Library.AList"
begin

text \<open>
  The aggregates of the sharing context (packages/domain/src/sharing/Scope.ts and
  ResourceGrant.ts). A JavaScript \<open>Map\<close> keeps its insertion order and overwrites in place: it
  is an association list updated with \<open>AList.update\<close>.
\<close>

subsection \<open>Scope\<close>

record scope_member =
  sm_userId :: string
  sm_role :: string
  sm_addedAt :: int
  sm_removedAt :: "int option"

record scope_state =
  sc_ownerUserId :: "string option"
  sc_scopeEpoch :: "int option"
  sc_members :: "(string \<times> scope_member) list"
  sc_createdBy :: "string option"
  sc_createdAt :: "int option"

type_synonym scope = "scope_state aggregate"

definition new_scope_state :: scope_state where
  "new_scope_state = \<lparr>sc_ownerUserId = None, sc_scopeEpoch = None, sc_members = [], sc_createdBy = None,
     sc_createdAt = None\<rparr>"

fun on_scope :: "event_metadata \<Rightarrow> scope_payload \<Rightarrow> scope_state \<Rightarrow> scope_state" where
  "on_scope m (ScopeCreated ow ep cb) s =
     s\<lparr>sc_ownerUserId := Some ow, sc_scopeEpoch := Some ep, sc_createdBy := Some cb,
       sc_createdAt := Some (em_occurredAt m)\<rparr>"
| "on_scope m (ScopeMemberAdded u r by_user) s =
     s\<lparr>sc_members := AList.update u
        \<lparr>sm_userId = u, sm_role = r, sm_addedAt = em_occurredAt m, sm_removedAt = None\<rparr> (sc_members s)\<rparr>"
| "on_scope m (ScopeMemberRemoved u reason by_user) s =
     (case map_of (sc_members s) u of
        None \<Rightarrow> s
      | Some mem \<Rightarrow> s\<lparr>sc_members :=
          AList.update u (mem\<lparr>sm_removedAt := Some (em_occurredAt m)\<rparr>) (sc_members s)\<rparr>)"
| "on_scope m (ScopeEpochRotated oldE newE reason by_user) s = s\<lparr>sc_scopeEpoch := Some newE\<rparr>"

definition scope_handle :: "scope_state handler" where
  "scope_handle e s =
     (case ev_payload e of
        ScopeEvent p \<Rightarrow> Inr (on_scope (ev_meta e) p s)
      | _ \<Rightarrow> Inl (Error ''No handler found for event type''))"

definition scope_emit :: "int \<Rightarrow> string \<Rightarrow> string \<Rightarrow> scope_payload \<Rightarrow> scope \<Rightarrow> scope result" where
  "scope_emit occurredAt actorId eventId x sc =
     ar_apply scope_handle (new_event (ag_id sc) occurredAt eventId actorId (ScopeEvent x)) sc"

text \<open>\<open>create\<close> emits two events: the creation and the owner's membership.\<close>

definition Scope_create :: "string \<Rightarrow> string \<Rightarrow> string \<Rightarrow> int \<Rightarrow> string \<Rightarrow> string \<Rightarrow> scope result" where
  "Scope_create i ownerUserId createdBy createdAt eventId eventId' =
     bind_result (scope_emit createdAt createdBy eventId (ScopeCreated ownerUserId 0 createdBy)
       (ar_new i new_scope_state)) (\<lambda>sc.
     scope_emit createdAt createdBy eventId' (ScopeMemberAdded ownerUserId ''owner'' createdBy) sc)"

definition activeMembers :: "scope \<Rightarrow> scope_member list" where
  "activeMembers sc = filter (\<lambda>m. sm_removedAt m = None) (map snd (sc_members (ag_state sc)))"

definition addMember :: "string \<Rightarrow> string \<Rightarrow> int \<Rightarrow> string \<Rightarrow> string \<Rightarrow> scope \<Rightarrow> scope result" where
  "addMember memberId role addedAt actorId eventId sc =
     bind_result (isTrue ''Cannot add member: user is already an active member''
       (case map_of (sc_members (ag_state sc)) memberId of None \<Rightarrow> True | Some m \<Rightarrow> sm_removedAt m \<noteq> None)) (\<lambda>_.
     scope_emit addedAt actorId eventId (ScopeMemberAdded memberId role actorId) sc)"

definition removeMember :: "string \<Rightarrow> string \<Rightarrow> int \<Rightarrow> string \<Rightarrow> string \<Rightarrow> scope \<Rightarrow> scope result" where
  "removeMember memberId reason removedAt actorId eventId sc =
     bind_result (isDefined ''OwnerUserId'' (sc_ownerUserId (ag_state sc))) (\<lambda>owner.
     bind_result (isFalse ''Cannot remove owner from scope'' (memberId = owner)) (\<lambda>_.
     bind_result (isDefined ''Member not found'' (map_of (sc_members (ag_state sc)) memberId)) (\<lambda>m.
     bind_result (isNull ''Member is not active'' (sm_removedAt m)) (\<lambda>_.
     scope_emit removedAt actorId eventId (ScopeMemberRemoved memberId reason actorId) sc))))"

definition rotateEpoch :: "string \<Rightarrow> int \<Rightarrow> string \<Rightarrow> string \<Rightarrow> scope \<Rightarrow> scope result" where
  "rotateEpoch reason rotatedAt actorId eventId sc =
     bind_result (isDefined ''ScopeEpoch'' (sc_scopeEpoch (ag_state sc))) (\<lambda>oldEpoch.
     bind_result (ScopeEpoch_increment oldEpoch) (\<lambda>newEpoch.
     scope_emit rotatedAt actorId eventId (ScopeEpochRotated oldEpoch newEpoch reason actorId) sc))"

datatype scope_command =
    AddMember string string int string string
  | RemoveMember string string int string string
  | RotateEpoch string int string string

fun scope_exec :: "scope_command \<Rightarrow> scope \<Rightarrow> scope result" where
  "scope_exec (AddMember m r t u i) sc = addMember m r t u i sc"
| "scope_exec (RemoveMember m r t u i) sc = removeMember m r t u i sc"
| "scope_exec (RotateEpoch r t u i) sc = rotateEpoch r t u i sc"

definition Scope_reconstitute :: "string \<Rightarrow> domain_event list \<Rightarrow> scope result" where
  "Scope_reconstitute i evs = ar_reconstitute scope_handle new_scope_state i evs"

record scope_snapshot =
  scs_id :: string
  scs_ownerUserId :: string
  scs_scopeEpoch :: int
  scs_members :: "scope_member list"
  scs_createdBy :: string
  scs_createdAt :: int
  scs_version :: int

text \<open>\<open>new Map(entries)\<close>: a later entry of the same key overwrites an earlier one.\<close>

definition map_from_entries :: "(string \<times> 'a) list \<Rightarrow> (string \<times> 'a) list" where
  "map_from_entries es = fold (\<lambda>(k, v) m. AList.update k v m) es []"

definition scope_hydrateFromSnapshot :: "scope_snapshot \<Rightarrow> scope \<Rightarrow> scope" where
  "scope_hydrateFromSnapshot sn sc =
     restoreVersion (scs_version sn) (sc\<lparr>ag_state :=
       \<lparr>sc_ownerUserId = Some (scs_ownerUserId sn), sc_scopeEpoch = Some (scs_scopeEpoch sn),
        sc_members = map_from_entries (map (\<lambda>m. (sm_userId m, m)) (scs_members sn)),
        sc_createdBy = Some (scs_createdBy sn), sc_createdAt = Some (scs_createdAt sn)\<rparr>\<rparr>)"

definition Scope_reconstituteFromSnapshot :: "scope_snapshot \<Rightarrow> domain_event list \<Rightarrow> scope result" where
  "Scope_reconstituteFromSnapshot sn tail =
     bind_result (loadFromHistory scope_handle tail
       (scope_hydrateFromSnapshot sn (ar_new (scs_id sn) new_scope_state))) (\<lambda>sc.
     Inr (markEventsAsCommitted sc))"

text \<open>
  The owner is an active member, the epoch is not negative, and the member map is keyed by the
  members' ids.
\<close>

definition scope_agg_inv :: "scope_state \<Rightarrow> bool" where
  "scope_agg_inv s \<longleftrightarrow> distinct (map fst (sc_members s)) \<and> (\<forall>(k, m) \<in> set (sc_members s). sm_userId m = k) \<and>
     (\<exists>ow ep m. sc_ownerUserId s = Some ow \<and> sc_scopeEpoch s = Some ep \<and> 0 \<le> ep \<and>
        map_of (sc_members s) ow = Some m \<and> sm_removedAt m = None)"

lemma update_keyed:
  "\<forall>(k, m) \<in> set al. f m = k \<Longrightarrow> f v = k0 \<Longrightarrow> \<forall>(k, m) \<in> set (AList.update k0 v al). f m = k"
  by (induction al) auto

lemma map_of_keyed: "\<forall>(k, m) \<in> set al. f m = k \<Longrightarrow> map_of al k0 = Some v \<Longrightarrow> f v = k0"
  by (auto dest!: map_of_SomeD)

lemma scope_handle_ScopeEvent [simp]:
  "ev_payload e = ScopeEvent x \<Longrightarrow> scope_handle e s = Inr (on_scope (ev_meta e) x s)"
  by (simp add: scope_handle_def)

lemmas scope_command_defs = addMember_def removeMember_def rotateEpoch_def ScopeEpoch_increment_def ScopeEpoch_from_def

lemma scope_emit_Inr:
  "scope_emit t u i x sc = Inr sc' \<longleftrightarrow>
     sc' = sc\<lparr>ag_uncommitted := ag_uncommitted sc @ [new_event (ag_id sc) t i u (ScopeEvent x)],
              ag_state := on_scope (ev_meta (new_event (ag_id sc) t i u (ScopeEvent x))) x (ag_state sc),
              ag_version := ag_version sc + 1\<rparr>"
  by (auto simp: scope_emit_def ar_apply_Inr)

lemma scope_exec_emits:
  "scope_exec c sc = Inr sc' \<Longrightarrow> \<exists>t u i x. scope_emit t u i x sc = Inr sc'"
  by (cases c) (auto simp: scope_command_defs bind_result_eq_Inr)

lemma scope_agg_inv_member:
  assumes "scope_agg_inv s" and "sm_userId m = u" and "sc_ownerUserId s = Some u \<longrightarrow> sm_removedAt m = None"
  shows "scope_agg_inv (s\<lparr>sc_members := AList.update u m (sc_members s)\<rparr>)"
proof -
  obtain ow ep m0 where ow: "sc_ownerUserId s = Some ow" "sc_scopeEpoch s = Some ep" "0 \<le> ep"
    "map_of (sc_members s) ow = Some m0" "sm_removedAt m0 = None"
    using assms(1) by (auto simp: scope_agg_inv_def)
  have "\<exists>m'. map_of (AList.update u m (sc_members s)) ow = Some m' \<and> sm_removedAt m' = None"
    using ow assms(3) by (cases "ow = u") (simp_all add: update_conv')
  then show ?thesis
    using assms(1,2) ow update_keyed [of "sc_members s" sm_userId m u]
    by (simp add: scope_agg_inv_def distinct_update)
qed

lemma scope_exec_inv:
  assumes inv: "scope_agg_inv (ag_state sc)" and step: "scope_exec c sc = Inr sc'"
  shows "scope_agg_inv (ag_state sc')"
proof (cases c)
  case (AddMember m r t u i)
  then show ?thesis
    using step scope_agg_inv_member [OF inv, of "\<lparr>sm_userId = m, sm_role = r, sm_addedAt = t, sm_removedAt = None\<rparr>" m]
    by (auto simp: scope_command_defs bind_result_eq_Inr scope_emit_Inr)
next
  case (RemoveMember m r t u i)
  then obtain mem where "map_of (sc_members (ag_state sc)) m = Some mem"
    and ow: "sc_ownerUserId (ag_state sc) \<noteq> Some m"
    using step by (auto simp: scope_command_defs bind_result_eq_Inr isFalse_def)
  moreover from this have "sm_userId mem = m"
    using inv map_of_keyed [of "sc_members (ag_state sc)" sm_userId m mem] by (simp add: scope_agg_inv_def)
  ultimately show ?thesis
    using RemoveMember step scope_agg_inv_member [OF inv, of "mem\<lparr>sm_removedAt := Some t\<rparr>" m]
    by (auto simp: scope_command_defs bind_result_eq_Inr scope_emit_Inr)
next
  case (RotateEpoch r t u i)
  then show ?thesis
    using inv step by (auto simp: scope_command_defs bind_result_eq_Inr scope_emit_Inr scope_agg_inv_def)
qed

interpretation scope_es: event_sourced scope_handle scope_exec scope_agg_inv
proof
  fix c and a a' :: scope
  assume "scope_exec c a = Inr a'"
  then show "a' = a \<or> (\<exists>e. ar_apply scope_handle e a = Inr a' \<and> em_aggregateId (ev_meta e) = ag_id a)"
    using scope_exec_emits [of c a a'] by (metis new_event_sel(2) scope_emit_def)
qed (rule scope_exec_inv)

subsection \<open>Resource grants\<close>

datatype grant_life = ActiveGrant | RevokedGrant

record resource_grant_state =
  rg_scopeId :: "string option"
  rg_resourceId :: "string option"
  rg_scopeEpoch :: "int option"
  rg_resourceKeyId :: "string option"
  rg_wrappedKey :: "bytes option"
  rg_status :: grant_life
  rg_grantedBy :: "string option"
  rg_grantedAt :: "int option"
  rg_revokedBy :: "string option"
  rg_revokedAt :: "int option"

type_synonym resource_grant = "resource_grant_state aggregate"

definition new_grant_state :: resource_grant_state where
  "new_grant_state = \<lparr>rg_scopeId = None, rg_resourceId = None, rg_scopeEpoch = None, rg_resourceKeyId = None,
     rg_wrappedKey = None, rg_status = ActiveGrant, rg_grantedBy = None, rg_grantedAt = None,
     rg_revokedBy = None, rg_revokedAt = None\<rparr>"

fun on_grant :: "event_metadata \<Rightarrow> grant_payload \<Rightarrow> resource_grant_state \<Rightarrow> resource_grant_state" where
  "on_grant m (ResourceGranted sid rid ep kid wk by_user) s =
     s\<lparr>rg_scopeId := Some sid, rg_resourceId := Some rid, rg_scopeEpoch := Some ep,
       rg_resourceKeyId := Some kid, rg_wrappedKey := Some wk, rg_status := ActiveGrant,
       rg_grantedBy := Some by_user, rg_grantedAt := Some (em_occurredAt m)\<rparr>"
| "on_grant m (ResourceRevoked sid rid reason by_user) s =
     s\<lparr>rg_status := RevokedGrant, rg_revokedBy := Some by_user, rg_revokedAt := Some (em_occurredAt m)\<rparr>"

definition grant_handle :: "resource_grant_state handler" where
  "grant_handle e s =
     (case ev_payload e of
        GrantEvent p \<Rightarrow> Inr (on_grant (ev_meta e) p s)
      | _ \<Rightarrow> Inl (Error ''No handler found for event type''))"

definition grant_emit :: "int \<Rightarrow> string \<Rightarrow> string \<Rightarrow> grant_payload \<Rightarrow> resource_grant \<Rightarrow> resource_grant result" where
  "grant_emit occurredAt actorId eventId x g =
     ar_apply grant_handle (new_event (ag_id g) occurredAt eventId actorId (GrantEvent x)) g"

definition ResourceGrant_create ::
  "string \<Rightarrow> string \<Rightarrow> string \<Rightarrow> int \<Rightarrow> string \<Rightarrow> bytes \<Rightarrow> string \<Rightarrow> int \<Rightarrow> string \<Rightarrow> resource_grant result" where
  "ResourceGrant_create i scopeId resourceId scopeEpoch resourceKeyId wrappedKey grantedBy grantedAt eventId =
     bind_result (isNonEmpty ''ResourceKeyId'' resourceKeyId) (\<lambda>_.
     bind_result (isTrue ''WrappedKey cannot be empty'' (0 < length wrappedKey)) (\<lambda>_.
     grant_emit grantedAt grantedBy eventId
       (ResourceGranted scopeId resourceId scopeEpoch resourceKeyId wrappedKey grantedBy)
       (ar_new i new_grant_state)))"

definition revoke :: "string \<Rightarrow> int \<Rightarrow> string \<Rightarrow> string \<Rightarrow> resource_grant \<Rightarrow> resource_grant result" where
  "revoke reason revokedAt actorId eventId g =
     bind_result (isFalse ''Cannot revoke: grant is already revoked'' (rg_status (ag_state g) = RevokedGrant)) (\<lambda>_.
     bind_result (isDefined ''ScopeId'' (rg_scopeId (ag_state g))) (\<lambda>scopeId.
     bind_result (isDefined ''ResourceId'' (rg_resourceId (ag_state g))) (\<lambda>resourceId.
     grant_emit revokedAt actorId eventId (ResourceRevoked scopeId resourceId reason actorId) g)))"

record revoke_params =
  rv_reason :: string
  rv_revokedAt :: int
  rv_actorId :: string
  rv_eventId :: string

definition grant_exec :: "revoke_params \<Rightarrow> resource_grant \<Rightarrow> resource_grant result" where
  "grant_exec c g = revoke (rv_reason c) (rv_revokedAt c) (rv_actorId c) (rv_eventId c) g"

definition ResourceGrant_reconstitute :: "string \<Rightarrow> domain_event list \<Rightarrow> resource_grant result" where
  "ResourceGrant_reconstitute i evs = ar_reconstitute grant_handle new_grant_state i evs"

record grant_snapshot =
  rgs_id :: string
  rgs_scopeId :: string
  rgs_resourceId :: string
  rgs_scopeEpoch :: int
  rgs_resourceKeyId :: string
  rgs_wrappedKey :: bytes
  rgs_status :: grant_life
  rgs_grantedBy :: string
  rgs_grantedAt :: int
  rgs_revokedBy :: "string option"
  rgs_revokedAt :: "int option"
  rgs_version :: int

definition grant_hydrateFromSnapshot :: "grant_snapshot \<Rightarrow> resource_grant \<Rightarrow> resource_grant" where
  "grant_hydrateFromSnapshot sn g =
     restoreVersion (rgs_version sn) (g\<lparr>ag_state :=
       \<lparr>rg_scopeId = Some (rgs_scopeId sn), rg_resourceId = Some (rgs_resourceId sn),
        rg_scopeEpoch = Some (rgs_scopeEpoch sn), rg_resourceKeyId = Some (rgs_resourceKeyId sn),
        rg_wrappedKey = Some (rgs_wrappedKey sn), rg_status = rgs_status sn,
        rg_grantedBy = Some (rgs_grantedBy sn), rg_grantedAt = Some (rgs_grantedAt sn),
        rg_revokedBy = rgs_revokedBy sn, rg_revokedAt = rgs_revokedAt sn\<rparr>\<rparr>)"

definition ResourceGrant_reconstituteFromSnapshot ::
  "grant_snapshot \<Rightarrow> domain_event list \<Rightarrow> resource_grant result" where
  "ResourceGrant_reconstituteFromSnapshot sn tail =
     bind_result (loadFromHistory grant_handle tail
       (grant_hydrateFromSnapshot sn (ar_new (rgs_id sn) new_grant_state))) (\<lambda>g.
     Inr (markEventsAsCommitted g))"

definition grant_agg_inv :: "resource_grant_state \<Rightarrow> bool" where
  "grant_agg_inv s \<longleftrightarrow> rg_scopeId s \<noteq> None \<and> rg_resourceId s \<noteq> None \<and> rg_scopeEpoch s \<noteq> None \<and>
     (\<exists>k w. rg_resourceKeyId s = Some k \<and> k \<noteq> [] \<and> rg_wrappedKey s = Some w \<and> w \<noteq> []) \<and>
     (rg_status s = RevokedGrant \<longleftrightarrow> rg_revokedAt s \<noteq> None)"

lemma grant_handle_GrantEvent [simp]:
  "ev_payload e = GrantEvent x \<Longrightarrow> grant_handle e s = Inr (on_grant (ev_meta e) x s)"
  by (simp add: grant_handle_def)

lemma grant_exec_Inr:
  assumes "grant_exec c g = Inr g'"
  obtains x where "ar_apply grant_handle (new_event (ag_id g) (rv_revokedAt c) (rv_eventId c) (rv_actorId c)
      (GrantEvent x)) g = Inr g'" "ag_state g' = (ag_state g)\<lparr>rg_status := RevokedGrant,
      rg_revokedBy := Some (rv_actorId c), rg_revokedAt := Some (rv_revokedAt c)\<rparr>"
  using assms by (auto simp: grant_exec_def revoke_def bind_result_eq_Inr grant_emit_def ar_apply_Inr)

interpretation grant_es: event_sourced grant_handle grant_exec grant_agg_inv
proof
  fix c and a a' :: resource_grant
  assume "grant_exec c a = Inr a'"
  then show "a' = a \<or> (\<exists>e. ar_apply grant_handle e a = Inr a' \<and> em_aggregateId (ev_meta e) = ag_id a)"
    by (rule grant_exec_Inr) (metis new_event_sel(2))
next
  fix c and a a' :: resource_grant
  assume "grant_agg_inv (ag_state a)" and "grant_exec c a = Inr a'"
  then show "grant_agg_inv (ag_state a')" by (auto elim!: grant_exec_Inr simp: grant_agg_inv_def)
qed

end
