(* ===== verification/DomainProperties.thy ===== *)
theory DomainProperties
  imports Goal Project SharingDomain
begin

text \<open>
  Properties of the domain aggregates, obtained from the contract \<open>event_sourced\<close> and the
  invariants of the single aggregates.
\<close>

subsection \<open>Event sourcing\<close>

lemma Goal_create_loaded:
  assumes "Goal_create i sl su mo pr u t e = Inr g"
  shows "loadFromHistory goal_handle (ag_uncommitted g) (ar_new i new_goal_state) = Inr (markEventsAsCommitted g)"
    and "goal_inv (ag_state g)"
  using created_by_one_event [OF assms [unfolded Goal_create_def goal_emit_def]] assms
  by (auto simp: Goal_create_def goal_emit_def ar_apply_Inr ar_new_def goal_inv_def new_goal_state_def)

lemma Project_create_loaded:
  assumes "Project_create i nm st sd td de gl u t e = Inr p"
  shows "loadFromHistory project_handle (ag_uncommitted p) (ar_new i new_project_state) = Inr (markEventsAsCommitted p)"
    and "project_inv (ag_state p)"
proof -
  have emit: "project_emit t u e (ProjectCreated nm st sd td de gl u) (ar_new i new_project_state) = Inr p"
    and "sd \<le> td"
    using assms by (auto simp: Project_create_def isSameOrBefore_def split: if_splits)
  then show "project_inv (ag_state p)"
    by (auto simp: project_emit_Inr ar_new_def new_project_state_def project_inv_def)
  show "loadFromHistory project_handle (ag_uncommitted p) (ar_new i new_project_state) = Inr (markEventsAsCommitted p)"
    using emit by (intro created_by_one_event) (simp add: project_emit_def)
qed

text \<open>
  C17: a goal is what its events say. After its creation and any sequence of commands, those that
  threw included, replaying the events the goal has emitted gives the same goal, its version is
  the number of those events, all of its attributes are set, and no user holds two active access
  entries.
\<close>

theorem goal_replay:
  "\<exists>g. Goal_create i sl su mo pr createdBy createdAt eventId = Inr g \<and>
     (let g' = run_commands goal_exec cs g in
        Goal_reconstitute i (ag_uncommitted g') = Inr (markEventsAsCommitted g') \<and>
        ag_version g' = int (length (ag_uncommitted g')) \<and>
        goal_inv (ag_state g'))"
proof -
  obtain g where g: "Goal_create i sl su mo pr createdBy createdAt eventId = Inr g"
    by (simp add: Goal_create_def goal_emit_def ar_apply_def)
  then show ?thesis
    using goal_es.replay_created [OF Goal_create_loaded(1) [OF g], of cs]
      goal_es.run_inv [OF Goal_create_loaded(2) [OF g], of cs]
    by (simp add: Goal_reconstitute_def Let_def)
qed

text \<open>
  C18: the same for a project; moreover, after any sequence of commands it starts on or before its
  target date, its milestones have distinct ids, and every milestone lies between the two dates.
\<close>

theorem project_replay:
  assumes "isSameOrBefore startDate targetDate"
  shows "\<exists>p. Project_create i nm st startDate targetDate de goalId createdBy createdAt eventId = Inr p \<and>
     (let p' = run_commands project_exec cs p; s = ag_state p' in
        Project_reconstitute i (ag_uncommitted p') = Inr (markEventsAsCommitted p') \<and>
        ag_version p' = int (length (ag_uncommitted p')) \<and>
        distinct (map ms_id (p_milestones s)) \<and>
        (\<exists>sd td. p_startDate s = Some sd \<and> p_targetDate s = Some td \<and> isSameOrBefore sd td \<and>
           (\<forall>m \<in> set (p_milestones s). isSameOrBefore sd (ms_targetDate m) \<and> isSameOrAfter td (ms_targetDate m))))"
proof -
  obtain p where p: "Project_create i nm st startDate targetDate de goalId createdBy createdAt eventId = Inr p"
    using assms by (simp add: Project_create_def project_emit_def ar_apply_def)
  have "project_inv (ag_state (run_commands project_exec cs p))"
    by (rule project_es.run_inv [OF Project_create_loaded(2) [OF p]])
  then show ?thesis
    using project_es.replay_created [OF Project_create_loaded(1) [OF p], of cs] p
    by (auto simp: Project_reconstitute_def Let_def project_inv_def isSameOrBefore_def isSameOrAfter_def)
qed

theorem project_replay_witness:
  "\<exists>p. Project_create ''p'' ''House'' Planned ''2025-01-01'' ''2025-12-31'' '''' None ''me'' 1 ''e1'' = Inr p \<and>
     (let p' = run_commands project_exec
         [AddMilestone ''m1'' ''Roof'' ''2025-06-01'' 2 ''me'' ''e2'', ChangeDates ''2025-07-01'' ''2025-12-31'' 3 ''me'' ''e3''] p
      in Project_reconstitute ''p'' (ag_uncommitted p') = Inr (markEventsAsCommitted p'))"
  using project_replay [of "''2025-01-01''" "''2025-12-31''" "''p''" "''House''" Planned "''''" None "''me''" 1 "''e1''"
      "[AddMilestone ''m1'' ''Roof'' ''2025-06-01'' 2 ''me'' ''e2'', ChangeDates ''2025-07-01'' ''2025-12-31'' 3 ''me'' ''e3'']"]
  by (auto simp: isSameOrBefore_def Let_def)

lemma Scope_create_loaded:
  assumes "Scope_create i ow u t e e' = Inr sc"
  shows "loadFromHistory scope_handle (ag_uncommitted sc) (ar_new i new_scope_state) = Inr (markEventsAsCommitted sc)"
    and "scope_agg_inv (ag_state sc)"
  using assms
  by (auto simp: Scope_create_def bind_result_eq_Inr scope_emit_Inr ar_new_def new_scope_state_def
      loadFromHistory_def load_event_def markEventsAsCommitted_def scope_agg_inv_def)

definition is_rotation :: "domain_event \<Rightarrow> bool" where
  "is_rotation e \<longleftrightarrow> (case ev_payload e of ScopeEvent (ScopeEpochRotated _ _ _ _) \<Rightarrow> True | _ \<Rightarrow> False)"

definition rotations :: "scope \<Rightarrow> int" where
  "rotations sc = int (length (filter is_rotation (ag_uncommitted sc)))"

lemma scope_epoch_step:
  assumes "scope_exec c sc = Inr sc'" and "sc_scopeEpoch (ag_state sc) = Some (rotations sc)"
  shows "sc_scopeEpoch (ag_state sc') = Some (rotations sc')"
  using assms
  by (cases c) (auto simp: scope_command_defs bind_result_eq_Inr scope_emit_Inr rotations_def is_rotation_def
      split: option.splits)

lemma scope_epoch_run:
  "sc_scopeEpoch (ag_state sc) = Some (rotations sc) \<Longrightarrow>
     sc_scopeEpoch (ag_state (run_commands scope_exec cs sc)) = Some (rotations (run_commands scope_exec cs sc))"
  unfolding run_commands_def by (induction cs arbitrary: sc) (auto split: sum.split intro: scope_epoch_step)

text \<open>
  A scope is what its events say; its owner stays an active member whatever the commands,
  and its epoch is the number of key rotations among its events.
\<close>

theorem scope_replay:
  "\<exists>sc. Scope_create i ownerUserId createdBy createdAt eventId eventId' = Inr sc \<and>
     (let sc' = run_commands scope_exec cs sc; s = ag_state sc' in
        Scope_reconstitute i (ag_uncommitted sc') = Inr (markEventsAsCommitted sc') \<and>
        sc_scopeEpoch s = Some (rotations sc') \<and>
        (\<exists>ow m. sc_ownerUserId s = Some ow \<and> m \<in> set (activeMembers sc') \<and> sm_userId m = ow))"
proof -
  obtain sc where sc: "Scope_create i ownerUserId createdBy createdAt eventId eventId' = Inr sc"
    by (simp add: Scope_create_def scope_emit_def ar_apply_def)
  let ?r = "run_commands scope_exec cs sc"
  have "sc_scopeEpoch (ag_state sc) = Some (rotations sc)"
    using sc by (auto simp: Scope_create_def bind_result_eq_Inr scope_emit_Inr ar_new_def rotations_def is_rotation_def)
  then have epoch: "sc_scopeEpoch (ag_state ?r) = Some (rotations ?r)" by (rule scope_epoch_run)
  have inv: "scope_agg_inv (ag_state ?r)" by (rule scope_es.run_inv [OF Scope_create_loaded(2) [OF sc]])
  then obtain ow m where ow: "sc_ownerUserId (ag_state ?r) = Some ow" "map_of (sc_members (ag_state ?r)) ow = Some m"
    "sm_removedAt m = None" by (auto simp: scope_agg_inv_def)
  then have "sm_userId m = ow" "m \<in> set (activeMembers ?r)"
    using inv map_of_SomeD [OF ow(2)] by (force simp: scope_agg_inv_def activeMembers_def)+
  then show ?thesis
    using sc epoch ow scope_es.replay_created(1) [OF Scope_create_loaded(1) [OF sc], of cs]
    by (auto simp: Scope_reconstitute_def Let_def)
qed

subsection \<open>Archived aggregates\<close>

text \<open>
  An archived goal or project never changes again. Every command throws the archive
  error, except that archiving a goal twice is accepted and does nothing, so a whole session
  leaves the aggregate and its list of uncommitted events as they were.
\<close>

theorem archived_is_final:
  assumes "g_archivedAt (ag_state g) \<noteq> None" and "p_archivedAt (ag_state p) \<noteq> None"
  shows "run_commands goal_exec cs g = g \<and> run_commands project_exec ds p = p \<and>
     project_exec d p = Inl (AssertError ''Project is archived'' ''must be false'') \<and>
     (case c of Archive _ _ _ \<Rightarrow> goal_exec c g = Inr g
      | _ \<Rightarrow> goal_exec c g = Inl (AssertError ''Goal is archived'' ''must be null''))"
proof -
  obtain y z where y: "g_archivedAt (ag_state g) = Some y" and z: "p_archivedAt (ag_state p) = Some z"
    using assms by auto
  have goal: "case c of Archive _ _ _ \<Rightarrow> goal_exec c g = Inr g
      | _ \<Rightarrow> goal_exec c g = Inl (AssertError ''Goal is archived'' ''must be null'')" for c
    using y by (cases c) (simp_all add: goal_command_defs isNull_def)
  have project: "project_exec d p = Inl (AssertError ''Project is archived'' ''must be false'')" for d
    using z by (cases d) (simp_all add: project_command_defs project_assertNotArchived_def isFalse_def)
  have "run_commands goal_exec cs g = g" unfolding run_commands_def
  proof (induction cs)
    case (Cons c cs)
    then show ?case using goal [of c] by (cases c) simp_all
  qed simp
  moreover have "run_commands project_exec ds p = p"
    unfolding run_commands_def by (induction ds) (simp_all add: project)
  ultimately show ?thesis using goal [of c] project [of d] by blast
qed

definition sample_archived_goal :: goal where
  "sample_archived_goal = (ar_new ''g'' new_goal_state)\<lparr>ag_state := new_goal_state\<lparr>g_archivedAt := Some 9\<rparr>\<rparr>"

definition sample_archived_project :: project where
  "sample_archived_project = (ar_new ''p'' new_project_state)\<lparr>ag_state := new_project_state\<lparr>p_archivedAt := Some 9\<rparr>\<rparr>"

theorem archived_is_final_witness:
  "run_commands goal_exec [Archive 1 ''me'' ''e1'', Achieve 2 ''me'' None None ''e2''] sample_archived_goal
     = sample_archived_goal \<and>
   goal_exec (ChangeSlice Work 3 ''me'' ''e3'') sample_archived_goal
     = Inl (AssertError ''Goal is archived'' ''must be null'')"
  using archived_is_final [of sample_archived_goal sample_archived_project
      "[Archive 1 ''me'' ''e1'', Achieve 2 ''me'' None None ''e2'']" "[]" "ArchiveProject 1 ''me'' ''e4''"
      "ChangeSlice Work 3 ''me'' ''e3''"]
  by (simp add: sample_archived_goal_def sample_archived_project_def)

subsection \<open>Access to goals\<close>

text \<open>
  Granting and revoking access do what they say. A successful grant makes the user hold
  exactly one active entry with the permission, and a second grant is refused until the access is
  revoked; a successful revocation leaves the user without an active entry and every other
  user's access as it was.
\<close>

theorem access_control:
  assumes inv: "goal_inv (ag_state g)"
  shows "(grantAccess u perm t actor e g = Inr g' \<longrightarrow>
       map_option ae_permission (active_entry u (g_accessList (ag_state g'))) = Some perm \<and>
       (\<exists>err. grantAccess u perm' t' actor' e' g' = Inl err)) \<and>
     (revokeAccess u t actor e g = Inr g'' \<longrightarrow>
       active_entry u (g_accessList (ag_state g'')) = None \<and>
       (\<forall>v. v \<noteq> u \<longrightarrow> active_entry v (g_accessList (ag_state g'')) = active_entry v (g_accessList (ag_state g))))"
proof (intro conjI impI)
  assume grant: "grantAccess u perm t actor e g = Inr g'"
  then have state: "g_accessList (ag_state g') = g_accessList (ag_state g) @
      [\<lparr>ae_userId = u, ae_permission = perm, ae_grantedAt = t, ae_revokedAt = None\<rparr>]"
    and none: "active_entry u (g_accessList (ag_state g)) = None"
    by (auto simp: grantAccess_def goal_emit_def bind_result_eq_Inr ar_apply_Inr)
  then show perm: "map_option ae_permission (active_entry u (g_accessList (ag_state g'))) = Some perm"
    by (simp add: active_entry_def find_append isActive_def)
  then show "\<exists>err. grantAccess u perm' t' actor' e' g' = Inl err"
    by (auto simp: grantAccess_def bind_result_eq_Inl goal_assertNotArchived_def isNull_def guard_result_def)
next
  assume "revokeAccess u t actor e g = Inr g''"
  then have state: "g_accessList (ag_state g'') = revoke_first u t (g_accessList (ag_state g))"
    by (auto simp: revokeAccess_def goal_emit_def bind_result_eq_Inr ar_apply_Inr)
  then show "active_entry u (g_accessList (ag_state g'')) = None"
    using inv revoke_first_gone by (simp add: goal_inv_def)
  have "active_entry v (revoke_first u t es) = active_entry v es" if "v \<noteq> u" for v es
    using that by (induction es) (auto simp: active_entry_def)
  then show "\<forall>v. v \<noteq> u \<longrightarrow> active_entry v (g_accessList (ag_state g'')) = active_entry v (g_accessList (ag_state g))"
    using state by simp
qed

definition sample_goal :: goal where
  "sample_goal = (ar_new ''g'' new_goal_state)\<lparr>ag_state := new_goal_state\<lparr>g_slice := Some Work,
     g_summary := Some ''Run'', g_targetMonth := Some \<lparr>mo_year = 2025, mo_month = 6\<rparr>, g_priority := Some Must,
     g_createdBy := Some ''me'', g_createdAt := Some 1\<rparr>, ag_version := 1\<rparr>"

theorem access_control_witness:
  "\<exists>g'. grantAccess ''you'' EditAccess 2 ''me'' ''e2'' sample_goal = Inr g' \<and>
     map_option ae_permission (active_entry ''you'' (g_accessList (ag_state g'))) = Some EditAccess"
proof -
  have inv: "goal_inv (ag_state sample_goal)"
    by (simp add: sample_goal_def goal_inv_def ar_new_def new_goal_state_def)
  obtain g' where "grantAccess ''you'' EditAccess 2 ''me'' ''e2'' sample_goal = Inr g'"
    by (simp add: grantAccess_def goal_assertNotArchived_def isNull_def sample_goal_def new_goal_state_def
        active_entry_def goal_emit_def ar_apply_def)
  then show ?thesis
    using access_control [OF inv, of "''you''" EditAccess 2 "''me''" "''e2''" g'] by auto
qed

text \<open>
  A snapshot forgets who has access. Restoring a goal from a snapshot and no later events
  always gives an empty access list: revoking the access of any user is refused, and unless the
  goal is archived access can be granted to any user, one who already had it included.
\<close>

lemma snapshot_forgets_access:
  "\<exists>g. Goal_reconstituteFromSnapshot sn [] = Inr g \<and> g_accessList (ag_state g) = [] \<and>
     (\<exists>err. revokeAccess u t actor e g = Inl err) \<and>
     (case gs_archivedAt sn of
        None \<Rightarrow> \<exists>g'. grantAccess u perm t actor e g = Inr g'
      | Some _ \<Rightarrow> \<exists>err. grantAccess u perm t actor e g = Inl err)"
  by (auto split: option.split simp: Goal_reconstituteFromSnapshot_def goal_hydrateFromSnapshot_def restoreVersion_def
      markEventsAsCommitted_def ar_new_def revokeAccess_def grantAccess_def goal_assertNotArchived_def isNull_def
      active_entry_def isDefined_def goal_emit_def ar_apply_def bind_result_eq_Inl guard_result_def)

end
