(* ===== verification/EventCodec.thy ===== *)
theory EventCodec
  imports Events RecordCodec
begin

text \<open>
  Persisted form of the domain events: the field mappers of
  packages/domain/src/shared/eventSpec.ts, the specification of every goal and project event
  (\<open>GoalCreatedSpec\<close>, ...), the registry with \<open>encodePersisted\<close> and \<open>decodePersisted\<close>
  (packages/infrastructure/src/eventing/registry.ts and runtime.ts) and the payload migrations
  (migrations.ts, upcast.ts). A specification is modelled by its decoder; the encoders of all
  events are \<open>goal_fields\<close> and \<open>project_fields\<close>.
\<close>

subsection \<open>Field mappers\<close>

definition voString :: "(string \<Rightarrow> 'a result) \<Rightarrow> json option \<Rightarrow> 'a result" where
  "voString from u = (case u of Some (JStr s) \<Rightarrow> from s | _ \<Rightarrow> Inl (Error ''Expected string''))"

definition voNumber :: "json option \<Rightarrow> int result" where
  "voNumber u = (case u of Some (JNum n) \<Rightarrow> Inr n | _ \<Rightarrow> Inl (Error ''Expected finite number''))"

definition nullable :: "(json option \<Rightarrow> 'a result) \<Rightarrow> json option \<Rightarrow> 'a option result" where
  "nullable mapper u =
     (if u = Some JNull then Inr None else bind_result (mapper u) (\<lambda>v. Inr (Some v)))"

subsection \<open>Specifications\<close>

definition GoalCreatedSpec :: "json \<Rightarrow> domain_payload result" where
  "GoalCreatedSpec obj =
     bind_result (voString GoalId_from (json_get ''goalId'' obj)) (\<lambda>_.
     bind_result (voString Slice_from (json_get ''slice'' obj)) (\<lambda>sl.
     bind_result (voString Summary_from (json_get ''summary'' obj)) (\<lambda>su.
     bind_result (voString Month_from (json_get ''targetMonth'' obj)) (\<lambda>mo.
     bind_result (voString Priority_from (json_get ''priority'' obj)) (\<lambda>pr.
     bind_result (voString UserId_from (json_get ''createdBy'' obj)) (\<lambda>cb.
     bind_result (voNumber (json_get ''createdAt'' obj)) (\<lambda>_.
     Inr (GoalEvent (GoalCreated sl su mo pr cb)))))))))"

definition GoalRefinedSpec :: "json \<Rightarrow> domain_payload result" where
  "GoalRefinedSpec obj =
     bind_result (voString GoalId_from (json_get ''goalId'' obj)) (\<lambda>_.
     bind_result (voString Summary_from (json_get ''summary'' obj)) (\<lambda>su.
     bind_result (voNumber (json_get ''changedAt'' obj)) (\<lambda>_.
     Inr (GoalEvent (GoalRefined su)))))"

definition GoalRecategorizedSpec :: "json \<Rightarrow> domain_payload result" where
  "GoalRecategorizedSpec obj =
     bind_result (voString GoalId_from (json_get ''goalId'' obj)) (\<lambda>_.
     bind_result (voString Slice_from (json_get ''slice'' obj)) (\<lambda>sl.
     bind_result (voNumber (json_get ''changedAt'' obj)) (\<lambda>_.
     Inr (GoalEvent (GoalRecategorized sl)))))"

definition GoalRescheduledSpec :: "json \<Rightarrow> domain_payload result" where
  "GoalRescheduledSpec obj =
     bind_result (voString GoalId_from (json_get ''goalId'' obj)) (\<lambda>_.
     bind_result (voString Month_from (json_get ''targetMonth'' obj)) (\<lambda>mo.
     bind_result (voNumber (json_get ''changedAt'' obj)) (\<lambda>_.
     Inr (GoalEvent (GoalRescheduled mo)))))"

definition GoalPrioritizedSpec :: "json \<Rightarrow> domain_payload result" where
  "GoalPrioritizedSpec obj =
     bind_result (voString GoalId_from (json_get ''goalId'' obj)) (\<lambda>_.
     bind_result (voString Priority_from (json_get ''priority'' obj)) (\<lambda>pr.
     bind_result (voNumber (json_get ''changedAt'' obj)) (\<lambda>_.
     Inr (GoalEvent (GoalPrioritized pr)))))"

definition GoalAchievedSpec :: "json \<Rightarrow> domain_payload result" where
  "GoalAchievedSpec obj =
     bind_result (voString GoalId_from (json_get ''goalId'' obj)) (\<lambda>_.
     bind_result (voNumber (json_get ''achievedAt'' obj)) (\<lambda>_.
     Inr (GoalEvent GoalAchieved)))"

definition GoalUnachievedSpec :: "json \<Rightarrow> domain_payload result" where
  "GoalUnachievedSpec obj =
     bind_result (voString GoalId_from (json_get ''goalId'' obj)) (\<lambda>_.
     bind_result (voNumber (json_get ''unachievedAt'' obj)) (\<lambda>_.
     Inr (GoalEvent GoalUnachieved)))"

definition GoalArchivedSpec :: "json \<Rightarrow> domain_payload result" where
  "GoalArchivedSpec obj =
     bind_result (voString GoalId_from (json_get ''goalId'' obj)) (\<lambda>_.
     bind_result (voNumber (json_get ''archivedAt'' obj)) (\<lambda>_.
     Inr (GoalEvent GoalArchived)))"

definition GoalAccessGrantedSpec :: "json \<Rightarrow> domain_payload result" where
  "GoalAccessGrantedSpec obj =
     bind_result (voString GoalId_from (json_get ''goalId'' obj)) (\<lambda>_.
     bind_result (voString UserId_from (json_get ''grantedTo'' obj)) (\<lambda>u.
     bind_result (voString Permission_from (json_get ''permission'' obj)) (\<lambda>pe.
     bind_result (voNumber (json_get ''grantedAt'' obj)) (\<lambda>_.
     Inr (GoalEvent (GoalAccessGranted u pe))))))"

definition GoalAccessRevokedSpec :: "json \<Rightarrow> domain_payload result" where
  "GoalAccessRevokedSpec obj =
     bind_result (voString GoalId_from (json_get ''goalId'' obj)) (\<lambda>_.
     bind_result (voString UserId_from (json_get ''revokedFrom'' obj)) (\<lambda>u.
     bind_result (voNumber (json_get ''revokedAt'' obj)) (\<lambda>_.
     Inr (GoalEvent (GoalAccessRevoked u)))))"

definition ProjectCreatedSpec :: "json \<Rightarrow> domain_payload result" where
  "ProjectCreatedSpec obj =
     bind_result (voString ProjectId_from (json_get ''projectId'' obj)) (\<lambda>_.
     bind_result (voString ProjectName_from (json_get ''name'' obj)) (\<lambda>nm.
     bind_result (voString ProjectStatus_from (json_get ''status'' obj)) (\<lambda>st.
     bind_result (voString LocalDate_fromString (json_get ''startDate'' obj)) (\<lambda>sd.
     bind_result (voString LocalDate_fromString (json_get ''targetDate'' obj)) (\<lambda>td.
     bind_result (voString ProjectDescription_from (json_get ''description'' obj)) (\<lambda>de.
     bind_result (nullable (voString GoalId_from) (json_get ''goalId'' obj)) (\<lambda>gl.
     bind_result (voString UserId_from (json_get ''createdBy'' obj)) (\<lambda>cb.
     bind_result (voNumber (json_get ''createdAt'' obj)) (\<lambda>_.
     Inr (ProjectEvent (ProjectCreated nm st sd td de gl cb)))))))))))"

definition ProjectStatusTransitionedSpec :: "json \<Rightarrow> domain_payload result" where
  "ProjectStatusTransitionedSpec obj =
     bind_result (voString ProjectId_from (json_get ''projectId'' obj)) (\<lambda>_.
     bind_result (voString ProjectStatus_from (json_get ''status'' obj)) (\<lambda>st.
     bind_result (voNumber (json_get ''changedAt'' obj)) (\<lambda>_.
     Inr (ProjectEvent (ProjectStatusTransitioned st)))))"

definition ProjectRescheduledSpec :: "json \<Rightarrow> domain_payload result" where
  "ProjectRescheduledSpec obj =
     bind_result (voString ProjectId_from (json_get ''projectId'' obj)) (\<lambda>_.
     bind_result (voString LocalDate_fromString (json_get ''startDate'' obj)) (\<lambda>sd.
     bind_result (voString LocalDate_fromString (json_get ''targetDate'' obj)) (\<lambda>td.
     bind_result (voNumber (json_get ''changedAt'' obj)) (\<lambda>_.
     Inr (ProjectEvent (ProjectRescheduled sd td))))))"

definition ProjectRenamedSpec :: "json \<Rightarrow> domain_payload result" where
  "ProjectRenamedSpec obj =
     bind_result (voString ProjectId_from (json_get ''projectId'' obj)) (\<lambda>_.
     bind_result (voString ProjectName_from (json_get ''name'' obj)) (\<lambda>nm.
     bind_result (voNumber (json_get ''changedAt'' obj)) (\<lambda>_.
     Inr (ProjectEvent (ProjectRenamed nm)))))"

definition ProjectDescribedSpec :: "json \<Rightarrow> domain_payload result" where
  "ProjectDescribedSpec obj =
     bind_result (voString ProjectId_from (json_get ''projectId'' obj)) (\<lambda>_.
     bind_result (voString ProjectDescription_from (json_get ''description'' obj)) (\<lambda>de.
     bind_result (voNumber (json_get ''changedAt'' obj)) (\<lambda>_.
     Inr (ProjectEvent (ProjectDescribed de)))))"

definition ProjectGoalAddedSpec :: "json \<Rightarrow> domain_payload result" where
  "ProjectGoalAddedSpec obj =
     bind_result (voString ProjectId_from (json_get ''projectId'' obj)) (\<lambda>_.
     bind_result (voString GoalId_from (json_get ''goalId'' obj)) (\<lambda>gl.
     bind_result (voNumber (json_get ''addedAt'' obj)) (\<lambda>_.
     Inr (ProjectEvent (ProjectGoalAdded gl)))))"

definition ProjectGoalRemovedSpec :: "json \<Rightarrow> domain_payload result" where
  "ProjectGoalRemovedSpec obj =
     bind_result (voString ProjectId_from (json_get ''projectId'' obj)) (\<lambda>_.
     bind_result (voNumber (json_get ''removedAt'' obj)) (\<lambda>_.
     Inr (ProjectEvent ProjectGoalRemoved)))"

definition ProjectMilestoneAddedSpec :: "json \<Rightarrow> domain_payload result" where
  "ProjectMilestoneAddedSpec obj =
     bind_result (voString ProjectId_from (json_get ''projectId'' obj)) (\<lambda>_.
     bind_result (voString MilestoneId_from (json_get ''milestoneId'' obj)) (\<lambda>mi.
     bind_result (voString MilestoneName_from (json_get ''name'' obj)) (\<lambda>nm.
     bind_result (voString LocalDate_fromString (json_get ''targetDate'' obj)) (\<lambda>td.
     bind_result (voNumber (json_get ''addedAt'' obj)) (\<lambda>_.
     Inr (ProjectEvent (ProjectMilestoneAdded mi nm td)))))))"

definition ProjectMilestoneRescheduledSpec :: "json \<Rightarrow> domain_payload result" where
  "ProjectMilestoneRescheduledSpec obj =
     bind_result (voString ProjectId_from (json_get ''projectId'' obj)) (\<lambda>_.
     bind_result (voString MilestoneId_from (json_get ''milestoneId'' obj)) (\<lambda>mi.
     bind_result (voString LocalDate_fromString (json_get ''targetDate'' obj)) (\<lambda>td.
     bind_result (voNumber (json_get ''changedAt'' obj)) (\<lambda>_.
     Inr (ProjectEvent (ProjectMilestoneRescheduled mi td))))))"

definition ProjectMilestoneRenamedSpec :: "json \<Rightarrow> domain_payload result" where
  "ProjectMilestoneRenamedSpec obj =
     bind_result (voString ProjectId_from (json_get ''projectId'' obj)) (\<lambda>_.
     bind_result (voString MilestoneId_from (json_get ''milestoneId'' obj)) (\<lambda>mi.
     bind_result (voString MilestoneName_from (json_get ''name'' obj)) (\<lambda>nm.
     bind_result (voNumber (json_get ''changedAt'' obj)) (\<lambda>_.
     Inr (ProjectEvent (ProjectMilestoneRenamed mi nm))))))"

definition ProjectMilestoneArchivedSpec :: "json \<Rightarrow> domain_payload result" where
  "ProjectMilestoneArchivedSpec obj =
     bind_result (voString ProjectId_from (json_get ''projectId'' obj)) (\<lambda>_.
     bind_result (voString MilestoneId_from (json_get ''milestoneId'' obj)) (\<lambda>mi.
     bind_result (voNumber (json_get ''archivedAt'' obj)) (\<lambda>_.
     Inr (ProjectEvent (ProjectMilestoneArchived mi)))))"

definition ProjectArchivedSpec :: "json \<Rightarrow> domain_payload result" where
  "ProjectArchivedSpec obj =
     bind_result (voString ProjectId_from (json_get ''projectId'' obj)) (\<lambda>_.
     bind_result (voNumber (json_get ''archivedAt'' obj)) (\<lambda>_.
     Inr (ProjectEvent ProjectArchived)))"

fun goal_fields :: "event_metadata \<Rightarrow> goal_payload \<Rightarrow> (string \<times> json) list" where
  "goal_fields m (GoalCreated sl su mo pr cb) =
     [(''goalId'', JStr (em_aggregateId m)), (''slice'', JStr (Slice_value sl)),
      (''summary'', JStr su), (''targetMonth'', JStr (Month_value mo)),
      (''priority'', JStr (Priority_value pr)), (''createdBy'', JStr cb),
      (''createdAt'', JNum (em_occurredAt m))]"
| "goal_fields m (GoalRefined su) =
     [(''goalId'', JStr (em_aggregateId m)), (''summary'', JStr su),
      (''changedAt'', JNum (em_occurredAt m))]"
| "goal_fields m (GoalRecategorized sl) =
     [(''goalId'', JStr (em_aggregateId m)), (''slice'', JStr (Slice_value sl)),
      (''changedAt'', JNum (em_occurredAt m))]"
| "goal_fields m (GoalRescheduled mo) =
     [(''goalId'', JStr (em_aggregateId m)), (''targetMonth'', JStr (Month_value mo)),
      (''changedAt'', JNum (em_occurredAt m))]"
| "goal_fields m (GoalPrioritized pr) =
     [(''goalId'', JStr (em_aggregateId m)), (''priority'', JStr (Priority_value pr)),
      (''changedAt'', JNum (em_occurredAt m))]"
| "goal_fields m GoalAchieved =
     [(''goalId'', JStr (em_aggregateId m)), (''achievedAt'', JNum (em_occurredAt m))]"
| "goal_fields m GoalUnachieved =
     [(''goalId'', JStr (em_aggregateId m)), (''unachievedAt'', JNum (em_occurredAt m))]"
| "goal_fields m GoalArchived =
     [(''goalId'', JStr (em_aggregateId m)), (''archivedAt'', JNum (em_occurredAt m))]"
| "goal_fields m (GoalAccessGranted u pe) =
     [(''goalId'', JStr (em_aggregateId m)), (''grantedTo'', JStr u),
      (''permission'', JStr (Permission_value pe)), (''grantedAt'', JNum (em_occurredAt m))]"
| "goal_fields m (GoalAccessRevoked u) =
     [(''goalId'', JStr (em_aggregateId m)), (''revokedFrom'', JStr u),
      (''revokedAt'', JNum (em_occurredAt m))]"

fun project_fields :: "event_metadata \<Rightarrow> project_payload \<Rightarrow> (string \<times> json) list" where
  "project_fields m (ProjectCreated nm st sd td de gl cb) =
     [(''projectId'', JStr (em_aggregateId m)), (''name'', JStr nm),
      (''status'', JStr (ProjectStatus_value st)), (''startDate'', JStr sd),
      (''targetDate'', JStr td), (''description'', JStr de), (''goalId'', json_nullable gl),
      (''createdBy'', JStr cb), (''createdAt'', JNum (em_occurredAt m))]"
| "project_fields m (ProjectStatusTransitioned st) =
     [(''projectId'', JStr (em_aggregateId m)), (''status'', JStr (ProjectStatus_value st)),
      (''changedAt'', JNum (em_occurredAt m))]"
| "project_fields m (ProjectRescheduled sd td) =
     [(''projectId'', JStr (em_aggregateId m)), (''startDate'', JStr sd),
      (''targetDate'', JStr td), (''changedAt'', JNum (em_occurredAt m))]"
| "project_fields m (ProjectRenamed nm) =
     [(''projectId'', JStr (em_aggregateId m)), (''name'', JStr nm),
      (''changedAt'', JNum (em_occurredAt m))]"
| "project_fields m (ProjectDescribed de) =
     [(''projectId'', JStr (em_aggregateId m)), (''description'', JStr de),
      (''changedAt'', JNum (em_occurredAt m))]"
| "project_fields m (ProjectGoalAdded gl) =
     [(''projectId'', JStr (em_aggregateId m)), (''goalId'', JStr gl),
      (''addedAt'', JNum (em_occurredAt m))]"
| "project_fields m ProjectGoalRemoved =
     [(''projectId'', JStr (em_aggregateId m)), (''removedAt'', JNum (em_occurredAt m))]"
| "project_fields m (ProjectMilestoneAdded mi nm td) =
     [(''projectId'', JStr (em_aggregateId m)), (''milestoneId'', JStr mi), (''name'', JStr nm),
      (''targetDate'', JStr td), (''addedAt'', JNum (em_occurredAt m))]"
| "project_fields m (ProjectMilestoneRescheduled mi td) =
     [(''projectId'', JStr (em_aggregateId m)), (''milestoneId'', JStr mi),
      (''targetDate'', JStr td), (''changedAt'', JNum (em_occurredAt m))]"
| "project_fields m (ProjectMilestoneRenamed mi nm) =
     [(''projectId'', JStr (em_aggregateId m)), (''milestoneId'', JStr mi), (''name'', JStr nm),
      (''changedAt'', JNum (em_occurredAt m))]"
| "project_fields m (ProjectMilestoneArchived mi) =
     [(''projectId'', JStr (em_aggregateId m)), (''milestoneId'', JStr mi),
      (''archivedAt'', JNum (em_occurredAt m))]"
| "project_fields m ProjectArchived =
     [(''projectId'', JStr (em_aggregateId m)), (''archivedAt'', JNum (em_occurredAt m))]"

definition allSpecs :: "(string \<times> (json \<Rightarrow> domain_payload result)) list" where
  "allSpecs =
     [(''GoalCreated'', GoalCreatedSpec),
      (''GoalRefined'', GoalRefinedSpec),
      (''GoalRecategorized'', GoalRecategorizedSpec),
      (''GoalRescheduled'', GoalRescheduledSpec),
      (''GoalPrioritized'', GoalPrioritizedSpec),
      (''GoalAchieved'', GoalAchievedSpec),
      (''GoalUnachieved'', GoalUnachievedSpec),
      (''GoalArchived'', GoalArchivedSpec),
      (''GoalAccessGranted'', GoalAccessGrantedSpec),
      (''GoalAccessRevoked'', GoalAccessRevokedSpec),
      (''ProjectCreated'', ProjectCreatedSpec),
      (''ProjectStatusTransitioned'', ProjectStatusTransitionedSpec),
      (''ProjectRescheduled'', ProjectRescheduledSpec),
      (''ProjectRenamed'', ProjectRenamedSpec),
      (''ProjectDescribed'', ProjectDescribedSpec),
      (''ProjectGoalAdded'', ProjectGoalAddedSpec),
      (''ProjectGoalRemoved'', ProjectGoalRemovedSpec),
      (''ProjectMilestoneAdded'', ProjectMilestoneAddedSpec),
      (''ProjectMilestoneRescheduled'', ProjectMilestoneRescheduledSpec),
      (''ProjectMilestoneRenamed'', ProjectMilestoneRenamedSpec),
      (''ProjectMilestoneArchived'', ProjectMilestoneArchivedSpec),
      (''ProjectArchived'', ProjectArchivedSpec)]"

subsection \<open>Migrations\<close>

record migration_plan =
  plan_latestVersion :: int
  plan_steps :: "int \<rightharpoonup> (json \<Rightarrow> json)"

definition migrated_types :: "string list" where
  "migrated_types =
     [''GoalCreated'', ''GoalRefined'', ''GoalRecategorized'', ''GoalRescheduled'',
      ''GoalPrioritized'', ''GoalAchieved'', ''GoalArchived'', ''GoalAccessGranted'',
      ''GoalAccessRevoked'', ''ProjectCreated'', ''ProjectStatusTransitioned'', ''ProjectRescheduled'',
      ''ProjectRenamed'', ''ProjectDescribed'', ''ProjectGoalAdded'', ''ProjectGoalRemoved'',
      ''ProjectMilestoneAdded'', ''ProjectMilestoneRescheduled'', ''ProjectMilestoneRenamed'', ''ProjectMilestoneArchived'',
      ''ProjectArchived'']"

definition migrations :: "string \<rightharpoonup> migration_plan" where
  "migrations ty =
     (if ty \<in> set migrated_types
      then Some \<lparr>plan_latestVersion = 1, plan_steps = Map.empty\<rparr> else None)"

definition latestVersionOf :: "string \<Rightarrow> int" where
  "latestVersionOf ty = (case migrations ty of Some plan \<Rightarrow> plan_latestVersion plan | None \<Rightarrow> 1)"

text \<open>The loop over the missing steps; it runs once for each version below the latest.\<close>

fun upcast_steps :: "migration_plan \<Rightarrow> nat \<Rightarrow> int \<Rightarrow> json \<Rightarrow> json result" where
  "upcast_steps plan 0 v p = Inr p"
| "upcast_steps plan (Suc n) v p =
     (case plan_steps plan v of
        None \<Rightarrow> Inl (Error ''missing migration'')
      | Some step \<Rightarrow> upcast_steps plan n (v + 1) (step p))"

definition upcast_with :: "migration_plan option \<Rightarrow> int \<Rightarrow> json \<Rightarrow> json result" where
  "upcast_with plan version p =
     (case plan of
        None \<Rightarrow> Inr p
      | Some pl \<Rightarrow>
          if plan_latestVersion pl < version then Inl (Error ''future version'')
          else upcast_steps pl (nat (plan_latestVersion pl - version)) version p)"

definition upcastPayload :: "string \<Rightarrow> int \<Rightarrow> json \<Rightarrow> json result" where
  "upcastPayload ty version p = upcast_with (migrations ty) version p"

subsection \<open>Registry\<close>

record persisted_event =
  pe_type :: string
  pe_version :: int
  pe_payload :: json

definition encodePersisted :: "domain_event \<Rightarrow> persisted_event result" where
  "encodePersisted e =
     (let persisted = (\<lambda>fields. \<lparr>pe_type = eventType e, pe_version = latestVersionOf (eventType e),
            pe_payload = JObj fields\<rparr>) in
      case map_of allSpecs (eventType e) of
        None \<Rightarrow> Inl (Error ''Unknown type'')
      | Some _ \<Rightarrow>
          (case ev_payload e of
             GoalEvent p \<Rightarrow> Inr (persisted (goal_fields (ev_meta e) p))
           | ProjectEvent p \<Rightarrow> Inr (persisted (project_fields (ev_meta e) p))
           | _ \<Rightarrow> Inl (Error ''Unknown type'')))"

definition decodePersisted :: "persisted_event \<Rightarrow> event_metadata \<Rightarrow> domain_event result" where
  "decodePersisted rec meta =
     (case map_of allSpecs (pe_type rec) of
        None \<Rightarrow> Inl (Error ''Unknown type'')
      | Some spec \<Rightarrow>
          bind_result (upcastPayload (pe_type rec) (pe_version rec) (pe_payload rec)) (\<lambda>latest.
          if (case latest of JObj _ \<Rightarrow> False | JArr _ \<Rightarrow> False | _ \<Rightarrow> True)
          then Inl (Error ''payload must be an object'')
          else bind_result (spec latest) (\<lambda>p. Inr \<lparr>ev_meta = meta, ev_payload = p\<rparr>)))"

subsection \<open>Round trip\<close>

text \<open>The values inside a payload are ones their factories accept.\<close>

fun goal_values_ok :: "goal_payload \<Rightarrow> bool" where
  "goal_values_ok (GoalCreated sl su mo pr cb) \<longleftrightarrow> su \<noteq> [] \<and> month_ok mo \<and> cb \<noteq> []"
| "goal_values_ok (GoalRefined su) \<longleftrightarrow> su \<noteq> []"
| "goal_values_ok (GoalRescheduled mo) \<longleftrightarrow> month_ok mo"
| "goal_values_ok (GoalAccessGranted u pe) \<longleftrightarrow> u \<noteq> []"
| "goal_values_ok (GoalAccessRevoked u) \<longleftrightarrow> u \<noteq> []"
| "goal_values_ok _ \<longleftrightarrow> True"

definition name_ok :: "string \<Rightarrow> bool" where
  "name_ok s \<longleftrightarrow> trim s \<noteq> [] \<and> length s \<le> 200"

fun project_values_ok :: "project_payload \<Rightarrow> bool" where
  "project_values_ok (ProjectCreated nm st sd td de gl cb) \<longleftrightarrow> name_ok nm \<and> ISO_DATE_REGEX sd \<and> ISO_DATE_REGEX td \<and>
     length de \<le> 2000 \<and> (case gl of None \<Rightarrow> True | Some g \<Rightarrow> UUID_REGEX g) \<and> cb \<noteq> []"
| "project_values_ok (ProjectRescheduled sd td) \<longleftrightarrow> ISO_DATE_REGEX sd \<and> ISO_DATE_REGEX td"
| "project_values_ok (ProjectRenamed nm) \<longleftrightarrow> name_ok nm"
| "project_values_ok (ProjectDescribed de) \<longleftrightarrow> length de \<le> 2000"
| "project_values_ok (ProjectGoalAdded gl) \<longleftrightarrow> UUID_REGEX gl"
| "project_values_ok (ProjectMilestoneAdded mi nm td) \<longleftrightarrow> UUID_REGEX mi \<and> name_ok nm \<and> ISO_DATE_REGEX td"
| "project_values_ok (ProjectMilestoneRescheduled mi td) \<longleftrightarrow> UUID_REGEX mi \<and> ISO_DATE_REGEX td"
| "project_values_ok (ProjectMilestoneRenamed mi nm) \<longleftrightarrow> UUID_REGEX mi \<and> name_ok nm"
| "project_values_ok (ProjectMilestoneArchived mi) \<longleftrightarrow> UUID_REGEX mi"
| "project_values_ok _ \<longleftrightarrow> True"

definition event_ok :: "domain_event \<Rightarrow> bool" where
  "event_ok e \<longleftrightarrow> UUID_REGEX (em_aggregateId (ev_meta e)) \<and>
     (case ev_payload e of GoalEvent p \<Rightarrow> goal_values_ok p | ProjectEvent p \<Rightarrow> project_values_ok p | _ \<Rightarrow> False)"

lemma voString_Some [simp]: "voString from (Some (JStr s)) = from s"
  by (simp add: voString_def)

lemma voNumber_Some [simp]: "voNumber (Some (JNum n)) = Inr n"
  by (simp add: voNumber_def)

lemma json_get_JObj [simp]: "json_get k (JObj ms) = map_of ms k"
  by (simp add: json_get_def)

lemma from_ok [simp]:
  "UUID_REGEX i \<Longrightarrow> GoalId_from i = Inr i" "UUID_REGEX i \<Longrightarrow> ProjectId_from i = Inr i"
  "UUID_REGEX i \<Longrightarrow> MilestoneId_from i = Inr i" "u \<noteq> [] \<Longrightarrow> UserId_from u = Inr u" "u \<noteq> [] \<Longrightarrow> Summary_from u = Inr u"
  "name_ok u \<Longrightarrow> ProjectName_from u = Inr u" "name_ok u \<Longrightarrow> MilestoneName_from u = Inr u"
  "length u \<le> 2000 \<Longrightarrow> ProjectDescription_from u = Inr u" "ISO_DATE_REGEX d \<Longrightarrow> LocalDate_fromString d = Inr d"
  "month_ok mo \<Longrightarrow> Month_from (Month_value mo) = Inr mo"
  by (simp_all add: name_ok_def Month_from_value)

lemma nullable_nullable [simp]:
  "(case gl of None \<Rightarrow> True | Some g \<Rightarrow> UUID_REGEX g) \<Longrightarrow>
     nullable (voString GoalId_from) (Some (json_nullable gl)) = Inr gl"
  by (cases gl) (simp_all add: nullable_def json_nullable_def)

lemmas spec_defs = GoalCreatedSpec_def GoalRefinedSpec_def GoalRecategorizedSpec_def
  GoalRescheduledSpec_def GoalPrioritizedSpec_def GoalAchievedSpec_def GoalUnachievedSpec_def
  GoalArchivedSpec_def GoalAccessGrantedSpec_def GoalAccessRevokedSpec_def ProjectCreatedSpec_def
  ProjectStatusTransitionedSpec_def ProjectRescheduledSpec_def ProjectRenamedSpec_def
  ProjectDescribedSpec_def ProjectGoalAddedSpec_def ProjectGoalRemovedSpec_def
  ProjectMilestoneAddedSpec_def ProjectMilestoneRescheduledSpec_def ProjectMilestoneRenamedSpec_def
  ProjectMilestoneArchivedSpec_def ProjectArchivedSpec_def

lemma goal_spec_roundtrip:
  assumes "UUID_REGEX (em_aggregateId m)" and "goal_values_ok p"
  shows "\<exists>spec. map_of allSpecs (goal_event_type p) = Some spec \<and>
     spec (JObj (goal_fields m p)) = Inr (GoalEvent p)"
  using assms by (cases p) (simp_all add: allSpecs_def spec_defs)

lemma project_spec_roundtrip:
  assumes "UUID_REGEX (em_aggregateId m)" and "project_values_ok p"
  shows "\<exists>spec. map_of allSpecs (project_event_type p) = Some spec \<and>
     spec (JObj (project_fields m p)) = Inr (ProjectEvent p)"
  using assms by (cases p) (simp_all add: allSpecs_def spec_defs)

lemma latest_payload: "upcastPayload ty (latestVersionOf ty) p = Inr p"
  by (simp add: upcastPayload_def upcast_with_def latestVersionOf_def migrations_def)

lemma fields_wf: "wf_json (JObj (goal_fields m p))" "wf_json (JObj (project_fields m q))"
  by (cases p; simp) (cases q; simp)

lemma encodePersisted_Inr:
  assumes "encodePersisted e = Inr rec"
  shows "pe_type rec = eventType e" "pe_version rec = 1" "wf_json (pe_payload rec)"
proof -
  have "latestVersionOf ty = 1" for ty by (simp add: latestVersionOf_def migrations_def)
  then show "pe_type rec = eventType e" "pe_version rec = 1" "wf_json (pe_payload rec)"
    using assms fields_wf
    by (auto simp: encodePersisted_def Let_def split: option.splits domain_payload.splits)
qed

lemma decode_encodePersisted:
  assumes "event_ok e"
  shows "\<exists>rec. encodePersisted e = Inr rec \<and> decodePersisted rec meta = Inr \<lparr>ev_meta = meta, ev_payload = ev_payload e\<rparr>"
proof (cases "ev_payload e")
  case (GoalEvent p)
  then show ?thesis
    using assms goal_spec_roundtrip [of "ev_meta e" p]
    by (auto simp: event_ok_def encodePersisted_def decodePersisted_def eventType_def Let_def latest_payload)
next
  case (ProjectEvent p)
  then show ?thesis
    using assms project_spec_roundtrip [of "ev_meta e" p]
    by (auto simp: event_ok_def encodePersisted_def decodePersisted_def eventType_def Let_def latest_payload)
qed (use assms in \<open>simp_all add: event_ok_def\<close>)

text \<open>A chain of steps that covers every version below the latest never misses one.\<close>

lemma upcast_steps_total:
  assumes "\<And>k. v \<le> k \<Longrightarrow> k < v + int n \<Longrightarrow> plan_steps plan k \<noteq> None"
  shows "\<exists>q. upcast_steps plan n v p = Inr q"
  using assms
proof (induction n arbitrary: v p)
  case (Suc n)
  obtain f where f: "plan_steps plan v = Some f" using Suc.prems [of v] by auto
  have "\<exists>q. upcast_steps plan n (v + 1) (f p) = Inr q" by (rule Suc.IH) (use Suc.prems in auto)
  then show ?case using f by simp
qed simp

end
