(* ===== verification/EventStore.thy ===== *)
theory EventStore
  imports EventCodec Materializer LocalDb Aggregate
begin

text \<open>
  The encrypted event store: the adapters between domain events and encrypted records
  (packages/infrastructure/src/eventstore/adapters), the appender and reader on the \<open>events\<close>
  table (eventstore/persistence) and \<open>SqliteEventStore\<close>. The SQL engine supports
  \<open>RETURNING\<close>, so the appender's fallback for engines without it is not modelled.
\<close>

record encrypted_event =
  ee_id :: string
  ee_aggregateType :: string
  ee_aggregateId :: string
  ee_eventType :: string
  ee_payload :: bytes
  ee_version :: int
  ee_occurredAt :: int
  ee_actorId :: "string option"
  ee_causationId :: "string option"
  ee_correlationId :: "string option"

subsection \<open>Adapters\<close>

text \<open>\<open>try \{ ... \} catch \{ throw new Error(message) \}\<close>.\<close>

definition rethrow :: "error \<Rightarrow> 'a result \<Rightarrow> 'a result" where
  "rethrow e r = (case r of Inl _ \<Rightarrow> Inl e | Inr a \<Rightarrow> Inr a)"

definition envelope_of :: "domain_event \<Rightarrow> persisted_event \<Rightarrow> event_envelope" where
  "envelope_of e ser =
     \<lparr>env_envelopeVersion = 1,
      env_meta = \<lparr>meta_eventId = em_eventId (ev_meta e), meta_eventType = eventType e,
        meta_occurredAt = em_occurredAt (ev_meta e), meta_actorId = Some (em_actorId (ev_meta e)),
        meta_causationId = em_causationId (ev_meta e), meta_correlationId = em_correlationId (ev_meta e)\<rparr>,
      env_payloadVersion = pe_version ser, env_data = pe_payload ser\<rparr>"

definition toEncrypted ::
  "crypto_port \<Rightarrow> nat \<Rightarrow> string \<Rightarrow> domain_event \<Rightarrow> int \<Rightarrow> bytes \<Rightarrow> encrypted_event result" where
  "toEncrypted crypto draw aggregateType e version aggregateKey =
     bind_result (encodePersisted e) (\<lambda>serialized.
     let payloadBytes = encodeEventEnvelope (envelope_of e serialized);
         aad = buildEventAad aggregateType (em_aggregateId (ev_meta e)) version in
     bind_result (rethrow (Error ''Failed to encrypt'') (encrypt crypto draw payloadBytes aggregateKey aad)) (\<lambda>c.
     Inr \<lparr>ee_id = em_eventId (ev_meta e), ee_aggregateType = aggregateType,
       ee_aggregateId = em_aggregateId (ev_meta e), ee_eventType = eventType e, ee_payload = c,
       ee_version = version, ee_occurredAt = em_occurredAt (ev_meta e),
       ee_actorId = Some (em_actorId (ev_meta e)), ee_causationId = em_causationId (ev_meta e),
       ee_correlationId = em_correlationId (ev_meta e)\<rparr>))"

text \<open>The batch numbers the events upwards from \<open>startVersion\<close>; \<open>draw\<close> counts encryptions.\<close>

fun toEncryptedBatch ::
  "crypto_port \<Rightarrow> nat \<Rightarrow> string \<Rightarrow> domain_event list \<Rightarrow> int \<Rightarrow> bytes \<Rightarrow> encrypted_event list result" where
  "toEncryptedBatch crypto draw ty [] startVersion key = Inr []"
| "toEncryptedBatch crypto draw ty (e # es) startVersion key =
     bind_result (toEncrypted crypto draw ty e startVersion key) (\<lambda>x.
     bind_result (toEncryptedBatch crypto (draw + 1) ty es (startVersion + 1) key) (\<lambda>xs.
     Inr (x # xs)))"

definition goal_event_types :: "string list" where
  "goal_event_types = [''GoalCreated'', ''GoalRefined'', ''GoalRecategorized'', ''GoalRescheduled'',
     ''GoalPrioritized'', ''GoalAchieved'', ''GoalUnachieved'', ''GoalArchived'', ''GoalAccessGranted'',
     ''GoalAccessRevoked'']"

definition project_event_types :: "string list" where
  "project_event_types = [''ProjectCreated'', ''ProjectStatusTransitioned'', ''ProjectRescheduled'',
     ''ProjectRenamed'', ''ProjectDescribed'', ''ProjectGoalAdded'', ''ProjectGoalRemoved'',
     ''ProjectMilestoneAdded'', ''ProjectMilestoneRescheduled'', ''ProjectMilestoneRenamed'',
     ''ProjectMilestoneArchived'', ''ProjectArchived'']"

definition resolveAggregateId :: "string \<Rightarrow> string \<Rightarrow> string result" where
  "resolveAggregateId ty aggregateId =
     (if ty \<in> set goal_event_types then GoalId_from aggregateId
      else if ty \<in> set project_event_types then ProjectId_from aggregateId
      else if ty = ''UserRegistered'' then UserId_from aggregateId
      else Inl (Error ''Unknown aggregate type for event''))"

text \<open>\<open>id ? X.from(id) : undefined\<close>, where the empty string is falsy.\<close>

definition optional_id :: "(string \<Rightarrow> string result) \<Rightarrow> string option \<Rightarrow> string option result" where
  "optional_id from s =
     (case s of None \<Rightarrow> Inr None
      | Some t \<Rightarrow> if t = [] then Inr None else bind_result (from t) (\<lambda>v. Inr (Some v)))"

definition toDomain :: "crypto_port \<Rightarrow> encrypted_event \<Rightarrow> bytes \<Rightarrow> domain_event result" where
  "toDomain crypto ee key =
     (if ee_aggregateType ee = [] then Inl (Error ''Missing aggregateType for event'')
      else
       bind_result (rethrow (Error ''Failed to decrypt'') (decrypt crypto (ee_payload ee) key
         (buildEventAad (ee_aggregateType ee) (ee_aggregateId ee) (ee_version ee)))) (\<lambda>payloadBytes.
       bind_result (decodeEventEnvelope payloadBytes) (\<lambda>envelope.
       let meta = env_meta envelope in
       if meta_eventId meta \<noteq> ee_id ee then Inl (Error ''EventId mismatch'')
       else if meta_eventType meta \<noteq> ee_eventType ee then Inl (Error ''EventType mismatch'')
       else if \<not> nonempty (meta_actorId meta) then Inl (Error ''Missing actorId'')
       else if meta_occurredAt meta \<noteq> ee_occurredAt ee then Inl (Error ''OccurredAt mismatch'')
       else if meta_causationId meta \<noteq> ee_causationId ee then Inl (Error ''CausationId mismatch'')
       else if meta_correlationId meta \<noteq> ee_correlationId ee then Inl (Error ''CorrelationId mismatch'')
       else
         bind_result (resolveAggregateId (meta_eventType meta) (ee_aggregateId ee)) (\<lambda>aggregateId.
         bind_result (EventId_from (meta_eventId meta)) (\<lambda>eventId.
         bind_result (ActorId_from (the (meta_actorId meta))) (\<lambda>actorId.
         bind_result (optional_id EventId_from (meta_causationId meta)) (\<lambda>causationId.
         bind_result (optional_id CorrelationId_from (meta_correlationId meta)) (\<lambda>correlationId.
         decodePersisted
           \<lparr>pe_type = meta_eventType meta, pe_version = env_payloadVersion envelope, pe_payload = env_data envelope\<rparr>
           \<lparr>em_aggregateId = aggregateId, em_occurredAt = meta_occurredAt meta, em_eventId = eventId,
            em_actorId = actorId, em_causationId = causationId, em_correlationId = correlationId,
            em_version = Some (ee_version ee)\<rparr>))))))))"

definition toDomainBatch :: "crypto_port \<Rightarrow> encrypted_event list \<Rightarrow> bytes \<Rightarrow> domain_event list result" where
  "toDomainBatch crypto events key = map_result (\<lambda>e. toDomain crypto e key) events"

definition with_version :: "int \<Rightarrow> domain_event \<Rightarrow> domain_event" where
  "with_version v e = e\<lparr>ev_meta := (ev_meta e)\<lparr>em_version := Some v\<rparr>\<rparr>"

text \<open>Metadata that an aggregate gives its events: identifiers are not empty.\<close>

definition meta_ok :: "event_metadata \<Rightarrow> bool" where
  "meta_ok m \<longleftrightarrow> em_eventId m \<noteq> [] \<and> em_actorId m \<noteq> [] \<and> em_causationId m \<noteq> Some [] \<and> em_correlationId m \<noteq> Some []"

lemma payload_type_resolves:
  assumes "event_ok e"
  shows "resolveAggregateId (eventType e) (em_aggregateId (ev_meta e)) = Inr (em_aggregateId (ev_meta e))"
    and "eventType e \<noteq> []"
proof -
  have goal: "goal_event_type p \<in> set goal_event_types" "goal_event_type p \<noteq> []" for p
    by (cases p; simp add: goal_event_types_def)+
  have project: "project_event_type p \<in> set project_event_types" "project_event_type p \<notin> set goal_event_types"
    "project_event_type p \<noteq> []" for p
    by (cases p; simp add: goal_event_types_def project_event_types_def)+
  show "resolveAggregateId (eventType e) (em_aggregateId (ev_meta e)) = Inr (em_aggregateId (ev_meta e))"
    "eventType e \<noteq> []"
    using assms by (cases "ev_payload e"; simp add: resolveAggregateId_def event_ok_def eventType_def goal project)+
qed

lemma optional_id_ok:
  "s \<noteq> Some [] \<Longrightarrow> (\<And>t. t \<noteq> [] \<Longrightarrow> from t = Inr t) \<Longrightarrow> optional_id from s = Inr s"
  by (cases s) (auto simp: optional_id_def)

lemma nonempty_from_ok:
  "t \<noteq> [] \<Longrightarrow> EventId_from t = Inr t" "t \<noteq> [] \<Longrightarrow> ActorId_from t = Inr t" "t \<noteq> [] \<Longrightarrow> CorrelationId_from t = Inr t"
  by simp_all

lemma toDomain_toEncrypted:
  assumes ok: "event_ok e" and meta: "meta_ok (ev_meta e)" and ty: "ty \<noteq> []"
    and crypto: "aead_ok crypto" and enc: "toEncrypted crypto n ty e v key = Inr ee"
  shows "toDomain crypto ee key = Inr (with_version v e)"
proof -
  obtain ser where ser: "encodePersisted e = Inr ser"
    "\<And>m. decodePersisted ser m = Inr \<lparr>ev_meta = m, ev_payload = ev_payload e\<rparr>"
    using decode_encodePersisted [OF ok] ok by (metis sum.sel(2))
  obtain c where c: "encrypt crypto n (encodeEventEnvelope (envelope_of e ser)) key
      (buildEventAad ty (em_aggregateId (ev_meta e)) v) = Inr c"
    and ee: "ee = \<lparr>ee_id = em_eventId (ev_meta e), ee_aggregateType = ty,
       ee_aggregateId = em_aggregateId (ev_meta e), ee_eventType = eventType e, ee_payload = c,
       ee_version = v, ee_occurredAt = em_occurredAt (ev_meta e),
       ee_actorId = Some (em_actorId (ev_meta e)), ee_causationId = em_causationId (ev_meta e),
       ee_correlationId = em_correlationId (ev_meta e)\<rparr>"
    using enc ser(1) by (auto simp: toEncrypted_def rethrow_def bind_result_eq_Inr Let_def split: sum.splits)
  have "envelope_ok (envelope_of e ser)"
    using encodePersisted_Inr [OF ser(1)] payload_type_resolves(2) [OF ok] meta
    by (simp add: envelope_ok_def envelope_of_def meta_ok_def)
  then have "decodeEventEnvelope (encodeEventEnvelope (envelope_of e ser)) = Inr (envelope_of e ser)"
    by (rule decode_encodeEventEnvelope)
  moreover have "\<lparr>pe_type = eventType e, pe_version = pe_version ser, pe_payload = pe_payload ser\<rparr> = ser"
    using encodePersisted_Inr(1) [OF ser(1)] by (cases ser) simp
  moreover have "optional_id EventId_from (em_causationId (ev_meta e)) = Inr (em_causationId (ev_meta e))"
    "optional_id CorrelationId_from (em_correlationId (ev_meta e)) = Inr (em_correlationId (ev_meta e))"
    using meta by (auto simp: meta_ok_def intro!: optional_id_ok)
  ultimately show ?thesis
    using decrypt_encrypt [OF crypto c] payload_type_resolves(1) [OF ok] meta ty ser(2)
    by (simp add: toDomain_def ee rethrow_def envelope_of_def nonempty_def meta_ok_def nonempty_from_ok
        with_version_def Let_def)
qed

subsection \<open>The events table\<close>

datatype store_error = ConcurrencyError string | PersistenceError string | MissingKeyError string | Failed error

type_synonym 'a store_result = "store_error + 'a"

definition row_of_encrypted :: "string \<Rightarrow> encrypted_event \<Rightarrow> event_row" where
  "row_of_encrypted aggregateType ee =
     \<lparr>row_id = ee_id ee, row_aggregate_type = aggregateType, row_aggregate_id = ee_aggregateId ee,
      row_event_type = ee_eventType ee, row_payload_encrypted = ee_payload ee, row_version = ee_version ee,
      row_occurred_at = ee_occurredAt ee, row_actor_id = ee_actorId ee, row_causation_id = ee_causationId ee,
      row_correlation_id = ee_correlationId ee, row_scope_id = None, row_resource_id = None,
      row_resource_key_id = None, row_grant_id = None, row_scope_state_ref = None,
      row_author_device_id = None, row_sig_suite = None, row_signature = None, row_commit_sequence = 0\<rparr>"

definition encrypted_of_row :: "event_row \<Rightarrow> encrypted_event" where
  "encrypted_of_row r =
     \<lparr>ee_id = row_id r, ee_aggregateType = row_aggregate_type r, ee_aggregateId = row_aggregate_id r,
      ee_eventType = row_event_type r, ee_payload = row_payload_encrypted r, ee_version = row_version r,
      ee_occurredAt = row_occurred_at r, ee_actorId = row_actor_id r, ee_causationId = row_causation_id r,
      ee_correlationId = row_correlation_id r\<rparr>"

text \<open>\<open>SELECT MAX(version) ... WHERE aggregate_type = ? AND aggregate_id = ?\<close>, with 0 for null.\<close>

definition aggregate_rows :: "string \<Rightarrow> string \<Rightarrow> local_db \<Rightarrow> event_row list" where
  "aggregate_rows t a db = filter (\<lambda>r. row_aggregate_type r = t \<and> row_aggregate_id r = a) (db_events db)"

definition max_version :: "string \<Rightarrow> string \<Rightarrow> local_db \<Rightarrow> int" where
  "max_version t a db =
     (case map row_version (aggregate_rows t a db) of [] \<Rightarrow> 0 | v # vs \<Rightarrow> foldl max v vs)"

definition readExpectedStartVersion :: "string \<Rightarrow> string \<Rightarrow> int option \<Rightarrow> local_db \<Rightarrow> int store_result" where
  "readExpectedStartVersion t aggregateId known db =
     (let maxVersion = max_version t aggregateId db in
      if known \<noteq> None \<and> known \<noteq> Some maxVersion then Inl (ConcurrencyError ''Version mismatch'')
      else Inr (maxVersion + 1))"

definition isConstraintError :: "string option \<Rightarrow> string \<Rightarrow> bool" where
  "isConstraintError code message \<longleftrightarrow> includes_text (case code of Some c \<Rightarrow> c | None \<Rightarrow> message) ''CONSTRAINT''"

definition isReturningUnsupported :: "string \<Rightarrow> bool" where
  "isReturningUnsupported message \<longleftrightarrow>
     includes_text message ''RETURNING'' \<and> (includes_text message ''syntax'' \<or> includes_text message ''near'')"

text \<open>
  A plain \<open>INSERT\<close>: a violated uniqueness constraint throws. The worker that owns the database gives
  the error the code \<open>WorkerProtocolError\<close> (the theory DbWorkerProperties has the proof), so
  the appender throws it on as it is.
\<close>

definition violated_code :: string where
  "violated_code = ''WorkerProtocolError''"

definition violated_message :: string where
  "violated_message = ''UNIQUE constraint failed''"

definition insert_event_strict :: "event_row \<Rightarrow> local_db \<Rightarrow> local_db store_result" where
  "insert_event_strict r db =
     (if has_event db (row_id r) \<or> row_key r \<in> row_key ` set (db_events db)
      then Inl (if isConstraintError (Some violated_code) violated_message
                then ConcurrencyError ''Version conflict for aggregate: concurrent write detected''
                else Failed (Error violated_message))
      else Inr (insert_event_or_ignore r db))"

text \<open>A violated constraint never becomes a \<open>ConcurrencyError\<close>, and the fallback for engines without \<open>RETURNING\<close> is not taken.\<close>

lemma violation_not_recognised:
  "insert_event_strict r db = Inl e \<Longrightarrow> e = Failed (Error violated_message) \<and> \<not> isReturningUnsupported violated_message"
proof -
  have "\<not> isConstraintError (Some violated_code) violated_message" "\<not> isReturningUnsupported violated_message" by code_simp+
  then show "insert_event_strict r db = Inl e \<Longrightarrow> e = Failed (Error violated_message) \<and> \<not> isReturningUnsupported violated_message"
    by (auto simp: insert_event_strict_def split: if_splits)
qed

definition consecutive :: "int \<Rightarrow> encrypted_event list \<Rightarrow> bool" where
  "consecutive start es \<longleftrightarrow> (\<forall>i < length es. 0 < i \<longrightarrow> ee_version (es ! i) = start + int i)"

text \<open>The statements run as one batch, that is one transaction: on an error nothing is written.\<close>

definition appendForAggregate ::
  "string \<Rightarrow> string \<Rightarrow> int option \<Rightarrow> encrypted_event list \<Rightarrow> local_db \<Rightarrow> local_db store_result" where
  "appendForAggregate aggregateType aggregateId known events db =
     (if events = [] then Inr db
      else
       let sorted = sort_key ee_version events in
       bind_result (readExpectedStartVersion aggregateType aggregateId known db) (\<lambda>expectedStart.
       if ee_version (sorted ! 0) \<noteq> expectedStart then Inl (ConcurrencyError ''Version conflict'')
       else if \<not> consecutive expectedStart sorted then Inl (ConcurrencyError ''Non-monotonic versions'')
       else fold_result insert_event_strict (map (row_of_encrypted aggregateType) sorted) db))"

definition store_append :: "string \<Rightarrow> string \<Rightarrow> encrypted_event list \<Rightarrow> local_db \<Rightarrow> local_db store_result" where
  "store_append aggregateType aggregateId events db =
     (if events = [] then Inr db
      else
       let minVersion = foldl min (ee_version (hd events)) (map ee_version (tl events));
           expectedPrevious = (if 0 < minVersion then Some (minVersion - 1) else None)
       in appendForAggregate aggregateType aggregateId expectedPrevious
            (map (\<lambda>e. e\<lparr>ee_aggregateId := aggregateId\<rparr>) events) db)"

definition getEvents :: "string \<Rightarrow> string \<Rightarrow> int \<Rightarrow> local_db \<Rightarrow> encrypted_event list" where
  "getEvents aggregateType aggregateId fromVersion db =
     map encrypted_of_row
       (sort_key row_version (filter (\<lambda>r. fromVersion \<le> row_version r)
          (aggregate_rows aggregateType aggregateId db)))"

record event_filter =
  ef_aggregateId :: "string option"
  ef_eventType :: "string option"
  ef_since :: "int option"
  ef_limit :: "nat option"

text \<open>The filter's conditions are dropped when the value is falsy: absent, empty or zero.\<close>

definition falsy_string :: "string option \<Rightarrow> bool" where
  "falsy_string s \<longleftrightarrow> s = None \<or> s = Some []"

definition getAllEvents :: "string \<Rightarrow> event_filter \<Rightarrow> local_db \<Rightarrow> encrypted_event list" where
  "getAllEvents aggregateType f db =
     (let rows = sort_key row_commit_sequence (filter (\<lambda>r. row_aggregate_type r = aggregateType
            \<and> (falsy_string (ef_aggregateId f) \<or> ef_aggregateId f = Some (row_aggregate_id r))
            \<and> (falsy_string (ef_eventType f) \<or> ef_eventType f = Some (row_event_type r))
            \<and> (case ef_since f of None \<Rightarrow> True | Some k \<Rightarrow> k = 0 \<or> k < row_commit_sequence r)) (db_events db))
      in map encrypted_of_row (case ef_limit f of None \<Rightarrow> rows | Some n \<Rightarrow> if n = 0 then rows else take n rows))"

subsection \<open>Snapshots\<close>

definition snapshot_get :: "string \<Rightarrow> string \<Rightarrow> local_db \<Rightarrow> snapshot_row option" where
  "snapshot_get t a db =
     find (\<lambda>s. snap_aggregate_type s = t \<and> snap_aggregate_id s = a) (db_snapshots db)"

text \<open>\<open>INSERT ... ON CONFLICT(aggregate_type, aggregate_id) DO UPDATE\<close>: replace in place or append.\<close>

definition snapshot_put :: "snapshot_row \<Rightarrow> local_db \<Rightarrow> local_db" where
  "snapshot_put r db =
     (let same = (\<lambda>s. snap_aggregate_type s = snap_aggregate_type r \<and> snap_aggregate_id s = snap_aggregate_id r)
      in if list_ex same (db_snapshots db)
         then db\<lparr>db_snapshots := map (\<lambda>s. if same s then r else s) (db_snapshots db)\<rparr>
         else db\<lparr>db_snapshots := db_snapshots db @ [r]\<rparr>)"

lemma snapshot_get_put:
  "snapshot_get t a (snapshot_put r db) =
     (if t = snap_aggregate_type r \<and> a = snap_aggregate_id r then Some r else snapshot_get t a db)"
proof -
  let ?same = "\<lambda>s. snap_aggregate_type s = snap_aggregate_type r \<and> snap_aggregate_id s = snap_aggregate_id r"
  let ?is = "\<lambda>s. snap_aggregate_type s = t \<and> snap_aggregate_id s = a"
  let ?here = "t = snap_aggregate_type r \<and> a = snap_aggregate_id r"
  have upd: "list_ex ?same xs \<Longrightarrow> find ?is (map (\<lambda>s. if ?same s then r else s) xs) =
      (if ?here then Some r else find ?is xs)" for xs
  proof (induction xs)
    case (Cons x xs)
    show ?case
    proof (cases "?same x")
      case True
      have "find ?is (map (\<lambda>s. if ?same s then r else s) xs) = find ?is xs" if "\<not> ?here"
        using that by (induction xs) auto
      then show ?thesis using True by auto
    next
      case False
      then show ?thesis using Cons by auto
    qed
  qed simp
  have new: "\<not> list_ex ?same xs \<Longrightarrow> find ?is (xs @ [r]) = (if ?here then Some r else find ?is xs)" for xs
    by (induction xs) auto
  show ?thesis
  proof (cases "list_ex ?same (db_snapshots db)")
    case True
    then show ?thesis using upd [OF True] unfolding snapshot_get_def snapshot_put_def Let_def by auto
  next
    case False
    then show ?thesis using new [OF False] unfolding snapshot_get_def snapshot_put_def Let_def by auto
  qed
qed

end
