(* ===== verification/EventStoreFacts.thy ===== *)
theory EventStoreFacts
  imports EventStore
begin

text \<open>
  What the table says about an aggregate: its rows, in version order, are numbered 1, 2, ... and
  decrypt to the given history.
\<close>

definition stored_rows :: "string \<Rightarrow> string \<Rightarrow> local_db \<Rightarrow> event_row list" where
  "stored_rows t a db = sort_key row_version (aggregate_rows t a db)"

definition holds_event :: "crypto_port \<Rightarrow> bytes \<Rightarrow> int \<Rightarrow> event_row \<Rightarrow> domain_event \<Rightarrow> bool" where
  "holds_event crypto key v r e \<longleftrightarrow> row_version r = v \<and>
     toDomain crypto (encrypted_of_row r) key = Inr (with_version v e)"

fun holds_events :: "crypto_port \<Rightarrow> bytes \<Rightarrow> int \<Rightarrow> event_row list \<Rightarrow> domain_event list \<Rightarrow> bool" where
  "holds_events crypto key v [] es \<longleftrightarrow> es = []"
| "holds_events crypto key v (r # rs) es \<longleftrightarrow>
     (case es of [] \<Rightarrow> False | e # es' \<Rightarrow> holds_event crypto key v r e \<and> holds_events crypto key (v + 1) rs es')"

definition stores :: "crypto_port \<Rightarrow> bytes \<Rightarrow> string \<Rightarrow> string \<Rightarrow> domain_event list \<Rightarrow> local_db \<Rightarrow> bool" where
  "stores crypto key t a evs db \<longleftrightarrow> holds_events crypto key 1 (stored_rows t a db) evs"

lemma holds_events_append:
  "holds_events c k v rs es \<Longrightarrow> holds_events c k (v + int (length es)) rs' es' \<Longrightarrow>
     holds_events c k v (rs @ rs') (es @ es')"
proof (induction rs arbitrary: v es)
  case (Cons r rs)
  then show ?case by (cases es) (auto simp: algebra_simps)
qed simp

lemma holds_events_versions:
  "holds_events c k v rs es \<Longrightarrow> length rs = length es \<and> map row_version rs = map (\<lambda>i. v + int i) [0..<length es]"
proof (induction rs arbitrary: v es)
  case (Cons r rs)
  then obtain e es' where es: "es = e # es'" "row_version r = v" "holds_events c k (v + 1) rs es'"
    by (cases es) (auto simp: holds_event_def)
  have "map (\<lambda>i. v + int i) [0..<Suc (length es')] = v # map (\<lambda>i. v + int (Suc i)) [0..<length es']"
    by (simp add: map_upt_Suc del: upt_Suc)
  then show ?case using Cons.IH [OF es(3)] es by (simp add: algebra_simps del: upt_Suc)
qed simp

lemma foldl_max: "foldl max (v :: int) vs = Max (insert v (set vs))"
proof (induction vs arbitrary: v)
  case (Cons w vs)
  show ?case
  proof (cases "vs = []")
    case False
    then have "Max (insert (max v w) (set vs)) = max (max v w) (Max (set vs))"
      "Max (insert v (insert w (set vs))) = max v (max w (Max (set vs)))" by simp_all
    then show ?thesis using Cons.IH [of "max v w"] by (simp add: max.assoc)
  qed simp
qed simp

lemma foldl_min_sorted: "(\<And>w. w \<in> set vs \<Longrightarrow> v \<le> w) \<Longrightarrow> foldl min (v :: int) vs = v"
  by (induction vs) auto

lemma max_version_Max:
  "max_version t a db = (if aggregate_rows t a db = [] then 0 else Max (row_version ` set (aggregate_rows t a db)))"
  by (auto simp: max_version_def foldl_max split: list.split)

lemma stores_max_version:
  assumes "stores c k t a evs db"
  shows "max_version t a db = int (length evs)"
    and "\<And>r. r \<in> set (aggregate_rows t a db) \<Longrightarrow> 1 \<le> row_version r \<and> row_version r \<le> int (length evs)"
proof -
  have vs: "length (stored_rows t a db) = length evs"
    "map row_version (stored_rows t a db) = map (\<lambda>i. 1 + int i) [0..<length evs]"
    using holds_events_versions assms by (auto simp: stores_def)
  have set: "row_version ` set (aggregate_rows t a db) = (\<lambda>i. 1 + int i) ` {0..<length evs}"
  proof -
    have "set (map row_version (stored_rows t a db)) = (\<lambda>i. 1 + int i) ` set [0..<length evs]" using vs(2) by simp
    then show ?thesis by (simp add: stored_rows_def)
  qed
  have len: "aggregate_rows t a db = [] \<longleftrightarrow> evs = []"
    using vs(1) by (metis length_0_conv length_sort stored_rows_def)
  show "max_version t a db = int (length evs)"
  proof (cases "evs = []")
    case False
    have "Max ((\<lambda>i. 1 + int i) ` {0..<length evs}) = int (length evs)"
    proof (rule Max_eqI)
      show "int (length evs) \<in> (\<lambda>i. 1 + int i) ` {0..<length evs}"
        using False by (intro image_eqI [of _ _ "length evs - 1"]) (auto simp: of_nat_diff Suc_le_eq)
    qed auto
    then show ?thesis using False len set by (simp add: max_version_Max)
  qed (simp add: max_version_Max len)
  show "1 \<le> row_version r \<and> row_version r \<le> int (length evs)" if "r \<in> set (aggregate_rows t a db)" for r
  proof -
    have "row_version r \<in> (\<lambda>i. 1 + int i) ` {0..<length evs}" using that set by blast
    then show ?thesis by auto
  qed
qed

lemma encrypted_of_row_of: "ee_aggregateType x = t \<Longrightarrow> encrypted_of_row (row_of_encrypted t x) = x"
  by (simp add: encrypted_of_row_def row_of_encrypted_def)

lemma encrypted_of_row_commit [simp]: "encrypted_of_row (r\<lparr>row_commit_sequence := s\<rparr>) = encrypted_of_row r"
  by (simp add: encrypted_of_row_def)

lemma toEncrypted_Inr:
  assumes "toEncrypted c n t e v key = Inr x"
  shows "ee_version x = v \<and> ee_id x = em_eventId (ev_meta e) \<and> ee_aggregateType x = t \<and>
     ee_aggregateId x = em_aggregateId (ev_meta e)"
  using assms by (auto simp: toEncrypted_def bind_result_eq_Inr Let_def)

lemma toEncryptedBatch_Inr:
  assumes "toEncryptedBatch c n t es v key = Inr xs"
  shows "length xs = length es \<and> map ee_version xs = map (\<lambda>i. v + int i) [0..<length es] \<and>
     map ee_id xs = map (\<lambda>e. em_eventId (ev_meta e)) es \<and> (\<forall>x \<in> set xs. ee_aggregateType x = t) \<and>
     map ee_aggregateId xs = map (\<lambda>e. em_aggregateId (ev_meta e)) es"
  using assms
proof (induction es arbitrary: n v xs)
  case (Cons e es)
  then obtain x ys where xs: "xs = x # ys" "toEncrypted c n t e v key = Inr x"
    "toEncryptedBatch c (n + 1) t es (v + 1) key = Inr ys"
    by (auto simp: bind_result_eq_Inr)
  have "map (\<lambda>i. v + int i) [0..<Suc (length es)] = v # map (\<lambda>i. v + int (Suc i)) [0..<length es]"
    by (simp add: map_upt_Suc del: upt_Suc)
  then show ?case using Cons.IH [OF xs(3)] toEncrypted_Inr [OF xs(2)] xs(1) by (simp add: algebra_simps del: upt_Suc)
qed simp

lemma holds_batch:
  assumes "toEncryptedBatch c n t es v key = Inr xs" and "\<forall>e \<in> set es. event_ok e \<and> meta_ok (ev_meta e)"
    and "t \<noteq> []" and "aead_ok c" and "map encrypted_of_row rs = xs"
  shows "holds_events c key v rs es"
  using assms(1,2,5)
proof (induction es arbitrary: n v xs rs)
  case (Cons e es)
  then obtain x ys where xs: "xs = x # ys" "toEncrypted c n t e v key = Inr x"
    "toEncryptedBatch c (n + 1) t es (v + 1) key = Inr ys"
    by (auto simp: bind_result_eq_Inr)
  then obtain r rs' where rs: "rs = r # rs'" "encrypted_of_row r = x" "map encrypted_of_row rs' = ys"
    using Cons.prems(3) by auto
  have "holds_event c key v r e"
    using toDomain_toEncrypted [OF _ _ assms(3,4) xs(2)] Cons.prems(2) toEncrypted_Inr [OF xs(2)] rs(2)
    by (auto simp: holds_event_def encrypted_of_row_def)
  then show ?case using Cons.IH [OF xs(3) _ rs(3)] Cons.prems(2) rs(1) by simp
qed simp

text \<open>A batch of fresh rows is inserted as a whole, at the end of the table.\<close>

lemma insert_batch:
  assumes "distinct (map row_id rs)" and "distinct (map row_key rs)" and "db_wf db"
    and "\<forall>r \<in> set rs. \<not> has_event db (row_id r) \<and> row_key r \<notin> row_key ` set (db_events db)"
  shows "\<exists>db' rs'. fold_result insert_event_strict rs db = Inr db' \<and> db_events db' = db_events db @ rs' \<and>
     map encrypted_of_row rs' = map encrypted_of_row rs \<and> db_wf db' \<and>
     db_snapshots db' = db_snapshots db \<and> db_sync_event_map db' = db_sync_event_map db \<and>
     db_sync_meta db' = db_sync_meta db"
  using assms
proof (induction rs arbitrary: db)
  case (Cons r rs)
  let ?db = "insert_event_or_ignore r db" and ?r = "r\<lparr>row_commit_sequence := db_sqlite_sequence db + 1\<rparr>"
  have step: "insert_event_strict r db = Inr ?db" "db_events ?db = db_events db @ [?r]"
    "db_snapshots ?db = db_snapshots db"
    using Cons.prems(4) by (simp_all add: insert_event_strict_def insert_event_or_ignore_def Let_def)
  have "\<forall>x \<in> set rs. \<not> has_event ?db (row_id x) \<and> row_key x \<notin> row_key ` set (db_events ?db)"
    using Cons.prems(1,2,4) step(2) by (fastforce simp: has_event_def image_iff)
  then obtain db' rs' where db': "fold_result insert_event_strict rs ?db = Inr db'"
    "db_events db' = db_events ?db @ rs'" "map encrypted_of_row rs' = map encrypted_of_row rs" "db_wf db'"
    "db_snapshots db' = db_snapshots ?db" "db_sync_event_map db' = db_sync_event_map ?db"
    "db_sync_meta db' = db_sync_meta ?db"
    using Cons.IH [of ?db] Cons.prems(1-3) by auto
  then show ?case
    using step by (intro exI [of _ db'] exI [of _ "?r # rs'"]) simp
qed simp

lemma insort_key_append:
  "(\<And>y. y \<in> set ys \<Longrightarrow> f x \<le> f y) \<Longrightarrow> insort_key f x (zs @ ys) = insort_key f x zs @ ys"
  by (induction zs) (auto simp: insort_is_Cons)

lemma sort_key_append_above:
  assumes "sorted (map f ys)" and "\<And>x y. x \<in> set xs \<Longrightarrow> y \<in> set ys \<Longrightarrow> f x \<le> f y"
  shows "sort_key f (xs @ ys) = sort_key f xs @ ys"
  using assms by (induction xs) (simp_all add: sort_key_id_if_sorted insort_key_append)

lemma versions_sorted: "map f xs = map (\<lambda>i. v + int i) [0..<n] \<Longrightarrow> sorted (map f xs)"
  by (simp add: sorted_iff_nth_mono)

text \<open>
  The appender accepts a batch that continues the versions of the table, and puts its rows at
  the end.
\<close>

lemma store_append_inserts:
  assumes wf: "db_wf db" and vs: "map ee_version xs = map (\<lambda>i. n + 1 + int i) [0..<length xs]"
    and agg: "\<And>x. x \<in> set xs \<Longrightarrow> ee_aggregateType x = t \<and> ee_aggregateId x = a" and ne: "xs \<noteq> []"
    and max: "max_version t a db = n" and below: "\<And>r. r \<in> set (aggregate_rows t a db) \<Longrightarrow> row_version r \<le> n"
    and n: "0 \<le> n" and ids: "distinct (map ee_id xs)" "\<And>x. x \<in> set xs \<Longrightarrow> \<not> has_event db (ee_id x)"
  shows "\<exists>db' rs. store_append t a xs db = Inr db' \<and> db_events db' = db_events db @ rs \<and>
     map encrypted_of_row rs = xs \<and> db_wf db' \<and> db_snapshots db' = db_snapshots db"
proof -
  let ?rs = "map (row_of_encrypted t) xs"
  have nth: "ee_version (xs ! i) = n + 1 + int i" if "i < length xs" for i
    using vs that by (metis (no_types, lifting) add.left_neutral diff_zero length_map length_upt nth_map nth_upt)
  have sorted: "sorted (map ee_version xs)" by (rule versions_sorted) (rule vs)
  have same: "map (\<lambda>e. e\<lparr>ee_aggregateId := a\<rparr>) xs = xs" using agg by (auto intro!: map_idI)
  have enc: "map encrypted_of_row ?rs = xs" using agg by (auto simp: encrypted_of_row_of intro!: map_idI)
  have keys: "row_key (row_of_encrypted t x) = (t, a, ee_version x)" if "x \<in> set xs" for x
    using agg [OF that] by (simp add: row_key_def row_of_encrypted_def)
  have above: "n < ee_version x" if "x \<in> set xs" for x using that nth by (auto simp: in_set_conv_nth)
  have fresh: "\<forall>r \<in> set ?rs. \<not> has_event db (row_id r) \<and> row_key r \<notin> row_key ` set (db_events db)"
  proof
    fix r assume "r \<in> set ?rs"
    then obtain x where x: "x \<in> set xs" "r = row_of_encrypted t x" by auto
    have "row_key r \<noteq> row_key q" if "q \<in> set (db_events db)" for q
      using below [of q] that above [OF x(1)] keys [OF x(1)] x(2) by (auto simp: row_key_def aggregate_rows_def)
    then show "\<not> has_event db (row_id r) \<and> row_key r \<notin> row_key ` set (db_events db)"
      using ids(2) [OF x(1)] x(2) by (auto simp: row_of_encrypted_def)
  qed
  have "map row_key ?rs = map (\<lambda>v. (t, a, v)) (map ee_version xs)" using keys by simp
  moreover have "distinct (map ee_version xs)" using vs by (simp add: distinct_map inj_on_def)
  ultimately have "distinct (map row_key ?rs)" by (simp add: distinct_map inj_on_def del: map_map)
  moreover have "distinct (map row_id ?rs)" using ids(1) by (simp add: row_of_encrypted_def comp_def)
  ultimately obtain db' rs' where db': "fold_result insert_event_strict ?rs db = Inr db'"
    "db_events db' = db_events db @ rs'" "map encrypted_of_row rs' = xs" "db_wf db'"
    "db_snapshots db' = db_snapshots db"
    using insert_batch [OF _ _ wf fresh] enc by auto
  have "foldl min (ee_version (hd xs)) (map ee_version (tl xs)) = ee_version (hd xs)"
    using sorted ne by (intro foldl_min_sorted) (cases xs; auto)
  then have "foldl min (ee_version (hd xs)) (map ee_version (tl xs)) = n + 1"
    using nth [of 0] ne by (simp add: hd_conv_nth)
  moreover have "readExpectedStartVersion t a (Some n) db = Inr (n + 1)"
    using max by (simp add: readExpectedStartVersion_def)
  moreover have "sort_key ee_version xs = xs" using sorted by (rule sort_key_id_if_sorted)
  moreover have "consecutive (n + 1) xs" using nth by (simp add: consecutive_def)
  ultimately have "store_append t a xs db = Inr db'"
    using ne same db'(1) nth [of 0] n by (simp add: store_append_def appendForAggregate_def Let_def)
  then show ?thesis using db' by blast
qed

text \<open>
  The append of a batch encrypted for the next versions succeeds, and afterwards the table
  stores the longer history.
\<close>

lemma store_append_batch:
  assumes wf: "db_wf db" and st: "stores c key t a evs db" and crypto: "aead_ok c" and ty: "t \<noteq> []"
    and batch: "toEncryptedBatch c n t es (int (length evs) + 1) key = Inr xs"
    and ok: "\<forall>e \<in> set es. event_ok e \<and> meta_ok (ev_meta e) \<and> em_aggregateId (ev_meta e) = a"
    and ids: "distinct (map (\<lambda>e. em_eventId (ev_meta e)) es)" "\<forall>e \<in> set es. \<not> has_event db (em_eventId (ev_meta e))"
  shows "\<exists>db'. store_append t a xs db = Inr db' \<and> stores c key t a (evs @ es) db' \<and> db_wf db' \<and>
     db_snapshots db' = db_snapshots db \<and>
     (\<forall>i. has_event db' i \<longleftrightarrow> has_event db i \<or> i \<in> set (map (\<lambda>e. em_eventId (ev_meta e)) es))"
proof (cases "es = []")
  case True
  then show ?thesis using batch st wf by (simp add: store_append_def)
next
  case False
  have xs: "length xs = length es" "map ee_version xs = map (\<lambda>i. int (length evs) + 1 + int i) [0..<length es]"
    "map ee_id xs = map (\<lambda>e. em_eventId (ev_meta e)) es" "\<forall>x \<in> set xs. ee_aggregateType x = t"
    "map ee_aggregateId xs = map (\<lambda>e. em_aggregateId (ev_meta e)) es"
    using toEncryptedBatch_Inr [OF batch] by blast+
  have agg: "ee_aggregateType x = t \<and> ee_aggregateId x = a \<and> \<not> has_event db (ee_id x) \<and> int (length evs) < ee_version x"
    if x: "x \<in> set xs" for x
  proof -
    have "ee_aggregateId x \<in> (\<lambda>e. em_aggregateId (ev_meta e)) ` set es"
      unfolding set_map [symmetric] xs(5) [symmetric] using x by simp
    then have "ee_aggregateId x = a" using ok by auto
    moreover have "ee_id x \<in> (\<lambda>e. em_eventId (ev_meta e)) ` set es"
      unfolding set_map [symmetric] xs(3) [symmetric] using x by simp
    then have "\<not> has_event db (ee_id x)" using ids(2) by auto
    moreover have "ee_version x \<in> set (map (\<lambda>i. int (length evs) + 1 + int i) [0..<length es])"
      unfolding xs(2) [symmetric] using x by simp
    then have "int (length evs) < ee_version x" by auto
    ultimately show ?thesis using xs(4) x by blast
  qed
  have "distinct (map ee_id xs)" unfolding xs(3) by (rule ids(1))
  then obtain db' rs where db': "store_append t a xs db = Inr db'" "db_events db' = db_events db @ rs"
    "map encrypted_of_row rs = xs" "db_wf db'" "db_snapshots db' = db_snapshots db"
    using store_append_inserts [OF wf _ _ _ stores_max_version(1) [OF st] _ _ _, of xs] agg xs(1,2) False
      stores_max_version(2) [OF st] by force
  have row: "row_aggregate_type r = t \<and> row_aggregate_id r = a \<and> int (length evs) < row_version r" if "r \<in> set rs" for r
    using agg [of "encrypted_of_row r"] that db'(3) by (auto simp: encrypted_of_row_def)
  have "map row_version rs = map ee_version xs" unfolding db'(3) [symmetric] by (simp add: encrypted_of_row_def)
  then have "sorted (map row_version rs)" using versions_sorted [OF xs(2)] by simp
  moreover have "aggregate_rows t a db' = aggregate_rows t a db @ rs"
    using db'(2) row by (simp add: aggregate_rows_def)
  ultimately have "stored_rows t a db' = stored_rows t a db @ rs"
    using stores_max_version(2) [OF st] row by (fastforce simp: stored_rows_def intro!: sort_key_append_above)
  moreover have "holds_events c key (int (length evs) + 1) rs es"
    using holds_batch [OF batch _ ty crypto] ok db'(3) by simp
  ultimately have "stores c key t a (evs @ es) db'"
    using holds_events_append [of c key 1 "stored_rows t a db" evs rs es] st by (simp add: stores_def add.commute)
  moreover have "has_event db' i \<longleftrightarrow> has_event db i \<or> i \<in> set (map (\<lambda>e. em_eventId (ev_meta e)) es)" for i
  proof -
    have "map row_id rs = map ee_id xs" unfolding db'(3) [symmetric] by (simp add: encrypted_of_row_def)
    then have "set (map row_id rs) = set (map (\<lambda>e. em_eventId (ev_meta e)) es)" unfolding xs(3) by simp
    then show ?thesis using db'(2) by (simp add: has_event_def image_Un)
  qed
  ultimately show ?thesis using db' by blast
qed

end
