(* ===== verification/Snapshots.thy ===== *)
theory Snapshots
  imports EventCodec Goal Project
begin

text \<open>
  Snapshot payloads: the versioned envelope (packages/infrastructure/src/snapshots/snapshotEnvelope.ts)
  and the codecs of goals/snapshots/GoalSnapshotCodec.ts and projects/snapshots/ProjectSnapshotCodec.ts.
  The round trips at the end are what makes a stored snapshot stand for the state it was
  taken from.
\<close>

subsection \<open>Envelope\<close>

definition encodeSnapshotEnvelope :: "int \<Rightarrow> json \<Rightarrow> bytes" where
  "encodeSnapshotEnvelope snapshotVersion data =
     text_encode (json_stringify (JObj [(''snapshotVersion'', JNum snapshotVersion), (''data'', data)]))"

definition is_object :: "json \<Rightarrow> bool" where
  "is_object j \<longleftrightarrow> (case j of JObj _ \<Rightarrow> True | JArr _ \<Rightarrow> True | _ \<Rightarrow> False)"

definition decodeSnapshotEnvelope :: "bytes \<Rightarrow> (int \<times> json) result" where
  "decodeSnapshotEnvelope bs =
     (case json_parse (text_decode bs) of
        None \<Rightarrow> Inl (Error ''Malformed snapshot envelope'')
      | Some parsed \<Rightarrow>
          if \<not> is_object parsed then Inl (Error ''Malformed snapshot envelope: expected envelope object'')
          else
            case json_get ''snapshotVersion'' parsed of
              Some (JNum v) \<Rightarrow>
                if v < 1 then Inl (Error ''Malformed snapshot envelope: invalid snapshotVersion'')
                else (case json_get ''data'' parsed of
                        None \<Rightarrow> Inl (Error ''Malformed snapshot envelope: missing data'')
                      | Some d \<Rightarrow> Inr (v, d))
            | _ \<Rightarrow> Inl (Error ''Malformed snapshot envelope: invalid snapshotVersion''))"

lemma decodeSnapshotEnvelope_encode:
  "wf_json d \<Longrightarrow> 1 \<le> v \<Longrightarrow> decodeSnapshotEnvelope (encodeSnapshotEnvelope v d) = Inr (v, d)"
  by (simp add: decodeSnapshotEnvelope_def encodeSnapshotEnvelope_def is_object_def
      del: json_stringify.simps)

subsection \<open>Field readers\<close>

definition requireString :: "json option \<Rightarrow> string \<Rightarrow> string result" where
  "requireString v label =
     (case v of Some (JStr s) \<Rightarrow> Inr s | _ \<Rightarrow> Inl (Error (label @ '' must be a string'')))"

definition requireNonEmptyString :: "json option \<Rightarrow> string \<Rightarrow> string result" where
  "requireNonEmptyString v label =
     bind_result (requireString v label) (\<lambda>s.
     let raw = trim s in
     if raw = [] then Inl (Error (label @ '' must be a non-empty string'')) else Inr raw)"

definition requireNumber :: "json option \<Rightarrow> string \<Rightarrow> int result" where
  "requireNumber v label =
     (case v of Some (JNum n) \<Rightarrow> Inr n | _ \<Rightarrow> Inl (Error (label @ '' must be a number'')))"

definition requireNullableNumber :: "json option \<Rightarrow> string \<Rightarrow> int option result" where
  "requireNullableNumber v label =
     (case v of
        Some JNull \<Rightarrow> Inr None
      | Some (JNum n) \<Rightarrow> Inr (Some n)
      | _ \<Rightarrow> Inl (Error (label @ '' must be a number or null'')))"

definition requireNullableString :: "json option \<Rightarrow> string \<Rightarrow> string option result" where
  "requireNullableString v label =
     (case v of
        None \<Rightarrow> Inr None
      | Some JNull \<Rightarrow> Inr None
      | Some (JStr s) \<Rightarrow> Inr (Some s)
      | _ \<Rightarrow> Inl (Error (label @ '' must be a string or null'')))"

text \<open>A literal type: the value of the list whose text is the given string.\<close>

definition requireOneOf :: "('a \<Rightarrow> string) \<Rightarrow> 'a list \<Rightarrow> json option \<Rightarrow> string \<Rightarrow> 'a result" where
  "requireOneOf show_value all v label =
     (case v of
        Some (JStr s) \<Rightarrow>
          (case find (\<lambda>x. show_value x = s) all of
             Some x \<Rightarrow> Inr x
           | None \<Rightarrow> Inl (Error (label @ '' must be one of the allowed values'')))
      | _ \<Rightarrow> Inl (Error (label @ '' must be a string'')))"

definition requireSlice :: "json option \<Rightarrow> slice result" where
  "requireSlice v = requireOneOf Slice_value ALL_SLICES v ''slice''"

definition requirePriority :: "json option \<Rightarrow> priority result" where
  "requirePriority v = requireOneOf Priority_value [Must, Should, Maybe] v ''priority''"

definition requireProjectStatus :: "json option \<Rightarrow> project_status result" where
  "requireProjectStatus v = requireOneOf ProjectStatus_value [Planned, InProgress, Completed, Canceled] v ''status''"

definition number_or_null :: "int option \<Rightarrow> json" where
  "number_or_null n = (case n of None \<Rightarrow> JNull | Some k \<Rightarrow> JNum k)"

subsection \<open>Goals\<close>

record goal_snapshot_state =
  gss_id :: string
  gss_summary :: string
  gss_slice :: slice
  gss_priority :: priority
  gss_targetMonth :: string
  gss_createdBy :: string
  gss_createdAt :: int
  gss_achievedAt :: "int option"
  gss_archivedAt :: "int option"
  gss_version :: int

text \<open>\<open>parsePayloadV1\<close>; the attribute version 1 lacks is left \<open>null\<close>.\<close>

definition goal_parsePayloadV1 :: "json \<Rightarrow> goal_snapshot_state result" where
  "goal_parsePayloadV1 data =
     (if \<not> is_object data then Inl (Error ''Goal snapshot payload must be an object'')
      else
       bind_result (requireString (json_get ''id'' data) ''id'') (\<lambda>i.
       bind_result (requireString (json_get ''summary'' data) ''summary'') (\<lambda>su.
       bind_result (requireSlice (json_get ''slice'' data)) (\<lambda>sl.
       bind_result (requirePriority (json_get ''priority'' data)) (\<lambda>pr.
       bind_result (requireString (json_get ''targetMonth'' data) ''targetMonth'') (\<lambda>tm.
       bind_result (requireString (json_get ''createdBy'' data) ''createdBy'') (\<lambda>cb.
       bind_result (requireNumber (json_get ''createdAt'' data) ''createdAt'') (\<lambda>ca.
       bind_result (requireNullableNumber (json_get ''archivedAt'' data) ''archivedAt'') (\<lambda>ar.
       bind_result (requireNumber (json_get ''version'' data) ''version'') (\<lambda>v.
       Inr \<lparr>gss_id = i, gss_summary = su, gss_slice = sl, gss_priority = pr, gss_targetMonth = tm,
         gss_createdBy = cb, gss_createdAt = ca, gss_achievedAt = None, gss_archivedAt = ar,
         gss_version = v\<rparr>))))))))))"

definition goal_parsePayloadV2 :: "json \<Rightarrow> goal_snapshot_state result" where
  "goal_parsePayloadV2 data =
     bind_result (goal_parsePayloadV1 data) (\<lambda>v1.
     bind_result (requireNullableNumber (json_get ''achievedAt'' data) ''achievedAt'') (\<lambda>ac.
     Inr (v1\<lparr>gss_achievedAt := ac\<rparr>)))"

definition upcastGoalSnapshot :: "int \<Rightarrow> json \<Rightarrow> goal_snapshot_state result" where
  "upcastGoalSnapshot snapshotVersion data =
     (if snapshotVersion = 1 then goal_parsePayloadV1 data
      else if snapshotVersion = 2 then goal_parsePayloadV2 data
      else Inl (Error ''Unsupported goal snapshot version''))"

definition goal_toPayload :: "goal_snapshot_state \<Rightarrow> json" where
  "goal_toPayload s = JObj
     [(''id'', JStr (gss_id s)), (''summary'', JStr (gss_summary s)), (''slice'', JStr (Slice_value (gss_slice s))),
      (''priority'', JStr (Priority_value (gss_priority s))), (''targetMonth'', JStr (gss_targetMonth s)),
      (''createdBy'', JStr (gss_createdBy s)), (''createdAt'', JNum (gss_createdAt s)),
      (''achievedAt'', number_or_null (gss_achievedAt s)), (''archivedAt'', number_or_null (gss_archivedAt s)),
      (''version'', JNum (gss_version s))]"

definition encodeGoalSnapshotState :: "goal_snapshot_state \<Rightarrow> bytes" where
  "encodeGoalSnapshotState s = encodeSnapshotEnvelope 2 (goal_toPayload s)"

definition decodeGoalSnapshotState :: "bytes \<Rightarrow> int \<Rightarrow> goal_snapshot_state result" where
  "decodeGoalSnapshotState payload aggregateVersion =
     bind_result (decodeSnapshotEnvelope payload) (\<lambda>(snapshotVersion, data).
     bind_result (upcastGoalSnapshot snapshotVersion data) (\<lambda>parsed.
     Inr (parsed\<lparr>gss_version := aggregateVersion\<rparr>)))"

definition decodeGoalSnapshotDomain :: "bytes \<Rightarrow> int \<Rightarrow> goal_snapshot result" where
  "decodeGoalSnapshotDomain payload aggregateVersion =
     bind_result (decodeGoalSnapshotState payload aggregateVersion) (\<lambda>s.
     bind_result (GoalId_from (gss_id s)) (\<lambda>i.
     bind_result (Summary_from (gss_summary s)) (\<lambda>su.
     bind_result (Slice_from (Slice_value (gss_slice s))) (\<lambda>sl.
     bind_result (Priority_from (Priority_value (gss_priority s))) (\<lambda>pr.
     bind_result (Month_from (gss_targetMonth s)) (\<lambda>mo.
     bind_result (UserId_from (gss_createdBy s)) (\<lambda>cb.
     Inr \<lparr>gs_id = i, gs_summary = su, gs_slice = sl, gs_priority = pr, gs_targetMonth = mo,
       gs_createdBy = cb, gs_createdAt = gss_createdAt s, gs_achievedAt = gss_achievedAt s,
       gs_archivedAt = gss_archivedAt s, gs_version = gss_version s\<rparr>)))))))"

subsection \<open>Projects\<close>

record project_snapshot_state =
  pss_id :: string
  pss_name :: string
  pss_status :: project_status
  pss_startDate :: string
  pss_targetDate :: string
  pss_description :: string
  pss_goalId :: "string option"
  pss_milestones :: "milestone list"
  pss_createdBy :: string
  pss_createdAt :: int
  pss_updatedAt :: int
  pss_archivedAt :: "int option"
  pss_version :: int

definition parseMilestone :: "json \<Rightarrow> milestone result" where
  "parseMilestone item =
     (if \<not> is_object item then Inl (Error ''Project snapshot milestones[] must be an object'')
      else
       bind_result (requireString (json_get ''id'' item) ''milestones[].id'') (\<lambda>i.
       bind_result (requireString (json_get ''name'' item) ''milestones[].name'') (\<lambda>nm.
       bind_result (requireString (json_get ''targetDate'' item) ''milestones[].targetDate'') (\<lambda>td.
       Inr \<lparr>ms_id = i, ms_name = nm, ms_targetDate = td\<rparr>))))"

definition parseMilestones :: "json option \<Rightarrow> milestone list result" where
  "parseMilestones v = (case v of Some (JArr items) \<Rightarrow> map_result parseMilestone items | _ \<Rightarrow> Inr [])"

text \<open>The \<open>version\<close> inside the payload is optional; both decoders replace it, so an absent one is 0 here.\<close>

definition project_parsePayloadV1 :: "json \<Rightarrow> project_snapshot_state result" where
  "project_parsePayloadV1 data =
     (if \<not> is_object data then Inl (Error ''Project snapshot payload must be an object'')
      else
       bind_result (requireString (json_get ''id'' data) ''id'') (\<lambda>i.
       bind_result (requireString (json_get ''name'' data) ''name'') (\<lambda>nm.
       bind_result (requireProjectStatus (json_get ''status'' data)) (\<lambda>st.
       bind_result (requireString (json_get ''startDate'' data) ''startDate'') (\<lambda>sd.
       bind_result (requireString (json_get ''targetDate'' data) ''targetDate'') (\<lambda>td.
       bind_result (requireString (json_get ''description'' data) ''description'') (\<lambda>de.
       bind_result (requireNullableString (json_get ''goalId'' data) ''goalId'') (\<lambda>gl.
       bind_result (parseMilestones (json_get ''milestones'' data)) (\<lambda>ms.
       bind_result (requireNonEmptyString (json_get ''createdBy'' data) ''createdBy'') (\<lambda>cb.
       bind_result (requireNumber (json_get ''createdAt'' data) ''createdAt'') (\<lambda>ca.
       bind_result (requireNumber (json_get ''updatedAt'' data) ''updatedAt'') (\<lambda>ua.
       bind_result (requireNullableNumber (json_get ''archivedAt'' data) ''archivedAt'') (\<lambda>ar.
       Inr \<lparr>pss_id = i, pss_name = nm, pss_status = st, pss_startDate = sd, pss_targetDate = td,
         pss_description = de, pss_goalId = gl, pss_milestones = ms, pss_createdBy = cb, pss_createdAt = ca,
         pss_updatedAt = ua, pss_archivedAt = ar,
         pss_version = (case json_get ''version'' data of Some (JNum v) \<Rightarrow> v | _ \<Rightarrow> 0)\<rparr>)))))))))))))"

definition upcastProjectSnapshot :: "int \<Rightarrow> json \<Rightarrow> project_snapshot_state result" where
  "upcastProjectSnapshot snapshotVersion data =
     (if snapshotVersion = 1 then project_parsePayloadV1 data
      else Inl (Error ''Unsupported project snapshot version''))"

definition milestone_object :: "milestone \<Rightarrow> json" where
  "milestone_object m =
     JObj [(''id'', JStr (ms_id m)), (''name'', JStr (ms_name m)), (''targetDate'', JStr (ms_targetDate m))]"

definition project_toPayloadV1 :: "project_snapshot_state \<Rightarrow> json" where
  "project_toPayloadV1 s = JObj
     [(''id'', JStr (pss_id s)), (''name'', JStr (pss_name s)),
      (''status'', JStr (ProjectStatus_value (pss_status s))), (''startDate'', JStr (pss_startDate s)),
      (''targetDate'', JStr (pss_targetDate s)), (''description'', JStr (pss_description s)),
      (''goalId'', json_nullable (pss_goalId s)), (''milestones'', JArr (map milestone_object (pss_milestones s))),
      (''createdBy'', JStr (pss_createdBy s)), (''createdAt'', JNum (pss_createdAt s)),
      (''updatedAt'', JNum (pss_updatedAt s)), (''archivedAt'', number_or_null (pss_archivedAt s)),
      (''version'', JNum (pss_version s))]"

definition encodeProjectSnapshotState :: "project_snapshot_state \<Rightarrow> bytes" where
  "encodeProjectSnapshotState s = encodeSnapshotEnvelope 1 (project_toPayloadV1 s)"

definition decodeProjectSnapshotState :: "bytes \<Rightarrow> int \<Rightarrow> project_snapshot_state result" where
  "decodeProjectSnapshotState payload aggregateVersion =
     bind_result (decodeSnapshotEnvelope payload) (\<lambda>(snapshotVersion, data).
     bind_result (upcastProjectSnapshot snapshotVersion data) (\<lambda>parsed.
     Inr (parsed\<lparr>pss_version := aggregateVersion\<rparr>)))"

definition milestone_from :: "milestone \<Rightarrow> milestone result" where
  "milestone_from m =
     bind_result (MilestoneId_from (ms_id m)) (\<lambda>i.
     bind_result (MilestoneName_from (ms_name m)) (\<lambda>nm.
     bind_result (LocalDate_fromString (ms_targetDate m)) (\<lambda>td.
     Inr \<lparr>ms_id = i, ms_name = nm, ms_targetDate = td\<rparr>)))"

definition decodeProjectSnapshotDomain :: "bytes \<Rightarrow> int \<Rightarrow> project_snapshot result" where
  "decodeProjectSnapshotDomain payload aggregateVersion =
     bind_result (decodeSnapshotEnvelope payload) (\<lambda>(snapshotVersion, data).
     bind_result (upcastProjectSnapshot snapshotVersion data) (\<lambda>s.
     bind_result (ProjectId_from (pss_id s)) (\<lambda>i.
     bind_result (ProjectName_from (pss_name s)) (\<lambda>nm.
     bind_result (ProjectStatus_from (ProjectStatus_value (pss_status s))) (\<lambda>st.
     bind_result (LocalDate_fromString (pss_startDate s)) (\<lambda>sd.
     bind_result (LocalDate_fromString (pss_targetDate s)) (\<lambda>td.
     bind_result (ProjectDescription_from (pss_description s)) (\<lambda>de.
     bind_result (if pss_goalId s = None \<or> pss_goalId s = Some [] then Inr None
                  else bind_result (GoalId_from (the (pss_goalId s))) (\<lambda>g. Inr (Some g))) (\<lambda>gl.
     bind_result (map_result milestone_from (pss_milestones s)) (\<lambda>ms.
     bind_result (UserId_from (pss_createdBy s)) (\<lambda>cb.
     Inr \<lparr>psn_id = i, psn_name = nm, psn_status = st, psn_startDate = sd, psn_targetDate = td,
       psn_description = de, psn_goalId = gl, psn_milestones = ms, psn_createdBy = cb,
       psn_createdAt = pss_createdAt s, psn_updatedAt = pss_updatedAt s, psn_archivedAt = pss_archivedAt s,
       psn_version = aggregateVersion\<rparr>)))))))))))"

subsection \<open>Round trips\<close>

lemma require_simps [simp]:
  "requireString (Some (JStr s)) l = Inr s" "requireNumber (Some (JNum n)) l = Inr n"
  "requireNullableNumber (Some (number_or_null a)) l = Inr a"
  "requireNullableString (Some (json_nullable b)) l = Inr b"
  "requireSlice (Some (JStr (Slice_value sl))) = Inr sl" "requirePriority (Some (JStr (Priority_value pr))) = Inr pr"
  "requireProjectStatus (Some (JStr (ProjectStatus_value st))) = Inr st"
proof -
  show "requireSlice (Some (JStr (Slice_value sl))) = Inr sl"
    by (cases sl) (simp_all add: requireSlice_def requireOneOf_def ALL_SLICES_def)
  show "requirePriority (Some (JStr (Priority_value pr))) = Inr pr"
    by (cases pr) (simp_all add: requirePriority_def requireOneOf_def)
  show "requireProjectStatus (Some (JStr (ProjectStatus_value st))) = Inr st"
    by (cases st) (simp_all add: requireProjectStatus_def requireOneOf_def)
qed (simp_all add: requireString_def requireNumber_def requireNullableNumber_def requireNullableString_def
    number_or_null_def json_nullable_def split: option.split)

lemma wf_number_or_null [simp]: "wf_json (number_or_null n)"
  by (cases n) (simp_all add: number_or_null_def)

theorem goal_state_roundtrip:
  "decodeGoalSnapshotState (encodeGoalSnapshotState s) v = Inr (s\<lparr>gss_version := v\<rparr>)"
proof -
  have "decodeSnapshotEnvelope (encodeSnapshotEnvelope 2 (goal_toPayload s)) = Inr (2, goal_toPayload s)"
    by (rule decodeSnapshotEnvelope_encode) (simp_all add: goal_toPayload_def)
  moreover have "upcastGoalSnapshot 2 (goal_toPayload s) = Inr s"
    by (simp add: upcastGoalSnapshot_def goal_parsePayloadV2_def goal_parsePayloadV1_def goal_toPayload_def
        is_object_def)
  ultimately show ?thesis by (simp add: decodeGoalSnapshotState_def encodeGoalSnapshotState_def)
qed

text \<open>Version 1 payloads read as goals that have not been achieved.\<close>

lemma goal_upcast_v1:
  assumes "upcastGoalSnapshot 2 data = Inr s"
  shows "upcastGoalSnapshot 1 data = Inr (s\<lparr>gss_achievedAt := None\<rparr>)"
  using assms by (auto simp: upcastGoalSnapshot_def goal_parsePayloadV2_def goal_parsePayloadV1_def
      bind_result_eq_Inr split: if_splits)

lemma parse_milestone [simp]: "parseMilestone (milestone_object m) = Inr m"
  by (simp add: parseMilestone_def milestone_object_def is_object_def)

definition milestone_ok :: "milestone \<Rightarrow> bool" where
  "milestone_ok m \<longleftrightarrow> UUID_REGEX (ms_id m) \<and> name_ok (ms_name m) \<and> ISO_DATE_REGEX (ms_targetDate m)"

text \<open>The attributes of the aggregate are ones the factories accept, and the author has no blanks to trim.\<close>

definition pss_ok :: "project_snapshot_state \<Rightarrow> bool" where
  "pss_ok s \<longleftrightarrow> UUID_REGEX (pss_id s) \<and> name_ok (pss_name s) \<and> ISO_DATE_REGEX (pss_startDate s) \<and>
     ISO_DATE_REGEX (pss_targetDate s) \<and> length (pss_description s) \<le> 2000 \<and>
     (case pss_goalId s of None \<Rightarrow> True | Some g \<Rightarrow> UUID_REGEX g) \<and>
     (\<forall>m \<in> set (pss_milestones s). milestone_ok m) \<and>
     pss_createdBy s \<noteq> [] \<and> trim (pss_createdBy s) = pss_createdBy s"

definition snapshot_of_state :: "project_snapshot_state \<Rightarrow> project_snapshot" where
  "snapshot_of_state s = \<lparr>psn_id = pss_id s, psn_name = pss_name s, psn_status = pss_status s,
     psn_startDate = pss_startDate s, psn_targetDate = pss_targetDate s, psn_description = pss_description s,
     psn_goalId = pss_goalId s, psn_milestones = pss_milestones s, psn_createdBy = pss_createdBy s,
     psn_createdAt = pss_createdAt s, psn_updatedAt = pss_updatedAt s, psn_archivedAt = pss_archivedAt s,
     psn_version = pss_version s\<rparr>"

lemma UUID_not_Nil: "UUID_REGEX g \<Longrightarrow> g \<noteq> []"
  by (auto simp: UUID_REGEX_def)

lemma project_upcast_roundtrip:
  assumes "pss_createdBy s \<noteq> []" and "trim (pss_createdBy s) = pss_createdBy s"
  shows "decodeSnapshotEnvelope (encodeProjectSnapshotState s) = Inr (1, project_toPayloadV1 s)"
    and "upcastProjectSnapshot 1 (project_toPayloadV1 s) = Inr s"
proof -
  show "decodeSnapshotEnvelope (encodeProjectSnapshotState s) = Inr (1, project_toPayloadV1 s)"
    unfolding encodeProjectSnapshotState_def
    by (rule decodeSnapshotEnvelope_encode) (auto simp: project_toPayloadV1_def milestone_object_def)
  show "upcastProjectSnapshot 1 (project_toPayloadV1 s) = Inr s"
    using assms by (simp add: upcastProjectSnapshot_def project_parsePayloadV1_def project_toPayloadV1_def
        is_object_def parseMilestones_def map_result_roundtrip requireNonEmptyString_def Let_def)
qed

theorem project_domain_roundtrip:
  assumes "pss_ok s"
  shows "decodeProjectSnapshotDomain (encodeProjectSnapshotState s) (pss_version s) = Inr (snapshot_of_state s)"
proof -
  have ms: "map_result milestone_from (pss_milestones s) = Inr (pss_milestones s)"
    using assms by (intro map_result_id) (auto simp: pss_ok_def milestone_ok_def milestone_from_def)
  have gl: "(if pss_goalId s = None \<or> pss_goalId s = Some [] then Inr None
      else bind_result (GoalId_from (the (pss_goalId s))) (\<lambda>g. Inr (Some g))) = (Inr (pss_goalId s) :: string option result)"
    using assms by (cases "pss_goalId s") (auto simp: pss_ok_def dest: UUID_not_Nil)
  show ?thesis
    using assms project_upcast_roundtrip [of s] ms gl
    by (simp add: decodeProjectSnapshotDomain_def pss_ok_def snapshot_of_state_def)
qed

end
