(* ===== verification/KeyStore.thy ===== *)
theory KeyStore
  imports Crypto Base64 Json
begin

text \<open>
  packages/infrastructure/src/crypto/IndexedDBKeyStore.ts: the device's key store. Identity
  keys and aggregate keys lie in two IndexedDB object stores, each record encrypted under the
  master key of the session. An object store is an association list in ascending key order,
  the order of \<open>getAll\<close>. The store counts the encryptions it has made, so that each uses
  its own draw of the random initialisation vector.
\<close>

record identity_keys =
  ik_signingPrivateKey :: bytes
  ik_signingPublicKey :: bytes
  ik_encryptionPrivateKey :: bytes
  ik_encryptionPublicKey :: bytes

record key_backup =
  kb_userId :: "string option"
  kb_identityKeys :: "identity_keys option"
  kb_aggregateKeys :: "(string \<times> bytes) list"

record key_store =
  ks_masterKey :: "bytes option"
  ks_identity :: "(string \<times> bytes) list"
  ks_aggregate :: "(string \<times> bytes) list"
  ks_draws :: nat

text \<open>\<open>put\<close> of an object store: replace the record with this key or insert it in key order.\<close>

fun idb_put :: "string \<Rightarrow> 'v \<Rightarrow> (string \<times> 'v) list \<Rightarrow> (string \<times> 'v) list" where
  "idb_put k v [] = [(k, v)]"
| "idb_put k v ((k', v') # xs) =
     (if k = k' then (k, v) # xs else if k < k' then (k, v) # (k', v') # xs else (k', v') # idb_put k v xs)"

definition setMasterKey :: "bytes \<Rightarrow> key_store \<Rightarrow> key_store" where
  "setMasterKey key s = s\<lparr>ks_masterKey := Some key\<rparr>"

definition require_master :: "key_store \<Rightarrow> bytes result" where
  "require_master s =
     (case ks_masterKey s of None \<Rightarrow> Inl (Error ''Master key not set'') | Some m \<Rightarrow> Inr m)"

definition store_encrypt :: "crypto_port \<Rightarrow> bytes \<Rightarrow> bytes \<Rightarrow> (key_store, bytes) io" where
  "store_encrypt c plaintext key s =
     (encrypt c (ks_draws s) plaintext key [], s\<lparr>ks_draws := ks_draws s + 1\<rparr>)"

definition identity_object :: "identity_keys \<Rightarrow> json" where
  "identity_object k = JObj
     [(''signingPrivateKey'', JStr (base64 (ik_signingPrivateKey k))),
      (''signingPublicKey'', JStr (base64 (ik_signingPublicKey k))),
      (''encryptionPrivateKey'', JStr (base64 (ik_encryptionPrivateKey k))),
      (''encryptionPublicKey'', JStr (base64 (ik_encryptionPublicKey k)))]"

text \<open>The argument of \<open>atob\<close> is converted to a string; a missing property reads \<open>undefined\<close>.\<close>

fun js_string :: "json \<Rightarrow> string" where
  "js_string JNull = ''null''"
| "js_string (JBool b) = (if b then ''true'' else ''false'')"
| "js_string (JNum n) = show_int n"
| "js_string (JStr s) = s"
| "js_string (JArr xs) = concat (case map (\<lambda>x. if x = JNull then [] else js_string x) xs of
     [] \<Rightarrow> [] | t # ts \<Rightarrow> t # map (\<lambda>u. '','' @ u) ts)"
| "js_string (JObj ms) = ''[object Object]''"

definition decodeBase64_field :: "string \<Rightarrow> json \<Rightarrow> bytes result" where
  "decodeBase64_field k j =
     atob (case json_get k j of None \<Rightarrow> ''undefined'' | Some v \<Rightarrow> js_string v)"

definition read_identity :: "bytes \<Rightarrow> identity_keys result" where
  "read_identity decrypted =
     (case json_parse (text_decode decrypted) of
        None \<Rightarrow> Inl (Error ''SyntaxError'')
      | Some JNull \<Rightarrow> Inl (Error ''TypeError'')
      | Some parsed \<Rightarrow>
          bind_result (decodeBase64_field ''signingPrivateKey'' parsed) (\<lambda>a.
          bind_result (decodeBase64_field ''signingPublicKey'' parsed) (\<lambda>b.
          bind_result (decodeBase64_field ''encryptionPrivateKey'' parsed) (\<lambda>c.
          bind_result (decodeBase64_field ''encryptionPublicKey'' parsed) (\<lambda>d.
          Inr \<lparr>ik_signingPrivateKey = a, ik_signingPublicKey = b, ik_encryptionPrivateKey = c,
            ik_encryptionPublicKey = d\<rparr>)))))"

definition saveIdentityKeys :: "crypto_port \<Rightarrow> string \<Rightarrow> identity_keys \<Rightarrow> (key_store, unit) io" where
  "saveIdentityKeys c userId keys =
     bind_io (bind_io (read_io require_master) lift_io) (\<lambda>m.
     bind_io (store_encrypt c (text_encode (json_stringify (identity_object keys))) m) (\<lambda>blob.
     update_io (ks_identity_update (idb_put userId blob))))"

definition getIdentityKeys :: "crypto_port \<Rightarrow> string \<Rightarrow> key_store \<Rightarrow> identity_keys option result" where
  "getIdentityKeys c userId s =
     bind_result (require_master s) (\<lambda>m.
     case map_of (ks_identity s) userId of
       None \<Rightarrow> Inr None
     | Some blob \<Rightarrow> bind_result (decrypt c blob m []) (\<lambda>d. bind_result (read_identity d) (\<lambda>k. Inr (Some k))))"

definition saveAggregateKey :: "crypto_port \<Rightarrow> string \<Rightarrow> bytes \<Rightarrow> (key_store, unit) io" where
  "saveAggregateKey c aggregateId wrappedKey =
     bind_io (bind_io (read_io require_master) lift_io) (\<lambda>m.
     bind_io (store_encrypt c wrappedKey m) (\<lambda>blob.
     update_io (ks_aggregate_update (idb_put aggregateId blob))))"

definition getAggregateKey :: "crypto_port \<Rightarrow> string \<Rightarrow> key_store \<Rightarrow> bytes option result" where
  "getAggregateKey c aggregateId s =
     bind_result (require_master s) (\<lambda>m.
     case map_of (ks_aggregate s) aggregateId of
       None \<Rightarrow> Inr None
     | Some blob \<Rightarrow> bind_result (decrypt c blob m []) (\<lambda>k. Inr (Some k)))"

definition export_aggregate :: "crypto_port \<Rightarrow> key_store \<Rightarrow> string \<times> bytes \<Rightarrow> (string \<times> bytes) result" where
  "export_aggregate c s rec =
     bind_result (require_master s) (\<lambda>m.
     bind_result (decrypt c (snd rec) m []) (\<lambda>k. Inr (fst rec, k)))"

definition exportKeys :: "crypto_port \<Rightarrow> key_store \<Rightarrow> key_backup result" where
  "exportKeys c s =
     bind_result (map_result (export_aggregate c s) (ks_aggregate s)) (\<lambda>aggregateKeys.
     case ks_identity s of
       [] \<Rightarrow> Inr \<lparr>kb_userId = None, kb_identityKeys = None, kb_aggregateKeys = aggregateKeys\<rparr>
     | (userId, blob) # _ \<Rightarrow>
         bind_result (require_master s) (\<lambda>m.
         bind_result (decrypt c blob m []) (\<lambda>d.
         bind_result (read_identity d) (\<lambda>k.
         Inr \<lparr>kb_userId = Some userId, kb_identityKeys = Some k, kb_aggregateKeys = aggregateKeys\<rparr>))))"

definition clearAll :: "key_store \<Rightarrow> key_store" where
  "clearAll s = s\<lparr>ks_identity := [], ks_aggregate := []\<rparr>"

definition blank_userId :: "string option \<Rightarrow> bool" where
  "blank_userId u \<longleftrightarrow> (case u of None \<Rightarrow> True | Some t \<Rightarrow> trim t = [])"

definition import_identity :: "crypto_port \<Rightarrow> key_backup \<Rightarrow> (key_store, unit) io" where
  "import_identity c backup =
     (case kb_identityKeys backup of
        None \<Rightarrow> return_io ()
      | Some keys \<Rightarrow>
          if blank_userId (kb_userId backup) then throw_io (Error ''Backup missing userId'')
          else saveIdentityKeys c (the (kb_userId backup)) keys)"

definition importKeys :: "crypto_port \<Rightarrow> key_backup \<Rightarrow> (key_store, unit) io" where
  "importKeys c backup =
     bind_io (update_io clearAll) (\<lambda>_.
     bind_io (import_identity c backup) (\<lambda>_.
     foreach_io (\<lambda>(aggregateId, wrappedKey). saveAggregateKey c aggregateId wrappedKey)
       (kb_aggregateKeys backup)))"

subsection \<open>Object stores\<close>

definition idb_wf :: "(string \<times> 'v) list \<Rightarrow> bool" where
  "idb_wf xs \<longleftrightarrow> sorted_wrt (<) (map fst xs)"

lemma map_of_idb_put [simp]: "map_of (idb_put k v xs) = (map_of xs)(k \<mapsto> v)"
  by (induction xs) (auto simp: fun_eq_iff)

lemma idb_put_keys: "fst ` set (idb_put k v xs) = insert k (fst ` set xs)"
  by (induction k v xs rule: idb_put.induct) (simp_all add: insert_commute)

lemma idb_wf_put: "idb_wf xs \<Longrightarrow> idb_wf (idb_put k v xs)"
proof (induction xs)
  case (Cons x xs)
  obtain k' v' where x: "x = (k', v')" by (cases x)
  have "y \<in> insert k (fst ` set xs)" if "y \<in> fst ` set (idb_put k v xs)" for y
    using that by (simp add: idb_put_keys)
  then show ?case using Cons x by (fastforce simp: idb_wf_def)
qed (simp add: idb_wf_def)

lemma idb_put_last: "\<forall>k' \<in> fst ` set xs. k' < k \<Longrightarrow> idb_put k v xs = xs @ [(k, v)]"
  by (induction xs) (auto simp: not_less_iff_gr_or_eq)

subsection \<open>Encryption at rest\<close>

text \<open>The cipher accepts the master key: it encrypts every plaintext under it.\<close>

definition accepts_key :: "crypto_port \<Rightarrow> bytes \<Rightarrow> bool" where
  "accepts_key c m \<longleftrightarrow> (\<forall>n p. \<not> isl (encrypt c n p m []))"

lemma saveAggregateKey_run:
  assumes "ks_masterKey s = Some m" and "accepts_key c m"
  obtains blob where "encrypt c (ks_draws s) k m [] = Inr blob"
    and "saveAggregateKey c a k s =
      (Inr (), s\<lparr>ks_draws := ks_draws s + 1, ks_aggregate := idb_put a blob (ks_aggregate s)\<rparr>)"
proof -
  have "\<not> isl (encrypt c (ks_draws s) k m [])" using assms(2) by (simp add: accepts_key_def)
  then obtain blob where "encrypt c (ks_draws s) k m [] = Inr blob"
    by (cases "encrypt c (ks_draws s) k m []") auto
  then show thesis
    using that [of blob] assms(1)
    by (simp add: saveAggregateKey_def bind_io_def store_encrypt_def require_master_def)
qed

lemma saveIdentityKeys_run:
  assumes "ks_masterKey s = Some m" and "accepts_key c m"
  obtains blob where "encrypt c (ks_draws s) (text_encode (json_stringify (identity_object k))) m [] = Inr blob"
    and "saveIdentityKeys c u k s =
      (Inr (), s\<lparr>ks_draws := ks_draws s + 1, ks_identity := idb_put u blob (ks_identity s)\<rparr>)"
proof -
  let ?p = "text_encode (json_stringify (identity_object k))"
  have "\<not> isl (encrypt c (ks_draws s) ?p m [])" using assms(2) by (simp add: accepts_key_def)
  then obtain blob where "encrypt c (ks_draws s) ?p m [] = Inr blob"
    by (cases "encrypt c (ks_draws s) ?p m []") auto
  then show thesis
    using that [of blob] assms(1)
    by (simp add: saveIdentityKeys_def bind_io_def store_encrypt_def require_master_def)
qed

lemma read_identity_written: "read_identity (text_encode (json_stringify (identity_object k))) = Inr k"
proof -
  have "wf_json (identity_object k)" by (simp add: identity_object_def)
  then have "json_parse (json_stringify (identity_object k)) = Some (identity_object k)" by simp
  then show ?thesis
    by (simp add: read_identity_def identity_object_def decodeBase64_field_def json_get_def atob_base64
        del: json_stringify.simps)
qed

lemma getAggregateKey_save:
  assumes "aead_ok c" and "ks_masterKey s = Some m" and "accepts_key c m" and "saveAggregateKey c a k s = (r, s')"
  shows "r = Inr ()" and "ks_masterKey s' = Some m"
    and "getAggregateKey c b s' = (if b = a then Inr (Some k) else getAggregateKey c b s)"
proof -
  obtain blob where blob: "encrypt c (ks_draws s) k m [] = Inr blob"
    "saveAggregateKey c a k s =
      (Inr (), s\<lparr>ks_draws := ks_draws s + 1, ks_aggregate := idb_put a blob (ks_aggregate s)\<rparr>)"
    using saveAggregateKey_run [OF assms(2,3)] by metis
  then show "r = Inr ()" "ks_masterKey s' = Some m"
    "getAggregateKey c b s' = (if b = a then Inr (Some k) else getAggregateKey c b s)"
    using assms(2,4) decrypt_encrypt [OF assms(1) blob(1)]
    by (auto simp: getAggregateKey_def require_master_def)
qed

subsection \<open>Backup and restore\<close>

lemma import_aggregates:
  assumes "aead_ok c" and "ks_masterKey s = Some m" and "accepts_key c m"
    and "sorted_wrt (<) (map fst (ks_aggregate s) @ map fst es)"
  shows "\<exists>s' blobs. foreach_io (\<lambda>(a, k). saveAggregateKey c a k) es s = (Inr (), s') \<and>
     ks_masterKey s' = Some m \<and> ks_identity s' = ks_identity s \<and> ks_aggregate s' = ks_aggregate s @ blobs \<and>
     map fst blobs = map fst es \<and> map_result (export_aggregate c s') blobs = Inr es"
  using assms(2,4)
proof (induction es arbitrary: s)
  case (Cons e es)
  obtain a k where e: "e = (a, k)" by (cases e)
  obtain blob where blob: "encrypt c (ks_draws s) k m [] = Inr blob"
    "saveAggregateKey c a k s =
      (Inr (), s\<lparr>ks_draws := ks_draws s + 1, ks_aggregate := idb_put a blob (ks_aggregate s)\<rparr>)"
    using saveAggregateKey_run [OF Cons.prems(1) assms(3)] by metis
  have put: "idb_put a blob (ks_aggregate s) = ks_aggregate s @ [(a, blob)]"
    by (rule idb_put_last) (use Cons.prems(2) e in \<open>auto simp: sorted_wrt_append\<close>)
  let ?s = "s\<lparr>ks_draws := ks_draws s + 1, ks_aggregate := ks_aggregate s @ [(a, blob)]\<rparr>"
  have "sorted_wrt (<) (map fst (ks_aggregate ?s) @ map fst es)" using Cons.prems(2) e by simp
  then obtain s' blobs where s': "foreach_io (\<lambda>(a, k). saveAggregateKey c a k) es ?s = (Inr (), s')"
    "ks_masterKey s' = Some m" "ks_identity s' = ks_identity ?s" "ks_aggregate s' = ks_aggregate ?s @ blobs"
    "map fst blobs = map fst es" "map_result (export_aggregate c s') blobs = Inr es"
    using Cons.IH [of ?s] Cons.prems(1) by auto
  have "export_aggregate c s' (a, blob) = Inr (a, k)"
    using s'(2) decrypt_encrypt [OF assms(1) blob(1)] by (simp add: export_aggregate_def require_master_def)
  then show ?case
    using s' blob(2) put e by (intro exI [of _ s'] exI [of _ "(a, blob) # blobs"]) (simp add: bind_io_def)
qed simp

lemma map_result_fst:
  "map_result f xs = Inr ys \<Longrightarrow> (\<And>x y. f x = Inr y \<Longrightarrow> fst y = fst x) \<Longrightarrow> map fst ys = map fst xs"
  by (induction xs arbitrary: ys) (auto simp: bind_result_eq_Inr)

lemma exported_sorted:
  assumes "exportKeys c s = Inr b" and "idb_wf (ks_aggregate s)"
  shows "sorted_wrt (<) (map fst (kb_aggregateKeys b))"
proof -
  have "map_result (export_aggregate c s) (ks_aggregate s) = Inr (kb_aggregateKeys b)"
    using assms(1) by (cases "ks_identity s") (auto simp: exportKeys_def bind_result_eq_Inr)
  then have "map fst (kb_aggregateKeys b) = map fst (ks_aggregate s)"
    by (rule map_result_fst) (auto simp: export_aggregate_def bind_result_eq_Inr)
  then show ?thesis using assms(2) by (simp add: idb_wf_def)
qed

text \<open>
  A backup restored into a store, whatever it held before and under whatever master key,
  exports as the same backup.
\<close>

lemma export_import:
  assumes crypto: "aead_ok c" and m: "ks_masterKey s = Some m" "accepts_key c m"
    and sorted: "sorted_wrt (<) (map fst (kb_aggregateKeys b))"
    and id: "kb_identityKeys b = None \<longleftrightarrow> kb_userId b = None" "kb_userId b = None \<or> \<not> blank_userId (kb_userId b)"
  shows "\<exists>s'. importKeys c b s = (Inr (), s') \<and> exportKeys c s' = Inr b"
proof -
  have "\<exists>s1. import_identity c b (clearAll s) = (Inr (), s1) \<and>
     ks_masterKey s1 = Some m \<and> ks_aggregate s1 = [] \<and>
     (case ks_identity s1 of [] \<Rightarrow> kb_userId b = None \<and> kb_identityKeys b = None
      | (u, blob) # r \<Rightarrow> kb_userId b = Some u \<and> r = [] \<and>
          bind_result (decrypt c blob m []) read_identity = Inr (the (kb_identityKeys b)))"
  proof (cases "kb_identityKeys b")
    case None
    then show ?thesis using id m by (simp add: clearAll_def import_identity_def)
  next
    case (Some keys)
    have ms: "ks_masterKey (clearAll s) = Some m" using m(1) by (simp add: clearAll_def)
    obtain blob where "encrypt c (ks_draws (clearAll s)) (text_encode (json_stringify (identity_object keys))) m [] = Inr blob"
      "saveIdentityKeys c (the (kb_userId b)) keys (clearAll s) = (Inr (), (clearAll s)\<lparr>ks_draws := ks_draws (clearAll s) + 1,
         ks_identity := idb_put (the (kb_userId b)) blob (ks_identity (clearAll s))\<rparr>)"
      using saveIdentityKeys_run [OF ms m(2)] by metis
    then show ?thesis
      using Some id ms decrypt_encrypt [OF crypto] read_identity_written by (auto simp: clearAll_def import_identity_def)
  qed
  then obtain s1 where s1: "import_identity c b (clearAll s) = (Inr (), s1)"
    "ks_masterKey s1 = Some m" "ks_aggregate s1 = []"
    "case ks_identity s1 of [] \<Rightarrow> kb_userId b = None \<and> kb_identityKeys b = None
      | (u, blob) # r \<Rightarrow> kb_userId b = Some u \<and> r = [] \<and>
          bind_result (decrypt c blob m []) read_identity = Inr (the (kb_identityKeys b))"
    by blast
  obtain s' blobs where s': "foreach_io (\<lambda>(a, k). saveAggregateKey c a k) (kb_aggregateKeys b) s1 = (Inr (), s')"
    "ks_masterKey s' = Some m" "ks_identity s' = ks_identity s1" "ks_aggregate s' = blobs"
    "map_result (export_aggregate c s') blobs = Inr (kb_aggregateKeys b)"
    using import_aggregates [OF crypto s1(2) m(2), of "kb_aggregateKeys b"] sorted s1(3) by auto
  have "importKeys c b s = (Inr (), s')"
    unfolding importKeys_def using s1(1) s'(1) by (simp add: bind_io_def)
  moreover have "exportKeys c s' = Inr b"
    using s' s1(4) id(1)
    by (cases b) (auto simp: exportKeys_def require_master_def bind_result_eq_Inr split: list.splits prod.splits)
  ultimately show ?thesis by blast
qed

end
