(* ===== verification/WebCrypto.thy ===== *)
theory WebCrypto
  imports Crypto Base64
begin

text \<open>
  packages/infrastructure/src/crypto: \<open>WebCryptoService\<close>, \<open>NodeCryptoService\<close>, the envelope of
  wrapped keys (eciesEnvelope.ts), \<open>KeyWrapping\<close>, \<open>SharingCrypto\<close> and the salt helpers. The
  algorithms themselves belong to the browser and to Node; they are the record
  \<open>primitives\<close>, whose documented laws are \<open>primitives_ok\<close>. WebCrypto's AES-GCM returns the
  ciphertext followed by the 16-byte tag; absent additional data is empty additional data.
  A draw of random bytes is indexed by its number.
\<close>

record primitives =
  gcm_seal :: "bytes \<Rightarrow> bytes \<Rightarrow> bytes \<Rightarrow> bytes \<Rightarrow> bytes \<times> bytes"
  gcm_open :: "bytes \<Rightarrow> bytes \<Rightarrow> bytes \<Rightarrow> bytes \<Rightarrow> bytes \<Rightarrow> bytes option"
  kw_wrap :: "bytes \<Rightarrow> bytes \<Rightarrow> bytes"
  kw_unwrap :: "bytes \<Rightarrow> bytes \<Rightarrow> bytes option"
  hkdf_sha256 :: "bytes \<Rightarrow> bytes \<Rightarrow> bytes \<Rightarrow> bytes"
  pbkdf2_sha256 :: "string \<Rightarrow> bytes \<Rightarrow> nat \<Rightarrow> bytes"
  ecdh_public :: "bytes \<Rightarrow> bytes"
  ecdh_secret :: "bytes \<Rightarrow> bytes \<Rightarrow> bytes option"
  random_values :: "nat \<Rightarrow> nat \<Rightarrow> bytes"
  random_private_key :: "nat \<Rightarrow> bytes"
  is_private_key :: "bytes \<Rightarrow> bool"

definition primitives_ok :: "primitives \<Rightarrow> bool" where
  "primitives_ok P \<longleftrightarrow>
     (\<forall>k iv a p. length (fst (gcm_seal P k iv a p)) = length p \<and> length (snd (gcm_seal P k iv a p)) = 16 \<and>
        gcm_open P k iv a (fst (gcm_seal P k iv a p)) (snd (gcm_seal P k iv a p)) = Some p) \<and>
     (\<forall>k w. length k = 32 \<longrightarrow> length (kw_wrap P k w) = 40 \<and> kw_unwrap P (kw_wrap P k w) w = Some k) \<and>
     (\<forall>m s i. length (hkdf_sha256 P m s i) = 32) \<and>
     (\<forall>d. is_private_key P (random_private_key P d)) \<and>
     (\<forall>x. is_private_key P x \<longrightarrow> length (ecdh_public P x) = 65) \<and>
     (\<forall>x y. is_private_key P x \<longrightarrow> is_private_key P y \<longrightarrow> ecdh_secret P x (ecdh_public P y) = ecdh_secret P y (ecdh_public P x) \<and>
        ecdh_secret P x (ecdh_public P y) \<noteq> None \<and> length (the (ecdh_secret P x (ecdh_public P y))) = 32) \<and>
     (\<forall>d n. length (random_values P d n) = n)"

definition IV_LENGTH :: nat where "IV_LENGTH = 12"
definition TAG_LENGTH :: nat where "TAG_LENGTH = 16"
definition KEY_LENGTH :: nat where "KEY_LENGTH = 32"
definition ECIES_EPHEMERAL_LENGTH :: nat where "ECIES_EPHEMERAL_LENGTH = 65"
definition ECIES_IV_LENGTH :: nat where "ECIES_IV_LENGTH = 12"
definition PBKDF2_ITERATIONS :: nat where "PBKDF2_ITERATIONS = 600000"

lemmas crypto_lengths [simp] = IV_LENGTH_def TAG_LENGTH_def KEY_LENGTH_def ECIES_EPHEMERAL_LENGTH_def
  ECIES_IV_LENGTH_def

definition HKDF_SALT :: bytes where
  "HKDF_SALT = text_encode ''mo-local-v1''"

definition ensureKeyLength :: "bytes \<Rightarrow> unit result" where
  "ensureKeyLength key = guard_result (length key = KEY_LENGTH) (Error ''Invalid key length'')"

text \<open>\<open>subtle.encrypt\<close> and \<open>subtle.decrypt\<close> with AES-GCM.\<close>

definition subtle_encrypt :: "primitives \<Rightarrow> bytes \<Rightarrow> bytes \<Rightarrow> bytes \<Rightarrow> bytes \<Rightarrow> bytes" where
  "subtle_encrypt P key iv aad p = fst (gcm_seal P key iv aad p) @ snd (gcm_seal P key iv aad p)"

definition subtle_decrypt :: "primitives \<Rightarrow> bytes \<Rightarrow> bytes \<Rightarrow> bytes \<Rightarrow> bytes \<Rightarrow> bytes result" where
  "subtle_decrypt P key iv aad x =
     (if length x < TAG_LENGTH then Inl (Error ''OperationError'')
      else case gcm_open P key iv aad (take (length x - TAG_LENGTH) x) (drop (length x - TAG_LENGTH) x) of
             None \<Rightarrow> Inl (Error ''OperationError'')
           | Some p \<Rightarrow> Inr p)"

subsection \<open>WebCryptoService\<close>

definition web_encrypt :: "primitives \<Rightarrow> nat \<Rightarrow> bytes \<Rightarrow> bytes \<Rightarrow> bytes \<Rightarrow> bytes result" where
  "web_encrypt P draw plaintext key aad =
     bind_result (ensureKeyLength key) (\<lambda>_.
     let iv = random_values P draw IV_LENGTH in
     Inr (iv @ subtle_encrypt P key iv aad plaintext))"

definition web_decrypt :: "primitives \<Rightarrow> bytes \<Rightarrow> bytes \<Rightarrow> bytes \<Rightarrow> bytes result" where
  "web_decrypt P ciphertext key aad =
     bind_result (ensureKeyLength key) (\<lambda>_.
     if length ciphertext \<le> IV_LENGTH then Inl (Error ''Ciphertext too short'')
     else subtle_decrypt P key (take IV_LENGTH ciphertext) aad (drop IV_LENGTH ciphertext))"

definition web_crypto :: "primitives \<Rightarrow> crypto_port" where
  "web_crypto P = \<lparr>encrypt = web_encrypt P, decrypt = web_decrypt P\<rparr>"

definition encodeEnvelope :: "bytes \<Rightarrow> bytes \<Rightarrow> bytes \<Rightarrow> bytes result" where
  "encodeEnvelope ephemeralRaw iv ciphertext =
     bind_result (guard_result (length ephemeralRaw = ECIES_EPHEMERAL_LENGTH)
       (Error ''Invalid ephemeral public key length'')) (\<lambda>_.
     bind_result (guard_result (length iv = ECIES_IV_LENGTH) (Error ''Invalid IV length'')) (\<lambda>_.
     Inr (ephemeralRaw @ iv @ ciphertext)))"

definition decodeEnvelope :: "bytes \<Rightarrow> (bytes \<times> bytes \<times> bytes) result" where
  "decodeEnvelope wrappedKey =
     (if length wrappedKey \<le> ECIES_EPHEMERAL_LENGTH + ECIES_IV_LENGTH then Inl (Error ''Wrapped key too short'')
      else Inr (take ECIES_EPHEMERAL_LENGTH wrappedKey,
                take ECIES_IV_LENGTH (drop ECIES_EPHEMERAL_LENGTH wrappedKey),
                drop (ECIES_EPHEMERAL_LENGTH + ECIES_IV_LENGTH) wrappedKey))"

definition ecdh_key :: "primitives \<Rightarrow> bytes \<Rightarrow> bytes \<Rightarrow> bytes result" where
  "ecdh_key P private public =
     (case ecdh_secret P private public of None \<Rightarrow> Inl (Error ''DataError'') | Some k \<Rightarrow> Inr k)"

definition web_wrapKey :: "primitives \<Rightarrow> nat \<Rightarrow> bytes \<Rightarrow> bytes \<Rightarrow> bytes result" where
  "web_wrapKey P draw keyToWrap recipientPublicKey =
     bind_result (ensureKeyLength keyToWrap) (\<lambda>_.
     bind_result (guard_result (length recipientPublicKey = ECIES_EPHEMERAL_LENGTH)
       (Error ''Invalid recipient public key length'')) (\<lambda>_.
     let ephemeral = random_private_key P draw; iv = random_values P (draw + 1) ECIES_IV_LENGTH in
     bind_result (ecdh_key P ephemeral recipientPublicKey) (\<lambda>aesKey.
     encodeEnvelope (ecdh_public P ephemeral) iv (subtle_encrypt P aesKey iv [] keyToWrap))))"

definition web_unwrapKey :: "primitives \<Rightarrow> bytes \<Rightarrow> bytes \<Rightarrow> bytes result" where
  "web_unwrapKey P wrappedKey recipientPrivateKey =
     bind_result (decodeEnvelope wrappedKey) (\<lambda>(ephemeralRaw, iv, payload).
     bind_result (ecdh_key P recipientPrivateKey ephemeralRaw) (\<lambda>aesKey.
     bind_result (subtle_decrypt P aesKey iv [] payload) (\<lambda>key.
     bind_result (ensureKeyLength key) (\<lambda>_. Inr key))))"

definition web_deriveKey :: "primitives \<Rightarrow> bytes \<Rightarrow> string \<Rightarrow> bytes result" where
  "web_deriveKey P masterKey ctx =
     bind_result (ensureKeyLength masterKey) (\<lambda>_. Inr (hkdf_sha256 P masterKey HKDF_SALT (text_encode ctx)))"

definition deriveKeyFromPassword :: "primitives \<Rightarrow> string \<Rightarrow> bytes \<Rightarrow> bytes" where
  "deriveKeyFromPassword P password salt = pbkdf2_sha256 P password salt PBKDF2_ITERATIONS"

datatype sub_key = RemoteKey | LocalKey

definition deriveSubKey :: "primitives \<Rightarrow> bytes \<Rightarrow> sub_key \<Rightarrow> bytes result" where
  "deriveSubKey P rootKey info =
     web_deriveKey P rootKey (''subkey-'' @ (case info of RemoteKey \<Rightarrow> ''remote'' | LocalKey \<Rightarrow> ''local''))"

subsection \<open>NodeCryptoService\<close>

definition node_encrypt :: "primitives \<Rightarrow> nat \<Rightarrow> bytes \<Rightarrow> bytes \<Rightarrow> bytes \<Rightarrow> bytes result" where
  "node_encrypt P draw plaintext key aad =
     bind_result (ensureKeyLength key) (\<lambda>_.
     let iv = random_values P draw IV_LENGTH; (ciphertext, tag) = gcm_seal P key iv aad plaintext in
     Inr (iv @ ciphertext @ tag))"

definition node_decrypt :: "primitives \<Rightarrow> bytes \<Rightarrow> bytes \<Rightarrow> bytes \<Rightarrow> bytes result" where
  "node_decrypt P data key aad =
     bind_result (ensureKeyLength key) (\<lambda>_.
     if length data < IV_LENGTH + TAG_LENGTH + 1 then Inl (Error ''Ciphertext too short'')
     else
       let iv = take IV_LENGTH data;
           tag = drop (length data - TAG_LENGTH) data;
           payload = drop IV_LENGTH (take (length data - TAG_LENGTH) data)
       in case gcm_open P key iv aad payload tag of
            None \<Rightarrow> Inl (Error ''Unsupported state or unable to authenticate data'')
          | Some p \<Rightarrow> Inr p)"

subsection \<open>KeyWrapping and SharingCrypto\<close>

definition KeyWrapping_wrapKey :: "primitives \<Rightarrow> bytes \<Rightarrow> bytes \<Rightarrow> bytes result" where
  "KeyWrapping_wrapKey P keyToWrap wrappingKey =
     bind_result (ensureKeyLength keyToWrap) (\<lambda>_.
     bind_result (ensureKeyLength wrappingKey) (\<lambda>_. Inr (kw_wrap P keyToWrap wrappingKey)))"

definition KeyWrapping_unwrapKey :: "primitives \<Rightarrow> bytes \<Rightarrow> bytes \<Rightarrow> bytes result" where
  "KeyWrapping_unwrapKey P wrappedKey unwrappingKey =
     bind_result (ensureKeyLength unwrappingKey) (\<lambda>_.
     bind_result (guard_result (length wrappedKey = KEY_LENGTH + 8) (Error ''Invalid wrapped key length'')) (\<lambda>_.
     case kw_unwrap P wrappedKey unwrappingKey of
       None \<Rightarrow> Inl (Error ''OperationError'')
     | Some k \<Rightarrow> bind_result (ensureKeyLength k) (\<lambda>_. Inr k)))"

definition deriveSharedSecret :: "primitives \<Rightarrow> bytes \<Rightarrow> bytes \<Rightarrow> bytes result" where
  "deriveSharedSecret P privateKey peerPublicKey =
     bind_result (guard_result (length peerPublicKey = ECIES_EPHEMERAL_LENGTH)
       (Error ''Invalid peer public key length'')) (\<lambda>_.
     ecdh_key P privateKey peerPublicKey)"

definition wrapForRecipient :: "primitives \<Rightarrow> nat \<Rightarrow> bytes \<Rightarrow> bytes \<Rightarrow> bytes \<Rightarrow> bytes result" where
  "wrapForRecipient P draw keyToWrap senderPrivateKey recipientPublicKey =
     bind_result (deriveSharedSecret P senderPrivateKey recipientPublicKey) (\<lambda>sharedSecret.
     bind_result (web_deriveKey P sharedSecret ''kgoal-wrap'') (\<lambda>wrappingKey.
     web_encrypt P draw keyToWrap wrappingKey []))"

definition unwrapFromSender :: "primitives \<Rightarrow> bytes \<Rightarrow> bytes \<Rightarrow> bytes \<Rightarrow> bytes result" where
  "unwrapFromSender P wrappedKey senderPublicKey recipientPrivateKey =
     bind_result (deriveSharedSecret P recipientPrivateKey senderPublicKey) (\<lambda>sharedSecret.
     bind_result (web_deriveKey P sharedSecret ''kgoal-wrap'') (\<lambda>wrappingKey.
     web_decrypt P wrappedKey wrappingKey []))"

subsection \<open>Salts\<close>

definition encodeSalt :: "bytes \<Rightarrow> string" where
  "encodeSalt salt = base64 salt"

definition decodeSalt :: "string \<Rightarrow> bytes result" where
  "decodeSalt saltB64 =
     bind_result (atob saltB64) (\<lambda>decoded.
     if length decoded < 16 then Inl (Error ''Invalid salt: minimum 16 bytes required per NIST SP 800-132'')
     else if 64 < length decoded then Inl (Error ''Invalid salt: maximum 64 bytes exceeded'')
     else Inr decoded)"

subsection \<open>Correctness over the primitives\<close>

lemma ensureKeyLength_Inr [simp]: "ensureKeyLength k = Inr u \<longleftrightarrow> length k = 32"
  by (simp add: ensureKeyLength_def)

lemma ensureKeyLength_ok: "length k = 32 \<Longrightarrow> ensureKeyLength k = Inr ()"
  by simp

lemma subtle_roundtrip:
  assumes "primitives_ok P"
  shows "subtle_decrypt P key iv aad (subtle_encrypt P key iv aad p) = Inr p"
    and "length (subtle_encrypt P key iv aad p) = length p + 16"
proof -
  have len: "length (fst (gcm_seal P key iv aad p)) = length p" "length (snd (gcm_seal P key iv aad p)) = 16"
    and op: "gcm_open P key iv aad (fst (gcm_seal P key iv aad p)) (snd (gcm_seal P key iv aad p)) = Some p"
    using assms unfolding primitives_ok_def by blast+
  then show "subtle_decrypt P key iv aad (subtle_encrypt P key iv aad p) = Inr p"
    "length (subtle_encrypt P key iv aad p) = length p + 16"
    by (simp_all add: subtle_decrypt_def subtle_encrypt_def)
qed

lemma random_length: "primitives_ok P \<Longrightarrow> length (random_values P d n) = n"
  unfolding primitives_ok_def by blast

lemma web_encrypt_Inr:
  "web_encrypt P n p k a = Inr x \<longleftrightarrow>
     length k = 32 \<and> x = random_values P n 12 @ subtle_encrypt P k (random_values P n 12) a p"
  by (auto simp: web_encrypt_def bind_result_eq_Inr Let_def)

text \<open>The service is a port with the behaviour the event store and the sync engine rely on.\<close>

lemma web_crypto_aead:
  assumes "primitives_ok P"
  shows "aead_ok (web_crypto P)"
  unfolding aead_ok_def
proof (intro allI impI)
  fix n p k a x
  assume "encrypt (web_crypto P) n p k a = Inr x"
  then have x: "length k = 32" "x = random_values P n 12 @ subtle_encrypt P k (random_values P n 12) a p"
    by (simp_all add: web_crypto_def web_encrypt_Inr)
  then show "decrypt (web_crypto P) x k a = Inr p"
    using subtle_roundtrip [OF assms] random_length [OF assms, of n 12]
    by (simp add: web_crypto_def web_decrypt_def ensureKeyLength_ok)
qed

lemma ecdh_agree:
  assumes P: "primitives_ok P" and "is_private_key P x" and "is_private_key P y"
  obtains k where "ecdh_key P x (ecdh_public P y) = Inr k" "ecdh_key P y (ecdh_public P x) = Inr k" "length k = 32"
proof -
  have eq: "ecdh_secret P x (ecdh_public P y) = ecdh_secret P y (ecdh_public P x)"
    and ne: "ecdh_secret P x (ecdh_public P y) \<noteq> None" "length (the (ecdh_secret P x (ecdh_public P y))) = 32"
    using assms by (simp_all add: primitives_ok_def)
  obtain k where "ecdh_secret P x (ecdh_public P y) = Some k" using ne(1) by blast
  then show thesis using that [of k] eq ne(2) by (simp add: ecdh_key_def)
qed

lemma ephemeral_ok: "primitives_ok P \<Longrightarrow> is_private_key P (random_private_key P n)"
  unfolding primitives_ok_def by blast

lemma unwrap_wrap:
  assumes P: "primitives_ok P" and r: "is_private_key P r" and key: "length key = 32"
  shows "\<exists>w. web_wrapKey P n key (ecdh_public P r) = Inr w \<and> web_unwrapKey P w r = Inr key"
proof -
  let ?e = "random_private_key P n" and ?iv = "random_values P (n + 1) 12"
  obtain k where k: "ecdh_key P ?e (ecdh_public P r) = Inr k" "ecdh_key P r (ecdh_public P ?e) = Inr k"
    using ecdh_agree [OF P ephemeral_ok [OF P] r] by metis
  have len: "length (ecdh_public P x) = 65" if "is_private_key P x" for x
    using P that unfolding primitives_ok_def by blast
  note len = len [OF r] len [OF ephemeral_ok [OF P]]
  have "web_wrapKey P n key (ecdh_public P r) = Inr (ecdh_public P ?e @ ?iv @ subtle_encrypt P k ?iv [] key)"
    using key k(1) len random_length [OF P, of "n + 1" 12]
    by (simp add: web_wrapKey_def ensureKeyLength_ok encodeEnvelope_def Let_def)
  moreover have "web_unwrapKey P (ecdh_public P ?e @ ?iv @ subtle_encrypt P k ?iv [] key) r = Inr key"
    using key k(2) len random_length [OF P, of "n + 1" 12] subtle_roundtrip [OF P]
    by (simp add: web_unwrapKey_def decodeEnvelope_def ensureKeyLength_ok)
  ultimately show ?thesis by blast
qed

lemma sharing_unwrap_wrap:
  assumes P: "primitives_ok P" and priv: "is_private_key P s" "is_private_key P r"
  shows "\<exists>w. wrapForRecipient P n key s (ecdh_public P r) = Inr w \<and>
     unwrapFromSender P w (ecdh_public P s) r = Inr key"
proof -
  obtain k where k: "ecdh_key P s (ecdh_public P r) = Inr k" "ecdh_key P r (ecdh_public P s) = Inr k" "length k = 32"
    using ecdh_agree [OF P priv] by metis
  let ?w = "hkdf_sha256 P k HKDF_SALT (text_encode ''kgoal-wrap'')"
  have len: "length (ecdh_public P s) = 65" "length (ecdh_public P r) = 65" "length ?w = 32"
    using P priv unfolding primitives_ok_def by blast+
  have derive: "deriveSharedSecret P s (ecdh_public P r) = Inr k" "deriveSharedSecret P r (ecdh_public P s) = Inr k"
    "web_deriveKey P k ''kgoal-wrap'' = Inr ?w"
    using k len by (simp_all add: deriveSharedSecret_def web_deriveKey_def ensureKeyLength_ok)
  have "\<exists>x. web_encrypt P n key ?w [] = Inr x" using len by (auto simp: web_encrypt_Inr)
  then obtain x where x: "web_encrypt P n key ?w [] = Inr x" by blast
  then have "web_decrypt P x ?w [] = Inr key"
    using decrypt_encrypt [OF web_crypto_aead [OF P], of n key ?w "[]" x] by (simp add: web_crypto_def)
  then show ?thesis using derive x by (simp add: wrapForRecipient_def unwrapFromSender_def)
qed

lemma KeyWrapping_roundtrip:
  assumes "primitives_ok P" and "length k = 32" and "length w = 32"
  shows "bind_result (KeyWrapping_wrapKey P k w) (\<lambda>x. KeyWrapping_unwrapKey P x w) = Inr k"
proof -
  have "length (kw_wrap P k w) = 40" "kw_unwrap P (kw_wrap P k w) w = Some k"
    using assms unfolding primitives_ok_def by blast+
  then show ?thesis
    using assms by (simp add: KeyWrapping_wrapKey_def KeyWrapping_unwrapKey_def ensureKeyLength_ok)
qed

text \<open>
  Both services write the same format, and each reads what the other wrote, with one
  exception: the Node service rejects the encryption of an empty plaintext, its own included.
\<close>

lemma node_encrypt_web: "node_encrypt P n p k a = web_encrypt P n p k a"
  by (simp add: node_encrypt_def web_encrypt_def subtle_encrypt_def Let_def split: prod.split)

lemma node_decrypt_web:
  assumes P: "primitives_ok P" and x: "web_encrypt P n p k a = Inr x"
  shows "node_decrypt P x k a = (if p = [] then Inl (Error ''Ciphertext too short'') else web_decrypt P x k a)"
proof -
  let ?iv = "random_values P n 12"
  have k: "length k = 32" and xs: "x = ?iv @ subtle_encrypt P k ?iv a p" using x by (simp_all add: web_encrypt_Inr)
  have len: "length ?iv = 12" "length (subtle_encrypt P k ?iv a p) = length p + 16"
    using random_length [OF P] subtle_roundtrip(2) [OF P] by simp_all
  have seal: "length (fst (gcm_seal P k ?iv a p)) = length p" "length (snd (gcm_seal P k ?iv a p)) = 16"
    and op: "gcm_open P k ?iv a (fst (gcm_seal P k ?iv a p)) (snd (gcm_seal P k ?iv a p)) = Some p"
    using P unfolding primitives_ok_def by blast+
  have web: "web_decrypt P x k a = Inr p"
    using decrypt_encrypt [OF web_crypto_aead [OF P], of n p k a x] x by (simp add: web_crypto_def)
  show ?thesis
  proof (cases "p = []")
    case True
    then show ?thesis using k xs len by (simp add: node_decrypt_def ensureKeyLength_ok)
  next
    case False
    then show ?thesis
      using k xs len seal op web by (simp add: node_decrypt_def ensureKeyLength_ok subtle_encrypt_def Let_def)
  qed
qed

lemma salt_roundtrip:
  "decodeSalt (encodeSalt s) =
     (if length s < 16 then Inl (Error ''Invalid salt: minimum 16 bytes required per NIST SP 800-132'')
      else if 64 < length s then Inl (Error ''Invalid salt: maximum 64 bytes exceeded'') else Inr s)"
  by (simp add: decodeSalt_def encodeSalt_def atob_base64)

text \<open>
  A concrete set of primitives with these laws: the tag is made of the first 16 bytes of
  the additional data and the key, and the shared secret is a bytewise sum.
\<close>

definition pad_to :: "nat \<Rightarrow> bytes \<Rightarrow> bytes" where
  "pad_to n bs = take n (bs @ replicate n 0)"

definition sample_primitives :: primitives where
  "sample_primitives =
     \<lparr>gcm_seal = (\<lambda>k iv a p. (p, pad_to 16 (a @ k))),
      gcm_open = (\<lambda>k iv a c t. if t = pad_to 16 (a @ k) then Some c else None),
      kw_wrap = (\<lambda>k w. k @ replicate 8 0), kw_unwrap = (\<lambda>x w. Some (take 32 x)),
      hkdf_sha256 = (\<lambda>m s i. pad_to 32 (m @ i)), pbkdf2_sha256 = (\<lambda>p s n. pad_to 32 (text_encode p @ s)),
      ecdh_public = pad_to 65,
      ecdh_secret = (\<lambda>x y. Some (pad_to 32 (map2 (+) (pad_to 65 x) y))),
      random_values = (\<lambda>d n. replicate n (word_of_nat d)),
      random_private_key = (\<lambda>d. replicate 32 (word_of_nat d)),
      is_private_key = (\<lambda>x. length x = 32)\<rparr>"

lemma length_pad_to [simp]: "length (pad_to n bs) = n"
  by (simp add: pad_to_def)

lemma map2_comm: "map2 (+) xs ys = map2 (+) ys (xs :: bytes)"
  by (simp add: list_eq_iff_nth_eq add.commute min.commute)

lemma sample_primitives_ok: "primitives_ok sample_primitives"
  by (simp add: primitives_ok_def sample_primitives_def map2_comm)

end
