(* ===== verification/Keyring.thy ===== *)
theory Keyring
  imports KeyStore WebCrypto RecordCodec
begin

text \<open>
  packages/infrastructure/src/crypto/Keyring.ts, KeyringManager.ts, InMemoryKeyringStore.ts and
  AggregateKeyManager.ts: the key of an aggregate is generated once, kept in the key store,
  and travels to the user's other devices inside a keyring that is encrypted under a key
  derived from the master key. \<open>derive\<close> is the \<open>deriveKey\<close> of the crypto service. The deep
  copies of \<open>toState\<close> and \<open>fromState\<close> are the identity on values.
\<close>

record recipient_envelope =
  re_recipientId :: string
  re_wrappedKey :: bytes

record keyring_epoch =
  ke_epochId :: int
  ke_createdAt :: int
  ke_ownerEnvelope :: bytes
  ke_recipientEnvelopes :: "recipient_envelope list"

record keyring =
  kr_aggregateId :: string
  kr_currentEpoch :: int
  kr_epochs :: "keyring_epoch list"

subsection \<open>Keyring\<close>

definition encodeBytes :: "bytes \<Rightarrow> json" where
  "encodeBytes bs = JArr (map (\<lambda>b. JNum (uint b)) bs)"

definition is_JNum :: "json \<Rightarrow> bool" where
  "is_JNum j \<longleftrightarrow> (case j of JNum _ \<Rightarrow> True | _ \<Rightarrow> False)"

definition isNumberArray :: "json option \<Rightarrow> bool" where
  "isNumberArray v \<longleftrightarrow> (case v of Some (JArr xs) \<Rightarrow> list_all is_JNum xs | _ \<Rightarrow> False)"

text \<open>\<open>new Uint8Array(numbers)\<close> reduces each number modulo 256.\<close>

definition decodeBytes :: "json option \<Rightarrow> bytes" where
  "decodeBytes v =
     (case v of Some (JArr xs) \<Rightarrow> map (\<lambda>j. case j of JNum n \<Rightarrow> word_of_int n | _ \<Rightarrow> 0) xs | _ \<Rightarrow> [])"

definition isRecipientEnvelope :: "json \<Rightarrow> bool" where
  "isRecipientEnvelope j \<longleftrightarrow> get_string ''recipientId'' j \<noteq> None \<and> isNumberArray (json_get ''wrappedKey'' j)"

definition array_all :: "(json \<Rightarrow> bool) \<Rightarrow> json option \<Rightarrow> bool" where
  "array_all P v \<longleftrightarrow> (case v of Some (JArr xs) \<Rightarrow> list_all P xs | _ \<Rightarrow> False)"

definition array_items :: "json option \<Rightarrow> json list" where
  "array_items v = (case v of Some (JArr xs) \<Rightarrow> xs | _ \<Rightarrow> [])"

definition isEpochSerialized :: "json \<Rightarrow> bool" where
  "isEpochSerialized j \<longleftrightarrow> get_number ''epochId'' j \<noteq> None \<and> get_number ''createdAt'' j \<noteq> None \<and>
     isNumberArray (json_get ''ownerEnvelope'' j) \<and>
     array_all isRecipientEnvelope (json_get ''recipientEnvelopes'' j)"

definition isKeyringSerialized :: "json \<Rightarrow> bool" where
  "isKeyringSerialized j \<longleftrightarrow> get_string ''aggregateId'' j \<noteq> None \<and> get_number ''currentEpoch'' j \<noteq> None \<and>
     array_all isEpochSerialized (json_get ''epochs'' j)"

definition Keyring_createInitial :: "string \<Rightarrow> int \<Rightarrow> bytes \<Rightarrow> keyring" where
  "Keyring_createInitial aggregateId createdAt ownerEnvelope =
     \<lparr>kr_aggregateId = aggregateId, kr_currentEpoch = 0,
      kr_epochs = [\<lparr>ke_epochId = 0, ke_createdAt = createdAt, ke_ownerEnvelope = ownerEnvelope,
        ke_recipientEnvelopes = []\<rparr>]\<rparr>"

definition getEpoch :: "int \<Rightarrow> keyring \<Rightarrow> keyring_epoch option" where
  "getEpoch epochId k = find (\<lambda>e. ke_epochId e = epochId) (kr_epochs k)"

definition recipient_object :: "recipient_envelope \<Rightarrow> json" where
  "recipient_object r =
     JObj [(''recipientId'', JStr (re_recipientId r)), (''wrappedKey'', encodeBytes (re_wrappedKey r))]"

definition epoch_object :: "keyring_epoch \<Rightarrow> json" where
  "epoch_object e = JObj
     [(''epochId'', JNum (ke_epochId e)), (''createdAt'', JNum (ke_createdAt e)),
      (''ownerEnvelope'', encodeBytes (ke_ownerEnvelope e)),
      (''recipientEnvelopes'', JArr (map recipient_object (ke_recipientEnvelopes e)))]"

definition keyring_object :: "keyring \<Rightarrow> json" where
  "keyring_object k = JObj
     [(''aggregateId'', JStr (kr_aggregateId k)), (''currentEpoch'', JNum (kr_currentEpoch k)),
      (''epochs'', JArr (map epoch_object (kr_epochs k)))]"

definition Keyring_toBytes :: "keyring \<Rightarrow> bytes" where
  "Keyring_toBytes k = text_encode (json_stringify (keyring_object k))"

definition recipient_of_json :: "json \<Rightarrow> recipient_envelope" where
  "recipient_of_json j =
     \<lparr>re_recipientId = the (get_string ''recipientId'' j), re_wrappedKey = decodeBytes (json_get ''wrappedKey'' j)\<rparr>"

definition epoch_of_json :: "json \<Rightarrow> keyring_epoch" where
  "epoch_of_json j =
     \<lparr>ke_epochId = the (get_number ''epochId'' j), ke_createdAt = the (get_number ''createdAt'' j),
      ke_ownerEnvelope = decodeBytes (json_get ''ownerEnvelope'' j),
      ke_recipientEnvelopes = map recipient_of_json (array_items (json_get ''recipientEnvelopes'' j))\<rparr>"

definition Keyring_fromBytes :: "bytes \<Rightarrow> keyring result" where
  "Keyring_fromBytes bs =
     (case json_parse (text_decode bs) of
        None \<Rightarrow> Inl (Error ''SyntaxError'')
      | Some parsed \<Rightarrow>
          if \<not> isKeyringSerialized parsed then Inl (Error ''Invalid keyring payload'')
          else Inr \<lparr>kr_aggregateId = the (get_string ''aggregateId'' parsed),
                 kr_currentEpoch = the (get_number ''currentEpoch'' parsed),
                 kr_epochs = map epoch_of_json (array_items (json_get ''epochs'' parsed))\<rparr>)"

subsection \<open>KeyringManager\<close>

record key_manager =
  km_epochKeys :: "string \<times> int \<Rightarrow> bytes option"
  km_keyStore :: key_store
  km_keyrings :: "string \<Rightarrow> keyring option"

type_synonym derive = "bytes \<Rightarrow> string \<Rightarrow> bytes result"

definition on_store :: "(key_store, 'a) io \<Rightarrow> (key_manager, 'a) io" where
  "on_store m s = (case m (km_keyStore s) of (r, ks) \<Rightarrow> (r, s\<lparr>km_keyStore := ks\<rparr>))"

definition deriveOwnerKey :: "derive \<Rightarrow> string \<Rightarrow> (key_manager, bytes) io" where
  "deriveOwnerKey derive aggregateId =
     bind_io (read_io (\<lambda>s. ks_masterKey (km_keyStore s))) (\<lambda>masterKey.
     case masterKey of
       None \<Rightarrow> throw_io (Error ''Master key not set'')
     | Some m \<Rightarrow> lift_io (derive m (''keyring:'' @ aggregateId)))"

definition cacheKey :: "string \<Rightarrow> int \<Rightarrow> bytes \<Rightarrow> (key_manager, unit) io" where
  "cacheKey aggregateId epoch key = update_io (km_epochKeys_update (\<lambda>m. m((aggregateId, epoch) \<mapsto> key)))"

definition saveKeyring :: "string \<Rightarrow> keyring \<Rightarrow> (key_manager, unit) io" where
  "saveKeyring aggregateId k = update_io (km_keyrings_update (\<lambda>m. m(aggregateId \<mapsto> k)))"

definition createInitialUpdate ::
  "crypto_port \<Rightarrow> derive \<Rightarrow> string \<Rightarrow> bytes \<Rightarrow> int \<Rightarrow> (key_manager, (int \<times> bytes) option) io" where
  "createInitialUpdate c derive aggregateId dek createdAt =
     bind_io (read_io (\<lambda>s. km_keyrings s aggregateId)) (\<lambda>existing.
     if existing \<noteq> None then return_io None
     else
       bind_io (deriveOwnerKey derive aggregateId) (\<lambda>ownerKey.
       bind_io (on_store (store_encrypt c dek ownerKey)) (\<lambda>ownerEnvelope.
       let keyring = Keyring_createInitial aggregateId createdAt ownerEnvelope in
       bind_io (saveKeyring aggregateId keyring) (\<lambda>_.
       bind_io (cacheKey aggregateId 0 dek) (\<lambda>_.
       bind_io (on_store (saveAggregateKey c aggregateId dek)) (\<lambda>_.
       bind_io (on_store (store_encrypt c (Keyring_toBytes keyring) ownerKey)) (\<lambda>encryptedKeyring.
       return_io (Some (kr_currentEpoch keyring, encryptedKeyring)))))))))"

definition cache_epoch :: "crypto_port \<Rightarrow> string \<Rightarrow> keyring \<Rightarrow> bytes \<Rightarrow> keyring_epoch \<Rightarrow> (key_manager, unit) io" where
  "cache_epoch c aggregateId k ownerKey e =
     bind_io (read_io (\<lambda>s. km_epochKeys s (aggregateId, ke_epochId e))) (\<lambda>cached.
     if cached \<noteq> None then return_io ()
     else
       bind_io (lift_io (decrypt c (ke_ownerEnvelope e) ownerKey [])) (\<lambda>dek.
       bind_io (cacheKey aggregateId (ke_epochId e) dek) (\<lambda>_.
       if ke_epochId e = kr_currentEpoch k then on_store (saveAggregateKey c aggregateId dek)
       else return_io ())))"

definition cacheEpochKeys :: "crypto_port \<Rightarrow> string \<Rightarrow> keyring \<Rightarrow> bytes \<Rightarrow> (key_manager, unit) io" where
  "cacheEpochKeys c aggregateId k ownerKey = foreach_io (cache_epoch c aggregateId k ownerKey) (kr_epochs k)"

definition ingestKeyringUpdate :: "crypto_port \<Rightarrow> derive \<Rightarrow> string \<Rightarrow> bytes \<Rightarrow> (key_manager, unit) io" where
  "ingestKeyringUpdate c derive aggregateId update =
     bind_io (deriveOwnerKey derive aggregateId) (\<lambda>ownerKey.
     bind_io (lift_io (decrypt c update ownerKey [])) (\<lambda>decrypted.
     bind_io (lift_io (Keyring_fromBytes decrypted)) (\<lambda>k.
     if kr_aggregateId k \<noteq> aggregateId then throw_io (Error ''Keyring aggregate mismatch'')
     else
       bind_io (saveKeyring aggregateId k) (\<lambda>_.
       cacheEpochKeys c aggregateId k ownerKey))))"

definition resolve_from_keyring ::
  "crypto_port \<Rightarrow> derive \<Rightarrow> string \<Rightarrow> int \<Rightarrow> keyring \<Rightarrow> (key_manager, bytes) io" where
  "resolve_from_keyring c derive aggregateId epochId k =
     bind_io (deriveOwnerKey derive aggregateId) (\<lambda>ownerKey.
     case getEpoch epochId k of
       None \<Rightarrow> throw_io (Error ''Missing keyring epoch'')
     | Some e \<Rightarrow>
         bind_io (lift_io (decrypt c (ke_ownerEnvelope e) ownerKey [])) (\<lambda>dek.
         bind_io (cacheKey aggregateId epochId dek) (\<lambda>_.
         bind_io (if epochId = kr_currentEpoch k then on_store (saveAggregateKey c aggregateId dek)
                  else return_io ()) (\<lambda>_.
         return_io dek))))"

definition resolve_from_store :: "crypto_port \<Rightarrow> string \<Rightarrow> int \<Rightarrow> (key_manager, bytes) io" where
  "resolve_from_store c aggregateId epochId =
     (if epochId = 0
      then bind_io (bind_io (read_io (\<lambda>s. getAggregateKey c aggregateId (km_keyStore s))) lift_io) (\<lambda>fallback.
        case fallback of
          Some k \<Rightarrow> bind_io (cacheKey aggregateId epochId k) (\<lambda>_. return_io k)
        | None \<Rightarrow> throw_io (Error ''Missing aggregate key''))
      else throw_io (Error ''Missing aggregate key''))"

definition resolveKeyForEpoch ::
  "crypto_port \<Rightarrow> derive \<Rightarrow> string \<Rightarrow> int option \<Rightarrow> (key_manager, bytes) io" where
  "resolveKeyForEpoch c derive aggregateId epoch =
     (let epochId = (case epoch of None \<Rightarrow> 0 | Some e \<Rightarrow> e) in
      bind_io (read_io (\<lambda>s. km_epochKeys s (aggregateId, epochId))) (\<lambda>cached.
      case cached of
        Some k \<Rightarrow> return_io k
      | None \<Rightarrow>
          bind_io (read_io (\<lambda>s. km_keyrings s aggregateId)) (\<lambda>keyringState.
          case keyringState of
            Some k \<Rightarrow> resolve_from_keyring c derive aggregateId epochId k
          | None \<Rightarrow> resolve_from_store c aggregateId epochId)))"

definition resolveKeyForEvent :: "crypto_port \<Rightarrow> derive \<Rightarrow> string \<Rightarrow> (key_manager, bytes) io" where
  "resolveKeyForEvent c derive aggregateId = resolveKeyForEpoch c derive aggregateId (Some 0)"

definition km_getCurrentEpoch :: "string \<Rightarrow> key_manager \<Rightarrow> int" where
  "km_getCurrentEpoch aggregateId s = (case km_keyrings s aggregateId of None \<Rightarrow> 0 | Some k \<Rightarrow> kr_currentEpoch k)"

subsection \<open>AggregateKeyManager\<close>

text \<open>\<open>generated\<close> is the key \<open>crypto.generateKey()\<close> would return, \<open>now\<close> the clock.\<close>

definition km_getAggregateKey :: "crypto_port \<Rightarrow> string \<Rightarrow> (key_manager, bytes option) io" where
  "km_getAggregateKey c aggregateId =
     bind_io (read_io (\<lambda>s. getAggregateKey c aggregateId (km_keyStore s))) lift_io"

definition createForOwner ::
  "crypto_port \<Rightarrow> derive \<Rightarrow> bytes \<Rightarrow> int \<Rightarrow> string \<Rightarrow> (key_manager, bytes) io" where
  "createForOwner c derive generated now goalId =
     bind_io (km_getAggregateKey c goalId) (\<lambda>existing.
     case existing of
       Some k \<Rightarrow> return_io k
     | None \<Rightarrow>
         bind_io (on_store (saveAggregateKey c goalId generated)) (\<lambda>_.
         bind_io (createInitialUpdate c derive goalId generated now) (\<lambda>_.
         return_io generated)))"

definition get_key :: "crypto_port \<Rightarrow> string \<Rightarrow> (key_manager, bytes) io" where
  "get_key c goalId =
     bind_io (km_getAggregateKey c goalId) (\<lambda>existing.
     case existing of None \<Rightarrow> throw_io (Error ''Missing aggregate key'') | Some k \<Rightarrow> return_io k)"

definition wrapForUser ::
  "primitives \<Rightarrow> nat \<Rightarrow> string \<Rightarrow> bytes \<Rightarrow> bytes \<Rightarrow> bytes \<Rightarrow> (key_manager, bytes \<times> bytes) io" where
  "wrapForUser P draw goalId senderPrivateKey senderPublicKey recipientPublicKey =
     bind_io (get_key (web_crypto P) goalId) (\<lambda>kGoal.
     bind_io (lift_io (wrapForRecipient P draw kGoal senderPrivateKey recipientPublicKey)) (\<lambda>wrappedKey.
     return_io (wrappedKey, senderPublicKey)))"

definition acceptShared ::
  "primitives \<Rightarrow> string \<Rightarrow> bytes \<Rightarrow> bytes \<Rightarrow> bytes \<Rightarrow> (key_manager, bytes) io" where
  "acceptShared P goalId wrappedKey senderPublicKey recipientPrivateKey =
     bind_io (km_getAggregateKey (web_crypto P) goalId) (\<lambda>existing.
     case existing of
       Some k \<Rightarrow> return_io k
     | None \<Rightarrow>
         bind_io (lift_io (unwrapFromSender P wrappedKey senderPublicKey recipientPrivateKey)) (\<lambda>kGoal.
         bind_io (on_store (saveAggregateKey (web_crypto P) goalId kGoal)) (\<lambda>_.
         return_io kGoal)))"

subsection \<open>Round trip of the keyring\<close>

lemma encodeBytes_ok [simp]:
  "isNumberArray (Some (encodeBytes bs))" "decodeBytes (Some (encodeBytes bs)) = bs" "wf_json (encodeBytes bs)"
  by (auto simp: isNumberArray_def encodeBytes_def decodeBytes_def is_JNum_def list_all_iff comp_def)

lemma recipient_roundtrip [simp]:
  "isRecipientEnvelope (recipient_object r)" "recipient_of_json (recipient_object r) = r" "wf_json (recipient_object r)"
  by (simp_all add: isRecipientEnvelope_def recipient_of_json_def recipient_object_def get_string_def json_get_def)

lemma epoch_roundtrip [simp]:
  "isEpochSerialized (epoch_object e)" "epoch_of_json (epoch_object e) = e" "wf_json (epoch_object e)"
  by (auto simp: isEpochSerialized_def epoch_of_json_def epoch_object_def get_number_def json_get_def array_all_def
      array_items_def list_all_iff comp_def)

lemma keyring_roundtrip: "Keyring_fromBytes (Keyring_toBytes k) = Inr k"
proof -
  have "wf_json (keyring_object k)" by (auto simp: keyring_object_def)
  moreover have "isKeyringSerialized (keyring_object k)"
    by (auto simp: isKeyringSerialized_def keyring_object_def get_number_def get_string_def json_get_def array_all_def
        list_all_iff)
  ultimately show ?thesis
    by (simp add: Keyring_fromBytes_def Keyring_toBytes_def)
      (simp add: keyring_object_def get_number_def get_string_def json_get_def array_items_def comp_def)
qed

subsection \<open>Resolution\<close>

text \<open>A resolved key is cached, so every later resolution returns the same key and changes nothing.\<close>

lemma resolve_cached: "km_epochKeys s (a, 0) = Some k \<Longrightarrow> resolveKeyForEvent c derive a s = (Inr k, s)"
  by (simp add: resolveKeyForEvent_def resolveKeyForEpoch_def bind_io_def)

lemma on_store_frame [simp]: "on_store m s = (r, s') \<Longrightarrow> km_epochKeys s' = km_epochKeys s"
  by (auto simp: on_store_def split: prod.splits)

lemma resolve_caches:
  assumes "resolveKeyForEvent c derive a s = (Inr k, s')"
  shows "km_epochKeys s' (a, 0) = Some k"
proof (cases "km_epochKeys s (a, 0)")
  case (Some k')
  then show ?thesis using assms resolve_cached by (metis Pair_inject sum.inject(2))
next
  case None
  show ?thesis
  proof (cases "km_keyrings s a")
    case (Some kr)
    then show ?thesis
      using assms None
      by (auto simp: resolveKeyForEvent_def resolveKeyForEpoch_def resolve_from_keyring_def bind_io_Inr cacheKey_def
          split: option.splits if_splits dest!: on_store_frame)
  next
    case none: None
    then show ?thesis
      using assms None
      by (auto simp: resolveKeyForEvent_def resolveKeyForEpoch_def resolve_from_store_def bind_io_Inr cacheKey_def
          split: option.splits)
  qed
qed

text \<open>
  The device that creates the key and a second device with the same master key that ingests
  the keyring update resolve the events of the aggregate to the same key.
\<close>

lemma createInitialUpdate_run:
  assumes "km_keyrings s a = None" and "ks_masterKey (km_keyStore s) = Some m" and "derive m (''keyring:'' @ a) = Inr ok"
    and "accepts_key c ok" and "accepts_key c m" and "aead_ok c"
  obtains env upd s' where "createInitialUpdate c derive a dek t s = (Inr (Some (0, upd)), s')"
    and "decrypt c env ok [] = Inr dek" and "decrypt c upd ok [] = Inr (Keyring_toBytes (Keyring_createInitial a t env))"
    and "km_epochKeys s' (a, 0) = Some dek"
proof -
  have enc: "\<exists>x. encrypt c n p ok [] = Inr x" for n p
    using assms(4) unfolding accepts_key_def by (metis isl_def sum.exhaust)
  let ?s = "km_keyStore s"
  obtain env where env: "encrypt c (ks_draws ?s) dek ok [] = Inr env" using enc by blast
  let ?k = "Keyring_createInitial a t env" and ?s1 = "?s\<lparr>ks_draws := ks_draws ?s + 1\<rparr>"
  obtain blob where save: "saveAggregateKey c a dek ?s1 =
      (Inr (), ?s1\<lparr>ks_draws := ks_draws ?s1 + 1, ks_aggregate := idb_put a blob (ks_aggregate ?s1)\<rparr>)"
    using saveAggregateKey_run [of ?s1 m c dek a] assms(2,5) by auto
  obtain upd where upd: "encrypt c (ks_draws ?s + 2) (Keyring_toBytes ?k) ok [] = Inr upd" using enc by blast
  have "\<exists>s'. createInitialUpdate c derive a dek t s = (Inr (Some (0, upd)), s') \<and> km_epochKeys s' (a, 0) = Some dek"
    using assms(1-3) env save upd
    by (simp add: createInitialUpdate_def bind_io_def deriveOwnerKey_def on_store_def store_encrypt_def saveKeyring_def
        cacheKey_def Let_def) (simp add: Keyring_createInitial_def)
  then show thesis using that decrypt_encrypt [OF assms(6)] env upd by blast
qed

lemma ingest_run:
  assumes "km_epochKeys s (a, 0) = None" and "ks_masterKey (km_keyStore s) = Some m"
    and "derive m (''keyring:'' @ a) = Inr ok" and "accepts_key c m"
    and "decrypt c upd ok [] = Inr (Keyring_toBytes (Keyring_createInitial a t env))" and "decrypt c env ok [] = Inr dek"
  shows "\<exists>s'. ingestKeyringUpdate c derive a upd s = (Inr (), s') \<and> km_epochKeys s' (a, 0) = Some dek"
proof -
  let ?s = "km_keyStore s"
  obtain blob where save: "saveAggregateKey c a dek ?s =
      (Inr (), ?s\<lparr>ks_draws := ks_draws ?s + 1, ks_aggregate := idb_put a blob (ks_aggregate ?s)\<rparr>)"
    using saveAggregateKey_run [OF assms(2,4), of dek a] by metis
  show ?thesis
    using assms save
    by (simp add: ingestKeyringUpdate_def bind_io_def deriveOwnerKey_def keyring_roundtrip saveKeyring_def
        cacheEpochKeys_def Keyring_createInitial_def cache_epoch_def cacheKey_def on_store_def)
qed

lemma keyring_transfer:
  assumes "aead_ok c" and "accepts_key c m" and "derive m (''keyring:'' @ a) = Inr ok" and "accepts_key c ok"
    and "ks_masterKey (km_keyStore s) = Some m" and "km_keyrings s a = None"
    and "ks_masterKey (km_keyStore d) = Some m" and "km_epochKeys d (a, 0) = None"
  shows "\<exists>upd s' d'. createInitialUpdate c derive a dek t s = (Inr (Some (0, upd)), s') \<and>
     ingestKeyringUpdate c derive a upd d = (Inr (), d') \<and>
     resolveKeyForEvent c derive a s' = (Inr dek, s') \<and> resolveKeyForEvent c derive a d' = (Inr dek, d')"
proof -
  obtain env upd s' where s': "createInitialUpdate c derive a dek t s = (Inr (Some (0, upd)), s')"
    "decrypt c env ok [] = Inr dek" "decrypt c upd ok [] = Inr (Keyring_toBytes (Keyring_createInitial a t env))"
    "km_epochKeys s' (a, 0) = Some dek"
    using createInitialUpdate_run [where derive = derive and dek = dek and t = t, OF assms(6,5,3,4,2,1)] by metis
  obtain d' where d': "ingestKeyringUpdate c derive a upd d = (Inr (), d')" "km_epochKeys d' (a, 0) = Some dek"
    using ingest_run [where derive = derive, OF assms(8,7,3,2) s'(3,2)] by blast
  then show ?thesis using s' resolve_cached by blast
qed

end
