(* ===== verification/Repository.thy ===== *)
theory Repository
  imports EventStoreFacts Snapshots Keyring
begin

text \<open>
  packages/infrastructure/src/goals/GoalRepository.ts and projects/ProjectRepository.ts: loading
  an aggregate from its snapshot and its encrypted events, and saving its new events. A device
  is its database and its key manager. The clock and the random draws of the cipher are
  explicit; the number of draws is the one of the key store.
\<close>

record device =
  dv_db :: local_db
  dv_keys :: key_manager

definition dv_draws :: "device \<Rightarrow> nat" where
  "dv_draws d = ks_draws (km_keyStore (dv_keys d))"

definition advance_draws :: "nat \<Rightarrow> device \<Rightarrow> device" where
  "advance_draws n d =
     d\<lparr>dv_keys := (dv_keys d)\<lparr>km_keyStore := (km_keyStore (dv_keys d))\<lparr>ks_draws := dv_draws d + n\<rparr>\<rparr>\<rparr>"

definition on_keys :: "(key_manager, 'a) io \<Rightarrow> (device, 'a) io" where
  "on_keys m d = (case m (dv_keys d) of (r, km) \<Rightarrow> (r, d\<lparr>dv_keys := km\<rparr>))"

definition on_db :: "(local_db, 'a) io \<Rightarrow> (device, 'a) io" where
  "on_db m d = (case m (dv_db d) of (r, db) \<Rightarrow> (r, d\<lparr>dv_db := db\<rparr>))"

subsection \<open>Reading events\<close>

definition decrypt_event :: "crypto_port \<Rightarrow> derive \<Rightarrow> encrypted_event \<Rightarrow> (device, domain_event) io" where
  "decrypt_event c derive e =
     bind_io (on_keys (resolveKeyForEvent c derive (ee_aggregateId e))) (\<lambda>key. lift_io (toDomain c e key))"

subsection \<open>GoalRepository\<close>

definition goal_loadSnapshot :: "crypto_port \<Rightarrow> string \<Rightarrow> bytes \<Rightarrow> local_db \<Rightarrow> goal_snapshot option result" where
  "goal_loadSnapshot c aggregateId kGoal db =
     (case snapshot_get ''goal'' aggregateId db of
        None \<Rightarrow> Inr None
      | Some rec \<Rightarrow>
          bind_result (decrypt c (snap_encrypted rec) kGoal (buildSnapshotAad aggregateId (snap_version rec))) (\<lambda>p.
          bind_result (decodeGoalSnapshotDomain p (snap_version rec)) (\<lambda>s. Inr (Some s))))"

definition goal_load :: "crypto_port \<Rightarrow> derive \<Rightarrow> string \<Rightarrow> (device, goal option) io" where
  "goal_load c derive i =
     bind_io (on_keys (km_getAggregateKey c i)) (\<lambda>snapshotKey.
     bind_io (case snapshotKey of
                None \<Rightarrow> return_io None
              | Some k \<Rightarrow> bind_io (read_io (\<lambda>d. goal_loadSnapshot c i k (dv_db d))) lift_io) (\<lambda>loaded.
     bind_io (read_io (\<lambda>d. getEvents ''goal'' i
       (case loaded of Some s \<Rightarrow> gs_version s + 1 | None \<Rightarrow> 1) (dv_db d))) (\<lambda>tailEvents.
     if loaded = None \<and> tailEvents = [] then return_io None
     else
       bind_io (map_io (decrypt_event c derive) tailEvents) (\<lambda>domainTail.
       bind_io (lift_io (case loaded of
                           Some s \<Rightarrow> Goal_reconstituteFromSnapshot s domainTail
                         | None \<Rightarrow> Goal_reconstitute i domainTail)) (\<lambda>g.
       return_io (Some g))))))"

text \<open>The errors of \<open>save\<close>: concurrency errors pass, everything else in the \<open>try\<close> is wrapped.\<close>

definition wrap_error :: "store_error \<Rightarrow> store_error" where
  "wrap_error e = (case e of ConcurrencyError m \<Rightarrow> ConcurrencyError m | _ \<Rightarrow> PersistenceError ''Failed to save'')"

text \<open>Encrypt the pending events from \<open>startVersion\<close> on and append them.\<close>

definition append_pending ::
  "crypto_port \<Rightarrow> string \<Rightarrow> string \<Rightarrow> bytes \<Rightarrow> domain_event list \<Rightarrow> int \<Rightarrow> device \<Rightarrow> (store_error + unit) \<times> device" where
  "append_pending c ty i key pending startVersion =
     bind_io (read_io (\<lambda>d. toEncryptedBatch c (dv_draws d) ty pending startVersion key)) (\<lambda>r.
     bind_io (update_io (advance_draws (length pending))) (\<lambda>_.
     case r of
       Inl e \<Rightarrow> throw_io (Failed e)
     | Inr encrypted \<Rightarrow>
         (\<lambda>d. case store_append ty i encrypted (dv_db d) of
                Inl e \<Rightarrow> (Inl e, d)
              | Inr db \<Rightarrow> (Inr (), d\<lparr>dv_db := db\<rparr>))))"

definition goal_save :: "crypto_port \<Rightarrow> bytes \<Rightarrow> goal \<Rightarrow> device \<Rightarrow> (store_error + goal) \<times> device" where
  "goal_save c encryptionKey g =
     (let pending = ag_uncommitted g; i = ag_id g in
      if pending = [] then return_io g
      else
       bind_io (rethrow_io Failed (bind_io (read_io (\<lambda>d. goal_loadSnapshot c i encryptionKey (dv_db d))) lift_io)) (\<lambda>sn.
       bind_io (read_io (\<lambda>d. max_version ''goal'' i (dv_db d))) (\<lambda>maxEventVersion.
       let baseVersion = max maxEventVersion (case sn of None \<Rightarrow> 0 | Some s \<Rightarrow> gs_version s) in
       bind_io (rethrow_io wrap_error (append_pending c ''goal'' i encryptionKey pending (baseVersion + 1))) (\<lambda>_.
       return_io (markEventsAsCommitted g)))))"

definition goal_repo_archive ::
  "crypto_port \<Rightarrow> derive \<Rightarrow> string \<Rightarrow> int \<Rightarrow> string \<Rightarrow> string \<Rightarrow> device \<Rightarrow> (store_error + unit) \<times> device" where
  "goal_repo_archive c derive i archivedAt actorId eventId =
     bind_io (rethrow_io Failed (goal_load c derive i)) (\<lambda>found.
     case found of
       None \<Rightarrow> return_io ()
     | Some g \<Rightarrow>
         bind_io (rethrow_io Failed (lift_io (goal_archive archivedAt actorId eventId g))) (\<lambda>g'.
         bind_io (rethrow_io Failed (on_keys (km_getAggregateKey c i))) (\<lambda>kGoal.
         case kGoal of
           None \<Rightarrow> throw_io (MissingKeyError ''Missing encryption key'')
         | Some k \<Rightarrow> bind_io (goal_save c k g') (\<lambda>_. return_io ()))))"

subsection \<open>ProjectRepository\<close>

definition isCryptoOperationError :: "error \<Rightarrow> bool" where
  "isCryptoOperationError e \<longleftrightarrow> e = Error ''OperationError''"

definition purgeCorruptSnapshot :: "string \<Rightarrow> local_db \<Rightarrow> local_db" where
  "purgeCorruptSnapshot aggregateId db = delete_snapshots ''project'' aggregateId db"

definition project_loadSnapshot :: "crypto_port \<Rightarrow> string \<Rightarrow> bytes \<Rightarrow> (local_db, project_snapshot option) io" where
  "project_loadSnapshot c aggregateId key db =
     (case snapshot_get ''project'' aggregateId db of
        None \<Rightarrow> (Inr None, db)
      | Some rec \<Rightarrow>
          (case decrypt c (snap_encrypted rec) key (buildSnapshotAad aggregateId (snap_version rec)) of
             Inl e \<Rightarrow>
               if isCryptoOperationError e then (Inr None, purgeCorruptSnapshot aggregateId db) else (Inl e, db)
           | Inr plaintext \<Rightarrow>
               (case decodeProjectSnapshotDomain plaintext (snap_version rec) of
                  Inl _ \<Rightarrow> (Inr None, purgeCorruptSnapshot aggregateId db)
                | Inr s \<Rightarrow> (Inr (Some s), db))))"

definition project_load :: "crypto_port \<Rightarrow> derive \<Rightarrow> string \<Rightarrow> (device, project option) io" where
  "project_load c derive i =
     bind_io (on_keys (km_getAggregateKey c i)) (\<lambda>snapshotKey.
     bind_io (case snapshotKey of None \<Rightarrow> return_io None | Some k \<Rightarrow> on_db (project_loadSnapshot c i k)) (\<lambda>loaded.
     bind_io (read_io (\<lambda>d. getEvents ''project'' i
       (case loaded of Some s \<Rightarrow> psn_version s + 1 | None \<Rightarrow> 1) (dv_db d))) (\<lambda>tailEvents.
     if loaded = None \<and> tailEvents = [] then return_io None
     else
       bind_io (map_io (decrypt_event c derive) tailEvents) (\<lambda>domainTail.
       bind_io (lift_io (case loaded of
                           Some s \<Rightarrow> Project_reconstituteFromSnapshot s domainTail
                         | None \<Rightarrow> Project_reconstitute i domainTail)) (\<lambda>p.
       return_io (Some p))))))"

text \<open>The payload of a snapshot, read through the getters, which throw before creation.\<close>

definition snapshot_payload :: "project \<Rightarrow> project_snapshot_state result" where
  "snapshot_payload p =
     (let s = ag_state p in
      bind_result (isDefined ''Project name'' (p_name s)) (\<lambda>nm.
      bind_result (isDefined ''Project status'' (p_status s)) (\<lambda>st.
      bind_result (isDefined ''Project startDate'' (p_startDate s)) (\<lambda>sd.
      bind_result (isDefined ''Project targetDate'' (p_targetDate s)) (\<lambda>td.
      bind_result (isDefined ''Project description'' (p_description s)) (\<lambda>de.
      bind_result (isDefined ''Project createdBy'' (p_createdBy s)) (\<lambda>cb.
      bind_result (isDefined ''Project createdAt'' (p_createdAt s)) (\<lambda>ca.
      bind_result (isDefined ''Project updatedAt'' (p_updatedAt s)) (\<lambda>ua.
      Inr \<lparr>pss_id = ag_id p, pss_name = nm, pss_status = st, pss_startDate = sd, pss_targetDate = td,
        pss_description = de, pss_goalId = p_goalId s, pss_milestones = p_milestones s, pss_createdBy = cb,
        pss_createdAt = ca, pss_updatedAt = ua, pss_archivedAt = p_archivedAt s,
        pss_version = ag_version p\<rparr>)))))))))"

definition persistSnapshot :: "crypto_port \<Rightarrow> project \<Rightarrow> bytes \<Rightarrow> (device, unit) io" where
  "persistSnapshot c p encryptionKey =
     bind_io (lift_io (snapshot_payload p)) (\<lambda>payload.
     bind_io (read_io (\<lambda>d. encrypt c (dv_draws d) (encodeProjectSnapshotState payload) encryptionKey
       (buildSnapshotAad (ag_id p) (ag_version p)))) (\<lambda>r.
     bind_io (update_io (advance_draws 1)) (\<lambda>_.
     bind_io (lift_io r) (\<lambda>cipher.
     update_io (\<lambda>d. d\<lparr>dv_db := snapshot_put
       \<lparr>snap_aggregate_type = ''project'', snap_aggregate_id = ag_id p, snap_version = ag_version p,
        snap_encrypted = cipher, snap_last_global_seq = 0, snap_last_pending_commit_seq = 0,
        snap_written_at = pss_updatedAt payload\<rparr> (dv_db d)\<rparr>)))))"

definition project_save :: "crypto_port \<Rightarrow> bytes \<Rightarrow> project \<Rightarrow> device \<Rightarrow> (store_error + project) \<times> device" where
  "project_save c encryptionKey p =
     (let pending = ag_uncommitted p; i = ag_id p in
      if pending = [] then return_io p
      else
       bind_io (rethrow_io Failed (on_db (project_loadSnapshot c i encryptionKey))) (\<lambda>sn.
       bind_io (read_io (\<lambda>d. max_version ''project'' i (dv_db d))) (\<lambda>maxEventVersion.
       let baseVersion = max maxEventVersion (case sn of None \<Rightarrow> 0 | Some s \<Rightarrow> psn_version s) in
       bind_io (rethrow_io wrap_error
         (bind_io (append_pending c ''project'' i encryptionKey pending (baseVersion + 1)) (\<lambda>_.
          rethrow_io Failed (persistSnapshot c p encryptionKey)))) (\<lambda>_.
       return_io (markEventsAsCommitted p)))))"

end
