(* ===== verification/RepositoryFacts.thy ===== *)
theory RepositoryFacts
  imports Repository
begin

text \<open>
  What the repositories guarantee: a device whose events table stores a history loads the
  aggregate that the history replays to, through a snapshot or without one, and a save extends
  the stored history by exactly the uncommitted events.
\<close>

subsection \<open>Stored versions do not influence a replay\<close>

fun number :: "int \<Rightarrow> domain_event list \<Rightarrow> domain_event list" where
  "number v [] = []"
| "number v (e # es) = with_version v e # number (v + 1) es"

lemma project_handle_version [simp]: "project_handle (with_version v e) s = project_handle e s"
proof -
  have "on_project (m\<lparr>em_version := w\<rparr>) p s = on_project m p s" for m p w by (cases p) simp_all
  then show ?thesis by (simp add: project_handle_def with_version_def split: domain_payload.split)
qed

lemma goal_handle_version [simp]: "goal_handle (with_version v e) s = goal_handle e s"
proof -
  have "on_goal (m\<lparr>em_version := w\<rparr>) p s = on_goal m p s" for m p w by (cases p) simp_all
  then show ?thesis by (simp add: goal_handle_def with_version_def split: domain_payload.split)
qed

lemma loadFromHistory_number:
  "(\<And>v e s. h (with_version v e) s = h e s) \<Longrightarrow> loadFromHistory h (number v es) a = loadFromHistory h es a"
  by (induction es arbitrary: v a) (auto simp: loadFromHistory_def load_event_def split: sum.split)

lemma replay_numbered [simp]:
  "loadFromHistory project_handle (number v es) p = loadFromHistory project_handle es p"
  "loadFromHistory goal_handle (number v es) g = loadFromHistory goal_handle es g"
  by (rule loadFromHistory_number, simp)+

subsection \<open>Keys\<close>

text \<open>
  The device holds the key of the aggregate: in the key store, and not shadowed by another
  key in the cache or in a keyring that has not been cached.
\<close>

definition device_key :: "crypto_port \<Rightarrow> string \<Rightarrow> bytes \<Rightarrow> device \<Rightarrow> bool" where
  "device_key c a key d \<longleftrightarrow> getAggregateKey c a (km_keyStore (dv_keys d)) = Inr (Some key) \<and>
     (km_epochKeys (dv_keys d) (a, 0) = Some key \<or>
      km_epochKeys (dv_keys d) (a, 0) = None \<and> km_keyrings (dv_keys d) a = None)"

lemma device_key_db [simp]: "device_key c a key (d\<lparr>dv_db := db\<rparr>) = device_key c a key d"
  by (simp add: device_key_def)

lemma getAggregateKey_draws [simp]: "getAggregateKey c a (ks\<lparr>ks_draws := n\<rparr>) = getAggregateKey c a ks"
  by (simp add: getAggregateKey_def require_master_def)

lemma device_key_draws [simp]: "device_key c a key (advance_draws n d) = device_key c a key d"
  by (simp add: device_key_def advance_draws_def)

lemma dv_db_draws [simp]: "dv_db (advance_draws n d) = dv_db d"
  by (simp add: advance_draws_def)

lemma device_key_get: "device_key c a key d \<Longrightarrow> on_keys (km_getAggregateKey c a) d = (Inr (Some key), d)"
  by (simp add: device_key_def on_keys_def km_getAggregateKey_def bind_io_def)

lemma device_key_resolve:
  assumes "device_key c a key d"
  shows "\<exists>d'. on_keys (resolveKeyForEvent c derive a) d = (Inr key, d') \<and> dv_db d' = dv_db d \<and> device_key c a key d'"
  using assms unfolding device_key_def
proof (elim conjE disjE)
  assume "getAggregateKey c a (km_keyStore (dv_keys d)) = Inr (Some key)"
    and "km_epochKeys (dv_keys d) (a, 0) = Some key"
  then show "\<exists>d'. on_keys (resolveKeyForEvent c derive a) d = (Inr key, d') \<and> dv_db d' = dv_db d \<and>
     getAggregateKey c a (km_keyStore (dv_keys d')) = Inr (Some key) \<and>
     (km_epochKeys (dv_keys d') (a, 0) = Some key \<or>
      km_epochKeys (dv_keys d') (a, 0) = None \<and> km_keyrings (dv_keys d') a = None)"
    by (simp add: on_keys_def resolve_cached)
next
  assume "getAggregateKey c a (km_keyStore (dv_keys d)) = Inr (Some key)"
    and "km_epochKeys (dv_keys d) (a, 0) = None" and "km_keyrings (dv_keys d) a = None"
  then show "\<exists>d'. on_keys (resolveKeyForEvent c derive a) d = (Inr key, d') \<and> dv_db d' = dv_db d \<and>
     getAggregateKey c a (km_keyStore (dv_keys d')) = Inr (Some key) \<and>
     (km_epochKeys (dv_keys d') (a, 0) = Some key \<or>
      km_epochKeys (dv_keys d') (a, 0) = None \<and> km_keyrings (dv_keys d') a = None)"
    by (simp add: on_keys_def resolveKeyForEvent_def resolveKeyForEpoch_def resolve_from_store_def bind_io_def
        cacheKey_def)
qed

subsection \<open>Reading the stored history\<close>

lemma filter_versions:
  "map f rs = map (\<lambda>i. v + int i) [0..<length rs] \<Longrightarrow> filter (\<lambda>r. v + int k \<le> f r) rs = drop k rs"
proof (induction rs arbitrary: v k)
  case (Cons r rs)
  have "map (\<lambda>i. v + int i) [0..<Suc (length rs)] = v # map (\<lambda>i. (v + 1) + int i) [0..<length rs]"
    by (simp add: map_upt_Suc algebra_simps del: upt_Suc)
  then have r: "f r = v" and rs: "map f rs = map (\<lambda>i. (v + 1) + int i) [0..<length rs]"
    using Cons.prems by (simp_all del: upt_Suc)
  show ?case
  proof (cases k)
    case 0
    then show ?thesis using Cons.IH [OF rs, of 0] r by (fastforce simp: filter_id_conv)
  next
    case (Suc k')
    then show ?thesis using Cons.IH [OF rs, of k'] r by (simp add: algebra_simps)
  qed
qed simp

lemma stored_versions:
  assumes "stores c key t a evs db"
  shows "length (stored_rows t a db) = length evs"
    and "map row_version (stored_rows t a db) = map (\<lambda>i. 1 + int i) [0..<length (stored_rows t a db)]"
  using holds_events_versions assms by (auto simp: stores_def)

lemma getEvents_stored:
  assumes "stores c key t a evs db"
  shows "getEvents t a (int k + 1) db = map encrypted_of_row (drop k (stored_rows t a db))"
proof -
  have "filter (\<lambda>r. int k + 1 \<le> row_version r) (stored_rows t a db) = drop k (stored_rows t a db)"
    using filter_versions [OF stored_versions(2) [OF assms], of k] by (simp add: add.commute)
  then show ?thesis by (simp add: getEvents_def stored_rows_def filter_sort)
qed

lemma holds_events_drop:
  "holds_events c key v rs es \<Longrightarrow> holds_events c key (v + int k) (drop k rs) (drop k es)"
proof (induction k arbitrary: v rs es)
  case (Suc k)
  show ?case
  proof (cases rs)
    case (Cons r rs')
    then obtain e es' where "es = e # es'" "holds_events c key (v + 1) rs' es'"
      using Suc.prems by (cases es) auto
    then show ?thesis using Suc.IH [of "v + 1" rs' es'] Cons by (simp add: algebra_simps)
  qed (use Suc.prems in simp)
qed simp

lemma decrypt_rows:
  assumes "device_key c a key d" and "holds_events c key v rs es" and "\<forall>r \<in> set rs. row_aggregate_id r = a"
  shows "\<exists>d'. map_io (decrypt_event c derive) (map encrypted_of_row rs) d = (Inr (number v es), d') \<and>
     dv_db d' = dv_db d \<and> device_key c a key d'"
  using assms
proof (induction rs arbitrary: v es d)
  case (Cons r rs)
  then obtain e es' where es: "es = e # es'" "holds_event c key v r e" "holds_events c key (v + 1) rs es'"
    by (cases es) auto
  have agg: "ee_aggregateId (encrypted_of_row r) = a" using Cons.prems(3) by (simp add: encrypted_of_row_def)
  obtain d1 where d1: "on_keys (resolveKeyForEvent c derive a) d = (Inr key, d1)" "dv_db d1 = dv_db d" "device_key c a key d1"
    using device_key_resolve [OF Cons.prems(1)] by blast
  have "decrypt_event c derive (encrypted_of_row r) d = (Inr (with_version v e), d1)"
    using d1(1) es(2) agg by (simp add: decrypt_event_def bind_io_def holds_event_def)
  moreover obtain d' where "map_io (decrypt_event c derive) (map encrypted_of_row rs) d1 = (Inr (number (v + 1) es'), d')"
    "dv_db d' = dv_db d1" "device_key c a key d'"
    using Cons.IH [OF d1(3) es(3)] Cons.prems(3) by auto
  ultimately show ?case using d1(2) es(1) by (simp add: bind_io_def)
qed simp

lemma read_tail:
  assumes "device_key c a key d" and "stores c key t a evs (dv_db d)"
  shows "\<exists>d'. map_io (decrypt_event c derive) (getEvents t a (int k + 1) (dv_db d)) d =
     (Inr (number (int k + 1) (drop k evs)), d') \<and> dv_db d' = dv_db d \<and> device_key c a key d'"
proof -
  have "\<forall>r \<in> set (drop k (stored_rows t a (dv_db d))). row_aggregate_id r = a"
    using set_drop_subset by (fastforce simp: stored_rows_def aggregate_rows_def)
  moreover have "holds_events c key (int k + 1) (drop k (stored_rows t a (dv_db d))) (drop k evs)"
    using holds_events_drop [of c key 1 "stored_rows t a (dv_db d)" evs k] assms(2) by (simp add: stores_def add.commute)
  ultimately show ?thesis using decrypt_rows [OF assms(1)] getEvents_stored [OF assms(2)] by simp
qed

lemma getEvents_empty:
  assumes "stores c key t a evs db"
  shows "getEvents t a (int k + 1) db = [] \<longleftrightarrow> length evs \<le> k"
  using getEvents_stored [OF assms, of k] stored_versions(1) [OF assms] by simp

subsection \<open>Loading\<close>

text \<open>
  The snapshot of a project, when there is one, is the state at an earlier point of the stored
  history.
\<close>

definition snapshot_current :: "crypto_port \<Rightarrow> bytes \<Rightarrow> string \<Rightarrow> domain_event list \<Rightarrow> local_db \<Rightarrow> bool" where
  "snapshot_current c key i evs db \<longleftrightarrow> snapshot_get ''project'' i db = None \<or>
     (\<exists>k p pl. k \<le> length evs \<and> Project_reconstitute i (take k evs) = Inr p \<and> snapshot_payload p = Inr pl \<and>
        project_loadSnapshot c i key db = (Inr (Some (snapshot_of_state pl)), db))"

definition project_repo_ok :: "crypto_port \<Rightarrow> bytes \<Rightarrow> string \<Rightarrow> domain_event list \<Rightarrow> device \<Rightarrow> bool" where
  "project_repo_ok c key i evs d \<longleftrightarrow> db_wf (dv_db d) \<and> stores c key ''project'' i evs (dv_db d) \<and>
     snapshot_current c key i evs (dv_db d) \<and> device_key c i key d"

lemma snapshot_payload_Inr:
  assumes "snapshot_payload p = Inr pl"
  shows "pss_id pl = ag_id p" and "pss_version pl = ag_version p"
    and "project_hydrateFromSnapshot (snapshot_of_state pl) (ar_new (pss_id pl) new_project_state) = markEventsAsCommitted p"
  using assms
  by (auto simp: snapshot_payload_def Let_def bind_result_eq_Inr snapshot_of_state_def project_hydrateFromSnapshot_def
      restoreVersion_def ar_new_def markEventsAsCommitted_def intro!: aggregate.equality project_state.equality)

lemma reconstitute_frame:
  assumes "ar_reconstitute h s0 i evs = Inr a"
  shows "ag_id a = i" "ag_version a = int (length evs)" "ag_uncommitted a = []"
    "loadFromHistory h evs (ar_new i s0) = Inr a"
proof -
  obtain b where b: "loadFromHistory h evs (ar_new i s0) = Inr b" "a = markEventsAsCommitted b"
    using assms by (auto simp: ar_reconstitute_def bind_result_eq_Inr)
  then show "ag_id a = i" "ag_version a = int (length evs)" "ag_uncommitted a = []"
    "loadFromHistory h evs (ar_new i s0) = Inr a"
    using loadFromHistory_frame [OF b(1)] by (auto simp: ar_new_def markEventsAsCommitted_def)
qed

lemma commit_id: "ag_uncommitted a = [] \<Longrightarrow> markEventsAsCommitted a = a"
  by (simp add: markEventsAsCommitted_def)

text \<open>Replaying the tail on a snapshot is replaying the whole history.\<close>

lemma snapshot_tail:
  assumes "Project_reconstitute i (take k evs) = Inr p" and "snapshot_payload p = Inr pl"
  shows "Project_reconstituteFromSnapshot (snapshot_of_state pl) (number v (drop k evs)) = Project_reconstitute i evs"
proof -
  note p = reconstitute_frame [OF assms(1) [unfolded Project_reconstitute_def]]
  have hyd: "project_hydrateFromSnapshot (snapshot_of_state pl) (ar_new (psn_id (snapshot_of_state pl)) new_project_state) = p"
    using snapshot_payload_Inr(3) [OF assms(2)] commit_id [OF p(3)] by (simp add: snapshot_of_state_def)
  have "loadFromHistory project_handle evs (ar_new i new_project_state) = loadFromHistory project_handle (drop k evs) p"
    using loadFromHistory_append [of project_handle "take k evs" "drop k evs"] p(4) by simp
  then show ?thesis
    by (simp add: Project_reconstituteFromSnapshot_def hyd Project_reconstitute_def ar_reconstitute_def)
qed

lemma project_load_ok:
  assumes ok: "project_repo_ok c key i evs d"
  shows "\<exists>d'. project_load c derive i d =
       (if evs = [] then Inr None else bind_result (Project_reconstitute i evs) (\<lambda>p. Inr (Some p)), d') \<and>
     dv_db d' = dv_db d \<and> device_key c i key d'"
proof -
  have key: "device_key c i key d" and st: "stores c key ''project'' i evs (dv_db d)"
    using ok by (simp_all add: project_repo_ok_def)
  note get = device_key_get [OF key]
  consider (none) "snapshot_get ''project'' i (dv_db d) = None"
    | (some) k p pl where "k \<le> length evs" "Project_reconstitute i (take k evs) = Inr p" "snapshot_payload p = Inr pl"
        "project_loadSnapshot c i key (dv_db d) = (Inr (Some (snapshot_of_state pl)), dv_db d)"
    using ok by (auto simp: project_repo_ok_def snapshot_current_def)
  then show ?thesis
  proof cases
    case none
    have snap: "on_db (project_loadSnapshot c i key) d = (Inr None, d)"
      using none by (simp add: on_db_def project_loadSnapshot_def)
    show ?thesis
    proof (cases "evs = []")
      case True
      then have "getEvents ''project'' i 1 (dv_db d) = []" using getEvents_empty [OF st, of 0] by simp
      then show ?thesis using True get snap key by (simp add: project_load_def bind_io_def)
    next
      case False
      obtain d' where "map_io (decrypt_event c derive) (getEvents ''project'' i 1 (dv_db d)) d = (Inr (number 1 evs), d')"
        "dv_db d' = dv_db d" "device_key c i key d'"
        using read_tail [OF key st, of derive 0] by auto
      moreover have "getEvents ''project'' i 1 (dv_db d) \<noteq> []" using getEvents_empty [OF st, of 0] False by simp
      moreover have "Project_reconstitute i (number 1 evs) = Project_reconstitute i evs"
        by (simp add: Project_reconstitute_def ar_reconstitute_def)
      ultimately show ?thesis
        using False get snap
        by (cases "Project_reconstitute i evs") (simp_all add: project_load_def bind_io_def)
    qed
  next
    case some
    have ver: "psn_version (snapshot_of_state pl) = int k"
      using snapshot_payload_Inr(2) [OF some(3)] reconstitute_frame(2) [OF some(2) [unfolded Project_reconstitute_def]]
        some(1) by (simp add: snapshot_of_state_def)
    have snap: "on_db (project_loadSnapshot c i key) d = (Inr (Some (snapshot_of_state pl)), d)"
      using some(4) by (simp add: on_db_def)
    obtain d' where "map_io (decrypt_event c derive) (getEvents ''project'' i (int k + 1) (dv_db d)) d =
        (Inr (number (int k + 1) (drop k evs)), d')" "dv_db d' = dv_db d" "device_key c i key d'"
      using read_tail [OF key st] by blast
    moreover have "evs \<noteq> []"
    proof
      assume "evs = []"
      then have "p = ar_new i new_project_state"
        using some(2) by (simp add: Project_reconstitute_def ar_reconstitute_def markEventsAsCommitted_def ar_new_def)
      then show False using some(3) by (simp add: snapshot_payload_def ar_new_def new_project_state_def isDefined_def)
    qed
    ultimately show ?thesis
      using get snap ver snapshot_tail [OF some(2,3)]
      by (cases "Project_reconstitute i evs") (simp_all add: project_load_def bind_io_def)
  qed
qed

subsection \<open>Saving\<close>

text \<open>The cipher accepts the key of the aggregate.\<close>

definition encrypts :: "crypto_port \<Rightarrow> bytes \<Rightarrow> bool" where
  "encrypts c key \<longleftrightarrow> (\<forall>n p a. \<not> isl (encrypt c n p key a))"

lemma encrypts_Inr: "encrypts c key \<Longrightarrow> \<exists>x. encrypt c n p key a = Inr x"
  unfolding encrypts_def by (metis isl_def sum.exhaust)

lemma toEncrypted_total:
  assumes "event_ok e" and "encrypts c key"
  shows "\<exists>x. toEncrypted c n t e v key = Inr x"
proof -
  obtain ser where ser: "encodePersisted e = Inr ser" using decode_encodePersisted [OF assms(1)] by blast
  obtain x where "encrypt c n (encodeEventEnvelope (envelope_of e ser)) key
      (buildEventAad t (em_aggregateId (ev_meta e)) v) = Inr x"
    using encrypts_Inr [OF assms(2)] by blast
  then show ?thesis using ser by (simp add: toEncrypted_def rethrow_def Let_def)
qed

lemma toEncryptedBatch_total:
  assumes "\<forall>e \<in> set es. event_ok e" and "encrypts c key"
  shows "\<exists>xs. toEncryptedBatch c n t es v key = Inr xs"
  using assms(1)
proof (induction es arbitrary: n v)
  case (Cons e es)
  obtain x where "toEncrypted c n t e v key = Inr x" using toEncrypted_total assms(2) Cons.prems by fastforce
  moreover obtain xs where "toEncryptedBatch c (n + 1) t es (v + 1) key = Inr xs" using Cons by fastforce
  ultimately show ?case by simp
qed simp

text \<open>Events a repository can store for the aggregate: valid, of this aggregate, with fresh distinct ids.\<close>

abbreviation event_ids :: "domain_event list \<Rightarrow> string set" where
  "event_ids es \<equiv> set (map (\<lambda>e. em_eventId (ev_meta e)) es)"

definition storable :: "string \<Rightarrow> local_db \<Rightarrow> domain_event list \<Rightarrow> bool" where
  "storable a db es \<longleftrightarrow>
     (\<forall>e \<in> set es. event_ok e \<and> meta_ok (ev_meta e) \<and> em_aggregateId (ev_meta e) = a \<and>
        \<not> has_event db (em_eventId (ev_meta e))) \<and>
     distinct (map (\<lambda>e. em_eventId (ev_meta e)) es)"

lemma append_pending_ok:
  assumes "db_wf (dv_db d)" and "stores c key t a evs (dv_db d)" and "aead_ok c" and "encrypts c key" and "t \<noteq> []"
    and "storable a (dv_db d) es"
  shows "\<exists>db'. append_pending c t a key es (int (length evs) + 1) d = (Inr (), (advance_draws (length es) d)\<lparr>dv_db := db'\<rparr>) \<and>
     stores c key t a (evs @ es) db' \<and> db_wf db' \<and> db_snapshots db' = db_snapshots (dv_db d) \<and>
     (\<forall>x. has_event db' x \<longleftrightarrow> has_event (dv_db d) x \<or> x \<in> event_ids es)"
proof -
  have "\<forall>e \<in> set es. event_ok e" using assms(6) by (simp add: storable_def)
  then obtain xs where xs: "toEncryptedBatch c (dv_draws d) t es (int (length evs) + 1) key = Inr xs"
    using toEncryptedBatch_total assms(4) by blast
  obtain db' where "store_append t a xs (dv_db d) = Inr db'" "stores c key t a (evs @ es) db'" "db_wf db'"
    "db_snapshots db' = db_snapshots (dv_db d)" "\<forall>x. has_event db' x \<longleftrightarrow> has_event (dv_db d) x \<or> x \<in> event_ids es"
    using store_append_batch [OF assms(1,2,3,5) xs] assms(6) by (auto simp: storable_def)
  then show ?thesis using xs by (intro exI [of _ db']) (simp add: append_pending_def bind_io_def)
qed

lemma snapshot_get_same: "db_snapshots db' = db_snapshots db \<Longrightarrow> snapshot_get t a db' = snapshot_get t a db"
  by (simp add: snapshot_get_def)

subsection \<open>Values inside a project\<close>

definition author_trimmed :: "domain_event \<Rightarrow> bool" where
  "author_trimmed e \<longleftrightarrow> (case ev_payload e of ProjectEvent (ProjectCreated _ _ _ _ _ _ cb) \<Rightarrow> trim cb = cb | _ \<Rightarrow> True)"

text \<open>The attributes that are set are ones the factories accept.\<close>

definition project_attrs_ok :: "project_state \<Rightarrow> bool" where
  "project_attrs_ok s \<longleftrightarrow> (\<forall>x. p_name s = Some x \<longrightarrow> name_ok x) \<and> (\<forall>x. p_startDate s = Some x \<longrightarrow> ISO_DATE_REGEX x) \<and>
     (\<forall>x. p_targetDate s = Some x \<longrightarrow> ISO_DATE_REGEX x) \<and> (\<forall>x. p_description s = Some x \<longrightarrow> length x \<le> 2000) \<and>
     (\<forall>x. p_goalId s = Some x \<longrightarrow> UUID_REGEX x) \<and> (\<forall>m \<in> set (p_milestones s). milestone_ok m) \<and>
     (\<forall>x. p_createdBy s = Some x \<longrightarrow> x \<noteq> [] \<and> trim x = x)"

lemma project_handle_attrs:
  assumes "project_attrs_ok s" and "project_handle e s = Inr s'" and "event_ok e" and "author_trimmed e"
  shows "project_attrs_ok s'"
proof -
  obtain x where x: "ev_payload e = ProjectEvent x" "on_project (ev_meta e) x s = Inr s'"
    using assms(2) by (auto simp: project_handle_def split: domain_payload.splits)
  show ?thesis
    using assms(1,3,4) x
    by (cases x) (auto simp: project_attrs_ok_def event_ok_def author_trimmed_def bind_result_eq_Inr milestone_ok_def
        split: option.splits dest!: update_first_set)
qed

lemma project_attrs_replay:
  assumes "Project_reconstitute i evs = Inr p" and "\<forall>e \<in> set evs. event_ok e \<and> author_trimmed e"
  shows "project_attrs_ok (ag_state p)"
proof (rule loadFromHistory_invariant)
  show "loadFromHistory project_handle evs (ar_new i new_project_state) = Inr p"
    using reconstitute_frame(4) assms(1) by (simp add: Project_reconstitute_def)
  show "project_attrs_ok (ag_state (ar_new i new_project_state))"
    by (simp add: project_attrs_ok_def ar_new_def new_project_state_def)
  show "project_attrs_ok s'" if "e \<in> set evs" "project_attrs_ok s" "project_handle e s = Inr s'" for e s s'
    using project_handle_attrs that assms(2) by blast
qed

lemma snapshot_payload_defined:
  assumes "project_inv (ag_state p)" and "project_attrs_ok (ag_state p)" and "UUID_REGEX (ag_id p)"
  shows "\<exists>pl. snapshot_payload p = Inr pl \<and> pss_ok pl"
proof -
  obtain nm st de cb ca ua sd td where
    "p_name (ag_state p) = Some nm" "p_status (ag_state p) = Some st" "p_description (ag_state p) = Some de"
    "p_createdBy (ag_state p) = Some cb" "p_createdAt (ag_state p) = Some ca" "p_updatedAt (ag_state p) = Some ua"
    "p_startDate (ag_state p) = Some sd" "p_targetDate (ag_state p) = Some td"
    using assms(1) by (auto simp: project_inv_def)
  then show ?thesis
    using assms(2,3) by (auto simp: snapshot_payload_def Let_def pss_ok_def project_attrs_ok_def split: option.split)
qed

lemma persistSnapshot_ok:
  assumes pl: "snapshot_payload p = Inr pl" "pss_ok pl" and c: "aead_ok c" "encrypts c key"
  shows "\<exists>row. persistSnapshot c p key d = (Inr (), (advance_draws 1 d)\<lparr>dv_db := snapshot_put row (dv_db d)\<rparr>) \<and>
     snapshot_get ''project'' (ag_id p) (snapshot_put row (dv_db d)) = Some row \<and>
     project_loadSnapshot c (ag_id p) key (snapshot_put row (dv_db d)) =
       (Inr (Some (snapshot_of_state pl)), snapshot_put row (dv_db d))"
proof -
  obtain x where x: "encrypt c (dv_draws d) (encodeProjectSnapshotState pl) key (buildSnapshotAad (ag_id p) (ag_version p)) = Inr x"
    using encrypts_Inr [OF c(2)] by blast
  let ?row = "\<lparr>snap_aggregate_type = ''project'', snap_aggregate_id = ag_id p, snap_version = ag_version p,
        snap_encrypted = x, snap_last_global_seq = 0, snap_last_pending_commit_seq = 0,
        snap_written_at = pss_updatedAt pl\<rparr>"
  have run: "persistSnapshot c p key d = (Inr (), (advance_draws 1 d)\<lparr>dv_db := snapshot_put ?row (dv_db d)\<rparr>)"
    using pl(1) x by (simp add: persistSnapshot_def bind_io_def)
  have "decrypt c x key (buildSnapshotAad (ag_id p) (ag_version p)) = Inr (encodeProjectSnapshotState pl)"
    using decrypt_encrypt [OF c(1) x] .
  moreover have "decodeProjectSnapshotDomain (encodeProjectSnapshotState pl) (ag_version p) = Inr (snapshot_of_state pl)"
    using project_domain_roundtrip [OF pl(2)] snapshot_payload_Inr(2) [OF pl(1)] by simp
  ultimately show ?thesis
    using run by (intro exI [of _ ?row]) (simp add: snapshot_get_put project_loadSnapshot_def)
qed

lemma stores_snapshot [simp]: "stores c key t a evs (snapshot_put row db) = stores c key t a evs db"
  by (simp add: stores_def stored_rows_def aggregate_rows_def snapshot_put_def Let_def)

lemma has_event_snapshot [simp]: "has_event (snapshot_put row db) x = has_event db x"
  by (simp add: has_event_def snapshot_put_def Let_def)

lemma db_wf_snapshot [simp]: "db_wf (snapshot_put row db) = db_wf db"
  by (simp add: db_wf_def snapshot_put_def Let_def)

text \<open>
  A save whose events continue the stored history leaves a device that stores the longer
  history, with a snapshot of the saved project.
\<close>

lemma project_loadSnapshot_current:
  assumes "snapshot_current c key i evs db"
  shows "\<exists>sn. project_loadSnapshot c i key db = (Inr sn, db) \<and>
     (case sn of None \<Rightarrow> 0 | Some s \<Rightarrow> psn_version s) \<le> int (length evs)"
  using assms unfolding snapshot_current_def
proof (elim disjE exE conjE)
  assume "snapshot_get ''project'' i db = None"
  then show ?thesis by (auto simp: project_loadSnapshot_def)
next
  fix k p pl
  assume k: "k \<le> length evs" "Project_reconstitute i (take k evs) = Inr p" "snapshot_payload p = Inr pl"
    "project_loadSnapshot c i key db = (Inr (Some (snapshot_of_state pl)), db)"
  then have "psn_version (snapshot_of_state pl) = int k"
    using snapshot_payload_Inr(2) [OF k(3)] reconstitute_frame(2) [OF k(2) [unfolded Project_reconstitute_def]]
    by (simp add: snapshot_of_state_def)
  then show ?thesis using k by auto
qed

lemma project_save_run:
  assumes ok: "project_repo_ok c key i h d" and c: "aead_ok c" "encrypts c key" and id: "ag_id p = i"
    and pending: "storable i (dv_db d) (ag_uncommitted p)" and new: "ag_uncommitted p \<noteq> []"
    and pl: "snapshot_payload p = Inr pl" "pss_ok pl"
  shows "\<exists>d'. project_save c key p d = (Inr (markEventsAsCommitted p), d') \<and> db_wf (dv_db d') \<and>
     (\<forall>x. has_event (dv_db d') x \<longleftrightarrow> has_event (dv_db d) x \<or> x \<in> event_ids (ag_uncommitted p)) \<and>
     stores c key ''project'' i (h @ ag_uncommitted p) (dv_db d') \<and> device_key c i key d' \<and>
     project_loadSnapshot c i key (dv_db d') = (Inr (Some (snapshot_of_state pl)), dv_db d')"
proof -
  have wf: "db_wf (dv_db d)" and st: "stores c key ''project'' i h (dv_db d)" and dk: "device_key c i key d"
    and cur: "snapshot_current c key i h (dv_db d)" using ok by (simp_all add: project_repo_ok_def)
  obtain sn where sn: "project_loadSnapshot c i key (dv_db d) = (Inr sn, dv_db d)"
    "(case sn of None \<Rightarrow> 0 | Some s \<Rightarrow> psn_version s) \<le> int (length h)"
    using project_loadSnapshot_current [OF cur] by blast
  have ver: "max (max_version ''project'' i (dv_db d)) (case sn of None \<Rightarrow> 0 | Some s \<Rightarrow> psn_version s) = int (length h)"
    using sn(2) stores_max_version(1) [OF st] by simp
  obtain db' where app: "append_pending c ''project'' i key (ag_uncommitted p) (int (length h) + 1) d =
       (Inr (), (advance_draws (length (ag_uncommitted p)) d)\<lparr>dv_db := db'\<rparr>)"
    "stores c key ''project'' i (h @ ag_uncommitted p) db'" "db_wf db'"
    "\<forall>x. has_event db' x \<longleftrightarrow> has_event (dv_db d) x \<or> x \<in> event_ids (ag_uncommitted p)"
    using append_pending_ok [OF wf st c _ pending] by blast
  let ?d1 = "(advance_draws (length (ag_uncommitted p)) d)\<lparr>dv_db := db'\<rparr>"
  obtain row where row: "persistSnapshot c p key ?d1 = (Inr (), (advance_draws 1 ?d1)\<lparr>dv_db := snapshot_put row db'\<rparr>)"
    "project_loadSnapshot c i key (snapshot_put row db') = (Inr (Some (snapshot_of_state pl)), snapshot_put row db')"
    using persistSnapshot_ok [OF pl c, of ?d1] id by auto
  have "project_save c key p d = (Inr (markEventsAsCommitted p), (advance_draws 1 ?d1)\<lparr>dv_db := snapshot_put row db'\<rparr>)"
    using new id sn(1) ver app(1) row(1)
    by (simp add: project_save_def Let_def bind_io_def rethrow_io_def on_db_def)
  then show ?thesis using app(2-4) dk row(2) by simp
qed

lemma saved_payload:
  assumes "ag_id p = i" "UUID_REGEX i" "Project_reconstitute i (evs @ ag_uncommitted p) = Inr (markEventsAsCommitted p)"
    and "\<forall>e \<in> set (evs @ ag_uncommitted p). event_ok e \<and> author_trimmed e" "project_inv (ag_state p)"
  obtains pl where "snapshot_payload p = Inr pl" "pss_ok pl"
proof -
  have "project_attrs_ok (ag_state p)"
    using project_attrs_replay [OF assms(3,4)] by (simp add: markEventsAsCommitted_def)
  then show thesis using that snapshot_payload_defined assms(1,2,5) by blast
qed

lemma project_save_ok:
  assumes ok: "project_repo_ok c key i evs d" and c: "aead_ok c" "encrypts c key" and id: "ag_id p = i" "UUID_REGEX i"
    and pending: "storable i (dv_db d) (ag_uncommitted p)" and new: "ag_uncommitted p \<noteq> []"
    and replay: "Project_reconstitute i (evs @ ag_uncommitted p) = Inr (markEventsAsCommitted p)"
    and vals: "\<forall>e \<in> set (evs @ ag_uncommitted p). event_ok e \<and> author_trimmed e" "project_inv (ag_state p)"
  shows "\<exists>d'. project_save c key p d = (Inr (markEventsAsCommitted p), d') \<and>
     project_repo_ok c key i (evs @ ag_uncommitted p) d' \<and>
     (\<forall>x. has_event (dv_db d') x \<longleftrightarrow> has_event (dv_db d) x \<or> x \<in> event_ids (ag_uncommitted p))"
proof -
  obtain pl where pl: "snapshot_payload p = Inr pl" "pss_ok pl" using saved_payload [OF id replay vals] by blast
  obtain d' where d': "project_save c key p d = (Inr (markEventsAsCommitted p), d')" "db_wf (dv_db d')"
    "\<forall>x. has_event (dv_db d') x \<longleftrightarrow> has_event (dv_db d) x \<or> x \<in> event_ids (ag_uncommitted p)"
    "stores c key ''project'' i (evs @ ag_uncommitted p) (dv_db d')" "device_key c i key d'"
    "project_loadSnapshot c i key (dv_db d') = (Inr (Some (snapshot_of_state pl)), dv_db d')"
    using project_save_run [OF ok c id(1) pending new pl] by blast
  have "snapshot_payload (markEventsAsCommitted p) = Inr pl"
    using pl(1) by (simp add: snapshot_payload_def markEventsAsCommitted_def)
  then have "snapshot_current c key i (evs @ ag_uncommitted p) (dv_db d')"
    unfolding snapshot_current_def using replay d'(6)
    by (intro disjI2 exI [of _ "length (evs @ ag_uncommitted p)"] exI [of _ "markEventsAsCommitted p"] exI [of _ pl]) simp
  then show ?thesis using d' by (auto simp: project_repo_ok_def)
qed

subsection \<open>Goals\<close>

text \<open>The goal repository never writes snapshots; without one it replays the whole history.\<close>

definition goal_repo_ok :: "crypto_port \<Rightarrow> bytes \<Rightarrow> string \<Rightarrow> domain_event list \<Rightarrow> device \<Rightarrow> bool" where
  "goal_repo_ok c key i evs d \<longleftrightarrow> db_wf (dv_db d) \<and> stores c key ''goal'' i evs (dv_db d) \<and>
     snapshot_get ''goal'' i (dv_db d) = None \<and> device_key c i key d"

lemma goal_load_ok:
  assumes ok: "goal_repo_ok c key i evs d"
  shows "\<exists>d'. goal_load c derive i d =
       (if evs = [] then Inr None else bind_result (Goal_reconstitute i evs) (\<lambda>g. Inr (Some g)), d') \<and>
     dv_db d' = dv_db d \<and> device_key c i key d'"
proof -
  have key: "device_key c i key d" and st: "stores c key ''goal'' i evs (dv_db d)"
    and none: "snapshot_get ''goal'' i (dv_db d) = None"
    using ok by (simp_all add: goal_repo_ok_def)
  note get = device_key_get [OF key]
  have snap: "goal_loadSnapshot c i key (dv_db d) = Inr None" using none by (simp add: goal_loadSnapshot_def)
  show ?thesis
  proof (cases "evs = []")
    case True
    then have "getEvents ''goal'' i 1 (dv_db d) = []" using getEvents_empty [OF st, of 0] by simp
    then show ?thesis using True get snap key by (simp add: goal_load_def bind_io_def)
  next
    case False
    obtain d' where "map_io (decrypt_event c derive) (getEvents ''goal'' i 1 (dv_db d)) d = (Inr (number 1 evs), d')"
      "dv_db d' = dv_db d" "device_key c i key d'"
      using read_tail [OF key st, of derive 0] by auto
    moreover have "getEvents ''goal'' i 1 (dv_db d) \<noteq> []" using getEvents_empty [OF st, of 0] False by simp
    moreover have "Goal_reconstitute i (number 1 evs) = Goal_reconstitute i evs"
      by (simp add: Goal_reconstitute_def ar_reconstitute_def)
    ultimately show ?thesis
      using False get snap by (cases "Goal_reconstitute i evs") (simp_all add: goal_load_def bind_io_def)
  qed
qed

lemma goal_save_ok:
  assumes ok: "goal_repo_ok c key i evs d" and c: "aead_ok c" "encrypts c key" and id: "ag_id g = i"
    and pending: "storable i (dv_db d) (ag_uncommitted g)" and new: "ag_uncommitted g \<noteq> []"
  shows "\<exists>d'. goal_save c key g d = (Inr (markEventsAsCommitted g), d') \<and>
     goal_repo_ok c key i (evs @ ag_uncommitted g) d' \<and>
     (\<forall>x. has_event (dv_db d') x \<longleftrightarrow> has_event (dv_db d) x \<or> x \<in> event_ids (ag_uncommitted g))"
proof -
  have wf: "db_wf (dv_db d)" and st: "stores c key ''goal'' i evs (dv_db d)" and dk: "device_key c i key d"
    and none: "snapshot_get ''goal'' i (dv_db d) = None" using ok by (simp_all add: goal_repo_ok_def)
  obtain db' where app: "append_pending c ''goal'' i key (ag_uncommitted g) (int (length evs) + 1) d =
       (Inr (), (advance_draws (length (ag_uncommitted g)) d)\<lparr>dv_db := db'\<rparr>)"
    "stores c key ''goal'' i (evs @ ag_uncommitted g) db'" "db_wf db'" "db_snapshots db' = db_snapshots (dv_db d)"
    "\<forall>x. has_event db' x \<longleftrightarrow> has_event (dv_db d) x \<or> x \<in> event_ids (ag_uncommitted g)"
    using append_pending_ok [OF wf st c _ pending] by blast
  have "goal_save c key g d = (Inr (markEventsAsCommitted g), (advance_draws (length (ag_uncommitted g)) d)\<lparr>dv_db := db'\<rparr>)"
    using new id none app(1) stores_max_version(1) [OF st]
    by (simp add: goal_save_def Let_def bind_io_def rethrow_io_def goal_loadSnapshot_def)
  then show ?thesis
    using app(2,3,5) dk none snapshot_get_same [OF app(4)] by (simp add: goal_repo_ok_def)
qed

subsection \<open>A save of a project that is no longer current\<close>

text \<open>
  When events were added to the stored history after the project had been loaded, its save is
  still accepted, because the start version is read back from the table, and the snapshot it
  writes carries the version of the project, not that of the table.
\<close>

lemma stale_project_save:
  assumes ok: "project_repo_ok c key i (evs @ rs) d" and c: "aead_ok c" "encrypts c key" and id: "ag_id p = i" "UUID_REGEX i"
    and pending: "storable i (dv_db d) (ag_uncommitted p)" and new: "ag_uncommitted p \<noteq> []"
    and replay: "Project_reconstitute i (evs @ ag_uncommitted p) = Inr (markEventsAsCommitted p)"
    and vals: "\<forall>e \<in> set (evs @ ag_uncommitted p). event_ok e \<and> author_trimmed e" "project_inv (ag_state p)"
  shows "\<exists>d' d''. project_save c key p d = (Inr (markEventsAsCommitted p), d') \<and>
     stores c key ''project'' i (evs @ rs @ ag_uncommitted p) (dv_db d') \<and>
     project_load c derive i d' =
       (bind_result (loadFromHistory project_handle (drop (length (ag_uncommitted p)) (rs @ ag_uncommitted p))
          (markEventsAsCommitted p)) (\<lambda>q. Inr (Some (markEventsAsCommitted q))), d'')"
proof -
  let ?h = "evs @ rs" and ?es = "ag_uncommitted p" and ?k = "length (evs @ ag_uncommitted p)"
  obtain pl where pl: "snapshot_payload p = Inr pl" "pss_ok pl" using saved_payload [OF id replay vals] by blast
  obtain d' where d': "project_save c key p d = (Inr (markEventsAsCommitted p), d')"
    "stores c key ''project'' i (?h @ ?es) (dv_db d')" "device_key c i key d'"
    "project_loadSnapshot c i key (dv_db d') = (Inr (Some (snapshot_of_state pl)), dv_db d')"
    using project_save_run [OF ok c id(1) pending new pl] by blast
  obtain d'' where tail: "map_io (decrypt_event c derive) (getEvents ''project'' i (int ?k + 1) (dv_db d')) d' =
      (Inr (number (int ?k + 1) (drop ?k (?h @ ?es))), d'')"
    using read_tail [OF d'(3,2)] by blast
  have vers: "psn_version (snapshot_of_state pl) = int ?k"
    using snapshot_payload_Inr(2) [OF pl(1)] reconstitute_frame(2) [OF replay [unfolded Project_reconstitute_def]]
    by (simp add: snapshot_of_state_def markEventsAsCommitted_def)
  have "drop ?k (?h @ ?es) = drop (length ?es) (rs @ ?es)" by simp
  moreover have "project_hydrateFromSnapshot (snapshot_of_state pl) (ar_new (psn_id (snapshot_of_state pl)) new_project_state)
      = markEventsAsCommitted p"
    using snapshot_payload_Inr(3) [OF pl(1)] by (simp add: snapshot_of_state_def)
  moreover have "on_db (project_loadSnapshot c i key) d' = (Inr (Some (snapshot_of_state pl)), d')"
    using d'(4) by (simp add: on_db_def)
  ultimately have "project_load c derive i d' =
      (bind_result (loadFromHistory project_handle (drop (length ?es) (rs @ ?es)) (markEventsAsCommitted p))
         (\<lambda>q. Inr (Some (markEventsAsCommitted q))), d'')"
    using device_key_get [OF d'(3)] tail vers
    by (cases "loadFromHistory project_handle (drop (length ?es) (rs @ ?es)) (markEventsAsCommitted p)")
      (simp_all add: project_load_def bind_io_def Project_reconstituteFromSnapshot_def)
  then show ?thesis using d'(1,2) by (metis append.assoc)
qed

end
