(* ===== verification/RepositoryProperties.thy ===== *)
theory RepositoryProperties
  imports RepositoryFacts DomainProperties
begin

text \<open>
  Properties of the encrypted event store, the repositories and the key management, with the
  concrete device on which they are applied.
\<close>

subsection \<open>A concrete device\<close>

definition sample_id :: string where
  "sample_id = ''11111111-1111-1111-1111-111111111111''"

definition sample_device :: device where
  "sample_device =
     \<lparr>dv_db = empty_db,
      dv_keys = \<lparr>km_epochKeys = (\<lambda>_. None),
        km_keyStore = \<lparr>ks_masterKey = Some [1], ks_identity = [], ks_aggregate = [(sample_id, [1, 2])], ks_draws = 0\<rparr>,
        km_keyrings = (\<lambda>_. None)\<rparr>\<rparr>"

definition sample_created :: domain_event where
  "sample_created = new_event sample_id 1 ''e1'' ''me''
     (ProjectEvent (ProjectCreated ''House'' Planned ''2025-01-01'' ''2025-12-31'' '''' None ''me''))"

definition sample_project :: project where
  "sample_project = \<lparr>ag_id = sample_id,
     ag_state = \<lparr>p_name = Some ''House'', p_status = Some Planned, p_startDate = Some ''2025-01-01'',
       p_targetDate = Some ''2025-12-31'', p_description = Some '''', p_goalId = None, p_milestones = [],
       p_createdBy = Some ''me'', p_createdAt = Some 1, p_updatedAt = Some 1, p_archivedAt = None\<rparr>,
     ag_uncommitted = [sample_created], ag_version = 1\<rparr>"

lemma sample_id_uuid: "UUID_REGEX sample_id"
  by code_simp

lemma sample_event_ok:
  "event_ok sample_created \<and> meta_ok (ev_meta sample_created) \<and> author_trimmed sample_created"
  by code_simp

lemma encrypts_tagged: "encrypts tagged_crypto key"
  by (simp add: encrypts_def tagged_crypto_def)

lemma sample_replay: "Project_reconstitute sample_id [sample_created] = Inr (markEventsAsCommitted sample_project)"
  by (simp add: Project_reconstitute_def ar_reconstitute_def loadFromHistory_single load_event_def sample_created_def
      ar_new_def new_project_state_def markEventsAsCommitted_def sample_project_def)

lemma sample_inv: "project_inv (ag_state sample_project)"
  by (simp add: project_inv_def sample_project_def)

lemma stores_empty: "stores c key t a [] empty_db"
  by (simp add: stores_def stored_rows_def aggregate_rows_def empty_db_def)

lemma sample_device_key: "device_key tagged_crypto sample_id [2] sample_device"
  by (simp add: device_key_def sample_device_def getAggregateKey_def require_master_def tagged_crypto_def)

lemma sample_device_db [simp]: "dv_db sample_device = empty_db"
  by (simp add: sample_device_def)

lemma empty_db_fresh [simp]: "snapshot_get t a empty_db = None" "\<not> has_event empty_db i"
  by (simp_all add: snapshot_get_def has_event_def empty_db_def)

lemma sample_device_ok:
  "project_repo_ok tagged_crypto [2] sample_id [] sample_device" "goal_repo_ok tagged_crypto [2] sample_id [] sample_device"
  using sample_device_key db_wf_empty
  by (simp_all add: project_repo_ok_def goal_repo_ok_def snapshot_current_def stores_empty)

text \<open>The device after the first save of the project.\<close>

lemma sample_saved:
  "\<exists>d. project_save tagged_crypto [2] sample_project sample_device = (Inr (markEventsAsCommitted sample_project), d) \<and>
     project_repo_ok tagged_crypto [2] sample_id [sample_created] d \<and>
     (\<forall>x. has_event (dv_db d) x \<longleftrightarrow> x = ''e1'')"
proof -
  have *: "ag_id sample_project = sample_id" "ag_uncommitted sample_project = [sample_created]"
    by (simp_all add: sample_project_def)
  have "storable sample_id (dv_db sample_device) [sample_created]"
    using sample_event_ok by (simp add: storable_def) (simp add: sample_created_def)
  then show ?thesis
    using project_save_ok [OF sample_device_ok(1) aead_ok_tagged encrypts_tagged *(1) sample_id_uuid] * sample_replay
      sample_inv sample_event_ok by (auto simp: sample_created_def)
qed

text \<open>Two changes of that project, made on different devices.\<close>

definition sample_renamed :: domain_event where
  "sample_renamed = new_event sample_id 2 ''e2'' ''me'' (ProjectEvent (ProjectRenamed ''Home''))"

definition sample_described :: domain_event where
  "sample_described = new_event sample_id 3 ''e3'' ''me'' (ProjectEvent (ProjectDescribed ''For us''))"

definition renamed_project :: project where
  "renamed_project = run_commands project_exec [ChangeName ''Home'' 2 ''me'' ''e2''] (markEventsAsCommitted sample_project)"

definition described_project :: project where
  "described_project =
     run_commands project_exec [ChangeDescription ''For us'' 3 ''me'' ''e3''] (markEventsAsCommitted sample_project)"

lemma sample_sessions:
  "ag_uncommitted renamed_project = [sample_renamed]" "ag_uncommitted described_project = [sample_described]"
  "ag_id described_project = sample_id" "p_name (ag_state described_project) = Some ''House''"
  by (simp_all add: renamed_project_def described_project_def run_commands_def project_command_defs project_assertNotArchived_def
      isFalse_def project_emit_def ar_apply_def markEventsAsCommitted_def sample_project_def sample_renamed_def
      sample_described_def guard_result_def)

lemma sample_changes_ok:
  "event_ok sample_renamed \<and> meta_ok (ev_meta sample_renamed) \<and> author_trimmed sample_renamed"
  "event_ok sample_described \<and> meta_ok (ev_meta sample_described) \<and> author_trimmed sample_described"
  by code_simp+

lemma sample_storable:
  assumes "\<forall>x. has_event db x \<longrightarrow> x = ''e1'' \<or> x = ''e2''"
  shows "storable sample_id db [sample_described]"
    and "\<forall>x. has_event db x \<longrightarrow> x = ''e1'' \<Longrightarrow> storable sample_id db [sample_renamed]"
  using assms sample_changes_ok by (auto simp: storable_def sample_renamed_def sample_described_def)

lemma sample_committed: "project_inv (ag_state (markEventsAsCommitted sample_project))"
  using sample_inv by (simp add: markEventsAsCommitted_def)

subsection \<open>Saving and loading\<close>

text \<open>
  C19: saving a project and loading it again gives the same project. On a device that stores the
  history of a project, with or without a snapshot taken at an earlier point, the project loaded
  from that history and changed by any sequence of commands is saved without an error, the
  device then stores the history extended by exactly the new events, and the next load, which
  goes through the snapshot just written, returns the saved project.
\<close>

theorem project_save_load:
  assumes "project_repo_ok c key i evs d" and "aead_ok c" and "encrypts c key" and "UUID_REGEX i"
    and "Project_reconstitute i evs = Inr p0" and "project_inv (ag_state p0)"
    and "p = run_commands project_exec cs p0" and "storable i (dv_db d) (ag_uncommitted p)"
    and "\<forall>e \<in> set (evs @ ag_uncommitted p). event_ok e \<and> author_trimmed e"
  shows "\<exists>d' d''. project_save c key p d = (Inr (markEventsAsCommitted p), d') \<and>
     project_repo_ok c key i (evs @ ag_uncommitted p) d' \<and>
     project_load c derive i d' = (Inr (Some (markEventsAsCommitted p)), d'')"
proof -
  have replay: "Project_reconstitute i (evs @ ag_uncommitted p) = Inr (markEventsAsCommitted p)"
    using project_es.replay_session(1) [OF assms(5) [unfolded Project_reconstitute_def], of cs] assms(7)
    by (simp add: Project_reconstitute_def)
  have id: "ag_id p = i"
    using project_es.run_records [of p0 cs] reconstitute_frame(1) [OF assms(5) [unfolded Project_reconstitute_def]]
      assms(7) by simp
  have inv: "project_inv (ag_state p)" using project_es.run_inv [OF assms(6)] assms(7) by simp
  have ne: "evs \<noteq> []"
  proof
    assume "evs = []"
    then have "p0 = ar_new i new_project_state"
      using reconstitute_frame(4) [OF assms(5) [unfolded Project_reconstitute_def]] by simp
    then show False using assms(6) by (simp add: project_inv_def ar_new_def new_project_state_def)
  qed
  have "\<exists>d'. project_save c key p d = (Inr (markEventsAsCommitted p), d') \<and>
     project_repo_ok c key i (evs @ ag_uncommitted p) d'"
  proof (cases "ag_uncommitted p = []")
    case True
    then show ?thesis using assms(1) by (simp add: project_save_def markEventsAsCommitted_def)
  next
    case False
    then show ?thesis
      using project_save_ok [OF assms(1-3) id assms(4,8) False replay assms(9) inv] by blast
  qed
  then obtain d' where d': "project_save c key p d = (Inr (markEventsAsCommitted p), d')"
    "project_repo_ok c key i (evs @ ag_uncommitted p) d'" by blast
  obtain d'' where "project_load c derive i d' = (Inr (Some (markEventsAsCommitted p)), d'')"
    using project_load_ok [OF d'(2)] ne replay by auto
  then show ?thesis using d' by blast
qed

theorem project_save_load_witness:
  "\<exists>d d' d''. project_save tagged_crypto [2] renamed_project d = (Inr (markEventsAsCommitted renamed_project), d') \<and>
     project_repo_ok tagged_crypto [2] sample_id [sample_created, sample_renamed] d' \<and>
     (\<forall>x. has_event (dv_db d) x \<longleftrightarrow> x = ''e1'') \<and>
     project_load tagged_crypto (\<lambda>_ _. Inr []) sample_id d' = (Inr (Some (markEventsAsCommitted renamed_project)), d'')"
proof -
  obtain d where d: "project_repo_ok tagged_crypto [2] sample_id [sample_created] d" "\<forall>x. has_event (dv_db d) x \<longleftrightarrow> x = ''e1''"
    using sample_saved by blast
  have st: "storable sample_id (dv_db d) [sample_renamed]" using sample_storable(2) d(2) by blast
  show ?thesis
    using project_save_load [OF d(1) aead_ok_tagged encrypts_tagged sample_id_uuid sample_replay sample_committed
        renamed_project_def, of "\<lambda>_ _. Inr []"] d(2) st sample_sessions(1) sample_event_ok sample_changes_ok
    by auto
qed

text \<open>
  The same for goals, which the repository stores without snapshots.
\<close>

theorem goal_save_load:
  assumes "goal_repo_ok c key i evs d" and "aead_ok c" and "encrypts c key"
    and "Goal_reconstitute i evs = Inr g0" and "g = run_commands goal_exec cs g0" and "evs \<noteq> []"
    and "storable i (dv_db d) (ag_uncommitted g)"
  shows "\<exists>d' d''. goal_save c key g d = (Inr (markEventsAsCommitted g), d') \<and>
     goal_repo_ok c key i (evs @ ag_uncommitted g) d' \<and>
     goal_load c derive i d' = (Inr (Some (markEventsAsCommitted g)), d'')"
proof -
  have replay: "Goal_reconstitute i (evs @ ag_uncommitted g) = Inr (markEventsAsCommitted g)"
    using goal_es.replay_session(1) [OF assms(4) [unfolded Goal_reconstitute_def], of cs] assms(5)
    by (simp add: Goal_reconstitute_def)
  have id: "ag_id g = i"
    using goal_es.run_records [of g0 cs] reconstitute_frame(1) [OF assms(4) [unfolded Goal_reconstitute_def]]
      assms(5) by simp
  have "\<exists>d'. goal_save c key g d = (Inr (markEventsAsCommitted g), d') \<and> goal_repo_ok c key i (evs @ ag_uncommitted g) d'"
  proof (cases "ag_uncommitted g = []")
    case True
    then show ?thesis using assms(1) by (simp add: goal_save_def markEventsAsCommitted_def)
  next
    case False
    then show ?thesis using goal_save_ok [OF assms(1-3) id assms(7) False] by blast
  qed
  then obtain d' where d': "goal_save c key g d = (Inr (markEventsAsCommitted g), d')"
    "goal_repo_ok c key i (evs @ ag_uncommitted g) d'" by blast
  obtain d'' where "goal_load c derive i d' = (Inr (Some (markEventsAsCommitted g)), d'')"
    using goal_load_ok [OF d'(2)] assms(6) replay by auto
  then show ?thesis using d' by blast
qed

definition sample_goal_event :: domain_event where
  "sample_goal_event = new_event sample_id 1 ''e1'' ''me''
     (GoalEvent (GoalCreated Health ''Run'' \<lparr>mo_year = 2025, mo_month = 3\<rparr> Must ''me''))"

definition sample_goal :: goal where
  "sample_goal = projr (Goal_create sample_id Health ''Run'' \<lparr>mo_year = 2025, mo_month = 3\<rparr> Must ''me'' 1 ''e1'')"

definition achieved_goal :: goal where
  "achieved_goal = run_commands goal_exec [Achieve 2 ''me'' None None ''e2''] (markEventsAsCommitted sample_goal)"

lemma sample_goal_facts:
  "ag_uncommitted sample_goal = [sample_goal_event]" "ag_id sample_goal = sample_id"
  "Goal_reconstitute sample_id [sample_goal_event] = Inr (markEventsAsCommitted sample_goal)"
  "ag_uncommitted achieved_goal = [new_event sample_id 2 ''e2'' ''me'' (GoalEvent GoalAchieved)]"
  by (simp_all add: sample_goal_def sample_goal_event_def achieved_goal_def Goal_create_def goal_emit_def ar_apply_def
      ar_new_def Goal_reconstitute_def ar_reconstitute_def loadFromHistory_single load_event_def markEventsAsCommitted_def
      run_commands_def achieve_def goal_assertNotArchived_def new_goal_state_def traced_event_def new_event_def Let_def
      isNull_def guard_result_def isFalse_def)

lemma sample_goal_ok:
  "event_ok sample_goal_event \<and> meta_ok (ev_meta sample_goal_event)"
  "event_ok (new_event sample_id 2 ''e2'' ''me'' (GoalEvent GoalAchieved)) \<and>
     meta_ok (ev_meta (new_event sample_id 2 ''e2'' ''me'' (GoalEvent GoalAchieved)))"
  by code_simp+

theorem goal_save_load_witness:
  "\<exists>d d' d''. goal_save tagged_crypto [2] achieved_goal d = (Inr (markEventsAsCommitted achieved_goal), d') \<and>
     goal_repo_ok tagged_crypto [2] sample_id [sample_goal_event] d \<and>
     goal_load tagged_crypto (\<lambda>_ _. Inr []) sample_id d' = (Inr (Some (markEventsAsCommitted achieved_goal)), d'')"
proof -
  have "storable sample_id (dv_db sample_device) (ag_uncommitted sample_goal)"
    using sample_goal_ok by (simp add: sample_goal_facts storable_def) (simp add: sample_goal_event_def)
  then obtain d where d: "goal_repo_ok tagged_crypto [2] sample_id [sample_goal_event] d"
    "\<forall>x. has_event (dv_db d) x \<longleftrightarrow> x = ''e1''"
    using goal_save_ok [OF sample_device_ok(2) aead_ok_tagged encrypts_tagged sample_goal_facts(2)]
    by (auto simp: sample_goal_facts sample_goal_event_def)
  have "storable sample_id (dv_db d) (ag_uncommitted achieved_goal)"
    using sample_goal_ok(2) d(2) by (simp add: sample_goal_facts storable_def)
  then show ?thesis
    using goal_save_load [OF d(1) aead_ok_tagged encrypts_tagged sample_goal_facts(3) achieved_goal_def] d(1) by blast
qed

text \<open>
  C20: a project that has become stale is saved without a concurrency error, and the save damages
  it. When events of another device were added to the stored history after the project had
  been loaded, the save appends the pending events behind them, but writes a snapshot with the
  state and the version of the stale project; the next load replays on that snapshot what lies
  beyond this version, so as many of the other device's events as there were pending events are
  skipped, and pending events are applied a second time in their place.
\<close>

theorem stale_save_skips_events:
  assumes "project_repo_ok c key i (evs @ rs) d" and "aead_ok c" and "encrypts c key" and "UUID_REGEX i"
    and "Project_reconstitute i evs = Inr p0" and "project_inv (ag_state p0)"
    and "p = run_commands project_exec cs p0" and "ag_uncommitted p \<noteq> []"
    and "storable i (dv_db d) (ag_uncommitted p)"
    and "\<forall>e \<in> set (evs @ ag_uncommitted p). event_ok e \<and> author_trimmed e"
  shows "\<exists>d' d''. project_save c key p d = (Inr (markEventsAsCommitted p), d') \<and>
     stores c key ''project'' i (evs @ rs @ ag_uncommitted p) (dv_db d') \<and>
     project_load c derive i d' =
       (bind_result (loadFromHistory project_handle (drop (length (ag_uncommitted p)) (rs @ ag_uncommitted p))
          (markEventsAsCommitted p)) (\<lambda>q. Inr (Some (markEventsAsCommitted q))), d'')"
proof -
  have replay: "Project_reconstitute i (evs @ ag_uncommitted p) = Inr (markEventsAsCommitted p)"
    using project_es.replay_session(1) [OF assms(5) [unfolded Project_reconstitute_def], of cs] assms(7)
    by (simp add: Project_reconstitute_def)
  have id: "ag_id p = i"
    using project_es.run_records [of p0 cs] reconstitute_frame(1) [OF assms(5) [unfolded Project_reconstitute_def]]
      assms(7) by simp
  have "project_inv (ag_state p)" using project_es.run_inv [OF assms(6)] assms(7) by simp
  then show ?thesis by (rule stale_project_save [OF assms(1-3) id assms(4,9,8) replay assms(10)])
qed

theorem stale_save_skips_events_witness:
  "\<exists>d d' d'' q q'. project_repo_ok tagged_crypto [2] sample_id [sample_created, sample_renamed] d \<and>
     project_save tagged_crypto [2] described_project d = (Inr (markEventsAsCommitted described_project), d') \<and>
     project_load tagged_crypto (\<lambda>_ _. Inr []) sample_id d' = (Inr (Some q), d'') \<and> p_name (ag_state q) = Some ''House'' \<and>
     Project_reconstitute sample_id [sample_created, sample_renamed, sample_described] = Inr q' \<and>
     p_name (ag_state q') = Some ''Home''"
proof -
  obtain d0 where d0: "project_repo_ok tagged_crypto [2] sample_id [sample_created] d0"
    "\<forall>x. has_event (dv_db d0) x \<longleftrightarrow> x = ''e1''"
    using sample_saved by blast
  have st0: "storable sample_id (dv_db d0) (ag_uncommitted renamed_project)"
    using sample_storable(2) d0(2) sample_sessions(1) by metis
  have replay: "Project_reconstitute sample_id ([sample_created] @ ag_uncommitted renamed_project) =
      Inr (markEventsAsCommitted renamed_project)"
    using project_es.replay_session(1) [OF sample_replay [unfolded Project_reconstitute_def]]
    by (simp add: Project_reconstitute_def renamed_project_def)
  have id: "ag_id renamed_project = sample_id"
    using reconstitute_frame(1) [OF replay [unfolded Project_reconstitute_def]] by (simp add: markEventsAsCommitted_def)
  have inv: "project_inv (ag_state renamed_project)"
    using project_es.run_inv [OF sample_committed] by (simp add: renamed_project_def)
  have vals: "\<forall>e \<in> set ([sample_created] @ ag_uncommitted renamed_project). event_ok e \<and> author_trimmed e"
    using sample_event_ok sample_changes_ok sample_sessions by simp
  obtain d where d: "project_repo_ok tagged_crypto [2] sample_id ([sample_created] @ [sample_renamed]) d"
    "\<forall>x. has_event (dv_db d) x \<longleftrightarrow> x = ''e1'' \<or> x = ''e2''"
    using project_save_ok [OF d0(1) aead_ok_tagged encrypts_tagged id sample_id_uuid st0 _ replay vals inv]
      sample_sessions(1) d0(2) by (auto simp: sample_renamed_def)
  have st: "storable sample_id (dv_db d) (ag_uncommitted described_project)"
    using sample_storable(1) d(2) sample_sessions(2) by metis
  have "\<exists>q. loadFromHistory project_handle [sample_described] (markEventsAsCommitted described_project) = Inr q \<and>
      p_name (ag_state q) = Some ''House''"
    using sample_sessions(4)
    by (simp add: loadFromHistory_single load_event_def sample_described_def markEventsAsCommitted_def)
  moreover have "\<exists>q'. Project_reconstitute sample_id [sample_created, sample_renamed, sample_described] = Inr q' \<and>
      p_name (ag_state q') = Some ''Home''"
    by (simp add: Project_reconstitute_def ar_reconstitute_def loadFromHistory_def load_event_def sample_created_def
      sample_renamed_def sample_described_def ar_new_def new_project_state_def markEventsAsCommitted_def)
  ultimately show ?thesis
    using stale_save_skips_events [OF d(1) aead_ok_tagged encrypts_tagged sample_id_uuid sample_replay sample_committed
        described_project_def _ st, of "\<lambda>_ _. Inr []"] sample_sessions sample_event_ok sample_changes_ok d(1)
    by (auto simp: markEventsAsCommitted_def)
qed

subsection \<open>Encrypted events\<close>

text \<open>
  C21: every valid goal or project event survives encryption. The adapter encrypts it without an
  error for any version, and decrypting with the key of the aggregate gives back the event with
  its metadata, its payload and that version.
\<close>

theorem encrypted_event_roundtrip:
  assumes "event_ok e" and "meta_ok (ev_meta e)" and "ty \<noteq> []" and "aead_ok c" and "encrypts c key"
  shows "\<exists>ee. toEncrypted c n ty e v key = Inr ee \<and> toDomain c ee key = Inr (with_version v e)"
proof -
  obtain ee where "toEncrypted c n ty e v key = Inr ee" using toEncrypted_total [OF assms(1,5)] by blast
  then show ?thesis using toDomain_toEncrypted [OF assms(1-4)] by blast
qed

theorem encrypted_event_roundtrip_witness:
  "\<exists>ee. toEncrypted tagged_crypto 0 ''project'' sample_created 7 [2] = Inr ee \<and>
     toDomain tagged_crypto ee [2] = Inr (with_version 7 sample_created)"
  using encrypted_event_roundtrip [of sample_created "''project''" tagged_crypto "[2]" 0 7] sample_event_ok
    aead_ok_tagged encrypts_tagged by simp

subsection \<open>Keys\<close>

text \<open>
  The devices of one user agree on the key of an aggregate. The device that creates the key
  produces a keyring update; a second device with the same master key ingests it, and from
  then on both resolve the events of the aggregate to the created key.
\<close>

theorem keyring_update_shares_key:
  assumes "aead_ok c" and "accepts_key c m" and "derive m (''keyring:'' @ a) = Inr ownerKey" and "accepts_key c ownerKey"
    and "ks_masterKey (km_keyStore s) = Some m" and "km_keyrings s a = None"
    and "ks_masterKey (km_keyStore d) = Some m" and "km_epochKeys d (a, 0) = None"
  shows "\<exists>upd s' d'. createInitialUpdate c derive a dek createdAt s = (Inr (Some (0, upd)), s') \<and>
     ingestKeyringUpdate c derive a upd d = (Inr (), d') \<and>
     resolveKeyForEvent c derive a s' = (Inr dek, s') \<and> resolveKeyForEvent c derive a d' = (Inr dek, d')"
  by (rule keyring_transfer [where derive = derive, OF assms])

definition sample_keys :: key_manager where
  "sample_keys = \<lparr>km_epochKeys = (\<lambda>_. None),
     km_keyStore = \<lparr>ks_masterKey = Some [1], ks_identity = [], ks_aggregate = [], ks_draws = 0\<rparr>,
     km_keyrings = (\<lambda>_. None)\<rparr>"

lemma accepts_tagged: "accepts_key tagged_crypto k"
  by (simp add: accepts_key_def tagged_crypto_def)

theorem keyring_update_shares_key_witness:
  "\<exists>upd s' d'. createInitialUpdate tagged_crypto (\<lambda>m ctx. Inr (m @ [3])) ''a'' [5] 9 sample_keys = (Inr (Some (0, upd)), s') \<and>
     ingestKeyringUpdate tagged_crypto (\<lambda>m ctx. Inr (m @ [3])) ''a'' upd sample_keys = (Inr (), d') \<and>
     resolveKeyForEvent tagged_crypto (\<lambda>m ctx. Inr (m @ [3])) ''a'' s' = (Inr [5], s') \<and>
     resolveKeyForEvent tagged_crypto (\<lambda>m ctx. Inr (m @ [3])) ''a'' d' = (Inr [5], d')"
  by (rule keyring_update_shares_key [of tagged_crypto "[1]" _ _ "[1, 3]"])
    (simp_all add: aead_ok_tagged accepts_tagged sample_keys_def)

text \<open>
  A key backup can be restored. What one key store exports is imported without an error into
  any store whose master key is set, replaces everything that store held, and is exported again
  as the same backup. (A store with several identities exports the first one only.)
\<close>

theorem backup_restores:
  assumes "exportKeys c s = Inr b" and "idb_wf (ks_aggregate s)" and "aead_ok c"
    and "ks_masterKey t = Some m" and "accepts_key c m" and "\<forall>u \<in> set (map fst (ks_identity s)). trim u \<noteq> []"
  shows "\<exists>t'. importKeys c b t = (Inr (), t') \<and> exportKeys c t' = Inr b"
proof -
  have "kb_identityKeys b = None \<longleftrightarrow> kb_userId b = None" "kb_userId b = None \<or> \<not> blank_userId (kb_userId b)"
    using assms(1,6) by (cases "ks_identity s"; auto simp: exportKeys_def bind_result_eq_Inr blank_userId_def)+
  then show ?thesis
    using export_import [OF assms(3-5) exported_sorted [OF assms(1,2)]] by auto
qed

definition sample_identity :: identity_keys where
  "sample_identity = \<lparr>ik_signingPrivateKey = [1], ik_signingPublicKey = [2], ik_encryptionPrivateKey = [3],
     ik_encryptionPublicKey = [4]\<rparr>"

definition sample_backup :: key_backup where
  "sample_backup = \<lparr>kb_userId = Some ''me'', kb_identityKeys = Some sample_identity,
     kb_aggregateKeys = [(''a'', [5]), (''b'', [6])]\<rparr>"

definition sample_store :: key_store where
  "sample_store = \<lparr>ks_masterKey = Some [1],
     ks_identity = [(''me'', 1 # text_encode (json_stringify (identity_object sample_identity)))],
     ks_aggregate = [(''a'', [1, 5]), (''b'', [1, 6])], ks_draws = 0\<rparr>"

lemma sample_export: "exportKeys tagged_crypto sample_store = Inr sample_backup"
  by (simp add: exportKeys_def export_aggregate_def sample_store_def sample_backup_def require_master_def tagged_crypto_def
      read_identity_written)

theorem backup_restores_witness:
  "\<exists>t'. importKeys tagged_crypto sample_backup (sample_store\<lparr>ks_masterKey := Some [8]\<rparr>) = (Inr (), t') \<and>
     exportKeys tagged_crypto t' = Inr sample_backup"
  by (rule backup_restores [OF sample_export _ aead_ok_tagged _ accepts_tagged])
    (simp_all add: sample_store_def idb_wf_def trim_def js_space_def)

text \<open>An import checks the user id only after it has emptied both stores.\<close>

lemma import_without_user_wipes:
  assumes "kb_identityKeys b = Some k" and "blank_userId (kb_userId b)"
  shows "importKeys c b s = (Inl (Error ''Backup missing userId''), s\<lparr>ks_identity := [], ks_aggregate := []\<rparr>)"
  using assms by (simp add: importKeys_def import_identity_def bind_io_def clearAll_def)

text \<open>
  The browser's and the server's crypto services are interchangeable. They encrypt to the same
  bytes, each decrypts what the other encrypted to the plaintext, and a key wrapped for a public
  key is unwrapped with the private key; the one difference is the encryption of an empty
  plaintext, which the browser reads back and the server rejects as too short.
\<close>

theorem crypto_services_agree:
  assumes "primitives_ok P" and "length key = 32" and "is_private_key P priv"
  shows "(\<exists>x. web_encrypt P n p key aad = Inr x \<and> node_encrypt P n p key aad = Inr x \<and>
       web_decrypt P x key aad = Inr p \<and>
       node_decrypt P x key aad = (if p = [] then Inl (Error ''Ciphertext too short'') else Inr p)) \<and>
     (\<exists>w. web_wrapKey P n key (ecdh_public P priv) = Inr w \<and> web_unwrapKey P w priv = Inr key)"
proof -
  obtain x where x: "web_encrypt P n p key aad = Inr x" using assms(2) by (simp add: web_encrypt_Inr)
  have "web_decrypt P x key aad = Inr p"
    using decrypt_encrypt [OF web_crypto_aead [OF assms(1)], of n p key aad x] x by (simp add: web_crypto_def)
  then show ?thesis
    using x node_decrypt_web [OF assms(1) x] unwrap_wrap [OF assms(1,3,2)] by (simp add: node_encrypt_web)
qed

theorem crypto_services_agree_witness:
  "\<exists>w. web_wrapKey sample_primitives 4 (replicate 32 7) (ecdh_public sample_primitives (replicate 32 9)) = Inr w \<and>
     web_unwrapKey sample_primitives w (replicate 32 9) = Inr (replicate 32 7)"
  by (rule crypto_services_agree [THEN conjunct2, OF sample_primitives_ok]) (simp_all add: sample_primitives_def)

end
