(* ===== verification/GoalReadState.thy ===== *)
theory GoalReadState
  imports Snapshots "HOL-Library.AList"
begin

text \<open>
  The pure part of the goal read model: packages/infrastructure/src/goals/projections/model/GoalProjectionState.ts
  (how an event changes a snapshot, the list item, the analytics deltas) and
  goals/derived-state/GoalAnalyticsState.ts (the counters). An object used as a dictionary is an
  association list from property names. The lemmas show that folding the events over a
  snapshot gives the state of the aggregate, and that the counters count the active goals.
\<close>

record goal_list_item =
  gli_id :: string
  gli_summary :: string
  gli_slice :: slice
  gli_priority :: priority
  gli_targetMonth :: string
  gli_createdAt :: int
  gli_achievedAt :: "int option"
  gli_archivedAt :: "int option"
  gli_version :: int

definition isGoalEvent :: "domain_event \<Rightarrow> bool" where
  "isGoalEvent e \<longleftrightarrow> (case ev_payload e of GoalEvent _ \<Rightarrow> True | _ \<Rightarrow> False)"

fun applyEventToSnapshot ::
  "goal_snapshot_state option \<Rightarrow> event_metadata \<Rightarrow> goal_payload \<Rightarrow> int \<Rightarrow> goal_snapshot_state option" where
  "applyEventToSnapshot current m (GoalCreated sl su mo pr cb) version =
     Some \<lparr>gss_id = em_aggregateId m, gss_summary = su, gss_slice = sl, gss_priority = pr,
       gss_targetMonth = Month_value mo, gss_createdBy = cb, gss_createdAt = em_occurredAt m,
       gss_achievedAt = None, gss_archivedAt = None, gss_version = version\<rparr>"
| "applyEventToSnapshot None m p version = None"
| "applyEventToSnapshot (Some s) m (GoalRefined su) version = Some (s\<lparr>gss_summary := su, gss_version := version\<rparr>)"
| "applyEventToSnapshot (Some s) m (GoalRecategorized sl) version = Some (s\<lparr>gss_slice := sl, gss_version := version\<rparr>)"
| "applyEventToSnapshot (Some s) m (GoalRescheduled mo) version =
     Some (s\<lparr>gss_targetMonth := Month_value mo, gss_version := version\<rparr>)"
| "applyEventToSnapshot (Some s) m (GoalPrioritized pr) version = Some (s\<lparr>gss_priority := pr, gss_version := version\<rparr>)"
| "applyEventToSnapshot (Some s) m GoalAchieved version =
     Some (s\<lparr>gss_achievedAt := Some (em_occurredAt m), gss_version := version\<rparr>)"
| "applyEventToSnapshot (Some s) m GoalUnachieved version = Some (s\<lparr>gss_achievedAt := None, gss_version := version\<rparr>)"
| "applyEventToSnapshot (Some s) m GoalArchived version =
     Some (s\<lparr>gss_archivedAt := Some (em_occurredAt m), gss_version := version\<rparr>)"
| "applyEventToSnapshot (Some s) m (GoalAccessGranted u pm) version = Some (s\<lparr>gss_version := version\<rparr>)"
| "applyEventToSnapshot (Some s) m (GoalAccessRevoked u) version = Some (s\<lparr>gss_version := version\<rparr>)"

definition snapshotToListItem :: "goal_snapshot_state \<Rightarrow> goal_list_item" where
  "snapshotToListItem s =
     \<lparr>gli_id = gss_id s, gli_summary = gss_summary s, gli_slice = gss_slice s, gli_priority = gss_priority s,
      gli_targetMonth = gss_targetMonth s, gli_createdAt = gss_createdAt s, gli_achievedAt = gss_achievedAt s,
      gli_archivedAt = gss_archivedAt s, gli_version = gss_version s\<rparr>"

subsection \<open>Analytics\<close>

text \<open>
  \<open>Number(year)\<close> of the part before the first dash. The target month comes from
  \<open>Month.value\<close>, so that part is a decimal number; any other text counts as not finite.
\<close>

definition parseYear :: "string \<Rightarrow> int" where
  "parseYear targetMonth =
     (let y = takeWhile (\<lambda>c. c \<noteq> CHR ''-'') targetMonth in
      if y \<noteq> [] \<and> list_all is_digit y then int (read_nat y) else 0)"

record analytics_delta =
  ad_monthly :: "(string \<times> slice \<times> int) list"
  ad_category :: "(int \<times> slice \<times> int) list"

definition active_snapshot :: "goal_snapshot_state option \<Rightarrow> goal_snapshot_state option" where
  "active_snapshot s = (case s of Some x \<Rightarrow> if gss_archivedAt x = None then Some x else None | None \<Rightarrow> None)"

text \<open>The empty month is falsy and counts as no month.\<close>

definition snapshot_slot :: "goal_snapshot_state option \<Rightarrow> (string \<times> slice) option" where
  "snapshot_slot s =
     (case active_snapshot s of
        Some x \<Rightarrow> if gss_targetMonth x = [] then None else Some (gss_targetMonth x, gss_slice x)
      | None \<Rightarrow> None)"

definition slot_deltas :: "(string \<times> slice) option \<Rightarrow> int \<Rightarrow> analytics_delta" where
  "slot_deltas slot d =
     (case slot of
        None \<Rightarrow> \<lparr>ad_monthly = [], ad_category = []\<rparr>
      | Some (mo, sl) \<Rightarrow> \<lparr>ad_monthly = [(mo, sl, d)], ad_category = [(parseYear mo, sl, d)]\<rparr>)"

definition buildAnalyticsDeltas ::
  "goal_snapshot_state option \<Rightarrow> goal_snapshot_state option \<Rightarrow> analytics_delta" where
  "buildAnalyticsDeltas previous nxt =
     (let prev = snapshot_slot previous; next_slot = snapshot_slot nxt;
          minus = (if prev = next_slot then slot_deltas None 0 else slot_deltas prev (-1));
          plus = (if prev = next_slot then slot_deltas None 0 else slot_deltas next_slot 1)
      in \<lparr>ad_monthly = ad_monthly minus @ ad_monthly plus, ad_category = ad_category minus @ ad_category plus\<rparr>)"

type_synonym counters = "(string \<times> (string \<times> int) list) list"

record analytics_payload =
  an_monthlyTotals :: counters
  an_categoryRollups :: counters

definition createEmptyAnalytics :: analytics_payload where
  "createEmptyAnalytics = \<lparr>an_monthlyTotals = [], an_categoryRollups = []\<rparr>"

text \<open>The two delta functions of the source are the same on property names.\<close>

definition apply_delta :: "counters \<Rightarrow> string \<Rightarrow> slice \<Rightarrow> int \<Rightarrow> counters" where
  "apply_delta totals k sv delta =
     (let bucket = (case map_of totals k of None \<Rightarrow> [] | Some b \<Rightarrow> b);
          sl = Slice_value sv;
          nextValue = (case map_of bucket sl of None \<Rightarrow> 0 | Some n \<Rightarrow> n) + delta;
          nextBucket = (if nextValue = 0 then AList.delete sl bucket else AList.update sl nextValue bucket)
      in if nextBucket = [] then AList.delete k totals else AList.update k nextBucket totals)"

definition applyMonthlyDelta :: "counters \<Rightarrow> string \<Rightarrow> slice \<Rightarrow> int \<Rightarrow> counters" where
  "applyMonthlyDelta totals yearMonth sv delta = apply_delta totals yearMonth sv delta"

definition applyCategoryDelta :: "counters \<Rightarrow> int \<Rightarrow> slice \<Rightarrow> int \<Rightarrow> counters" where
  "applyCategoryDelta rollups year sv delta = apply_delta rollups (show_int year) sv delta"

definition applyAnalyticsDeltas :: "analytics_payload \<Rightarrow> analytics_delta \<Rightarrow> analytics_payload" where
  "applyAnalyticsDeltas a d =
     \<lparr>an_monthlyTotals = fold (\<lambda>(ym, sl, n) t. applyMonthlyDelta t ym sl n) (ad_monthly d) (an_monthlyTotals a),
      an_categoryRollups = fold (\<lambda>(y, sl, n) t. applyCategoryDelta t y sl n) (ad_category d) (an_categoryRollups a)\<rparr>"

subsection \<open>The snapshot of a history is the state of the aggregate\<close>

text \<open>The projector numbers the events of a goal as it sees them.\<close>

fun project_goal :: "domain_event list \<Rightarrow> goal_snapshot_state option \<Rightarrow> goal_snapshot_state option" where
  "project_goal [] s = s"
| "project_goal (e # es) s =
     project_goal es (case ev_payload e of
       GoalEvent p \<Rightarrow> applyEventToSnapshot s (ev_meta e) p (case s of None \<Rightarrow> 1 | Some x \<Rightarrow> gss_version x + 1)
     | _ \<Rightarrow> s)"

definition goal_snapshot_of :: "goal \<Rightarrow> goal_snapshot_state option" where
  "goal_snapshot_of g =
     (let s = ag_state g in
      case (g_summary s, g_slice s, g_priority s, g_targetMonth s, g_createdBy s, g_createdAt s) of
        (Some su, Some sl, Some pr, Some mo, Some cb, Some ca) \<Rightarrow>
          Some \<lparr>gss_id = ag_id g, gss_summary = su, gss_slice = sl, gss_priority = pr,
            gss_targetMonth = Month_value mo, gss_createdBy = cb, gss_createdAt = ca,
            gss_achievedAt = g_achievedAt s, gss_archivedAt = g_archivedAt s, gss_version = ag_version g\<rparr>
      | _ \<Rightarrow> None)"

definition is_goal_creation :: "domain_event \<Rightarrow> bool" where
  "is_goal_creation e \<longleftrightarrow> (case ev_payload e of GoalEvent (GoalCreated _ _ _ _ _) \<Rightarrow> True | _ \<Rightarrow> False)"

lemma goal_snapshot_of_commit [simp]: "goal_snapshot_of (markEventsAsCommitted g) = goal_snapshot_of g"
  by (simp add: goal_snapshot_of_def markEventsAsCommitted_def Let_def split: option.split)

lemma goal_snapshot_step:
  assumes "goal_snapshot_of g = Some s" and "load_event goal_handle e g = Inr g'" and "\<not> is_goal_creation e"
  shows "\<exists>p. ev_payload e = GoalEvent p \<and>
    applyEventToSnapshot (Some s) (ev_meta e) p (gss_version s + 1) = goal_snapshot_of g' \<and> goal_snapshot_of g' \<noteq> None"
proof -
  obtain p where p: "ev_payload e = GoalEvent p"
    using assms(2) by (auto simp: load_event_def goal_handle_def split: domain_payload.splits)
  then have "g' = g\<lparr>ag_state := on_goal (ev_meta e) p (ag_state g), ag_version := ag_version g + 1\<rparr>"
    using assms(2) by (simp add: load_event_def goal_handle_def)
  then show ?thesis
    using assms(1,3) p
    by (cases p) (auto simp: goal_snapshot_of_def is_goal_creation_def Let_def split: option.splits)
qed

lemma project_goal_tail:
  assumes "goal_snapshot_of g = Some s" and "loadFromHistory goal_handle es g = Inr g'"
    and "\<forall>e \<in> set es. \<not> is_goal_creation e"
  shows "project_goal es (Some s) = goal_snapshot_of g'"
  using assms
proof (induction es arbitrary: g s)
  case (Cons e es)
  obtain g1 where g1: "load_event goal_handle e g = Inr g1" "loadFromHistory goal_handle es g1 = Inr g'"
    using Cons.prems(2) by (auto simp: loadFromHistory_def split: sum.splits)
  obtain p where p: "ev_payload e = GoalEvent p"
    "applyEventToSnapshot (Some s) (ev_meta e) p (gss_version s + 1) = goal_snapshot_of g1" "goal_snapshot_of g1 \<noteq> None"
    using goal_snapshot_step [OF Cons.prems(1) g1(1)] Cons.prems(3) by auto
  then obtain s1 where s1: "goal_snapshot_of g1 = Some s1" by auto
  then have "project_goal es (Some s1) = goal_snapshot_of g'" using Cons.IH [OF s1 g1(2)] Cons.prems(3) by simp
  then show ?case using p s1 by simp
qed simp

lemma project_goal_replay:
  assumes "Goal_reconstitute i (e # es) = Inr g" and "is_goal_creation e" and "em_aggregateId (ev_meta e) = i"
    and "\<forall>x \<in> set es. \<not> is_goal_creation x"
  shows "project_goal (e # es) None = goal_snapshot_of g" and "goal_snapshot_of g \<noteq> None"
proof -
  obtain sl su mo pr cb where p: "ev_payload e = GoalEvent (GoalCreated sl su mo pr cb)"
    using assms(2) by (auto simp: is_goal_creation_def split: domain_payload.splits goal_payload.splits)
  obtain g1 g2 where g: "load_event goal_handle e (ar_new i new_goal_state) = Inr g1"
    "loadFromHistory goal_handle es g1 = Inr g2" "g = markEventsAsCommitted g2"
    using assms(1) by (auto simp: Goal_reconstitute_def ar_reconstitute_def loadFromHistory_def bind_result_eq_Inr
        split: sum.splits)
  let ?s = "applyEventToSnapshot None (ev_meta e) (GoalCreated sl su mo pr cb) 1"
  have s1: "goal_snapshot_of g1 = ?s"
    using g(1) p assms(3) by (auto simp: load_event_def goal_handle_def goal_snapshot_of_def ar_new_def new_goal_state_def)
  then have "project_goal es ?s = goal_snapshot_of g2"
    using project_goal_tail [OF _ g(2)] assms(4) by simp
  moreover have "goal_snapshot_of g = goal_snapshot_of g2" by (simp add: g(3))
  ultimately show "project_goal (e # es) None = goal_snapshot_of g" using p by simp
  have "goal_snapshot_of g' \<noteq> None" if "loadFromHistory goal_handle es g1 = Inr g'" "goal_snapshot_of g1 \<noteq> None" for g'
    using that assms(4)
  proof (induction es arbitrary: g1)
    case (Cons x xs)
    then obtain g3 where "load_event goal_handle x g1 = Inr g3" "loadFromHistory goal_handle xs g3 = Inr g'"
      by (auto simp: loadFromHistory_def split: sum.splits)
    then show ?case using Cons goal_snapshot_step [of g1 _ x g3] by fastforce
  qed simp
  then show "goal_snapshot_of g \<noteq> None"
    using g(2) s1 \<open>goal_snapshot_of g = goal_snapshot_of g2\<close> by simp
qed

subsection \<open>The counters count the active goals\<close>

definition bucket_value :: "counters \<Rightarrow> string \<Rightarrow> slice \<Rightarrow> int" where
  "bucket_value t k sl =
     (case map_of t k of None \<Rightarrow> 0
      | Some b \<Rightarrow> (case map_of b (Slice_value sl) of None \<Rightarrow> 0 | Some n \<Rightarrow> n))"

text \<open>No counter is zero and no bucket is empty, so a payload does not grow with the history.\<close>

definition bucket_wf :: "(string \<times> int) list \<Rightarrow> bool" where
  "bucket_wf b \<longleftrightarrow> distinct (map fst b) \<and> (\<forall>x \<in> set b. snd x \<noteq> 0)"

definition counters_wf :: "counters \<Rightarrow> bool" where
  "counters_wf t \<longleftrightarrow> distinct (map fst t) \<and> (\<forall>x \<in> set t. snd x \<noteq> [] \<and> bucket_wf (snd x))"

lemma Slice_value_inject [simp]: "Slice_value a = Slice_value b \<longleftrightarrow> a = b"
  by (cases a; cases b) simp_all

lemma alist_update_set: "set (AList.update k v xs) \<subseteq> insert (k, v) (set xs)"
  by (induction xs) auto

lemma alist_delete_set: "set (AList.delete k xs) \<subseteq> set xs"
  by (auto simp: AList.delete_eq)

lemma alist_delete_distinct: "distinct (map fst xs) \<Longrightarrow> distinct (map fst (AList.delete k xs))"
  by (simp add: AList.delete_eq distinct_map_filter)

lemma bucket_wf_step:
  "bucket_wf b \<Longrightarrow> bucket_wf (if n = 0 then AList.delete k b else AList.update k n b)"
  using alist_update_set [of k n b] alist_delete_set [of k b]
  by (auto simp: bucket_wf_def alist_delete_distinct distinct_update)

lemma counters_wf_apply_delta:
  assumes "counters_wf t"
  shows "counters_wf (apply_delta t k sl d)"
proof -
  define b where "b = (case map_of t k of None \<Rightarrow> [] | Some b \<Rightarrow> b)"
  define n where "n = (case map_of b (Slice_value sl) of None \<Rightarrow> 0 | Some n \<Rightarrow> n) + d"
  define b' where "b' = (if n = 0 then AList.delete (Slice_value sl) b else AList.update (Slice_value sl) n b)"
  have "bucket_wf b" using assms map_of_SomeD [of t k]
    by (fastforce simp: b_def counters_wf_def bucket_wf_def split: option.split)
  then have "bucket_wf b'" unfolding b'_def by (rule bucket_wf_step)
  moreover have "apply_delta t k sl d = (if b' = [] then AList.delete k t else AList.update k b' t)"
    by (simp add: apply_delta_def Let_def b_def n_def b'_def)
  ultimately show ?thesis
    using assms alist_update_set [of k b' t] alist_delete_set [of k t]
    by (auto simp: counters_wf_def alist_delete_distinct distinct_update)
qed

lemma bucket_value_apply_delta:
  "bucket_value (apply_delta t k sl d) k' sl' = bucket_value t k' sl' + (if k' = k \<and> sl' = sl then d else 0)"
proof -
  define b where "b = (case map_of t k of None \<Rightarrow> [] | Some b \<Rightarrow> b)"
  define n where "n = (case map_of b (Slice_value sl) of None \<Rightarrow> 0 | Some n \<Rightarrow> n) + d"
  define b' where "b' = (if n = 0 then AList.delete (Slice_value sl) b else AList.update (Slice_value sl) n b)"
  define val where "val b s = (case map_of b (Slice_value s) of None \<Rightarrow> 0 | Some n \<Rightarrow> (n :: int))" for b s
  have t: "apply_delta t k sl d = (if b' = [] then AList.delete k t else AList.update k b' t)"
    by (simp add: apply_delta_def Let_def b_def n_def b'_def)
  have v: "val b' s = val b s + (if s = sl then d else 0)" for s
    by (auto simp: val_def b'_def n_def update_conv' delete_conv')
  have "val [] s = 0" for s by (simp add: val_def)
  then have "bucket_value (apply_delta t k sl d) k' s = (if k' = k then val b' s else bucket_value t k' s)" for s
    by (simp add: t bucket_value_def update_conv' delete_conv' val_def)
  moreover have "bucket_value t k s = val b s" for s
    by (simp add: bucket_value_def b_def val_def split: option.split)
  ultimately show ?thesis using v by simp
qed

text \<open>The goals in a slot of the view.\<close>

definition goals_in :: "(string \<Rightarrow> goal_snapshot_state option) \<Rightarrow> (string \<times> slice \<Rightarrow> bool) \<Rightarrow> string set" where
  "goals_in v P = {a. \<exists>slot. snapshot_slot (v a) = Some slot \<and> P slot}"

definition analytics_counts :: "analytics_payload \<Rightarrow> (string \<Rightarrow> goal_snapshot_state option) \<Rightarrow> bool" where
  "analytics_counts an v \<longleftrightarrow>
     counters_wf (an_monthlyTotals an) \<and> counters_wf (an_categoryRollups an) \<and>
     (\<forall>ym sl. bucket_value (an_monthlyTotals an) ym sl = int (card (goals_in v (\<lambda>s. s = (ym, sl))))) \<and>
     (\<forall>y sl. bucket_value (an_categoryRollups an) (show_int y) sl =
        int (card (goals_in v (\<lambda>s. parseYear (fst s) = y \<and> snd s = sl))))"

definition slot_count :: "(string \<times> slice) option \<Rightarrow> (string \<times> slice \<Rightarrow> bool) \<Rightarrow> int" where
  "slot_count s P = (case s of Some x \<Rightarrow> if P x then 1 else 0 | None \<Rightarrow> 0)"

lemma card_goals_in_update:
  assumes "finite (dom v)"
  shows "int (card (goals_in (v(a := x)) P)) =
    int (card (goals_in v P)) - slot_count (snapshot_slot (v a)) P + slot_count (snapshot_slot x) P"
proof -
  have "goals_in w P \<subseteq> dom w" for w
    by (auto simp: goals_in_def snapshot_slot_def active_snapshot_def split: option.splits)
  then have fin: "finite (goals_in w P)" if "finite (dom w)" for w using that finite_subset by blast
  have count: "int (card (goals_in w P)) = int (card (goals_in w P - {a})) + slot_count (snapshot_slot (w a)) P"
    if "finite (dom w)" for w
  proof (cases "a \<in> goals_in w P")
    case True
    then have "slot_count (snapshot_slot (w a)) P = 1" by (auto simp: goals_in_def slot_count_def)
    then show ?thesis using card_Suc_Diff1 [OF fin [OF that] True] by simp
  next
    case False
    then show ?thesis by (auto simp: goals_in_def slot_count_def split: option.split)
  qed
  have "goals_in (v(a := x)) P - {a} = goals_in v P - {a}" by (auto simp: goals_in_def)
  then show ?thesis using count [of v] count [of "v(a := x)"] assms by simp
qed

lemma slot_deltas_counts:
  "counters_wf t \<Longrightarrow> counters_wf (fold (\<lambda>(ym, sl, n) t. applyMonthlyDelta t ym sl n) (ad_monthly (slot_deltas s d)) t)"
  "counters_wf t \<Longrightarrow> counters_wf (fold (\<lambda>(y, sl, n) t. applyCategoryDelta t y sl n) (ad_category (slot_deltas s d)) t)"
  "bucket_value (fold (\<lambda>(ym, sl, n) t. applyMonthlyDelta t ym sl n) (ad_monthly (slot_deltas s d)) t) ym sl =
     bucket_value t ym sl + d * slot_count s (\<lambda>x. x = (ym, sl))"
  "bucket_value (fold (\<lambda>(y, sl, n) t. applyCategoryDelta t y sl n) (ad_category (slot_deltas s d)) t) (show_int y) sl =
     bucket_value t (show_int y) sl + d * slot_count s (\<lambda>x. parseYear (fst x) = y \<and> snd x = sl)"
  by (auto simp: slot_deltas_def slot_count_def applyMonthlyDelta_def applyCategoryDelta_def
      counters_wf_apply_delta bucket_value_apply_delta split: option.split)

lemma analytics_counts_step:
  assumes "analytics_counts an v" and "finite (dom v)"
  shows "analytics_counts (applyAnalyticsDeltas an (buildAnalyticsDeltas (v a) x)) (v(a := x))"
proof (cases "snapshot_slot (v a) = snapshot_slot x")
  case True
  then have "applyAnalyticsDeltas an (buildAnalyticsDeltas (v a) x) = an"
    by (simp add: buildAnalyticsDeltas_def applyAnalyticsDeltas_def slot_deltas_def Let_def)
  then show ?thesis using assms True by (simp add: analytics_counts_def card_goals_in_update)
next
  case False
  then show ?thesis using assms
    by (simp add: analytics_counts_def buildAnalyticsDeltas_def applyAnalyticsDeltas_def Let_def fold_append
        slot_deltas_counts card_goals_in_update)
qed

lemma analytics_counts_empty: "analytics_counts createEmptyAnalytics (\<lambda>_. None)"
  by (simp add: analytics_counts_def createEmptyAnalytics_def counters_wf_def bucket_value_def goals_in_def
      snapshot_slot_def active_snapshot_def)

end
