(* ===== verification/DerivedStores.thy ===== *)
theory DerivedStores
  imports EventStoreCore Text
begin

text \<open>
  The tables of derived state (packages/infrastructure/src/platform/derived-state/stores) and the
  associated data that binds their encrypted rows to their place (aad.ts). Each table is the
  list of its rows; \<open>upsert\<close> is \<open>INSERT ... ON CONFLICT(key) DO UPDATE\<close>, which keeps one row
  for each key.
\<close>

fun upsert :: "('r \<Rightarrow> 'k) \<Rightarrow> 'r \<Rightarrow> 'r list \<Rightarrow> 'r list" where
  "upsert key r [] = [r]"
| "upsert key r (x # xs) = (if key x = key r then r # xs else x # upsert key r xs)"

definition select_row :: "('r \<Rightarrow> 'k) \<Rightarrow> 'k \<Rightarrow> 'r list \<Rightarrow> 'r option" where
  "select_row key k rows = find (\<lambda>r. key r = k) rows"

definition delete_row :: "('r \<Rightarrow> 'k) \<Rightarrow> 'k \<Rightarrow> 'r list \<Rightarrow> 'r list" where
  "delete_row key k rows = filter (\<lambda>r. key r \<noteq> k) rows"

text \<open>The contract of a keyed table.\<close>

locale keyed_table =
  fixes get :: "'k \<Rightarrow> 't \<Rightarrow> 'r option" and put :: "'r \<Rightarrow> 't \<Rightarrow> 't" and del :: "'k \<Rightarrow> 't \<Rightarrow> 't"
    and key :: "'r \<Rightarrow> 'k"
  assumes get_put: "get k (put r t) = (if k = key r then Some r else get k t)"
    and get_del: "get k (del j t) = (if k = j then None else get k t)"
    and get_key: "get k t = Some r \<Longrightarrow> key r = k"
begin

lemma put_put: "get k (put r (put q t)) = (if key q = key r then get k (put r t) else get k (put q (put r t)))"
  by (simp add: get_put)

lemma del_put: "get k (del (key r) (put r t)) = get k (del (key r) t)"
  by (simp add: get_put get_del)

end

lemma select_upsert: "select_row key k (upsert key r rows) = (if k = key r then Some r else select_row key k rows)"
  by (induction rows) (auto simp: select_row_def)

lemma select_delete: "select_row key k (delete_row key j rows) = (if k = j then None else select_row key k rows)"
  by (induction rows) (auto simp: select_row_def delete_row_def)

lemma select_key: "select_row key k rows = Some r \<Longrightarrow> key r = k"
  by (auto simp: select_row_def find_Some_iff)

interpretation rows: keyed_table "select_row key" "upsert key" "delete_row key" key for key :: "'r \<Rightarrow> 'k"
  by unfold_locales (auto simp: select_upsert select_delete dest: select_key)

lemma upsert_distinct [simp]: "distinct (map key (upsert key r rows)) = distinct (map key rows)"
proof -
  have "key ` set (upsert key r rows) = insert (key r) (key ` set rows)" for rows by (induction rows) auto
  then show ?thesis by (induction rows) auto
qed

lemma delete_distinct: "distinct (map key rows) \<Longrightarrow> distinct (map key (delete_row key k rows))"
  by (simp add: delete_row_def distinct_map_filter)

lemma select_member:
  "distinct (map key rows) \<Longrightarrow> r \<in> set rows \<Longrightarrow> select_row key (key r) rows = Some r"
  by (induction rows) (force simp: select_row_def)+

lemma select_in: "select_row key k rows = Some r \<Longrightarrow> r \<in> set rows"
  by (auto simp: select_row_def find_Some_iff)

subsection \<open>ProjectionMetaStore\<close>

datatype projection_phase = Phase_idle | Phase_catchingUp | Phase_rebuilding | Phase_failed

record projection_meta_record =
  pm_projectionId :: string
  pm_ordering :: projection_ordering
  pm_lastEffectiveCursor :: effective_cursor
  pm_lastCommitSequence :: int
  pm_phase :: projection_phase
  pm_updatedAt :: int

type_synonym meta_table = "projection_meta_record list"

definition meta_get :: "string \<Rightarrow> meta_table \<Rightarrow> projection_meta_record option" where
  "meta_get projectionId = select_row pm_projectionId projectionId"

definition meta_upsert :: "projection_meta_record \<Rightarrow> meta_table \<Rightarrow> meta_table" where
  "meta_upsert = upsert pm_projectionId"

definition meta_remove :: "string \<Rightarrow> meta_table \<Rightarrow> meta_table" where
  "meta_remove projectionId = delete_row pm_projectionId projectionId"

lemma meta_get_upsert [simp]:
  "meta_get i (meta_upsert r t) = (if i = pm_projectionId r then Some r else meta_get i t)"
  by (simp add: meta_get_def meta_upsert_def rows.get_put)

subsection \<open>ProjectionCacheStore\<close>

record projection_cache_record =
  pc_projectionId :: string
  pc_scopeKey :: string
  pc_cacheVersion :: int
  pc_cacheEncrypted :: bytes
  pc_ordering :: projection_ordering
  pc_lastEffectiveCursor :: effective_cursor
  pc_lastCommitSequence :: int
  pc_writtenAt :: int

type_synonym cache_table = "projection_cache_record list"

definition cache_key :: "projection_cache_record \<Rightarrow> string \<times> string" where
  "cache_key r = (pc_projectionId r, pc_scopeKey r)"

definition cache_get :: "string \<Rightarrow> string \<Rightarrow> cache_table \<Rightarrow> projection_cache_record option" where
  "cache_get projectionId scopeKey = select_row cache_key (projectionId, scopeKey)"

definition cache_listByProjection :: "string \<Rightarrow> cache_table \<Rightarrow> projection_cache_record list" where
  "cache_listByProjection projectionId t = filter (\<lambda>r. pc_projectionId r = projectionId) t"

definition cache_put :: "projection_cache_record \<Rightarrow> cache_table \<Rightarrow> cache_table" where
  "cache_put = upsert cache_key"

definition cache_remove :: "string \<Rightarrow> string \<Rightarrow> cache_table \<Rightarrow> cache_table" where
  "cache_remove projectionId scopeKey = delete_row cache_key (projectionId, scopeKey)"

definition cache_removeAll :: "string \<Rightarrow> cache_table \<Rightarrow> cache_table" where
  "cache_removeAll projectionId t = filter (\<lambda>r. pc_projectionId r \<noteq> projectionId) t"

lemma cache_get_put [simp]:
  "cache_get i k (cache_put r t) = (if i = pc_projectionId r \<and> k = pc_scopeKey r then Some r else cache_get i k t)"
  by (simp add: cache_get_def cache_put_def rows.get_put cache_key_def)

lemma cache_get_remove [simp]:
  "cache_get i k (cache_remove j l t) = (if i = j \<and> k = l then None else cache_get i k t)"
  by (simp add: cache_get_def cache_remove_def rows.get_del)

lemma cache_get_removeAll [simp]:
  "cache_get i k (cache_removeAll j t) = (if i = j then None else cache_get i k t)"
  by (induction t) (auto simp: cache_get_def cache_removeAll_def select_row_def cache_key_def)

subsection \<open>IndexArtifactStore\<close>

record index_artifact_record =
  ia_indexId :: string
  ia_scopeKey :: string
  ia_artifactVersion :: int
  ia_artifactEncrypted :: bytes
  ia_lastEffectiveCursor :: effective_cursor
  ia_writtenAt :: int

type_synonym artifact_table = "index_artifact_record list"

definition artifact_key :: "index_artifact_record \<Rightarrow> string \<times> string" where
  "artifact_key r = (ia_indexId r, ia_scopeKey r)"

definition artifact_get :: "string \<Rightarrow> string \<Rightarrow> artifact_table \<Rightarrow> index_artifact_record option" where
  "artifact_get indexId scopeKey = select_row artifact_key (indexId, scopeKey)"

definition artifact_put :: "index_artifact_record \<Rightarrow> artifact_table \<Rightarrow> artifact_table" where
  "artifact_put = upsert artifact_key"

definition artifact_remove :: "string \<Rightarrow> string \<Rightarrow> artifact_table \<Rightarrow> artifact_table" where
  "artifact_remove indexId scopeKey = delete_row artifact_key (indexId, scopeKey)"

definition artifact_removeAll :: "string \<Rightarrow> artifact_table \<Rightarrow> artifact_table" where
  "artifact_removeAll indexId t = filter (\<lambda>r. ia_indexId r \<noteq> indexId) t"

subsection \<open>ProcessManagerStateStore\<close>

record process_manager_record =
  ps_processManagerId :: string
  ps_scopeKey :: string
  ps_stateVersion :: int
  ps_stateEncrypted :: bytes
  ps_lastEffectiveCursor :: effective_cursor
  ps_updatedAt :: int

type_synonym process_table = "process_manager_record list"

definition process_key :: "process_manager_record \<Rightarrow> string \<times> string" where
  "process_key r = (ps_processManagerId r, ps_scopeKey r)"

definition process_get :: "string \<Rightarrow> string \<Rightarrow> process_table \<Rightarrow> process_manager_record option" where
  "process_get processManagerId scopeKey = select_row process_key (processManagerId, scopeKey)"

definition process_put :: "process_manager_record \<Rightarrow> process_table \<Rightarrow> process_table" where
  "process_put = upsert process_key"

definition process_remove :: "string \<Rightarrow> string \<Rightarrow> process_table \<Rightarrow> process_table" where
  "process_remove processManagerId scopeKey = delete_row process_key (processManagerId, scopeKey)"

definition process_removeAll :: "string \<Rightarrow> process_table \<Rightarrow> process_table" where
  "process_removeAll processManagerId t = filter (\<lambda>r. ps_processManagerId r \<noteq> processManagerId) t"

subsection \<open>Associated data\<close>

definition encodeCursor :: "effective_cursor \<Rightarrow> string" where
  "encodeCursor c = show_int (globalSequence c) @ '':'' @ show_int (pendingCommitSequence c)"

definition derived_aad :: "string \<Rightarrow> string \<Rightarrow> string \<Rightarrow> int \<Rightarrow> effective_cursor \<Rightarrow> bytes" where
  "derived_aad kind i scopeKey version cursor =
     text_encode (kind @ '':'' @ i @ '':'' @ scopeKey @ '':'' @ show_int version @ '':'' @ encodeCursor cursor)"

definition buildProjectionCacheAad :: "string \<Rightarrow> string \<Rightarrow> int \<Rightarrow> effective_cursor \<Rightarrow> bytes" where
  "buildProjectionCacheAad projectionId scopeKey cacheVersion cursor =
     derived_aad ''projection'' projectionId scopeKey cacheVersion cursor"

definition buildIndexArtifactAad :: "string \<Rightarrow> string \<Rightarrow> int \<Rightarrow> effective_cursor \<Rightarrow> bytes" where
  "buildIndexArtifactAad indexId scopeKey artifactVersion cursor =
     derived_aad ''index'' indexId scopeKey artifactVersion cursor"

definition buildProcessManagerStateAad :: "string \<Rightarrow> string \<Rightarrow> int \<Rightarrow> effective_cursor \<Rightarrow> bytes" where
  "buildProcessManagerStateAad processManagerId scopeKey stateVersion cursor =
     derived_aad ''process'' processManagerId scopeKey stateVersion cursor"

end
