(* ===== verification/SearchProjector.thy ===== *)
theory SearchProjector
  imports Keyring DerivedStores "HOL-Library.AList"
begin

text \<open>
  The state the two projection processors have in common, and their search projectors
  (packages/infrastructure/src/goals/derived-state/GoalSearchProjector.ts and
  projects/derived-state/ProjectSearchProjector.ts, which differ in constants and filters only).
  The search engine is the package minisearch: the parameter \<open>mini_search\<close>, with
  \<open>engine_ok\<close> its documented behaviour (adding a document whose id is already indexed throws,
  so does removing one that is not). A \<open>Map\<close> is an association list in insertion order.
\<close>

record ('i, 'x) mini_search =
  ms_new :: 'x
  ms_add :: "'i \<Rightarrow> 'x \<Rightarrow> 'x result"
  ms_remove :: "'i \<Rightarrow> 'x \<Rightarrow> 'x result"
  ms_search :: "string \<Rightarrow> 'x \<Rightarrow> string list"
  ms_toJSON :: "'x \<Rightarrow> string"
  ms_loadJSON :: "string \<Rightarrow> 'x result"

record 'i search_config =
  sc_indexId :: string
  sc_searchKeyId :: string
  sc_id :: "'i \<Rightarrow> string"
  sc_archivedAt :: "'i \<Rightarrow> int option"
  sc_createdAt :: "'i \<Rightarrow> int"

datatype index_build_phase = Index_missing | Index_building | Index_ready | Index_failed

record ('i, 's, 'x) derived_state =
  ds_keys :: key_manager
  ds_cache :: cache_table
  ds_artifacts :: artifact_table
  ds_snapshots :: "(string \<times> 's) list"
  ds_projections :: "(string \<times> 'i) list"
  ds_searchIndex :: "'x option"
  ds_indexLoaded :: bool
  ds_indexDirty :: bool
  ds_phase :: index_build_phase

subsection \<open>Keys and encryption\<close>

definition on_ds_keys :: "(key_manager, 'a) io \<Rightarrow> (('i, 's, 'x, 'm) derived_state_scheme, 'a) io" where
  "on_ds_keys m s = (case m (ds_keys s) of (r, km) \<Rightarrow> (r, s\<lparr>ds_keys := km\<rparr>))"

text \<open>\<open>crypto.encrypt\<close> with associated data; it consumes one random draw.\<close>

definition seal :: "crypto_port \<Rightarrow> bytes \<Rightarrow> bytes \<Rightarrow> bytes \<Rightarrow> (key_manager, bytes) io" where
  "seal c plaintext key aad km =
     (encrypt c (ks_draws (km_keyStore km)) plaintext key aad,
      km\<lparr>km_keyStore := (km_keyStore km)\<lparr>ks_draws := ks_draws (km_keyStore km) + 1\<rparr>\<rparr>)"

text \<open>\<open>ensureAnalyticsKey\<close> and \<open>ensureSearchKey\<close>; \<open>generated\<close> is what \<open>generateKey()\<close> returns.\<close>

definition ensureKey :: "crypto_port \<Rightarrow> bytes \<Rightarrow> string \<Rightarrow> (key_manager, bytes) io" where
  "ensureKey c generated keyId =
     bind_io (km_getAggregateKey c keyId) (\<lambda>existing.
     case existing of
       Some k \<Rightarrow> return_io k
     | None \<Rightarrow>
         bind_io (on_store (saveAggregateKey c keyId generated)) (\<lambda>_.
         return_io generated))"

subsection \<open>The search projector\<close>

definition loadSearchIndex ::
  "crypto_port \<Rightarrow> ('i, 'x) mini_search \<Rightarrow> 'i search_config \<Rightarrow> bytes \<Rightarrow> (('i, 's, 'x, 'm) derived_state_scheme, bool) io" where
  "loadSearchIndex c ms cfg key s =
     (case artifact_get (sc_indexId cfg) ''global'' (ds_artifacts s) of
        None \<Rightarrow> (Inr False, s)
      | Some row \<Rightarrow>
          (case bind_result (decrypt c (ia_artifactEncrypted row) key
                   (buildIndexArtifactAad (sc_indexId cfg) ''global'' (ia_artifactVersion row) (ia_lastEffectiveCursor row)))
                 (\<lambda>plaintext. ms_loadJSON ms (text_decode plaintext)) of
             Inr ix \<Rightarrow> (Inr True, s\<lparr>ds_searchIndex := Some ix\<rparr>)
           | Inl _ \<Rightarrow> (Inr False, s\<lparr>ds_artifacts := artifact_remove (sc_indexId cfg) ''global'' (ds_artifacts s)\<rparr>)))"

definition ms_addAll :: "('i, 'x) mini_search \<Rightarrow> 'i list \<Rightarrow> 'x \<Rightarrow> 'x result" where
  "ms_addAll ms docs ix = fold_result (ms_add ms) docs ix"

definition search_ensureBuilt ::
  "crypto_port \<Rightarrow> ('i, 'x) mini_search \<Rightarrow> 'i search_config \<Rightarrow> bytes \<Rightarrow> 'i list \<Rightarrow>
     (('i, 's, 'x, 'm) derived_state_scheme, unit) io" where
  "search_ensureBuilt c ms cfg generated projections =
     bind_io (read_io ds_indexLoaded) (\<lambda>loaded.
     if loaded then return_io ()
     else
       bind_io (update_io (ds_phase_update (\<lambda>_. Index_building))) (\<lambda>_.
       bind_io (on_ds_keys (ensureKey c generated (sc_searchKeyId cfg))) (\<lambda>searchKey.
       bind_io (loadSearchIndex c ms cfg searchKey) (\<lambda>restored.
       bind_io (if restored then return_io ()
                else
                  bind_io (update_io (ds_searchIndex_update (\<lambda>_. Some (ms_new ms)))) (\<lambda>_.
                  let docs = filter (\<lambda>i. sc_archivedAt cfg i = None) projections in
                  bind_io (lift_io (ms_addAll ms docs (ms_new ms))) (\<lambda>ix.
                  update_io (\<lambda>s. s\<lparr>ds_searchIndex := Some ix, ds_indexDirty := True\<rparr>)))) (\<lambda>_.
       update_io (\<lambda>s. s\<lparr>ds_indexLoaded := True, ds_phase := Index_ready\<rparr>))))))"

definition sort_desc :: "('i \<Rightarrow> int) \<Rightarrow> 'i list \<Rightarrow> 'i list" where
  "sort_desc f xs = sort_key (\<lambda>x. - f x) xs"

text \<open>\<open>matches\<close> is the filter of the caller; hits without an item are dropped.\<close>

definition search_items ::
  "('i, 'x) mini_search \<Rightarrow> 'i search_config \<Rightarrow> string \<Rightarrow> ('i \<Rightarrow> bool) \<Rightarrow> ('i, 's, 'x, 'm) derived_state_scheme \<Rightarrow> 'i list" where
  "search_items ms cfg term matches s =
     (case ds_searchIndex s of
        None \<Rightarrow> []
      | Some ix \<Rightarrow>
          let hits = (if trim term \<noteq> [] then ms_search ms term ix else map (sc_id cfg \<circ> snd) (ds_projections s));
              items = List.map_filter (map_of (ds_projections s)) hits
          in sort_desc (sc_createdAt cfg) (filter matches items))"

definition applyProjectionChange ::
  "('i, 'x) mini_search \<Rightarrow> 'i search_config \<Rightarrow> 'i option \<Rightarrow> 'i option \<Rightarrow> (('i, 's, 'x, 'm) derived_state_scheme, unit) io" where
  "applyProjectionChange ms cfg previousItem nextItem s =
     (case ds_searchIndex s of
        None \<Rightarrow> (Inr (), s)
      | Some ix \<Rightarrow>
          let ix1 = (case previousItem of
                       None \<Rightarrow> ix
                     | Some p \<Rightarrow> (case ms_remove ms p ix of Inr ix' \<Rightarrow> ix' | Inl _ \<Rightarrow> ix));
              s1 = s\<lparr>ds_searchIndex := Some ix1\<rparr>
          in case nextItem of
               Some n \<Rightarrow>
                 if sc_archivedAt cfg n = None
                 then (case ms_add ms n ix1 of
                         Inl e \<Rightarrow> (Inl e, s1)
                       | Inr ix2 \<Rightarrow> (Inr (), s1\<lparr>ds_searchIndex := Some ix2, ds_indexDirty := True\<rparr>))
                 else (Inr (), s1\<lparr>ds_indexDirty := True\<rparr>)
             | None \<Rightarrow> (Inr (), s1\<lparr>ds_indexDirty := True\<rparr>))"

definition saveSearchIndex ::
  "crypto_port \<Rightarrow> ('i, 'x) mini_search \<Rightarrow> 'i search_config \<Rightarrow> int \<Rightarrow> bytes \<Rightarrow> effective_cursor \<Rightarrow>
     (('i, 's, 'x, 'm) derived_state_scheme, unit) io" where
  "saveSearchIndex c ms cfg now key cursor =
     bind_io (read_io ds_searchIndex) (\<lambda>index.
     case index of
       None \<Rightarrow> return_io ()
     | Some ix \<Rightarrow>
         bind_io (on_ds_keys (seal c (text_encode (ms_toJSON ms ix)) key
           (buildIndexArtifactAad (sc_indexId cfg) ''global'' 1 cursor))) (\<lambda>cipher.
         update_io (\<lambda>s. s\<lparr>ds_artifacts := artifact_put
           \<lparr>ia_indexId = sc_indexId cfg, ia_scopeKey = ''global'', ia_artifactVersion = 1,
            ia_artifactEncrypted = cipher, ia_lastEffectiveCursor = cursor, ia_writtenAt = now\<rparr> (ds_artifacts s)\<rparr>)))"

definition persistIndex ::
  "crypto_port \<Rightarrow> ('i, 'x) mini_search \<Rightarrow> 'i search_config \<Rightarrow> bytes \<Rightarrow> int \<Rightarrow> effective_cursor \<Rightarrow>
     (('i, 's, 'x, 'm) derived_state_scheme, unit) io" where
  "persistIndex c ms cfg generated now cursor =
     bind_io (read_io (\<lambda>s. ds_searchIndex s = None \<or> \<not> ds_indexDirty s)) (\<lambda>skip.
     if skip then return_io ()
     else
       bind_io (on_ds_keys (ensureKey c generated (sc_searchKeyId cfg))) (\<lambda>searchKey.
       bind_io (saveSearchIndex c ms cfg now searchKey cursor) (\<lambda>_.
       update_io (ds_indexDirty_update (\<lambda>_. False)))))"

definition search_reset :: "(('i, 's, 'x, 'm) derived_state_scheme, unit) io" where
  "search_reset =
     update_io (\<lambda>s. s\<lparr>ds_searchIndex := None, ds_indexLoaded := False, ds_indexDirty := False, ds_phase := Index_missing\<rparr>)"

definition search_clearPersisted :: "'i search_config \<Rightarrow> (('i, 's, 'x, 'm) derived_state_scheme, unit) io" where
  "search_clearPersisted cfg =
     update_io (ds_artifacts_update (artifact_remove (sc_indexId cfg) ''global''))"

subsection \<open>Facts about keys\<close>

text \<open>Every plaintext can be encrypted under every key, with any associated data.\<close>

definition total_cipher :: "crypto_port \<Rightarrow> bool" where
  "total_cipher c \<longleftrightarrow> (\<forall>n p k a. \<not> isl (encrypt c n p k a))"

lemma total_cipher_Inr: "total_cipher c \<Longrightarrow> \<exists>x. encrypt c n p k a = Inr x"
  unfolding total_cipher_def by (metis isl_def sum.exhaust)

lemma total_cipher_accepts: "total_cipher c \<Longrightarrow> accepts_key c m"
  by (simp add: total_cipher_def accepts_key_def)

text \<open>
  What the processors need of the key manager: a master key, and for each aggregate either its
  key or no trace of one. \<open>reserved\<close> are the names of the keys of derived state.
\<close>

definition keys_ok :: "crypto_port \<Rightarrow> string set \<Rightarrow> (string \<Rightarrow> bytes option) \<Rightarrow> key_manager \<Rightarrow> bool" where
  "keys_ok c reserved keys km \<longleftrightarrow> ks_masterKey (km_keyStore km) \<noteq> None \<and>
     (\<forall>a \<in> reserved. \<not> isl (getAggregateKey c a (km_keyStore km))) \<and>
     (\<forall>a. a \<notin> reserved \<longrightarrow> getAggregateKey c a (km_keyStore km) = Inr (keys a) \<and>
        (km_epochKeys km (a, 0) = None \<and> km_keyrings km a = None \<or> keys a \<noteq> None \<and> km_epochKeys km (a, 0) = keys a))"

definition missing_key_error :: "error \<Rightarrow> bool" where
  "missing_key_error e \<longleftrightarrow> e = Error ''Missing aggregate key'' \<or> e = Error ''Missing keyring epoch''"

lemma keys_ok_resolve:
  assumes "keys_ok c R keys km" and "a \<notin> R"
  shows "\<exists>km'. resolveKeyForEvent c derive a km =
      ((case keys a of Some k \<Rightarrow> Inr k | None \<Rightarrow> Inl (Error ''Missing aggregate key'')), km') \<and> keys_ok c R keys km'
      \<and> km_keyStore km' = km_keyStore km"
proof (cases "km_epochKeys km (a, 0)")
  case (Some k)
  then have "keys a = Some k" using assms by (auto simp: keys_ok_def)
  then show ?thesis using resolve_cached [OF Some] assms(1) by auto
next
  case None
  then have g: "getAggregateKey c a (km_keyStore km) = Inr (keys a)" "km_keyrings km a = None"
    using assms by (auto simp: keys_ok_def)
  show ?thesis
  proof (cases "keys a")
    case none: None
    then have "resolveKeyForEvent c derive a km = (Inl (Error ''Missing aggregate key''), km)"
      using None g by (simp add: resolveKeyForEvent_def resolveKeyForEpoch_def resolve_from_store_def bind_io_def)
    then show ?thesis using none assms(1) by auto
  next
    case (Some k)
    let ?km = "km\<lparr>km_epochKeys := (km_epochKeys km)((a, 0) \<mapsto> k)\<rparr>"
    have "resolveKeyForEvent c derive a km = (Inr k, ?km)"
      using None g Some
      by (simp add: resolveKeyForEvent_def resolveKeyForEpoch_def resolve_from_store_def bind_io_def cacheKey_def)
    moreover have "keys_ok c R keys ?km" using assms(1) Some unfolding keys_ok_def by auto
    ultimately show ?thesis using Some by auto
  qed
qed

lemma keys_ok_ensureKey:
  assumes "keys_ok c R keys km" and "a \<in> R" and "aead_ok c" and "total_cipher c"
  shows "\<exists>k km'. ensureKey c generated a km = (Inr k, km') \<and> keys_ok c R keys km' \<and>
    getAggregateKey c a (km_keyStore km') = Inr (Some k) \<and>
    (\<forall>b. b \<noteq> a \<longrightarrow> getAggregateKey c b (km_keyStore km') = getAggregateKey c b (km_keyStore km)) \<and>
    (\<forall>k'. getAggregateKey c a (km_keyStore km) = Inr (Some k') \<longrightarrow> k = k')"
proof -
  obtain x where x: "getAggregateKey c a (km_keyStore km) = Inr x"
    using assms(1,2) by (cases "getAggregateKey c a (km_keyStore km)") (auto simp: keys_ok_def)
  show ?thesis
  proof (cases x)
    case (Some k)
    then have "ensureKey c generated a km = (Inr k, km)"
      using x by (simp add: ensureKey_def km_getAggregateKey_def bind_io_def)
    then show ?thesis using assms(1) x Some by auto
  next
    case None
    obtain m where m: "ks_masterKey (km_keyStore km) = Some m" using assms(1) by (auto simp: keys_ok_def)
    obtain r ks where ks: "saveAggregateKey c a generated (km_keyStore km) = (r, ks)" by (meson surj_pair)
    note g = getAggregateKey_save [OF assms(3) m total_cipher_accepts [OF assms(4)] ks]
    have "ensureKey c generated a km = (Inr generated, km\<lparr>km_keyStore := ks\<rparr>)"
      using x None ks g(1) by (simp add: ensureKey_def km_getAggregateKey_def bind_io_def on_store_def)
    moreover have "keys_ok c R keys (km\<lparr>km_keyStore := ks\<rparr>)"
      using assms(1,2) g(2,3) unfolding keys_ok_def by auto
    ultimately show ?thesis using g(3) x None by auto
  qed
qed

lemma keys_ok_draws [simp]:
  "keys_ok c R keys (km\<lparr>km_keyStore := (km_keyStore km)\<lparr>ks_draws := n\<rparr>\<rparr>) = keys_ok c R keys km"
  by (simp add: keys_ok_def getAggregateKey_def require_master_def)

lemma seal_run:
  assumes "total_cipher c"
  obtains x where "encrypt c (ks_draws (km_keyStore km)) p k a = Inr x"
    and "seal c p k a km = (Inr x, km\<lparr>km_keyStore := (km_keyStore km)\<lparr>ks_draws := ks_draws (km_keyStore km) + 1\<rparr>\<rparr>)"
  using total_cipher_Inr [OF assms] that by (metis seal_def)

end
