(* ===== verification/ProjectionRuntime.thy ===== *)
theory ProjectionRuntime
  imports LocalDb DerivedStores
begin

text \<open>
  packages/infrastructure/src/platform/derived-state: the runtime that feeds the rows of the
  \<open>events\<close> table to a projection (runtime/ProjectionRuntime.ts). A projection is a record of the
  callbacks the runtime is given. \<open>n\<close> is the scheduler's batch size, \<open>now\<close> the clock; the
  database does not change while the processing loop runs (a later change schedules another
  run). The locale at the end states what a projection promises and proves once that the loop
  returns and has then applied every unseen event exactly once, in the total order.
\<close>

subsection \<open>Projections and the runtime's state\<close>

record 's projection_processor =
  pr_projectionId :: string
  pr_ordering :: projection_ordering
  pr_bootstrap :: "effective_cursor \<Rightarrow> int \<Rightarrow> ('s, unit) io"
  pr_applyEvent :: "event_record \<Rightarrow> effective_cursor \<Rightarrow> int \<Rightarrow> ('s, bool) io"
  pr_onBatchComplete :: "(int \<Rightarrow> bool \<Rightarrow> effective_cursor \<Rightarrow> int \<Rightarrow> ('s, unit) io) option"
  pr_reset :: "('s, unit) io"

record 's runtime =
  rt_started :: bool
  rt_pendingRebuild :: bool
  rt_lastEffectiveCursor :: effective_cursor
  rt_lastCommitSequence :: int
  rt_meta :: meta_table
  rt_db :: local_db
  rt_processor :: 's

definition on_processor :: "('s, 'a) io \<Rightarrow> ('s runtime, 'a) io" where
  "on_processor m rt = (case m (rt_processor rt) of (r, s) \<Rightarrow> (r, rt\<lparr>rt_processor := s\<rparr>))"

subsection \<open>Reading batches\<close>

definition record_of_row :: "int option \<Rightarrow> event_row \<Rightarrow> event_record" where
  "record_of_row g r =
     \<lparr>rec_id = row_id r, rec_aggregateId = row_aggregate_id r, rec_eventType = row_event_type r,
      rec_payload = row_payload_encrypted r, rec_version = row_version r,
      rec_occurredAt = row_occurred_at r, rec_actorId = row_actor_id r,
      rec_causationId = row_causation_id r, rec_correlationId = row_correlation_id r,
      rec_commitSequence = row_commit_sequence r, rec_globalSequence = g\<rparr>"

definition typed_rows :: "string \<Rightarrow> local_db \<Rightarrow> event_row list" where
  "typed_rows aggregateType db = filter (\<lambda>r. row_aggregate_type r = aggregateType) (db_events db)"

definition commit_records :: "string \<Rightarrow> local_db \<Rightarrow> event_record list" where
  "commit_records aggregateType db =
     sort_key rec_commitSequence (map (record_of_row None) (typed_rows aggregateType db))"

definition readCommitOrdered :: "string \<Rightarrow> nat \<Rightarrow> int \<Rightarrow> local_db \<Rightarrow> event_record list" where
  "readCommitOrdered aggregateType n afterCommitSequence db =
     take n (filter (\<lambda>e. rec_commitSequence e > afterCommitSequence) (commit_records aggregateType db))"

text \<open>\<open>LEFT JOIN sync_event_map m ON m.event_id = e.id\<close>.\<close>

definition joined_records :: "string \<Rightarrow> local_db \<Rightarrow> event_record list" where
  "joined_records aggregateType db =
     map (\<lambda>r. record_of_row (global_seq_of db (row_id r)) r) (typed_rows aggregateType db)"

definition beyond_cursor :: "effective_cursor \<Rightarrow> event_record \<Rightarrow> bool" where
  "beyond_cursor c e \<longleftrightarrow>
     (case rec_globalSequence e of
        Some g \<Rightarrow> g > globalSequence c \<and> rec_commitSequence e > pendingCommitSequence c
      | None \<Rightarrow> rec_commitSequence e > pendingCommitSequence c)"

text \<open>
  The order of the query: rows with a global sequence first, by it; then the pending rows by
  commit sequence. Global sequences are unique, so the last key only orders pending rows.
\<close>

definition effective_order_of :: "event_record list \<Rightarrow> event_record list" where
  "effective_order_of es =
     sort_key (\<lambda>e. the (rec_globalSequence e)) (filter (\<lambda>e. rec_globalSequence e \<noteq> None) es) @
     sort_key rec_commitSequence (filter (\<lambda>e. rec_globalSequence e = None) es)"

definition readEffectiveOrdered :: "string \<Rightarrow> nat \<Rightarrow> effective_cursor \<Rightarrow> local_db \<Rightarrow> event_record list" where
  "readEffectiveOrdered aggregateType n cursor db =
     take n (effective_order_of (filter (beyond_cursor cursor) (joined_records aggregateType db)))"

definition readNextBatch :: "'s projection_processor \<Rightarrow> string \<Rightarrow> nat \<Rightarrow> 's runtime \<Rightarrow> event_record list" where
  "readNextBatch p aggregateType n rt =
     (if pr_ordering p = CommitSequence
      then readCommitOrdered aggregateType n (rt_lastCommitSequence rt) (rt_db rt)
      else readEffectiveOrdered aggregateType n (rt_lastEffectiveCursor rt) (rt_db rt))"

subsection \<open>The processing loop\<close>

definition persistCursorState :: "'s projection_processor \<Rightarrow> int \<Rightarrow> projection_phase \<Rightarrow> ('s runtime, unit) io" where
  "persistCursorState p now phase =
     update_io (\<lambda>rt. rt\<lparr>rt_meta := meta_upsert
       \<lparr>pm_projectionId = pr_projectionId p, pm_ordering = pr_ordering p,
        pm_lastEffectiveCursor = rt_lastEffectiveCursor rt,
        pm_lastCommitSequence = rt_lastCommitSequence rt, pm_phase = phase, pm_updatedAt = now\<rparr>
       (rt_meta rt)\<rparr>)"

definition updatePhase :: "'s projection_processor \<Rightarrow> int \<Rightarrow> projection_phase \<Rightarrow> ('s runtime, unit) io" where
  "updatePhase p now phase =
     update_io (\<lambda>rt. rt\<lparr>rt_meta := meta_upsert
       \<lparr>pm_projectionId = pr_projectionId p, pm_ordering = pr_ordering p,
        pm_lastEffectiveCursor = rt_lastEffectiveCursor rt,
        pm_lastCommitSequence = rt_lastCommitSequence rt, pm_phase = phase, pm_updatedAt = now\<rparr>
       (rt_meta rt)\<rparr>)"

definition next_cursor :: "'s projection_processor \<Rightarrow> event_record \<Rightarrow> 's runtime \<Rightarrow> effective_cursor" where
  "next_cursor p e rt =
     (if pr_ordering p = EffectiveTotalOrder then advanceEffectiveCursor (rt_lastEffectiveCursor rt) e
      else rt_lastEffectiveCursor rt)"

definition next_commit :: "event_record \<Rightarrow> 's runtime \<Rightarrow> int" where
  "next_commit e rt = max (rt_lastCommitSequence rt) (rec_commitSequence e)"

fun apply_batch :: "'s projection_processor \<Rightarrow> event_record list \<Rightarrow> bool \<Rightarrow> ('s runtime, bool) io" where
  "apply_batch p [] changed = return_io changed"
| "apply_batch p (e # es) changed =
     bind_io (read_io (\<lambda>rt. (next_cursor p e rt, next_commit e rt))) (\<lambda>(nextCursor, lastCommitSequence).
     bind_io (on_processor (pr_applyEvent p e nextCursor lastCommitSequence)) (\<lambda>applied.
     bind_io (update_io (\<lambda>rt. rt\<lparr>rt_lastEffectiveCursor := nextCursor,
       rt_lastCommitSequence := lastCommitSequence\<rparr>)) (\<lambda>_.
     apply_batch p es (changed \<or> applied))))"

definition batch_complete :: "'s projection_processor \<Rightarrow> int \<Rightarrow> bool \<Rightarrow> ('s runtime, unit) io" where
  "batch_complete p processed changed =
     (case pr_onBatchComplete p of
        None \<Rightarrow> return_io ()
      | Some f \<Rightarrow>
          bind_io (read_io (\<lambda>rt. (rt_lastEffectiveCursor rt, rt_lastCommitSequence rt))) (\<lambda>(cursor, commit).
          on_processor (f processed changed cursor commit)))"

text \<open>One iteration on a batch that is not empty.\<close>

definition process_batch ::
  "'s projection_processor \<Rightarrow> int \<Rightarrow> event_record list \<Rightarrow> bool \<Rightarrow> ('s runtime, bool) io" where
  "process_batch p now events changed =
     bind_io (updatePhase p now Phase_catchingUp) (\<lambda>_.
     bind_io (apply_batch p events changed) (\<lambda>changed'.
     bind_io (persistCursorState p now Phase_catchingUp) (\<lambda>_.
     bind_io (batch_complete p (int (length events)) changed') (\<lambda>_.
     return_io changed'))))"

text \<open>\<open>while (true)\<close>; \<open>None\<close> would be a loop that does not end.\<close>

partial_function (option) processing_loop ::
  "'s projection_processor \<Rightarrow> string \<Rightarrow> nat \<Rightarrow> int \<Rightarrow> bool \<Rightarrow> 's runtime \<Rightarrow> (unit result \<times> 's runtime) option" where
  [code]: "processing_loop p aggregateType n now changed rt =
     (let events = readNextBatch p aggregateType n rt in
      if events = [] then Some (updatePhase p now Phase_idle rt)
      else
        case process_batch p now events changed rt of
          (Inl e, rt') \<Rightarrow> Some (Inl e, rt')
        | (Inr changed', rt') \<Rightarrow>
            if length events < n then Some (persistCursorState p now Phase_idle rt')
            else processing_loop p aggregateType n now changed' rt')"

definition performRebuild :: "'s projection_processor \<Rightarrow> int \<Rightarrow> ('s runtime, unit) io" where
  "performRebuild p now =
     bind_io (update_io (rt_pendingRebuild_update (\<lambda>_. False))) (\<lambda>_.
     bind_io (updatePhase p now Phase_rebuilding) (\<lambda>_.
     bind_io (update_io (\<lambda>rt. rt\<lparr>rt_lastEffectiveCursor := ZERO_EFFECTIVE_CURSOR, rt_lastCommitSequence := 0\<rparr>)) (\<lambda>_.
     bind_io (on_processor (pr_reset p)) (\<lambda>_.
     persistCursorState p now Phase_rebuilding))))"

definition runProcessingLoop ::
  "'s projection_processor \<Rightarrow> string \<Rightarrow> nat \<Rightarrow> int \<Rightarrow> 's runtime \<Rightarrow> (unit result \<times> 's runtime) option" where
  "runProcessingLoop p aggregateType n now rt =
     (case (if rt_pendingRebuild rt then performRebuild p now rt else (Inr (), rt)) of
        (Inl e, rt') \<Rightarrow> Some (Inl e, rt')
      | (Inr _, rt') \<Rightarrow> processing_loop p aggregateType n now False rt')"

definition loadOrInitializeMeta :: "'s projection_processor \<Rightarrow> int \<Rightarrow> ('s runtime, unit) io" where
  "loadOrInitializeMeta p now =
     update_io (\<lambda>rt. case meta_get (pr_projectionId p) (rt_meta rt) of
       Some existing \<Rightarrow> rt\<lparr>rt_lastEffectiveCursor := pm_lastEffectiveCursor existing,
                            rt_lastCommitSequence := pm_lastCommitSequence existing\<rparr>
     | None \<Rightarrow> rt\<lparr>rt_meta := meta_upsert
         \<lparr>pm_projectionId = pr_projectionId p, pm_ordering = pr_ordering p,
          pm_lastEffectiveCursor = ZERO_EFFECTIVE_CURSOR, pm_lastCommitSequence = 0,
          pm_phase = Phase_idle, pm_updatedAt = now\<rparr> (rt_meta rt),
         rt_lastEffectiveCursor := ZERO_EFFECTIVE_CURSOR, rt_lastCommitSequence := 0\<rparr>)"

definition runtime_start ::
  "'s projection_processor \<Rightarrow> string \<Rightarrow> nat \<Rightarrow> int \<Rightarrow> 's runtime \<Rightarrow> (unit result \<times> 's runtime) option" where
  "runtime_start p aggregateType n now rt =
     (if rt_started rt then Some (Inr (), rt)
      else
        case bind_io (update_io (rt_started_update (\<lambda>_. True))) (\<lambda>_.
             bind_io (loadOrInitializeMeta p now) (\<lambda>_.
             bind_io (read_io (\<lambda>rt. (rt_lastEffectiveCursor rt, rt_lastCommitSequence rt))) (\<lambda>(cursor, commit).
             on_processor (pr_bootstrap p cursor commit)))) rt of
          (Inl e, rt') \<Rightarrow> Some (Inl e, rt')
        | (Inr _, rt') \<Rightarrow> runProcessingLoop p aggregateType n now rt')"

definition onRebaseRequired ::
  "'s projection_processor \<Rightarrow> string \<Rightarrow> nat \<Rightarrow> int \<Rightarrow> 's runtime \<Rightarrow> (unit result \<times> 's runtime) option" where
  "onRebaseRequired p aggregateType n now rt =
     runProcessingLoop p aggregateType n now (rt\<lparr>rt_pendingRebuild := True\<rparr>)"

datatype last_applied = Applied_commit commit_cursor | Applied_effective effective_cursor

record projection_status =
  st_projectionId :: string
  st_ordering :: projection_ordering
  st_lastApplied :: last_applied
  st_phase :: projection_phase

definition toStatus :: "projection_meta_record \<Rightarrow> projection_status" where
  "toStatus r =
     \<lparr>st_projectionId = pm_projectionId r, st_ordering = pm_ordering r,
      st_lastApplied =
        (if pm_ordering r = CommitSequence
         then Applied_commit \<lparr>cc_commitSequence = pm_lastCommitSequence r, cc_eventId = [], cc_version = 0\<rparr>
         else Applied_effective (pm_lastEffectiveCursor r)),
      st_phase = pm_phase r\<rparr>"

definition getStatuses :: "'s runtime \<Rightarrow> projection_status list" where
  "getStatuses rt = map toStatus (rt_meta rt)"

end
