(* ===== verification/ProjectionCatchUp.thy ===== *)
theory ProjectionCatchUp
  imports ProjectionRuntime
begin

text \<open>
  Why the projection runtime catches up: advancing the cursor over the first unseen record
  leaves exactly the other unseen records unseen, so the batches of the loop partition them.
  The locale \<open>projection\<close> is what the runtime needs of a projection; its lemmas are proved
  once and hold for every processor of the application.
\<close>

subsection \<open>Unseen records\<close>

definition unseen :: "'s projection_processor \<Rightarrow> string \<Rightarrow> 's runtime \<Rightarrow> event_record list" where
  "unseen p t rt =
     (if pr_ordering p = CommitSequence
      then filter (\<lambda>e. rec_commitSequence e > rt_lastCommitSequence rt) (commit_records t (rt_db rt))
      else effective_order_of (filter (beyond_cursor (rt_lastEffectiveCursor rt)) (joined_records t (rt_db rt))))"

lemma readNextBatch_unseen: "readNextBatch p t n rt = take n (unseen p t rt)"
  by (simp add: readNextBatch_def unseen_def readCommitOrdered_def readEffectiveOrdered_def)

lemma filter_beyond_head:
  fixes f :: "'a \<Rightarrow> 'b :: linorder"
  assumes "sorted_wrt (<) (map f xs)" and "filter (\<lambda>x. f x > a \<and> Q x) xs = e # es"
  shows "filter (\<lambda>x. f x > f e \<and> Q x) xs = es" and "f e > a"
proof -
  have "filter (\<lambda>x. f x > f e \<and> Q x) xs = es \<and> f e > a"
    using assms
  proof (induction xs)
    case (Cons y ys)
    show ?case
    proof (cases "f y > a \<and> Q y")
      case True
      then have "e = y" "es = filter (\<lambda>x. f x > a \<and> Q x) ys" using Cons.prems(2) by auto
      then show ?thesis using True Cons.prems(1) by (auto intro!: filter_cong)
    next
      case False
      then have e: "filter (\<lambda>x. f x > a \<and> Q x) ys = e # es" using Cons.prems(2) by auto
      then have "e \<in> set ys" by (metis filter_is_subset in_mono list.set_intros(1))
      then show ?thesis using Cons.IH [OF _ e] Cons.prems(1) by auto
    qed
  qed simp
  then show "filter (\<lambda>x. f x > f e \<and> Q x) xs = es" and "f e > a" by auto
qed

lemma strictly_sorted_sort_key:
  "distinct (map f xs) \<Longrightarrow> sorted_wrt (<) (map f (sort_key f xs))"
  by (simp add: strict_sorted_iff distinct_map)

lemma commit_sequences_distinct:
  assumes "db_wf db"
  shows "distinct (map row_commit_sequence (typed_rows t db))"
proof -
  have "distinct (map row_commit_sequence (db_events db))"
    using db_wfD(3) [OF assms] by (simp add: strict_sorted_iff)
  then show ?thesis by (simp add: typed_rows_def distinct_map_filter)
qed

lemma record_of_row_commit [simp]: "rec_commitSequence (record_of_row g r) = row_commit_sequence r"
  "rec_globalSequence (record_of_row g r) = g"
  by (simp_all add: record_of_row_def)

lemma joined_commits_distinct:
  assumes "db_wf db"
  shows "distinct (map rec_commitSequence (joined_records t db))"
  using commit_sequences_distinct [OF assms, of t] by (simp add: joined_records_def comp_def)

lemma global_seq_of_inj:
  assumes "db_wf db" and "global_seq_of db i = Some g" and "global_seq_of db j = Some g"
  shows "i = j"
proof -
  obtain m where m: "find (\<lambda>m. map_event_id m = i) (db_sync_event_map db) = Some m" "map_global_seq m = g"
    using assms(2) by (auto simp: global_seq_of_def)
  obtain k where k: "find (\<lambda>m. map_event_id m = j) (db_sync_event_map db) = Some k" "map_global_seq k = g"
    using assms(3) by (auto simp: global_seq_of_def)
  have "m \<in> set (db_sync_event_map db)" "k \<in> set (db_sync_event_map db)"
    "map_event_id m = i" "map_event_id k = j"
    using m(1) k(1) by (auto simp: find_Some_iff)
  then show ?thesis using db_wfD(7) [OF assms(1)] m(2) k(2) by (metis distinct_map inj_onD)
qed

lemma joined_globals_distinct:
  assumes "db_wf db"
  shows "distinct (map (\<lambda>e. the (rec_globalSequence e))
    (filter (\<lambda>e. rec_globalSequence e \<noteq> None) (joined_records t db)))"
proof -
  let ?g = "\<lambda>r. global_seq_of db (row_id r)"
  have "distinct (map row_id (typed_rows t db))"
    using db_wfD(1) [OF assms] by (simp add: typed_rows_def distinct_map_filter)
  moreover have "inj_on (\<lambda>r. the (?g r)) {r \<in> set (typed_rows t db). ?g r \<noteq> None}"
    if "inj_on row_id (set (typed_rows t db))"
    using that global_seq_of_inj [OF assms] by (auto simp: inj_on_def)
  ultimately have "distinct (map (\<lambda>r. the (?g r)) (filter (\<lambda>r. ?g r \<noteq> None) (typed_rows t db)))"
    by (simp add: distinct_map)
  then show ?thesis by (simp add: joined_records_def filter_map comp_def)
qed

lemma effective_order_filter:
  "effective_order_of (filter P es) =
     filter P (sort_key (\<lambda>e. the (rec_globalSequence e)) (filter (\<lambda>e. rec_globalSequence e \<noteq> None) es)) @
     filter P (sort_key rec_commitSequence (filter (\<lambda>e. rec_globalSequence e = None) es))"
  by (simp add: effective_order_of_def filter_sort conj_commute)

lemma effective_unseen_step:
  assumes db: "db_wf db"
    and un: "effective_order_of (filter (beyond_cursor c) (joined_records t db)) = e # es"
  shows "effective_order_of (filter (beyond_cursor (advanceEffectiveCursor c e)) (joined_records t db)) = es"
proof -
  let ?g = "\<lambda>e. the (rec_globalSequence e)"
  define S where "S = sort_key ?g (filter (\<lambda>e. rec_globalSequence e \<noteq> None) (joined_records t db))"
  define P where "P = sort_key rec_commitSequence (filter (\<lambda>e. rec_globalSequence e = None) (joined_records t db))"
  have split: "effective_order_of (filter (beyond_cursor c') (joined_records t db)) =
      filter (beyond_cursor c') S @ filter (beyond_cursor c') P" for c'
    by (simp add: effective_order_filter S_def P_def)
  have sS: "sorted_wrt (<) (map ?g S)" unfolding S_def
    by (rule strictly_sorted_sort_key [OF joined_globals_distinct [OF db]])
  have sP: "sorted_wrt (<) (map rec_commitSequence P)" unfolding P_def
    by (rule strictly_sorted_sort_key) (rule distinct_map_filter [OF joined_commits_distinct [OF db]])
  have fS: "filter (beyond_cursor c') S =
      filter (\<lambda>e. ?g e > globalSequence c' \<and> rec_commitSequence e > pendingCommitSequence c') S" for c'
    by (rule filter_cong) (auto simp: S_def beyond_cursor_def)
  have fP: "filter (beyond_cursor c') P = filter (\<lambda>e. rec_commitSequence e > pendingCommitSequence c' \<and> True) P" for c'
    by (rule filter_cong) (auto simp: P_def beyond_cursor_def)
  show ?thesis
  proof (cases "filter (beyond_cursor c) S")
    case (Cons x xs)
    then have e: "x = e" "es = xs @ filter (beyond_cursor c) P" using un by (auto simp: split)
    have "x \<in> set S" using Cons by (metis filter_is_subset in_mono list.set_intros(1))
    then obtain g where g: "rec_globalSequence e = Some g" by (auto simp: S_def e)
    have "filter (\<lambda>y. ?g y > ?g e \<and> rec_commitSequence y > pendingCommitSequence c) S = xs"
      using filter_beyond_head(1) [OF sS, of "globalSequence c" "\<lambda>e. rec_commitSequence e > pendingCommitSequence c"]
        Cons e(1) by (simp add: fS)
    then show ?thesis using g e(2) by (simp add: split fS fP advanceEffectiveCursor_def)
  next
    case Nil
    then have P: "filter (\<lambda>e. rec_commitSequence e > pendingCommitSequence c \<and> True) P = e # es"
      using un by (simp add: split fP)
    then have "e \<in> set P" by (metis filter_is_subset in_mono list.set_intros(1))
    then have g: "rec_globalSequence e = None" by (auto simp: P_def)
    note step = filter_beyond_head [OF sP P]
    have "filter (\<lambda>y. ?g y > globalSequence c \<and> rec_commitSequence y > rec_commitSequence e) S = []"
      using Nil step(2) by (force simp: fS filter_empty_conv)
    then show ?thesis using g step(1) by (simp add: split fS fP advanceEffectiveCursor_def)
  qed
qed

text \<open>The runtime's step over the first unseen record.\<close>

definition advance :: "'s projection_processor \<Rightarrow> event_record \<Rightarrow> 's runtime \<Rightarrow> 's runtime" where
  "advance p e rt = rt\<lparr>rt_lastEffectiveCursor := next_cursor p e rt, rt_lastCommitSequence := next_commit e rt\<rparr>"

lemma unseen_advance:
  assumes db: "db_wf (rt_db rt)" and un: "unseen p t rt = e # es"
  shows "unseen p t (advance p e rt) = es"
proof (cases "pr_ordering p = CommitSequence")
  case True
  have "sorted_wrt (<) (map rec_commitSequence (commit_records t (rt_db rt)))"
    unfolding commit_records_def
    by (rule strictly_sorted_sort_key) (use commit_sequences_distinct [OF db, of t] in \<open>simp add: comp_def\<close>)
  moreover have "filter (\<lambda>x. rec_commitSequence x > rt_lastCommitSequence rt \<and> True) (commit_records t (rt_db rt)) = e # es"
    using un True by (simp add: unseen_def)
  ultimately have "filter (\<lambda>x. rec_commitSequence x > rec_commitSequence e \<and> True) (commit_records t (rt_db rt)) = es"
    "rec_commitSequence e > rt_lastCommitSequence rt"
    by (rule filter_beyond_head)+
  then show ?thesis using True by (simp add: unseen_def advance_def next_commit_def max_def)
next
  case False
  then have "pr_ordering p = EffectiveTotalOrder" by (cases "pr_ordering p") simp_all
  then show ?thesis using effective_unseen_step [OF db] un by (simp add: unseen_def advance_def next_cursor_def)
qed

lemma unseen_processor [simp]:
  "unseen p t (rt\<lparr>rt_processor := s\<rparr>) = unseen p t rt" "unseen p t (rt\<lparr>rt_meta := m\<rparr>) = unseen p t rt"
  "unseen p t (rt\<lparr>rt_pendingRebuild := b\<rparr>) = unseen p t rt"
  by (simp_all add: unseen_def)

lemma advance_processor [simp]:
  "rt_processor (advance p e rt) = rt_processor rt" "rt_db (advance p e rt) = rt_db rt"
  "rt_meta (advance p e rt) = rt_meta rt"
  "advance p e (rt\<lparr>rt_processor := s\<rparr>) = (advance p e rt)\<lparr>rt_processor := s\<rparr>"
  by (simp_all add: advance_def next_cursor_def next_commit_def)

subsection \<open>Changes of the database\<close>

text \<open>
  A runtime that has caught up stays caught up when the sync assigns a global sequence to a
  pending row, and a new local row is the only unseen record.
\<close>

lemma sort_key_Nil [simp]: "sort_key f xs = [] \<longleftrightarrow> xs = []"
  by (metis set_empty set_sort)

lemma unseen_empty:
  "unseen p t rt = [] \<longleftrightarrow>
     (if pr_ordering p = CommitSequence
      then \<forall>r \<in> set (typed_rows t (rt_db rt)). row_commit_sequence r \<le> rt_lastCommitSequence rt
      else \<forall>e \<in> set (joined_records t (rt_db rt)). \<not> beyond_cursor (rt_lastEffectiveCursor rt) e)"
proof (cases "pr_ordering p = CommitSequence")
  case True
  then show ?thesis by (simp add: unseen_def commit_records_def filter_sort filter_empty_conv not_less)
next
  case False
  have "effective_order_of es = [] \<longleftrightarrow> es = []" for es
    by (cases es) (auto simp: effective_order_of_def)
  then show ?thesis using False by (simp add: unseen_def filter_empty_conv)
qed

lemma global_seq_insert_map:
  assumes "\<not> is_synced db j \<or> i \<noteq> j"
  shows "global_seq_of (insert_map_or_ignore j g now db) i = global_seq_of db i \<or>
    i = j \<and> global_seq_of db i = None \<and> global_seq_of (insert_map_or_ignore j g now db) i = Some g"
proof -
  have "find (\<lambda>m. map_event_id m = i) (xs @ [y]) =
      (case find (\<lambda>m. map_event_id m = i) xs of Some m \<Rightarrow> Some m | None \<Rightarrow> if map_event_id y = i then Some y else None)"
    for xs :: "map_row list" and y
    by (induction xs) auto
  then show ?thesis
    by (auto simp: insert_map_or_ignore_def global_seq_of_def split: option.split)
qed

lemma caught_up_after_sync:
  assumes "unseen p t rt = []"
  shows "unseen p t (rt\<lparr>rt_db := insert_map_or_ignore i g now (rt_db rt)\<rparr>) = []"
proof (cases "is_synced (rt_db rt) i")
  case True
  then show ?thesis using assms by (simp add: insert_map_or_ignore_def)
next
  case False
  have rows: "typed_rows t (insert_map_or_ignore i g now (rt_db rt)) = typed_rows t (rt_db rt)"
    by (simp add: insert_map_or_ignore_def typed_rows_def)
  have "\<not> beyond_cursor c (record_of_row (global_seq_of (insert_map_or_ignore i g now (rt_db rt)) j) r)"
    if "\<not> beyond_cursor c (record_of_row (global_seq_of (rt_db rt) j) r)" for c j r
    using global_seq_insert_map [OF disjI1 [OF False], of g now j] that
    by (elim disjE conjE; cases "global_seq_of (rt_db rt) j") (simp_all add: beyond_cursor_def)
  then show ?thesis using assms unfolding unseen_empty by (auto simp: rows joined_records_def)
qed

lemma unseen_after_append:
  assumes "unseen p t rt = []" and "db_wf (rt_db rt)" and "\<not> is_synced (rt_db rt) (row_id r)"
    and "\<not> has_event (rt_db rt) (row_id r)" and "row_key r \<notin> row_key ` set (db_events (rt_db rt))"
    and "row_aggregate_type r = t"
    and "pendingCommitSequence (rt_lastEffectiveCursor rt) \<le> db_sqlite_sequence (rt_db rt)"
    and "rt_lastCommitSequence rt \<le> db_sqlite_sequence (rt_db rt)"
  shows "unseen p t (rt\<lparr>rt_db := insert_event_or_ignore r (rt_db rt)\<rparr>) =
    [record_of_row None (r\<lparr>row_commit_sequence := db_sqlite_sequence (rt_db rt) + 1\<rparr>)]"
proof -
  let ?r = "r\<lparr>row_commit_sequence := db_sqlite_sequence (rt_db rt) + 1\<rparr>"
  let ?db = "insert_event_or_ignore r (rt_db rt)"
  have db: "?db = (rt_db rt)\<lparr>db_events := db_events (rt_db rt) @ [?r], db_sqlite_sequence := db_sqlite_sequence (rt_db rt) + 1\<rparr>"
    using assms(4,5) by (simp add: insert_event_or_ignore_def Let_def)
  have rows: "typed_rows t ?db = typed_rows t (rt_db rt) @ [?r]" using assms(6) by (simp add: db typed_rows_def)
  have seq: "global_seq_of ?db i = global_seq_of (rt_db rt) i" for i by (simp add: db global_seq_of_def)
  have new: "global_seq_of (rt_db rt) (row_id r) = None"
    using assms(3) by (force simp: global_seq_of_def is_synced_def find_None_iff)
  have joined: "joined_records t ?db = joined_records t (rt_db rt) @ [record_of_row None ?r]"
    by (simp add: joined_records_def rows seq new)
  show ?thesis
  proof (cases "pr_ordering p = CommitSequence")
    case True
    let ?old = "map (record_of_row None) (typed_rows t (rt_db rt))"
    have "filter (\<lambda>e. rec_commitSequence e > rt_lastCommitSequence rt) ?old = []"
      using assms(1) True by (simp add: unseen_empty filter_empty_conv not_less)
    then have "filter (\<lambda>e. rec_commitSequence e > rt_lastCommitSequence rt) (?old @ [record_of_row None ?r]) = [record_of_row None ?r]"
      using assms(8) by simp
    then show ?thesis using True by (simp add: unseen_def commit_records_def filter_sort rows)
  next
    case False
    then have "filter (beyond_cursor (rt_lastEffectiveCursor rt)) (joined_records t (rt_db rt)) = []"
      using assms(1) by (simp add: unseen_empty filter_empty_conv)
    then show ?thesis using False assms(7) by (simp add: unseen_def joined effective_order_of_def beyond_cursor_def)
  qed
qed

subsection \<open>What a projection promises\<close>

locale projection =
  fixes p :: "'s projection_processor"
    and cold :: "'s \<Rightarrow> bool" and inv :: "'s \<Rightarrow> bool" and view :: "'s \<Rightarrow> 'v"
    and step :: "event_record \<Rightarrow> 'v \<Rightarrow> 'v" and zero :: 'v
    and readable :: "event_record \<Rightarrow> bool"
  assumes bootstraps: "cold s \<Longrightarrow> \<exists>s'. pr_bootstrap p c k s = (Inr (), s') \<and> inv s' \<and> view s' = view s"
    and applies: "inv s \<Longrightarrow> readable e \<Longrightarrow>
      \<exists>b s'. pr_applyEvent p e c k s = (Inr b, s') \<and> inv s' \<and> view s' = step e (view s)"
    and completes: "inv s \<Longrightarrow> pr_onBatchComplete p = Some f \<Longrightarrow>
      \<exists>s'. f m b c k s = (Inr (), s') \<and> inv s' \<and> view s' = view s"
    and resets: "inv s \<Longrightarrow> \<exists>s'. pr_reset p s = (Inr (), s') \<and> inv s' \<and> view s' = zero"
begin

lemma apply_batch_ok:
  assumes "db_wf (rt_db rt)" and "inv (rt_processor rt)" and "\<forall>e \<in> set es. readable e"
    and "unseen p t rt = es @ rest"
  shows "\<exists>b rt'. apply_batch p es ch rt = (Inr b, rt') \<and> inv (rt_processor rt') \<and>
    view (rt_processor rt') = fold step es (view (rt_processor rt)) \<and> unseen p t rt' = rest \<and>
    rt_db rt' = rt_db rt"
  using assms
proof (induction es arbitrary: ch rt)
  case (Cons e es)
  obtain b s where s: "pr_applyEvent p e (next_cursor p e rt) (next_commit e rt) (rt_processor rt) = (Inr b, s)"
      "inv s" "view s = step e (view (rt_processor rt))"
    using applies Cons.prems(2,3) by (metis list.set_intros(1))
  let ?rt = "advance p e (rt\<lparr>rt_processor := s\<rparr>)"
  have run: "apply_batch p (e # es) ch rt = apply_batch p es (ch \<or> b) ?rt"
    using s(1) by (simp add: bind_io_def on_processor_def advance_def next_cursor_def next_commit_def)
  have un: "unseen p t ?rt = es @ rest"
    using unseen_advance [of rt p t e "es @ rest"] Cons.prems(1,4) by simp
  obtain b' rt' where "apply_batch p es (ch \<or> b) ?rt = (Inr b', rt')" "inv (rt_processor rt')"
    "view (rt_processor rt') = fold step es (view s)" "unseen p t rt' = rest" "rt_db rt' = rt_db rt"
    using Cons.IH [of ?rt "ch \<or> b"] Cons.prems(1,3) s(2) un by auto
  then show ?case using run s(3) by simp
qed simp

definition recorded :: "'s runtime \<Rightarrow> bool" where
  "recorded rt \<longleftrightarrow> (\<exists>r. meta_get (pr_projectionId p) (rt_meta rt) = Some r \<and>
     pm_lastEffectiveCursor r = rt_lastEffectiveCursor rt \<and> pm_lastCommitSequence r = rt_lastCommitSequence rt)"

lemma persist_run:
  "persistCursorState p now ph rt = (Inr (), snd (persistCursorState p now ph rt))"
  "updatePhase p now ph rt = (Inr (), snd (updatePhase p now ph rt))"
  by (simp_all add: persistCursorState_def updatePhase_def)

lemma persisted [simp]:
  "recorded (snd (persistCursorState p now ph rt))" "recorded (snd (updatePhase p now ph rt))"
  "rt_processor (snd (persistCursorState p now ph rt)) = rt_processor rt"
  "rt_processor (snd (updatePhase p now ph rt)) = rt_processor rt"
  "rt_db (snd (persistCursorState p now ph rt)) = rt_db rt" "rt_db (snd (updatePhase p now ph rt)) = rt_db rt"
  "unseen p t (snd (persistCursorState p now ph rt)) = unseen p t rt"
  "unseen p t (snd (updatePhase p now ph rt)) = unseen p t rt"
  by (simp_all add: persistCursorState_def updatePhase_def recorded_def)

lemma batch_complete_ok:
  assumes "inv (rt_processor rt)"
  shows "\<exists>rt'. batch_complete p m b rt = (Inr (), rt') \<and> inv (rt_processor rt') \<and>
    view (rt_processor rt') = view (rt_processor rt) \<and> unseen p t rt' = unseen p t rt \<and> rt_db rt' = rt_db rt"
proof (cases "pr_onBatchComplete p")
  case (Some f)
  then obtain s where "f m b (rt_lastEffectiveCursor rt) (rt_lastCommitSequence rt) (rt_processor rt) = (Inr (), s)"
    "inv s" "view s = view (rt_processor rt)"
    using completes [OF assms Some] by metis
  then show ?thesis using Some by (simp add: batch_complete_def bind_io_def on_processor_def)
qed (use assms in \<open>simp add: batch_complete_def\<close>)

lemma process_batch_ok:
  assumes "db_wf (rt_db rt)" and "inv (rt_processor rt)" and "\<forall>e \<in> set es. readable e"
    and "unseen p t rt = es @ rest"
  shows "\<exists>b rt'. process_batch p now es ch rt = (Inr b, rt') \<and> inv (rt_processor rt') \<and>
    view (rt_processor rt') = fold step es (view (rt_processor rt)) \<and> unseen p t rt' = rest \<and>
    rt_db rt' = rt_db rt"
proof -
  let ?rt = "snd (updatePhase p now Phase_catchingUp rt)"
  obtain b rt1 where 1: "apply_batch p es ch ?rt = (Inr b, rt1)" "inv (rt_processor rt1)"
    "view (rt_processor rt1) = fold step es (view (rt_processor rt))" "unseen p t rt1 = rest" "rt_db rt1 = rt_db rt"
    using apply_batch_ok [of ?rt es t rest ch] assms by auto
  let ?rt1 = "snd (persistCursorState p now Phase_catchingUp rt1)"
  obtain rt2 where 2: "batch_complete p (int (length es)) b ?rt1 = (Inr (), rt2)" "inv (rt_processor rt2)"
    "view (rt_processor rt2) = view (rt_processor rt1)" "unseen p t rt2 = rest" "rt_db rt2 = rt_db rt"
    using batch_complete_ok [of ?rt1 "int (length es)" b t] 1 by auto
  have "process_batch p now es ch rt = (Inr b, rt2)"
    using 1(1) 2(1) persist_run(1) [of now Phase_catchingUp rt1] persist_run(2) [of now Phase_catchingUp rt]
    unfolding process_batch_def bind_io_def return_io_def by (metis (no_types, lifting) case_prod_conv sum.case(2))
  then show ?thesis using 1(3) 2 by simp
qed

text \<open>The loop returns, has applied each unseen record once and in order, and leaves none.\<close>

lemma processing_loop_ok:
  assumes "0 < n" and "db_wf (rt_db rt)" and "inv (rt_processor rt)" and "\<forall>e \<in> set (unseen p t rt). readable e"
  shows "\<exists>rt'. processing_loop p t n now ch rt = Some (Inr (), rt') \<and> inv (rt_processor rt') \<and>
    view (rt_processor rt') = fold step (unseen p t rt) (view (rt_processor rt)) \<and> unseen p t rt' = [] \<and>
    rt_db rt' = rt_db rt \<and> recorded rt'"
  using assms(2-)
proof (induction "length (unseen p t rt)" arbitrary: rt ch rule: less_induct)
  case less
  let ?un = "unseen p t rt"
  show ?case
  proof (cases "?un = []")
    case True
    then have "processing_loop p t n now ch rt = Some (Inr (), snd (updatePhase p now Phase_idle rt))"
      using persist_run(2) [of now Phase_idle rt]
      by (simp add: processing_loop.simps [of p t n now ch rt] readNextBatch_unseen)
    then show ?thesis using True less.prems(2) by simp
  next
    case False
    have "\<forall>e \<in> set (take n ?un). readable e" using less.prems(3) by (meson in_set_takeD)
    then obtain b rt1 where 1: "process_batch p now (take n ?un) ch rt = (Inr b, rt1)" "inv (rt_processor rt1)"
      "view (rt_processor rt1) = fold step (take n ?un) (view (rt_processor rt))" "unseen p t rt1 = drop n ?un"
      "rt_db rt1 = rt_db rt"
      using process_batch_ok [OF less.prems(1,2), of "take n ?un" t "drop n ?un" now ch] by auto
    have run: "processing_loop p t n now ch rt =
        (if length ?un < n then Some (persistCursorState p now Phase_idle rt1)
         else processing_loop p t n now b rt1)"
      using False assms(1) 1(1) by (simp add: processing_loop.simps [of p t n now ch rt] readNextBatch_unseen)
    have fold: "fold step (drop n ?un) (fold step (take n ?un) v) = fold step ?un v" for v
      by (metis append_take_drop_id fold_append o_apply)
    show ?thesis
    proof (cases "length ?un < n")
      case True
      then have "processing_loop p t n now ch rt = Some (Inr (), snd (persistCursorState p now Phase_idle rt1))"
        using run persist_run(1) [of now Phase_idle rt1] by simp
      then show ?thesis using True 1(2-) by simp
    next
      case long: False
      have "length (unseen p t rt1) < length ?un" using 1(4) False assms(1) by simp
      moreover have "\<forall>e \<in> set (unseen p t rt1). readable e" using less.prems(3) 1(4) by (metis in_set_dropD)
      ultimately obtain rt' where "processing_loop p t n now b rt1 = Some (Inr (), rt')" "inv (rt_processor rt')"
        "view (rt_processor rt') = fold step (unseen p t rt1) (view (rt_processor rt1))" "unseen p t rt' = []"
        "rt_db rt' = rt_db rt1" "recorded rt'"
        using less.hyps [of rt1 b] less.prems(1) 1(2,5) by auto
      then show ?thesis using run long 1(3-5) fold by auto
    qed
  qed
qed

lemma performRebuild_ok:
  assumes "inv (rt_processor rt)"
  shows "\<exists>rt'. performRebuild p now rt = (Inr (), rt') \<and> inv (rt_processor rt') \<and> view (rt_processor rt') = zero \<and>
    rt_lastEffectiveCursor rt' = ZERO_EFFECTIVE_CURSOR \<and> rt_lastCommitSequence rt' = 0 \<and> rt_db rt' = rt_db rt \<and>
    \<not> rt_pendingRebuild rt'"
proof -
  obtain s where "pr_reset p (rt_processor rt) = (Inr (), s)" "inv s" "view s = zero" using resets [OF assms] by blast
  then show ?thesis
    by (simp add: performRebuild_def bind_io_def on_processor_def updatePhase_def persistCursorState_def)
qed

lemma runProcessingLoop_ok:
  assumes "0 < n" and "db_wf (rt_db rt)" and "inv (rt_processor rt)" and "\<not> rt_pendingRebuild rt"
    and "\<forall>e \<in> set (unseen p t rt). readable e"
  shows "\<exists>rt'. runProcessingLoop p t n now rt = Some (Inr (), rt') \<and> inv (rt_processor rt') \<and>
    view (rt_processor rt') = fold step (unseen p t rt) (view (rt_processor rt)) \<and> unseen p t rt' = [] \<and>
    rt_db rt' = rt_db rt \<and> recorded rt'"
  using processing_loop_ok [OF assms(1-3,5), of now False] assms(4) by (simp add: runProcessingLoop_def)

text \<open>A rebase forgets everything and replays the whole history.\<close>

lemma unseen_from_zero:
  assumes "db_wf (rt_db rt)" and "\<forall>m \<in> set (db_sync_event_map (rt_db rt)). 0 < map_global_seq m"
    and "pr_ordering p = EffectiveTotalOrder" and "rt_lastEffectiveCursor rt = ZERO_EFFECTIVE_CURSOR"
  shows "unseen p t rt = effective_order_of (joined_records t (rt_db rt))"
proof -
  have "beyond_cursor ZERO_EFFECTIVE_CURSOR e" if "e \<in> set (joined_records t (rt_db rt))" for e
    using that assms(1,2) db_wfD(4) [OF assms(1)]
    by (auto simp: joined_records_def beyond_cursor_def ZERO_EFFECTIVE_CURSOR_def typed_rows_def global_seq_of_def
        find_Some_iff split: option.split)
  then show ?thesis using assms(3,4) by (simp add: unseen_def filter_id_conv [THEN iffD2])
qed

lemma onRebaseRequired_ok:
  assumes "0 < n" and "db_wf (rt_db rt)" and "\<forall>m \<in> set (db_sync_event_map (rt_db rt)). 0 < map_global_seq m"
    and "inv (rt_processor rt)" and "pr_ordering p = EffectiveTotalOrder"
    and "\<forall>e \<in> set (effective_order_of (joined_records t (rt_db rt))). readable e"
  shows "\<exists>rt'. onRebaseRequired p t n now rt = Some (Inr (), rt') \<and> inv (rt_processor rt') \<and>
    view (rt_processor rt') = fold step (effective_order_of (joined_records t (rt_db rt))) zero \<and>
    unseen p t rt' = [] \<and> rt_db rt' = rt_db rt \<and> recorded rt'"
proof -
  obtain rt1 where 1: "performRebuild p now (rt\<lparr>rt_pendingRebuild := True\<rparr>) = (Inr (), rt1)" "inv (rt_processor rt1)"
    "view (rt_processor rt1) = zero" "rt_lastEffectiveCursor rt1 = ZERO_EFFECTIVE_CURSOR" "rt_db rt1 = rt_db rt"
    using performRebuild_ok [of "rt\<lparr>rt_pendingRebuild := True\<rparr>" now] assms(4) by auto
  have un: "unseen p t rt1 = effective_order_of (joined_records t (rt_db rt))"
    using unseen_from_zero [of rt1 t] assms(2,3,5) 1(4,5) by simp
  then show ?thesis
    using processing_loop_ok [of n rt1 t now False] assms(1,2,6) 1
    by (simp add: onRebaseRequired_def runProcessingLoop_def)
qed

text \<open>A start resumes from the recorded cursor and the persisted state.\<close>

lemma runtime_start_ok:
  assumes "0 < n" and "db_wf (rt_db rt)" and "cold (rt_processor rt)" and "\<not> rt_started rt" and "\<not> rt_pendingRebuild rt"
    and "recorded rt" and "\<forall>e \<in> set (unseen p t rt). readable e"
  shows "\<exists>rt'. runtime_start p t n now rt = Some (Inr (), rt') \<and> inv (rt_processor rt') \<and>
    view (rt_processor rt') = fold step (unseen p t rt) (view (rt_processor rt)) \<and> unseen p t rt' = [] \<and>
    rt_db rt' = rt_db rt \<and> recorded rt'"
proof -
  obtain s where s: "pr_bootstrap p (rt_lastEffectiveCursor rt) (rt_lastCommitSequence rt) (rt_processor rt) = (Inr (), s)"
    "inv s" "view s = view (rt_processor rt)"
    using bootstraps [OF assms(3)] by blast
  let ?rt = "rt\<lparr>rt_started := True, rt_processor := s\<rparr>"
  have "runtime_start p t n now rt = runProcessingLoop p t n now ?rt"
    using assms(4,6) s(1)
    by (auto simp: runtime_start_def bind_io_def loadOrInitializeMeta_def on_processor_def recorded_def)
  moreover have "unseen p t ?rt = unseen p t rt" by (simp add: unseen_def)
  ultimately show ?thesis using runProcessingLoop_ok [of n ?rt t now] assms s(2,3) by simp
qed

end

end
