(* ===== verification/GoalProjection.thy ===== *)
theory GoalProjection
  imports GoalReadState SearchProjector ProjectionCatchUp EventStore
begin

text \<open>
  The goal projection: packages/infrastructure/src/goals/derived-state (GoalSnapshotProjector.ts,
  GoalAnalyticsProjector.ts, GoalProjectionProcessor.ts) and goals/GoalReadModel.ts. The search projector is
  the one of SearchProjector. \<open>gen\<close> gives the keys that \<open>generateKey()\<close> would return and
  \<open>now\<close> is the clock. Listeners have no state and are not modelled.
\<close>

record 'x goal_projection = "(goal_list_item, goal_snapshot_state, 'x) derived_state" +
  gp_analyticsCache :: "analytics_payload option"

definition goal_search_config :: "goal_list_item search_config" where
  "goal_search_config =
     \<lparr>sc_indexId = ''goal_search'', sc_searchKeyId = ''goal_search_index'', sc_id = gli_id,
      sc_archivedAt = gli_archivedAt, sc_createdAt = gli_createdAt\<rparr>"

subsection \<open>GoalSnapshotProjector\<close>

record goal_apply_result =
  gar_changed :: bool
  gar_previous :: "goal_snapshot_state option"
  gar_next :: "goal_snapshot_state option"
  gar_previousItem :: "goal_list_item option"
  gar_nextItem :: "goal_list_item option"

definition goal_decryptSnapshot ::
  "crypto_port \<Rightarrow> string \<Rightarrow> bytes \<Rightarrow> int \<Rightarrow> effective_cursor \<Rightarrow> bytes \<Rightarrow> goal_snapshot_state result" where
  "goal_decryptSnapshot c aggregateId cipher version cursor kGoal =
     bind_result (decrypt c cipher kGoal (buildProjectionCacheAad ''goal_snapshot'' aggregateId version cursor)) (\<lambda>plaintext.
     decodeGoalSnapshotState plaintext version)"

definition goal_row_snapshot :: "crypto_port \<Rightarrow> bytes \<Rightarrow> projection_cache_record \<Rightarrow> goal_snapshot_state result" where
  "goal_row_snapshot c kGoal row =
     goal_decryptSnapshot c (pc_scopeKey row) (pc_cacheEncrypted row) (pc_cacheVersion row) (pc_lastEffectiveCursor row) kGoal"

definition goal_cache_loadSnapshot ::
  "crypto_port \<Rightarrow> string \<Rightarrow> bytes \<Rightarrow> ('x goal_projection, goal_snapshot_state option) io" where
  "goal_cache_loadSnapshot c aggregateId kGoal s =
     (case cache_get ''goal_snapshot'' aggregateId (ds_cache s) of
        None \<Rightarrow> (Inr None, s)
      | Some row \<Rightarrow>
          (case goal_decryptSnapshot c aggregateId (pc_cacheEncrypted row) (pc_cacheVersion row)
                  (pc_lastEffectiveCursor row) kGoal of
             Inr x \<Rightarrow> (Inr (Some x), s)
           | Inl _ \<Rightarrow> (Inr None, s\<lparr>ds_cache := cache_remove ''goal_snapshot'' aggregateId (ds_cache s)\<rparr>)))"

definition goal_cache_persistSnapshot ::
  "crypto_port \<Rightarrow> int \<Rightarrow> string \<Rightarrow> goal_snapshot_state \<Rightarrow> bytes \<Rightarrow> effective_cursor \<Rightarrow> int \<Rightarrow> ('x goal_projection, unit) io" where
  "goal_cache_persistSnapshot c now aggregateId snapshot kGoal cursor lastCommitSequence =
     bind_io (on_ds_keys (seal c (encodeGoalSnapshotState snapshot) kGoal
       (buildProjectionCacheAad ''goal_snapshot'' aggregateId (gss_version snapshot) cursor))) (\<lambda>cipher.
     update_io (\<lambda>s. s\<lparr>ds_cache := cache_put
       \<lparr>pc_projectionId = ''goal_snapshot'', pc_scopeKey = aggregateId, pc_cacheVersion = gss_version snapshot,
        pc_cacheEncrypted = cipher, pc_ordering = EffectiveTotalOrder, pc_lastEffectiveCursor = cursor,
        pc_lastCommitSequence = lastCommitSequence, pc_writtenAt = now\<rparr> (ds_cache s)\<rparr>))"

definition goal_bootstrap_row :: "crypto_port \<Rightarrow> projection_cache_record \<Rightarrow> ('x goal_projection, unit) io" where
  "goal_bootstrap_row c row =
     bind_io (on_ds_keys (km_getAggregateKey c (pc_scopeKey row))) (\<lambda>key.
     case key of
       None \<Rightarrow> return_io ()
     | Some kGoal \<Rightarrow>
         (\<lambda>s. case goal_row_snapshot c kGoal row of
                Inl _ \<Rightarrow> (Inr (), s\<lparr>ds_cache := cache_remove ''goal_snapshot'' (pc_scopeKey row) (ds_cache s)\<rparr>)
              | Inr x \<Rightarrow>
                  if gss_archivedAt x \<noteq> None then (Inr (), s)
                  else (Inr (), s\<lparr>ds_snapshots := AList.update (pc_scopeKey row) x (ds_snapshots s),
                          ds_projections := AList.update (pc_scopeKey row) (snapshotToListItem x) (ds_projections s)\<rparr>)))"

definition goal_bootstrapFromCache :: "crypto_port \<Rightarrow> ('x goal_projection, unit) io" where
  "goal_bootstrapFromCache c =
     bind_io (read_io (\<lambda>s. cache_listByProjection ''goal_snapshot'' (ds_cache s))) (\<lambda>rows.
     foreach_io (goal_bootstrap_row c) rows)"

definition goal_snapshot_applyEvent ::
  "crypto_port \<Rightarrow> int \<Rightarrow> string \<Rightarrow> event_metadata \<Rightarrow> goal_payload \<Rightarrow> bytes \<Rightarrow> effective_cursor \<Rightarrow> int \<Rightarrow>
     ('x goal_projection, goal_apply_result) io" where
  "goal_snapshot_applyEvent c now a m p key cursor lastCommitSequence =
     bind_io (read_io (\<lambda>s. map_of (ds_snapshots s) a)) (\<lambda>cached.
     bind_io (case cached of Some x \<Rightarrow> return_io (Some x) | None \<Rightarrow> goal_cache_loadSnapshot c a key) (\<lambda>previousSnapshot.
     bind_io (read_io (\<lambda>s. case map_of (ds_projections s) a of
                Some i \<Rightarrow> Some i | None \<Rightarrow> map_option snapshotToListItem previousSnapshot)) (\<lambda>previousItem.
     let nextVersion = (case previousSnapshot of Some x \<Rightarrow> gss_version x + 1 | None \<Rightarrow> 1) in
     case applyEventToSnapshot previousSnapshot m p nextVersion of
       None \<Rightarrow> return_io \<lparr>gar_changed = False, gar_previous = previousSnapshot, gar_next = None,
                 gar_previousItem = previousItem, gar_nextItem = None\<rparr>
     | Some nextSnapshot \<Rightarrow>
         bind_io (goal_cache_persistSnapshot c now a nextSnapshot key cursor lastCommitSequence) (\<lambda>_.
         bind_io (update_io (ds_snapshots_update (AList.update a nextSnapshot))) (\<lambda>_.
         if gss_archivedAt nextSnapshot = None
         then
           let nextItem = snapshotToListItem nextSnapshot in
           bind_io (update_io (ds_projections_update (AList.update a nextItem))) (\<lambda>_.
           return_io \<lparr>gar_changed = True, gar_previous = previousSnapshot, gar_next = Some nextSnapshot,
             gar_previousItem = previousItem, gar_nextItem = Some nextItem\<rparr>)
         else
           bind_io (update_io (ds_projections_update (AList.delete a))) (\<lambda>_.
           return_io \<lparr>gar_changed = True, gar_previous = previousSnapshot, gar_next = Some nextSnapshot,
             gar_previousItem = previousItem, gar_nextItem = None\<rparr>))))))"

subsection \<open>GoalAnalyticsProjector\<close>

definition counters_object :: "counters \<Rightarrow> json" where
  "counters_object t = JObj (map (\<lambda>(k, b). (k, JObj (map (\<lambda>(s, n). (s, JNum n)) b))) t)"

definition analytics_object :: "analytics_payload \<Rightarrow> json" where
  "analytics_object a = JObj
     [(''monthlyTotals'', counters_object (an_monthlyTotals a)), (''categoryRollups'', counters_object (an_categoryRollups a))]"

text \<open>The payload is not checked further; entries that are not numbers are never written.\<close>

definition bucket_of_json :: "json \<Rightarrow> (string \<times> int) list" where
  "bucket_of_json j =
     (case j of JObj ms \<Rightarrow> List.map_filter (\<lambda>(k, v). case v of JNum n \<Rightarrow> Some (k, n) | _ \<Rightarrow> None) ms | _ \<Rightarrow> [])"

definition counters_of_json :: "json \<Rightarrow> counters" where
  "counters_of_json j = (case j of JObj ms \<Rightarrow> map (\<lambda>(k, v). (k, bucket_of_json v)) ms | _ \<Rightarrow> [])"

definition parseAnalyticsPayload :: "json \<Rightarrow> analytics_payload result" where
  "parseAnalyticsPayload j =
     (if \<not> is_object j then Inl (Error ''Analytics payload must be an object'')
      else
        case (json_get ''monthlyTotals'' j, json_get ''categoryRollups'' j) of
          (Some mt, Some cr) \<Rightarrow>
            if is_object mt \<and> is_object cr
            then Inr \<lparr>an_monthlyTotals = counters_of_json mt, an_categoryRollups = counters_of_json cr\<rparr>
            else Inl (Error ''Analytics payload shape is invalid'')
        | _ \<Rightarrow> Inl (Error ''Analytics payload shape is invalid''))"

definition decode_analytics :: "bytes \<Rightarrow> analytics_payload result" where
  "decode_analytics plaintext =
     (case json_parse (text_decode plaintext) of
        None \<Rightarrow> Inl (Error ''SyntaxError'')
      | Some j \<Rightarrow> parseAnalyticsPayload j)"

definition loadAnalytics :: "crypto_port \<Rightarrow> bytes \<Rightarrow> 'x goal_projection \<Rightarrow> analytics_payload result" where
  "loadAnalytics c key s =
     (case gp_analyticsCache s of
        Some a \<Rightarrow> Inr a
      | None \<Rightarrow>
          (case cache_get ''goal_analytics'' ''global'' (ds_cache s) of
             None \<Rightarrow> Inr createEmptyAnalytics
           | Some row \<Rightarrow>
               bind_result (decrypt c (pc_cacheEncrypted row) key
                 (buildProjectionCacheAad ''goal_analytics'' ''global'' (pc_cacheVersion row) (pc_lastEffectiveCursor row)))
                 decode_analytics))"

definition saveAnalytics ::
  "crypto_port \<Rightarrow> int \<Rightarrow> bytes \<Rightarrow> analytics_payload \<Rightarrow> effective_cursor \<Rightarrow> int \<Rightarrow> ('x goal_projection, unit) io" where
  "saveAnalytics c now key analytics cursor lastCommitSequence =
     bind_io (on_ds_keys (seal c (text_encode (json_stringify (analytics_object analytics))) key
       (buildProjectionCacheAad ''goal_analytics'' ''global'' 1 cursor))) (\<lambda>cipher.
     update_io (\<lambda>s. s\<lparr>ds_cache := cache_put
       \<lparr>pc_projectionId = ''goal_analytics'', pc_scopeKey = ''global'', pc_cacheVersion = 1, pc_cacheEncrypted = cipher,
        pc_ordering = EffectiveTotalOrder, pc_lastEffectiveCursor = cursor, pc_lastCommitSequence = lastCommitSequence,
        pc_writtenAt = now\<rparr> (ds_cache s)\<rparr>))"

definition updateAnalytics ::
  "crypto_port \<Rightarrow> bytes \<Rightarrow> int \<Rightarrow> goal_snapshot_state option \<Rightarrow> goal_snapshot_state option \<Rightarrow> effective_cursor \<Rightarrow> int \<Rightarrow>
     ('x goal_projection, unit) io" where
  "updateAnalytics c generated now previous nxt cursor lastCommitSequence =
     bind_io (on_ds_keys (ensureKey c generated ''goal_analytics'')) (\<lambda>analyticsKey.
     bind_io (bind_io (read_io (loadAnalytics c analyticsKey)) lift_io) (\<lambda>current.
     let updated = applyAnalyticsDeltas current (buildAnalyticsDeltas previous nxt) in
     bind_io (saveAnalytics c now analyticsKey updated cursor lastCommitSequence) (\<lambda>_.
     update_io (gp_analyticsCache_update (\<lambda>_. Some updated)))))"

subsection \<open>GoalProjectionProcessor\<close>

definition goal_toEncryptedEvent :: "event_record \<Rightarrow> encrypted_event" where
  "goal_toEncryptedEvent r =
     \<lparr>ee_id = rec_id r, ee_aggregateType = ''goal'', ee_aggregateId = rec_aggregateId r, ee_eventType = rec_eventType r,
      ee_payload = rec_payload r, ee_version = rec_version r, ee_occurredAt = rec_occurredAt r,
      ee_actorId = rec_actorId r, ee_causationId = rec_causationId r, ee_correlationId = rec_correlationId r\<rparr>"

text \<open>The body of the \<open>try\<close> in \<open>applyEvent\<close>.\<close>

definition goal_apply_body ::
  "crypto_port \<Rightarrow> derive \<Rightarrow> (goal_list_item, 'x) mini_search \<Rightarrow> (string \<Rightarrow> bytes) \<Rightarrow> int \<Rightarrow> event_record \<Rightarrow>
     effective_cursor \<Rightarrow> int \<Rightarrow> ('x goal_projection, bool) io" where
  "goal_apply_body c derive ms gen now r cursor lastCommitSequence =
     (let event = goal_toEncryptedEvent r; a = rec_aggregateId r in
      bind_io (on_ds_keys (resolveKeyForEvent c derive a)) (\<lambda>kGoal.
      bind_io (lift_io (toDomain c event kGoal)) (\<lambda>domainEvent.
      case ev_payload domainEvent of
        GoalEvent p \<Rightarrow>
          bind_io (goal_snapshot_applyEvent c now a (ev_meta domainEvent) p kGoal cursor lastCommitSequence) (\<lambda>applied.
          if \<not> gar_changed applied \<or> gar_next applied = None then return_io False
          else
            bind_io (updateAnalytics c (gen ''goal_analytics'') now (gar_previous applied) (gar_next applied) cursor
              lastCommitSequence) (\<lambda>_.
            bind_io (applyProjectionChange ms goal_search_config (gar_previousItem applied) (gar_nextItem applied)) (\<lambda>_.
            return_io (gar_changed applied))))
      | _ \<Rightarrow> return_io False)))"

definition goal_applyEvent ::
  "crypto_port \<Rightarrow> derive \<Rightarrow> (goal_list_item, 'x) mini_search \<Rightarrow> (string \<Rightarrow> bytes) \<Rightarrow> int \<Rightarrow> event_record \<Rightarrow>
     effective_cursor \<Rightarrow> int \<Rightarrow> ('x goal_projection, bool) io" where
  "goal_applyEvent c derive ms gen now r cursor lastCommitSequence s =
     (case goal_apply_body c derive ms gen now r cursor lastCommitSequence s of
        (Inl e, s') \<Rightarrow> if missing_key_error e then (Inr False, s') else (Inl e, s')
      | (Inr b, s') \<Rightarrow> (Inr b, s'))"

definition goal_reset :: "('x goal_projection, unit) io" where
  "goal_reset =
     bind_io (update_io (\<lambda>s. s\<lparr>ds_snapshots := [], ds_projections := []\<rparr>)) (\<lambda>_.
     bind_io (update_io (gp_analyticsCache_update (\<lambda>_. None))) (\<lambda>_.
     bind_io search_reset (\<lambda>_.
     bind_io (update_io (ds_cache_update (cache_removeAll ''goal_snapshot''))) (\<lambda>_.
     bind_io (update_io (ds_cache_update (cache_remove ''goal_analytics'' ''global''))) (\<lambda>_.
     search_clearPersisted goal_search_config)))))"

definition goal_processor ::
  "crypto_port \<Rightarrow> derive \<Rightarrow> (goal_list_item, 'x) mini_search \<Rightarrow> (string \<Rightarrow> bytes) \<Rightarrow> int \<Rightarrow>
     'x goal_projection projection_processor" where
  "goal_processor c derive ms gen now =
     \<lparr>pr_projectionId = ''goal_projection'', pr_ordering = EffectiveTotalOrder,
      pr_bootstrap = (\<lambda>_ _. goal_bootstrapFromCache c),
      pr_applyEvent = goal_applyEvent c derive ms gen now,
      pr_onBatchComplete = Some (\<lambda>_ _ cursor _.
        persistIndex c ms goal_search_config (gen ''goal_search_index'') now cursor),
      pr_reset = goal_reset\<rparr>"

definition listGoals :: "'x goal_projection \<Rightarrow> goal_list_item list" where
  "listGoals s = sort_desc gli_createdAt (map snd (ds_projections s))"

definition getGoalById :: "string \<Rightarrow> 'x goal_projection \<Rightarrow> goal_list_item option" where
  "getGoalById goalId s = map_of (ds_projections s) goalId"

record goal_filter =
  gf_slice :: "string option"
  gf_month :: "string option"
  gf_priority :: "string option"

text \<open>An absent or empty filter value does not restrict.\<close>

definition filter_matches :: "string option \<Rightarrow> string \<Rightarrow> bool" where
  "filter_matches f v \<longleftrightarrow> f = None \<or> f = Some [] \<or> f = Some v"

definition goal_matchesFilter :: "goal_filter option \<Rightarrow> goal_list_item \<Rightarrow> bool" where
  "goal_matchesFilter f i \<longleftrightarrow>
     (case f of None \<Rightarrow> True
      | Some g \<Rightarrow> filter_matches (gf_slice g) (Slice_value (gli_slice i)) \<and>
                  filter_matches (gf_priority g) (Priority_value (gli_priority i)) \<and>
                  filter_matches (gf_month g) (gli_targetMonth i))"

definition searchGoals ::
  "crypto_port \<Rightarrow> (goal_list_item, 'x) mini_search \<Rightarrow> (string \<Rightarrow> bytes) \<Rightarrow> string \<Rightarrow> goal_filter option \<Rightarrow>
     ('x goal_projection, goal_list_item list) io" where
  "searchGoals c ms gen term f =
     bind_io (read_io (\<lambda>s. map snd (ds_projections s))) (\<lambda>items.
     bind_io (search_ensureBuilt c ms goal_search_config (gen ''goal_search_index'') items) (\<lambda>_.
     read_io (search_items ms goal_search_config term (goal_matchesFilter f))))"

subsection \<open>GoalReadModel\<close>

text \<open>Every query waits for the projection to catch up first; 250 is the default batch size.\<close>

definition goal_flush ::
  "crypto_port \<Rightarrow> derive \<Rightarrow> (goal_list_item, 'x) mini_search \<Rightarrow> (string \<Rightarrow> bytes) \<Rightarrow> int \<Rightarrow>
     'x goal_projection runtime \<Rightarrow> (unit result \<times> 'x goal_projection runtime) option" where
  "goal_flush c derive ms gen now = runProcessingLoop (goal_processor c derive ms gen now) ''goal'' 250 now"

definition goal_list ::
  "crypto_port \<Rightarrow> derive \<Rightarrow> (goal_list_item, 'x) mini_search \<Rightarrow> (string \<Rightarrow> bytes) \<Rightarrow> int \<Rightarrow> goal_filter option \<Rightarrow>
     'x goal_projection runtime \<Rightarrow> (goal_list_item list result \<times> 'x goal_projection runtime) option" where
  "goal_list c derive ms gen now f rt =
     map_option (\<lambda>(r, rt').
       (bind_result r (\<lambda>_. Inr (filter (goal_matchesFilter f) (listGoals (rt_processor rt')))), rt'))
       (goal_flush c derive ms gen now rt)"

definition goal_getById ::
  "crypto_port \<Rightarrow> derive \<Rightarrow> (goal_list_item, 'x) mini_search \<Rightarrow> (string \<Rightarrow> bytes) \<Rightarrow> int \<Rightarrow> string \<Rightarrow>
     'x goal_projection runtime \<Rightarrow> (goal_list_item option result \<times> 'x goal_projection runtime) option" where
  "goal_getById c derive ms gen now goalId rt =
     map_option (\<lambda>(r, rt'). (bind_result r (\<lambda>_. Inr (getGoalById goalId (rt_processor rt'))), rt'))
       (goal_flush c derive ms gen now rt)"

definition goal_search ::
  "crypto_port \<Rightarrow> derive \<Rightarrow> (goal_list_item, 'x) mini_search \<Rightarrow> (string \<Rightarrow> bytes) \<Rightarrow> int \<Rightarrow> string \<Rightarrow> goal_filter option \<Rightarrow>
     'x goal_projection runtime \<Rightarrow> (goal_list_item list result \<times> 'x goal_projection runtime) option" where
  "goal_search c derive ms gen now term f rt =
     map_option (\<lambda>(r, rt'). bind_io (\<lambda>rt'. (r, rt')) (\<lambda>_. on_processor (searchGoals c ms gen term f)) rt')
       (goal_flush c derive ms gen now rt)"

end
