(* ===== verification/GoalProjectionFacts.thy ===== *)
theory GoalProjectionFacts
  imports GoalProjection
begin

text \<open>
  The goal projection keeps the promises of the locale \<open>projection\<close>: what it stores is the fold
  of the events over the snapshots, its memory agrees with what it has stored, its counters
  count the active goals, and a restart or a rebuild leads to the same state.
\<close>

subsection \<open>What is stored\<close>

definition goal_reserved :: "string set" where
  "goal_reserved = {''goal_analytics'', ''goal_search_index''}"

definition goal_view ::
  "crypto_port \<Rightarrow> (string \<Rightarrow> bytes option) \<Rightarrow> 'x goal_projection \<Rightarrow> string \<Rightarrow> goal_snapshot_state option" where
  "goal_view c keys s a =
     (case (cache_get ''goal_snapshot'' a (ds_cache s), keys a) of
        (Some row, Some k) \<Rightarrow> (case goal_row_snapshot c k row of Inr x \<Rightarrow> Some x | Inl _ \<Rightarrow> None)
      | _ \<Rightarrow> None)"

definition goal_rows_ok :: "crypto_port \<Rightarrow> (string \<Rightarrow> bytes option) \<Rightarrow> 'x goal_projection \<Rightarrow> bool" where
  "goal_rows_ok c keys s \<longleftrightarrow> distinct (map cache_key (ds_cache s)) \<and>
     (\<forall>a row. cache_get ''goal_snapshot'' a (ds_cache s) = Some row \<longrightarrow> a \<notin> goal_reserved \<and>
        (\<exists>k x. keys a = Some k \<and> goal_row_snapshot c k row = Inr x \<and> gss_id x = a))"

definition stored_analytics :: "crypto_port \<Rightarrow> 'x goal_projection \<Rightarrow> analytics_payload result" where
  "stored_analytics c s =
     (case cache_get ''goal_analytics'' ''global'' (ds_cache s) of
        None \<Rightarrow> Inr createEmptyAnalytics
      | Some row \<Rightarrow>
          bind_result (getAggregateKey c ''goal_analytics'' (km_keyStore (ds_keys s))) (\<lambda>k.
          case k of
            None \<Rightarrow> Inl (Error ''no key'')
          | Some key \<Rightarrow>
              bind_result (decrypt c (pc_cacheEncrypted row) key
                (buildProjectionCacheAad ''goal_analytics'' ''global'' (pc_cacheVersion row) (pc_lastEffectiveCursor row)))
                decode_analytics))"

definition active_goal_item :: "goal_snapshot_state option \<Rightarrow> goal_list_item option" where
  "active_goal_item s =
     (case s of Some x \<Rightarrow> if gss_archivedAt x = None then Some (snapshotToListItem x) else None | None \<Rightarrow> None)"

definition goal_core ::
  "crypto_port \<Rightarrow> (string \<Rightarrow> bytes option) \<Rightarrow> analytics_payload \<Rightarrow> (string \<Rightarrow> goal_snapshot_state option) \<Rightarrow>
     'x goal_projection \<Rightarrow> bool" where
  "goal_core c keys an v s \<longleftrightarrow> keys_ok c goal_reserved keys (ds_keys s) \<and> goal_rows_ok c keys s \<and>
     stored_analytics c s = Inr an \<and> (gp_analyticsCache s = None \<or> gp_analyticsCache s = Some an) \<and>
     goal_view c keys s = v \<and> (\<forall>a x. map_of (ds_snapshots s) a = Some x \<longrightarrow> v a = Some x) \<and>
     map_of (ds_projections s) = (\<lambda>a. active_goal_item (v a))"

text \<open>The documented behaviour of the search engine; \<open>ids\<close> are the ids of the indexed documents.\<close>

definition engine_ok :: "('i, 'x) mini_search \<Rightarrow> 'i search_config \<Rightarrow> ('x \<Rightarrow> string set) \<Rightarrow> bool" where
  "engine_ok ms cfg ids \<longleftrightarrow>
     (\<forall>i ix. sc_id cfg i \<notin> ids ix \<longrightarrow> (\<exists>ix'. ms_add ms i ix = Inr ix' \<and> ids ix' = insert (sc_id cfg i) (ids ix))) \<and>
     (\<forall>i ix. case ms_remove ms i ix of
        Inr ix' \<Rightarrow> ids ix' = ids ix - {sc_id cfg i} | Inl _ \<Rightarrow> sc_id cfg i \<notin> ids ix)"

definition index_within :: "('x \<Rightarrow> string set) \<Rightarrow> string set \<Rightarrow> ('i, 's, 'x, 'm) derived_state_scheme \<Rightarrow> bool" where
  "index_within ids D s \<longleftrightarrow> (\<forall>ix. ds_searchIndex s = Some ix \<longrightarrow> ids ix \<subseteq> D)"

definition goal_projection_ok ::
  "crypto_port \<Rightarrow> (string \<Rightarrow> bytes option) \<Rightarrow> (goal_list_item, 'x) mini_search \<Rightarrow> ('x \<Rightarrow> string set) \<Rightarrow> 'x goal_projection \<Rightarrow> bool" where
  "goal_projection_ok c keys ms ids s \<longleftrightarrow> aead_ok c \<and> total_cipher c \<and> engine_ok ms goal_search_config ids \<and>
     (\<exists>an. goal_core c keys an (goal_view c keys s) s \<and> analytics_counts an (goal_view c keys s)) \<and>
     index_within ids (dom (goal_view c keys s)) s"

text \<open>A processor right after the start of the application: nothing in memory.\<close>

definition goal_cold ::
  "crypto_port \<Rightarrow> (string \<Rightarrow> bytes option) \<Rightarrow> (goal_list_item, 'x) mini_search \<Rightarrow> ('x \<Rightarrow> string set) \<Rightarrow> 'x goal_projection \<Rightarrow> bool" where
  "goal_cold c keys ms ids s \<longleftrightarrow> aead_ok c \<and> total_cipher c \<and> engine_ok ms goal_search_config ids \<and>
     keys_ok c goal_reserved keys (ds_keys s) \<and> goal_rows_ok c keys s \<and>
     (\<exists>an. stored_analytics c s = Inr an \<and> analytics_counts an (goal_view c keys s)) \<and>
     ds_snapshots s = [] \<and> ds_projections s = [] \<and> gp_analyticsCache s = None \<and> ds_searchIndex s = None"

definition goal_restart :: "'x goal_projection \<Rightarrow> 'x goal_projection" where
  "goal_restart s = s\<lparr>ds_snapshots := [], ds_projections := [], gp_analyticsCache := None, ds_searchIndex := None,
     ds_indexLoaded := False, ds_indexDirty := False, ds_phase := Index_missing\<rparr>"

lemma finite_goal_view: "finite (dom (goal_view c keys s))"
proof -
  have "dom (goal_view c keys s) \<subseteq> pc_scopeKey ` set (ds_cache s)"
    by (auto simp: goal_view_def cache_get_def cache_key_def select_row_def find_Some_iff image_iff
        split: option.splits sum.splits) (metis nth_mem)
  then show ?thesis by (meson finite_imageI finite_set finite_subset)
qed

lemma goal_view_frame:
  "ds_cache s' = ds_cache s \<Longrightarrow> goal_view c keys s' = goal_view c keys s"
  "ds_cache s' = ds_cache s \<Longrightarrow> goal_rows_ok c keys s' = goal_rows_ok c keys s"
  by (simp_all add: goal_view_def goal_rows_ok_def fun_eq_iff)

lemma stored_analytics_frame:
  assumes "cache_get ''goal_analytics'' ''global'' (ds_cache s') = cache_get ''goal_analytics'' ''global'' (ds_cache s)"
    and "getAggregateKey c ''goal_analytics'' (km_keyStore (ds_keys s')) = getAggregateKey c ''goal_analytics'' (km_keyStore (ds_keys s))"
  shows "stored_analytics c s' = stored_analytics c s"
  using assms by (simp add: stored_analytics_def split: option.split)

lemma goal_view_known:
  "goal_rows_ok c keys s \<Longrightarrow> goal_view c keys s a = Some x \<Longrightarrow> gss_id x = a \<and> a \<notin> goal_reserved"
  by (fastforce simp: goal_view_def goal_rows_ok_def split: option.splits sum.splits)

subsection \<open>Snapshots\<close>

lemma goal_row_snapshot_put:
  assumes "aead_ok c"
    and "encrypt c n (encodeGoalSnapshotState x) k (buildProjectionCacheAad ''goal_snapshot'' a (gss_version x) cur) = Inr ci"
  shows "goal_row_snapshot c k \<lparr>pc_projectionId = ''goal_snapshot'', pc_scopeKey = a, pc_cacheVersion = gss_version x,
     pc_cacheEncrypted = ci, pc_ordering = EffectiveTotalOrder, pc_lastEffectiveCursor = cur,
     pc_lastCommitSequence = l, pc_writtenAt = now\<rparr> = Inr x"
  using decrypt_encrypt [OF assms] by (simp add: goal_row_snapshot_def goal_decryptSnapshot_def goal_state_roundtrip)

lemma persist_goal:
  assumes "aead_ok c" and "total_cipher c" and "goal_core c keys an v s" and "keys a = Some k" and "a \<notin> goal_reserved"
    and "gss_id x = a"
  shows "\<exists>s'. goal_cache_persistSnapshot c now a x k cur l s = (Inr (), s') \<and>
    keys_ok c goal_reserved keys (ds_keys s') \<and> goal_rows_ok c keys s' \<and> stored_analytics c s' = stored_analytics c s \<and>
    goal_view c keys s' = v(a \<mapsto> x) \<and> ds_snapshots s' = ds_snapshots s \<and> ds_projections s' = ds_projections s \<and>
    gp_analyticsCache s' = gp_analyticsCache s \<and> ds_searchIndex s' = ds_searchIndex s"
proof -
  let ?aad = "buildProjectionCacheAad ''goal_snapshot'' a (gss_version x) cur"
  obtain ci where ci: "encrypt c (ks_draws (km_keyStore (ds_keys s))) (encodeGoalSnapshotState x) k ?aad = Inr ci"
    "seal c (encodeGoalSnapshotState x) k ?aad (ds_keys s) = (Inr ci, (ds_keys s)\<lparr>km_keyStore :=
       (km_keyStore (ds_keys s))\<lparr>ks_draws := ks_draws (km_keyStore (ds_keys s)) + 1\<rparr>\<rparr>)"
    using seal_run [OF assms(2)] by metis
  define row where "row = \<lparr>pc_projectionId = ''goal_snapshot'', pc_scopeKey = a, pc_cacheVersion = gss_version x,
     pc_cacheEncrypted = ci, pc_ordering = EffectiveTotalOrder, pc_lastEffectiveCursor = cur,
     pc_lastCommitSequence = l, pc_writtenAt = now\<rparr>"
  have row: "goal_row_snapshot c k row = Inr x" "pc_projectionId row = ''goal_snapshot''" "pc_scopeKey row = a"
    using goal_row_snapshot_put [OF assms(1) ci(1)] by (simp_all add: row_def)
  define s' where "s' = s\<lparr>ds_keys := (ds_keys s)\<lparr>km_keyStore := (km_keyStore (ds_keys s))\<lparr>ks_draws := ks_draws (km_keyStore (ds_keys s)) + 1\<rparr>\<rparr>,
     ds_cache := cache_put row (ds_cache s)\<rparr>"
  have run: "goal_cache_persistSnapshot c now a x k cur l s = (Inr (), s')"
    using ci(2) by (simp add: goal_cache_persistSnapshot_def bind_io_def on_ds_keys_def s'_def row_def)
  have core: "keys_ok c goal_reserved keys (ds_keys s)" "goal_rows_ok c keys s" "goal_view c keys s = v"
    using assms(3) by (simp_all add: goal_core_def)
  have "keys_ok c goal_reserved keys (ds_keys s')" using core(1) by (simp add: s'_def)
  moreover have "goal_rows_ok c keys s'"
    using core(2) row assms(4-6)
    unfolding goal_rows_ok_def s'_def by (auto simp: cache_put_def cache_get_def rows.get_put cache_key_def)
  moreover have "stored_analytics c s' = stored_analytics c s"
    using row(2) by (intro stored_analytics_frame) (simp_all add: s'_def getAggregateKey_def require_master_def)
  moreover have "goal_view c keys s' = v(a \<mapsto> x)"
    using row assms(4) core(3) by (auto simp: goal_view_def s'_def fun_eq_iff)
  ultimately show ?thesis using run by (auto simp: s'_def)
qed

text \<open>The previous snapshot is read from memory or from the cache.\<close>

lemma goal_previous:
  assumes "goal_core c keys an v s" and "keys a = Some k"
  shows "(case map_of (ds_snapshots s) a of Some x \<Rightarrow> return_io (Some x) | None \<Rightarrow> goal_cache_loadSnapshot c a k) s = (Inr (v a), s)"
proof (cases "map_of (ds_snapshots s) a")
  case (Some x)
  then show ?thesis using assms(1) by (simp add: goal_core_def)
next
  case None
  have v: "v a = goal_view c keys s a" and rows: "goal_rows_ok c keys s" using assms(1) by (simp_all add: goal_core_def)
  show ?thesis
  proof (cases "cache_get ''goal_snapshot'' a (ds_cache s)")
    case row: (Some row)
    then have "pc_scopeKey row = a" by (auto simp: cache_get_def cache_key_def dest: select_key)
    moreover obtain x where "goal_row_snapshot c k row = Inr x"
      using rows row assms(2) by (force simp: goal_rows_ok_def)
    ultimately show ?thesis
      using None row assms(2) v by (simp add: goal_cache_loadSnapshot_def goal_view_def goal_row_snapshot_def)
  qed (use None v in \<open>simp add: goal_cache_loadSnapshot_def goal_view_def\<close>)
qed

lemma applyEventToSnapshot_id:
  assumes "applyEventToSnapshot cur m p n = Some x" and "em_aggregateId m = a"
    and "case cur of None \<Rightarrow> True | Some y \<Rightarrow> gss_id y = a"
  shows "gss_id x = a"
  using assms by (cases p; cases cur) auto

definition goal_next :: "(string \<Rightarrow> goal_snapshot_state option) \<Rightarrow> string \<Rightarrow> event_metadata \<Rightarrow> goal_payload \<Rightarrow> goal_snapshot_state option" where
  "goal_next v a m p = applyEventToSnapshot (v a) m p (case v a of None \<Rightarrow> 1 | Some x \<Rightarrow> gss_version x + 1)"

lemma goal_snapshot_applyEvent_ok:
  assumes "aead_ok c" and "total_cipher c" and core: "goal_core c keys an v s" and "keys a = Some k" and "a \<notin> goal_reserved"
    and "em_aggregateId m = a"
  shows "\<exists>r s'. goal_snapshot_applyEvent c now a m p k cur l s = (Inr r, s') \<and>
    ds_searchIndex s' = ds_searchIndex s \<and>
    (case goal_next v a m p of
       None \<Rightarrow> s' = s \<and> \<not> gar_changed r
     | Some x \<Rightarrow> goal_core c keys an (v(a \<mapsto> x)) s' \<and>
         r = \<lparr>gar_changed = True, gar_previous = v a, gar_next = Some x,
              gar_previousItem = map_option snapshotToListItem (v a), gar_nextItem = active_goal_item (Some x)\<rparr>)"
proof -
  have proj: "map_of (ds_projections s) a = active_goal_item (v a)" using core by (simp add: goal_core_def)
  then have item: "(case map_of (ds_projections s) a of Some i \<Rightarrow> Some i | None \<Rightarrow> map_option snapshotToListItem (v a)) =
      map_option snapshotToListItem (v a)"
    by (auto simp: active_goal_item_def split: option.split)
  note prev = goal_previous [OF core assms(4)]
  show ?thesis
  proof (cases "goal_next v a m p")
    case None
    then show ?thesis using prev item
      by (simp add: goal_snapshot_applyEvent_def bind_io_def goal_next_def)
  next
    case (Some x)
    have "case v a of None \<Rightarrow> True | Some y \<Rightarrow> gss_id y = a"
      using goal_view_known core by (fastforce simp: goal_core_def split: option.split)
    then have "gss_id x = a" using applyEventToSnapshot_id Some assms(6) by (auto simp: goal_next_def)
    then obtain s1 where s1: "goal_cache_persistSnapshot c now a x k cur l s = (Inr (), s1)"
      "keys_ok c goal_reserved keys (ds_keys s1)" "goal_rows_ok c keys s1" "stored_analytics c s1 = stored_analytics c s"
      "goal_view c keys s1 = v(a \<mapsto> x)" "ds_snapshots s1 = ds_snapshots s" "ds_projections s1 = ds_projections s"
      "gp_analyticsCache s1 = gp_analyticsCache s" "ds_searchIndex s1 = ds_searchIndex s"
      using persist_goal [OF assms(1-5)] by metis
    define s2 where "s2 = s1\<lparr>ds_snapshots := AList.update a x (ds_snapshots s1),
      ds_projections := (if gss_archivedAt x = None then AList.update a (snapshotToListItem x) (ds_projections s1)
                         else AList.delete a (ds_projections s1))\<rparr>"
    have "goal_core c keys an (v(a \<mapsto> x)) s2"
      using core s1 goal_view_frame [of s2 s1 c keys] stored_analytics_frame [of s2 s1 c]
      by (auto simp: goal_core_def s2_def update_conv' delete_conv' active_goal_item_def fun_eq_iff)
    moreover have "goal_snapshot_applyEvent c now a m p k cur l s = (Inr
        \<lparr>gar_changed = True, gar_previous = v a, gar_next = Some x,
         gar_previousItem = map_option snapshotToListItem (v a), gar_nextItem = active_goal_item (Some x)\<rparr>, s2)"
      using prev item Some s1(1)
      by (simp add: goal_snapshot_applyEvent_def bind_io_def goal_next_def Let_def active_goal_item_def s2_def)
    ultimately show ?thesis using Some s1(9) by (simp add: s2_def)
  qed
qed

subsection \<open>Analytics\<close>

lemma map_filter_numbers: "List.map_filter (\<lambda>(k, v). case v of JNum n \<Rightarrow> Some (k, n) | _ \<Rightarrow> None) (map (\<lambda>(s, n). (s, JNum n)) b) = b"
  by (induction b) (auto simp: map_filter_simps)

lemma counters_roundtrip: "counters_of_json (counters_object t) = t"
  by (auto simp: counters_of_json_def counters_object_def bucket_of_json_def map_filter_numbers comp_def case_prod_beta intro!: map_idI)

lemma counters_wf_json: "counters_wf t \<Longrightarrow> wf_json (counters_object t)"
  by (fastforce simp: counters_object_def counters_wf_def bucket_wf_def comp_def case_prod_beta)

lemma analytics_roundtrip:
  assumes "counters_wf (an_monthlyTotals a)" and "counters_wf (an_categoryRollups a)"
  shows "decode_analytics (text_encode (json_stringify (analytics_object a))) = Inr a"
proof -
  have "wf_json (analytics_object a)" using assms counters_wf_json by (simp add: analytics_object_def)
  moreover have "is_object (counters_object t)" for t by (simp add: counters_object_def is_object_def)
  moreover have "is_object (analytics_object a)" by (simp add: analytics_object_def is_object_def)
  moreover have "json_get ''monthlyTotals'' (analytics_object a) = Some (counters_object (an_monthlyTotals a))"
    "json_get ''categoryRollups'' (analytics_object a) = Some (counters_object (an_categoryRollups a))"
    by (simp_all add: analytics_object_def json_get_def)
  ultimately show ?thesis
    by (simp add: decode_analytics_def parseAnalyticsPayload_def counters_roundtrip del: json_stringify.simps)
qed

lemma goal_analytics_read:
  assumes "goal_core c keys an v s" and "getAggregateKey c ''goal_analytics'' (km_keyStore (ds_keys s)) = Inr (Some k)"
  shows "loadAnalytics c k s = Inr an"
  using assms by (auto simp: goal_core_def loadAnalytics_def stored_analytics_def split: option.splits)

lemma updateAnalytics_ok:
  assumes "aead_ok c" and "total_cipher c" and core: "goal_core c keys an v s"
    and "an' = applyAnalyticsDeltas an (buildAnalyticsDeltas prev nxt)"
    and "counters_wf (an_monthlyTotals an')" and "counters_wf (an_categoryRollups an')"
  shows "\<exists>s'. updateAnalytics c g now prev nxt cur l s = (Inr (), s') \<and> goal_core c keys an' v s' \<and>
    ds_searchIndex s' = ds_searchIndex s"
proof -
  let ?key = "\<lambda>km. getAggregateKey c ''goal_analytics'' (km_keyStore km)"
  have keys: "keys_ok c goal_reserved keys (ds_keys s)" using core by (simp add: goal_core_def)
  obtain k km where km: "ensureKey c g ''goal_analytics'' (ds_keys s) = (Inr k, km)" "keys_ok c goal_reserved keys km"
    "?key km = Inr (Some k)" "\<And>k'. ?key (ds_keys s) = Inr (Some k') \<Longrightarrow> k = k'"
    using keys_ok_ensureKey [OF keys _ assms(1,2), of "''goal_analytics''" g] by (auto simp: goal_reserved_def)
  let ?s1 = "s\<lparr>ds_keys := km\<rparr>"
  have "stored_analytics c ?s1 = stored_analytics c s"
  proof (cases "cache_get ''goal_analytics'' ''global'' (ds_cache s)")
    case (Some row)
    then obtain k' where "?key (ds_keys s) = Inr (Some k')"
      using core by (auto simp: goal_core_def stored_analytics_def bind_result_eq_Inr split: option.splits)
    then show ?thesis using km(3,4) by (intro stored_analytics_frame) auto
  qed (simp add: stored_analytics_def)
  then have core1: "goal_core c keys an v ?s1"
    using core km(2) goal_view_frame [of ?s1 s] by (simp add: goal_core_def)
  note read = goal_analytics_read [OF core1] 
  let ?aad = "buildProjectionCacheAad ''goal_analytics'' ''global'' 1 cur"
  let ?p = "text_encode (json_stringify (analytics_object an'))"
  obtain ci where ci: "encrypt c (ks_draws (km_keyStore km)) ?p k ?aad = Inr ci"
    "seal c ?p k ?aad km = (Inr ci, km\<lparr>km_keyStore := (km_keyStore km)\<lparr>ks_draws := ks_draws (km_keyStore km) + 1\<rparr>\<rparr>)"
    using seal_run [OF assms(2)] by metis
  define row where "row = \<lparr>pc_projectionId = ''goal_analytics'', pc_scopeKey = ''global'', pc_cacheVersion = 1,
     pc_cacheEncrypted = ci, pc_ordering = EffectiveTotalOrder, pc_lastEffectiveCursor = cur,
     pc_lastCommitSequence = l, pc_writtenAt = now\<rparr>"
  define s2 where "s2 = s\<lparr>ds_keys := km\<lparr>km_keyStore := (km_keyStore km)\<lparr>ks_draws := ks_draws (km_keyStore km) + 1\<rparr>\<rparr>,
    ds_cache := cache_put row (ds_cache s), gp_analyticsCache := Some an'\<rparr>"
  have run: "updateAnalytics c g now prev nxt cur l s = (Inr (), s2)"
    using km(1) read km(3) ci(2) assms(4)
    by (simp add: updateAnalytics_def bind_io_def on_ds_keys_def saveAnalytics_def Let_def s2_def row_def del: json_stringify.simps)
  have "goal_view c keys s2 = goal_view c keys s"
    by (rule ext) (simp add: goal_view_def s2_def row_def)
  moreover have "goal_rows_ok c keys s2"
    using core by (auto simp: goal_core_def goal_rows_ok_def s2_def row_def cache_get_def cache_put_def rows.get_put cache_key_def)
  moreover have "stored_analytics c s2 = Inr an'"
    using decrypt_encrypt [OF assms(1) ci(1)] km(3) analytics_roundtrip [OF assms(5,6)]
    by (simp add: stored_analytics_def s2_def row_def getAggregateKey_def require_master_def del: json_stringify.simps)
  ultimately have "goal_core c keys an' v s2"
    using core km(2) by (simp add: goal_core_def) (simp add: s2_def)
  then show ?thesis using run by (simp add: s2_def)
qed

subsection \<open>Search index\<close>

lemma goal_core_search [simp]:
  "goal_core c keys an v (s\<lparr>ds_searchIndex := x\<rparr>) = goal_core c keys an v s"
  "goal_core c keys an v (s\<lparr>ds_indexDirty := b\<rparr>) = goal_core c keys an v s"
  by (simp_all add: goal_core_def goal_view_def goal_rows_ok_def stored_analytics_def fun_eq_iff cong: option.case_cong)

lemma applyProjectionChange_ok:
  assumes "engine_ok ms cfg ids" and "index_within ids D s"
    and "prev = None \<longrightarrow> a \<notin> D" and "\<And>i. prev = Some i \<Longrightarrow> sc_id cfg i = a" and "\<And>i. nxt = Some i \<Longrightarrow> sc_id cfg i = a"
  shows "\<exists>ix b. applyProjectionChange ms cfg prev nxt s = (Inr (), s\<lparr>ds_searchIndex := ix, ds_indexDirty := b\<rparr>) \<and>
    (\<forall>y. ix = Some y \<longrightarrow> ids y \<subseteq> insert a D)"
proof (cases "ds_searchIndex s")
  case None
  then have "applyProjectionChange ms cfg prev nxt s = (Inr (), s\<lparr>ds_searchIndex := None, ds_indexDirty := ds_indexDirty s\<rparr>)"
    by (simp add: applyProjectionChange_def)
  then show ?thesis by blast
next
  case (Some ix)
  define ix1 where "ix1 = (case prev of None \<Rightarrow> ix | Some p \<Rightarrow> (case ms_remove ms p ix of Inr ix' \<Rightarrow> ix' | Inl _ \<Rightarrow> ix))"
  have ix1: "a \<notin> ids ix1" "ids ix1 \<subseteq> insert a D"
  proof -
    have D: "ids ix \<subseteq> D" using assms(2) Some by (simp add: index_within_def)
    have rem: "case ms_remove ms i ix of Inr ix' \<Rightarrow> ids ix' = ids ix - {sc_id cfg i} | Inl _ \<Rightarrow> sc_id cfg i \<notin> ids ix" for i
      using assms(1) unfolding engine_ok_def by blast
    show "a \<notin> ids ix1" "ids ix1 \<subseteq> insert a D"
      using D assms(3,4) rem [of "the prev"] by (auto simp: ix1_def split: option.splits sum.splits)
  qed
  have add: "\<exists>ix'. ms_add ms i ix1 = Inr ix' \<and> ids ix' = insert a (ids ix1)" if "nxt = Some i" for i
    using assms(1,5) ix1(1) that unfolding engine_ok_def by metis
  show ?thesis
  proof (cases "\<exists>i. nxt = Some i \<and> sc_archivedAt cfg i = None")
    case True
    then obtain i ix' where i: "nxt = Some i" "sc_archivedAt cfg i = None" "ms_add ms i ix1 = Inr ix'" "ids ix' = insert a (ids ix1)"
      using add by blast
    then have "applyProjectionChange ms cfg prev nxt s = (Inr (), s\<lparr>ds_searchIndex := Some ix', ds_indexDirty := True\<rparr>)"
      using Some by (simp add: applyProjectionChange_def Let_def ix1_def)
    then show ?thesis using i(4) ix1(2) by blast
  next
    case False
    then have "applyProjectionChange ms cfg prev nxt s = (Inr (), s\<lparr>ds_searchIndex := Some ix1, ds_indexDirty := True\<rparr>)"
      using Some by (cases nxt) (auto simp: applyProjectionChange_def Let_def ix1_def)
    then show ?thesis using ix1(2) by blast
  qed
qed

lemma persistIndex_ok:
  assumes "keys_ok c R keys (ds_keys s)" and "sc_searchKeyId cfg \<in> R" and "aead_ok c" and "total_cipher c"
  shows "\<exists>km art b. persistIndex c ms cfg g now cur s = (Inr (), s\<lparr>ds_keys := km, ds_artifacts := art, ds_indexDirty := b\<rparr>) \<and>
    keys_ok c R keys km \<and>
    (\<forall>x. x \<noteq> sc_searchKeyId cfg \<longrightarrow> getAggregateKey c x (km_keyStore km) = getAggregateKey c x (km_keyStore (ds_keys s)))"
proof (cases "ds_searchIndex s = None \<or> \<not> ds_indexDirty s")
  case True
  then have "persistIndex c ms cfg g now cur s = (Inr (), s\<lparr>ds_keys := ds_keys s, ds_artifacts := ds_artifacts s, ds_indexDirty := ds_indexDirty s\<rparr>)"
    by (simp add: persistIndex_def bind_io_def)
  then show ?thesis using assms(1) by blast
next
  case False
  then obtain ix where ix: "ds_searchIndex s = Some ix" "ds_indexDirty s" by auto
  obtain k km where km: "ensureKey c g (sc_searchKeyId cfg) (ds_keys s) = (Inr k, km)" "keys_ok c R keys km"
    "\<forall>b. b \<noteq> sc_searchKeyId cfg \<longrightarrow> getAggregateKey c b (km_keyStore km) = getAggregateKey c b (km_keyStore (ds_keys s))"
    using keys_ok_ensureKey [OF assms] by blast
  let ?aad = "buildIndexArtifactAad (sc_indexId cfg) ''global'' 1 cur"
  let ?km = "km\<lparr>km_keyStore := (km_keyStore km)\<lparr>ks_draws := ks_draws (km_keyStore km) + 1\<rparr>\<rparr>"
  obtain ci where ci: "seal c (text_encode (ms_toJSON ms ix)) k ?aad km = (Inr ci, ?km)"
    using seal_run [OF assms(4)] by metis
  have "\<exists>art. persistIndex c ms cfg g now cur s = (Inr (), s\<lparr>ds_keys := ?km, ds_artifacts := art, ds_indexDirty := False\<rparr>)"
    using ix km(1) ci by (simp add: persistIndex_def saveSearchIndex_def bind_io_def on_ds_keys_def) blast
  moreover have "keys_ok c R keys ?km" using km(2) by simp
  moreover have "getAggregateKey c x (km_keyStore ?km) = getAggregateKey c x (km_keyStore km)" for x
    by (simp add: getAggregateKey_def require_master_def)
  ultimately show ?thesis using km(3) by metis
qed

subsection \<open>The processor\<close>

definition goal_event_of :: "crypto_port \<Rightarrow> (string \<Rightarrow> bytes option) \<Rightarrow> event_record \<Rightarrow> domain_event option" where
  "goal_event_of c keys r =
     (case keys (rec_aggregateId r) of
        None \<Rightarrow> None
      | Some k \<Rightarrow> (case toDomain c (goal_toEncryptedEvent r) k of Inl _ \<Rightarrow> None | Inr e \<Rightarrow> Some e))"

text \<open>
  An event the projection can take: the device has no key for it (it is skipped), or it decrypts
  to an event of its aggregate.
\<close>

definition goal_readable :: "crypto_port \<Rightarrow> (string \<Rightarrow> bytes option) \<Rightarrow> event_record \<Rightarrow> bool" where
  "goal_readable c keys r \<longleftrightarrow> rec_aggregateId r \<notin> goal_reserved \<and>
     (keys (rec_aggregateId r) = None \<or>
      (\<exists>e. goal_event_of c keys r = Some e \<and> em_aggregateId (ev_meta e) = rec_aggregateId r))"

definition goal_step ::
  "crypto_port \<Rightarrow> (string \<Rightarrow> bytes option) \<Rightarrow> event_record \<Rightarrow> (string \<Rightarrow> goal_snapshot_state option) \<Rightarrow>
     string \<Rightarrow> goal_snapshot_state option" where
  "goal_step c keys r v =
     (case goal_event_of c keys r of
        None \<Rightarrow> v
      | Some e \<Rightarrow> v(rec_aggregateId r := project_goal [e] (v (rec_aggregateId r))))"

lemma goal_step_event:
  assumes "goal_event_of c keys r = Some e" and "ev_payload e = GoalEvent p"
  shows "goal_step c keys r v = (case goal_next v (rec_aggregateId r) (ev_meta e) p of
     None \<Rightarrow> v | Some x \<Rightarrow> v(rec_aggregateId r \<mapsto> x))"
proof -
  let ?a = "rec_aggregateId r"
  have "v ?a = None" if "goal_next v ?a (ev_meta e) p = None"
    using that by (cases p; cases "v ?a") (auto simp: goal_next_def)
  moreover have "goal_step c keys r v = v(?a := goal_next v ?a (ev_meta e) p)"
    using assms by (simp add: goal_step_def goal_next_def)
  ultimately show ?thesis by (cases "goal_next v ?a (ev_meta e) p") (auto simp: fun_eq_iff)
qed

lemma goal_core_keys:
  assumes "goal_core c keys an v s" and "keys_ok c goal_reserved keys km"
    and "getAggregateKey c ''goal_analytics'' (km_keyStore km) = getAggregateKey c ''goal_analytics'' (km_keyStore (ds_keys s))"
  shows "goal_core c keys an v (s\<lparr>ds_keys := km\<rparr>)"
  using assms stored_analytics_frame [of "s\<lparr>ds_keys := km\<rparr>" s c] goal_view_frame [of "s\<lparr>ds_keys := km\<rparr>" s]
  by (simp add: goal_core_def)

lemma goal_resolve:
  assumes "goal_core c keys an v s" and "a \<notin> goal_reserved"
  shows "\<exists>s'. on_ds_keys (resolveKeyForEvent c derive a) s =
      ((case keys a of Some k \<Rightarrow> Inr k | None \<Rightarrow> Inl (Error ''Missing aggregate key'')), s') \<and>
    goal_core c keys an v s' \<and> ds_searchIndex s' = ds_searchIndex s"
proof -
  have "keys_ok c goal_reserved keys (ds_keys s)" using assms(1) by (simp add: goal_core_def)
  then obtain km where km: "resolveKeyForEvent c derive a (ds_keys s) =
      ((case keys a of Some k \<Rightarrow> Inr k | None \<Rightarrow> Inl (Error ''Missing aggregate key'')), km)"
      "keys_ok c goal_reserved keys km" "km_keyStore km = km_keyStore (ds_keys s)"
    using keys_ok_resolve [OF _ assms(2)] by blast
  then have "goal_core c keys an v (s\<lparr>ds_keys := km\<rparr>)" using goal_core_keys [OF assms(1)] by simp
  then show ?thesis using km(1) by (simp add: on_ds_keys_def)
qed

lemma goal_core_view: "goal_core c keys an v s \<Longrightarrow> goal_view c keys s = v"
  by (simp add: goal_core_def)

lemma goal_projection_ok_core:
  assumes "aead_ok c" and "total_cipher c" and "engine_ok ms goal_search_config ids" and "goal_core c keys an v s"
    and "analytics_counts an v" and "index_within ids (dom v) s"
  shows "goal_projection_ok c keys ms ids s \<and> goal_view c keys s = v"
  using assms goal_core_view [OF assms(4)] by (auto simp: goal_projection_ok_def)

lemma snapshotToListItem_id [simp]: "gli_id (snapshotToListItem x) = gss_id x"
  by (simp add: snapshotToListItem_def)

lemma goal_change_ok:
  assumes env: "aead_ok c" "total_cipher c" "engine_ok ms goal_search_config ids"
    and core0: "goal_core c keys an v s0" and core: "goal_core c keys an (v(a \<mapsto> x)) s"
    and counts: "analytics_counts an v" and within: "index_within ids (dom v) s"
  shows "\<exists>s'. bind_io (updateAnalytics c g now (v a) (Some x) cur l) (\<lambda>_.
      bind_io (applyProjectionChange ms goal_search_config (map_option snapshotToListItem (v a))
        (active_goal_item (Some x))) (\<lambda>_. return_io True)) s = (Inr True, s') \<and>
    goal_projection_ok c keys ms ids s' \<and> goal_view c keys s' = v(a \<mapsto> x)"
proof -
  define an' where "an' = applyAnalyticsDeltas an (buildAnalyticsDeltas (v a) (Some x))"
  have "finite (dom v)" using core0 finite_goal_view [of c keys s0] by (simp add: goal_core_def)
  then have counts': "analytics_counts an' (v(a \<mapsto> x))"
    unfolding an'_def by (rule analytics_counts_step [OF counts])
  then have cw: "counters_wf (an_monthlyTotals an')" "counters_wf (an_categoryRollups an')"
    by (simp_all add: analytics_counts_def)
  obtain s3 where s3: "updateAnalytics c g now (v a) (Some x) cur l s = (Inr (), s3)"
    "goal_core c keys an' (v(a \<mapsto> x)) s3" "ds_searchIndex s3 = ds_searchIndex s"
    using updateAnalytics_ok [OF env(1,2) core an'_def cw] by blast
  have prev: "sc_id goal_search_config i = a" if "map_option snapshotToListItem (v a) = Some i" for i
    using that goal_view_known core0 by (fastforce simp: goal_search_config_def goal_core_def)
  have "gss_id x = a" using goal_view_known [of c keys s a x] core by (simp add: goal_core_def)
  then have nxt: "sc_id goal_search_config i = a" if "active_goal_item (Some x) = Some i" for i
    using that by (auto simp: goal_search_config_def active_goal_item_def split: if_splits)
  have "index_within ids (dom v) s3" using within s3(3) by (simp add: index_within_def)
  then obtain ix b where ch: "applyProjectionChange ms goal_search_config (map_option snapshotToListItem (v a))
      (active_goal_item (Some x)) s3 = (Inr (), s3\<lparr>ds_searchIndex := ix, ds_indexDirty := b\<rparr>)"
      "\<forall>y. ix = Some y \<longrightarrow> ids y \<subseteq> insert a (dom v)"
    using applyProjectionChange_ok [OF env(3) _ _ prev nxt] by (metis domIff option.map_disc_iff)
  let ?s4 = "s3\<lparr>ds_searchIndex := ix, ds_indexDirty := b\<rparr>"
  have "index_within ids (dom (v(a \<mapsto> x))) ?s4" using ch(2) by (auto simp: index_within_def)
  then have "goal_projection_ok c keys ms ids ?s4 \<and> goal_view c keys ?s4 = v(a \<mapsto> x)"
    using goal_projection_ok_core [OF env _ counts'] s3(2) by simp
  then show ?thesis using s3(1) ch(1) by (simp add: bind_io_def)
qed

lemma goal_applies:
  assumes "goal_projection_ok c keys ms ids s" and "goal_readable c keys r"
  shows "\<exists>b s'. goal_applyEvent c derive ms gen now r cur l s = (Inr b, s') \<and> goal_projection_ok c keys ms ids s' \<and>
    goal_view c keys s' = goal_step c keys r (goal_view c keys s)"
proof -
  let ?v = "goal_view c keys s" and ?a = "rec_aggregateId r"
  obtain an where env: "aead_ok c" "total_cipher c" "engine_ok ms goal_search_config ids" "goal_core c keys an ?v s"
    "analytics_counts an ?v" "index_within ids (dom ?v) s"
    using assms(1) by (auto simp: goal_projection_ok_def)
  have a: "?a \<notin> goal_reserved" using assms(2) by (simp add: goal_readable_def)
  obtain s1 where s1: "on_ds_keys (resolveKeyForEvent c derive ?a) s =
      ((case keys ?a of Some k \<Rightarrow> Inr k | None \<Rightarrow> Inl (Error ''Missing aggregate key'')), s1)"
    "goal_core c keys an ?v s1" "ds_searchIndex s1 = ds_searchIndex s"
    using goal_resolve [OF env(4) a, of derive] by blast
  have w1: "index_within ids (dom ?v) s1" using env(6) s1(3) by (simp add: index_within_def)
  note same = goal_projection_ok_core [OF env(1-3) s1(2) env(5) w1]
  show ?thesis
  proof (cases "keys ?a")
    case None
    then have "goal_applyEvent c derive ms gen now r cur l s = (Inr False, s1)"
      using s1(1) by (simp add: goal_applyEvent_def goal_apply_body_def bind_io_def Let_def missing_key_error_def)
    moreover have "goal_step c keys r ?v = ?v" using None by (simp add: goal_step_def goal_event_of_def)
    ultimately show ?thesis using same by auto
  next
    case (Some k)
    then obtain e where e: "goal_event_of c keys r = Some e" "em_aggregateId (ev_meta e) = ?a"
      "toDomain c (goal_toEncryptedEvent r) k = Inr e"
      using assms(2) by (auto simp: goal_readable_def goal_event_of_def split: sum.splits)
    have body: "goal_apply_body c derive ms gen now r cur l s = (case ev_payload e of
        GoalEvent p \<Rightarrow>
          bind_io (goal_snapshot_applyEvent c now ?a (ev_meta e) p k cur l) (\<lambda>applied.
          if \<not> gar_changed applied \<or> gar_next applied = None then return_io False
          else
            bind_io (updateAnalytics c (gen ''goal_analytics'') now (gar_previous applied) (gar_next applied) cur l) (\<lambda>_.
            bind_io (applyProjectionChange ms goal_search_config (gar_previousItem applied) (gar_nextItem applied)) (\<lambda>_.
            return_io (gar_changed applied)))) s1
      | _ \<Rightarrow> (Inr False, s1))"
      using s1(1) Some e(3)
      by (simp add: goal_apply_body_def bind_io_def Let_def split: domain_payload.split)
    show ?thesis
    proof (cases "\<exists>p. ev_payload e = GoalEvent p")
      case False
      then have "goal_applyEvent c derive ms gen now r cur l s = (Inr False, s1)"
        using body by (cases "ev_payload e") (simp_all add: goal_applyEvent_def)
      moreover have "goal_step c keys r ?v = ?v"
        using False e(1) by (cases "ev_payload e") (auto simp: goal_step_def)
      ultimately show ?thesis using same by auto
    next
      case True
      then obtain p where p: "ev_payload e = GoalEvent p" by blast
      obtain ar s2 where ar: "goal_snapshot_applyEvent c now ?a (ev_meta e) p k cur l s1 = (Inr ar, s2)"
        "ds_searchIndex s2 = ds_searchIndex s1"
        "case goal_next ?v ?a (ev_meta e) p of None \<Rightarrow> s2 = s1 \<and> \<not> gar_changed ar
         | Some x \<Rightarrow> goal_core c keys an (?v(?a \<mapsto> x)) s2 \<and>
             ar = \<lparr>gar_changed = True, gar_previous = ?v ?a, gar_next = Some x,
               gar_previousItem = map_option snapshotToListItem (?v ?a), gar_nextItem = active_goal_item (Some x)\<rparr>"
        using goal_snapshot_applyEvent_ok [OF env(1,2) s1(2) Some a e(2)] by blast
      show ?thesis
      proof (cases "goal_next ?v ?a (ev_meta e) p")
        case None
        then have "goal_applyEvent c derive ms gen now r cur l s = (Inr False, s1)"
          using ar body p by (simp add: goal_applyEvent_def bind_io_def)
        then show ?thesis using same None goal_step_event [OF e(1) p] by auto
      next
        case (Some x)
        then have core2: "goal_core c keys an (?v(?a \<mapsto> x)) s2" using ar(3) by simp
        have w2: "index_within ids (dom ?v) s2" using w1 ar(2) by (simp add: index_within_def)
        obtain s3 where "bind_io (updateAnalytics c (gen ''goal_analytics'') now (?v ?a) (Some x) cur l) (\<lambda>_.
            bind_io (applyProjectionChange ms goal_search_config (map_option snapshotToListItem (?v ?a))
              (active_goal_item (Some x))) (\<lambda>_. return_io True)) s2 = (Inr True, s3)"
          "goal_projection_ok c keys ms ids s3" "goal_view c keys s3 = ?v(?a \<mapsto> x)"
          using goal_change_ok [OF env(1-3,4) core2 env(5) w2] by blast
        moreover from this have "goal_applyEvent c derive ms gen now r cur l s = (Inr True, s3)"
          using ar(1,3) body p Some by (simp add: goal_applyEvent_def bind_io_step(1))
        ultimately show ?thesis using goal_step_event [OF e(1) p] Some by auto
      qed
    qed
  qed
qed

lemma goal_completes:
  assumes "goal_projection_ok c keys ms ids s"
  shows "\<exists>s'. persistIndex c ms goal_search_config g now cur s = (Inr (), s') \<and> goal_projection_ok c keys ms ids s' \<and>
    goal_view c keys s' = goal_view c keys s"
proof -
  obtain an where env: "aead_ok c" "total_cipher c" "engine_ok ms goal_search_config ids"
    "goal_core c keys an (goal_view c keys s) s" "analytics_counts an (goal_view c keys s)"
    "index_within ids (dom (goal_view c keys s)) s"
    using assms by (auto simp: goal_projection_ok_def)
  have keys: "keys_ok c goal_reserved keys (ds_keys s)" using env(4) by (simp add: goal_core_def)
  obtain km art b where run: "persistIndex c ms goal_search_config g now cur s =
      (Inr (), s\<lparr>ds_keys := km, ds_artifacts := art, ds_indexDirty := b\<rparr>)" "keys_ok c goal_reserved keys km"
      "\<forall>x. x \<noteq> sc_searchKeyId goal_search_config \<longrightarrow>
         getAggregateKey c x (km_keyStore km) = getAggregateKey c x (km_keyStore (ds_keys s))"
    using persistIndex_ok [OF keys _ env(1,2), of goal_search_config ms g now cur]
    by (auto simp: goal_search_config_def goal_reserved_def)
  have "goal_core c keys an (goal_view c keys s) (s\<lparr>ds_keys := km\<rparr>)"
    using run(2,3) by (intro goal_core_keys [OF env(4)]) (auto simp: goal_search_config_def)
  then have "goal_core c keys an (goal_view c keys s) (s\<lparr>ds_keys := km, ds_artifacts := art, ds_indexDirty := b\<rparr>)"
    by (simp add: goal_core_def goal_view_def goal_rows_ok_def stored_analytics_def fun_eq_iff cong: option.case_cong)
  then show ?thesis
    using goal_projection_ok_core [OF env(1-3) _ env(5)] env(6) run(1) by (fastforce simp: index_within_def)
qed

lemma goal_resets:
  assumes "goal_projection_ok c keys ms ids s"
  shows "\<exists>s'. goal_reset s = (Inr (), s') \<and> goal_projection_ok c keys ms ids s' \<and> goal_view c keys s' = (\<lambda>_. None)"
proof -
  define s' where "s' = snd (goal_reset s)"
  have s': "ds_keys s' = ds_keys s" "ds_snapshots s' = []" "ds_projections s' = []" "gp_analyticsCache s' = None"
    "ds_searchIndex s' = None" "goal_reset s = (Inr (), s')"
    "ds_cache s' = cache_remove ''goal_analytics'' ''global'' (cache_removeAll ''goal_snapshot'' (ds_cache s))"
    by (simp_all add: s'_def goal_reset_def bind_io_def search_reset_def search_clearPersisted_def)
  have env: "aead_ok c" "total_cipher c" "engine_ok ms goal_search_config ids"
    "keys_ok c goal_reserved keys (ds_keys s)" "distinct (map cache_key (ds_cache s))"
    using assms by (auto simp: goal_projection_ok_def goal_core_def goal_rows_ok_def)
  have d: "distinct (map cache_key (ds_cache s'))"
    using env(5) unfolding s'(7) cache_remove_def cache_removeAll_def
    by (intro delete_distinct) (simp add: distinct_map_filter)
  have v: "goal_view c keys s' = (\<lambda>_. None)" by (simp add: goal_view_def s'(7) fun_eq_iff)
  have "goal_core c keys createEmptyAnalytics (\<lambda>_. None) s'"
    using env(4) v d s' by (simp add: goal_core_def goal_rows_ok_def stored_analytics_def active_goal_item_def fun_eq_iff)
  then show ?thesis
    using goal_projection_ok_core [OF env(1-3) _ analytics_counts_empty] s'(5,6) by (simp add: index_within_def)
qed

lemma goal_bootstrap_rows:
  assumes "keys_ok c goal_reserved keys (ds_keys s)"
    and "\<forall>row \<in> set rs. pc_scopeKey row \<notin> goal_reserved \<and>
      (\<exists>k x. keys (pc_scopeKey row) = Some k \<and> goal_row_snapshot c k row = Inr x \<and> v (pc_scopeKey row) = Some x)"
  shows "\<exists>S P. foreach_io (goal_bootstrap_row c) rs s = (Inr (), s\<lparr>ds_snapshots := S, ds_projections := P\<rparr>) \<and>
    (\<forall>a. map_of S a = (if a \<in> pc_scopeKey ` set rs \<and> active_goal_item (v a) \<noteq> None then v a else map_of (ds_snapshots s) a)) \<and>
    (\<forall>a. map_of P a = (if a \<in> pc_scopeKey ` set rs \<and> active_goal_item (v a) \<noteq> None then active_goal_item (v a)
       else map_of (ds_projections s) a))"
  using assms
proof (induction rs arbitrary: s)
  case Nil
  then show ?case by (auto intro!: exI [of _ "ds_snapshots s"] exI [of _ "ds_projections s"])
next
  case (Cons row rs)
  let ?a = "pc_scopeKey row"
  obtain k x where row: "keys ?a = Some k" "goal_row_snapshot c k row = Inr x" "v ?a = Some x" "?a \<notin> goal_reserved"
    using Cons.prems(2) by auto
  then have key: "getAggregateKey c ?a (km_keyStore (ds_keys s)) = Inr (Some k)"
    using Cons.prems(1) by (auto simp: keys_ok_def)
  define s1 where "s1 = (if gss_archivedAt x \<noteq> None then s
     else s\<lparr>ds_snapshots := AList.update ?a x (ds_snapshots s),
            ds_projections := AList.update ?a (snapshotToListItem x) (ds_projections s)\<rparr>)"
  have run: "goal_bootstrap_row c row s = (Inr (), s1)"
    using key row(2) by (simp add: goal_bootstrap_row_def bind_io_def on_ds_keys_def km_getAggregateKey_def s1_def)
  have "ds_keys s1 = ds_keys s" by (simp add: s1_def)
  then obtain S P where SP: "foreach_io (goal_bootstrap_row c) rs s1 = (Inr (), s1\<lparr>ds_snapshots := S, ds_projections := P\<rparr>)"
    "\<And>a. map_of S a = (if a \<in> pc_scopeKey ` set rs \<and> active_goal_item (v a) \<noteq> None then v a else map_of (ds_snapshots s1) a)"
    "\<And>a. map_of P a = (if a \<in> pc_scopeKey ` set rs \<and> active_goal_item (v a) \<noteq> None then active_goal_item (v a)
       else map_of (ds_projections s1) a)"
    using Cons.IH [of s1] Cons.prems by auto
  have "s1\<lparr>ds_snapshots := S, ds_projections := P\<rparr> = s\<lparr>ds_snapshots := S, ds_projections := P\<rparr>" by (simp add: s1_def)
  then have "foreach_io (goal_bootstrap_row c) (row # rs) s = (Inr (), s\<lparr>ds_snapshots := S, ds_projections := P\<rparr>)"
    using run SP(1) by (simp add: bind_io_def)
  then show ?case using SP(2,3) row(3)
    by (intro exI [of _ S] exI [of _ P]) (auto simp: s1_def update_conv' active_goal_item_def)
qed

lemma goal_bootstraps:
  assumes "goal_cold c keys ms ids s"
  shows "\<exists>s'. goal_bootstrapFromCache c s = (Inr (), s') \<and> goal_projection_ok c keys ms ids s' \<and>
    goal_view c keys s' = goal_view c keys s"
proof -
  obtain an where env: "aead_ok c" "total_cipher c" "engine_ok ms goal_search_config ids"
    "keys_ok c goal_reserved keys (ds_keys s)" "goal_rows_ok c keys s" "stored_analytics c s = Inr an"
    "analytics_counts an (goal_view c keys s)" "ds_snapshots s = []" "ds_projections s = []"
    "gp_analyticsCache s = None" "ds_searchIndex s = None"
    using assms by (auto simp: goal_cold_def)
  let ?v = "goal_view c keys s" and ?rs = "cache_listByProjection ''goal_snapshot'' (ds_cache s)"
  have get: "cache_get ''goal_snapshot'' (pc_scopeKey row) (ds_cache s) = Some row" if "row \<in> set ?rs" for row
    using that env(5) select_member [of cache_key "ds_cache s" row]
    by (auto simp: cache_get_def cache_listByProjection_def goal_rows_ok_def cache_key_def)
  have "\<forall>row \<in> set ?rs. pc_scopeKey row \<notin> goal_reserved \<and>
      (\<exists>k x. keys (pc_scopeKey row) = Some k \<and> goal_row_snapshot c k row = Inr x \<and> ?v (pc_scopeKey row) = Some x)"
    using get env(5) by (fastforce simp: goal_rows_ok_def goal_view_def)
  then obtain S P where SP: "foreach_io (goal_bootstrap_row c) ?rs s = (Inr (), s\<lparr>ds_snapshots := S, ds_projections := P\<rparr>)"
    "\<And>a. map_of S a = (if a \<in> pc_scopeKey ` set ?rs \<and> active_goal_item (?v a) \<noteq> None then ?v a else None)"
    "\<And>a. map_of P a = (if a \<in> pc_scopeKey ` set ?rs \<and> active_goal_item (?v a) \<noteq> None then active_goal_item (?v a) else None)"
    using goal_bootstrap_rows [OF env(4), of ?rs ?v] unfolding env(8,9) map_of.simps by metis
  have "a \<in> pc_scopeKey ` set ?rs" if "?v a \<noteq> None" for a
    using that by (force simp: goal_view_def cache_get_def cache_listByProjection_def cache_key_def
        dest: select_in select_key split: option.splits)
  then have "map_of P = (\<lambda>a. active_goal_item (?v a))"
    using SP(3) by (auto simp: fun_eq_iff active_goal_item_def split: option.splits)
  then have "goal_core c keys an ?v (s\<lparr>ds_snapshots := S, ds_projections := P\<rparr>)"
    using env(4-6,10) SP(2)
    by (auto simp: goal_core_def goal_view_def goal_rows_ok_def stored_analytics_def fun_eq_iff cong: option.case_cong split: if_splits)
  then show ?thesis
    using goal_projection_ok_core [OF env(1-3) _ env(7)] SP(1) env(11)
    by (auto simp: goal_bootstrapFromCache_def bind_io_def index_within_def)
qed

text \<open>A restart finds what was stored.\<close>

lemma goal_restart_cold:
  assumes "goal_projection_ok c keys ms ids s"
  shows "goal_cold c keys ms ids (goal_restart s)" and "goal_view c keys (goal_restart s) = goal_view c keys s"
proof -
  show v: "goal_view c keys (goal_restart s) = goal_view c keys s"
    by (rule goal_view_frame) (simp add: goal_restart_def)
  have "goal_rows_ok c keys (goal_restart s) = goal_rows_ok c keys s" "stored_analytics c (goal_restart s) = stored_analytics c s"
    by (simp_all add: goal_rows_ok_def stored_analytics_def goal_restart_def cong: option.case_cong)
  then show "goal_cold c keys ms ids (goal_restart s)"
    using assms v by (auto simp: goal_cold_def goal_projection_ok_def goal_core_def) (simp_all add: goal_restart_def)
qed

interpretation goal_reads: projection "goal_processor c derive ms gen now" "goal_cold c keys ms ids"
    "goal_projection_ok c keys ms ids" "goal_view c keys" "goal_step c keys" "\<lambda>_. None" "goal_readable c keys"
  for c derive ms gen now keys ids
proof
  fix s :: "'a goal_projection" and r cur l f m b
  show "goal_cold c keys ms ids s \<Longrightarrow> \<exists>s'. pr_bootstrap (goal_processor c derive ms gen now) cur l s = (Inr (), s') \<and>
      goal_projection_ok c keys ms ids s' \<and> goal_view c keys s' = goal_view c keys s"
    by (simp add: goal_processor_def goal_bootstraps)
  show "goal_projection_ok c keys ms ids s \<Longrightarrow> goal_readable c keys r \<Longrightarrow>
      \<exists>b s'. pr_applyEvent (goal_processor c derive ms gen now) r cur l s = (Inr b, s') \<and>
        goal_projection_ok c keys ms ids s' \<and> goal_view c keys s' = goal_step c keys r (goal_view c keys s)"
    by (simp add: goal_processor_def goal_applies)
  show "goal_projection_ok c keys ms ids s \<Longrightarrow> pr_onBatchComplete (goal_processor c derive ms gen now) = Some f \<Longrightarrow>
      \<exists>s'. f m b cur l s = (Inr (), s') \<and> goal_projection_ok c keys ms ids s' \<and> goal_view c keys s' = goal_view c keys s"
    by (auto simp: goal_processor_def intro: goal_completes)
  show "goal_projection_ok c keys ms ids s \<Longrightarrow> \<exists>s'. pr_reset (goal_processor c derive ms gen now) s = (Inr (), s') \<and>
      goal_projection_ok c keys ms ids s' \<and> goal_view c keys s' = (\<lambda>_. None)"
    by (simp add: goal_processor_def goal_resets)
qed

end
