(* ===== verification/ProjectReadState.thy ===== *)
theory ProjectReadState
  imports Snapshots "HOL-Library.AList"
begin

text \<open>
  The pure part of the project read model: packages/infrastructure/src/projects/projections/model/ProjectProjectionState.ts
  and the index from goals to projects of projects/derived-state/ProjectSnapshotProjector.ts. A
  \<open>Map\<close> is an association list and a \<open>Set\<close> a list without duplicates, both in insertion order.
\<close>

record project_list_item =
  pli_id :: string
  pli_name :: string
  pli_status :: project_status
  pli_startDate :: string
  pli_targetDate :: string
  pli_description :: string
  pli_goalId :: "string option"
  pli_milestones :: "milestone list"
  pli_createdAt :: int
  pli_updatedAt :: int
  pli_archivedAt :: "int option"
  pli_version :: int

definition isProjectEvent :: "domain_event \<Rightarrow> bool" where
  "isProjectEvent e \<longleftrightarrow> (case ev_payload e of ProjectEvent _ \<Rightarrow> True | _ \<Rightarrow> False)"

definition map_milestone :: "string \<Rightarrow> (milestone \<Rightarrow> milestone) \<Rightarrow> milestone list \<Rightarrow> milestone list" where
  "map_milestone i f ms = map (\<lambda>m. if ms_id m = i then f m else m) ms"

fun applyProjectEventToSnapshot ::
  "project_snapshot_state option \<Rightarrow> event_metadata \<Rightarrow> project_payload \<Rightarrow> int \<Rightarrow> project_snapshot_state option" where
  "applyProjectEventToSnapshot sn m (ProjectCreated nm st sd td de gl cb) version =
     Some \<lparr>pss_id = em_aggregateId m, pss_name = nm, pss_status = st, pss_startDate = sd, pss_targetDate = td,
       pss_description = de, pss_goalId = gl, pss_milestones = [], pss_createdBy = cb,
       pss_createdAt = em_occurredAt m, pss_updatedAt = em_occurredAt m, pss_archivedAt = None,
       pss_version = version\<rparr>"
| "applyProjectEventToSnapshot None m p version = None"
| "applyProjectEventToSnapshot (Some s) m (ProjectStatusTransitioned st) version =
     Some (s\<lparr>pss_status := st, pss_updatedAt := em_occurredAt m, pss_version := version\<rparr>)"
| "applyProjectEventToSnapshot (Some s) m (ProjectRescheduled sd td) version =
     Some (s\<lparr>pss_startDate := sd, pss_targetDate := td, pss_updatedAt := em_occurredAt m, pss_version := version\<rparr>)"
| "applyProjectEventToSnapshot (Some s) m (ProjectRenamed nm) version =
     Some (s\<lparr>pss_name := nm, pss_updatedAt := em_occurredAt m, pss_version := version\<rparr>)"
| "applyProjectEventToSnapshot (Some s) m (ProjectDescribed de) version =
     Some (s\<lparr>pss_description := de, pss_updatedAt := em_occurredAt m, pss_version := version\<rparr>)"
| "applyProjectEventToSnapshot (Some s) m (ProjectGoalAdded gl) version =
     Some (s\<lparr>pss_goalId := Some gl, pss_updatedAt := em_occurredAt m, pss_version := version\<rparr>)"
| "applyProjectEventToSnapshot (Some s) m ProjectGoalRemoved version =
     Some (s\<lparr>pss_goalId := None, pss_updatedAt := em_occurredAt m, pss_version := version\<rparr>)"
| "applyProjectEventToSnapshot (Some s) m (ProjectMilestoneAdded i nm td) version =
     Some (s\<lparr>pss_milestones := pss_milestones s @ [\<lparr>ms_id = i, ms_name = nm, ms_targetDate = td\<rparr>],
       pss_updatedAt := em_occurredAt m, pss_version := version\<rparr>)"
| "applyProjectEventToSnapshot (Some s) m (ProjectMilestoneRescheduled i td) version =
     Some (s\<lparr>pss_milestones := map_milestone i (ms_targetDate_update (\<lambda>_. td)) (pss_milestones s),
       pss_updatedAt := em_occurredAt m, pss_version := version\<rparr>)"
| "applyProjectEventToSnapshot (Some s) m (ProjectMilestoneRenamed i nm) version =
     Some (s\<lparr>pss_milestones := map_milestone i (ms_name_update (\<lambda>_. nm)) (pss_milestones s),
       pss_updatedAt := em_occurredAt m, pss_version := version\<rparr>)"
| "applyProjectEventToSnapshot (Some s) m (ProjectMilestoneArchived i) version =
     Some (s\<lparr>pss_milestones := filter (\<lambda>x. ms_id x \<noteq> i) (pss_milestones s),
       pss_updatedAt := em_occurredAt m, pss_version := version\<rparr>)"
| "applyProjectEventToSnapshot (Some s) m ProjectArchived version =
     Some (s\<lparr>pss_archivedAt := Some (em_occurredAt m), pss_updatedAt := em_occurredAt m, pss_version := version\<rparr>)"

definition projectSnapshotToListItem :: "project_snapshot_state \<Rightarrow> project_list_item" where
  "projectSnapshotToListItem s =
     \<lparr>pli_id = pss_id s, pli_name = pss_name s, pli_status = pss_status s, pli_startDate = pss_startDate s,
      pli_targetDate = pss_targetDate s, pli_description = pss_description s, pli_goalId = pss_goalId s,
      pli_milestones = pss_milestones s, pli_createdAt = pss_createdAt s, pli_updatedAt = pss_updatedAt s,
      pli_archivedAt = pss_archivedAt s, pli_version = pss_version s\<rparr>"

subsection \<open>The index from goals to projects\<close>

type_synonym goal_index = "(string \<times> string list) list"

definition set_add :: "'a \<Rightarrow> 'a list \<Rightarrow> 'a list" where
  "set_add x xs = (if x \<in> set xs then xs else xs @ [x])"

text \<open>The empty identifier is falsy.\<close>

definition indexGoal :: "string option \<Rightarrow> string \<Rightarrow> goal_index \<Rightarrow> goal_index" where
  "indexGoal goalId projectId idx =
     (case goalId of
        None \<Rightarrow> idx
      | Some g \<Rightarrow>
          if g = [] then idx
          else AList.update g (set_add projectId (case map_of idx g of None \<Rightarrow> [] | Some ids \<Rightarrow> ids)) idx)"

definition unindexGoal :: "string option \<Rightarrow> string \<Rightarrow> goal_index \<Rightarrow> goal_index" where
  "unindexGoal goalId projectId idx =
     (case goalId of
        None \<Rightarrow> idx
      | Some g \<Rightarrow>
          if g = [] then idx
          else (case map_of idx g of
                  None \<Rightarrow> idx
                | Some ids \<Rightarrow>
                    let ids' = removeAll projectId ids in
                    if ids' = [] then AList.delete g idx else AList.update g ids' idx))"

definition reindexGoal ::
  "project_snapshot_state option \<Rightarrow> project_list_item option \<Rightarrow> goal_index \<Rightarrow> goal_index" where
  "reindexGoal previous nextItem idx =
     (let prevActive = (case previous of Some p \<Rightarrow> pss_archivedAt p = None | None \<Rightarrow> False);
          nextActive = (case nextItem of Some n \<Rightarrow> pli_archivedAt n = None | None \<Rightarrow> False) in
      if prevActive \<and> nextActive \<and> pss_goalId (the previous) = pli_goalId (the nextItem) then idx
      else
        let idx1 = (if prevActive then unindexGoal (pss_goalId (the previous)) (pss_id (the previous)) idx else idx) in
        if nextActive then indexGoal (pli_goalId (the nextItem)) (pli_id (the nextItem)) idx1 else idx1)"

subsection \<open>The snapshot of a history is the state of the aggregate\<close>

fun project_project :: "domain_event list \<Rightarrow> project_snapshot_state option \<Rightarrow> project_snapshot_state option" where
  "project_project [] s = s"
| "project_project (e # es) s =
     project_project es (case ev_payload e of
       ProjectEvent p \<Rightarrow>
         applyProjectEventToSnapshot s (ev_meta e) p (case s of None \<Rightarrow> 1 | Some x \<Rightarrow> pss_version x + 1)
     | _ \<Rightarrow> s)"

definition project_snapshot_of :: "project \<Rightarrow> project_snapshot_state option" where
  "project_snapshot_of p =
     (let s = ag_state p in
      case (p_name s, p_status s, p_startDate s, p_targetDate s, p_description s, p_createdBy s, p_createdAt s, p_updatedAt s) of
        (Some nm, Some st, Some sd, Some td, Some de, Some cb, Some ca, Some ua) \<Rightarrow>
          Some \<lparr>pss_id = ag_id p, pss_name = nm, pss_status = st, pss_startDate = sd, pss_targetDate = td,
            pss_description = de, pss_goalId = p_goalId s, pss_milestones = p_milestones s, pss_createdBy = cb,
            pss_createdAt = ca, pss_updatedAt = ua, pss_archivedAt = p_archivedAt s, pss_version = ag_version p\<rparr>
      | _ \<Rightarrow> None)"

definition is_project_creation :: "domain_event \<Rightarrow> bool" where
  "is_project_creation e \<longleftrightarrow> (case ev_payload e of ProjectEvent (ProjectCreated _ _ _ _ _ _ _) \<Rightarrow> True | _ \<Rightarrow> False)"

text \<open>The aggregate changes the first milestone with the id, the projection all of them.\<close>

lemma update_first_map_milestone:
  "distinct (map ms_id ms) \<Longrightarrow> update_first i f ms = map_milestone i f ms"
proof (induction ms)
  case (Cons m ms)
  have "map (\<lambda>x. if ms_id x = ms_id m then f x else x) ms = ms"
    using Cons.prems by (intro map_idI) (auto simp: image_iff)
  then show ?case using Cons by (auto simp: map_milestone_def)
qed (simp add: map_milestone_def)

lemma project_snapshot_of_commit [simp]: "project_snapshot_of (markEventsAsCommitted p) = project_snapshot_of p"
  by (simp add: project_snapshot_of_def markEventsAsCommitted_def Let_def split: option.split)

text \<open>The milestones a history adds; an aggregate never adds the same id twice.\<close>

definition added_milestones :: "domain_event list \<Rightarrow> string list" where
  "added_milestones es =
     List.map_filter (\<lambda>e. case ev_payload e of ProjectEvent (ProjectMilestoneAdded i _ _) \<Rightarrow> Some i | _ \<Rightarrow> None) es"

definition fresh_milestones :: "domain_event list \<Rightarrow> milestone list \<Rightarrow> bool" where
  "fresh_milestones es ms \<longleftrightarrow> distinct (map ms_id ms @ added_milestones es)"

lemma added_milestones_Cons:
  "added_milestones (e # es) =
     (case ev_payload e of ProjectEvent (ProjectMilestoneAdded i _ _) \<Rightarrow> i # added_milestones es | _ \<Rightarrow> added_milestones es)"
  by (simp add: added_milestones_def map_filter_simps split: domain_payload.split project_payload.split)

lemma map_milestone_ids [simp]:
  "map ms_id (map_milestone i (ms_targetDate_update f) ms) = map ms_id ms"
  "map ms_id (map_milestone i (ms_name_update g) ms) = map ms_id ms"
  by (simp_all add: map_milestone_def)

lemma in_filtered_ids: "i \<in> set (map ms_id (filter P ms)) \<Longrightarrow> i \<in> set (map ms_id ms)"
  by auto

lemma project_snapshot_step:
  assumes "project_snapshot_of p = Some s" and "load_event project_handle e p = Inr p'" and "\<not> is_project_creation e"
    and "fresh_milestones (e # es) (pss_milestones s)"
  shows "\<exists>x s'. ev_payload e = ProjectEvent x \<and>
    applyProjectEventToSnapshot (Some s) (ev_meta e) x (pss_version s + 1) = Some s' \<and>
    project_snapshot_of p' = Some s' \<and> fresh_milestones es (pss_milestones s')"
proof -
  obtain x st where x: "ev_payload e = ProjectEvent x" "on_project (ev_meta e) x (ag_state p) = Inr st"
    "p' = p\<lparr>ag_state := st, ag_version := ag_version p + 1\<rparr>"
    using assms(2)
    by (auto simp: load_event_def project_handle_def bind_result_eq_Inr split: domain_payload.splits)
  have d: "distinct (map ms_id (p_milestones (ag_state p)))"
    using assms(1,4) by (auto simp: project_snapshot_of_def fresh_milestones_def Let_def split: option.splits)
  have "\<exists>s'. applyProjectEventToSnapshot (Some s) (ev_meta e) x (pss_version s + 1) = Some s' \<and>
      project_snapshot_of p' = Some s'"
    using assms(1,3) x d
    by (cases x) (auto simp: project_snapshot_of_def is_project_creation_def Let_def bind_result_eq_Inr
        update_first_map_milestone split: option.splits)
  then obtain s' where s': "applyProjectEventToSnapshot (Some s) (ev_meta e) x (pss_version s + 1) = Some s'"
    "project_snapshot_of p' = Some s'" by blast
  have "fresh_milestones es (pss_milestones s')"
    using s'(1) assms(3,4) x(1)
    by (cases x) (auto simp: fresh_milestones_def added_milestones_Cons is_project_creation_def disjoint_iff
        intro: distinct_map_filter simp del: set_map dest!: in_filtered_ids)
  then show ?thesis using x(1) s' by blast
qed

lemma project_project_tail:
  assumes "project_snapshot_of p = Some s" and "loadFromHistory project_handle es p = Inr p'"
    and "\<forall>e \<in> set es. \<not> is_project_creation e" and "fresh_milestones es (pss_milestones s)"
  shows "project_project es (Some s) = project_snapshot_of p' \<and> project_snapshot_of p' \<noteq> None"
  using assms
proof (induction es arbitrary: p s)
  case (Cons e es)
  obtain p1 where p1: "load_event project_handle e p = Inr p1" "loadFromHistory project_handle es p1 = Inr p'"
    using Cons.prems(2) by (auto simp: loadFromHistory_def split: sum.splits)
  obtain x s' where x: "ev_payload e = ProjectEvent x"
    "applyProjectEventToSnapshot (Some s) (ev_meta e) x (pss_version s + 1) = Some s'"
    "project_snapshot_of p1 = Some s'" "fresh_milestones es (pss_milestones s')"
    using project_snapshot_step [OF Cons.prems(1) p1(1) _ Cons.prems(4)] Cons.prems(3) by auto
  have "project_project es (Some s') = project_snapshot_of p' \<and> project_snapshot_of p' \<noteq> None"
    using Cons.IH [OF x(3) p1(2) _ x(4)] Cons.prems(3) by simp
  then show ?case using x(1,2) by simp
qed simp

lemma project_project_replay:
  assumes "Project_reconstitute i (e # es) = Inr p" and "is_project_creation e" and "em_aggregateId (ev_meta e) = i"
    and "\<forall>x \<in> set es. \<not> is_project_creation x" and "distinct (added_milestones es)"
  shows "project_project (e # es) None = project_snapshot_of p \<and> project_snapshot_of p \<noteq> None"
proof -
  obtain nm st sd td de gl cb where x: "ev_payload e = ProjectEvent (ProjectCreated nm st sd td de gl cb)"
    using assms(2) by (auto simp: is_project_creation_def split: domain_payload.splits project_payload.splits)
  obtain p1 p2 where p: "load_event project_handle e (ar_new i new_project_state) = Inr p1"
    "loadFromHistory project_handle es p1 = Inr p2" "p = markEventsAsCommitted p2"
    using assms(1) by (auto simp: Project_reconstitute_def ar_reconstitute_def loadFromHistory_def bind_result_eq_Inr
        split: sum.splits)
  have "project_snapshot_of p1 = applyProjectEventToSnapshot None (ev_meta e) (ProjectCreated nm st sd td de gl cb) 1"
    using p(1) x assms(3)
    by (auto simp: load_event_def project_handle_def project_snapshot_of_def ar_new_def new_project_state_def)
  then show ?thesis
    using project_project_tail [OF _ p(2) assms(4)] assms(5) x p(3) by (simp add: fresh_milestones_def)
qed

subsection \<open>The index is exact\<close>

definition indexed :: "goal_index \<Rightarrow> string \<Rightarrow> string set" where
  "indexed idx g = (case map_of idx g of None \<Rightarrow> {} | Some ids \<Rightarrow> set ids)"

text \<open>What the index should say: the active projects that name the goal.\<close>

definition goal_of :: "project_snapshot_state option \<Rightarrow> string option" where
  "goal_of s =
     (case s of
        None \<Rightarrow> None
      | Some x \<Rightarrow> if pss_archivedAt x = None \<and> pss_goalId x \<noteq> Some [] then pss_goalId x else None)"

definition index_ok :: "goal_index \<Rightarrow> (string \<Rightarrow> project_snapshot_state option) \<Rightarrow> bool" where
  "index_ok idx v \<longleftrightarrow> distinct (map fst idx) \<and> (\<forall>x \<in> set idx. distinct (snd x)) \<and>
     (\<forall>g. indexed idx g = {p. goal_of (v p) = Some g})"

lemma set_update_alist: "x \<in> set (AList.update k v xs) \<Longrightarrow> x = (k, v) \<or> x \<in> set xs"
  by (induction xs) (auto split: if_splits)

lemma set_delete_alist: "x \<in> set (AList.delete k xs) \<Longrightarrow> x \<in> set xs"
  by (auto simp: AList.delete_eq)

lemma indexGoal_indexed:
  "indexed (indexGoal gl p idx) g =
     indexed idx g \<union> (if gl = Some g \<and> g \<noteq> [] then {p} else {})"
  by (auto simp: indexGoal_def indexed_def update_conv' set_add_def split: option.split if_splits)

lemma unindexGoal_indexed:
  "indexed (unindexGoal gl p idx) g = indexed idx g - (if gl = Some g \<and> g \<noteq> [] then {p} else {})"
proof -
  have "removeAll p ids = [] \<Longrightarrow> set ids - {p} = {}" for ids by (metis empty_set set_removeAll)
  then show ?thesis
    by (cases "map_of idx (the gl)")
      (auto simp: unindexGoal_def indexed_def update_conv' delete_conv' Let_def split: option.split if_splits)
qed

definition index_wf :: "goal_index \<Rightarrow> bool" where
  "index_wf idx \<longleftrightarrow> distinct (map fst idx) \<and> (\<forall>x \<in> set idx. distinct (snd x))"

lemma index_wf_indexGoal: "index_wf idx \<Longrightarrow> index_wf (indexGoal gl p idx)"
  using map_of_SomeD
  by (fastforce simp: index_wf_def indexGoal_def distinct_update set_add_def split: option.split dest!: set_update_alist)

lemma index_wf_unindexGoal: "index_wf idx \<Longrightarrow> index_wf (unindexGoal gl p idx)"
  using map_of_SomeD
  by (fastforce simp: index_wf_def unindexGoal_def Let_def distinct_update AList.delete_eq distinct_map_filter
      distinct_removeAll split: option.split dest!: set_update_alist set_delete_alist)

lemma index_ok_iff: "index_ok idx v \<longleftrightarrow> index_wf idx \<and> (\<forall>g. indexed idx g = {p. goal_of (v p) = Some g})"
  by (auto simp: index_ok_def index_wf_def)

text \<open>The item the projector passes: none when the next snapshot is archived.\<close>

definition active_item :: "project_snapshot_state \<Rightarrow> project_list_item option" where
  "active_item s = (if pss_archivedAt s = None then Some (projectSnapshotToListItem s) else None)"

lemma reindexGoal_ok:
  assumes "index_ok idx v" and "case v a of None \<Rightarrow> True | Some x \<Rightarrow> pss_id x = a" and "pss_id s = a"
  shows "index_ok (reindexGoal (v a) (active_item s) idx) (v(a \<mapsto> s))"
proof -
  define idx1 where "idx1 = (case v a of
      Some p \<Rightarrow> if pss_archivedAt p = None then unindexGoal (pss_goalId p) a idx else idx | None \<Rightarrow> idx)"
  define idx2 where "idx2 = (if pss_archivedAt s = None then indexGoal (pss_goalId s) a idx1 else idx1)"
  have wf: "index_wf idx1" "index_wf idx2"
    using assms(1) by (auto simp: idx1_def idx2_def index_ok_iff index_wf_unindexGoal index_wf_indexGoal split: option.split)
  have 1: "indexed idx1 g = {p. goal_of (v p) = Some g} - {a}" for g
    using assms(1) by (auto simp: idx1_def index_ok_iff unindexGoal_indexed goal_of_def split: option.splits if_splits)
  have 2: "indexed idx2 g = {p. goal_of ((v(a \<mapsto> s)) p) = Some g}" for g
    using 1 by (auto simp: idx2_def indexGoal_indexed goal_of_def split: if_splits)
  show ?thesis
  proof (cases "\<exists>p. v a = Some p \<and> pss_archivedAt p = None \<and> pss_archivedAt s = None \<and> pss_goalId p = pss_goalId s")
    case True
    then have "reindexGoal (v a) (active_item s) idx = idx"
      by (auto simp: reindexGoal_def active_item_def projectSnapshotToListItem_def)
    moreover have "goal_of ((v(a \<mapsto> s)) p) = goal_of (v p)" for p using True by (auto simp: goal_of_def)
    ultimately show ?thesis using assms(1) by (simp add: index_ok_iff)
  next
    case False
    then have "reindexGoal (v a) (active_item s) idx = idx2"
      using assms(2,3)
      by (auto simp: reindexGoal_def active_item_def projectSnapshotToListItem_def idx1_def idx2_def Let_def
          split: option.splits if_splits)
    then show ?thesis using wf 2 by (simp add: index_ok_iff)
  qed
qed

lemma index_ok_empty: "index_ok [] (\<lambda>_. None)"
  by (simp add: index_ok_def indexed_def goal_of_def)

end
