(* ===== verification/ProjectProjection.thy ===== *)
theory ProjectProjection
  imports ProjectReadState SearchProjector ProjectionRuntime EventStore
begin

text \<open>
  The project projection: packages/infrastructure/src/projects/derived-state (ProjectSnapshotProjector.ts,
  ProjectSearchProjector.ts, ProjectProjectionProcessor.ts) and projects/ProjectReadModel.ts. It is built like
  the goal projection, without analytics and with the index from goals to projects. Its events
  are decoded by \<open>decodeProjectSnapshotState\<close>, which trims the author of a project.
\<close>

record 'x project_projection = "(project_list_item, project_snapshot_state, 'x) derived_state" +
  pp_goalIndex :: goal_index

definition project_search_config :: "project_list_item search_config" where
  "project_search_config =
     \<lparr>sc_indexId = ''project_search'', sc_searchKeyId = ''project_search_index'', sc_id = pli_id,
      sc_archivedAt = pli_archivedAt, sc_createdAt = pli_createdAt\<rparr>"

subsection \<open>ProjectSnapshotProjector\<close>

record project_apply_result =
  par_changed :: bool
  par_previous :: "project_snapshot_state option"
  par_next :: "project_snapshot_state option"
  par_previousItem :: "project_list_item option"
  par_nextItem :: "project_list_item option"

definition project_decryptSnapshot ::
  "crypto_port \<Rightarrow> string \<Rightarrow> bytes \<Rightarrow> int \<Rightarrow> effective_cursor \<Rightarrow> bytes \<Rightarrow> project_snapshot_state result" where
  "project_decryptSnapshot c aggregateId payload version cursor key =
     bind_result (decrypt c payload key (buildProjectionCacheAad ''project_snapshot'' aggregateId version cursor)) (\<lambda>plaintext.
     decodeProjectSnapshotState plaintext version)"

definition project_cache_loadSnapshot ::
  "crypto_port \<Rightarrow> string \<Rightarrow> bytes \<Rightarrow> ('x project_projection, project_snapshot_state option) io" where
  "project_cache_loadSnapshot c aggregateId key s =
     (case cache_get ''project_snapshot'' aggregateId (ds_cache s) of
        None \<Rightarrow> (Inr None, s)
      | Some row \<Rightarrow>
          (case project_decryptSnapshot c aggregateId (pc_cacheEncrypted row) (pc_cacheVersion row)
                  (pc_lastEffectiveCursor row) key of
             Inr x \<Rightarrow> (Inr (Some x), s)
           | Inl _ \<Rightarrow> (Inr None, s\<lparr>ds_cache := cache_remove ''project_snapshot'' aggregateId (ds_cache s)\<rparr>)))"

definition project_cache_persistSnapshot ::
  "crypto_port \<Rightarrow> int \<Rightarrow> string \<Rightarrow> project_snapshot_state \<Rightarrow> bytes \<Rightarrow> effective_cursor \<Rightarrow> int \<Rightarrow> ('x project_projection, unit) io" where
  "project_cache_persistSnapshot c now aggregateId snapshot key cursor lastCommitSequence =
     bind_io (on_ds_keys (seal c (encodeProjectSnapshotState snapshot) key
       (buildProjectionCacheAad ''project_snapshot'' aggregateId (pss_version snapshot) cursor))) (\<lambda>cipher.
     update_io (\<lambda>s. s\<lparr>ds_cache := cache_put
       \<lparr>pc_projectionId = ''project_snapshot'', pc_scopeKey = aggregateId, pc_cacheVersion = pss_version snapshot,
        pc_cacheEncrypted = cipher, pc_ordering = EffectiveTotalOrder, pc_lastEffectiveCursor = cursor,
        pc_lastCommitSequence = lastCommitSequence, pc_writtenAt = now\<rparr> (ds_cache s)\<rparr>))"

definition project_bootstrap_row :: "crypto_port \<Rightarrow> projection_cache_record \<Rightarrow> ('x project_projection, unit) io" where
  "project_bootstrap_row c row =
     bind_io (on_ds_keys (km_getAggregateKey c (pc_scopeKey row))) (\<lambda>key.
     case key of
       None \<Rightarrow> return_io ()
     | Some kProject \<Rightarrow>
         (\<lambda>s. case project_decryptSnapshot c (pc_scopeKey row) (pc_cacheEncrypted row) (pc_cacheVersion row)
                     (pc_lastEffectiveCursor row) kProject of
                Inl _ \<Rightarrow> (Inr (), s\<lparr>ds_cache := cache_remove ''project_snapshot'' (pc_scopeKey row) (ds_cache s)\<rparr>)
              | Inr x \<Rightarrow>
                  if pss_archivedAt x \<noteq> None then (Inr (), s)
                  else
                    let item = projectSnapshotToListItem x in
                    (Inr (), s\<lparr>ds_snapshots := AList.update (pc_scopeKey row) x (ds_snapshots s),
                      ds_projections := AList.update (pc_scopeKey row) item (ds_projections s),
                      pp_goalIndex := indexGoal (pli_goalId item) (pc_scopeKey row) (pp_goalIndex s)\<rparr>)))"

definition project_bootstrapFromCache :: "crypto_port \<Rightarrow> ('x project_projection, unit) io" where
  "project_bootstrapFromCache c =
     bind_io (read_io (\<lambda>s. cache_listByProjection ''project_snapshot'' (ds_cache s))) (\<lambda>rows.
     foreach_io (project_bootstrap_row c) rows)"

definition project_snapshot_applyEvent ::
  "crypto_port \<Rightarrow> int \<Rightarrow> string \<Rightarrow> event_metadata \<Rightarrow> project_payload \<Rightarrow> bytes \<Rightarrow> effective_cursor \<Rightarrow> int \<Rightarrow>
     ('x project_projection, project_apply_result) io" where
  "project_snapshot_applyEvent c now a m p key cursor lastCommitSequence =
     bind_io (read_io (\<lambda>s. map_of (ds_snapshots s) a)) (\<lambda>cached.
     bind_io (case cached of Some x \<Rightarrow> return_io (Some x) | None \<Rightarrow> project_cache_loadSnapshot c a key) (\<lambda>previousSnapshot.
     bind_io (read_io (\<lambda>s. case map_of (ds_projections s) a of
                Some i \<Rightarrow> Some i | None \<Rightarrow> map_option projectSnapshotToListItem previousSnapshot)) (\<lambda>previousItem.
     let nextVersion = (case previousSnapshot of Some x \<Rightarrow> pss_version x + 1 | None \<Rightarrow> 1) in
     case applyProjectEventToSnapshot previousSnapshot m p nextVersion of
       None \<Rightarrow> return_io \<lparr>par_changed = False, par_previous = previousSnapshot, par_next = None,
                 par_previousItem = previousItem, par_nextItem = None\<rparr>
     | Some nextSnapshot \<Rightarrow>
         bind_io (project_cache_persistSnapshot c now a nextSnapshot key cursor lastCommitSequence) (\<lambda>_.
         bind_io (update_io (ds_snapshots_update (AList.update a nextSnapshot))) (\<lambda>_.
         let nextItem = (if pss_archivedAt nextSnapshot = None then Some (projectSnapshotToListItem nextSnapshot) else None) in
         bind_io (update_io (ds_projections_update
           (case nextItem of Some i \<Rightarrow> AList.update a i | None \<Rightarrow> AList.delete a))) (\<lambda>_.
         bind_io (update_io (pp_goalIndex_update (reindexGoal previousSnapshot nextItem))) (\<lambda>_.
         return_io \<lparr>par_changed = True, par_previous = previousSnapshot, par_next = Some nextSnapshot,
           par_previousItem = previousItem, par_nextItem = nextItem\<rparr>)))))))"

text \<open>The index names the candidates; a project that is no longer projected is left out.\<close>

definition listByGoalId :: "string \<Rightarrow> 'x project_projection \<Rightarrow> project_list_item list" where
  "listByGoalId goalId s =
     (case map_of (pp_goalIndex s) goalId of
        None \<Rightarrow> []
      | Some ids \<Rightarrow> sort_desc pli_createdAt (List.map_filter (map_of (ds_projections s)) ids))"

subsection \<open>ProjectProjectionProcessor\<close>

definition project_toEncryptedEvent :: "event_record \<Rightarrow> encrypted_event" where
  "project_toEncryptedEvent r =
     \<lparr>ee_id = rec_id r, ee_aggregateType = ''project'', ee_aggregateId = rec_aggregateId r, ee_eventType = rec_eventType r,
      ee_payload = rec_payload r, ee_version = rec_version r, ee_occurredAt = rec_occurredAt r,
      ee_actorId = rec_actorId r, ee_causationId = rec_causationId r, ee_correlationId = rec_correlationId r\<rparr>"

definition project_apply_body ::
  "crypto_port \<Rightarrow> derive \<Rightarrow> (project_list_item, 'x) mini_search \<Rightarrow> int \<Rightarrow> event_record \<Rightarrow> effective_cursor \<Rightarrow> int \<Rightarrow>
     ('x project_projection, bool) io" where
  "project_apply_body c derive ms now r cursor lastCommitSequence =
     (let event = project_toEncryptedEvent r; a = rec_aggregateId r in
      bind_io (on_ds_keys (resolveKeyForEvent c derive a)) (\<lambda>kProject.
      bind_io (lift_io (toDomain c event kProject)) (\<lambda>domainEvent.
      case ev_payload domainEvent of
        ProjectEvent p \<Rightarrow>
          bind_io (project_snapshot_applyEvent c now a (ev_meta domainEvent) p kProject cursor lastCommitSequence) (\<lambda>applied.
          if \<not> par_changed applied \<or> par_next applied = None then return_io False
          else
            bind_io (applyProjectionChange ms project_search_config (par_previousItem applied) (par_nextItem applied)) (\<lambda>_.
            return_io (par_changed applied)))
      | _ \<Rightarrow> return_io False)))"

definition project_applyEvent ::
  "crypto_port \<Rightarrow> derive \<Rightarrow> (project_list_item, 'x) mini_search \<Rightarrow> int \<Rightarrow> event_record \<Rightarrow> effective_cursor \<Rightarrow> int \<Rightarrow>
     ('x project_projection, bool) io" where
  "project_applyEvent c derive ms now r cursor lastCommitSequence s =
     (case project_apply_body c derive ms now r cursor lastCommitSequence s of
        (Inl e, s') \<Rightarrow> if missing_key_error e then (Inr False, s') else (Inl e, s')
      | (Inr b, s') \<Rightarrow> (Inr b, s'))"

definition project_reset :: "('x project_projection, unit) io" where
  "project_reset =
     bind_io (update_io (\<lambda>s. s\<lparr>ds_snapshots := [], ds_projections := [], pp_goalIndex := []\<rparr>)) (\<lambda>_.
     bind_io search_reset (\<lambda>_.
     bind_io (update_io (ds_cache_update (cache_removeAll ''project_snapshot''))) (\<lambda>_.
     search_clearPersisted project_search_config)))"

definition project_processor ::
  "crypto_port \<Rightarrow> derive \<Rightarrow> (project_list_item, 'x) mini_search \<Rightarrow> (string \<Rightarrow> bytes) \<Rightarrow> int \<Rightarrow>
     'x project_projection projection_processor" where
  "project_processor c derive ms gen now =
     \<lparr>pr_projectionId = ''project_projection'', pr_ordering = EffectiveTotalOrder,
      pr_bootstrap = (\<lambda>_ _. project_bootstrapFromCache c),
      pr_applyEvent = project_applyEvent c derive ms now,
      pr_onBatchComplete = Some (\<lambda>_ _ cursor _.
        persistIndex c ms project_search_config (gen ''project_search_index'') now cursor),
      pr_reset = project_reset\<rparr>"

text \<open>The goal of a filter: not given, \<open>null\<close> for projects without a goal, or a goal.\<close>

record project_filter =
  pf_status :: "string option"
  pf_goalId :: "string option option"

definition status_matches :: "string option \<Rightarrow> project_list_item \<Rightarrow> bool" where
  "status_matches st i \<longleftrightarrow> st = None \<or> st = Some [] \<or> st = Some (ProjectStatus_value (pli_status i))"

definition listProjects :: "project_filter option \<Rightarrow> 'x project_projection \<Rightarrow> project_list_item list" where
  "listProjects f s =
     (let all = map snd (ds_projections s);
          items = (case Option.bind f pf_goalId of
                     None \<Rightarrow> all
                   | Some None \<Rightarrow> filter (\<lambda>i. pli_goalId i = None) all
                   | Some (Some g) \<Rightarrow> listByGoalId g s)
      in sort_desc pli_createdAt (filter (status_matches (Option.bind f pf_status)) items))"

definition getProjectById :: "string \<Rightarrow> 'x project_projection \<Rightarrow> project_list_item option" where
  "getProjectById projectId s = map_of (ds_projections s) projectId"

definition project_matchesFilter :: "project_filter option \<Rightarrow> project_list_item \<Rightarrow> bool" where
  "project_matchesFilter f i \<longleftrightarrow>
     (case f of
        None \<Rightarrow> True
      | Some g \<Rightarrow> status_matches (pf_status g) i \<and>
          (case pf_goalId g of None \<Rightarrow> True | Some goal \<Rightarrow> pli_goalId i = goal))"

definition searchProjects ::
  "crypto_port \<Rightarrow> (project_list_item, 'x) mini_search \<Rightarrow> (string \<Rightarrow> bytes) \<Rightarrow> string \<Rightarrow> project_filter option \<Rightarrow>
     ('x project_projection, project_list_item list) io" where
  "searchProjects c ms gen term f =
     bind_io (read_io (\<lambda>s. map snd (ds_projections s))) (\<lambda>items.
     bind_io (search_ensureBuilt c ms project_search_config (gen ''project_search_index'') items) (\<lambda>_.
     read_io (search_items ms project_search_config term (project_matchesFilter f))))"

subsection \<open>ProjectReadModel\<close>

definition project_flush ::
  "crypto_port \<Rightarrow> derive \<Rightarrow> (project_list_item, 'x) mini_search \<Rightarrow> (string \<Rightarrow> bytes) \<Rightarrow> int \<Rightarrow>
     'x project_projection runtime \<Rightarrow> (unit result \<times> 'x project_projection runtime) option" where
  "project_flush c derive ms gen now = runProcessingLoop (project_processor c derive ms gen now) ''project'' 250 now"

definition project_list ::
  "crypto_port \<Rightarrow> derive \<Rightarrow> (project_list_item, 'x) mini_search \<Rightarrow> (string \<Rightarrow> bytes) \<Rightarrow> int \<Rightarrow> project_filter option \<Rightarrow>
     'x project_projection runtime \<Rightarrow> (project_list_item list result \<times> 'x project_projection runtime) option" where
  "project_list c derive ms gen now f rt =
     map_option (\<lambda>(r, rt'). (bind_result r (\<lambda>_. Inr (listProjects f (rt_processor rt'))), rt'))
       (project_flush c derive ms gen now rt)"

definition project_getById ::
  "crypto_port \<Rightarrow> derive \<Rightarrow> (project_list_item, 'x) mini_search \<Rightarrow> (string \<Rightarrow> bytes) \<Rightarrow> int \<Rightarrow> string \<Rightarrow>
     'x project_projection runtime \<Rightarrow> (project_list_item option result \<times> 'x project_projection runtime) option" where
  "project_getById c derive ms gen now projectId rt =
     map_option (\<lambda>(r, rt'). (bind_result r (\<lambda>_. Inr (getProjectById projectId (rt_processor rt'))), rt'))
       (project_flush c derive ms gen now rt)"

definition project_search ::
  "crypto_port \<Rightarrow> derive \<Rightarrow> (project_list_item, 'x) mini_search \<Rightarrow> (string \<Rightarrow> bytes) \<Rightarrow> int \<Rightarrow> string \<Rightarrow> project_filter option \<Rightarrow>
     'x project_projection runtime \<Rightarrow> (project_list_item list result \<times> 'x project_projection runtime) option" where
  "project_search c derive ms gen now term f rt =
     map_option (\<lambda>(r, rt'). bind_io (\<lambda>rt'. (r, rt')) (\<lambda>_. on_processor (searchProjects c ms gen term f)) rt')
       (project_flush c derive ms gen now rt)"

end
