(* ===== verification/ProjectionProperties.thy ===== *)
theory ProjectionProperties
  imports GoalProjectionFacts ProjectProjection RepositoryProperties
begin

text \<open>
  Properties of the read side: catching up, rebuilding, restarting, and what the goal read model
  then says.
\<close>

subsection \<open>Folding events per goal\<close>

definition goal_history :: "crypto_port \<Rightarrow> (string \<Rightarrow> bytes option) \<Rightarrow> string \<Rightarrow> event_record list \<Rightarrow> domain_event list" where
  "goal_history c keys a rs =
     List.map_filter (\<lambda>r. if rec_aggregateId r = a then goal_event_of c keys r else None) rs"

lemma project_goal_append: "project_goal (xs @ ys) s = project_goal ys (project_goal xs s)"
  by (induction xs arbitrary: s) simp_all

lemma goal_history_Cons:
  "goal_history c keys a (r # rs) =
     (if rec_aggregateId r = a then case goal_event_of c keys r of None \<Rightarrow> [] | Some e \<Rightarrow> [e] else []) @ goal_history c keys a rs"
  by (simp add: goal_history_def map_filter_simps split: option.split)

lemma fold_goal_step: "fold (goal_step c keys) rs v a = project_goal (goal_history c keys a rs) (v a)"
proof (induction rs arbitrary: v)
  case (Cons r rs)
  have "goal_step c keys r v a =
      project_goal (if rec_aggregateId r = a then case goal_event_of c keys r of None \<Rightarrow> [] | Some e \<Rightarrow> [e] else []) (v a)"
    by (simp add: goal_step_def split: option.split)
  then show ?case using Cons by (simp add: goal_history_Cons project_goal_append)
qed (simp add: goal_history_def map_filter_simps)

lemma goal_item_of_view:
  "goal_projection_ok c keys ms ids s \<Longrightarrow> getGoalById a s = active_goal_item (goal_view c keys s a)"
  by (auto simp: goal_projection_ok_def goal_core_def getGoalById_def)

subsection \<open>A concrete projection\<close>

text \<open>A search engine that keeps the ids of its documents, as a list without duplicates.\<close>

definition list_search :: "(goal_list_item, string list) mini_search" where
  "list_search =
     \<lparr>ms_new = [],
      ms_add = (\<lambda>i ix. if gli_id i \<in> set ix then Inl (Error ''duplicate ID'') else Inr (gli_id i # ix)),
      ms_remove = (\<lambda>i ix. if gli_id i \<in> set ix then Inr (removeAll (gli_id i) ix) else Inl (Error ''document not found'')),
      ms_search = (\<lambda>_ ix. ix), ms_toJSON = concat, ms_loadJSON = (\<lambda>_. Inr [])\<rparr>"

lemma list_search_ok: "engine_ok list_search goal_search_config set"
  by (auto simp: engine_ok_def list_search_def goal_search_config_def)

definition goal_a :: string where
  "goal_a = ''22222222-2222-2222-2222-222222222222''"

definition goal_a_keys :: "string \<Rightarrow> bytes option" where
  "goal_a_keys a = (if a = goal_a then Some [5] else None)"

definition goal_a_created :: domain_event where
  "goal_a_created = with_version 1 (new_event goal_a 10 ''g1'' ''me''
     (GoalEvent (GoalCreated Work ''Ship it'' \<lparr>mo_year = 2025, mo_month = 3\<rparr> Must ''me'')))"

definition goal_a_moved :: domain_event where
  "goal_a_moved = with_version 2 (new_event goal_a 20 ''g2'' ''me'' (GoalEvent (GoalRescheduled \<lparr>mo_year = 2026, mo_month = 1\<rparr>)))"

definition goal_row :: "domain_event \<Rightarrow> int \<Rightarrow> event_row" where
  "goal_row e v =
     (case toEncrypted tagged_crypto 0 ''goal'' e v [5] of
        Inr x \<Rightarrow> \<lparr>row_id = ee_id x, row_aggregate_type = ''goal'', row_aggregate_id = ee_aggregateId x,
          row_event_type = ee_eventType x, row_payload_encrypted = ee_payload x, row_version = v,
          row_occurred_at = ee_occurredAt x, row_actor_id = ee_actorId x, row_causation_id = None,
          row_correlation_id = None, row_scope_id = None, row_resource_id = None, row_resource_key_id = None,
          row_grant_id = None, row_scope_state_ref = None, row_author_device_id = None, row_sig_suite = None,
          row_signature = None, row_commit_sequence = v\<rparr>
      | Inl _ \<Rightarrow> undefined)"

text \<open>The first event of the goal has been synchronised, the second one is pending.\<close>

definition goal_a_db :: local_db where
  "goal_a_db = \<lparr>db_events = [goal_row goal_a_created 1, goal_row goal_a_moved 2], db_sqlite_sequence = 2,
     db_sync_event_map = [\<lparr>map_event_id = ''g1'', map_global_seq = 7, map_inserted_at = 0\<rparr>],
     db_sync_meta = Map.empty, db_snapshots = []\<rparr>"

definition fresh_goal_projection :: "string list goal_projection" where
  "fresh_goal_projection =
     \<lparr>ds_keys = \<lparr>km_epochKeys = (\<lambda>_. None),
        km_keyStore = \<lparr>ks_masterKey = Some [1], ks_identity = [], ks_aggregate = [(goal_a, [1, 5])], ks_draws = 0\<rparr>,
        km_keyrings = (\<lambda>_. None)\<rparr>,
      ds_cache = [], ds_artifacts = [], ds_snapshots = [], ds_projections = [], ds_searchIndex = None,
      ds_indexLoaded = False, ds_indexDirty = False, ds_phase = Index_missing, gp_analyticsCache = None\<rparr>"

definition goal_a_runtime :: "string list goal_projection runtime" where
  "goal_a_runtime =
     \<lparr>rt_started = True, rt_pendingRebuild = False, rt_lastEffectiveCursor = ZERO_EFFECTIVE_CURSOR,
      rt_lastCommitSequence = 0, rt_meta = [], rt_db = goal_a_db, rt_processor = fresh_goal_projection\<rparr>"

lemma total_cipher_tagged: "total_cipher tagged_crypto"
  by (simp add: total_cipher_def tagged_crypto_def)

lemma fresh_goal_projection_ok:
  "goal_projection_ok tagged_crypto goal_a_keys list_search set fresh_goal_projection"
  "goal_view tagged_crypto goal_a_keys fresh_goal_projection = (\<lambda>_. None)"
proof -
  show v: "goal_view tagged_crypto goal_a_keys fresh_goal_projection = (\<lambda>_. None)"
    by (simp add: goal_view_def fresh_goal_projection_def cache_get_def select_row_def fun_eq_iff)
  have "keys_ok tagged_crypto goal_reserved goal_a_keys (ds_keys fresh_goal_projection)"
    by (auto simp: keys_ok_def fresh_goal_projection_def getAggregateKey_def require_master_def tagged_crypto_def
        goal_a_keys_def goal_reserved_def goal_a_def)
  then have "goal_core tagged_crypto goal_a_keys createEmptyAnalytics (\<lambda>_. None) fresh_goal_projection"
    using v by (simp add: goal_core_def) (simp add: goal_rows_ok_def stored_analytics_def fresh_goal_projection_def cache_get_def
        select_row_def active_goal_item_def fun_eq_iff)
  then show "goal_projection_ok tagged_crypto goal_a_keys list_search set fresh_goal_projection"
    using goal_projection_ok_core [OF aead_ok_tagged total_cipher_tagged list_search_ok _ analytics_counts_empty]
    by (simp add: index_within_def) (simp add: fresh_goal_projection_def)
qed

lemma goal_row_run:
  assumes "event_ok e" and "meta_ok (ev_meta e)" and "em_causationId (ev_meta e) = None" and "em_correlationId (ev_meta e) = None"
  shows "toDomain tagged_crypto (goal_toEncryptedEvent (record_of_row g (goal_row e v))) [5] = Inr (with_version v e)"
    and "row_id (goal_row e v) = em_eventId (ev_meta e)" and "row_aggregate_id (goal_row e v) = em_aggregateId (ev_meta e)"
    and "row_aggregate_type (goal_row e v) = ''goal''" and "row_version (goal_row e v) = v"
    and "row_commit_sequence (goal_row e v) = v"
proof -
  obtain x where x: "toEncrypted tagged_crypto 0 ''goal'' e v [5] = Inr x"
    using toEncrypted_total [OF assms(1) encrypts_tagged] by blast
  then have f: "ee_id x = em_eventId (ev_meta e)" "ee_aggregateType x = ''goal''" "ee_aggregateId x = em_aggregateId (ev_meta e)"
    "ee_version x = v" "ee_causationId x = None" "ee_correlationId x = None"
    using assms(3,4) by (auto simp: toEncrypted_def Let_def bind_result_eq_Inr)
  have "goal_toEncryptedEvent (record_of_row g (goal_row e v)) = x"
    using x f by (simp add: goal_row_def goal_toEncryptedEvent_def record_of_row_def)
  then show "toDomain tagged_crypto (goal_toEncryptedEvent (record_of_row g (goal_row e v))) [5] = Inr (with_version v e)"
    using toDomain_toEncrypted [OF assms(1,2) _ aead_ok_tagged x] by simp
  show "row_id (goal_row e v) = em_eventId (ev_meta e)" "row_aggregate_id (goal_row e v) = em_aggregateId (ev_meta e)"
    "row_aggregate_type (goal_row e v) = ''goal''" "row_version (goal_row e v) = v" "row_commit_sequence (goal_row e v) = v"
    using x f by (simp_all add: goal_row_def)
qed

lemma goal_a_events_ok:
  "event_ok goal_a_created \<and> meta_ok (ev_meta goal_a_created)" "event_ok goal_a_moved \<and> meta_ok (ev_meta goal_a_moved)"
  by code_simp+

lemma goal_a_meta [simp]:
  "em_causationId (ev_meta goal_a_created) = None" "em_correlationId (ev_meta goal_a_created) = None"
  "em_causationId (ev_meta goal_a_moved) = None" "em_correlationId (ev_meta goal_a_moved) = None"
  "em_aggregateId (ev_meta goal_a_created) = goal_a" "em_aggregateId (ev_meta goal_a_moved) = goal_a"
  "em_eventId (ev_meta goal_a_created) = ''g1''" "em_eventId (ev_meta goal_a_moved) = ''g2''"
  "with_version 1 goal_a_created = goal_a_created" "with_version 2 goal_a_moved = goal_a_moved"
  by (simp_all add: goal_a_created_def goal_a_moved_def with_version_def new_event_def)

lemma goal_a_rows:
  "row_id (goal_row goal_a_created 1) = ''g1''" "row_id (goal_row goal_a_moved 2) = ''g2''"
  "row_aggregate_id (goal_row goal_a_created 1) = goal_a" "row_aggregate_id (goal_row goal_a_moved 2) = goal_a"
  "row_aggregate_type (goal_row goal_a_created 1) = ''goal''" "row_aggregate_type (goal_row goal_a_moved 2) = ''goal''"
  "row_version (goal_row goal_a_created 1) = 1" "row_version (goal_row goal_a_moved 2) = 2"
  "row_commit_sequence (goal_row goal_a_created 1) = 1" "row_commit_sequence (goal_row goal_a_moved 2) = 2"
  using goal_row_run [of goal_a_created] goal_row_run [of goal_a_moved] goal_a_events_ok by simp_all

lemma goal_a_readable:
  "goal_event_of tagged_crypto goal_a_keys (record_of_row g (goal_row goal_a_created 1)) = Some goal_a_created"
  "goal_event_of tagged_crypto goal_a_keys (record_of_row g (goal_row goal_a_moved 2)) = Some goal_a_moved"
  using goal_row_run(1) [of goal_a_created g 1] goal_row_run(1) [of goal_a_moved g 2] goal_a_events_ok goal_a_rows(3,4)
  by (simp_all add: goal_event_of_def record_of_row_def goal_a_keys_def)

lemma record_of_row_aggregate [simp]: "rec_aggregateId (record_of_row g r) = row_aggregate_id r"
  by (simp add: record_of_row_def)

lemma goal_a_db_wf: "db_wf goal_a_db"
  by (simp add: db_wf_def goal_a_db_def goal_a_rows row_key_def)

lemma goal_a_joined:
  "joined_records ''goal'' goal_a_db =
     [record_of_row (Some 7) (goal_row goal_a_created 1), record_of_row None (goal_row goal_a_moved 2)]"
  by (simp add: joined_records_def typed_rows_def goal_a_db_def goal_a_rows global_seq_of_def)

lemma goal_a_ordered:
  "effective_order_of (joined_records ''goal'' goal_a_db) =
     [record_of_row (Some 7) (goal_row goal_a_created 1), record_of_row None (goal_row goal_a_moved 2)]"
  by (simp add: goal_a_joined effective_order_of_def)

lemma goal_a_all_readable: "\<forall>r \<in> set (joined_records ''goal'' goal_a_db). goal_readable tagged_crypto goal_a_keys r"
proof -
  have "em_aggregateId (ev_meta goal_a_created) = goal_a" "em_aggregateId (ev_meta goal_a_moved) = goal_a"
    by (simp_all add: goal_a_created_def goal_a_moved_def with_version_def)
  then show ?thesis
    by (simp add: goal_a_joined goal_readable_def goal_a_readable goal_a_rows) (simp add: goal_reserved_def goal_a_def)
qed

lemma goal_a_history:
  "goal_history tagged_crypto goal_a_keys a (effective_order_of (joined_records ''goal'' goal_a_db)) =
     (if a = goal_a then [goal_a_created, goal_a_moved] else [])"
  unfolding goal_a_ordered by (simp add: goal_history_def map_filter_simps goal_a_readable goal_a_rows)

subsection \<open>Properties\<close>

text \<open>
  C22: the goal read model answers from the whole history. A projection in a consistent state
  brought up to date by a query returns, has then applied every event it had not seen, in the
  total order and each once, has no unseen event left, and answers for every goal with the item
  its own events lead to, or with nothing when the goal is archived or unknown.
\<close>

theorem goal_query_catches_up:
  assumes "goal_projection_ok c keys ms ids (rt_processor rt)" and "db_wf (rt_db rt)" and "\<not> rt_pendingRebuild rt"
    and "\<forall>r \<in> set (joined_records ''goal'' (rt_db rt)). goal_readable c keys r"
  shows "\<exists>rt'. goal_getById c derive ms gen now a rt = Some (Inr (active_goal_item
       (project_goal (goal_history c keys a (unseen (goal_processor c derive ms gen now) ''goal'' rt))
          (goal_view c keys (rt_processor rt) a))), rt') \<and>
     unseen (goal_processor c derive ms gen now) ''goal'' rt' = [] \<and> goal_projection_ok c keys ms ids (rt_processor rt')"
proof -
  let ?p = "goal_processor c derive ms gen now"
  have "set (unseen ?p ''goal'' rt) \<subseteq> set (joined_records ''goal'' (rt_db rt))"
    by (auto simp: unseen_def goal_processor_def effective_order_of_def)
  then obtain rt' where "runProcessingLoop ?p ''goal'' 250 now rt = Some (Inr (), rt')"
    "goal_projection_ok c keys ms ids (rt_processor rt')"
    "goal_view c keys (rt_processor rt') = fold (goal_step c keys) (unseen ?p ''goal'' rt) (goal_view c keys (rt_processor rt))"
    "unseen ?p ''goal'' rt' = []"
    using goal_reads.runProcessingLoop_ok [of 250 rt c keys ms ids derive gen now "''goal''" now] assms by auto
  then show ?thesis
    by (simp add: goal_getById_def goal_flush_def goal_item_of_view fold_goal_step)
qed

theorem goal_query_catches_up_witness:
  "\<exists>rt'. goal_getById tagged_crypto (\<lambda>_ _. Inr []) list_search (\<lambda>_. []) 0 goal_a goal_a_runtime =
     Some (Inr (Some \<lparr>gli_id = goal_a, gli_summary = ''Ship it'', gli_slice = Work, gli_priority = Must,
       gli_targetMonth = ''2026-01'', gli_createdAt = 10, gli_achievedAt = None, gli_archivedAt = None, gli_version = 2\<rparr>), rt')"
proof -
  let ?p = "goal_processor tagged_crypto (\<lambda>_ _. Inr []) list_search (\<lambda>_. []) 0"
  have rt: "rt_processor goal_a_runtime = fresh_goal_projection" "rt_db goal_a_runtime = goal_a_db" "\<not> rt_pendingRebuild goal_a_runtime"
    by (simp_all add: goal_a_runtime_def)
  have "unseen ?p ''goal'' goal_a_runtime = effective_order_of (joined_records ''goal'' goal_a_db)"
    by (simp add: unseen_def goal_processor_def goal_a_runtime_def goal_a_joined beyond_cursor_def ZERO_EFFECTIVE_CURSOR_def goal_a_rows)
  moreover have "active_goal_item (project_goal [goal_a_created, goal_a_moved] None) = Some \<lparr>gli_id = goal_a,
      gli_summary = ''Ship it'', gli_slice = Work, gli_priority = Must, gli_targetMonth = ''2026-01'', gli_createdAt = 10,
      gli_achievedAt = None, gli_archivedAt = None, gli_version = 2\<rparr>"
    by code_simp
  ultimately show ?thesis
    using goal_query_catches_up [of tagged_crypto goal_a_keys list_search set goal_a_runtime "\<lambda>_ _. Inr []" "\<lambda>_. []" 0 goal_a]
      rt fresh_goal_projection_ok goal_a_db_wf goal_a_all_readable goal_a_history by auto
qed

text \<open>
  C23: the goal read model agrees with the goal aggregate. After the rebuild that follows a
  rebase, a goal whose stored events, in the total order, start with its creation and replay
  to an aggregate is shown with the attributes and the version of that aggregate, and is not
  shown when the aggregate is archived.
\<close>

theorem goal_read_model_is_replay:
  assumes "goal_projection_ok c keys ms ids (rt_processor rt)" and "db_wf (rt_db rt)"
    and "\<forall>m \<in> set (db_sync_event_map (rt_db rt)). 0 < map_global_seq m"
    and "\<forall>r \<in> set (joined_records ''goal'' (rt_db rt)). goal_readable c keys r"
    and "goal_history c keys i (effective_order_of (joined_records ''goal'' (rt_db rt))) = e # es"
    and "is_goal_creation e" and "em_aggregateId (ev_meta e) = i" and "\<forall>x \<in> set es. \<not> is_goal_creation x"
    and "Goal_reconstitute i (e # es) = Inr g"
  shows "\<exists>rt' s. onRebaseRequired (goal_processor c derive ms gen now) ''goal'' 250 now rt = Some (Inr (), rt') \<and>
     goal_snapshot_of g = Some s \<and>
     getGoalById i (rt_processor rt') = (if g_archivedAt (ag_state g) = None then Some (snapshotToListItem s) else None)"
proof -
  have "\<forall>r \<in> set (effective_order_of (joined_records ''goal'' (rt_db rt))). goal_readable c keys r"
    using assms(4) by (auto simp: effective_order_of_def)
  then obtain rt' where rt': "onRebaseRequired (goal_processor c derive ms gen now) ''goal'' 250 now rt = Some (Inr (), rt')"
    "goal_projection_ok c keys ms ids (rt_processor rt')"
    "goal_view c keys (rt_processor rt') = fold (goal_step c keys) (effective_order_of (joined_records ''goal'' (rt_db rt))) (\<lambda>_. None)"
    using goal_reads.onRebaseRequired_ok [of 250 rt c keys ms ids derive gen now "''goal''" now] assms(1-3)
    by (auto simp: goal_processor_def)
  obtain s where s: "goal_snapshot_of g = Some s" "project_goal (e # es) None = Some s"
    using project_goal_replay [OF assms(9,6,7,8)] by auto
  then have "gss_archivedAt s = g_archivedAt (ag_state g)"
    by (auto simp: goal_snapshot_of_def Let_def split: option.splits)
  moreover have "goal_view c keys (rt_processor rt') i = Some s"
    using rt'(3) s(2) assms(5) by (simp add: fold_goal_step)
  ultimately show ?thesis
    using rt'(1) s(1) goal_item_of_view [OF rt'(2), of i] by (simp add: active_goal_item_def)
qed

theorem goal_read_model_is_replay_witness:
  "\<exists>rt' s g. Goal_reconstitute goal_a [goal_a_created, goal_a_moved] = Inr g \<and>
     onRebaseRequired (goal_processor tagged_crypto (\<lambda>_ _. Inr []) list_search (\<lambda>_. []) 0) ''goal'' 250 0 goal_a_runtime =
       Some (Inr (), rt') \<and>
     goal_snapshot_of g = Some s \<and> getGoalById goal_a (rt_processor rt') = Some (snapshotToListItem s)"
proof -
  have rt: "rt_processor goal_a_runtime = fresh_goal_projection" "rt_db goal_a_runtime = goal_a_db"
    by (simp_all add: goal_a_runtime_def)
  obtain g where g: "Goal_reconstitute goal_a [goal_a_created, goal_a_moved] = Inr g" "g_archivedAt (ag_state g) = None"
    by (simp add: Goal_reconstitute_def ar_reconstitute_def loadFromHistory_def load_event_def goal_handle_def goal_a_created_def
        goal_a_moved_def with_version_def ar_new_def new_goal_state_def markEventsAsCommitted_def)
  have "0 < map_global_seq m" if "m \<in> set (db_sync_event_map goal_a_db)" for m using that by (simp add: goal_a_db_def)
  moreover have "is_goal_creation goal_a_created" "\<not> is_goal_creation goal_a_moved" "em_aggregateId (ev_meta goal_a_created) = goal_a"
    by (simp_all add: is_goal_creation_def goal_a_created_def goal_a_moved_def with_version_def)
  ultimately show ?thesis
    using goal_read_model_is_replay [of tagged_crypto goal_a_keys list_search set goal_a_runtime goal_a goal_a_created "[goal_a_moved]" g
        "\<lambda>_ _. Inr []" "\<lambda>_. []" 0] g
      rt fresh_goal_projection_ok goal_a_db_wf goal_a_all_readable goal_a_history by auto
qed

text \<open>
  C24: the analytics count the active goals. Whatever events a flush applies, the counters
  stored afterwards say for every month and slice, and for every year and slice, how many goals
  of the read model are active there, with no zero counter and no empty bucket; they are the
  counters a restarted application reads.
\<close>

theorem goal_analytics_exact:
  assumes "goal_projection_ok c keys ms ids (rt_processor rt)" and "db_wf (rt_db rt)" and "\<not> rt_pendingRebuild rt"
    and "\<forall>r \<in> set (joined_records ''goal'' (rt_db rt)). goal_readable c keys r"
  shows "\<exists>rt' an. goal_flush c derive ms gen now rt = Some (Inr (), rt') \<and>
     stored_analytics c (goal_restart (rt_processor rt')) = Inr an \<and>
     analytics_counts an (fold (goal_step c keys) (unseen (goal_processor c derive ms gen now) ''goal'' rt)
       (goal_view c keys (rt_processor rt)))"
proof -
  let ?p = "goal_processor c derive ms gen now"
  have "set (unseen ?p ''goal'' rt) \<subseteq> set (joined_records ''goal'' (rt_db rt))"
    by (auto simp: unseen_def goal_processor_def effective_order_of_def)
  then obtain rt' where rt': "runProcessingLoop ?p ''goal'' 250 now rt = Some (Inr (), rt')"
    "goal_projection_ok c keys ms ids (rt_processor rt')"
    "goal_view c keys (rt_processor rt') = fold (goal_step c keys) (unseen ?p ''goal'' rt) (goal_view c keys (rt_processor rt))"
    using goal_reads.runProcessingLoop_ok [of 250 rt c keys ms ids derive gen now "''goal''" now] assms by auto
  obtain an where "stored_analytics c (goal_restart (rt_processor rt')) = Inr an"
    "analytics_counts an (goal_view c keys (rt_processor rt'))"
    using goal_restart_cold [OF rt'(2)] by (auto simp: goal_cold_def)
  then show ?thesis using rt'(1,3) by (auto simp: goal_flush_def)
qed

theorem goal_analytics_exact_witness:
  "\<exists>rt' an. goal_flush tagged_crypto (\<lambda>_ _. Inr []) list_search (\<lambda>_. []) 0 goal_a_runtime = Some (Inr (), rt') \<and>
     stored_analytics tagged_crypto (goal_restart (rt_processor rt')) = Inr an \<and>
     bucket_value (an_monthlyTotals an) ''2026-01'' Work = 1"
proof -
  let ?p = "goal_processor tagged_crypto (\<lambda>_ _. Inr []) list_search (\<lambda>_. []) 0"
  let ?v = "fold (goal_step tagged_crypto goal_a_keys) (unseen ?p ''goal'' goal_a_runtime) (\<lambda>_. None)"
  have rt: "rt_processor goal_a_runtime = fresh_goal_projection" "rt_db goal_a_runtime = goal_a_db" "\<not> rt_pendingRebuild goal_a_runtime"
    by (simp_all add: goal_a_runtime_def)
  have un: "unseen ?p ''goal'' goal_a_runtime = effective_order_of (joined_records ''goal'' goal_a_db)"
    by (simp add: unseen_def goal_processor_def goal_a_runtime_def goal_a_joined beyond_cursor_def ZERO_EFFECTIVE_CURSOR_def goal_a_rows)
  have "snapshot_slot (project_goal [goal_a_created, goal_a_moved] None) = Some (''2026-01'', Work)" by code_simp
  moreover have "?v a = (if a = goal_a then project_goal [goal_a_created, goal_a_moved] None else None)" for a
    unfolding un fold_goal_step goal_a_history by simp
  ultimately have "goals_in ?v (\<lambda>s. s = (''2026-01'', Work)) = {goal_a}"
    by (auto simp: goals_in_def snapshot_slot_def active_snapshot_def split: if_splits)
  then show ?thesis
    using goal_analytics_exact [of tagged_crypto goal_a_keys list_search set goal_a_runtime "\<lambda>_ _. Inr []" "\<lambda>_. []" 0]
      rt fresh_goal_projection_ok goal_a_db_wf goal_a_all_readable by (auto simp: analytics_counts_def)
qed

end
