(* ===== verification/CommandHandler.thy ===== *)
theory CommandHandler
  imports RepositoryFacts
begin

text \<open>
  packages/application/src/shared/ports: the base classes of commands and command handlers, the
  idempotency store (packages/infrastructure/src/idempotency/SqliteIdempotencyStore.ts) and the
  command bus (bus/SimpleBus.ts). The two command handlers of goals and projects have the same
  helpers with other types; they are written once here, over the \<open>load\<close> and \<open>save\<close> of
  the repository. An application is a device and its table of idempotency keys.
\<close>

subsection \<open>Commands\<close>

record command_metadata =
  cmd_actorId :: string
  cmd_idempotencyKey :: string
  cmd_correlationId :: "string option"
  cmd_causationId :: "string option"

record base_command =
  bc_actorId :: string
  bc_idempotencyKey :: string
  bc_correlationId :: "string option"
  bc_causationId :: "string option"

definition BaseCommand :: "command_metadata option \<Rightarrow> base_command result" where
  "BaseCommand meta =
     (case meta of
        None \<Rightarrow> Inl (Error ''Command requires actorId'')
      | Some m \<Rightarrow>
          if cmd_actorId m = [] then Inl (Error ''Command requires actorId'')
          else if cmd_idempotencyKey m = [] then Inl (Error ''Command requires idempotencyKey'')
          else Inr \<lparr>bc_actorId = cmd_actorId m, bc_idempotencyKey = cmd_idempotencyKey m,
                 bc_correlationId = cmd_correlationId m, bc_causationId = cmd_causationId m\<rparr>)"

subsection \<open>Parsing\<close>

text \<open>
  \<open>parseCommand\<close> runs every field parser, collects the errors in the order of the specification
  and throws them together. \<open>field\<close> is one entry of the specification and \<open>both\<close> joins entries;
  the message of a validation error is kept as the error it was taken from.
\<close>

type_synonym validation_error = "string \<times> error"

definition field :: "string \<Rightarrow> 'a result \<Rightarrow> validation_error list + 'a" where
  "field name r = (case r of Inl e \<Rightarrow> Inl [(name, e)] | Inr a \<Rightarrow> Inr a)"

definition both :: "validation_error list + 'a \<Rightarrow> validation_error list + 'b \<Rightarrow> validation_error list + 'a \<times> 'b" where
  "both p q =
     (case p of
        Inl es \<Rightarrow> (case q of Inl fs \<Rightarrow> Inl (es @ fs) | Inr _ \<Rightarrow> Inl es)
      | Inr a \<Rightarrow> (case q of Inl fs \<Rightarrow> Inl fs | Inr b \<Rightarrow> Inr (a, b)))"

text \<open>
  The errors a handler throws: a \<open>ValidationException\<close> with its details, a \<open>NotFoundError\<close> with
  the id, or an error of the layers below.
\<close>

datatype command_error = ValidationException "validation_error list" | NotFoundError string | Thrown store_error

definition parseCommand :: "validation_error list + 'a \<Rightarrow> command_error + 'a" where
  "parseCommand spec = (case spec of Inl es \<Rightarrow> Inl (ValidationException es) | Inr a \<Rightarrow> Inr a)"

text \<open>
  The numbers of a command are unchecked: \<open>None\<close> is a timestamp that is not finite, and a
  version that is not an integer.
\<close>

definition parseTimestamp :: "int option \<Rightarrow> int result" where
  "parseTimestamp timestamp =
     (case timestamp of None \<Rightarrow> Inl (Error ''Timestamp must be a finite number'') | Some t \<Rightarrow> Inr t)"

definition parseKnownVersion :: "int option \<Rightarrow> int result" where
  "parseKnownVersion version =
     (case version of
        None \<Rightarrow> Inl (Error ''knownVersion must be a non-negative integer'')
      | Some v \<Rightarrow> if v < 0 then Inl (Error ''knownVersion must be a non-negative integer'') else Inr v)"

definition parseIdempotencyKey :: "string \<Rightarrow> string result" where
  "parseIdempotencyKey key =
     (if trim key = [] then Inl (Error ''idempotencyKey must be a non-empty string'')
      else if length key > 200 then Inl (Error ''idempotencyKey must be at most 200 characters'')
      else Inr key)"

text \<open>The tracing ids are parsed outside \<open>parseCommand\<close>; an empty one counts as absent.\<close>

definition parse_trace :: "(string \<Rightarrow> string result) \<Rightarrow> string option \<Rightarrow> command_error + string option" where
  "parse_trace from x =
     (case x of
        None \<Rightarrow> Inr None
      | Some s \<Rightarrow>
          if s = [] then Inr None
          else (case from s of Inl e \<Rightarrow> Inl (Thrown (Failed e)) | Inr v \<Rightarrow> Inr (Some v)))"

subsection \<open>The idempotency store\<close>

record idempotency_record =
  ir_key :: string
  ir_commandType :: string
  ir_aggregateId :: string
  ir_createdAt :: int

record app =
  ap_device :: device
  ap_idempotency :: "idempotency_record list"

type_synonym 'a command_io = "app \<Rightarrow> (command_error + 'a) \<times> app"

definition idempotency_get :: "string \<Rightarrow> app \<Rightarrow> idempotency_record option" where
  "idempotency_get key a = find (\<lambda>r. ir_key r = key) (ap_idempotency a)"

definition key_reuse :: error where
  "key_reuse = Error ''Idempotency key reuse detected''"

definition idempotency_put :: "idempotency_record \<Rightarrow> unit command_io" where
  "idempotency_put r =
     bind_io (read_io (idempotency_get (ir_key r))) (\<lambda>existing.
     case existing of
       Some x \<Rightarrow>
         if ir_commandType x \<noteq> ir_commandType r \<or> ir_aggregateId x \<noteq> ir_aggregateId r
         then throw_io (Thrown (Failed key_reuse))
         else return_io ()
     | None \<Rightarrow> update_io (ap_idempotency_update (\<lambda>rs. rs @ [r])))"

subsection \<open>BaseCommandHandler\<close>

definition assertIdempotencyRecord :: "idempotency_record \<Rightarrow> string \<Rightarrow> string \<Rightarrow> command_error + unit" where
  "assertIdempotencyRecord existing commandType aggregateId =
     guard_result (ir_commandType existing = commandType \<and> ir_aggregateId existing = aggregateId)
       (Thrown (Failed key_reuse))"

definition assertKnownVersion :: "int \<Rightarrow> int \<Rightarrow> command_error + unit" where
  "assertKnownVersion actual expected = guard_result (actual = expected) (Thrown (ConcurrencyError ''version mismatch''))"

definition isDuplicateCommand :: "string \<Rightarrow> string \<Rightarrow> string \<Rightarrow> bool command_io" where
  "isDuplicateCommand key commandType aggregateId =
     bind_io (read_io (idempotency_get key)) (\<lambda>existing.
     case existing of
       None \<Rightarrow> return_io False
     | Some x \<Rightarrow> bind_io (lift_io (assertIdempotencyRecord x commandType aggregateId)) (\<lambda>_. return_io True))"

subsection \<open>The helpers of the two handlers\<close>

definition on_device :: "(device \<Rightarrow> (store_error + 'a) \<times> device) \<Rightarrow> 'a command_io" where
  "on_device m a =
     (case m (ap_device a) of
        (Inl e, d) \<Rightarrow> (Inl (Thrown e), a\<lparr>ap_device := d\<rparr>)
      | (Inr x, d) \<Rightarrow> (Inr x, a\<lparr>ap_device := d\<rparr>))"

definition stored_key :: "crypto_port \<Rightarrow> string \<Rightarrow> bytes option command_io" where
  "stored_key c aggregateId = on_device (rethrow_io Failed (on_keys (km_getAggregateKey c aggregateId)))"

definition load_aggregate :: "(string \<Rightarrow> (device, 's aggregate option) io) \<Rightarrow> string \<Rightarrow> 's aggregate command_io" where
  "load_aggregate load i =
     bind_io (on_device (rethrow_io Failed (load i))) (\<lambda>found.
     case found of None \<Rightarrow> throw_io (NotFoundError i) | Some a \<Rightarrow> return_io a)"

text \<open>A \<open>save\<close> of a repository: it returns the aggregate with its events marked as committed.\<close>

type_synonym 's saver = "bytes \<Rightarrow> 's aggregate \<Rightarrow> device \<Rightarrow> (store_error + 's aggregate) \<times> device"

definition persist_aggregate ::
  "crypto_port \<Rightarrow> 's saver \<Rightarrow> string \<Rightarrow> string \<Rightarrow> int \<Rightarrow> 's aggregate \<Rightarrow> string command_io" where
  "persist_aggregate c save idempotencyKey commandType createdAt a =
     bind_io (stored_key c (ag_id a)) (\<lambda>k.
     case k of
       None \<Rightarrow> throw_io (NotFoundError (ag_id a))
     | Some key \<Rightarrow>
         bind_io (on_device (save key a)) (\<lambda>_.
         bind_io (idempotency_put \<lparr>ir_key = idempotencyKey, ir_commandType = commandType,
           ir_aggregateId = ag_id a, ir_createdAt = createdAt\<rparr>) (\<lambda>_.
         return_io (ag_id a))))"

text \<open>What every handler of an existing aggregate does after it has parsed its command.\<close>

definition update_aggregate ::
  "crypto_port \<Rightarrow> (string \<Rightarrow> (device, 's aggregate option) io) \<Rightarrow> 's saver \<Rightarrow> string \<Rightarrow> string \<Rightarrow> int \<Rightarrow> int \<Rightarrow> string \<Rightarrow>
     ('s aggregate \<Rightarrow> 's aggregate result) \<Rightarrow> string command_io" where
  "update_aggregate c load save commandType i timestamp knownVersion idempotencyKey method =
     bind_io (isDuplicateCommand idempotencyKey commandType i) (\<lambda>isDuplicate.
     if isDuplicate then return_io i
     else
       bind_io (load_aggregate load i) (\<lambda>a.
       bind_io (lift_io (assertKnownVersion (ag_version a) knownVersion)) (\<lambda>_.
       bind_io (on_device (rethrow_io Failed (lift_io (method a)))) (\<lambda>a'.
       persist_aggregate c save idempotencyKey commandType timestamp a'))))"

text \<open>
  What the handlers of creation do after parsing; \<open>generated\<close> is the key \<open>crypto.generateKey()\<close>
  would return.
\<close>

definition create_aggregate ::
  "crypto_port \<Rightarrow> bytes \<Rightarrow> (string \<Rightarrow> (device, 's aggregate option) io) \<Rightarrow> 's saver \<Rightarrow> string \<Rightarrow> string \<Rightarrow> int \<Rightarrow> string \<Rightarrow>
     's aggregate result \<Rightarrow> (string \<times> bytes) command_io" where
  "create_aggregate c generated load save commandType i timestamp idempotencyKey created =
     bind_io (isDuplicateCommand idempotencyKey commandType i) (\<lambda>isDuplicate.
     if isDuplicate
     then bind_io (stored_key c i) (\<lambda>existingKey.
       case existingKey of None \<Rightarrow> throw_io (NotFoundError i) | Some k \<Rightarrow> return_io (i, k))
     else
       bind_io (stored_key c i) (\<lambda>existingKey.
       bind_io (if existingKey \<noteq> None then on_device (rethrow_io Failed (load i)) else return_io None) (\<lambda>existing.
       if existing \<noteq> None then return_io (i, the existingKey)
       else
         (let key = (case existingKey of Some k \<Rightarrow> k | None \<Rightarrow> generated) in
          bind_io (on_device (rethrow_io Failed (lift_io created))) (\<lambda>a.
          bind_io (if existingKey = None
                   then on_device (rethrow_io Failed (on_keys (on_store (saveAggregateKey c (ag_id a) key))))
                   else return_io ()) (\<lambda>_.
          bind_io (on_device (save key a)) (\<lambda>_.
          bind_io (idempotency_put \<lparr>ir_key = idempotencyKey, ir_commandType = commandType,
            ir_aggregateId = i, ir_createdAt = timestamp\<rparr>) (\<lambda>_.
          return_io (ag_id a, key)))))))))"

subsection \<open>SimpleBus\<close>

type_synonym 'h bus = "(string \<times> 'h) list"

definition bus_register :: "string \<Rightarrow> 'h \<Rightarrow> 'h bus \<Rightarrow> 'h bus result" where
  "bus_register name handler b =
     (if map_of b name \<noteq> None then Inl (Error ''Handler already registered'') else Inr (b @ [(name, handler)]))"

definition bus_dispatch :: "string \<Rightarrow> 'h bus \<Rightarrow> 'h result" where
  "bus_dispatch name b =
     (case map_of b name of None \<Rightarrow> Inl (Error ''No handler registered'') | Some h \<Rightarrow> Inr h)"

text \<open>\<open>wrapGoal\<close> and \<open>wrapProject\<close>: a dispatched command never throws, it returns a failure.\<close>

datatype 'a command_result = Success 'a | Failure "validation_error list"

fun toFailure :: "command_error \<Rightarrow> validation_error list" where
  "toFailure (ValidationException es) = es"
| "toFailure (NotFoundError i) = [(''application'', Error ''not found'')]"
| "toFailure (Thrown e) = [(''application'',
     case e of Failed x \<Rightarrow> x | ConcurrencyError m \<Rightarrow> Error m | PersistenceError m \<Rightarrow> Error m | MissingKeyError m \<Rightarrow> Error m)]"

definition returning_id :: "string command_io \<Rightarrow> (string \<times> bytes option) command_io" where
  "returning_id m = bind_io m (\<lambda>i. return_io (i, None))"

definition returning_key :: "(string \<times> bytes) command_io \<Rightarrow> (string \<times> bytes option) command_io" where
  "returning_key m = bind_io m (\<lambda>(i, k). return_io (i, Some k))"

definition wrap_handler :: "'a command_io \<Rightarrow> app \<Rightarrow> 'a command_result \<times> app" where
  "wrap_handler m a = (case m a of (Inl e, a') \<Rightarrow> (Failure (toFailure e), a') | (Inr x, a') \<Rightarrow> (Success x, a'))"

end
