(* ===== verification/CommandFacts.thy ===== *)
theory CommandFacts
  imports CommandHandler
begin

text \<open>
  What the shared part of the command handlers guarantees, for any repository that keeps its
  contract: a command with a recorded key does nothing, a stale command and a command the
  aggregate refuses change no history, an accepted one extends it by the new events and records
  its key.
\<close>

lemma both_Inr [simp]: "both p q = Inr x \<longleftrightarrow> p = Inr (fst x) \<and> q = Inr (snd x)"
  by (cases x) (auto simp: both_def split: sum.split)

lemma field_Inr [simp]: "field name r = Inr a \<longleftrightarrow> r = Inr a"
  by (simp add: field_def split: sum.split)

lemma parseCommand_Inr [simp]: "parseCommand p = Inr a \<longleftrightarrow> p = Inr a"
  by (simp add: parseCommand_def split: sum.split)

text \<open>The errors of a command: one for each field that fails, in the order of the specification.\<close>

lemma both_Inl: "both p q = Inl es \<longleftrightarrow> (p \<noteq> Inr (projr p) \<or> q \<noteq> Inr (projr q)) \<and> es = (case p of Inl xs \<Rightarrow> xs | _ \<Rightarrow> []) @ (case q of Inl ys \<Rightarrow> ys | _ \<Rightarrow> [])"
  by (auto simp: both_def split: sum.split)

lemma parse_Inr [simp]:
  "parseTimestamp t = Inr x \<longleftrightarrow> t = Some x"
  "parseKnownVersion t = Inr x \<longleftrightarrow> t = Some x \<and> 0 \<le> x"
  "parseIdempotencyKey k = Inr y \<longleftrightarrow> y = k \<and> trim k \<noteq> [] \<and> length k \<le> 200"
  by (auto simp: parseTimestamp_def parseKnownVersion_def parseIdempotencyKey_def split: option.split)

lemma parse_trace_nonempty [simp]:
  "parse_trace CorrelationId_from x \<noteq> Inr (Some [])" "parse_trace EventId_from x \<noteq> Inr (Some [])"
  by (auto simp: parse_trace_def split: option.splits sum.splits)

subsection \<open>The idempotency table\<close>

definition recorded :: "string \<Rightarrow> string \<Rightarrow> string \<Rightarrow> app \<Rightarrow> bool" where
  "recorded key commandType i a \<longleftrightarrow>
     (\<exists>r. idempotency_get key a = Some r \<and> ir_commandType r = commandType \<and> ir_aggregateId r = i)"

lemma idempotency_get_device [simp]: "idempotency_get key (a\<lparr>ap_device := d\<rparr>) = idempotency_get key a"
  by (simp add: idempotency_get_def)

lemma recorded_device [simp]: "recorded key ty i (a\<lparr>ap_device := d\<rparr>) = recorded key ty i a"
  by (simp add: recorded_def)

lemma isDuplicate_cases:
  "isDuplicateCommand key ty i a =
     (case idempotency_get key a of
        None \<Rightarrow> (Inr False, a)
      | Some r \<Rightarrow> (if recorded key ty i a then Inr True else Inl (Thrown (Failed key_reuse)), a))"
  by (auto simp: isDuplicateCommand_def bind_io_def assertIdempotencyRecord_def recorded_def guard_result_def split: option.split)

lemma idempotency_put_get:
  assumes "idempotency_put r a = (Inr (), a')"
  shows "recorded (ir_key r) (ir_commandType r) (ir_aggregateId r) a'"
  using assms
  by (auto simp: idempotency_put_def bind_io_def recorded_def idempotency_get_def find_append
      split: option.splits if_splits)

lemma idempotency_put_new:
  "idempotency_get (ir_key r) a = None \<Longrightarrow>
     idempotency_put r a = (Inr (), a\<lparr>ap_idempotency := ap_idempotency a @ [r]\<rparr>)"
  by (simp add: idempotency_put_def bind_io_def)

lemma on_device_frame: "on_device m a = (r, a') \<Longrightarrow> ap_idempotency a' = ap_idempotency a"
  by (auto simp: on_device_def split: prod.splits sum.splits)

text \<open>A command that has returned once is recorded, and from then on returns at once.\<close>

lemma persist_recorded:
  assumes "persist_aggregate c save key ty t x a = (Inr j, a')"
  shows "j = ag_id x \<and> recorded key ty (ag_id x) a'"
  using assms idempotency_put_get [of "\<lparr>ir_key = key, ir_commandType = ty, ir_aggregateId = ag_id x, ir_createdAt = t\<rparr>"]
  by (auto simp: persist_aggregate_def bind_io_def split: prod.splits sum.splits option.splits)

lemma update_recorded:
  assumes "update_aggregate c load save ty i t v key f a = (Inr j, a')"
    and "\<And>d x. load i (ap_device a) = (Inr (Some x), d) \<Longrightarrow> ag_id x = i" and "\<And>x y. f x = Inr y \<Longrightarrow> ag_id y = ag_id x"
  shows "j = i \<and> recorded key ty i a'"
proof (cases "idempotency_get key a")
  case None
  have loaded: "ag_id x = i" if "load_aggregate load i a = (Inr x, b')" for x b'
    using that assms(2)
    by (auto simp: load_aggregate_def bind_io_def on_device_def rethrow_io_def
        split: prod.splits sum.splits option.splits)
  from assms(1) None obtain x y b b' where "load_aggregate load i a = (Inr x, b)" "f x = Inr y"
    "persist_aggregate c save key ty t y b' = (Inr j, a')"
    by (auto simp: update_aggregate_def bind_io_def isDuplicate_cases on_device_def rethrow_io_def
        split: prod.splits sum.splits if_splits)
  then show ?thesis using persist_recorded loaded assms(3) by metis
next
  case (Some r)
  then show ?thesis
    using assms(1) by (auto simp: update_aggregate_def bind_io_def isDuplicate_cases split: if_splits)
qed

lemma update_duplicate:
  "recorded key ty i a \<Longrightarrow> update_aggregate c load save ty i t v key f a = (Inr i, a)"
  by (auto simp: update_aggregate_def bind_io_def isDuplicate_cases recorded_def split: option.split)

lemma update_reuse:
  "idempotency_get key a \<noteq> None \<Longrightarrow> \<not> recorded key ty i a \<Longrightarrow>
     update_aggregate c load save ty i t v key f a = (Inl (Thrown (Failed key_reuse)), a)"
  by (auto simp: update_aggregate_def bind_io_def isDuplicate_cases split: option.split)

subsection \<open>The shape of a handler\<close>

text \<open>A parsed request: type, aggregate, timestamp, known version, idempotency key, and the domain
  command for the event id it draws.\<close>

type_synonym 'c parsed_request = "string \<times> string \<times> int \<times> int \<times> string \<times> (string \<Rightarrow> 'c)"

definition run_request ::
  "crypto_port \<Rightarrow> (string \<Rightarrow> (device, 's aggregate option) io) \<Rightarrow> 's saver \<Rightarrow> ('c \<Rightarrow> 's aggregate \<Rightarrow> 's aggregate result) \<Rightarrow>
     string \<Rightarrow> 'c parsed_request \<Rightarrow> string command_io" where
  "run_request c load save exec ev = (\<lambda>(ty, i, t, v, k, cmd). update_aggregate c load save ty i t v k (exec (cmd ev)))"

definition request_recorded :: "'c parsed_request \<Rightarrow> string \<Rightarrow> app \<Rightarrow> bool" where
  "request_recorded = (\<lambda>(ty, i, t, v, k, cmd) j a. j = i \<and> recorded k ty i a)"

lemma request_recorded_kept:
  "request_recorded y i a \<Longrightarrow> (\<And>k ty j. recorded k ty j a \<Longrightarrow> recorded k ty j b) \<Longrightarrow> request_recorded y i b"
  by (cases y) (simp add: request_recorded_def)

lemma run_recorded: "request_recorded y i a \<Longrightarrow> run_request c load save exec ev y a = (Inr i, a)"
  using update_duplicate by (cases y) (auto simp: run_request_def request_recorded_def)

definition new_request :: "'c parsed_request \<Rightarrow> app \<Rightarrow> bool" where
  "new_request = (\<lambda>(ty, i, t, v, k, cmd) a. idempotency_get k a = None)"

definition request_version :: "'c parsed_request \<Rightarrow> int" where
  "request_version = (\<lambda>(ty, i, t, v, k, cmd). v)"

definition request_command :: "'c parsed_request \<Rightarrow> string \<Rightarrow> 'c" where
  "request_command = (\<lambda>(ty, i, t, v, k, cmd). cmd)"

lemmas request_parts = new_request_def request_version_def request_command_def

definition parsed_ok :: "(string \<Rightarrow> 'c \<Rightarrow> bool) \<Rightarrow> string \<Rightarrow> int option \<Rightarrow> string \<Rightarrow> 'c parsed_request \<Rightarrow> bool" where
  "parsed_ok command_ok i v k = (\<lambda>(ty, i', t, v', k', gc).
     UUID_REGEX i \<and> i' = i \<and> v = Some v' \<and> k' = k \<and> (\<forall>ev. command_ok ev (gc ev)))"

lemma bind_lift [simp]:
  "bind_io (lift_io (Inr x)) f = f x" "bind_io (lift_io (Inl e)) f = lift_io (Inl e)"
  by (simp_all add: bind_io_def fun_eq_iff)

lemma bind_lift_assoc: "bind_io (lift_io p) (\<lambda>x. bind_io (lift_io (h x)) f) = bind_io (lift_io (bind_result p h)) f"
  by (cases p) simp_all

text \<open>
  A handler that parses its command to a request, with a result independent of the cipher and of
  the event id, and then runs the request.
\<close>

definition shape ::
  "(crypto_port \<Rightarrow> derive \<Rightarrow> string \<Rightarrow> 'p \<Rightarrow> string command_io) \<Rightarrow> (command_error + 'p \<Rightarrow> bool) \<Rightarrow>
     (crypto_port \<Rightarrow> derive \<Rightarrow> string \<Rightarrow> string command_io) \<Rightarrow> bool" where
  "shape run P m \<longleftrightarrow>
     (\<exists>q. (\<forall>c derive ev. m c derive ev = bind_io (lift_io q) (run c derive ev)) \<and> P q)"

lemma handler_shape:
  assumes "\<And>c derive ev. m c derive ev = bind_io (lift_io p) (f c derive ev)"
    and "\<And>c derive ev x. f c derive ev x = bind_io (lift_io (h x)) (run c derive ev)"
    and "P (bind_result p h)"
  shows "shape run P m"
  unfolding shape_def
proof (intro exI [of _ "bind_result p h"] conjI allI)
  fix c derive ev
  have "f c derive ev = (\<lambda>x. bind_io (lift_io (h x)) (run c derive ev))" using assms(2) by blast
  then show "m c derive ev = bind_io (lift_io (bind_result p h)) (run c derive ev)"
    using assms(1) bind_lift_assoc by metis
qed (rule assms(3))

definition dispatches ::
  "(crypto_port \<Rightarrow> derive \<Rightarrow> string \<Rightarrow> 'p \<Rightarrow> string command_io) \<Rightarrow> (command_error + 'p \<Rightarrow> bool) \<Rightarrow>
     (crypto_port \<Rightarrow> derive \<Rightarrow> bytes \<Rightarrow> string \<Rightarrow> app \<Rightarrow> (string \<times> bytes option) command_result \<times> app) \<Rightarrow> bool" where
  "dispatches run P D \<longleftrightarrow>
     (\<exists>q. (\<forall>c derive gen ev. D c derive gen ev = wrap_handler (returning_id (bind_io (lift_io q) (run c derive ev)))) \<and> P q)"

lemma dispatch_shape:
  assumes "\<And>c derive gen ev. D c derive gen ev = wrap_handler (returning_id (m c derive ev))" and "shape run P m"
  shows "dispatches run P D"
  using assms unfolding shape_def dispatches_def by metis

text \<open>A request that has succeeded once succeeds again without any effect.\<close>

lemma dispatch_retry:
  assumes "dispatches run P D"
    and rec0: "\<And>y i a'. P (Inr y) \<Longrightarrow> run c derive ev y a = (Inr i, a') \<Longrightarrow> rec y i a'"
    and rep: "\<And>c derive ev y i a. rec y i a \<Longrightarrow> run c derive ev y a = (Inr i, a)"
    and run: "D c derive gen ev a = (Success x, a')" and kept: "\<And>y i. rec y i a' \<Longrightarrow> rec y i b"
  shows "D c2 derive2 gen2 ev2 b = (Success x, b)"
proof -
  obtain q where q: "\<And>c derive gen ev. D c derive gen ev = wrap_handler (returning_id (bind_io (lift_io q) (run c derive ev)))"
    "P q"
    using assms(1) unfolding dispatches_def by blast
  obtain y i where y: "q = Inr y" "run c derive ev y a = (Inr i, a')" "x = (i, None)"
    using run q(1) by (cases q) (auto simp: wrap_handler_def returning_id_def bind_io_def split: prod.splits sum.splits)
  have "rec y i b" using kept [OF rec0 [OF _ y(2)]] q(2) y(1) by blast
  then show ?thesis using rep q(1) y by (simp add: wrap_handler_def returning_id_def bind_io_def)
qed

text \<open>A valid new event of an aggregate.\<close>

definition fresh_event :: "string \<Rightarrow> string \<Rightarrow> domain_event \<Rightarrow> bool" where
  "fresh_event i ev e \<longleftrightarrow> event_ok e \<and> meta_ok (ev_meta e) \<and> em_aggregateId (ev_meta e) = i \<and> em_eventId (ev_meta e) = ev"

lemma fresh_storable:
  "\<forall>e \<in> set es. fresh_event i ev e \<Longrightarrow> length es \<le> 1 \<Longrightarrow> \<not> has_event db ev \<Longrightarrow> storable i db es"
  by (cases es) (auto simp: storable_def fresh_event_def)

subsection \<open>The contract of a repository\<close>

text \<open>
  \<open>repo_ok key i evs d\<close>: the device stores the history \<open>evs\<close> of the aggregate and its key.
  Loading replays the history; saving an aggregate whose new events are acceptable extends it.
\<close>

locale aggregate_repository =
  fixes c :: crypto_port
    and load :: "string \<Rightarrow> (device, 's aggregate option) io"
    and save :: "'s saver"
    and reconstitute :: "string \<Rightarrow> domain_event list \<Rightarrow> 's aggregate result"
    and repo_ok :: "bytes \<Rightarrow> string \<Rightarrow> domain_event list \<Rightarrow> device \<Rightarrow> bool"
    and acceptable :: "string \<Rightarrow> domain_event list \<Rightarrow> local_db \<Rightarrow> 's aggregate \<Rightarrow> bool"
  assumes repo_key: "repo_ok key i evs d \<Longrightarrow> on_keys (km_getAggregateKey c i) d = (Inr (Some key), d)"
    and repo_load: "repo_ok key i evs d \<Longrightarrow> \<exists>d'. load i d =
        (if evs = [] then Inr None else bind_result (reconstitute i evs) (\<lambda>a. Inr (Some a)), d') \<and>
        dv_db d' = dv_db d \<and> repo_ok key i evs d'"
    and repo_id: "reconstitute i evs = Inr a \<Longrightarrow> ag_id a = i"
    and repo_save: "repo_ok key i evs d \<Longrightarrow> ag_id a = i \<Longrightarrow> acceptable i evs (dv_db d) a \<Longrightarrow>
        \<exists>d'. save key a d = (Inr (markEventsAsCommitted a), d') \<and> repo_ok key i (evs @ ag_uncommitted a) d'"
begin

lemma loaded_id: "repo_ok key i evs d \<Longrightarrow> load i d = (Inr (Some g), d') \<Longrightarrow> ag_id g = i"
  by (drule repo_load) (cases "reconstitute i evs"; auto dest: repo_id split: if_splits)

lemma load_stored:
  assumes "repo_ok key i evs (ap_device a)" and "evs \<noteq> []" and "reconstitute i evs = Inr g"
  shows "\<exists>d. load_aggregate load i a = (Inr g, a\<lparr>ap_device := d\<rparr>) \<and> dv_db d = dv_db (ap_device a) \<and> repo_ok key i evs d"
proof -
  obtain d where "load i (ap_device a) = (Inr (Some g), d)" "dv_db d = dv_db (ap_device a)" "repo_ok key i evs d"
    using repo_load [OF assms(1)] assms(2,3) by auto
  then show ?thesis
    by (intro exI [of _ d]) (simp add: load_aggregate_def bind_io_def on_device_def rethrow_io_def)
qed

lemma persist_stored:
  assumes "repo_ok key i evs (ap_device a)" and "ag_id g = i" and "acceptable i evs (dv_db (ap_device a)) g"
    and "idempotency_get k a = None"
  shows "\<exists>d. persist_aggregate c save k ty t g a = (Inr i,
       a\<lparr>ap_device := d, ap_idempotency := ap_idempotency a @ [\<lparr>ir_key = k, ir_commandType = ty, ir_aggregateId = i, ir_createdAt = t\<rparr>]\<rparr>) \<and>
     repo_ok key i (evs @ ag_uncommitted g) d"
proof -
  obtain d where "save key g (ap_device a) = (Inr (markEventsAsCommitted g), d)" "repo_ok key i (evs @ ag_uncommitted g) d"
    using repo_save [OF assms(1-3)] by blast
  then show ?thesis
    using repo_key [OF assms(1)] assms(2,4)
    by (intro exI [of _ d]) (simp add: persist_aggregate_def stored_key_def bind_io_def on_device_def rethrow_io_def idempotency_put_new)
qed

text \<open>A command that is not in the table: stale, refused, or executed.\<close>

lemma update_fresh:
  assumes ok: "repo_ok key i evs (ap_device a)" "evs \<noteq> []" "reconstitute i evs = Inr g"
    and k: "idempotency_get k a = None"
  shows "ag_version g \<noteq> v \<Longrightarrow> \<exists>d. update_aggregate c load save ty i t v k f a =
       (Inl (Thrown (ConcurrencyError ''version mismatch'')), a\<lparr>ap_device := d\<rparr>) \<and> dv_db d = dv_db (ap_device a) \<and> repo_ok key i evs d"
    and "ag_version g = v \<Longrightarrow> f g = Inl e \<Longrightarrow> \<exists>d. update_aggregate c load save ty i t v k f a =
       (Inl (Thrown (Failed e)), a\<lparr>ap_device := d\<rparr>) \<and> dv_db d = dv_db (ap_device a) \<and> repo_ok key i evs d"
    and "ag_version g = v \<Longrightarrow> f g = Inr g' \<Longrightarrow> ag_id g' = i \<Longrightarrow> acceptable i evs (dv_db (ap_device a)) g' \<Longrightarrow>
       \<exists>d. update_aggregate c load save ty i t v k f a = (Inr i,
         a\<lparr>ap_device := d, ap_idempotency := ap_idempotency a @ [\<lparr>ir_key = k, ir_commandType = ty, ir_aggregateId = i, ir_createdAt = t\<rparr>]\<rparr>) \<and>
         repo_ok key i (evs @ ag_uncommitted g') d"
proof -
  obtain d where d: "load_aggregate load i a = (Inr g, a\<lparr>ap_device := d\<rparr>)" "dv_db d = dv_db (ap_device a)" "repo_ok key i evs d"
    using load_stored [OF ok] by blast
  note step = update_aggregate_def bind_io_def isDuplicate_cases assertKnownVersion_def on_device_def rethrow_io_def
  show "\<exists>d. update_aggregate c load save ty i t v k f a =
      (Inl (Thrown (ConcurrencyError ''version mismatch'')), a\<lparr>ap_device := d\<rparr>) \<and> dv_db d = dv_db (ap_device a) \<and> repo_ok key i evs d"
    if "ag_version g \<noteq> v" using that k d by (intro exI [of _ d]) (simp add: step)
  show "\<exists>d. update_aggregate c load save ty i t v k f a =
      (Inl (Thrown (Failed e)), a\<lparr>ap_device := d\<rparr>) \<and> dv_db d = dv_db (ap_device a) \<and> repo_ok key i evs d"
    if "ag_version g = v" "f g = Inl e" using that k d by (intro exI [of _ d]) (simp add: step)
  show "\<exists>d. update_aggregate c load save ty i t v k f a = (Inr i,
         a\<lparr>ap_device := d, ap_idempotency := ap_idempotency a @ [\<lparr>ir_key = k, ir_commandType = ty, ir_aggregateId = i, ir_createdAt = t\<rparr>]\<rparr>) \<and>
         repo_ok key i (evs @ ag_uncommitted g') d"
    if "ag_version g = v" "f g = Inr g'" "ag_id g' = i" "acceptable i evs (dv_db (ap_device a)) g'"
    using that k d persist_stored [of key i evs "a\<lparr>ap_device := d\<rparr>" g' k ty t] by (simp add: step)
qed

text \<open>Creation: with a stored key but no history, with neither, and of an aggregate that exists.\<close>

lemma create_with_key:
  assumes ok: "repo_ok key i [] (ap_device a)" and k: "idempotency_get k a = None"
    and g: "created = Inr g" "ag_id g = i" "acceptable i [] (dv_db (ap_device a)) g"
  shows "\<exists>d. create_aggregate c gen load save ty i t k created a = (Inr (i, key),
       a\<lparr>ap_device := d, ap_idempotency := ap_idempotency a @ [\<lparr>ir_key = k, ir_commandType = ty, ir_aggregateId = i, ir_createdAt = t\<rparr>]\<rparr>) \<and>
     repo_ok key i (ag_uncommitted g) d"
proof -
  obtain d1 where d1: "load i (ap_device a) = (Inr None, d1)" "dv_db d1 = dv_db (ap_device a)" "repo_ok key i [] d1"
    using repo_load [OF ok] by auto
  then obtain d where d: "save key g d1 = (Inr (markEventsAsCommitted g), d)" "repo_ok key i (ag_uncommitted g) d"
    using repo_save [OF d1(3) g(2)] g(3) by auto
  show ?thesis
    using repo_key [OF ok] d1(1) d k g(1,2)
    by (intro exI [of _ d]) (simp add: create_aggregate_def bind_io_def isDuplicate_cases stored_key_def on_device_def
        rethrow_io_def idempotency_put_new)
qed

lemma create_new:
  assumes none: "on_keys (km_getAggregateKey c i) (ap_device a) = (Inr None, ap_device a)"
    and saved: "on_keys (on_store (saveAggregateKey c i gen)) (ap_device a) = (Inr (), d1)" "repo_ok gen i [] d1"
      "dv_db d1 = dv_db (ap_device a)"
    and k: "idempotency_get k a = None" and g: "created = Inr g" "ag_id g = i" "acceptable i [] (dv_db (ap_device a)) g"
  shows "\<exists>d. create_aggregate c gen load save ty i t k created a = (Inr (i, gen),
       a\<lparr>ap_device := d, ap_idempotency := ap_idempotency a @ [\<lparr>ir_key = k, ir_commandType = ty, ir_aggregateId = i, ir_createdAt = t\<rparr>]\<rparr>) \<and>
     repo_ok gen i (ag_uncommitted g) d"
proof -
  obtain d where d: "save gen g d1 = (Inr (markEventsAsCommitted g), d)" "repo_ok gen i (ag_uncommitted g) d"
    using repo_save [OF saved(2) g(2)] g(3) saved(3) by auto
  show ?thesis
    using none saved(1) d k g(1,2)
    by (intro exI [of _ d]) (simp add: create_aggregate_def bind_io_def isDuplicate_cases stored_key_def on_device_def
        rethrow_io_def idempotency_put_new)
qed

lemma create_again:
  assumes ok: "repo_ok key i evs (ap_device a)" "evs \<noteq> []" "reconstitute i evs = Inr g"
    and k: "idempotency_get k a = None \<or> recorded k ty i a"
  shows "\<exists>d. create_aggregate c gen load save ty i t k created a = (Inr (i, key), a\<lparr>ap_device := d\<rparr>) \<and>
     dv_db d = dv_db (ap_device a) \<and> repo_ok key i evs d"
proof -
  obtain d where d: "load i (ap_device a) = (Inr (Some g), d)" "dv_db d = dv_db (ap_device a)" "repo_ok key i evs d"
    using repo_load [OF ok(1)] ok(2,3) by auto
  have dup: "isDuplicateCommand k ty i a = (Inr (recorded k ty i a), a)"
    using k by (auto simp: isDuplicate_cases recorded_def)
  show ?thesis
  proof (cases "recorded k ty i a")
    case True
    then show ?thesis
      using repo_key [OF ok(1)] dup ok(1)
      by (intro exI [of _ "ap_device a"]) (simp add: create_aggregate_def bind_io_def stored_key_def on_device_def rethrow_io_def)
  next
    case False
    then show ?thesis
      using repo_key [OF ok(1)] dup d
      by (intro exI [of _ d]) (simp add: create_aggregate_def bind_io_def stored_key_def on_device_def rethrow_io_def)
  qed
qed

end

text \<open>
  A repository together with the commands of its aggregate. A command with valid values yields at
  most one event, valid and acceptable to the repository.
\<close>

locale command_target = aggregate_repository +
  fixes exec :: "'c \<Rightarrow> 'a aggregate \<Rightarrow> 'a aggregate result"
    and command_ok :: "string \<Rightarrow> 'c \<Rightarrow> bool"
  assumes exec_id: "exec cmd g = Inr g' \<Longrightarrow> ag_id g' = ag_id g"
    and exec_acceptable: "repo_ok key i evs d \<Longrightarrow> evs \<noteq> [] \<Longrightarrow> reconstitute i evs = Inr g \<Longrightarrow> exec cmd g = Inr g' \<Longrightarrow>
        command_ok ev cmd \<Longrightarrow> UUID_REGEX i \<Longrightarrow> ev \<noteq> [] \<Longrightarrow> \<not> has_event (dv_db d) ev \<Longrightarrow>
        acceptable i evs (dv_db d) g' \<and> length (ag_uncommitted g') \<le> 1 \<and>
        (\<forall>e \<in> set (ag_uncommitted g'). fresh_event i ev e) \<and>
        reconstitute i (evs @ ag_uncommitted g') = Inr (markEventsAsCommitted g')"
begin

lemma run_records_request:
  assumes "repo_ok key i evs (ap_device a)" and "parsed_ok command_ok i v k y" and "run_request c load save exec ev y a = (Inr j, a')"
  shows "request_recorded y j a'"
  using assms update_recorded [of c load save _ i _ _ k _ a j a', OF _ loaded_id [OF assms(1)] exec_id]
  by (auto simp: run_request_def request_recorded_def parsed_ok_def)

text \<open>Every run of a request: it fails and changes nothing, or it was recorded before, or it is executed.\<close>

definition outcome where
  "outcome key i evs g ev y a r a' \<longleftrightarrow>
     (case r of
        Inl _ \<Rightarrow> repo_ok key i evs (ap_device a') \<and> ap_idempotency a' = ap_idempotency a \<and> \<not> request_recorded y i a \<and>
          \<not> (new_request y a \<and> ag_version g = request_version y \<and> (\<exists>g'. exec (request_command y ev) g = Inr g'))
      | Inr j \<Rightarrow> j = i \<and> (request_recorded y i a \<and> a' = a \<or>
          new_request y a \<and> ag_version g = request_version y \<and> request_recorded y i a' \<and>
          (\<exists>g'. exec (request_command y ev) g = Inr g' \<and>
             length (ag_uncommitted g') \<le> 1 \<and> (\<forall>e \<in> set (ag_uncommitted g'). fresh_event i ev e) \<and>
             repo_ok key i (evs @ ag_uncommitted g') (ap_device a') \<and>
             reconstitute i (evs @ ag_uncommitted g') = Inr (markEventsAsCommitted g'))))"

lemma run_outcome:
  assumes ok: "repo_ok key i evs (ap_device a)" "evs \<noteq> []" "reconstitute i evs = Inr g"
    and y: "parsed_ok command_ok i v k y" and ev: "ev \<noteq> []" "\<not> has_event (dv_db (ap_device a)) ev"
  shows "\<exists>r a'. run_request c load save exec ev y a = (r, a') \<and> outcome key i evs g ev y a r a'"
proof -
  obtain ty t w cmd where yy: "y = (ty, i, t, w, k, cmd)" "UUID_REGEX i" "command_ok ev (cmd ev)"
    using y by (auto simp: parsed_ok_def)
  have run: "run_request c load save exec ev y a = update_aggregate c load save ty i t w k (exec (cmd ev)) a"
    by (simp add: run_request_def yy)
  show ?thesis
  proof (cases "idempotency_get k a")
    case (Some x)
    then show ?thesis
      using run ok(1) update_duplicate [of k ty i a c load save] update_reuse [of k a ty i c load save]
      by (cases "recorded k ty i a") (auto simp: outcome_def request_recorded_def request_parts yy)
  next
    case None
    note fresh = update_fresh [OF ok None, where v = w and ty = ty and t = t and f = "exec (cmd ev)"]
    consider "ag_version g \<noteq> w" | e where "ag_version g = w" "exec (cmd ev) g = Inl e"
      | g' where "ag_version g = w" "exec (cmd ev) g = Inr g'" by (cases "exec (cmd ev) g") auto
    then show ?thesis
    proof cases
      case 1
      then show ?thesis using fresh(1) run None by (auto simp: outcome_def request_recorded_def recorded_def request_parts yy)
    next
      case 2
      then show ?thesis using fresh(2) run None by (auto simp: outcome_def request_recorded_def recorded_def request_parts yy)
    next
      case 3
      have "acceptable i evs (dv_db (ap_device a)) g' \<and> length (ag_uncommitted g') \<le> 1 \<and>
          (\<forall>e \<in> set (ag_uncommitted g'). fresh_event i ev e) \<and>
          reconstitute i (evs @ ag_uncommitted g') = Inr (markEventsAsCommitted g')"
        using exec_acceptable [OF ok 3(2) yy(3,2) ev] .
      moreover have "ag_id g' = i" using exec_id [OF 3(2)] repo_id [OF ok(3)] by simp
      moreover have "recorded k ty i (a\<lparr>ap_device := d, ap_idempotency := ap_idempotency a @
          [\<lparr>ir_key = k, ir_commandType = ty, ir_aggregateId = i, ir_createdAt = t\<rparr>]\<rparr>)" for d
        using None by (simp add: recorded_def idempotency_get_def find_append)
      ultimately show ?thesis using fresh(3) [OF 3] run 3 None by (force simp: outcome_def yy request_parts request_recorded_def)
    qed
  qed
qed

text \<open>
  The answer to a request whose parsing gave \<open>q\<close>: a failure says that it did not parse, that its key
  stands for another command, that it is stale or that the aggregate refused it.
\<close>

lemma dispatch_outcome:
  assumes ok: "repo_ok key i evs (ap_device a)" "evs \<noteq> []" "reconstitute i evs = Inr g"
    and q: "\<forall>y. q = Inr y \<longrightarrow> parsed_ok command_ok i v k y" and ev: "ev \<noteq> []" "\<not> has_event (dv_db (ap_device a)) ev"
  shows "\<exists>res a' new. wrap_handler (returning_id (bind_io (lift_io q) (run_request c load save exec ev))) a = (res, a') \<and>
     repo_ok key i (evs @ new) (ap_device a') \<and> length new \<le> 1 \<and> (\<forall>e \<in> set new. fresh_event i ev e) \<and>
     (case res of
        Failure _ \<Rightarrow> new = [] \<and> ap_idempotency a' = ap_idempotency a \<and>
          (\<forall>y. q = Inr y \<longrightarrow> \<not> request_recorded y i a \<and>
             \<not> (new_request y a \<and> ag_version g = request_version y \<and> (\<exists>g'. exec (request_command y ev) g = Inr g')))
      | Success x \<Rightarrow> x = (i, None) \<and> (\<exists>y. q = Inr y \<and> (request_recorded y i a \<and> a' = a \<and> new = [] \<or>
          new_request y a \<and> ag_version g = request_version y \<and> request_recorded y i a' \<and>
          (\<exists>g'. exec (request_command y ev) g = Inr g' \<and> new = ag_uncommitted g' \<and>
             reconstitute i (evs @ new) = Inr (markEventsAsCommitted g')))))"
proof (cases q)
  case (Inl e)
  then show ?thesis
    using ok(1) by (intro exI [of _ "Failure (toFailure e)"] exI [of _ a] exI [of _ "[]"])
      (simp add: wrap_handler_def returning_id_def bind_io_def)
next
  case (Inr y)
  then have y: "parsed_ok command_ok i v k y" using q by blast
  obtain r a' where run: "run_request c load save exec ev y a = (r, a')" "outcome key i evs g ev y a r a'"
    using run_outcome [OF ok y ev] by blast
  have D: "wrap_handler (returning_id (bind_io (lift_io q) (run_request c load save exec ev))) a =
      (case r of Inl e \<Rightarrow> Failure (toFailure e) | Inr j \<Rightarrow> Success (j, None), a')"
    using run(1) Inr by (simp add: wrap_handler_def returning_id_def bind_io_def split: sum.split)
  consider e where "r = Inl e" | "r = Inr i" "request_recorded y i a" "a' = a"
    | g' where "r = Inr i" "exec (request_command y ev) g = Inr g'" "new_request y a" "ag_version g = request_version y"
      "request_recorded y i a'" "length (ag_uncommitted g') \<le> 1"
      "\<forall>e \<in> set (ag_uncommitted g'). fresh_event i ev e" "repo_ok key i (evs @ ag_uncommitted g') (ap_device a')"
      "reconstitute i (evs @ ag_uncommitted g') = Inr (markEventsAsCommitted g')"
    using run(2) by (cases r) (auto simp: outcome_def)
  then show ?thesis
  proof cases
    case 1
    then show ?thesis
      using D run(2) Inr by (intro exI [of _ "Failure (toFailure e)"] exI [of _ a'] exI [of _ "[]"]) (simp add: outcome_def)
  next
    case 2
    then show ?thesis
      using D ok(1) Inr by (intro exI [of _ "Success (i, None)"] exI [of _ a'] exI [of _ "[]"]) simp
  next
    case 3
    then show ?thesis
      using D Inr by (intro exI [of _ "Success (i, None)"] exI [of _ a'] exI [of _ "ag_uncommitted g'"]) auto
  qed
qed

end

subsection \<open>The table only grows\<close>

text \<open>What a computation does to the table of idempotency keys: at most, it appends records.\<close>

definition grows :: "'a command_io \<Rightarrow> bool" where
  "grows m \<longleftrightarrow> (\<forall>a. \<exists>rs. ap_idempotency (snd (m a)) = ap_idempotency a @ rs)"

lemma grows_same: "(\<And>a. ap_idempotency (snd (m a)) = ap_idempotency a) \<Longrightarrow> grows m"
  by (simp add: grows_def)

lemma grows_return [intro!]: "grows (return_io x)" "grows (throw_io e)" "grows (lift_io r)" "grows (read_io f)"
  by (rule grows_same, simp)+

lemma grows_bind [intro!]:
  assumes "grows m" and "\<And>x. grows (f x)"
  shows "grows (bind_io m f)"
  unfolding grows_def
proof
  fix a
  obtain r b where m: "m a = (r, b)" by fastforce
  obtain rs where rs: "ap_idempotency b = ap_idempotency a @ rs" using assms(1) m unfolding grows_def by (metis snd_conv)
  show "\<exists>rs. ap_idempotency (snd (bind_io m f a)) = ap_idempotency a @ rs"
  proof (cases r)
    case (Inr x)
    obtain rs' where "ap_idempotency (snd (f x b)) = ap_idempotency b @ rs'" using assms(2) unfolding grows_def by blast
    then show ?thesis using m rs Inr by (simp add: bind_io_def)
  qed (simp add: bind_io_def m rs)
qed

lemma grows_on_device [intro!]: "grows (on_device m)"
  by (rule grows_same) (simp add: on_device_def split: prod.splits sum.splits)

lemma grows_put [intro!]: "grows (idempotency_put r)"
proof -
  have "\<exists>rs. ap_idempotency (snd (idempotency_put r a)) = ap_idempotency a @ rs" for a
    by (simp add: idempotency_put_def bind_io_def split: option.split)
  then show ?thesis by (simp add: grows_def)
qed

lemma grows_duplicate [intro!]: "grows (isDuplicateCommand key ty i)"
  by (rule grows_same) (simp add: isDuplicate_cases split: option.split)

lemma grows_update: "grows (update_aggregate c load save ty i t v k f)"
  by (auto simp: update_aggregate_def load_aggregate_def persist_aggregate_def stored_key_def split: option.splits)

lemma grows_create: "grows (create_aggregate c gen load save ty i t k created)"
  by (auto simp: create_aggregate_def stored_key_def Let_def split: option.splits)

lemma grows_wrap: "grows m \<Longrightarrow> \<exists>rs. ap_idempotency (snd (wrap_handler m a)) = ap_idempotency a @ rs"
  unfolding grows_def wrap_handler_def by (metis (no_types, lifting) case_prod_beta old.sum.exhaust old.sum.simps(5,6) snd_conv)

lemma recorded_appended:
  "recorded k ty i a \<Longrightarrow> ap_idempotency b = ap_idempotency a @ rs \<Longrightarrow> recorded k ty i b"
  by (auto simp: recorded_def idempotency_get_def find_append)

end
