(* ===== verification/GoalCommands.thy ===== *)
theory GoalCommands
  imports CommandHandler
begin

text \<open>
  packages/application/src/goals: the commands on goals and GoalCommandHandler.ts, and the command bus
  built in packages/infrastructure/src/goals/wiring.ts. A handler takes the event id its domain
  method draws; the handler of creation also the generated key.
\<close>

subsection \<open>Commands\<close>

record create_goal_command = base_command +
  crg_goalId :: string
  crg_slice :: string
  crg_summary :: string
  crg_targetMonth :: string
  crg_priority :: string
  crg_timestamp :: "int option"

record change_goal_summary_command = base_command +
  cgs_goalId :: string
  cgs_summary :: string
  cgs_timestamp :: "int option"
  cgs_knownVersion :: "int option"

record change_goal_slice_command = base_command +
  csl_goalId :: string
  csl_slice :: string
  csl_timestamp :: "int option"
  csl_knownVersion :: "int option"

record change_goal_target_month_command = base_command +
  cgm_goalId :: string
  cgm_targetMonth :: string
  cgm_timestamp :: "int option"
  cgm_knownVersion :: "int option"

record change_goal_priority_command = base_command +
  cgp_goalId :: string
  cgp_priority :: string
  cgp_timestamp :: "int option"
  cgp_knownVersion :: "int option"

record archive_goal_command = base_command +
  arg_goalId :: string
  arg_timestamp :: "int option"
  arg_knownVersion :: "int option"

record achieve_goal_command = base_command +
  acg_goalId :: string
  acg_timestamp :: "int option"
  acg_knownVersion :: "int option"

record unachieve_goal_command = base_command +
  ung_goalId :: string
  ung_timestamp :: "int option"
  ung_knownVersion :: "int option"

record grant_goal_access_command = base_command +
  gra_goalId :: string
  gra_grantToUserId :: string
  gra_permission :: string
  gra_timestamp :: "int option"
  gra_knownVersion :: "int option"

record revoke_goal_access_command = base_command +
  rva_goalId :: string
  rva_revokeUserId :: string
  rva_timestamp :: "int option"
  rva_knownVersion :: "int option"

subsection \<open>GoalCommandHandler\<close>

definition loadGoal :: "crypto_port \<Rightarrow> derive \<Rightarrow> string \<Rightarrow> goal command_io" where
  "loadGoal c derive i = load_aggregate (goal_load c derive) i"

definition goal_persist :: "crypto_port \<Rightarrow> string \<Rightarrow> string \<Rightarrow> int \<Rightarrow> goal \<Rightarrow> string command_io" where
  "goal_persist c idempotencyKey commandType createdAt a =
     persist_aggregate c (goal_save c) idempotencyKey commandType createdAt a"

text \<open>The part every handler of an existing goal shares.\<close>

definition goal_update :: "crypto_port \<Rightarrow> derive \<Rightarrow> string \<Rightarrow> string \<Rightarrow> int \<Rightarrow> int \<Rightarrow> string \<Rightarrow> (goal \<Rightarrow> goal result) \<Rightarrow> string command_io" where
  "goal_update c derive = update_aggregate c (goal_load c derive) (goal_save c)"

definition goal_handleCreate :: "crypto_port \<Rightarrow> derive \<Rightarrow> bytes \<Rightarrow> string \<Rightarrow> create_goal_command \<Rightarrow> (string \<times> bytes) command_io" where
  "goal_handleCreate c derive generated eventId cmd =
     bind_io (lift_io (parseCommand
       (both (field ''goalId'' (GoalId_from (crg_goalId cmd)))
       (both (field ''slice'' (Slice_from (crg_slice cmd)))
       (both (field ''summary'' (Summary_from (crg_summary cmd)))
       (both (field ''targetMonth'' (Month_from (crg_targetMonth cmd)))
       (both (field ''priority'' (Priority_from (crg_priority cmd)))
       (both (field ''actorId'' (UserId_from (bc_actorId cmd)))
       (both (field ''timestamp'' (parseTimestamp (crg_timestamp cmd)))
        (field ''idempotencyKey'' (parseIdempotencyKey (bc_idempotencyKey cmd))))))))))))
     (\<lambda>(goalId, sl, summary, targetMonth, priority, actorId, timestamp, idempotencyKey).
     create_aggregate c generated (goal_load c derive) (goal_save c) ''CreateGoal'' goalId timestamp idempotencyKey
       (Goal_create goalId sl summary targetMonth priority actorId timestamp eventId))"

definition handleChangeSummary :: "crypto_port \<Rightarrow> derive \<Rightarrow> string \<Rightarrow> change_goal_summary_command \<Rightarrow> string command_io" where
  "handleChangeSummary c derive eventId cmd =
     bind_io (lift_io (parseCommand
       (both (field ''goalId'' (GoalId_from (cgs_goalId cmd)))
       (both (field ''summary'' (Summary_from (cgs_summary cmd)))
       (both (field ''actorId'' (UserId_from (bc_actorId cmd)))
       (both (field ''timestamp'' (parseTimestamp (cgs_timestamp cmd)))
       (both (field ''knownVersion'' (parseKnownVersion (cgs_knownVersion cmd)))
        (field ''idempotencyKey'' (parseIdempotencyKey (bc_idempotencyKey cmd))))))))))
     (\<lambda>(goalId, summary, actorId, timestamp, knownVersion, idempotencyKey).
     goal_update c derive ''ChangeGoalSummary'' goalId timestamp knownVersion idempotencyKey
       (changeSummary summary timestamp actorId eventId))"

definition handleChangeSlice :: "crypto_port \<Rightarrow> derive \<Rightarrow> string \<Rightarrow> change_goal_slice_command \<Rightarrow> string command_io" where
  "handleChangeSlice c derive eventId cmd =
     bind_io (lift_io (parseCommand
       (both (field ''goalId'' (GoalId_from (csl_goalId cmd)))
       (both (field ''slice'' (Slice_from (csl_slice cmd)))
       (both (field ''actorId'' (UserId_from (bc_actorId cmd)))
       (both (field ''timestamp'' (parseTimestamp (csl_timestamp cmd)))
       (both (field ''knownVersion'' (parseKnownVersion (csl_knownVersion cmd)))
        (field ''idempotencyKey'' (parseIdempotencyKey (bc_idempotencyKey cmd))))))))))
     (\<lambda>(goalId, sl, actorId, timestamp, knownVersion, idempotencyKey).
     goal_update c derive ''ChangeGoalSlice'' goalId timestamp knownVersion idempotencyKey
       (changeSlice sl timestamp actorId eventId))"

definition handleChangeTargetMonth :: "crypto_port \<Rightarrow> derive \<Rightarrow> string \<Rightarrow> change_goal_target_month_command \<Rightarrow> string command_io" where
  "handleChangeTargetMonth c derive eventId cmd =
     bind_io (lift_io (parseCommand
       (both (field ''goalId'' (GoalId_from (cgm_goalId cmd)))
       (both (field ''targetMonth'' (Month_from (cgm_targetMonth cmd)))
       (both (field ''actorId'' (UserId_from (bc_actorId cmd)))
       (both (field ''timestamp'' (parseTimestamp (cgm_timestamp cmd)))
       (both (field ''knownVersion'' (parseKnownVersion (cgm_knownVersion cmd)))
        (field ''idempotencyKey'' (parseIdempotencyKey (bc_idempotencyKey cmd))))))))))
     (\<lambda>(goalId, targetMonth, actorId, timestamp, knownVersion, idempotencyKey).
     goal_update c derive ''ChangeGoalTargetMonth'' goalId timestamp knownVersion idempotencyKey
       (changeTargetMonth targetMonth timestamp actorId eventId))"

definition handleChangePriority :: "crypto_port \<Rightarrow> derive \<Rightarrow> string \<Rightarrow> change_goal_priority_command \<Rightarrow> string command_io" where
  "handleChangePriority c derive eventId cmd =
     bind_io (lift_io (parseCommand
       (both (field ''goalId'' (GoalId_from (cgp_goalId cmd)))
       (both (field ''priority'' (Priority_from (cgp_priority cmd)))
       (both (field ''actorId'' (UserId_from (bc_actorId cmd)))
       (both (field ''timestamp'' (parseTimestamp (cgp_timestamp cmd)))
       (both (field ''knownVersion'' (parseKnownVersion (cgp_knownVersion cmd)))
        (field ''idempotencyKey'' (parseIdempotencyKey (bc_idempotencyKey cmd))))))))))
     (\<lambda>(goalId, priority, actorId, timestamp, knownVersion, idempotencyKey).
     goal_update c derive ''ChangeGoalPriority'' goalId timestamp knownVersion idempotencyKey
       (changePriority priority timestamp actorId eventId))"

definition goal_handleArchive :: "crypto_port \<Rightarrow> derive \<Rightarrow> string \<Rightarrow> archive_goal_command \<Rightarrow> string command_io" where
  "goal_handleArchive c derive eventId cmd =
     bind_io (lift_io (parseCommand
       (both (field ''goalId'' (GoalId_from (arg_goalId cmd)))
       (both (field ''actorId'' (UserId_from (bc_actorId cmd)))
       (both (field ''timestamp'' (parseTimestamp (arg_timestamp cmd)))
       (both (field ''knownVersion'' (parseKnownVersion (arg_knownVersion cmd)))
        (field ''idempotencyKey'' (parseIdempotencyKey (bc_idempotencyKey cmd)))))))))
     (\<lambda>(goalId, actorId, timestamp, knownVersion, idempotencyKey).
     goal_update c derive ''ArchiveGoal'' goalId timestamp knownVersion idempotencyKey
       (goal_archive timestamp actorId eventId))"

definition handleAchieve :: "crypto_port \<Rightarrow> derive \<Rightarrow> string \<Rightarrow> achieve_goal_command \<Rightarrow> string command_io" where
  "handleAchieve c derive eventId cmd =
     bind_io (lift_io (parseCommand
       (both (field ''goalId'' (GoalId_from (acg_goalId cmd)))
       (both (field ''actorId'' (UserId_from (bc_actorId cmd)))
       (both (field ''timestamp'' (parseTimestamp (acg_timestamp cmd)))
       (both (field ''knownVersion'' (parseKnownVersion (acg_knownVersion cmd)))
        (field ''idempotencyKey'' (parseIdempotencyKey (bc_idempotencyKey cmd)))))))))
     (\<lambda>(goalId, actorId, timestamp, knownVersion, idempotencyKey).
     bind_io (lift_io (parse_trace CorrelationId_from (bc_correlationId cmd))) (\<lambda>correlationId.
     bind_io (lift_io (parse_trace EventId_from (bc_causationId cmd))) (\<lambda>causationId.
     goal_update c derive ''AchieveGoal'' goalId timestamp knownVersion idempotencyKey
       (achieve timestamp actorId correlationId causationId eventId))))"

definition handleUnachieve :: "crypto_port \<Rightarrow> derive \<Rightarrow> string \<Rightarrow> unachieve_goal_command \<Rightarrow> string command_io" where
  "handleUnachieve c derive eventId cmd =
     bind_io (lift_io (parseCommand
       (both (field ''goalId'' (GoalId_from (ung_goalId cmd)))
       (both (field ''actorId'' (UserId_from (bc_actorId cmd)))
       (both (field ''timestamp'' (parseTimestamp (ung_timestamp cmd)))
       (both (field ''knownVersion'' (parseKnownVersion (ung_knownVersion cmd)))
        (field ''idempotencyKey'' (parseIdempotencyKey (bc_idempotencyKey cmd)))))))))
     (\<lambda>(goalId, actorId, timestamp, knownVersion, idempotencyKey).
     bind_io (lift_io (parse_trace CorrelationId_from (bc_correlationId cmd))) (\<lambda>correlationId.
     bind_io (lift_io (parse_trace EventId_from (bc_causationId cmd))) (\<lambda>causationId.
     goal_update c derive ''UnachieveGoal'' goalId timestamp knownVersion idempotencyKey
       (unachieve timestamp actorId correlationId causationId eventId))))"

definition handleGrantAccess :: "crypto_port \<Rightarrow> derive \<Rightarrow> string \<Rightarrow> grant_goal_access_command \<Rightarrow> string command_io" where
  "handleGrantAccess c derive eventId cmd =
     bind_io (lift_io (parseCommand
       (both (field ''goalId'' (GoalId_from (gra_goalId cmd)))
       (both (field ''grantToUserId'' (UserId_from (gra_grantToUserId cmd)))
       (both (field ''permission'' (Permission_from (gra_permission cmd)))
       (both (field ''actorId'' (UserId_from (bc_actorId cmd)))
       (both (field ''timestamp'' (parseTimestamp (gra_timestamp cmd)))
       (both (field ''knownVersion'' (parseKnownVersion (gra_knownVersion cmd)))
        (field ''idempotencyKey'' (parseIdempotencyKey (bc_idempotencyKey cmd)))))))))))
     (\<lambda>(goalId, grantToUserId, permission, actorId, timestamp, knownVersion, idempotencyKey).
     goal_update c derive ''GrantGoalAccess'' goalId timestamp knownVersion idempotencyKey
       (grantAccess grantToUserId permission timestamp actorId eventId))"

definition handleRevokeAccess :: "crypto_port \<Rightarrow> derive \<Rightarrow> string \<Rightarrow> revoke_goal_access_command \<Rightarrow> string command_io" where
  "handleRevokeAccess c derive eventId cmd =
     bind_io (lift_io (parseCommand
       (both (field ''goalId'' (GoalId_from (rva_goalId cmd)))
       (both (field ''revokeUserId'' (UserId_from (rva_revokeUserId cmd)))
       (both (field ''actorId'' (UserId_from (bc_actorId cmd)))
       (both (field ''timestamp'' (parseTimestamp (rva_timestamp cmd)))
       (both (field ''knownVersion'' (parseKnownVersion (rva_knownVersion cmd)))
        (field ''idempotencyKey'' (parseIdempotencyKey (bc_idempotencyKey cmd))))))))))
     (\<lambda>(goalId, revokeUserId, actorId, timestamp, knownVersion, idempotencyKey).
     goal_update c derive ''RevokeGoalAccess'' goalId timestamp knownVersion idempotencyKey
       (revokeAccess revokeUserId timestamp actorId eventId))"

subsection \<open>The command bus\<close>

text \<open>The handler registered under the name of each command, in \<open>wrapGoal\<close>; only creation returns a key.\<close>

datatype goal_request =
    CreateGoalRequest create_goal_command
  | ChangeGoalSummaryRequest change_goal_summary_command
  | ChangeGoalSliceRequest change_goal_slice_command
  | ChangeGoalTargetMonthRequest change_goal_target_month_command
  | ChangeGoalPriorityRequest change_goal_priority_command
  | ArchiveGoalRequest archive_goal_command
  | AchieveGoalRequest achieve_goal_command
  | UnachieveGoalRequest unachieve_goal_command
  | GrantGoalAccessRequest grant_goal_access_command
  | RevokeGoalAccessRequest revoke_goal_access_command

fun goal_dispatch :: "crypto_port \<Rightarrow> derive \<Rightarrow> bytes \<Rightarrow> string \<Rightarrow> goal_request \<Rightarrow> app \<Rightarrow> (string \<times> bytes option) command_result \<times> app" where
  "goal_dispatch c derive generated eventId (CreateGoalRequest cmd) = wrap_handler (returning_key (goal_handleCreate c derive generated eventId cmd))"
| "goal_dispatch c derive generated eventId (ChangeGoalSummaryRequest cmd) = wrap_handler (returning_id (handleChangeSummary c derive eventId cmd))"
| "goal_dispatch c derive generated eventId (ChangeGoalSliceRequest cmd) = wrap_handler (returning_id (handleChangeSlice c derive eventId cmd))"
| "goal_dispatch c derive generated eventId (ChangeGoalTargetMonthRequest cmd) = wrap_handler (returning_id (handleChangeTargetMonth c derive eventId cmd))"
| "goal_dispatch c derive generated eventId (ChangeGoalPriorityRequest cmd) = wrap_handler (returning_id (handleChangePriority c derive eventId cmd))"
| "goal_dispatch c derive generated eventId (ArchiveGoalRequest cmd) = wrap_handler (returning_id (goal_handleArchive c derive eventId cmd))"
| "goal_dispatch c derive generated eventId (AchieveGoalRequest cmd) = wrap_handler (returning_id (handleAchieve c derive eventId cmd))"
| "goal_dispatch c derive generated eventId (UnachieveGoalRequest cmd) = wrap_handler (returning_id (handleUnachieve c derive eventId cmd))"
| "goal_dispatch c derive generated eventId (GrantGoalAccessRequest cmd) = wrap_handler (returning_id (handleGrantAccess c derive eventId cmd))"
| "goal_dispatch c derive generated eventId (RevokeGoalAccessRequest cmd) = wrap_handler (returning_id (handleRevokeAccess c derive eventId cmd))"

end
