(* ===== verification/GoalHandlerFacts.thy ===== *)
theory GoalHandlerFacts
  imports CommandFacts GoalCommands
begin

text \<open>
  The goal repository keeps the contract of the command handlers, and every handler of an existing
  goal is, after its command has been parsed, one call of the shared routine with one command of
  the domain model, all of whose values the factories have accepted.
\<close>

subsection \<open>The repository\<close>

lemma goal_repo_read:
  "goal_repo_ok c key i evs d \<Longrightarrow> dv_db d' = dv_db d \<Longrightarrow> device_key c i key d' \<Longrightarrow> goal_repo_ok c key i evs d'"
  by (simp add: goal_repo_ok_def)

definition goal_repo :: "crypto_port \<Rightarrow> bytes \<Rightarrow> string \<Rightarrow> domain_event list \<Rightarrow> device \<Rightarrow> bool" where
  "goal_repo c key i evs d \<longleftrightarrow> aead_ok c \<and> encrypts c key \<and> goal_repo_ok c key i evs d"

subsection \<open>Commands whose values are valid\<close>

fun goal_command_ok :: "string \<Rightarrow> goal_command \<Rightarrow> bool" where
  "goal_command_ok ev (ChangeSummary x t u i) \<longleftrightarrow> x \<noteq> [] \<and> u \<noteq> [] \<and> i = ev"
| "goal_command_ok ev (ChangeSlice x t u i) \<longleftrightarrow> u \<noteq> [] \<and> i = ev"
| "goal_command_ok ev (ChangeTargetMonth x t u i) \<longleftrightarrow> month_ok x \<and> u \<noteq> [] \<and> i = ev"
| "goal_command_ok ev (ChangePriority x t u i) \<longleftrightarrow> u \<noteq> [] \<and> i = ev"
| "goal_command_ok ev (Achieve t u co ca i) \<longleftrightarrow> u \<noteq> [] \<and> co \<noteq> Some [] \<and> ca \<noteq> Some [] \<and> i = ev"
| "goal_command_ok ev (Unachieve t u co ca i) \<longleftrightarrow> u \<noteq> [] \<and> co \<noteq> Some [] \<and> ca \<noteq> Some [] \<and> i = ev"
| "goal_command_ok ev (Archive t u i) \<longleftrightarrow> u \<noteq> [] \<and> i = ev"
| "goal_command_ok ev (GrantAccess x p t u i) \<longleftrightarrow> x \<noteq> [] \<and> u \<noteq> [] \<and> i = ev"
| "goal_command_ok ev (RevokeAccess x t u i) \<longleftrightarrow> x \<noteq> [] \<and> u \<noteq> [] \<and> i = ev"

lemma goal_exec_event:
  assumes "goal_exec gc g = Inr g'" and "goal_command_ok ev gc" and "UUID_REGEX (ag_id g)" and "ev \<noteq> []"
    and "ag_uncommitted g = []"
  shows "length (ag_uncommitted g') \<le> 1 \<and> (\<forall>e \<in> set (ag_uncommitted g'). fresh_event (ag_id g) ev e)"
  using assms
  by (cases gc)
    (auto simp: goal_command_defs goal_emit_def bind_result_eq_Inr ar_apply_Inr fresh_event_def event_ok_def meta_ok_def
      new_event_def traced_event_def Let_def split: if_splits)

lemma goal_reconstitute_id: "Goal_reconstitute i evs = Inr g \<Longrightarrow> ag_id g = i"
  using reconstitute_frame(1) by (simp add: Goal_reconstitute_def)

lemma goal_exec_replay:
  assumes "Goal_reconstitute i evs = Inr g" and "goal_exec gc g = Inr g'"
  shows "Goal_reconstitute i (evs @ ag_uncommitted g') = Inr (markEventsAsCommitted g')"
  using goal_es.replay_session(1) [OF assms(1) [unfolded Goal_reconstitute_def], of "[gc]"] assms(2)
  by (simp add: Goal_reconstitute_def run_commands_def)

interpretation goals: command_target c "goal_load c derive" "goal_save c" Goal_reconstitute "goal_repo c"
  "\<lambda>i evs db g. storable i db (ag_uncommitted g)" goal_exec goal_command_ok for c derive
proof
  show "Goal_reconstitute i evs = Inr a \<Longrightarrow> ag_id a = i" for i evs a by (rule goal_reconstitute_id)
  show "goal_exec cmd g = Inr g' \<Longrightarrow> ag_id g' = ag_id g" for cmd g g' by (rule goal_es.exec_id)
  show "storable i (dv_db d) (ag_uncommitted g') \<and> length (ag_uncommitted g') \<le> 1 \<and>
      (\<forall>e \<in> set (ag_uncommitted g'). fresh_event i ev e) \<and>
      Goal_reconstitute i (evs @ ag_uncommitted g') = Inr (markEventsAsCommitted g')"
    if "Goal_reconstitute i evs = Inr g" "goal_exec cmd g = Inr g'" "goal_command_ok ev cmd" "UUID_REGEX i" "ev \<noteq> []"
      "\<not> has_event (dv_db d) ev" for i evs g cmd g' ev d
  proof -
    have "ag_uncommitted g = []" using reconstitute_frame(3) that(1) by (simp add: Goal_reconstitute_def)
    then show ?thesis
      using goal_exec_event [OF that(2,3)] that goal_reconstitute_id [OF that(1)] goal_exec_replay [OF that(1,2)]
        fresh_storable [of "ag_uncommitted g'" i ev]
      by simp
  qed
next
  fix key i evs d
  assume ok: "goal_repo c key i evs d"
  then have r: "goal_repo_ok c key i evs d" and cr: "aead_ok c" "encrypts c key" by (simp_all add: goal_repo_def)
  show "on_keys (km_getAggregateKey c i) d = (Inr (Some key), d)"
    using device_key_get r by (simp add: goal_repo_ok_def)
  show "\<exists>d'. goal_load c derive i d =
      (if evs = [] then Inr None else bind_result (Goal_reconstitute i evs) (\<lambda>a. Inr (Some a)), d') \<and>
      dv_db d' = dv_db d \<and> goal_repo c key i evs d'"
    using goal_load_ok [OF r, of derive] goal_repo_read [OF r] cr unfolding goal_repo_def by blast
  fix a :: goal
  assume a: "ag_id a = i" "storable i (dv_db d) (ag_uncommitted a)"
  show "\<exists>d'. goal_save c key a d = (Inr (markEventsAsCommitted a), d') \<and> goal_repo c key i (evs @ ag_uncommitted a) d'"
  proof (cases "ag_uncommitted a = []")
    case True
    then show ?thesis using r cr by (simp add: goal_repo_def goal_save_def markEventsAsCommitted_def)
  next
    case False
    then show ?thesis using goal_save_ok [OF r cr a False] cr unfolding goal_repo_def by blast
  qed
qed

subsection \<open>Requests\<close>

fun goal_request_id :: "goal_request \<Rightarrow> string" where
  "goal_request_id (CreateGoalRequest cmd) = crg_goalId cmd"
| "goal_request_id (ChangeGoalSummaryRequest cmd) = cgs_goalId cmd"
| "goal_request_id (ChangeGoalSliceRequest cmd) = csl_goalId cmd"
| "goal_request_id (ChangeGoalTargetMonthRequest cmd) = cgm_goalId cmd"
| "goal_request_id (ChangeGoalPriorityRequest cmd) = cgp_goalId cmd"
| "goal_request_id (ArchiveGoalRequest cmd) = arg_goalId cmd"
| "goal_request_id (AchieveGoalRequest cmd) = acg_goalId cmd"
| "goal_request_id (UnachieveGoalRequest cmd) = ung_goalId cmd"
| "goal_request_id (GrantGoalAccessRequest cmd) = gra_goalId cmd"
| "goal_request_id (RevokeGoalAccessRequest cmd) = rva_goalId cmd"

fun goal_request_version :: "goal_request \<Rightarrow> int option" where
  "goal_request_version (CreateGoalRequest cmd) = None"
| "goal_request_version (ChangeGoalSummaryRequest cmd) = cgs_knownVersion cmd"
| "goal_request_version (ChangeGoalSliceRequest cmd) = csl_knownVersion cmd"
| "goal_request_version (ChangeGoalTargetMonthRequest cmd) = cgm_knownVersion cmd"
| "goal_request_version (ChangeGoalPriorityRequest cmd) = cgp_knownVersion cmd"
| "goal_request_version (ArchiveGoalRequest cmd) = arg_knownVersion cmd"
| "goal_request_version (AchieveGoalRequest cmd) = acg_knownVersion cmd"
| "goal_request_version (UnachieveGoalRequest cmd) = ung_knownVersion cmd"
| "goal_request_version (GrantGoalAccessRequest cmd) = gra_knownVersion cmd"
| "goal_request_version (RevokeGoalAccessRequest cmd) = rva_knownVersion cmd"

fun goal_request_key :: "goal_request \<Rightarrow> string" where
  "goal_request_key (CreateGoalRequest cmd) = bc_idempotencyKey cmd"
| "goal_request_key (ChangeGoalSummaryRequest cmd) = bc_idempotencyKey cmd"
| "goal_request_key (ChangeGoalSliceRequest cmd) = bc_idempotencyKey cmd"
| "goal_request_key (ChangeGoalTargetMonthRequest cmd) = bc_idempotencyKey cmd"
| "goal_request_key (ChangeGoalPriorityRequest cmd) = bc_idempotencyKey cmd"
| "goal_request_key (ArchiveGoalRequest cmd) = bc_idempotencyKey cmd"
| "goal_request_key (AchieveGoalRequest cmd) = bc_idempotencyKey cmd"
| "goal_request_key (UnachieveGoalRequest cmd) = bc_idempotencyKey cmd"
| "goal_request_key (GrantGoalAccessRequest cmd) = bc_idempotencyKey cmd"
| "goal_request_key (RevokeGoalAccessRequest cmd) = bc_idempotencyKey cmd"

definition is_create :: "goal_request \<Rightarrow> bool" where
  "is_create r \<longleftrightarrow> (case r of CreateGoalRequest _ \<Rightarrow> True | _ \<Rightarrow> False)"

definition goal_run :: "crypto_port \<Rightarrow> derive \<Rightarrow> string \<Rightarrow> goal_command parsed_request \<Rightarrow> string command_io" where
  "goal_run c derive = run_request c (goal_load c derive) (goal_save c) goal_exec"

lemma Month_from_ok: "Month_from v = Inr m \<Longrightarrow> month_ok m"
  using Month_value_from by blast

lemma goal_exec_methods [simp]:
  "goal_exec (ChangeSummary x t u i) = changeSummary x t u i" "goal_exec (ChangeSlice sl t u i) = changeSlice sl t u i"
  "goal_exec (ChangeTargetMonth mo t u i) = changeTargetMonth mo t u i"
  "goal_exec (ChangePriority pr t u i) = changePriority pr t u i"
  "goal_exec (Achieve t u co ca i) = achieve t u co ca i" "goal_exec (Unachieve t u co ca i) = unachieve t u co ca i"
  "goal_exec (Archive t u i) = goal_archive t u i" "goal_exec (GrantAccess x p t u i) = grantAccess x p t u i"
  "goal_exec (RevokeAccess x t u i) = revokeAccess x t u i"
  by (rule ext, simp)+

text \<open>The handlers of existing goals, one by one.\<close>

abbreviation goal_parsed :: "goal_request \<Rightarrow> command_error + goal_command parsed_request \<Rightarrow> bool" where
  "goal_parsed r q \<equiv>
     (\<forall>y. q = Inr y \<longrightarrow> parsed_ok goal_command_ok (goal_request_id r) (goal_request_version r) (goal_request_key r) y)"

lemma handleChangeSummary_shape: "shape goal_run (goal_parsed (ChangeGoalSummaryRequest cmd)) (\<lambda>c derive ev. handleChangeSummary c derive ev cmd)"
  by (rule handler_shape [where h = "\<lambda>(goalId, summary, actorId, timestamp, knownVersion, idempotencyKey).
      Inr (''ChangeGoalSummary'', goalId, timestamp, knownVersion, idempotencyKey, \<lambda>ev. ChangeSummary summary timestamp actorId ev)",
    OF handleChangeSummary_def])
    (auto simp: goal_run_def run_request_def goal_update_def parsed_ok_def bind_result_eq_Inr split: prod.split)

lemma handleChangeSlice_shape: "shape goal_run (goal_parsed (ChangeGoalSliceRequest cmd)) (\<lambda>c derive ev. handleChangeSlice c derive ev cmd)"
  by (rule handler_shape [where h = "\<lambda>(goalId, sl, actorId, timestamp, knownVersion, idempotencyKey).
      Inr (''ChangeGoalSlice'', goalId, timestamp, knownVersion, idempotencyKey, \<lambda>ev. ChangeSlice sl timestamp actorId ev)",
    OF handleChangeSlice_def])
    (auto simp: goal_run_def run_request_def goal_update_def parsed_ok_def bind_result_eq_Inr split: prod.split)

lemma handleChangeTargetMonth_shape: "shape goal_run (goal_parsed (ChangeGoalTargetMonthRequest cmd)) (\<lambda>c derive ev. handleChangeTargetMonth c derive ev cmd)"
  by (rule handler_shape [where h = "\<lambda>(goalId, targetMonth, actorId, timestamp, knownVersion, idempotencyKey).
      Inr (''ChangeGoalTargetMonth'', goalId, timestamp, knownVersion, idempotencyKey, \<lambda>ev. ChangeTargetMonth targetMonth timestamp actorId ev)",
    OF handleChangeTargetMonth_def])
    (auto simp: goal_run_def run_request_def goal_update_def parsed_ok_def bind_result_eq_Inr split: prod.split dest: Month_from_ok)

lemma handleChangePriority_shape: "shape goal_run (goal_parsed (ChangeGoalPriorityRequest cmd)) (\<lambda>c derive ev. handleChangePriority c derive ev cmd)"
  by (rule handler_shape [where h = "\<lambda>(goalId, priority, actorId, timestamp, knownVersion, idempotencyKey).
      Inr (''ChangeGoalPriority'', goalId, timestamp, knownVersion, idempotencyKey, \<lambda>ev. ChangePriority priority timestamp actorId ev)",
    OF handleChangePriority_def])
    (auto simp: goal_run_def run_request_def goal_update_def parsed_ok_def bind_result_eq_Inr split: prod.split)

lemma goal_handleArchive_shape: "shape goal_run (goal_parsed (ArchiveGoalRequest cmd)) (\<lambda>c derive ev. goal_handleArchive c derive ev cmd)"
  by (rule handler_shape [where h = "\<lambda>(goalId, actorId, timestamp, knownVersion, idempotencyKey).
      Inr (''ArchiveGoal'', goalId, timestamp, knownVersion, idempotencyKey, \<lambda>ev. Archive timestamp actorId ev)",
    OF goal_handleArchive_def])
    (auto simp: goal_run_def run_request_def goal_update_def parsed_ok_def bind_result_eq_Inr split: prod.split)

lemma handleAchieve_shape: "shape goal_run (goal_parsed (AchieveGoalRequest cmd)) (\<lambda>c derive ev. handleAchieve c derive ev cmd)"
  by (rule handler_shape [where h = "\<lambda>(goalId, actorId, timestamp, knownVersion, idempotencyKey).
      bind_result (parse_trace CorrelationId_from (bc_correlationId cmd)) (\<lambda>correlationId.
      bind_result (parse_trace EventId_from (bc_causationId cmd)) (\<lambda>causationId.
      Inr (''AchieveGoal'', goalId, timestamp, knownVersion, idempotencyKey, \<lambda>ev. Achieve timestamp actorId correlationId causationId ev)))",
    OF handleAchieve_def])
    (auto simp: goal_run_def run_request_def goal_update_def parsed_ok_def bind_lift_assoc [symmetric] bind_result_eq_Inr split: prod.split)

lemma handleUnachieve_shape: "shape goal_run (goal_parsed (UnachieveGoalRequest cmd)) (\<lambda>c derive ev. handleUnachieve c derive ev cmd)"
  by (rule handler_shape [where h = "\<lambda>(goalId, actorId, timestamp, knownVersion, idempotencyKey).
      bind_result (parse_trace CorrelationId_from (bc_correlationId cmd)) (\<lambda>correlationId.
      bind_result (parse_trace EventId_from (bc_causationId cmd)) (\<lambda>causationId.
      Inr (''UnachieveGoal'', goalId, timestamp, knownVersion, idempotencyKey, \<lambda>ev. Unachieve timestamp actorId correlationId causationId ev)))",
    OF handleUnachieve_def])
    (auto simp: goal_run_def run_request_def goal_update_def parsed_ok_def bind_lift_assoc [symmetric] bind_result_eq_Inr split: prod.split)

lemma handleGrantAccess_shape: "shape goal_run (goal_parsed (GrantGoalAccessRequest cmd)) (\<lambda>c derive ev. handleGrantAccess c derive ev cmd)"
  by (rule handler_shape [where h = "\<lambda>(goalId, grantToUserId, permission, actorId, timestamp, knownVersion, idempotencyKey).
      Inr (''GrantGoalAccess'', goalId, timestamp, knownVersion, idempotencyKey, \<lambda>ev. GrantAccess grantToUserId permission timestamp actorId ev)",
    OF handleGrantAccess_def])
    (auto simp: goal_run_def run_request_def goal_update_def parsed_ok_def bind_result_eq_Inr split: prod.split)

lemma handleRevokeAccess_shape: "shape goal_run (goal_parsed (RevokeGoalAccessRequest cmd)) (\<lambda>c derive ev. handleRevokeAccess c derive ev cmd)"
  by (rule handler_shape [where h = "\<lambda>(goalId, revokeUserId, actorId, timestamp, knownVersion, idempotencyKey).
      Inr (''RevokeGoalAccess'', goalId, timestamp, knownVersion, idempotencyKey, \<lambda>ev. RevokeAccess revokeUserId timestamp actorId ev)",
    OF handleRevokeAccess_def])
    (auto simp: goal_run_def run_request_def goal_update_def parsed_ok_def bind_result_eq_Inr split: prod.split)

lemma goal_request_shape:
  assumes "\<not> is_create r"
  shows "dispatches goal_run (goal_parsed r) (\<lambda>c derive gen ev. goal_dispatch c derive gen ev r)"
proof (cases r)
  case (CreateGoalRequest cmd)
  then show ?thesis using assms by (simp add: is_create_def)
next
  case (ChangeGoalSummaryRequest cmd)
  show ?thesis unfolding ChangeGoalSummaryRequest by (rule dispatch_shape [OF _ handleChangeSummary_shape]) simp
next
  case (ChangeGoalSliceRequest cmd)
  show ?thesis unfolding ChangeGoalSliceRequest by (rule dispatch_shape [OF _ handleChangeSlice_shape]) simp
next
  case (ChangeGoalTargetMonthRequest cmd)
  show ?thesis unfolding ChangeGoalTargetMonthRequest by (rule dispatch_shape [OF _ handleChangeTargetMonth_shape]) simp
next
  case (ChangeGoalPriorityRequest cmd)
  show ?thesis unfolding ChangeGoalPriorityRequest by (rule dispatch_shape [OF _ handleChangePriority_shape]) simp
next
  case (ArchiveGoalRequest cmd)
  show ?thesis unfolding ArchiveGoalRequest by (rule dispatch_shape [OF _ goal_handleArchive_shape]) simp
next
  case (AchieveGoalRequest cmd)
  show ?thesis unfolding AchieveGoalRequest by (rule dispatch_shape [OF _ handleAchieve_shape]) simp
next
  case (UnachieveGoalRequest cmd)
  show ?thesis unfolding UnachieveGoalRequest by (rule dispatch_shape [OF _ handleUnachieve_shape]) simp
next
  case (GrantGoalAccessRequest cmd)
  show ?thesis unfolding GrantGoalAccessRequest by (rule dispatch_shape [OF _ handleGrantAccess_shape]) simp
next
  case (RevokeGoalAccessRequest cmd)
  show ?thesis unfolding RevokeGoalAccessRequest by (rule dispatch_shape [OF _ handleRevokeAccess_shape]) simp
qed

subsection \<open>Outcomes\<close>

text \<open>A request that succeeded on a stored goal succeeds again as long as the records are kept.\<close>

lemma goal_retry:
  assumes "\<not> is_create r" and ok: "goal_repo c key (goal_request_id r) evs (ap_device a)"
    and "goal_dispatch c derive gen ev r a = (Success x, a')" and "\<And>k ty i. recorded k ty i a' \<Longrightarrow> recorded k ty i b"
  shows "goal_dispatch c2 derive2 gen2 ev2 r b = (Success x, b)"
  by (rule dispatch_retry [OF goal_request_shape [OF assms(1)], where rec = request_recorded, OF _ _ assms(3)])
    (auto simp: goal_run_def run_recorded intro: goals.run_records_request [OF ok] request_recorded_kept assms(4))

text \<open>The table of keys only grows under the commands on goals.\<close>

lemma goal_dispatch_grows: "\<exists>rs. ap_idempotency (snd (goal_dispatch c derive gen ev r a)) = ap_idempotency a @ rs"
proof -
  have "grows (goal_update c derive ty i t v k f)" for ty i t v k f unfolding goal_update_def by (rule grows_update)
  then show ?thesis
    by (cases r)
      (auto simp: returning_id_def returning_key_def goal_handleCreate_def handleChangeSummary_def handleChangeSlice_def
        handleChangeTargetMonth_def handleChangePriority_def goal_handleArchive_def handleAchieve_def handleUnachieve_def
        handleGrantAccess_def handleRevokeAccess_def split: prod.split intro!: grows_wrap grows_create)
qed

end
