(* ===== verification/ProjectCommands.thy ===== *)
theory ProjectCommands
  imports CommandHandler
begin

text \<open>
  packages/application/src/projects: the commands on projects and ProjectCommandHandler.ts, and the command bus
  built in packages/infrastructure/src/projects/wiring.ts. A handler takes the event id its domain
  method draws; the handler of creation also the generated key.
\<close>

subsection \<open>Commands\<close>

record create_project_command = base_command +
  crp_projectId :: string
  crp_name :: string
  crp_status :: string
  crp_startDate :: string
  crp_targetDate :: string
  crp_description :: "string option"
  crp_goalId :: "string option"
  crp_timestamp :: "int option"

record change_project_status_command = base_command +
  cps_projectId :: string
  cps_status :: string
  cps_timestamp :: "int option"
  cps_knownVersion :: "int option"

record change_project_dates_command = base_command +
  cpd_projectId :: string
  cpd_startDate :: string
  cpd_targetDate :: string
  cpd_timestamp :: "int option"
  cpd_knownVersion :: "int option"

record change_project_name_command = base_command +
  cpn_projectId :: string
  cpn_name :: string
  cpn_timestamp :: "int option"
  cpn_knownVersion :: "int option"

record change_project_description_command = base_command +
  cpe_projectId :: string
  cpe_description :: string
  cpe_timestamp :: "int option"
  cpe_knownVersion :: "int option"

record add_project_goal_command = base_command +
  apg_projectId :: string
  apg_goalId :: string
  apg_timestamp :: "int option"
  apg_knownVersion :: "int option"

record remove_project_goal_command = base_command +
  rpg_projectId :: string
  rpg_timestamp :: "int option"
  rpg_knownVersion :: "int option"

record add_project_milestone_command = base_command +
  apm_projectId :: string
  apm_milestoneId :: string
  apm_name :: string
  apm_targetDate :: string
  apm_timestamp :: "int option"
  apm_knownVersion :: "int option"

record change_project_milestone_target_date_command = base_command +
  cmt_projectId :: string
  cmt_milestoneId :: string
  cmt_targetDate :: string
  cmt_timestamp :: "int option"
  cmt_knownVersion :: "int option"

record change_project_milestone_name_command = base_command +
  cmn_projectId :: string
  cmn_milestoneId :: string
  cmn_name :: string
  cmn_timestamp :: "int option"
  cmn_knownVersion :: "int option"

record archive_project_milestone_command = base_command +
  arm_projectId :: string
  arm_milestoneId :: string
  arm_timestamp :: "int option"
  arm_knownVersion :: "int option"

record archive_project_command = base_command +
  arp_projectId :: string
  arp_timestamp :: "int option"
  arp_knownVersion :: "int option"

subsection \<open>ProjectCommandHandler\<close>

definition loadProject :: "crypto_port \<Rightarrow> derive \<Rightarrow> string \<Rightarrow> project command_io" where
  "loadProject c derive i = load_aggregate (project_load c derive) i"

definition project_persist :: "crypto_port \<Rightarrow> string \<Rightarrow> string \<Rightarrow> int \<Rightarrow> project \<Rightarrow> string command_io" where
  "project_persist c idempotencyKey commandType createdAt a =
     persist_aggregate c (project_save c) idempotencyKey commandType createdAt a"

text \<open>The part every handler of an existing project shares.\<close>

definition project_update :: "crypto_port \<Rightarrow> derive \<Rightarrow> string \<Rightarrow> string \<Rightarrow> int \<Rightarrow> int \<Rightarrow> string \<Rightarrow> (project \<Rightarrow> project result) \<Rightarrow> string command_io" where
  "project_update c derive = update_aggregate c (project_load c derive) (project_save c)"

definition project_handleCreate :: "crypto_port \<Rightarrow> derive \<Rightarrow> bytes \<Rightarrow> string \<Rightarrow> create_project_command \<Rightarrow> (string \<times> bytes) command_io" where
  "project_handleCreate c derive generated eventId cmd =
     bind_io (lift_io (parseCommand
       (both (field ''projectId'' (ProjectId_from (crp_projectId cmd)))
       (both (field ''name'' (ProjectName_from (crp_name cmd)))
       (both (field ''status'' (ProjectStatus_from (crp_status cmd)))
       (both (field ''startDate'' (LocalDate_fromString (crp_startDate cmd)))
       (both (field ''targetDate'' (LocalDate_fromString (crp_targetDate cmd)))
       (both (field ''description'' (ProjectDescription_from (case crp_description cmd of None \<Rightarrow> [] | Some s \<Rightarrow> s)))
       (both (field ''goalId'' (case crp_goalId cmd of None \<Rightarrow> Inr None | Some g \<Rightarrow> bind_result (GoalId_from g) (\<lambda>x. Inr (Some x))))
       (both (field ''actorId'' (UserId_from (bc_actorId cmd)))
       (both (field ''timestamp'' (parseTimestamp (crp_timestamp cmd)))
        (field ''idempotencyKey'' (parseIdempotencyKey (bc_idempotencyKey cmd))))))))))))))
     (\<lambda>(projectId, name, status, startDate, targetDate, description, goalId, actorId, timestamp, idempotencyKey).
     create_aggregate c generated (project_load c derive) (project_save c) ''CreateProject'' projectId timestamp idempotencyKey
       (Project_create projectId name status startDate targetDate description goalId actorId timestamp eventId))"

definition handleChangeStatus :: "crypto_port \<Rightarrow> derive \<Rightarrow> string \<Rightarrow> change_project_status_command \<Rightarrow> string command_io" where
  "handleChangeStatus c derive eventId cmd =
     bind_io (lift_io (parseCommand
       (both (field ''projectId'' (ProjectId_from (cps_projectId cmd)))
       (both (field ''status'' (ProjectStatus_from (cps_status cmd)))
       (both (field ''actorId'' (UserId_from (bc_actorId cmd)))
       (both (field ''timestamp'' (parseTimestamp (cps_timestamp cmd)))
       (both (field ''knownVersion'' (parseKnownVersion (cps_knownVersion cmd)))
        (field ''idempotencyKey'' (parseIdempotencyKey (bc_idempotencyKey cmd))))))))))
     (\<lambda>(projectId, status, actorId, timestamp, knownVersion, idempotencyKey).
     project_update c derive ''ChangeProjectStatus'' projectId timestamp knownVersion idempotencyKey
       (changeStatus status timestamp actorId eventId))"

definition handleChangeDates :: "crypto_port \<Rightarrow> derive \<Rightarrow> string \<Rightarrow> change_project_dates_command \<Rightarrow> string command_io" where
  "handleChangeDates c derive eventId cmd =
     bind_io (lift_io (parseCommand
       (both (field ''projectId'' (ProjectId_from (cpd_projectId cmd)))
       (both (field ''startDate'' (LocalDate_fromString (cpd_startDate cmd)))
       (both (field ''targetDate'' (LocalDate_fromString (cpd_targetDate cmd)))
       (both (field ''actorId'' (UserId_from (bc_actorId cmd)))
       (both (field ''timestamp'' (parseTimestamp (cpd_timestamp cmd)))
       (both (field ''knownVersion'' (parseKnownVersion (cpd_knownVersion cmd)))
        (field ''idempotencyKey'' (parseIdempotencyKey (bc_idempotencyKey cmd)))))))))))
     (\<lambda>(projectId, startDate, targetDate, actorId, timestamp, knownVersion, idempotencyKey).
     project_update c derive ''ChangeProjectDates'' projectId timestamp knownVersion idempotencyKey
       (changeDates startDate targetDate timestamp actorId eventId))"

definition handleChangeName :: "crypto_port \<Rightarrow> derive \<Rightarrow> string \<Rightarrow> change_project_name_command \<Rightarrow> string command_io" where
  "handleChangeName c derive eventId cmd =
     bind_io (lift_io (parseCommand
       (both (field ''projectId'' (ProjectId_from (cpn_projectId cmd)))
       (both (field ''name'' (ProjectName_from (cpn_name cmd)))
       (both (field ''actorId'' (UserId_from (bc_actorId cmd)))
       (both (field ''timestamp'' (parseTimestamp (cpn_timestamp cmd)))
       (both (field ''knownVersion'' (parseKnownVersion (cpn_knownVersion cmd)))
        (field ''idempotencyKey'' (parseIdempotencyKey (bc_idempotencyKey cmd))))))))))
     (\<lambda>(projectId, name, actorId, timestamp, knownVersion, idempotencyKey).
     project_update c derive ''ChangeProjectName'' projectId timestamp knownVersion idempotencyKey
       (changeName name timestamp actorId eventId))"

definition handleChangeDescription :: "crypto_port \<Rightarrow> derive \<Rightarrow> string \<Rightarrow> change_project_description_command \<Rightarrow> string command_io" where
  "handleChangeDescription c derive eventId cmd =
     bind_io (lift_io (parseCommand
       (both (field ''projectId'' (ProjectId_from (cpe_projectId cmd)))
       (both (field ''description'' (ProjectDescription_from (cpe_description cmd)))
       (both (field ''actorId'' (UserId_from (bc_actorId cmd)))
       (both (field ''timestamp'' (parseTimestamp (cpe_timestamp cmd)))
       (both (field ''knownVersion'' (parseKnownVersion (cpe_knownVersion cmd)))
        (field ''idempotencyKey'' (parseIdempotencyKey (bc_idempotencyKey cmd))))))))))
     (\<lambda>(projectId, description, actorId, timestamp, knownVersion, idempotencyKey).
     project_update c derive ''ChangeProjectDescription'' projectId timestamp knownVersion idempotencyKey
       (changeDescription description timestamp actorId eventId))"

definition handleAddGoal :: "crypto_port \<Rightarrow> derive \<Rightarrow> string \<Rightarrow> add_project_goal_command \<Rightarrow> string command_io" where
  "handleAddGoal c derive eventId cmd =
     bind_io (lift_io (parseCommand
       (both (field ''projectId'' (ProjectId_from (apg_projectId cmd)))
       (both (field ''goalId'' (GoalId_from (apg_goalId cmd)))
       (both (field ''actorId'' (UserId_from (bc_actorId cmd)))
       (both (field ''timestamp'' (parseTimestamp (apg_timestamp cmd)))
       (both (field ''knownVersion'' (parseKnownVersion (apg_knownVersion cmd)))
        (field ''idempotencyKey'' (parseIdempotencyKey (bc_idempotencyKey cmd))))))))))
     (\<lambda>(projectId, goalId, actorId, timestamp, knownVersion, idempotencyKey).
     project_update c derive ''AddProjectGoal'' projectId timestamp knownVersion idempotencyKey
       (addGoal goalId timestamp actorId eventId))"

definition handleRemoveGoal :: "crypto_port \<Rightarrow> derive \<Rightarrow> string \<Rightarrow> remove_project_goal_command \<Rightarrow> string command_io" where
  "handleRemoveGoal c derive eventId cmd =
     bind_io (lift_io (parseCommand
       (both (field ''projectId'' (ProjectId_from (rpg_projectId cmd)))
       (both (field ''actorId'' (UserId_from (bc_actorId cmd)))
       (both (field ''timestamp'' (parseTimestamp (rpg_timestamp cmd)))
       (both (field ''knownVersion'' (parseKnownVersion (rpg_knownVersion cmd)))
        (field ''idempotencyKey'' (parseIdempotencyKey (bc_idempotencyKey cmd)))))))))
     (\<lambda>(projectId, actorId, timestamp, knownVersion, idempotencyKey).
     project_update c derive ''RemoveProjectGoal'' projectId timestamp knownVersion idempotencyKey
       (removeGoal timestamp actorId eventId))"

definition handleAddMilestone :: "crypto_port \<Rightarrow> derive \<Rightarrow> string \<Rightarrow> add_project_milestone_command \<Rightarrow> string command_io" where
  "handleAddMilestone c derive eventId cmd =
     bind_io (lift_io (parseCommand
       (both (field ''projectId'' (ProjectId_from (apm_projectId cmd)))
       (both (field ''milestoneId'' (MilestoneId_from (apm_milestoneId cmd)))
       (both (field ''name'' (MilestoneName_from (apm_name cmd)))
       (both (field ''targetDate'' (LocalDate_fromString (apm_targetDate cmd)))
       (both (field ''actorId'' (UserId_from (bc_actorId cmd)))
       (both (field ''timestamp'' (parseTimestamp (apm_timestamp cmd)))
       (both (field ''knownVersion'' (parseKnownVersion (apm_knownVersion cmd)))
        (field ''idempotencyKey'' (parseIdempotencyKey (bc_idempotencyKey cmd))))))))))))
     (\<lambda>(projectId, milestoneId, name, targetDate, actorId, timestamp, knownVersion, idempotencyKey).
     project_update c derive ''AddProjectMilestone'' projectId timestamp knownVersion idempotencyKey
       (addMilestone milestoneId name targetDate timestamp actorId eventId))"

definition handleChangeMilestoneTargetDate :: "crypto_port \<Rightarrow> derive \<Rightarrow> string \<Rightarrow> change_project_milestone_target_date_command \<Rightarrow> string command_io" where
  "handleChangeMilestoneTargetDate c derive eventId cmd =
     bind_io (lift_io (parseCommand
       (both (field ''projectId'' (ProjectId_from (cmt_projectId cmd)))
       (both (field ''milestoneId'' (MilestoneId_from (cmt_milestoneId cmd)))
       (both (field ''targetDate'' (LocalDate_fromString (cmt_targetDate cmd)))
       (both (field ''actorId'' (UserId_from (bc_actorId cmd)))
       (both (field ''timestamp'' (parseTimestamp (cmt_timestamp cmd)))
       (both (field ''knownVersion'' (parseKnownVersion (cmt_knownVersion cmd)))
        (field ''idempotencyKey'' (parseIdempotencyKey (bc_idempotencyKey cmd)))))))))))
     (\<lambda>(projectId, milestoneId, targetDate, actorId, timestamp, knownVersion, idempotencyKey).
     project_update c derive ''ChangeProjectMilestoneTargetDate'' projectId timestamp knownVersion idempotencyKey
       (changeMilestoneTargetDate milestoneId targetDate timestamp actorId eventId))"

definition handleChangeMilestoneName :: "crypto_port \<Rightarrow> derive \<Rightarrow> string \<Rightarrow> change_project_milestone_name_command \<Rightarrow> string command_io" where
  "handleChangeMilestoneName c derive eventId cmd =
     bind_io (lift_io (parseCommand
       (both (field ''projectId'' (ProjectId_from (cmn_projectId cmd)))
       (both (field ''milestoneId'' (MilestoneId_from (cmn_milestoneId cmd)))
       (both (field ''name'' (MilestoneName_from (cmn_name cmd)))
       (both (field ''actorId'' (UserId_from (bc_actorId cmd)))
       (both (field ''timestamp'' (parseTimestamp (cmn_timestamp cmd)))
       (both (field ''knownVersion'' (parseKnownVersion (cmn_knownVersion cmd)))
        (field ''idempotencyKey'' (parseIdempotencyKey (bc_idempotencyKey cmd)))))))))))
     (\<lambda>(projectId, milestoneId, name, actorId, timestamp, knownVersion, idempotencyKey).
     project_update c derive ''ChangeProjectMilestoneName'' projectId timestamp knownVersion idempotencyKey
       (changeMilestoneName milestoneId name timestamp actorId eventId))"

definition handleArchiveMilestone :: "crypto_port \<Rightarrow> derive \<Rightarrow> string \<Rightarrow> archive_project_milestone_command \<Rightarrow> string command_io" where
  "handleArchiveMilestone c derive eventId cmd =
     bind_io (lift_io (parseCommand
       (both (field ''projectId'' (ProjectId_from (arm_projectId cmd)))
       (both (field ''milestoneId'' (MilestoneId_from (arm_milestoneId cmd)))
       (both (field ''actorId'' (UserId_from (bc_actorId cmd)))
       (both (field ''timestamp'' (parseTimestamp (arm_timestamp cmd)))
       (both (field ''knownVersion'' (parseKnownVersion (arm_knownVersion cmd)))
        (field ''idempotencyKey'' (parseIdempotencyKey (bc_idempotencyKey cmd))))))))))
     (\<lambda>(projectId, milestoneId, actorId, timestamp, knownVersion, idempotencyKey).
     project_update c derive ''ArchiveProjectMilestone'' projectId timestamp knownVersion idempotencyKey
       (archiveMilestone milestoneId timestamp actorId eventId))"

definition project_handleArchive :: "crypto_port \<Rightarrow> derive \<Rightarrow> string \<Rightarrow> archive_project_command \<Rightarrow> string command_io" where
  "project_handleArchive c derive eventId cmd =
     bind_io (lift_io (parseCommand
       (both (field ''projectId'' (ProjectId_from (arp_projectId cmd)))
       (both (field ''actorId'' (UserId_from (bc_actorId cmd)))
       (both (field ''timestamp'' (parseTimestamp (arp_timestamp cmd)))
       (both (field ''knownVersion'' (parseKnownVersion (arp_knownVersion cmd)))
        (field ''idempotencyKey'' (parseIdempotencyKey (bc_idempotencyKey cmd)))))))))
     (\<lambda>(projectId, actorId, timestamp, knownVersion, idempotencyKey).
     project_update c derive ''ArchiveProject'' projectId timestamp knownVersion idempotencyKey
       (project_archive timestamp actorId eventId))"

subsection \<open>The command bus\<close>

text \<open>The handler registered under the name of each command, in \<open>wrapProject\<close>; only creation returns a key.\<close>

datatype project_request =
    CreateProjectRequest create_project_command
  | ChangeProjectStatusRequest change_project_status_command
  | ChangeProjectDatesRequest change_project_dates_command
  | ChangeProjectNameRequest change_project_name_command
  | ChangeProjectDescriptionRequest change_project_description_command
  | AddProjectGoalRequest add_project_goal_command
  | RemoveProjectGoalRequest remove_project_goal_command
  | AddProjectMilestoneRequest add_project_milestone_command
  | ChangeProjectMilestoneTargetDateRequest change_project_milestone_target_date_command
  | ChangeProjectMilestoneNameRequest change_project_milestone_name_command
  | ArchiveProjectMilestoneRequest archive_project_milestone_command
  | ArchiveProjectRequest archive_project_command

fun project_dispatch :: "crypto_port \<Rightarrow> derive \<Rightarrow> bytes \<Rightarrow> string \<Rightarrow> project_request \<Rightarrow> app \<Rightarrow> (string \<times> bytes option) command_result \<times> app" where
  "project_dispatch c derive generated eventId (CreateProjectRequest cmd) = wrap_handler (returning_key (project_handleCreate c derive generated eventId cmd))"
| "project_dispatch c derive generated eventId (ChangeProjectStatusRequest cmd) = wrap_handler (returning_id (handleChangeStatus c derive eventId cmd))"
| "project_dispatch c derive generated eventId (ChangeProjectDatesRequest cmd) = wrap_handler (returning_id (handleChangeDates c derive eventId cmd))"
| "project_dispatch c derive generated eventId (ChangeProjectNameRequest cmd) = wrap_handler (returning_id (handleChangeName c derive eventId cmd))"
| "project_dispatch c derive generated eventId (ChangeProjectDescriptionRequest cmd) = wrap_handler (returning_id (handleChangeDescription c derive eventId cmd))"
| "project_dispatch c derive generated eventId (AddProjectGoalRequest cmd) = wrap_handler (returning_id (handleAddGoal c derive eventId cmd))"
| "project_dispatch c derive generated eventId (RemoveProjectGoalRequest cmd) = wrap_handler (returning_id (handleRemoveGoal c derive eventId cmd))"
| "project_dispatch c derive generated eventId (AddProjectMilestoneRequest cmd) = wrap_handler (returning_id (handleAddMilestone c derive eventId cmd))"
| "project_dispatch c derive generated eventId (ChangeProjectMilestoneTargetDateRequest cmd) = wrap_handler (returning_id (handleChangeMilestoneTargetDate c derive eventId cmd))"
| "project_dispatch c derive generated eventId (ChangeProjectMilestoneNameRequest cmd) = wrap_handler (returning_id (handleChangeMilestoneName c derive eventId cmd))"
| "project_dispatch c derive generated eventId (ArchiveProjectMilestoneRequest cmd) = wrap_handler (returning_id (handleArchiveMilestone c derive eventId cmd))"
| "project_dispatch c derive generated eventId (ArchiveProjectRequest cmd) = wrap_handler (returning_id (project_handleArchive c derive eventId cmd))"

end
