(* ===== verification/ProjectHandlerFacts.thy ===== *)
theory ProjectHandlerFacts
  imports CommandFacts ProjectCommands
begin

text \<open>
  The project repository keeps the contract of the command handlers, and every handler of an
  existing project is, after its command has been parsed, one call of the shared routine with one
  valid command of the domain model.
\<close>

subsection \<open>Commands whose values are valid\<close>

fun project_command_ok :: "string \<Rightarrow> project_command \<Rightarrow> bool" where
  "project_command_ok ev (ChangeName x t u i) \<longleftrightarrow> name_ok x \<and> u \<noteq> [] \<and> i = ev"
| "project_command_ok ev (ChangeDescription x t u i) \<longleftrightarrow> length x \<le> 2000 \<and> u \<noteq> [] \<and> i = ev"
| "project_command_ok ev (ChangeStatus x t u i) \<longleftrightarrow> u \<noteq> [] \<and> i = ev"
| "project_command_ok ev (ChangeDates x y t u i) \<longleftrightarrow> ISO_DATE_REGEX x \<and> ISO_DATE_REGEX y \<and> u \<noteq> [] \<and> i = ev"
| "project_command_ok ev (AddGoal x t u i) \<longleftrightarrow> UUID_REGEX x \<and> u \<noteq> [] \<and> i = ev"
| "project_command_ok ev (RemoveGoal t u i) \<longleftrightarrow> u \<noteq> [] \<and> i = ev"
| "project_command_ok ev (AddMilestone m x y t u i) \<longleftrightarrow> UUID_REGEX m \<and> name_ok x \<and> ISO_DATE_REGEX y \<and> u \<noteq> [] \<and> i = ev"
| "project_command_ok ev (ChangeMilestoneName m x t u i) \<longleftrightarrow> UUID_REGEX m \<and> name_ok x \<and> u \<noteq> [] \<and> i = ev"
| "project_command_ok ev (ChangeMilestoneTargetDate m x t u i) \<longleftrightarrow> UUID_REGEX m \<and> ISO_DATE_REGEX x \<and> u \<noteq> [] \<and> i = ev"
| "project_command_ok ev (ArchiveMilestone m t u i) \<longleftrightarrow> UUID_REGEX m \<and> u \<noteq> [] \<and> i = ev"
| "project_command_ok ev (ArchiveProject t u i) \<longleftrightarrow> u \<noteq> [] \<and> i = ev"

lemma project_exec_event:
  assumes "project_exec pc p = Inr p'" and "project_command_ok ev pc" and "UUID_REGEX (ag_id p)" and "ev \<noteq> []"
    and "ag_uncommitted p = []"
  shows "length (ag_uncommitted p') \<le> 1 \<and> (\<forall>e \<in> set (ag_uncommitted p'). fresh_event (ag_id p) ev e \<and> author_trimmed e)"
  using assms
  by (cases pc)
    (auto simp: project_command_defs project_emit_def bind_result_eq_Inr ar_apply_Inr fresh_event_def event_ok_def meta_ok_def
      new_event_def author_trimmed_def split: if_splits)

subsection \<open>The repository\<close>

lemma project_repo_read:
  "project_repo_ok c key i evs d \<Longrightarrow> dv_db d' = dv_db d \<Longrightarrow> device_key c i key d' \<Longrightarrow> project_repo_ok c key i evs d'"
  by (simp add: project_repo_ok_def)

definition project_repo :: "crypto_port \<Rightarrow> bytes \<Rightarrow> string \<Rightarrow> domain_event list \<Rightarrow> device \<Rightarrow> bool" where
  "project_repo c key i evs d \<longleftrightarrow> aead_ok c \<and> encrypts c key \<and> project_repo_ok c key i evs d \<and>
     (\<forall>e \<in> set evs. event_ok e \<and> author_trimmed e) \<and>
     (evs \<noteq> [] \<longrightarrow> (\<exists>p. Project_reconstitute i evs = Inr p \<and> project_inv (ag_state p)))"

text \<open>The new events continue the stored history to the project that is saved.\<close>

definition project_acceptable :: "string \<Rightarrow> domain_event list \<Rightarrow> local_db \<Rightarrow> project \<Rightarrow> bool" where
  "project_acceptable i evs db p \<longleftrightarrow> UUID_REGEX i \<and> storable i db (ag_uncommitted p) \<and>
     Project_reconstitute i (evs @ ag_uncommitted p) = Inr (markEventsAsCommitted p) \<and>
     (\<forall>e \<in> set (evs @ ag_uncommitted p). event_ok e \<and> author_trimmed e) \<and> project_inv (ag_state p)"

lemma project_reconstitute_id: "Project_reconstitute i evs = Inr p \<Longrightarrow> ag_id p = i"
  using reconstitute_frame(1) by (simp add: Project_reconstitute_def)

lemma project_exec_replay:
  assumes "Project_reconstitute i evs = Inr p" and "project_exec pc p = Inr p'"
  shows "Project_reconstitute i (evs @ ag_uncommitted p') = Inr (markEventsAsCommitted p')"
  using project_es.replay_session(1) [OF assms(1) [unfolded Project_reconstitute_def], of "[pc]"] assms(2)
  by (simp add: Project_reconstitute_def run_commands_def)

interpretation projects: command_target c "project_load c derive" "project_save c" Project_reconstitute
  "project_repo c" project_acceptable project_exec project_command_ok for c derive
proof
  show "Project_reconstitute i evs = Inr a \<Longrightarrow> ag_id a = i" for i evs a by (rule project_reconstitute_id)
  show "project_exec cmd p = Inr p' \<Longrightarrow> ag_id p' = ag_id p" for cmd p p' by (rule project_es.exec_id)
  show "project_acceptable i evs (dv_db d) p' \<and> length (ag_uncommitted p') \<le> 1 \<and>
      (\<forall>e \<in> set (ag_uncommitted p'). fresh_event i ev e) \<and>
      Project_reconstitute i (evs @ ag_uncommitted p') = Inr (markEventsAsCommitted p')"
    if "project_repo c key i evs d" "evs \<noteq> []" "Project_reconstitute i evs = Inr p" "project_exec cmd p = Inr p'"
      "project_command_ok ev cmd" "UUID_REGEX i" "ev \<noteq> []" "\<not> has_event (dv_db d) ev" for key i evs p cmd p' ev d
  proof -
    have "ag_uncommitted p = []" using reconstitute_frame(3) that(3) by (simp add: Project_reconstitute_def)
    then have new: "length (ag_uncommitted p') \<le> 1" "\<forall>e \<in> set (ag_uncommitted p'). fresh_event i ev e \<and> author_trimmed e"
      using project_exec_event [OF that(4,5)] that project_reconstitute_id [OF that(3)] by auto
    have inv: "project_inv (ag_state p')" using that(1-4) project_es.exec_inv by (auto simp: project_repo_def)
    have "\<forall>e \<in> set (evs @ ag_uncommitted p'). event_ok e \<and> author_trimmed e"
      using that(1) new(2) by (auto simp: project_repo_def fresh_event_def)
    then show ?thesis
      using new inv that(6,8) project_exec_replay [OF that(3,4)] fresh_storable [of "ag_uncommitted p'" i ev]
      by (simp add: project_acceptable_def)
  qed
next
  fix key i evs d
  assume ok: "project_repo c key i evs d"
  then have r: "project_repo_ok c key i evs d" and cr: "aead_ok c" "encrypts c key"
    and valid: "\<forall>e \<in> set evs. event_ok e \<and> author_trimmed e"
      "evs \<noteq> [] \<longrightarrow> (\<exists>p. Project_reconstitute i evs = Inr p \<and> project_inv (ag_state p))"
    by (simp_all add: project_repo_def)
  show "on_keys (km_getAggregateKey c i) d = (Inr (Some key), d)"
    using device_key_get r by (simp add: project_repo_ok_def)
  show "\<exists>d'. project_load c derive i d =
      (if evs = [] then Inr None else bind_result (Project_reconstitute i evs) (\<lambda>a. Inr (Some a)), d') \<and>
      dv_db d' = dv_db d \<and> project_repo c key i evs d'"
    using project_load_ok [OF r, of derive] project_repo_read [OF r] cr valid unfolding project_repo_def by blast
  fix a :: project
  assume id: "ag_id a = i" and "project_acceptable i evs (dv_db d) a"
  then have a: "UUID_REGEX i" "storable i (dv_db d) (ag_uncommitted a)"
    "Project_reconstitute i (evs @ ag_uncommitted a) = Inr (markEventsAsCommitted a)"
    "\<forall>e \<in> set (evs @ ag_uncommitted a). event_ok e \<and> author_trimmed e" "project_inv (ag_state a)"
    by (simp_all add: project_acceptable_def)
  show "\<exists>d'. project_save c key a d = (Inr (markEventsAsCommitted a), d') \<and> project_repo c key i (evs @ ag_uncommitted a) d'"
  proof (cases "ag_uncommitted a = []")
    case True
    then show ?thesis using r cr valid by (simp add: project_repo_def project_save_def markEventsAsCommitted_def)
  next
    case False
    have "project_inv (ag_state (markEventsAsCommitted a))" using a(5) by (simp add: markEventsAsCommitted_def)
    then show ?thesis
      using project_save_ok [OF r cr id a(1,2) False a(3-5)] cr a(3,4) unfolding project_repo_def by blast
  qed
qed

subsection \<open>Requests\<close>

fun project_request_id :: "project_request \<Rightarrow> string" where
  "project_request_id (CreateProjectRequest cmd) = crp_projectId cmd"
| "project_request_id (ChangeProjectStatusRequest cmd) = cps_projectId cmd"
| "project_request_id (ChangeProjectDatesRequest cmd) = cpd_projectId cmd"
| "project_request_id (ChangeProjectNameRequest cmd) = cpn_projectId cmd"
| "project_request_id (ChangeProjectDescriptionRequest cmd) = cpe_projectId cmd"
| "project_request_id (AddProjectGoalRequest cmd) = apg_projectId cmd"
| "project_request_id (RemoveProjectGoalRequest cmd) = rpg_projectId cmd"
| "project_request_id (AddProjectMilestoneRequest cmd) = apm_projectId cmd"
| "project_request_id (ChangeProjectMilestoneTargetDateRequest cmd) = cmt_projectId cmd"
| "project_request_id (ChangeProjectMilestoneNameRequest cmd) = cmn_projectId cmd"
| "project_request_id (ArchiveProjectMilestoneRequest cmd) = arm_projectId cmd"
| "project_request_id (ArchiveProjectRequest cmd) = arp_projectId cmd"

fun project_request_version :: "project_request \<Rightarrow> int option" where
  "project_request_version (CreateProjectRequest cmd) = None"
| "project_request_version (ChangeProjectStatusRequest cmd) = cps_knownVersion cmd"
| "project_request_version (ChangeProjectDatesRequest cmd) = cpd_knownVersion cmd"
| "project_request_version (ChangeProjectNameRequest cmd) = cpn_knownVersion cmd"
| "project_request_version (ChangeProjectDescriptionRequest cmd) = cpe_knownVersion cmd"
| "project_request_version (AddProjectGoalRequest cmd) = apg_knownVersion cmd"
| "project_request_version (RemoveProjectGoalRequest cmd) = rpg_knownVersion cmd"
| "project_request_version (AddProjectMilestoneRequest cmd) = apm_knownVersion cmd"
| "project_request_version (ChangeProjectMilestoneTargetDateRequest cmd) = cmt_knownVersion cmd"
| "project_request_version (ChangeProjectMilestoneNameRequest cmd) = cmn_knownVersion cmd"
| "project_request_version (ArchiveProjectMilestoneRequest cmd) = arm_knownVersion cmd"
| "project_request_version (ArchiveProjectRequest cmd) = arp_knownVersion cmd"

fun project_request_key :: "project_request \<Rightarrow> string" where
  "project_request_key (CreateProjectRequest cmd) = bc_idempotencyKey cmd"
| "project_request_key (ChangeProjectStatusRequest cmd) = bc_idempotencyKey cmd"
| "project_request_key (ChangeProjectDatesRequest cmd) = bc_idempotencyKey cmd"
| "project_request_key (ChangeProjectNameRequest cmd) = bc_idempotencyKey cmd"
| "project_request_key (ChangeProjectDescriptionRequest cmd) = bc_idempotencyKey cmd"
| "project_request_key (AddProjectGoalRequest cmd) = bc_idempotencyKey cmd"
| "project_request_key (RemoveProjectGoalRequest cmd) = bc_idempotencyKey cmd"
| "project_request_key (AddProjectMilestoneRequest cmd) = bc_idempotencyKey cmd"
| "project_request_key (ChangeProjectMilestoneTargetDateRequest cmd) = bc_idempotencyKey cmd"
| "project_request_key (ChangeProjectMilestoneNameRequest cmd) = bc_idempotencyKey cmd"
| "project_request_key (ArchiveProjectMilestoneRequest cmd) = bc_idempotencyKey cmd"
| "project_request_key (ArchiveProjectRequest cmd) = bc_idempotencyKey cmd"

definition is_project_create :: "project_request \<Rightarrow> bool" where
  "is_project_create r \<longleftrightarrow> (case r of CreateProjectRequest _ \<Rightarrow> True | _ \<Rightarrow> False)"

definition project_run :: "crypto_port \<Rightarrow> derive \<Rightarrow> string \<Rightarrow> project_command parsed_request \<Rightarrow> string command_io" where
  "project_run c derive = run_request c (project_load c derive) (project_save c) project_exec"

lemma project_exec_methods [simp]:
  "project_exec (ChangeName x t u i) = changeName x t u i" "project_exec (ChangeDescription x t u i) = changeDescription x t u i"
  "project_exec (ChangeStatus st t u i) = changeStatus st t u i" "project_exec (ChangeDates x y t u i) = changeDates x y t u i"
  "project_exec (AddGoal x t u i) = addGoal x t u i" "project_exec (RemoveGoal t u i) = removeGoal t u i"
  "project_exec (AddMilestone m x y t u i) = addMilestone m x y t u i"
  "project_exec (ChangeMilestoneName m x t u i) = changeMilestoneName m x t u i"
  "project_exec (ChangeMilestoneTargetDate m x t u i) = changeMilestoneTargetDate m x t u i"
  "project_exec (ArchiveMilestone m t u i) = archiveMilestone m t u i"
  "project_exec (ArchiveProject t u i) = project_archive t u i"
  by (rule ext, simp)+

text \<open>The command of the domain model that a request asks for, from the fields of the request.\<close>

fun project_request_type :: "project_request \<Rightarrow> string" where
  "project_request_type (CreateProjectRequest cmd) = ''CreateProject''"
| "project_request_type (ChangeProjectStatusRequest cmd) = ''ChangeProjectStatus''"
| "project_request_type (ChangeProjectDatesRequest cmd) = ''ChangeProjectDates''"
| "project_request_type (ChangeProjectNameRequest cmd) = ''ChangeProjectName''"
| "project_request_type (ChangeProjectDescriptionRequest cmd) = ''ChangeProjectDescription''"
| "project_request_type (AddProjectGoalRequest cmd) = ''AddProjectGoal''"
| "project_request_type (RemoveProjectGoalRequest cmd) = ''RemoveProjectGoal''"
| "project_request_type (AddProjectMilestoneRequest cmd) = ''AddProjectMilestone''"
| "project_request_type (ChangeProjectMilestoneTargetDateRequest cmd) = ''ChangeProjectMilestoneTargetDate''"
| "project_request_type (ChangeProjectMilestoneNameRequest cmd) = ''ChangeProjectMilestoneName''"
| "project_request_type (ArchiveProjectMilestoneRequest cmd) = ''ArchiveProjectMilestone''"
| "project_request_type (ArchiveProjectRequest cmd) = ''ArchiveProject''"

fun project_asks :: "project_request \<Rightarrow> string \<Rightarrow> int \<Rightarrow> string \<Rightarrow> project_command \<Rightarrow> bool" where
  "project_asks (CreateProjectRequest cmd) u t ev pc = False"
| "project_asks (ChangeProjectStatusRequest cmd) u t ev pc \<longleftrightarrow>
     (\<exists>st. ProjectStatus_from (cps_status cmd) = Inr st \<and> pc = ChangeStatus st t u ev)"
| "project_asks (ChangeProjectDatesRequest cmd) u t ev pc \<longleftrightarrow>
     (\<exists>x y. LocalDate_fromString (cpd_startDate cmd) = Inr x \<and> LocalDate_fromString (cpd_targetDate cmd) = Inr y \<and> pc = ChangeDates x y t u ev)"
| "project_asks (ChangeProjectNameRequest cmd) u t ev pc \<longleftrightarrow>
     (\<exists>x. ProjectName_from (cpn_name cmd) = Inr x \<and> pc = ChangeName x t u ev)"
| "project_asks (ChangeProjectDescriptionRequest cmd) u t ev pc \<longleftrightarrow>
     (\<exists>x. ProjectDescription_from (cpe_description cmd) = Inr x \<and> pc = ChangeDescription x t u ev)"
| "project_asks (AddProjectGoalRequest cmd) u t ev pc \<longleftrightarrow>
     (\<exists>x. GoalId_from (apg_goalId cmd) = Inr x \<and> pc = AddGoal x t u ev)"
| "project_asks (RemoveProjectGoalRequest cmd) u t ev pc \<longleftrightarrow> pc = RemoveGoal t u ev"
| "project_asks (AddProjectMilestoneRequest cmd) u t ev pc \<longleftrightarrow>
     (\<exists>m x y. MilestoneId_from (apm_milestoneId cmd) = Inr m \<and> MilestoneName_from (apm_name cmd) = Inr x \<and>
        LocalDate_fromString (apm_targetDate cmd) = Inr y \<and> pc = AddMilestone m x y t u ev)"
| "project_asks (ChangeProjectMilestoneTargetDateRequest cmd) u t ev pc \<longleftrightarrow>
     (\<exists>m x. MilestoneId_from (cmt_milestoneId cmd) = Inr m \<and> LocalDate_fromString (cmt_targetDate cmd) = Inr x \<and>
        pc = ChangeMilestoneTargetDate m x t u ev)"
| "project_asks (ChangeProjectMilestoneNameRequest cmd) u t ev pc \<longleftrightarrow>
     (\<exists>m x. MilestoneId_from (cmn_milestoneId cmd) = Inr m \<and> MilestoneName_from (cmn_name cmd) = Inr x \<and> pc = ChangeMilestoneName m x t u ev)"
| "project_asks (ArchiveProjectMilestoneRequest cmd) u t ev pc \<longleftrightarrow>
     (\<exists>m. MilestoneId_from (arm_milestoneId cmd) = Inr m \<and> pc = ArchiveMilestone m t u ev)"
| "project_asks (ArchiveProjectRequest cmd) u t ev pc \<longleftrightarrow> pc = ArchiveProject t u ev"

fun project_request_actor :: "project_request \<Rightarrow> string" where
  "project_request_actor (CreateProjectRequest cmd) = bc_actorId cmd"
| "project_request_actor (ChangeProjectStatusRequest cmd) = bc_actorId cmd"
| "project_request_actor (ChangeProjectDatesRequest cmd) = bc_actorId cmd"
| "project_request_actor (ChangeProjectNameRequest cmd) = bc_actorId cmd"
| "project_request_actor (ChangeProjectDescriptionRequest cmd) = bc_actorId cmd"
| "project_request_actor (AddProjectGoalRequest cmd) = bc_actorId cmd"
| "project_request_actor (RemoveProjectGoalRequest cmd) = bc_actorId cmd"
| "project_request_actor (AddProjectMilestoneRequest cmd) = bc_actorId cmd"
| "project_request_actor (ChangeProjectMilestoneTargetDateRequest cmd) = bc_actorId cmd"
| "project_request_actor (ChangeProjectMilestoneNameRequest cmd) = bc_actorId cmd"
| "project_request_actor (ArchiveProjectMilestoneRequest cmd) = bc_actorId cmd"
| "project_request_actor (ArchiveProjectRequest cmd) = bc_actorId cmd"

fun project_request_time :: "project_request \<Rightarrow> int option" where
  "project_request_time (CreateProjectRequest cmd) = crp_timestamp cmd"
| "project_request_time (ChangeProjectStatusRequest cmd) = cps_timestamp cmd"
| "project_request_time (ChangeProjectDatesRequest cmd) = cpd_timestamp cmd"
| "project_request_time (ChangeProjectNameRequest cmd) = cpn_timestamp cmd"
| "project_request_time (ChangeProjectDescriptionRequest cmd) = cpe_timestamp cmd"
| "project_request_time (AddProjectGoalRequest cmd) = apg_timestamp cmd"
| "project_request_time (RemoveProjectGoalRequest cmd) = rpg_timestamp cmd"
| "project_request_time (AddProjectMilestoneRequest cmd) = apm_timestamp cmd"
| "project_request_time (ChangeProjectMilestoneTargetDateRequest cmd) = cmt_timestamp cmd"
| "project_request_time (ChangeProjectMilestoneNameRequest cmd) = cmn_timestamp cmd"
| "project_request_time (ArchiveProjectMilestoneRequest cmd) = arm_timestamp cmd"
| "project_request_time (ArchiveProjectRequest cmd) = arp_timestamp cmd"

text \<open>The whole request is well formed and asks for the command \<open>pc\<close> with event id \<open>ev\<close>.\<close>

definition project_requested :: "project_request \<Rightarrow> string \<Rightarrow> project_command \<Rightarrow> bool" where
  "project_requested r ev pc \<longleftrightarrow>
     UUID_REGEX (project_request_id r) \<and> (\<exists>v. project_request_version r = Some v \<and> 0 \<le> v) \<and>
     trim (project_request_key r) \<noteq> [] \<and> length (project_request_key r) \<le> 200 \<and>
     (\<exists>u t. UserId_from (project_request_actor r) = Inr u \<and> project_request_time r = Some t \<and> project_asks r u t ev pc)"

definition project_parsed :: "project_request \<Rightarrow> command_error + project_command parsed_request \<Rightarrow> bool" where
  "project_parsed r q \<longleftrightarrow>
     (\<forall>y. q = Inr y \<longrightarrow> parsed_ok project_command_ok (project_request_id r) (project_request_version r) (project_request_key r) y \<and>
        fst y = project_request_type r \<and> (\<forall>ev. project_requested r ev (request_command y ev))) \<and>
     (\<forall>ev pc. project_requested r ev pc \<longrightarrow> (\<exists>y. q = Inr y))"

lemmas project_parse_simps = project_parsed_def project_run_def run_request_def project_update_def parsed_ok_def name_ok_def
  project_requested_def request_command_def bind_result_eq_Inr

lemma handleChangeStatus_shape: "shape project_run (project_parsed (ChangeProjectStatusRequest cmd)) (\<lambda>c derive ev. handleChangeStatus c derive ev cmd)"
  by (rule handler_shape [where h = "\<lambda>(projectId, status, actorId, timestamp, knownVersion, idempotencyKey).
      Inr (''ChangeProjectStatus'', projectId, timestamp, knownVersion, idempotencyKey, \<lambda>ev. ChangeStatus status timestamp actorId ev)",
    OF handleChangeStatus_def])
    (auto simp: project_parse_simps split: prod.split)

lemma handleChangeDates_shape: "shape project_run (project_parsed (ChangeProjectDatesRequest cmd)) (\<lambda>c derive ev. handleChangeDates c derive ev cmd)"
  by (rule handler_shape [where h = "\<lambda>(projectId, startDate, targetDate, actorId, timestamp, knownVersion, idempotencyKey).
      Inr (''ChangeProjectDates'', projectId, timestamp, knownVersion, idempotencyKey, \<lambda>ev. ChangeDates startDate targetDate timestamp actorId ev)",
    OF handleChangeDates_def])
    (auto simp: project_parse_simps split: prod.split)

lemma handleChangeName_shape: "shape project_run (project_parsed (ChangeProjectNameRequest cmd)) (\<lambda>c derive ev. handleChangeName c derive ev cmd)"
  by (rule handler_shape [where h = "\<lambda>(projectId, name, actorId, timestamp, knownVersion, idempotencyKey).
      Inr (''ChangeProjectName'', projectId, timestamp, knownVersion, idempotencyKey, \<lambda>ev. ChangeName name timestamp actorId ev)",
    OF handleChangeName_def])
    (auto simp: project_parse_simps split: prod.split)

lemma handleChangeDescription_shape: "shape project_run (project_parsed (ChangeProjectDescriptionRequest cmd)) (\<lambda>c derive ev. handleChangeDescription c derive ev cmd)"
  by (rule handler_shape [where h = "\<lambda>(projectId, description, actorId, timestamp, knownVersion, idempotencyKey).
      Inr (''ChangeProjectDescription'', projectId, timestamp, knownVersion, idempotencyKey, \<lambda>ev. ChangeDescription description timestamp actorId ev)",
    OF handleChangeDescription_def])
    (auto simp: project_parse_simps split: prod.split)

lemma handleAddGoal_shape: "shape project_run (project_parsed (AddProjectGoalRequest cmd)) (\<lambda>c derive ev. handleAddGoal c derive ev cmd)"
  by (rule handler_shape [where h = "\<lambda>(projectId, goalId, actorId, timestamp, knownVersion, idempotencyKey).
      Inr (''AddProjectGoal'', projectId, timestamp, knownVersion, idempotencyKey, \<lambda>ev. AddGoal goalId timestamp actorId ev)",
    OF handleAddGoal_def])
    (auto simp: project_parse_simps split: prod.split)

lemma handleRemoveGoal_shape: "shape project_run (project_parsed (RemoveProjectGoalRequest cmd)) (\<lambda>c derive ev. handleRemoveGoal c derive ev cmd)"
  by (rule handler_shape [where h = "\<lambda>(projectId, actorId, timestamp, knownVersion, idempotencyKey).
      Inr (''RemoveProjectGoal'', projectId, timestamp, knownVersion, idempotencyKey, \<lambda>ev. RemoveGoal timestamp actorId ev)",
    OF handleRemoveGoal_def])
    (auto simp: project_parse_simps split: prod.split)

lemma handleAddMilestone_shape: "shape project_run (project_parsed (AddProjectMilestoneRequest cmd)) (\<lambda>c derive ev. handleAddMilestone c derive ev cmd)"
  by (rule handler_shape [where h = "\<lambda>(projectId, milestoneId, name, targetDate, actorId, timestamp, knownVersion, idempotencyKey).
      Inr (''AddProjectMilestone'', projectId, timestamp, knownVersion, idempotencyKey, \<lambda>ev. AddMilestone milestoneId name targetDate timestamp actorId ev)",
    OF handleAddMilestone_def])
    (auto simp: project_parse_simps split: prod.split)

lemma handleChangeMilestoneTargetDate_shape: "shape project_run (project_parsed (ChangeProjectMilestoneTargetDateRequest cmd)) (\<lambda>c derive ev. handleChangeMilestoneTargetDate c derive ev cmd)"
  by (rule handler_shape [where h = "\<lambda>(projectId, milestoneId, targetDate, actorId, timestamp, knownVersion, idempotencyKey).
      Inr (''ChangeProjectMilestoneTargetDate'', projectId, timestamp, knownVersion, idempotencyKey, \<lambda>ev. ChangeMilestoneTargetDate milestoneId targetDate timestamp actorId ev)",
    OF handleChangeMilestoneTargetDate_def])
    (auto simp: project_parse_simps split: prod.split)

lemma handleChangeMilestoneName_shape: "shape project_run (project_parsed (ChangeProjectMilestoneNameRequest cmd)) (\<lambda>c derive ev. handleChangeMilestoneName c derive ev cmd)"
  by (rule handler_shape [where h = "\<lambda>(projectId, milestoneId, name, actorId, timestamp, knownVersion, idempotencyKey).
      Inr (''ChangeProjectMilestoneName'', projectId, timestamp, knownVersion, idempotencyKey, \<lambda>ev. ChangeMilestoneName milestoneId name timestamp actorId ev)",
    OF handleChangeMilestoneName_def])
    (auto simp: project_parse_simps split: prod.split)

lemma handleArchiveMilestone_shape: "shape project_run (project_parsed (ArchiveProjectMilestoneRequest cmd)) (\<lambda>c derive ev. handleArchiveMilestone c derive ev cmd)"
  by (rule handler_shape [where h = "\<lambda>(projectId, milestoneId, actorId, timestamp, knownVersion, idempotencyKey).
      Inr (''ArchiveProjectMilestone'', projectId, timestamp, knownVersion, idempotencyKey, \<lambda>ev. ArchiveMilestone milestoneId timestamp actorId ev)",
    OF handleArchiveMilestone_def])
    (auto simp: project_parse_simps split: prod.split)

lemma project_handleArchive_shape: "shape project_run (project_parsed (ArchiveProjectRequest cmd)) (\<lambda>c derive ev. project_handleArchive c derive ev cmd)"
  by (rule handler_shape [where h = "\<lambda>(projectId, actorId, timestamp, knownVersion, idempotencyKey).
      Inr (''ArchiveProject'', projectId, timestamp, knownVersion, idempotencyKey, \<lambda>ev. ArchiveProject timestamp actorId ev)",
    OF project_handleArchive_def])
    (auto simp: project_parse_simps split: prod.split)

lemma project_request_shape:
  assumes "\<not> is_project_create r"
  shows "dispatches project_run (project_parsed r) (\<lambda>c derive gen ev. project_dispatch c derive gen ev r)"
proof (cases r)
  case (CreateProjectRequest cmd)
  then show ?thesis using assms by (simp add: is_project_create_def)
next
  case (ChangeProjectStatusRequest cmd)
  show ?thesis unfolding ChangeProjectStatusRequest by (rule dispatch_shape [OF _ handleChangeStatus_shape]) simp
next
  case (ChangeProjectDatesRequest cmd)
  show ?thesis unfolding ChangeProjectDatesRequest by (rule dispatch_shape [OF _ handleChangeDates_shape]) simp
next
  case (ChangeProjectNameRequest cmd)
  show ?thesis unfolding ChangeProjectNameRequest by (rule dispatch_shape [OF _ handleChangeName_shape]) simp
next
  case (ChangeProjectDescriptionRequest cmd)
  show ?thesis unfolding ChangeProjectDescriptionRequest by (rule dispatch_shape [OF _ handleChangeDescription_shape]) simp
next
  case (AddProjectGoalRequest cmd)
  show ?thesis unfolding AddProjectGoalRequest by (rule dispatch_shape [OF _ handleAddGoal_shape]) simp
next
  case (RemoveProjectGoalRequest cmd)
  show ?thesis unfolding RemoveProjectGoalRequest by (rule dispatch_shape [OF _ handleRemoveGoal_shape]) simp
next
  case (AddProjectMilestoneRequest cmd)
  show ?thesis unfolding AddProjectMilestoneRequest by (rule dispatch_shape [OF _ handleAddMilestone_shape]) simp
next
  case (ChangeProjectMilestoneTargetDateRequest cmd)
  show ?thesis unfolding ChangeProjectMilestoneTargetDateRequest by (rule dispatch_shape [OF _ handleChangeMilestoneTargetDate_shape]) simp
next
  case (ChangeProjectMilestoneNameRequest cmd)
  show ?thesis unfolding ChangeProjectMilestoneNameRequest by (rule dispatch_shape [OF _ handleChangeMilestoneName_shape]) simp
next
  case (ArchiveProjectMilestoneRequest cmd)
  show ?thesis unfolding ArchiveProjectMilestoneRequest by (rule dispatch_shape [OF _ handleArchiveMilestone_shape]) simp
next
  case (ArchiveProjectRequest cmd)
  show ?thesis unfolding ArchiveProjectRequest by (rule dispatch_shape [OF _ project_handleArchive_shape]) simp
qed

subsection \<open>Outcomes\<close>

lemma project_dispatch_grows: "\<exists>rs. ap_idempotency (snd (project_dispatch c derive gen ev r a)) = ap_idempotency a @ rs"
proof -
  have "grows (project_update c derive ty i t v k f)" for ty i t v k f unfolding project_update_def by (rule grows_update)
  then show ?thesis
    by (cases r)
      (auto simp: returning_id_def returning_key_def project_handleCreate_def handleChangeStatus_def handleChangeDates_def
        handleChangeName_def handleChangeDescription_def handleAddGoal_def handleRemoveGoal_def handleAddMilestone_def
        handleChangeMilestoneTargetDate_def handleChangeMilestoneName_def handleArchiveMilestone_def project_handleArchive_def
        split: prod.split intro!: grows_wrap grows_create)
qed

text \<open>A request asks for one command.\<close>

lemma project_asks_one: "project_asks r u t ev pc \<Longrightarrow> project_asks r u t ev pc' \<Longrightarrow> pc = pc'"
  by (cases r) auto

lemma project_requested_one: "project_requested r ev pc \<Longrightarrow> project_requested r ev pc' \<Longrightarrow> pc = pc'"
  using project_asks_one by (auto simp: project_requested_def)

text \<open>
  A request is answered with success without effect when it is well formed and its key is recorded for
  this command; it is executed when its key is new, its version current and the project accepts the
  command it asks for; in every other case it fails.
\<close>

definition project_repeated :: "project_request \<Rightarrow> app \<Rightarrow> bool" where
  "project_repeated r a \<longleftrightarrow> recorded (project_request_key r) (project_request_type r) (project_request_id r) a"

definition project_due :: "project_request \<Rightarrow> project \<Rightarrow> app \<Rightarrow> bool" where
  "project_due r p a \<longleftrightarrow> idempotency_get (project_request_key r) a = None \<and> project_request_version r = Some (ag_version p)"

lemma project_outcome:
  assumes "\<not> is_project_create r" and "project_repo c key (project_request_id r) evs (ap_device a)" and "evs \<noteq> []"
    and "Project_reconstitute (project_request_id r) evs = Inr p" and "ev \<noteq> []" and "\<not> has_event (dv_db (ap_device a)) ev"
  shows "\<exists>res a' new. project_dispatch c derive gen ev r a = (res, a') \<and>
     project_repo c key (project_request_id r) (evs @ new) (ap_device a') \<and>
     length new \<le> 1 \<and> (\<forall>e \<in> set new. fresh_event (project_request_id r) ev e) \<and>
     (case res of
        Failure _ \<Rightarrow> new = [] \<and> ap_idempotency a' = ap_idempotency a \<and>
          (\<forall>pc. project_requested r ev pc \<longrightarrow>
             \<not> project_repeated r a \<and> \<not> (project_due r p a \<and> (\<exists>p'. project_exec pc p = Inr p')))
      | Success x \<Rightarrow> x = (project_request_id r, None) \<and> (\<exists>pc. project_requested r ev pc \<and>
          (project_repeated r a \<and> a' = a \<and> new = [] \<or>
           project_due r p a \<and> project_repeated r a' \<and>
           (\<exists>p'. project_exec pc p = Inr p' \<and> new = ag_uncommitted p' \<and>
              Project_reconstitute (project_request_id r) (evs @ new) = Inr (markEventsAsCommitted p')))))"
proof -
  obtain q where q: "project_dispatch c derive gen ev r = wrap_handler (returning_id (bind_io (lift_io q) (project_run c derive ev)))"
    "project_parsed r q"
    using project_request_shape [OF assms(1)] unfolding dispatches_def by blast
  have ok: "\<forall>y. q = Inr y \<longrightarrow> parsed_ok project_command_ok (project_request_id r) (project_request_version r) (project_request_key r) y"
    using q(2) unfolding project_parsed_def by blast
  have y: "request_recorded y (project_request_id r) b = project_repeated r b"
    "new_request y b \<and> ag_version p = request_version y \<longleftrightarrow> project_due r p b"
    "project_requested r ev (request_command y ev)" if "q = Inr y" for y b
    using that q(2)
    by (auto simp: project_parsed_def parsed_ok_def request_recorded_def project_repeated_def project_due_def request_parts)
  have same: "pc = request_command y ev" if "q = Inr y" "project_requested r ev pc" for y pc
    using project_requested_one y(3) that by blast
  have parsed: "\<exists>y. q = Inr y" if "project_requested r ev pc" for pc using q(2) that unfolding project_parsed_def by blast
  obtain res a' new where D: "project_dispatch c derive gen ev r a = (res, a')"
    and D1: "project_repo c key (project_request_id r) (evs @ new) (ap_device a')" "length new \<le> 1"
      "\<forall>e \<in> set new. fresh_event (project_request_id r) ev e"
    and D2: "case res of
        Failure _ \<Rightarrow> new = [] \<and> ap_idempotency a' = ap_idempotency a \<and>
          (\<forall>y. q = Inr y \<longrightarrow> \<not> request_recorded y (project_request_id r) a \<and>
             \<not> (new_request y a \<and> ag_version p = request_version y \<and> (\<exists>g'. project_exec (request_command y ev) p = Inr g')))
      | Success x \<Rightarrow> x = (project_request_id r, None) \<and> (\<exists>y. q = Inr y \<and> (request_recorded y (project_request_id r) a \<and> a' = a \<and> new = [] \<or>
          new_request y a \<and> ag_version p = request_version y \<and> request_recorded y (project_request_id r) a' \<and>
          (\<exists>g'. project_exec (request_command y ev) p = Inr g' \<and> new = ag_uncommitted g' \<and>
             Project_reconstitute (project_request_id r) (evs @ new) = Inr (markEventsAsCommitted g'))))"
    using projects.dispatch_outcome [OF assms(2-4) ok assms(5,6), of derive] unfolding q(1) project_run_def by blast
  have "case res of
      Failure _ \<Rightarrow> new = [] \<and> ap_idempotency a' = ap_idempotency a \<and>
        (\<forall>pc. project_requested r ev pc \<longrightarrow>
           \<not> project_repeated r a \<and> \<not> (project_due r p a \<and> (\<exists>p'. project_exec pc p = Inr p')))
    | Success x \<Rightarrow> x = (project_request_id r, None) \<and> (\<exists>pc. project_requested r ev pc \<and>
        (project_repeated r a \<and> a' = a \<and> new = [] \<or>
         project_due r p a \<and> project_repeated r a' \<and>
         (\<exists>p'. project_exec pc p = Inr p' \<and> new = ag_uncommitted p' \<and>
            Project_reconstitute (project_request_id r) (evs @ new) = Inr (markEventsAsCommitted p'))))"
  proof (cases res)
    case (Failure es)
    have "\<not> project_repeated r a \<and> \<not> (project_due r p a \<and> (\<exists>p'. project_exec pc p = Inr p'))" if pc: "project_requested r ev pc" for pc
    proof -
      obtain z where z: "q = Inr z" using parsed [OF pc] by blast
      then have "\<not> request_recorded z (project_request_id r) a"
        "\<not> (new_request z a \<and> ag_version p = request_version z \<and> (\<exists>g'. project_exec (request_command z ev) p = Inr g'))"
        using D2 Failure by simp_all
      then show ?thesis using y(1,2) [OF z, of a] same [OF z pc] by auto
    qed
    then show ?thesis using D2 Failure by simp
  next
    case (Success x)
    then obtain z where z: "q = Inr z" "request_recorded z (project_request_id r) a \<and> a' = a \<and> new = [] \<or>
          new_request z a \<and> ag_version p = request_version z \<and> request_recorded z (project_request_id r) a' \<and>
          (\<exists>g'. project_exec (request_command z ev) p = Inr g' \<and> new = ag_uncommitted g' \<and>
             Project_reconstitute (project_request_id r) (evs @ new) = Inr (markEventsAsCommitted g'))"
      using D2 by auto
    then show ?thesis
      using Success D2 y(1,2) [OF z(1)] y(3) [OF z(1)] by (auto intro!: exI [of _ "request_command z ev"])
  qed
  then show ?thesis using D D1 by blast
qed

end
