(* ===== verification/CommandProperties.thy ===== *)
theory CommandProperties
  imports GoalHandlerFacts ProjectHandlerFacts RepositoryProperties
begin

text \<open>
  Properties of the command handlers, on any device and on any input a user interface can send.
\<close>

subsection \<open>Creation\<close>

text \<open>A device that has never seen the goal: no key, no events, no snapshot.\<close>

definition unknown_goal :: "crypto_port \<Rightarrow> string \<Rightarrow> device \<Rightarrow> bool" where
  "unknown_goal c i d \<longleftrightarrow>
     (\<exists>m. ks_masterKey (km_keyStore (dv_keys d)) = Some m \<and> accepts_key c m) \<and>
     map_of (ks_aggregate (km_keyStore (dv_keys d))) i = None \<and> km_epochKeys (dv_keys d) (i, 0) = None \<and>
     km_keyrings (dv_keys d) i = None \<and> db_wf (dv_db d) \<and> stored_rows ''goal'' i (dv_db d) = [] \<and>
     snapshot_get ''goal'' i (dv_db d) = None"

lemma unknown_no_key:
  "unknown_goal c i d \<Longrightarrow> on_keys (km_getAggregateKey c i) d = (Inr None, d)"
  by (auto simp: unknown_goal_def on_keys_def km_getAggregateKey_def bind_io_def getAggregateKey_def require_master_def)

lemma unknown_save_key:
  assumes "unknown_goal c i d" and "aead_ok c"
  shows "\<exists>d1. on_keys (on_store (saveAggregateKey c i key)) d = (Inr (), d1) \<and> goal_repo_ok c key i [] d1 \<and> dv_db d1 = dv_db d"
proof -
  obtain m where m: "ks_masterKey (km_keyStore (dv_keys d)) = Some m" "accepts_key c m"
    using assms(1) by (auto simp: unknown_goal_def)
  obtain r ks where run: "saveAggregateKey c i key (km_keyStore (dv_keys d)) = (r, ks)" by fastforce
  note saved = getAggregateKey_save [OF assms(2) m run]
  have "on_keys (on_store (saveAggregateKey c i key)) d = (Inr (), d\<lparr>dv_keys := (dv_keys d)\<lparr>km_keyStore := ks\<rparr>\<rparr>)"
    using run saved(1) by (simp add: on_keys_def on_store_def)
  moreover have "getAggregateKey c i ks = Inr (Some key)" using saved(3) [of i] by simp
  ultimately show ?thesis
    using assms(1) by (auto simp: unknown_goal_def goal_repo_ok_def device_key_def stores_def)
qed

lemma created_goal:
  assumes "UUID_REGEX i" and "su \<noteq> []" and "month_ok mo" and "u \<noteq> []" and "ev \<noteq> []"
  shows "\<exists>g. Goal_create i sl su mo pr u t ev = Inr g \<and> ag_id g = i \<and>
     ag_uncommitted g = [new_event i t ev u (GoalEvent (GoalCreated sl su mo pr u))] \<and>
     Goal_reconstitute i (ag_uncommitted g) = Inr (markEventsAsCommitted g)"
    and "fresh_event i ev (new_event i t ev u (GoalEvent (GoalCreated sl su mo pr u)))"
proof -
  have "\<exists>g. Goal_create i sl su mo pr u t ev = Inr g" by (simp add: Goal_create_def goal_emit_def ar_apply_def)
  then obtain g where g: "Goal_create i sl su mo pr u t ev = Inr g" by blast
  then have un: "ag_uncommitted g = [new_event i t ev u (GoalEvent (GoalCreated sl su mo pr u))]" and id: "ag_id g = i"
    by (auto simp: Goal_create_def goal_emit_def ar_apply_Inr ar_new_def)
  have "Goal_reconstitute i (ag_uncommitted g) = Inr (markEventsAsCommitted g)"
    using g un by (auto simp: Goal_create_def goal_emit_def ar_apply_Inr ar_new_def Goal_reconstitute_def
        ar_reconstitute_def loadFromHistory_single load_event_def markEventsAsCommitted_def)
  then show "\<exists>g. Goal_create i sl su mo pr u t ev = Inr g \<and> ag_id g = i \<and>
     ag_uncommitted g = [new_event i t ev u (GoalEvent (GoalCreated sl su mo pr u))] \<and>
     Goal_reconstitute i (ag_uncommitted g) = Inr (markEventsAsCommitted g)"
    using g un id by blast
  show "fresh_event i ev (new_event i t ev u (GoalEvent (GoalCreated sl su mo pr u)))"
    using assms by (simp add: fresh_event_def event_ok_def meta_ok_def new_event_def)
qed

text \<open>A command of creation whose fields the factories accept.\<close>

definition create_parses :: "create_goal_command \<Rightarrow> slice \<Rightarrow> month \<Rightarrow> priority \<Rightarrow> int \<Rightarrow> bool" where
  "create_parses cmd sl mo pr t \<longleftrightarrow> UUID_REGEX (crg_goalId cmd) \<and> Slice_from (crg_slice cmd) = Inr sl \<and> crg_summary cmd \<noteq> [] \<and>
     Month_from (crg_targetMonth cmd) = Inr mo \<and> Priority_from (crg_priority cmd) = Inr pr \<and> bc_actorId cmd \<noteq> [] \<and>
     crg_timestamp cmd = Some t \<and> trim (bc_idempotencyKey cmd) \<noteq> [] \<and> length (bc_idempotencyKey cmd) \<le> 200"

lemma create_parsed:
  assumes "create_parses cmd sl mo pr t"
  shows "goal_handleCreate c derive gen ev cmd = create_aggregate c gen
     (goal_load c derive) (goal_save c) ''CreateGoal'' (crg_goalId cmd) t (bc_idempotencyKey cmd)
     (Goal_create (crg_goalId cmd) sl (crg_summary cmd) mo pr (bc_actorId cmd) t ev)"
proof -
  have "parseCommand
       (both (field ''goalId'' (GoalId_from (crg_goalId cmd)))
       (both (field ''slice'' (Slice_from (crg_slice cmd)))
       (both (field ''summary'' (Summary_from (crg_summary cmd)))
       (both (field ''targetMonth'' (Month_from (crg_targetMonth cmd)))
       (both (field ''priority'' (Priority_from (crg_priority cmd)))
       (both (field ''actorId'' (UserId_from (bc_actorId cmd)))
       (both (field ''timestamp'' (parseTimestamp (crg_timestamp cmd)))
        (field ''idempotencyKey'' (parseIdempotencyKey (bc_idempotencyKey cmd)))))))))) =
     Inr (crg_goalId cmd, sl, crg_summary cmd, mo, pr, bc_actorId cmd, t, bc_idempotencyKey cmd)"
    using assms by (simp add: create_parses_def)
  from this show ?thesis unfolding goal_handleCreate_def by (simp only: bind_lift prod.case)
qed

lemma create_repeated:
  assumes "create_parses cmd sl mo pr t" and "goal_repo c key (crg_goalId cmd) evs (ap_device a)" and "evs \<noteq> []"
    and "Goal_reconstitute (crg_goalId cmd) evs = Inr g"
    and "recorded (bc_idempotencyKey cmd) ''CreateGoal'' (crg_goalId cmd) a"
  shows "\<exists>a'. goal_dispatch c derive gen ev (CreateGoalRequest cmd) a = (Success (crg_goalId cmd, Some key), a') \<and>
     dv_db (ap_device a') = dv_db (ap_device a)"
proof -
  obtain d where "create_aggregate c gen (goal_load c derive) (goal_save c) ''CreateGoal'' (crg_goalId cmd) t (bc_idempotencyKey cmd)
      (Goal_create (crg_goalId cmd) sl (crg_summary cmd) mo pr (bc_actorId cmd) t ev) a =
      (Inr (crg_goalId cmd, key), a\<lparr>ap_device := d\<rparr>)" "dv_db d = dv_db (ap_device a)"
    using goals.create_again [OF assms(2-4) disjI2 [OF assms(5)]] by blast
  then show ?thesis
    by (intro exI [of _ "a\<lparr>ap_device := d\<rparr>"])
      (simp add: create_parsed [OF assms(1)] wrap_handler_def returning_key_def bind_io_def)
qed

text \<open>
  C25: a goal is created exactly once. A valid command of creation with a fresh idempotency key, on a
  device that does not know the goal, or that was interrupted after it had stored a key for it,
  stores one event under the generated or the stored key and returns this key. Sending the
  command again, with whatever key and event id would be drawn then, returns the same key and
  leaves the database as it is.
\<close>

theorem create_goal_once:
  assumes "create_parses cmd sl mo pr t" and "idempotency_get (bc_idempotencyKey cmd) a = None"
    and "unknown_goal c (crg_goalId cmd) (ap_device a) \<and> key = gen \<or> goal_repo_ok c key (crg_goalId cmd) [] (ap_device a)"
    and "aead_ok c" and "encrypts c key" and "ev \<noteq> []" and "\<not> has_event (dv_db (ap_device a)) ev"
  shows "\<exists>a'. goal_dispatch c derive gen ev (CreateGoalRequest cmd) a = (Success (crg_goalId cmd, Some key), a') \<and>
     goal_repo_ok c key (crg_goalId cmd) [new_event (crg_goalId cmd) t ev (bc_actorId cmd)
       (GoalEvent (GoalCreated sl (crg_summary cmd) mo pr (bc_actorId cmd)))] (ap_device a') \<and>
     (\<exists>a''. goal_dispatch c derive2 gen2 ev2 (CreateGoalRequest cmd) a' = (Success (crg_goalId cmd, Some key), a'') \<and>
        dv_db (ap_device a'') = dv_db (ap_device a'))"
proof -
  let ?i = "crg_goalId cmd" and ?u = "bc_actorId cmd" and ?k = "bc_idempotencyKey cmd"
  let ?e = "new_event ?i t ev ?u (GoalEvent (GoalCreated sl (crg_summary cmd) mo pr ?u))"
  let ?rec = "\<lparr>ir_key = ?k, ir_commandType = ''CreateGoal'', ir_aggregateId = ?i, ir_createdAt = t\<rparr>"
  have vals: "UUID_REGEX ?i" "crg_summary cmd \<noteq> []" "month_ok mo" "?u \<noteq> []"
    using assms(1) Month_from_ok by (auto simp: create_parses_def)
  obtain g where g: "Goal_create ?i sl (crg_summary cmd) mo pr ?u t ev = Inr g" "ag_id g = ?i" "ag_uncommitted g = [?e]"
    "Goal_reconstitute ?i (ag_uncommitted g) = Inr (markEventsAsCommitted g)"
    using created_goal(1) [OF vals assms(6)] by blast
  have st: "storable ?i (dv_db (ap_device a)) (ag_uncommitted g)"
    using fresh_storable [of "[?e]" ?i ev] created_goal(2) [OF vals assms(6)] assms(7) g(3) by simp
  have "\<exists>d. create_aggregate c gen (goal_load c derive) (goal_save c) ''CreateGoal'' ?i t ?k
        (Goal_create ?i sl (crg_summary cmd) mo pr ?u t ev) a =
        (Inr (?i, key), a\<lparr>ap_device := d, ap_idempotency := ap_idempotency a @ [?rec]\<rparr>) \<and> goal_repo c key ?i (ag_uncommitted g) d"
    using assms(3)
  proof (elim disjE conjE)
    assume unknown: "unknown_goal c ?i (ap_device a)" and key: "key = gen"
    obtain d1 where "on_keys (on_store (saveAggregateKey c ?i gen)) (ap_device a) = (Inr (), d1)"
      "goal_repo_ok c gen ?i [] d1" "dv_db d1 = dv_db (ap_device a)"
      using unknown_save_key [OF unknown assms(4)] by blast
    then show ?thesis
      using goals.create_new [OF unknown_no_key [OF unknown] _ _ _ assms(2) g(1,2) st] assms(4,5) key
      by (simp add: goal_repo_def)
  next
    assume "goal_repo_ok c key ?i [] (ap_device a)"
    then show ?thesis
      using goals.create_with_key [OF _ assms(2) g(1,2) st] assms(4,5) by (simp add: goal_repo_def)
  qed
  then obtain d where d: "goal_dispatch c derive gen ev (CreateGoalRequest cmd) a =
      (Success (?i, Some key), a\<lparr>ap_device := d, ap_idempotency := ap_idempotency a @ [?rec]\<rparr>)" "goal_repo c key ?i (ag_uncommitted g) d"
    by (auto simp: create_parsed [OF assms(1)] wrap_handler_def returning_key_def bind_io_def)
  let ?a' = "a\<lparr>ap_device := d, ap_idempotency := ap_idempotency a @ [?rec]\<rparr>"
  have "recorded ?k ''CreateGoal'' ?i ?a'"
    using assms(2) by (simp add: recorded_def idempotency_get_def find_append)
  then have "\<exists>a''. goal_dispatch c derive2 gen2 ev2 (CreateGoalRequest cmd) ?a' = (Success (?i, Some key), a'') \<and>
      dv_db (ap_device a'') = dv_db (ap_device ?a')"
    using create_repeated [OF assms(1), of c key "ag_uncommitted g" ?a'] d(2) g(3,4) by simp
  then show ?thesis using d g(3) by (intro exI [of _ ?a']) (simp add: goal_repo_def)
qed

definition sample_app :: app where
  "sample_app = \<lparr>ap_device = \<lparr>dv_db = empty_db, dv_keys = sample_keys\<rparr>, ap_idempotency = []\<rparr>"

definition sample_create :: create_goal_command where
  "sample_create = \<lparr>bc_actorId = ''me'', bc_idempotencyKey = ''k1'', bc_correlationId = None, bc_causationId = None,
     crg_goalId = sample_id, crg_slice = ''Health'', crg_summary = ''Run'', crg_targetMonth = ''2026-03'',
     crg_priority = ''must'', crg_timestamp = Some 5\<rparr>"

theorem create_goal_once_witness:
  "\<exists>a' a''. goal_dispatch tagged_crypto (\<lambda>_ _. Inr []) [7] ''e1'' (CreateGoalRequest sample_create) sample_app =
       (Success (sample_id, Some [7]), a') \<and>
     goal_dispatch tagged_crypto (\<lambda>_ _. Inr []) [8] ''e2'' (CreateGoalRequest sample_create) a' =
       (Success (sample_id, Some [7]), a'') \<and> dv_db (ap_device a'') = dv_db (ap_device a')"
proof -
  have "create_parses sample_create Health \<lparr>mo_year = 2026, mo_month = 3\<rparr> Must 5" by code_simp
  moreover have "stored_rows ''goal'' sample_id empty_db = []"
    by (simp add: stored_rows_def aggregate_rows_def empty_db_def)
  then have "unknown_goal tagged_crypto sample_id (ap_device sample_app)"
    by (simp add: unknown_goal_def sample_app_def sample_keys_def accepts_tagged db_wf_empty)
  moreover have "crg_goalId sample_create = sample_id" by (simp add: sample_create_def)
  ultimately show ?thesis
    using create_goal_once [of sample_create Health "\<lparr>mo_year = 2026, mo_month = 3\<rparr>" Must 5 sample_app tagged_crypto "[7]" "[7]" "''e1''"]
      aead_ok_tagged encrypts_tagged
    by (simp add: idempotency_get_def sample_app_def) blast
qed

subsection \<open>Commands on existing aggregates\<close>

text \<open>
  C26: whatever a user interface sends, a command on an existing project keeps the stored history
  valid and adds at most one event, which is valid and has the drawn id. It is answered with success
  only in two cases: its key was recorded before for the same command on the same project, and then
  nothing changes; or its key is new, it was computed against the current version, and the domain
  command that its fields ask for is accepted by the project, and then the history is extended by the
  events of exactly this command and the key is recorded. A failure changes neither the history nor
  the table of keys, and is never the answer to a well-formed command in one of these two cases.
\<close>

theorem project_command_outcome:
  assumes "\<not> is_project_create r" and "project_repo c key (project_request_id r) evs (ap_device a)" and "evs \<noteq> []"
    and "Project_reconstitute (project_request_id r) evs = Inr p" and "ev \<noteq> []" and "\<not> has_event (dv_db (ap_device a)) ev"
  shows "\<exists>res a' new. project_dispatch c derive gen ev r a = (res, a') \<and>
     project_repo c key (project_request_id r) (evs @ new) (ap_device a') \<and>
     length new \<le> 1 \<and> (\<forall>e \<in> set new. fresh_event (project_request_id r) ev e) \<and>
     (case res of
        Failure _ \<Rightarrow> new = [] \<and> ap_idempotency a' = ap_idempotency a \<and>
          (\<forall>pc. project_requested r ev pc \<longrightarrow>
             \<not> project_repeated r a \<and> \<not> (project_due r p a \<and> (\<exists>p'. project_exec pc p = Inr p')))
      | Success x \<Rightarrow> x = (project_request_id r, None) \<and> (\<exists>pc. project_requested r ev pc \<and>
          (project_repeated r a \<and> a' = a \<and> new = [] \<or>
           project_due r p a \<and> project_repeated r a' \<and>
           (\<exists>p'. project_exec pc p = Inr p' \<and> new = ag_uncommitted p' \<and>
              Project_reconstitute (project_request_id r) (evs @ new) = Inr (markEventsAsCommitted p')))))"
  by (rule project_outcome [OF assms])

definition sample_rename :: change_project_name_command where
  "sample_rename = \<lparr>bc_actorId = ''me'', bc_idempotencyKey = ''k2'', bc_correlationId = None, bc_causationId = None,
     cpn_projectId = sample_id, cpn_name = ''Home'', cpn_timestamp = Some 2, cpn_knownVersion = Some 1\<rparr>"

lemma sample_project_repo:
  "\<exists>d. project_repo tagged_crypto [2] sample_id [sample_created] d \<and> (\<forall>x. has_event (dv_db d) x \<longleftrightarrow> x = ''e1'')"
proof -
  obtain d where "project_repo_ok tagged_crypto [2] sample_id [sample_created] d" "\<forall>x. has_event (dv_db d) x \<longleftrightarrow> x = ''e1''"
    using sample_saved by blast
  then show ?thesis
    using sample_event_ok sample_replay sample_committed aead_ok_tagged encrypts_tagged by (auto simp: project_repo_def)
qed

lemma sample_rename_requested:
  "project_requested (ChangeProjectNameRequest sample_rename) ''e2'' (ChangeName ''Home'' 2 ''me'' ''e2'')"
  using sample_id_uuid
  by (simp add: project_requested_def sample_rename_def trim_def js_space_def)

lemma sample_rename_due:
  "project_due (ChangeProjectNameRequest sample_rename) (markEventsAsCommitted sample_project) \<lparr>ap_device = d, ap_idempotency = []\<rparr>"
  "\<exists>p'. project_exec (ChangeName ''Home'' 2 ''me'' ''e2'') (markEventsAsCommitted sample_project) = Inr p'"
proof -
  show "project_due (ChangeProjectNameRequest sample_rename) (markEventsAsCommitted sample_project) \<lparr>ap_device = d, ap_idempotency = []\<rparr>"
    by (simp add: project_due_def idempotency_get_def sample_rename_def) code_simp
  have "project_exec (ChangeName ''Home'' 2 ''me'' ''e2'') (markEventsAsCommitted sample_project) \<noteq> Inl e" for e by code_simp
  then show "\<exists>p'. project_exec (ChangeName ''Home'' 2 ''me'' ''e2'') (markEventsAsCommitted sample_project) = Inr p'"
    by (cases "project_exec (ChangeName ''Home'' 2 ''me'' ''e2'') (markEventsAsCommitted sample_project)") auto
qed

theorem project_command_outcome_witness:
  "\<exists>a a' new. project_repo tagged_crypto [2] sample_id [sample_created] (ap_device a) \<and>
     project_dispatch tagged_crypto (\<lambda>_ _. Inr []) [] ''e2'' (ChangeProjectNameRequest sample_rename) a = (Success (sample_id, None), a') \<and>
     project_repo tagged_crypto [2] sample_id (sample_created # new) (ap_device a') \<and>
     project_repeated (ChangeProjectNameRequest sample_rename) a'"
proof -
  obtain d where d: "project_repo tagged_crypto [2] sample_id [sample_created] d" "\<forall>x. has_event (dv_db d) x \<longleftrightarrow> x = ''e1''"
    using sample_project_repo by blast
  have id: "project_request_id (ChangeProjectNameRequest sample_rename) = sample_id" by (simp add: sample_rename_def)
  note out = project_command_outcome [of "ChangeProjectNameRequest sample_rename" tagged_crypto "[2]" "[sample_created]"
      "\<lparr>ap_device = d, ap_idempotency = []\<rparr>" "markEventsAsCommitted sample_project" "''e2''" "\<lambda>_ _. Inr []" "[]", unfolded id]
  obtain res a' new where run: "project_dispatch tagged_crypto (\<lambda>_ _. Inr []) [] ''e2'' (ChangeProjectNameRequest sample_rename)
      \<lparr>ap_device = d, ap_idempotency = []\<rparr> = (res, a')"
    "project_repo tagged_crypto [2] sample_id ([sample_created] @ new) (ap_device a')"
    and res: "case res of
        Failure _ \<Rightarrow> new = [] \<and> ap_idempotency a' = [] \<and>
          (\<forall>pc. project_requested (ChangeProjectNameRequest sample_rename) ''e2'' pc \<longrightarrow>
             \<not> project_repeated (ChangeProjectNameRequest sample_rename) \<lparr>ap_device = d, ap_idempotency = []\<rparr> \<and>
             \<not> (project_due (ChangeProjectNameRequest sample_rename) (markEventsAsCommitted sample_project) \<lparr>ap_device = d, ap_idempotency = []\<rparr> \<and>
               (\<exists>p'. project_exec pc (markEventsAsCommitted sample_project) = Inr p')))
      | Success x \<Rightarrow> x = (sample_id, None) \<and>
          (project_repeated (ChangeProjectNameRequest sample_rename) \<lparr>ap_device = d, ap_idempotency = []\<rparr> \<or>
           project_repeated (ChangeProjectNameRequest sample_rename) a')"
    using out d sample_replay by (fastforce simp: is_project_create_def split: command_result.splits)
  have "\<not> project_repeated (ChangeProjectNameRequest sample_rename) \<lparr>ap_device = d, ap_idempotency = []\<rparr>"
    by (simp add: project_repeated_def recorded_def idempotency_get_def)
  then have "res = Success (sample_id, None)" "project_repeated (ChangeProjectNameRequest sample_rename) a'"
    using res sample_rename_requested sample_rename_due by (auto split: command_result.splits)
  then show ?thesis
    using run d(1)
    by (intro exI [of _ "\<lparr>ap_device = d, ap_idempotency = []\<rparr>"] exI [of _ a'] exI [of _ new]) (simp del: project_dispatch.simps)
qed

text \<open>
  What may happen to an application between two commands: any command on goals or projects, with any
  outcome, and any change of the device, such as a synchronisation.
\<close>

inductive app_step :: "app \<Rightarrow> app \<Rightarrow> bool" where
  Goal_command: "app_step a (snd (goal_dispatch c derive gen ev r a))"
| Project_command: "app_step a (snd (project_dispatch c derive gen ev r a))"
| Device_changed: "app_step a (a\<lparr>ap_device := d\<rparr>)"

lemma app_step_recorded: "app_step a b \<Longrightarrow> recorded k ty i a \<Longrightarrow> recorded k ty i b"
proof (induction rule: app_step.induct)
  case (Goal_command a c derive gen ev r)
  then show ?case using goal_dispatch_grows [of c derive gen ev r a] recorded_appended by blast
next
  case (Project_command a c derive gen ev r)
  then show ?case using project_dispatch_grows [of c derive gen ev r a] recorded_appended by blast
qed simp

lemma app_steps_recorded: "app_step\<^sup>*\<^sup>* a b \<Longrightarrow> recorded k ty i a \<Longrightarrow> recorded k ty i b"
  by (induction rule: rtranclp_induct) (auto intro: app_step_recorded)

text \<open>
  C27: a command is executed at most once. When a command on a goal has been answered with success,
  sending it again is answered with the same success and changes nothing, whatever has happened in the
  meantime: any commands on goals and projects, successful or not, and any changes of the device. The
  goal may have moved on to other versions, and another event id would be drawn.
\<close>

theorem goal_command_retry:
  assumes "\<not> is_create r" and "goal_repo c key (goal_request_id r) evs (ap_device a)"
    and "goal_dispatch c derive gen ev r a = (Success x, a')" and "app_step\<^sup>*\<^sup>* a' b"
  shows "goal_dispatch c2 derive2 gen2 ev2 r b = (Success x, b)"
  by (rule goal_retry [OF assms(1-3) app_steps_recorded [OF assms(4)]])

definition sample_achieve :: achieve_goal_command where
  "sample_achieve = \<lparr>bc_actorId = ''me'', bc_idempotencyKey = ''k2'', bc_correlationId = None, bc_causationId = None,
     acg_goalId = sample_id, acg_timestamp = Some 2, acg_knownVersion = Some 1\<rparr>"

lemma sample_goal_repo:
  "\<exists>d. goal_repo tagged_crypto [2] sample_id [sample_goal_event] d \<and> (\<forall>x. has_event (dv_db d) x \<longleftrightarrow> x = ''e1'')"
proof -
  have "storable sample_id (dv_db sample_device) (ag_uncommitted sample_goal)"
    using sample_goal_ok by (simp add: sample_goal_facts storable_def) (simp add: sample_goal_event_def)
  then show ?thesis
    using goal_save_ok [OF sample_device_ok(2) aead_ok_tagged encrypts_tagged sample_goal_facts(2)] aead_ok_tagged encrypts_tagged
    by (auto simp: sample_goal_facts sample_goal_event_def goal_repo_def)
qed

lemma sample_achieve_runs:
  assumes "goal_repo tagged_crypto [2] sample_id [sample_goal_event] d" and "\<forall>x. has_event (dv_db d) x \<longleftrightarrow> x = ''e1''"
  shows "\<exists>a'. goal_dispatch tagged_crypto derive gen ''e2'' (AchieveGoalRequest sample_achieve)
       \<lparr>ap_device = d, ap_idempotency = []\<rparr> = (Success (sample_id, None), a') \<and>
     goal_repo tagged_crypto [2] sample_id [sample_goal_event, new_event sample_id 2 ''e2'' ''me'' (GoalEvent GoalAchieved)] (ap_device a')"
proof -
  let ?a = "\<lparr>ap_device = d, ap_idempotency = []\<rparr>"
  have parsed: "handleAchieve tagged_crypto derive ''e2'' sample_achieve =
      goal_update tagged_crypto derive ''AchieveGoal'' sample_id 2 1 ''k2'' (achieve 2 ''me'' None None ''e2'')"
    using sample_id_uuid
    by (simp add: handleAchieve_def sample_achieve_def parse_trace_def both_def field_def parseCommand_def parseTimestamp_def
        parseKnownVersion_def parseIdempotencyKey_def trim_def js_space_def)
  have ach: "achieve 2 ''me'' None None ''e2'' (markEventsAsCommitted sample_goal) = Inr achieved_goal"
    and ver: "ag_version (markEventsAsCommitted sample_goal) = 1" and id: "ag_id achieved_goal = sample_id"
    by (simp_all add: sample_goal_def achieved_goal_def Goal_create_def goal_emit_def ar_apply_def ar_new_def
        markEventsAsCommitted_def run_commands_def achieve_def goal_assertNotArchived_def new_goal_state_def traced_event_def
        new_event_def Let_def isNull_def guard_result_def isFalse_def)
  have "storable sample_id (dv_db (ap_device ?a)) (ag_uncommitted achieved_goal)"
    using sample_goal_ok(2) assms(2) by (simp add: sample_goal_facts storable_def)
  then obtain d' where "update_aggregate tagged_crypto (goal_load tagged_crypto derive) (goal_save tagged_crypto) ''AchieveGoal''
      sample_id 2 1 ''k2'' (achieve 2 ''me'' None None ''e2'') ?a = (Inr sample_id, ?a\<lparr>ap_device := d', ap_idempotency :=
        ap_idempotency ?a @ [\<lparr>ir_key = ''k2'', ir_commandType = ''AchieveGoal'', ir_aggregateId = sample_id, ir_createdAt = 2\<rparr>]\<rparr>)"
      "goal_repo tagged_crypto [2] sample_id ([sample_goal_event] @ ag_uncommitted achieved_goal) d'"
    using goals.update_fresh(3) [where a = ?a and f = "achieve 2 ''me'' None None ''e2''" and c = tagged_crypto and key = "[2]" and k = "''k2''"
        and derive = derive and ty = "''AchieveGoal''" and t = 2, OF _ _ sample_goal_facts(3) _ ver ach id] assms(1)
    by (auto simp: idempotency_get_def)
  then show ?thesis
    by (simp add: parsed wrap_handler_def returning_id_def bind_io_def goal_update_def sample_goal_facts)
qed

theorem goal_command_retry_witness:
  "\<exists>a a'. goal_dispatch tagged_crypto (\<lambda>_ _. Inr []) [] ''e2'' (AchieveGoalRequest sample_achieve) a = (Success (sample_id, None), a') \<and>
     a' \<noteq> a \<and>
     (let b = snd (project_dispatch tagged_crypto (\<lambda>_ _. Inr []) [] ''e2'' (ChangeProjectNameRequest sample_rename) a') in
      goal_dispatch tagged_crypto (\<lambda>_ _. Inr []) [] ''e3'' (AchieveGoalRequest sample_achieve) b = (Success (sample_id, None), b))"
proof -
  obtain d where d: "goal_repo tagged_crypto [2] sample_id [sample_goal_event] d" "\<forall>x. has_event (dv_db d) x \<longleftrightarrow> x = ''e1''"
    using sample_goal_repo by blast
  let ?a = "\<lparr>ap_device = d, ap_idempotency = []\<rparr>"
  obtain a' where a': "goal_dispatch tagged_crypto (\<lambda>_ _. Inr []) [] ''e2'' (AchieveGoalRequest sample_achieve) ?a =
      (Success (sample_id, None), a')"
    "goal_repo tagged_crypto [2] sample_id [sample_goal_event, new_event sample_id 2 ''e2'' ''me'' (GoalEvent GoalAchieved)] (ap_device a')"
    using sample_achieve_runs [OF d] by blast
  let ?b = "snd (project_dispatch tagged_crypto (\<lambda>_ _. Inr []) [] ''e2'' (ChangeProjectNameRequest sample_rename) a')"
  have "goal_dispatch tagged_crypto (\<lambda>_ _. Inr []) [] ''e3'' (AchieveGoalRequest sample_achieve) ?b = (Success (sample_id, None), ?b)"
    by (rule goal_command_retry [OF _ _ a'(1) r_into_rtranclp [of app_step, OF Project_command]])
      (use d in \<open>simp_all add: is_create_def sample_achieve_def\<close>)
  moreover have "a' \<noteq> ?a"
  proof
    assume "a' = ?a"
    then have "stores tagged_crypto [2] ''goal'' sample_id [sample_goal_event] (dv_db d)"
      "stores tagged_crypto [2] ''goal'' sample_id [sample_goal_event, new_event sample_id 2 ''e2'' ''me'' (GoalEvent GoalAchieved)] (dv_db d)"
      using d(1) a'(2) by (simp_all add: goal_repo_def goal_repo_ok_def)
    from this [THEN stored_versions(1)] show False by simp
  qed
  ultimately show ?thesis using a'(1) unfolding Let_def by blast
qed

end
