(* ===== verification/Saga.thy ===== *)
theory Saga
  imports SearchProjector GoalCommands
begin

text \<open>
  The process manager that achieves a goal when all its projects are completed
  (packages/application/src/sagas/GoalAchievementSaga.ts) and its encrypted store
  (packages/infrastructure/src/sagas/SqliteGoalAchievementSagaStore.ts). The two dispatch functions
  the saga is constructed with are the parameter \<open>answer\<close>: what the command bus answers to a
  command after the commands sent before; the saga keeps the list of the commands it has sent.
  \<open>generated\<close> is the key \<open>generateKey()\<close> would return, \<open>now\<close> the clock, \<open>ids\<close> the event ids
  of the system events.
\<close>

record goal_achievement =
  ga_goalId :: string
  ga_linkedProjectIds :: "string list"
  ga_completedProjectIds :: "string list"
  ga_achieved :: bool
  ga_archived :: bool
  ga_achievementRequested :: bool
  ga_version :: int

record project_achievement =
  pa_projectId :: string
  pa_goalId :: "string option"
  pa_status :: "project_status option"

datatype saga_command = AchieveCommand achieve_goal_command | UnachieveCommand unachieve_goal_command

record saga =
  sg_replaying :: bool
  sg_seenGoalIds :: "string list"
  sg_keys :: key_manager
  sg_process :: process_table
  sg_sent :: "saga_command list"

type_synonym 'a saga_io = "saga \<Rightarrow> (store_error + 'a) \<times> saga"

record saga_env =
  env_crypto :: crypto_port
  env_generated :: bytes
  env_now :: int
  env_answer :: "saga_command list \<Rightarrow> saga_command \<Rightarrow> store_error + unit"
  env_ids :: "string \<Rightarrow> string"

subsection \<open>SqliteGoalAchievementSagaStore\<close>

definition PROCESS_MANAGER_ID :: string where
  "PROCESS_MANAGER_ID = ''goal_achievement''"

definition PROCESS_MANAGER_KEY_ID :: string where
  "PROCESS_MANAGER_KEY_ID = ''process_manager:goal_achievement''"

definition STATE_VERSION :: int where
  "STATE_VERSION = 1"

definition goalScope :: "string \<Rightarrow> string" where
  "goalScope goalId = ''goal:'' @ goalId"

definition projectScope :: "string \<Rightarrow> string" where
  "projectScope projectId = ''project:'' @ projectId"

definition on_saga_keys :: "(key_manager, 'a) io \<Rightarrow> 'a saga_io" where
  "on_saga_keys m s =
     (case m (sg_keys s) of
        (Inl e, km) \<Rightarrow> (Inl (Failed e), s\<lparr>sg_keys := km\<rparr>)
      | (Inr x, km) \<Rightarrow> (Inr x, s\<lparr>sg_keys := km\<rparr>))"

definition ensureProcessManagerKey :: "saga_env \<Rightarrow> bytes saga_io" where
  "ensureProcessManagerKey env = on_saga_keys (ensureKey (env_crypto env) (env_generated env) PROCESS_MANAGER_KEY_ID)"

text \<open>\<open>JSON.parse(...) as T\<close>: \<open>from\<close> reads the fields; only \<open>saveState\<close> writes such rows.\<close>

definition loadState :: "saga_env \<Rightarrow> (json \<Rightarrow> 'a) \<Rightarrow> string \<Rightarrow> 'a option saga_io" where
  "loadState env from scopeKey =
     bind_io (read_io (\<lambda>s. process_get PROCESS_MANAGER_ID scopeKey (sg_process s))) (\<lambda>found.
     case found of
       None \<Rightarrow> return_io None
     | Some row \<Rightarrow>
         bind_io (ensureProcessManagerKey env) (\<lambda>key.
         let aad = buildProcessManagerStateAad PROCESS_MANAGER_ID scopeKey (ps_stateVersion row) (ps_lastEffectiveCursor row) in
         case bind_result (decrypt (env_crypto env) (ps_stateEncrypted row) key aad) (\<lambda>plaintext.
                case json_parse (text_decode plaintext) of None \<Rightarrow> Inl (Error ''SyntaxError'') | Some j \<Rightarrow> Inr (from j)) of
           Inr x \<Rightarrow> return_io (Some x)
         | Inl _ \<Rightarrow>
             bind_io (update_io (sg_process_update (process_remove PROCESS_MANAGER_ID scopeKey))) (\<lambda>_.
             return_io None)))"

definition saveState :: "saga_env \<Rightarrow> string \<Rightarrow> json \<Rightarrow> effective_cursor option \<Rightarrow> unit saga_io" where
  "saveState env scopeKey state cursor =
     bind_io (ensureProcessManagerKey env) (\<lambda>key.
     let effectiveCursor = (case cursor of Some c \<Rightarrow> c | None \<Rightarrow> ZERO_EFFECTIVE_CURSOR);
         aad = buildProcessManagerStateAad PROCESS_MANAGER_ID scopeKey STATE_VERSION effectiveCursor in
     bind_io (on_saga_keys (seal (env_crypto env) (text_encode (json_stringify state)) key aad)) (\<lambda>cipher.
     update_io (sg_process_update (process_put
       \<lparr>ps_processManagerId = PROCESS_MANAGER_ID, ps_scopeKey = scopeKey, ps_stateVersion = STATE_VERSION,
        ps_stateEncrypted = cipher, ps_lastEffectiveCursor = effectiveCursor, ps_updatedAt = env_now env\<rparr>))))"

definition goal_achievement_object :: "goal_achievement \<Rightarrow> json" where
  "goal_achievement_object s = JObj
     [(''goalId'', JStr (ga_goalId s)), (''linkedProjectIds'', JArr (map JStr (ga_linkedProjectIds s))),
      (''completedProjectIds'', JArr (map JStr (ga_completedProjectIds s))), (''achieved'', JBool (ga_achieved s)),
      (''archived'', JBool (ga_archived s)), (''achievementRequested'', JBool (ga_achievementRequested s)),
      (''version'', JNum (ga_version s))]"

definition json_texts :: "json option \<Rightarrow> string list" where
  "json_texts j = (case j of Some (JArr js) \<Rightarrow> map js_string js | _ \<Rightarrow> [])"

definition goal_achievement_of :: "json \<Rightarrow> goal_achievement" where
  "goal_achievement_of j =
     \<lparr>ga_goalId = (case json_get ''goalId'' j of Some v \<Rightarrow> js_string v | None \<Rightarrow> []),
      ga_linkedProjectIds = json_texts (json_get ''linkedProjectIds'' j),
      ga_completedProjectIds = json_texts (json_get ''completedProjectIds'' j),
      ga_achieved = (json_get ''achieved'' j = Some (JBool True)), ga_archived = (json_get ''archived'' j = Some (JBool True)),
      ga_achievementRequested = (json_get ''achievementRequested'' j = Some (JBool True)),
      ga_version = (case json_get ''version'' j of Some (JNum n) \<Rightarrow> n | _ \<Rightarrow> 0)\<rparr>"

definition project_achievement_object :: "project_achievement \<Rightarrow> json" where
  "project_achievement_object s = JObj
     [(''projectId'', JStr (pa_projectId s)), (''goalId'', json_nullable (pa_goalId s)),
      (''status'', json_nullable (map_option ProjectStatus_value (pa_status s)))]"

definition json_text_option :: "json option \<Rightarrow> string option" where
  "json_text_option j = (case j of Some (JStr s) \<Rightarrow> Some s | _ \<Rightarrow> None)"

definition project_achievement_of :: "json \<Rightarrow> project_achievement" where
  "project_achievement_of j =
     \<lparr>pa_projectId = (case json_get ''projectId'' j of Some v \<Rightarrow> js_string v | None \<Rightarrow> []),
      pa_goalId = json_text_option (json_get ''goalId'' j),
      pa_status = Option.bind (json_text_option (json_get ''status'' j))
        (\<lambda>v. find (\<lambda>st. ProjectStatus_value st = v) [Planned, InProgress, Completed, Canceled])\<rparr>"

definition getGoalState :: "saga_env \<Rightarrow> string \<Rightarrow> goal_achievement option saga_io" where
  "getGoalState env goalId = loadState env goal_achievement_of (goalScope goalId)"

definition saveGoalState :: "saga_env \<Rightarrow> goal_achievement \<Rightarrow> unit saga_io" where
  "saveGoalState env s = saveState env (goalScope (ga_goalId s)) (goal_achievement_object s) None"

definition getProjectState :: "saga_env \<Rightarrow> string \<Rightarrow> project_achievement option saga_io" where
  "getProjectState env projectId = loadState env project_achievement_of (projectScope projectId)"

definition saveProjectState :: "saga_env \<Rightarrow> project_achievement \<Rightarrow> unit saga_io" where
  "saveProjectState env s = saveState env (projectScope (pa_projectId s)) (project_achievement_object s) None"

definition removeProjectState :: "string \<Rightarrow> unit saga_io" where
  "removeProjectState projectId =
     update_io (sg_process_update (process_remove PROCESS_MANAGER_ID (projectScope projectId)))"

definition resetAll :: "unit saga_io" where
  "resetAll = update_io (sg_process_update (process_removeAll PROCESS_MANAGER_ID))"

subsection \<open>Commands of the saga\<close>

definition emptyGoalState :: "string \<Rightarrow> goal_achievement" where
  "emptyGoalState goalId = \<lparr>ga_goalId = goalId, ga_linkedProjectIds = [], ga_completedProjectIds = [],
     ga_achieved = False, ga_archived = False, ga_achievementRequested = False, ga_version = 0\<rparr>"

definition emptyProjectState :: "string \<Rightarrow> project_achievement" where
  "emptyProjectState projectId = \<lparr>pa_projectId = projectId, pa_goalId = None, pa_status = None\<rparr>"

definition dispatch_saga :: "saga_env \<Rightarrow> saga_command \<Rightarrow> unit saga_io" where
  "dispatch_saga env cmd s = (env_answer env (sg_sent s) cmd, s\<lparr>sg_sent := sg_sent s @ [cmd]\<rparr>)"

definition allCompleted :: "goal_achievement \<Rightarrow> bool" where
  "allCompleted s \<longleftrightarrow> list_all (\<lambda>p. p \<in> set (ga_completedProjectIds s)) (ga_linkedProjectIds s)"

definition correlation_of :: "event_metadata \<Rightarrow> string" where
  "correlation_of m = (case em_correlationId m of Some c \<Rightarrow> c | None \<Rightarrow> em_eventId m)"

definition achieve_command :: "goal_achievement \<Rightarrow> event_metadata \<Rightarrow> achieve_goal_command" where
  "achieve_command s m = \<lparr>bc_actorId = em_actorId m,
     bc_idempotencyKey = ''goal-achieve:'' @ ga_goalId s @ '':'' @ em_eventId m,
     bc_correlationId = Some (correlation_of m), bc_causationId = Some (em_eventId m),
     acg_goalId = ga_goalId s, acg_timestamp = Some (em_occurredAt m), acg_knownVersion = Some (ga_version s)\<rparr>"

definition unachieve_command :: "goal_achievement \<Rightarrow> event_metadata \<Rightarrow> unachieve_goal_command" where
  "unachieve_command s m = \<lparr>bc_actorId = em_actorId m,
     bc_idempotencyKey = ''goal-unachieve:'' @ ga_goalId s @ '':'' @ show_int (ga_version s),
     bc_correlationId = Some (correlation_of m), bc_causationId = Some (em_eventId m),
     ung_goalId = ga_goalId s, ung_timestamp = Some (em_occurredAt m), ung_knownVersion = Some (ga_version s)\<rparr>"

text \<open>The guards of the two methods.\<close>

definition should_achieve :: "bool \<Rightarrow> goal_achievement \<Rightarrow> bool" where
  "should_achieve forceRetry s \<longleftrightarrow> \<not> ga_achieved s \<and> \<not> ga_archived s \<and> ga_linkedProjectIds s \<noteq> [] \<and> allCompleted s \<and>
     ga_version s > 0 \<and> (ga_achievementRequested s \<longrightarrow> forceRetry)"

definition should_unachieve :: "goal_achievement \<Rightarrow> bool" where
  "should_unachieve s \<longleftrightarrow> (ga_achieved s \<or> ga_achievementRequested s) \<and> \<not> ga_archived s \<and> ga_linkedProjectIds s \<noteq> [] \<and>
     \<not> allCompleted s \<and> ga_version s > 0"

text \<open>
  \<open>maybeAchieveGoal\<close> mutates the state it is given, so it returns it. A version conflict is
  swallowed, another error is thrown after the request has been withdrawn.
\<close>

definition maybeAchieveGoal :: "saga_env \<Rightarrow> goal_achievement \<Rightarrow> event_metadata \<Rightarrow> bool \<Rightarrow> goal_achievement saga_io" where
  "maybeAchieveGoal env state m forceRetry =
     (if \<not> should_achieve forceRetry state then return_io state
      else
        (let requested = state\<lparr>ga_achievementRequested := True\<rparr>;
             withdrawn = state\<lparr>ga_achievementRequested := False\<rparr> in
         bind_io (saveGoalState env requested) (\<lambda>_.
         \<lambda>s. case dispatch_saga env (AchieveCommand (achieve_command state m)) s of
               (Inr _, s') \<Rightarrow> (Inr requested, s')
             | (Inl e, s') \<Rightarrow>
                 bind_io (saveGoalState env withdrawn) (\<lambda>_.
                 case e of ConcurrencyError _ \<Rightarrow> return_io withdrawn | _ \<Rightarrow> throw_io e) s')))"

definition maybeUnachieveGoal :: "saga_env \<Rightarrow> goal_achievement \<Rightarrow> event_metadata \<Rightarrow> unit saga_io" where
  "maybeUnachieveGoal env state m =
     (if \<not> should_unachieve state then return_io ()
      else
        (\<lambda>s. case dispatch_saga env (UnachieveCommand (unachieve_command state m)) s of
               (Inl e, s') \<Rightarrow> (case e of ConcurrencyError _ \<Rightarrow> return_io () s' | _ \<Rightarrow> throw_io e s')
             | (Inr _, s') \<Rightarrow> (Inr (), s')))"

subsection \<open>Handlers\<close>

definition ensureGoalState :: "saga_env \<Rightarrow> string \<Rightarrow> goal_achievement saga_io" where
  "ensureGoalState env goalId =
     bind_io (getGoalState env goalId) (\<lambda>x. return_io (case x of Some s \<Rightarrow> s | None \<Rightarrow> emptyGoalState goalId))"

definition ensureProjectState :: "saga_env \<Rightarrow> string \<Rightarrow> project_achievement saga_io" where
  "ensureProjectState env projectId =
     bind_io (getProjectState env projectId) (\<lambda>x. return_io (case x of Some s \<Rightarrow> s | None \<Rightarrow> emptyProjectState projectId))"

definition see_goal :: "string \<Rightarrow> unit saga_io" where
  "see_goal goalId = update_io (sg_seenGoalIds_update (add_once goalId))"

definition addLinkedProject :: "string \<Rightarrow> goal_achievement \<Rightarrow> goal_achievement" where
  "addLinkedProject projectId = ga_linkedProjectIds_update (add_once projectId)"

definition removeLinkedProject :: "string \<Rightarrow> goal_achievement \<Rightarrow> goal_achievement" where
  "removeLinkedProject projectId s =
     s\<lparr>ga_linkedProjectIds := filter (\<lambda>i. i \<noteq> projectId) (ga_linkedProjectIds s),
       ga_completedProjectIds := filter (\<lambda>i. i \<noteq> projectId) (ga_completedProjectIds s)\<rparr>"

definition addCompletedProject :: "string \<Rightarrow> goal_achievement \<Rightarrow> goal_achievement" where
  "addCompletedProject projectId = ga_completedProjectIds_update (add_once projectId)"

definition removeCompletedProject :: "string \<Rightarrow> goal_achievement \<Rightarrow> goal_achievement" where
  "removeCompletedProject projectId = ga_completedProjectIds_update (filter (\<lambda>i. i \<noteq> projectId))"

text \<open>The reactions after a project event; replayed events cause none.\<close>

definition react :: "saga_env \<Rightarrow> bool \<Rightarrow> goal_achievement \<Rightarrow> event_metadata \<Rightarrow> unit saga_io" where
  "react env achieving goalState m =
     bind_io (read_io sg_replaying) (\<lambda>replaying.
     if replaying then return_io ()
     else
       bind_io (if achieving then maybeAchieveGoal env goalState m (ga_achievementRequested goalState)
                else return_io goalState) (\<lambda>goalState'.
       maybeUnachieveGoal env goalState' m))"

definition handleProjectCreated :: "saga_env \<Rightarrow> event_metadata \<Rightarrow> project_status \<Rightarrow> string option \<Rightarrow> unit saga_io" where
  "handleProjectCreated env m status goalId =
     (let projectId = em_aggregateId m in
      bind_io (saveProjectState env \<lparr>pa_projectId = projectId, pa_goalId = goalId, pa_status = Some status\<rparr>) (\<lambda>_.
      case goalId of
        None \<Rightarrow> return_io ()
      | Some g \<Rightarrow>
          bind_io (see_goal g) (\<lambda>_.
          bind_io (ensureGoalState env g) (\<lambda>gs.
          let linked = addLinkedProject projectId gs;
              goalState = (if status = Completed then addCompletedProject projectId linked else linked) in
          bind_io (saveGoalState env goalState) (\<lambda>_.
          react env True goalState m)))))"

definition handleProjectGoalAdded :: "saga_env \<Rightarrow> event_metadata \<Rightarrow> string \<Rightarrow> unit saga_io" where
  "handleProjectGoalAdded env m goalId =
     (let projectId = em_aggregateId m in
      bind_io (ensureProjectState env projectId) (\<lambda>ps.
      bind_io (saveProjectState env (ps\<lparr>pa_goalId := Some goalId\<rparr>)) (\<lambda>_.
      bind_io (ensureGoalState env goalId) (\<lambda>gs.
      let linked = addLinkedProject projectId gs;
          goalState = (if pa_status ps = Some Completed then addCompletedProject projectId linked else linked) in
      bind_io (saveGoalState env goalState) (\<lambda>_.
      bind_io (see_goal goalId) (\<lambda>_.
      react env True goalState m))))))"

definition handleProjectGoalRemoved :: "saga_env \<Rightarrow> event_metadata \<Rightarrow> unit saga_io" where
  "handleProjectGoalRemoved env m =
     (let projectId = em_aggregateId m in
      bind_io (ensureProjectState env projectId) (\<lambda>ps.
      case pa_goalId ps of
        None \<Rightarrow> removeProjectState projectId
      | Some goalId \<Rightarrow>
          bind_io (saveProjectState env (ps\<lparr>pa_goalId := None\<rparr>)) (\<lambda>_.
          bind_io (ensureGoalState env goalId) (\<lambda>gs.
          let goalState = removeLinkedProject projectId gs in
          bind_io (saveGoalState env goalState) (\<lambda>_.
          bind_io (see_goal goalId) (\<lambda>_.
          react env False goalState m))))))"

definition handleProjectStatusTransitioned :: "saga_env \<Rightarrow> event_metadata \<Rightarrow> project_status \<Rightarrow> unit saga_io" where
  "handleProjectStatusTransitioned env m status =
     (let projectId = em_aggregateId m in
      bind_io (ensureProjectState env projectId) (\<lambda>ps.
      bind_io (saveProjectState env (ps\<lparr>pa_status := Some status\<rparr>)) (\<lambda>_.
      case pa_goalId ps of
        None \<Rightarrow> return_io ()
      | Some goalId \<Rightarrow>
          bind_io (see_goal goalId) (\<lambda>_.
          bind_io (ensureGoalState env goalId) (\<lambda>gs.
          let linked = addLinkedProject projectId gs;
              goalState = (if status = Completed then addCompletedProject projectId linked
                           else removeCompletedProject projectId linked) in
          bind_io (saveGoalState env goalState) (\<lambda>_.
          react env True goalState m))))))"

text \<open>The handlers of goal events differ in the flags they set.\<close>

definition handle_goal_event :: "saga_env \<Rightarrow> event_metadata \<Rightarrow> (goal_achievement \<Rightarrow> goal_achievement) \<Rightarrow> unit saga_io" where
  "handle_goal_event env m flags =
     (let goalId = em_aggregateId m in
      bind_io (ensureGoalState env goalId) (\<lambda>gs.
      bind_io (saveGoalState env ((flags gs)\<lparr>ga_version :=
        (case em_version m of Some v \<Rightarrow> v | None \<Rightarrow> ga_version gs + 1)\<rparr>)) (\<lambda>_.
      see_goal goalId)))"

definition handleGoalEvent :: "saga_env \<Rightarrow> event_metadata \<Rightarrow> unit saga_io" where
  "handleGoalEvent env m = handle_goal_event env m (\<lambda>gs. gs)"

definition handleGoalAchieved :: "saga_env \<Rightarrow> event_metadata \<Rightarrow> unit saga_io" where
  "handleGoalAchieved env m =
     handle_goal_event env m (\<lambda>gs. gs\<lparr>ga_achieved := True, ga_achievementRequested := False\<rparr>)"

definition handleGoalUnachieved :: "saga_env \<Rightarrow> event_metadata \<Rightarrow> unit saga_io" where
  "handleGoalUnachieved env m =
     handle_goal_event env m (\<lambda>gs. gs\<lparr>ga_achieved := False, ga_achievementRequested := False\<rparr>)"

definition handleGoalArchived :: "saga_env \<Rightarrow> event_metadata \<Rightarrow> unit saga_io" where
  "handleGoalArchived env m =
     handle_goal_event env m (\<lambda>gs. gs\<lparr>ga_archived := True, ga_achievementRequested := False\<rparr>)"

definition saga_handleEvent :: "saga_env \<Rightarrow> domain_event \<Rightarrow> unit saga_io" where
  "saga_handleEvent env e =
     (let m = ev_meta e in
      case ev_payload e of
        ProjectEvent (ProjectCreated nm status sd td de goalId cb) \<Rightarrow> handleProjectCreated env m status goalId
      | ProjectEvent (ProjectGoalAdded goalId) \<Rightarrow> handleProjectGoalAdded env m goalId
      | ProjectEvent ProjectGoalRemoved \<Rightarrow> handleProjectGoalRemoved env m
      | ProjectEvent (ProjectStatusTransitioned status) \<Rightarrow> handleProjectStatusTransitioned env m status
      | ProjectEvent _ \<Rightarrow> return_io ()
      | GoalEvent GoalAchieved \<Rightarrow> handleGoalAchieved env m
      | GoalEvent GoalUnachieved \<Rightarrow> handleGoalUnachieved env m
      | GoalEvent GoalArchived \<Rightarrow> handleGoalArchived env m
      | GoalEvent _ \<Rightarrow> handleGoalEvent env m
      | _ \<Rightarrow> return_io ())"

subsection \<open>Bootstrap\<close>

definition systemEvent :: "saga_env \<Rightarrow> string \<Rightarrow> event_metadata" where
  "systemEvent env goalId =
     (let i = env_ids env goalId in
      \<lparr>em_aggregateId = goalId, em_occurredAt = env_now env, em_eventId = i, em_actorId = ''system'',
       em_causationId = Some i, em_correlationId = Some i, em_version = None\<rparr>)"

definition reconcile :: "saga_env \<Rightarrow> string \<Rightarrow> unit saga_io" where
  "reconcile env goalId =
     bind_io (getGoalState env goalId) (\<lambda>found.
     case found of
       None \<Rightarrow> return_io ()
     | Some state \<Rightarrow>
         bind_io (maybeAchieveGoal env state (systemEvent env goalId) True) (\<lambda>state'.
         maybeUnachieveGoal env state' (systemEvent env goalId)))"

definition saga_bootstrap :: "saga_env \<Rightarrow> (store_error + domain_event list) \<Rightarrow> unit saga_io" where
  "saga_bootstrap env seedEvents =
     bind_io (lift_io seedEvents) (\<lambda>events.
     bind_io (update_io (\<lambda>s. s\<lparr>sg_seenGoalIds := [], sg_replaying := True\<rparr>)) (\<lambda>_.
     bind_io (foreach_io (saga_handleEvent env) events) (\<lambda>_.
     bind_io (update_io (sg_replaying_update (\<lambda>_. False))) (\<lambda>_.
     bind_io (read_io sg_seenGoalIds) (\<lambda>goalIds.
     foreach_io (reconcile env) goalIds)))))"

definition saga_onRebaseRequired :: "saga_env \<Rightarrow> (store_error + domain_event list) \<Rightarrow> unit saga_io" where
  "saga_onRebaseRequired env seedEvents = bind_io resetAll (\<lambda>_. saga_bootstrap env seedEvents)"

end
