(* ===== verification/SagaFacts.thy ===== *)
theory SagaFacts
  imports Saga
begin

text \<open>
  The encrypted store of the saga behaves like two maps, and in replay the saga computes from the
  events exactly which projects are linked to each goal and which of them are completed.
\<close>

subsection \<open>The store as two maps\<close>

definition saga_key :: "saga_env \<Rightarrow> saga \<Rightarrow> bytes" where
  "saga_key env s =
     (case getAggregateKey (env_crypto env) PROCESS_MANAGER_KEY_ID (km_keyStore (sg_keys s)) of
        Inr (Some k) \<Rightarrow> k | _ \<Rightarrow> env_generated env)"

definition saga_ok :: "saga_env \<Rightarrow> saga \<Rightarrow> bool" where
  "saga_ok env s \<longleftrightarrow> aead_ok (env_crypto env) \<and> total_cipher (env_crypto env) \<and>
     ks_masterKey (km_keyStore (sg_keys s)) \<noteq> None \<and>
     \<not> isl (getAggregateKey (env_crypto env) PROCESS_MANAGER_KEY_ID (km_keyStore (sg_keys s)))"

definition row_value :: "crypto_port \<Rightarrow> bytes \<Rightarrow> string \<Rightarrow> process_manager_record \<Rightarrow> json option" where
  "row_value c key scopeKey row =
     (case decrypt c (ps_stateEncrypted row) key
             (buildProcessManagerStateAad PROCESS_MANAGER_ID scopeKey (ps_stateVersion row) (ps_lastEffectiveCursor row)) of
        Inl _ \<Rightarrow> None | Inr plaintext \<Rightarrow> json_parse (text_decode plaintext))"

definition row_json :: "saga_env \<Rightarrow> saga \<Rightarrow> string \<Rightarrow> json option" where
  "row_json env s scopeKey =
     Option.bind (process_get PROCESS_MANAGER_ID scopeKey (sg_process s)) (row_value (env_crypto env) (saga_key env s) scopeKey)"

text \<open>What a store operation leaves alone.\<close>

definition frame :: "saga \<Rightarrow> saga \<Rightarrow> bool" where
  "frame s s' \<longleftrightarrow> sg_replaying s' = sg_replaying s \<and> sg_seenGoalIds s' = sg_seenGoalIds s \<and> sg_sent s' = sg_sent s"

lemma frame_refl [simp]: "frame s s" by (simp add: frame_def)

lemma frame_trans: "frame s t \<Longrightarrow> frame t u \<Longrightarrow> frame s u" by (simp add: frame_def)

lemma process_get_put [simp]:
  "process_get i k (process_put r t) = (if i = ps_processManagerId r \<and> k = ps_scopeKey r then Some r else process_get i k t)"
  by (simp add: process_get_def process_put_def rows.get_put process_key_def)

lemma process_get_remove [simp]:
  "process_get i k (process_remove j l t) = (if i = j \<and> k = l then None else process_get i k t)"
  by (simp add: process_get_def process_remove_def rows.get_del)

lemma process_get_removeAll [simp]:
  "process_get i k (process_removeAll j t) = (if i = j then None else process_get i k t)"
  by (induction t) (auto simp: process_get_def process_removeAll_def select_row_def process_key_def)

lemma ensure_saga_key:
  assumes "saga_ok env s"
  shows "\<exists>s'. ensureProcessManagerKey env s = (Inr (saga_key env s), s') \<and> saga_ok env s' \<and> saga_key env s' = saga_key env s \<and>
     sg_process s' = sg_process s \<and> frame s s' \<and>
     getAggregateKey (env_crypto env) PROCESS_MANAGER_KEY_ID (km_keyStore (sg_keys s')) = Inr (Some (saga_key env s))"
proof -
  let ?c = "env_crypto env" and ?ks = "km_keyStore (sg_keys s)"
  obtain m where m: "ks_masterKey ?ks = Some m" using assms by (auto simp: saga_ok_def)
  have c: "aead_ok ?c" "total_cipher ?c" using assms by (simp_all add: saga_ok_def)
  obtain k where k: "getAggregateKey ?c PROCESS_MANAGER_KEY_ID ?ks = Inr k"
    using assms by (cases "getAggregateKey ?c PROCESS_MANAGER_KEY_ID ?ks") (auto simp: saga_ok_def)
  show ?thesis
  proof (cases k)
    case (Some key)
    then show ?thesis
      using k assms
      by (intro exI [of _ s]) (simp add: ensureProcessManagerKey_def on_saga_keys_def ensureKey_def km_getAggregateKey_def
          bind_io_def saga_key_def)
  next
    case None
    obtain r ks where run: "saveAggregateKey ?c PROCESS_MANAGER_KEY_ID (env_generated env) ?ks = (r, ks)" by fastforce
    note saved = getAggregateKey_save [OF c(1) m total_cipher_accepts [OF c(2)] run]
    let ?s' = "s\<lparr>sg_keys := (sg_keys s)\<lparr>km_keyStore := ks\<rparr>\<rparr>"
    have "ensureProcessManagerKey env s = (Inr (env_generated env), ?s')"
      using None k run saved(1)
      by (simp add: ensureProcessManagerKey_def on_saga_keys_def ensureKey_def km_getAggregateKey_def bind_io_def on_store_def)
    then show ?thesis
      using None k saved(2) saved(3) [of PROCESS_MANAGER_KEY_ID] c
      by (intro exI [of _ ?s']) (simp add: saga_key_def saga_ok_def frame_def)
  qed
qed

lemma row_json_same:
  "saga_key env s' = saga_key env s \<Longrightarrow> sg_process s' = sg_process s \<Longrightarrow> row_json env s' = row_json env s"
  by (simp add: row_json_def fun_eq_iff)

lemma loadState_run:
  assumes "saga_ok env s"
  shows "\<exists>s'. loadState env from scopeKey s = (Inr (map_option from (row_json env s scopeKey)), s') \<and>
     saga_ok env s' \<and> row_json env s' = row_json env s \<and> frame s s'"
proof (cases "process_get PROCESS_MANAGER_ID scopeKey (sg_process s)")
  case None
  then show ?thesis using assms by (intro exI [of _ s]) (simp add: loadState_def bind_io_def row_json_def)
next
  case (Some row)
  obtain s1 where s1: "ensureProcessManagerKey env s = (Inr (saga_key env s), s1)" "saga_ok env s1"
    "saga_key env s1 = saga_key env s" "sg_process s1 = sg_process s" "frame s s1"
    using ensure_saga_key [OF assms] by blast
  let ?aad = "buildProcessManagerStateAad PROCESS_MANAGER_ID scopeKey (ps_stateVersion row) (ps_lastEffectiveCursor row)"
  show ?thesis
  proof (cases "row_json env s scopeKey")
    case none: None
    let ?s2 = "s1\<lparr>sg_process := process_remove PROCESS_MANAGER_ID scopeKey (sg_process s1)\<rparr>"
    have key: "saga_key env ?s2 = saga_key env s" using s1(3) by (simp add: saga_key_def)
    then have "row_json env ?s2 = row_json env s"
      using none s1(4) by (auto simp: row_json_def fun_eq_iff)
    moreover have "loadState env from scopeKey s = (Inr None, ?s2)"
      using none Some s1(1)
      by (auto simp: loadState_def bind_io_def row_json_def row_value_def Let_def split: sum.splits option.splits)
    ultimately show ?thesis using none s1(2,5) by (intro exI [of _ ?s2]) (simp add: saga_ok_def frame_def)
  next
    case some: (Some j)
    have "loadState env from scopeKey s = (Inr (Some (from j)), s1)"
      using some Some s1(1) by (auto simp: loadState_def bind_io_def row_json_def row_value_def Let_def split: sum.splits)
    then show ?thesis using some s1 row_json_same [OF s1(3,4)] by (intro exI [of _ s1]) simp
  qed
qed

lemma saveState_run:
  assumes "saga_ok env s" and "wf_json j"
  shows "\<exists>s'. saveState env scopeKey j None s = (Inr (), s') \<and> saga_ok env s' \<and>
     row_json env s' = (row_json env s)(scopeKey \<mapsto> j) \<and> frame s s'"
proof -
  let ?c = "env_crypto env"
  obtain s1 where s1: "ensureProcessManagerKey env s = (Inr (saga_key env s), s1)" "saga_ok env s1"
    "saga_key env s1 = saga_key env s" "sg_process s1 = sg_process s" "frame s s1"
    using ensure_saga_key [OF assms(1)] by blast
  let ?aad = "buildProcessManagerStateAad PROCESS_MANAGER_ID scopeKey STATE_VERSION ZERO_EFFECTIVE_CURSOR"
  have c: "aead_ok ?c" "total_cipher ?c" using assms(1) by (simp_all add: saga_ok_def)
  obtain x where x: "encrypt ?c (ks_draws (km_keyStore (sg_keys s1))) (text_encode (json_stringify j)) (saga_key env s) ?aad = Inr x"
    using total_cipher_Inr [OF c(2)] by blast
  let ?km = "(sg_keys s1)\<lparr>km_keyStore := (km_keyStore (sg_keys s1))\<lparr>ks_draws := ks_draws (km_keyStore (sg_keys s1)) + 1\<rparr>\<rparr>"
  let ?row = "\<lparr>ps_processManagerId = PROCESS_MANAGER_ID, ps_scopeKey = scopeKey, ps_stateVersion = STATE_VERSION,
        ps_stateEncrypted = x, ps_lastEffectiveCursor = ZERO_EFFECTIVE_CURSOR, ps_updatedAt = env_now env\<rparr>"
  let ?s2 = "s1\<lparr>sg_keys := ?km, sg_process := process_put ?row (sg_process s1)\<rparr>"
  have run: "saveState env scopeKey j None s = (Inr (), ?s2)"
    using s1(1) x by (simp add: saveState_def bind_io_def Let_def on_saga_keys_def seal_def)
  have "getAggregateKey ?c PROCESS_MANAGER_KEY_ID (km_keyStore ?km) = getAggregateKey ?c PROCESS_MANAGER_KEY_ID (km_keyStore (sg_keys s1))"
    by simp
  then have key: "saga_key env ?s2 = saga_key env s" "saga_ok env ?s2" using s1(2,3) by (simp_all add: saga_key_def saga_ok_def)
  have "decrypt ?c x (saga_key env s) ?aad = Inr (text_encode (json_stringify j))" using decrypt_encrypt [OF c(1) x] .
  then have "row_json env ?s2 = (row_json env s)(scopeKey \<mapsto> j)"
    using key(1) s1(4) assms(2) by (auto simp: row_json_def row_value_def fun_eq_iff)
  then show ?thesis using run key(2) s1(5) by (intro exI [of _ ?s2]) (simp add: frame_def)
qed

lemma js_string_JStr [simp]: "js_string (JStr x) = x"
  by simp

lemma goal_achievement_roundtrip [simp]:
  "goal_achievement_of (goal_achievement_object x) = x" "wf_json (goal_achievement_object x)"
  by (simp_all add: goal_achievement_of_def goal_achievement_object_def json_texts_def comp_def)

lemma project_achievement_roundtrip [simp]:
  "project_achievement_of (project_achievement_object x) = x" "wf_json (project_achievement_object x)"
proof -
  have "json_text_option (Some (json_nullable y)) = y" for y
    by (cases y) (simp_all add: json_text_option_def json_nullable_def)
  moreover have "find (\<lambda>st. ProjectStatus_value st = ProjectStatus_value y) [Planned, InProgress, Completed, Canceled] = Some y" for y
    by (cases y) simp_all
  ultimately show "project_achievement_of (project_achievement_object x) = x"
    by (cases "pa_status x") (simp_all add: project_achievement_of_def project_achievement_object_def)
  show "wf_json (project_achievement_object x)"
    by (cases "pa_status x"; cases "pa_goalId x") (simp_all add: project_achievement_object_def json_nullable_def)
qed

type_synonym saga_view = "(string \<Rightarrow> goal_achievement option) \<times> (string \<Rightarrow> project_achievement option)"

definition view :: "saga_env \<Rightarrow> saga \<Rightarrow> saga_view" where
  "view env s = (\<lambda>g. map_option goal_achievement_of (row_json env s (goalScope g)),
     \<lambda>p. map_option project_achievement_of (row_json env s (projectScope p)))"

definition put_goal :: "goal_achievement \<Rightarrow> saga_view \<Rightarrow> saga_view" where
  "put_goal x v = ((fst v)(ga_goalId x \<mapsto> x), snd v)"

definition put_project :: "project_achievement \<Rightarrow> saga_view \<Rightarrow> saga_view" where
  "put_project x v = (fst v, (snd v)(pa_projectId x \<mapsto> x))"

lemma scope_simps [simp]:
  "goalScope g = goalScope h \<longleftrightarrow> g = h" "projectScope p = projectScope q \<longleftrightarrow> p = q"
  "goalScope g \<noteq> projectScope p" "projectScope p \<noteq> goalScope g"
  by (simp_all add: goalScope_def projectScope_def)

text \<open>A step of the saga that succeeds, leaves the flags, and changes the view as given.\<close>

definition steps :: "saga_env \<Rightarrow> 'a saga_io \<Rightarrow> saga \<Rightarrow> 'a \<Rightarrow> saga_view \<Rightarrow> bool" where
  "steps env m s r v \<longleftrightarrow> (\<exists>s'. m s = (Inr r, s') \<and> saga_ok env s' \<and> view env s' = v \<and> frame s s')"

lemma store_steps:
  assumes "saga_ok env s"
  shows "steps env (getGoalState env g) s (fst (view env s) g) (view env s)"
    and "steps env (getProjectState env p) s (snd (view env s) p) (view env s)"
    and "steps env (saveGoalState env x) s () (put_goal x (view env s))"
    and "steps env (saveProjectState env y) s () (put_project y (view env s))"
proof -
  show "steps env (getGoalState env g) s (fst (view env s) g) (view env s)"
    "steps env (getProjectState env p) s (snd (view env s) p) (view env s)"
    using loadState_run [OF assms, of goal_achievement_of "goalScope g"]
      loadState_run [OF assms, of project_achievement_of "projectScope p"]
    by (auto simp: steps_def getGoalState_def getProjectState_def view_def)
  show "steps env (saveGoalState env x) s () (put_goal x (view env s))"
    using saveState_run [OF assms goal_achievement_roundtrip(2), of "goalScope (ga_goalId x)" x]
    by (auto simp: steps_def saveGoalState_def view_def put_goal_def fun_eq_iff)
  show "steps env (saveProjectState env y) s () (put_project y (view env s))"
    using saveState_run [OF assms project_achievement_roundtrip(2), of "projectScope (pa_projectId y)" y]
    by (auto simp: steps_def saveProjectState_def view_def put_project_def fun_eq_iff)
qed

definition goal_in :: "saga_view \<Rightarrow> string \<Rightarrow> goal_achievement" where
  "goal_in v g = (case fst v g of Some x \<Rightarrow> x | None \<Rightarrow> emptyGoalState g)"

definition project_in :: "saga_view \<Rightarrow> string \<Rightarrow> project_achievement" where
  "project_in v p = (case snd v p of Some x \<Rightarrow> x | None \<Rightarrow> emptyProjectState p)"

lemma ensure_steps:
  assumes "saga_ok env s"
  shows "steps env (ensureGoalState env g) s (goal_in (view env s) g) (view env s)"
    and "steps env (ensureProjectState env p) s (project_in (view env s) p) (view env s)"
  using store_steps(1) [OF assms, of g] store_steps(2) [OF assms, of p]
  by (auto simp: steps_def ensureGoalState_def ensureProjectState_def goal_in_def project_in_def bind_io_def)

end
