(* ===== verification/SagaReplay.thy ===== *)
theory SagaReplay
  imports SagaFacts
begin

text \<open>
  In replay the saga sends nothing and computes from the events which projects are linked to each
  goal and which of them are completed.
\<close>

subsection \<open>Replay\<close>

text \<open>What a replayed event does to the two maps, and the goal it concerns.\<close>

definition link_step :: "string \<Rightarrow> bool \<Rightarrow> string \<Rightarrow> saga_view \<Rightarrow> saga_view" where
  "link_step p completed g v =
     put_goal ((if completed then addCompletedProject p else id) (addLinkedProject p (goal_in v g))) v"

definition goal_step_of :: "event_metadata \<Rightarrow> (goal_achievement \<Rightarrow> goal_achievement) \<Rightarrow> saga_view \<Rightarrow> saga_view" where
  "goal_step_of m flags v =
     (let gs = goal_in v (em_aggregateId m) in
      put_goal ((flags gs)\<lparr>ga_version := (case em_version m of Some n \<Rightarrow> n | None \<Rightarrow> ga_version gs + 1)\<rparr>) v)"

fun goal_flags :: "goal_payload \<Rightarrow> goal_achievement \<Rightarrow> goal_achievement" where
  "goal_flags GoalAchieved = (\<lambda>gs. gs\<lparr>ga_achieved := True, ga_achievementRequested := False\<rparr>)"
| "goal_flags GoalUnachieved = (\<lambda>gs. gs\<lparr>ga_achieved := False, ga_achievementRequested := False\<rparr>)"
| "goal_flags GoalArchived = (\<lambda>gs. gs\<lparr>ga_archived := True, ga_achievementRequested := False\<rparr>)"
| "goal_flags _ = (\<lambda>gs. gs)"

fun project_step :: "string \<Rightarrow> project_payload \<Rightarrow> saga_view \<Rightarrow> saga_view" where
  "project_step p (ProjectCreated nm status sd td de goalId cb) v =
     (let v' = put_project \<lparr>pa_projectId = p, pa_goalId = goalId, pa_status = Some status\<rparr> v in
      case goalId of None \<Rightarrow> v' | Some g \<Rightarrow> link_step p (status = Completed) g v')"
| "project_step p (ProjectGoalAdded g) v =
     link_step p (pa_status (project_in v p) = Some Completed) g (put_project ((project_in v p)\<lparr>pa_goalId := Some g\<rparr>) v)"
| "project_step p ProjectGoalRemoved v =
     (case pa_goalId (project_in v p) of
        None \<Rightarrow> (fst v, (snd v)(p := None))
      | Some g \<Rightarrow>
          (let v' = put_project ((project_in v p)\<lparr>pa_goalId := None\<rparr>) v in
           put_goal (removeLinkedProject p (goal_in v' g)) v'))"
| "project_step p (ProjectStatusTransitioned status) v =
     (let v' = put_project ((project_in v p)\<lparr>pa_status := Some status\<rparr>) v in
      case pa_goalId (project_in v p) of
        None \<Rightarrow> v'
      | Some g \<Rightarrow>
          put_goal ((if status = Completed then addCompletedProject p else removeCompletedProject p)
            (addLinkedProject p (goal_in v' g))) v')"
| "project_step p _ v = v"

definition view_step :: "domain_event \<Rightarrow> saga_view \<Rightarrow> saga_view" where
  "view_step e v =
     (case ev_payload e of
        ProjectEvent x \<Rightarrow> project_step (em_aggregateId (ev_meta e)) x v
      | GoalEvent x \<Rightarrow> goal_step_of (ev_meta e) (goal_flags x) v
      | _ \<Rightarrow> v)"

fun project_goal_of :: "string \<Rightarrow> project_payload \<Rightarrow> saga_view \<Rightarrow> string option" where
  "project_goal_of p (ProjectCreated nm status sd td de goalId cb) v = goalId"
| "project_goal_of p (ProjectGoalAdded g) v = Some g"
| "project_goal_of p ProjectGoalRemoved v = pa_goalId (project_in v p)"
| "project_goal_of p (ProjectStatusTransitioned status) v = pa_goalId (project_in v p)"
| "project_goal_of p _ v = None"

definition step_goal :: "domain_event \<Rightarrow> saga_view \<Rightarrow> string option" where
  "step_goal e v =
     (case ev_payload e of
        ProjectEvent x \<Rightarrow> project_goal_of (em_aggregateId (ev_meta e)) x v
      | GoalEvent _ \<Rightarrow> Some (em_aggregateId (ev_meta e))
      | _ \<Rightarrow> None)"

definition replayed :: "saga_env \<Rightarrow> saga \<Rightarrow> saga_view \<Rightarrow> string list \<Rightarrow> (store_error + unit) \<times> saga \<Rightarrow> bool" where
  "replayed env s v seen res \<longleftrightarrow> (\<exists>s'. res = (Inr (), s') \<and> saga_ok env s' \<and> view env s' = v \<and> sg_replaying s' \<and>
     sg_sent s' = sg_sent s \<and> sg_seenGoalIds s' = seen)"

lemma steps_bind:
  assumes "steps env m s r v"
    and "\<And>s'. saga_ok env s' \<Longrightarrow> view env s' = v \<Longrightarrow> frame s s' \<Longrightarrow> Q (f r s')"
  shows "Q (bind_io m f s)"
  using assms by (auto simp: steps_def bind_io_def)

lemma see_run: "see_goal g s = (Inr (), s\<lparr>sg_seenGoalIds := add_once g (sg_seenGoalIds s)\<rparr>)"
  by (simp add: see_goal_def)

lemma see_bind: "bind_io (see_goal g) f s = f () (s\<lparr>sg_seenGoalIds := add_once g (sg_seenGoalIds s)\<rparr>)"
  by (simp add: see_run bind_io_def)

lemma seen_simps [simp]:
  "saga_ok env (s\<lparr>sg_seenGoalIds := x\<rparr>) = saga_ok env s" "view env (s\<lparr>sg_seenGoalIds := x\<rparr>) = view env s"
  by (simp_all add: saga_ok_def view_def row_json_def saga_key_def)

lemma react_replaying: "sg_replaying s \<Longrightarrow> react env b gs m s = (Inr (), s)"
  by (simp add: react_def bind_io_def)

text \<open>The end of every handler: change the state of a goal.\<close>

lemma goal_tail_any:
  assumes "saga_ok env s1" and "sg_replaying s1" and "sg_sent s1 = sg_sent s"
    and "\<And>s'. sg_replaying s' \<Longrightarrow> k (h (goal_in (view env s1) g)) s' = (Inr (), s'\<lparr>sg_seenGoalIds := f (sg_seenGoalIds s')\<rparr>)"
  shows "replayed env s (put_goal (h (goal_in (view env s1) g)) (view env s1)) (f (sg_seenGoalIds s1))
       (bind_io (ensureGoalState env g) (\<lambda>gs. bind_io (saveGoalState env (h gs)) (\<lambda>_. k (h gs))) s1)"
proof (rule steps_bind [OF ensure_steps(1) [OF assms(1)]], rule steps_bind [OF store_steps(3)], assumption)
  fix s2 s3
  assume "view env s2 = view env s1" "frame s1 s2" "saga_ok env s3" "frame s2 s3"
    and v: "view env s3 = put_goal (h (goal_in (view env s1) g)) (view env s2)"
  then show "replayed env s (put_goal (h (goal_in (view env s1) g)) (view env s1)) (f (sg_seenGoalIds s1)) (k (h (goal_in (view env s1) g)) s3)"
    using assms(2-3) by (simp add: replayed_def assms(4) frame_def)
qed

lemma goal_tail:
  assumes "saga_ok env s1" and "sg_replaying s1" and "sg_sent s1 = sg_sent s"
  shows "replayed env s (put_goal (h (goal_in (view env s1) g)) (view env s1)) (sg_seenGoalIds s1)
       (bind_io (ensureGoalState env g) (\<lambda>gs. bind_io (saveGoalState env (h gs)) (\<lambda>_. react env b (h gs) m)) s1)"
    and "replayed env s (put_goal (h (goal_in (view env s1) g)) (view env s1)) (add_once i (sg_seenGoalIds s1))
       (bind_io (ensureGoalState env g) (\<lambda>gs. bind_io (saveGoalState env (h gs)) (\<lambda>_. bind_io (see_goal i) (\<lambda>_. react env b (h gs) m))) s1)"
    and "replayed env s (put_goal (h (goal_in (view env s1) g)) (view env s1)) (add_once i (sg_seenGoalIds s1))
       (bind_io (ensureGoalState env g) (\<lambda>gs. bind_io (saveGoalState env (h gs)) (\<lambda>_. see_goal i)) s1)"
  using goal_tail_any [OF assms, where k = "\<lambda>gs. react env b gs m" and f = "\<lambda>x. x" and h = h and g = g]
    goal_tail_any [OF assms, where k = "\<lambda>gs. bind_io (see_goal i) (\<lambda>_. react env b gs m)" and f = "add_once i" and h = h and g = g]
    goal_tail_any [OF assms, where k = "\<lambda>gs. see_goal i" and f = "add_once i" and h = h and g = g]
  by (simp_all add: react_replaying see_bind see_run)

lemma goal_event_replay:
  assumes "saga_ok env s" and "sg_replaying s"
  shows "replayed env s (goal_step_of m flags (view env s)) (add_once (em_aggregateId m) (sg_seenGoalIds s)) (handle_goal_event env m flags s)"
  using goal_tail(3) [OF assms refl, of "\<lambda>gs. (flags gs)\<lparr>ga_version := (case em_version m of Some n \<Rightarrow> n | None \<Rightarrow> ga_version gs + 1)\<rparr>"]
  by (simp add: handle_goal_event_def goal_step_of_def Let_def)

lemma project_created_replay:
  assumes "saga_ok env s" and "sg_replaying s"
  shows "replayed env s (project_step (em_aggregateId m) (ProjectCreated nm status sd td de goalId cb) (view env s))
     (case goalId of None \<Rightarrow> sg_seenGoalIds s | Some g \<Rightarrow> add_once g (sg_seenGoalIds s)) (handleProjectCreated env m status goalId s)"
  unfolding handleProjectCreated_def Let_def
proof (rule steps_bind [OF store_steps(4) [OF assms(1)]])
  let ?p = "em_aggregateId m"
  let ?x = "\<lparr>pa_projectId = ?p, pa_goalId = goalId, pa_status = Some status\<rparr>"
  let ?h = "\<lambda>gs. if status = Completed then addCompletedProject ?p (addLinkedProject ?p gs) else addLinkedProject ?p gs"
  fix s1 assume s1: "saga_ok env s1" "view env s1 = put_project ?x (view env s)" "frame s s1"
  show "replayed env s (project_step ?p (ProjectCreated nm status sd td de goalId cb) (view env s))
     (case goalId of None \<Rightarrow> sg_seenGoalIds s | Some g \<Rightarrow> add_once g (sg_seenGoalIds s))
     ((case goalId of None \<Rightarrow> return_io ()
      | Some g \<Rightarrow> bind_io (see_goal g) (\<lambda>_. bind_io (ensureGoalState env g) (\<lambda>gs.
          bind_io (saveGoalState env (?h gs)) (\<lambda>_. react env True (?h gs) m)))) s1)"
  proof (cases goalId)
    case None
    then show ?thesis using s1 assms(2) by (auto simp: replayed_def frame_def)
  next
    case (Some g)
    show ?thesis
      using goal_tail(1) [of env "s1\<lparr>sg_seenGoalIds := add_once g (sg_seenGoalIds s1)\<rparr>" s ?h g True m] s1 Some assms(2)
      by (cases "status = Completed") (simp_all add: see_bind frame_def link_step_def Let_def)
  qed
qed

lemma goal_added_replay:
  assumes "saga_ok env s" and "sg_replaying s"
  shows "replayed env s (project_step (em_aggregateId m) (ProjectGoalAdded g) (view env s)) (add_once g (sg_seenGoalIds s))
     (handleProjectGoalAdded env m g s)"
  unfolding handleProjectGoalAdded_def Let_def
proof (rule steps_bind [OF ensure_steps(2) [OF assms(1)]], rule steps_bind [OF store_steps(4)], assumption)
  let ?p = "em_aggregateId m" and ?v = "view env s"
  let ?h = "\<lambda>gs. if pa_status (project_in ?v ?p) = Some Completed then addCompletedProject ?p (addLinkedProject ?p gs) else addLinkedProject ?p gs"
  fix s1 s2 assume s: "view env s1 = ?v" "frame s s1" "saga_ok env s2" "frame s1 s2"
    "view env s2 = put_project ((project_in ?v ?p)\<lparr>pa_goalId := Some g\<rparr>) (view env s1)"
  show "replayed env s (project_step ?p (ProjectGoalAdded g) ?v) (add_once g (sg_seenGoalIds s))
     (bind_io (ensureGoalState env g) (\<lambda>gs. bind_io (saveGoalState env (?h gs)) (\<lambda>_. bind_io (see_goal g) (\<lambda>_. react env True (?h gs) m))) s2)"
    using goal_tail(2) [of env s2 s ?h g g True m] s assms(2)
    by (cases "pa_status (project_in ?v ?p) = Some Completed") (simp_all add: frame_def link_step_def)
qed

lemma goal_removed_replay:
  assumes "saga_ok env s" and "sg_replaying s"
  shows "replayed env s (project_step (em_aggregateId m) ProjectGoalRemoved (view env s))
     (case pa_goalId (project_in (view env s) (em_aggregateId m)) of None \<Rightarrow> sg_seenGoalIds s | Some g \<Rightarrow> add_once g (sg_seenGoalIds s))
     (handleProjectGoalRemoved env m s)"
  unfolding handleProjectGoalRemoved_def Let_def
proof (rule steps_bind [OF ensure_steps(2) [OF assms(1)]])
  let ?p = "em_aggregateId m" and ?v = "view env s"
  let ?ps = "project_in ?v ?p"
  fix s1 assume s1: "saga_ok env s1" "view env s1 = ?v" "frame s s1"
  show "replayed env s (project_step ?p ProjectGoalRemoved ?v)
     (case pa_goalId ?ps of None \<Rightarrow> sg_seenGoalIds s | Some g \<Rightarrow> add_once g (sg_seenGoalIds s))
     ((case pa_goalId ?ps of None \<Rightarrow> removeProjectState ?p
      | Some g \<Rightarrow> bind_io (saveProjectState env (?ps\<lparr>pa_goalId := None\<rparr>)) (\<lambda>_. bind_io (ensureGoalState env g) (\<lambda>gs.
          bind_io (saveGoalState env (removeLinkedProject ?p gs)) (\<lambda>_. bind_io (see_goal g) (\<lambda>_. react env False (removeLinkedProject ?p gs) m))))) s1)"
  proof (cases "pa_goalId ?ps")
    case None
    let ?s2 = "s1\<lparr>sg_process := process_remove PROCESS_MANAGER_ID (projectScope ?p) (sg_process s1)\<rparr>"
    have "row_json env ?s2 = (row_json env s1)(projectScope ?p := None)"
      by (auto simp: row_json_def saga_key_def fun_eq_iff)
    then have "view env ?s2 = (fst ?v, (snd ?v)(?p := None))" using s1(2) by (auto simp: view_def fun_eq_iff)
    moreover have "removeProjectState ?p s1 = (Inr (), ?s2)" by (simp add: removeProjectState_def)
    ultimately show ?thesis using None s1 assms(2) by (auto simp: replayed_def frame_def saga_ok_def)
  next
    case (Some g)
    show ?thesis
      unfolding Some option.case
    proof (rule steps_bind [OF store_steps(4) [OF s1(1)]])
      fix s2 assume s2: "saga_ok env s2" "view env s2 = put_project (?ps\<lparr>pa_goalId := None\<rparr>) (view env s1)" "frame s1 s2"
      show "replayed env s (project_step ?p ProjectGoalRemoved ?v) (add_once g (sg_seenGoalIds s))
         (bind_io (ensureGoalState env g) (\<lambda>gs. bind_io (saveGoalState env (removeLinkedProject ?p gs))
           (\<lambda>_. bind_io (see_goal g) (\<lambda>_. react env False (removeLinkedProject ?p gs) m))) s2)"
        using goal_tail(2) [of env s2 s "removeLinkedProject ?p" g g False m] s1 s2 Some assms(2) by (simp add: frame_def Let_def)
    qed
  qed
qed

lemma status_replay:
  assumes "saga_ok env s" and "sg_replaying s"
  shows "replayed env s (project_step (em_aggregateId m) (ProjectStatusTransitioned status) (view env s))
     (case pa_goalId (project_in (view env s) (em_aggregateId m)) of None \<Rightarrow> sg_seenGoalIds s | Some g \<Rightarrow> add_once g (sg_seenGoalIds s))
     (handleProjectStatusTransitioned env m status s)"
  unfolding handleProjectStatusTransitioned_def Let_def
proof (rule steps_bind [OF ensure_steps(2) [OF assms(1)]], rule steps_bind [OF store_steps(4)], assumption)
  let ?p = "em_aggregateId m" and ?v = "view env s"
  let ?ps = "project_in ?v ?p"
  let ?h = "\<lambda>gs. if status = Completed then addCompletedProject ?p (addLinkedProject ?p gs) else removeCompletedProject ?p (addLinkedProject ?p gs)"
  fix s1 s2 assume s: "view env s1 = ?v" "frame s s1" "saga_ok env s2" "frame s1 s2"
    "view env s2 = put_project (?ps\<lparr>pa_status := Some status\<rparr>) (view env s1)"
  show "replayed env s (project_step ?p (ProjectStatusTransitioned status) ?v)
     (case pa_goalId ?ps of None \<Rightarrow> sg_seenGoalIds s | Some g \<Rightarrow> add_once g (sg_seenGoalIds s))
     ((case pa_goalId ?ps of None \<Rightarrow> return_io ()
      | Some g \<Rightarrow> bind_io (see_goal g) (\<lambda>_. bind_io (ensureGoalState env g) (\<lambda>gs.
          bind_io (saveGoalState env (?h gs)) (\<lambda>_. react env True (?h gs) m)))) s2)"
  proof (cases "pa_goalId ?ps")
    case None
    then show ?thesis using s assms(2) by (auto simp: replayed_def frame_def Let_def)
  next
    case (Some g)
    then show ?thesis
      using goal_tail(1) [of env "s2\<lparr>sg_seenGoalIds := add_once g (sg_seenGoalIds s2)\<rparr>" s ?h g True m] s assms(2)
      by (cases "status = Completed") (simp_all add: see_bind frame_def Let_def)
  qed
qed

lemma handleEvent_replay:
  assumes "saga_ok env s" and "sg_replaying s"
  shows "replayed env s (view_step e (view env s))
     (case step_goal e (view env s) of None \<Rightarrow> sg_seenGoalIds s | Some g \<Rightarrow> add_once g (sg_seenGoalIds s)) (saga_handleEvent env e s)"
proof (cases "ev_payload e")
  case (GoalEvent x)
  then show ?thesis
    using goal_event_replay [OF assms, of "ev_meta e" "goal_flags x"]
    by (cases x) (simp_all add: saga_handleEvent_def view_step_def step_goal_def handleGoalEvent_def handleGoalAchieved_def
        handleGoalUnachieved_def handleGoalArchived_def Let_def fun_eq_iff cong: if_cong)
next
  case (ProjectEvent x)
  then show ?thesis
    using assms project_created_replay [OF assms] goal_added_replay [OF assms] goal_removed_replay [OF assms] status_replay [OF assms]
    by (cases x) (auto simp: saga_handleEvent_def view_step_def step_goal_def Let_def replayed_def)
qed (use assms in \<open>auto simp: saga_handleEvent_def view_step_def step_goal_def replayed_def\<close>)

end
