(* ===== verification/SagaProperties.thy ===== *)
theory SagaProperties
  imports SagaReplay
begin

text \<open>
  The saga against its specification: what the event log says about links, completion and
  achievement, and which commands a rebuild sends.
\<close>

subsection \<open>What the event log says\<close>

type_synonym project_track = "string \<Rightarrow> string option \<times> project_status option"
type_synonym goal_track = "string \<Rightarrow> bool \<times> bool \<times> int"

fun track_project :: "project_payload \<Rightarrow> string option \<times> project_status option \<Rightarrow> string option \<times> project_status option" where
  "track_project (ProjectCreated nm status sd td de goalId cb) _ = (goalId, Some status)"
| "track_project (ProjectGoalAdded g) (_, status) = (Some g, status)"
| "track_project ProjectGoalRemoved (_, status) = (None, status)"
| "track_project (ProjectStatusTransitioned status) (link, _) = (link, Some status)"
| "track_project _ x = x"

text \<open>A project is linked only when it has no goal, and unlinked only when it has one (\<open>Project.addGoal\<close>, \<open>removeGoal\<close>).\<close>

fun link_ok :: "project_payload \<Rightarrow> string option \<Rightarrow> bool" where
  "link_ok (ProjectCreated nm status sd td de goalId cb) link \<longleftrightarrow> link = None"
| "link_ok (ProjectGoalAdded g) link \<longleftrightarrow> link = None"
| "link_ok ProjectGoalRemoved link \<longleftrightarrow> link \<noteq> None"
| "link_ok _ _ \<longleftrightarrow> True"

fun track_goal :: "goal_payload \<Rightarrow> int option \<Rightarrow> bool \<times> bool \<times> int \<Rightarrow> bool \<times> bool \<times> int" where
  "track_goal x v (achieved, archived, n) =
     (if x = GoalAchieved then True else if x = GoalUnachieved then False else achieved,
      archived \<or> x = GoalArchived, case v of Some k \<Rightarrow> k | None \<Rightarrow> n + 1)"

definition project_track_step :: "domain_event \<Rightarrow> project_track \<Rightarrow> project_track" where
  "project_track_step e t =
     (case ev_payload e of
        ProjectEvent x \<Rightarrow> t(em_aggregateId (ev_meta e) := track_project x (t (em_aggregateId (ev_meta e))))
      | _ \<Rightarrow> t)"

definition goal_track_step :: "domain_event \<Rightarrow> goal_track \<Rightarrow> goal_track" where
  "goal_track_step e f =
     (case ev_payload e of
        GoalEvent x \<Rightarrow> f(em_aggregateId (ev_meta e) := track_goal x (em_version (ev_meta e)) (f (em_aggregateId (ev_meta e))))
      | _ \<Rightarrow> f)"

definition event_link_ok :: "domain_event \<Rightarrow> project_track \<Rightarrow> bool" where
  "event_link_ok e t =
     (case ev_payload e of ProjectEvent x \<Rightarrow> link_ok x (fst (t (em_aggregateId (ev_meta e)))) | _ \<Rightarrow> True)"

fun links_ok :: "project_track \<Rightarrow> domain_event list \<Rightarrow> bool" where
  "links_ok t [] \<longleftrightarrow> True"
| "links_ok t (e # es) \<longleftrightarrow> event_link_ok e t \<and> links_ok (project_track_step e t) es"

definition projects_of :: "domain_event list \<Rightarrow> project_track" where
  "projects_of es = fold project_track_step es (\<lambda>_. (None, None))"

definition goals_of :: "domain_event list \<Rightarrow> goal_track" where
  "goals_of es = fold goal_track_step es (\<lambda>_. (False, False, 0))"

definition history_ok :: "domain_event list \<Rightarrow> bool" where
  "history_ok es \<longleftrightarrow> links_ok (\<lambda>_. (None, None)) es"

definition linked_to :: "project_track \<Rightarrow> string \<Rightarrow> string set" where
  "linked_to t g = {p. fst (t p) = Some g}"

definition all_done :: "project_track \<Rightarrow> string \<Rightarrow> bool" where
  "all_done t g \<longleftrightarrow> (\<forall>p \<in> linked_to t g. snd (t p) = Some Completed)"

definition achieve_due :: "domain_event list \<Rightarrow> string \<Rightarrow> bool" where
  "achieve_due es g \<longleftrightarrow>
     (case goals_of es g of (achieved, archived, n) \<Rightarrow>
        \<not> achieved \<and> \<not> archived \<and> n > 0 \<and> linked_to (projects_of es) g \<noteq> {} \<and> all_done (projects_of es) g)"

definition unachieve_due :: "domain_event list \<Rightarrow> string \<Rightarrow> bool" where
  "unachieve_due es g \<longleftrightarrow>
     (case goals_of es g of (achieved, archived, n) \<Rightarrow> achieved \<and> \<not> archived \<and> n > 0 \<and> \<not> all_done (projects_of es) g)"

definition goal_version :: "domain_event list \<Rightarrow> string \<Rightarrow> int" where
  "goal_version es g = snd (snd (goals_of es g))"

subsection \<open>The replayed view agrees with the log\<close>

definition goal_agrees :: "project_track \<Rightarrow> goal_track \<Rightarrow> string \<Rightarrow> goal_achievement \<Rightarrow> bool" where
  "goal_agrees t f g x \<longleftrightarrow> ga_goalId x = g \<and> set (ga_linkedProjectIds x) = linked_to t g \<and>
     set (ga_completedProjectIds x) = {p. t p = (Some g, Some Completed)} \<and>
     (ga_achieved x, ga_archived x, ga_version x) = f g \<and> \<not> ga_achievementRequested x"

definition project_agrees :: "project_track \<Rightarrow> string \<Rightarrow> project_achievement \<Rightarrow> bool" where
  "project_agrees t p x \<longleftrightarrow> pa_projectId x = p \<and> (pa_goalId x, pa_status x) = t p"

definition agrees :: "saga_view \<Rightarrow> project_track \<Rightarrow> goal_track \<Rightarrow> bool" where
  "agrees v t f \<longleftrightarrow> (\<forall>p. project_agrees t p (project_in v p)) \<and> (\<forall>g. goal_agrees t f g (goal_in v g))"

lemma put_simps [simp]:
  "goal_in (put_goal x v) g = (if g = ga_goalId x then x else goal_in v g)"
  "project_in (put_goal x v) p = project_in v p"
  "goal_in (put_project y v) g = goal_in v g"
  "project_in (put_project y v) p = (if p = pa_projectId y then y else project_in v p)"
  by (simp_all add: goal_in_def project_in_def put_goal_def put_project_def)

lemmas link_updates = addLinkedProject_def removeLinkedProject_def addCompletedProject_def removeCompletedProject_def

lemma agrees_goal_event:
  assumes "agrees v t f" and "ev_payload e = GoalEvent x"
  shows "agrees (view_step e v) (project_track_step e t) (goal_track_step e f)"
proof -
  have "goal_agrees t f (em_aggregateId (ev_meta e)) (goal_in v (em_aggregateId (ev_meta e)))" using assms(1) by (simp add: agrees_def)
  then have "goal_agrees t (goal_track_step e f) (em_aggregateId (ev_meta e)) (goal_in (view_step e v) (em_aggregateId (ev_meta e)))"
    using assms(2)
    by (cases x; cases "f (em_aggregateId (ev_meta e))")
       (auto simp: goal_agrees_def view_step_def goal_track_step_def goal_step_of_def Let_def split: option.splits)
  then show ?thesis
    using assms
    by (cases x) (auto simp: agrees_def goal_agrees_def project_agrees_def view_step_def goal_track_step_def project_track_step_def
        goal_step_of_def Let_def)
qed

lemma agrees_project_step:
  assumes "agrees v t f" and "link_ok x (fst (t p))"
  shows "agrees (project_step p x v) (t(p := track_project x (t p))) f"
proof -
  obtain l st where tp: "t p = (l, st)" by fastforce
  have p: "pa_projectId (project_in v p) = p" "pa_goalId (project_in v p) = l" "pa_status (project_in v p) = st"
    using assms(1) tp unfolding agrees_def project_agrees_def by (metis prod.inject)+
  have q: "project_agrees t q (project_in v q)" for q using assms(1) by (simp add: agrees_def)
  have g: "goal_agrees t f g (goal_in v g)" for g using assms(1) by (simp add: agrees_def)
  have ids: "ga_goalId (goal_in v g) = g" for g using g [of g] by (simp add: goal_agrees_def)
  have P: "project_agrees (t(p := track_project x (t p))) q (project_in (project_step p x v) q)" for q
    using assms(2) p tp q [of q]
    by (cases x) (auto simp: project_agrees_def link_step_def Let_def split: option.split)
  have G: "goal_agrees (t(p := track_project x (t p))) f h (goal_in (project_step p x v) h)" for h
    using assms(2) p tp g [of h]
    by (cases x) (auto simp: goal_agrees_def link_step_def Let_def ids linked_to_def link_updates split: option.split)
  show ?thesis using P G by (simp add: agrees_def)
qed

lemma agrees_step:
  assumes "agrees v t f" and "event_link_ok e t"
  shows "agrees (view_step e v) (project_track_step e t) (goal_track_step e f)"
proof (cases "ev_payload e")
  case (GoalEvent x)
  then show ?thesis using agrees_goal_event assms by blast
next
  case (ProjectEvent x)
  then show ?thesis
    using agrees_project_step [OF assms(1), of x] assms(2)
    by (simp add: event_link_ok_def view_step_def project_track_step_def goal_track_step_def)
qed (use assms in \<open>simp_all add: view_step_def project_track_step_def goal_track_step_def\<close>)

lemma view_step_unseen:
  "fst v g = None \<Longrightarrow> step_goal e v \<noteq> Some g \<Longrightarrow> agrees v t f \<Longrightarrow> fst (view_step e v) g = None"
proof (cases "ev_payload e")
  case (ProjectEvent x)
  assume a: "fst v g = None" "step_goal e v \<noteq> Some g" "agrees v t f"
  have ids: "ga_goalId (goal_in w h) = h" if "fst w = fst v" for w h
    using a(3) that by (simp add: agrees_def goal_agrees_def goal_in_def)
  show ?thesis
    using a(1,2) ProjectEvent
    by (cases x) (auto simp: view_step_def step_goal_def link_step_def Let_def put_goal_def put_project_def link_updates ids
        split: option.splits)
next
  case (GoalEvent x)
  assume a: "fst v g = None" "step_goal e v \<noteq> Some g" "agrees v t f"
  have ids: "ga_goalId (goal_in v h) = h" for h using a(3) by (simp add: agrees_def goal_agrees_def)
  show ?thesis
    using a(1,2) GoalEvent
    by (cases x) (auto simp: view_step_def step_goal_def goal_step_of_def Let_def put_goal_def ids)
qed (simp_all add: view_step_def)

definition seen_ok :: "saga_env \<Rightarrow> saga \<Rightarrow> bool" where
  "seen_ok env s \<longleftrightarrow> distinct (sg_seenGoalIds s) \<and> (\<forall>g. g \<notin> set (sg_seenGoalIds s) \<longrightarrow> fst (view env s) g = None)"

lemma replay_log:
  assumes "saga_ok env s" and "sg_replaying s" and "agrees (view env s) t f" and "links_ok t es" and "seen_ok env s"
  shows "\<exists>s'. foreach_io (saga_handleEvent env) es s = (Inr (), s') \<and> saga_ok env s' \<and>
     agrees (view env s') (fold project_track_step es t) (fold goal_track_step es f) \<and> sg_sent s' = sg_sent s \<and> seen_ok env s'"
  using assms
proof (induction es arbitrary: s t f)
  case Nil
  then show ?case by simp
next
  case (Cons e es)
  obtain s1 where s1: "saga_handleEvent env e s = (Inr (), s1)" "saga_ok env s1" "view env s1 = view_step e (view env s)"
    "sg_replaying s1" "sg_sent s1 = sg_sent s"
    and seen: "sg_seenGoalIds s1 = (case step_goal e (view env s) of None \<Rightarrow> sg_seenGoalIds s | Some g \<Rightarrow> add_once g (sg_seenGoalIds s))"
    using handleEvent_replay [OF Cons.prems(1,2), of e] by (auto simp: replayed_def)
  have ok: "event_link_ok e t" "links_ok (project_track_step e t) es" using Cons.prems(4) by simp_all
  have "seen_ok env s1"
    using Cons.prems(5) seen s1(3) view_step_unseen [OF _ _ Cons.prems(3), of _ e]
    by (auto simp: seen_ok_def split: option.splits)
  then show ?case
    using Cons.IH [OF s1(2,4) _ ok(2), of "goal_track_step e f"] agrees_step [OF Cons.prems(3) ok(1)] s1
    by (auto simp: bind_io_def)
qed

subsection \<open>Reconciliation\<close>

definition decide :: "saga_env \<Rightarrow> saga_view \<Rightarrow> string \<Rightarrow> saga_command list" where
  "decide env v g =
     (if should_achieve True (goal_in v g) then [AchieveCommand (achieve_command (goal_in v g) (systemEvent env g))]
      else if should_unachieve (goal_in v g) then [UnachieveCommand (unachieve_command (goal_in v g) (systemEvent env g))]
      else [])"

text \<open>The bus answers every command with success or with a version conflict.\<close>

definition answers :: "saga_env \<Rightarrow> bool" where
  "answers env \<longleftrightarrow> (\<forall>sent cmd. (case env_answer env sent cmd of Inr _ \<Rightarrow> True | Inl (ConcurrencyError _) \<Rightarrow> True | Inl _ \<Rightarrow> False))"

lemma answers_cases:
  assumes "answers env"
  obtains "env_answer env sent cmd = Inr ()" | m where "env_answer env sent cmd = Inl (ConcurrencyError m)"
proof (cases "env_answer env sent cmd")
  case (Inl e)
  have "case env_answer env sent cmd of Inr _ \<Rightarrow> True | Inl (ConcurrencyError _) \<Rightarrow> True | Inl _ \<Rightarrow> False"
    using assms by (simp only: answers_def)
  then show ?thesis using Inl that(2) by (cases e) simp_all
qed (use that(1) in simp)

lemma sent_simps [simp]:
  "saga_ok env (s\<lparr>sg_sent := x\<rparr>) = saga_ok env s" "view env (s\<lparr>sg_sent := x\<rparr>) = view env s"
  by (simp_all add: saga_ok_def view_def row_json_def saga_key_def)

definition only_goal :: "string \<Rightarrow> saga_view \<Rightarrow> saga_view \<Rightarrow> bool" where
  "only_goal g v w \<longleftrightarrow> (\<forall>h. h \<noteq> g \<longrightarrow> goal_in w h = goal_in v h)"

lemma maybeAchieveGoal_run:
  assumes "saga_ok env s" and "answers env" and "ga_goalId x = g" and "should_achieve b x"
  shows "\<exists>s' r. maybeAchieveGoal env x m b s = (Inr (x\<lparr>ga_achievementRequested := r\<rparr>), s') \<and> saga_ok env s' \<and>
     only_goal g (view env s) (view env s') \<and> sg_sent s' = sg_sent s @ [AchieveCommand (achieve_command x m)]"
proof -
  let ?x = "\<lambda>r. x\<lparr>ga_achievementRequested := r\<rparr>" and ?cmd = "AchieveCommand (achieve_command x m)"
  obtain s1 where s1: "saveGoalState env (?x True) s = (Inr (), s1)" "saga_ok env s1"
    "view env s1 = put_goal (?x True) (view env s)" "frame s s1"
    using store_steps(3) [OF assms(1), of "?x True"] by (auto simp: steps_def)
  let ?s2 = "s1\<lparr>sg_sent := sg_sent s1 @ [?cmd]\<rparr>"
  obtain s3 where s3: "saveGoalState env (?x False) ?s2 = (Inr (), s3)" "saga_ok env s3"
    "view env s3 = put_goal (?x False) (view env s1)" "frame ?s2 s3"
    using store_steps(3) [of env ?s2 "?x False"] s1(2) by (auto simp: steps_def)
  from assms(2) show ?thesis
  proof (cases rule: answers_cases [of env "sg_sent s1" ?cmd])
    case 1
    then have "maybeAchieveGoal env x m b s = (Inr (?x True), ?s2)"
      using assms(4) s1(1) by (simp add: maybeAchieveGoal_def Let_def bind_io_def dispatch_saga_def)
    then show ?thesis using s1 assms(3) by (intro exI [of _ ?s2] exI [of _ True]) (simp add: only_goal_def frame_def)
  next
    case (2 e)
    then have "maybeAchieveGoal env x m b s = (Inr (?x False), s3)"
      using assms(4) s1(1) s3(1) by (simp add: maybeAchieveGoal_def Let_def bind_io_def dispatch_saga_def)
    then show ?thesis
      using s1 s3 assms(3) by (intro exI [of _ s3] exI [of _ False]) (simp add: only_goal_def frame_def)
  qed
qed

lemma maybeUnachieveGoal_run:
  assumes "answers env" and "should_unachieve x"
  shows "maybeUnachieveGoal env x m s = (Inr (), s\<lparr>sg_sent := sg_sent s @ [UnachieveCommand (unachieve_command x m)]\<rparr>)"
  using assms(1)
  by (cases rule: answers_cases [of env "sg_sent s" "UnachieveCommand (unachieve_command x m)"])
     (use assms(2) in \<open>simp_all add: maybeUnachieveGoal_def dispatch_saga_def\<close>)

lemma reconcile_run:
  assumes "saga_ok env s" and "answers env" and "ga_goalId (goal_in (view env s) g) = g"
  shows "\<exists>s'. reconcile env g s = (Inr (), s') \<and> saga_ok env s' \<and> only_goal g (view env s) (view env s') \<and>
     sg_sent s' = sg_sent s @ decide env (view env s) g"
proof -
  let ?x = "goal_in (view env s) g"
  obtain s1 where s1: "getGoalState env g s = (Inr (fst (view env s) g), s1)" "saga_ok env s1" "view env s1 = view env s" "frame s s1"
    using store_steps(1) [OF assms(1), of g] by (auto simp: steps_def)
  consider (none) "fst (view env s) g = None" | (achieve) "fst (view env s) g = Some ?x" "should_achieve True ?x"
    | (unachieve) "fst (view env s) g = Some ?x" "\<not> should_achieve True ?x" "should_unachieve ?x"
    | (idle) "fst (view env s) g = Some ?x" "\<not> should_achieve True ?x" "\<not> should_unachieve ?x"
    by (cases "fst (view env s) g") (auto simp: goal_in_def)
  then show ?thesis
  proof cases
    case none
    then have "decide env (view env s) g = []"
      by (simp add: decide_def goal_in_def should_achieve_def should_unachieve_def emptyGoalState_def)
    then show ?thesis using none s1 by (intro exI [of _ s1]) (simp add: reconcile_def bind_io_def only_goal_def frame_def)
  next
    case achieve
    obtain s2 r where s2: "maybeAchieveGoal env ?x (systemEvent env g) True s1 = (Inr (?x\<lparr>ga_achievementRequested := r\<rparr>), s2)"
      "saga_ok env s2" "only_goal g (view env s1) (view env s2)"
      "sg_sent s2 = sg_sent s1 @ [AchieveCommand (achieve_command ?x (systemEvent env g))]"
      using maybeAchieveGoal_run [OF s1(2) assms(2,3) achieve(2)] by blast
    moreover have "\<not> should_unachieve (?x\<lparr>ga_achievementRequested := r\<rparr>)"
      using achieve(2) by (simp add: should_achieve_def should_unachieve_def allCompleted_def)
    ultimately show ?thesis
      using achieve s1 by (intro exI [of _ s2]) (simp add: reconcile_def bind_io_def maybeUnachieveGoal_def decide_def frame_def)
  next
    case unachieve
    then show ?thesis
      using s1 by (auto simp: reconcile_def bind_io_def maybeAchieveGoal_def maybeUnachieveGoal_run [OF assms(2)] decide_def
          only_goal_def frame_def)
  next
    case idle
    then show ?thesis
      using s1 by (auto simp: reconcile_def bind_io_def maybeAchieveGoal_def maybeUnachieveGoal_def decide_def only_goal_def frame_def)
  qed
qed

lemma reconcile_all:
  assumes "saga_ok env s" and "answers env" and "\<And>g. ga_goalId (goal_in (view env s) g) = g" and "distinct gs"
  shows "\<exists>s'. foreach_io (reconcile env) gs s = (Inr (), s') \<and>
     sg_sent s' = sg_sent s @ concat (map (decide env (view env s)) gs)"
proof -
  have "\<exists>s'. foreach_io (reconcile env) gs s = (Inr (), s') \<and> sg_sent s' = sg_sent s @ concat (map (decide env v) gs)"
    if "saga_ok env s" "\<forall>g \<in> set gs. goal_in (view env s) g = goal_in v g" "\<forall>g. ga_goalId (goal_in v g) = g" "distinct gs" for s v
    using that
  proof (induction gs arbitrary: s)
    case Nil
    then show ?case by simp
  next
    case (Cons g gs)
    have eq: "goal_in (view env s) g = goal_in v g" using Cons.prems(2) by simp
    then obtain s1 where s1: "reconcile env g s = (Inr (), s1)" "saga_ok env s1" "only_goal g (view env s) (view env s1)"
      "sg_sent s1 = sg_sent s @ decide env v g"
      using reconcile_run [OF Cons.prems(1) assms(2), of g] Cons.prems(3) by (auto simp: decide_def)
    have "\<forall>h \<in> set gs. goal_in (view env s1) h = goal_in v h"
      using s1(3) Cons.prems(2,4) by (auto simp: only_goal_def)
    from Cons.IH [OF s1(2) this Cons.prems(3)] Cons.prems(4) s1 show ?case by (auto simp: bind_io_def)
  qed
  from this [OF assms(1), of "view env s"] assms(3,4) show ?thesis by simp
qed

subsection \<open>A rebuild\<close>

text \<open>The goal a command is for, whether it is an achievement, and the version it expects.\<close>

fun command_facts :: "saga_command \<Rightarrow> bool \<times> string \<times> int option" where
  "command_facts (AchieveCommand c) = (True, acg_goalId c, acg_knownVersion c)"
| "command_facts (UnachieveCommand c) = (False, ung_goalId c, ung_knownVersion c)"

lemma decide_facts:
  assumes "agrees v (projects_of es) (goals_of es)"
  shows "map command_facts (decide env v g) =
     (if achieve_due es g then [(True, g, Some (goal_version es g))]
      else if unachieve_due es g then [(False, g, Some (goal_version es g))] else [])"
proof -
  let ?x = "goal_in v g" and ?t = "projects_of es"
  have x: "goal_agrees ?t (goals_of es) g ?x" using assms by (simp add: agrees_def)
  then have dn: "allCompleted ?x \<longleftrightarrow> all_done ?t g" "ga_linkedProjectIds ?x = [] \<longleftrightarrow> linked_to ?t g = {}"
    by (auto simp: goal_agrees_def allCompleted_def all_done_def list_all_iff linked_to_def prod_eq_iff simp flip: set_empty)
  moreover have "all_done ?t g" if "linked_to ?t g = {}" using that by (simp add: all_done_def)
  ultimately show ?thesis
    using x
    by (cases "goals_of es g")
       (auto simp: decide_def should_achieve_def should_unachieve_def achieve_due_def unachieve_due_def goal_version_def
         achieve_command_def unachieve_command_def goal_agrees_def)
qed

lemma rebuild_run:
  assumes "saga_ok env s" and "answers env" and "history_ok es"
  shows "\<exists>s' v gs. saga_onRebaseRequired env (Inr es) s = (Inr (), s') \<and> sg_sent s' = sg_sent s @ concat (map (decide env v) gs) \<and>
     agrees v (projects_of es) (goals_of es) \<and> distinct gs \<and> (\<forall>g. g \<notin> set gs \<longrightarrow> fst v g = None)"
proof -
  let ?s0 = "s\<lparr>sg_process := process_removeAll PROCESS_MANAGER_ID (sg_process s), sg_seenGoalIds := [], sg_replaying := True\<rparr>"
  have "row_json env ?s0 = (\<lambda>_. None)" by (simp add: row_json_def fun_eq_iff)
  then have v0: "view env ?s0 = (\<lambda>_. None, \<lambda>_. None)" by (simp add: view_def fun_eq_iff)
  have ok: "saga_ok env ?s0" using assms(1) by (simp add: saga_ok_def)
  have "agrees (view env ?s0) (\<lambda>_. (None, None)) (\<lambda>_. (False, False, 0))"
    by (simp add: v0 agrees_def project_agrees_def goal_agrees_def project_in_def goal_in_def emptyGoalState_def
        emptyProjectState_def linked_to_def)
  then obtain s1 where s1: "foreach_io (saga_handleEvent env) es ?s0 = (Inr (), s1)" "saga_ok env s1"
    "agrees (view env s1) (projects_of es) (goals_of es)" "sg_sent s1 = sg_sent s" "seen_ok env s1"
    using replay_log [OF ok, of "\<lambda>_. (None, None)" "\<lambda>_. (False, False, 0)" es] assms(3)
    by (auto simp: history_ok_def projects_of_def goals_of_def seen_ok_def v0)
  let ?s2 = "s1\<lparr>sg_replaying := False\<rparr>"
  have s2: "saga_ok env ?s2" "view env ?s2 = view env s1" using s1(2) by (simp_all add: saga_ok_def view_def row_json_def saga_key_def)
  obtain s3 where s3: "foreach_io (reconcile env) (sg_seenGoalIds s1) ?s2 = (Inr (), s3)"
    "sg_sent s3 = sg_sent s @ concat (map (decide env (view env s1)) (sg_seenGoalIds s1))"
    using reconcile_all [OF s2(1) assms(2), of "sg_seenGoalIds s1"] s1(3,4,5) s2(2)
    by (auto simp: agrees_def goal_agrees_def seen_ok_def)
  have "resetAll s = (Inr (), s\<lparr>sg_process := process_removeAll PROCESS_MANAGER_ID (sg_process s)\<rparr>)" by (simp add: resetAll_def)
  then have "saga_onRebaseRequired env (Inr es) s = (Inr (), s3)"
    using s1(1) s3(1) by (simp add: saga_onRebaseRequired_def saga_bootstrap_def bind_io_def)
  then show ?thesis
    using s1(3,5) s3(2)
    by (intro exI [of _ s3] exI [of _ "view env s1"] exI [of _ "sg_seenGoalIds s1"]) (simp add: seen_ok_def)
qed

text \<open>
  C28: a rebuild of the goal achievement saga (onRebaseRequired) over a log in which projects are
  linked and unlinked as the aggregate allows returns, and asks exactly once for every decision the
  log calls for: an achievement of each goal that is neither achieved nor archived and whose linked
  projects, at least one, are all completed; a withdrawal for each achieved goal with a linked
  project that is not completed; each with the goal's version as the expected one, whatever the
  encrypted store held before and whichever of the commands meets a version conflict.
\<close>

theorem saga_reconciles:
  assumes "saga_ok env s" and "answers env" and "history_ok es"
  shows "\<exists>s' cmds. saga_onRebaseRequired env (Inr es) s = (Inr (), s') \<and> sg_sent s' = sg_sent s @ cmds \<and>
     distinct (map command_facts cmds) \<and>
     set (map command_facts cmds) =
       {(True, g, Some (goal_version es g)) | g. achieve_due es g} \<union> {(False, g, Some (goal_version es g)) | g. unachieve_due es g}"
proof -
  obtain s' v gs where r: "saga_onRebaseRequired env (Inr es) s = (Inr (), s')"
    "sg_sent s' = sg_sent s @ concat (map (decide env v) gs)" "agrees v (projects_of es) (goals_of es)" "distinct gs"
    "\<forall>g. g \<notin> set gs \<longrightarrow> fst v g = None"
    using rebuild_run [OF assms] by blast
  let ?f = "\<lambda>g. if achieve_due es g then [(True, g, Some (goal_version es g))]
      else if unachieve_due es g then [(False, g, Some (goal_version es g))] else []"
  have facts: "map command_facts (concat (map (decide env v) gs)) = concat (map ?f gs)"
    by (simp add: map_concat comp_def decide_facts [OF r(3)])
  have "g \<in> set gs" if "achieve_due es g \<or> unachieve_due es g" for g
  proof (rule ccontr)
    assume "g \<notin> set gs"
    then have "decide env v g = []"
      using r(5) by (simp add: decide_def goal_in_def should_achieve_def should_unachieve_def emptyGoalState_def)
    then show False using decide_facts [OF r(3), of env g] that by (simp split: if_splits)
  qed
  moreover have "\<not> (achieve_due es g \<and> unachieve_due es g)" for g
    by (cases "goals_of es g") (simp add: achieve_due_def unachieve_due_def)
  ultimately have "set (concat (map ?f gs)) =
      {(True, g, Some (goal_version es g)) | g. achieve_due es g} \<union> {(False, g, Some (goal_version es g)) | g. unachieve_due es g}"
    by (auto split: if_splits)
  moreover have "distinct (concat (map ?f gs))" using r(4) by (induction gs) (auto split: if_splits)
  ultimately show ?thesis using r(1,2) facts by (intro exI [of _ s'] exI [of _ "concat (map (decide env v) gs)"]) simp
qed

definition sample_saga_env :: saga_env where
  "sample_saga_env = \<lparr>env_crypto = tagged_crypto, env_generated = [7], env_now = 5, env_answer = \<lambda>_ _. Inr (),
     env_ids = \<lambda>goalId. goalId @ ''-sys''\<rparr>"

definition sample_saga :: saga where
  "sample_saga = \<lparr>sg_replaying = False, sg_seenGoalIds = [],
     sg_keys = \<lparr>km_epochKeys = \<lambda>_. None, km_keyStore = \<lparr>ks_masterKey = Some [1], ks_identity = [], ks_aggregate = [], ks_draws = 0\<rparr>,
       km_keyrings = \<lambda>_. None\<rparr>, sg_process = [], sg_sent = []\<rparr>"

definition saga_sample_event :: "string \<Rightarrow> int \<Rightarrow> domain_payload \<Rightarrow> domain_event" where
  "saga_sample_event aggregateId n x = \<lparr>ev_meta = \<lparr>em_aggregateId = aggregateId, em_occurredAt = n, em_eventId = ''e'', em_actorId = ''me'',
     em_causationId = None, em_correlationId = None, em_version = Some n\<rparr>, ev_payload = x\<rparr>"

definition saga_sample_log :: "domain_event list" where
  "saga_sample_log =
     [saga_sample_event ''g'' 1 (GoalEvent (GoalRefined ''run'')),
      saga_sample_event ''p'' 1 (ProjectEvent (ProjectCreated ''a'' Planned ''2025-01-01'' ''2025-02-01'' [] None ''me'')),
      saga_sample_event ''p'' 2 (ProjectEvent (ProjectGoalAdded ''g'')),
      saga_sample_event ''p'' 3 (ProjectEvent (ProjectStatusTransitioned Completed))]"

lemma saga_sample_facts:
  "saga_ok sample_saga_env sample_saga" "answers sample_saga_env" "history_ok saga_sample_log"
  "achieve_due saga_sample_log g \<longleftrightarrow> g = ''g''" "\<not> unachieve_due saga_sample_log g" "goal_version saga_sample_log ''g'' = 1"
proof -
  have t: "projects_of saga_sample_log = (\<lambda>_. (None, None))(''p'' := (Some ''g'', Some Completed))"
    "goals_of saga_sample_log = (\<lambda>_. (False, False, 0))(''g'' := (False, False, 1))"
    by (simp_all add: projects_of_def goals_of_def saga_sample_log_def saga_sample_event_def project_track_step_def goal_track_step_def
        fun_eq_iff)
  show "saga_ok sample_saga_env sample_saga"
    by (simp add: saga_ok_def sample_saga_env_def sample_saga_def aead_ok_tagged total_cipher_def tagged_crypto_def aead_ok_def
        getAggregateKey_def require_master_def)
  show "answers sample_saga_env" by (simp add: answers_def sample_saga_env_def)
  show "history_ok saga_sample_log"
    by (simp add: history_ok_def saga_sample_log_def saga_sample_event_def event_link_ok_def project_track_step_def)
  show "achieve_due saga_sample_log g \<longleftrightarrow> g = ''g''" "\<not> unachieve_due saga_sample_log g"
    by (auto simp: achieve_due_def unachieve_due_def t linked_to_def all_done_def)
  show "goal_version saga_sample_log ''g'' = 1" by (simp add: goal_version_def t)
qed

theorem saga_reconciles_witness:
  "\<exists>s' cmd. saga_onRebaseRequired sample_saga_env (Inr saga_sample_log) sample_saga = (Inr (), s') \<and> sg_sent s' = [cmd] \<and>
     command_facts cmd = (True, ''g'', Some 1)"
proof -
  obtain s' cmds where r: "saga_onRebaseRequired sample_saga_env (Inr saga_sample_log) sample_saga = (Inr (), s')"
    "sg_sent s' = sg_sent sample_saga @ cmds" "distinct (map command_facts cmds)" "set (map command_facts cmds) = {(True, ''g'', Some 1)}"
    using saga_reconciles [OF saga_sample_facts(1,2,3)] saga_sample_facts(4-6) by auto
  then have "length cmds = 1" using distinct_card [OF r(3)] by simp
  then show ?thesis using r by (auto simp: length_Suc_conv sample_saga_def)
qed

end
