(* ===== verification/Outbox.thy ===== *)
theory Outbox
  imports KeyStore "HOL-Library.AList"
begin

text \<open>
  The outbox of sharing artifacts (packages/infrastructure/src/sharing/outbox): its table
  (OutboxStore.ts), the topological sort (DependencyGraph.ts) and the push of artifacts in
  dependency order (CryptoOutbox.ts). A JavaScript \<open>Map\<close> is an association list in insertion
  order, a \<open>Set\<close> a list without repetitions. The transport is the parameter \<open>transport\<close>: its answer
  to an artifact after the artifacts sent before; the state keeps the list of those sent.
\<close>

subsection \<open>OutboxStore\<close>

datatype artifact_type = ScopeStateArtifact | GrantArtifact | EventArtifact

datatype artifact_status = PendingArtifact | PushedArtifact

record outbox_artifact =
  oa_artifactId :: string
  oa_artifactType :: artifact_type
  oa_payload :: string
  oa_dependencies :: "string list"
  oa_status :: artifact_status
  oa_enqueuedAt :: int

record outbox_row =
  ox_artifact_id :: string
  ox_artifact_type :: artifact_type
  ox_payload :: string
  ox_dependencies :: string
  ox_status :: artifact_status
  ox_enqueued_at :: int

type_synonym outbox_table = "outbox_row list"

definition row_of_artifact :: "outbox_artifact \<Rightarrow> outbox_row" where
  "row_of_artifact a = \<lparr>ox_artifact_id = oa_artifactId a, ox_artifact_type = oa_artifactType a, ox_payload = oa_payload a,
     ox_dependencies = json_stringify (JArr (map JStr (oa_dependencies a))), ox_status = oa_status a,
     ox_enqueued_at = oa_enqueuedAt a\<rparr>"

text \<open>\<open>INSERT OR REPLACE\<close> removes the row with this key and adds the new one.\<close>

definition outbox_enqueue :: "outbox_artifact \<Rightarrow> outbox_table \<Rightarrow> outbox_table" where
  "outbox_enqueue a t = filter (\<lambda>r. ox_artifact_id r \<noteq> oa_artifactId a) t @ [row_of_artifact a]"

text \<open>\<open>JSON.parse(...) as string[]\<close>: only \<open>enqueue\<close> writes the column.\<close>

definition artifact_of_row :: "outbox_row \<Rightarrow> outbox_artifact result" where
  "artifact_of_row row =
     (case json_parse (ox_dependencies row) of
        Some (JArr js) \<Rightarrow> Inr \<lparr>oa_artifactId = ox_artifact_id row, oa_artifactType = ox_artifact_type row,
          oa_payload = ox_payload row, oa_dependencies = map js_string js, oa_status = ox_status row,
          oa_enqueuedAt = ox_enqueued_at row\<rparr>
      | _ \<Rightarrow> Inl (Error ''SyntaxError''))"

definition loadPending :: "outbox_table \<Rightarrow> outbox_artifact list result" where
  "loadPending t = map_result artifact_of_row (sort_key ox_enqueued_at (filter (\<lambda>r. ox_status r = PendingArtifact) t))"

definition loadPushedIds :: "outbox_table \<Rightarrow> string list" where
  "loadPushedIds t = map ox_artifact_id (filter (\<lambda>r. ox_status r = PushedArtifact) t)"

definition outbox_loadById :: "string \<Rightarrow> outbox_table \<Rightarrow> outbox_artifact option result" where
  "outbox_loadById artifactId t =
     (case find (\<lambda>r. ox_artifact_id r = artifactId) t of
        None \<Rightarrow> Inr None
      | Some row \<Rightarrow> bind_result (artifact_of_row row) (\<lambda>a. Inr (Some a)))"

definition markPushed :: "string \<Rightarrow> outbox_table \<Rightarrow> outbox_table" where
  "markPushed artifactId = map (\<lambda>r. if ox_artifact_id r = artifactId then r\<lparr>ox_status := PushedArtifact\<rparr> else r)"

definition outbox_delete :: "string \<Rightarrow> outbox_table \<Rightarrow> outbox_table" where
  "outbox_delete artifactId = filter (\<lambda>r. ox_artifact_id r \<noteq> artifactId)"

definition clearPushed :: "int \<Rightarrow> outbox_table \<Rightarrow> outbox_table" where
  "clearPushed olderThan = filter (\<lambda>r. \<not> (ox_status r = PushedArtifact \<and> ox_enqueued_at r < olderThan))"

definition outbox_exists :: "string \<Rightarrow> outbox_table \<Rightarrow> bool" where
  "outbox_exists artifactId t \<longleftrightarrow> 0 < length (filter (\<lambda>r. ox_artifact_id r = artifactId) t)"

subsection \<open>DependencyGraph\<close>

fun join_texts :: "string \<Rightarrow> string list \<Rightarrow> string" where
  "join_texts sep [] = []"
| "join_texts sep [x] = x"
| "join_texts sep (x # y # ys) = x @ sep @ join_texts sep (y # ys)"

type_synonym degrees = "(string \<times> int) list"
type_synonym adjacency = "(string \<times> string list) list"

definition artifact_map :: "outbox_artifact list \<Rightarrow> (string \<times> outbox_artifact) list" where
  "artifact_map artifacts = fold (\<lambda>a m. AList.update (oa_artifactId a) a m) artifacts []"

definition degree :: "degrees \<Rightarrow> string \<Rightarrow> int" where
  "degree d i = (case map_of d i of Some n \<Rightarrow> n | None \<Rightarrow> 0)"

definition dependents :: "adjacency \<Rightarrow> string \<Rightarrow> string list" where
  "dependents adj i = (case map_of adj i of Some ds \<Rightarrow> ds | None \<Rightarrow> [])"

definition missing_message :: "string \<Rightarrow> string \<Rightarrow> string" where
  "missing_message artifactId depId = ''Artifact '' @ artifactId @ '' depends on '' @ depId @
     '' which is neither pending nor pushed. This indicates a missing dependency that must be resolved before pushing.''"

text \<open>One dependency of an artifact: an edge and a degree, or a known artifact, or an error.\<close>

definition add_dependency ::
  "string set \<Rightarrow> string list option \<Rightarrow> string \<Rightarrow> string \<Rightarrow> degrees \<times> adjacency \<Rightarrow> (degrees \<times> adjacency) result" where
  "add_dependency known pushed artifactId depId st =
     (case st of (inDegree, adjList) \<Rightarrow>
        if depId \<in> known then
          Inr (AList.update artifactId (degree inDegree artifactId + 1) inDegree,
               AList.update depId (add_once artifactId (dependents adjList depId)) adjList)
        else if (case pushed of Some p \<Rightarrow> depId \<notin> set p | None \<Rightarrow> False) then Inl (Error (missing_message artifactId depId))
        else Inr st)"

definition build_graph :: "string list option \<Rightarrow> outbox_artifact list \<Rightarrow> (degrees \<times> adjacency) result" where
  "build_graph pushed artifacts =
     (let known = set (map oa_artifactId artifacts) in
      fold_result (\<lambda>a. fold_result (add_dependency known pushed (oa_artifactId a)) (oa_dependencies a)) artifacts
        (fold (\<lambda>a. AList.update (oa_artifactId a) 0) artifacts [], fold (\<lambda>a. AList.update (oa_artifactId a) []) artifacts []))"

text \<open>The inner loop: each dependent loses one degree and is queued when none is left.\<close>

fun reduce :: "string list \<Rightarrow> degrees \<times> string list \<Rightarrow> degrees \<times> string list" where
  "reduce [] st = st"
| "reduce (i # is) (inDegree, queue) =
     (let newDegree = degree inDegree i - 1 in
      reduce is (AList.update i newDegree inDegree, if newDegree = 0 then queue @ [i] else queue))"

definition positive :: "degrees \<Rightarrow> nat" where
  "positive d = length (filter (\<lambda>(_, n). n > 0) d)"

lemma positive_update:
  "positive (AList.update i (degree d i - 1) d) + (if degree d i - 1 = 0 then 1 else 0) \<le> positive d"
  by (induction d) (auto simp: positive_def degree_def)

lemma reduce_measure: "reduce is (d, q) = (d', q') \<Longrightarrow> positive d' + length q' \<le> positive d + length q"
proof (induction "is" arbitrary: d q)
  case Nil
  then show ?case by simp
next
  case (Cons i "is")
  have "positive d' + length q' \<le> positive (AList.update i (degree d i - 1) d) +
      length (if degree d i - 1 = 0 then q @ [i] else q)"
    using Cons by (simp add: Let_def)
  also have "\<dots> \<le> positive d + length q" using positive_update [of i d] by (auto split: if_splits)
  finally show ?case .
qed

text \<open>The outer loop ends: the queue grows only when an artifact loses its last degree.\<close>

function kahn :: "adjacency \<Rightarrow> degrees \<Rightarrow> string list \<Rightarrow> string list" where
  "kahn adj d [] = []"
| "kahn adj d (i # queue) = (case reduce (dependents adj i) (d, queue) of (d', queue') \<Rightarrow> i # kahn adj d' queue')"
  by pat_completeness auto
termination
  by (relation "measure (\<lambda>(adj, d, queue). positive d + length queue)") (auto simp: less_Suc_eq_le split: prod.splits dest: reduce_measure)

definition graph_sort :: "outbox_artifact list \<Rightarrow> string list option \<Rightarrow> outbox_artifact list result" where
  "graph_sort artifacts pushed =
     bind_result (build_graph pushed artifacts) (\<lambda>(inDegree, adjList).
     let m = artifact_map artifacts;
         res = map (\<lambda>i. the (map_of m i)) (kahn adjList inDegree (map fst (filter (\<lambda>(_, n). n = 0) inDegree))) in
     if length res \<noteq> length artifacts then
       Inl (Error (''Circular dependency detected in artifacts: '' @
         join_texts '', '' (map oa_artifactId (filter (\<lambda>a. a \<notin> set res) artifacts))))
     else Inr res)"

definition getMissingDependencies :: "outbox_artifact \<Rightarrow> string list \<Rightarrow> string list" where
  "getMissingDependencies a availableIds = filter (\<lambda>depId. depId \<notin> set availableIds) (oa_dependencies a)"

subsection \<open>CryptoOutbox\<close>

definition MAX_DEPENDENCY_RESOLUTION_DEPTH :: nat where
  "MAX_DEPENDENCY_RESOLUTION_DEPTH = 10"

datatype artifact_response = Accepted | MissingDeps "string list"

datatype artifact_result = PushOk | PushFailed string

record outbox =
  ob_table :: outbox_table
  ob_sent :: "outbox_artifact list"

text \<open>The answer of the server, which may also be an error of the transport.\<close>

type_synonym artifact_transport = "outbox_artifact list \<Rightarrow> outbox_artifact \<Rightarrow> artifact_response result"

definition crypto_enqueue :: "outbox_artifact \<Rightarrow> (outbox, unit) io" where
  "crypto_enqueue a = update_io (ob_table_update (outbox_enqueue a))"

definition pushArtifactToTransport :: "artifact_transport \<Rightarrow> outbox_artifact \<Rightarrow> (outbox, artifact_response) io" where
  "pushArtifactToTransport transport a s =
     (case oa_artifactType a of
        EventArtifact \<Rightarrow> (Inr Accepted, s)
      | _ \<Rightarrow> (transport (ob_sent s) a, s\<lparr>ob_sent := ob_sent s @ [a]\<rparr>))"

text \<open>\<open>String(error)\<close>\<close>

fun error_text :: "error \<Rightarrow> string" where
  "error_text (Error m) = ''Error: '' @ m"
| "error_text (AssertError n m) = n @ '': '' @ m"

primrec resolve_with :: "(outbox_artifact \<Rightarrow> (outbox, artifact_result) io) \<Rightarrow> string list \<Rightarrow> (outbox, bool) io" where
  "resolve_with push [] = return_io True"
| "resolve_with push (depId # deps) =
     bind_io (bind_io (read_io (\<lambda>s. outbox_loadById depId (ob_table s))) lift_io) (\<lambda>found.
     case found of
       None \<Rightarrow> return_io False
     | Some depArtifact \<Rightarrow>
         bind_io (push depArtifact) (\<lambda>res.
         if res \<noteq> PushOk then return_io False
         else
           bind_io (update_io (ob_table_update (markPushed depId))) (\<lambda>_.
           resolve_with push deps)))"

text \<open>The body of the \<open>try\<close> of \<open>pushArtifact\<close>.\<close>

definition push_try :: "artifact_transport \<Rightarrow> (string list \<Rightarrow> (outbox, bool) io) \<Rightarrow> outbox_artifact \<Rightarrow> (outbox, artifact_result) io" where
  "push_try transport resolve a =
     bind_io (pushArtifactToTransport transport a) (\<lambda>response.
     case response of
       Accepted \<Rightarrow> return_io PushOk
     | MissingDeps missingDeps \<Rightarrow>
         bind_io (resolve missingDeps) (\<lambda>resolved.
         if \<not> resolved then return_io (PushFailed (''Cannot resolve missing dependencies: '' @ join_texts '', '' missingDeps))
         else
           bind_io (pushArtifactToTransport transport a) (\<lambda>retryResponse.
           return_io (case retryResponse of Accepted \<Rightarrow> PushOk
             | MissingDeps _ \<Rightarrow> PushFailed ''Push failed after resolving dependencies: missing_deps''))))"

definition catch_push :: "(outbox, artifact_result) io \<Rightarrow> (outbox, artifact_result) io" where
  "catch_push m s = (case m s of (Inl e, s') \<Rightarrow> (Inr (PushFailed (error_text e)), s') | (Inr r, s') \<Rightarrow> (Inr r, s'))"

text \<open>
  \<open>pushArtifact\<close> and \<open>resolveMissingDeps\<close> call each other with a growing depth; the argument of
  \<open>push_at\<close> is the number of levels left below the maximal depth.
\<close>

primrec push_at :: "artifact_transport \<Rightarrow> nat \<Rightarrow> outbox_artifact \<Rightarrow> (outbox, artifact_result) io" where
  "push_at transport 0 a = return_io (PushFailed (''Maximum dependency resolution depth ('' @
     show_int (int MAX_DEPENDENCY_RESOLUTION_DEPTH) @ '') exceeded for artifact '' @ oa_artifactId a))"
| "push_at transport (Suc n) a = catch_push (push_try transport (resolve_with (push_at transport n)) a)"

definition pushArtifact :: "artifact_transport \<Rightarrow> outbox_artifact \<Rightarrow> (outbox, artifact_result) io" where
  "pushArtifact transport = push_at transport (MAX_DEPENDENCY_RESOLUTION_DEPTH + 1)"

definition resolveMissingDeps :: "artifact_transport \<Rightarrow> nat \<Rightarrow> string list \<Rightarrow> (outbox, bool) io" where
  "resolveMissingDeps transport depth = resolve_with (push_at transport (MAX_DEPENDENCY_RESOLUTION_DEPTH + 1 - depth))"

text \<open>The loop of \<open>push\<close>, which stops at the first failure.\<close>

fun push_sorted :: "artifact_transport \<Rightarrow> outbox_artifact list \<Rightarrow> nat \<Rightarrow> (outbox, nat \<times> nat) io" where
  "push_sorted transport [] pushed = return_io (pushed, 0)"
| "push_sorted transport (a # as) pushed =
     bind_io (pushArtifact transport a) (\<lambda>res.
     if res = PushOk then
       bind_io (update_io (ob_table_update (markPushed (oa_artifactId a)))) (\<lambda>_.
       push_sorted transport as (pushed + 1))
     else return_io (pushed, 1))"

definition outbox_push :: "artifact_transport \<Rightarrow> int \<Rightarrow> (outbox, nat \<times> nat) io" where
  "outbox_push transport now =
     bind_io (bind_io (read_io (\<lambda>s. loadPending (ob_table s))) lift_io) (\<lambda>pending.
     if pending = [] then return_io (0, 0)
     else
       bind_io (read_io (\<lambda>s. loadPushedIds (ob_table s))) (\<lambda>pushedIds.
       case graph_sort pending (Some pushedIds) of
         Inl _ \<Rightarrow> return_io (0, length pending)
       | Inr ordered \<Rightarrow>
           bind_io (push_sorted transport ordered 0) (\<lambda>counts.
           bind_io (update_io (ob_table_update (clearPushed (now - 24 * 60 * 60 * 1000)))) (\<lambda>_.
           return_io counts))))"

end
