(* ===== verification/OutboxFacts.thy ===== *)
theory OutboxFacts
  imports Outbox
begin

text \<open>
  The sort of the outbox is a topological sort: it succeeds exactly on acyclic dependencies, and
  then gives a permutation of the artifacts in which every artifact follows its dependencies.
\<close>

subsection \<open>The two loops\<close>

lemma degree_update [simp]: "degree (AList.update i n d) k = (if k = i then n else degree d k)"
  by (simp add: degree_def update_conv')

lemma dependents_update [simp]: "dependents (AList.update i n d) k = (if k = i then n else dependents d k)"
  by (simp add: dependents_def update_conv')

lemma reduce_run:
  assumes "distinct is" and "reduce is (d, q) = (d', q')"
  shows "degree d' k = degree d k - (if k \<in> set is then 1 else 0)" and "q' = q @ filter (\<lambda>i. degree d i = 1) is"
proof -
  have "(\<forall>k. degree d' k = degree d k - (if k \<in> set is then 1 else 0)) \<and> q' = q @ filter (\<lambda>i. degree d i = 1) is"
    using assms
  proof (induction "is" arbitrary: d q)
    case Nil
    then show ?case by simp
  next
    case (Cons i "is")
    let ?d = "AList.update i (degree d i - 1) d"
    have "filter (\<lambda>k. degree ?d k = 1) is = filter (\<lambda>k. degree d k = 1) is"
      using Cons.prems(1) by (intro filter_cong) auto
    then show ?case
      using Cons.IH [of ?d "if degree d i - 1 = 0 then q @ [i] else q"] Cons.prems by (auto simp: Let_def)
  qed
  then show "degree d' k = degree d k - (if k \<in> set is then 1 else 0)" "q' = q @ filter (\<lambda>i. degree d i = 1) is" by auto
qed

text \<open>
  The graph that the two maps stand for: \<open>E j i\<close> when \<open>i\<close> depends on \<open>j\<close>, both among the artifacts \<open>K\<close>.
\<close>

definition graph_of :: "string set \<Rightarrow> (string \<Rightarrow> string \<Rightarrow> bool) \<Rightarrow> adjacency \<Rightarrow> bool" where
  "graph_of K E adj \<longleftrightarrow> finite K \<and> (\<forall>j i. E j i \<longrightarrow> i \<in> K \<and> j \<in> K) \<and>
     (\<forall>j. distinct (dependents adj j) \<and> set (dependents adj j) = {i. E j i})"

definition ordered_by :: "(string \<Rightarrow> string \<Rightarrow> bool) \<Rightarrow> string list \<Rightarrow> bool" where
  "ordered_by E xs \<longleftrightarrow> (\<forall>n < length xs. \<forall>j. E j (xs ! n) \<longrightarrow> j \<in> set (take n xs))"

text \<open>The invariant of the outer loop: what has been output, the degrees left, the queue.\<close>

definition kahn_inv :: "string set \<Rightarrow> (string \<Rightarrow> string \<Rightarrow> bool) \<Rightarrow> string list \<Rightarrow> degrees \<Rightarrow> string list \<Rightarrow> bool" where
  "kahn_inv K E out d q \<longleftrightarrow> distinct (out @ q) \<and> ordered_by E out \<and>
     (\<forall>i \<in> K. degree d i = int (card {j. E j i \<and> j \<notin> set out})) \<and>
     (\<forall>i. i \<in> set (out @ q) \<longleftrightarrow> i \<in> K \<and> degree d i = 0)"

lemma card_rest:
  assumes "graph_of K E adj" and "i \<notin> set out"
  shows "int (card {j. E j k \<and> j \<notin> set (out @ [i])}) = int (card {j. E j k \<and> j \<notin> set out}) - (if E i k then 1 else 0)"
proof -
  have fin: "finite {j. E j k \<and> j \<notin> set out}"
    using assms(1) by (auto simp: graph_of_def intro: finite_subset [of _ K])
  have "{j. E j k \<and> j \<notin> set (out @ [i])} = {j. E j k \<and> j \<notin> set out} - {i}" by auto
  moreover have "int (card (A - {i})) = int (card A) - 1" if "finite A" "i \<in> A" for A :: "string set"
    using card.remove [OF that] by simp
  ultimately show ?thesis using fin assms(2) by auto
qed

lemma kahn_inv_step:
  assumes g: "graph_of K E adj" and inv: "kahn_inv K E out d (i # q)" and red: "reduce (dependents adj i) (d, q) = (d', q')"
  shows "kahn_inv K E (out @ [i]) d' q'"
proof -
  have deps: "distinct (dependents adj i)" "set (dependents adj i) = {k. E i k}" using g by (auto simp: graph_of_def)
  have i: "i \<in> K" "degree d i = 0" "i \<notin> set out" using inv by (auto simp: kahn_inv_def)
  have d': "degree d' k = degree d k - (if E i k then 1 else 0)" for k using reduce_run(1) [OF deps(1) red, of k] deps(2) by simp
  have q': "q' = q @ filter (\<lambda>k. degree d k = 1) (dependents adj i)" using reduce_run(2) [OF deps(1) red] .
  have deg: "degree d k = int (card {j. E j k \<and> j \<notin> set out})" if "k \<in> K" for k using inv that by (auto simp: kahn_inv_def)
  have fin: "finite {j. E j k \<and> j \<notin> set out}" for k
    using g by (auto simp: graph_of_def intro: finite_subset [of _ K])
  have mem: "k \<in> set (out @ i # q) \<longleftrightarrow> k \<in> K \<and> degree d k = 0" for k using inv by (auto simp: kahn_inv_def)
  have noedge: "\<not> E i k" if "k \<in> K" "degree d k = 0" for k
    using deg [OF that(1)] that(2) i(3) fin [of k] by auto
  have K: "E i k \<Longrightarrow> k \<in> K" for k using g by (auto simp: graph_of_def)
  have "distinct ((out @ [i]) @ q')"
    using inv mem deps(1) by (auto simp: kahn_inv_def q')
  moreover have "ordered_by E (out @ [i])"
  proof -
    have "j \<in> set out" if "E j i" for j using deg [OF i(1)] i(2) fin [of i] that by auto
    then show ?thesis using inv by (auto simp: kahn_inv_def ordered_by_def nth_append less_Suc_eq)
  qed
  moreover have "\<forall>k \<in> K. degree d' k = int (card {j. E j k \<and> j \<notin> set (out @ [i])})"
    using card_rest [OF g i(3)] deg by (auto simp: d')
  moreover have "k \<in> set ((out @ [i]) @ q') \<longleftrightarrow> k \<in> K \<and> degree d' k = 0" for k
    using mem [of k] noedge [of k] K [of k] deps(2) by (auto simp: q' d')
  ultimately show ?thesis by (simp add: kahn_inv_def)
qed

lemma kahn_run:
  assumes "graph_of K E adj" and "kahn_inv K E out d q"
  shows "\<exists>d'. kahn_inv K E (out @ kahn adj d q) d' []"
  using assms
proof (induction adj d q arbitrary: out rule: kahn.induct)
  case (1 adj d)
  then show ?case by auto
next
  case (2 adj d i q)
  obtain d' q' where red: "reduce (dependents adj i) (d, q) = (d', q')" by fastforce
  from 2(1) [OF red [symmetric] 2(2) kahn_inv_step [OF 2(2,3) red]] show ?case using red by simp
qed

lemma acyclic_source:
  assumes "finite R" and "R \<noteq> {}" and "acyclic {(j, i). E j i}"
  shows "\<exists>i \<in> R. \<forall>j \<in> R. \<not> E j i"
proof -
  let ?r = "{(j, i). E j i} \<inter> R \<times> R"
  have "finite ?r" using assms(1) by simp
  moreover have "acyclic ?r" using assms(3) by (rule acyclic_subset) auto
  ultimately have "wf ?r" by (rule finite_acyclic_wf)
  moreover obtain x where "x \<in> R" using assms(2) by blast
  ultimately obtain i where i: "i \<in> R" "\<forall>j. (j, i) \<in> ?r \<longrightarrow> j \<notin> R" unfolding wf_eq_minimal by metis
  have "\<forall>j \<in> R. \<not> E j i"
  proof (intro ballI notI)
    fix j assume "j \<in> R" "E j i"
    then have "(j, i) \<in> ?r" using i(1) by blast
    then show False using i(2) \<open>j \<in> R\<close> by blast
  qed
  then show ?thesis using i(1) by (rule bexI)
qed

lemma ordered_acyclic:
  assumes "ordered_by E xs" and "distinct xs" and "\<And>j i. E j i \<Longrightarrow> i \<in> set xs"
  shows "acyclic {(j, i). E j i}"
proof -
  define pos where "pos i = (THE n. n < length xs \<and> xs ! n = i)" for i
  have pos: "pos (xs ! n) = n" if "n < length xs" for n
    unfolding pos_def using that assms(2) by (intro the_equality) (auto simp: nth_eq_iff_index_eq)
  have "pos j < pos i" if e: "E j i" for j i
  proof -
    obtain n where n: "n < length xs" "xs ! n = i" using assms(3) [OF e] by (auto simp: in_set_conv_nth)
    then have "j \<in> set (take n xs)" using assms(1) e by (auto simp: ordered_by_def)
    then obtain k where "k < n" "xs ! k = j" by (auto simp: in_set_conv_nth)
    then show ?thesis using pos [of k] pos [of n] n by auto
  qed
  then have "{(j, i). E j i} \<subseteq> measure pos" by auto
  then show ?thesis using wf_acyclic acyclic_subset wf_measure by blast
qed

text \<open>The outcome of the two loops.\<close>

lemma kahn_sorts:
  assumes g: "graph_of K E adj" and inv: "kahn_inv K E [] d q"
  shows "distinct (kahn adj d q)" and "set (kahn adj d q) \<subseteq> K" and "ordered_by E (kahn adj d q)"
    and "set (kahn adj d q) = K \<longleftrightarrow> acyclic {(j, i). E j i}"
proof -
  let ?r = "kahn adj d q"
  obtain d' where i: "kahn_inv K E ?r d' []" using kahn_run [OF g inv] by auto
  show r: "distinct ?r" "set ?r \<subseteq> K" "ordered_by E ?r" using i by (auto simp: kahn_inv_def)
  have edges: "j \<in> K \<and> i \<in> K" if "E j i" for j i using g that by (auto simp: graph_of_def)
  have "set ?r = K" if "acyclic {(j, i). E j i}"
  proof (rule ccontr)
    assume "set ?r \<noteq> K"
    then have "K - set ?r \<noteq> {}" "finite (K - set ?r)" using r(2) g by (auto simp: graph_of_def)
    then have "\<exists>i \<in> K - set ?r. \<forall>j \<in> K - set ?r. \<not> E j i" using that by (intro acyclic_source)
    then obtain k where k: "k \<in> K" "k \<notin> set ?r" "\<And>j. j \<in> K - set ?r \<Longrightarrow> \<not> E j k" by blast
    then have none: "{j. E j k \<and> j \<notin> set ?r} = {}" using edges by blast
    have deg: "\<forall>i \<in> K. degree d' i = int (card {j. E j i \<and> j \<notin> set ?r})"
      and mem: "\<forall>i. i \<in> set (?r @ []) \<longleftrightarrow> i \<in> K \<and> degree d' i = 0"
      using i unfolding kahn_inv_def by blast+
    have "degree d' k = 0" using bspec [OF deg k(1)] unfolding none by simp
    then show False using spec [OF mem, of k] k(1,2) by simp
  qed
  then show "set ?r = K \<longleftrightarrow> acyclic {(j, i). E j i}" using ordered_acyclic [OF r(3,1)] edges by blast
qed

subsection \<open>Building the graph\<close>

definition satisfied :: "string set \<Rightarrow> string list option \<Rightarrow> string \<Rightarrow> bool" where
  "satisfied K pushed x \<longleftrightarrow> x \<in> K \<or> (case pushed of Some p \<Rightarrow> x \<in> set p | None \<Rightarrow> True)"

lemma map_fst_update [simp]: "k \<in> set (map fst d) \<Longrightarrow> map fst (AList.update k n d) = map fst d"
  by (simp add: update_keys)

text \<open>The dependencies of one artifact.\<close>

definition extended :: "string set \<Rightarrow> string \<Rightarrow> string list \<Rightarrow> degrees \<times> adjacency \<Rightarrow> degrees \<times> adjacency \<Rightarrow> bool" where
  "extended K i ds st st' \<longleftrightarrow> map fst (fst st') = map fst (fst st) \<and>
     (\<forall>k. degree (fst st') k = degree (fst st) k + (if k = i then int (length (filter (\<lambda>x. x \<in> K) ds)) else 0)) \<and>
     (\<forall>j. dependents (snd st') j = (if j \<in> set ds \<and> j \<in> K then add_once i (dependents (snd st) j) else dependents (snd st) j))"

lemma add_once_twice [simp]: "add_once i (add_once i xs) = add_once i xs"
  by (simp add: add_once_def)

lemma add_dependencies:
  assumes "i \<in> set (map fst (fst st))" and "\<forall>x \<in> set ds. satisfied K pushed x"
  shows "\<exists>st'. fold_result (add_dependency K pushed i) ds st = Inr st' \<and> extended K i ds st st'"
  using assms
proof (induction ds arbitrary: st)
  case Nil
  then show ?case by (simp add: extended_def)
next
  case (Cons x ds)
  obtain d adj where st: "st = (d, adj)" by fastforce
  show ?case
  proof (cases "x \<in> K")
    case True
    let ?st = "(AList.update i (degree d i + 1) d, AList.update x (add_once i (dependents adj x)) adj)"
    have "map fst (fst ?st) = map fst d" using Cons.prems(1) st by simp
    then obtain st' where "fold_result (add_dependency K pushed i) ds ?st = Inr st'" "extended K i ds ?st st'"
      using Cons.IH [of ?st] Cons.prems st by auto
    moreover have "add_dependency K pushed i x st = Inr ?st" using True st by (simp add: add_dependency_def)
    ultimately show ?thesis
      using True st \<open>map fst (fst ?st) = map fst d\<close> by (intro exI [of _ st']) (auto simp: extended_def)
  next
    case False
    then have "add_dependency K pushed i x st = Inr st"
      using Cons.prems(2) st by (auto simp: add_dependency_def satisfied_def split: option.splits)
    then show ?thesis using Cons.IH [of st] Cons.prems False by (auto simp: extended_def)
  qed
qed

lemma add_dependencies_missing:
  "\<exists>x \<in> set ds. \<not> satisfied K pushed x \<Longrightarrow> \<exists>e. fold_result (add_dependency K pushed i) ds st = Inl e"
proof (induction ds arbitrary: st)
  case (Cons x ds)
  show ?case
  proof (cases "add_dependency K pushed i x st")
    case (Inr st')
    then have "satisfied K pushed x"
      by (auto simp: add_dependency_def satisfied_def split: prod.splits option.splits if_splits)
    then show ?thesis using Cons Inr by auto
  qed simp
qed simp

text \<open>All artifacts.\<close>

definition depends_on :: "outbox_artifact list \<Rightarrow> string \<Rightarrow> string \<Rightarrow> bool" where
  "depends_on as j i \<longleftrightarrow> j \<in> oa_artifactId ` set as \<and> (\<exists>a \<in> set as. oa_artifactId a = i \<and> j \<in> set (oa_dependencies a))"

lemma add_artifacts:
  assumes "distinct (map oa_artifactId as)" and "\<forall>a \<in> set as. oa_artifactId a \<in> set (map fst (fst st))"
    and "\<forall>a \<in> set as. \<forall>x \<in> set (oa_dependencies a). satisfied K pushed x"
    and "\<forall>j. distinct (dependents (snd st) j)"
  shows "\<exists>st'. fold_result (\<lambda>a. fold_result (add_dependency K pushed (oa_artifactId a)) (oa_dependencies a)) as st = Inr st' \<and>
     map fst (fst st') = map fst (fst st) \<and>
     (\<forall>k. k \<notin> oa_artifactId ` set as \<longrightarrow> degree (fst st') k = degree (fst st) k) \<and>
     (\<forall>a \<in> set as. degree (fst st') (oa_artifactId a) = degree (fst st) (oa_artifactId a) + int (length (filter (\<lambda>x. x \<in> K) (oa_dependencies a)))) \<and>
     (\<forall>j. distinct (dependents (snd st') j) \<and> set (dependents (snd st') j) = set (dependents (snd st) j) \<union>
        {i. j \<in> K \<and> (\<exists>a \<in> set as. oa_artifactId a = i \<and> j \<in> set (oa_dependencies a))})"
  using assms
proof (induction as arbitrary: st)
  case Nil
  then show ?case by simp
next
  case (Cons a as)
  obtain st1 where st1: "fold_result (add_dependency K pushed (oa_artifactId a)) (oa_dependencies a) st = Inr st1"
    "extended K (oa_artifactId a) (oa_dependencies a) st st1"
    using add_dependencies [of "oa_artifactId a" st "oa_dependencies a" K pushed] Cons.prems by auto
  have new: "oa_artifactId a \<notin> oa_artifactId ` set as" using Cons.prems(1) by auto
  have pre: "distinct (map oa_artifactId as)" "\<forall>b \<in> set as. oa_artifactId b \<in> set (map fst (fst st1))"
    "\<forall>b \<in> set as. \<forall>x \<in> set (oa_dependencies b). satisfied K pushed x" "\<forall>j. distinct (dependents (snd st1) j)"
    using Cons.prems st1(2) by (auto simp: extended_def)
  obtain st2 where st2: "fold_result (\<lambda>a. fold_result (add_dependency K pushed (oa_artifactId a)) (oa_dependencies a)) as st1 = Inr st2"
    "map fst (fst st2) = map fst (fst st1)" "\<forall>k. k \<notin> oa_artifactId ` set as \<longrightarrow> degree (fst st2) k = degree (fst st1) k"
    "\<forall>b \<in> set as. degree (fst st2) (oa_artifactId b) = degree (fst st1) (oa_artifactId b) + int (length (filter (\<lambda>x. x \<in> K) (oa_dependencies b)))"
    "\<forall>j. distinct (dependents (snd st2) j) \<and> set (dependents (snd st2) j) = set (dependents (snd st1) j) \<union>
        {i. j \<in> K \<and> (\<exists>a \<in> set as. oa_artifactId a = i \<and> j \<in> set (oa_dependencies a))}"
    using Cons.IH [OF pre] by blast
  have "degree (fst st2) (oa_artifactId b) = degree (fst st) (oa_artifactId b) + int (length (filter (\<lambda>x. x \<in> K) (oa_dependencies b)))"
    if "b \<in> set (a # as)" for b
    using that new st1(2) st2(3,4) by (cases "b = a") (auto simp: extended_def image_iff)
  moreover have "degree (fst st2) k = degree (fst st) k" if "k \<notin> oa_artifactId ` set (a # as)" for k
    using that st1(2) st2(3) by (auto simp: extended_def)
  moreover have "set (dependents (snd st2) j) = set (dependents (snd st) j) \<union>
      {i. j \<in> K \<and> (\<exists>b \<in> set (a # as). oa_artifactId b = i \<and> j \<in> set (oa_dependencies b))}" for j
    using st1(2) st2(5) by (auto simp: extended_def)
  ultimately show ?case using st1 st2(1,2,5) by (intro exI [of _ st2]) (simp add: extended_def)
qed

lemma add_artifacts_missing:
  "\<exists>a \<in> set as. \<exists>x \<in> set (oa_dependencies a). \<not> satisfied K pushed x \<Longrightarrow>
     \<exists>e. fold_result (\<lambda>a. fold_result (add_dependency K pushed (oa_artifactId a)) (oa_dependencies a)) as st = Inl e"
proof (induction as arbitrary: st)
  case (Cons a as)
  show ?case
  proof (cases "fold_result (add_dependency K pushed (oa_artifactId a)) (oa_dependencies a) st")
    case (Inr st')
    then have "\<not> (\<exists>x \<in> set (oa_dependencies a). \<not> satisfied K pushed x)"
      using add_dependencies_missing [of "oa_dependencies a" K pushed "oa_artifactId a" st] by auto
    then show ?thesis using Cons Inr by auto
  qed simp
qed simp

lemma fold_update_keys:
  "distinct (map fst d @ map f as) \<Longrightarrow> map fst (fold (\<lambda>a. AList.update (f a) (g a)) as d) = map fst d @ map f as"
proof (induction as arbitrary: d)
  case (Cons a as)
  have "map fst (AList.update (f a) (g a) d) = map fst d @ [f a]" using Cons.prems by (auto simp: update_keys)
  then show ?case using Cons.IH [of "AList.update (f a) (g a) d"] Cons.prems by simp
qed simp

lemma fold_update_degree: "(\<And>k. degree d k = 0) \<Longrightarrow> degree (fold (\<lambda>a. AList.update (f a) 0) as d) k = 0"
  by (induction as arbitrary: d) auto

lemma fold_update_dependents: "(\<And>k. dependents d k = []) \<Longrightarrow> dependents (fold (\<lambda>a. AList.update (f a) []) as d) k = []"
  by (induction as arbitrary: d) auto

lemma map_of_fold_update:
  "distinct (map f as) \<Longrightarrow> map_of (fold (\<lambda>a. AList.update (f a) a) as d) k =
     (case find (\<lambda>a. f a = k) as of Some a \<Rightarrow> Some a | None \<Rightarrow> map_of d k)"
proof (induction as arbitrary: d)
  case (Cons a as)
  have none: "find (\<lambda>b. f b = f a) as = None" using Cons.prems unfolding find_None_iff by (metis distinct.simps(2) image_eqI list.set_map list.simps(9))
  show ?case
    using Cons.IH [of "AList.update (f a) a d"] Cons.prems none by (cases "f a = k") (auto simp: update_conv' split: option.split)
qed simp

lemma artifact_map_lookup:
  "distinct (map oa_artifactId as) \<Longrightarrow> a \<in> set as \<Longrightarrow> map_of (artifact_map as) (oa_artifactId a) = Some a"
  by (simp add: artifact_map_def map_of_fold_update find_distinct_key)

definition outbox_input :: "outbox_artifact list \<Rightarrow> bool" where
  "outbox_input as \<longleftrightarrow> distinct (map oa_artifactId as) \<and> (\<forall>a \<in> set as. distinct (oa_dependencies a))"

definition all_satisfied :: "outbox_artifact list \<Rightarrow> string list option \<Rightarrow> bool" where
  "all_satisfied as pushed \<longleftrightarrow>
     (\<forall>a \<in> set as. \<forall>x \<in> set (oa_dependencies a). satisfied (oa_artifactId ` set as) pushed x)"

definition initial_queue :: "degrees \<Rightarrow> string list" where
  "initial_queue d = map fst (filter (\<lambda>(_, n). n = 0) d)"

lemma initial_queue_eq: "distinct (map fst d) \<Longrightarrow> initial_queue d = filter (\<lambda>i. degree d i = 0) (map fst d)"
proof (induction d)
  case (Cons x d)
  have "filter (\<lambda>i. degree (x # d) i = 0) (map fst d) = filter (\<lambda>i. degree d i = 0) (map fst d)"
    using Cons.prems by (intro filter_cong) (auto simp: degree_def image_iff)
  then show ?case using Cons by (cases x) (auto simp: initial_queue_def degree_def)
qed (simp add: initial_queue_def)

lemma build_graph_ok:
  assumes "outbox_input as" and "all_satisfied as pushed"
  shows "\<exists>d adj. build_graph pushed as = Inr (d, adj) \<and> graph_of (oa_artifactId ` set as) (depends_on as) adj \<and>
     kahn_inv (oa_artifactId ` set as) (depends_on as) [] d (initial_queue d)"
proof -
  let ?K = "oa_artifactId ` set as"
  let ?st = "(fold (\<lambda>a. AList.update (oa_artifactId a) 0) as [], fold (\<lambda>a. AList.update (oa_artifactId a) []) as []) :: degrees \<times> adjacency"
  have ids: "distinct (map oa_artifactId as)" using assms(1) by (simp add: outbox_input_def)
  have keys: "map fst (fst ?st) = map oa_artifactId as" using fold_update_keys [of "[]"] ids by simp
  have start: "degree (fst ?st) k = 0" "dependents (snd ?st) k = []" for k
    using fold_update_degree [of "[]"] fold_update_dependents [of "[]"] by (simp_all add: degree_def dependents_def)
  obtain d adj where b: "build_graph pushed as = Inr (d, adj)" "map fst d = map oa_artifactId as"
    "\<forall>a \<in> set as. degree d (oa_artifactId a) = int (length (filter (\<lambda>x. x \<in> ?K) (oa_dependencies a)))"
    "\<forall>j. distinct (dependents adj j) \<and> set (dependents adj j) = {i. j \<in> ?K \<and> (\<exists>a \<in> set as. oa_artifactId a = i \<and> j \<in> set (oa_dependencies a))}"
    using add_artifacts [OF ids, of ?st ?K pushed] assms(2) start keys by (fastforce simp: build_graph_def all_satisfied_def)
  have g: "graph_of ?K (depends_on as) adj"
    using b(4) by (auto simp: graph_of_def depends_on_def)
  have deps: "{j. depends_on as j (oa_artifactId a)} = set (filter (\<lambda>x. x \<in> ?K) (oa_dependencies a))" if "a \<in> set as" for a
    using that map_inj_on_eq [OF ids] by (auto simp: depends_on_def)
  have "degree d i = int (card {j. depends_on as j i})" if K: "i \<in> ?K" for i
  proof -
    obtain a where a: "a \<in> set as" "i = oa_artifactId a" using K by blast
    then have "distinct (filter (\<lambda>x. x \<in> ?K) (oa_dependencies a))" using assms(1) by (simp add: outbox_input_def)
    then show ?thesis using a b(3) deps distinct_card by metis
  qed
  moreover have "initial_queue d = filter (\<lambda>i. degree d i = 0) (map oa_artifactId as)"
    using initial_queue_eq [of d] b(2) ids by simp
  ultimately have "kahn_inv ?K (depends_on as) [] d (initial_queue d)"
    using ids by (auto simp: kahn_inv_def ordered_by_def)
  then show ?thesis using b(1) g by blast
qed

lemma build_graph_missing: "\<not> all_satisfied as pushed \<Longrightarrow> \<exists>e. build_graph pushed as = Inl e"
  using add_artifacts_missing [of as "oa_artifactId ` set as" pushed] by (simp add: build_graph_def all_satisfied_def)

lemma graph_sort_cases:
  assumes "outbox_input as"
  shows "(\<exists>r. graph_sort as pushed = Inr r) \<longleftrightarrow> all_satisfied as pushed \<and> acyclic {(j, i). depends_on as j i}"
    and "graph_sort as pushed = Inr r \<Longrightarrow> distinct (map oa_artifactId r) \<and> set r = set as \<and> ordered_by (depends_on as) (map oa_artifactId r)"
proof -
  let ?K = "oa_artifactId ` set as" and ?f = "\<lambda>i. the (map_of (artifact_map as) i)"
  have ids: "distinct (map oa_artifactId as)" using assms by (simp add: outbox_input_def)
  have f: "?f (oa_artifactId a) = a" if "a \<in> set as" for a using artifact_map_lookup [OF ids that] by simp
  have main: "(\<exists>r. graph_sort as pushed = Inr r) = acyclic {(j, i). depends_on as j i} \<and>
      (\<forall>r. graph_sort as pushed = Inr r \<longrightarrow> distinct (map oa_artifactId r) \<and> set r = set as \<and> ordered_by (depends_on as) (map oa_artifactId r))"
    if sat: "all_satisfied as pushed"
  proof -
    obtain d adj where b: "build_graph pushed as = Inr (d, adj)" "graph_of ?K (depends_on as) adj"
      "kahn_inv ?K (depends_on as) [] d (initial_queue d)"
      using build_graph_ok [OF assms sat] by blast
    let ?k = "kahn adj d (initial_queue d)"
    note k = kahn_sorts [OF b(2,3)]
    have sorted: "graph_sort as pushed = (if length ?k \<noteq> length as then Inl (Error (''Circular dependency detected in artifacts: '' @
         join_texts '', '' (map oa_artifactId (filter (\<lambda>a. a \<notin> set (map ?f ?k)) as)))) else Inr (map ?f ?k))"
      using b(1) by (simp add: graph_sort_def initial_queue_def Let_def)
    have "length ?k = card (set ?k)" "length as = card ?K" using distinct_card [OF k(1)] distinct_card [OF ids] by simp_all
    then have len: "length ?k = length as \<longleftrightarrow> set ?k = ?K" using k(2) card_subset_eq [of ?K "set ?k"] by auto
    have "oa_artifactId (?f i) = i" if "i \<in> set ?k" for i using k(2) f that by force
    then have ids_of: "map oa_artifactId (map ?f ?k) = ?k" unfolding map_map comp_def by (rule map_idI)
    have "set (map ?f ?k) = set as" if "set ?k = ?K" using f that by (auto simp: image_image)
    then show ?thesis using sorted len k(1,3,4) ids_of by auto
  qed
  show "(\<exists>r. graph_sort as pushed = Inr r) \<longleftrightarrow> all_satisfied as pushed \<and> acyclic {(j, i). depends_on as j i}"
    using main build_graph_missing [of as pushed] by (cases "all_satisfied as pushed") (auto simp: graph_sort_def)
  show "distinct (map oa_artifactId r) \<and> set r = set as \<and> ordered_by (depends_on as) (map oa_artifactId r)"
    if "graph_sort as pushed = Inr r"
    using main that build_graph_missing [of as pushed] by (cases "all_satisfied as pushed") (auto simp: graph_sort_def)
qed

end
