(* ===== verification/OutboxProperties.thy ===== *)
theory OutboxProperties
  imports OutboxFacts "HOL-Library.Multiset"
begin

text \<open>
  What a push of the outbox does: with a server that accepts, everything in dependency order; with
  any server, only what it accepted is marked; and what the cleaning of old rows breaks.
\<close>

subsection \<open>A server that accepts everything\<close>

definition sortable :: "outbox_artifact list \<Rightarrow> string list \<Rightarrow> bool" where
  "sortable as pushed \<longleftrightarrow>
     (\<forall>a \<in> set as. \<forall>x \<in> set (oa_dependencies a). x \<in> oa_artifactId ` set as \<or> x \<in> set pushed) \<and>
     acyclic {(j, i). depends_on as j i}"

definition dependencies_first :: "outbox_artifact list \<Rightarrow> string list \<Rightarrow> bool" where
  "dependencies_first r pushed \<longleftrightarrow>
     (\<forall>n < length r. \<forall>x \<in> set (oa_dependencies (r ! n)). x \<in> oa_artifactId ` set (take n r) \<or> x \<in> set pushed)"

lemma graph_sort_sortable:
  assumes "outbox_input as"
  shows "sortable as pushed \<Longrightarrow> \<exists>r. graph_sort as (Some pushed) = Inr r \<and> mset r = mset as \<and> dependencies_first r pushed"
    and "\<not> sortable as pushed \<Longrightarrow> \<exists>e. graph_sort as (Some pushed) = Inl e"
proof -
  have sat: "all_satisfied as (Some pushed) \<and> acyclic {(j, i). depends_on as j i} \<longleftrightarrow> sortable as pushed"
    by (auto simp: all_satisfied_def satisfied_def sortable_def)
  show "\<exists>r. graph_sort as (Some pushed) = Inr r \<and> mset r = mset as \<and> dependencies_first r pushed" if s: "sortable as pushed"
  proof -
    obtain r where r: "graph_sort as (Some pushed) = Inr r" using graph_sort_cases(1) [OF assms, of "Some pushed"] sat s by auto
    have o: "distinct (map oa_artifactId r)" "set r = set as" "ordered_by (depends_on as) (map oa_artifactId r)"
      using graph_sort_cases(2) [OF assms r] by auto
    have "mset r = mset as" using o(1,2) assms by (auto simp: outbox_input_def distinct_map set_eq_iff_mset_eq_distinct)
    moreover have "dependencies_first r pushed"
      unfolding dependencies_first_def
    proof (intro allI ballI impI)
      fix n x assume n: "n < length r" and x: "x \<in> set (oa_dependencies (r ! n))"
      have mem: "r ! n \<in> set as" using n o(2) nth_mem by blast
      show "x \<in> oa_artifactId ` set (take n r) \<or> x \<in> set pushed"
      proof (cases "x \<in> oa_artifactId ` set as")
        case True
        then have "depends_on as x (map oa_artifactId r ! n)" using mem x n by (auto simp: depends_on_def)
        then have "x \<in> set (take n (map oa_artifactId r))" using o(3) n by (auto simp: ordered_by_def)
        then show ?thesis by (auto simp: take_map)
      next
        case False
        then show ?thesis using s mem x by (auto simp: sortable_def)
      qed
    qed
    ultimately show ?thesis using r by blast
  qed
  show "\<exists>e. graph_sort as (Some pushed) = Inl e" if "\<not> sortable as pushed"
    using graph_sort_cases(1) [OF assms, of "Some pushed"] sat that by (cases "graph_sort as (Some pushed)") auto
qed

definition accepting :: "artifact_transport \<Rightarrow> bool" where
  "accepting transport \<longleftrightarrow> (\<forall>sent a. transport sent a = Inr Accepted)"

definition requests :: "outbox_artifact list \<Rightarrow> outbox_artifact list" where
  "requests = filter (\<lambda>a. oa_artifactType a \<noteq> EventArtifact)"

lemma pushArtifact_accepting:
  "accepting tr \<Longrightarrow> pushArtifact tr a s = (Inr PushOk, s\<lparr>ob_sent := ob_sent s @ requests [a]\<rparr>)"
  by (cases "oa_artifactType a") (simp_all add: pushArtifact_def push_try_def catch_push_def bind_io_def pushArtifactToTransport_def
      accepting_def requests_def)

lemma push_sorted_accepting:
  "accepting tr \<Longrightarrow> push_sorted tr as n s =
     (Inr (n + length as, 0), s\<lparr>ob_sent := ob_sent s @ requests as, ob_table := fold (\<lambda>a. markPushed (oa_artifactId a)) as (ob_table s)\<rparr>)"
proof (induction as arbitrary: n s)
  case (Cons a as)
  then show ?case by (simp add: bind_io_def pushArtifact_accepting requests_def)
qed (simp add: requests_def)

lemma fold_markPushed:
  "fold (\<lambda>a. markPushed (oa_artifactId a)) as t =
     map (\<lambda>r. if ox_artifact_id r \<in> oa_artifactId ` set as then r\<lparr>ox_status := PushedArtifact\<rparr> else r) t"
  by (induction as arbitrary: t) (auto simp: markPushed_def)

lemma artifact_of_row_columns:
  "artifact_of_row r = Inr a \<Longrightarrow> oa_artifactId a = ox_artifact_id r \<and> oa_artifactType a = ox_artifact_type r"
  by (auto simp: artifact_of_row_def split: option.splits json.splits)

lemma map_result_list_all2: "map_result f xs = Inr ys \<Longrightarrow> list_all2 (\<lambda>x y. f x = Inr y) xs ys"
proof (induction xs arbitrary: ys)
  case (Cons x xs)
  then show ?case by (cases "f x"; cases "map_result f xs") auto
qed simp

lemma map_result_ids:
  assumes "map_result artifact_of_row rows = Inr as"
  shows "map oa_artifactId as = map ox_artifact_id rows"
  using map_result_list_all2 [OF assms] by induction (simp_all add: artifact_of_row_columns)

lemma pending_ids:
  assumes "loadPending t = Inr as"
  shows "oa_artifactId ` set as = ox_artifact_id ` {r \<in> set t. ox_status r = PendingArtifact}"
proof -
  have "set (map oa_artifactId as) = set (map ox_artifact_id (sort_key ox_enqueued_at (filter (\<lambda>r. ox_status r = PendingArtifact) t)))"
    using map_result_ids assms unfolding loadPending_def by metis
  then show ?thesis by simp
qed

lemma loadPending_none: "\<forall>r \<in> set t. ox_status r = PushedArtifact \<Longrightarrow> loadPending t = Inr []"
  by (simp add: loadPending_def filter_empty_conv [THEN iffD2])

text \<open>
  C33: a push of the outbox against a server that accepts, when no artifact lists a dependency twice:
  when every dependency of a pending artifact is pending or already pushed and the dependencies have
  no cycle, the pending artifacts are taken up one by one, each once and after all its
  dependencies; all but the events, which go another way, are sent to the server in this order, and
  nothing stays pending. Otherwise nothing is sent and everything is reported as failed.
\<close>

theorem outbox_push_all:
  assumes "loadPending (ob_table s) = Inr as" and "as \<noteq> []" and "outbox_input as" and "accepting tr"
  shows "if sortable as (loadPushedIds (ob_table s))
     then \<exists>r s'. outbox_push tr now s = (Inr (length as, 0), s') \<and> mset r = mset as \<and>
            dependencies_first r (loadPushedIds (ob_table s)) \<and> ob_sent s' = ob_sent s @ requests r \<and> loadPending (ob_table s') = Inr []
     else outbox_push tr now s = (Inr (0, length as), s)"
proof (cases "sortable as (loadPushedIds (ob_table s))")
  case True
  let ?p = "loadPushedIds (ob_table s)"
  obtain r where r: "graph_sort as (Some ?p) = Inr r" "mset r = mset as" "dependencies_first r ?p"
    using graph_sort_sortable(1) [OF assms(3) True] by blast
  let ?t = "fold (\<lambda>a. markPushed (oa_artifactId a)) r (ob_table s)"
  let ?s = "s\<lparr>ob_sent := ob_sent s @ requests r, ob_table := clearPushed (now - 24 * 60 * 60 * 1000) ?t\<rparr>"
  have run: "outbox_push tr now s = (Inr (length as, 0), ?s)"
    using assms(1,2) r(1) mset_eq_length [OF r(2)]
    by (simp add: outbox_push_def bind_io_def push_sorted_accepting [OF assms(4)])
  have "ox_status x = PushedArtifact" if "x \<in> set ?t" for x
  proof -
    have "set r = set as" using r(2) mset_eq_setD by blast
    then have ids: "oa_artifactId ` set r = ox_artifact_id ` {y \<in> set (ob_table s). ox_status y = PendingArtifact}"
      using pending_ids [OF assms(1)] by simp
    obtain y where y: "y \<in> set (ob_table s)" "x = (if ox_artifact_id y \<in> oa_artifactId ` set r then y\<lparr>ox_status := PushedArtifact\<rparr> else y)"
      using \<open>x \<in> set ?t\<close> unfolding fold_markPushed by auto
    then show ?thesis unfolding ids by (cases "ox_status y") auto
  qed
  then have "loadPending (clearPushed (now - 24 * 60 * 60 * 1000) ?t) = Inr []"
    by (intro loadPending_none) (auto simp: clearPushed_def)
  then show ?thesis using True run r by (auto intro!: exI [of _ r])
next
  case False
  then obtain e where "graph_sort as (Some (loadPushedIds (ob_table s))) = Inl e" using graph_sort_sortable(2) [OF assms(3)] by blast
  then show ?thesis using False assms(1,2) by (simp add: outbox_push_def bind_io_def)
qed

subsection \<open>Any server\<close>

text \<open>What the server accepted between two states.\<close>

definition accepted_between :: "artifact_transport \<Rightarrow> outbox \<Rightarrow> outbox \<Rightarrow> string \<Rightarrow> bool" where
  "accepted_between tr s s' i \<longleftrightarrow>
     (\<exists>xs a ys. ob_sent s' = ob_sent s @ xs @ a # ys \<and> oa_artifactId a = i \<and> tr (ob_sent s @ xs) a = Inr Accepted)"

definition marked :: "artifact_transport \<Rightarrow> outbox \<Rightarrow> outbox \<Rightarrow> outbox_row \<Rightarrow> outbox_row \<Rightarrow> bool" where
  "marked tr s s' r r' \<longleftrightarrow> r' = r \<or> r' = r\<lparr>ox_status := PushedArtifact\<rparr> \<and>
     (ox_artifact_type r = EventArtifact \<or> accepted_between tr s s' (ox_artifact_id r))"

definition progress :: "artifact_transport \<Rightarrow> outbox \<Rightarrow> outbox \<Rightarrow> bool" where
  "progress tr s s' \<longleftrightarrow> (\<exists>zs. ob_sent s' = ob_sent s @ zs) \<and> list_all2 (marked tr s s') (ob_table s) (ob_table s')"

lemma accepted_between_mono:
  "accepted_between tr s t i \<Longrightarrow> ob_sent u = ob_sent t @ zs \<Longrightarrow> accepted_between tr s u i"
  "accepted_between tr t u i \<Longrightarrow> ob_sent t = ob_sent s @ zs \<Longrightarrow> accepted_between tr s u i"
  unfolding accepted_between_def by (auto, metis append.assoc append_Cons, metis append.assoc)

lemma progress_refl: "progress tr s s"
  by (simp add: progress_def marked_def list_all2_refl)

lemma marked_columns: "marked tr s t r r' \<Longrightarrow> ox_artifact_id r' = ox_artifact_id r \<and> ox_artifact_type r' = ox_artifact_type r"
  by (auto simp: marked_def)

lemma marked_trans:
  assumes "marked tr s t r r'" and "marked tr t u r' r''" and "ob_sent t = ob_sent s @ xs" and "ob_sent u = ob_sent t @ ys"
  shows "marked tr s u r r''"
  using assms(1,2) accepted_between_mono(1) [OF _ assms(4)] accepted_between_mono(2) [OF _ assms(3)]
  by (auto simp: marked_def)

lemma progress_trans:
  assumes "progress tr s t" and "progress tr t u"
  shows "progress tr s u"
proof -
  obtain xs ys where xs: "ob_sent t = ob_sent s @ xs" "ob_sent u = ob_sent t @ ys" using assms by (auto simp: progress_def)
  have "list_all2 (marked tr s u) (ob_table s) (ob_table u)"
    using assms xs by (auto simp: progress_def intro: list_all2_trans [OF marked_trans])
  then show ?thesis using xs by (simp add: progress_def)
qed

lemma progress_ids:
  assumes "progress tr s t"
  shows "map ox_artifact_id (ob_table t) = map ox_artifact_id (ob_table s)"
proof -
  have "list_all2 (marked tr s t) (ob_table s) (ob_table t)" using assms by (simp add: progress_def)
  then show ?thesis by (induction rule: list_all2_induct) (auto dest: marked_columns)
qed

definition ids_ok :: "outbox \<Rightarrow> bool" where
  "ids_ok s \<longleftrightarrow> distinct (map ox_artifact_id (ob_table s))"

lemma ids_ok_progress: "progress tr s t \<Longrightarrow> ids_ok s \<Longrightarrow> ids_ok t"
  by (simp add: ids_ok_def progress_ids)

text \<open>A run that progresses, and one that answers with success only for accepted artifacts.\<close>

definition progresses :: "artifact_transport \<Rightarrow> (outbox, 'a) io \<Rightarrow> bool" where
  "progresses tr m \<longleftrightarrow> (\<forall>s. ids_ok s \<longrightarrow> progress tr s (snd (m s)))"

definition sound_push :: "artifact_transport \<Rightarrow> (outbox_artifact \<Rightarrow> (outbox, artifact_result) io) \<Rightarrow> bool" where
  "sound_push tr push \<longleftrightarrow> (\<forall>a s. ids_ok s \<longrightarrow> progress tr s (snd (push a s)) \<and>
     (fst (push a s) = Inr PushOk \<longrightarrow> oa_artifactType a = EventArtifact \<or> accepted_between tr s (snd (push a s)) (oa_artifactId a)))"

lemma progresses_bind:
  assumes "progresses tr m" and "\<And>x. progresses tr (f x)"
  shows "progresses tr (bind_io m f)"
  unfolding progresses_def bind_io_def
proof (intro allI impI)
  fix s assume ok: "ids_ok s"
  obtain r t where r: "m s = (r, t)" by fastforce
  then have t: "progress tr s t" using assms(1) ok by (auto simp: progresses_def dest: spec [of _ s])
  show "progress tr s (snd (case m s of (Inl e, s') \<Rightarrow> (Inl e, s') | (Inr a, s') \<Rightarrow> f a s'))"
    using r t assms(2) ids_ok_progress [OF t ok] by (cases r) (auto simp: progresses_def intro: progress_trans)
qed

lemma progresses_pure [simp]: "progresses tr (return_io x)" "progresses tr (lift_io y)" "progresses tr (read_io g)"
  by (simp_all add: progresses_def progress_refl)

lemma transport_step:
  assumes "pushArtifactToTransport tr a s = (r, s')"
  shows "progress tr s s'" and "r = Inr Accepted \<Longrightarrow> oa_artifactType a = EventArtifact \<or> accepted_between tr s s' (oa_artifactId a)"
proof -
  have cases: "oa_artifactType a = EventArtifact \<and> s' = s \<or>
      r = tr (ob_sent s) a \<and> s' = s\<lparr>ob_sent := ob_sent s @ [a]\<rparr>"
    using assms by (cases "oa_artifactType a") (auto simp: pushArtifactToTransport_def)
  then show "progress tr s s'" by (auto simp: progress_def marked_def list_all2_refl)
  show "oa_artifactType a = EventArtifact \<or> accepted_between tr s s' (oa_artifactId a)" if "r = Inr Accepted"
    using cases that by (force simp: accepted_between_def)
qed

lemma progresses_transport: "progresses tr (pushArtifactToTransport tr a)"
  using transport_step(1) [of tr a] by (metis progresses_def prod.collapse)

text \<open>Marking a row after a successful push of the artifact it holds.\<close>

lemma mark_step:
  assumes "progress tr s t" and "ids_ok s" and "r \<in> set (ob_table s)" and "ox_artifact_id r = i"
    and "ox_artifact_type r = EventArtifact \<or> accepted_between tr s t i"
  shows "progress tr s (ob_table_update (markPushed i) t)"
proof -
  have "marked tr s t x (if ox_artifact_id y = i then y\<lparr>ox_status := PushedArtifact\<rparr> else y)"
    if "marked tr s t x y" "x \<in> set (ob_table s)" for x y
    using that assms(3-5) map_inj_on_eq [OF assms(2) [unfolded ids_ok_def], of x r] marked_columns [OF that(1)] by (auto simp: marked_def)
  then have "list_all2 (marked tr s t) (ob_table s) (markPushed i (ob_table t))"
    using assms(1) unfolding markPushed_def progress_def list_all2_conv_all_nth by (auto dest: nth_mem)
  moreover have "marked tr s (ob_table_update u t) = marked tr s t" for u
    by (simp add: marked_def accepted_between_def fun_eq_iff)
  ultimately show ?thesis using assms(1) by (simp add: progress_def)
qed

lemma resolve_progresses:
  assumes "sound_push tr push"
  shows "progresses tr (resolve_with push deps)"
proof (induction deps)
  case (Cons i deps)
  show ?case
    unfolding progresses_def
  proof (intro allI impI)
    fix s assume ok: "ids_ok s"
    show "progress tr s (snd (resolve_with push (i # deps) s))"
    proof (cases "find (\<lambda>r. ox_artifact_id r = i) (ob_table s)")
      case None
      then show ?thesis by (simp add: bind_io_def outbox_loadById_def progress_refl)
    next
      case (Some r)
      then have r: "r \<in> set (ob_table s)" "ox_artifact_id r = i" by (auto dest: find_Some_mem)
      show ?thesis
      proof (cases "artifact_of_row r")
        case (Inl e)
        then show ?thesis using Some by (simp add: bind_io_def outbox_loadById_def progress_refl)
      next
        case (Inr a)
        obtain res t where push: "push a s = (res, t)" by fastforce
        have t: "progress tr s t" using assms push ok unfolding sound_push_def by (metis snd_conv)
        show ?thesis
        proof (cases "res = Inr PushOk")
          case True
          then have "ox_artifact_type r = EventArtifact \<or> accepted_between tr s t i"
            using assms push ok artifact_of_row_columns [OF Inr] r(2) unfolding sound_push_def by (metis fst_conv snd_conv)
          then have m: "progress tr s (ob_table_update (markPushed i) t)" using mark_step [OF t ok r] by simp
          then show ?thesis
            using Cons.IH Some Inr push True ids_ok_progress [OF m ok]
            by (auto simp: bind_io_def outbox_loadById_def progresses_def intro: progress_trans)
        next
          case False
          then show ?thesis using Some Inr push t by (cases res) (auto simp: bind_io_def outbox_loadById_def)
        qed
      qed
    qed
  qed
qed (simp add: progresses_def progress_refl)

lemma push_try_sound:
  assumes "\<And>deps. progresses tr (resolve deps)"
  shows "sound_push tr (\<lambda>a. catch_push (push_try tr resolve a))"
  unfolding sound_push_def
proof (intro allI impI)
  fix a s assume ok: "ids_ok s"
  obtain r1 s1 where r1: "pushArtifactToTransport tr a s = (r1, s1)" by fastforce
  note p1 = transport_step [OF r1]
  show "progress tr s (snd (catch_push (push_try tr resolve a) s)) \<and>
     (fst (catch_push (push_try tr resolve a) s) = Inr PushOk \<longrightarrow>
      oa_artifactType a = EventArtifact \<or> accepted_between tr s (snd (catch_push (push_try tr resolve a) s)) (oa_artifactId a))"
  proof (cases "\<exists>ds. r1 = Inr (MissingDeps ds)")
    case False
    then show ?thesis
      using p1 r1 by (cases r1; cases "projr r1") (auto simp: push_try_def catch_push_def bind_io_def)
  next
    case True
    then obtain ds where ds: "r1 = Inr (MissingDeps ds)" by blast
    obtain r2 s2 where r2: "resolve ds s1 = (r2, s2)" by fastforce
    have p2: "progress tr s s2"
      using assms [of ds] r2 ids_ok_progress [OF p1(1) ok] progress_trans [OF p1(1)] unfolding progresses_def by (metis snd_conv)
    obtain r3 s3 where r3: "pushArtifactToTransport tr a s2 = (r3, s3)" by fastforce
    note p3 = transport_step [OF r3]
    have p4: "progress tr s s3" using progress_trans [OF p2 p3(1)] .
    have acc: "oa_artifactType a = EventArtifact \<or> accepted_between tr s s3 (oa_artifactId a)" if "r3 = Inr Accepted"
      using p3(2) [OF that] p2 accepted_between_mono(2) unfolding progress_def by blast
    have run: "catch_push (push_try tr resolve a) s =
        (case r2 of Inl e \<Rightarrow> (Inr (PushFailed (error_text e)), s2)
         | Inr False \<Rightarrow> (Inr (PushFailed (''Cannot resolve missing dependencies: '' @ join_texts '', '' ds)), s2)
         | Inr True \<Rightarrow> (case r3 of Inl e \<Rightarrow> (Inr (PushFailed (error_text e)), s3)
             | Inr Accepted \<Rightarrow> (Inr PushOk, s3)
             | Inr (MissingDeps _) \<Rightarrow> (Inr (PushFailed ''Push failed after resolving dependencies: missing_deps''), s3)))"
      using r1 r2 r3 ds by (auto simp: push_try_def catch_push_def bind_io_def split: sum.split artifact_response.split bool.split)
    show ?thesis unfolding run using p2 p4 acc by (auto split: sum.split artifact_response.split bool.split)
  qed
qed

lemma push_at_sound: "sound_push tr (push_at tr n)"
proof (induction n)
  case 0
  then show ?case by (simp add: sound_push_def progress_refl)
next
  case (Suc n)
  have "push_at tr (Suc n) = (\<lambda>a. catch_push (push_try tr (resolve_with (push_at tr n)) a))" by (simp add: fun_eq_iff)
  then show ?case by (simp only: push_try_sound [OF resolve_progresses [OF Suc]])
qed

definition rows_for :: "outbox_artifact list \<Rightarrow> outbox \<Rightarrow> bool" where
  "rows_for as s \<longleftrightarrow> (\<forall>a \<in> set as. \<exists>r \<in> set (ob_table s). ox_artifact_id r = oa_artifactId a \<and> ox_artifact_type r = oa_artifactType a)"

lemma rows_for_progress:
  assumes "progress tr s t" and "rows_for as s"
  shows "rows_for as t"
proof -
  have l: "list_all2 (marked tr s t) (ob_table s) (ob_table t)" using assms(1) by (simp add: progress_def)
  have "\<exists>r' \<in> set (ob_table t). ox_artifact_id r' = ox_artifact_id r \<and> ox_artifact_type r' = ox_artifact_type r"
    if "r \<in> set (ob_table s)" for r
    using list_all2_nthD [OF l] list_all2_lengthD [OF l] that marked_columns by (metis in_set_conv_nth)
  then show ?thesis using assms(2) unfolding rows_for_def by metis
qed

lemma push_sorted_progress:
  "ids_ok s \<Longrightarrow> rows_for as s \<Longrightarrow> progress tr s (snd (push_sorted tr as n s))"
proof (induction as arbitrary: n s)
  case Nil
  then show ?case by (simp add: progress_refl)
next
  case (Cons a as)
  obtain res t where push: "pushArtifact tr a s = (res, t)" by fastforce
  have sound: "progress tr s t" "res = Inr PushOk \<Longrightarrow> oa_artifactType a = EventArtifact \<or> accepted_between tr s t (oa_artifactId a)"
    using push_at_sound [of tr "MAX_DEPENDENCY_RESOLUTION_DEPTH + 1"] push Cons.prems(1)
    unfolding sound_push_def pushArtifact_def by (metis fst_conv snd_conv)+
  show ?case
  proof (cases "res = Inr PushOk")
    case True
    obtain r where r: "r \<in> set (ob_table s)" "ox_artifact_id r = oa_artifactId a" "ox_artifact_type r = oa_artifactType a"
      using Cons.prems(2) by (auto simp: rows_for_def)
    have m: "progress tr s (ob_table_update (markPushed (oa_artifactId a)) t)"
      using mark_step [OF sound(1) Cons.prems(1) r(1,2)] sound(2) [OF True] r(3) by simp
    have "rows_for as s" using Cons.prems(2) by (simp add: rows_for_def)
    then have "progress tr s (snd (push_sorted tr as (n + 1) (ob_table_update (markPushed (oa_artifactId a)) t)))"
      using Cons.IH [OF ids_ok_progress [OF m Cons.prems(1)] rows_for_progress [OF m]] progress_trans [OF m] by blast
    then show ?thesis using push True by (simp add: bind_io_def)
  next
    case False
    then show ?thesis using push sound(1) by (cases res) (auto simp: bind_io_def)
  qed
qed

lemma pending_rows:
  assumes "loadPending (ob_table s) = Inr as" and "set r \<subseteq> set as"
  shows "rows_for r s"
proof -
  have l: "list_all2 (\<lambda>x y. artifact_of_row x = Inr y) (sort_key ox_enqueued_at (filter (\<lambda>r. ox_status r = PendingArtifact) (ob_table s))) as"
    using assms(1) map_result_list_all2 unfolding loadPending_def by blast
  have "\<exists>x \<in> set (ob_table s). artifact_of_row x = Inr a" if a: "a \<in> set as" for a
  proof -
    let ?rows = "sort_key ox_enqueued_at (filter (\<lambda>r. ox_status r = PendingArtifact) (ob_table s))"
    obtain n where n: "n < length as" "as ! n = a" using a by (metis in_set_conv_nth)
    then have "artifact_of_row (?rows ! n) = Inr a" using list_all2_nthD2 [OF l n(1)] by simp
    moreover have "?rows ! n \<in> set ?rows" using list_all2_lengthD [OF l] n(1) by (intro nth_mem) simp
    moreover have "set ?rows \<subseteq> set (ob_table s)" by auto
    ultimately show ?thesis by blast
  qed
  then show ?thesis using assms(2) artifact_of_row_columns unfolding rows_for_def by (metis subsetD)
qed

lemma reduce_queue: "reduce is (d, q) = (d', q') \<Longrightarrow> set q' \<subseteq> set q \<union> set is"
proof (induction "is" arbitrary: d q)
  case (Cons i "is")
  then have "set q' \<subseteq> set (if degree d i - 1 = 0 then q @ [i] else q) \<union> set is" by (simp add: Let_def)
  then show ?case by (auto split: if_splits)
qed simp

lemma kahn_subset:
  "\<forall>j. set (dependents adj j) \<subseteq> K \<Longrightarrow> set q \<subseteq> K \<Longrightarrow> set (kahn adj d q) \<subseteq> K"
proof (induction adj d q rule: kahn.induct)
  case (2 adj d i q)
  obtain d' q' where red: "reduce (dependents adj i) (d, q) = (d', q')" by fastforce
  have "set q' \<subseteq> K" using reduce_queue [OF red] 2(2,3) by auto
  then show ?case using 2(1) [OF red [symmetric] 2(2)] red 2(3) by simp
qed simp

lemma graph_sort_subset:
  assumes "graph_sort as pushed = Inr r" and ids: "distinct (map oa_artifactId as)"
  shows "set r \<subseteq> set as"
proof -
  let ?K = "oa_artifactId ` set as"
  let ?st = "(fold (\<lambda>a. AList.update (oa_artifactId a) 0) as [], fold (\<lambda>a. AList.update (oa_artifactId a) []) as []) :: degrees \<times> adjacency"
  have sat: "\<forall>a \<in> set as. \<forall>x \<in> set (oa_dependencies a). satisfied ?K pushed x"
  proof (rule ccontr)
    assume "\<not> (\<forall>a \<in> set as. \<forall>x \<in> set (oa_dependencies a). satisfied ?K pushed x)"
    then obtain e where "build_graph pushed as = Inl e" using build_graph_missing unfolding all_satisfied_def by blast
    then show False using assms(1) by (simp add: graph_sort_def)
  qed
  have keys: "map fst (fst ?st) = map oa_artifactId as" using fold_update_keys [of "[]"] ids by simp
  have start: "dependents (snd ?st) k = []" for k using fold_update_dependents [of "[]"] by (simp add: dependents_def)
  obtain d adj where b: "build_graph pushed as = Inr (d, adj)" "map fst d = map oa_artifactId as" "\<forall>j. set (dependents adj j) \<subseteq> ?K"
    using add_artifacts [OF ids, of ?st ?K pushed] sat start keys by (fastforce simp: build_graph_def)
  have "set (initial_queue d) \<subseteq> set (map fst d)" by (auto simp: initial_queue_def)
  then have "set (kahn adj d (initial_queue d)) \<subseteq> ?K" using kahn_subset [OF b(3)] b(2) by simp
  moreover have "r = map (\<lambda>i. the (map_of (artifact_map as) i)) (kahn adj d (initial_queue d))"
    using assms(1) b(1) by (auto simp: graph_sort_def initial_queue_def Let_def split: if_splits)
  ultimately show ?thesis using artifact_map_lookup [OF ids] by force
qed

lemma pending_distinct:
  assumes "loadPending (ob_table s) = Inr as" and "ids_ok s"
  shows "distinct (map oa_artifactId as)"
proof -
  have "map oa_artifactId as = map ox_artifact_id (sort_key ox_enqueued_at (filter (\<lambda>r. ox_status r = PendingArtifact) (ob_table s)))"
    using map_result_ids assms(1) unfolding loadPending_def by blast
  moreover have "mset (map ox_artifact_id (sort_key ox_enqueued_at xs)) = mset (map ox_artifact_id xs)" for xs by simp
  ultimately show ?thesis
    using assms(2) unfolding ids_ok_def by (metis distinct_map_filter mset_eq_imp_distinct_iff)
qed

text \<open>
  C35: whatever the server answers, and whether the push succeeds, fails half way or gives up on missing
  dependencies: a row that is pending before a push of the outbox stays as it is unless the server
  accepted its artifact during this push or it is an event, which goes another way; and every row, also
  of an earlier push, is kept, as it was or marked as pushed, unless it was enqueued more than a day ago.
\<close>

theorem outbox_marks_accepted:
  assumes "ids_ok s" and "outbox_push tr now s = (res, s')" and "r \<in> set (ob_table s)"
  shows "(ox_status r = PendingArtifact \<longrightarrow>
       r \<in> set (ob_table s') \<or> ox_artifact_type r = EventArtifact \<or> accepted_between tr s s' (ox_artifact_id r)) \<and>
    (r \<in> set (ob_table s') \<or> r\<lparr>ox_status := PushedArtifact\<rparr> \<in> set (ob_table s') \<or> ox_enqueued_at r < now - 24 * 60 * 60 * 1000)"
proof -
  have keep: "r \<in> set (ob_table t) \<or> r\<lparr>ox_status := PushedArtifact\<rparr> \<in> set (ob_table t) \<and>
      (ox_artifact_type r = EventArtifact \<or> accepted_between tr s t (ox_artifact_id r))"
    if t: "progress tr s t" for t
  proof -
    have l: "list_all2 (marked tr s t) (ob_table s) (ob_table t)" using t by (simp add: progress_def)
    obtain n where n: "n < length (ob_table s)" "ob_table s ! n = r" using assms(3) by (auto simp: in_set_conv_nth)
    have "marked tr s t r (ob_table t ! n)" using list_all2_nthD [OF l n(1)] n(2) by simp
    moreover have "ob_table t ! n \<in> set (ob_table t)" using list_all2_lengthD [OF l] n(1) by (intro nth_mem) simp
    ultimately show ?thesis by (auto simp: marked_def)
  qed
  show ?thesis
  proof (cases "\<exists>as q. loadPending (ob_table s) = Inr as \<and> as \<noteq> [] \<and> graph_sort as (Some (loadPushedIds (ob_table s))) = Inr q")
    case False
    then have "s' = s"
      using assms(2) by (cases "loadPending (ob_table s)")
        (auto simp: outbox_push_def bind_io_def split: sum.splits if_splits)
    then show ?thesis using assms(3) by simp
  next
    case True
    then obtain as q where q: "loadPending (ob_table s) = Inr as" "as \<noteq> []" "graph_sort as (Some (loadPushedIds (ob_table s))) = Inr q"
      by blast
    have "rows_for q s" using pending_rows [OF q(1)] graph_sort_subset [OF q(3) pending_distinct [OF q(1) assms(1)]] by blast
    obtain r2 t where t: "push_sorted tr q 0 s = (r2, t)" by fastforce
    have p: "progress tr s t" using push_sorted_progress [OF assms(1) \<open>rows_for q s\<close>, of tr 0] t by simp
    have "s' = t \<or> s' = ob_table_update (clearPushed (now - 24 * 60 * 60 * 1000)) t"
      using assms(2) q t by (cases r2) (auto simp: outbox_push_def bind_io_def)
    moreover have "accepted_between tr s (ob_table_update f t) i = accepted_between tr s t i" for f i by (simp add: accepted_between_def)
    ultimately show ?thesis using keep [OF p] by (auto simp: clearPushed_def)
  qed
qed

subsection \<open>Cleaning\<close>

lemma artifact_of_row_of [simp]: "artifact_of_row (row_of_artifact b) = Inr b" "ox_status (row_of_artifact b) = oa_status b"
  by (simp_all add: artifact_of_row_def row_of_artifact_def comp_def del: json_stringify.simps)

lemma loadPending_enqueue:
  assumes "\<forall>r \<in> set t. ox_status r = PushedArtifact" and "oa_status b = PendingArtifact"
  shows "loadPending (outbox_enqueue b t) = Inr [b]"
proof -
  have "filter (\<lambda>r. ox_status r = PendingArtifact) (filter (\<lambda>r. ox_artifact_id r \<noteq> oa_artifactId b) t) = []"
    using assms(1) by (auto simp: filter_empty_conv)
  then show ?thesis using assms(2) by (simp add: loadPending_def outbox_enqueue_def)
qed

text \<open>
  The cleaning of the outbox forgets what the server has: when the only pending artifact was
  enqueued more than a day ago, a push sends it and deletes its row at once, and a new artifact
  that depends on it is then refused by every later push without being sent, whatever the server
  would answer.
\<close>

theorem outbox_cleanup_blocks:
  assumes "ids_ok s" and "loadPending (ob_table s) = Inr [a]" and "distinct (oa_dependencies a)" and "sortable [a] (loadPushedIds (ob_table s))"
    and "accepting tr" and "oa_enqueuedAt a < now - 24 * 60 * 60 * 1000"
    and "oa_status b = PendingArtifact" and "oa_artifactId a \<in> set (oa_dependencies b)" and "oa_artifactId b \<noteq> oa_artifactId a"
    and "distinct (oa_dependencies b)"
  shows "\<exists>s1. outbox_push tr now s = (Inr (1, 0), s1) \<and> ob_sent s1 = ob_sent s @ requests [a] \<and>
     (\<forall>tr' now' s2. crypto_enqueue b s1 = (Inr (), s2) \<longrightarrow> outbox_push tr' now' s2 = (Inr (0, 1), s2))"
proof -
  let ?p = "loadPushedIds (ob_table s)" and ?T = "now - 24 * 60 * 60 * 1000"
  have ia: "outbox_input [a]" "outbox_input [b]" using assms(3,10) by (simp_all add: outbox_input_def)
  obtain r where r: "graph_sort [a] (Some ?p) = Inr r" "mset r = mset [a]" using graph_sort_sortable(1) [OF ia(1) assms(4)] by blast
  then have r1: "graph_sort [a] (Some ?p) = Inr [a]" by simp
  let ?s1 = "s\<lparr>ob_sent := ob_sent s @ requests [a], ob_table := clearPushed ?T (markPushed (oa_artifactId a) (ob_table s))\<rparr>"
  have run: "outbox_push tr now s = (Inr (1, 0), ?s1)"
    using assms(2) r1 by (simp add: outbox_push_def bind_io_def pushArtifact_accepting [OF assms(5)])
  have l: "list_all2 (\<lambda>x y. artifact_of_row x = Inr y) (sort_key ox_enqueued_at (filter (\<lambda>r. ox_status r = PendingArtifact) (ob_table s))) [a]"
    using assms(2) map_result_list_all2 unfolding loadPending_def by blast
  then obtain x where x: "sort_key ox_enqueued_at (filter (\<lambda>r. ox_status r = PendingArtifact) (ob_table s)) = [x]" "artifact_of_row x = Inr a"
    by (auto simp: list_all2_Cons2)
  then have "set (filter (\<lambda>r. ox_status r = PendingArtifact) (ob_table s)) = {x}" by (metis set_sort list.set(1) list.simps(15))
  then have pend: "y \<in> set (ob_table s) \<and> ox_status y = PendingArtifact \<longleftrightarrow> y = x" for y by auto
  have xa: "ox_artifact_id x = oa_artifactId a" "ox_enqueued_at x = oa_enqueuedAt a"
    using x(2) by (auto simp: artifact_of_row_def split: option.splits json.splits)
  have only: "y = x" if "y \<in> set (ob_table s)" "ox_artifact_id y = oa_artifactId a" for y
    using that map_inj_on_eq [OF assms(1) [unfolded ids_ok_def], of y x] pend [of x] xa(1) by simp
  have status: "ox_status y = PushedArtifact" "ox_artifact_id y \<noteq> oa_artifactId a" if y: "y \<in> set (ob_table ?s1)" for y
  proof -
    obtain z where z: "z \<in> set (ob_table s)" "y = (if ox_artifact_id z = oa_artifactId a then z\<lparr>ox_status := PushedArtifact\<rparr> else z)"
      "\<not> (ox_status y = PushedArtifact \<and> ox_enqueued_at y < ?T)"
      using y by (auto simp: clearPushed_def markPushed_def)
    have "ox_artifact_id z \<noteq> oa_artifactId a" using z only [of z] xa(2) assms(6) by auto
    then show "ox_status y = PushedArtifact" "ox_artifact_id y \<noteq> oa_artifactId a"
      using z pend [of z] xa(1) by (cases "ox_status z"; auto)+
  qed
  have blocked: "outbox_push tr' now' s2 = (Inr (0, 1), s2)" if s2: "crypto_enqueue b ?s1 = (Inr (), s2)" for tr' now' s2
  proof -
    have t: "ob_table s2 = outbox_enqueue b (ob_table ?s1)" using s2 by (auto simp: crypto_enqueue_def)
    have lb: "loadPending (ob_table s2) = Inr [b]" unfolding t using loadPending_enqueue [OF _ assms(7)] status(1) by blast
    have "oa_artifactId a \<notin> set (loadPushedIds (ob_table s2))"
      unfolding t using status(2) assms(7) by (fastforce simp: loadPushedIds_def outbox_enqueue_def)
    then have "\<not> sortable [b] (loadPushedIds (ob_table s2))" using assms(8,9) unfolding sortable_def by fastforce
    then obtain e where "graph_sort [b] (Some (loadPushedIds (ob_table s2))) = Inl e" using graph_sort_sortable(2) [OF ia(2)] by blast
    then show ?thesis using lb by (simp add: outbox_push_def bind_io_def)
  qed
  show ?thesis using run blocked by (intro exI [of _ ?s1]) simp
qed

subsection \<open>Concrete outboxes\<close>

definition sample_artifact :: "string \<Rightarrow> artifact_type \<Rightarrow> string list \<Rightarrow> int \<Rightarrow> outbox_artifact" where
  "sample_artifact i k deps at = \<lparr>oa_artifactId = i, oa_artifactType = k, oa_payload = ''{}'', oa_dependencies = deps,
     oa_status = PendingArtifact, oa_enqueuedAt = at\<rparr>"

definition state_artifact :: outbox_artifact where
  "state_artifact = sample_artifact ''state'' ScopeStateArtifact [] 2"

definition grant_artifact :: outbox_artifact where
  "grant_artifact = sample_artifact ''grant'' GrantArtifact [''state''] 1"

definition sample_outbox :: "outbox_artifact list \<Rightarrow> outbox" where
  "sample_outbox as = \<lparr>ob_table = map row_of_artifact as, ob_sent = []\<rparr>"

lemma sample_outbox_facts:
  "loadPending (ob_table (sample_outbox [state_artifact, grant_artifact])) = Inr [grant_artifact, state_artifact]"
  "loadPending (ob_table (sample_outbox [state_artifact])) = Inr [state_artifact]"
  "loadPushedIds (ob_table (sample_outbox [state_artifact, grant_artifact])) = []"
  "loadPushedIds (ob_table (sample_outbox [state_artifact])) = []"
  "outbox_input [grant_artifact, state_artifact]"
  "sortable [grant_artifact, state_artifact] []" "sortable [state_artifact] []"
proof -
  have at: "ox_enqueued_at (row_of_artifact x) = oa_enqueuedAt x" "ox_artifact_id (row_of_artifact x) = oa_artifactId x" for x
    by (simp_all add: row_of_artifact_def)
  note defs = sample_outbox_def state_artifact_def grant_artifact_def sample_artifact_def
  show "loadPending (ob_table (sample_outbox [state_artifact, grant_artifact])) = Inr [grant_artifact, state_artifact]"
    "loadPending (ob_table (sample_outbox [state_artifact])) = Inr [state_artifact]"
    "loadPushedIds (ob_table (sample_outbox [state_artifact, grant_artifact])) = []"
    "loadPushedIds (ob_table (sample_outbox [state_artifact])) = []"
    "outbox_input [grant_artifact, state_artifact]"
    by (simp_all add: loadPending_def loadPushedIds_def outbox_input_def at defs)
  have "{(j, i). depends_on [grant_artifact, state_artifact] j i} \<subseteq> measure (\<lambda>i. if i = ''grant'' then 1 else 0)"
    by (auto simp: depends_on_def defs)
  then have "acyclic {(j, i). depends_on [grant_artifact, state_artifact] j i}" using wf_acyclic acyclic_subset wf_measure by blast
  then show "sortable [grant_artifact, state_artifact] []" by (simp add: sortable_def defs)
  have "{(j, i). depends_on [state_artifact] j i} = {}" by (simp add: depends_on_def defs)
  then show "sortable [state_artifact] []" by (simp add: sortable_def defs acyclic_def)
qed

theorem outbox_push_all_witness:
  "\<exists>r s'. outbox_push (\<lambda>_ _. Inr Accepted) 0 (sample_outbox [state_artifact, grant_artifact]) = (Inr (2, 0), s') \<and>
     mset r = mset [grant_artifact, state_artifact] \<and> dependencies_first r [] \<and> loadPending (ob_table s') = Inr []"
  using outbox_push_all [OF sample_outbox_facts(1) _ sample_outbox_facts(5), of "\<lambda>_ _. Inr Accepted" 0]
  by (auto simp: sample_outbox_facts accepting_def)

theorem outbox_marks_accepted_witness:
  "\<exists>res s'. outbox_push (\<lambda>_ _. Inl (Error ''offline'')) 0 (sample_outbox [state_artifact, grant_artifact]) = (res, s') \<and>
     row_of_artifact grant_artifact \<in> set (ob_table s')"
proof -
  let ?s = "sample_outbox [state_artifact, grant_artifact]" and ?tr = "\<lambda>_ _. Inl (Error ''offline'') :: artifact_response result"
  obtain res s' where run: "outbox_push ?tr 0 ?s = (res, s')" by fastforce
  have "ids_ok ?s" "row_of_artifact grant_artifact \<in> set (ob_table ?s)" "ox_status (row_of_artifact grant_artifact) = PendingArtifact"
    "ox_artifact_type (row_of_artifact grant_artifact) \<noteq> EventArtifact"
    by (simp_all add: ids_ok_def sample_outbox_def row_of_artifact_def state_artifact_def grant_artifact_def sample_artifact_def)
  then show ?thesis
    using outbox_marks_accepted [OF _ run, of "row_of_artifact grant_artifact"] run by (auto simp: accepted_between_def)
qed

theorem outbox_cleanup_blocks_witness:
  "\<exists>s1. outbox_push (\<lambda>_ _. Inr Accepted) 100000000 (sample_outbox [state_artifact]) = (Inr (1, 0), s1) \<and>
     (\<forall>tr' now' s2. crypto_enqueue grant_artifact s1 = (Inr (), s2) \<longrightarrow> outbox_push tr' now' s2 = (Inr (0, 1), s2))"
proof -
  have "ids_ok (sample_outbox [state_artifact])" by (simp add: ids_ok_def sample_outbox_def)
  moreover have "distinct (oa_dependencies state_artifact)" "oa_enqueuedAt state_artifact = 2" "oa_artifactId state_artifact = ''state''"
    "oa_status grant_artifact = PendingArtifact" "oa_dependencies grant_artifact = [''state'']" "oa_artifactId grant_artifact = ''grant''"
    by (simp_all add: state_artifact_def grant_artifact_def sample_artifact_def)
  ultimately show ?thesis
    using outbox_cleanup_blocks [of "sample_outbox [state_artifact]" state_artifact "\<lambda>_ _. Inr Accepted" 100000000 grant_artifact]
    by (auto simp: sample_outbox_facts accepting_def)
qed

end
