(* ===== verification/SharingVerify.thy ===== *)
theory SharingVerify
  imports KeyStore Base64
begin

text \<open>
  Verification of shared artifacts on a device (packages/infrastructure/src/sharing): the caches
  of verified scope states and grants (stores), the manifests that are signed (sync/ManifestCodec.ts)
  and the verification of scope states and events (verification). The CBOR encoder, the signature
  check and SHA-256 are fields of the environment; \<open>Buffer\<close> is available, as the code presupposes.
\<close>

subsection \<open>Members and signers\<close>

record scope_member_info =
  smi_userId :: string
  smi_role :: string

record scope_signer =
  ssg_deviceId :: string
  ssg_userId :: string
  ssg_sigSuite :: string
  ssg_pubKeys :: "(string \<times> bytes) list"

definition members_json :: "scope_member_info list \<Rightarrow> string" where
  "members_json ms = json_stringify (JArr (map (\<lambda>m. JObj [(''userId'', JStr (smi_userId m)), (''role'', JStr (smi_role m))]) ms))"

definition signers_json :: "scope_signer list \<Rightarrow> string" where
  "signers_json ss = json_stringify (JArr (map (\<lambda>s. JObj
     [(''deviceId'', JStr (ssg_deviceId s)), (''userId'', JStr (ssg_userId s)), (''sigSuite'', JStr (ssg_sigSuite s)),
      (''pubKeys'', JObj (map (\<lambda>(k, v). (k, JStr (base64 v))) (ssg_pubKeys s)))]) ss))"

text \<open>\<open>JSON.parse\<close> with a cast; the columns are written by \<open>verifyScopeState\<close> only.\<close>

definition json_field_text :: "string \<Rightarrow> json \<Rightarrow> string" where
  "json_field_text k j = (case json_get k j of Some v \<Rightarrow> js_string v | None \<Rightarrow> ''undefined'')"

definition parse_array :: "(json \<Rightarrow> 'a) \<Rightarrow> string \<Rightarrow> 'a list result" where
  "parse_array f s = (case json_parse s of Some (JArr js) \<Rightarrow> Inr (map f js) | _ \<Rightarrow> Inl (Error ''SyntaxError''))"

definition parseMembers :: "string \<Rightarrow> scope_member_info list result" where
  "parseMembers = parse_array (\<lambda>j. \<lparr>smi_userId = json_field_text ''userId'' j, smi_role = json_field_text ''role'' j\<rparr>)"

definition parse_pubKeys :: "json option \<Rightarrow> (string \<times> bytes) list" where
  "parse_pubKeys j = (case j of Some (JObj ms) \<Rightarrow> map (\<lambda>(k, v). (k, buffer_from_base64 (js_string v))) ms | _ \<Rightarrow> [])"

definition parseSigners :: "string \<Rightarrow> scope_signer list result" where
  "parseSigners = parse_array (\<lambda>j. \<lparr>ssg_deviceId = json_field_text ''deviceId'' j, ssg_userId = json_field_text ''userId'' j,
     ssg_sigSuite = json_field_text ''sigSuite'' j, ssg_pubKeys = parse_pubKeys (json_get ''pubKeys'' j)\<rparr>)"

subsection \<open>ScopeStateStore\<close>

record verified_scope_state =
  vss_scopeStateRef :: bytes
  vss_scopeId :: string
  vss_scopeStateSeq :: int
  vss_membersJson :: string
  vss_signersJson :: string
  vss_signature :: bytes
  vss_verifiedAt :: int

record cached_state_row =
  sr_scope_state_ref :: bytes
  sr_scope_id :: string
  sr_scope_state_seq :: string
  sr_members_json :: string
  sr_signers_json :: string
  sr_signature :: bytes
  sr_verified_at :: int

text \<open>\<open>BigInt(text)\<close>\<close>

definition bigint_of :: "string \<Rightarrow> int" where
  "bigint_of s = (case s of [] \<Rightarrow> 0 | c # t \<Rightarrow> if c = CHR ''-'' then - int (read_nat t) else int (read_nat s))"

definition state_of_row :: "cached_state_row \<Rightarrow> verified_scope_state" where
  "state_of_row row = \<lparr>vss_scopeStateRef = sr_scope_state_ref row, vss_scopeId = sr_scope_id row,
     vss_scopeStateSeq = bigint_of (sr_scope_state_seq row), vss_membersJson = sr_members_json row,
     vss_signersJson = sr_signers_json row, vss_signature = sr_signature row, vss_verifiedAt = sr_verified_at row\<rparr>"

definition row_of_state :: "verified_scope_state \<Rightarrow> cached_state_row" where
  "row_of_state s = \<lparr>sr_scope_state_ref = vss_scopeStateRef s, sr_scope_id = vss_scopeId s,
     sr_scope_state_seq = show_int (vss_scopeStateSeq s), sr_members_json = vss_membersJson s,
     sr_signers_json = vss_signersJson s, sr_signature = vss_signature s, sr_verified_at = vss_verifiedAt s\<rparr>"

definition scope_store :: "verified_scope_state \<Rightarrow> cached_state_row list \<Rightarrow> cached_state_row list" where
  "scope_store s t = filter (\<lambda>r. sr_scope_state_ref r \<noteq> vss_scopeStateRef s) t @ [row_of_state s]"

definition cached_loadByRef :: "bytes \<Rightarrow> cached_state_row list \<Rightarrow> verified_scope_state option" where
  "cached_loadByRef r t = map_option state_of_row (find (\<lambda>row. sr_scope_state_ref row = r) t)"

text \<open>The column \<open>scope_state_seq\<close> is TEXT, which SQLite compares character by character.\<close>

fun text_less :: "string \<Rightarrow> string \<Rightarrow> bool" where
  "text_less _ [] = False"
| "text_less [] (d # ds) = True"
| "text_less (c # cs) (d # ds) =
     ((of_char c :: nat) < of_char d \<or> c = d \<and> text_less cs ds)"

fun insert_by_seq :: "cached_state_row \<Rightarrow> cached_state_row list \<Rightarrow> cached_state_row list" where
  "insert_by_seq r [] = [r]"
| "insert_by_seq r (x # xs) = (if text_less (sr_scope_state_seq r) (sr_scope_state_seq x) then r # x # xs else x # insert_by_seq r xs)"

definition order_by_seq :: "cached_state_row list \<Rightarrow> cached_state_row list" where
  "order_by_seq rows = fold insert_by_seq rows []"

definition scope_loadByScopeId :: "string \<Rightarrow> cached_state_row list \<Rightarrow> verified_scope_state list" where
  "scope_loadByScopeId scopeId t = map state_of_row (order_by_seq (filter (\<lambda>r. sr_scope_id r = scopeId) t))"

definition scope_getHead :: "string \<Rightarrow> cached_state_row list \<Rightarrow> verified_scope_state option" where
  "scope_getHead scopeId t =
     (case rev (order_by_seq (filter (\<lambda>r. sr_scope_id r = scopeId) t)) of [] \<Rightarrow> None | row # _ \<Rightarrow> Some (state_of_row row))"

definition scope_exists :: "bytes \<Rightarrow> cached_state_row list \<Rightarrow> bool" where
  "scope_exists r t \<longleftrightarrow> 0 < length (filter (\<lambda>row. sr_scope_state_ref row = r) t)"

subsection \<open>ResourceGrantStore\<close>

datatype cached_grant_status = ActiveGrant | RevokedGrant

record verified_resource_grant =
  vrg_grantId :: string
  vrg_scopeId :: string
  vrg_resourceId :: string
  vrg_resourceKeyId :: string
  vrg_wrappedKey :: bytes
  vrg_scopeStateRef :: bytes
  vrg_status :: cached_grant_status
  vrg_verifiedAt :: int

definition grant_store :: "verified_resource_grant \<Rightarrow> verified_resource_grant list \<Rightarrow> verified_resource_grant list" where
  "grant_store g t = filter (\<lambda>r. vrg_grantId r \<noteq> vrg_grantId g) t @ [g]"

definition grant_loadById :: "string \<Rightarrow> verified_resource_grant list \<Rightarrow> verified_resource_grant option" where
  "grant_loadById grantId t = find (\<lambda>r. vrg_grantId r = grantId) t"

definition grant_loadByScopeId :: "string \<Rightarrow> bool \<Rightarrow> verified_resource_grant list \<Rightarrow> verified_resource_grant list" where
  "grant_loadByScopeId scopeId includeRevoked t =
     filter (\<lambda>r. vrg_scopeId r = scopeId \<and> (includeRevoked \<or> vrg_status r = ActiveGrant)) t"

definition grant_loadByResourceId :: "string \<Rightarrow> bool \<Rightarrow> verified_resource_grant list \<Rightarrow> verified_resource_grant list" where
  "grant_loadByResourceId resourceId includeRevoked t =
     filter (\<lambda>r. vrg_resourceId r = resourceId \<and> (includeRevoked \<or> vrg_status r = ActiveGrant)) t"

definition grant_exists :: "string \<Rightarrow> verified_resource_grant list \<Rightarrow> bool" where
  "grant_exists grantId t \<longleftrightarrow> 0 < length (filter (\<lambda>r. vrg_grantId r = grantId) t)"

definition grant_isActive :: "string \<Rightarrow> verified_resource_grant list \<Rightarrow> bool" where
  "grant_isActive grantId t \<longleftrightarrow> map_option vrg_status (find (\<lambda>r. vrg_grantId r = grantId) t) = Some ActiveGrant"

subsection \<open>ManifestCodec\<close>

text \<open>The values that are encoded: \<open>encode\<close> is the encoder of cbor-x.\<close>

datatype cbor = CborText string | CborBytes bytes | CborInt int | CborNull | CborArray "cbor list" | CborMap "(string \<times> cbor) list"

record verify_env =
  ve_encode :: "cbor \<Rightarrow> bytes"
  ve_verify :: "bytes \<Rightarrow> bytes \<Rightarrow> bytes \<Rightarrow> bool result"
  ve_sha256 :: "bytes \<Rightarrow> bytes"
  ve_now :: int

record domain_event_manifest =
  dm_version :: string
  dm_eventId :: string
  dm_scopeId :: string
  dm_resourceId :: string
  dm_resourceKeyId :: string
  dm_grantId :: string
  dm_scopeStateRef :: bytes
  dm_authorDeviceId :: string
  dm_payloadAad :: bytes
  dm_payloadCiphertextHash :: bytes

record scope_state_manifest =
  sm_version :: string
  sm_scopeId :: string
  sm_scopeStateSeq :: int
  sm_prevHash :: "bytes option"
  sm_ownerUserId :: string
  sm_scopeEpoch :: int
  sm_members :: "scope_member_info list"
  sm_signers :: "scope_signer list"

record resource_grant_manifest =
  rm_version :: string
  rm_grantId :: string
  rm_scopeId :: string
  rm_resourceId :: string
  rm_scopeEpoch :: int
  rm_resourceKeyId :: string
  rm_wrappedKey :: bytes
  rm_scopeStateRef :: bytes

definition require :: "bool \<Rightarrow> string \<Rightarrow> unit result" where
  "require b m = (if b then Inr () else Inl (Error m))"

definition validateDomainEventManifest :: "domain_event_manifest \<Rightarrow> unit result" where
  "validateDomainEventManifest m =
     bind_result (require (dm_version m = ''mo-domain-event-manifest-v1'') (''Invalid manifest version: '' @ dm_version m)) (\<lambda>_.
     bind_result (require (dm_eventId m \<noteq> []) ''Invalid eventId'') (\<lambda>_.
     bind_result (require (dm_scopeId m \<noteq> []) ''Invalid scopeId'') (\<lambda>_.
     bind_result (require (dm_resourceId m \<noteq> []) ''Invalid resourceId'') (\<lambda>_.
     bind_result (require (dm_resourceKeyId m \<noteq> []) ''Invalid resourceKeyId'') (\<lambda>_.
     bind_result (require (dm_grantId m \<noteq> []) ''Invalid grantId'') (\<lambda>_.
     bind_result (require (length (dm_scopeStateRef m) = 32) ''Invalid scopeStateRef: must be 32-byte Uint8Array'') (\<lambda>_.
     bind_result (require (dm_authorDeviceId m \<noteq> []) ''Invalid authorDeviceId'') (\<lambda>_.
     require (length (dm_payloadCiphertextHash m) = 32) ''Invalid payloadCiphertextHash: must be 32-byte Uint8Array (SHA-256)''))))))))"

definition validateScopeStateManifest :: "scope_state_manifest \<Rightarrow> unit result" where
  "validateScopeStateManifest m =
     bind_result (require (sm_version m = ''mo-scope-state-manifest-v1'') (''Invalid manifest version: '' @ sm_version m)) (\<lambda>_.
     bind_result (require (sm_scopeId m \<noteq> []) ''Invalid scopeId'') (\<lambda>_.
     bind_result (require (0 \<le> sm_scopeStateSeq m) ''Invalid scopeStateSeq: must be non-negative bigint'') (\<lambda>_.
     bind_result (require (case sm_prevHash m of None \<Rightarrow> True | Some h \<Rightarrow> length h = 32) ''Invalid prevHash: must be null or 32-byte Uint8Array'') (\<lambda>_.
     bind_result (require (sm_ownerUserId m \<noteq> []) ''Invalid ownerUserId'') (\<lambda>_.
     require (0 \<le> sm_scopeEpoch m) ''Invalid scopeEpoch: must be non-negative bigint'')))))"

definition validateResourceGrantManifest :: "resource_grant_manifest \<Rightarrow> unit result" where
  "validateResourceGrantManifest m =
     bind_result (require (rm_version m = ''mo-resource-grant-manifest-v1'') (''Invalid manifest version: '' @ rm_version m)) (\<lambda>_.
     bind_result (require (rm_grantId m \<noteq> []) ''Invalid grantId'') (\<lambda>_.
     bind_result (require (rm_scopeId m \<noteq> []) ''Invalid scopeId'') (\<lambda>_.
     bind_result (require (rm_resourceId m \<noteq> []) ''Invalid resourceId'') (\<lambda>_.
     bind_result (require (0 \<le> rm_scopeEpoch m) ''Invalid scopeEpoch: must be non-negative bigint'') (\<lambda>_.
     bind_result (require (rm_resourceKeyId m \<noteq> []) ''Invalid resourceKeyId'') (\<lambda>_.
     bind_result (require (rm_wrappedKey m \<noteq> []) ''Invalid wrappedKey: must be non-empty Uint8Array'') (\<lambda>_.
     require (length (rm_scopeStateRef m) = 32) ''Invalid scopeStateRef: must be 32-byte Uint8Array'')))))))"

definition domain_event_cbor :: "domain_event_manifest \<Rightarrow> cbor" where
  "domain_event_cbor m = CborMap
     [(''version'', CborText (dm_version m)), (''eventId'', CborText (dm_eventId m)), (''scopeId'', CborText (dm_scopeId m)),
      (''resourceId'', CborText (dm_resourceId m)), (''resourceKeyId'', CborText (dm_resourceKeyId m)),
      (''grantId'', CborText (dm_grantId m)), (''scopeStateRef'', CborBytes (dm_scopeStateRef m)),
      (''authorDeviceId'', CborText (dm_authorDeviceId m)), (''payloadAad'', CborBytes (dm_payloadAad m)),
      (''payloadCiphertextHash'', CborBytes (dm_payloadCiphertextHash m))]"

definition scope_state_cbor :: "scope_state_manifest \<Rightarrow> cbor" where
  "scope_state_cbor m = CborMap
     [(''version'', CborText (sm_version m)), (''scopeId'', CborText (sm_scopeId m)), (''scopeStateSeq'', CborInt (sm_scopeStateSeq m)),
      (''prevHash'', case sm_prevHash m of None \<Rightarrow> CborNull | Some h \<Rightarrow> CborBytes h), (''ownerUserId'', CborText (sm_ownerUserId m)),
      (''scopeEpoch'', CborInt (sm_scopeEpoch m)),
      (''members'', CborArray (map (\<lambda>x. CborMap [(''userId'', CborText (smi_userId x)), (''role'', CborText (smi_role x))]) (sm_members m))),
      (''signers'', CborArray (map (\<lambda>x. CborMap
        [(''deviceId'', CborText (ssg_deviceId x)), (''userId'', CborText (ssg_userId x)), (''sigSuite'', CborText (ssg_sigSuite x)),
         (''pubKeys'', CborMap (map (\<lambda>(k, v). (k, CborBytes v)) (ssg_pubKeys x)))]) (sm_signers m)))]"

definition resource_grant_cbor :: "resource_grant_manifest \<Rightarrow> cbor" where
  "resource_grant_cbor m = CborMap
     [(''version'', CborText (rm_version m)), (''grantId'', CborText (rm_grantId m)), (''scopeId'', CborText (rm_scopeId m)),
      (''resourceId'', CborText (rm_resourceId m)), (''scopeEpoch'', CborInt (rm_scopeEpoch m)),
      (''resourceKeyId'', CborText (rm_resourceKeyId m)), (''wrappedKey'', CborBytes (rm_wrappedKey m)),
      (''scopeStateRef'', CborBytes (rm_scopeStateRef m))]"

definition encodeDomainEventManifest :: "verify_env \<Rightarrow> domain_event_manifest \<Rightarrow> bytes result" where
  "encodeDomainEventManifest env m = bind_result (validateDomainEventManifest m) (\<lambda>_. Inr (ve_encode env (domain_event_cbor m)))"

definition encodeScopeStateManifest :: "verify_env \<Rightarrow> scope_state_manifest \<Rightarrow> bytes result" where
  "encodeScopeStateManifest env m = bind_result (validateScopeStateManifest m) (\<lambda>_. Inr (ve_encode env (scope_state_cbor m)))"

definition encodeResourceGrantManifest :: "verify_env \<Rightarrow> resource_grant_manifest \<Rightarrow> bytes result" where
  "encodeResourceGrantManifest env m = bind_result (validateResourceGrantManifest m) (\<lambda>_. Inr (ve_encode env (resource_grant_cbor m)))"

subsection \<open>SignatureVerifier\<close>

definition verifyEcdsaP256 :: "verify_env \<Rightarrow> bytes \<Rightarrow> bytes \<Rightarrow> bytes \<Rightarrow> bool" where
  "verifyEcdsaP256 env data signature publicKey =
     (case ve_verify env data signature publicKey of Inr b \<Rightarrow> b | Inl _ \<Rightarrow> False)"

definition verifyManifestSignature :: "verify_env \<Rightarrow> bytes \<Rightarrow> bytes \<Rightarrow> bytes \<Rightarrow> string \<Rightarrow> bool result" where
  "verifyManifestSignature env manifest signature publicKey sigSuite =
     (if sigSuite = ''ecdsa-p256'' then Inr (verifyEcdsaP256 env manifest signature publicKey)
      else if sigSuite = ''hybrid-sig-1'' then
        Inl (Error (''Hybrid signature verification (Ed25519 + ML-DSA) not yet implemented. '' @
          ''Cannot verify hybrid-sig-1 signatures until full implementation is complete.''))
      else Inl (Error (''Unsupported signature suite: '' @ sigSuite)))"

datatype failure_reason =
    Signature_invalid | Dependency_missing | Signer_not_found | Signer_not_authorized | Hash_chain_violation

datatype verification_result = Verified | NotVerified failure_reason string

subsection \<open>DependencyValidator\<close>

datatype dependency_reason = Scope_state_missing | Grant_missing | Grant_revoked | Scope_id_mismatch

datatype dependency_result = DependenciesOk | DependencyFailed dependency_reason string

record sharing_cache =
  sc_states :: "cached_state_row list"
  sc_grants :: "verified_resource_grant list"

definition hex_text :: "bytes \<Rightarrow> string" where
  "hex_text bs = concat (map (\<lambda>b. [hex_char (unat b div 16), hex_char (unat b mod 16)]) bs)"

definition validateEventDependencies :: "bytes \<Rightarrow> string \<Rightarrow> sharing_cache \<Rightarrow> dependency_result" where
  "validateEventDependencies scopeStateRef grantId c =
     (if \<not> scope_exists scopeStateRef (sc_states c) then
        DependencyFailed Scope_state_missing (''ScopeState with ref '' @ hex_text scopeStateRef @ '' not found in verified cache'')
      else if \<not> grant_exists grantId (sc_grants c) then
        DependencyFailed Grant_missing (''ResourceGrant '' @ grantId @ '' not found in verified cache'')
      else if \<not> grant_isActive grantId (sc_grants c) then
        DependencyFailed Grant_revoked (''ResourceGrant '' @ grantId @ '' is revoked'')
      else DependenciesOk)"

definition validateScopeStatePrevHash :: "bytes option \<Rightarrow> int \<Rightarrow> string \<Rightarrow> sharing_cache \<Rightarrow> dependency_result" where
  "validateScopeStatePrevHash prevHash scopeStateSeq scopeId c =
     (case prevHash of
        None \<Rightarrow>
          if scopeStateSeq \<noteq> 0 then
            DependencyFailed Scope_state_missing (''Genesis ScopeState must have seq=0, got seq='' @ show_int scopeStateSeq)
          else DependenciesOk
      | Some h \<Rightarrow>
          if scopeStateSeq = 0 then DependencyFailed Scope_state_missing ''Non-genesis ScopeState cannot have seq=0''
          else
            (case cached_loadByRef h (sc_states c) of
               None \<Rightarrow> DependencyFailed Scope_state_missing
                 (''Previous ScopeState with ref '' @ hex_text h @ '' not found (hash chain violation)'')
             | Some prevState \<Rightarrow>
                 let expectedSeq = vss_scopeStateSeq prevState + 1 in
                 if scopeStateSeq \<noteq> expectedSeq then
                   DependencyFailed Scope_state_missing
                     (''Sequence number must be '' @ show_int expectedSeq @ '', got '' @ show_int scopeStateSeq)
                 else if vss_scopeId prevState \<noteq> scopeId then
                   DependencyFailed Scope_id_mismatch (''Previous ScopeState belongs to different scope: '' @ vss_scopeId prevState)
                 else
                   (case scope_getHead scopeId (sc_states c) of
                      Some hd' \<Rightarrow>
                        if scopeStateSeq \<le> vss_scopeStateSeq hd' then
                          DependencyFailed Scope_state_missing (''Fork detected: new seq '' @ show_int scopeStateSeq @
                            '' does not extend head seq '' @ show_int (vss_scopeStateSeq hd'))
                        else DependenciesOk
                    | None \<Rightarrow> DependenciesOk)))"

definition validateGrantDependency :: "bytes \<Rightarrow> sharing_cache \<Rightarrow> dependency_result" where
  "validateGrantDependency scopeStateRef c =
     (if \<not> scope_exists scopeStateRef (sc_states c) then
        DependencyFailed Scope_state_missing (''ScopeState with ref '' @ hex_text scopeStateRef @ '' not found in verified cache'')
      else DependenciesOk)"

subsection \<open>VerificationPipeline\<close>

record verify_event_input =
  vi_eventId :: string
  vi_aggregateType :: string
  vi_aggregateId :: string
  vi_version :: int
  vi_scopeId :: string
  vi_resourceId :: string
  vi_resourceKeyId :: string
  vi_grantId :: string
  vi_scopeStateRef :: bytes
  vi_authorDeviceId :: string
  vi_payloadCiphertext :: bytes
  vi_sigSuite :: string
  vi_signature :: bytes

record verify_state_input =
  vt_scopeStateRef :: bytes
  vt_scopeId :: string
  vt_scopeStateSeq :: int
  vt_prevHash :: "bytes option"
  vt_ownerUserId :: string
  vt_scopeEpoch :: int
  vt_members :: "scope_member_info list"
  vt_signers :: "scope_signer list"
  vt_sigSuite :: string
  vt_signature :: bytes

fun mapDependencyError :: "dependency_reason \<Rightarrow> failure_reason" where
  "mapDependencyError Scope_state_missing = Dependency_missing"
| "mapDependencyError Grant_missing = Dependency_missing"
| "mapDependencyError Grant_revoked = Dependency_missing"
| "mapDependencyError Scope_id_mismatch = Hash_chain_violation"

definition event_manifest :: "verify_env \<Rightarrow> verify_event_input \<Rightarrow> domain_event_manifest" where
  "event_manifest env i = \<lparr>dm_version = ''mo-domain-event-manifest-v1'', dm_eventId = vi_eventId i, dm_scopeId = vi_scopeId i,
     dm_resourceId = vi_resourceId i, dm_resourceKeyId = vi_resourceKeyId i, dm_grantId = vi_grantId i,
     dm_scopeStateRef = vi_scopeStateRef i, dm_authorDeviceId = vi_authorDeviceId i,
     dm_payloadAad = buildSharingEventAad (vi_aggregateType i) (vi_aggregateId i) (vi_version i) (vi_scopeId i) (vi_resourceId i)
       (vi_resourceKeyId i) (vi_grantId i) (vi_sigSuite i),
     dm_payloadCiphertextHash = ve_sha256 env (vi_payloadCiphertext i)\<rparr>"

definition verifyDomainEvent :: "verify_env \<Rightarrow> verify_event_input \<Rightarrow> sharing_cache \<Rightarrow> verification_result result" where
  "verifyDomainEvent env i c =
     (case validateEventDependencies (vi_scopeStateRef i) (vi_grantId i) c of
        DependencyFailed r d \<Rightarrow> Inr (NotVerified (mapDependencyError r) d)
      | DependenciesOk \<Rightarrow>
          bind_result (encodeDomainEventManifest env (event_manifest env i)) (\<lambda>manifestBytes.
          case cached_loadByRef (vi_scopeStateRef i) (sc_states c) of
            None \<Rightarrow> Inr (NotVerified Signer_not_found (''ScopeState not found for ref '' @ hex_text (vi_scopeStateRef i)))
          | Some scopeState \<Rightarrow>
              bind_result (parseSigners (vss_signersJson scopeState)) (\<lambda>signers.
              case find (\<lambda>s. ssg_deviceId s = vi_authorDeviceId i) signers of
                None \<Rightarrow> Inr (NotVerified Signer_not_found (''Signer device '' @ vi_authorDeviceId i @ '' not found in ScopeState''))
              | Some signer \<Rightarrow>
                  (case map_of (ssg_pubKeys signer) ''sig'' of
                     None \<Rightarrow> Inr (NotVerified Signer_not_found (''Signer device '' @ vi_authorDeviceId i @ '' has no 'sig' public key''))
                   | Some publicKey \<Rightarrow>
                       bind_result (verifyManifestSignature env manifestBytes (vi_signature i) publicKey (vi_sigSuite i)) (\<lambda>signatureValid.
                       if \<not> signatureValid then Inr (NotVerified Signature_invalid ''Signature verification failed'')
                       else
                         bind_result (parseMembers (vss_membersJson scopeState)) (\<lambda>members.
                         if find (\<lambda>m. smi_userId m = ssg_userId signer) members = None then
                           Inr (NotVerified Signer_not_authorized (''Signer user '' @ ssg_userId signer @ '' is not a member of the scope''))
                         else Inr Verified))))))"

definition state_manifest :: "verify_state_input \<Rightarrow> scope_state_manifest" where
  "state_manifest i = \<lparr>sm_version = ''mo-scope-state-manifest-v1'', sm_scopeId = vt_scopeId i, sm_scopeStateSeq = vt_scopeStateSeq i,
     sm_prevHash = vt_prevHash i, sm_ownerUserId = vt_ownerUserId i, sm_scopeEpoch = vt_scopeEpoch i, sm_members = vt_members i,
     sm_signers = vt_signers i\<rparr>"

text \<open>Step 3: the key of the owner, from the state itself or from the state before.\<close>

definition owner_key :: "scope_signer list \<Rightarrow> string \<Rightarrow> string \<Rightarrow> verification_result + bytes" where
  "owner_key signers ownerUserId absent =
     (case find (\<lambda>s. ssg_userId s = ownerUserId) signers of
        None \<Rightarrow> Inl (NotVerified Signer_not_found absent)
      | Some ownerSigner \<Rightarrow>
          (case map_of (ssg_pubKeys ownerSigner) ''sig'' of
             None \<Rightarrow> Inl (NotVerified Signer_not_found ''Owner signer has no sig public key'')
           | Some publicKey \<Rightarrow> Inr publicKey))"

definition resolve_state_key :: "verify_state_input \<Rightarrow> sharing_cache \<Rightarrow> (verification_result + bytes) result" where
  "resolve_state_key i c =
     (if vt_scopeStateSeq i = 0 then Inr (owner_key (vt_signers i) (vt_ownerUserId i) ''Genesis ScopeState must include owner as signer'')
      else
        (case vt_prevHash i of
           None \<Rightarrow> Inr (Inl (NotVerified Hash_chain_violation ''Non-genesis ScopeState must have prevHash''))
         | Some h \<Rightarrow>
             (case cached_loadByRef h (sc_states c) of
                None \<Rightarrow> Inr (Inl (NotVerified Dependency_missing ''Previous ScopeState not found''))
              | Some prevState \<Rightarrow>
                  bind_result (parseSigners (vss_signersJson prevState)) (\<lambda>prevSigners.
                  Inr (owner_key prevSigners (vt_ownerUserId i) ''Owner not found in previous ScopeState signers'')))))"

definition verified_state :: "verify_env \<Rightarrow> verify_state_input \<Rightarrow> verified_scope_state" where
  "verified_state env i = \<lparr>vss_scopeStateRef = vt_scopeStateRef i, vss_scopeId = vt_scopeId i, vss_scopeStateSeq = vt_scopeStateSeq i,
     vss_membersJson = members_json (vt_members i), vss_signersJson = signers_json (vt_signers i), vss_signature = vt_signature i,
     vss_verifiedAt = ve_now env\<rparr>"

definition verifyScopeState :: "verify_env \<Rightarrow> verify_state_input \<Rightarrow> (sharing_cache, verification_result) io" where
  "verifyScopeState env i =
     bind_io (read_io (validateScopeStatePrevHash (vt_prevHash i) (vt_scopeStateSeq i) (vt_scopeId i))) (\<lambda>depResult.
     case depResult of
       DependencyFailed r d \<Rightarrow> return_io (NotVerified (mapDependencyError r) d)
     | DependenciesOk \<Rightarrow>
         bind_io (lift_io (encodeScopeStateManifest env (state_manifest i))) (\<lambda>manifest.
         bind_io (bind_io (read_io (resolve_state_key i)) lift_io) (\<lambda>key.
         case key of
           Inl failure \<Rightarrow> return_io failure
         | Inr publicKey \<Rightarrow>
             bind_io (lift_io (verifyManifestSignature env manifest (vt_signature i) publicKey (vt_sigSuite i))) (\<lambda>signatureValid.
             if \<not> signatureValid then return_io (NotVerified Signature_invalid ''Signature verification failed'')
             else
               bind_io (update_io (sc_states_update (scope_store (verified_state env i)))) (\<lambda>_.
               return_io Verified)))))"

end
