(* ===== verification/VerifyProperties.thy ===== *)
theory VerifyProperties
  imports SharingVerify
begin

text \<open>
  What the verification of shared artifacts guarantees: which signatures an accepted event or scope
  state has, that a failure changes nothing, and two attacks that it does not stop.
\<close>

subsection \<open>Stored rosters\<close>

definition roster_ok :: "scope_signer list \<Rightarrow> bool" where
  "roster_ok ss \<longleftrightarrow> (\<forall>s \<in> set ss. distinct (map fst (ssg_pubKeys s)))"

lemma parse_array_stringify: "\<forall>j \<in> set js. wf_json j \<Longrightarrow> parse_array f (json_stringify (JArr js)) = Inr (map f js)"
  by (simp add: parse_array_def del: json_stringify.simps)

lemma parse_pubKeys_roundtrip: "parse_pubKeys (Some (JObj (map (\<lambda>(k, v). (k, JStr (base64 v))) ks))) = ks"
  by (induction ks) (auto simp: parse_pubKeys_def buffer_from_base64_base64)

lemma parseSigners_roundtrip:
  assumes "roster_ok ss"
  shows "parseSigners (signers_json ss) = Inr ss"
proof -
  let ?f = "\<lambda>s. JObj [(''deviceId'', JStr (ssg_deviceId s)), (''userId'', JStr (ssg_userId s)), (''sigSuite'', JStr (ssg_sigSuite s)),
      (''pubKeys'', JObj (map (\<lambda>(k, v). (k, JStr (base64 v))) (ssg_pubKeys s)))]"
  have keys: "map (fst \<circ> (\<lambda>(k, v). (k, JStr (base64 v)))) ks = map fst ks" for ks :: "(string \<times> bytes) list" by (induction ks) auto
  have "\<forall>j \<in> set (map ?f ss). wf_json j"
    using assms by (auto simp: roster_ok_def keys split: prod.splits)
  then show ?thesis
    unfolding parseSigners_def signers_json_def
    by (simp add: parse_array_stringify json_field_text_def json_get_def parse_pubKeys_roundtrip comp_def map_idI del: json_stringify.simps)
qed

lemma parseMembers_roundtrip: "parseMembers (members_json ms) = Inr ms"
  unfolding parseMembers_def members_json_def
  by (simp add: parse_array_stringify json_field_text_def json_get_def comp_def map_idI del: json_stringify.simps)

lemma bigint_show [simp]: "bigint_of (show_int n) = n"
proof (cases "n < 0")
  case False
  obtain c cs where c: "show_nat (nat n) = c # cs" using show_int_Cons [of n] False by (auto simp: show_int_def)
  have "c \<noteq> CHR ''-''" using minus_notin_show_nat [of "nat n"] c by auto
  then show ?thesis using False c read_show_nat [of "nat n"] by (simp add: bigint_of_def show_int_def)
qed (simp add: bigint_of_def show_int_def)

lemma state_of_row_of [simp]: "state_of_row (row_of_state s) = s"
  by (simp add: state_of_row_def row_of_state_def)

subsection \<open>Accepted events\<close>

lemma require_Inr [simp]: "require b m = Inr x \<longleftrightarrow> b"
  by (simp add: require_def)

lemma cached_loadByRef_Some:
  "cached_loadByRef h t = Some s \<longleftrightarrow> (\<exists>r. find (\<lambda>row. sr_scope_state_ref row = h) t = Some r \<and> s = state_of_row r)"
  by (auto simp: cached_loadByRef_def)

lemma case_verified:
  "(case x of None \<Rightarrow> Inr (NotVerified a b) | Some y \<Rightarrow> f y) = Inr Verified \<longleftrightarrow> (\<exists>y. x = Some y \<and> f y = Inr Verified)"
  by (cases x) auto

definition signed_manifest :: "verify_env \<Rightarrow> verify_event_input \<Rightarrow> bytes" where
  "signed_manifest env i = ve_encode env (domain_event_cbor (event_manifest env i))"

text \<open>The device key that an event has to be signed with, as the cached scope state has it.\<close>

definition author_key :: "sharing_cache \<Rightarrow> verify_event_input \<Rightarrow> scope_signer \<Rightarrow> bytes \<Rightarrow> bool" where
  "author_key c i signer key \<longleftrightarrow> (\<exists>row signers members. row \<in> set (sc_states c) \<and> sr_scope_state_ref row = vi_scopeStateRef i \<and>
     parseSigners (sr_signers_json row) = Inr signers \<and> signer \<in> set signers \<and> ssg_deviceId signer = vi_authorDeviceId i \<and>
     map_of (ssg_pubKeys signer) ''sig'' = Some key \<and>
     parseMembers (sr_members_json row) = Inr members \<and> ssg_userId signer \<in> smi_userId ` set members)"

lemma verified_event_parts:
  assumes "verifyDomainEvent env i c = Inr Verified"
  shows "\<exists>signer key. author_key c i signer key \<and> ve_verify env (signed_manifest env i) (vi_signature i) key = Inr True"
    and "vi_sigSuite i = ''ecdsa-p256''"
    and "\<exists>g \<in> set (sc_grants c). vrg_grantId g = vi_grantId i \<and> vrg_status g = ActiveGrant"
proof -
  have dep: "validateEventDependencies (vi_scopeStateRef i) (vi_grantId i) c = DependenciesOk"
    using assms by (auto simp: verifyDomainEvent_def split: dependency_result.splits)
  from assms dep obtain s signers signer key members where p:
    "encodeDomainEventManifest env (event_manifest env i) = Inr (signed_manifest env i)"
    "cached_loadByRef (vi_scopeStateRef i) (sc_states c) = Some s" "parseSigners (vss_signersJson s) = Inr signers"
    "find (\<lambda>s. ssg_deviceId s = vi_authorDeviceId i) signers = Some signer" "map_of (ssg_pubKeys signer) ''sig'' = Some key"
    "verifyManifestSignature env (signed_manifest env i) (vi_signature i) key (vi_sigSuite i) = Inr True"
    "parseMembers (vss_membersJson s) = Inr members" "find (\<lambda>m. smi_userId m = ssg_userId signer) members \<noteq> None"
    by (auto simp: verifyDomainEvent_def bind_result_eq_Inr encodeDomainEventManifest_def signed_manifest_def case_verified
        split: if_splits)
  show suite: "vi_sigSuite i = ''ecdsa-p256''" using p(6) by (auto simp: verifyManifestSignature_def split: if_splits)
  have sig: "ve_verify env (signed_manifest env i) (vi_signature i) key = Inr True"
    using p(6) suite by (auto simp: verifyManifestSignature_def verifyEcdsaP256_def split: sum.splits)
  obtain row where row: "row \<in> set (sc_states c)" "sr_scope_state_ref row = vi_scopeStateRef i" "s = state_of_row row"
    using p(2) by (auto simp: cached_loadByRef_Some dest: find_Some_mem)
  have "signer \<in> set signers" "ssg_deviceId signer = vi_authorDeviceId i" using p(4) by (auto dest: find_Some_mem)
  moreover have "ssg_userId signer \<in> smi_userId ` set members" using p(8) unfolding find_None_mem by (metis image_eqI)
  ultimately have "author_key c i signer key" using row p(3,5,7) by (auto simp: author_key_def state_of_row_def)
  then show "\<exists>signer key. author_key c i signer key \<and> ve_verify env (signed_manifest env i) (vi_signature i) key = Inr True"
    using sig by blast
  show "\<exists>g \<in> set (sc_grants c). vrg_grantId g = vi_grantId i \<and> vrg_status g = ActiveGrant"
    using dep by (auto simp: validateEventDependencies_def grant_isActive_def split: if_splits dest: find_Some_mem)
qed

text \<open>
  Hypotheses on the environment: the encoder is injective and what a key verifies its owner signed.
\<close>

definition signatures_sound :: "verify_env \<Rightarrow> (bytes \<Rightarrow> bytes \<Rightarrow> bool) \<Rightarrow> bool" where
  "signatures_sound env did_sign \<longleftrightarrow> inj (ve_encode env) \<and> (\<forall>d s k. ve_verify env d s k = Inr True \<longrightarrow> did_sign k d)"

definition plain_event :: "verify_event_input \<Rightarrow> bool" where
  "plain_event i \<longleftrightarrow> CHR '':'' \<notin> set (vi_aggregateType i) \<and> CHR '':'' \<notin> set (vi_aggregateId i)"

definition same_event :: "verify_env \<Rightarrow> verify_event_input \<Rightarrow> verify_event_input \<Rightarrow> bool" where
  "same_event env i j \<longleftrightarrow> vi_eventId i = vi_eventId j \<and> vi_aggregateType i = vi_aggregateType j \<and> vi_aggregateId i = vi_aggregateId j \<and>
     vi_version i = vi_version j \<and> vi_scopeId i = vi_scopeId j \<and> vi_resourceId i = vi_resourceId j \<and>
     vi_resourceKeyId i = vi_resourceKeyId j \<and> vi_grantId i = vi_grantId j \<and> vi_scopeStateRef i = vi_scopeStateRef j \<and>
     vi_authorDeviceId i = vi_authorDeviceId j \<and> vi_sigSuite i = vi_sigSuite j \<and>
     ve_sha256 env (vi_payloadCiphertext i) = ve_sha256 env (vi_payloadCiphertext j)"

lemma sharing_aad_inject:
  assumes "plain_event i" and "plain_event j" and "show_int (vi_version i) = x" and "show_int (vi_version j) = y"
    and "vi_aggregateType i @ CHR '':'' # vi_aggregateId i @ CHR '':'' # x @ CHR '':'' # r @ CHR '':'' # u =
      vi_aggregateType j @ CHR '':'' # vi_aggregateId j @ CHR '':'' # y @ CHR '':'' # r @ CHR '':'' # v"
  shows "vi_aggregateType i = vi_aggregateType j \<and> vi_aggregateId i = vi_aggregateId j \<and> vi_version i = vi_version j \<and> u = v"
proof -
  have "CHR '':'' \<notin> set (show_int n)" for n using show_int_chars [of "CHR '':''" n] by (auto simp: is_digit_def)
  then have xy: "CHR '':'' \<notin> set x" "CHR '':'' \<notin> set y" using assms(3,4) by auto
  have p: "vi_aggregateType i = vi_aggregateType j"
    "vi_aggregateId i @ CHR '':'' # x @ CHR '':'' # r @ CHR '':'' # u = vi_aggregateId j @ CHR '':'' # y @ CHR '':'' # r @ CHR '':'' # v"
    using append_sep_inject [OF _ _ assms(5)] assms(1,2) by (auto simp: plain_event_def)
  then have q: "vi_aggregateId i = vi_aggregateId j" "x @ CHR '':'' # r @ CHR '':'' # u = y @ CHR '':'' # r @ CHR '':'' # v"
    using append_sep_inject [OF _ _ p(2)] assms(1,2) by (auto simp: plain_event_def)
  then show ?thesis using append_sep_inject [OF xy q(2)] p(1) assms(3,4) by auto
qed

lemma manifest_binds:
  assumes "inj (ve_encode env)" and "plain_event i" and "plain_event j" and "signed_manifest env i = signed_manifest env j"
  shows "same_event env i j"
proof -
  have m: "domain_event_cbor (event_manifest env i) = domain_event_cbor (event_manifest env j)"
    using assms(1,4) by (simp add: signed_manifest_def inj_def)
  then have f: "vi_eventId i = vi_eventId j" "vi_scopeId i = vi_scopeId j" "vi_resourceId i = vi_resourceId j"
    "vi_resourceKeyId i = vi_resourceKeyId j" "vi_grantId i = vi_grantId j" "vi_scopeStateRef i = vi_scopeStateRef j"
    "vi_authorDeviceId i = vi_authorDeviceId j" "ve_sha256 env (vi_payloadCiphertext i) = ve_sha256 env (vi_payloadCiphertext j)"
    by (simp_all add: domain_event_cbor_def event_manifest_def)
  have aad: "buildSharingEventAad (vi_aggregateType i) (vi_aggregateId i) (vi_version i) (vi_scopeId i) (vi_resourceId i)
       (vi_resourceKeyId i) (vi_grantId i) (vi_sigSuite i) =
      buildSharingEventAad (vi_aggregateType j) (vi_aggregateId j) (vi_version j) (vi_scopeId j) (vi_resourceId j)
       (vi_resourceKeyId j) (vi_grantId j) (vi_sigSuite j)"
    using arg_cong [OF m, of "\<lambda>x. case x of CborMap ms \<Rightarrow> ms ! 8 | _ \<Rightarrow> ([], x)"]
    unfolding domain_event_cbor_def event_manifest_def by simp
  let ?r = "vi_scopeId j @ CHR '':'' # vi_resourceId j @ CHR '':'' # vi_resourceKeyId j @ CHR '':'' # vi_grantId j"
  have "vi_aggregateType i @ CHR '':'' # vi_aggregateId i @ CHR '':'' # show_int (vi_version i) @ CHR '':'' # ?r @ CHR '':'' # vi_sigSuite i =
      vi_aggregateType j @ CHR '':'' # vi_aggregateId j @ CHR '':'' # show_int (vi_version j) @ CHR '':'' # ?r @ CHR '':'' # vi_sigSuite j"
    using aad f by (simp add: buildSharingEventAad_def)
  from sharing_aad_inject [OF assms(2,3) refl refl this] f show ?thesis by (simp add: same_event_def)
qed

text \<open>
  C36: an event that passes the verification was signed by a device that the cached scope state
  lists as a signer, of a user whom it lists as a member, under a grant that is cached and active;
  and the signature is bound to this event: another event with the same signed manifest has the
  same identifiers, aggregate, version, scope, resource, grant, author and ciphertext hash.
\<close>

theorem verified_event_signed:
  assumes "verifyDomainEvent env i c = Inr Verified" and "signatures_sound env did_sign"
  shows "\<exists>signer key g. author_key c i signer key \<and> did_sign key (signed_manifest env i) \<and>
     g \<in> set (sc_grants c) \<and> vrg_grantId g = vi_grantId i \<and> vrg_status g = ActiveGrant \<and>
     (\<forall>j. plain_event i \<and> plain_event j \<and> signed_manifest env i = signed_manifest env j \<longrightarrow> same_event env i j)"
  using verified_event_parts(1,3) [OF assms(1)] assms(2) manifest_binds unfolding signatures_sound_def by blast

subsection \<open>Accepted scope states\<close>

lemma text_less_trans: "text_less a b \<Longrightarrow> text_less b c \<Longrightarrow> text_less a c"
proof (induction a c arbitrary: b rule: text_less.induct)
  case (1 a)
  then show ?case by (cases b) simp_all
next
  case (2 d ds)
  then show ?case by simp
next
  case (3 c cs d ds)
  then show ?case by (cases b) auto
qed

definition last_max :: "cached_state_row list \<Rightarrow> bool" where
  "last_max xs \<longleftrightarrow> (\<forall>r \<in> set xs. \<not> text_less (sr_scope_state_seq (last xs)) (sr_scope_state_seq r))"

lemma set_insert_by_seq [simp]: "set (insert_by_seq r xs) = insert r (set xs)"
  by (induction xs) auto

lemma insert_by_seq_ne [simp]: "insert_by_seq r xs \<noteq> []"
  by (cases xs) auto

lemma insert_by_seq_last:
  "last (insert_by_seq r xs) = (if xs \<noteq> [] \<and> (\<exists>x \<in> set xs. text_less (sr_scope_state_seq r) (sr_scope_state_seq x)) then last xs else r)"
  by (induction xs) auto

lemma text_less_irrefl [simp]: "\<not> text_less a a"
  by (induction a) auto

lemma last_max_insert: "last_max xs \<Longrightarrow> last_max (insert_by_seq r xs)"
  unfolding last_max_def insert_by_seq_last by (auto dest: text_less_trans split: if_splits)

lemma order_by_seq_facts: "set (order_by_seq rows) = set rows" "last_max (order_by_seq rows)"
proof -
  have "set (fold insert_by_seq rows xs) = set rows \<union> set xs \<and> (last_max xs \<longrightarrow> last_max (fold insert_by_seq rows xs))" for xs
    by (induction rows arbitrary: xs) (auto simp: last_max_insert)
  from this [of "[]"] show "set (order_by_seq rows) = set rows" "last_max (order_by_seq rows)"
    by (simp_all add: order_by_seq_def last_max_def)
qed

lemma getHead_max:
  assumes "scope_getHead scopeId t = Some h"
  shows "\<exists>row \<in> set t. sr_scope_id row = scopeId \<and> h = state_of_row row \<and>
     (\<forall>r \<in> set t. sr_scope_id r = scopeId \<longrightarrow> \<not> text_less (sr_scope_state_seq row) (sr_scope_state_seq r))"
proof -
  let ?rows = "filter (\<lambda>r. sr_scope_id r = scopeId) t"
  let ?o = "order_by_seq ?rows"
  have "?o \<noteq> []" "h = state_of_row (last ?o)" using assms by (auto simp: scope_getHead_def hd_rev [symmetric] split: list.splits)
  then have "last ?o \<in> set ?rows" using order_by_seq_facts(1) [of ?rows] last_in_set by blast
  moreover have "\<forall>r \<in> set ?rows. \<not> text_less (sr_scope_state_seq (last ?o)) (sr_scope_state_seq r)"
    using order_by_seq_facts [of ?rows] by (simp add: last_max_def)
  ultimately show ?thesis using \<open>h = state_of_row (last ?o)\<close> by auto
qed

lemma getHead_None: "scope_getHead scopeId t = None \<longleftrightarrow> (\<forall>r \<in> set t. sr_scope_id r \<noteq> scopeId)"
proof -
  have "order_by_seq xs = [] \<longleftrightarrow> xs = []" for xs using order_by_seq_facts(1) [of xs] by (metis set_empty)
  then have "scope_getHead scopeId t = None \<longleftrightarrow> filter (\<lambda>r. sr_scope_id r = scopeId) t = []"
    by (metis (no_types, lifting) list.case_eq_if option.distinct(1) rev_is_Nil_conv scope_getHead_def)
  then show ?thesis by (auto simp: filter_empty_conv)
qed

definition seqs_below :: "int \<Rightarrow> string \<Rightarrow> sharing_cache \<Rightarrow> bool" where
  "seqs_below n scopeId c \<longleftrightarrow>
     (\<forall>r \<in> set (sc_states c). sr_scope_id r = scopeId \<longrightarrow> (\<exists>k. 0 \<le> k \<and> k < n \<and> sr_scope_state_seq r = show_int k))"

lemma text_less_digits: "0 \<le> a \<Longrightarrow> a < 10 \<Longrightarrow> 0 \<le> b \<Longrightarrow> b < 10 \<Longrightarrow> text_less (show_int a) (show_int b) \<longleftrightarrow> a < b"
  by (simp add: show_int_def show_nat.simps [of "nat a"] show_nat.simps [of "nat b"] digit_char_def) linarith

lemma head_below:
  assumes "scope_getHead scopeId (sc_states c) = Some h" and "seqs_below 10 scopeId c" and "vss_scopeStateSeq h < n"
    and "r \<in> set (sc_states c)" and "sr_scope_id r = scopeId"
  shows "bigint_of (sr_scope_state_seq r) < n"
proof -
  obtain row where row: "row \<in> set (sc_states c)" "sr_scope_id row = scopeId" "h = state_of_row row"
    "\<not> text_less (sr_scope_state_seq row) (sr_scope_state_seq r)"
    using getHead_max [OF assms(1)] assms(4,5) by blast
  obtain k l where kl: "0 \<le> k" "k < 10" "sr_scope_state_seq row = show_int k" "0 \<le> l" "l < 10" "sr_scope_state_seq r = show_int l"
    using assms(2,4,5) row(1,2) unfolding seqs_below_def by metis
  have "l \<le> k" using row(4) text_less_digits [of k l] kl by simp
  moreover have "vss_scopeStateSeq h = k" using row(3) kl(3) by (simp add: state_of_row_def)
  ultimately show ?thesis using assms(3) kl(6) by simp
qed

definition has_owner_key :: "scope_signer list \<Rightarrow> string \<Rightarrow> bytes \<Rightarrow> bool" where
  "has_owner_key signers owner key \<longleftrightarrow> (\<exists>s \<in> set signers. ssg_userId s = owner \<and> map_of (ssg_pubKeys s) ''sig'' = Some key)"

lemma owner_key_Inr: "owner_key signers owner m = Inr key \<Longrightarrow> has_owner_key signers owner key"
  by (auto simp: owner_key_def has_owner_key_def split: option.splits dest: find_Some_mem)

definition state_signed :: "verify_env \<Rightarrow> verify_state_input \<Rightarrow> bytes \<Rightarrow> bool" where
  "state_signed env i key \<longleftrightarrow> ve_verify env (ve_encode env (scope_state_cbor (state_manifest i))) (vt_signature i) key = Inr True"

text \<open>The state before, in the same scope, whose roster has the owner's key.\<close>

definition extends :: "sharing_cache \<Rightarrow> verify_state_input \<Rightarrow> bytes \<Rightarrow> bool" where
  "extends c i key \<longleftrightarrow> (\<exists>prev signers. prev \<in> set (sc_states c) \<and> vt_prevHash i = Some (sr_scope_state_ref prev) \<and>
     sr_scope_id prev = vt_scopeId i \<and> vt_scopeStateSeq i = bigint_of (sr_scope_state_seq prev) + 1 \<and>
     parseSigners (sr_signers_json prev) = Inr signers \<and> has_owner_key signers (vt_ownerUserId i) key) \<and>
     (seqs_below 10 (vt_scopeId i) c \<longrightarrow>
       (\<forall>r \<in> set (sc_states c). sr_scope_id r = vt_scopeId i \<longrightarrow> bigint_of (sr_scope_state_seq r) < vt_scopeStateSeq i))"

lemma verifyScopeState_frame: "verifyScopeState env i c = (res, c') \<Longrightarrow> res \<noteq> Inr Verified \<Longrightarrow> c' = c"
  by (auto simp: verifyScopeState_def bind_io_def split: dependency_result.splits sum.splits if_splits)

lemma owner_key_failure [simp]: "owner_key signers owner m \<noteq> Inl Verified"
  by (auto simp: owner_key_def split: option.splits)

lemma resolve_failure [simp]: "resolve_state_key i c \<noteq> Inr (Inl Verified)"
  by (auto simp: resolve_state_key_def bind_result_eq_Inr split: option.splits)

lemma verifyScopeState_run:
  assumes "verifyScopeState env i c = (Inr Verified, c')"
  shows "c' = c\<lparr>sc_states := scope_store (verified_state env i) (sc_states c)\<rparr>"
    and "\<exists>key. validateScopeStatePrevHash (vt_prevHash i) (vt_scopeStateSeq i) (vt_scopeId i) c = DependenciesOk \<and>
       resolve_state_key i c = Inr (Inr key) \<and> state_signed env i key"
  using assms
  by (auto simp: verifyScopeState_def bind_io_def encodeScopeStateManifest_def state_signed_def verifyManifestSignature_def
      verifyEcdsaP256_def bind_result_eq_Inr split: dependency_result.splits sum.splits if_splits)

text \<open>
  C37: a scope state with a sequence number above zero that passes the verification is signed with a
  key that its owner has in the roster of the cached state before it, of the same scope and with the
  sequence number before; as long as the sequence numbers of the scope have one digit it is newer
  than every cached state of its scope, so a fork is refused. A state with sequence number zero has
  no predecessor and is signed with a key of its own roster; nothing else is asked of it, also when
  the scope has states already. A refused state leaves the cache as it was.
\<close>

theorem verified_state_extends:
  assumes "verifyScopeState env i c = (res, c')"
  shows "if res = Inr Verified
     then c' = c\<lparr>sc_states := scope_store (verified_state env i) (sc_states c)\<rparr> \<and>
       (\<exists>key. state_signed env i key \<and>
          (if vt_scopeStateSeq i = 0 then vt_prevHash i = None \<and> has_owner_key (vt_signers i) (vt_ownerUserId i) key
           else extends c i key))
     else c' = c"
proof (cases "res = Inr Verified")
  case True
  obtain key where k: "validateScopeStatePrevHash (vt_prevHash i) (vt_scopeStateSeq i) (vt_scopeId i) c = DependenciesOk"
    "resolve_state_key i c = Inr (Inr key)" "state_signed env i key"
    using verifyScopeState_run(2) assms True by blast
  have "if vt_scopeStateSeq i = 0 then vt_prevHash i = None \<and> has_owner_key (vt_signers i) (vt_ownerUserId i) key else extends c i key"
  proof (cases "vt_scopeStateSeq i = 0")
    case zero: True
    then show ?thesis
      using k(1,2) owner_key_Inr by (auto simp: validateScopeStatePrevHash_def resolve_state_key_def split: option.splits)
  next
    case False
    then obtain h prev signers where h: "vt_prevHash i = Some h" "cached_loadByRef h (sc_states c) = Some prev"
      "parseSigners (vss_signersJson prev) = Inr signers" "has_owner_key signers (vt_ownerUserId i) key"
      using k(2) owner_key_Inr by (auto simp: resolve_state_key_def bind_result_eq_Inr split: option.splits)
    obtain row where row: "row \<in> set (sc_states c)" "sr_scope_state_ref row = h" "prev = state_of_row row"
      using h(2) by (auto simp: cached_loadByRef_Some dest: find_Some_mem)
    have d: "vt_scopeStateSeq i = vss_scopeStateSeq prev + 1" "vss_scopeId prev = vt_scopeId i"
      "case scope_getHead (vt_scopeId i) (sc_states c) of Some x \<Rightarrow> vss_scopeStateSeq x < vt_scopeStateSeq i | None \<Rightarrow> True"
      using k(1) False h(1,2) by (auto simp: validateScopeStatePrevHash_def Let_def split: if_splits option.splits)
    have "bigint_of (sr_scope_state_seq r) < vt_scopeStateSeq i"
      if "seqs_below 10 (vt_scopeId i) c" "r \<in> set (sc_states c)" "sr_scope_id r = vt_scopeId i" for r
      using d(3) head_below [OF _ that(1) _ that(2,3)] that(2,3) getHead_None [of "vt_scopeId i" "sc_states c"]
      by (auto split: option.splits)
    then have "extends c i key" using h row d(1,2) by (auto simp: extends_def state_of_row_def)
    then show ?thesis using False by simp
  qed
  then show ?thesis using True k(3) verifyScopeState_run(1) assms by auto
qed (use verifyScopeState_frame [OF assms] in simp)

subsection \<open>What is not checked\<close>

definition complete_event :: "verify_env \<Rightarrow> verify_event_input \<Rightarrow> bool" where
  "complete_event env e \<longleftrightarrow> vi_eventId e \<noteq> [] \<and> vi_scopeId e \<noteq> [] \<and> vi_resourceId e \<noteq> [] \<and> vi_resourceKeyId e \<noteq> [] \<and>
     vi_grantId e \<noteq> [] \<and> length (ve_sha256 env (vi_payloadCiphertext e)) = 32"

definition stranger_genesis :: "bytes \<Rightarrow> string \<Rightarrow> string \<Rightarrow> string \<Rightarrow> bytes \<Rightarrow> verify_state_input" where
  "stranger_genesis ref scopeId user device key = \<lparr>vt_scopeStateRef = ref, vt_scopeId = scopeId, vt_scopeStateSeq = 0, vt_prevHash = None,
     vt_ownerUserId = user, vt_scopeEpoch = 0, vt_members = [\<lparr>smi_userId = user, smi_role = ''owner''\<rparr>],
     vt_signers = [\<lparr>ssg_deviceId = device, ssg_userId = user, ssg_sigSuite = ''ecdsa-p256'', ssg_pubKeys = [(''sig'', key)]\<rparr>],
     vt_sigSuite = ''ecdsa-p256'', vt_signature = []\<rparr>"

lemma stranger_genesis_accepted:
  assumes "\<forall>m. ve_verify env m (sign m) key = Inr True" and "scopeId \<noteq> []" and "user \<noteq> []"
    and g_def: "g = stranger_genesis ref scopeId user device key"
    and i_def: "i = g\<lparr>vt_signature := sign (ve_encode env (scope_state_cbor (state_manifest g)))\<rparr>"
  shows "verifyScopeState env i c = (Inr Verified, c\<lparr>sc_states := scope_store (verified_state env i) (sc_states c)\<rparr>)"
proof -
  have m: "state_manifest i = state_manifest g" by (simp add: i_def state_manifest_def)
  show ?thesis
    unfolding verifyScopeState_def encodeScopeStateManifest_def m
    using assms(1-3)
    by (simp add: bind_io_def i_def g_def stranger_genesis_def validateScopeStatePrevHash_def validateScopeStateManifest_def
        state_manifest_def require_def resolve_state_key_def owner_key_def verifyManifestSignature_def verifyEcdsaP256_def)
qed

lemma scope_store_found:
  "scope_exists (vss_scopeStateRef x) (scope_store x t)" "cached_loadByRef (vss_scopeStateRef x) (scope_store x t) = Some x"
proof -
  have "find (\<lambda>row. sr_scope_state_ref row = vss_scopeStateRef x) (filter (\<lambda>r. sr_scope_state_ref r \<noteq> vss_scopeStateRef x) t) = None"
    by (auto simp: find_None_mem)
  then show "cached_loadByRef (vss_scopeStateRef x) (scope_store x t) = Some x"
    by (simp add: cached_loadByRef_def scope_store_def find_append row_of_state_def state_of_row_def)
  show "scope_exists (vss_scopeStateRef x) (scope_store x t)" by (simp add: scope_exists_def scope_store_def row_of_state_def)
qed

text \<open>An event of a device that signs for itself, in a cache that has a first state of that device.\<close>

definition stranger_state :: "verify_env \<Rightarrow> (bytes \<Rightarrow> bytes) \<Rightarrow> bytes \<Rightarrow> string \<Rightarrow> string \<Rightarrow> string \<Rightarrow> bytes \<Rightarrow> verify_state_input" where
  "stranger_state env sign ref scopeId user device key =
     (let g = stranger_genesis ref scopeId user device key in
      g\<lparr>vt_signature := sign (ve_encode env (scope_state_cbor (state_manifest g)))\<rparr>)"

definition stranger_event :: "verify_env \<Rightarrow> (bytes \<Rightarrow> bytes) \<Rightarrow> bytes \<Rightarrow> string \<Rightarrow> verify_event_input \<Rightarrow> verify_event_input" where
  "stranger_event env sign ref device e =
     (let f = e\<lparr>vi_scopeStateRef := ref, vi_authorDeviceId := device, vi_sigSuite := ''ecdsa-p256''\<rparr> in
      f\<lparr>vi_signature := sign (signed_manifest env f)\<rparr>)"

lemma stranger_passes:
  assumes "\<forall>m. ve_verify env m (sign m) key = Inr True" and "length ref = 32" and "scopeId \<noteq> []" and "user \<noteq> []" and "device \<noteq> []"
    and "grant_isActive (vi_grantId e) (sc_grants c)" and "complete_event env e"
    and i: "i = stranger_state env sign ref scopeId user device key"
    and c': "c' = c\<lparr>sc_states := scope_store (verified_state env i) (sc_states c)\<rparr>"
  shows "verifyScopeState env i c = (Inr Verified, c')" and "verifyDomainEvent env (stranger_event env sign ref device e) c' = Inr Verified"
proof -
  let ?g = "stranger_genesis ref scopeId user device key"
  let ?x = "verified_state env i"
  show "verifyScopeState env i c = (Inr Verified, c')"
    using stranger_genesis_accepted [OF assms(1,3,4) refl refl, of ref device c] by (simp add: i c' stranger_state_def Let_def)
  let ?e = "e\<lparr>vi_scopeStateRef := ref, vi_authorDeviceId := device, vi_sigSuite := ''ecdsa-p256''\<rparr>"
  have x: "vss_scopeStateRef ?x = ref" "vss_signersJson ?x = signers_json (vt_signers ?g)" "vss_membersJson ?x = members_json (vt_members ?g)"
    by (simp_all add: i stranger_state_def Let_def verified_state_def stranger_genesis_def)
  have signers: "parseSigners (vss_signersJson ?x) = Inr (vt_signers ?g)" "parseMembers (vss_membersJson ?x) = Inr (vt_members ?g)"
    unfolding x by (simp_all add: parseSigners_roundtrip parseMembers_roundtrip roster_ok_def stranger_genesis_def)
  have grant: "grant_exists (vi_grantId e) (sc_grants c)"
    using assms(6) by (auto simp: grant_isActive_def grant_exists_def filter_empty_conv dest!: find_Some_mem)
  have deps: "validateEventDependencies ref (vi_grantId e) c' = DependenciesOk"
    using scope_store_found(1) [of ?x "sc_states c"] grant assms(6) x(1) by (simp add: c' validateEventDependencies_def)
  have found: "cached_loadByRef ref (sc_states c') = Some ?x" using scope_store_found(2) [of ?x "sc_states c"] x(1) by (simp add: c')
  have man: "event_manifest env (stranger_event env sign ref device e) = event_manifest env ?e"
    by (simp add: stranger_event_def Let_def event_manifest_def)
  have enc: "encodeDomainEventManifest env (event_manifest env (stranger_event env sign ref device e)) = Inr (signed_manifest env ?e)"
    unfolding man using assms(2,5,7)
    by (simp add: encodeDomainEventManifest_def validateDomainEventManifest_def event_manifest_def require_def complete_event_def
        signed_manifest_def)
  show "verifyDomainEvent env (stranger_event env sign ref device e) c' = Inr Verified"
    unfolding verifyDomainEvent_def enc using deps found signers assms(1)
    by (simp add: stranger_event_def Let_def stranger_genesis_def verifyManifestSignature_def verifyEcdsaP256_def)
qed

text \<open>
  C38: the verification of an event does not compare the scope of the event, or of its grant, with
  the scope of the state that its author is looked up in. Anyone with a key of their own can
  have a first state of a scope of their own verified and cached, and then every event they sign,
  for whatever scope, resource and active grant, passes the verification.
\<close>

theorem stranger_event_accepted:
  assumes "\<forall>m. ve_verify env m (sign m) key = Inr True" and "length (ref :: bytes) = 32" and "scopeId \<noteq> []" and "user \<noteq> []" and "device \<noteq> []"
    and "grant_isActive (vi_grantId e) (sc_grants c)" and "complete_event env e"
  shows "\<exists>i c'. vt_scopeId i = scopeId \<and> vt_ownerUserId i = user \<and> verifyScopeState env i c = (Inr Verified, c') \<and>
     (\<exists>e'. vi_authorDeviceId e' = device \<and> vi_scopeId e' = vi_scopeId e \<and> vi_grantId e' = vi_grantId e \<and>
        vi_resourceId e' = vi_resourceId e \<and> vi_aggregateId e' = vi_aggregateId e \<and>
        vi_payloadCiphertext e' = vi_payloadCiphertext e \<and> verifyDomainEvent env e' c' = Inr Verified)"
proof -
  let ?i = "stranger_state env sign ref scopeId user device key" and ?e = "stranger_event env sign ref device e"
  have "vt_scopeId ?i = scopeId" "vt_ownerUserId ?i = user" "vi_authorDeviceId ?e = device" "vi_scopeId ?e = vi_scopeId e"
    "vi_grantId ?e = vi_grantId e" "vi_resourceId ?e = vi_resourceId e" "vi_aggregateId ?e = vi_aggregateId e"
    "vi_payloadCiphertext ?e = vi_payloadCiphertext e"
    by (simp_all add: stranger_state_def stranger_genesis_def stranger_event_def Let_def)
  then show ?thesis using stranger_passes [OF assms refl refl] by blast
qed

text \<open>The text of the number ten is before the text of nine, so the head of eleven states is the tenth.\<close>

lemma head_of_eleven:
  assumes "seqs_below 11 scopeId c" and "p \<in> set (sc_states c)" and "sr_scope_id p = scopeId" and "sr_scope_state_seq p = show_int 9"
  shows "\<exists>h. scope_getHead scopeId (sc_states c) = Some h \<and> vss_scopeStateSeq h = 9"
proof -
  obtain h where h: "scope_getHead scopeId (sc_states c) = Some h"
    using getHead_None [of scopeId "sc_states c"] assms(2,3) by (cases "scope_getHead scopeId (sc_states c)") auto
  obtain row where row: "row \<in> set (sc_states c)" "sr_scope_id row = scopeId" "h = state_of_row row"
    "\<not> text_less (sr_scope_state_seq row) (sr_scope_state_seq p)"
    using getHead_max [OF h] assms(2,3) by blast
  obtain k where k: "0 \<le> k" "k < 11" "sr_scope_state_seq row = show_int k" using assms(1) row(1,2) unfolding seqs_below_def by metis
  have "text_less (show_int 10) (show_int 9)" by (simp add: show_int_def show_nat.simps digit_char_def)
  moreover have "text_less (show_int k) (show_int 9) \<longleftrightarrow> k < 9" if "k < 10" using text_less_digits [of k 9] k(1) that by simp
  ultimately have "k = 9" using row(4) assms(4) k by (cases "k = 10") auto
  then show ?thesis using h row(3) k(3) by (simp add: state_of_row_def)
qed

definition second_tenth :: "verify_env \<Rightarrow> sharing_cache \<Rightarrow> cached_state_row \<Rightarrow> verify_state_input \<Rightarrow> bool" where
  "second_tenth env c p i \<longleftrightarrow> cached_loadByRef (sr_scope_state_ref p) (sc_states c) = Some (state_of_row p) \<and> p \<in> set (sc_states c) \<and>
     sr_scope_id p = vt_scopeId i \<and> sr_scope_state_seq p = show_int 9 \<and> length (sr_scope_state_ref p) = 32 \<and>
     vt_scopeStateSeq i = 10 \<and> vt_prevHash i = Some (sr_scope_state_ref p) \<and> vt_scopeId i \<noteq> [] \<and> vt_ownerUserId i \<noteq> [] \<and>
     0 \<le> vt_scopeEpoch i \<and> vt_sigSuite i = ''ecdsa-p256'' \<and>
     (\<exists>signers key m. parseSigners (sr_signers_json p) = Inr signers \<and> owner_key signers (vt_ownerUserId i) m = Inr key \<and>
        state_signed env i key)"

text \<open>
  C39: the cache orders the states of a scope by the text of their sequence number. When the states
  up to number ten are cached, the head it reports is number nine, and a second, different state
  number ten that extends number nine and is signed by the owner passes the verification: the fork
  is not detected, and both are cached.
\<close>

theorem fork_after_ten:
  assumes "second_tenth env c p i" and "seqs_below 11 (vt_scopeId i) c"
    and "q \<in> set (sc_states c)" and "sr_scope_id q = vt_scopeId i" and "sr_scope_state_seq q = show_int 10"
    and "sr_scope_state_ref q \<noteq> vt_scopeStateRef i"
  shows "(\<exists>h. scope_getHead (vt_scopeId i) (sc_states c) = Some h \<and> vss_scopeStateSeq h = 9) \<and>
     (\<exists>c'. verifyScopeState env i c = (Inr Verified, c') \<and> q \<in> set (sc_states c') \<and>
       (\<exists>r \<in> set (sc_states c'). sr_scope_id r = sr_scope_id q \<and> sr_scope_state_seq r = sr_scope_state_seq q \<and>
          sr_scope_state_ref r \<noteq> sr_scope_state_ref q))"
proof -
  let ?c = "c\<lparr>sc_states := scope_store (verified_state env i) (sc_states c)\<rparr>"
  have p: "cached_loadByRef (sr_scope_state_ref p) (sc_states c) = Some (state_of_row p)" "p \<in> set (sc_states c)" "sr_scope_id p = vt_scopeId i"
    "sr_scope_state_seq p = show_int 9" "length (sr_scope_state_ref p) = 32" "vt_scopeStateSeq i = 10"
    "vt_prevHash i = Some (sr_scope_state_ref p)" "vt_scopeId i \<noteq> []" "vt_ownerUserId i \<noteq> []" "0 \<le> vt_scopeEpoch i"
    "vt_sigSuite i = ''ecdsa-p256''"
    using assms(1) by (simp_all add: second_tenth_def)
  obtain signers key m where k: "parseSigners (sr_signers_json p) = Inr signers" "owner_key signers (vt_ownerUserId i) m = Inr key"
    "state_signed env i key"
    using assms(1) unfolding second_tenth_def by blast
  have key: "owner_key signers (vt_ownerUserId i) m' = Inr key" for m' using k(2) by (auto simp: owner_key_def split: option.splits)
  obtain h where h: "scope_getHead (vt_scopeId i) (sc_states c) = Some h" "vss_scopeStateSeq h = 9"
    using head_of_eleven [OF assms(2) p(2,3,4)] by blast
  have "validateScopeStatePrevHash (vt_prevHash i) (vt_scopeStateSeq i) (vt_scopeId i) c = DependenciesOk"
    using p h by (simp add: validateScopeStatePrevHash_def state_of_row_def Let_def)
  moreover have "encodeScopeStateManifest env (state_manifest i) = Inr (ve_encode env (scope_state_cbor (state_manifest i)))"
    using p by (simp add: encodeScopeStateManifest_def validateScopeStateManifest_def state_manifest_def require_def)
  moreover have "resolve_state_key i c = Inr (Inr key)"
    using p key k(1) by (simp add: resolve_state_key_def state_of_row_def)
  ultimately have run: "verifyScopeState env i c = (Inr Verified, ?c)"
    using p(11) k(3) by (simp add: verifyScopeState_def bind_io_def verifyManifestSignature_def verifyEcdsaP256_def state_signed_def)
  have "q \<in> set (sc_states ?c)" using assms(3,6) by (simp add: scope_store_def verified_state_def)
  moreover have "row_of_state (verified_state env i) \<in> set (sc_states ?c)" by (simp add: scope_store_def)
  ultimately have "\<exists>c'. verifyScopeState env i c = (Inr Verified, c') \<and> q \<in> set (sc_states c') \<and>
       (\<exists>r \<in> set (sc_states c'). sr_scope_id r = sr_scope_id q \<and> sr_scope_state_seq r = sr_scope_state_seq q \<and>
          sr_scope_state_ref r \<noteq> sr_scope_state_ref q)"
    using run assms(4-6) p(6)
    by (intro exI [of _ ?c] conjI bexI [of _ "row_of_state (verified_state env i)"]) (simp_all add: row_of_state_def verified_state_def)
  then show ?thesis using h by blast
qed

subsection \<open>A concrete environment\<close>

text \<open>An injective encoding, through JSON, and a signature scheme that only the key \<open>[7]\<close> can use.\<close>

fun json_of_cbor :: "cbor \<Rightarrow> json" where
  "json_of_cbor (CborText s) = JArr [JNum 0, JStr s]"
| "json_of_cbor (CborBytes b) = JArr [JNum 1, JStr (base64 b)]"
| "json_of_cbor (CborInt i) = JArr [JNum 2, JNum i]"
| "json_of_cbor CborNull = JNull"
| "json_of_cbor (CborArray xs) = JArr [JNum 3, JArr (map json_of_cbor xs)]"
| "json_of_cbor (CborMap ms) = JArr [JNum 4, JArr (map (\<lambda>(k, v). JArr [JStr k, json_of_cbor v]) ms)]"

lemma wf_json_of_cbor: "wf_json (json_of_cbor x)"
  by (induction x) auto

lemma json_of_cbor_inject: "json_of_cbor x = json_of_cbor y \<Longrightarrow> x = y"
proof (induction x arbitrary: y)
  case (CborText s)
  then show ?case by (cases y) auto
next
  case (CborBytes b)
  then show ?case using buffer_from_base64_base64 by (cases y) (auto, metis)
next
  case (CborInt i)
  then show ?case by (cases y) auto
next
  case CborNull
  then show ?case by (cases y) auto
next
  case (CborArray xs)
  then obtain ys where ys: "y = CborArray ys" "map json_of_cbor xs = map json_of_cbor ys" by (cases y) auto
  have "xs = ys"
    using ys(2) CborArray.IH by (intro nth_equalityI) (auto simp: list_eq_iff_nth_eq)
  then show ?case using ys(1) by simp
next
  case (CborMap ms)
  let ?f = "\<lambda>(k, v). JArr [JStr k, json_of_cbor v]"
  obtain ns where ns: "y = CborMap ns" "map ?f ms = map ?f ns" using CborMap.prems by (cases y) auto
  have "ms ! n = ns ! n" if n: "n < length ms" for n
  proof -
    have len: "length ns = length ms" using map_eq_imp_length_eq [OF ns(2)] by simp
    have eq: "?f (ms ! n) = ?f (ns ! n)" using arg_cong [OF ns(2), of "\<lambda>xs. xs ! n"] n len by (simp only: nth_map)
    obtain k v k' v' where kv: "ms ! n = (k, v)" "ns ! n = (k', v')" by (metis surj_pair)
    have "v \<in> Basic_BNFs.snds (ms ! n)" unfolding kv by (simp add: snds.intros)
    from CborMap.IH [OF nth_mem [OF n] this, of v'] eq show ?thesis unfolding kv by simp
  qed
  then have "ms = ns" using ns(2) by (intro nth_equalityI) (auto dest: map_eq_imp_length_eq)
  then show ?case using ns(1) by simp
qed

definition sample_verify_env :: verify_env where
  "sample_verify_env = \<lparr>ve_encode = \<lambda>x. text_encode (json_stringify (json_of_cbor x)),
     ve_verify = \<lambda>d s k. Inr (k = [7] \<and> s = d), ve_sha256 = \<lambda>_. replicate 32 0, ve_now = 5\<rparr>"

lemma sample_signatures: "signatures_sound sample_verify_env (\<lambda>k d. k = [7])"
proof -
  have "inj (ve_encode sample_verify_env)"
  proof (rule injI)
    fix x y assume "ve_encode sample_verify_env x = ve_encode sample_verify_env y"
    then have "json_parse (json_stringify (json_of_cbor x)) = json_parse (json_stringify (json_of_cbor y))"
      by (simp add: sample_verify_env_def)
    then show "x = y" using json_of_cbor_inject by (simp add: wf_json_of_cbor)
  qed
  then show ?thesis by (simp add: signatures_sound_def sample_verify_env_def)
qed

definition sample_ref :: "8 word \<Rightarrow> bytes" where
  "sample_ref x = replicate 32 x"

definition sample_grant :: verified_resource_grant where
  "sample_grant = \<lparr>vrg_grantId = ''grant'', vrg_scopeId = ''scope'', vrg_resourceId = ''goal'', vrg_resourceKeyId = ''key'', vrg_wrappedKey = [1],
     vrg_scopeStateRef = sample_ref 1, vrg_status = ActiveGrant, vrg_verifiedAt = 1\<rparr>"

definition sample_sharing :: sharing_cache where
  "sample_sharing = \<lparr>sc_states = [], sc_grants = [sample_grant]\<rparr>"

definition sample_event_input :: verify_event_input where
  "sample_event_input = \<lparr>vi_eventId = ''e1'', vi_aggregateType = ''goal'', vi_aggregateId = ''g1'', vi_version = 1, vi_scopeId = ''scope'',
     vi_resourceId = ''goal'', vi_resourceKeyId = ''key'', vi_grantId = ''grant'', vi_scopeStateRef = sample_ref 1, vi_authorDeviceId = ''other'',
     vi_payloadCiphertext = [1, 2], vi_sigSuite = ''ecdsa-p256'', vi_signature = []\<rparr>"

lemma sample_verify_facts:
  "\<forall>m. ve_verify sample_verify_env m ((\<lambda>d. d) m) [7] = Inr True" "length (sample_ref 9) = 32"
  "grant_isActive (vi_grantId sample_event_input) (sc_grants sample_sharing)" "complete_event sample_verify_env sample_event_input"
  by (simp_all add: sample_verify_env_def sample_ref_def grant_isActive_def sample_sharing_def sample_grant_def sample_event_input_def
      complete_event_def)

text \<open>A device that signs for itself in its own scope.\<close>

definition sample_state_input :: verify_state_input where
  "sample_state_input = stranger_state sample_verify_env (\<lambda>d. d) (sample_ref 9) ''mine'' ''eve'' ''device'' [7]"

lemma sample_verified:
  "\<exists>c'. verifyScopeState sample_verify_env sample_state_input sample_sharing = (Inr Verified, c') \<and>
     verifyDomainEvent sample_verify_env (stranger_event sample_verify_env (\<lambda>d. d) (sample_ref 9) ''device'' sample_event_input) c' = Inr Verified"
  using stranger_passes [OF sample_verify_facts(1,2) _ _ _ sample_verify_facts(3,4) sample_state_input_def refl] by simp

theorem verified_event_signed_witness:
  "\<exists>c' signer key. author_key c' (stranger_event sample_verify_env (\<lambda>d. d) (sample_ref 9) ''device'' sample_event_input) signer key \<and> key = [7]"
proof -
  obtain c' where "verifyDomainEvent sample_verify_env (stranger_event sample_verify_env (\<lambda>d. d) (sample_ref 9) ''device'' sample_event_input) c' = Inr Verified"
    using sample_verified by blast
  from verified_event_signed [OF this sample_signatures] show ?thesis by blast
qed

theorem stranger_event_accepted_witness:
  "\<exists>i c' e'. vt_scopeId i = ''mine'' \<and> verifyScopeState sample_verify_env i sample_sharing = (Inr Verified, c') \<and>
     vi_scopeId e' = ''scope'' \<and> verifyDomainEvent sample_verify_env e' c' = Inr Verified"
  using stranger_event_accepted [OF sample_verify_facts(1,2) _ _ _ sample_verify_facts(3,4), of "''mine''" "''eve''" "''device''"]
  by (auto simp: sample_event_input_def)

definition sample_chain_row :: "8 word \<Rightarrow> int \<Rightarrow> cached_state_row" where
  "sample_chain_row x n = \<lparr>sr_scope_state_ref = sample_ref x, sr_scope_id = ''scope'', sr_scope_state_seq = show_int n,
     sr_members_json = members_json [], sr_signers_json = signers_json [\<lparr>ssg_deviceId = ''d'', ssg_userId = ''ann'', ssg_sigSuite = ''ecdsa-p256'',
       ssg_pubKeys = [(''sig'', [7])]\<rparr>], sr_signature = [], sr_verified_at = 1\<rparr>"

definition sample_chain :: sharing_cache where
  "sample_chain = \<lparr>sc_states = [sample_chain_row 9 9, sample_chain_row 10 10], sc_grants = []\<rparr>"

definition sample_fork :: verify_state_input where
  "sample_fork =
     (let i = \<lparr>vt_scopeStateRef = sample_ref 99, vt_scopeId = ''scope'', vt_scopeStateSeq = 10, vt_prevHash = Some (sample_ref 9),
        vt_ownerUserId = ''ann'', vt_scopeEpoch = 0, vt_members = [], vt_signers = [], vt_sigSuite = ''ecdsa-p256'', vt_signature = []\<rparr> in
      i\<lparr>vt_signature := ve_encode sample_verify_env (scope_state_cbor (state_manifest i))\<rparr>)"

definition sample_next :: verify_state_input where
  "sample_next =
     (let i = \<lparr>vt_scopeStateRef = sample_ref 4, vt_scopeId = ''scope'', vt_scopeStateSeq = 4, vt_prevHash = Some (sample_ref 3),
        vt_ownerUserId = ''ann'', vt_scopeEpoch = 0, vt_members = [], vt_signers = [], vt_sigSuite = ''ecdsa-p256'', vt_signature = []\<rparr> in
      i\<lparr>vt_signature := ve_encode sample_verify_env (scope_state_cbor (state_manifest i))\<rparr>)"

definition sample_cache :: sharing_cache where
  "sample_cache = \<lparr>sc_states = [sample_chain_row 3 3, sample_chain_row 2 2], sc_grants = []\<rparr>"

lemma sample_next_verified: "\<exists>c'. verifyScopeState sample_verify_env sample_next sample_cache = (Inr Verified, c')"
proof -
  have ne: "sample_ref 2 \<noteq> sample_ref 3" by (simp add: sample_ref_def)
  have head: "scope_getHead ''scope'' (sc_states sample_cache) = Some (state_of_row (sample_chain_row 3 3))"
    by (simp add: scope_getHead_def order_by_seq_def sample_cache_def sample_chain_row_def text_less_digits)
  have prev: "cached_loadByRef (sample_ref 3) (sc_states sample_cache) = Some (state_of_row (sample_chain_row 3 3))"
    by (simp add: cached_loadByRef_def sample_cache_def sample_chain_row_def)
  have seq: "vss_scopeStateSeq (state_of_row (sample_chain_row 3 3)) = 3" "vss_scopeId (state_of_row (sample_chain_row 3 3)) = ''scope''"
    by (simp_all add: state_of_row_def sample_chain_row_def)
  have roster: "parseSigners (vss_signersJson (state_of_row (sample_chain_row 3 3))) =
      Inr [\<lparr>ssg_deviceId = ''d'', ssg_userId = ''ann'', ssg_sigSuite = ''ecdsa-p256'', ssg_pubKeys = [(''sig'', [7])]\<rparr>]"
    by (simp add: state_of_row_def sample_chain_row_def parseSigners_roundtrip roster_ok_def)
  have "validateScopeStatePrevHash (Some (sample_ref 3)) 4 ''scope'' sample_cache = DependenciesOk"
    using head prev seq by (simp add: validateScopeStatePrevHash_def Let_def)
  moreover have "resolve_state_key sample_next sample_cache = Inr (Inr [7])"
    using prev roster by (simp add: resolve_state_key_def sample_next_def Let_def owner_key_def)
  moreover have "encodeScopeStateManifest sample_verify_env (state_manifest sample_next) =
      Inr (ve_encode sample_verify_env (scope_state_cbor (state_manifest sample_next)))"
    by (simp add: encodeScopeStateManifest_def validateScopeStateManifest_def state_manifest_def require_def sample_next_def Let_def sample_ref_def)
  moreover have "state_signed sample_verify_env sample_next [7]"
    by (simp add: state_signed_def sample_next_def sample_verify_env_def Let_def state_manifest_def)
  moreover have "vt_prevHash sample_next = Some (sample_ref 3)" "vt_scopeStateSeq sample_next = 4" "vt_scopeId sample_next = ''scope''"
    "vt_sigSuite sample_next = ''ecdsa-p256''"
    by (simp_all add: sample_next_def Let_def)
  ultimately show ?thesis
    by (simp add: verifyScopeState_def bind_io_def verifyManifestSignature_def verifyEcdsaP256_def state_signed_def)
qed

theorem verified_state_extends_witness:
  "\<exists>c' key. verifyScopeState sample_verify_env sample_next sample_cache = (Inr Verified, c') \<and> state_signed sample_verify_env sample_next key \<and>
     extends sample_cache sample_next key \<and> seqs_below 10 ''scope'' sample_cache"
proof -
  obtain c' where c': "verifyScopeState sample_verify_env sample_next sample_cache = (Inr Verified, c')" using sample_next_verified by blast
  have "vt_scopeStateSeq sample_next \<noteq> 0" by (simp add: sample_next_def Let_def)
  moreover have "seqs_below 10 ''scope'' sample_cache" by (auto simp: seqs_below_def sample_cache_def sample_chain_row_def)
  ultimately show ?thesis using verified_state_extends [OF c'] c' by auto
qed

theorem fork_after_ten_witness:
  "(\<exists>h. scope_getHead ''scope'' (sc_states sample_chain) = Some h \<and> vss_scopeStateSeq h = 9) \<and> (\<exists>c'. verifyScopeState sample_verify_env sample_fork sample_chain = (Inr Verified, c') \<and> sample_chain_row 10 10 \<in> set (sc_states c') \<and>
     (\<exists>r \<in> set (sc_states c'). sr_scope_id r = ''scope'' \<and> sr_scope_state_seq r = show_int 10 \<and> sr_scope_state_ref r \<noteq> sample_ref 10))"
proof -
  have ne: "sample_ref 10 \<noteq> sample_ref 99" "sample_ref 10 \<noteq> sample_ref 9" by (simp_all add: sample_ref_def)
  have sig: "state_signed sample_verify_env sample_fork [7]"
    by (simp add: state_signed_def sample_fork_def sample_verify_env_def Let_def state_manifest_def)
  have keys: "owner_key [\<lparr>ssg_deviceId = ''d'', ssg_userId = ''ann'', ssg_sigSuite = ''ecdsa-p256'', ssg_pubKeys = [(''sig'', [7])]\<rparr>] ''ann'' [] = Inr [7]"
    by (simp add: owner_key_def)
  have "second_tenth sample_verify_env sample_chain (sample_chain_row 9 9) sample_fork"
    unfolding second_tenth_def using sig keys parseSigners_roundtrip [of "[\<lparr>ssg_deviceId = ''d'', ssg_userId = ''ann'', ssg_sigSuite = ''ecdsa-p256'', ssg_pubKeys = [(''sig'', [7])]\<rparr>]"]
    by (auto simp: cached_loadByRef_def sample_chain_def sample_chain_row_def sample_fork_def Let_def sample_ref_def roster_ok_def)
  moreover have "seqs_below 11 (vt_scopeId sample_fork) sample_chain"
    by (auto simp: seqs_below_def sample_chain_def sample_chain_row_def)
  ultimately show ?thesis
    using fork_after_ten [of sample_verify_env sample_chain "sample_chain_row 9 9" sample_fork "sample_chain_row 10 10"] ne
    by (simp add: sample_chain_def sample_chain_row_def sample_fork_def Let_def)
qed

end
