(* ===== verification/Publisher.thy ===== *)
theory Publisher
  imports EventStore SearchProjector
begin

text \<open>
  From the event log to the subscribers: the event bus
  (packages/infrastructure/src/events/InMemoryEventBus.ts), the runner that serialises the runs of
  a task (projection/ProjectionTaskRunner.ts) and the publisher that hands committed events to
  the bus (eventing/CommittedEventPublisher.ts). A subscriber works on a state of type
  \<open>'b\<close>. Timings and warnings are left out.

  The code is asynchronous: rows are inserted, the listener of the table is called and tasks
  end in any order. The relation at the end has these as its steps; a task reads the database
  when it starts and has its effects when it ends.
\<close>

subsection \<open>InMemoryEventBus\<close>

type_synonym 'b event_handler = "domain_event \<Rightarrow> 'b \<Rightarrow> (store_error + unit) \<times> 'b"

record 'b event_bus =
  eb_handlers :: "(string \<times> 'b event_handler list) list"
  eb_state :: 'b

text \<open>\<open>Promise.all\<close>: every handler is called, and the first error is the error of all.\<close>

fun call_all :: "'b event_handler list \<Rightarrow> domain_event \<Rightarrow> 'b \<Rightarrow> (store_error + unit) \<times> 'b" where
  "call_all [] e s = (Inr (), s)"
| "call_all (h # hs) e s =
     (let (r, s1) = h e s; (r', s2) = call_all hs e s1 in (if isl r then r else r', s2))"

definition bus_listeners :: "string \<Rightarrow> 'b event_bus \<Rightarrow> 'b event_handler list" where
  "bus_listeners ty bus = (case map_of (eb_handlers bus) ty of Some hs \<Rightarrow> hs | None \<Rightarrow> [])"

definition publish_one :: "domain_event \<Rightarrow> 'b event_bus \<Rightarrow> (store_error + unit) \<times> 'b event_bus" where
  "publish_one e bus =
     (case call_all (bus_listeners (payload_type (ev_payload e)) bus) e (eb_state bus) of (r, s) \<Rightarrow> (r, bus\<lparr>eb_state := s\<rparr>))"

definition bus_publish :: "domain_event list \<Rightarrow> 'b event_bus \<Rightarrow> (store_error + unit) \<times> 'b event_bus" where
  "bus_publish events = foreach_io publish_one events"

definition bus_subscribe :: "string \<Rightarrow> 'b event_handler \<Rightarrow> 'b event_bus \<Rightarrow> 'b event_bus" where
  "bus_subscribe ty h bus = bus\<lparr>eb_handlers := AList.update ty (bus_listeners ty bus @ [h]) (eb_handlers bus)\<rparr>"

subsection \<open>ProjectionTaskRunner\<close>

text \<open>\<open>tr_callers\<close> are the calls that wait for the completion promise.\<close>

record task_runner =
  tr_processing :: bool
  tr_pending :: bool
  tr_completion :: bool
  tr_callers :: nat

definition idle_runner :: task_runner where
  "idle_runner = \<lparr>tr_processing = False, tr_pending = False, tr_completion = False, tr_callers = 0\<rparr>"

text \<open>A call of \<open>run\<close> up to its first \<open>await\<close>, and whether it has started the task.\<close>

definition runner_run :: "task_runner \<Rightarrow> bool \<times> task_runner" where
  "runner_run r =
     (if tr_completion r then (False, r\<lparr>tr_pending := True, tr_callers := tr_callers r + 1\<rparr>)
      else (True, r\<lparr>tr_completion := True, tr_pending := False, tr_processing := True\<rparr>))"

text \<open>
  What follows the end of the task, up to the next \<open>await\<close>, and whether it has started the
  task again. On an error the loop is left whatever \<open>pending\<close> says.
\<close>

definition runner_task_ended :: "bool \<Rightarrow> task_runner \<Rightarrow> bool \<times> task_runner" where
  "runner_task_ended failed r =
     (if \<not> failed \<and> tr_pending r then (True, r\<lparr>tr_pending := False, tr_processing := True\<rparr>)
      else (False, r\<lparr>tr_processing := False, tr_completion := False, tr_callers := 0\<rparr>))"

subsection \<open>CommittedEventPublisher\<close>

record stream_state =
  ss_name :: string
  ss_aggregateType :: string
  ss_projectionId :: string
  ss_lastSequence :: int

record 'b publisher =
  pb_started :: bool
  pb_subscribed :: bool
  pb_streams :: "stream_state list"
  pb_meta :: meta_table
  pb_keys :: key_manager
  pb_db :: local_db
  pb_bus :: "'b event_bus"

record publisher_env =
  pv_crypto :: crypto_port
  pv_derive :: derive
  pv_now :: int

definition publisher_stream :: "string \<Rightarrow> string \<Rightarrow> stream_state" where
  "publisher_stream name aggregateType =
     \<lparr>ss_name = name, ss_aggregateType = aggregateType, ss_projectionId = ''committed_publisher:'' @ name,
      ss_lastSequence = 0\<rparr>"

definition buildStreams :: "bool \<Rightarrow> bool \<Rightarrow> stream_state list" where
  "buildStreams includeGoals includeProjects =
     (if includeGoals then [publisher_stream ''goals'' ''goal''] else []) @
     (if includeProjects then [publisher_stream ''projects'' ''project''] else [])"

definition publisher_meta :: "string \<Rightarrow> int \<Rightarrow> int \<Rightarrow> projection_meta_record" where
  "publisher_meta projectionId value now =
     \<lparr>pm_projectionId = projectionId, pm_ordering = CommitSequence, pm_lastEffectiveCursor = ZERO_EFFECTIVE_CURSOR,
      pm_lastCommitSequence = value, pm_phase = Phase_idle, pm_updatedAt = now\<rparr>"

definition loadLastSequence :: "publisher_env \<Rightarrow> string \<Rightarrow> meta_table \<Rightarrow> int \<times> meta_table" where
  "loadLastSequence env projectionId t =
     (case meta_get projectionId t of
        None \<Rightarrow> (0, meta_upsert (publisher_meta projectionId 0 (pv_now env)) t)
      | Some r \<Rightarrow> (pm_lastCommitSequence r, t))"

definition saveLastSequence :: "publisher_env \<Rightarrow> string \<Rightarrow> int \<Rightarrow> meta_table \<Rightarrow> meta_table" where
  "saveLastSequence env projectionId value t = meta_upsert (publisher_meta projectionId value (pv_now env)) t"

text \<open>
  The rows behind \<open>eventStore.getAllEvents(\{ since \})\<close>; the sequence of an event is the commit
  sequence of its row.
\<close>

definition rows_since :: "string \<Rightarrow> int \<Rightarrow> local_db \<Rightarrow> event_row list" where
  "rows_since aggregateType since db =
     sort_key row_commit_sequence (filter (\<lambda>r. row_aggregate_type r = aggregateType \<and>
       (since = 0 \<or> since < row_commit_sequence r)) (db_events db))"

lemma rows_since_getAllEvents:
  "getAllEvents t \<lparr>ef_aggregateId = None, ef_eventType = None, ef_since = Some k, ef_limit = None\<rparr> db =
     map encrypted_of_row (rows_since t k db)"
  by (simp add: getAllEvents_def rows_since_def falsy_string_def)

text \<open>The loop of \<open>runProcessStream\<close>: \<open>None\<close> when it returns early because the master key is not set.\<close>

fun collect_events ::
  "publisher_env \<Rightarrow> event_row list \<Rightarrow> int \<Rightarrow> domain_event list \<Rightarrow>
     (key_manager, (domain_event list \<times> int) option) io" where
  "collect_events env [] processedMax toPublish = return_io (Some (toPublish, processedMax))"
| "collect_events env (r # rs) processedMax toPublish =
     (if row_commit_sequence r = 0 then throw_io (Error ''Event missing sequence'')
      else (\<lambda>km.
        case resolveKeyForEvent (pv_crypto env) (pv_derive env) (row_aggregate_id r) km of
          (Inl e, km') \<Rightarrow>
            if e = Error ''Master key not set'' then (Inr None, km')
            else if missing_key_error e
            then collect_events env rs (max processedMax (row_commit_sequence r)) toPublish km'
            else (Inl e, km')
        | (Inr kAggregate, km') \<Rightarrow>
            bind_io (lift_io (toDomain (pv_crypto env) (encrypted_of_row r) kAggregate)) (\<lambda>domainEvent.
            collect_events env rs (max processedMax (row_commit_sequence r)) (toPublish @ [domainEvent])) km'))"

definition on_publisher_keys :: "(key_manager, 'a) io \<Rightarrow> 'b publisher \<Rightarrow> (store_error + 'a) \<times> 'b publisher" where
  "on_publisher_keys m p =
     (case m (pb_keys p) of
        (Inl e, km) \<Rightarrow> (Inl (Failed e), p\<lparr>pb_keys := km\<rparr>)
      | (Inr x, km) \<Rightarrow> (Inr x, p\<lparr>pb_keys := km\<rparr>))"

definition on_bus ::
  "('b event_bus \<Rightarrow> (store_error + 'a) \<times> 'b event_bus) \<Rightarrow> 'b publisher \<Rightarrow> (store_error + 'a) \<times> 'b publisher" where
  "on_bus m p = (case m (pb_bus p) of (r, bus) \<Rightarrow> (r, p\<lparr>pb_bus := bus\<rparr>))"

definition advance_stream :: "publisher_env \<Rightarrow> nat \<Rightarrow> int \<Rightarrow> 'b publisher \<Rightarrow> 'b publisher" where
  "advance_stream env i processedMax p =
     (let st = pb_streams p ! i in
      if ss_lastSequence st < processedMax
      then p\<lparr>pb_streams := (pb_streams p)[i := st\<lparr>ss_lastSequence := processedMax\<rparr>],
             pb_meta := saveLastSequence env (ss_projectionId st) processedMax (pb_meta p)\<rparr>
      else p)"

text \<open>\<open>runProcessStream\<close> on the stream number \<open>i\<close>, with the database it has read.\<close>

definition runProcessStream ::
  "publisher_env \<Rightarrow> nat \<Rightarrow> local_db \<Rightarrow> 'b publisher \<Rightarrow> (store_error + unit) \<times> 'b publisher" where
  "runProcessStream env i db p =
     (let st = pb_streams p ! i; events = rows_since (ss_aggregateType st) (ss_lastSequence st) db in
      if events = [] then (Inr (), p)
      else
        bind_io (on_publisher_keys (collect_events env events (ss_lastSequence st) [])) (\<lambda>collected.
        case collected of
          None \<Rightarrow> return_io ()
        | Some (toPublish, processedMax) \<Rightarrow>
            bind_io (if toPublish = [] then return_io () else on_bus (bus_publish toPublish)) (\<lambda>_.
            update_io (advance_stream env i processedMax))) p)"

definition load_stream :: "publisher_env \<Rightarrow> nat \<Rightarrow> 'b publisher \<Rightarrow> 'b publisher" where
  "load_stream env i p =
     (let st = pb_streams p ! i; (v, t) = loadLastSequence env (ss_projectionId st) (pb_meta p) in
      p\<lparr>pb_streams := (pb_streams p)[i := st\<lparr>ss_lastSequence := v\<rparr>], pb_meta := t\<rparr>)"

text \<open>\<open>start\<close>, when nothing else happens meanwhile.\<close>

definition publisher_start :: "publisher_env \<Rightarrow> 'b publisher \<Rightarrow> (store_error + unit) \<times> 'b publisher" where
  "publisher_start env p =
     (if pb_started p then (Inr (), p)
      else
        let is = [0..<length (pb_streams p)];
            p1 = fold (load_stream env) is (p\<lparr>pb_started := True\<rparr>)
        in foreach_io (\<lambda>i p. runProcessStream env i (pb_db p) p) is (p1\<lparr>pb_subscribed := True\<rparr>))"

definition publisher_stop :: "'b publisher \<Rightarrow> 'b publisher" where
  "publisher_stop p = (if pb_started p then p\<lparr>pb_started := False, pb_subscribed := False\<rparr> else p)"

subsection \<open>Rows, notifications and tasks in any order\<close>

text \<open>
  Per stream: its runner, the database its current task has read, and whether a change of the
  table has not yet reached it.
\<close>

record stream_run =
  sr_runner :: task_runner
  sr_read :: local_db
  sr_due :: bool
  sr_failed :: bool

record 'b publishing =
  pg_publisher :: "'b publisher"
  pg_runs :: "stream_run list"

definition on_run :: "nat \<Rightarrow> (stream_run \<Rightarrow> stream_run) \<Rightarrow> 'b publishing \<Rightarrow> 'b publishing" where
  "on_run i f g = g\<lparr>pg_runs := (pg_runs g)[i := f (pg_runs g ! i)]\<rparr>"

text \<open>A row is inserted; the notification of the listener is on its way.\<close>

definition row_inserted :: "event_row \<Rightarrow> 'b publishing \<Rightarrow> 'b publishing" where
  "row_inserted r g =
     g\<lparr>pg_publisher := (pg_publisher g)\<lparr>pb_db := insert_event_or_ignore r (pb_db (pg_publisher g))\<rparr>,
       pg_runs := map (sr_due_update (\<lambda>_. True)) (pg_runs g)\<rparr>"

definition task_step :: "local_db \<Rightarrow> (task_runner \<Rightarrow> bool \<times> task_runner) \<Rightarrow> stream_run \<Rightarrow> stream_run" where
  "task_step db f x =
     (case f (sr_runner x) of (starts, r) \<Rightarrow> x\<lparr>sr_runner := r, sr_read := if starts then db else sr_read x\<rparr>)"

text \<open>\<open>processStream\<close>, from \<open>start\<close> or from the listener.\<close>

definition processStream :: "nat \<Rightarrow> 'b publishing \<Rightarrow> 'b publishing" where
  "processStream i g =
     on_run i (\<lambda>x. task_step (pb_db (pg_publisher g)) runner_run (x\<lparr>sr_due := False\<rparr>)) g"

definition task_ended :: "publisher_env \<Rightarrow> nat \<Rightarrow> 'b publishing \<Rightarrow> 'b publishing" where
  "task_ended env i g =
     (case runProcessStream env i (sr_read (pg_runs g ! i)) (pg_publisher g) of
        (res, p) \<Rightarrow>
          on_run i (\<lambda>x. task_step (pb_db p) (runner_task_ended (isl res)) (x\<lparr>sr_failed := sr_failed x \<or> isl res\<rparr>))
            (g\<lparr>pg_publisher := p\<rparr>))"

inductive publishing_step :: "publisher_env \<Rightarrow> 'b publishing \<Rightarrow> 'b publishing \<Rightarrow> bool" for env where
  Row_inserted: "publishing_step env g (row_inserted r g)"
| Process_stream: "i < length (pg_runs g) \<Longrightarrow> publishing_step env g (processStream i g)"
| Task_ended: "i < length (pg_runs g) \<Longrightarrow> tr_processing (sr_runner (pg_runs g ! i)) \<Longrightarrow>
    publishing_step env g (task_ended env i g)"

definition publishing_start :: "'b publisher \<Rightarrow> 'b publishing" where
  "publishing_start p =
     \<lparr>pg_publisher = p,
      pg_runs = map (\<lambda>_. \<lparr>sr_runner = idle_runner, sr_read = pb_db p, sr_due = True, sr_failed = False\<rparr>) (pb_streams p)\<rparr>"

end
