(* ===== verification/PublisherFacts.thy ===== *)
theory PublisherFacts
  imports Publisher
begin

text \<open>
  Facts on the publisher: what one run of a stream hands to the bus, and the invariant that
  every interleaving of inserted rows, notifications and tasks keeps.
\<close>

subsection \<open>The bus and one run\<close>

lemma foreach_io_append:
  "foreach_io f xs s = (Inr (), t) \<Longrightarrow> foreach_io f (xs @ ys) s = foreach_io f ys t"
  by (induction xs arbitrary: s) (auto simp: bind_io_def split: prod.splits sum.splits)

lemma bus_publish_Nil [simp]: "bus_publish [] bus = (Inr (), bus)"
  by (simp add: bus_publish_def)

lemmas bus_publish_append = foreach_io_append [of publish_one, folded bus_publish_def]

text \<open>The domain event of a row; none when the device has no key of the aggregate.\<close>

definition decode_row :: "publisher_env \<Rightarrow> (string \<Rightarrow> bytes option) \<Rightarrow> event_row \<Rightarrow> domain_event option" where
  "decode_row env keys r =
     (case keys (row_aggregate_id r) of
        None \<Rightarrow> None
      | Some k \<Rightarrow> (case toDomain (pv_crypto env) (encrypted_of_row r) k of Inl _ \<Rightarrow> None | Inr e \<Rightarrow> Some e))"

abbreviation device_keys :: "publisher_env \<Rightarrow> (string \<Rightarrow> bytes option) \<Rightarrow> key_manager \<Rightarrow> bool" where
  "device_keys env keys km \<equiv> keys_ok (pv_crypto env) {} keys km"

lemma collect_events_run:
  assumes "device_keys env keys km" and "\<forall>r \<in> set rs. 0 < row_commit_sequence r"
    and "collect_events env rs m acc km = (res, km')"
  shows "device_keys env keys km' \<and>
    (isl res \<or> res = Inr (Some (acc @ List.map_filter (decode_row env keys) rs, fold max (map row_commit_sequence rs) m)))"
  using assms
proof (induction rs arbitrary: m acc km)
  case Nil
  then show ?case by (simp add: map_filter_simps)
next
  case (Cons r rs)
  obtain km1 where km1: "resolveKeyForEvent (pv_crypto env) (pv_derive env) (row_aggregate_id r) km =
      ((case keys (row_aggregate_id r) of Some k \<Rightarrow> Inr k | None \<Rightarrow> Inl (Error ''Missing aggregate key'')), km1)"
    "device_keys env keys km1"
    using keys_ok_resolve [OF Cons.prems(1), of "row_aggregate_id r" "pv_derive env"] by auto
  note IH = Cons.IH [OF km1(2)]
  show ?case
  proof (cases "keys (row_aggregate_id r)")
    case None
    then show ?thesis
      using IH [of "max m (row_commit_sequence r)" acc] Cons.prems(2,3) km1(1)
      by (auto simp: missing_key_error_def decode_row_def map_filter_simps max.commute)
  next
    case (Some k)
    show ?thesis
    proof (cases "toDomain (pv_crypto env) (encrypted_of_row r) k")
      case (Inl e)
      then show ?thesis using Cons.prems(2,3) km1 Some by (auto simp: bind_io_def)
    next
      case (Inr d)
      then show ?thesis
        using IH [of "max m (row_commit_sequence r)" "acc @ [d]"] Cons.prems(2,3) km1(1) Some
        by (auto simp: bind_io_def decode_row_def map_filter_simps max.commute)
    qed
  qed
qed

definition window :: "string \<Rightarrow> int \<Rightarrow> int \<Rightarrow> local_db \<Rightarrow> event_row list" where
  "window t a b db =
     filter (\<lambda>r. row_aggregate_type r = t \<and> a < row_commit_sequence r \<and> row_commit_sequence r \<le> b) (db_events db)"

lemma rows_since_wf:
  assumes "db_wf db"
  shows "rows_since t k db = filter (\<lambda>r. row_aggregate_type r = t \<and> k < row_commit_sequence r) (db_events db)"
proof -
  have pos: "filter (\<lambda>r. row_aggregate_type r = t \<and> (k = 0 \<or> k < row_commit_sequence r)) (db_events db) =
      filter (\<lambda>r. row_aggregate_type r = t \<and> k < row_commit_sequence r) (db_events db)"
    using db_wfD(4) [OF assms] by (intro filter_cong) auto
  have "sorted (map row_commit_sequence (db_events db))"
    using db_wfD(3) [OF assms] strict_sorted_imp_sorted by blast
  then show ?thesis
    unfolding rows_since_def pos by (intro sort_key_id_if_sorted sorted_filter)
qed

lemma fold_max_bounds:
  fixes m :: int
  shows "m \<le> fold max xs m" and "x \<in> set xs \<Longrightarrow> x \<le> fold max xs m" and "fold max xs m = m \<or> fold max xs m \<in> set xs"
proof -
  have eq: "fold max xs m = Max (set (m # xs))" using Max.set_eq_fold [of m xs] by simp
  show "m \<le> fold max xs m" and "x \<in> set xs \<Longrightarrow> x \<le> fold max xs m" by (simp_all add: eq)
  show "fold max xs m = m \<or> fold max xs m \<in> set xs" using Max_in [of "set (m # xs)"] by (simp add: eq)
qed

text \<open>Later rows have later commit sequences.\<close>

lemma later_rows:
  assumes "db_wf db" and "db_events db = xs @ ys" and "x \<in> set xs" and "y \<in> set ys"
  shows "row_commit_sequence x < row_commit_sequence y"
  using db_wfD(3) [OF assms(1)] assms(2-4) by (auto simp: sorted_wrt_append)

lemma window_of_read:
  assumes "db_wf db" and "db_events db = db_events read @ ys" and "db_wf read"
    and "b = fold max (map row_commit_sequence (rows_since t a read)) a"
  shows "window t a b db = rows_since t a read"
proof -
  have le: "row_commit_sequence r \<le> b" if "r \<in> set (rows_since t a read)" for r
    using that fold_max_bounds(2) [of "row_commit_sequence r" "map row_commit_sequence (rows_since t a read)" a] assms(4) by auto
  have "b = a \<or> b \<in> row_commit_sequence ` set (rows_since t a read)"
    using fold_max_bounds(3) [of "map row_commit_sequence (rows_since t a read)" a] assms(4) by auto
  then have late: "\<not> (a < row_commit_sequence y \<and> row_commit_sequence y \<le> b)" if "y \<in> set ys" for y
    using later_rows [OF assms(1,2) _ that] by (fastforce simp: rows_since_wf [OF assms(3)])
  have "filter (\<lambda>r. row_aggregate_type r = t \<and> a < row_commit_sequence r \<and> row_commit_sequence r \<le> b) (db_events read) =
      rows_since t a read"
    unfolding rows_since_wf [OF assms(3)] using le by (intro filter_cong) (auto simp: rows_since_wf [OF assms(3)])
  moreover have "filter (\<lambda>r. row_aggregate_type r = t \<and> a < row_commit_sequence r \<and> row_commit_sequence r \<le> b) ys = []"
    using late by (auto simp: filter_empty_conv)
  ultimately show ?thesis by (simp add: window_def assms(2))
qed

lemma stream_run_failed:
  assumes "device_keys env keys (pb_keys p)" and "db_wf read" and "runProcessStream env i read p = (Inl e, p')"
  shows "device_keys env keys (pb_keys p') \<and> pb_streams p' = pb_streams p \<and> pb_meta p' = pb_meta p \<and> pb_db p' = pb_db p"
proof -
  let ?st = "pb_streams p ! i"
  let ?rs = "rows_since (ss_aggregateType ?st) (ss_lastSequence ?st) read"
  obtain res km where c: "collect_events env ?rs (ss_lastSequence ?st) [] (pb_keys p) = (res, km)" by fastforce
  have "device_keys env keys km"
    using collect_events_run [OF assms(1) _ c] db_wfD(4) [OF assms(2)] by (auto simp: rows_since_wf [OF assms(2)])
  then show ?thesis
    using assms(3) c
    by (auto simp: runProcessStream_def Let_def bind_io_def on_publisher_keys_def on_bus_def
        split: if_splits sum.splits option.splits prod.splits)
qed

lemma stream_run_ok:
  assumes keys: "device_keys env keys (pb_keys p)" and "db_wf db" and "db_events db = db_events read @ ys" and wf: "db_wf read"
    and i: "i < length (pb_streams p)" and st: "st = pb_streams p ! i"
    and run: "runProcessStream env i read p = (Inr (), p')"
  obtains b where "ss_lastSequence st \<le> b" "b = ss_lastSequence st \<or> b \<in> row_commit_sequence ` set (db_events read)"
    "\<forall>r \<in> set (db_events read). row_aggregate_type r = ss_aggregateType st \<longrightarrow> row_commit_sequence r \<le> b"
    "pb_streams p' = (pb_streams p)[i := st\<lparr>ss_lastSequence := b\<rparr>]"
    "bus_publish (List.map_filter (decode_row env keys) (window (ss_aggregateType st) (ss_lastSequence st) b db)) (pb_bus p) =
       (Inr (), pb_bus p')"
    "device_keys env keys (pb_keys p')" "pb_db p' = pb_db p"
    "b = ss_lastSequence st \<and> pb_meta p' = pb_meta p \<or>
       pb_meta p' = saveLastSequence env (ss_projectionId st) b (pb_meta p)"
proof -
  let ?a = "ss_lastSequence st"
  let ?rs = "rows_since (ss_aggregateType st) ?a read"
  let ?b = "fold max (map row_commit_sequence ?rs) ?a"
  let ?es = "List.map_filter (decode_row env keys) ?rs"
  have w: "window (ss_aggregateType st) ?a ?b db = ?rs" by (rule window_of_read [OF assms(2,3) wf refl])
  have covered: "row_commit_sequence r \<le> ?b" if r: "r \<in> set (db_events read)" "row_aggregate_type r = ss_aggregateType st" for r
  proof (cases "?a < row_commit_sequence r")
    case True
    then have "row_commit_sequence r \<in> set (map row_commit_sequence ?rs)" using r by (auto simp: rows_since_wf [OF wf])
    then show ?thesis by (rule fold_max_bounds(2))
  next
    case False
    then show ?thesis using fold_max_bounds(1) [of ?a "map row_commit_sequence ?rs"] by linarith
  qed
  have same: "(pb_streams p)[i := st\<lparr>ss_lastSequence := ?a\<rparr>] = pb_streams p" using i st by simp
  have b_in: "?b = ?a \<or> ?b \<in> row_commit_sequence ` set (db_events read)"
    using fold_max_bounds(3) [of "map row_commit_sequence ?rs" ?a] by (auto simp: rows_since_wf [OF wf])
  obtain res km where c: "collect_events env ?rs ?a [] (pb_keys p) = (res, km)" by fastforce
  have km: "device_keys env keys km" "isl res \<or> res = Inr (Some (?es, ?b))"
    using collect_events_run [OF keys _ c] db_wfD(4) [OF wf] by (auto simp: rows_since_wf [OF wf])
  have main: "pb_streams p' = (pb_streams p)[i := st\<lparr>ss_lastSequence := ?b\<rparr>] \<and>
      bus_publish ?es (pb_bus p) = (Inr (), pb_bus p') \<and> device_keys env keys (pb_keys p') \<and> pb_db p' = pb_db p \<and>
      (?b = ?a \<and> pb_meta p' = pb_meta p \<or> pb_meta p' = saveLastSequence env (ss_projectionId st) ?b (pb_meta p))"
  proof (cases "?rs = []")
    case True
    then show ?thesis using run same keys st by (simp add: runProcessStream_def Let_def map_filter_simps)
  next
    case False
    then have res: "res = Inr (Some (?es, ?b))" using run c km(2) st
      by (auto simp: runProcessStream_def Let_def bind_io_def on_publisher_keys_def split: sum.splits)
    obtain r bus where pub: "bus_publish ?es (pb_bus p) = (r, bus)" by fastforce
    have "?a \<le> ?b" by (rule fold_max_bounds(1))
    then show ?thesis
      using run False c res pub km(1) st same
      by (cases "?es = []"; cases r)
         (auto simp: runProcessStream_def Let_def bind_io_def on_publisher_keys_def on_bus_def advance_stream_def
           split: if_splits)
  qed
  show ?thesis
    by (rule that [of ?b]) (use main w covered b_in fold_max_bounds(1) in auto)
qed

subsection \<open>The invariant of all interleavings\<close>

definition run_ok :: "stream_state \<Rightarrow> local_db \<Rightarrow> stream_run \<Rightarrow> bool" where
  "run_ok st db x \<longleftrightarrow>
     tr_processing (sr_runner x) = tr_completion (sr_runner x) \<and> ss_lastSequence st \<le> db_sqlite_sequence db \<and>
     (tr_processing (sr_runner x) \<longrightarrow> db_wf (sr_read x) \<and> (\<exists>ys. db_events db = db_events (sr_read x) @ ys) \<and>
        (\<not> tr_pending (sr_runner x) \<and> \<not> sr_due x \<longrightarrow> db_events (sr_read x) = db_events db)) \<and>
     (\<not> tr_processing (sr_runner x) \<and> \<not> sr_due x \<and> \<not> sr_failed x \<longrightarrow>
        (\<forall>r \<in> set (db_events db). row_aggregate_type r = ss_aggregateType st \<longrightarrow> row_commit_sequence r \<le> ss_lastSequence st))"

text \<open>What the bus has been given, stream by stream, since the publisher started as \<open>p0\<close>.\<close>

definition delivered ::
  "publisher_env \<Rightarrow> (string \<Rightarrow> bytes option) \<Rightarrow> 'b publisher \<Rightarrow> 'b publisher \<Rightarrow> (nat \<times> domain_event) list \<Rightarrow> bool" where
  "delivered env keys p0 p log \<longleftrightarrow> bus_publish (map snd log) (pb_bus p0) = (Inr (), pb_bus p) \<and>
     (\<forall>x \<in> set log. fst x < length (pb_streams p)) \<and>
     (\<forall>i < length (pb_streams p). map snd (filter (\<lambda>x. fst x = i) log) =
        List.map_filter (decode_row env keys)
          (window (ss_aggregateType (pb_streams p ! i)) (ss_lastSequence (pb_streams p0 ! i)) (ss_lastSequence (pb_streams p ! i)) (pb_db p)))"

definition cursors_saved :: "'b publisher \<Rightarrow> bool" where
  "cursors_saved p \<longleftrightarrow> distinct (map ss_projectionId (pb_streams p)) \<and>
     (\<forall>st \<in> set (pb_streams p). map_option pm_lastCommitSequence (meta_get (ss_projectionId st) (pb_meta p)) = Some (ss_lastSequence st))"

definition stream_follows :: "stream_state \<Rightarrow> stream_state \<Rightarrow> bool" where
  "stream_follows st0 st \<longleftrightarrow> ss_aggregateType st = ss_aggregateType st0 \<and> ss_projectionId st = ss_projectionId st0 \<and>
     ss_lastSequence st0 \<le> ss_lastSequence st"

definition publishing_ok ::
  "publisher_env \<Rightarrow> (string \<Rightarrow> bytes option) \<Rightarrow> 'b publisher \<Rightarrow> 'b publishing \<Rightarrow> bool" where
  "publishing_ok env keys p0 g \<longleftrightarrow>
     (let p = pg_publisher g in
      db_wf (pb_db p) \<and> device_keys env keys (pb_keys p) \<and> cursors_saved p \<and>
      list_all2 stream_follows (pb_streams p0) (pb_streams p) \<and>
      list_all2 (\<lambda>st x. run_ok st (pb_db p) x) (pb_streams p) (pg_runs g) \<and>
      ((\<forall>x \<in> set (pg_runs g). \<not> sr_failed x) \<longrightarrow> (\<exists>log. delivered env keys p0 p log)))"

lemma filter_window_append:
  assumes "sorted (map f xs)" and "a \<le> b" and "b \<le> (c :: int)"
  shows "filter (\<lambda>x. P x \<and> a < f x \<and> f x \<le> c) xs =
    filter (\<lambda>x. P x \<and> a < f x \<and> f x \<le> b) xs @ filter (\<lambda>x. P x \<and> b < f x \<and> f x \<le> c) xs"
  using assms(1)
proof (induction xs)
  case (Cons x xs)
  show ?case
  proof (cases "f x \<le> b")
    case True
    then show ?thesis using Cons assms(2,3) by auto
  next
    case False
    then have "filter (\<lambda>x. P x \<and> a < f x \<and> f x \<le> b) xs = []" using Cons.prems by (auto simp: filter_empty_conv)
    then show ?thesis using Cons False assms(2) by auto
  qed
qed simp

lemma window_append:
  assumes "db_wf db" and "a \<le> b" and "b \<le> c"
  shows "window t a c db = window t a b db @ window t b c db"
  unfolding window_def
  by (rule filter_window_append [OF _ assms(2,3)])
     (use db_wfD(3) [OF assms(1)] strict_sorted_imp_sorted in blast)

lemma map_filter_append: "List.map_filter f (xs @ ys) = List.map_filter f xs @ List.map_filter f ys"
  by (simp add: List.map_filter_def)

lemma map_snd_filter_tag [simp]:
  "map snd (filter (\<lambda>x. fst x = i) (map (Pair j) es)) = (if i = j then es else [])"
  by (induction es) auto

lemma delivered_run:
  assumes "delivered env keys p0 p log" and "db_wf (pb_db p)" and "i < length (pb_streams p)" and "st = pb_streams p ! i"
    and "ss_lastSequence (pb_streams p0 ! i) \<le> ss_lastSequence st" and "ss_lastSequence st \<le> b"
    and "bus_publish (List.map_filter (decode_row env keys) (window (ss_aggregateType st) (ss_lastSequence st) b (pb_db p))) (pb_bus p) =
       (Inr (), pb_bus p')"
    and "pb_streams p' = (pb_streams p)[i := st\<lparr>ss_lastSequence := b\<rparr>]" and "pb_db p' = pb_db p"
  shows "\<exists>log'. delivered env keys p0 p' log'"
proof -
  let ?es = "List.map_filter (decode_row env keys) (window (ss_aggregateType st) (ss_lastSequence st) b (pb_db p))"
  have "bus_publish (map snd (log @ map (Pair i) ?es)) (pb_bus p0) = (Inr (), pb_bus p')"
    using assms(1,7) bus_publish_append [of "map snd log" "pb_bus p0" "pb_bus p" ?es] by (simp add: delivered_def comp_def)
  moreover have "map snd (filter (\<lambda>x. fst x = j) (log @ map (Pair i) ?es)) =
      List.map_filter (decode_row env keys)
        (window (ss_aggregateType (pb_streams p' ! j)) (ss_lastSequence (pb_streams p0 ! j)) (ss_lastSequence (pb_streams p' ! j)) (pb_db p'))"
    if "j < length (pb_streams p')" for j
    using assms that window_append [OF assms(2,5,6)]
    by (cases "j = i") (auto simp: delivered_def map_filter_append nth_list_update comp_def)
  moreover have "\<forall>x \<in> set (log @ map (Pair i) ?es). fst x < length (pb_streams p')"
    using assms(1,3,8) by (auto simp: delivered_def)
  ultimately show ?thesis unfolding delivered_def by blast
qed

lemma publishing_start_ok:
  assumes "db_wf (pb_db p)" and "device_keys env keys (pb_keys p)" and "cursors_saved p"
    and "\<forall>st \<in> set (pb_streams p). ss_lastSequence st \<le> db_sqlite_sequence (pb_db p)"
  shows "publishing_ok env keys p (publishing_start p)"
proof -
  have "delivered env keys p p []" by (simp add: delivered_def window_def map_filter_simps)
  then show ?thesis
    using assms
    by (auto simp: publishing_ok_def publishing_start_def Let_def list_all2_conv_all_nth stream_follows_def run_ok_def idle_runner_def)
qed

lemma row_inserted_ok:
  assumes "publishing_ok env keys p0 g"
  shows "publishing_ok env keys p0 (row_inserted r g)"
proof -
  let ?p = "pg_publisher g"
  let ?db = "pb_db ?p" and ?db' = "insert_event_or_ignore r (pb_db ?p)"
  have wf: "db_wf ?db" using assms by (simp add: publishing_ok_def Let_def)
  have seq: "db_sqlite_sequence ?db \<le> db_sqlite_sequence ?db'" by (simp add: insert_event_or_ignore_def Let_def)
  obtain zs where zs: "db_events ?db' = db_events ?db @ zs" "\<forall>z \<in> set zs. db_sqlite_sequence ?db < row_commit_sequence z"
    by (cases "has_event ?db (row_id r) \<or> row_key r \<in> row_key ` set (db_events ?db)") (simp_all add: insert_event_or_ignore_def Let_def)
  then have win: "window t a b ?db' = window t a b ?db" if "b \<le> db_sqlite_sequence ?db" for t a b
    using that by (fastforce simp: window_def filter_empty_conv)
  have last: "ss_lastSequence (pb_streams ?p ! i) \<le> db_sqlite_sequence ?db" if "i < length (pb_streams ?p)" for i
    using assms that by (auto simp: publishing_ok_def Let_def list_all2_conv_all_nth run_ok_def)
  have run: "run_ok st ?db' (x\<lparr>sr_due := True\<rparr>)" if "run_ok st ?db x" for st x
    using that seq by (auto simp: run_ok_def zs(1))
  have "list_all2 (\<lambda>st x. run_ok st ?db x) (pb_streams ?p) (pg_runs g)"
    using assms by (simp add: publishing_ok_def Let_def)
  then have runs: "list_all2 (\<lambda>st x. run_ok st ?db' x) (pb_streams ?p) (map (sr_due_update (\<lambda>_. True)) (pg_runs g))"
    by (auto simp: list_all2_conv_all_nth intro: run)
  have "delivered env keys p0 (?p\<lparr>pb_db := ?db'\<rparr>) log" if "delivered env keys p0 ?p log" for log
    using that win last by (simp add: delivered_def)
  moreover have "cursors_saved (?p\<lparr>pb_db := ?db'\<rparr>)" using assms by (simp add: publishing_ok_def cursors_saved_def Let_def)
  ultimately show ?thesis
    using assms runs db_wf_insert_event [OF wf, of r] by (auto simp: publishing_ok_def row_inserted_def Let_def)
qed

lemma list_all2_update2:
  "list_all2 P xs ys \<Longrightarrow> (i < length xs \<Longrightarrow> P (xs ! i) y) \<Longrightarrow> list_all2 P xs (ys[i := y])"
  by (auto simp: list_all2_conv_all_nth) (metis nth_list_update_eq nth_list_update_neq)

lemma processStream_ok:
  assumes "publishing_ok env keys p0 g" and "i < length (pg_runs g)"
  shows "publishing_ok env keys p0 (processStream i g)"
proof -
  let ?p = "pg_publisher g" and ?x = "pg_runs g ! i"
  let ?y = "task_step (pb_db ?p) runner_run (?x\<lparr>sr_due := False\<rparr>)"
  have runs: "list_all2 (\<lambda>st x. run_ok st (pb_db ?p) x) (pb_streams ?p) (pg_runs g)" and wf: "db_wf (pb_db ?p)"
    using assms by (simp_all add: publishing_ok_def Let_def)
  have "run_ok (pb_streams ?p ! i) (pb_db ?p) ?y"
    using list_all2_nthD2 [OF runs assms(2)] wf by (auto simp: run_ok_def task_step_def runner_run_def)
  then have "list_all2 (\<lambda>st x. run_ok st (pb_db ?p) x) (pb_streams ?p) ((pg_runs g)[i := ?y])"
    by (intro list_all2_update2 [OF runs])
  moreover have "(\<forall>x \<in> set ((pg_runs g)[i := ?y]). \<not> sr_failed x) \<Longrightarrow> (\<forall>x \<in> set (pg_runs g). \<not> sr_failed x)"
  proof -
    assume none: "\<forall>x \<in> set ((pg_runs g)[i := ?y]). \<not> sr_failed x"
    have "sr_failed ?y = sr_failed ?x" by (simp add: task_step_def runner_run_def)
    then show ?thesis using none assms(2) by (auto simp: all_set_conv_all_nth nth_list_update split: if_splits)
  qed
  ultimately show ?thesis using assms by (auto simp: publishing_ok_def processStream_def on_run_def Let_def)
qed

lemma cursors_saved_run:
  assumes "cursors_saved p" and "i < length (pb_streams p)" and "st = pb_streams p ! i"
    and "pb_streams p' = (pb_streams p)[i := st\<lparr>ss_lastSequence := b\<rparr>]"
    and "b = ss_lastSequence st \<and> pb_meta p' = pb_meta p \<or> pb_meta p' = saveLastSequence env (ss_projectionId st) b (pb_meta p)"
  shows "cursors_saved p'"
proof -
  have ids: "map ss_projectionId (pb_streams p') = map ss_projectionId (pb_streams p)"
    using assms(2-4) by (auto simp: list_eq_iff_nth_eq nth_list_update)
  have "map_option pm_lastCommitSequence (meta_get (ss_projectionId (pb_streams p' ! j)) (pb_meta p')) =
      Some (ss_lastSequence (pb_streams p' ! j))" if j: "j < length (pb_streams p)" for j
  proof -
    have old: "map_option pm_lastCommitSequence (meta_get (ss_projectionId (pb_streams p ! j)) (pb_meta p)) =
        Some (ss_lastSequence (pb_streams p ! j))" if "j < length (pb_streams p)" for j
      using assms(1) that by (simp add: cursors_saved_def all_set_conv_all_nth)
    show ?thesis
    proof (cases "j = i")
      case True
      then show ?thesis using assms(2-5) old [OF assms(2)] by (auto simp: saveLastSequence_def publisher_meta_def)
    next
      case False
      then have "ss_projectionId (pb_streams p ! j) \<noteq> ss_projectionId st"
        using assms(1-3) j by (auto simp: cursors_saved_def distinct_conv_nth)
      then show ?thesis using assms(4,5) old [OF j] False by (auto simp: saveLastSequence_def publisher_meta_def)
    qed
  qed
  then show ?thesis using assms(1,4) ids by (simp add: cursors_saved_def all_set_conv_all_nth)
qed

lemma task_ended_ok:
  assumes "publishing_ok env keys p0 g" and "i < length (pg_runs g)" and "tr_processing (sr_runner (pg_runs g ! i))"
  shows "publishing_ok env keys p0 (task_ended env i g)"
proof -
  let ?p = "pg_publisher g" and ?x = "pg_runs g ! i"
  let ?st = "pb_streams ?p ! i"
  have ok: "db_wf (pb_db ?p)" "device_keys env keys (pb_keys ?p)" "cursors_saved ?p"
    "list_all2 stream_follows (pb_streams p0) (pb_streams ?p)"
    "list_all2 (\<lambda>st x. run_ok st (pb_db ?p) x) (pb_streams ?p) (pg_runs g)"
    "(\<forall>x \<in> set (pg_runs g). \<not> sr_failed x) \<Longrightarrow> \<exists>log. delivered env keys p0 ?p log"
    using assms(1) by (simp_all add: publishing_ok_def Let_def)
  have i: "i < length (pb_streams ?p)" using list_all2_lengthD [OF ok(5)] assms(2) by simp
  have x: "run_ok ?st (pb_db ?p) ?x" using list_all2_nthD2 [OF ok(5) assms(2)] .
  then obtain ys where ys: "db_events (pb_db ?p) = db_events (sr_read ?x) @ ys" "db_wf (sr_read ?x)"
    using assms(3) by (auto simp: run_ok_def)
  obtain res p where run: "runProcessStream env i (sr_read ?x) ?p = (res, p)" by fastforce
  let ?y = "task_step (pb_db p) (runner_task_ended (isl res)) (?x\<lparr>sr_failed := sr_failed ?x \<or> isl res\<rparr>)"
  have g: "task_ended env i g = g\<lparr>pg_publisher := p, pg_runs := (pg_runs g)[i := ?y]\<rparr>"
    by (simp add: task_ended_def run on_run_def)
  have failed: "sr_failed ?y \<longleftrightarrow> sr_failed ?x \<or> isl res" by (simp add: task_step_def runner_task_ended_def)
  show ?thesis
  proof (cases res)
    case (Inl e)
    then have p: "device_keys env keys (pb_keys p)" "pb_streams p = pb_streams ?p" "pb_meta p = pb_meta ?p" "pb_db p = pb_db ?p"
      using stream_run_failed [OF ok(2) ys(2)] run by auto
    have "run_ok ?st (pb_db ?p) ?y" using x Inl by (auto simp: run_ok_def task_step_def runner_task_ended_def)
    then have runs: "list_all2 (\<lambda>st x. run_ok st (pb_db ?p) x) (pb_streams ?p) ((pg_runs g)[i := ?y])"
      by (intro list_all2_update2 [OF ok(5)])
    have "\<not> (\<forall>x \<in> set ((pg_runs g)[i := ?y]). \<not> sr_failed x)"
      using set_update_memI [OF assms(2)] failed Inl by fastforce
    then show ?thesis
      using ok p runs by (auto simp: g publishing_ok_def Let_def cursors_saved_def)
  next
    case (Inr u)
    then have ran: "runProcessStream env i (sr_read ?x) ?p = (Inr (), p)" using run by simp
    obtain b where b: "ss_lastSequence ?st \<le> b" "b = ss_lastSequence ?st \<or> b \<in> row_commit_sequence ` set (db_events (sr_read ?x))"
      "\<forall>r \<in> set (db_events (sr_read ?x)). row_aggregate_type r = ss_aggregateType ?st \<longrightarrow> row_commit_sequence r \<le> b"
      "pb_streams p = (pb_streams ?p)[i := ?st\<lparr>ss_lastSequence := b\<rparr>]"
      "bus_publish (List.map_filter (decode_row env keys) (window (ss_aggregateType ?st) (ss_lastSequence ?st) b (pb_db ?p))) (pb_bus ?p) =
         (Inr (), pb_bus p)"
      "device_keys env keys (pb_keys p)" "pb_db p = pb_db ?p"
      "b = ss_lastSequence ?st \<and> pb_meta p = pb_meta ?p \<or> pb_meta p = saveLastSequence env (ss_projectionId ?st) b (pb_meta ?p)"
      by (rule stream_run_ok [OF ok(2,1) ys i refl ran])
    have follows0: "stream_follows (pb_streams p0 ! i) ?st" using list_all2_nthD2 [OF ok(4) i] .
    have "stream_follows (pb_streams p0 ! i) (?st\<lparr>ss_lastSequence := b\<rparr>)" using follows0 b(1) by (simp add: stream_follows_def)
    then have follows: "list_all2 stream_follows (pb_streams p0) (pb_streams p)"
      unfolding b(4) by (intro list_all2_update2 [OF ok(4)])
    have "b \<le> db_sqlite_sequence (pb_db ?p)" using b(2) x db_wfD(5) [OF ok(1)] ys(1) by (auto simp: run_ok_def)
    then have "run_ok (?st\<lparr>ss_lastSequence := b\<rparr>) (pb_db ?p) ?y"
      using x b(3,7) ok(1) assms(3) Inr by (auto simp: run_ok_def task_step_def runner_task_ended_def)
    then have runs: "list_all2 (\<lambda>st x. run_ok st (pb_db ?p) x) (pb_streams p) ((pg_runs g)[i := ?y])"
      unfolding b(4) by (intro list_all2_update_cong [OF ok(5)])
    have "(\<forall>x \<in> set (pg_runs g). \<not> sr_failed x)" if "\<forall>x \<in> set ((pg_runs g)[i := ?y]). \<not> sr_failed x"
      using that assms(2) failed by (auto simp: all_set_conv_all_nth nth_list_update split: if_splits)
    then have "\<exists>log. delivered env keys p0 p log" if "\<forall>x \<in> set ((pg_runs g)[i := ?y]). \<not> sr_failed x"
      using that ok(6) delivered_run [OF _ ok(1) i refl _ b(1,5,4,7)] follows0 unfolding stream_follows_def by blast
    then show ?thesis
      using ok(1) b(6,7) follows runs cursors_saved_run [OF ok(3) i refl b(4,8)] by (simp add: g publishing_ok_def Let_def)
  qed
qed

text \<open>Reachable states keep the invariant, by rule induction.\<close>

lemma publishing_step_ok: "publishing_step env g g' \<Longrightarrow> publishing_ok env keys p0 g \<Longrightarrow> publishing_ok env keys p0 g'"
  by (induction rule: publishing_step.induct) (simp_all add: row_inserted_ok processStream_ok task_ended_ok)

lemma publishing_reachable_ok:
  "rtranclp (publishing_step env) g g' \<Longrightarrow> publishing_ok env keys p0 g \<Longrightarrow> publishing_ok env keys p0 g'"
  by (induction rule: rtranclp_induct) (auto intro: publishing_step_ok)

text \<open>A run succeeds when the rows can be read and the subscribers do not throw.\<close>

lemma collect_events_ok:
  assumes "device_keys env keys km" and "\<forall>r \<in> set rs. 0 < row_commit_sequence r"
    and "\<forall>r \<in> set rs. keys (row_aggregate_id r) = None \<or> decode_row env keys r \<noteq> None"
  shows "\<exists>x km'. collect_events env rs m acc km = (Inr x, km')"
  using assms
proof (induction rs arbitrary: m acc km)
  case (Cons r rs)
  obtain km1 where km1: "resolveKeyForEvent (pv_crypto env) (pv_derive env) (row_aggregate_id r) km =
      ((case keys (row_aggregate_id r) of Some k \<Rightarrow> Inr k | None \<Rightarrow> Inl (Error ''Missing aggregate key'')), km1)"
    "device_keys env keys km1"
    using keys_ok_resolve [OF Cons.prems(1), of "row_aggregate_id r" "pv_derive env"] by auto
  note IH = Cons.IH [OF km1(2)]
  then show ?case
    using Cons.prems km1(1)
    by (auto simp: missing_key_error_def decode_row_def bind_io_def split: option.splits sum.splits)
qed simp

lemma runProcessStream_succeeds:
  assumes "device_keys env keys (pb_keys p)" and "db_wf db" and "st = pb_streams p ! i"
    and "\<forall>r \<in> set (rows_since (ss_aggregateType st) (ss_lastSequence st) db).
      keys (row_aggregate_id r) = None \<or> decode_row env keys r \<noteq> None"
    and "bus_publish (List.map_filter (decode_row env keys) (rows_since (ss_aggregateType st) (ss_lastSequence st) db)) (pb_bus p) = (Inr (), bus)"
  shows "\<exists>p'. runProcessStream env i db p = (Inr (), p')"
proof -
  let ?rs = "rows_since (ss_aggregateType st) (ss_lastSequence st) db"
  have pos: "\<forall>r \<in> set ?rs. 0 < row_commit_sequence r" using db_wfD(4) [OF assms(2)] by (auto simp: rows_since_wf [OF assms(2)])
  obtain x km where c: "collect_events env ?rs (ss_lastSequence st) [] (pb_keys p) = (Inr x, km)"
    using collect_events_ok [OF assms(1) pos assms(4)] by blast
  then have "x = Some (List.map_filter (decode_row env keys) ?rs, fold max (map row_commit_sequence ?rs) (ss_lastSequence st))"
    using collect_events_run [OF assms(1) pos c] by simp
  then show ?thesis
    using c assms(3,5) by (auto simp: runProcessStream_def Let_def bind_io_def on_publisher_keys_def on_bus_def)
qed

end
