(* ===== verification/PublisherProperties.thy ===== *)
theory PublisherProperties
  imports PublisherFacts Saga ProjectionProperties
begin

text \<open>
  What the subscribers of the event bus get to see: the committed events of every stream, in
  commit order and each once, whatever the order of rows, notifications and tasks; and what a
  row that cannot be decoded does to its stream. The goal achievement saga is such a subscriber.
\<close>

subsection \<open>The saga as a subscriber\<close>

definition saga_event_types :: "string list" where
  "saga_event_types =
     [''ProjectCreated'', ''ProjectGoalAdded'', ''ProjectGoalRemoved'', ''ProjectStatusTransitioned'', ''GoalAchieved'',
      ''GoalUnachieved'', ''GoalArchived'', ''GoalCreated'', ''GoalRefined'', ''GoalRecategorized'', ''GoalRescheduled'',
      ''GoalPrioritized'', ''GoalAccessGranted'', ''GoalAccessRevoked'']"

definition saga_subscribe :: "saga_env \<Rightarrow> saga event_bus \<Rightarrow> saga event_bus" where
  "saga_subscribe env = fold (\<lambda>ty. bus_subscribe ty (saga_handleEvent env)) saga_event_types"

subsection \<open>Specification\<close>

text \<open>The events that a stream owes its subscribers: those of the rows after its cursor that the device can read.\<close>

definition stream_events :: "publisher_env \<Rightarrow> (string \<Rightarrow> bytes option) \<Rightarrow> stream_state \<Rightarrow> local_db \<Rightarrow> domain_event list" where
  "stream_events env keys st db =
     List.map_filter (decode_row env keys)
       (filter (\<lambda>r. row_aggregate_type r = ss_aggregateType st \<and> ss_lastSequence st < row_commit_sequence r) (db_events db))"

definition stream_idle :: "stream_run \<Rightarrow> bool" where
  "stream_idle x \<longleftrightarrow> \<not> tr_processing (sr_runner x) \<and> \<not> sr_due x"

definition poisonous :: "publisher_env \<Rightarrow> (string \<Rightarrow> bytes option) \<Rightarrow> event_row \<Rightarrow> bool" where
  "poisonous env keys r \<longleftrightarrow> keys (row_aggregate_id r) \<noteq> None \<and> decode_row env keys r = None"

subsection \<open>A subscriber that wants every event\<close>

definition log_bus :: "domain_event list event_bus" where
  "log_bus = fold (\<lambda>ty. bus_subscribe ty (\<lambda>e s. (Inr (), s @ [e]))) goal_event_types \<lparr>eb_handlers = [], eb_state = []\<rparr>"

definition goal_a_publisher :: "domain_event list publisher" where
  "goal_a_publisher =
     \<lparr>pb_started = True, pb_subscribed = True, pb_streams = buildStreams True False,
      pb_meta = [publisher_meta ''committed_publisher:goals'' 0 0], pb_keys = ds_keys fresh_goal_projection,
      pb_db = goal_a_db, pb_bus = log_bus\<rparr>"

definition publisher_sample_env :: publisher_env where
  "publisher_sample_env = \<lparr>pv_crypto = tagged_crypto, pv_derive = (\<lambda>_ _. Inr []), pv_now = 0\<rparr>"

subsection \<open>Lemmas\<close>

lemma stream_events_window:
  assumes "db_wf db" and "ss_lastSequence st0 \<le> b" and "b \<le> db_sqlite_sequence db" and "ss_aggregateType st0 = t"
  shows "stream_events env keys st0 db =
    List.map_filter (decode_row env keys) (window t (ss_lastSequence st0) b db) @
    List.map_filter (decode_row env keys) (filter (\<lambda>r. row_aggregate_type r = t \<and> b < row_commit_sequence r) (db_events db))"
proof -
  have all: "window t a (db_sqlite_sequence db) db =
      filter (\<lambda>r. row_aggregate_type r = t \<and> a < row_commit_sequence r) (db_events db)" for a
    unfolding window_def using db_wfD(5) [OF assms(1)] by (intro filter_cong) auto
  show ?thesis
    using window_append [OF assms(1-3), of t] by (simp add: stream_events_def all assms(4) map_filter_append)
qed

lemma collect_events_reads_all:
  assumes "device_keys env keys km" and "collect_events env rs m acc km = (Inr x, km')" and "r \<in> set rs"
  shows "\<not> poisonous env keys r"
  using assms
proof (induction rs arbitrary: m acc km)
  case (Cons y rs)
  obtain km1 where km1: "resolveKeyForEvent (pv_crypto env) (pv_derive env) (row_aggregate_id y) km =
      ((case keys (row_aggregate_id y) of Some k \<Rightarrow> Inr k | None \<Rightarrow> Inl (Error ''Missing aggregate key'')), km1)"
    "device_keys env keys km1"
    using keys_ok_resolve [OF Cons.prems(1), of "row_aggregate_id y" "pv_derive env"] by auto
  show ?case
    using Cons.prems(2,3) km1(1) Cons.IH [OF km1(2)]
    by (auto simp: poisonous_def missing_key_error_def decode_row_def bind_io_def split: if_splits option.splits sum.splits)
qed simp

lemma poison_fails:
  assumes "device_keys env keys (pb_keys p)" and "db_wf db" and "r \<in> set (db_events db)" and "poisonous env keys r"
    and "row_aggregate_type r = ss_aggregateType (pb_streams p ! i)" and "ss_lastSequence (pb_streams p ! i) < row_commit_sequence r"
  shows "\<exists>e p'. runProcessStream env i db p = (Inl e, p')"
proof -
  let ?st = "pb_streams p ! i"
  let ?rs = "rows_since (ss_aggregateType ?st) (ss_lastSequence ?st) db"
  have r: "r \<in> set ?rs" using assms(3,5,6) by (auto simp: rows_since_wf [OF assms(2)])
  obtain res km where c: "collect_events env ?rs (ss_lastSequence ?st) [] (pb_keys p) = (res, km)" by fastforce
  then have "isl res" using collect_events_reads_all [OF assms(1) _ r] assms(4) by (cases res) auto
  then show ?thesis
    using c r by (auto simp: runProcessStream_def Let_def bind_io_def on_publisher_keys_def isl_def)
qed

definition stream_blocked ::
  "publisher_env \<Rightarrow> (string \<Rightarrow> bytes option) \<Rightarrow> 'b publisher \<Rightarrow> nat \<Rightarrow> event_row \<Rightarrow> 'b publishing \<Rightarrow> bool" where
  "stream_blocked env keys p0 i r g \<longleftrightarrow> publishing_ok env keys p0 g \<and> i < length (pg_runs g) \<and>
     pb_streams (pg_publisher g) ! i = pb_streams p0 ! i \<and> r \<in> set (db_events (pb_db (pg_publisher g))) \<and>
     (tr_processing (sr_runner (pg_runs g ! i)) \<longrightarrow> r \<in> set (db_events (sr_read (pg_runs g ! i))))"

lemma task_ended_frame:
  assumes "publishing_ok env keys p0 g" and "i < length (pg_runs g)" and "tr_processing (sr_runner (pg_runs g ! i))"
    and "runProcessStream env i (sr_read (pg_runs g ! i)) (pg_publisher g) = (res, p)"
  shows "pb_db p = pb_db (pg_publisher g)" and "isl res \<Longrightarrow> pb_streams p = pb_streams (pg_publisher g)"
    and "j \<noteq> i \<Longrightarrow> pb_streams p ! j = pb_streams (pg_publisher g) ! j"
proof -
  have ok: "db_wf (pb_db (pg_publisher g))" "device_keys env keys (pb_keys (pg_publisher g))"
    "list_all2 (\<lambda>st x. run_ok st (pb_db (pg_publisher g)) x) (pb_streams (pg_publisher g)) (pg_runs g)"
    using assms(1) by (simp_all add: publishing_ok_def Let_def)
  have i: "i < length (pb_streams (pg_publisher g))" using list_all2_lengthD [OF ok(3)] assms(2) by simp
  obtain ys where ys: "db_events (pb_db (pg_publisher g)) = db_events (sr_read (pg_runs g ! i)) @ ys" "db_wf (sr_read (pg_runs g ! i))"
    using list_all2_nthD2 [OF ok(3) assms(2)] assms(3) by (auto simp: run_ok_def)
  have "pb_db p = pb_db (pg_publisher g) \<and> (isl res \<longrightarrow> pb_streams p = pb_streams (pg_publisher g)) \<and>
      (j \<noteq> i \<longrightarrow> pb_streams p ! j = pb_streams (pg_publisher g) ! j)"
  proof (cases res)
    case (Inl e)
    then show ?thesis using stream_run_failed [OF ok(2) ys(2)] assms(4) by auto
  next
    case (Inr u)
    then have "runProcessStream env i (sr_read (pg_runs g ! i)) (pg_publisher g) = (Inr (), p)" using assms(4) by simp
    from stream_run_ok [OF ok(2,1) ys i refl this] Inr show ?thesis by (metis isl_def nth_list_update_neq sum.disc(2))
  qed
  then show "pb_db p = pb_db (pg_publisher g)" and "isl res \<Longrightarrow> pb_streams p = pb_streams (pg_publisher g)"
    and "j \<noteq> i \<Longrightarrow> pb_streams p ! j = pb_streams (pg_publisher g) ! j" by blast+
qed

lemma stream_blocked_step:
  assumes "publishing_step env g g'" and "stream_blocked env keys p0 i r g" and "poisonous env keys r"
    and "row_aggregate_type r = ss_aggregateType (pb_streams p0 ! i)" and "ss_lastSequence (pb_streams p0 ! i) < row_commit_sequence r"
  shows "stream_blocked env keys p0 i r g'"
  using assms(1)
proof (cases rule: publishing_step.cases)
  case (Row_inserted r')
  then show ?thesis
    using assms(2) row_inserted_ok [of env keys p0 g r'] insert_event_prefix [of r' "pb_db (pg_publisher g)"]
    by (auto simp: stream_blocked_def) (auto simp: row_inserted_def)
next
  case (Process_stream j)
  then show ?thesis
    using assms(2) processStream_ok [of env keys p0 g j]
    by (cases "j = i"; cases "tr_completion (sr_runner (pg_runs g ! j))")
       (simp_all add: stream_blocked_def, simp_all add: processStream_def on_run_def task_step_def runner_run_def)
next
  case (Task_ended j)
  obtain res p where run: "runProcessStream env j (sr_read (pg_runs g ! j)) (pg_publisher g) = (res, p)" by fastforce
  have ok: "publishing_ok env keys p0 g" using assms(2) by (simp add: stream_blocked_def)
  note frame = task_ended_frame [OF ok Task_ended(2,3) run]
  have "isl res" if "j = i"
  proof -
    have "db_wf (sr_read (pg_runs g ! i))"
      using ok that Task_ended(2,3) by (auto simp: publishing_ok_def Let_def list_all2_conv_all_nth run_ok_def)
    then show ?thesis
      using poison_fails [of env keys "pg_publisher g" "sr_read (pg_runs g ! i)" r i] assms(2-5) run that Task_ended(3) ok
      by (auto simp: stream_blocked_def publishing_ok_def Let_def)
  qed
  then have "pb_streams p ! i = pb_streams (pg_publisher g) ! i" using frame(2) frame(3) [of i] by (cases "j = i") auto
  moreover let ?y = "task_step (pb_db p) (runner_task_ended (isl res)) ((pg_runs g ! j)\<lparr>sr_failed := sr_failed (pg_runs g ! j) \<or> isl res\<rparr>)"
  have "g' = g\<lparr>pg_publisher := p, pg_runs := (pg_runs g)[j := ?y]\<rparr>"
    by (simp add: Task_ended(1) task_ended_def run on_run_def)
  moreover have "tr_processing (sr_runner ?y) \<Longrightarrow> sr_read ?y = pb_db p"
    by (cases "\<not> isl res \<and> tr_pending (sr_runner (pg_runs g ! j))") (auto simp: task_step_def runner_task_ended_def)
  moreover have "publishing_ok env keys p0 g'" using task_ended_ok [OF ok Task_ended(2,3)] Task_ended(1) by simp
  ultimately show ?thesis
    using assms(2) Task_ended(2) frame(1) by (cases "j = i") (simp_all add: stream_blocked_def)
qed

lemma stream_blocked_reachable:
  assumes "rtranclp (publishing_step env) g g'" and "stream_blocked env keys p0 i r g" and "poisonous env keys r"
    and "row_aggregate_type r = ss_aggregateType (pb_streams p0 ! i)" and "ss_lastSequence (pb_streams p0 ! i) < row_commit_sequence r"
  shows "stream_blocked env keys p0 i r g'"
  using assms(1,2) by (induction rule: rtranclp_induct) (use assms(3-5) stream_blocked_step in blast)+

lemma call_all_single: "call_all [h] e s = h e s"
  by (cases "h e s"; cases "fst (h e s)") (auto simp: isl_def)

lemma listeners_subscribe [simp]:
  "bus_listeners ty (bus_subscribe t h bus) = bus_listeners ty bus @ (if ty = t then [h] else [])"
  by (simp add: bus_listeners_def bus_subscribe_def update_conv' split: option.split)

lemma state_subscribe [simp]: "eb_state (bus_subscribe t h bus) = eb_state bus"
  by (simp add: bus_subscribe_def)

lemma subscribe_all:
  "distinct tys \<Longrightarrow> bus_listeners ty (fold (\<lambda>t. bus_subscribe t h) tys bus) =
     bus_listeners ty bus @ (if ty \<in> set tys then [h] else [])"
  "eb_state (fold (\<lambda>t. bus_subscribe t h) tys bus) = eb_state bus"
  by (induction tys arbitrary: bus) auto

lemma state_update_same: "eb_state bus = s \<Longrightarrow> bus\<lparr>eb_state := s\<rparr> = bus"
  by (cases bus) simp

text \<open>A bus with one subscriber, which ignores the other types of events: publishing is handling one after the other.\<close>

lemma publish_to_one:
  assumes "\<And>e. bus_listeners (payload_type (ev_payload e)) bus = [h] \<or>
      bus_listeners (payload_type (ev_payload e)) bus = [] \<and> h e = return_io ()"
  shows "bus_publish es (bus\<lparr>eb_state := s\<rparr>) = (case foreach_io h es s of (r, s') \<Rightarrow> (r, bus\<lparr>eb_state := s'\<rparr>))"
proof (induction es arbitrary: s)
  case (Cons e es)
  have "publish_one e (bus\<lparr>eb_state := s\<rparr>) = (case h e s of (r, s') \<Rightarrow> (r, bus\<lparr>eb_state := s'\<rparr>))"
    using assms [of e] by (auto simp: publish_one_def bus_listeners_def call_all_single simp del: call_all.simps(2) split: prod.split)
  then show ?case
    using Cons by (auto simp: bus_publish_def bind_io_def split: prod.split sum.split)
qed (simp add: bus_publish_def)

lemma saga_listeners:
  "bus_listeners (payload_type (ev_payload e)) (saga_subscribe env \<lparr>eb_handlers = [], eb_state = s\<rparr>) = [saga_handleEvent env] \<or>
   bus_listeners (payload_type (ev_payload e)) (saga_subscribe env \<lparr>eb_handlers = [], eb_state = s\<rparr>) = [] \<and>
     saga_handleEvent env e = return_io ()"
proof -
  have "distinct saga_event_types" by code_simp
  then have *: "bus_listeners ty (saga_subscribe env \<lparr>eb_handlers = [], eb_state = s\<rparr>) =
      (if ty \<in> set saga_event_types then [saga_handleEvent env] else [])" for ty
    by (simp add: saga_subscribe_def subscribe_all) (simp add: bus_listeners_def)
  have "payload_type (ev_payload e) \<in> set saga_event_types \<or> saga_handleEvent env e = return_io ()"
  proof (cases "ev_payload e")
    case (GoalEvent x)
    then show ?thesis by (cases x) (simp_all add: saga_event_types_def)
  next
    case (ProjectEvent x)
    then show ?thesis by (cases x) (simp_all add: saga_event_types_def saga_handleEvent_def)
  qed (simp_all add: saga_handleEvent_def)
  then show ?thesis unfolding * by auto
qed

theorem saga_bus_publish:
  "bus_publish es (saga_subscribe env \<lparr>eb_handlers = [], eb_state = s\<rparr>) =
     (case foreach_io (saga_handleEvent env) es s of (r, s') \<Rightarrow>
        (r, (saga_subscribe env \<lparr>eb_handlers = [], eb_state = s\<rparr>)\<lparr>eb_state := s'\<rparr>))"
proof -
  have "eb_state (saga_subscribe env \<lparr>eb_handlers = [], eb_state = s\<rparr>) = s" by (simp add: saga_subscribe_def subscribe_all)
  then show ?thesis
    using publish_to_one [of "saga_subscribe env \<lparr>eb_handlers = [], eb_state = s\<rparr>" "saga_handleEvent env" es s] saga_listeners [of _ env s]
    by (simp add: state_update_same)
qed

subsection \<open>A device with two events of a goal\<close>

lemma publisher_sample_keys: "device_keys publisher_sample_env goal_a_keys (pb_keys goal_a_publisher)"
  by (auto simp: keys_ok_def goal_a_publisher_def publisher_sample_env_def fresh_goal_projection_def getAggregateKey_def require_master_def
      tagged_crypto_def goal_a_keys_def)

lemma publisher_sample_start:
  "db_wf (pb_db goal_a_publisher)" "cursors_saved goal_a_publisher"
  "\<forall>st \<in> set (pb_streams goal_a_publisher). ss_lastSequence st \<le> db_sqlite_sequence (pb_db goal_a_publisher)"
  "pb_streams goal_a_publisher = [publisher_stream ''goals'' ''goal'']"
  using goal_a_db_wf
  by (simp_all add: goal_a_publisher_def cursors_saved_def buildStreams_def publisher_stream_def publisher_meta_def meta_get_def
      select_row_def goal_a_db_def)

lemma publisher_sample_rows:
  "rows_since ''goal'' 0 goal_a_db = [goal_row goal_a_created 1, goal_row goal_a_moved 2]"
  by (simp add: rows_since_wf [OF goal_a_db_wf]) (simp add: goal_a_db_def goal_a_rows)

lemma publisher_sample_decode:
  "decode_row publisher_sample_env goal_a_keys (goal_row goal_a_created 1) = Some goal_a_created"
  "decode_row publisher_sample_env goal_a_keys (goal_row goal_a_moved 2) = Some goal_a_moved"
  using goal_a_readable [of None] goal_a_rows
  by (simp_all add: goal_event_of_def decode_row_def publisher_sample_env_def goal_toEncryptedEvent_def record_of_row_def encrypted_of_row_def
      split: option.splits sum.splits)

lemma log_bus_publish:
  assumes "\<forall>e \<in> set es. payload_type (ev_payload e) \<in> set goal_event_types"
  shows "bus_publish es (log_bus\<lparr>eb_state := s\<rparr>) = (Inr (), log_bus\<lparr>eb_state := s @ es\<rparr>)"
  using assms
proof (induction es arbitrary: s)
  case (Cons e es)
  have "distinct goal_event_types" by code_simp
  then have "bus_listeners (payload_type (ev_payload e)) (log_bus\<lparr>eb_state := s\<rparr>) = [\<lambda>e s. (Inr (), s @ [e])]"
    using Cons.prems subscribe_all(1) [of goal_event_types "payload_type (ev_payload e)" "\<lambda>e s. (Inr (), s @ [e])" "\<lparr>eb_handlers = [], eb_state = []\<rparr>"]
    by (simp add: bus_listeners_def log_bus_def)
  then show ?case
    using Cons by (simp add: bus_publish_def bind_io_def publish_one_def)
qed (simp add: bus_publish_def)

subsection \<open>Properties\<close>

text \<open>
  C29: the publisher delivers exactly once. Take a publisher whose saved cursors lie within the log,
  and any interleaving of inserted rows, calls of the table listener and ends of tasks in
  which no task has thrown. What the bus has been given is an interleaving of the streams, and
  of each stream it has been given a first part of the readable events after the initial cursor,
  in commit order and without repetition; once no notification is outstanding and no task
  runs, it has been given all of them. The cursors are saved, so a restart continues there. Rows
  whose key the device does not have are passed over for good.
\<close>

theorem publisher_exactly_once:
  assumes "db_wf (pb_db p0)" and "keys_ok (pv_crypto env) {} keys (pb_keys p0)" and "cursors_saved p0"
    and "\<forall>st \<in> set (pb_streams p0). ss_lastSequence st \<le> db_sqlite_sequence (pb_db p0)"
    and "rtranclp (publishing_step env) (publishing_start p0) g"
    and "\<forall>x \<in> set (pg_runs g). \<not> sr_failed x"
  shows "cursors_saved (pg_publisher g) \<and>
    (\<exists>log. bus_publish (map snd log) (pb_bus p0) = (Inr (), pb_bus (pg_publisher g)) \<and>
      (\<forall>x \<in> set log. fst x < length (pb_streams p0)) \<and>
      (\<forall>i < length (pb_streams p0).
         \<exists>rest. stream_events env keys (pb_streams p0 ! i) (pb_db (pg_publisher g)) = map snd (filter (\<lambda>x. fst x = i) log) @ rest \<and>
           (stream_idle (pg_runs g ! i) \<longrightarrow> rest = [])))"
proof -
  let ?p = "pg_publisher g"
  have ok: "publishing_ok env keys p0 g"
    using publishing_reachable_ok [OF assms(5) publishing_start_ok [OF assms(1-4)]] .
  then obtain log where log: "delivered env keys p0 ?p log" using assms(6) by (auto simp: publishing_ok_def Let_def)
  have all: "db_wf (pb_db ?p)" "cursors_saved ?p" "list_all2 stream_follows (pb_streams p0) (pb_streams ?p)"
    "list_all2 (\<lambda>st x. run_ok st (pb_db ?p) x) (pb_streams ?p) (pg_runs g)"
    using ok by (simp_all add: publishing_ok_def Let_def)
  have "\<exists>rest. stream_events env keys (pb_streams p0 ! i) (pb_db ?p) = map snd (filter (\<lambda>x. fst x = i) log) @ rest \<and>
      (stream_idle (pg_runs g ! i) \<longrightarrow> rest = [])" if i: "i < length (pb_streams p0)" for i
  proof -
    let ?st = "pb_streams ?p ! i"
    let ?rest = "filter (\<lambda>r. row_aggregate_type r = ss_aggregateType ?st \<and> ss_lastSequence ?st < row_commit_sequence r) (db_events (pb_db ?p))"
    have len: "i < length (pb_streams ?p)" "i < length (pg_runs g)"
      using i list_all2_lengthD [OF all(3)] list_all2_lengthD [OF all(4)] by simp_all
    have st: "stream_follows (pb_streams p0 ! i) ?st" "run_ok ?st (pb_db ?p) (pg_runs g ! i)"
      using list_all2_nthD [OF all(3) i] list_all2_nthD2 [OF all(4) len(2)] by simp_all
    have "stream_events env keys (pb_streams p0 ! i) (pb_db ?p) =
        map snd (filter (\<lambda>x. fst x = i) log) @ List.map_filter (decode_row env keys) ?rest"
      using stream_events_window [OF all(1), of "pb_streams p0 ! i" "ss_lastSequence ?st" "ss_aggregateType ?st" env keys] st log len(1)
      by (simp add: stream_follows_def run_ok_def delivered_def)
    moreover have "stream_idle (pg_runs g ! i) \<Longrightarrow> ?rest = []"
      using st(2) assms(6) nth_mem [OF len(2)] by (auto simp: stream_idle_def run_ok_def filter_empty_conv not_less)
    ultimately show ?thesis by (auto simp: map_filter_simps)
  qed
  moreover have "\<forall>x \<in> set log. fst x < length (pb_streams p0)"
    using log list_all2_lengthD [OF all(3)] by (simp add: delivered_def)
  ultimately show ?thesis using log all(2) unfolding delivered_def by blast
qed

theorem publisher_exactly_once_witness:
  "eb_state (pb_bus (pg_publisher (task_ended publisher_sample_env 0 (processStream 0 (publishing_start goal_a_publisher))))) =
     [goal_a_created, goal_a_moved]"
proof -
  let ?s = "publishing_start goal_a_publisher"
  let ?g = "processStream 0 ?s"
  let ?env = publisher_sample_env
  have s: "length (pg_runs ?s) = 1" "pg_publisher ?g = goal_a_publisher" "length (pg_runs ?g) = 1"
    "pg_runs ?g ! 0 = \<lparr>sr_runner = \<lparr>tr_processing = True, tr_pending = False, tr_completion = True, tr_callers = 0\<rparr>,
       sr_read = goal_a_db, sr_due = False, sr_failed = False\<rparr>"
    by (simp_all add: publishing_start_def publisher_sample_start processStream_def on_run_def task_step_def runner_run_def idle_runner_def)
       (simp add: goal_a_publisher_def)
  have types: "\<forall>e \<in> set [goal_a_created, goal_a_moved]. payload_type (ev_payload e) \<in> set goal_event_types" by code_simp
  have log: "bus_publish [goal_a_created, goal_a_moved] (pb_bus goal_a_publisher) = (Inr (), log_bus\<lparr>eb_state := [goal_a_created, goal_a_moved]\<rparr>)"
    using log_bus_publish [OF types, of "[]"]
    by (simp add: goal_a_publisher_def log_bus_def subscribe_all state_update_same)
  obtain p where run: "runProcessStream ?env 0 goal_a_db goal_a_publisher = (Inr (), p)"
    using runProcessStream_succeeds [OF publisher_sample_keys goal_a_db_wf refl, of 0] log
    by (auto simp: publisher_sample_start publisher_stream_def publisher_sample_rows publisher_sample_decode map_filter_simps)
  let ?g' = "task_ended ?env 0 ?g"
  have g': "pg_runs ?g' = [\<lparr>sr_runner = idle_runner, sr_read = goal_a_db, sr_due = False, sr_failed = False\<rparr>]"
    using s run by (cases "pg_runs ?g") (auto simp: task_ended_def on_run_def task_step_def runner_task_ended_def idle_runner_def)
  have "publishing_step ?env ?s ?g" "publishing_step ?env ?g ?g'"
    using s by (auto intro!: publishing_step.intros)
  then have "rtranclp (publishing_step ?env) ?s ?g'" by (meson rtranclp.rtrancl_refl rtranclp.rtrancl_into_rtrancl)
  moreover have "\<forall>x \<in> set (pg_runs ?g'). \<not> sr_failed x" "stream_idle (pg_runs ?g' ! 0)" using g' by (simp_all add: stream_idle_def idle_runner_def)
  ultimately have "\<exists>log. bus_publish (map snd log) (pb_bus goal_a_publisher) = (Inr (), pb_bus (pg_publisher ?g')) \<and>
      (\<forall>x \<in> set log. fst x = (0 :: nat)) \<and>
      stream_events ?env goal_a_keys (publisher_stream ''goals'' ''goal'') (pb_db (pg_publisher ?g')) = map snd (filter (\<lambda>x. fst x = (0 :: nat)) log)"
    using publisher_exactly_once [of goal_a_publisher ?env goal_a_keys ?g', OF publisher_sample_start(1) publisher_sample_keys
        publisher_sample_start(2,3)]
    by (simp add: publisher_sample_start(4))
  then obtain log where l: "bus_publish (map snd log) (pb_bus goal_a_publisher) = (Inr (), pb_bus (pg_publisher ?g'))"
    "\<forall>x \<in> set log. fst x = (0 :: nat)"
    "stream_events ?env goal_a_keys (publisher_stream ''goals'' ''goal'') (pb_db (pg_publisher ?g')) = map snd (filter (\<lambda>x. fst x = (0 :: nat)) log)"
    by blast
  have "pb_db (pg_publisher ?g') = goal_a_db"
    using task_ended_frame(1) [OF processStream_ok [OF publishing_start_ok [OF publisher_sample_start(1) publisher_sample_keys
        publisher_sample_start(2,3)]], of 0 0] s run
    by (simp add: task_ended_def on_run_def) (simp add: goal_a_publisher_def)
  then have "map snd log = [goal_a_created, goal_a_moved]"
    using l(2,3) publisher_sample_rows
    by (simp add: stream_events_def publisher_stream_def rows_since_wf [OF goal_a_db_wf] map_filter_simps publisher_sample_decode)
  then have "pb_bus (pg_publisher ?g') = log_bus\<lparr>eb_state := [goal_a_created, goal_a_moved]\<rparr>" using l(1) log by simp
  then show ?thesis by simp
qed

text \<open>
  C40: a row that cannot be decoded stops its stream for good. If the device has the key of a row's
  aggregate and yet the row does not decrypt or decode, every task of its stream throws: in every
  state that is ever reached the cursor of the stream is the initial one and no event after it,
  not even one before the broken row, counts as published.
\<close>

theorem broken_row_stops_stream:
  assumes "db_wf (pb_db p0)" and "keys_ok (pv_crypto env) {} keys (pb_keys p0)" and "cursors_saved p0"
    and "\<forall>st \<in> set (pb_streams p0). ss_lastSequence st \<le> db_sqlite_sequence (pb_db p0)"
    and "r \<in> set (db_events (pb_db p0))" and "poisonous env keys r" and "i < length (pb_streams p0)"
    and "row_aggregate_type r = ss_aggregateType (pb_streams p0 ! i)" and "ss_lastSequence (pb_streams p0 ! i) < row_commit_sequence r"
    and "rtranclp (publishing_step env) (publishing_start p0) g"
  shows "pb_streams (pg_publisher g) ! i = pb_streams p0 ! i \<and>
    map_option pm_lastCommitSequence (meta_get (ss_projectionId (pb_streams p0 ! i)) (pb_meta (pg_publisher g))) =
      Some (ss_lastSequence (pb_streams p0 ! i))"
proof -
  have "stream_blocked env keys p0 i r (publishing_start p0)"
    using publishing_start_ok [OF assms(1-4)] assms(5,7) by (simp add: stream_blocked_def) (simp add: publishing_start_def idle_runner_def)
  then have "stream_blocked env keys p0 i r g" using stream_blocked_reachable [OF assms(10) _ assms(6,8,9)] by blast
  then have g: "pb_streams (pg_publisher g) ! i = pb_streams p0 ! i" "cursors_saved (pg_publisher g)"
    "length (pb_streams (pg_publisher g)) = length (pb_streams p0)"
    by (auto simp: stream_blocked_def publishing_ok_def Let_def dest: list_all2_lengthD)
  then show ?thesis using assms(7) by (auto simp: cursors_saved_def all_set_conv_all_nth)
qed

theorem broken_row_stops_stream_witness:
  "\<exists>p r. poisonous publisher_sample_env goal_a_keys r \<and> r \<in> set (db_events (pb_db p)) \<and>
     ss_lastSequence (pb_streams (pg_publisher (task_ended publisher_sample_env 0 (processStream 0 (publishing_start (p :: domain_event list publisher))))) ! 0) = 0"
proof -
  let ?r = "goal_row goal_a_created 1\<lparr>row_payload_encrypted := []\<rparr>"
  let ?db = "goal_a_db\<lparr>db_events := [?r]\<rparr>"
  let ?p = "goal_a_publisher\<lparr>pb_db := ?db\<rparr>"
  let ?s = "publishing_start ?p"
  let ?g = "task_ended publisher_sample_env 0 (processStream 0 ?s)"
  have r: "row_commit_sequence ?r = 1" "row_aggregate_type ?r = ''goal''" "row_aggregate_id ?r = goal_a" using goal_a_rows by simp_all
  have wf: "db_wf ?db" using goal_a_db_wf r by (simp add: db_wf_def goal_a_db_def)
  have bad: "poisonous publisher_sample_env goal_a_keys ?r"
    using r by (simp add: poisonous_def decode_row_def goal_a_keys_def publisher_sample_env_def toDomain_def encrypted_of_row_def
        tagged_crypto_def rethrow_def)
  have start: "cursors_saved ?p" "\<forall>st \<in> set (pb_streams ?p). ss_lastSequence st \<le> db_sqlite_sequence (pb_db ?p)"
    "pb_streams ?p = [publisher_stream ''goals'' ''goal'']" "device_keys publisher_sample_env goal_a_keys (pb_keys ?p)"
    using publisher_sample_start publisher_sample_keys by (simp_all add: cursors_saved_def goal_a_publisher_def)
  have "publishing_step publisher_sample_env ?s (processStream 0 ?s)" "publishing_step publisher_sample_env (processStream 0 ?s) ?g"
    by (rule publishing_step.intros; simp add: publishing_start_def start processStream_def on_run_def task_step_def runner_run_def idle_runner_def)+
  then have "rtranclp (publishing_step publisher_sample_env) ?s ?g" by (meson rtranclp.rtrancl_refl rtranclp.rtrancl_into_rtrancl)
  then have "ss_lastSequence (pb_streams (pg_publisher ?g) ! 0) = 0"
    using broken_row_stops_stream [of ?p publisher_sample_env goal_a_keys ?r 0 ?g] wf start bad r by (simp add: publisher_stream_def)
  then show ?thesis using bad by (intro exI [of _ ?p] exI [of _ ?r]) simp
qed

end
