(* ===== verification/KeyService.thy ===== *)
theory KeyService
  imports KeyStore "HOL-Library.AList"
begin

text \<open>
  The key service worker (packages/key-service-web/src): the host that answers the messages of
  several clients (worker/key-service.worker.ts), its storage (worker/storage.ts), the client
  (client.ts) and the message types (packages/key-service-idl). The service itself is a WebAssembly
  module, built from the Rust crates packages/key-service-core and packages/key-service-wasm; their
  cryptographic core is not modelled, and the module is a parameter: a function that answers a call
  from the stored values and its own state and says which entries it writes. (In the crates every entry
  is written under the namespace \<open>keyvault\<close>.) The module's write buffer (drainStorageWrites) is
  modelled. An IndexedDB transaction either stores all its entries or, when it fails, none. A
  request runs to its end before the next one: the worker may take up another request while it waits
  for the transaction of an earlier one, but it drains the buffer before it waits and
  IndexedDB runs the transactions in the order they were made, so that with writes that succeed
  the values in memory and the database are those of the requests one after the other.
\<close>

subsection \<open>JavaScript values and errors\<close>

datatype js_value =
    Js_null | Js_undefined | Js_bool bool | Js_number int | Js_bigint int | Js_string string
  | Js_bytes bytes | Js_array "js_value list" | Js_object "(string \<times> js_value) list"

datatype thrown = Thrown_error string | Thrown_value js_value

record key_service_error =
  kse_code :: string
  kse_message :: string

type_synonym ('s, 'a) js_io = "'s \<Rightarrow> (thrown + 'a) \<times> 's"

definition js_field :: "string \<Rightarrow> js_value \<Rightarrow> js_value" where
  "js_field k v = (case v of Js_object fs \<Rightarrow> (case map_of fs k of Some x \<Rightarrow> x | None \<Rightarrow> Js_undefined) | _ \<Rightarrow> Js_undefined)"

definition js_isRecord :: "js_value \<Rightarrow> bool" where
  "js_isRecord v \<longleftrightarrow> (case v of Js_object _ \<Rightarrow> True | Js_bytes _ \<Rightarrow> True | _ \<Rightarrow> False)"

definition ensureBoolean :: "string \<Rightarrow> js_value \<Rightarrow> thrown + bool" where
  "ensureBoolean context v = (case v of Js_bool b \<Rightarrow> Inr b | _ \<Rightarrow> Inl (Thrown_error (''Invalid '' @ context @ '' response'')))"

definition ensureString :: "string \<Rightarrow> js_value \<Rightarrow> thrown + string" where
  "ensureString context v = (case v of Js_string s \<Rightarrow> Inr s | _ \<Rightarrow> Inl (Thrown_error (''Invalid '' @ context @ '' response'')))"

definition ensureUint8Array :: "string \<Rightarrow> js_value \<Rightarrow> thrown + bytes" where
  "ensureUint8Array context v = (case v of Js_bytes b \<Rightarrow> Inr b | _ \<Rightarrow> Inl (Thrown_error (''Invalid '' @ context @ '' response'')))"

definition requireBoolean :: "string \<Rightarrow> js_value \<Rightarrow> thrown + bool" where
  "requireBoolean field v = (case v of Js_bool b \<Rightarrow> Inr b | _ \<Rightarrow> Inl (Thrown_error (''Invalid '' @ field)))"

definition requireNumberField :: "string \<Rightarrow> js_value \<Rightarrow> thrown + int" where
  "requireNumberField field v = (case v of Js_number n \<Rightarrow> Inr n | _ \<Rightarrow> Inl (Thrown_error (''Invalid '' @ field)))"

definition requireBigint :: "string \<Rightarrow> js_value \<Rightarrow> thrown + int" where
  "requireBigint field v = (case v of Js_bigint n \<Rightarrow> Inr n | _ \<Rightarrow> Inl (Thrown_error (''Invalid '' @ field)))"

definition requireStringField :: "string \<Rightarrow> js_value \<Rightarrow> thrown + string" where
  "requireStringField field v = (case v of Js_string s \<Rightarrow> Inr s | _ \<Rightarrow> Inl (Thrown_error (''Invalid '' @ field)))"

definition require_one_of :: "(string \<times> 'a) list \<Rightarrow> string \<Rightarrow> js_value \<Rightarrow> thrown + 'a" where
  "require_one_of options field v =
     (case v of
        Js_string s \<Rightarrow> (case map_of options s of Some x \<Rightarrow> Inr x | None \<Rightarrow> Inl (Thrown_error (''Invalid '' @ field)))
      | _ \<Rightarrow> Inl (Thrown_error (''Invalid '' @ field)))"

datatype session_kind = Session_normal | Session_stepUp
datatype session_assurance = By_passphrase | By_userPresence

definition requireSessionKind :: "string \<Rightarrow> js_value \<Rightarrow> thrown + session_kind" where
  "requireSessionKind = require_one_of [(''normal'', Session_normal), (''stepUp'', Session_stepUp)]"

definition requireSessionAssurance :: "string \<Rightarrow> js_value \<Rightarrow> thrown + session_assurance" where
  "requireSessionAssurance =
     require_one_of [(''passphrase'', By_passphrase), (''webauthnPrf'', By_userPresence), (''userPresence'', By_userPresence)]"

definition requireAeadId :: "string \<Rightarrow> js_value \<Rightarrow> thrown + string" where
  "requireAeadId = require_one_of [(''aead-1'', ''aead-1'')]"

definition requireSigSuite :: "string \<Rightarrow> js_value \<Rightarrow> thrown + string" where
  "requireSigSuite = require_one_of [(''hybrid-sig-1'', ''hybrid-sig-1'')]"

text \<open>\<open>asSessionId\<close>, \<open>asScopeId\<close> and \<open>asKeyHandle\<close>, and \<open>asScopeEpoch\<close>.\<close>

definition as_nonempty :: "string \<Rightarrow> string \<Rightarrow> thrown + string" where
  "as_nonempty what s = (if s = [] then Inl (Thrown_error (''Invalid '' @ what)) else Inr s)"

definition asScopeEpoch :: "int \<Rightarrow> thrown + int" where
  "asScopeEpoch n = (if n < 0 then Inl (Thrown_error ''Invalid scopeEpoch'') else Inr n)"

subsection \<open>Requests, responses and calls of the service\<close>

record kdf_params =
  kdf_id :: string
  kdf_salt :: bytes
  kdf_memoryKib :: int
  kdf_iterations :: int
  kdf_parallelism :: int

datatype unlock_request = Unlock_passphrase bytes | Unlock_userPresence bytes

datatype key_service_request =
    Req_createVault string bytes kdf_params
  | Req_unlock unlock_request
  | Req_stepUp string bytes
  | Req_getUserPresenceUnlockInfo
  | Req_renewSession string
  | Req_lock string
  | Req_exportKeyVault string
  | Req_importKeyVault string bytes
  | Req_changePassphrase string bytes
  | Req_storeAppMasterKey string bytes
  | Req_getAppMasterKey string
  | Req_enableUserPresenceUnlock string bytes bytes
  | Req_disableUserPresenceUnlock string
  | Req_ingestScopeState string bytes "string option"
  | Req_ingestKeyEnvelope string bytes
  | Req_openScope string string int
  | Req_openResource string string bytes
  | Req_closeHandle string string
  | Req_encrypt string string bytes bytes
  | Req_decrypt string string bytes bytes
  | Req_sign string bytes
  | Req_verify string string bytes bytes string
  | Req_signal "string option"

record unlock_response =
  ur_sessionId :: string
  ur_issuedAtMs :: int
  ur_expiresAtMs :: int
  ur_kind :: session_kind
  ur_assurance :: session_assurance

datatype key_service_response =
    Res_createVault
  | Res_unlock unlock_response
  | Res_stepUp int int
  | Res_getUserPresenceUnlockInfo bool "bytes option" bytes string
  | Res_renewSession int int
  | Res_lock
  | Res_exportKeyVault bytes
  | Res_importKeyVault
  | Res_changePassphrase
  | Res_storeAppMasterKey
  | Res_getAppMasterKey bytes
  | Res_enableUserPresenceUnlock
  | Res_disableUserPresenceUnlock
  | Res_ingestScopeState string string
  | Res_ingestKeyEnvelope string int
  | Res_openScope string
  | Res_openResource string
  | Res_closeHandle
  | Res_encrypt bytes
  | Res_decrypt bytes
  | Res_sign bytes string
  | Res_verify bool
  | Res_signal

text \<open>The methods of \<open>KeyServiceWasm\<close> that the worker calls.\<close>

datatype wasm_call =
    Wasm_createVault string bytes kdf_params
  | Wasm_unlockPassphrase bytes
  | Wasm_unlockUserPresence bytes
  | Wasm_stepUp string bytes
  | Wasm_getUserPresenceUnlockInfo
  | Wasm_renewSession string
  | Wasm_lock string
  | Wasm_exportKeyVault string
  | Wasm_importKeyVault string bytes
  | Wasm_changePassphrase string bytes
  | Wasm_storeAppMasterKey string bytes
  | Wasm_getAppMasterKey string
  | Wasm_enableUserPresenceUnlock string bytes bytes
  | Wasm_disableUserPresenceUnlock string
  | Wasm_ingestScopeState string bytes "string option"
  | Wasm_ingestKeyEnvelope string bytes
  | Wasm_openScope string string int
  | Wasm_openResource string string bytes
  | Wasm_closeHandle string string
  | Wasm_encrypt string string bytes bytes
  | Wasm_decrypt string string bytes bytes
  | Wasm_sign string bytes
  | Wasm_verify string string bytes bytes string

subsection \<open>Storage\<close>

record storage_entry =
  sy_namespace :: string
  sy_key :: string
  sy_value :: bytes

type_synonym vault_values = "string \<times> string \<Rightarrow> bytes option"
type_synonym vault_idb = "(string \<times> storage_entry) list"

definition buildId :: "string \<Rightarrow> string \<Rightarrow> string" where
  "buildId namespace key = namespace @ '':'' @ key"

definition entry_id :: "storage_entry \<Rightarrow> string" where
  "entry_id e = buildId (sy_namespace e) (sy_key e)"

definition loadAll :: "vault_idb \<Rightarrow> storage_entry list" where
  "loadAll idb = map snd idb"

text \<open>\<open>put\<close> of the module's storage: the value, and the entry in the write buffer.\<close>

definition set_value :: "storage_entry \<Rightarrow> vault_values \<Rightarrow> vault_values" where
  "set_value e vs = vs((sy_namespace e, sy_key e) \<mapsto> sy_value e)"

definition buffer_write :: "storage_entry \<Rightarrow> (string \<times> storage_entry) list \<Rightarrow> (string \<times> storage_entry) list" where
  "buffer_write e = AList.update (entry_id e) e"

record 's key_runtime =
  kx_service :: 's
  kx_values :: vault_values
  kx_pending :: "(string \<times> storage_entry) list"
  kx_idb :: vault_idb

text \<open>
  What is not TypeScript: the service, and whether the transactions that open and write the database
  succeed.
\<close>

record 's key_env =
  kv_call :: "wasm_call \<Rightarrow> vault_values \<Rightarrow> 's \<Rightarrow> (thrown + js_value) \<times> 's \<times> storage_entry list"
  kv_initial :: 's
  kv_openFails :: "string \<Rightarrow> thrown option"
  kv_putFails :: "vault_idb \<Rightarrow> storage_entry list \<Rightarrow> thrown option"

definition wasm :: "'s key_env \<Rightarrow> wasm_call \<Rightarrow> ('s key_runtime, js_value) js_io" where
  "wasm env c rt =
     (case kv_call env c (kx_values rt) (kx_service rt) of
        (res, s, puts) \<Rightarrow>
          (res, rt\<lparr>kx_service := s, kx_values := fold set_value puts (kx_values rt),
             kx_pending := fold buffer_write puts (kx_pending rt)\<rparr>))"

definition drainStorageWrites :: "('s key_runtime, storage_entry list) js_io" where
  "drainStorageWrites rt = (Inr (map snd (kx_pending rt)), rt\<lparr>kx_pending := []\<rparr>)"

definition putEntries :: "'s key_env \<Rightarrow> storage_entry list \<Rightarrow> ('s key_runtime, unit) js_io" where
  "putEntries env entries rt =
     (if entries = [] then (Inr (), rt)
      else case kv_putFails env (kx_idb rt) entries of
        Some e \<Rightarrow> (Inl e, rt)
      | None \<Rightarrow> (Inr (), rt\<lparr>kx_idb := fold (\<lambda>e. idb_put (entry_id e) e) entries (kx_idb rt)\<rparr>))"

definition persistWrites :: "'s key_env \<Rightarrow> ('s key_runtime, unit) js_io" where
  "persistWrites env = bind_io drainStorageWrites (putEntries env)"

definition createRuntime :: "'s key_env \<Rightarrow> string \<Rightarrow> vault_idb \<Rightarrow> thrown + 's key_runtime" where
  "createRuntime env storeId idb =
     (case kv_openFails env storeId of
        Some e \<Rightarrow> Inl e
      | None \<Rightarrow> Inr \<lparr>kx_service = kv_initial env, kx_values = fold set_value (loadAll idb) Map.empty, kx_pending = [], kx_idb = idb\<rparr>)"

subsection \<open>Parsing the answers of the service\<close>

definition parseUnlockResponse :: "js_value \<Rightarrow> thrown + unlock_response" where
  "parseUnlockResponse v =
     (if \<not> js_isRecord v then Inl (Thrown_error ''Invalid unlock response'')
      else
       bind_result (bind_result (requireStringField ''sessionId'' (js_field ''sessionId'' v)) (as_nonempty ''sessionId'')) (\<lambda>sessionId.
       bind_result (requireNumberField ''issuedAtMs'' (js_field ''issuedAtMs'' v)) (\<lambda>issuedAtMs.
       bind_result (requireNumberField ''expiresAtMs'' (js_field ''expiresAtMs'' v)) (\<lambda>expiresAtMs.
       bind_result (requireSessionKind ''kind'' (js_field ''kind'' v)) (\<lambda>kind.
       bind_result (requireSessionAssurance ''assurance'' (js_field ''assurance'' v)) (\<lambda>assurance.
       Inr \<lparr>ur_sessionId = sessionId, ur_issuedAtMs = issuedAtMs, ur_expiresAtMs = expiresAtMs, ur_kind = kind,
         ur_assurance = assurance\<rparr>))))))"

text \<open>The two times that \<open>parseStepUpResponse\<close> and \<open>parseRenewResponse\<close> read.\<close>

definition parse_times :: "string \<Rightarrow> js_value \<Rightarrow> thrown + int \<times> int" where
  "parse_times what v =
     (if \<not> js_isRecord v then Inl (Thrown_error (''Invalid '' @ what @ '' response''))
      else
       bind_result (requireNumberField ''issuedAtMs'' (js_field ''issuedAtMs'' v)) (\<lambda>issuedAtMs.
       bind_result (requireNumberField ''expiresAtMs'' (js_field ''expiresAtMs'' v)) (\<lambda>expiresAtMs.
       Inr (issuedAtMs, expiresAtMs))))"

definition parseStepUpResponse :: "js_value \<Rightarrow> thrown + key_service_response" where
  "parseStepUpResponse v = bind_result (parse_times ''stepUp'' v) (\<lambda>(i, x). Inr (Res_stepUp i x))"

definition parseRenewResponse :: "js_value \<Rightarrow> thrown + key_service_response" where
  "parseRenewResponse v = bind_result (parse_times ''renewSession'' v) (\<lambda>(i, x). Inr (Res_renewSession i x))"

definition parseUserPresenceInfo :: "js_value \<Rightarrow> thrown + key_service_response" where
  "parseUserPresenceInfo v =
     (if \<not> js_isRecord v then Inl (Thrown_error ''Invalid user presence response'')
      else
       bind_result (requireBoolean ''enabled'' (js_field ''enabled'' v)) (\<lambda>enabled.
       bind_result (let c = js_field ''credentialId'' v in
           if c = Js_null \<or> c = Js_undefined then Inr None else bind_result (ensureUint8Array ''credentialId'' c) (\<lambda>b. Inr (Some b)))
         (\<lambda>credentialId.
       bind_result (ensureUint8Array ''prfSalt'' (js_field ''prfSalt'' v)) (\<lambda>prfSalt.
       bind_result (requireAeadId ''aead'' (js_field ''aead'' v)) (\<lambda>aead.
       Inr (Res_getUserPresenceUnlockInfo enabled credentialId prfSalt aead))))))"

definition parseIngestScopeStateResponse :: "js_value \<Rightarrow> thrown + key_service_response" where
  "parseIngestScopeStateResponse v =
     (if \<not> js_isRecord v then Inl (Thrown_error ''Invalid ingestScopeState response'')
      else
       bind_result (bind_result (requireStringField ''scopeId'' (js_field ''scopeId'' v)) (as_nonempty ''scopeId'')) (\<lambda>scopeId.
       bind_result (requireStringField ''scopeStateRef'' (js_field ''scopeStateRef'' v)) (\<lambda>scopeStateRef.
       Inr (Res_ingestScopeState scopeId scopeStateRef))))"

definition parseIngestKeyEnvelopeResponse :: "js_value \<Rightarrow> thrown + key_service_response" where
  "parseIngestKeyEnvelopeResponse v =
     (if \<not> js_isRecord v then Inl (Thrown_error ''Invalid ingestKeyEnvelope response'')
      else
       bind_result (bind_result (requireStringField ''scopeId'' (js_field ''scopeId'' v)) (as_nonempty ''scopeId'')) (\<lambda>scopeId.
       bind_result (bind_result (requireBigint ''scopeEpoch'' (js_field ''scopeEpoch'' v)) asScopeEpoch) (\<lambda>scopeEpoch.
       Inr (Res_ingestKeyEnvelope scopeId scopeEpoch))))"

definition parseSignResponse :: "js_value \<Rightarrow> thrown + key_service_response" where
  "parseSignResponse v =
     (if \<not> js_isRecord v then Inl (Thrown_error ''Invalid sign response'')
      else
       bind_result (ensureUint8Array ''signature'' (js_field ''signature'' v)) (\<lambda>signature.
       bind_result (requireSigSuite ''ciphersuite'' (js_field ''ciphersuite'' v)) (\<lambda>ciphersuite.
       Inr (Res_sign signature ciphersuite))))"

subsection \<open>handleRequest\<close>

record client_state =
  cs_clientInstanceId :: string
  cs_activeSessionId :: "string option"

record 's key_session =
  kq_runtime :: "'s key_runtime"
  kq_client :: client_state

definition on_runtime :: "('s key_runtime, 'a) js_io \<Rightarrow> ('s key_session, 'a) js_io" where
  "on_runtime m q = (case m (kq_runtime q) of (r, rt) \<Rightarrow> (r, q\<lparr>kq_runtime := rt\<rparr>))"

text \<open>A call whose answer is parsed, without and with the storing of the writes.\<close>

definition ask :: "'s key_env \<Rightarrow> wasm_call \<Rightarrow> (js_value \<Rightarrow> thrown + 'a) \<Rightarrow> ('s key_session, 'a) js_io" where
  "ask env c parse = bind_io (on_runtime (wasm env c)) (\<lambda>v. lift_io (parse v))"

definition save :: "'s key_env \<Rightarrow> 'a \<Rightarrow> ('s key_session, 'a) js_io" where
  "save env x = bind_io (on_runtime (persistWrites env)) (\<lambda>_. return_io x)"

definition ask_save :: "'s key_env \<Rightarrow> wasm_call \<Rightarrow> (js_value \<Rightarrow> thrown + 'a) \<Rightarrow> ('s key_session, 'a) js_io" where
  "ask_save env c parse = bind_io (ask env c parse) (save env)"

text \<open>A call whose answer is not used.\<close>

definition done_as :: "key_service_response \<Rightarrow> js_value \<Rightarrow> thrown + key_service_response" where
  "done_as r v = Inr r"

definition set_active :: "string option \<Rightarrow> ('s key_session, unit) js_io" where
  "set_active s = update_io (kq_client_update (cs_activeSessionId_update (\<lambda>_. s)))"

definition handle_unlock :: "'s key_env \<Rightarrow> unlock_request \<Rightarrow> ('s key_session, key_service_response) js_io" where
  "handle_unlock env payload =
     bind_io (ask env (case payload of Unlock_passphrase p \<Rightarrow> Wasm_unlockPassphrase p | Unlock_userPresence s \<Rightarrow> Wasm_unlockUserPresence s)
       parseUnlockResponse) (\<lambda>unlockResponse.
     bind_io (set_active (Some (ur_sessionId unlockResponse))) (\<lambda>_.
     save env (Res_unlock unlockResponse)))"

definition clear_active :: "string \<Rightarrow> ('s key_session, unit) js_io" where
  "clear_active sessionId q =
     (if cs_activeSessionId (kq_client q) = Some sessionId then set_active None q else (Inr (), q))"

definition handle_lock :: "'s key_env \<Rightarrow> string \<Rightarrow> ('s key_session, unit) js_io" where
  "handle_lock env sessionId =
     bind_io (on_runtime (wasm env (Wasm_lock sessionId))) (\<lambda>_.
     bind_io (clear_active sessionId) (\<lambda>_.
     on_runtime (persistWrites env)))"

text \<open>\<open>signal\<close>: an error of the lock is swallowed.\<close>

definition handle_signal :: "'s key_env \<Rightarrow> string option \<Rightarrow> ('s key_session, key_service_response) js_io" where
  "handle_signal env given q =
     (case (case given of Some s \<Rightarrow> Some s | None \<Rightarrow> cs_activeSessionId (kq_client q)) of
        None \<Rightarrow> (Inr Res_signal, q)
      | Some sessionId \<Rightarrow> if sessionId = [] then (Inr Res_signal, q) else (Inr Res_signal, snd (handle_lock env sessionId q)))"

fun handleRequest :: "'s key_env \<Rightarrow> key_service_request \<Rightarrow> ('s key_session, key_service_response) js_io" where
  "handleRequest env (Req_createVault userId p kdf) = ask_save env (Wasm_createVault userId p kdf) (done_as Res_createVault)"
| "handleRequest env (Req_unlock payload) = handle_unlock env payload"
| "handleRequest env (Req_stepUp s p) = ask_save env (Wasm_stepUp s p) parseStepUpResponse"
| "handleRequest env Req_getUserPresenceUnlockInfo = ask env Wasm_getUserPresenceUnlockInfo parseUserPresenceInfo"
| "handleRequest env (Req_renewSession s) = ask_save env (Wasm_renewSession s) parseRenewResponse"
| "handleRequest env (Req_lock s) = bind_io (handle_lock env s) (\<lambda>_. return_io Res_lock)"
| "handleRequest env (Req_exportKeyVault s) =
     ask env (Wasm_exportKeyVault s) (\<lambda>v. bind_result (ensureUint8Array ''exportKeyVault'' v) (\<lambda>b. Inr (Res_exportKeyVault b)))"
| "handleRequest env (Req_importKeyVault s blob) = ask_save env (Wasm_importKeyVault s blob) (done_as Res_importKeyVault)"
| "handleRequest env (Req_changePassphrase s p) = ask_save env (Wasm_changePassphrase s p) (done_as Res_changePassphrase)"
| "handleRequest env (Req_storeAppMasterKey s k) = ask_save env (Wasm_storeAppMasterKey s k) (done_as Res_storeAppMasterKey)"
| "handleRequest env (Req_getAppMasterKey s) =
     ask env (Wasm_getAppMasterKey s) (\<lambda>v. bind_result (ensureUint8Array ''getAppMasterKey'' v) (\<lambda>b. Inr (Res_getAppMasterKey b)))"
| "handleRequest env (Req_enableUserPresenceUnlock s c x) =
     ask_save env (Wasm_enableUserPresenceUnlock s c x) (done_as Res_enableUserPresenceUnlock)"
| "handleRequest env (Req_disableUserPresenceUnlock s) =
     ask_save env (Wasm_disableUserPresenceUnlock s) (done_as Res_disableUserPresenceUnlock)"
| "handleRequest env (Req_ingestScopeState s b f) = ask_save env (Wasm_ingestScopeState s b f) parseIngestScopeStateResponse"
| "handleRequest env (Req_ingestKeyEnvelope s b) = ask_save env (Wasm_ingestKeyEnvelope s b) parseIngestKeyEnvelopeResponse"
| "handleRequest env (Req_openScope s i n) =
     bind_io (ask_save env (Wasm_openScope s i n) (ensureString ''openScope'')) (\<lambda>h.
     lift_io (bind_result (as_nonempty ''key handle'' h) (\<lambda>h. Inr (Res_openScope h))))"
| "handleRequest env (Req_openResource s h g) =
     bind_io (ask_save env (Wasm_openResource s h g) (ensureString ''openResource'')) (\<lambda>h.
     lift_io (bind_result (as_nonempty ''key handle'' h) (\<lambda>h. Inr (Res_openResource h))))"
| "handleRequest env (Req_closeHandle s h) = ask_save env (Wasm_closeHandle s h) (done_as Res_closeHandle)"
| "handleRequest env (Req_encrypt s h a p) =
     ask env (Wasm_encrypt s h a p) (\<lambda>v. bind_result (ensureUint8Array ''encrypt'' v) (\<lambda>b. Inr (Res_encrypt b)))"
| "handleRequest env (Req_decrypt s h a c) =
     ask env (Wasm_decrypt s h a c) (\<lambda>v. bind_result (ensureUint8Array ''decrypt'' v) (\<lambda>b. Inr (Res_decrypt b)))"
| "handleRequest env (Req_sign s d) = ask env (Wasm_sign s d) parseSignResponse"
| "handleRequest env (Req_verify i d x y u) =
     ask env (Wasm_verify i d x y u) (\<lambda>v. bind_result (ensureBoolean ''verify'' v) (\<lambda>b. Inr (Res_verify b)))"
| "handleRequest env (Req_signal s) = handle_signal env s"

text \<open>The buffers of a request after it has been handled: \<open>finally \{ buffer.fill(0) \}\<close>.\<close>

definition wiped :: "bytes \<Rightarrow> bytes" where
  "wiped b = map (\<lambda>_. 0) b"

fun request_after :: "key_service_request \<Rightarrow> key_service_request" where
  "request_after (Req_createVault userId p kdf) = Req_createVault userId (wiped p) kdf"
| "request_after (Req_unlock (Unlock_passphrase p)) = Req_unlock (Unlock_passphrase (wiped p))"
| "request_after (Req_unlock (Unlock_userPresence x)) = Req_unlock (Unlock_userPresence (wiped x))"
| "request_after (Req_stepUp s p) = Req_stepUp s (wiped p)"
| "request_after (Req_changePassphrase s p) = Req_changePassphrase s (wiped p)"
| "request_after (Req_storeAppMasterKey s k) = Req_storeAppMasterKey s (wiped k)"
| "request_after r = r"

subsection \<open>Errors\<close>

definition KeyServiceErrorCodes :: "string list" where
  "KeyServiceErrorCodes =
     [''StorageError'', ''InvalidCbor'', ''InvalidFormat'', ''CryptoError'', ''SessionInvalid'', ''StepUpRequired'', ''UntrustedSigner'',
      ''UnknownScope'', ''UnknownHandle'', ''ResourceKeyMissing'', ''ScopeKeyMissing'', ''FingerprintMismatch'',
      ''SignerFingerprintRequired'', ''WorkerProtocolError'', ''WorkerNotReady'', ''WasmError'']"

definition isKeyServiceError :: "js_value \<Rightarrow> (string \<times> string) option" where
  "isKeyServiceError v =
     (case (js_field ''code'' v, js_field ''message'' v) of (Js_string c, Js_string m) \<Rightarrow> Some (c, m) | _ \<Rightarrow> None)"

text \<open>
  The second test of the code, which would replace unknown codes, is never reached: it has the
  condition of the first.
\<close>

definition toKeyServiceError :: "thrown \<Rightarrow> string \<Rightarrow> key_service_error" where
  "toKeyServiceError t fallbackCode =
     (case t of
        Thrown_error m \<Rightarrow> \<lparr>kse_code = fallbackCode, kse_message = m\<rparr>
      | Thrown_value v \<Rightarrow>
          (case isKeyServiceError v of
             Some (c, m) \<Rightarrow> \<lparr>kse_code = c, kse_message = m\<rparr>
           | None \<Rightarrow> \<lparr>kse_code = fallbackCode, kse_message = ''Unknown error''\<rparr>))"

subsection \<open>KeyServiceHost\<close>

datatype host_message = Msg_hello string string | Msg_request string key_service_request | Msg_other

datatype host_reply =
    Hello_ok string
  | Hello_error key_service_error
  | Key_response string "key_service_error + key_service_response"

record 's key_host =
  kh_runtime :: "(thrown + 's key_runtime) option"
  kh_serverInstanceId :: "string option"
  kh_storeId :: "string option"
  kh_clients :: "nat \<Rightarrow> client_state option"

definition store_id_char :: "char \<Rightarrow> bool" where
  "store_id_char c \<longleftrightarrow> (CHR ''A'' \<le> c \<and> c \<le> CHR ''Z'') \<or> (CHR ''a'' \<le> c \<and> c \<le> CHR ''z'') \<or> (CHR ''0'' \<le> c \<and> c \<le> CHR ''9'') \<or> c = CHR ''-''"

definition isValidStoreId :: "string \<Rightarrow> bool" where
  "isValidStoreId s \<longleftrightarrow> 1 \<le> length s \<and> length s \<le> 64 \<and> list_all store_id_char s"

definition protocol_error :: "string \<Rightarrow> key_service_error" where
  "protocol_error m = \<lparr>kse_code = ''WorkerProtocolError'', kse_message = m\<rparr>"

definition not_ready :: "string \<Rightarrow> key_service_error" where
  "not_ready m = \<lparr>kse_code = ''WorkerNotReady'', kse_message = m\<rparr>"

text \<open>\<open>idb\<close> is the database of the store as it is when the first client says hello; \<open>fresh\<close> a random id.\<close>

definition handleHello ::
  "'s key_env \<Rightarrow> vault_idb \<Rightarrow> string \<Rightarrow> nat \<Rightarrow> string \<Rightarrow> string \<Rightarrow> 's key_host \<Rightarrow> host_reply list \<times> 's key_host" where
  "handleHello env idb fresh port storeId clientInstanceId h =
     (if \<not> isValidStoreId storeId then ([Hello_error (protocol_error ''Invalid key service store id'')], h)
      else if kh_storeId h \<noteq> None \<and> kh_storeId h \<noteq> Some storeId
      then ([Hello_error (protocol_error ''Key service worker store mismatch'')], h)
      else
        let h1 = (if kh_runtime h = None
                  then h\<lparr>kh_storeId := Some storeId, kh_runtime := Some (createRuntime env storeId idb)\<rparr> else h);
            serverId = (case kh_serverInstanceId h1 of Some i \<Rightarrow> i | None \<Rightarrow> fresh);
            h2 = h1\<lparr>kh_serverInstanceId := Some serverId\<rparr>
        in case the (kh_runtime h2) of
             Inl e \<Rightarrow> ([Hello_error (toKeyServiceError e ''WorkerProtocolError'')], h2)
           | Inr rt \<Rightarrow>
               ([Hello_ok serverId],
                h2\<lparr>kh_clients := (kh_clients h2)(port \<mapsto>
                  \<lparr>cs_clientInstanceId = clientInstanceId, cs_activeSessionId = None\<rparr>)\<rparr>))"

definition handleEnvelope ::
  "'s key_env \<Rightarrow> nat \<Rightarrow> string \<Rightarrow> key_service_request \<Rightarrow> 's key_host \<Rightarrow> host_reply list \<times> 's key_host" where
  "handleEnvelope env port requestId req h =
     (case kh_runtime h of
        None \<Rightarrow> ([Key_response requestId (Inl (not_ready ''Key service worker not ready''))], h)
      | Some r \<Rightarrow>
          (case kh_clients h port of
             None \<Rightarrow> ([Key_response requestId (Inl (not_ready ''Key service client not initialized''))], h)
           | Some cs \<Rightarrow>
               (case r of
                  Inl e \<Rightarrow> ([Key_response requestId (Inl (toKeyServiceError e ''WorkerProtocolError''))], h)
                | Inr rt \<Rightarrow>
                    (case handleRequest env req \<lparr>kq_runtime = rt, kq_client = cs\<rparr> of
                       (res, q) \<Rightarrow>
                         ([Key_response requestId (case res of Inl e \<Rightarrow> Inl (toKeyServiceError e ''WasmError'') | Inr x \<Rightarrow> Inr x)],
                          h\<lparr>kh_runtime := Some (Inr (kq_runtime q)), kh_clients := (kh_clients h)(port \<mapsto> kq_client q)\<rparr>)))))"

fun host_handleMessage ::
  "'s key_env \<Rightarrow> vault_idb \<Rightarrow> string \<Rightarrow> nat \<Rightarrow> host_message \<Rightarrow> 's key_host \<Rightarrow> host_reply list \<times> 's key_host" where
  "host_handleMessage env idb fresh port (Msg_hello storeId c) h = handleHello env idb fresh port storeId c h"
| "host_handleMessage env idb fresh port (Msg_request i r) h = handleEnvelope env port i r h"
| "host_handleMessage env idb fresh port Msg_other h = ([], h)"

definition new_host :: "'s key_host" where
  "new_host = \<lparr>kh_runtime = None, kh_serverInstanceId = None, kh_storeId = None, kh_clients = Map.empty\<rparr>"

text \<open>The messages of all ports, in the order the worker handles them.\<close>

fun host_run ::
  "'s key_env \<Rightarrow> vault_idb \<Rightarrow> string \<Rightarrow> (nat \<times> host_message) list \<Rightarrow> 's key_host \<Rightarrow> (nat \<times> host_reply) list \<times> 's key_host" where
  "host_run env idb fresh [] h = ([], h)"
| "host_run env idb fresh ((port, m) # ms) h =
     (case host_handleMessage env idb fresh port m h of
        (rs, h1) \<Rightarrow> (case host_run env idb fresh ms h1 of (rest, h2) \<Rightarrow> (map (Pair port) rs @ rest, h2)))"

subsection \<open>KeyServiceClient\<close>

text \<open>The identifiers of the pending promises, and what has become of the settled ones.\<close>

record key_client =
  kc_pending :: "string list"
  kc_settled :: "(string \<times> (key_service_error + key_service_response)) list"

definition client_request :: "string \<Rightarrow> key_service_request \<Rightarrow> key_client \<Rightarrow> host_message \<times> key_client" where
  "client_request requestId payload c =
     (Msg_request requestId payload, c\<lparr>kc_pending := add_once requestId (kc_pending c)\<rparr>)"

definition client_handleResponse :: "host_reply \<Rightarrow> key_client \<Rightarrow> key_client" where
  "client_handleResponse r c =
     (case r of
        Key_response i payload \<Rightarrow>
          if i \<in> set (kc_pending c)
          then c\<lparr>kc_pending := filter (\<lambda>j. j \<noteq> i) (kc_pending c), kc_settled := kc_settled c @ [(i, payload)]\<rparr> else c
      | _ \<Rightarrow> c)"

definition client_shutdown :: "key_client \<Rightarrow> key_client" where
  "client_shutdown c = c\<lparr>kc_pending := []\<rparr>"

end
