(* ===== verification/KeyServiceProperties.thy ===== *)
theory KeyServiceProperties
  imports KeyService
begin

text \<open>
  What the key service worker guarantees: the database together with the buffered writes is
  always the vault in memory, so a restart after a request that stores its writes loses
  nothing; a failed write is lost; and every request is answered once.
\<close>

subsection \<open>The vault on disk\<close>

definition colon_free :: "string \<Rightarrow> bool" where
  "colon_free s \<longleftrightarrow> CHR '':'' \<notin> set s"

text \<open>The values that a table of entries stands for.\<close>

definition values_of :: "(string \<Rightarrow> storage_entry option) \<Rightarrow> vault_values" where
  "values_of m = (\<lambda>(ns, k). if colon_free ns then map_option sy_value (m (buildId ns k)) else None)"

definition entries_ok :: "(string \<times> storage_entry) list \<Rightarrow> bool" where
  "entries_ok es \<longleftrightarrow> (\<forall>(i, e) \<in> set es. i = entry_id e \<and> colon_free (sy_namespace e))"

definition vault_ok :: "'s key_runtime \<Rightarrow> bool" where
  "vault_ok rt \<longleftrightarrow> entries_ok (kx_idb rt) \<and> idb_wf (kx_idb rt) \<and> entries_ok (kx_pending rt) \<and> distinct (map fst (kx_pending rt)) \<and>
     kx_values rt = values_of (map_of (kx_idb rt) ++ map_of (kx_pending rt))"

text \<open>The namespaces of the service are constants without a colon, and the database does not fail.\<close>

definition service_writes_ok :: "'s key_env \<Rightarrow> bool" where
  "service_writes_ok env \<longleftrightarrow> (\<forall>c vs s. \<forall>e \<in> set (snd (snd (kv_call env c vs s))). colon_free (sy_namespace e))"

definition storage_works :: "'s key_env \<Rightarrow> bool" where
  "storage_works env \<longleftrightarrow> (\<forall>idb es. kv_putFails env idb es = None)"

fun stores_writes :: "key_service_request \<Rightarrow> bool" where
  "stores_writes Req_getUserPresenceUnlockInfo \<longleftrightarrow> False"
| "stores_writes (Req_exportKeyVault _) \<longleftrightarrow> False"
| "stores_writes (Req_getAppMasterKey _) \<longleftrightarrow> False"
| "stores_writes (Req_encrypt _ _ _ _) \<longleftrightarrow> False"
| "stores_writes (Req_decrypt _ _ _ _) \<longleftrightarrow> False"
| "stores_writes (Req_sign _ _) \<longleftrightarrow> False"
| "stores_writes (Req_verify _ _ _ _ _) \<longleftrightarrow> False"
| "stores_writes (Req_signal _) \<longleftrightarrow> False"
| "stores_writes _ \<longleftrightarrow> True"

subsection \<open>A service that only keeps a master key\<close>

definition toy_call :: "wasm_call \<Rightarrow> vault_values \<Rightarrow> nat \<Rightarrow> (thrown + js_value) \<times> nat \<times> storage_entry list" where
  "toy_call c vs n =
     (case c of
        Wasm_unlockPassphrase p \<Rightarrow>
          (Inr (Js_object [(''sessionId'', Js_string (replicate (n + 1) (CHR ''s''))), (''issuedAtMs'', Js_number 0),
             (''expiresAtMs'', Js_number 9), (''kind'', Js_string ''normal''), (''assurance'', Js_string ''passphrase'')]), n + 1, [])
      | Wasm_storeAppMasterKey s k \<Rightarrow> (Inr Js_undefined, n, [\<lparr>sy_namespace = ''keyvault'', sy_key = ''master'', sy_value = k\<rparr>])
      | Wasm_getAppMasterKey s \<Rightarrow>
          (case vs (''keyvault'', ''master'') of
             Some k \<Rightarrow> (Inr (Js_bytes k), n, [])
           | None \<Rightarrow> (Inl (Thrown_value (Js_object [(''code'', Js_string ''ResourceKeyMissing''), (''message'', Js_string ''missing'')])), n, []))
      | _ \<Rightarrow> (Inr Js_undefined, n, []))"

definition toy_env :: "(vault_idb \<Rightarrow> storage_entry list \<Rightarrow> thrown option) \<Rightarrow> nat key_env" where
  "toy_env fails = \<lparr>kv_call = toy_call, kv_initial = 0, kv_openFails = (\<lambda>_. None), kv_putFails = fails\<rparr>"

subsection \<open>Entries and values\<close>

lemma buildId_inj:
  assumes "colon_free a" and "colon_free b" and "buildId a k = buildId b l"
  shows "a = b \<and> k = l"
proof -
  have *: "takeWhile (\<lambda>c. c \<noteq> CHR '':'') (a @ CHR '':'' # k) = a" if "colon_free a" for a k
    using that by (subst takeWhile_append2) (auto simp: colon_free_def)
  then have "a = b" using assms by (metis append_Cons append_Nil buildId_def)
  then show ?thesis using assms(3) by (simp add: buildId_def)
qed

lemma values_of_put:
  assumes "colon_free (sy_namespace e)"
  shows "values_of (m(entry_id e \<mapsto> e)) = set_value e (values_of m)"
proof
  fix x :: "string \<times> string"
  obtain ns k where x: "x = (ns, k)" by fastforce
  show "values_of (m(entry_id e \<mapsto> e)) x = set_value e (values_of m) x"
  proof (cases "ns = sy_namespace e \<and> k = sy_key e")
    case True
    then show ?thesis using assms x by (simp add: values_of_def set_value_def entry_id_def)
  next
    case False
    then have "colon_free ns \<Longrightarrow> buildId ns k \<noteq> entry_id e" using buildId_inj [of ns "sy_namespace e" k "sy_key e"] assms unfolding entry_id_def by blast
    then show ?thesis using False x by (auto simp: values_of_def set_value_def)
  qed
qed

lemma in_set_alist_update: "x \<in> set (AList.update k v xs) \<Longrightarrow> x = (k, v) \<or> x \<in> set xs"
  by (induction xs) (auto split: if_splits)

lemma in_set_idb_put: "x \<in> set (idb_put k v xs) \<Longrightarrow> x = (k, v) \<or> x \<in> set xs"
  by (induction k v xs rule: idb_put.induct) (auto split: if_splits)

lemma entries_ok_buffer: "entries_ok es \<Longrightarrow> colon_free (sy_namespace e) \<Longrightarrow> entries_ok (buffer_write e es)"
  unfolding entries_ok_def buffer_write_def by (auto dest!: in_set_alist_update)

lemma entries_ok_idb_put:
  "entries_ok es \<Longrightarrow> colon_free (sy_namespace e) \<Longrightarrow> entries_ok (idb_put (entry_id e) e es)"
  unfolding entries_ok_def by (auto dest!: in_set_idb_put)

lemma buffered_writes:
  assumes "\<forall>e \<in> set puts. colon_free (sy_namespace e)" and "entries_ok pend" and "distinct (map fst pend)"
    and "vs = values_of (m ++ map_of pend)"
  shows "entries_ok (fold buffer_write puts pend) \<and> distinct (map fst (fold buffer_write puts pend)) \<and>
    fold set_value puts vs = values_of (m ++ map_of (fold buffer_write puts pend))"
  using assms
proof (induction puts arbitrary: pend vs)
  case (Cons e puts)
  have m: "map_of (buffer_write e pend) = (map_of pend)(entry_id e \<mapsto> e)" by (simp add: buffer_write_def update_conv')
  have "set_value e vs = values_of (m ++ map_of (buffer_write e pend))" using Cons.prems by (simp add: m values_of_put)
  moreover have "entries_ok (buffer_write e pend)" using Cons.prems entries_ok_buffer by simp
  moreover have "distinct (map fst (buffer_write e pend))" using Cons.prems(3) by (simp add: buffer_write_def distinct_update)
  ultimately show ?case using Cons.IH [of "buffer_write e pend" "set_value e vs"] Cons.prems(1) by simp
qed simp

lemma map_add_new_front: "k \<notin> fst ` set xs \<Longrightarrow> m ++ map_of ((k, v) # xs) = m(k \<mapsto> v) ++ map_of xs"
  by (rule ext) (auto simp: map_add_def split: option.split dest!: map_of_SomeD intro: rev_image_eqI)

lemma stored_entries:
  assumes "entries_ok pend" and "distinct (map fst pend)" and "entries_ok idb" and "idb_wf idb"
  shows "entries_ok (fold (\<lambda>e. idb_put (entry_id e) e) (map snd pend) idb) \<and> idb_wf (fold (\<lambda>e. idb_put (entry_id e) e) (map snd pend) idb) \<and>
    map_of (fold (\<lambda>e. idb_put (entry_id e) e) (map snd pend) idb) = map_of idb ++ map_of pend"
  using assms
proof (induction pend arbitrary: idb)
  case (Cons x pend)
  obtain e where x: "x = (entry_id e, e)" "colon_free (sy_namespace e)" using Cons.prems(1) by (cases x) (auto simp: entries_ok_def)
  have rest: "entries_ok pend" "distinct (map fst pend)" "entry_id e \<notin> fst ` set pend"
    using Cons.prems(1,2) x by (auto simp: entries_ok_def)
  show ?case
    using Cons.IH [OF rest(1,2) entries_ok_idb_put [OF Cons.prems(3) x(2)] idb_wf_put [OF Cons.prems(4)]]
      map_add_new_front [OF rest(3), of "map_of idb" e]
    unfolding x(1) map_of_idb_put by (simp del: map_of.simps fun_upd_apply)
qed simp

lemma loaded_values:
  assumes "entries_ok idb" and "idb_wf idb"
  shows "fold set_value (loadAll idb) Map.empty = values_of (map_of idb)"
proof -
  have "distinct (map fst idb)" using assms(2) by (simp add: idb_wf_def strict_sorted_iff)
  moreover have "fold set_value (map snd idb) (values_of m) = values_of (m ++ map_of idb)"
    if "entries_ok idb" and "distinct (map fst idb)" for m
    using that
  proof (induction idb arbitrary: m)
    case (Cons x idb)
    obtain e where x: "x = (entry_id e, e)" "colon_free (sy_namespace e)" using Cons.prems(1) by (cases x) (auto simp: entries_ok_def)
    have "m ++ map_of (x # idb) = m(entry_id e \<mapsto> e) ++ map_of idb"
      using Cons.prems(2) x(1) by (simp del: map_of.simps add: map_add_new_front)
    moreover have "entries_ok idb" "distinct (map fst idb)" using Cons.prems by (simp_all add: entries_ok_def)
    ultimately show ?case
      using Cons.IH [of "m(entry_id e \<mapsto> e)"] by (simp only: x(1) list.map fold_simps snd_conv values_of_put [OF x(2)])
  qed simp
  moreover have "values_of Map.empty = Map.empty" by (simp add: values_of_def fun_eq_iff)
  ultimately show ?thesis using assms(1) by (metis loadAll_def empty_map_add)
qed

subsection \<open>Every request keeps the vault\<close>

definition keeps_vault :: "('s key_session, 'a) js_io \<Rightarrow> bool" where
  "keeps_vault m \<longleftrightarrow> (\<forall>q. vault_ok (kq_runtime q) \<longrightarrow> vault_ok (kq_runtime (snd (m q))))"

definition flushes :: "('s key_session, 'a) js_io \<Rightarrow> bool" where
  "flushes m \<longleftrightarrow> (\<forall>q x q'. m q = (Inr x, q') \<longrightarrow> kx_pending (kq_runtime q') = [])"

lemma keeps_bind [intro]: "keeps_vault m \<Longrightarrow> (\<And>x. keeps_vault (f x)) \<Longrightarrow> keeps_vault (bind_io m f)"
  unfolding keeps_vault_def bind_io_def by (force split: prod.splits sum.splits)

lemma keeps_pure [simp, intro]: "keeps_vault (lift_io r)" "keeps_vault (return_io x)" "keeps_vault (set_active s)"
  by (simp_all add: keeps_vault_def set_active_def)

lemma flushes_bind [intro]: "(\<And>x. flushes (f x)) \<Longrightarrow> flushes (bind_io m f)"
  unfolding flushes_def bind_io_def by (force split: prod.splits sum.splits)

lemma flushes_lift [intro]: "flushes m \<Longrightarrow> flushes (bind_io m (\<lambda>x. lift_io (g x)))"
  unfolding flushes_def bind_io_def by (force split: prod.splits sum.splits)

lemma keeps_wasm:
  assumes "service_writes_ok env"
  shows "keeps_vault (on_runtime (wasm env c))"
proof -
  have "vault_ok (snd (wasm env c rt))" if "vault_ok rt" for rt
  proof -
    obtain res s puts where c: "kv_call env c (kx_values rt) (kx_service rt) = (res, s, puts)" by (metis prod_cases3)
    then have "\<forall>e \<in> set puts. colon_free (sy_namespace e)" using assms unfolding service_writes_ok_def by (metis snd_conv)
    moreover have "snd (wasm env c rt) = rt\<lparr>kx_service := s, kx_values := fold set_value puts (kx_values rt),
        kx_pending := fold buffer_write puts (kx_pending rt)\<rparr>" by (simp add: wasm_def c)
    ultimately show ?thesis
      using buffered_writes [of puts "kx_pending rt" "kx_values rt" "map_of (kx_idb rt)"] that by (simp add: vault_ok_def)
  qed
  then show ?thesis by (simp add: keeps_vault_def on_runtime_def split: prod.split) (metis snd_conv)
qed

lemma persistWrites_run:
  assumes "storage_works env" and "vault_ok rt"
  shows "\<exists>rt'. persistWrites env rt = (Inr (), rt') \<and> vault_ok rt' \<and> kx_pending rt' = [] \<and> kx_values rt' = kx_values rt"
proof -
  have "map snd (kx_pending rt) = [] \<Longrightarrow> map_of (kx_pending rt) = Map.empty" by simp
  then show ?thesis
    using stored_entries [of "kx_pending rt" "kx_idb rt"] assms
    by (auto simp: persistWrites_def drainStorageWrites_def putEntries_def bind_io_def vault_ok_def storage_works_def entries_ok_def)
qed

lemma keeps_persist:
  assumes "storage_works env"
  shows "keeps_vault (on_runtime (persistWrites env))"
  using persistWrites_run [OF assms] by (fastforce simp: keeps_vault_def on_runtime_def split: prod.split)

lemma flushes_persist: "flushes (on_runtime (persistWrites env))"
  by (auto simp: flushes_def on_runtime_def persistWrites_def drainStorageWrites_def putEntries_def bind_io_def
      split: if_splits option.splits prod.splits)

lemma return_is_lift: "return_io x = lift_io (Inr x)"
  by (simp add: fun_eq_iff)

lemma flushes_save: "flushes (save env x)"
  unfolding save_def return_is_lift by (intro flushes_lift flushes_persist)

lemma keeps_save: "storage_works env \<Longrightarrow> keeps_vault (save env x)"
  by (auto simp: save_def intro!: keeps_bind keeps_persist)

lemma keeps_ask: "service_writes_ok env \<Longrightarrow> keeps_vault (ask env c parse)"
  by (auto simp: ask_def intro!: keeps_bind keeps_wasm)

lemma keeps_ask_save: "service_writes_ok env \<Longrightarrow> storage_works env \<Longrightarrow> keeps_vault (ask_save env c parse)"
  by (auto simp: ask_save_def intro!: keeps_bind keeps_ask keeps_save)

lemma flushes_ask_save: "flushes (ask_save env c parse)"
  by (auto simp: ask_save_def intro!: flushes_bind flushes_save)

lemma keeps_lock: "service_writes_ok env \<Longrightarrow> storage_works env \<Longrightarrow> keeps_vault (handle_lock env s)"
  unfolding handle_lock_def
  by (intro keeps_bind keeps_wasm keeps_persist) (auto simp: keeps_vault_def clear_active_def set_active_def)

lemma flushes_lock: "flushes (handle_lock env s)"
  by (auto simp: handle_lock_def intro!: flushes_bind flushes_persist)

lemma keeps_handleRequest:
  assumes "service_writes_ok env" and "storage_works env"
  shows "keeps_vault (handleRequest env req)"
proof (cases req)
  case (Req_signal s)
  show ?thesis
    using keeps_lock [OF assms] by (auto simp: Req_signal keeps_vault_def handle_signal_def split: option.split)
qed (auto simp: handle_unlock_def intro!: keeps_ask_save keeps_ask keeps_lock keeps_save keeps_bind assms)

lemma flushes_handleRequest:
  assumes "stores_writes req"
  shows "flushes (handleRequest env req)"
proof (cases req)
  case (Req_unlock p)
  show ?thesis by (auto simp: Req_unlock handle_unlock_def intro!: flushes_bind flushes_save)
next
  case (Req_lock s)
  show ?thesis using flushes_lock [of env s] by (simp add: Req_lock flushes_def bind_io_def split: prod.split sum.split)
qed (use assms in \<open>auto intro!: flushes_ask_save flushes_lift\<close>)

definition host_ok :: "'s key_host \<Rightarrow> bool" where
  "host_ok h \<longleftrightarrow> (\<forall>rt. kh_runtime h = Some (Inr rt) \<longrightarrow> vault_ok rt)"

lemma vault_ok_created:
  assumes "entries_ok idb" and "idb_wf idb" and "createRuntime env storeId idb = Inr rt"
  shows "vault_ok rt"
  using assms by (auto simp: createRuntime_def vault_ok_def loaded_values entries_ok_def split: option.splits)

lemma handleEnvelope_run:
  assumes "service_writes_ok env" and "storage_works env" and "host_ok h"
  shows "host_ok (snd (handleEnvelope env port i req h))"
proof -
  have "vault_ok (kq_runtime q)" if "handleRequest env req \<lparr>kq_runtime = rt, kq_client = cs\<rparr> = (res, q)" and "kh_runtime h = Some (Inr rt)" for rt cs res q
    using keeps_handleRequest [OF assms(1,2), of req] assms(3) that unfolding keeps_vault_def host_ok_def
    by (metis key_session.select_convs(1) snd_conv)
  then show ?thesis
    using assms(3) by (auto simp: handleEnvelope_def host_ok_def split: option.splits sum.splits prod.splits)
qed

lemma handleHello_run:
  assumes "entries_ok idb" and "idb_wf idb" and "host_ok h"
  shows "host_ok (snd (handleHello env idb fresh port storeId c h))"
  using assms(3) vault_ok_created [OF assms(1,2)]
  by (auto simp: handleHello_def host_ok_def Let_def split: option.splits sum.splits)

lemma host_run_ok:
  assumes "service_writes_ok env" and "storage_works env" and "entries_ok idb" and "idb_wf idb" and "host_ok h"
  shows "host_ok (snd (host_run env idb fresh ms h))"
  using assms(5)
proof (induction ms arbitrary: h)
  case (Cons x ms)
  obtain port m where x: "x = (port, m)" by fastforce
  have "host_ok (snd (host_handleMessage env idb fresh port m h))"
    using Cons.prems handleEnvelope_run [OF assms(1,2)] handleHello_run [OF assms(3,4)] by (cases m) simp_all
  then show ?case using Cons.IH [of "snd (host_handleMessage env idb fresh port m h)"] by (simp add: x split: prod.split) (metis snd_conv)
qed simp

subsection \<open>Properties\<close>

text \<open>
  C32: a restart of the key service worker loses nothing that was answered. After any messages of any
  clients, when a request of a kind that stores its writes is answered with success, the database
  holds the vault as it is in memory: a worker that starts on it has the same value under
  every key. This needs that the database does not fail and that namespaces have no colon.
\<close>

theorem vault_survives_restart:
  assumes "service_writes_ok env" and "storage_works env" and "entries_ok idb" and "idb_wf idb" and "kv_openFails env storeId = None"
    and "host_run env idb fresh ms new_host = (rs, h)" and "stores_writes req"
    and "handleEnvelope env port i req h = ([Key_response i (Inr x)], h')"
  shows "\<exists>rt rt'. kh_runtime h' = Some (Inr rt) \<and> createRuntime env storeId (kx_idb rt) = Inr rt' \<and> kx_values rt' = kx_values rt"
proof -
  have "host_ok h" using host_run_ok [OF assms(1-4), of new_host fresh ms] assms(6) by (simp add: host_ok_def new_host_def)
  then have h': "host_ok h'" using handleEnvelope_run [OF assms(1,2), of h port i req] assms(8) by simp
  obtain rt0 cs q where "kh_runtime h = Some (Inr rt0)" "handleRequest env req \<lparr>kq_runtime = rt0, kq_client = cs\<rparr> = (Inr x, q)"
    "kh_runtime h' = Some (Inr (kq_runtime q))"
    using assms(8) by (auto simp: handleEnvelope_def split: option.splits sum.splits prod.splits)
  then have q: "kx_pending (kq_runtime q) = []" "vault_ok (kq_runtime q)" "kh_runtime h' = Some (Inr (kq_runtime q))"
    using flushes_handleRequest [OF assms(7), of env] h' by (auto simp: flushes_def host_ok_def)
  then have "kx_values (kq_runtime q) = fold set_value (loadAll (kx_idb (kq_runtime q))) Map.empty"
    by (simp add: vault_ok_def loaded_values)
  then show ?thesis using q(3) assms(5) by (simp add: createRuntime_def)
qed

text \<open>
  A write that fails is lost. When the database refuses to store the master key, the request is
  answered with the error, but the key is in the memory of the service and no longer in its write
  buffer: the next request that stores its writes succeeds without storing it, and a worker
  that starts on the database does not know it.
\<close>

theorem failed_write_is_lost:
  assumes "kv_call env (Wasm_storeAppMasterKey s k) (kx_values (kq_runtime q)) (kx_service (kq_runtime q)) = (Inr v, s', puts)"
    and "puts \<noteq> []" and "kv_putFails env (kx_idb (kq_runtime q)) (map snd (fold buffer_write puts (kx_pending (kq_runtime q)))) = Some err"
  shows "\<exists>rt. handleRequest env (Req_storeAppMasterKey s k) q = (Inl err, q\<lparr>kq_runtime := rt\<rparr>) \<and>
    kx_values rt = fold set_value puts (kx_values (kq_runtime q)) \<and> persistWrites env rt = (Inr (), rt) \<and>
    kx_idb rt = kx_idb (kq_runtime q)"
proof -
  have "p \<noteq> [] \<or> puts \<noteq> [] \<Longrightarrow> fold buffer_write puts p \<noteq> []" for p
  proof (induction puts arbitrary: p)
    case (Cons e puts)
    have "buffer_write e p \<noteq> []" by (cases p) (auto simp: buffer_write_def)
    then show ?case using Cons.IH by simp
  qed simp
  then show ?thesis
    using assms
    by (intro exI [of _ "(kq_runtime q)\<lparr>kx_service := s', kx_values := fold set_value puts (kx_values (kq_runtime q)), kx_pending := []\<rparr>"])
      (simp add: ask_save_def ask_def save_def on_runtime_def wasm_def persistWrites_def drainStorageWrites_def putEntries_def
        bind_io_def done_as_def)
qed

theorem vault_survives_restart_witness:
  "\<exists>h h' rt rt'. snd (host_run (toy_env (\<lambda>_ _. None)) [] ''w'' [(1, Msg_hello ''u1'' ''c'')] new_host) = h \<and>
     handleEnvelope (toy_env (\<lambda>_ _. None)) 1 ''r'' (Req_storeAppMasterKey ''s'' [7]) h = ([Key_response ''r'' (Inr Res_storeAppMasterKey)], h') \<and>
     kh_runtime h' = Some (Inr rt) \<and> createRuntime (toy_env (\<lambda>_ _. None)) ''u1'' (kx_idb rt) = Inr rt' \<and>
     kx_values rt' (''keyvault'', ''master'') = Some [7]"
proof -
  let ?env = "toy_env (\<lambda>_ _. None)"
  have env: "service_writes_ok ?env" "storage_works ?env" "kv_openFails ?env ''u1'' = None"
    by (auto simp: service_writes_ok_def storage_works_def toy_env_def toy_call_def colon_free_def split: wasm_call.splits option.splits)
  have idb: "entries_ok []" "idb_wf []" by (simp_all add: entries_ok_def idb_wf_def)
  obtain rs h where h: "host_run ?env [] ''w'' [(1, Msg_hello ''u1'' ''c'')] new_host = (rs, h)" by fastforce
  have valid: "isValidStoreId ''u1''" by code_simp
  have hs: "h = \<lparr>kh_runtime = Some (Inr \<lparr>kx_service = 0, kx_values = Map.empty, kx_pending = [], kx_idb = []\<rparr>), kh_serverInstanceId = Some ''w'',
      kh_storeId = Some ''u1'', kh_clients = [1 \<mapsto> \<lparr>cs_clientInstanceId = ''c'', cs_activeSessionId = None\<rparr>]\<rparr>"
    using h valid by (simp add: handleHello_def new_host_def createRuntime_def toy_env_def loadAll_def Let_def)
  obtain h' where h': "handleEnvelope ?env 1 ''r'' (Req_storeAppMasterKey ''s'' [7]) h = ([Key_response ''r'' (Inr Res_storeAppMasterKey)], h')"
    and v: "\<And>rt. kh_runtime h' = Some (Inr rt) \<Longrightarrow> kx_values rt (''keyvault'', ''master'') = Some [7]"
    by (simp add: hs handleEnvelope_def ask_save_def ask_def save_def on_runtime_def wasm_def persistWrites_def drainStorageWrites_def putEntries_def
        bind_io_def done_as_def toy_env_def toy_call_def set_value_def buffer_write_def)
  have "stores_writes (Req_storeAppMasterKey ''s'' [7])" by simp
  from vault_survives_restart [OF env(1,2) idb env(3) h this h'] obtain rt rt' where
    "kh_runtime h' = Some (Inr rt)" "createRuntime ?env ''u1'' (kx_idb rt) = Inr rt'" "kx_values rt' = kx_values rt" by blast
  then show ?thesis using h h' v [of rt] by (intro exI [of _ h] exI [of _ h'] exI [of _ rt] exI [of _ rt']) simp
qed

theorem failed_write_is_lost_witness:
  "\<exists>rt. handleRequest (toy_env (\<lambda>_ _. Some (Thrown_error ''QuotaExceeded''))) (Req_storeAppMasterKey ''s'' [7])
       \<lparr>kq_runtime = \<lparr>kx_service = 0, kx_values = Map.empty, kx_pending = [], kx_idb = []\<rparr>,
        kq_client = \<lparr>cs_clientInstanceId = ''c'', cs_activeSessionId = Some ''s''\<rparr>\<rparr> =
     (Inl (Thrown_error ''QuotaExceeded''), \<lparr>kq_runtime = rt, kq_client = \<lparr>cs_clientInstanceId = ''c'', cs_activeSessionId = Some ''s''\<rparr>\<rparr>) \<and>
     kx_values rt (''keyvault'', ''master'') = Some [7] \<and> kx_idb rt = []"
  using failed_write_is_lost [of "toy_env (\<lambda>_ _. Some (Thrown_error ''QuotaExceeded''))" "''s''" "[7]"
      "\<lparr>kq_runtime = \<lparr>kx_service = 0, kx_values = Map.empty, kx_pending = [], kx_idb = []\<rparr>,
        kq_client = \<lparr>cs_clientInstanceId = ''c'', cs_activeSessionId = Some ''s''\<rparr>\<rparr>" Js_undefined 0
      "[\<lparr>sy_namespace = ''keyvault'', sy_key = ''master'', sy_value = [7]\<rparr>]" "Thrown_error ''QuotaExceeded''"]
  by (auto simp del: handleRequest.simps simp: toy_env_def toy_call_def set_value_def)

subsection \<open>Requests and answers\<close>

fun request_id :: "nat \<times> host_message \<Rightarrow> (nat \<times> string) option" where
  "request_id (p, Msg_request i r) = Some (p, i)"
| "request_id _ = None"

fun response_id :: "nat \<times> host_reply \<Rightarrow> (nat \<times> string) option" where
  "response_id (p, Key_response i r) = Some (p, i)"
| "response_id _ = None"

lemma handleEnvelope_answers: "\<exists>r. fst (handleEnvelope env port i req h) = [Key_response i r]"
  by (auto simp: handleEnvelope_def split: option.split sum.split prod.split)

lemma handleHello_answers: "\<exists>r. fst (handleHello env idb fresh port storeId c h) = [r] \<and> response_id (port, r) = None"
  by (auto simp: handleHello_def Let_def split: sum.split)

text \<open>Every request of every port is answered once, in order, to the port it came from.\<close>

theorem requests_answered:
  "List.map_filter response_id (fst (host_run env idb fresh ms h)) = List.map_filter request_id ms"
proof (induction ms arbitrary: h)
  case (Cons x ms)
  obtain port m where x: "x = (port, m)" by fastforce
  obtain rs h1 where step: "host_handleMessage env idb fresh port m h = (rs, h1)" by fastforce
  have "List.map_filter response_id (map (Pair port) rs) = List.map_filter request_id [(port, m)]"
  proof (cases m)
    case (Msg_hello storeId c)
    then obtain r where "rs = [r]" "response_id (port, r) = None"
      using step handleHello_answers [of env idb fresh port storeId c h] by auto
    then show ?thesis by (simp add: Msg_hello map_filter_simps)
  next
    case (Msg_request i req)
    then obtain r where "rs = [Key_response i r]" using step handleEnvelope_answers [of env port i req h] by auto
    then show ?thesis by (simp add: Msg_request map_filter_simps)
  qed (use step in \<open>simp add: map_filter_simps\<close>)
  moreover obtain rest h2 where "host_run env idb fresh ms h1 = (rest, h2)" by fastforce
  ultimately show ?case using Cons.IH [of h1] by (auto simp add: x step List.map_filter_def)
qed (simp add: map_filter_simps)

end
