(* ===== verification/Sqlite.thy ===== *)
theory Sqlite
  imports Text "HOL-Library.AList"
begin

text \<open>
  The functions on the SQLite database of a store (packages/eventstore-web/src/worker/sqlite.ts and
  schema.ts): opening it and creating its tables, running statements and batches, reading and
  replacing its file, and finding the tables a statement changes. The SQLite engine and the virtual
  file system below it are third-party code and parameters: the record \<open>sqlite_engine\<close> has the calls
  that are made on them, on a database of type \<open>'d\<close>. Letters are ASCII where their case is changed.
\<close>

subsection \<open>Values, statements and errors\<close>

datatype sqlite_value = Sq_null | Sq_text string | Sq_number int | Sq_blob bytes

text \<open>What the engine returns for a column.\<close>

datatype raw_value =
    Raw_null | Raw_text string | Raw_number int | Raw_blob bytes | Raw_array "int list" | Raw_bigint int | Raw_other string

datatype db_statement = Statement_execute string "sqlite_value list" | Statement_query string "sqlite_value list"

type_synonym db_row = "(string \<times> sqlite_value) list"

datatype batch_result = Result_execute | Result_query "db_row list"

record platform_error =
  pf_code :: string
  pf_message :: string

text \<open>A thrown error: its name, its message and its \<open>code\<close> as text, if it has one.\<close>

record db_error =
  de_name :: string
  de_message :: string
  de_code :: "string option"

record init_error =
  ie_error :: db_error
  ie_stage :: "string option"
  ie_causeName :: "string option"

definition plain_error :: "string \<Rightarrow> db_error" where
  "plain_error m = \<lparr>de_name = ''Error'', de_message = m, de_code = None\<rparr>"

definition toPlatformError :: "db_error \<Rightarrow> platform_error" where
  "toPlatformError e =
     (let code = (case de_code e of None \<Rightarrow> [] | Some c \<Rightarrow> c) in
      \<lparr>pf_code = (if code \<noteq> [] \<and> includes_text code ''CONSTRAINT'' then ''ConstraintViolationError''
         else if code \<noteq> [] \<and> (includes_text code ''BUSY'' \<or> includes_text code ''LOCKED'') then ''DbLockedError''
         else if code \<noteq> [] \<and> includes_text code ''ABORT'' then ''TransactionAbortedError''
         else ''WorkerProtocolError''),
       pf_message = de_message e\<rparr>)"

definition MAX_SAFE_INTEGER :: int where
  "MAX_SAFE_INTEGER = 9007199254740991"

definition normalizeSqliteValue :: "raw_value \<Rightarrow> db_error + sqlite_value" where
  "normalizeSqliteValue v =
     (case v of
        Raw_null \<Rightarrow> Inr Sq_null
      | Raw_text s \<Rightarrow> Inr (Sq_text s)
      | Raw_number n \<Rightarrow> Inr (Sq_number n)
      | Raw_blob b \<Rightarrow> Inr (Sq_blob b)
      | Raw_array xs \<Rightarrow> Inr (Sq_blob (map of_int xs))
      | Raw_bigint n \<Rightarrow>
          if \<bar>n\<bar> \<le> MAX_SAFE_INTEGER then Inr (Sq_number n) else Inl (plain_error ''SQLite integer exceeds JS safe integer range'')
      | Raw_other t \<Rightarrow> Inl (plain_error (''Unsupported SQLite value type: '' @ t)))"

subsection \<open>Running statements\<close>

text \<open>
  \<open>sq_statements\<close> splits a text into single statements; \<open>sq_run\<close> binds the parameters, steps one
  statement to its end and returns its columns and rows (a value that cannot be represented is
  therefore found after the statement has run). The \<open>vf_\<close> operations are those of the virtual file
  system; on the file that is open they return SQLite result codes, 0 for success. What a build of
  the engine may lack is an option.
\<close>

type_synonym ('d, 'a) db_io = "'d \<Rightarrow> (db_error + 'a) \<times> 'd"

record 'd sqlite_engine =
  sq_wasmUrls :: "string list"
  sq_fetch :: "string \<Rightarrow> db_error + (int \<times> bytes)"
  sq_module :: "string \<Rightarrow> bytes \<Rightarrow> db_error + 'd"
  sq_vfsRegister :: "('d, unit) db_io"
  sq_open_v2 :: "string \<Rightarrow> ('d, unit) db_io"
  sq_statements :: "string \<Rightarrow> string list"
  sq_run :: "string \<Rightarrow> sqlite_value list \<Rightarrow> ('d, string list \<times> raw_value list list) db_io"
  sq_close :: "('d, unit) db_io"
  vf_create :: "string \<Rightarrow> ('d, unit) db_io"
  vf_isReady :: "('d, unit) db_io option"
  vf_getCapacity :: "('d \<Rightarrow> int) option"
  vf_addCapacity :: "(int \<Rightarrow> ('d, unit) db_io) option"
  vf_removeCapacity :: "(int \<Rightarrow> ('d, unit) db_io) option"
  vf_shut :: "('d, unit) db_io option"
  vf_open :: "string \<Rightarrow> bool \<Rightarrow> 'd \<Rightarrow> int \<times> 'd"
  vf_size :: "'d \<Rightarrow> int \<times> int"
  vf_read :: "nat \<Rightarrow> nat \<Rightarrow> 'd \<Rightarrow> int \<times> bytes"
  vf_truncate :: "'d \<Rightarrow> int \<times> 'd"
  vf_write :: "nat \<Rightarrow> bytes \<Rightarrow> 'd \<Rightarrow> int \<times> 'd"
  vf_sync :: "'d \<Rightarrow> int \<times> 'd"
  vf_close :: "'d \<Rightarrow> 'd"
  vf_delete :: "string \<Rightarrow> 'd \<Rightarrow> 'd"

text \<open>\<open>try \{ ... \} catch \{ \}\<close>.\<close>

definition ignore_io :: "('d, 'a) db_io \<Rightarrow> 'd \<Rightarrow> ('e + unit) \<times> 'd" where
  "ignore_io m d = (Inr (), snd (m d))"

fun map_error :: "('a \<Rightarrow> 'e + 'b) \<Rightarrow> 'a list \<Rightarrow> 'e + 'b list" where
  "map_error f [] = Inr []"
| "map_error f (x # xs) = bind_result (f x) (\<lambda>y. bind_result (map_error f xs) (\<lambda>ys. Inr (y # ys)))"

definition row_object :: "string list \<Rightarrow> raw_value list \<Rightarrow> db_error + db_row" where
  "row_object columns raw =
     bind_result (map_error normalizeSqliteValue raw) (\<lambda>vs. Inr (fold (\<lambda>(c, v). AList.update c v) (zip columns vs) []))"

definition query_one :: "'d sqlite_engine \<Rightarrow> sqlite_value list \<Rightarrow> string \<Rightarrow> ('d, db_row list) db_io" where
  "query_one eng params sql =
     bind_io (sq_run eng sql params) (\<lambda>(columns, raws). lift_io (map_error (row_object columns) raws))"

definition runQuery :: "'d sqlite_engine \<Rightarrow> string \<Rightarrow> sqlite_value list \<Rightarrow> ('d, db_row list) db_io" where
  "runQuery eng sql params =
     bind_io (map_io (query_one eng params) (sq_statements eng sql)) (\<lambda>rows. return_io (concat rows))"

definition runExecute :: "'d sqlite_engine \<Rightarrow> string \<Rightarrow> sqlite_value list \<Rightarrow> ('d, unit) db_io" where
  "runExecute eng sql params =
     foreach_io (\<lambda>s. bind_io (sq_run eng s params) (\<lambda>_. return_io ())) (sq_statements eng sql)"

text \<open>\<open>sqlite3.exec\<close> of a statement without parameters.\<close>

definition exec :: "'d sqlite_engine \<Rightarrow> string \<Rightarrow> ('d, unit) db_io" where
  "exec eng sql = bind_io (sq_run eng sql []) (\<lambda>_. return_io ())"

definition run_statement :: "'d sqlite_engine \<Rightarrow> db_statement \<Rightarrow> ('d, batch_result) db_io" where
  "run_statement eng s =
     (case s of
        Statement_execute sql params \<Rightarrow> bind_io (runExecute eng sql params) (\<lambda>_. return_io Result_execute)
      | Statement_query sql params \<Rightarrow> bind_io (runQuery eng sql params) (\<lambda>rows. return_io (Result_query rows)))"

text \<open>\<open>BEGIN\<close>, a body, \<open>COMMIT\<close>; when the body or the commit throws, \<open>ROLLBACK\<close> and throw again.\<close>

definition in_transaction :: "'d sqlite_engine \<Rightarrow> ('d, 'a) db_io \<Rightarrow> ('d, 'a) db_io" where
  "in_transaction eng body d =
     (case exec eng ''BEGIN'' d of
        (Inl e, d1) \<Rightarrow> (Inl e, d1)
      | (Inr _, d1) \<Rightarrow>
          (case bind_io body (\<lambda>x. bind_io (exec eng ''COMMIT'') (\<lambda>_. return_io x)) d1 of
             (Inr x, d2) \<Rightarrow> (Inr x, d2)
           | (Inl e, d2) \<Rightarrow> (Inl e, snd (exec eng ''ROLLBACK'' d2))))"

definition executeStatements :: "'d sqlite_engine \<Rightarrow> db_statement list \<Rightarrow> ('d, batch_result list) db_io" where
  "executeStatements eng statements = in_transaction eng (map_io (run_statement eng) statements)"

subsection \<open>The schema\<close>

definition SCHEMA_VERSION :: int where
  "SCHEMA_VERSION = 1"

definition newline :: string where
  "newline = [CHR 0x0A]"

definition SCHEMA_V1 :: "string list" where
  "SCHEMA_V1 =
  [''CREATE TABLE IF NOT EXISTS events ('' @ newline @
    ''    commit_sequence INTEGER PRIMARY KEY AUTOINCREMENT,'' @ newline @
    ''    id TEXT NOT NULL UNIQUE,'' @ newline @
    ''    aggregate_type TEXT NOT NULL,'' @ newline @
    ''    aggregate_id TEXT NOT NULL,'' @ newline @
    ''    event_type TEXT NOT NULL,'' @ newline @
    ''    payload_encrypted BLOB NOT NULL,'' @ newline @
    ''    version INTEGER NOT NULL,'' @ newline @
    ''    occurred_at INTEGER NOT NULL,'' @ newline @
    ''    actor_id TEXT NULL,'' @ newline @
    ''    causation_id TEXT NULL,'' @ newline @
    ''    correlation_id TEXT NULL,'' @ newline @
    ''    scope_id TEXT NULL,'' @ newline @
    ''    resource_id TEXT NULL,'' @ newline @
    ''    resource_key_id TEXT NULL,'' @ newline @
    ''    grant_id TEXT NULL,'' @ newline @
    ''    scope_state_ref BLOB NULL,'' @ newline @
    ''    author_device_id TEXT NULL,'' @ newline @
    ''    sig_suite TEXT NULL,'' @ newline @
    ''    signature BLOB NULL'' @ newline @
    ''  )'',
   ''CREATE UNIQUE INDEX IF NOT EXISTS events_aggregate_version ON events (aggregate_type, aggregate_id, version)'',
   ''CREATE INDEX IF NOT EXISTS events_aggregate_commit_sequence ON events (aggregate_type, commit_sequence)'',
   ''CREATE TABLE IF NOT EXISTS snapshots ('' @ newline @
    ''    aggregate_type TEXT NOT NULL,'' @ newline @
    ''    aggregate_id TEXT NOT NULL,'' @ newline @
    ''    snapshot_version INTEGER NOT NULL,'' @ newline @
    ''    snapshot_encrypted BLOB NOT NULL,'' @ newline @
    ''    last_global_seq INTEGER NOT NULL,'' @ newline @
    ''    last_pending_commit_seq INTEGER NOT NULL,'' @ newline @
    ''    written_at INTEGER NOT NULL,'' @ newline @
    ''    PRIMARY KEY (aggregate_type, aggregate_id)'' @ newline @
    ''  )'',
   ''CREATE TABLE IF NOT EXISTS projection_cache ('' @ newline @
    ''    projection_id TEXT NOT NULL,'' @ newline @
    ''    scope_key TEXT NOT NULL,'' @ newline @
    ''    cache_version INTEGER NOT NULL,'' @ newline @
    ''    cache_encrypted BLOB NOT NULL,'' @ newline @
    ''    ordering TEXT NOT NULL,'' @ newline @
    ''    last_global_seq INTEGER NOT NULL,'' @ newline @
    ''    last_pending_commit_seq INTEGER NOT NULL,'' @ newline @
    ''    last_commit_sequence INTEGER NOT NULL,'' @ newline @
    ''    written_at INTEGER NOT NULL,'' @ newline @
    ''    PRIMARY KEY (projection_id, scope_key)'' @ newline @
    ''  )'',
   ''CREATE TABLE IF NOT EXISTS index_artifacts ('' @ newline @
    ''    index_id TEXT NOT NULL,'' @ newline @
    ''    scope_key TEXT NOT NULL,'' @ newline @
    ''    artifact_version INTEGER NOT NULL,'' @ newline @
    ''    artifact_encrypted BLOB NOT NULL,'' @ newline @
    ''    last_global_seq INTEGER NOT NULL,'' @ newline @
    ''    last_pending_commit_seq INTEGER NOT NULL,'' @ newline @
    ''    written_at INTEGER NOT NULL,'' @ newline @
    ''    PRIMARY KEY (index_id, scope_key)'' @ newline @
    ''  )'',
   ''CREATE TABLE IF NOT EXISTS projection_meta ('' @ newline @
    ''    projection_id TEXT PRIMARY KEY,'' @ newline @
    ''    ordering TEXT NOT NULL,'' @ newline @
    ''    last_global_seq INTEGER NOT NULL,'' @ newline @
    ''    last_pending_commit_seq INTEGER NOT NULL,'' @ newline @
    ''    last_commit_sequence INTEGER NOT NULL,'' @ newline @
    ''    phase TEXT NOT NULL,'' @ newline @
    ''    updated_at INTEGER NOT NULL'' @ newline @
    ''  )'',
   ''CREATE TABLE IF NOT EXISTS process_manager_state ('' @ newline @
    ''    process_manager_id TEXT NOT NULL,'' @ newline @
    ''    scope_key TEXT NOT NULL,'' @ newline @
    ''    state_version INTEGER NOT NULL,'' @ newline @
    ''    state_encrypted BLOB NOT NULL,'' @ newline @
    ''    last_global_seq INTEGER NOT NULL,'' @ newline @
    ''    last_pending_commit_seq INTEGER NOT NULL,'' @ newline @
    ''    updated_at INTEGER NOT NULL,'' @ newline @
    ''    PRIMARY KEY (process_manager_id, scope_key)'' @ newline @
    ''  )'',
   ''CREATE TABLE IF NOT EXISTS idempotency_keys ('' @ newline @
    ''    idempotency_key TEXT PRIMARY KEY,'' @ newline @
    ''    command_type TEXT NOT NULL,'' @ newline @
    ''    aggregate_id TEXT NOT NULL,'' @ newline @
    ''    created_at INTEGER NOT NULL'' @ newline @
    ''  )'',
   ''CREATE TABLE IF NOT EXISTS sync_meta ('' @ newline @
    ''    store_id TEXT PRIMARY KEY,'' @ newline @
    ''    last_pulled_global_seq INTEGER NOT NULL,'' @ newline @
    ''    updated_at INTEGER NOT NULL'' @ newline @
    ''  )'',
   ''CREATE TABLE IF NOT EXISTS sync_event_map ('' @ newline @
    ''    event_id TEXT PRIMARY KEY,'' @ newline @
    ''    global_seq INTEGER NOT NULL UNIQUE,'' @ newline @
    ''    inserted_at INTEGER NOT NULL'' @ newline @
    ''  )'',
   ''CREATE INDEX IF NOT EXISTS sync_event_map_global_seq ON sync_event_map (global_seq)'',
   ''CREATE INDEX IF NOT EXISTS idempotency_keys_created_at ON idempotency_keys (created_at)'',
   ''CREATE TABLE IF NOT EXISTS scope_states ('' @ newline @
    ''    scope_state_ref BLOB PRIMARY KEY,'' @ newline @
    ''    scope_id TEXT NOT NULL,'' @ newline @
    ''    scope_state_seq TEXT NOT NULL,'' @ newline @
    ''    members_json TEXT NOT NULL,'' @ newline @
    ''    signers_json TEXT NOT NULL,'' @ newline @
    ''    signature BLOB NOT NULL,'' @ newline @
    ''    verified_at INTEGER NOT NULL'' @ newline @
    ''  )'',
   ''CREATE INDEX IF NOT EXISTS scope_states_scope_id ON scope_states (scope_id)'',
   ''CREATE TABLE IF NOT EXISTS resource_grants ('' @ newline @
    ''    grant_id TEXT PRIMARY KEY,'' @ newline @
    ''    scope_id TEXT NOT NULL,'' @ newline @
    ''    resource_id TEXT NOT NULL,'' @ newline @
    ''    resource_key_id TEXT NOT NULL,'' @ newline @
    ''    wrapped_key BLOB NOT NULL,'' @ newline @
    ''    scope_state_ref BLOB NOT NULL,'' @ newline @
    ''    status TEXT NOT NULL,'' @ newline @
    ''    verified_at INTEGER NOT NULL'' @ newline @
    ''  )'',
   ''CREATE INDEX IF NOT EXISTS resource_grants_scope_id ON resource_grants (scope_id)'',
   ''CREATE INDEX IF NOT EXISTS resource_grants_resource_id ON resource_grants (resource_id)'',
   ''CREATE TABLE IF NOT EXISTS crypto_outbox ('' @ newline @
    ''    artifact_id TEXT PRIMARY KEY,'' @ newline @
    ''    artifact_type TEXT NOT NULL,'' @ newline @
    ''    payload TEXT NOT NULL,'' @ newline @
    ''    dependencies TEXT NOT NULL,'' @ newline @
    ''    status TEXT NOT NULL,'' @ newline @
    ''    enqueued_at INTEGER NOT NULL'' @ newline @
    ''  )'',
   ''CREATE INDEX IF NOT EXISTS crypto_outbox_status ON crypto_outbox (status)'']"

text \<open>The number a row of \<open>PRAGMA user_version\<close> holds, if it holds one.\<close>

definition row_version :: "raw_value list \<Rightarrow> int option" where
  "row_version row = (case row of Raw_number n # _ \<Rightarrow> Some n | Raw_bigint n # _ \<Rightarrow> Some n | _ \<Rightarrow> None)"

definition readUserVersion :: "'d sqlite_engine \<Rightarrow> ('d, int) db_io" where
  "readUserVersion eng =
     bind_io (sq_run eng ''PRAGMA user_version'' []) (\<lambda>(_, rows).
     return_io (fold (\<lambda>row v. case row_version row of None \<Rightarrow> v | Some n \<Rightarrow> n) rows 0))"

definition applySchema :: "'d sqlite_engine \<Rightarrow> ('d, unit) db_io" where
  "applySchema eng =
     bind_io (readUserVersion eng) (\<lambda>currentVersion.
       if currentVersion = SCHEMA_VERSION then return_io ()
       else if SCHEMA_VERSION < currentVersion
       then throw_io \<lparr>de_name = ''Error'',
              de_message = ''Database schema version '' @ show_int currentVersion @ '' is newer than supported version '' @ show_int SCHEMA_VERSION,
              de_code = Some ''MigrationError''\<rparr>
       else in_transaction eng (
         bind_io (if currentVersion = 0 then foreach_io (exec eng) SCHEMA_V1 else return_io ()) (\<lambda>_.
         exec eng (''PRAGMA user_version = '' @ show_int SCHEMA_VERSION))))"

subsection \<open>Opening the database\<close>

fun loadWasmBinary :: "'d sqlite_engine \<Rightarrow> db_error option \<Rightarrow> string list \<Rightarrow> db_error + (string \<times> bytes)" where
  "loadWasmBinary eng lastError [] =
     Inl (case lastError of None \<Rightarrow> plain_error ''Failed to load wa-sqlite wasm'' | Some e \<Rightarrow> e)"
| "loadWasmBinary eng lastError (url # urls) =
     (case sq_fetch eng url of
        Inl e \<Rightarrow> loadWasmBinary eng (Some e) urls
      | Inr (status, b) \<Rightarrow>
          if 200 \<le> status \<and> status \<le> 299 then Inr (url, b)
          else loadWasmBinary eng (Some (plain_error (''Failed to load wa-sqlite wasm: '' @ show_int status))) urls)"

definition SqliteInitError :: "string \<Rightarrow> string \<Rightarrow> db_error \<Rightarrow> init_error" where
  "SqliteInitError stage label cause =
     \<lparr>ie_error = \<lparr>de_name = ''SqliteInitError'', de_message = ''SQLite init failed at '' @ label, de_code = None\<rparr>,
      ie_stage = Some stage, ie_causeName = Some (de_name cause)\<rparr>"

definition withInitStage :: "string \<Rightarrow> string \<Rightarrow> ('d, 'a) db_io \<Rightarrow> 'd \<Rightarrow> (init_error + 'a) \<times> 'd" where
  "withInitStage stage label = rethrow_io (SqliteInitError stage label)"

definition targetCapacity :: int where
  "targetCapacity = 12"

definition ensure_capacity :: "'d sqlite_engine \<Rightarrow> 'd \<Rightarrow> (init_error + unit) \<times> 'd" where
  "ensure_capacity eng =
     (case vf_addCapacity eng of
        None \<Rightarrow> return_io ()
      | Some addCapacity \<Rightarrow>
          (case vf_getCapacity eng of
             None \<Rightarrow> withInitStage ''addVfsCapacity'' ''add VFS capacity'' (addCapacity targetCapacity)
           | Some getCapacity \<Rightarrow>
               bind_io (read_io getCapacity) (\<lambda>currentCapacity.
               bind_io (if currentCapacity < targetCapacity
                        then withInitStage ''addVfsCapacity'' ''ensure VFS capacity'' (addCapacity (targetCapacity - currentCapacity))
                        else return_io ()) (\<lambda>_.
               case vf_removeCapacity eng of
                 None \<Rightarrow> return_io ()
               | Some removeCapacity \<Rightarrow>
                   if targetCapacity * 4 < currentCapacity then ignore_io (removeCapacity (currentCapacity - targetCapacity))
                   else return_io ()))))"

definition db_path :: "string \<Rightarrow> string" where
  "db_path path = (if take 1 path = ''/'' then path else ''/'' @ path)"

definition applyPragmas :: "'d sqlite_engine \<Rightarrow> ('d, unit) db_io" where
  "applyPragmas eng =
     bind_io (exec eng ''PRAGMA journal_mode = DELETE'') (\<lambda>_. exec eng ''PRAGMA synchronous = FULL'')"

definition open_context :: "'d sqlite_engine \<Rightarrow> string \<Rightarrow> string \<Rightarrow> 'd \<Rightarrow> (init_error + unit) \<times> 'd" where
  "open_context eng storeId dbName =
     bind_io (withInitStage ''createVfs'' ''create VFS'' (vf_create eng (''mo-eventstore-'' @ storeId))) (\<lambda>_.
     bind_io (case vf_isReady eng of None \<Rightarrow> return_io () | Some ready \<Rightarrow> withInitStage ''awaitVfsReady'' ''await VFS ready'' ready) (\<lambda>_.
     bind_io (ensure_capacity eng) (\<lambda>_.
     bind_io (withInitStage ''vfsRegister'' ''vfs_register'' (sq_vfsRegister eng)) (\<lambda>_.
     bind_io (withInitStage ''openDb'' ''open_v2'' (sq_open_v2 eng (db_path dbName))) (\<lambda>_.
     bind_io (withInitStage ''applyPragmas'' ''PRAGMAs'' (applyPragmas eng)) (\<lambda>_.
     withInitStage ''applySchema'' ''applySchema'' (applySchema eng)))))))"

definition createSqliteContext :: "'d sqlite_engine \<Rightarrow> string \<Rightarrow> string \<Rightarrow> init_error + 'd" where
  "createSqliteContext eng storeId dbName =
     (case loadWasmBinary eng None (sq_wasmUrls eng) of
        Inl e \<Rightarrow> Inl (SqliteInitError ''loadWasm'' ''wasm'' e)
      | Inr (url, wasmBinary) \<Rightarrow>
          (case sq_module eng url wasmBinary of
             Inl e \<Rightarrow> Inl (SqliteInitError ''initModule'' ''SQLiteESMFactory'' e)
           | Inr d0 \<Rightarrow> (case open_context eng storeId dbName d0 of (Inl e, _) \<Rightarrow> Inl e | (Inr _, d) \<Rightarrow> Inr d)))"

definition closeSqliteContext :: "'d sqlite_engine \<Rightarrow> ('d, unit) db_io" where
  "closeSqliteContext eng = bind_io (sq_close eng) (\<lambda>_. case vf_shut eng of None \<Rightarrow> return_io () | Some shut \<Rightarrow> shut)"

subsection \<open>The file of the database\<close>

definition chunkSize :: nat where
  "chunkSize = 65536"

text \<open>A VFS call whose result code must be \<open>SQLITE_OK\<close>.\<close>

definition vfs_do :: "string \<Rightarrow> ('d \<Rightarrow> int \<times> 'd) \<Rightarrow> ('d, unit) db_io" where
  "vfs_do what f d = (case f d of (rc, d') \<Rightarrow> (if rc \<noteq> 0 then Inl (plain_error (''VFS '' @ what @ '' failed: '' @ show_int rc)) else Inr (), d'))"

text \<open>\<open>try \{ ... \} finally \{ ctx.vfs.xClose(fileId) \}\<close>.\<close>

definition then_close :: "'d sqlite_engine \<Rightarrow> ('d, 'a) db_io \<Rightarrow> ('d, 'a) db_io" where
  "then_close eng m d = (case m d of (r, d') \<Rightarrow> (r, vf_close eng d'))"

function read_chunks :: "'d sqlite_engine \<Rightarrow> nat \<Rightarrow> nat \<Rightarrow> 'd \<Rightarrow> db_error + bytes" where
  "read_chunks eng limit off d =
     (if limit \<le> off then Inr []
      else
        let n = min chunkSize (limit - off) in
        case vf_read eng off n d of
          (rc, view) \<Rightarrow>
            if rc \<noteq> 0 then Inl (plain_error (''VFS xRead failed at offset '' @ show_nat off @ '': '' @ show_int rc))
            else bind_result (read_chunks eng limit (off + chunkSize) d) (\<lambda>rest. Inr (view @ rest)))"
  by auto
termination
  by (relation "measure (\<lambda>(eng, limit, off, d). limit - off)") (auto simp: chunkSize_def)

definition exportVfsFileBytes :: "'d sqlite_engine \<Rightarrow> string \<Rightarrow> ('d, bytes) db_io" where
  "exportVfsFileBytes eng path =
     bind_io (vfs_do ''xOpen'' (vf_open eng (db_path path) False)) (\<lambda>_.
     then_close eng (\<lambda>d.
       (case vf_size eng d of
          (rc, bytesTotal) \<Rightarrow>
            if rc \<noteq> 0 then (Inl (plain_error (''VFS xFileSize failed: '' @ show_int rc)), d)
            else if bytesTotal < 0 \<or> MAX_SAFE_INTEGER < bytesTotal then (Inl (plain_error ''Invalid VFS file size''), d)
            else (read_chunks eng (nat bytesTotal) 0 d, d))))"

function write_chunks :: "'d sqlite_engine \<Rightarrow> bytes \<Rightarrow> nat \<Rightarrow> ('d, unit) db_io" where
  "write_chunks eng b off d =
     (if length b \<le> off then (Inr (), d)
      else
        case vf_write eng off (take chunkSize (drop off b)) d of
          (rc, d') \<Rightarrow>
            if rc \<noteq> 0 then (Inl (plain_error (''VFS xWrite failed at offset '' @ show_nat off @ '': '' @ show_int rc)), d') else write_chunks eng b (off + chunkSize) d')"
  by auto
termination
  by (relation "measure (\<lambda>(eng, b, off, d). length b - off)") (auto simp: chunkSize_def)

definition importVfsFileBytes :: "'d sqlite_engine \<Rightarrow> string \<Rightarrow> bytes \<Rightarrow> ('d, unit) db_io" where
  "importVfsFileBytes eng path b =
     bind_io (vfs_do ''xOpen'' (vf_open eng (db_path path) True)) (\<lambda>_.
     then_close eng (
       bind_io (vfs_do ''xTruncate'' (vf_truncate eng)) (\<lambda>_.
       bind_io (write_chunks eng b 0) (\<lambda>_.
       vfs_do ''xSync'' (vf_sync eng)))))"

definition replaceMainDatabaseBytes :: "'d sqlite_engine \<Rightarrow> string \<Rightarrow> bytes \<Rightarrow> ('d, unit) db_io" where
  "replaceMainDatabaseBytes eng dbName b =
     bind_io (sq_close eng) (\<lambda>_.
     bind_io (update_io (vf_delete eng (dbName @ ''-journal''))) (\<lambda>_.
     bind_io (update_io (vf_delete eng (dbName @ ''-wal''))) (\<lambda>_.
     bind_io (update_io (vf_delete eng (dbName @ ''-shm''))) (\<lambda>_.
     bind_io (importVfsFileBytes eng dbName b) (\<lambda>_.
     bind_io (sq_open_v2 eng (db_path dbName)) (\<lambda>_.
     bind_io (applyPragmas eng) (\<lambda>_.
     applySchema eng)))))))"

subsection \<open>Names of tables\<close>

definition upper_letter :: "char \<Rightarrow> char" where
  "upper_letter c = (if CHR ''a'' \<le> c \<and> c \<le> CHR ''z'' then char_of (of_char c - 32 :: nat) else c)"

definition lower_letter :: "char \<Rightarrow> char" where
  "lower_letter c = (if CHR ''A'' \<le> c \<and> c \<le> CHR ''Z'' then char_of (of_char c + 32 :: nat) else c)"

definition toUpperCase :: "string \<Rightarrow> string" where
  "toUpperCase = map upper_letter"

definition toLowerCase :: "string \<Rightarrow> string" where
  "toLowerCase = map lower_letter"

text \<open>\<open>sql.trim().replace(/\s+/g, ' ')\<close> is the text of its words with one space between them.\<close>

fun split_words :: "string \<Rightarrow> string \<Rightarrow> string list" where
  "split_words acc [] = (if acc = [] then [] else [acc])"
| "split_words acc (c # cs) =
     (if js_space c then (if acc = [] then split_words [] cs else acc # split_words [] cs) else split_words (acc @ [c]) cs)"

fun join_words :: "string list \<Rightarrow> string" where
  "join_words [] = []"
| "join_words [w] = w"
| "join_words (w # v # ws) = w @ '' '' @ join_words (v # ws)"

definition normalize_sql :: "string \<Rightarrow> string" where
  "normalize_sql sql = toUpperCase (join_words (split_words [] sql))"

definition after :: "string \<Rightarrow> string \<Rightarrow> string option" where
  "after lit s = (if take (length lit) s = lit then Some (drop (length lit) s) else None)"

definition word_char :: "char \<Rightarrow> bool" where
  "word_char c \<longleftrightarrow> (CHR ''A'' \<le> c \<and> c \<le> CHR ''Z'') \<or> c = CHR ''_''"

definition name_char :: "char \<Rightarrow> bool" where
  "name_char c \<longleftrightarrow> word_char c \<or> (CHR ''0'' \<le> c \<and> c \<le> CHR ''9'')"

text \<open>A literal followed by a captured name; on the normalised text \<open>\s+\<close> is one space.\<close>

definition match_name :: "string \<Rightarrow> string \<Rightarrow> string option" where
  "match_name lit s =
     (case after lit s of
        None \<Rightarrow> None
      | Some r \<Rightarrow> if takeWhile name_char r = [] then None else Some (takeWhile name_char r))"

definition match_insert :: "string \<Rightarrow> string option" where
  "match_insert s =
     (case after ''INSERT'' s of
        None \<Rightarrow> None
      | Some r \<Rightarrow>
          (case (case after '' OR '' r of
                   None \<Rightarrow> None
                 | Some q \<Rightarrow> if takeWhile word_char q = [] then None else match_name '' INTO '' (dropWhile word_char q)) of
             Some n \<Rightarrow> Some n
           | None \<Rightarrow> match_name '' INTO '' r))"

text \<open>\<open>RegExp.exec\<close>: the leftmost match.\<close>

fun first_match :: "(string \<Rightarrow> string option) \<Rightarrow> string \<Rightarrow> string option" where
  "first_match f [] = f []"
| "first_match f (c # cs) = (case f (c # cs) of Some n \<Rightarrow> Some n | None \<Rightarrow> first_match f cs)"

definition table_patterns :: "(string \<Rightarrow> string option) list" where
  "table_patterns = [match_insert, match_name ''UPDATE '', match_name ''DELETE FROM '', match_name ''CREATE TABLE IF NOT EXISTS '',
     match_name ''DROP TABLE IF EXISTS '']"

definition extractTableNames :: "string \<Rightarrow> string list" where
  "extractTableNames sql =
     fold add_once (List.map_filter (\<lambda>f. first_match f (normalize_sql sql)) table_patterns) []"

end
