(* ===== verification/DbWorker.thy ===== *)
theory DbWorker
  imports Sqlite
begin

text \<open>
  The worker that owns the database of a store and the tabs that use it (packages/eventstore-web/src):
  the server that answers the tabs (worker/owner.worker.ts), the client of a tab (client.ts) and the
  choice of a shared or a dedicated worker (index.ts). A port is a number; a step of the server
  returns the messages it posts with the port of each. The contexts attached to errors and the
  diagnostics printed when the database cannot be opened are left out, and the lists of buffers that
  are transferred with a message instead of copied.
\<close>

subsection \<open>DbOwnerServer\<close>

record connection =
  cn_port :: nat
  cn_subscriptions :: "(string \<times> string list) list"

record 'd db_server =
  ow_connections :: "connection list"
  ow_canceled :: "string list"
  ow_ctx :: "'d option"
  ow_storeId :: "string option"
  ow_dbName :: "string option"
  ow_dedicated :: bool
  ow_lockHeld :: bool

datatype db_request =
    Db_query string "sqlite_value list"
  | Db_execute string "sqlite_value list"
  | Db_batch "db_statement list"
  | Db_shutdown
  | Db_exportMain
  | Db_importMain bytes
  | Db_subscribeTables string "string list"
  | Db_unsubscribeTables string
  | Db_unsupported string

datatype db_data = Data_null | Data_rows "db_row list" | Data_results "batch_result list" | Data_bytes bytes

datatype db_message =
    Out_response string "platform_error + db_data"
  | Out_notify "string list"
  | Out_helloOk bool
  | Out_helloError platform_error

type_synonym 'd server_step = "'d db_server \<Rightarrow> (nat \<times> db_message) list \<times> 'd db_server"

definition attachPort :: "nat \<Rightarrow> 'd db_server \<Rightarrow> 'd db_server" where
  "attachPort port s = s\<lparr>ow_connections := ow_connections s @ [\<lparr>cn_port = port, cn_subscriptions = []\<rparr>]\<rparr>"

definition cancel_request :: "string \<Rightarrow> 'd db_server \<Rightarrow> 'd db_server" where
  "cancel_request targetRequestId s = s\<lparr>ow_canceled := add_once targetRequestId (ow_canceled s)\<rparr>"

definition ownership_error :: "string \<Rightarrow> platform_error" where
  "ownership_error m = \<lparr>pf_code = ''DbOwnershipError'', pf_message = m\<rparr>"

text \<open>The error that a failed initialisation is reported as.\<close>

definition init_platform_error :: "init_error \<Rightarrow> platform_error" where
  "init_platform_error e =
     (if de_name (ie_error e) = ''InvalidStateError'' \<or> ie_causeName e = Some ''InvalidStateError''
      then \<lparr>pf_code = ''DbInvalidStateError'', pf_message = ''OPFS returned InvalidStateError while opening the SQLite file. This can happen if another context still holds an exclusive access handle. Try closing other tabs and reloading; if it persists, use Reset Local State.''\<rparr>
      else if ie_stage e \<noteq> None then \<lparr>pf_code = ''WorkerProtocolError'', pf_message = de_message (ie_error e)\<rparr>
      else toPlatformError (ie_error e))"

text \<open>
  \<open>opfs\<close> and \<open>locks\<close> say whether the environment has the origin-private file system and the Web
  Locks. The exclusive lock is waited for, so a dedicated worker that goes on holds it.
\<close>

definition assertOpfsSupport :: "bool \<Rightarrow> db_error + unit" where
  "assertOpfsSupport opfs = (if opfs then Inr () else Inl (plain_error ''OPFS is not available in this environment''))"

definition acquireLock :: "bool \<Rightarrow> db_error + unit" where
  "acquireLock locks = (if locks then Inr () else Inl (plain_error ''Web Locks API is not available''))"

text \<open>An error that is not a \<open>SqliteInitError\<close> is its own cause.\<close>

definition other_init_error :: "db_error \<Rightarrow> init_error" where
  "other_init_error e = \<lparr>ie_error = e, ie_stage = None, ie_causeName = Some (de_name e)\<rparr>"

definition db_initialize :: "'d sqlite_engine \<Rightarrow> bool \<Rightarrow> bool \<Rightarrow> bool \<Rightarrow> string \<Rightarrow> string \<Rightarrow> bool \<Rightarrow> init_error + 'd" where
  "db_initialize eng opfs locks dedicated storeId dbName requireOpfs =
     (case bind_result (if requireOpfs then assertOpfsSupport opfs else Inr ()) (\<lambda>_. if dedicated then acquireLock locks else Inr ()) of
        Inl e \<Rightarrow> Inl (other_init_error e)
      | Inr _ \<Rightarrow> createSqliteContext eng storeId dbName)"

definition db_handleHello :: "'d sqlite_engine \<Rightarrow> bool \<Rightarrow> bool \<Rightarrow> nat \<Rightarrow> string \<Rightarrow> string \<Rightarrow> bool \<Rightarrow> 'd server_step" where
  "db_handleHello eng opfs locks port storeId dbName requireOpfs s =
     (case (case ow_ctx s of
              Some d \<Rightarrow> Inr s
            | None \<Rightarrow>
                (case db_initialize eng opfs locks (ow_dedicated s) storeId dbName requireOpfs of
                   Inl e \<Rightarrow> Inl e
                 | Inr d \<Rightarrow> Inr (s\<lparr>ow_ctx := Some d, ow_storeId := Some storeId, ow_dbName := Some dbName, ow_lockHeld := ow_dedicated s\<rparr>))) of
        Inl e \<Rightarrow> ([(port, Out_helloError (init_platform_error e))], s\<lparr>ow_storeId := None, ow_dbName := None, ow_lockHeld := False\<rparr>)
      | Inr s' \<Rightarrow>
          if ow_storeId s' \<noteq> Some storeId \<or> ow_dbName s' \<noteq> Some dbName
          then ([(port, Out_response [] (Inl (ownership_error ''Worker already initialized for a different storeId or dbName'')))], s')
          else ([(port, Out_helloOk (ow_dedicated s'))], s'))"

definition notifyTables :: "string list \<Rightarrow> 'd db_server \<Rightarrow> (nat \<times> db_message) list" where
  "notifyTables tables s =
     (if tables = [] then []
      else map (\<lambda>c. (cn_port c, Out_notify tables))
        (filter (\<lambda>c. \<exists>(i, ts) \<in> set (cn_subscriptions c). \<exists>t \<in> set ts. t \<in> set tables) (ow_connections s)))"

definition statement_sql :: "db_statement \<Rightarrow> string" where
  "statement_sql s = (case s of Statement_execute sql _ \<Rightarrow> sql | Statement_query sql _ \<Rightarrow> sql)"

definition on_connection :: "nat \<Rightarrow> (connection \<Rightarrow> connection) \<Rightarrow> 'd db_server \<Rightarrow> 'd db_server" where
  "on_connection port f s = s\<lparr>ow_connections := map (\<lambda>c. if cn_port c = port then f c else c) (ow_connections s)\<rparr>"

text \<open>The answer to a request on an open database (\<open>sendResponse\<close>), the notifications first.\<close>

definition respond ::
  "nat \<Rightarrow> string \<Rightarrow> (db_error + 'a) \<Rightarrow> ('a \<Rightarrow> db_data) \<Rightarrow> (nat \<times> db_message) list \<Rightarrow> (nat \<times> db_message) list" where
  "respond port i res data notes =
     (case res of
        Inl e \<Rightarrow> [(port, Out_response i (Inl (toPlatformError e)))]
      | Inr x \<Rightarrow> notes @ [(port, Out_response i (Inr (data x)))])"

text \<open>
  The requests that follow the check of \<open>this.ctx\<close>; the three that are answered before it do not get
  here.
\<close>

definition serve :: "'d sqlite_engine \<Rightarrow> nat \<Rightarrow> string \<Rightarrow> db_request \<Rightarrow> 'd \<Rightarrow> 'd server_step" where
  "serve eng port i req d s =
     (case req of
        Db_query sql params \<Rightarrow>
          (case runQuery eng sql params d of (res, d') \<Rightarrow> (respond port i res Data_rows [], s\<lparr>ow_ctx := Some d'\<rparr>))
      | Db_execute sql params \<Rightarrow>
          (case runExecute eng sql params d of
             (res, d') \<Rightarrow>
               (respond port i res (\<lambda>_. Data_null) (notifyTables (map toLowerCase (extractTableNames sql)) s), s\<lparr>ow_ctx := Some d'\<rparr>))
      | Db_batch statements \<Rightarrow>
          (case executeStatements eng statements d of
             (res, d') \<Rightarrow>
               (respond port i res Data_results
                  (notifyTables (map toLowerCase (concat (map (extractTableNames \<circ> statement_sql) statements))) s),
                s\<lparr>ow_ctx := Some d'\<rparr>))
      | Db_subscribeTables subscriptionId tables \<Rightarrow>
          ([(port, Out_response i (Inr Data_null))],
           on_connection port (cn_subscriptions_update (AList.update subscriptionId (map toLowerCase tables))) s)
      | Db_unsubscribeTables subscriptionId \<Rightarrow>
          ([(port, Out_response i (Inr Data_null))],
           on_connection port (cn_subscriptions_update (filter (\<lambda>x. fst x \<noteq> subscriptionId))) s)
      | Db_unsupported k \<Rightarrow>
          ([(port, Out_response i (Inl \<lparr>pf_code = ''WorkerProtocolError'', pf_message = ''Unsupported request kind: '' @ k\<rparr>))], s)
      | _ \<Rightarrow> ([], s))"

definition db_handleRequest :: "'d sqlite_engine \<Rightarrow> nat \<Rightarrow> string \<Rightarrow> db_request \<Rightarrow> 'd server_step" where
  "db_handleRequest eng port i req s =
     (if i \<in> set (ow_canceled s)
      then ([(port, Out_response i (Inl \<lparr>pf_code = ''CanceledError'', pf_message = ''Request was canceled''\<rparr>))],
            s\<lparr>ow_canceled := filter (\<lambda>j. j \<noteq> i) (ow_canceled s)\<rparr>)
      else if req = Db_shutdown
      then (respond port i (case ow_ctx s of None \<Rightarrow> Inr () | Some d \<Rightarrow> fst (closeSqliteContext eng d)) (\<lambda>_. Data_null) [],
            s\<lparr>ow_ctx := None, ow_storeId := None, ow_dbName := None, ow_lockHeld := False\<rparr>)
      else
        case ow_ctx s of
          None \<Rightarrow> ([(port, Out_response i (Inl (ownership_error ''DB is not initialized'')))], s)
        | Some d \<Rightarrow>
            (case req of
               Db_exportMain \<Rightarrow>
                 if ow_dbName s = None \<or> ow_dbName s = Some []
                 then ([(port, Out_response i (Inl (ownership_error ''DB is not initialized'')))], s)
                 else (case exportVfsFileBytes eng (the (ow_dbName s)) d of
                         (res, d') \<Rightarrow> (respond port i res Data_bytes [], s\<lparr>ow_ctx := Some d'\<rparr>))
             | Db_importMain b \<Rightarrow>
                 if ow_dbName s = None \<or> ow_dbName s = Some []
                 then ([(port, Out_response i (Inl (ownership_error ''DB is not initialized'')))], s)
                 else (case replaceMainDatabaseBytes eng (the (ow_dbName s)) b d of
                         (res, d') \<Rightarrow> (respond port i res (\<lambda>_. Data_null) [], s\<lparr>ow_ctx := Some d'\<rparr>))
             | _ \<Rightarrow> serve eng port i req d s))"

subsection \<open>DbClient\<close>

record db_client =
  dc_pending :: "string list"
  dc_settled :: "(string \<times> (platform_error + db_data)) list"
  dc_subscriptions :: "(string \<times> string list) list"
  dc_called :: "string list"

definition db_request_message :: "string \<Rightarrow> db_request \<Rightarrow> db_client \<Rightarrow> (string \<times> db_request) \<times> db_client" where
  "db_request_message requestId payload c = ((requestId, payload), c\<lparr>dc_pending := add_once requestId (dc_pending c)\<rparr>)"

definition subscribeToTables :: "string \<Rightarrow> string \<Rightarrow> string list \<Rightarrow> db_client \<Rightarrow> (string \<times> db_request) \<times> db_client" where
  "subscribeToTables subscriptionId requestId tables c =
     db_request_message requestId (Db_subscribeTables subscriptionId (map toLowerCase tables))
       (c\<lparr>dc_subscriptions := AList.update subscriptionId (map toLowerCase tables) (dc_subscriptions c)\<rparr>)"

text \<open>The function that \<open>subscribeToTables\<close> returns.\<close>

definition unsubscribeFromTables :: "string \<Rightarrow> string \<Rightarrow> db_client \<Rightarrow> (string \<times> db_request) \<times> db_client" where
  "unsubscribeFromTables subscriptionId requestId c =
     db_request_message requestId (Db_unsubscribeTables subscriptionId)
       (c\<lparr>dc_subscriptions := filter (\<lambda>x. fst x \<noteq> subscriptionId) (dc_subscriptions c)\<rparr>)"

definition db_handleResponse :: "string \<Rightarrow> (platform_error + db_data) \<Rightarrow> db_client \<Rightarrow> db_client" where
  "db_handleResponse i payload c =
     (if i \<in> set (dc_pending c)
      then c\<lparr>dc_pending := filter (\<lambda>j. j \<noteq> i) (dc_pending c), dc_settled := dc_settled c @ [(i, payload)]\<rparr> else c)"

text \<open>\<open>dc_called\<close> records the subscriptions whose listener has been called.\<close>

definition handleNotify :: "string list \<Rightarrow> db_client \<Rightarrow> db_client" where
  "handleNotify tables c =
     c\<lparr>dc_called := dc_called c @ map fst
        (filter (\<lambda>(i, ts). \<exists>t \<in> set ts. t \<in> set (map toLowerCase tables)) (dc_subscriptions c))\<rparr>"

definition db_onMessage :: "db_message \<Rightarrow> db_client \<Rightarrow> db_client" where
  "db_onMessage m c =
     (case m of Out_notify tables \<Rightarrow> handleNotify tables c | Out_response i payload \<Rightarrow> db_handleResponse i payload c | _ \<Rightarrow> c)"

definition db_client_shutdown :: "db_client \<Rightarrow> db_client" where
  "db_client_shutdown c = c\<lparr>dc_pending := [], dc_subscriptions := []\<rparr>"

text \<open>The error a request is rejected with.\<close>

definition rejection :: "platform_error \<Rightarrow> db_error" where
  "rejection e = \<lparr>de_name = pf_code e, de_message = pf_message e, de_code = Some (pf_code e)\<rparr>"

definition exportMainDatabase_result :: "platform_error + db_data \<Rightarrow> db_error + bytes" where
  "exportMainDatabase_result payload =
     (case payload of Inl e \<Rightarrow> Inl (rejection e) | Inr (Data_bytes b) \<Rightarrow> Inr b | Inr _ \<Rightarrow> Inl (plain_error ''Invalid export response''))"

subsection \<open>Connecting a tab\<close>

text \<open>\<open>sendHello\<close> on the messages that arrive within the time limit.\<close>

fun sendHello :: "db_message list \<Rightarrow> db_error + bool" where
  "sendHello [] = Inl (plain_error ''Worker hello timeout'')"
| "sendHello (Out_helloOk dedicated # ms) = Inr dedicated"
| "sendHello (Out_helloError e # ms) = Inl (rejection e)"
| "sendHello (m # ms) = sendHello ms"

datatype db_port = Shared_port | Dedicated_port

text \<open>
  \<open>shared\<close> is None when the browser has no shared workers or the constructor throws, and the messages
  of the shared worker otherwise; \<open>dedicated\<close> are the messages of a dedicated worker.
\<close>

definition createWebSqliteDb ::
  "bool \<Rightarrow> bool \<Rightarrow> bool \<Rightarrow> db_message list option \<Rightarrow> db_message list \<Rightarrow> db_error + (db_port \<times> bool)" where
  "createWebSqliteDb browser opfs requireOpfs shared dedicated =
     (if \<not> browser then Inl (plain_error ''createWebSqliteDb must be called in a browser context'')
      else if requireOpfs \<and> \<not> opfs
      then Inl (plain_error ''OPFS is required but unavailable in this browser context (requires a secure context and StorageManager.getDirectory).'')
      else
        let alone = bind_result (sendHello dedicated) (\<lambda>m. Inr (Dedicated_port, m)) in
        case shared of
          None \<Rightarrow> alone
        | Some ms \<Rightarrow> (case sendHello ms of Inr m \<Rightarrow> Inr (Shared_port, m) | Inl e \<Rightarrow> alone))"

end
