(* ===== verification/DbWorkerProperties.thy ===== *)
theory DbWorkerProperties
  imports DbWorker
begin

text \<open>
  What the worker that owns the database promises the tabs: a batch is all or nothing, a change of a
  table reaches every listener of it before the change is answered, and the file of the database
  can be restored from its export.
\<close>

subsection \<open>Specification\<close>

text \<open>The word that names the table in the statements that change one.\<close>

definition target_word :: "string list \<Rightarrow> string option" where
  "target_word ws =
     (if take 2 ws = [''INSERT'', ''INTO''] \<and> 2 < length ws then Some (ws ! 2)
      else if take 2 ws = [''INSERT'', ''OR''] \<and> 4 < length ws \<and> ws ! 3 = ''INTO'' \<and> list_all word_char (ws ! 2) then Some (ws ! 4)
      else if take 1 ws = [''UPDATE''] \<and> 1 < length ws then Some (ws ! 1)
      else if take 2 ws = [''DELETE'', ''FROM''] \<and> 2 < length ws then Some (ws ! 2)
      else None)"

definition written_table :: "string \<Rightarrow> string option" where
  "written_table sql =
     (case target_word (map toUpperCase (split_words [] sql)) of
        None \<Rightarrow> None
      | Some w \<Rightarrow> if takeWhile name_char w = [] then None else Some (toLowerCase (takeWhile name_char w)))"

text \<open>
  What SQLite documents about transactions: \<open>BEGIN\<close> starts one, statements that are not transaction
  control and succeed stay within it, and \<open>ROLLBACK\<close> brings back the content at its start, also
  after a statement or a \<open>COMMIT\<close> that failed. After some errors (a full disk, an I/O error) SQLite has
  rolled back by itself; \<open>ROLLBACK\<close> then throws and leaves that content. \<open>within d c\<close> says that a
  transaction that started on the content \<open>c\<close> is open.
\<close>

definition undone :: "'d sqlite_engine \<Rightarrow> ('d \<Rightarrow> 'c) \<Rightarrow> 'c \<Rightarrow> 'd \<Rightarrow> bool" where
  "undone eng content c d \<longleftrightarrow> content (snd (sq_run eng ''ROLLBACK'' [] d)) = c"

definition transactions_ok :: "'d sqlite_engine \<Rightarrow> (string \<Rightarrow> bool) \<Rightarrow> ('d \<Rightarrow> 'c) \<Rightarrow> ('d \<Rightarrow> 'c \<Rightarrow> bool) \<Rightarrow> bool" where
  "transactions_ok eng control content within \<longleftrightarrow>
     (\<forall>d. case sq_run eng ''BEGIN'' [] d of (Inl e, d') \<Rightarrow> content d' = content d | (Inr _, d') \<Rightarrow> within d' (content d)) \<and>
     (\<forall>sql params d c. within d c \<and> \<not> control sql \<longrightarrow>
        (case sq_run eng sql params d of (Inl e, d') \<Rightarrow> undone eng content c d' | (Inr _, d') \<Rightarrow> within d' c)) \<and>
     (\<forall>d c e d'. within d c \<and> sq_run eng ''COMMIT'' [] d = (Inl e, d') \<longrightarrow> undone eng content c d') \<and>
     (\<forall>d c. within d c \<longrightarrow> undone eng content c d)"

definition plain_statement :: "'d sqlite_engine \<Rightarrow> (string \<Rightarrow> bool) \<Rightarrow> db_statement \<Rightarrow> bool" where
  "plain_statement eng control st \<longleftrightarrow> (\<forall>s \<in> set (sq_statements eng (statement_sql st)). \<not> control s)"

text \<open>
  What may happen at the worker and at a tab between a subscription and a change: the worker gets new
  tabs, cancellations, hellos and requests of any tab; the tab gets messages and makes and ends other
  subscriptions.
\<close>

datatype worker_event = Tab_attached nat | Got_cancel string | Got_hello nat string string bool | Got_request nat string db_request

fun worker_event_step :: "'d sqlite_engine \<Rightarrow> bool \<Rightarrow> bool \<Rightarrow> worker_event \<Rightarrow> 'd db_server \<Rightarrow> 'd db_server" where
  "worker_event_step eng opfs locks (Tab_attached port) s = attachPort port s"
| "worker_event_step eng opfs locks (Got_cancel i) s = cancel_request i s"
| "worker_event_step eng opfs locks (Got_hello port storeId dbName requireOpfs) s =
     snd (db_handleHello eng opfs locks port storeId dbName requireOpfs s)"
| "worker_event_step eng opfs locks (Got_request port i req) s = snd (db_handleRequest eng port i req s)"

datatype tab_event = Got_message db_message | Made_subscription string string "string list" | Ended_subscription string string

fun tab_event_step :: "tab_event \<Rightarrow> db_client \<Rightarrow> db_client" where
  "tab_event_step (Got_message m) c = db_onMessage m c"
| "tab_event_step (Made_subscription sid rid tables) c = snd (subscribeToTables sid rid tables c)"
| "tab_event_step (Ended_subscription sid rid) c = snd (unsubscribeFromTables sid rid c)"

definition ends_at_worker :: "nat \<Rightarrow> string \<Rightarrow> worker_event \<Rightarrow> bool" where
  "ends_at_worker p sid ev \<longleftrightarrow>
     (\<exists>i. ev = Got_request p i (Db_unsubscribeTables sid)) \<or> (\<exists>i tables. ev = Got_request p i (Db_subscribeTables sid tables))"

definition ends_at_tab :: "string \<Rightarrow> tab_event \<Rightarrow> bool" where
  "ends_at_tab sid ev \<longleftrightarrow> (\<exists>rid. ev = Ended_subscription sid rid) \<or> (\<exists>rid tables. ev = Made_subscription sid rid tables)"

text \<open>
  The file of one database, as the operations on it are documented. \<open>file d\<close> are its bytes when it is
  there, \<open>opened d\<close> says that the handle of the export or import is open on it, and \<open>room\<close> is the size
  up to which the disk has space. Opening an existing file succeeds; a read within the file returns
  the bytes (one that goes past its end may fail), a write at its end within the room appends.
\<close>

definition file_ok :: "'d sqlite_engine \<Rightarrow> string \<Rightarrow> ('d \<Rightarrow> bytes option) \<Rightarrow> ('d \<Rightarrow> bool) \<Rightarrow> nat \<Rightarrow> bool" where
  "file_ok eng path file opened room \<longleftrightarrow>
     (\<forall>d b create. file d = Some b \<longrightarrow> (case vf_open eng path create d of (rc, d') \<Rightarrow> rc = 0 \<and> file d' = Some b \<and> opened d')) \<and>
     (\<forall>d b. opened d \<and> file d = Some b \<longrightarrow> vf_size eng d = (0, int (length b))) \<and>
     (\<forall>d b off n. opened d \<and> file d = Some b \<and> off + n \<le> length b \<longrightarrow> vf_read eng off n d = (0, take n (drop off b))) \<and>
     (\<forall>d. opened d \<and> file d \<noteq> None \<longrightarrow> (case vf_truncate eng d of (rc, d') \<Rightarrow> rc = 0 \<and> file d' = Some [] \<and> opened d')) \<and>
     (\<forall>d b x. opened d \<and> file d = Some b \<and> length b + length x \<le> room \<longrightarrow>
        (case vf_write eng (length b) x d of (rc, d') \<Rightarrow> rc = 0 \<and> file d' = Some (b @ x) \<and> opened d')) \<and>
     (\<forall>d b. opened d \<and> file d = Some b \<longrightarrow> (case vf_sync eng d of (rc, d') \<Rightarrow> rc = 0 \<and> file d' = Some b)) \<and>
     (\<forall>d. file (vf_close eng d) = file d)"

text \<open>
  What SQLite does on a file that holds a database of the current schema in rollback-journal mode
  (\<open>current\<close>): connecting, the two pragmas and reading the version do not write to it. Closing a
  connection leaves the file in place, and so does deleting the files beside it. \<open>connected d\<close> says
  that a connection is open.
\<close>

definition connection_ok :: "'d sqlite_engine \<Rightarrow> string \<Rightarrow> ('d \<Rightarrow> bytes option) \<Rightarrow> ('d \<Rightarrow> bool) \<Rightarrow> (bytes \<Rightarrow> bool) \<Rightarrow> bool" where
  "connection_ok eng dbName file connected current \<longleftrightarrow>
     (\<forall>d. connected d \<and> file d \<noteq> None \<longrightarrow> (case sq_close eng d of (r, d') \<Rightarrow> r = Inr () \<and> file d' \<noteq> None)) \<and>
     (\<forall>d sfx. sfx \<in> {''-journal'', ''-wal'', ''-shm''} \<longrightarrow> file (vf_delete eng (dbName @ sfx) d) = file d) \<and>
     (\<forall>d b. file d = Some b \<and> current b \<longrightarrow>
        (case sq_open_v2 eng (db_path dbName) d of (r, d') \<Rightarrow> r = Inr () \<and> file d' = Some b \<and> connected d')) \<and>
     (\<forall>d b sql. connected d \<and> file d = Some b \<and> current b \<and> sql \<in> {''PRAGMA journal_mode = DELETE'', ''PRAGMA synchronous = FULL''} \<longrightarrow>
        (\<exists>res d'. sq_run eng sql [] d = (Inr res, d') \<and> file d' = Some b \<and> connected d')) \<and>
     (\<forall>d b. connected d \<and> file d = Some b \<and> current b \<longrightarrow>
        (\<exists>columns d'. sq_run eng ''PRAGMA user_version'' [] d = (Inr (columns, [[Raw_number SCHEMA_VERSION]]), d') \<and> file d' = Some b))"

subsection \<open>A database of lines\<close>

text \<open>
  The content, the content at the start of the open transaction, and the bytes of the file. The
  statement \<open>FAIL\<close> fails; \<open>FULL\<close> fails and ends the transaction, as a full disk does.
\<close>

type_synonym line_db = "string list \<times> string list option \<times> bytes option"

definition line_run :: "string \<Rightarrow> sqlite_value list \<Rightarrow> line_db \<Rightarrow> (db_error + (string list \<times> raw_value list list)) \<times> line_db" where
  "line_run sql params d =
     (case d of (lines, saved, f) \<Rightarrow>
        let back = (case saved of None \<Rightarrow> lines | Some l \<Rightarrow> l) in
        if sql = ''BEGIN'' then (Inr ([], []), (lines, Some lines, f))
        else if sql = ''COMMIT'' then (Inr ([], []), (lines, None, f))
        else if sql = ''ROLLBACK'' then (if saved = None then Inl (plain_error ''no transaction'') else Inr ([], []), (back, None, f))
        else if sql = ''FAIL'' then (Inl (plain_error ''failed''), (lines, saved, f))
        else if sql = ''FULL'' then (Inl (plain_error ''disk full''), (back, None, f))
        else if sql = ''PRAGMA user_version'' then (Inr ([''user_version''], [[Raw_number 1]]), (lines, saved, f))
        else if sql \<in> {''PRAGMA journal_mode = DELETE'', ''PRAGMA synchronous = FULL''} then (Inr ([], []), (lines, saved, f))
        else (Inr ([], []), (lines @ [sql], saved, f)))"

definition line_engine :: "line_db sqlite_engine" where
  "line_engine =
     \<lparr>sq_wasmUrls = [''wasm''], sq_fetch = (\<lambda>_. Inr (200, [])), sq_module = (\<lambda>_ _. Inr ([], None, None)),
      sq_vfsRegister = (\<lambda>d. (Inr (), d)), sq_open_v2 = (\<lambda>_ d. (Inr (), d)), sq_statements = (\<lambda>sql. [sql]), sq_run = line_run,
      sq_close = (\<lambda>d. (Inr (), d)), vf_create = (\<lambda>_ d. (Inr (), d)), vf_isReady = None, vf_getCapacity = None,
      vf_addCapacity = None, vf_removeCapacity = None, vf_shut = None,
      vf_open = (\<lambda>_ create (l, s, f). if f = None \<and> \<not> create then (14, (l, s, f)) else (0, (l, s, Some (case f of None \<Rightarrow> [] | Some b \<Rightarrow> b)))),
      vf_size = (\<lambda>(l, s, f). (0, int (length (the f)))),
      vf_read = (\<lambda>off n (l, s, f). (if off + n \<le> length (the f) then 0 else 522, take n (drop off (the f)))),
      vf_truncate = (\<lambda>(l, s, f). (0, (l, s, Some []))),
      vf_write = (\<lambda>off b (l, s, f). (0, (l, s, Some (take off (the f) @ b @ drop (off + length b) (the f))))),
      vf_sync = (\<lambda>d. (0, d)), vf_close = (\<lambda>d. d), vf_delete = (\<lambda>_ d. d)\<rparr>"

definition line_control :: "string \<Rightarrow> bool" where
  "line_control sql \<longleftrightarrow> sql \<in> {''BEGIN'', ''COMMIT'', ''ROLLBACK''}"

definition line_server :: "line_db db_server" where
  "line_server =
     \<lparr>ow_connections = [\<lparr>cn_port = 1, cn_subscriptions = []\<rparr>, \<lparr>cn_port = 2, cn_subscriptions = [(''s'', [''events''])]\<rparr>],
      ow_canceled = [], ow_ctx = Some ([], None, Some []), ow_storeId = Some ''u'', ow_dbName = Some ''db'', ow_dedicated = False,
      ow_lockHeld = False\<rparr>"

subsection \<open>Names of tables\<close>

lemma join_words_Cons: "ws \<noteq> [] \<Longrightarrow> join_words (w # ws) = w @ '' '' @ join_words ws"
  by (cases ws) auto

lemma upper_join: "toUpperCase (join_words ws) = join_words (map toUpperCase ws)"
proof (induction ws)
  case (Cons w ws)
  have "upper_letter CHR '' '' = CHR '' ''" by code_simp
  then show ?case using Cons by (cases ws) (simp_all add: toUpperCase_def)
qed (simp add: toUpperCase_def)

lemma split_words_nonempty: "w \<in> set (split_words acc s) \<Longrightarrow> w \<noteq> []"
  by (induction acc s rule: split_words.induct) (auto split: if_splits)

lemma space_no_name [simp]: "\<not> name_char CHR '' ''" "\<not> word_char CHR '' ''"
  by code_simp+

lemma takeWhile_space:
  "\<not> P CHR '' '' \<Longrightarrow> takeWhile P (x @ CHR '' '' # s) = takeWhile P x"
  by (induction x) auto

lemma takeWhile_word: "\<not> P CHR '' '' \<Longrightarrow> takeWhile P (join_words (x # ws)) = takeWhile P x"
  by (cases "ws = []") (simp_all add: join_words_Cons takeWhile_space)

lemma first_match_here: "f s = Some n \<Longrightarrow> first_match f s = Some n"
  by (cases s) simp_all

lemma set_fold_add_once: "set (fold add_once xs ys) = set xs \<union> set ys"
  by (induction xs arbitrary: ys) auto

lemma after_append [simp]: "after lit (lit @ s) = Some s"
  by (simp add: after_def)

lemma match_name_word:
  assumes "takeWhile name_char x \<noteq> []"
  shows "match_name lit (lit @ join_words (x # ws)) = Some (takeWhile name_char x)"
  using assms by (simp add: match_name_def takeWhile_word)

lemma match_insert_into:
  assumes "takeWhile name_char x \<noteq> []"
  shows "match_insert (''INSERT'' @ '' INTO '' @ join_words (x # ws)) = Some (takeWhile name_char x)"
proof -
  have "after '' OR '' ('' INTO '' @ join_words (x # ws)) = None" by (simp add: after_def)
  then show ?thesis using match_name_word [OF assms, of "'' INTO ''"] by (simp only: match_insert_def after_append option.case)
qed

lemma match_insert_or:
  assumes "takeWhile name_char x \<noteq> []" and "list_all word_char w" and "w \<noteq> []"
  shows "match_insert (''INSERT'' @ '' OR '' @ w @ '' INTO '' @ join_words (x # ws)) = Some (takeWhile name_char x)"
proof -
  have w: "takeWhile word_char (w @ '' INTO '' @ join_words (x # ws)) = w"
    "dropWhile word_char (w @ '' INTO '' @ join_words (x # ws)) = '' INTO '' @ join_words (x # ws)"
    using assms(2) by (simp_all add: takeWhile_append dropWhile_append list_all_iff)
  show ?thesis
    unfolding match_insert_def after_append option.case w using assms(3) match_name_word [OF assms(1), of "'' INTO ''"] by simp
qed

lemma target_matches:
  assumes "target_word us = Some w" and "takeWhile name_char w \<noteq> []" and "\<forall>u \<in> set us. u \<noteq> []"
  shows "\<exists>f \<in> set table_patterns. first_match f (join_words us) = Some (takeWhile name_char w)"
proof -
  consider (into) rest where "us = ''INSERT'' # ''INTO'' # w # rest"
    | (or_into) v rest where "us = ''INSERT'' # ''OR'' # v # ''INTO'' # w # rest" "list_all word_char v"
    | (update) rest where "us = ''UPDATE'' # w # rest"
    | (delete) rest where "us = ''DELETE'' # ''FROM'' # w # rest"
  proof -
    obtain a b c d e r where "us = [] \<or> us = [a] \<or> us = [a, b] \<or> us = [a, b, c] \<or> us = [a, b, c, d] \<or> us = a # b # c # d # e # r"
      by (cases us; cases "tl us"; cases "tl (tl us)"; cases "tl (tl (tl us))"; cases "tl (tl (tl (tl us)))") auto
    then show thesis
      using assms(1) that unfolding target_word_def by (elim disjE) (auto split: if_splits)
  qed
  then show ?thesis
  proof cases
    case into
    then have "join_words us = ''INSERT'' @ '' INTO '' @ join_words (w # rest)" by simp
    then show ?thesis using match_insert_into [OF assms(2)] first_match_here [of match_insert] by (simp add: table_patterns_def del: join_words.simps)
  next
    case or_into
    then have "join_words us = ''INSERT'' @ '' OR '' @ v @ '' INTO '' @ join_words (w # rest)" by simp
    moreover have "v \<noteq> []" using assms(3) or_into(1) by simp
    ultimately show ?thesis
      using match_insert_or [OF assms(2) or_into(2)] first_match_here [of match_insert] by (simp add: table_patterns_def del: join_words.simps)
  next
    case update
    then have "join_words us = ''UPDATE '' @ join_words (w # rest)" by simp
    then show ?thesis using match_name_word [OF assms(2), of "''UPDATE ''"] first_match_here [of "match_name ''UPDATE ''"]
      by (simp add: table_patterns_def del: join_words.simps)
  next
    case delete
    then have "join_words us = ''DELETE FROM '' @ join_words (w # rest)" by simp
    then show ?thesis using match_name_word [OF assms(2), of "''DELETE FROM ''"] first_match_here [of "match_name ''DELETE FROM ''"]
      by (simp add: table_patterns_def del: join_words.simps)
  qed
qed

lemma written_table_extracted:
  assumes "written_table sql = Some t"
  shows "t \<in> set (map toLowerCase (extractTableNames sql))"
proof -
  let ?ws = "map toUpperCase (split_words [] sql)"
  obtain w where w: "target_word ?ws = Some w" "takeWhile name_char w \<noteq> []" "t = toLowerCase (takeWhile name_char w)"
    using assms by (auto simp: written_table_def split: option.splits if_splits)
  have "\<forall>u \<in> set ?ws. u \<noteq> []" using split_words_nonempty by (auto simp: toUpperCase_def)
  then obtain f where "f \<in> set table_patterns" "first_match f (normalize_sql sql) = Some (takeWhile name_char w)"
    using target_matches [OF w(1,2)] by (auto simp: normalize_sql_def upper_join)
  then have "takeWhile name_char w \<in> set (List.map_filter (\<lambda>f. first_match f (normalize_sql sql)) table_patterns)"
    by (force simp: List.map_filter_def)
  then show ?thesis using w(3) by (simp add: extractTableNames_def set_fold_add_once)
qed

subsection \<open>Transactions\<close>

lemma exec_snd: "snd (exec eng sql d) = snd (sq_run eng sql [] d)"
  by (auto simp: exec_def bind_io_def split: prod.splits sum.splits)

lemma exec_Inl: "exec eng sql d = (Inl e, d') \<longleftrightarrow> sq_run eng sql [] d = (Inl e, d')"
  by (auto simp: exec_def bind_io_def split: prod.splits sum.splits)

lemma exec_Inr: "exec eng sql d = (Inr u, d') \<longleftrightarrow> (\<exists>r. sq_run eng sql [] d = (Inr r, d'))"
  by (auto simp: exec_def bind_io_def split: prod.splits sum.splits)

text \<open>\<open>keeps_db P Q m\<close>: from a database with \<open>P\<close> the computation keeps \<open>P\<close>, or it throws and leaves \<open>Q\<close>.\<close>

definition keeps_db :: "('d \<Rightarrow> bool) \<Rightarrow> ('d \<Rightarrow> bool) \<Rightarrow> ('d \<Rightarrow> ('e + 'a) \<times> 'd) \<Rightarrow> bool" where
  "keeps_db P Q m \<longleftrightarrow> (\<forall>d. P d \<longrightarrow> (case m d of (Inl _, d') \<Rightarrow> Q d' | (Inr _, d') \<Rightarrow> P d'))"

lemma keeps_return [simp]: "keeps_db P Q (return_io x)"
  by (simp add: keeps_db_def)

lemma keeps_lift: "(\<And>d. P d \<Longrightarrow> Q d) \<Longrightarrow> keeps_db P Q (lift_io r)"
  by (simp add: keeps_db_def split: sum.split)

lemma keeps_bind_db:
  assumes "keeps_db P Q m" and "\<And>x. keeps_db P Q (f x)"
  shows "keeps_db P Q (bind_io m f)"
  unfolding keeps_db_def
proof (intro allI impI)
  fix d assume d: "P d"
  obtain r d1 where m: "m d = (r, d1)" by fastforce
  show "case bind_io m f d of (Inl _, d') \<Rightarrow> Q d' | (Inr _, d') \<Rightarrow> P d'"
  proof (cases r)
    case (Inl e)
    then show ?thesis using assms(1) d m by (auto simp: keeps_db_def bind_io_def)
  next
    case (Inr x)
    then have "P d1" using assms(1) d m by (auto simp: keeps_db_def)
    then show ?thesis using assms(2) [of x] m Inr by (simp add: keeps_db_def bind_io_def)
  qed
qed

lemma keeps_map_io: "(\<And>x. x \<in> set xs \<Longrightarrow> keeps_db P Q (f x)) \<Longrightarrow> keeps_db P Q (map_io f xs)"
  by (induction xs) (auto intro!: keeps_bind_db)

lemma map_io_length: "map_io f xs d = (Inr ys, d') \<Longrightarrow> length ys = length xs"
  by (induction xs arbitrary: ys d) (auto simp: bind_io_Inr)

lemma keeps_foreach_io: "(\<And>x. x \<in> set xs \<Longrightarrow> keeps_db P Q (f x)) \<Longrightarrow> keeps_db P Q (foreach_io f xs)"
  by (induction xs) (auto intro!: keeps_bind_db)

lemma keeps_exec: "keeps_db P Q (sq_run eng sql []) \<Longrightarrow> keeps_db P Q (exec eng sql)"
  unfolding exec_def by (rule keeps_bind_db) simp_all

lemma keeps_run_statement:
  assumes "\<And>s params. s \<in> set (sq_statements eng (statement_sql st)) \<Longrightarrow> keeps_db P Q (sq_run eng s params)"
    and "\<And>d. P d \<Longrightarrow> Q d"
  shows "keeps_db P Q (run_statement eng st)"
proof (cases st)
  case (Statement_execute sql params)
  then have "keeps_db P Q (runExecute eng sql params)"
    using assms(1) unfolding runExecute_def by (intro keeps_foreach_io keeps_bind_db) (simp_all add: statement_sql_def)
  then show ?thesis unfolding run_statement_def Statement_execute db_statement.case by (rule keeps_bind_db) simp
next
  case (Statement_query sql params)
  have "keeps_db P Q (query_one eng params s)" if "s \<in> set (sq_statements eng sql)" for s
    unfolding query_one_def
    using that assms(1) Statement_query keeps_lift [OF assms(2)]
    by (intro keeps_bind_db) (auto simp: statement_sql_def split: prod.split)
  then have "keeps_db P Q (runQuery eng sql params)"
    unfolding runQuery_def by (intro keeps_map_io keeps_bind_db) simp_all
  then show ?thesis unfolding run_statement_def Statement_query db_statement.case by (rule keeps_bind_db) simp
qed

lemma in_transaction_fails:
  assumes ok: "transactions_ok eng control content within"
    and body: "\<And>c. keeps_db (\<lambda>d. within d c) (undone eng content c) body"
    and run: "in_transaction eng body d = (Inl e, d')"
  shows "content d' = content d"
proof (cases "exec eng ''BEGIN'' d")
  case (Pair r d1)
  show ?thesis
  proof (cases r)
    case (Inl x)
    then show ?thesis using run ok Pair
      by (auto simp: in_transaction_def transactions_ok_def exec_Inl dest!: spec [of _ d])
  next
    case (Inr u)
    then have w: "within d1 (content d)"
      using ok Pair by (auto simp: transactions_ok_def exec_Inr dest!: spec [of _ d])
    let ?m = "bind_io body (\<lambda>x. bind_io (exec eng ''COMMIT'') (\<lambda>_. return_io x))"
    obtain d2 where d2: "?m d1 = (Inl e, d2)" "d' = snd (sq_run eng ''ROLLBACK'' [] d2)"
      using run Pair Inr by (auto simp: in_transaction_def exec_snd split: prod.splits sum.splits)
    have "undone eng content (content d) d2"
    proof (cases "body d1")
      case b: (Pair r2 d3)
      have b3: "case r2 of Inl _ \<Rightarrow> undone eng content (content d) d3 | Inr _ \<Rightarrow> within d3 (content d)"
        using body [of "content d"] w b unfolding keeps_db_def by (auto dest!: spec [of _ d1] split: sum.split)
      show ?thesis
      proof (cases r2)
        case (Inl x)
        then show ?thesis using d2(1) b b3 by (simp add: bind_io_def)
      next
        case (Inr x)
        then have "exec eng ''COMMIT'' d3 = (Inl e, d2)"
          using d2(1) b by (auto simp: bind_io_def split: prod.splits sum.splits)
        then show ?thesis using ok b3 Inr unfolding transactions_ok_def exec_Inl by auto
      qed
    qed
    then show ?thesis using d2(2) by (simp add: undone_def)
  qed
qed

lemma in_transaction_succeeds:
  assumes "in_transaction eng body d = (Inr x, d')"
  obtains d1 d2 where "exec eng ''BEGIN'' d = (Inr (), d1)" "body d1 = (Inr x, d2)" "exec eng ''COMMIT'' d2 = (Inr (), d')"
  using assms that by (auto simp: in_transaction_def bind_io_Inr split: prod.splits sum.splits)

lemma plain_within:
  assumes "transactions_ok eng control content within" and "\<not> control sql"
  shows "keeps_db (\<lambda>d. within d c) (undone eng content c) (sq_run eng sql params)"
  using assms by (simp add: keeps_db_def transactions_ok_def)

lemma within_undone: "transactions_ok eng control content within \<Longrightarrow> within d c \<Longrightarrow> undone eng content c d"
  unfolding transactions_ok_def by blast

lemma batch_keeps:
  assumes "transactions_ok eng control content within" and "\<forall>st \<in> set sts. plain_statement eng control st"
  shows "keeps_db (\<lambda>d. within d c) (undone eng content c) (map_io (run_statement eng) sts)"
  using assms by (auto simp: plain_statement_def intro!: keeps_map_io keeps_run_statement plain_within within_undone)

text \<open>
  C30: A batch is all or nothing, given SQLite's transactions and statements that are not transaction
  control: when it is answered with results, every statement has run in order between BEGIN and
  COMMIT and there is a result for each; when it is answered with an error, the content of the
  database is what it was and nobody is told of a change.
\<close>

theorem batch_is_atomic:
  assumes "transactions_ok eng control content within" and "\<forall>st \<in> set sts. plain_statement eng control st"
    and "ow_ctx s = Some d" and "i \<notin> set (ow_canceled s)"
    and "db_handleRequest eng port i (Db_batch sts) s = (out, s')"
  shows "\<exists>d'. ow_ctx s' = Some d' \<and>
    ((\<exists>e. out = [(port, Out_response i (Inl e))] \<and> content d' = content d) \<or>
     (\<exists>results notes d1 d2. out = notes @ [(port, Out_response i (Inr (Data_results results)))] \<and>
        length results = length sts \<and> exec eng ''BEGIN'' d = (Inr (), d1) \<and>
        map_io (run_statement eng) sts d1 = (Inr results, d2) \<and> exec eng ''COMMIT'' d2 = (Inr (), d')))"
proof -
  obtain r d' where r: "executeStatements eng sts d = (r, d')" by fastforce
  have s': "ow_ctx s' = Some d'" using assms(3-5) r by (auto simp: db_handleRequest_def serve_def)
  show ?thesis
  proof (cases r)
    case (Inl e)
    then have "content d' = content d"
      using in_transaction_fails [OF assms(1) batch_keeps [OF assms(1,2)]] r by (simp add: executeStatements_def)
    moreover have "out = [(port, Out_response i (Inl (toPlatformError e)))]"
      using assms(3-5) r Inl by (auto simp: db_handleRequest_def serve_def respond_def)
    ultimately show ?thesis using s' by blast
  next
    case (Inr results)
    then obtain d1 d2 where run: "exec eng ''BEGIN'' d = (Inr (), d1)" "map_io (run_statement eng) sts d1 = (Inr results, d2)"
        "exec eng ''COMMIT'' d2 = (Inr (), d')"
      using r by (auto simp: executeStatements_def elim: in_transaction_succeeds)
    moreover have "\<exists>notes. out = notes @ [(port, Out_response i (Inr (Data_results results)))]"
      using assms(3-5) r Inr by (auto simp: db_handleRequest_def serve_def respond_def)
    ultimately show ?thesis using s' map_io_length [OF run(2)] by blast
  qed
qed

lemma line_transactions: "transactions_ok line_engine line_control fst (\<lambda>d c. fst (snd d) = Some c)"
  by (auto simp: transactions_ok_def undone_def line_engine_def line_run_def line_control_def Let_def split: prod.splits if_splits)

lemma line_fails: "bad \<in> {''FAIL'', ''FULL''} \<Longrightarrow> \<exists>e d'. line_run bad params d = (Inl e, d')"
  by (elim insertE; cases d) (simp_all add: line_run_def)

theorem batch_is_atomic_witness:
  "(\<exists>d'. ow_ctx (snd (db_handleRequest line_engine 1 ''i'' (Db_batch [Statement_execute ''a'' [], Statement_execute ''FAIL'' []]) line_server))
       = Some d' \<and> fst d' = []) \<and>
   (\<exists>d'. ow_ctx (snd (db_handleRequest line_engine 1 ''i'' (Db_batch [Statement_execute ''a'' [], Statement_execute ''FULL'' []]) line_server))
       = Some d' \<and> fst d' = [])"
proof -
  have "\<exists>d'. ow_ctx (snd (db_handleRequest line_engine 1 ''i'' (Db_batch [Statement_execute ''a'' [], Statement_execute bad []]) line_server))
       = Some d' \<and> fst d' = []" if bad: "bad \<in> {''FAIL'', ''FULL''}" for bad
  proof -
    let ?sts = "[Statement_execute ''a'' [], Statement_execute bad []]"
    have plain: "\<forall>st \<in> set ?sts. plain_statement line_engine line_control st"
      using bad by (auto simp: plain_statement_def statement_sql_def line_engine_def line_control_def)
    have ctx: "ow_ctx line_server = Some ([], None, Some [])" "''i'' \<notin> set (ow_canceled line_server)" by (simp_all add: line_server_def)
    obtain out s' where run: "db_handleRequest line_engine 1 ''i'' (Db_batch ?sts) line_server = (out, s')" by fastforce
    have none: "\<nexists>results d2. map_io (run_statement line_engine) ?sts d1 = (Inr results, d2)" for d1
    proof -
      have a: "line_run ''a'' [] d1 = (Inr ([], []), (fst d1 @ [''a''], snd d1))" by (cases d1) (simp add: line_run_def)
      obtain e d3 where b: "line_run bad [] (fst d1 @ [''a''], snd d1) = (Inl e, d3)" using line_fails [OF bad] by blast
      show ?thesis by (simp add: run_statement_def runExecute_def bind_io_def line_engine_def a b)
    qed
    show ?thesis using batch_is_atomic [OF line_transactions plain ctx run] none run by auto
  qed
  then show ?thesis by blast
qed

subsection \<open>Subscriptions\<close>

lemma toLowerCase_idem: "toLowerCase (toLowerCase s) = toLowerCase s"
proof -
  have "lower_letter (lower_letter c) = lower_letter c" for c
    by (simp add: lower_letter_def less_eq_char_def)
  then show ?thesis by (simp add: toLowerCase_def)
qed

lemma written_table_lower: "written_table sql = Some t \<Longrightarrow> toLowerCase t = t"
  by (auto simp: written_table_def toLowerCase_idem split: option.splits if_splits)

lemma notified:
  assumes "c \<in> set (ow_connections s)" and "(i, ts) \<in> set (cn_subscriptions c)" and "t \<in> set ts" and "t \<in> set tables"
  shows "(cn_port c, Out_notify tables) \<in> set (notifyTables tables s)"
  using assms by (auto simp: notifyTables_def intro!: image_eqI [of _ _ c])

lemma listener_called:
  assumes "(i, ts) \<in> set (dc_subscriptions c)" and "t \<in> set ts" and "t \<in> set tables" and "toLowerCase t = t"
  shows "\<exists>called. dc_called (db_onMessage (Out_notify tables) c) = dc_called c @ called \<and> i \<in> set called"
  using assms by (force simp: db_onMessage_def handleNotify_def)

lemma update_in_set: "(k, v) \<in> set (AList.update k v xs)"
  by (induction xs) auto

text \<open>\<open>subscribed p sid ts s\<close>: the worker has the subscription of the tab on port \<open>p\<close>.\<close>

definition subscribed :: "nat \<Rightarrow> string \<Rightarrow> string list \<Rightarrow> 'd db_server \<Rightarrow> bool" where
  "subscribed p sid ts s \<longleftrightarrow> (\<exists>cn \<in> set (ow_connections s). cn_port cn = p \<and> (sid, ts) \<in> set (cn_subscriptions cn))"

lemma update_keeps: "k \<noteq> sid \<Longrightarrow> (sid, ts) \<in> set xs \<Longrightarrow> (sid, ts) \<in> set (AList.update k v xs)"
  by (induction xs) auto

lemma subscribed_connections: "ow_connections s' = ow_connections s \<Longrightarrow> subscribed p sid ts s' = subscribed p sid ts s"
  by (simp add: subscribed_def)

lemma subscribed_on_connection:
  assumes "subscribed p sid ts s"
    and "\<And>cn. (sid, ts) \<in> set (cn_subscriptions cn) \<Longrightarrow> port = p \<Longrightarrow> (sid, ts) \<in> set (cn_subscriptions (f cn))"
    and "\<And>cn. cn_port (f cn) = cn_port cn"
  shows "subscribed p sid ts (on_connection port f s)"
proof -
  obtain cn where cn: "cn \<in> set (ow_connections s)" "cn_port cn = p" "(sid, ts) \<in> set (cn_subscriptions cn)"
    using assms(1) by (auto simp: subscribed_def)
  let ?cn = "if cn_port cn = port then f cn else cn"
  have "?cn \<in> set (ow_connections (on_connection port f s))" using cn(1) by (auto simp: on_connection_def)
  moreover have "cn_port ?cn = p" "(sid, ts) \<in> set (cn_subscriptions ?cn)" using cn(2,3) assms(2,3) by auto
  ultimately show ?thesis unfolding subscribed_def by blast
qed

lemma serve_connections:
  assumes "\<nexists>x tables. req = Db_subscribeTables x tables" and "\<nexists>x. req = Db_unsubscribeTables x"
  shows "ow_connections (snd (serve eng port i req d s)) = ow_connections s"
  using assms by (auto simp: serve_def split: db_request.splits prod.splits)

lemma serve_subscribed:
  assumes "subscribed p sid ts s" and "\<not> ends_at_worker p sid (Got_request port i req)"
  shows "subscribed p sid ts (snd (serve eng port i req d s))"
proof -
  consider (sub) x tables where "req = Db_subscribeTables x tables" | (unsub) x where "req = Db_unsubscribeTables x"
    | (other) "\<nexists>x tables. req = Db_subscribeTables x tables" "\<nexists>x. req = Db_unsubscribeTables x" by blast
  then show ?thesis
  proof cases
    case sub
    then show ?thesis using assms(2) unfolding serve_def ends_at_worker_def
      by (auto intro!: subscribed_on_connection [OF assms(1)] update_keeps)
  next
    case unsub
    then show ?thesis using assms(2) unfolding serve_def ends_at_worker_def
      by (auto intro!: subscribed_on_connection [OF assms(1)])
  next
    case other
    then show ?thesis using assms(1) by (simp add: subscribed_connections [OF serve_connections])
  qed
qed

lemma request_subscribed:
  assumes "subscribed p sid ts s" and "\<not> ends_at_worker p sid (Got_request port i req)"
  shows "subscribed p sid ts (snd (db_handleRequest eng port i req s))"
proof -
  have "ow_connections (snd (db_handleRequest eng port i req s)) = ow_connections s \<or>
    (\<exists>d. snd (db_handleRequest eng port i req s) = snd (serve eng port i req d s))"
    by (auto simp: db_handleRequest_def split: option.splits db_request.splits prod.splits)
  then show ?thesis using assms serve_subscribed subscribed_connections by metis
qed

lemma worker_event_subscribed:
  assumes "subscribed p sid ts s" and "\<not> ends_at_worker p sid ev"
  shows "subscribed p sid ts (worker_event_step eng opfs locks ev s)"
proof (cases ev)
  case (Got_hello port storeId dbName requireOpfs)
  then have "ow_connections (worker_event_step eng opfs locks ev s) = ow_connections s"
    by (auto simp: db_handleHello_def split: option.splits sum.splits if_splits)
  then show ?thesis using assms(1) subscribed_connections by blast
next
  case (Got_request port i req)
  then show ?thesis using assms by (simp add: request_subscribed)
qed (use assms(1) in \<open>auto simp: attachPort_def cancel_request_def subscribed_def\<close>)

lemma worker_events_subscribed:
  "subscribed p sid ts s \<Longrightarrow> \<forall>ev \<in> set evs. \<not> ends_at_worker p sid ev \<Longrightarrow>
    subscribed p sid ts (fold (worker_event_step eng opfs locks) evs s)"
  by (induction evs arbitrary: s) (auto intro: worker_event_subscribed)

lemma tab_events_subscribed:
  "(sid, ts) \<in> set (dc_subscriptions c) \<Longrightarrow> \<forall>ev \<in> set evs. \<not> ends_at_tab sid ev \<Longrightarrow>
    (sid, ts) \<in> set (dc_subscriptions (fold tab_event_step evs c))"
proof (induction evs arbitrary: c)
  case (Cons ev evs)
  have "(sid, ts) \<in> set (dc_subscriptions (tab_event_step ev c))"
  proof (cases ev)
    case (Got_message m)
    then show ?thesis using Cons.prems(1)
      by (cases m) (auto simp: db_onMessage_def handleNotify_def db_handleResponse_def)
  next
    case (Made_subscription x rid tables)
    then show ?thesis using Cons.prems by (auto simp: subscribeToTables_def db_request_message_def ends_at_tab_def intro!: update_keeps)
  next
    case (Ended_subscription x rid)
    then show ?thesis using Cons.prems by (auto simp: unsubscribeFromTables_def db_request_message_def ends_at_tab_def)
  qed
  then show ?case using Cons by simp
qed simp

lemma subscribe_subscribed:
  assumes "p \<in> cn_port ` set (ow_connections s)" and "ow_ctx s = Some d" and "rid \<notin> set (ow_canceled s)"
  shows "subscribed p sid (map toLowerCase tables) (snd (db_handleRequest eng p rid (Db_subscribeTables sid (map toLowerCase tables)) s))"
proof -
  obtain cn where cn: "cn \<in> set (ow_connections s)" "cn_port cn = p" using assms(1) by blast
  let ?f = "cn_subscriptions_update (AList.update sid (map toLowerCase tables))"
  have low: "map toLowerCase (map toLowerCase tables) = map toLowerCase tables" by (simp add: toLowerCase_idem)
  have "snd (db_handleRequest eng p rid (Db_subscribeTables sid (map toLowerCase tables)) s) = on_connection p ?f s"
    using assms(2,3) by (simp add: db_handleRequest_def serve_def low del: map_map)
  moreover have "?f cn \<in> set (ow_connections (on_connection p ?f s))" using cn by (force simp: on_connection_def)
  moreover have "cn_port (?f cn) = p" "(sid, map toLowerCase tables) \<in> set (cn_subscriptions (?f cn))"
    using cn(2) update_in_set by simp_all
  ultimately show ?thesis unfolding subscribed_def by metis
qed

text \<open>
  C31: After a tab has subscribed to tables and the worker has got its message, whatever the worker
  and the tab do in between (other than ending or replacing this subscription), every successful
  batch of any tab with a statement that changes one of these tables (INSERT INTO, INSERT OR ...
  INTO, UPDATE or DELETE FROM, in any case and spacing) tells the subscribed tab before the batch is
  answered, and the tab's listener is called when the message arrives.
\<close>

theorem changes_reach_listeners:
  assumes "subscribeToTables sid rid tables c = ((rid, req), c0)"
    and "p \<in> cn_port ` set (ow_connections s)" and "ow_ctx s = Some d0" and "rid \<notin> set (ow_canceled s)"
    and "\<forall>ev \<in> set evs. \<not> ends_at_worker p sid ev" and "\<forall>ev \<in> set tab_evs. \<not> ends_at_tab sid ev"
    and "s' = fold (worker_event_step eng opfs locks) evs (snd (db_handleRequest eng p rid req s))"
    and "c' = fold tab_event_step tab_evs c0"
    and "ow_ctx s' = Some d" and "i \<notin> set (ow_canceled s')" and "executeStatements eng sts d = (Inr results, d')"
    and "st \<in> set sts" and "written_table (statement_sql st) = Some t" and "t \<in> set (map toLowerCase tables)"
  shows "\<exists>notes changed called. fst (db_handleRequest eng port i (Db_batch sts) s') = notes @ [(port, Out_response i (Inr (Data_results results)))] \<and>
    (p, Out_notify changed) \<in> set notes \<and> dc_called (db_onMessage (Out_notify changed) c') = dc_called c' @ called \<and> sid \<in> set called"
proof -
  let ?tables = "map toLowerCase (concat (map (extractTableNames \<circ> statement_sql) sts))"
  let ?ts = "map toLowerCase tables"
  have req: "req = Db_subscribeTables sid ?ts" and sub: "(sid, ?ts) \<in> set (dc_subscriptions c0)"
    using assms(1) update_in_set by (auto simp: subscribeToTables_def db_request_message_def)
  have "subscribed p sid ?ts s'"
    unfolding assms(7) req by (rule worker_events_subscribed [OF subscribe_subscribed [OF assms(2-4)] assms(5)])
  then obtain cn where cn: "cn \<in> set (ow_connections s')" "cn_port cn = p" "(sid, ?ts) \<in> set (cn_subscriptions cn)"
    by (auto simp: subscribed_def)
  have tab: "(sid, ?ts) \<in> set (dc_subscriptions c')" unfolding assms(8) by (rule tab_events_subscribed [OF sub assms(6)])
  have out: "fst (db_handleRequest eng port i (Db_batch sts) s') = notifyTables ?tables s' @ [(port, Out_response i (Inr (Data_results results)))]"
    using assms(9-11) by (simp add: db_handleRequest_def serve_def respond_def)
  have t: "t \<in> set ?tables" using written_table_extracted [OF assms(13)] assms(12) by auto
  have "(p, Out_notify ?tables) \<in> set (notifyTables ?tables s')" using notified [OF cn(1,3) assms(14) t] cn(2) by simp
  then show ?thesis
    using out listener_called [OF tab assms(14) t written_table_lower [OF assms(13)]] by blast
qed

theorem changes_reach_listeners_witness:
  "\<exists>notes changed called. fst (db_handleRequest line_engine 1 ''i'' (Db_batch [Statement_execute ''insert or ignore into Goals values (1)'' []])
       (fold (worker_event_step line_engine True True)
         [Got_request 1 ''j'' (Db_batch [Statement_execute ''update goals set a = 1'' []]), Tab_attached 3,
          Got_request 2 ''k'' (Db_subscribeTables ''z'' [''projects'']), Got_request 3 ''l'' (Db_unsubscribeTables ''q'')]
         (snd (db_handleRequest line_engine 2 ''r'' (Db_subscribeTables ''q'' [''goals'']) line_server))))
     = notes @ [(1, Out_response ''i'' (Inr (Data_results [Result_execute])))] \<and> (2, Out_notify changed) \<in> set notes \<and>
     dc_called (db_onMessage (Out_notify changed)
       \<lparr>dc_pending = [''r''], dc_settled = [], dc_subscriptions = [(''q'', [''goals''])], dc_called = [''q'']\<rparr>) = [''q''] @ called \<and>
     ''q'' \<in> set called"
proof -
  let ?sql = "''insert or ignore into Goals values (1)''"
  let ?c = "\<lparr>dc_pending = [], dc_settled = [], dc_subscriptions = [], dc_called = []\<rparr>"
  let ?c0 = "\<lparr>dc_pending = [''r''], dc_settled = [], dc_subscriptions = [(''q'', [''goals''])], dc_called = []\<rparr>"
  let ?evs = "[Got_request 1 ''j'' (Db_batch [Statement_execute ''update goals set a = 1'' []]), Tab_attached 3,
    Got_request 2 ''k'' (Db_subscribeTables ''z'' [''projects'']), Got_request 3 ''l'' (Db_unsubscribeTables ''q'')]"
  let ?s = "fold (worker_event_step line_engine True True) ?evs
    (snd (db_handleRequest line_engine 2 ''r'' (Db_subscribeTables ''q'' [''goals'']) line_server))"
  have low: "toLowerCase ''Goals'' = ''goals''" "toLowerCase ''goals'' = ''goals''" by code_simp+
  have sub: "subscribeToTables ''q'' ''r'' [''Goals''] ?c = ((''r'', Db_subscribeTables ''q'' [''goals'']), ?c0)"
    by (simp add: subscribeToTables_def db_request_message_def low add_once_def)
  have table: "written_table (statement_sql (Statement_execute ?sql [])) = Some ''goals''" by code_simp
  have ctx: "ow_ctx ?s = Some ([''update goals set a = 1''], None, Some [])" "''i'' \<notin> set (ow_canceled ?s)"
    by (simp_all add: db_handleRequest_def serve_def line_server_def on_connection_def attachPort_def executeStatements_def in_transaction_def
        exec_def run_statement_def runExecute_def bind_io_def line_engine_def line_run_def)
  have run: "executeStatements line_engine [Statement_execute ?sql []] ([''update goals set a = 1''], None, Some []) =
      (Inr [Result_execute], ([''update goals set a = 1'', ?sql], None, Some []))"
    by (simp add: executeStatements_def in_transaction_def exec_def run_statement_def runExecute_def bind_io_def line_engine_def line_run_def)
  have tab: "\<lparr>dc_pending = [''r''], dc_settled = [], dc_subscriptions = [(''q'', [''goals''])], dc_called = [''q'']\<rparr> =
      fold tab_event_step [Got_message (Out_notify [''goals''])] ?c0"
    by (simp add: db_onMessage_def handleNotify_def low)
  have "''q'' \<noteq> ''z''" by simp
  then show ?thesis
    using changes_reach_listeners [OF sub _ _ _ _ _ refl tab ctx run _ table, where port = 1]
    by (simp add: line_server_def low ends_at_worker_def ends_at_tab_def del: fold.simps)
qed

subsection \<open>The file of the database\<close>

lemma file_ok_open:
  assumes "file_ok eng path file opened room" and "file d = Some b"
  obtains d' where "vf_open eng path create d = (0, d')" "file d' = Some b" "opened d'"
proof -
  have "case vf_open eng path create d of (rc, d') \<Rightarrow> rc = 0 \<and> file d' = Some b \<and> opened d'"
    using assms by (simp add: file_ok_def)
  then show thesis using that assms(2) by (auto split: prod.splits)
qed

lemma file_ok_read:
  "file_ok eng path file opened room \<Longrightarrow> opened d \<Longrightarrow> file d = Some b \<Longrightarrow> off + n \<le> length b \<Longrightarrow>
    vf_read eng off n d = (0, take n (drop off b))"
  by (simp add: file_ok_def)

lemma file_ok_truncate:
  assumes "file_ok eng path file opened room" and "file d = Some b" and "opened d"
  obtains d' where "vf_truncate eng d = (0, d')" "file d' = Some []" "opened d'"
proof -
  have "case vf_truncate eng d of (rc, d') \<Rightarrow> rc = 0 \<and> file d' = Some [] \<and> opened d'"
    using assms by (simp add: file_ok_def)
  then show thesis using that by (auto split: prod.splits)
qed

lemma file_ok_write:
  assumes "file_ok eng path file opened room" and "file d = Some b" and "opened d" and "length b + length x \<le> room"
  obtains d' where "vf_write eng (length b) x d = (0, d')" "file d' = Some (b @ x)" "opened d'"
proof -
  have "case vf_write eng (length b) x d of (rc, d') \<Rightarrow> rc = 0 \<and> file d' = Some (b @ x) \<and> opened d'"
    using assms by (simp add: file_ok_def)
  then show thesis using that by (auto split: prod.splits)
qed

lemma file_ok_sync:
  assumes "file_ok eng path file opened room" and "file d = Some b" and "opened d"
  obtains d' where "vf_sync eng d = (0, d')" "file d' = Some b"
proof -
  have "case vf_sync eng d of (rc, d') \<Rightarrow> rc = 0 \<and> file d' = Some b"
    using assms by (simp add: file_ok_def)
  then show thesis using that assms(2) by (auto split: prod.splits)
qed

lemma file_ok_close: "file_ok eng path file opened room \<Longrightarrow> file (vf_close eng d) = file d"
  by (simp add: file_ok_def)

lemma read_chunks_all:
  assumes "file_ok eng path file opened room" and "opened d" and "file d = Some b"
  shows "read_chunks eng (length b) off d = Inr (drop off b)"
proof (induction "length b - off" arbitrary: off rule: less_induct)
  case less
  show ?case
  proof (cases "length b \<le> off")
    case False
    let ?n = "min chunkSize (length b - off)"
    have rest: "read_chunks eng (length b) (off + chunkSize) d = Inr (drop (off + chunkSize) b)"
      using less False by (simp add: chunkSize_def)
    have "vf_read eng off ?n d = (0, take ?n (drop off b))" using file_ok_read [OF assms, of off ?n] False by simp
    moreover have "take ?n (drop off b) @ drop (off + chunkSize) b = drop off b"
      by (cases "chunkSize \<le> length b - off") (simp_all add: min_def add.commute append_take_drop_id [of chunkSize "drop off b", simplified])
    ultimately show ?thesis using False rest by (subst read_chunks.simps) (simp add: Let_def bind_result_def del: read_chunks.simps)
  qed simp
qed

lemma write_chunks_all:
  assumes "file_ok eng path file opened room" and "file d = Some (take off b)" and "opened d" and "length b \<le> room"
  shows "\<exists>d'. write_chunks eng b off d = (Inr (), d') \<and> file d' = Some b \<and> opened d'"
  using assms(2,3)
proof (induction "length b - off" arbitrary: off d rule: less_induct)
  case less
  show ?case
  proof (cases "length b \<le> off")
    case True
    then show ?thesis using less.prems by simp
  next
    case False
    let ?piece = "take chunkSize (drop off b)"
    have off: "length (take off b) = off" using False by simp
    have "length (take off b) + length ?piece \<le> room" using assms(4) False by simp
    then obtain d1 where w: "vf_write eng off ?piece d = (0, d1)" "file d1 = Some (take off b @ ?piece)" "opened d1"
      using file_ok_write [OF assms(1) less.prems] off by metis
    moreover have "take off b @ ?piece = take (off + chunkSize) b" by (simp add: take_add)
    ultimately show ?thesis using less.hyps [of "off + chunkSize" d1] False by (simp add: chunkSize_def)
  qed
qed

lemma import_file:
  assumes ok: "file_ok eng (db_path path) file opened room" and "file d = Some old" and "length b \<le> room"
  shows "\<exists>d'. importVfsFileBytes eng path b d = (Inr (), d') \<and> file d' = Some b"
proof -
  obtain d1 where d1: "vf_open eng (db_path path) True d = (0, d1)" "file d1 = Some old" "opened d1"
    using file_ok_open [OF ok assms(2)] .
  obtain d2 where d2: "vf_truncate eng d1 = (0, d2)" "file d2 = Some []" "opened d2" using file_ok_truncate [OF ok d1(2,3)] .
  obtain d3 where d3: "write_chunks eng b 0 d2 = (Inr (), d3)" "file d3 = Some b" "opened d3"
    using write_chunks_all [OF ok, of d2 0 b] d2(2,3) assms(3) by auto
  obtain d4 where d4: "vf_sync eng d3 = (0, d4)" "file d4 = Some b" using file_ok_sync [OF ok d3(2,3)] .
  have "importVfsFileBytes eng path b d = (Inr (), vf_close eng d4)"
    unfolding importVfsFileBytes_def
    using d1(1) d2(1) d3(1) d4(1) by (simp add: bind_io_def vfs_do_def then_close_def del: write_chunks.simps)
  then show ?thesis using file_ok_close [OF ok] d4(2) by simp
qed

lemma export_file:
  assumes ok: "file_ok eng (db_path path) file opened room" and "file d = Some b" and "int (length b) \<le> MAX_SAFE_INTEGER"
  shows "\<exists>d'. exportVfsFileBytes eng path d = (Inr b, d') \<and> file d' = Some b"
proof -
  obtain d1 where d1: "vf_open eng (db_path path) False d = (0, d1)" "file d1 = Some b" "opened d1"
    using file_ok_open [OF ok assms(2)] .
  have "vf_size eng d1 = (0, int (length b))" using ok d1(2,3) by (simp add: file_ok_def)
  then show ?thesis
    using assms(3) d1 read_chunks_all [OF ok d1(3,2), of 0] file_ok_close [OF ok]
    by (simp add: exportVfsFileBytes_def bind_io_def vfs_do_def then_close_def del: read_chunks.simps)
qed

lemma reopen_keeps:
  assumes ok: "connection_ok eng dbName file connected current" and "file d = Some b" and "current b"
  shows "\<exists>d'. bind_io (sq_open_v2 eng (db_path dbName)) (\<lambda>_. bind_io (applyPragmas eng) (\<lambda>_. applySchema eng)) d = (Inr (), d') \<and> file d' = Some b"
proof -
  have pragma: "\<exists>res d'. sq_run eng sql [] x = (Inr res, d') \<and> file d' = Some b \<and> connected d'"
    if "connected x" "file x = Some b" "sql \<in> {''PRAGMA journal_mode = DELETE'', ''PRAGMA synchronous = FULL''}" for x sql
    using ok that assms(3) unfolding connection_ok_def by blast
  obtain d1 where d1: "sq_open_v2 eng (db_path dbName) d = (Inr (), d1)" "file d1 = Some b" "connected d1"
  proof -
    have "case sq_open_v2 eng (db_path dbName) d of (r, d') \<Rightarrow> r = Inr () \<and> file d' = Some b \<and> connected d'"
      using ok assms(2,3) by (simp add: connection_ok_def)
    then show thesis using that by (auto split: prod.splits)
  qed
  obtain r2 d2 where d2: "sq_run eng ''PRAGMA journal_mode = DELETE'' [] d1 = (Inr r2, d2)" "file d2 = Some b" "connected d2"
    using pragma [OF d1(3,2)] by blast
  obtain r3 d3 where d3: "sq_run eng ''PRAGMA synchronous = FULL'' [] d2 = (Inr r3, d3)" "file d3 = Some b" "connected d3"
    using pragma [OF d2(3,2)] by blast
  obtain columns d4 where d4: "sq_run eng ''PRAGMA user_version'' [] d3 = (Inr (columns, [[Raw_number SCHEMA_VERSION]]), d4)" "file d4 = Some b"
  proof -
    have "\<exists>columns d'. sq_run eng ''PRAGMA user_version'' [] d3 = (Inr (columns, [[Raw_number SCHEMA_VERSION]]), d') \<and> file d' = Some b"
      using ok d3(2,3) assms(3) by (simp add: connection_ok_def)
    then show thesis using that by blast
  qed
  have "bind_io (sq_open_v2 eng (db_path dbName)) (\<lambda>_. bind_io (applyPragmas eng) (\<lambda>_. applySchema eng)) d = (Inr (), d4)"
    using d1(1) d2(1) d3(1) d4(1)
    by (simp add: bind_io_def applyPragmas_def exec_def applySchema_def readUserVersion_def row_version_def)
  then show ?thesis using d4(2) by blast
qed

lemma replace_file:
  assumes "file_ok eng (db_path dbName) file opened room" and ok: "connection_ok eng dbName file connected current"
    and "connected d" and "file d = Some old" and "current b" and "length b \<le> room"
  shows "\<exists>d'. replaceMainDatabaseBytes eng dbName b d = (Inr (), d') \<and> file d' = Some b"
proof -
  obtain d1 old' where d1: "sq_close eng d = (Inr (), d1)" "file d1 = Some old'"
  proof -
    have "case sq_close eng d of (r, d') \<Rightarrow> r = Inr () \<and> file d' \<noteq> None"
      using ok assms(3,4) by (simp add: connection_ok_def)
    then show thesis using that by (auto split: prod.splits)
  qed
  let ?d2 = "vf_delete eng (dbName @ ''-shm'') (vf_delete eng (dbName @ ''-wal'') (vf_delete eng (dbName @ ''-journal'') d1))"
  have "file ?d2 = Some old'" using ok d1(2) unfolding connection_ok_def by simp
  then obtain d3 where d3: "importVfsFileBytes eng dbName b ?d2 = (Inr (), d3)" "file d3 = Some b"
    using import_file [OF assms(1) _ assms(6)] by blast
  obtain d4 where "bind_io (sq_open_v2 eng (db_path dbName)) (\<lambda>_. bind_io (applyPragmas eng) (\<lambda>_. applySchema eng)) d3 = (Inr (), d4)"
      "file d4 = Some b"
    using reopen_keeps [OF ok d3(2) assms(5)] by blast
  then show ?thesis using d1(1) d3(1) by (simp add: replaceMainDatabaseBytes_def bind_io_def update_io_def)
qed

text \<open>
  C34: Restoring a store from an export: on a file system and an engine that do what they document,
  the import of a database of the current schema that fits the disk is answered with success,
  whatever the file held before, and an export afterwards is answered with exactly the imported bytes.
\<close>

theorem database_file_roundtrip:
  assumes "file_ok eng (db_path dbName) file opened room" and "connection_ok eng dbName file connected current"
    and "ow_ctx s = Some d" and "ow_dbName s = Some dbName" and "dbName \<noteq> []" and "connected d" and "file d = Some old"
    and "current b" and "length b \<le> room" and "int (length b) \<le> MAX_SAFE_INTEGER"
    and "i \<notin> set (ow_canceled s)" and "j \<notin> set (ow_canceled s)"
    and "db_handleRequest eng p i (Db_importMain b) s = (out, s')"
  shows "out = [(p, Out_response i (Inr Data_null))] \<and>
    fst (db_handleRequest eng q j Db_exportMain s') = [(q, Out_response j (Inr (Data_bytes b)))]"
proof -
  obtain d1 where d1: "replaceMainDatabaseBytes eng dbName b d = (Inr (), d1)" "file d1 = Some b"
    using replace_file [OF assms(1,2,6-9)] by blast
  then have "out = [(p, Out_response i (Inr Data_null))]" and s': "s' = s\<lparr>ow_ctx := Some d1\<rparr>"
    using assms(3-5,11,13) by (auto simp: db_handleRequest_def respond_def)
  moreover obtain d2 where "exportVfsFileBytes eng dbName d1 = (Inr b, d2)" using export_file [OF assms(1) d1(2) assms(10)] by blast
  ultimately show ?thesis using assms(4,5,12) by (simp add: db_handleRequest_def respond_def)
qed

lemma line_file: "file_ok line_engine path (snd \<circ> snd) (\<lambda>d. snd (snd d) \<noteq> None) room"
  by (auto simp: file_ok_def line_engine_def)

lemma line_connection: "connection_ok line_engine path (snd \<circ> snd) (\<lambda>d. True) (\<lambda>b. True)"
  by (auto simp: connection_ok_def line_engine_def line_run_def SCHEMA_VERSION_def)

theorem database_file_roundtrip_witness:
  "fst (db_handleRequest line_engine 2 ''j'' Db_exportMain
     (snd (db_handleRequest line_engine 1 ''i'' (Db_importMain [1, 2, 3]) (line_server\<lparr>ow_ctx := Some ([], None, Some [9, 9, 9, 9, 9])\<rparr>))))
   = [(2, Out_response ''j'' (Inr (Data_bytes [1, 2, 3])))]"
  using database_file_roundtrip [OF line_file [of _ 5] line_connection, where s = "line_server\<lparr>ow_ctx := Some ([], None, Some [9, 9, 9, 9, 9])\<rparr>"
      and b = "[1, 2, 3]" and i = "''i''" and j = "''j''" and p = 1 and q = 2, OF _ _ _ _ _ _ _ _ _ _ prod.collapse [symmetric]]
  by (simp add: line_server_def MAX_SAFE_INTEGER_def)

subsection \<open>The schema\<close>

text \<open>
  A schema that cannot be created leaves the database as it was.
\<close>

theorem schema_is_atomic:
  assumes "transactions_ok eng control content within"
    and "\<forall>sql \<in> set SCHEMA_V1 \<union> {''PRAGMA user_version = 1''}. \<not> control sql"
    and "\<And>d. content (snd (sq_run eng ''PRAGMA user_version'' [] d)) = content d"
    and "applySchema eng d = (Inl e, d')"
  shows "content d' = content d"
proof -
  have version: "show_int SCHEMA_VERSION = ''1''" by code_simp
  obtain r d1 where r: "readUserVersion eng d = (r, d1)" by fastforce
  have "d1 = snd (sq_run eng ''PRAGMA user_version'' [] d)"
    using r by (auto simp: readUserVersion_def bind_io_def split: prod.splits sum.splits)
  then have d1: "content d1 = content d" using assms(3) by simp
  let ?body = "\<lambda>v. bind_io (if v = 0 then foreach_io (exec eng) SCHEMA_V1 else return_io ()) (\<lambda>_.
    exec eng (''PRAGMA user_version = '' @ show_int SCHEMA_VERSION))"
  have body: "keeps_db (\<lambda>d. within d c) (undone eng content c) (?body v)" for c and v :: int
    unfolding version using assms(2)
    by (auto intro!: keeps_bind_db keeps_foreach_io keeps_exec plain_within [OF assms(1)])
  show ?thesis
  proof (cases r)
    case (Inr v)
    then have "content d' = content d1"
      using assms(4) r in_transaction_fails [OF assms(1) body, of v d1] by (auto simp: applySchema_def bind_io_def split: if_splits)
    then show ?thesis using d1 by simp
  qed (use assms(4) r d1 in \<open>auto simp: applySchema_def bind_io_def\<close>)
qed

text \<open>
  A database written by a newer version of the application is refused and not touched; the code of
  the error does not reach the tab.
\<close>

theorem newer_schema_refused:
  assumes "readUserVersion eng d = (Inr v, d')" and "1 < v"
  shows "\<exists>e. applySchema eng d = (Inl e, d') \<and> de_code e = Some ''MigrationError'' \<and> pf_code (toPlatformError e) = ''WorkerProtocolError''"
proof -
  have "\<not> includes_text ''MigrationError'' ''CONSTRAINT''" "\<not> includes_text ''MigrationError'' ''BUSY''"
    "\<not> includes_text ''MigrationError'' ''LOCKED''" "\<not> includes_text ''MigrationError'' ''ABORT''" by code_simp+
  then show ?thesis using assms by (simp add: applySchema_def bind_io_def SCHEMA_VERSION_def toPlatformError_def)
qed

text \<open>
  The classes of errors are looked for as words in the code of an error: an error of the engine, whose
  code is a number, is never recognised as a violated constraint or a lock.
\<close>

lemma includes_text_set: "includes_text s t \<Longrightarrow> set t \<subseteq> set s"
  unfolding includes_text_def by (metis in_set_dropD in_set_takeD subsetI)

theorem numeric_codes_unclassified:
  "pf_code (toPlatformError \<lparr>de_name = n, de_message = m, de_code = Some (show_int k)\<rparr>) = ''WorkerProtocolError''"
proof -
  have "c \<in> set (show_int k) \<Longrightarrow> is_digit c \<or> c = CHR ''-''" for c
    using show_nat_digits by (auto simp: show_int_def split: if_splits)
  moreover have "\<not> is_digit CHR ''O''" "\<not> is_digit CHR ''B''" by code_simp+
  ultimately have "CHR ''O'' \<notin> set (show_int k)" "CHR ''B'' \<notin> set (show_int k)" by fastforce+
  then have "\<not> includes_text (show_int k) t" if "CHR ''O'' \<in> set t \<or> CHR ''B'' \<in> set t" for t
    using that includes_text_set by blast
  then show ?thesis by (simp add: toPlatformError_def)
qed

subsection \<open>Hello\<close>

text \<open>
  A shared worker that serves another database answers a hello with a response nobody waits for: the
  tab runs into its timeout and starts a dedicated worker of its own.
\<close>

theorem store_mismatch_times_out:
  assumes "ow_ctx s = Some d" and "ow_storeId s \<noteq> Some storeId \<or> ow_dbName s \<noteq> Some dbName"
    and "db_handleHello eng opfs locks port storeId dbName requireOpfs s = (out, s')"
    and "requireOpfs \<longrightarrow> secure" and "sendHello dedicated = Inr m"
  shows "s' = s" and "sendHello (map snd out) = Inl (plain_error ''Worker hello timeout'')"
    and "createWebSqliteDb True secure requireOpfs (Some (map snd out)) dedicated = Inr (Dedicated_port, m)"
proof -
  have "out = [(port, Out_response [] (Inl (ownership_error ''Worker already initialized for a different storeId or dbName'')))] \<and> s' = s"
    using assms(1-3) by (auto simp: db_handleHello_def split: if_splits)
  then show "s' = s" and "sendHello (map snd out) = Inl (plain_error ''Worker hello timeout'')"
    and "createWebSqliteDb True secure requireOpfs (Some (map snd out)) dedicated = Inr (Dedicated_port, m)"
    using assms(4,5) by (auto simp: createWebSqliteDb_def Let_def bind_result_def)
qed

text \<open>A hello after a failed one starts over: a failure leaves nothing of the store behind.\<close>

theorem failed_hello_can_be_repeated:
  assumes "ow_ctx s = None" and "db_handleHello eng opfs locks port storeId dbName requireOpfs s = ([(port, Out_helloError e)], s')"
  shows "ow_ctx s' = None \<and> ow_storeId s' = None \<and> ow_dbName s' = None \<and> \<not> ow_lockHeld s'"
  using assms by (auto simp: db_handleHello_def split: sum.splits if_splits)

end
