(* ===== verification/Spec2Isabelle.thy ===== *)
theory Spec2Isabelle
  imports SyncProperties SyncLocalProperties EventStoreCore SharingProperties DomainProperties RepositoryProperties
    ProjectionProperties CommandProperties SagaProperties OutboxProperties
    VerifyProperties PublisherProperties KeyServiceProperties DbWorkerProperties
begin

text \<open>
  A model of mo-local, an offline-first application for goals and projects: a user's devices keep
  their own encrypted event store, synchronise it through a server that only ever sees
  ciphertext, and share resources through signed, hash-chained records.

  \<^bold>\<open>Parts and theories.\<close> Every theory opens with the files it models.

  \<^item> Prelude, Text, Json, Base64: results and stateful code that may throw, the JavaScript text
    and JSON functions, base64.
  \<^item> Values, Events, Aggregate, Goal, Project, SharingDomain, DomainProperties: packages/domain. Value
    objects are the strings and records their factories accept; an aggregate is its state, its
    uncommitted events and its version, and each command is one definition.
  \<^item> EventStoreCore, LocalDb, EventCodec, EventStore, EventStoreFacts, Snapshots, Repository, RepositoryFacts: the
    encrypted local store (packages/eventstore-core, packages/infrastructure/src/eventing, eventstore,
    snapshots, goals, projects, and the tables of packages/eventstore-web).
  \<^item> Crypto, WebCrypto, KeyStore, Keyring: the associated data, the crypto services, the key store and
    keyrings of packages/infrastructure/src/crypto; RepositoryProperties also holds their properties.
  \<^item> RecordCodec, Materializer, PendingRewriter, SyncApply, SyncEngine, SyncServer, SyncLog, SyncSystem,
    SyncProperties, SyncLocalProperties, Samples: packages/sync-engine, packages/infrastructure/src/sync and
    the sync part of apps/api, and the system the client engine and the server form.
  \<^item> SharingServer, SharingChain, SharingProperties: the sharing part of apps/api.
  \<^item> DerivedStores, ProjectionRuntime, ProjectionCatchUp, GoalReadState, ProjectReadState, SearchProjector,
    GoalProjection, GoalProjectionFacts, ProjectProjection, ProjectionProperties: the read side,
    packages/infrastructure/src/platform/derived-state and the derived-state directories of goals and projects.
  \<^item> CommandHandler, GoalCommands, ProjectCommands, CommandFacts, GoalHandlerFacts, ProjectHandlerFacts,
    CommandProperties: the command handlers of packages/application, the idempotency table and the command buses.
  \<^item> Saga, SagaFacts, SagaReplay, SagaProperties: the goal achievement saga of packages/application/src/sagas,
    its store in packages/infrastructure/src/sagas, and its rebuild from the event log.
  \<^item> Publisher, PublisherFacts, PublisherProperties: the event bus, the task runner and the publisher of
    committed events of packages/infrastructure/src/events, projection and eventing, with the
    interleavings of inserted rows, notifications and tasks as a step relation.
  \<^item> Sqlite, DbWorker, DbWorkerProperties: packages/eventstore-web, the worker that owns the SQLite database
    (opening it, its schema, batches, its file) and the protocol between it and the tabs.
  \<^item> KeyService, KeyServiceProperties: the key service worker, its storage and its client,
    packages/key-service-web and packages/key-service-idl.
  \<^item> Outbox, OutboxFacts, OutboxProperties, SharingVerify, VerifyProperties: packages/infrastructure/src/sharing,
    the outbox that pushes sharing records in dependency order, the caches of scope states and
    grants, and the pipeline that verifies received records.

  \<^bold>\<open>Conventions.\<close> A class with fields is a record and a method a function on it; a
  method that may throw returns a sum (\<open>Inl\<close> the error); stateful code that may throw returns the
  result together with the state it leaves. Numbers are \<open>int\<close>: the program counts versions,
  sequence numbers and milliseconds far below the limit of exact doubles. What the source draws
  at random or reads from the clock is an argument. The cipher, the signature scheme, the key
  derivation, the SQLite engine with its file system and the search engine are not part of the
  repository: they are parameters, with the behaviour their documentation promises as named
  hypotheses (\<open>aead_ok\<close>, \<open>primitives_ok\<close>, \<open>engine_ok\<close>, \<open>signatures_sound\<close>, \<open>transactions_ok\<close>, \<open>file_ok\<close>,
  \<open>connection_ok\<close>), and every theorem about them is applied to a concrete instance. The WebAssembly
  module of the key service is a parameter too: its Rust sources are in the repository, in
  packages/key-service-core and packages/key-service-wasm, but are not modelled; what is
  assumed of it (\<open>service_writes_ok\<close>) is that it writes under namespaces without a colon.

  \<^bold>\<open>Interfaces.\<close> Where components rely on each other the contract is a locale: the
  three-way order of cursors, the append-only log of the server, the hash chain of the sharing
  streams, the event-sourced aggregate, the keyed table, the repository and the target that a
  command handler works on, and the projection that the runtime drives. Each is interpreted on the definitions of the model, and the properties use the
  facts of the interpretation.

  \<^bold>\<open>What is shown.\<close> The server's log is dense and append-only and pushes are idempotent;
  a sync round converges and never loses or skips an event except in the two situations that
  are stated as such; version rewriting keeps local events readable; records, envelopes,
  snapshots, events and backups survive their codecs; aggregates equal the replay of their
  events and keep their invariants; repositories load what was saved; the read model catches
  up, equals the aggregates and counts exactly; a command is applied once per idempotency key and
  commits at most one event, and is answered the same when it is sent again; the publisher hands every readable event of a stream to its subscribers once and
  in commit order, in every interleaving without a failing task; a batch of statements is all or nothing and
  reaches every listener of a changed table before it is answered, and an imported database file is exported unchanged; while no
  write fails, a restart of the key service loses no write that was answered with success; the
  saga's state after a restart is the one of the log; the outbox pushes dependencies first
  and marks of the pending records only what the server accepted; what the verification
  pipeline lets through is signed and, apart from first states, extends its scope's chain, up to the
  gaps that are stated.
  Several theorems state behaviour that is
  probably not meant: they describe what the code does.

  \<^bold>\<open>Loops.\<close> Loops over data are structural recursion. The paging loop of a pull and the
  retry loop of a push take fuel, with the lemma that enough fuel is one page per event
  beyond the cursor, and one more; the layers of the outbox's topological sort end by a measure on the unsorted records;
  the processing loop of the projection runtime is a partial function that is shown to
  return.

  \<^bold>\<open>Not modelled.\<close> The React application and its providers, the HTTP controllers and
  the identity service, the diagnostics of the file system, the Rust core of the key service, and the scheduling
  of asynchronous calls: apart from the publisher, whose interleavings are modelled, a model
  function runs to its end before the next one starts.
\<close>

end
